(* ===== verification/Rumi_Prelude.thy ===== *)
theory Rumi_Prelude
  imports Main "HOL-Library.Char_ord" "HOL-Library.List_Lexorder" "HOL-Library.Product_Lexorder"
begin

text \<open>
  Shared material of the development: the outcome of a canister call (\<open>Ok\<close>, \<open>Err\<close>, or
  \<open>Trap\<close> for a panic, after which the replica rolls the message back), Rust's fixed-width
  unsigned integers read as natural numbers with their saturating, checked and wrapping
  operations written out, and the decimal rendering that \<^verbatim>\<open>format!\<close> uses for the keys of
  the settlement queues. The canisters are built in release mode and no manifest of the
  workspace switches overflow checks on, so a plain \<open>+\<close>, \<open>-\<close> or \<open>sum\<close> wraps.
\<close>

named_theorems rust_arith \<open>definitions of the machine-integer operations\<close>

section \<open>Outcomes\<close>

datatype ('e, 'a) outcome = Ok 'a | Err 'e | Trap

fun is_Ok :: "('e, 'a) outcome \<Rightarrow> bool" where
  "is_Ok (Ok a) = True"
| "is_Ok (Err e) = False"
| "is_Ok Trap = False"

fun map_err :: "('e \<Rightarrow> 'f) \<Rightarrow> ('e, 'a) outcome \<Rightarrow> ('f, 'a) outcome" where
  "map_err f (Ok a) = Ok a"
| "map_err f (Err e) = Err (f e)"
| "map_err f Trap = Trap"

text \<open>The \<^verbatim>\<open>?\<close> operator, \<^verbatim>\<open>Option::ok_or\<close>, and a call that may panic\<close>

fun and_then :: "('e, 'a) outcome \<Rightarrow> ('a \<Rightarrow> ('e, 'b) outcome) \<Rightarrow> ('e, 'b) outcome" where
  "and_then (Ok a) f = f a"
| "and_then (Err e) f = Err e"
| "and_then Trap f = Trap"

fun ok_or :: "'e \<Rightarrow> 'a option \<Rightarrow> ('e, 'a) outcome" where
  "ok_or e (Some a) = Ok a"
| "ok_or e None = Err e"

fun or_trap :: "'a option \<Rightarrow> ('e, 'a) outcome" where
  "or_trap (Some a) = Ok a"
| "or_trap None = Trap"

lemma and_then_Ok_iff: "and_then r f = Ok b \<longleftrightarrow> (\<exists>a. r = Ok a \<and> f a = Ok b)"
  by (cases r) auto

lemma ok_or_Ok_iff [simp]: "ok_or e x = Ok a \<longleftrightarrow> x = Some a"
  by (cases x) auto

lemma or_trap_Ok_iff [simp]: "or_trap x = Ok a \<longleftrightarrow> x = Some a"
  by (cases x) auto

lemma if_Err_Ok_iff [simp]: "(if c then Err e else r) = Ok a \<longleftrightarrow> \<not> c \<and> r = Ok a"
  by simp

lemma map_err_Ok_iff [simp]: "map_err f r = Ok a \<longleftrightarrow> r = Ok a"
  by (cases r) auto

lemma is_Ok_iff: "is_Ok r \<longleftrightarrow> (\<exists>a. r = Ok a)"
  by (cases r) auto

section \<open>Fixed-width unsigned integers\<close>

type_synonym u8 = nat
type_synonym u16 = nat
type_synonym u32 = nat
type_synonym u64 = nat
type_synonym u128 = nat
type_synonym usize = nat

definition u32_max :: u32 where
  "u32_max = 2 ^ 32 - 1"

definition u64_max :: u64 where
  "u64_max = 2 ^ 64 - 1"

definition u128_max :: u128 where
  "u128_max = 2 ^ 128 - 1"

definition sat_add32 :: "u32 \<Rightarrow> u32 \<Rightarrow> u32" where
  "sat_add32 a b = min (a + b) u32_max"

definition sat_add64 :: "u64 \<Rightarrow> u64 \<Rightarrow> u64" where
  "sat_add64 a b = min (a + b) u64_max"

definition sat_add128 :: "u128 \<Rightarrow> u128 \<Rightarrow> u128" where
  "sat_add128 a b = min (a + b) u128_max"

definition sat_mul64 :: "u64 \<Rightarrow> u64 \<Rightarrow> u64" where
  "sat_mul64 a b = min (a * b) u64_max"

definition sat_mul128 :: "u128 \<Rightarrow> u128 \<Rightarrow> u128" where
  "sat_mul128 a b = min (a * b) u128_max"

text \<open>\<open>saturating_sub\<close> stops at zero, which is subtraction on the natural numbers.\<close>

definition sat_sub :: "nat \<Rightarrow> nat \<Rightarrow> nat" where
  "sat_sub a b = a - b"

text \<open>\<^verbatim>\<open>10u128.saturating_pow(d)\<close>\<close>

definition sat_pow10 :: "u8 \<Rightarrow> u128" where
  "sat_pow10 d = min (10 ^ d) u128_max"

definition checked_add128 :: "u128 \<Rightarrow> u128 \<Rightarrow> u128 option" where
  "checked_add128 a b = (if a + b \<le> u128_max then Some (a + b) else None)"

definition checked_mul128 :: "u128 \<Rightarrow> u128 \<Rightarrow> u128 option" where
  "checked_mul128 a b = (if a * b \<le> u128_max then Some (a * b) else None)"

definition checked_sub128 :: "u128 \<Rightarrow> u128 \<Rightarrow> u128 option" where
  "checked_sub128 a b = (if b \<le> a then Some (a - b) else None)"

text \<open>The wrapping results of plain \<open>+\<close>, \<open>-\<close> and \<open>Iterator::sum\<close> on \<open>u64\<close> and \<open>u128\<close>.\<close>

definition wrap64 :: "nat \<Rightarrow> u64" where
  "wrap64 n = n mod 2 ^ 64"

definition wrap128 :: "nat \<Rightarrow> u128" where
  "wrap128 n = n mod 2 ^ 128"

definition wrap_add128 :: "u128 \<Rightarrow> u128 \<Rightarrow> u128" where
  "wrap_add128 a b = wrap128 (a + b)"

definition wrap_sub128 :: "u128 \<Rightarrow> u128 \<Rightarrow> u128" where
  "wrap_sub128 a b = wrap128 (a + 2 ^ 128 - b)"

lemmas [rust_arith] = u32_max_def u64_max_def u128_max_def sat_add32_def sat_add64_def
  sat_add128_def sat_mul128_def sat_sub_def sat_pow10_def checked_add128_def checked_mul128_def
  checked_sub128_def wrap128_def wrap_add128_def wrap_sub128_def

lemma u128_max_Suc: "Suc u128_max = 2 ^ 128"
  by (simp add: u128_max_def)

lemma wrap64_id: "n \<le> u64_max \<Longrightarrow> wrap64 n = n"
  by (simp add: wrap64_def u64_max_def)

lemma wrap64_le: "wrap64 n \<le> n"
  by (simp add: wrap64_def)

lemma wrap64_bound [simp]: "wrap64 n \<le> u64_max"
  using mod_less_divisor [of "2 ^ 64" n] by (simp add: wrap64_def u64_max_def)

lemma wrap128_id [simp]: "n \<le> u128_max \<Longrightarrow> wrap128 n = n"
  by (simp add: wrap128_def u128_max_def)

lemma wrap128_le [simp]: "wrap128 n \<le> u128_max"
  using mod_less_divisor [of "2 ^ 128" n] by (simp add: wrap128_def u128_max_def)

lemma sat_add128_id [simp]: "a + b \<le> u128_max \<Longrightarrow> sat_add128 a b = a + b"
  by (simp add: sat_add128_def)

lemma sat_add128_le [simp]: "sat_add128 a b \<le> u128_max"
  by (simp add: sat_add128_def)

lemma sat_add128_ge: "a \<le> u128_max \<Longrightarrow> a \<le> sat_add128 a b"
  by (simp add: sat_add128_def)

lemma sat_mul128_le [simp]: "sat_mul128 a b \<le> u128_max"
  by (simp add: sat_mul128_def)

lemma sat_mul128_mono: "a \<le> a' \<Longrightarrow> b \<le> b' \<Longrightarrow> sat_mul128 a b \<le> sat_mul128 a' b'"
  by (auto simp: sat_mul128_def min_def intro: mult_le_mono le_trans)

lemma wrap_add128_id [simp]: "a + b \<le> u128_max \<Longrightarrow> wrap_add128 a b = a + b"
  by (simp add: wrap_add128_def)

lemma wrap_sub128_id [simp]:
  assumes "b \<le> a" and "a \<le> u128_max"
  shows "wrap_sub128 a b = a - b"
proof -
  have "a + 2 ^ 128 - b = (a - b) + 2 ^ 128" using assms by simp
  then have "wrap_sub128 a b = (a - b) mod 2 ^ 128"
    by (simp only: wrap_sub128_def wrap128_def mod_add_self2)
  moreover have "a - b < 2 ^ 128" using assms by (simp add: u128_max_def)
  ultimately show ?thesis by simp
qed

lemma sat_sub_eq [simp]: "sat_sub a b = a - b"
  by (simp add: sat_sub_def)

lemma sat_pow10_pos [simp]: "0 < sat_pow10 d"
  by (simp add: sat_pow10_def u128_max_def)

lemma checked_mul128_Some: "checked_mul128 a b = Some c \<longleftrightarrow> a * b \<le> u128_max \<and> c = a * b"
  by (auto simp: checked_mul128_def)

lemma checked_add128_Some: "checked_add128 a b = Some c \<longleftrightarrow> a + b \<le> u128_max \<and> c = a + b"
  by (auto simp: checked_add128_def)

lemma checked_sub128_Some: "checked_sub128 a b = Some c \<longleftrightarrow> b \<le> a \<and> c = a - b"
  by (auto simp: checked_sub128_def)

lemmas checked128_Some = checked_mul128_Some checked_add128_Some checked_sub128_Some

section \<open>Decimal rendering and ASCII strings\<close>

fun show_nat :: "nat \<Rightarrow> string" where
  "show_nat n = (if n < 10 then [char_of (48 + n)]
                 else show_nat (n div 10) @ [char_of (48 + n mod 10)])"

declare show_nat.simps [simp del]

definition is_digit :: "char \<Rightarrow> bool" where
  "is_digit c \<longleftrightarrow> 48 \<le> (of_char c :: nat) \<and> (of_char c :: nat) \<le> 57"

definition ascii_lower :: "char \<Rightarrow> char" where
  "ascii_lower c =
     (let n = (of_char c :: nat) in if 65 \<le> n \<and> n \<le> 90 then char_of (n + 32) else c)"

definition to_ascii_lowercase :: "string \<Rightarrow> string" where
  "to_ascii_lowercase s = map ascii_lower s"

definition is_ascii_hexdigit :: "char \<Rightarrow> bool" where
  "is_ascii_hexdigit c \<longleftrightarrow>
     (let n = (of_char c :: nat) in (48 \<le> n \<and> n \<le> 57) \<or> (65 \<le> n \<and> n \<le> 70) \<or> (97 \<le> n \<and> n \<le> 102))"

text \<open>Reading a rendered number back; used to show that rendering is injective.\<close>

definition read_digits :: "string \<Rightarrow> nat" where
  "read_digits s = foldl (\<lambda>acc c. 10 * acc + ((of_char c :: nat) - 48)) 0 s"

lemma of_char_digit: "n < 10 \<Longrightarrow> (of_char (char_of (48 + n) :: char) :: nat) = 48 + n"
  by (simp add: of_char_of)

lemma show_nat_digits: "\<forall>c \<in> set (show_nat n). is_digit c"
proof (induction n rule: show_nat.induct)
  case (1 n)
  show ?case
  proof (cases "n < 10")
    case True
    then show ?thesis by (subst show_nat.simps) (simp add: is_digit_def of_char_digit)
  next
    case False
    have "is_digit (char_of (48 + n mod 10))" by (simp add: is_digit_def of_char_digit)
    with False "1.IH" show ?thesis by (subst show_nat.simps) auto
  qed
qed

lemma read_show_nat: "read_digits (show_nat n) = n"
proof (induction n rule: show_nat.induct)
  case (1 n)
  show ?case
  proof (cases "n < 10")
    case True
    then show ?thesis by (subst show_nat.simps) (simp add: read_digits_def of_char_digit)
  next
    case False
    with "1.IH" have "read_digits (show_nat (n div 10)) = n div 10" by simp
    with False show ?thesis
      by (subst show_nat.simps) (simp add: read_digits_def of_char_digit)
  qed
qed

lemma show_nat_inject [simp]: "show_nat m = show_nat n \<longleftrightarrow> m = n"
  by (metis read_show_nat)

lemma digit_strings_split:
  assumes "a @ sep # b = c @ sep # d"
    and "sep \<notin> set a" and "sep \<notin> set c"
  shows "a = c \<and> b = d"
  using assms by (induction a arbitrary: c) (case_tac c; auto)+

lemma dash_notin_show_nat [simp]: "CHR ''-'' \<notin> set (show_nat n)"
  using show_nat_digits [of n] by (auto simp: is_digit_def)

lemma colon_notin_show_nat [simp]: "CHR '':'' \<notin> set (show_nat n)"
  using show_nat_digits [of n] by (auto simp: is_digit_def)

text \<open>A list and its fold: the order in which the code scans a vector or a map.\<close>

lemma sum_list_ge_elem: "x \<in> set xs \<Longrightarrow> (f x :: nat) \<le> sum_list (map f xs)"
  by (induction xs) auto

section \<open>Bytes and principals\<close>

type_synonym bytes = "nat list"

text \<open>The bytes of an ASCII literal and the fixed-width big- and little-endian encodings.\<close>

definition ascii_bytes :: "string \<Rightarrow> bytes" where
  "ascii_bytes = map of_char"

fun be_bytes :: "nat \<Rightarrow> nat \<Rightarrow> bytes" where
  "be_bytes 0 n = []"
| "be_bytes (Suc k) n = be_bytes k (n div 256) @ [n mod 256]"

lemma length_be_bytes [simp]: "length (be_bytes k n) = k"
  by (induction k arbitrary: n) simp_all

lemma be_bytes_inject: "n < 256 ^ k \<Longrightarrow> m < 256 ^ k \<Longrightarrow> be_bytes k n = be_bytes k m \<longleftrightarrow> n = m"
proof (induction k arbitrary: n m)
  case (Suc k)
  have "n div 256 < 256 ^ k" "m div 256 < 256 ^ k" using Suc.prems by (simp_all add: less_mult_imp_div_less mult.commute)
  then have "be_bytes k (n div 256) = be_bytes k (m div 256) \<longleftrightarrow> n div 256 = m div 256" by (rule Suc.IH)
  moreover have "n = m \<longleftrightarrow> n div 256 = m div 256 \<and> n mod 256 = m mod 256" by (metis div_mult_mod_eq)
  ultimately show ?case by simp
qed simp

type_synonym principal = nat

text \<open>\<^verbatim>\<open>Principal::anonymous()\<close> is the one-byte principal 4.\<close>

definition principal_anonymous :: principal where
  "principal_anonymous = 4"

end
