(* ===== verification/BTree_Map.thy ===== *)
theory BTree_Map
  imports Rumi_Prelude
begin

text \<open>
  Rust's \<^verbatim>\<open>BTreeMap\<close> and \<^verbatim>\<open>BTreeSet\<close>. A map is a list of entries with strictly increasing
  keys, which is the order in which \<^verbatim>\<open>iter\<close>, \<^verbatim>\<open>values\<close> and \<^verbatim>\<open>keys\<close> visit it; a set is a map to
  \<open>unit\<close>. The locale \<open>ordered_map\<close> is the interface the components use: lookup after an
  insertion or a removal, and the entries in key order. The laws of sums over the values,
  on which the supply accounting rests, are proved in it once.
\<close>

section \<open>The interface\<close>

locale ordered_map =
  fixes empty :: "'m"
    and get :: "'m \<Rightarrow> 'k::linorder \<Rightarrow> 'v option"
    and insert :: "'k \<Rightarrow> 'v \<Rightarrow> 'm \<Rightarrow> 'm"
    and remove :: "'k \<Rightarrow> 'm \<Rightarrow> 'm"
    and entries :: "'m \<Rightarrow> ('k \<times> 'v) list"
  assumes get_empty: "get empty = (\<lambda>_. None)"
    and get_insert: "get (insert k v m) = (get m)(k := Some v)"
    and get_remove: "get (remove k m) = (get m)(k := None)"
    and get_entries: "get m = map_of (entries m)"
    and entries_sorted: "sorted_wrt (<) (map fst (entries m))"
begin

lemma entries_distinct: "distinct (map fst (entries m))"
  using entries_sorted strict_sorted_iff by blast

lemma finite_keys: "finite (dom (get m))"
  by (simp add: get_entries finite_dom_map_of)

lemma sum_entries:
  "sum_list (map (\<lambda>e. f (snd e)) (entries m)) = (\<Sum>k \<in> dom (get m). f (the (get m k)) :: nat)"
proof -
  let ?es = "entries m"
  have inj: "inj_on fst (set ?es)"
    using entries_distinct distinct_map by blast
  have "sum_list (map (\<lambda>e. f (snd e)) ?es) = (\<Sum>e \<in> set ?es. f (snd e))"
    using entries_distinct [of m] by (simp add: sum_list_distinct_conv_sum_set distinct_map)
  also have "\<dots> = (\<Sum>e \<in> set ?es. f (the (map_of ?es (fst e))))"
    using entries_distinct [of m] by (intro sum.cong) (auto simp: map_of_is_SomeI)
  also have "\<dots> = (\<Sum>k \<in> fst ` set ?es. f (the (map_of ?es k)))"
    using inj by (simp add: sum.reindex)
  finally show ?thesis by (simp add: get_entries dom_map_of_conv_image_fst)
qed

lemma sum_insert:
  "sum_list (map (\<lambda>e. f (snd e)) (entries (insert k v m)))
     + (case get m k of None \<Rightarrow> 0 | Some w \<Rightarrow> f w)
   = sum_list (map (\<lambda>e. f (snd e)) (entries m)) + (f v :: nat)"
proof -
  let ?D = "dom (get m) - {k}" and ?S = "\<lambda>g. \<Sum>x \<in> dom (get m) - {k}. f (the (g x))"
  have fin: "finite ?D" by (simp add: finite_keys)
  have same: "?S (get (insert k v m)) = ?S (get m)"
    by (intro sum.cong) (auto simp: get_insert)
  have new: "(\<Sum>x \<in> dom (get (insert k v m)). f (the (get (insert k v m) x))) = f v + ?S (get m)"
    using fin same by (simp add: get_insert sum.insert_remove finite_keys insert_Diff_if)
  have old: "(\<Sum>x \<in> dom (get m). f (the (get m x)))
      = (case get m k of None \<Rightarrow> 0 | Some w \<Rightarrow> f w) + ?S (get m)"
  proof (cases "get m k")
    case None
    then have "?D = dom (get m)" by auto
    with None show ?thesis by simp
  next
    case (Some w)
    then have "k \<in> dom (get m)" by blast
    with Some show ?thesis by (simp add: finite_keys sum.remove)
  qed
  show ?thesis by (simp only: sum_entries new old)
qed

lemma sum_remove:
  "sum_list (map (\<lambda>e. f (snd e)) (entries (remove k m)))
     + (case get m k of None \<Rightarrow> 0 | Some w \<Rightarrow> f w)
   = sum_list (map (\<lambda>e. f (snd e)) (entries m) :: nat list)"
proof -
  have "dom (get (remove k m)) = dom (get m) - {k}" by (auto simp: get_remove)
  then have new: "(\<Sum>x \<in> dom (get (remove k m)). f (the (get (remove k m) x)))
      = (\<Sum>x \<in> dom (get m) - {k}. f (the (get m x)))"
    by (intro sum.cong) (auto simp: get_remove)
  show ?thesis
  proof (cases "get m k")
    case None
    then have "dom (get m) - {k} = dom (get m)" by auto
    with None show ?thesis by (simp add: sum_entries new)
  next
    case (Some w)
    then have "k \<in> dom (get m)" by blast
    with Some show ?thesis by (simp add: sum_entries new finite_keys sum.remove)
  qed
qed

lemma value_le_sum:
  assumes "get m k = Some v"
  shows "(f v :: nat) \<le> sum_list (map (\<lambda>e. f (snd e)) (entries m))"
proof -
  from assms have "(k, v) \<in> set (entries m)" by (simp add: get_entries map_of_SomeD)
  then show ?thesis using sum_list_ge_elem [of "(k, v)" "entries m" "\<lambda>e. f (snd e)"] by simp
qed

lemma in_entries_iff: "(k, v) \<in> set (entries m) \<longleftrightarrow> get m k = Some v"
  using entries_distinct [of m] by (simp add: get_entries)

end

section \<open>The model of BTreeMap\<close>

typedef (overloaded) ('k::linorder, 'v) bmap = "{es :: ('k \<times> 'v) list. sorted_wrt (<) (map fst es)}"
  morphisms bm_entries Bmap
  by (rule exI [of _ "[]"]) simp

setup_lifting type_definition_bmap

fun entries_insert :: "'k::linorder \<Rightarrow> 'v \<Rightarrow> ('k \<times> 'v) list \<Rightarrow> ('k \<times> 'v) list" where
  "entries_insert k v [] = [(k, v)]"
| "entries_insert k v ((a, b) # es) =
     (if k < a then (k, v) # (a, b) # es
      else if k = a then (k, v) # es
      else (a, b) # entries_insert k v es)"

lemma keys_entries_insert: "fst ` set (entries_insert k v es) = insert k (fst ` set es)"
  by (induction k v es rule: entries_insert.induct) auto

lemma sorted_entries_insert:
  "sorted_wrt (<) (map fst es) \<Longrightarrow> sorted_wrt (<) (map fst (entries_insert k v es))"
proof (induction k v es rule: entries_insert.induct)
  case (2 k v a b es)
  have "\<forall>x \<in> set (entries_insert k v es). x \<in> set es \<or> fst x = k"
    by (induction k v es rule: entries_insert.induct) auto
  with 2 show ?case by (auto simp: not_less_iff_gr_or_eq)
qed simp

lemma map_of_entries_insert: "map_of (entries_insert k v es) = (map_of es)(k := Some v)"
  by (induction k v es rule: entries_insert.induct) (auto simp: fun_eq_iff)

lemma sorted_filter_entries:
  "sorted_wrt (<) (map fst es) \<Longrightarrow> sorted_wrt (<) (map fst (filter P es))"
  by (induction es) auto

lift_definition bm_empty :: "('k::linorder, 'v) bmap" is "[]" by simp

lift_definition bm_insert :: "'k::linorder \<Rightarrow> 'v \<Rightarrow> ('k, 'v) bmap \<Rightarrow> ('k, 'v) bmap" is entries_insert
  by (rule sorted_entries_insert)

text \<open>\<^verbatim>\<open>retain\<close>, and \<^verbatim>\<open>remove\<close> as its special case\<close>

lift_definition bm_retain :: "('k \<Rightarrow> 'v \<Rightarrow> bool) \<Rightarrow> ('k::linorder, 'v) bmap \<Rightarrow> ('k, 'v) bmap"
  is "\<lambda>P. filter (\<lambda>(k, v). P k v)"
  by (rule sorted_filter_entries)

text \<open>\<^verbatim>\<open>values_mut\<close>\<close>

lift_definition bm_map :: "('v \<Rightarrow> 'w) \<Rightarrow> ('k::linorder, 'v) bmap \<Rightarrow> ('k, 'w) bmap"
  is "\<lambda>f. map (\<lambda>(k, v). (k, f v))"
  by (simp add: case_prod_beta' comp_def)

definition bm_remove :: "'k::linorder \<Rightarrow> ('k, 'v) bmap \<Rightarrow> ('k, 'v) bmap" where
  "bm_remove k m = bm_retain (\<lambda>a _. a \<noteq> k) m"

definition bm_get :: "('k::linorder, 'v) bmap \<Rightarrow> 'k \<Rightarrow> 'v option" where
  "bm_get m k = map_of (bm_entries m) k"

definition bm_has :: "('k::linorder, 'v) bmap \<Rightarrow> 'k \<Rightarrow> bool" where
  "bm_has m k \<longleftrightarrow> bm_get m k \<noteq> None"

text \<open>\<^verbatim>\<open>get(k).copied().unwrap_or(d)\<close>\<close>

definition bm_get_or :: "'v \<Rightarrow> ('k::linorder, 'v) bmap \<Rightarrow> 'k \<Rightarrow> 'v" where
  "bm_get_or d m k = (case bm_get m k of None \<Rightarrow> d | Some v \<Rightarrow> v)"

definition bm_values :: "('k::linorder, 'v) bmap \<Rightarrow> 'v list" where
  "bm_values m = map snd (bm_entries m)"

definition bm_keys :: "('k::linorder, 'v) bmap \<Rightarrow> 'k list" where
  "bm_keys m = map fst (bm_entries m)"

text \<open>\<^verbatim>\<open>get_mut\<close>: an update in place, nothing where the key is absent\<close>

definition bm_modify :: "'k::linorder \<Rightarrow> ('v \<Rightarrow> 'v) \<Rightarrow> ('k, 'v) bmap \<Rightarrow> ('k, 'v) bmap" where
  "bm_modify k f m = (case bm_get m k of None \<Rightarrow> m | Some v \<Rightarrow> bm_insert k (f v) m)"

text \<open>The exact (unbounded) sum of a quantity over the values.\<close>

definition bm_sum :: "('v \<Rightarrow> nat) \<Rightarrow> ('k::linorder, 'v) bmap \<Rightarrow> nat" where
  "bm_sum f m = sum_list (map (\<lambda>e. f (snd e)) (bm_entries m))"

declare bm_empty.rep_eq [simp] bm_insert.rep_eq [simp] bm_retain.rep_eq [simp] bm_map.rep_eq [simp]

lemma map_of_filter_key: "map_of (filter (\<lambda>(a, v). a \<noteq> k) es) = (map_of es)(k := None)"
  by (induction es) (auto simp: fun_eq_iff)

interpretation bm: ordered_map bm_empty bm_get bm_insert bm_remove bm_entries
proof unfold_locales
  show "bm_get bm_empty = (\<lambda>_. None)" by (simp add: bm_get_def fun_eq_iff)
  show "bm_get (bm_insert k v m) = (bm_get m)(k := Some v)" for k :: 'a and v :: 'b and m
    by (simp add: bm_get_def fun_eq_iff map_of_entries_insert)
  show "bm_get (bm_remove k m) = (bm_get m)(k := None)" for k :: 'a and m :: "('a, 'b) bmap"
    by (simp add: bm_get_def bm_remove_def fun_eq_iff map_of_filter_key)
  show "bm_get m = map_of (bm_entries m)" for m :: "('a, 'b) bmap"
    by (simp add: bm_get_def fun_eq_iff)
  show "sorted_wrt (<) (map fst (bm_entries m))" for m :: "('a, 'b) bmap"
    using bm_entries [of m] by simp
qed

section \<open>Rules for the simplifier\<close>

lemma bm_get_empty [simp]: "bm_get bm_empty k = None"
  by (simp add: bm.get_empty)

lemma bm_get_insert [simp]: "bm_get (bm_insert k v m) a = (if a = k then Some v else bm_get m a)"
  by (simp add: bm.get_insert)

lemma bm_get_remove [simp]: "bm_get (bm_remove k m) a = (if a = k then None else bm_get m a)"
  by (simp add: bm.get_remove)

lemma bm_get_map [simp]: "bm_get (bm_map f m) a = map_option f (bm_get m a)"
  by (simp add: bm_get_def map_of_map)

lemma map_of_filter_pred:
  "distinct (map fst es) \<Longrightarrow>
   map_of (filter (\<lambda>(k, v). P k v) es) a
     = (case map_of es a of None \<Rightarrow> None | Some v \<Rightarrow> if P a v then Some v else None)"
  by (induction es) (auto split: option.splits simp: map_of_eq_None_iff dest: map_of_SomeD)

lemma bm_get_retain [simp]:
  "bm_get (bm_retain P m) a = (case bm_get m a of None \<Rightarrow> None | Some v \<Rightarrow> if P a v then Some v else None)"
  using bm.entries_distinct [of m] by (simp add: bm_get_def map_of_filter_pred)

lemma bm_get_modify [simp]:
  "bm_get (bm_modify k f m) a = (if a = k then map_option f (bm_get m k) else bm_get m a)"
  by (simp add: bm_modify_def split: option.splits)

lemma bm_has_simps [simp]:
  "bm_has bm_empty k \<longleftrightarrow> False"
  "bm_has (bm_insert a v m) k \<longleftrightarrow> k = a \<or> bm_has m k"
  "bm_has (bm_remove a m) k \<longleftrightarrow> k \<noteq> a \<and> bm_has m k"
  "bm_has (bm_modify a f m) k \<longleftrightarrow> bm_has m k"
  by (auto simp: bm_has_def)

lemma bm_get_or_simps [simp]:
  "bm_get_or d bm_empty k = d"
  "bm_get_or d (bm_insert a v m) k = (if k = a then v else bm_get_or d m k)"
  "bm_get_or d (bm_remove a m) k = (if k = a then d else bm_get_or d m k)"
  by (auto simp: bm_get_or_def)

lemma bm_get_or_Some: "bm_get m k = Some v \<Longrightarrow> bm_get_or d m k = v"
  by (simp add: bm_get_or_def)

lemma bm_sum_empty [simp]: "bm_sum f bm_empty = 0"
  by (simp add: bm_sum_def)

lemma bm_sum_insert:
  "bm_sum f (bm_insert k v m) + (case bm_get m k of None \<Rightarrow> 0 | Some w \<Rightarrow> f w) = bm_sum f m + f v"
  by (simp add: bm_sum_def bm.sum_insert del: bm_insert.rep_eq)

lemma bm_sum_remove:
  "bm_sum f (bm_remove k m) + (case bm_get m k of None \<Rightarrow> 0 | Some w \<Rightarrow> f w) = bm_sum f m"
  by (simp add: bm_sum_def bm.sum_remove)

lemma bm_sum_insert_new [simp]: "bm_get m k = None \<Longrightarrow> bm_sum f (bm_insert k v m) = bm_sum f m + f v"
  using bm_sum_insert [of f k v m] by simp

lemma bm_sum_insert_old: "bm_get m k = Some w \<Longrightarrow> bm_sum f (bm_insert k v m) + f w = bm_sum f m + f v"
  using bm_sum_insert [of f k v m] by simp

lemma bm_sum_insert_same:
  "bm_get m k = Some w \<Longrightarrow> f v = f w \<Longrightarrow> bm_sum f (bm_insert k v m) = bm_sum f m"
  using bm_sum_insert_old [of m k w f v] by simp

lemma bm_sum_modify_same:
  "(\<And>v. f (g v) = f v) \<Longrightarrow> bm_sum f (bm_modify k g m) = bm_sum f m"
  by (auto simp: bm_modify_def bm_sum_insert_same split: option.splits)

lemma bm_sum_map: "bm_sum f (bm_map g m) = bm_sum (\<lambda>v. f (g v)) m"
  by (simp add: bm_sum_def case_prod_beta' comp_def)

lemma bm_sum_ge: "bm_get m k = Some v \<Longrightarrow> f v \<le> bm_sum f m"
  by (simp add: bm_sum_def bm.value_le_sum)

text \<open>Incrementing an entry that defaults to zero: \<^verbatim>\<open>*entry(k).or_default() += x\<close>\<close>

lemma bm_sum_insert_or:
  "f 0 = 0 \<Longrightarrow> bm_sum f (bm_insert k v m) + f (bm_get_or 0 m k) = bm_sum f m + f v"
  using bm_sum_insert [of f k v m] by (auto simp: bm_get_or_def split: option.splits)

lemma bm_sum_id_insert: "bm_sum (\<lambda>v. v) (bm_insert k v m) + bm_get_or 0 m k = bm_sum (\<lambda>v. v) m + v"
  by (rule bm_sum_insert_or) simp

lemma bm_get_or_le_sum: "bm_get_or 0 m k \<le> bm_sum (\<lambda>v. v) m"
  by (auto simp: bm_get_or_def intro: bm_sum_ge split: option.splits)

lemma entries_from_keys:
  "distinct (map fst es) \<Longrightarrow> es = map (\<lambda>k. (k, the (map_of es k))) (map fst es)"
proof -
  assume d: "distinct (map fst es)"
  have "map (\<lambda>e. (fst e, the (map_of es (fst e)))) es = map (\<lambda>e. e) es"
    using d by (intro map_cong) auto
  then show ?thesis by (simp add: comp_def)
qed

lemma bm_ext:
  assumes "\<And>k. bm_get m k = bm_get n k"
  shows "m = n"
proof -
  have eq: "map_of (bm_entries m) = map_of (bm_entries n)"
    using assms by (simp add: bm_get_def fun_eq_iff)
  then have "set (map fst (bm_entries m)) = set (map fst (bm_entries n))"
    by (metis dom_map_of_conv_image_fst list.set_map)
  then have "map fst (bm_entries m) = map fst (bm_entries n)"
    by (intro strict_sorted_equal) (simp_all only: bm.entries_sorted)
  then have "bm_entries m = bm_entries n"
    using entries_from_keys [OF bm.entries_distinct [of m]]
      entries_from_keys [OF bm.entries_distinct [of n]] eq by metis
  then show "m = n" by (simp add: bm_entries_inject)
qed

section \<open>The first entry that satisfies a predicate\<close>

definition bm_first :: "('k \<Rightarrow> 'v \<Rightarrow> bool) \<Rightarrow> ('k::linorder, 'v) bmap \<Rightarrow> 'k \<Rightarrow> bool" where
  "bm_first P m k \<longleftrightarrow>
     (\<exists>v. bm_get m k = Some v \<and> P k v) \<and> (\<forall>j v. bm_get m j = Some v \<and> P j v \<longrightarrow> k \<le> j)"

definition bm_none :: "('k \<Rightarrow> 'v \<Rightarrow> bool) \<Rightarrow> ('k::linorder, 'v) bmap \<Rightarrow> bool" where
  "bm_none P m \<longleftrightarrow> (\<forall>k v. bm_get m k = Some v \<longrightarrow> \<not> P k v)"

lemma find_sorted_least:
  assumes "sorted_wrt (<) (map fst es)" and "find P es = Some e" and "e' \<in> set es" and "P e'"
  shows "fst e \<le> (fst e' :: 'a::linorder)"
  using assms by (induction es) (auto split: if_splits)

lemma find_entries_Some:
  assumes "find (\<lambda>(k, v). P k v) (bm_entries m) = Some (k, v)"
  shows "bm_get m k = Some v \<and> bm_first P m k"
proof -
  from assms have e: "(k, v) \<in> set (bm_entries m)" and p: "P k v"
    using nth_mem by (fastforce simp: find_Some_iff)+
  have "k \<le> j" if "bm_get m j = Some w" "P j w" for j w
    using find_sorted_least [OF bm.entries_sorted assms, of "(j, w)"] that
    by (simp add: bm.in_entries_iff)
  with e p show ?thesis by (auto simp: bm_first_def bm.in_entries_iff)
qed

lemma find_entries_None: "find (\<lambda>(k, v). P k v) (bm_entries m) = None \<longleftrightarrow> bm_none P m"
proof -
  have "bm_none P m \<longleftrightarrow> (\<forall>e \<in> set (bm_entries m). \<not> P (fst e) (snd e))"
    unfolding bm_none_def bm.in_entries_iff [symmetric] by force
  then show ?thesis by (auto simp: find_None_iff case_prod_beta')
qed

lemma bm_first_unique: "bm_first P m i \<Longrightarrow> bm_first P m j \<Longrightarrow> i = j"
  unfolding bm_first_def by (elim conjE exE) (blast intro: order_antisym)

lemma bm_first_not_none: "bm_first P m i \<Longrightarrow> \<not> bm_none P m"
  by (auto simp: bm_first_def bm_none_def)

lemma bm_insert_insert [simp]: "bm_insert k v (bm_insert k w m) = bm_insert k v m"
proof -
  have "entries_insert k v (entries_insert k w es) = entries_insert k v es" for es :: "('a \<times> 'b) list"
    by (induction es) auto
  then show ?thesis by (simp add: bm_entries_inject [symmetric])
qed

section \<open>BTreeSet\<close>

type_synonym 'k bset = "('k, unit) bmap"

abbreviation bs_empty :: "'k::linorder bset" where
  "bs_empty \<equiv> bm_empty"

abbreviation bs_mem :: "'k::linorder \<Rightarrow> 'k bset \<Rightarrow> bool" where
  "bs_mem k s \<equiv> bm_has s k"

abbreviation bs_insert :: "'k::linorder \<Rightarrow> 'k bset \<Rightarrow> 'k bset" where
  "bs_insert k s \<equiv> bm_insert k () s"

abbreviation bs_remove :: "'k::linorder \<Rightarrow> 'k bset \<Rightarrow> 'k bset" where
  "bs_remove k s \<equiv> bm_remove k s"

end
