(* ===== verification/Settlement_Queue.thy ===== *)
theory Settlement_Queue
  imports BTree_Map
begin

text \<open>
  The per-chain settlement queue (\<^verbatim>\<open>chains/settlement_queue.rs\<close>): the outbound operations a
  canister still has to sign and submit, their status, and the set of idempotency keys that
  keeps one from being queued twice. The locale \<open>keyed_queue\<close> states the contract the vault
  and settlement code relies on: a key is accepted at most once, an accepted operation is
  found under the number it was given, and no other operation changes.
\<close>

type_synonym chain_id = u32

section \<open>Operations and their status\<close>

datatype settlement_op_kind =
    Mint (recipient: string) (mint_amount_e8s: u128) (mint_vault_id: u64)
  | NativeWithdrawal (wd_recipient: string) (wd_amount_e18: u128) (wd_vault_id: u64)
  | Burn (burn_op_amount_e8s: u128)
  | InterestMint (im_vault_id: u64) (im_mint_id: u64) (im_amount_e8s: u128)
      (im_accrual_through_ns: u64) (im_recipient: string)
  | LiquidationSwap (ls_vault_id: u64) (ls_collateral_in_native: u128)
      (ls_min_usdc_out_native: u128) (ls_debt_to_clear_e8s: u128) (ls_router: string)
      (ls_pair: string) (ls_path: "string list") (ls_reserve_recipient: string)
      (ls_deadline_secs: u64)
  | ChainCollateralPayout (cp_recipient: string) (cp_amount_e18: u128) (cp_vault_id: u64)
      (cp_claimant: principal)

datatype settlement_op_status =
    Queued
  | Inflight (tries: u32) (last_attempt_ns: u64)
  | Succeeded (succ_tx_hash: string) (confirmed_ns: u64)
  | Failed (fail_reason: string) (failed_ns: u64)

record settlement_op =
  op_id :: u64
  op_kind :: settlement_op_kind
  op_idempotency_key :: string
  op_enqueued_at_ns :: u64
  op_status :: settlement_op_status
  op_last_tx_hash :: "string option"
  op_submit_nonce :: "u64 option"
  op_tx_hash_candidates :: "string list"
  op_payout_uses_pending_reservation :: "bool option"

definition settlement_op_new :: "settlement_op_kind \<Rightarrow> string \<Rightarrow> u64 \<Rightarrow> settlement_op" where
  "settlement_op_new k key now_ns =
     \<lparr>op_id = 0, op_kind = k, op_idempotency_key = key, op_enqueued_at_ns = now_ns,
      op_status = Queued, op_last_tx_hash = None, op_submit_nonce = None,
      op_tx_hash_candidates = [], op_payout_uses_pending_reservation = None\<rparr>"

definition mark_inflight :: "u64 \<Rightarrow> settlement_op \<Rightarrow> settlement_op" where
  "mark_inflight now_ns op =
     (let n = (case op_status op of Inflight t _ \<Rightarrow> sat_add32 t 1 | _ \<Rightarrow> 1)
      in op\<lparr>op_status := Inflight n now_ns\<rparr>)"

definition mark_succeeded :: "string \<Rightarrow> u64 \<Rightarrow> settlement_op \<Rightarrow> settlement_op" where
  "mark_succeeded tx_hash now_ns op = op\<lparr>op_status := Succeeded tx_hash now_ns\<rparr>"

definition mark_failed :: "string \<Rightarrow> u64 \<Rightarrow> settlement_op \<Rightarrow> settlement_op" where
  "mark_failed reason now_ns op = op\<lparr>op_status := Failed reason now_ns\<rparr>"

definition record_tx_hash_candidate :: "string \<Rightarrow> settlement_op \<Rightarrow> settlement_op" where
  "record_tx_hash_candidate tx_hash op =
     (let cands = op_tx_hash_candidates op;
          cands1 = (if cands = []
                    then (case op_last_tx_hash op of
                            Some existing \<Rightarrow> if existing \<noteq> tx_hash then cands @ [existing] else cands
                          | None \<Rightarrow> cands)
                    else cands);
          op1 = op\<lparr>op_tx_hash_candidates := cands1\<rparr>
      in if tx_hash \<in> set cands1 then op1\<lparr>op_last_tx_hash := Some tx_hash\<rparr>
         else op1\<lparr>op_tx_hash_candidates := cands1 @ [tx_hash], op_last_tx_hash := Some tx_hash\<rparr>)"

definition receipt_tx_hash_candidates :: "settlement_op \<Rightarrow> string list" where
  "receipt_tx_hash_candidates op =
     fold (\<lambda>h hashes. if h \<in> set hashes then hashes else hashes @ [h])
       (op_tx_hash_candidates op)
       (case op_last_tx_hash op of Some h \<Rightarrow> [h] | None \<Rightarrow> [])"

fun is_inflight :: "settlement_op_status \<Rightarrow> bool" where
  "is_inflight (Inflight _ _) = True"
| "is_inflight _ = False"

fun is_active :: "settlement_op_status \<Rightarrow> bool" where
  "is_active Queued = True"
| "is_active (Inflight _ _) = True"
| "is_active _ = False"

fun is_mint_kind :: "settlement_op_kind \<Rightarrow> bool" where
  "is_mint_kind (Mint _ _ _) = True"
| "is_mint_kind (InterestMint _ _ _ _ _) = True"
| "is_mint_kind _ = False"

section \<open>The queue\<close>

record settlement_queue =
  q_head :: u64
  q_tail :: u64
  q_pending :: "(u64, settlement_op) bmap"
  q_seen_idempotency_keys :: "string bset"
  q_drain_order :: "u64 list"

datatype settlement_queue_error = DuplicateIdempotencyKey string

definition settlement_queue_default :: settlement_queue where
  "settlement_queue_default =
     \<lparr>q_head = 0, q_tail = 0, q_pending = bm_empty, q_seen_idempotency_keys = bs_empty,
      q_drain_order = []\<rparr>"

definition enqueue :: "settlement_queue \<Rightarrow> settlement_op
    \<Rightarrow> (settlement_queue_error, settlement_queue \<times> u64) outcome" where
  "enqueue q op0 =
     (if bs_mem (op_idempotency_key op0) (q_seen_idempotency_keys q)
      then Err (DuplicateIdempotencyKey (op_idempotency_key op0))
      else let assigned = q_tail q; op = op0\<lparr>op_id := assigned\<rparr> in
        Ok (q\<lparr>q_seen_idempotency_keys := bs_insert (op_idempotency_key op) (q_seen_idempotency_keys q),
              q_drain_order := q_drain_order q @ [assigned],
              q_pending := bm_insert assigned op (q_pending q),
              q_tail := sat_add64 (q_tail q) 1\<rparr>, assigned))"

definition pending_len :: "settlement_queue \<Rightarrow> usize" where
  "pending_len q = length (bm_entries (q_pending q))"

definition has_active_op :: "settlement_queue \<Rightarrow> bool" where
  "has_active_op q = list_ex (\<lambda>op. is_active (op_status op)) (bm_values (q_pending q))"

definition has_active_mint_op :: "settlement_queue \<Rightarrow> bool" where
  "has_active_mint_op q =
     list_ex (\<lambda>op. is_mint_kind (op_kind op) \<and> is_active (op_status op)) (bm_values (q_pending q))"

definition prune_terminal :: "settlement_queue \<Rightarrow> settlement_queue" where
  "prune_terminal q =
     (let terminal = map fst (filter (\<lambda>(_, op). \<not> is_active (op_status op)) (bm_entries (q_pending q)))
      in if terminal = [] then q
         else let pend = fold bm_remove terminal (q_pending q) in
           q\<lparr>q_pending := pend,
             q_drain_order := filter (\<lambda>i. i \<notin> set terminal) (q_drain_order q),
             q_head := (case bm_keys pend of [] \<Rightarrow> q_tail q | k # _ \<Rightarrow> k)\<rparr>)"

section \<open>Selecting the next operation (\<^verbatim>\<open>evm/settlement.rs\<close>)\<close>

datatype op_action = Submit | Confirm

definition select_next_op_with_submit_filter ::
    "settlement_queue \<Rightarrow> (u64 \<Rightarrow> settlement_op \<Rightarrow> bool) \<Rightarrow> (u64 \<times> op_action) option" where
  "select_next_op_with_submit_filter q submit_blocked =
     (case find (\<lambda>(_, op). is_inflight (op_status op)) (bm_entries (q_pending q)) of
        Some (i, _) \<Rightarrow> Some (i, Confirm)
      | None \<Rightarrow>
          (case find (\<lambda>(i, op). op_status op = Queued \<and> \<not> submit_blocked i op)
                  (bm_entries (q_pending q)) of
             Some (i, _) \<Rightarrow> Some (i, Submit)
           | None \<Rightarrow> None))"

definition select_next_op :: "settlement_queue \<Rightarrow> (u64 \<times> op_action) option" where
  "select_next_op q = select_next_op_with_submit_filter q (\<lambda>_ _. False)"

section \<open>The contract of a keyed queue\<close>

locale keyed_queue =
  fixes enq :: "'q \<Rightarrow> 'op \<Rightarrow> ('e, 'q \<times> 'i) outcome"
    and key :: "'op \<Rightarrow> 'k"
    and seen :: "'q \<Rightarrow> 'k \<Rightarrow> bool"
    and lookup :: "'q \<Rightarrow> 'i \<Rightarrow> 'op option"
    and stamp :: "'i \<Rightarrow> 'op \<Rightarrow> 'op"
    and valid :: "'q \<Rightarrow> bool"
    and room :: "'q \<Rightarrow> bool"
  assumes enq_accepts: "is_Ok (enq q op) \<longleftrightarrow> \<not> seen q (key op)"
    and enq_seen: "enq q op = Ok (q', i) \<Longrightarrow> seen q' k \<longleftrightarrow> k = key op \<or> seen q k"
    and enq_lookup: "enq q op = Ok (q', i) \<Longrightarrow> lookup q' = (lookup q)(i := Some (stamp i op))"
    and enq_fresh: "valid q \<Longrightarrow> enq q op = Ok (q', i) \<Longrightarrow> lookup q i = None"
    and enq_valid: "valid q \<Longrightarrow> room q \<Longrightarrow> enq q op = Ok (q', i) \<Longrightarrow> valid q'"
begin

lemma enq_once: "enq q op = Ok (q', i) \<Longrightarrow> key op' = key op \<Longrightarrow> \<not> is_Ok (enq q' op')"
  by (simp add: enq_accepts enq_seen)

lemma enq_keeps:
  "valid q \<Longrightarrow> enq q op = Ok (q', i) \<Longrightarrow> lookup q j = Some x \<Longrightarrow> lookup q' j = Some x"
  using enq_fresh [of q op q' i] by (auto simp: enq_lookup)

lemma enq_found: "enq q op = Ok (q', i) \<Longrightarrow> lookup q' i = Some (stamp i op)"
  by (simp add: enq_lookup)

end

definition queue_valid :: "settlement_queue \<Rightarrow> bool" where
  "queue_valid q \<longleftrightarrow> list_all (\<lambda>k. k < q_tail q) (bm_keys (q_pending q))"

definition queue_room :: "settlement_queue \<Rightarrow> bool" where
  "queue_room q \<longleftrightarrow> q_tail q < u64_max"

lemma queue_valid_iff: "queue_valid q \<longleftrightarrow> (\<forall>k op. bm_get (q_pending q) k = Some op \<longrightarrow> k < q_tail q)"
  by (force simp: queue_valid_def bm_keys_def list_all_iff bm.in_entries_iff [symmetric])

lemma enqueue_Ok_iff:
  "enqueue q op = Ok (q', i) \<longleftrightarrow>
     \<not> bs_mem (op_idempotency_key op) (q_seen_idempotency_keys q) \<and> i = q_tail q \<and>
     q' = q\<lparr>q_seen_idempotency_keys := bs_insert (op_idempotency_key op) (q_seen_idempotency_keys q),
            q_drain_order := q_drain_order q @ [i],
            q_pending := bm_insert i (op\<lparr>op_id := i\<rparr>) (q_pending q),
            q_tail := sat_add64 (q_tail q) 1\<rparr>"
  by (auto simp: enqueue_def Let_def)

lemma enqueue_not_Trap [simp]: "enqueue q op \<noteq> Trap"
  by (simp add: enqueue_def Let_def)

interpretation sq: keyed_queue enqueue op_idempotency_key
  "\<lambda>q k. bs_mem k (q_seen_idempotency_keys q)" "\<lambda>q. bm_get (q_pending q)"
  "\<lambda>i op. op\<lparr>op_id := i\<rparr>" queue_valid queue_room
proof unfold_locales
  show "is_Ok (enqueue q op) \<longleftrightarrow> \<not> bs_mem (op_idempotency_key op) (q_seen_idempotency_keys q)"
    for q op by (simp add: enqueue_def Let_def)
  show "bs_mem k (q_seen_idempotency_keys q') \<longleftrightarrow>
      k = op_idempotency_key op \<or> bs_mem k (q_seen_idempotency_keys q)"
    if "enqueue q op = Ok (q', i)" for q op q' i k using that by (auto simp: enqueue_Ok_iff)
  show "bm_get (q_pending q') = (bm_get (q_pending q))(i := Some (op\<lparr>op_id := i\<rparr>))"
    if "enqueue q op = Ok (q', i)" for q op q' i using that by (auto simp: enqueue_Ok_iff fun_eq_iff)
  show "bm_get (q_pending q) i = None"
    if "queue_valid q" "enqueue q op = Ok (q', i)" for q op q' i
    using that by (cases "bm_get (q_pending q) i") (auto simp: enqueue_Ok_iff queue_valid_iff)
  show "queue_valid q'" if "queue_valid q" "queue_room q" "enqueue q op = Ok (q', i)" for q op q' i
    using that
    by (auto simp: enqueue_Ok_iff queue_valid_iff queue_room_def sat_add64_def less_Suc_eq min_def)
qed

section \<open>Pruning\<close>

lemma bm_get_fold_remove:
  "bm_get (fold bm_remove ks m) k = (if k \<in> set ks then None else bm_get m k)"
  by (induction ks arbitrary: m) auto

lemma bm_entries_fold_remove:
  "bm_entries (fold bm_remove ks m) = filter (\<lambda>(k, _). k \<notin> set ks) (bm_entries m)"
  by (induction ks arbitrary: m)
    (auto simp: bm_remove_def case_prod_beta' conj_commute intro!: filter_cong)

lemma prune_terminal_entries:
  "bm_entries (q_pending (prune_terminal q))
     = filter (\<lambda>(_, op). is_active (op_status op)) (bm_entries (q_pending q))"
proof -
  let ?es = "bm_entries (q_pending q)"
  let ?t = "map fst (filter (\<lambda>(_, op). \<not> is_active (op_status op)) ?es)"
  have mem: "fst e \<in> set ?t \<longleftrightarrow> \<not> is_active (op_status (snd e))" if "e \<in> set ?es" for e
  proof -
    have "e' = e" if "e' \<in> set ?es" "fst e' = fst e" for e'
      using that \<open>e \<in> set ?es\<close> bm.entries_distinct [of "q_pending q"]
      by (simp add: distinct_map inj_on_def)
    with that show ?thesis by (force simp: case_prod_beta')
  qed
  have "filter (\<lambda>(k, _). k \<notin> set ?t) ?es = filter (\<lambda>(_, op). is_active (op_status op)) ?es"
    using mem by (intro filter_cong) (auto simp: case_prod_beta')
  moreover have "?es = filter (\<lambda>(_, op). is_active (op_status op)) ?es" if "?t = []"
    using that by (auto simp: filter_empty_conv case_prod_beta' intro!: filter_True [symmetric])
  ultimately show ?thesis
    by (auto simp: prune_terminal_def Let_def bm_entries_fold_remove)
qed

lemma find_filter_implied: "(\<And>x. x \<in> set xs \<Longrightarrow> P x \<Longrightarrow> Q x) \<Longrightarrow> find P (filter Q xs) = find P xs"
  by (induction xs) auto

text \<open>Pruning never changes the scheduling decision: \<^verbatim>\<open>select_next_op\<close>, with any filter on
  submissions, picks the same operation with the same action before and after the terminal
  operations are reaped; the reaped operations are exactly those that succeeded or failed,
  and the idempotency keys, the replay guard, all stay.
\<close>

theorem prune_terminal_transparent:
  "select_next_op_with_submit_filter (prune_terminal q) blocked
     = select_next_op_with_submit_filter q blocked \<and>
   bm_get (q_pending (prune_terminal q)) i
     = (case bm_get (q_pending q) i of
          Some op \<Rightarrow> if is_active (op_status op) then Some op else None | None \<Rightarrow> None) \<and>
   q_seen_idempotency_keys (prune_terminal q) = q_seen_idempotency_keys q"
proof (intro conjI)
  let ?es = "bm_entries (q_pending q)"
  have "find (\<lambda>(_, op). is_inflight (op_status op)) (filter (\<lambda>(_, op). is_active (op_status op)) ?es)
      = find (\<lambda>(_, op). is_inflight (op_status op)) ?es"
    by (rule find_filter_implied) (auto elim: is_inflight.elims)
  moreover have "find (\<lambda>(i, op). op_status op = Queued \<and> \<not> blocked i op)
        (filter (\<lambda>(_, op). is_active (op_status op)) ?es)
      = find (\<lambda>(i, op). op_status op = Queued \<and> \<not> blocked i op) ?es"
    by (rule find_filter_implied) auto
  ultimately show "select_next_op_with_submit_filter (prune_terminal q) blocked
      = select_next_op_with_submit_filter q blocked"
    by (simp only: select_next_op_with_submit_filter_def prune_terminal_entries)
  show "bm_get (q_pending (prune_terminal q)) i
      = (case bm_get (q_pending q) i of
          Some op \<Rightarrow> if is_active (op_status op) then Some op else None | None \<Rightarrow> None)"
    using map_of_filter_pred [OF bm.entries_distinct [of "q_pending q"], of "\<lambda>_ op. is_active (op_status op)" i]
    by (simp add: bm_get_def prune_terminal_entries)
  show "q_seen_idempotency_keys (prune_terminal q) = q_seen_idempotency_keys q"
    by (simp add: prune_terminal_def Let_def)
qed

lemma selection_cases:
  obtains (none) "(r :: ('i \<times> op_action) option) = None"
    | (submit) i where "r = Some (i, Submit)" | (confirm) i where "r = Some (i, Confirm)"
  by (metis not_None_eq op_action.exhaust prod.exhaust)

text \<open>One operation in flight per queue, in order. Whenever some operation of a queue is in
  flight, the worker confirms the lowest-numbered one and submits nothing; a submission is
  chosen exactly when nothing is in flight, and then for the lowest-numbered queued operation
  the filter lets through; nothing is chosen exactly when neither exists.
\<close>

theorem select_next_op_spec:
  "select_next_op_with_submit_filter q blocked = r \<longleftrightarrow>
     (case r of
        Some (i, Confirm) \<Rightarrow> bm_first (\<lambda>_ op. is_inflight (op_status op)) (q_pending q) i
      | Some (i, Submit) \<Rightarrow>
          bm_none (\<lambda>_ op. is_inflight (op_status op)) (q_pending q) \<and>
          bm_first (\<lambda>i op. op_status op = Queued \<and> \<not> blocked i op) (q_pending q) i
      | None \<Rightarrow>
          bm_none (\<lambda>_ op. is_inflight (op_status op)) (q_pending q) \<and>
          bm_none (\<lambda>i op. op_status op = Queued \<and> \<not> blocked i op) (q_pending q))"
proof (cases "find (\<lambda>(_, op). is_inflight (op_status op)) (bm_entries (q_pending q))")
  case (Some e)
  then have "bm_first (\<lambda>_ op. is_inflight (op_status op)) (q_pending q) (fst e)"
    using find_entries_Some [of "\<lambda>_ op. is_inflight (op_status op)" "q_pending q" "fst e" "snd e"]
    by simp
  with Some show ?thesis
    by (cases r rule: selection_cases)
      (auto simp: select_next_op_with_submit_filter_def case_prod_beta'
        dest: bm_first_unique bm_first_not_none)
next
  case None
  then have none: "bm_none (\<lambda>_ op. is_inflight (op_status op)) (q_pending q)"
    by (simp add: find_entries_None)
  show ?thesis
  proof (cases "find (\<lambda>(i, op). op_status op = Queued \<and> \<not> blocked i op) (bm_entries (q_pending q))")
    case (Some e)
    then have "bm_first (\<lambda>i op. op_status op = Queued \<and> \<not> blocked i op) (q_pending q) (fst e)"
      using find_entries_Some [of "\<lambda>i op. op_status op = Queued \<and> \<not> blocked i op" "q_pending q"
          "fst e" "snd e"] by simp
    with None none Some show ?thesis
      by (cases r rule: selection_cases)
        (auto simp: select_next_op_with_submit_filter_def case_prod_beta'
          dest: bm_first_unique bm_first_not_none)
  next
    case None2: None
    then have "bm_none (\<lambda>i op. op_status op = Queued \<and> \<not> blocked i op) (q_pending q)"
      by (simp add: find_entries_None)
    with None none None2 show ?thesis
      by (cases r rule: selection_cases)
        (auto simp: select_next_op_with_submit_filter_def dest: bm_first_not_none)
  qed
qed

end
