(* ===== verification/Chain_Config.thy ===== *)
theory Chain_Config
  imports Settlement_Queue
begin

text \<open>
  Per-chain configuration of the foreign-chain rail: the chain record
  (\<^verbatim>\<open>chains/config.rs\<close>), the compile-time collateral parameters
  (\<^verbatim>\<open>chains/collateral_config.rs\<close>), the operator-set liquidation configuration and its
  validation (\<^verbatim>\<open>chains/liquidation_config.rs\<close>), and the EVM address checks.
\<close>

section \<open>Chain records\<close>

datatype chain_status = Registered | Disabled

datatype gas_strategy =
    EvmEip1559 (max_priority_fee_gwei: u64) (max_fee_gwei_ceiling: u64)
  | EvmLegacy (gas_price_gwei_ceiling: u64)
  | SolanaPriorityFee (lamports_per_cu_ceiling: u64)
  | NotApplicable

record chain_config =
  cc_chain_id :: chain_id
  cc_display_name :: string
  cc_rpc_endpoints :: "string list"
  cc_finality_depth :: u32
  cc_gas_strategy :: gas_strategy
  cc_chain_native_decimals :: u8
  cc_registered_at_ns :: u64
  cc_status :: chain_status
  cc_burn_watch_poll_enabled :: bool
  cc_min_quorum_providers :: "u32 option"

definition default_min_quorum_providers :: u32 where
  "default_min_quorum_providers = 3"

definition effective_min_quorum_providers :: "chain_config \<Rightarrow> u32" where
  "effective_min_quorum_providers cfg =
     (case cc_min_quorum_providers cfg of
        Some n \<Rightarrow> max n 1 | None \<Rightarrow> default_min_quorum_providers)"

record register_chain_arg =
  rca_chain_id :: chain_id
  rca_display_name :: string
  rca_rpc_endpoints :: "string list"
  rca_finality_depth :: u32
  rca_gas_strategy :: gas_strategy
  rca_chain_native_decimals :: u8
  rca_min_quorum_providers :: "u32 option"

record update_chain_config_arg =
  uca_display_name :: "string option"
  uca_rpc_endpoints :: "string list option"
  uca_finality_depth :: "u32 option"
  uca_gas_strategy :: "gas_strategy option"
  uca_min_quorum_providers :: "u32 option option"

section \<open>Compile-time collateral parameters\<close>

record collateral_config_row =
  ccc_min_cr_e4 :: u64
  ccc_borrow_threshold_e4 :: u64
  ccc_liquidation_penalty_bps :: u64
  ccc_borrowing_fee_bps :: u64
  ccc_interest_apr_bps :: u64
  ccc_min_vault_debt_e8s :: u128
  ccc_recovery_target_cr_e4 :: u64
  ccc_debt_ceiling_e8s :: "u128 option"
  ccc_liquidation_threshold_e4 :: u64

record chain_debt_config =
  cdc_min_vault_debt_e8s :: u128
  cdc_debt_ceiling_e8s :: "u128 option"

definition chain_debt_config_from_collateral_config :: "collateral_config_row \<Rightarrow> chain_debt_config" where
  "chain_debt_config_from_collateral_config config =
     \<lparr>cdc_min_vault_debt_e8s = ccc_min_vault_debt_e8s config,
      cdc_debt_ceiling_e8s = ccc_debt_ceiling_e8s config\<rparr>"

definition icp_mirror :: collateral_config_row where
  "icp_mirror =
     \<lparr>ccc_min_cr_e4 = 13300, ccc_borrow_threshold_e4 = 15000, ccc_liquidation_penalty_bps = 1200,
      ccc_borrowing_fee_bps = 30, ccc_interest_apr_bps = 200, ccc_min_vault_debt_e8s = 10000000,
      ccc_recovery_target_cr_e4 = 15500, ccc_debt_ceiling_e8s = None,
      ccc_liquidation_threshold_e4 = 13300\<rparr>"

definition chain_collateral_config :: "chain_id \<Rightarrow> collateral_config_row option" where
  "chain_collateral_config chain =
     (if chain = 71 then
        Some (icp_mirror\<lparr>ccc_min_cr_e4 := 15000, ccc_debt_ceiling_e8s := Some (500 * 100000000)\<rparr>)
      else if chain = 1030 then
        Some (icp_mirror\<lparr>ccc_min_cr_e4 := 15000, ccc_debt_ceiling_e8s := Some (500 * 100000000)\<rparr>)
      else if chain = 10143 then
        Some (icp_mirror\<lparr>ccc_min_cr_e4 := 13000, ccc_liquidation_threshold_e4 := 12500\<rparr>)
      else None)"

section \<open>EVM addresses\<close>

definition strip_0x :: "string \<Rightarrow> string option" where
  "strip_0x s = (case s of
     a # b # rest \<Rightarrow>
       if a = CHR ''0'' \<and> (b = CHR ''x'' \<or> b = CHR ''X'') then Some rest else None
   | _ \<Rightarrow> None)"

text \<open>\<^verbatim>\<open>evm/tecdsa.rs\<close>\<close>

definition is_valid_evm_address :: "string \<Rightarrow> bool" where
  "is_valid_evm_address s = (case strip_0x s of
     None \<Rightarrow> False
   | Some hex \<Rightarrow> length hex = 40 \<and> list_all is_ascii_hexdigit hex)"

section \<open>Liquidation configuration\<close>

datatype dex_kind = UniswapV2

record chain_liquidation_config =
  lc_dex :: dex_kind
  lc_router :: string
  lc_factory :: string
  lc_pair :: string
  lc_collateral_token :: string
  lc_settle_stable_token :: string
  lc_slippage_cap_bps :: u16
  lc_restore_target_cr_e4 :: u64
  lc_enabled :: bool
  lc_max_swap_value_e8s :: u128
  lc_max_price_age_ns :: u64
  lc_max_dex_oracle_divergence_bps :: u32
  lc_fee_bps :: u16
  lc_settle_stable_decimals :: u8
  lc_deadline_secs :: u64

datatype liquidation_config_error =
    SlippageCapTooHigh u16
  | RestoreTargetTooLow u64
  | MissingAddress string
  | ConfigInvalidAddress string string
  | ZeroDepthCap
  | ZeroPriceAge
  | BadSettleDecimals
  | ZeroDeadline

definition canonical_evm_address :: "string \<Rightarrow> (liquidation_config_error, string) outcome" where
  "canonical_evm_address address =
     (case strip_0x address of
        None \<Rightarrow> Err (ConfigInvalidAddress ''address'' address)
      | Some hex \<Rightarrow>
          if length hex \<noteq> 40 \<or> \<not> list_all is_ascii_hexdigit hex
          then Err (ConfigInvalidAddress ''address'' address)
          else if list_all (\<lambda>b. b = CHR ''0'') hex
          then Err (ConfigInvalidAddress ''address'' address)
          else Ok (''0x'' @ to_ascii_lowercase hex))"

definition validate_evm_address_field ::
    "string \<Rightarrow> string \<Rightarrow> bool \<Rightarrow> (liquidation_config_error, unit) outcome" where
  "validate_evm_address_field field address required =
     (if address = [] then (if required then Err (MissingAddress field) else Ok ())
      else case canonical_evm_address address of
             Ok _ \<Rightarrow> Ok ()
           | _ \<Rightarrow> Err (ConfigInvalidAddress field address))"

definition first_err :: "('e, unit) outcome \<Rightarrow> ('e, unit) outcome \<Rightarrow> ('e, unit) outcome" where
  "first_err r s = (case r of Ok _ \<Rightarrow> s | Err e \<Rightarrow> Err e | Trap \<Rightarrow> Trap)"

definition validate_liquidation_config ::
    "chain_liquidation_config \<Rightarrow> (liquidation_config_error, unit) outcome" where
  "validate_liquidation_config c =
     (if lc_slippage_cap_bps c > 10000 then Err (SlippageCapTooHigh (lc_slippage_cap_bps c))
      else if lc_restore_target_cr_e4 c \<le> 10000
      then Err (RestoreTargetTooLow (lc_restore_target_cr_e4 c))
      else first_err (validate_evm_address_field ''router'' (lc_router c) (lc_enabled c))
       (first_err (validate_evm_address_field ''factory'' (lc_factory c) (lc_enabled c))
       (first_err (validate_evm_address_field ''pair'' (lc_pair c) (lc_enabled c))
       (first_err (validate_evm_address_field ''collateral_token'' (lc_collateral_token c) (lc_enabled c))
       (first_err (validate_evm_address_field ''settle_stable_token'' (lc_settle_stable_token c) (lc_enabled c))
       (if lc_enabled c then
          if lc_max_swap_value_e8s c = 0 then Err ZeroDepthCap
          else if lc_max_price_age_ns c = 0 then Err ZeroPriceAge
          else if lc_settle_stable_decimals c = 0 \<or> lc_settle_stable_decimals c > 36
          then Err BadSettleDecimals
          else if lc_deadline_secs c = 0 then Err ZeroDeadline
          else Ok ()
        else Ok ()))))))"

section \<open>What validation guarantees\<close>

lemma canonical_is_valid_evm: "canonical_evm_address a = Ok c \<Longrightarrow> is_valid_evm_address a"
  by (auto simp: canonical_evm_address_def is_valid_evm_address_def split: option.splits if_splits)

lemma validate_field_required:
  "validate_evm_address_field f a True = Ok () \<Longrightarrow> is_valid_evm_address a"
  by (auto simp: validate_evm_address_field_def split: if_splits outcome.splits
      intro: canonical_is_valid_evm)

lemma first_err_Ok: "first_err r s = Ok () \<longleftrightarrow> r = Ok () \<and> s = Ok ()"
  by (cases r) (auto simp: first_err_def)

lemma enabled_config_valid:
  assumes "validate_liquidation_config c = Ok ()" and "lc_enabled c"
  shows "is_valid_evm_address (lc_router c)" and "is_valid_evm_address (lc_pair c)"
    and "is_valid_evm_address (lc_settle_stable_token c)"
    and "0 < lc_max_swap_value_e8s c" and "0 < lc_max_price_age_ns c"
  using assms
  by (auto simp: validate_liquidation_config_def first_err_Ok validate_field_required split: if_splits)

end
