(* ===== verification/Multi_Chain_State.thy ===== *)
theory Multi_Chain_State
  imports Chain_Config
begin

text \<open>
  The persisted root of the foreign-chain rail (\<^verbatim>\<open>chains/multi_chain_state.rs\<close>) with the vault
  record it stores (\<^verbatim>\<open>chains/vault.rs\<close>): totals over the maps, the bad-debt circuit breaker,
  the EIP-712 nonces and the manual price feed.
\<close>

section \<open>Vaults\<close>

datatype chain_vault_status = AwaitingDeposit | MintPending | Open | Closing | Closed

datatype liquidation_tier = Bot | StabilityPool

record pending_liquidation =
  pl_op_id :: u64
  pl_debt_to_clear_e8s :: u128
  pl_collateral_reserved_native :: u128
  pl_tier :: liquidation_tier
  pl_started_at_ns :: u64

record chain_vault =
  cv_vault_id :: u64
  cv_owner :: principal
  cv_collateral_chain :: chain_id
  cv_custody_address :: string
  cv_collateral_amount_native :: u128
  cv_debt_e8s :: u128
  cv_mint_recipient :: string
  cv_pending_mint_e8s :: u128
  cv_status :: chain_vault_status
  cv_opened_at_ns :: u64
  cv_owner_evm :: "string option"
  cv_last_interest_accrual_ns :: u64
  cv_pending_interest_mint_e8s :: u128
  cv_pending_liquidation :: "pending_liquidation option"

section \<open>The root record\<close>

record chain_liq_claim =
  cl_vault_id :: u64
  cl_chain :: chain_id
  cl_custody_address :: string
  cl_seized_native_total :: u128
  cl_paid_native :: u128
  cl_pending_native :: u128

record settlement_proof_record =
  sp_proof_id :: string
  sp_chain_id :: chain_id
  sp_tx_hash :: string
  sp_log_index :: u64
  sp_amount_e8s :: u128
  sp_block_number :: u64
  sp_recorded_at_ns :: u64

record pending_chain_burn_aging_row =
  pa_chain_id :: chain_id
  pa_pending_chain_burn_e8s :: u128
  pa_oldest_reference_ns :: "u64 option"
  pa_age_ns :: "u64 option"
  pa_proof_count :: u64

record multi_chain_state =
  chain_configs :: "(chain_id, chain_config) bmap"
  chain_supplies :: "(chain_id, u128) bmap"
  settlement_queues :: "(chain_id, settlement_queue) bmap"
  invariant_halted :: bool
  chain_vaults :: "(u64, chain_vault) bmap"
  chain_contracts :: "(chain_id, string) bmap"
  manual_prices :: "(chain_id \<times> string, u64) bmap"
  last_observed_block :: "(chain_id, u64) bmap"
  hot_wallet_balance_e18 :: "(chain_id, u128) bmap"
  reorg_halted :: "(chain_id, bool) bmap"
  reorg_suspect_streak :: "(chain_id, u32) bmap"
  processed_burn_keys :: "(u64, string bset) bmap"
  evm_owner_nonces :: "(principal, u64) bmap"
  manual_price_set_at_ns :: "(chain_id \<times> string, u64) bmap"
  reserve_backing_e8s :: "(chain_id, u128) bmap"
  reserve_usdc_native :: "(chain_id, u128) bmap"
  pending_chain_burn_e8s :: "(chain_id, u128) bmap"
  sp_attempted_chain_vaults :: "u64 bset"
  chain_liquidation_claims :: "(u64, chain_liq_claim) bmap"
  chain_liquidation_configs :: "(chain_id, chain_liquidation_config) bmap"
  chain_debt_configs :: "(chain_id, chain_debt_config) bmap"
  bot_pending_chain_vaults :: "(u64, u64) bmap"
  chain_bad_debt_e8s :: "(chain_id, u128) bmap"
  settled_pending_burn_proofs :: "(string, settlement_proof_record) bmap"
  settled_reserve_burn_proofs :: "(string, settlement_proof_record) bmap"
  settled_settlement_burn_logs :: "string bset"
  settled_reserve_transfer_e8s :: "(string, u128) bmap"
  chain_bad_debt_circuit_threshold_e8s :: "(chain_id, u128) bmap"
  chain_bad_debt_circuit_tripped_at_ns :: "(chain_id, u64) bmap"

text \<open>\<^verbatim>\<open>MultiChainState::default()\<close>\<close>

definition multi_chain_default :: multi_chain_state where
  "multi_chain_default =
     \<lparr>chain_configs = bm_empty, chain_supplies = bm_empty, settlement_queues = bm_empty,
      invariant_halted = False, chain_vaults = bm_empty, chain_contracts = bm_empty,
      manual_prices = bm_empty, last_observed_block = bm_empty, hot_wallet_balance_e18 = bm_empty,
      reorg_halted = bm_empty, reorg_suspect_streak = bm_empty, processed_burn_keys = bm_empty,
      evm_owner_nonces = bm_empty, manual_price_set_at_ns = bm_empty, reserve_backing_e8s = bm_empty,
      reserve_usdc_native = bm_empty, pending_chain_burn_e8s = bm_empty,
      sp_attempted_chain_vaults = bs_empty, chain_liquidation_claims = bm_empty,
      chain_liquidation_configs = bm_empty, chain_debt_configs = bm_empty,
      bot_pending_chain_vaults = bm_empty, chain_bad_debt_e8s = bm_empty,
      settled_pending_burn_proofs = bm_empty, settled_reserve_burn_proofs = bm_empty,
      settled_settlement_burn_logs = bs_empty, settled_reserve_transfer_e8s = bm_empty,
      chain_bad_debt_circuit_threshold_e8s = bm_empty, chain_bad_debt_circuit_tripped_at_ns = bm_empty\<rparr>"

section \<open>Totals and queries\<close>

definition paid_within_seized :: "chain_liq_claim \<Rightarrow> bool" where
  "paid_within_seized c =
     (case checked_add128 (cl_paid_native c) (cl_pending_native c) of
        Some reserved \<Rightarrow> reserved \<le> cl_seized_native_total c | None \<Rightarrow> False)"

definition remaining_native :: "chain_liq_claim \<Rightarrow> u128" where
  "remaining_native c =
     sat_sub (cl_seized_native_total c) (sat_add128 (cl_paid_native c) (cl_pending_native c))"

text \<open>\<^verbatim>\<open>sum()\<close> on \<open>u128\<close> wraps; a left fold of wrapping additions is the wrapped sum.\<close>

definition total_supply_all_chains_e8s :: "multi_chain_state \<Rightarrow> u128" where
  "total_supply_all_chains_e8s s = wrap128 (sum_list (bm_values (chain_supplies s)))"

definition total_chain_vault_debt_e8s :: "multi_chain_state \<Rightarrow> u128" where
  "total_chain_vault_debt_e8s s = wrap128 (sum_list (map cv_debt_e8s (bm_values (chain_vaults s))))"

definition total_reserve_backing_e8s :: "multi_chain_state \<Rightarrow> u128" where
  "total_reserve_backing_e8s s = wrap128 (sum_list (bm_values (reserve_backing_e8s s)))"

definition total_pending_chain_burn_e8s :: "multi_chain_state \<Rightarrow> u128" where
  "total_pending_chain_burn_e8s s = wrap128 (sum_list (bm_values (pending_chain_burn_e8s s)))"

definition pending_chain_burn_aging :: "multi_chain_state \<Rightarrow> u64 \<Rightarrow> pending_chain_burn_aging_row list" where
  "pending_chain_burn_aging s now_ns =
     List.map_filter (\<lambda>(chain, pending).
       if pending = 0 then None
       else
         let recs = filter (\<lambda>r. sp_chain_id r = chain) (bm_values (settled_pending_burn_proofs s));
             scan = fold (\<lambda>r (n, oldest).
                 (sat_add64 n 1,
                  Some (case oldest of Some x \<Rightarrow> min x (sp_recorded_at_ns r)
                                     | None \<Rightarrow> sp_recorded_at_ns r))) recs (0, None)
         in Some \<lparr>pa_chain_id = chain, pa_pending_chain_burn_e8s = pending,
                  pa_oldest_reference_ns = snd scan,
                  pa_age_ns = map_option (\<lambda>oldest. sat_sub now_ns oldest) (snd scan),
                  pa_proof_count = fst scan\<rparr>)
       (bm_entries (pending_chain_burn_e8s s))"

section \<open>The bad-debt circuit\<close>

definition chain_bad_debt_circuit_tripped :: "multi_chain_state \<Rightarrow> chain_id \<Rightarrow> bool" where
  "chain_bad_debt_circuit_tripped s chain = bm_has (chain_bad_debt_circuit_tripped_at_ns s) chain"

definition set_chain_bad_debt_circuit_threshold ::
    "multi_chain_state \<Rightarrow> chain_id \<Rightarrow> u128 option \<Rightarrow> u64 \<Rightarrow> (string, multi_chain_state) outcome" where
  "set_chain_bad_debt_circuit_threshold s chain threshold_e8s now_ns =
     (case threshold_e8s of
        Some t \<Rightarrow>
          if t = 0 then Err ''threshold must be > 0; use null/None to disable''
          else
            let s1 = s\<lparr>chain_bad_debt_circuit_threshold_e8s :=
                       bm_insert chain t (chain_bad_debt_circuit_threshold_e8s s)\<rparr>;
                debt = bm_get_or 0 (chain_bad_debt_e8s s1) chain
            in if debt \<ge> t then
                 Ok (s1\<lparr>chain_bad_debt_circuit_tripped_at_ns :=
                       (if bm_has (chain_bad_debt_circuit_tripped_at_ns s1) chain
                        then chain_bad_debt_circuit_tripped_at_ns s1
                        else bm_insert chain now_ns (chain_bad_debt_circuit_tripped_at_ns s1))\<rparr>)
               else Ok s1
      | None \<Rightarrow>
          Ok (s\<lparr>chain_bad_debt_circuit_threshold_e8s :=
                 bm_remove chain (chain_bad_debt_circuit_threshold_e8s s),
               chain_bad_debt_circuit_tripped_at_ns :=
                 bm_remove chain (chain_bad_debt_circuit_tripped_at_ns s)\<rparr>))"

definition clear_chain_bad_debt_circuit :: "multi_chain_state \<Rightarrow> chain_id \<Rightarrow> multi_chain_state \<times> bool" where
  "clear_chain_bad_debt_circuit s chain =
     (s\<lparr>chain_bad_debt_circuit_tripped_at_ns :=
          bm_remove chain (chain_bad_debt_circuit_tripped_at_ns s)\<rparr>,
      bm_has (chain_bad_debt_circuit_tripped_at_ns s) chain)"

definition record_chain_bad_debt_and_maybe_trip ::
    "multi_chain_state \<Rightarrow> chain_id \<Rightarrow> u128 \<Rightarrow> u64 \<Rightarrow> multi_chain_state \<times> bool" where
  "record_chain_bad_debt_and_maybe_trip s chain amount_e8s now_ns =
     (if amount_e8s = 0 then (s, False)
      else
        let total = (case bm_get (chain_bad_debt_e8s s) chain of
                       Some v \<Rightarrow> sat_add128 v amount_e8s | None \<Rightarrow> amount_e8s);
            s1 = s\<lparr>chain_bad_debt_e8s := bm_insert chain total (chain_bad_debt_e8s s)\<rparr>
        in case bm_get (chain_bad_debt_circuit_threshold_e8s s1) chain of
             None \<Rightarrow> (s1, False)
           | Some threshold \<Rightarrow>
               if total < threshold \<or> chain_bad_debt_circuit_tripped s1 chain then (s1, False)
               else (s1\<lparr>chain_bad_debt_circuit_tripped_at_ns :=
                         bm_insert chain now_ns (chain_bad_debt_circuit_tripped_at_ns s1)\<rparr>, True))"

fun bad_debt_circuit_blocks_settlement_op ::
    "multi_chain_state \<Rightarrow> chain_id \<Rightarrow> settlement_op_kind \<Rightarrow> bool" where
  "bad_debt_circuit_blocks_settlement_op s chain kind =
     (if \<not> chain_bad_debt_circuit_tripped s chain then False
      else case kind of
        Mint _ _ _ \<Rightarrow> True
      | InterestMint _ _ _ _ _ \<Rightarrow> True
      | NativeWithdrawal _ _ vid \<Rightarrow>
          (case bm_get (chain_vaults s) vid of Some v \<Rightarrow> cv_debt_e8s v > 0 | None \<Rightarrow> True)
      | Burn _ \<Rightarrow> False
      | LiquidationSwap _ _ _ _ _ _ _ _ _ \<Rightarrow> False
      | ChainCollateralPayout _ _ _ _ \<Rightarrow> False)"

definition has_supply_increasing_settlement_op :: "multi_chain_state \<Rightarrow> chain_id \<Rightarrow> bool" where
  "has_supply_increasing_settlement_op s chain =
     (case bm_get (settlement_queues s) chain of
        None \<Rightarrow> False
      | Some q \<Rightarrow> list_ex (\<lambda>op. is_mint_kind (op_kind op) \<and>
            (case op_status op of
               Inflight _ _ \<Rightarrow> True
             | Queued \<Rightarrow> \<not> bad_debt_circuit_blocks_settlement_op s chain (op_kind op)
             | Succeeded _ _ \<Rightarrow> False
             | Failed _ _ \<Rightarrow> False)) (bm_values (q_pending q)))"

section \<open>Nonces, vault counts, prices\<close>

definition expected_evm_nonce :: "multi_chain_state \<Rightarrow> principal \<Rightarrow> u64" where
  "expected_evm_nonce s owner = bm_get_or 0 (evm_owner_nonces s) owner"

definition consume_evm_nonce ::
    "multi_chain_state \<Rightarrow> principal \<Rightarrow> u64 \<Rightarrow> (u64, multi_chain_state) outcome" where
  "consume_evm_nonce s owner nonce =
     (let expected = expected_evm_nonce s owner in
      if nonce \<noteq> expected then Err expected
      else Ok (s\<lparr>evm_owner_nonces := bm_insert owner (sat_add64 expected 1) (evm_owner_nonces s)\<rparr>))"

definition count_owner_active_vaults :: "multi_chain_state \<Rightarrow> principal \<Rightarrow> usize" where
  "count_owner_active_vaults s owner =
     length (filter (\<lambda>v. cv_owner v = owner \<and> cv_status v \<noteq> Closed) (bm_values (chain_vaults s)))"

definition set_manual_price ::
    "multi_chain_state \<Rightarrow> chain_id \<Rightarrow> string \<Rightarrow> u64 \<Rightarrow> u64 \<Rightarrow> multi_chain_state" where
  "set_manual_price s chain symbol price_e8 now_ns =
     s\<lparr>manual_prices := bm_insert (chain, symbol) price_e8 (manual_prices s),
       manual_price_set_at_ns := bm_insert (chain, symbol) now_ns (manual_price_set_at_ns s)\<rparr>"

definition get_manual_price :: "multi_chain_state \<Rightarrow> chain_id \<Rightarrow> string \<Rightarrow> (u64 \<times> u64) option" where
  "get_manual_price s chain symbol =
     (case bm_get (manual_prices s) (chain, symbol) of
        None \<Rightarrow> None
      | Some price \<Rightarrow> Some (price, bm_get_or 0 (manual_price_set_at_ns s) (chain, symbol)))"

end
