(* ===== verification/Evm_Logs.thy ===== *)
theory Evm_Logs
  imports Chain_Config
begin

text \<open>
  The pure decoders of EVM receipts and logs (\<^verbatim>\<open>chains/evm/evm_rpc.rs\<close>) and the verification of
  an operator-supplied burn or reserve receipt (\<^verbatim>\<open>chains/evm/settlement_proof.rs\<close>). Strings are
  ASCII, as the JSON-RPC hex fields are; error strings are replaced by constructors.
\<close>

section \<open>Hex quantities\<close>

datatype decode_error =
    MissingPrefix string
  | InvalidHex string
  | TooFewTopics nat
  | WrongTopic0 string
  | VaultIdOverflow u128
  | BurnerTooShort string

definition eq_ignore_ascii_case :: "string \<Rightarrow> string \<Rightarrow> bool" where
  "eq_ignore_ascii_case a b \<longleftrightarrow> to_ascii_lowercase a = to_ascii_lowercase b"

definition hex_digit_value :: "char \<Rightarrow> nat option" where
  "hex_digit_value c =
     (let n = (of_char c :: nat) in
      if 48 \<le> n \<and> n \<le> 57 then Some (n - 48)
      else if 65 \<le> n \<and> n \<le> 70 then Some (n - 55)
      else if 97 \<le> n \<and> n \<le> 102 then Some (n - 87)
      else None)"

text \<open>\<^verbatim>\<open>u128::from_str_radix(_, 16)\<close>: an optional plus sign, at least one digit, no overflow\<close>

fun hex_value :: "nat \<Rightarrow> string \<Rightarrow> u128 option" where
  "hex_value acc [] = Some acc"
| "hex_value acc (c # cs) =
     (case hex_digit_value c of
        None \<Rightarrow> None
      | Some d \<Rightarrow> if 16 * acc + d \<le> u128_max then hex_value (16 * acc + d) cs else None)"

definition from_str_radix_16 :: "string \<Rightarrow> u128 option" where
  "from_str_radix_16 s =
     (let digits = (case s of c # cs \<Rightarrow> if c = CHR ''+'' \<and> cs \<noteq> [] then cs else s | [] \<Rightarrow> s)
      in if digits = [] then None else hex_value 0 digits)"

definition parse_hex_quantity :: "string \<Rightarrow> (decode_error, u128) outcome" where
  "parse_hex_quantity s =
     (case strip_0x s of
        None \<Rightarrow> Err (MissingPrefix s)
      | Some hex \<Rightarrow> ok_or (InvalidHex s) (from_str_radix_16 hex))"

section \<open>Logs and receipts\<close>

definition burn_event_topic0 :: string where
  "burn_event_topic0 = ''0xe1b6e34006e9871307436c226f232f9c5e7690c1d2c4f4adda4f607a75a9beca''"

definition mint_event_topic0 :: string where
  "mint_event_topic0 = ''0x4e3883c75cc9c752bb1db2e406a822e4a75067ae77ad9a0a4d179f2709b9e1f6''"

definition transfer_event_topic0 :: string where
  "transfer_event_topic0 = ''0xddf252ad1be2c89b69c2b068fc378daa952ba7f163c4a11628f55a4df523b3ef''"

record burn_log =
  bl_vault_id :: u64
  bl_amount_e8s :: u128
  bl_tx_hash :: string
  bl_block_number :: u64

record burn_log_with_burner =
  bb_vault_id :: u64
  bb_burner :: string
  bb_amount_e8s :: u128
  bb_tx_hash :: string
  bb_block_number :: u64

record mint_log =
  ml_vault_id :: u64
  ml_recipient :: string
  ml_amount_e8s :: u128
  ml_tx_hash :: string
  ml_block_number :: u64

record transfer_log =
  tl_to :: string
  tl_amount :: u128

type_synonym raw_log = "string \<times> string list \<times> string \<times> u64"

record tx_receipt_with_logs =
  rc_tx_hash :: "string option"
  rc_success :: bool
  rc_block_number :: u64
  rc_logs :: "raw_log list"

definition decode_burn_log ::
    "string list \<Rightarrow> string \<Rightarrow> string \<Rightarrow> u64 \<Rightarrow> (decode_error, burn_log) outcome" where
  "decode_burn_log topics data tx_hash block_number =
     (if length topics < 3 then Err (TooFewTopics (length topics))
      else if \<not> eq_ignore_ascii_case (topics ! 0) burn_event_topic0 then Err (WrongTopic0 (topics ! 0))
      else and_then (parse_hex_quantity (topics ! 1)) (\<lambda>vault_id_raw.
        if vault_id_raw > u64_max then Err (VaultIdOverflow vault_id_raw)
        else and_then (parse_hex_quantity data) (\<lambda>amount_e8s.
          Ok \<lparr>bl_vault_id = vault_id_raw, bl_amount_e8s = amount_e8s, bl_tx_hash = tx_hash,
              bl_block_number = block_number\<rparr>)))"

definition last_chars :: "nat \<Rightarrow> string \<Rightarrow> string" where
  "last_chars n s = drop (length s - n) s"

definition strip_0x_or_self :: "string \<Rightarrow> string" where
  "strip_0x_or_self s = (case strip_0x s of Some rest \<Rightarrow> rest | None \<Rightarrow> s)"

definition decode_burn_log_with_burner ::
    "string list \<Rightarrow> string \<Rightarrow> string \<Rightarrow> u64 \<Rightarrow> (decode_error, burn_log_with_burner) outcome" where
  "decode_burn_log_with_burner topics data tx_hash block_number =
     and_then (decode_burn_log topics data tx_hash block_number) (\<lambda>burn.
       let raw = topics ! 2; hex = strip_0x_or_self raw in
       if length hex < 40 then Err (BurnerTooShort raw)
       else Ok \<lparr>bb_vault_id = bl_vault_id burn,
               bb_burner = ''0x'' @ to_ascii_lowercase (last_chars 40 hex),
               bb_amount_e8s = bl_amount_e8s burn, bb_tx_hash = bl_tx_hash burn,
               bb_block_number = bl_block_number burn\<rparr>)"

text \<open>The address in the last 20 bytes of an indexed topic\<close>

definition topic_address :: "string \<Rightarrow> string" where
  "topic_address topic =
     (let raw = strip_0x_or_self topic;
          addr_hex = (if length raw \<ge> 40 then last_chars 40 raw else raw)
      in ''0x'' @ to_ascii_lowercase addr_hex)"

definition decode_mint_log ::
    "string list \<Rightarrow> string \<Rightarrow> string \<Rightarrow> u64 \<Rightarrow> (decode_error, mint_log) outcome" where
  "decode_mint_log topics data tx_hash block_number =
     (if length topics < 3 then Err (TooFewTopics (length topics))
      else if \<not> eq_ignore_ascii_case (topics ! 0) mint_event_topic0 then Err (WrongTopic0 (topics ! 0))
      else and_then (parse_hex_quantity (topics ! 1)) (\<lambda>vault_id_raw.
        if vault_id_raw > u64_max then Err (VaultIdOverflow vault_id_raw)
        else and_then (parse_hex_quantity data) (\<lambda>amount_e8s.
          Ok \<lparr>ml_vault_id = vault_id_raw, ml_recipient = topic_address (topics ! 2),
              ml_amount_e8s = amount_e8s, ml_tx_hash = tx_hash, ml_block_number = block_number\<rparr>)))"

definition transfer_log_from_raw :: "string list \<Rightarrow> string \<Rightarrow> (decode_error, transfer_log) outcome" where
  "transfer_log_from_raw topics data =
     (if length topics < 3 then Err (TooFewTopics (length topics))
      else if \<not> eq_ignore_ascii_case (topics ! 0) transfer_event_topic0 then Err (WrongTopic0 (topics ! 0))
      else and_then (parse_hex_quantity data) (\<lambda>amount.
        Ok \<lparr>tl_to = topic_address (topics ! 2), tl_amount = amount\<rparr>))"

section \<open>Verifying settlement receipts\<close>

record burn_settlement_proof_arg =
  ba_tx_hash :: string
  ba_log_index :: u64
  ba_expected_burner :: "string option"

record reserve_settlement_proof_arg =
  ra_burn_tx_hash :: string
  ra_burn_log_index :: u64
  ra_reserve_tx_hash :: string
  ra_reserve_transfer_log_index :: u64
  ra_expected_burner :: "string option"

text \<open>Receipts the proof verifier has accepted\<close>

record verified_burn_settlement_proof =
  vb_proof_id :: string
  vb_tx_hash :: string
  vb_log_index :: u64
  vb_block_number :: u64
  vb_vault_id :: u64
  vb_burner :: string
  vb_amount_e8s :: u128

record verified_reserve_settlement_proof =
  vr_proof_id :: string
  vr_burn_tx_hash :: string
  vr_burn_log_index :: u64
  vr_burn_block_number :: u64
  vr_reserve_tx_hash :: string
  vr_reserve_transfer_log_index :: u64
  vr_reserve_block_number :: u64
  vr_vault_id :: u64
  vr_burner :: string
  vr_amount_e8s :: u128
  vr_reserve_transfer_amount_native :: u128
  vr_reserve_transfer_amount_e8s :: u128

datatype settlement_proof_error =
    SpInvalidAddress string
  | SpInvalidTxHash string
  | SpMalformedLog decode_error
  | SpReceiptReverted
  | SpNoMatchingBurnLog
  | SpUnexpectedBurner string string
  | SpReceiptTxHashMismatch string string
  | SpReserveTransferMissing
  | SpReserveTransferTooSmall u128 u128
  | SpReserveTransferScaleOverflow

text \<open>\<^verbatim>\<open>str::trim\<close> on ASCII: space, tab, line feed, vertical tab, form feed, carriage return\<close>

definition is_ascii_space :: "char \<Rightarrow> bool" where
  "is_ascii_space c \<longleftrightarrow> (let n = (of_char c :: nat) in n = 32 \<or> (9 \<le> n \<and> n \<le> 13))"

definition trim :: "string \<Rightarrow> string" where
  "trim s = rev (dropWhile is_ascii_space (rev (dropWhile is_ascii_space s)))"

definition canonical_hex :: "nat \<Rightarrow> string \<Rightarrow> string option" where
  "canonical_hex n s =
     (case strip_0x (trim s) of
        None \<Rightarrow> None
      | Some hex \<Rightarrow>
          if length hex \<noteq> n \<or> \<not> list_all is_ascii_hexdigit hex then None
          else Some (''0x'' @ to_ascii_lowercase hex))"

definition canonical_address :: "string \<Rightarrow> (settlement_proof_error, string) outcome" where
  "canonical_address address = ok_or (SpInvalidAddress address) (canonical_hex 40 address)"

definition canonical_tx_hash :: "string \<Rightarrow> (settlement_proof_error, string) outcome" where
  "canonical_tx_hash tx_hash = ok_or (SpInvalidTxHash tx_hash) (canonical_hex 64 tx_hash)"

definition verify_receipt_success :: "tx_receipt_with_logs \<Rightarrow> (settlement_proof_error, unit) outcome" where
  "verify_receipt_success receipt = (if rc_success receipt then Ok () else Err SpReceiptReverted)"

definition verify_receipt_tx_hash ::
    "tx_receipt_with_logs \<Rightarrow> string \<Rightarrow> (settlement_proof_error, unit) outcome" where
  "verify_receipt_tx_hash receipt expected =
     (case rc_tx_hash receipt of
        Some actual \<Rightarrow>
          if eq_ignore_ascii_case actual expected then Ok ()
          else Err (SpReceiptTxHashMismatch expected (to_ascii_lowercase actual))
      | None \<Rightarrow> Err (SpReceiptTxHashMismatch expected ''<missing>''))"

fun pow10_u128 :: "nat \<Rightarrow> (settlement_proof_error, u128) outcome" where
  "pow10_u128 0 = Ok 1"
| "pow10_u128 (Suc n) =
     and_then (pow10_u128 n) (\<lambda>out. ok_or SpReserveTransferScaleOverflow (checked_mul128 out 10))"

definition proof_stable_native_to_e8s :: "u128 \<Rightarrow> u8 \<Rightarrow> (settlement_proof_error, u128) outcome" where
  "proof_stable_native_to_e8s amount_native decimals =
     (if decimals = 8 then Ok amount_native
      else if decimals > 8 then and_then (pow10_u128 (decimals - 8)) (\<lambda>scale. Ok (amount_native div scale))
      else and_then (pow10_u128 (8 - decimals)) (\<lambda>scale.
             ok_or SpReserveTransferScaleOverflow (checked_mul128 amount_native scale)))"

definition log_matches :: "string \<Rightarrow> string \<Rightarrow> u64 \<Rightarrow> raw_log \<Rightarrow> bool" where
  "log_matches contract topic0 index = (\<lambda>(address, topics, _, log_index).
     log_index = index \<and> eq_ignore_ascii_case address contract
     \<and> (case topics of t # _ \<Rightarrow> eq_ignore_ascii_case t topic0 | [] \<Rightarrow> False))"

definition canonical_burner :: "string option \<Rightarrow> (settlement_proof_error, string option) outcome" where
  "canonical_burner b = (case b of None \<Rightarrow> Ok None | Some a \<Rightarrow> and_then (canonical_address a) (\<lambda>c. Ok (Some c)))"

definition verify_pending_burn_receipt ::
    "string \<Rightarrow> burn_settlement_proof_arg \<Rightarrow> tx_receipt_with_logs
      \<Rightarrow> (settlement_proof_error, verified_burn_settlement_proof) outcome" where
  "verify_pending_burn_receipt icusd_contract pf receipt =
     and_then (canonical_tx_hash (ba_tx_hash pf)) (\<lambda>tx_hash.
     and_then (verify_receipt_tx_hash receipt tx_hash) (\<lambda>_.
     and_then (verify_receipt_success receipt) (\<lambda>_.
     and_then (canonical_address icusd_contract) (\<lambda>contract.
     and_then (canonical_burner (ba_expected_burner pf)) (\<lambda>expected_burner.
     and_then (ok_or SpNoMatchingBurnLog
                 (find (log_matches contract burn_event_topic0 (ba_log_index pf)) (rc_logs receipt)))
       (\<lambda>(_, topics, data, log_index).
     and_then (map_err SpMalformedLog
                 (decode_burn_log_with_burner topics data tx_hash (rc_block_number receipt))) (\<lambda>burn.
       if (case expected_burner of Some e \<Rightarrow> bb_burner burn \<noteq> e | None \<Rightarrow> False)
       then Err (SpUnexpectedBurner (the expected_burner) (bb_burner burn))
       else Ok \<lparr>vb_proof_id = ''pending:'' @ tx_hash @ '':'' @ show_nat log_index,
               vb_tx_hash = tx_hash, vb_log_index = log_index,
               vb_block_number = rc_block_number receipt, vb_vault_id = bb_vault_id burn,
               vb_burner = bb_burner burn, vb_amount_e8s = bb_amount_e8s burn\<rparr>)))))))"

definition verify_reserve_burn_receipts ::
    "string \<Rightarrow> string \<Rightarrow> string \<Rightarrow> u8 \<Rightarrow> reserve_settlement_proof_arg \<Rightarrow> tx_receipt_with_logs
      \<Rightarrow> tx_receipt_with_logs \<Rightarrow> (settlement_proof_error, verified_reserve_settlement_proof) outcome" where
  "verify_reserve_burn_receipts icusd_contract settle_stable_token reserve_address settle_stable_decimals
       pf burn_receipt reserve_receipt =
     and_then (verify_pending_burn_receipt icusd_contract
                 \<lparr>ba_tx_hash = ra_burn_tx_hash pf, ba_log_index = ra_burn_log_index pf,
                  ba_expected_burner = ra_expected_burner pf\<rparr> burn_receipt) (\<lambda>burn.
     and_then (canonical_tx_hash (ra_reserve_tx_hash pf)) (\<lambda>reserve_tx_hash.
     and_then (verify_receipt_tx_hash reserve_receipt reserve_tx_hash) (\<lambda>_.
     and_then (verify_receipt_success reserve_receipt) (\<lambda>_.
     and_then (canonical_address settle_stable_token) (\<lambda>token.
     and_then (canonical_address reserve_address) (\<lambda>reserve.
     and_then (ok_or SpReserveTransferMissing
                 (find (log_matches token transfer_event_topic0 (ra_reserve_transfer_log_index pf))
                    (rc_logs reserve_receipt))) (\<lambda>(_, topics, data, log_index).
     and_then (map_err SpMalformedLog (transfer_log_from_raw topics data)) (\<lambda>transfer.
       if tl_to transfer \<noteq> reserve then Err SpReserveTransferMissing
       else and_then (proof_stable_native_to_e8s (tl_amount transfer) settle_stable_decimals) (\<lambda>amount_e8s.
         if amount_e8s < vb_amount_e8s burn
         then Err (SpReserveTransferTooSmall (vb_amount_e8s burn) amount_e8s)
         else Ok \<lparr>vr_proof_id = ''reserve:'' @ vb_tx_hash burn @ '':'' @ show_nat (vb_log_index burn)
                    @ '':'' @ reserve_tx_hash @ '':'' @ show_nat log_index,
                 vr_burn_tx_hash = vb_tx_hash burn, vr_burn_log_index = vb_log_index burn,
                 vr_burn_block_number = vb_block_number burn, vr_reserve_tx_hash = reserve_tx_hash,
                 vr_reserve_transfer_log_index = log_index,
                 vr_reserve_block_number = rc_block_number reserve_receipt,
                 vr_vault_id = vb_vault_id burn, vr_burner = vb_burner burn,
                 vr_amount_e8s = vb_amount_e8s burn,
                 vr_reserve_transfer_amount_native = tl_amount transfer,
                 vr_reserve_transfer_amount_e8s = amount_e8s\<rparr>)))))))))"

end
