(* ===== verification/Supply.thy ===== *)
theory Supply
  imports Multi_Chain_State Evm_Logs
begin

text \<open>
  Supply accounting of the foreign-chain rail (\<^verbatim>\<open>chains/supply.rs\<close>). Every circulating
  foreign icUSD is backed by vault debt, by the settle-stable reserve, or by an IC-side burn
  awaiting its foreign burn. The operations here are the only writers of the supply map and
  of the two backing maps. \<open>backed\<close> is the invariant, on exact sums; the locale
  \<open>balanced_ledger\<close> is the contract of a move between the two sides.
\<close>

section \<open>Errors\<close>

datatype supply_delta = Increase u128 | Decrease u128

datatype supply_invariant_error =
    UnknownChain chain_id
  | Underflow chain_id u128 u128
  | Divergence u128 u128
  | HaltedAfterSelfCheckFailure

datatype reserve_shift_error =
    RsHalted
  | RsUnknownVault u64
  | RsWrongChain chain_id chain_id
  | RsClearExceedsDebt u128 u128
  | RsInvariantBroken u128 u128

datatype backing_settlement_error =
    BsHalted
  | BsUnknownChain chain_id
  | BsZeroAmount
  | BsSupplyUnderflow chain_id u128 u128
  | BsBackingUnderflow chain_id u128 u128
  | BsInvariantBroken u128 u128

datatype backing_term = PendingChainBurn | ReserveBacking

datatype proof_backed_settlement_error =
    DuplicateProof string
  | DuplicateBurnLog string
  | ReserveTransferOverConsumed string u128 u128 u128
  | ReserveTransferConsumptionOverflow string
  | BackingSettlement backing_settlement_error

datatype pending_burn_shift_error =
    PbHalted
  | PbUnknownVault u64
  | PbWrongChain chain_id chain_id
  | PbClearExceedsDebt u128 u128
  | PbInvariantBroken u128 u128

datatype pending_burn_supply_shift_error =
    PsHalted
  | PsUnknownChain chain_id
  | PsPendingBurnUnderflow chain_id u128 u128
  | PsSupplyUnderflow chain_id u128 u128
  | PsInvariantBroken u128 u128

section \<open>Operations\<close>

definition chain_backing_rhs_e8s :: "multi_chain_state \<Rightarrow> u128 \<Rightarrow> u128" where
  "chain_backing_rhs_e8s s total_debt_e8s =
     sat_add128 (sat_add128 total_debt_e8s (total_reserve_backing_e8s s))
       (total_pending_chain_burn_e8s s)"

definition apply_supply_delta ::
    "multi_chain_state \<Rightarrow> chain_id \<Rightarrow> supply_delta \<Rightarrow> u128
      \<Rightarrow> (supply_invariant_error, multi_chain_state) outcome" where
  "apply_supply_delta s chain delta total_debt_e8s =
     (if invariant_halted s then Err HaltedAfterSelfCheckFailure
      else case bm_get (chain_supplies s) chain of
        None \<Rightarrow> Err (UnknownChain chain)
      | Some current \<Rightarrow>
          let apply = (\<lambda>new.
            let sum_after = wrap128 (sum_list (map (\<lambda>(i, v). if i = chain then new else v)
                                                (bm_entries (chain_supplies s))));
                rhs = chain_backing_rhs_e8s s total_debt_e8s
            in if sum_after \<noteq> rhs then Err (Divergence sum_after rhs)
               else Ok (s\<lparr>chain_supplies := bm_insert chain new (chain_supplies s)\<rparr>))
          in case delta of
               Increase n \<Rightarrow> apply (sat_add128 current n)
             | Decrease n \<Rightarrow>
                 if n > current then Err (Underflow chain current n) else apply (current - n))"

definition check_invariant :: "multi_chain_state \<Rightarrow> u128 \<Rightarrow> (supply_invariant_error, unit) outcome" where
  "check_invariant s total_debt_e8s =
     (let sum = wrap128 (sum_list (bm_values (chain_supplies s)));
          rhs = chain_backing_rhs_e8s s total_debt_e8s
      in if sum \<noteq> rhs then Err (Divergence sum rhs) else Ok ())"

fun backing_term_value :: "multi_chain_state \<Rightarrow> chain_id \<Rightarrow> backing_term \<Rightarrow> u128" where
  "backing_term_value s chain PendingChainBurn = bm_get_or 0 (pending_chain_burn_e8s s) chain"
| "backing_term_value s chain ReserveBacking = bm_get_or 0 (reserve_backing_e8s s) chain"

definition backing_rhs_after_settlement :: "multi_chain_state \<Rightarrow> u128 \<Rightarrow> backing_term \<Rightarrow> u128" where
  "backing_rhs_after_settlement s amount_e8s term =
     (let debt = total_chain_vault_debt_e8s s;
          reserve = (case term of
             ReserveBacking \<Rightarrow> sat_sub (total_reserve_backing_e8s s) amount_e8s
           | PendingChainBurn \<Rightarrow> total_reserve_backing_e8s s);
          pending = (case term of
             PendingChainBurn \<Rightarrow> sat_sub (total_pending_chain_burn_e8s s) amount_e8s
           | ReserveBacking \<Rightarrow> total_pending_chain_burn_e8s s)
      in sat_add128 (sat_add128 debt reserve) pending)"

definition debit_map :: "chain_id \<Rightarrow> u128 \<Rightarrow> (chain_id, u128) bmap \<Rightarrow> (chain_id, u128) bmap" where
  "debit_map chain amount_e8s m =
     (let new = wrap_sub128 (bm_get_or 0 m chain) amount_e8s
      in if new = 0 then bm_remove chain m else bm_insert chain new m)"

fun debit_backing_term ::
    "multi_chain_state \<Rightarrow> chain_id \<Rightarrow> u128 \<Rightarrow> backing_term \<Rightarrow> multi_chain_state" where
  "debit_backing_term s chain amount_e8s PendingChainBurn =
     s\<lparr>pending_chain_burn_e8s := debit_map chain amount_e8s (pending_chain_burn_e8s s)\<rparr>"
| "debit_backing_term s chain amount_e8s ReserveBacking =
     s\<lparr>reserve_backing_e8s := debit_map chain amount_e8s (reserve_backing_e8s s)\<rparr>"

definition settle_backing_burn ::
    "multi_chain_state \<Rightarrow> chain_id \<Rightarrow> u128 \<Rightarrow> backing_term
      \<Rightarrow> (backing_settlement_error, multi_chain_state) outcome" where
  "settle_backing_burn s chain amount_e8s term =
     (if invariant_halted s then Err BsHalted
      else if amount_e8s = 0 then Err BsZeroAmount
      else case bm_get (chain_supplies s) chain of
        None \<Rightarrow> Err (BsUnknownChain chain)
      | Some current_supply \<Rightarrow>
          if amount_e8s > current_supply then Err (BsSupplyUnderflow chain current_supply amount_e8s)
          else
            let current_backing = backing_term_value s chain term in
            if amount_e8s > current_backing
            then Err (BsBackingUnderflow chain current_backing amount_e8s)
            else
              let sum_after = sat_sub (total_supply_all_chains_e8s s) amount_e8s;
                  rhs = backing_rhs_after_settlement s amount_e8s term
              in if sum_after \<noteq> rhs then Err (BsInvariantBroken sum_after rhs)
                 else Ok (debit_backing_term
                   (s\<lparr>chain_supplies := bm_insert chain (current_supply - amount_e8s) (chain_supplies s)\<rparr>)
                   chain amount_e8s term))"

definition settle_pending_chain_burn ::
    "multi_chain_state \<Rightarrow> chain_id \<Rightarrow> u128 \<Rightarrow> (backing_settlement_error, multi_chain_state) outcome" where
  "settle_pending_chain_burn s chain amount_e8s = settle_backing_burn s chain amount_e8s PendingChainBurn"

definition settle_reserve_burn ::
    "multi_chain_state \<Rightarrow> chain_id \<Rightarrow> u128 \<Rightarrow> (backing_settlement_error, multi_chain_state) outcome" where
  "settle_reserve_burn s chain amount_e8s = settle_backing_burn s chain amount_e8s ReserveBacking"

definition settlement_burn_key :: "string \<Rightarrow> u64 \<Rightarrow> string" where
  "settlement_burn_key tx_hash log_index = to_ascii_lowercase tx_hash @ '':'' @ show_nat log_index"

definition reserve_transfer_key :: "string \<Rightarrow> u64 \<Rightarrow> string" where
  "reserve_transfer_key tx_hash log_index = to_ascii_lowercase tx_hash @ '':'' @ show_nat log_index"

definition settle_pending_chain_burn_with_verified_proof ::
    "multi_chain_state \<Rightarrow> chain_id \<Rightarrow> verified_burn_settlement_proof \<Rightarrow> u64
      \<Rightarrow> (proof_backed_settlement_error, multi_chain_state) outcome" where
  "settle_pending_chain_burn_with_verified_proof s chain pf now_ns =
     (if bm_has (settled_pending_burn_proofs s) (vb_proof_id pf)
      then Err (DuplicateProof (vb_proof_id pf))
      else
        let burn_key = settlement_burn_key (vb_tx_hash pf) (vb_log_index pf) in
        if bs_mem burn_key (settled_settlement_burn_logs s) then Err (DuplicateBurnLog burn_key)
        else case settle_pending_chain_burn s chain (vb_amount_e8s pf) of
          Err e \<Rightarrow> Err (BackingSettlement e)
        | Trap \<Rightarrow> Trap
        | Ok nxt \<Rightarrow>
            Ok (nxt\<lparr>settled_settlement_burn_logs := bs_insert burn_key (settled_settlement_burn_logs nxt),
                   settled_pending_burn_proofs :=
                     bm_insert (vb_proof_id pf)
                       \<lparr>sp_proof_id = vb_proof_id pf, sp_chain_id = chain, sp_tx_hash = vb_tx_hash pf,
                        sp_log_index = vb_log_index pf, sp_amount_e8s = vb_amount_e8s pf,
                        sp_block_number = vb_block_number pf, sp_recorded_at_ns = now_ns\<rparr>
                       (settled_pending_burn_proofs nxt)\<rparr>))"

definition settle_reserve_burn_with_verified_proof ::
    "multi_chain_state \<Rightarrow> chain_id \<Rightarrow> verified_reserve_settlement_proof \<Rightarrow> u64
      \<Rightarrow> (proof_backed_settlement_error, multi_chain_state) outcome" where
  "settle_reserve_burn_with_verified_proof s chain pf now_ns =
     (if bm_has (settled_reserve_burn_proofs s) (vr_proof_id pf)
      then Err (DuplicateProof (vr_proof_id pf))
      else
        let burn_key = settlement_burn_key (vr_burn_tx_hash pf) (vr_burn_log_index pf) in
        if bs_mem burn_key (settled_settlement_burn_logs s) then Err (DuplicateBurnLog burn_key)
        else
          let transfer_key = reserve_transfer_key (vr_reserve_tx_hash pf) (vr_reserve_transfer_log_index pf);
              consumed = bm_get_or 0 (settled_reserve_transfer_e8s s) transfer_key
          in case checked_add128 consumed (vr_amount_e8s pf) of
               None \<Rightarrow> Err (ReserveTransferConsumptionOverflow transfer_key)
             | Some next_consumed \<Rightarrow>
                 if next_consumed > vr_reserve_transfer_amount_e8s pf
                 then Err (ReserveTransferOverConsumed transfer_key consumed (vr_amount_e8s pf)
                             (vr_reserve_transfer_amount_e8s pf))
                 else case settle_reserve_burn s chain (vr_amount_e8s pf) of
                   Err e \<Rightarrow> Err (BackingSettlement e)
                 | Trap \<Rightarrow> Trap
                 | Ok nxt \<Rightarrow>
                     Ok (nxt\<lparr>settled_settlement_burn_logs :=
                               bs_insert burn_key (settled_settlement_burn_logs nxt),
                            settled_reserve_transfer_e8s :=
                               bm_insert transfer_key next_consumed (settled_reserve_transfer_e8s nxt),
                            settled_reserve_burn_proofs :=
                               bm_insert (vr_proof_id pf)
                                 \<lparr>sp_proof_id = vr_proof_id pf, sp_chain_id = chain,
                                  sp_tx_hash = vr_burn_tx_hash pf, sp_log_index = vr_burn_log_index pf,
                                  sp_amount_e8s = vr_amount_e8s pf,
                                  sp_block_number = vr_burn_block_number pf,
                                  sp_recorded_at_ns = now_ns\<rparr>
                                 (settled_reserve_burn_proofs nxt)\<rparr>))"

definition apply_debt_to_reserve_shift ::
    "multi_chain_state \<Rightarrow> chain_id \<Rightarrow> u64 \<Rightarrow> u128 \<Rightarrow> u128
      \<Rightarrow> (reserve_shift_error, multi_chain_state) outcome" where
  "apply_debt_to_reserve_shift s chain vid cleared_e8s stable_native =
     (if invariant_halted s then Err RsHalted
      else case bm_get (chain_vaults s) vid of
        None \<Rightarrow> Err (RsUnknownVault vid)
      | Some v \<Rightarrow>
          if cv_collateral_chain v \<noteq> chain then Err (RsWrongChain (cv_collateral_chain v) chain)
          else if cleared_e8s > cv_debt_e8s v then Err (RsClearExceedsDebt cleared_e8s (cv_debt_e8s v))
          else
            let sum_supplies = total_supply_all_chains_e8s s;
                post_debt_total = sat_sub (total_chain_vault_debt_e8s s) cleared_e8s;
                post_reserve_total = sat_add128 (total_reserve_backing_e8s s) cleared_e8s;
                post_rhs = sat_add128 (sat_add128 post_debt_total post_reserve_total)
                             (total_pending_chain_burn_e8s s)
            in if sum_supplies \<noteq> post_rhs then Err (RsInvariantBroken sum_supplies post_rhs)
               else Ok (s\<lparr>chain_vaults :=
                           bm_insert vid (v\<lparr>cv_debt_e8s := cv_debt_e8s v - cleared_e8s\<rparr>) (chain_vaults s),
                         reserve_backing_e8s :=
                           bm_insert chain (wrap_add128 (bm_get_or 0 (reserve_backing_e8s s) chain) cleared_e8s)
                             (reserve_backing_e8s s),
                         reserve_usdc_native :=
                           bm_insert chain (wrap_add128 (bm_get_or 0 (reserve_usdc_native s) chain) stable_native)
                             (reserve_usdc_native s)\<rparr>))"

definition apply_debt_to_pending_burn_shift ::
    "multi_chain_state \<Rightarrow> chain_id \<Rightarrow> u64 \<Rightarrow> u128
      \<Rightarrow> (pending_burn_shift_error, multi_chain_state) outcome" where
  "apply_debt_to_pending_burn_shift s chain vid burned_e8s =
     (if invariant_halted s then Err PbHalted
      else case bm_get (chain_vaults s) vid of
        None \<Rightarrow> Err (PbUnknownVault vid)
      | Some v \<Rightarrow>
          if cv_collateral_chain v \<noteq> chain then Err (PbWrongChain (cv_collateral_chain v) chain)
          else if burned_e8s > cv_debt_e8s v then Err (PbClearExceedsDebt burned_e8s (cv_debt_e8s v))
          else
            let sum_supplies = total_supply_all_chains_e8s s;
                post_debt_total = sat_sub (total_chain_vault_debt_e8s s) burned_e8s;
                post_pending_total = sat_add128 (total_pending_chain_burn_e8s s) burned_e8s;
                post_rhs = sat_add128 (sat_add128 post_debt_total (total_reserve_backing_e8s s))
                             post_pending_total
            in if sum_supplies \<noteq> post_rhs then Err (PbInvariantBroken sum_supplies post_rhs)
               else Ok (s\<lparr>chain_vaults :=
                           bm_insert vid (v\<lparr>cv_debt_e8s := cv_debt_e8s v - burned_e8s\<rparr>) (chain_vaults s),
                         pending_chain_burn_e8s :=
                           bm_insert chain (wrap_add128 (bm_get_or 0 (pending_chain_burn_e8s s) chain) burned_e8s)
                             (pending_chain_burn_e8s s)\<rparr>))"

definition apply_pending_burn_to_supply_shift ::
    "multi_chain_state \<Rightarrow> chain_id \<Rightarrow> u128
      \<Rightarrow> (pending_burn_supply_shift_error, multi_chain_state) outcome" where
  "apply_pending_burn_to_supply_shift s chain amount_e8s =
     (if invariant_halted s then Err PsHalted
      else case bm_get (chain_supplies s) chain of
        None \<Rightarrow> Err (PsUnknownChain chain)
      | Some current_supply \<Rightarrow>
          let booked = bm_get_or 0 (pending_chain_burn_e8s s) chain in
          if amount_e8s > booked then Err (PsPendingBurnUnderflow chain booked amount_e8s)
          else if amount_e8s > current_supply
          then Err (PsSupplyUnderflow chain current_supply amount_e8s)
          else
            let sum_after = sat_sub (total_supply_all_chains_e8s s) amount_e8s;
                post_pending_total = sat_sub (total_pending_chain_burn_e8s s) amount_e8s;
                post_rhs = sat_add128 (sat_add128 (total_chain_vault_debt_e8s s)
                             (total_reserve_backing_e8s s)) post_pending_total
            in if sum_after \<noteq> post_rhs then Err (PsInvariantBroken sum_after post_rhs)
               else Ok (s\<lparr>pending_chain_burn_e8s :=
                           bm_insert chain (booked - amount_e8s) (pending_chain_burn_e8s s),
                         chain_supplies :=
                           bm_insert chain (current_supply - amount_e8s) (chain_supplies s)\<rparr>))"

definition stamp_chain_interest_accrual_start :: "multi_chain_state \<Rightarrow> u64 \<Rightarrow> multi_chain_state" where
  "stamp_chain_interest_accrual_start s now_ns =
     s\<lparr>chain_vaults := bm_map (\<lambda>v. if cv_last_interest_accrual_ns v = 0
                                    then v\<lparr>cv_last_interest_accrual_ns := now_ns\<rparr> else v)
                         (chain_vaults s)\<rparr>"

section \<open>Exact sums and the backing invariant\<close>

definition supply_sum :: "multi_chain_state \<Rightarrow> nat" where
  "supply_sum s = bm_sum (\<lambda>v. v) (chain_supplies s)"

definition debt_sum :: "multi_chain_state \<Rightarrow> nat" where
  "debt_sum s = bm_sum cv_debt_e8s (chain_vaults s)"

definition reserve_sum :: "multi_chain_state \<Rightarrow> nat" where
  "reserve_sum s = bm_sum (\<lambda>v. v) (reserve_backing_e8s s)"

definition pending_sum :: "multi_chain_state \<Rightarrow> nat" where
  "pending_sum s = bm_sum (\<lambda>v. v) (pending_chain_burn_e8s s)"

definition backing_sum :: "multi_chain_state \<Rightarrow> nat" where
  "backing_sum s = debt_sum s + reserve_sum s + pending_sum s"

text \<open>The protocol's supply invariant on unbounded sums, with the supply in range so that the
  machine sums of the code are exact.\<close>

definition backed :: "multi_chain_state \<Rightarrow> bool" where
  "backed s \<longleftrightarrow> supply_sum s = backing_sum s \<and> supply_sum s \<le> u128_max"

lemmas ledger_sums = supply_sum_def debt_sum_def reserve_sum_def pending_sum_def backing_sum_def

lemma sum_values: "sum_list (map f (bm_values m)) = bm_sum f m"
  by (simp add: bm_values_def bm_sum_def comp_def)

lemma sum_values_id: "sum_list (bm_values m) = bm_sum (\<lambda>v. v) m"
  using sum_values [of "\<lambda>v. v" m] by simp

lemma totals_wrap:
  "total_supply_all_chains_e8s s = wrap128 (supply_sum s)"
  "total_chain_vault_debt_e8s s = wrap128 (debt_sum s)"
  "total_reserve_backing_e8s s = wrap128 (reserve_sum s)"
  "total_pending_chain_burn_e8s s = wrap128 (pending_sum s)"
  by (simp_all add: sum_values sum_values_id total_supply_all_chains_e8s_def total_chain_vault_debt_e8s_def
      total_reserve_backing_e8s_def total_pending_chain_burn_e8s_def ledger_sums)

lemma backed_bounds:
  assumes "backed s"
  shows "supply_sum s \<le> u128_max" "debt_sum s \<le> u128_max" "reserve_sum s \<le> u128_max"
    "pending_sum s \<le> u128_max" "debt_sum s + reserve_sum s + pending_sum s \<le> u128_max"
    "debt_sum s + reserve_sum s \<le> u128_max"
  using assms by (auto simp: backed_def backing_sum_def)

lemma backed_totals:
  assumes "backed s"
  shows "total_supply_all_chains_e8s s = supply_sum s"
    "total_chain_vault_debt_e8s s = debt_sum s"
    "total_reserve_backing_e8s s = reserve_sum s"
    "total_pending_chain_burn_e8s s = pending_sum s"
  using backed_bounds [OF assms] by (simp_all add: totals_wrap)

lemma backed_eq: "backed s \<Longrightarrow> supply_sum s = debt_sum s + reserve_sum s + pending_sum s"
  by (simp add: backed_def backing_sum_def)

lemma backed_default: "backed multi_chain_default"
  by (simp add: backed_def ledger_sums multi_chain_default_def)

lemma entries_insert_present:
  "sorted_wrt (<) (map fst es) \<Longrightarrow> k \<in> fst ` set es \<Longrightarrow>
   entries_insert k v es = map (\<lambda>(i, w). if i = k then (i, v) else (i, w)) es"
proof (induction es)
  case (Cons e es)
  obtain a b where e: "e = (a, b)" by (cases e)
  show ?case
  proof (cases "k = a")
    case True
    with Cons.prems e have "\<forall>(i, w) \<in> set es. i \<noteq> k" by auto
    then have "map (\<lambda>(i, w). if i = k then (i, v) else (i, w)) es = map (\<lambda>x. x) es"
      by (intro map_cong) auto
    with True e show ?thesis by simp
  next
    case False
    with Cons e have "a < k" and "k \<in> fst ` set es" by auto
    with Cons e False show ?thesis by auto
  qed
qed simp

lemma sum_replaced:
  assumes "bm_get m k = Some w"
  shows "sum_list (map (\<lambda>(i, v). if i = k then new else v) (bm_entries m))
         = bm_sum (\<lambda>v. v) (bm_insert k new m)"
proof -
  from assms have "k \<in> fst ` set (bm_entries m)"
    by (force simp: bm_get_def dest: map_of_SomeD)
  then have "bm_entries (bm_insert k new m)
      = map (\<lambda>(i, w). if i = k then (i, new) else (i, w)) (bm_entries m)"
    using bm.entries_sorted [of m] by (simp add: entries_insert_present)
  then show ?thesis
    by (simp add: bm_sum_def comp_def case_prod_beta' if_distrib [of snd] del: bm_insert.rep_eq
        cong: if_cong)
qed

lemma ledger_update_frame [simp]:
  "supply_sum (s\<lparr>chain_vaults := vs\<rparr>) = supply_sum s"
  "reserve_sum (s\<lparr>chain_vaults := vs\<rparr>) = reserve_sum s"
  "pending_sum (s\<lparr>chain_vaults := vs\<rparr>) = pending_sum s"
  "debt_sum (s\<lparr>chain_supplies := cs\<rparr>) = debt_sum s"
  "reserve_sum (s\<lparr>chain_supplies := cs\<rparr>) = reserve_sum s"
  "pending_sum (s\<lparr>chain_supplies := cs\<rparr>) = pending_sum s"
  by (simp_all add: ledger_sums)

text \<open>The amount debited from a backing map leaves its sum, whether or not the entry is dropped.\<close>

lemma debit_map_sum:
  assumes "amt \<le> bm_get_or 0 m chain" and "bm_sum (\<lambda>v. v) m \<le> u128_max"
  shows "bm_sum (\<lambda>v. v) (debit_map chain amt m) + amt = bm_sum (\<lambda>v. v) m"
proof -
  have "bm_get_or 0 m chain \<le> u128_max"
    using bm_get_or_le_sum [of m chain] assms(2) by linarith
  with assms(1) have new: "wrap_sub128 (bm_get_or 0 m chain) amt = bm_get_or 0 m chain - amt"
    by simp
  have rem: "bm_sum (\<lambda>v. v) (bm_remove chain m) + bm_get_or 0 m chain = bm_sum (\<lambda>v. v) m"
    using bm_sum_remove [of "\<lambda>v. v" chain m] by (auto simp: bm_get_or_def split: option.splits)
  show ?thesis
    using new rem assms(1) bm_sum_id_insert [of chain "bm_get_or 0 m chain - amt" m]
    by (auto simp: debit_map_def Let_def)
qed

section \<open>Settling a burn against a backing term\<close>

lemma debit_backing_sums:
  assumes b: "backed s" and le: "amt \<le> backing_term_value s chain term"
  shows "reserve_sum (debit_backing_term s chain amt term) + pending_sum (debit_backing_term s chain amt term) + amt
           = reserve_sum s + pending_sum s"
    and "debt_sum (debit_backing_term s chain amt term) = debt_sum s"
    and "supply_sum (debit_backing_term s chain amt term) = supply_sum s"
    and "backing_rhs_after_settlement s amt term = debt_sum s + reserve_sum s + pending_sum s - amt"
proof -
  note bounds = backed_bounds [OF b]
  have le_sum: "backing_term_value s chain term
      \<le> (case term of PendingChainBurn \<Rightarrow> pending_sum s | ReserveBacking \<Rightarrow> reserve_sum s)"
    by (cases "term") (simp_all add: ledger_sums bm_get_or_le_sum)
  show "backing_rhs_after_settlement s amt term = debt_sum s + reserve_sum s + pending_sum s - amt"
    using bounds le le_sum by (cases "term") (simp_all add: backing_rhs_after_settlement_def backed_totals [OF b])
  show "reserve_sum (debit_backing_term s chain amt term) + pending_sum (debit_backing_term s chain amt term) + amt
      = reserve_sum s + pending_sum s"
  proof (cases "term")
    case PendingChainBurn
    with le bounds(4) debit_map_sum [of amt "pending_chain_burn_e8s s" chain] show ?thesis
      by (simp add: ledger_sums)
  next
    case ReserveBacking
    with le bounds(3) debit_map_sum [of amt "reserve_backing_e8s s" chain] show ?thesis
      by (simp add: ledger_sums)
  qed
  show "debt_sum (debit_backing_term s chain amt term) = debt_sum s"
    "supply_sum (debit_backing_term s chain amt term) = supply_sum s"
    by (cases "term"; simp add: ledger_sums)+
qed

definition settle_ready :: "multi_chain_state \<Rightarrow> chain_id \<Rightarrow> u128 \<Rightarrow> backing_term \<Rightarrow> bool" where
  "settle_ready s chain amt term \<longleftrightarrow>
     \<not> invariant_halted s \<and> 0 < amt \<and> bm_has (chain_supplies s) chain
     \<and> amt \<le> bm_get_or 0 (chain_supplies s) chain \<and> amt \<le> backing_term_value s chain term"

definition settled_state :: "multi_chain_state \<Rightarrow> chain_id \<Rightarrow> u128 \<Rightarrow> backing_term \<Rightarrow> multi_chain_state" where
  "settled_state s chain amt term =
     debit_backing_term
       (s\<lparr>chain_supplies := bm_insert chain (bm_get_or 0 (chain_supplies s) chain - amt) (chain_supplies s)\<rparr>)
       chain amt term"

lemma settle_backing_burn_exact:
  assumes b: "backed s"
  shows "settle_backing_burn s chain amt term = Ok t
           \<longleftrightarrow> settle_ready s chain amt term \<and> t = settled_state s chain amt term"
proof (cases "bm_get (chain_supplies s) chain")
  case None
  then show ?thesis by (simp add: settle_backing_burn_def settle_ready_def bm_has_def)
next
  case (Some cur)
  have eq: "amt \<le> backing_term_value s chain term \<Longrightarrow>
      total_supply_all_chains_e8s s - amt = backing_rhs_after_settlement s amt term"
    using debit_backing_sums(4) [OF b] by (simp add: backed_totals [OF b] backed_eq [OF b])
  show ?thesis using Some eq
    by (auto simp: settle_backing_burn_def settle_ready_def settled_state_def bm_has_def
        bm_get_or_Some Let_def)
qed

lemma settled_state_sums:
  assumes b: "backed s" and r: "settle_ready s chain amt term"
  shows "supply_sum (settled_state s chain amt term) + amt = supply_sum s"
    and "backing_sum (settled_state s chain amt term) + amt = backing_sum s"
    and "debt_sum (settled_state s chain amt term) = debt_sum s"
proof -
  let ?cs = "bm_insert chain (bm_get_or 0 (chain_supplies s) chain - amt) (chain_supplies s)"
  let ?s = "s\<lparr>chain_supplies := ?cs\<rparr>"
  have val: "backing_term_value ?s chain term = backing_term_value s chain term"
    by (cases "term") simp_all
  have deb: "reserve_sum (debit_backing_term ?s chain amt term) = reserve_sum (debit_backing_term s chain amt term)"
    "pending_sum (debit_backing_term ?s chain amt term) = pending_sum (debit_backing_term s chain amt term)"
    "debt_sum (debit_backing_term ?s chain amt term) = debt_sum s"
    "supply_sum (debit_backing_term ?s chain amt term) = bm_sum (\<lambda>v. v) ?cs"
    by (cases "term"; simp add: ledger_sums)+
  show "supply_sum (settled_state s chain amt term) + amt = supply_sum s"
    using r bm_sum_id_insert [of chain "bm_get_or 0 (chain_supplies s) chain - amt" "chain_supplies s"]
    unfolding settled_state_def deb settle_ready_def supply_sum_def [of s] by linarith
  show "backing_sum (settled_state s chain amt term) + amt = backing_sum s"
    using debit_backing_sums(1) [OF b, of amt chain "term"] r
    unfolding settled_state_def backing_sum_def deb settle_ready_def by linarith
  show "debt_sum (settled_state s chain amt term) = debt_sum s"
    by (simp add: settled_state_def deb)
qed

lemma backed_settled_state:
  "backed s \<Longrightarrow> settle_ready s chain amt term \<Longrightarrow> backed (settled_state s chain amt term)"
  using settled_state_sums [of s chain amt "term"] by (simp add: backed_def)

section \<open>Debt shifts\<close>

text \<open>Clearing \<open>amt\<close> of a vault's debt: the condition every shift checks, and the vault write.\<close>

definition clearable :: "multi_chain_state \<Rightarrow> chain_id \<Rightarrow> u64 \<Rightarrow> u128 \<Rightarrow> bool" where
  "clearable s chain vid amt \<longleftrightarrow> \<not> invariant_halted s \<and>
     (\<exists>v. bm_get (chain_vaults s) vid = Some v \<and> cv_collateral_chain v = chain \<and> amt \<le> cv_debt_e8s v)"

definition clear_debt :: "multi_chain_state \<Rightarrow> u64 \<Rightarrow> u128 \<Rightarrow> multi_chain_state" where
  "clear_debt s vid amt =
     s\<lparr>chain_vaults := bm_modify vid (\<lambda>v. v\<lparr>cv_debt_e8s := cv_debt_e8s v - amt\<rparr>) (chain_vaults s)\<rparr>"

lemma clear_debt_sums:
  assumes "clearable s chain vid amt"
  shows "debt_sum (clear_debt s vid amt) + amt = debt_sum s" and "amt \<le> debt_sum s"
    and "supply_sum (clear_debt s vid amt) = supply_sum s"
    and "reserve_sum (clear_debt s vid amt) = reserve_sum s"
    and "pending_sum (clear_debt s vid amt) = pending_sum s"
proof -
  from assms obtain v where v: "bm_get (chain_vaults s) vid = Some v" "amt \<le> cv_debt_e8s v"
    by (auto simp: clearable_def)
  show "debt_sum (clear_debt s vid amt) + amt = debt_sum s"
    using v bm_sum_insert_old [OF v(1), of cv_debt_e8s "v\<lparr>cv_debt_e8s := cv_debt_e8s v - amt\<rparr>"]
    by (simp add: clear_debt_def debt_sum_def bm_modify_def)
  show "amt \<le> debt_sum s"
    using v bm_sum_ge [OF v(1), of cv_debt_e8s] by (simp add: debt_sum_def)
qed (simp_all add: clear_debt_def)

lemma debt_to_reserve_exact:
  assumes b: "backed s"
  shows "apply_debt_to_reserve_shift s chain vid amt stable_native = Ok t
    \<longleftrightarrow> clearable s chain vid amt \<and>
        t = (clear_debt s vid amt)
              \<lparr>reserve_backing_e8s := bm_insert chain (bm_get_or 0 (reserve_backing_e8s s) chain + amt)
                                        (reserve_backing_e8s s),
               reserve_usdc_native := bm_insert chain (wrap_add128 (bm_get_or 0 (reserve_usdc_native s) chain) stable_native)
                                        (reserve_usdc_native s)\<rparr>"
proof (cases "clearable s chain vid amt")
  case True
  note le = clear_debt_sums(2) [OF True] and bounds = backed_bounds [OF b]
  have "bm_get_or 0 (reserve_backing_e8s s) chain \<le> reserve_sum s"
    by (simp add: reserve_sum_def bm_get_or_le_sum)
  then have "bm_get_or 0 (reserve_backing_e8s s) chain + amt \<le> u128_max"
    using le bounds by linarith
  with True le bounds backed_eq [OF b] show ?thesis
    by (auto simp: apply_debt_to_reserve_shift_def clearable_def clear_debt_def bm_modify_def
        backed_totals [OF b])
next
  case False
  then show ?thesis
    by (auto simp: apply_debt_to_reserve_shift_def clearable_def Let_def split: option.splits)
qed

lemma debt_to_pending_exact:
  assumes b: "backed s"
  shows "apply_debt_to_pending_burn_shift s chain vid amt = Ok t
    \<longleftrightarrow> clearable s chain vid amt \<and>
        t = (clear_debt s vid amt)
              \<lparr>pending_chain_burn_e8s := bm_insert chain (bm_get_or 0 (pending_chain_burn_e8s s) chain + amt)
                                           (pending_chain_burn_e8s s)\<rparr>"
proof (cases "clearable s chain vid amt")
  case True
  note le = clear_debt_sums(2) [OF True] and bounds = backed_bounds [OF b]
  have "bm_get_or 0 (pending_chain_burn_e8s s) chain \<le> pending_sum s"
    by (simp add: pending_sum_def bm_get_or_le_sum)
  then have "bm_get_or 0 (pending_chain_burn_e8s s) chain + amt \<le> u128_max"
    using le bounds by linarith
  with True le bounds backed_eq [OF b] show ?thesis
    by (auto simp: apply_debt_to_pending_burn_shift_def clearable_def clear_debt_def bm_modify_def
        backed_totals [OF b])
next
  case False
  then show ?thesis
    by (auto simp: apply_debt_to_pending_burn_shift_def clearable_def Let_def split: option.splits)
qed

lemma credit_reserve_sums:
  "reserve_sum (s\<lparr>reserve_backing_e8s := bm_insert c (bm_get_or 0 (reserve_backing_e8s s) c + amt) (reserve_backing_e8s s),
                 reserve_usdc_native := u\<rparr>) = reserve_sum s + amt"
  using bm_sum_id_insert [of c "bm_get_or 0 (reserve_backing_e8s s) c + amt" "reserve_backing_e8s s"]
  by (simp add: reserve_sum_def)

lemma credit_pending_sums:
  "pending_sum (s\<lparr>pending_chain_burn_e8s := bm_insert c (bm_get_or 0 (pending_chain_burn_e8s s) c + amt)
                   (pending_chain_burn_e8s s)\<rparr>) = pending_sum s + amt"
  using bm_sum_id_insert [of c "bm_get_or 0 (pending_chain_burn_e8s s) c + amt" "pending_chain_burn_e8s s"]
  by (simp add: pending_sum_def)

lemma debt_to_reserve_sums:
  assumes b: "backed s" and ok: "apply_debt_to_reserve_shift s chain vid amt n = Ok t"
  shows "debt_sum t + amt = debt_sum s" "reserve_sum t = reserve_sum s + amt"
    "pending_sum t = pending_sum s" "supply_sum t = supply_sum s"
proof -
  from ok have c: "clearable s chain vid amt" by (simp only: debt_to_reserve_exact [OF b])
  from ok obtain u where t: "t = (clear_debt s vid amt)
      \<lparr>reserve_backing_e8s := bm_insert chain (bm_get_or 0 (reserve_backing_e8s s) chain + amt) (reserve_backing_e8s s),
       reserve_usdc_native := u\<rparr>"
    by (simp only: debt_to_reserve_exact [OF b])
  have same: "reserve_backing_e8s (clear_debt s vid amt) = reserve_backing_e8s s"
    by (simp add: clear_debt_def)
  show "reserve_sum t = reserve_sum s + amt"
    using credit_reserve_sums [where s = "clear_debt s vid amt" and c = chain and amt = amt and u = u] clear_debt_sums(4) [OF c]
    by (simp only: t same)
  have "debt_sum t = debt_sum (clear_debt s vid amt)" "pending_sum t = pending_sum (clear_debt s vid amt)"
    "supply_sum t = supply_sum (clear_debt s vid amt)"
    by (simp_all add: t ledger_sums)
  then show "debt_sum t + amt = debt_sum s" "pending_sum t = pending_sum s" "supply_sum t = supply_sum s"
    using clear_debt_sums [OF c] by (simp_all only:)
qed

lemma debt_to_pending_sums:
  assumes b: "backed s" and ok: "apply_debt_to_pending_burn_shift s chain vid amt = Ok t"
  shows "debt_sum t + amt = debt_sum s" "pending_sum t = pending_sum s + amt"
    "reserve_sum t = reserve_sum s" "supply_sum t = supply_sum s"
proof -
  from ok have c: "clearable s chain vid amt" by (simp only: debt_to_pending_exact [OF b])
  from ok have t: "t = (clear_debt s vid amt)
      \<lparr>pending_chain_burn_e8s := bm_insert chain (bm_get_or 0 (pending_chain_burn_e8s s) chain + amt)
                                   (pending_chain_burn_e8s s)\<rparr>"
    by (simp only: debt_to_pending_exact [OF b])
  have same: "pending_chain_burn_e8s (clear_debt s vid amt) = pending_chain_burn_e8s s"
    by (simp add: clear_debt_def)
  show "pending_sum t = pending_sum s + amt"
    using credit_pending_sums [where s = "clear_debt s vid amt" and c = chain and amt = amt] clear_debt_sums(5) [OF c]
    by (simp only: t same)
  have "debt_sum t = debt_sum (clear_debt s vid amt)" "reserve_sum t = reserve_sum (clear_debt s vid amt)"
    "supply_sum t = supply_sum (clear_debt s vid amt)"
    by (simp_all add: t ledger_sums)
  then show "debt_sum t + amt = debt_sum s" "reserve_sum t = reserve_sum s" "supply_sum t = supply_sum s"
    using clear_debt_sums [OF c] by (simp_all only:)
qed

lemma pending_to_supply_exact:
  assumes b: "backed s"
  shows "apply_pending_burn_to_supply_shift s chain amt = Ok t
    \<longleftrightarrow> \<not> invariant_halted s \<and> bm_has (chain_supplies s) chain
        \<and> amt \<le> bm_get_or 0 (pending_chain_burn_e8s s) chain
        \<and> amt \<le> bm_get_or 0 (chain_supplies s) chain
        \<and> t = s\<lparr>pending_chain_burn_e8s := bm_insert chain (bm_get_or 0 (pending_chain_burn_e8s s) chain - amt)
                                               (pending_chain_burn_e8s s),
                chain_supplies := bm_insert chain (bm_get_or 0 (chain_supplies s) chain - amt) (chain_supplies s)\<rparr>"
proof -
  note bounds = backed_bounds [OF b]
  have "bm_get_or 0 (pending_chain_burn_e8s s) chain \<le> pending_sum s"
    by (simp add: pending_sum_def bm_get_or_le_sum)
  then have "amt \<le> bm_get_or 0 (pending_chain_burn_e8s s) chain \<Longrightarrow>
      debt_sum s + reserve_sum s + (pending_sum s - amt) = supply_sum s - amt
      \<and> debt_sum s + reserve_sum s + (pending_sum s - amt) \<le> u128_max"
    using bounds backed_eq [OF b] by linarith
  with bounds show ?thesis
    by (cases "bm_get (chain_supplies s) chain")
      (auto simp: apply_pending_burn_to_supply_shift_def backed_totals [OF b] bm_has_def bm_get_or_Some Let_def)
qed

lemma debit_entry_sum:
  assumes "amt \<le> bm_get_or 0 m c"
  shows "bm_sum (\<lambda>v. v) (bm_insert c (bm_get_or 0 m c - amt) m) + amt = bm_sum (\<lambda>v. v) m"
  using bm_sum_id_insert [of c "bm_get_or 0 m c - amt" m] assms by linarith

section \<open>The contract of a move between the two sides\<close>

text \<open>A ledger move takes the same amount from both sides, or none, and never grows the supply.
  Whatever keeps this contract keeps the books balanced along any batch of calls, a failing
  call leaving the state as it was.\<close>

definition run_batch :: "('a \<Rightarrow> 's \<Rightarrow> ('e, 's) outcome) \<Rightarrow> 'a list \<Rightarrow> 's \<Rightarrow> 's" where
  "run_batch f as s = fold (\<lambda>a s. case f a s of Ok t \<Rightarrow> t | Err _ \<Rightarrow> s | Trap \<Rightarrow> s) as s"

locale balanced_ledger =
  fixes assets :: "'s \<Rightarrow> nat" and liabilities :: "'s \<Rightarrow> nat" and cap :: nat
    and move :: "'a \<Rightarrow> 's \<Rightarrow> ('e, 's) outcome"
  assumes both_sides: "assets s = liabilities s \<Longrightarrow> assets s \<le> cap \<Longrightarrow> move a s = Ok t
      \<Longrightarrow> assets t + liabilities s = assets s + liabilities t"
    and no_growth: "assets s = liabilities s \<Longrightarrow> assets s \<le> cap \<Longrightarrow> move a s = Ok t
      \<Longrightarrow> assets t \<le> assets s"
begin

lemma step_balanced:
  assumes "assets s = liabilities s \<and> assets s \<le> cap" and "move a s = Ok t"
  shows "assets t = liabilities t \<and> assets t \<le> assets s"
  using both_sides [of s a t] no_growth [of s a t] assms by simp

lemma batch_balanced:
  "assets s = liabilities s \<and> assets s \<le> cap \<Longrightarrow>
   assets (run_batch move as s) = liabilities (run_batch move as s)
   \<and> assets (run_batch move as s) \<le> assets s"
proof (induction as arbitrary: s)
  case Nil
  then show ?case by (simp add: run_batch_def)
next
  case (Cons a as)
  define t where "t = (case move a s of Ok t \<Rightarrow> t | Err _ \<Rightarrow> s | Trap \<Rightarrow> s)"
  have t: "assets t = liabilities t \<and> assets t \<le> assets s"
  proof (cases "move a s")
    case (Ok u)
    then show ?thesis using step_balanced [OF Cons.prems Ok] unfolding t_def by auto
  qed (use Cons.prems in \<open>simp_all only: t_def outcome.case order_refl\<close>)
  have "run_batch move (a # as) s = run_batch move as t" by (simp add: run_batch_def t_def)
  moreover have "assets t = liabilities t \<and> assets t \<le> cap"
    using t Cons.prems le_trans by blast
  ultimately show ?case using Cons.IH [of t] t le_trans by metis
qed

end

datatype ledger_move =
    SettlePending chain_id u128
  | SettleReserve chain_id u128
  | SettlePendingProof chain_id verified_burn_settlement_proof u64
  | SettleReserveProof chain_id verified_reserve_settlement_proof u64
  | DebtToReserve chain_id u64 u128 u128
  | DebtToPending chain_id u64 u128
  | PendingToSupply chain_id u128

definition drop_err :: "('e, 'a) outcome \<Rightarrow> (unit, 'a) outcome" where
  "drop_err r = map_err (\<lambda>_. ()) r"

fun ledger_step :: "ledger_move \<Rightarrow> multi_chain_state \<Rightarrow> (unit, multi_chain_state) outcome" where
  "ledger_step (SettlePending c a) s = drop_err (settle_pending_chain_burn s c a)"
| "ledger_step (SettleReserve c a) s = drop_err (settle_reserve_burn s c a)"
| "ledger_step (SettlePendingProof c p n) s = drop_err (settle_pending_chain_burn_with_verified_proof s c p n)"
| "ledger_step (SettleReserveProof c p n) s = drop_err (settle_reserve_burn_with_verified_proof s c p n)"
| "ledger_step (DebtToReserve c v a n) s = drop_err (apply_debt_to_reserve_shift s c v a n)"
| "ledger_step (DebtToPending c v a) s = drop_err (apply_debt_to_pending_burn_shift s c v a)"
| "ledger_step (PendingToSupply c a) s = drop_err (apply_pending_burn_to_supply_shift s c a)"

lemma pending_proof_Ok:
  assumes "settle_pending_chain_burn_with_verified_proof s chain pf now = Ok t"
  obtains n where "settle_pending_chain_burn s chain (vb_amount_e8s pf) = Ok n"
    and "\<not> bm_has (settled_pending_burn_proofs s) (vb_proof_id pf)"
    and "\<not> bs_mem (settlement_burn_key (vb_tx_hash pf) (vb_log_index pf)) (settled_settlement_burn_logs s)"
    and "t = n\<lparr>settled_settlement_burn_logs :=
                 bs_insert (settlement_burn_key (vb_tx_hash pf) (vb_log_index pf)) (settled_settlement_burn_logs n),
               settled_pending_burn_proofs :=
                 bm_insert (vb_proof_id pf)
                   \<lparr>sp_proof_id = vb_proof_id pf, sp_chain_id = chain, sp_tx_hash = vb_tx_hash pf,
                    sp_log_index = vb_log_index pf, sp_amount_e8s = vb_amount_e8s pf,
                    sp_block_number = vb_block_number pf, sp_recorded_at_ns = now\<rparr>
                   (settled_pending_burn_proofs n)\<rparr>"
  using assms unfolding settle_pending_chain_burn_with_verified_proof_def Let_def
  by (auto split: if_splits outcome.splits)

lemma reserve_proof_Ok:
  assumes "settle_reserve_burn_with_verified_proof s chain pf now = Ok t"
  obtains n where "settle_reserve_burn s chain (vr_amount_e8s pf) = Ok n"
    and "\<not> bm_has (settled_reserve_burn_proofs s) (vr_proof_id pf)"
    and "\<not> bs_mem (settlement_burn_key (vr_burn_tx_hash pf) (vr_burn_log_index pf)) (settled_settlement_burn_logs s)"
    and "bm_get_or 0 (settled_reserve_transfer_e8s s)
           (reserve_transfer_key (vr_reserve_tx_hash pf) (vr_reserve_transfer_log_index pf)) + vr_amount_e8s pf
         \<le> vr_reserve_transfer_amount_e8s pf"
    and "t = n\<lparr>settled_settlement_burn_logs :=
                 bs_insert (settlement_burn_key (vr_burn_tx_hash pf) (vr_burn_log_index pf)) (settled_settlement_burn_logs n),
               settled_reserve_transfer_e8s :=
                 bm_insert (reserve_transfer_key (vr_reserve_tx_hash pf) (vr_reserve_transfer_log_index pf))
                   (bm_get_or 0 (settled_reserve_transfer_e8s s)
                      (reserve_transfer_key (vr_reserve_tx_hash pf) (vr_reserve_transfer_log_index pf)) + vr_amount_e8s pf)
                   (settled_reserve_transfer_e8s n),
               settled_reserve_burn_proofs :=
                 bm_insert (vr_proof_id pf)
                   \<lparr>sp_proof_id = vr_proof_id pf, sp_chain_id = chain, sp_tx_hash = vr_burn_tx_hash pf,
                    sp_log_index = vr_burn_log_index pf, sp_amount_e8s = vr_amount_e8s pf,
                    sp_block_number = vr_burn_block_number pf, sp_recorded_at_ns = now\<rparr>
                   (settled_reserve_burn_proofs n)\<rparr>"
  using assms unfolding settle_reserve_burn_with_verified_proof_def Let_def
  by (auto split: if_splits outcome.splits option.splits simp: checked_add128_Some)

lemma pending_proof_books:
  assumes "settle_pending_chain_burn_with_verified_proof s c p n = Ok t"
  shows "\<exists>u. settle_pending_chain_burn s c (vb_amount_e8s p) = Ok u
    \<and> supply_sum t = supply_sum u \<and> debt_sum t = debt_sum u \<and> backed t = backed u"
  using assms by (rule pending_proof_Ok) (simp add: backed_def ledger_sums)

lemma reserve_proof_books:
  assumes "settle_reserve_burn_with_verified_proof s c p n = Ok t"
  shows "\<exists>u. settle_reserve_burn s c (vr_amount_e8s p) = Ok u
    \<and> supply_sum t = supply_sum u \<and> debt_sum t = debt_sum u \<and> backed t = backed u"
  using assms by (rule reserve_proof_Ok) (simp add: backed_def ledger_sums)

lemma drop_err_Ok [simp]: "drop_err r = Ok a \<longleftrightarrow> r = Ok a"
  by (simp add: drop_err_def)

lemma settle_keeps_backed:
  assumes b: "backed s" and ok: "settle_backing_burn s chain amt term = Ok t"
  shows "backed t" and "supply_sum t + amt = supply_sum s" and "debt_sum t = debt_sum s"
proof -
  from ok have r: "settle_ready s chain amt term" and t: "t = settled_state s chain amt term"
    by (simp_all add: settle_backing_burn_exact [OF b])
  show "backed t" using backed_settled_state [OF b r] by (simp add: t)
  show "supply_sum t + amt = supply_sum s" "debt_sum t = debt_sum s"
    using settled_state_sums [OF b r] by (simp_all add: t)
qed

lemma ledger_step_keeps_backed:
  assumes b: "backed s" and ok: "ledger_step m s = Ok t"
  shows "backed t \<and> supply_sum t \<le> supply_sum s"
proof (cases m)
  case (SettlePending c a)
  with ok settle_keeps_backed [OF b, of c a PendingChainBurn t] show ?thesis
    by (simp add: settle_pending_chain_burn_def)
next
  case (SettleReserve c a)
  with ok settle_keeps_backed [OF b, of c a ReserveBacking t] show ?thesis
    by (simp add: settle_reserve_burn_def)
next
  case (SettlePendingProof c p n)
  with ok obtain u where u: "settle_pending_chain_burn s c (vb_amount_e8s p) = Ok u"
    and frame: "supply_sum t = supply_sum u" "backed t = backed u"
    using pending_proof_books by fastforce
  with settle_keeps_backed [OF b, of c "vb_amount_e8s p" PendingChainBurn u] show ?thesis
    by (simp add: settle_pending_chain_burn_def)
next
  case (SettleReserveProof c p n)
  with ok obtain u where u: "settle_reserve_burn s c (vr_amount_e8s p) = Ok u"
    and frame: "supply_sum t = supply_sum u" "backed t = backed u"
    using reserve_proof_books by fastforce
  with settle_keeps_backed [OF b, of c "vr_amount_e8s p" ReserveBacking u] show ?thesis
    by (simp add: settle_reserve_burn_def)
next
  case (DebtToReserve c v a n)
  with ok debt_to_reserve_sums [OF b, of c v a n t] b show ?thesis
    by (auto simp: backed_def backing_sum_def)
next
  case (DebtToPending c v a)
  with ok debt_to_pending_sums [OF b, of c v a t] b show ?thesis
    by (auto simp: backed_def backing_sum_def)
next
  case (PendingToSupply c a)
  with ok b show ?thesis
    using debit_entry_sum [of a "pending_chain_burn_e8s s" c] debit_entry_sum [of a "chain_supplies s" c]
    by (auto simp: pending_to_supply_exact [OF b] backed_def ledger_sums)
qed

interpretation ledger: balanced_ledger supply_sum backing_sum u128_max ledger_step
proof unfold_locales
  fix s t m
  assume eq: "supply_sum s = backing_sum s" and cap: "supply_sum s \<le> u128_max" and ok: "ledger_step m s = Ok t"
  then have "backed s" by (simp add: backed_def)
  with ok have t: "backed t" "supply_sum t \<le> supply_sum s" using ledger_step_keeps_backed by blast+
  then show "supply_sum t + backing_sum s = supply_sum s + backing_sum t"
    unfolding backed_def using eq by linarith
  show "supply_sum t \<le> supply_sum s" by (rule t(2))
qed

section \<open>Supply deltas\<close>

text \<open>The supply after a delta, when the delta is applicable: \<open>None\<close> is an underflow.\<close>

fun delta_result :: "u128 \<Rightarrow> supply_delta \<Rightarrow> u128 option" where
  "delta_result current (Increase n) = Some (sat_add128 current n)"
| "delta_result current (Decrease n) = (if n > current then None else Some (current - n))"

lemma apply_supply_delta_Ok:
  "apply_supply_delta s chain delta debt = Ok t \<longleftrightarrow>
     \<not> invariant_halted s \<and>
     (\<exists>current new. bm_get (chain_supplies s) chain = Some current
        \<and> delta_result current delta = Some new
        \<and> wrap128 (bm_sum (\<lambda>v. v) (bm_insert chain new (chain_supplies s))) = chain_backing_rhs_e8s s debt
        \<and> t = s\<lparr>chain_supplies := bm_insert chain new (chain_supplies s)\<rparr>)"
proof (cases "bm_get (chain_supplies s) chain")
  case (Some cur)
  then show ?thesis
    by (cases delta) (auto simp: apply_supply_delta_def Let_def sum_replaced [OF Some])
qed (simp add: apply_supply_delta_def)

lemma apply_supply_delta_frame:
  assumes "apply_supply_delta s chain delta debt = Ok t"
  shows "\<exists>cs. t = s\<lparr>chain_supplies := cs\<rparr>"
  using assms by (auto simp: apply_supply_delta_Ok)

text \<open>A delta that is applied together with a debt write. \<open>d\<close> is the debt sum after the write,
  the total the caller hands in. With the books in range the machine sums are exact.\<close>

lemma apply_increase_Ok:
  assumes b: "backed s" and room: "supply_sum s + n \<le> u128_max" and d: "d \<le> u128_max"
    and ok: "apply_supply_delta s chain (Increase n) (wrap128 d) = Ok t"
  shows "supply_sum t = supply_sum s + n"
    and "supply_sum t = sat_add128 (sat_add128 d (reserve_sum s)) (pending_sum s)"
proof -
  from ok obtain cur where cur: "bm_get (chain_supplies s) chain = Some cur"
    and eq: "wrap128 (bm_sum (\<lambda>v. v) (bm_insert chain (sat_add128 cur n) (chain_supplies s)))
               = chain_backing_rhs_e8s s (wrap128 d)"
    and t: "t = s\<lparr>chain_supplies := bm_insert chain (sat_add128 cur n) (chain_supplies s)\<rparr>"
    by (auto simp: apply_supply_delta_Ok)
  have "cur \<le> supply_sum s" using bm_sum_ge [OF cur, of "\<lambda>v. v"] by (simp add: supply_sum_def)
  with room have sat: "sat_add128 cur n = cur + n" by simp
  have sum: "bm_sum (\<lambda>v. v) (bm_insert chain (cur + n) (chain_supplies s)) = supply_sum s + n"
    using bm_sum_insert_old [OF cur, of "\<lambda>v. v" "cur + n"] by (simp add: supply_sum_def)
  then show "supply_sum t = supply_sum s + n" by (simp add: t sat supply_sum_def)
  with eq sum room d show "supply_sum t = sat_add128 (sat_add128 d (reserve_sum s)) (pending_sum s)"
    by (simp add: sat chain_backing_rhs_e8s_def backed_totals [OF b])
qed

lemma apply_decrease_Ok:
  assumes b: "backed s" and d: "d \<le> u128_max"
    and ok: "apply_supply_delta s chain (Decrease n) (wrap128 d) = Ok t"
  shows "supply_sum t + n = supply_sum s"
    and "supply_sum t = sat_add128 (sat_add128 d (reserve_sum s)) (pending_sum s)"
proof -
  from ok obtain cur where cur: "bm_get (chain_supplies s) chain = Some cur" and le: "n \<le> cur"
    and eq: "wrap128 (bm_sum (\<lambda>v. v) (bm_insert chain (cur - n) (chain_supplies s)))
               = chain_backing_rhs_e8s s (wrap128 d)"
    and t: "t = s\<lparr>chain_supplies := bm_insert chain (cur - n) (chain_supplies s)\<rparr>"
    by (auto simp: apply_supply_delta_Ok split: if_splits)
  have sum: "bm_sum (\<lambda>v. v) (bm_insert chain (cur - n) (chain_supplies s)) + n = supply_sum s"
    using bm_sum_insert_old [OF cur, of "\<lambda>v. v" "cur - n"] le by (simp add: supply_sum_def)
  then show "supply_sum t + n = supply_sum s" by (simp add: t supply_sum_def)
  moreover have "supply_sum t = bm_sum (\<lambda>v. v) (bm_insert chain (cur - n) (chain_supplies s))"
    by (simp add: t supply_sum_def)
  ultimately show "supply_sum t = sat_add128 (sat_add128 d (reserve_sum s)) (pending_sum s)"
    using eq sum d backed_bounds [OF b]
    by (simp add: chain_backing_rhs_e8s_def backed_totals [OF b])
qed

section \<open>Proof keys\<close>

lemma last_sep_split:
  assumes "a @ sep # b = c @ sep # d" and "sep \<notin> set b" and "sep \<notin> set d"
  shows "a = c \<and> b = d"
proof -
  from assms(1) have "rev b @ sep # rev a = rev d @ sep # rev c"
    by (metis append_Cons append_assoc append_self_conv2 rev.simps(2) rev_append)
  with assms(2,3) digit_strings_split [of "rev b" sep "rev a" "rev d" "rev c"] show ?thesis by simp
qed

lemma settlement_burn_key_inject:
  "settlement_burn_key h i = settlement_burn_key h' i'
     \<longleftrightarrow> to_ascii_lowercase h = to_ascii_lowercase h' \<and> i = i'"
  using last_sep_split [of "to_ascii_lowercase h" "CHR '':''" "show_nat i" "to_ascii_lowercase h'" "show_nat i'"]
  by (auto simp: settlement_burn_key_def)

section \<open>Replay protection\<close>

text \<open>The foreign burn log a proof-gated move consumes, and the reserve transfer it draws on.\<close>

fun burn_log_of :: "ledger_move \<Rightarrow> string option" where
  "burn_log_of (SettlePendingProof c p n) = Some (settlement_burn_key (vb_tx_hash p) (vb_log_index p))"
| "burn_log_of (SettleReserveProof c p n) = Some (settlement_burn_key (vr_burn_tx_hash p) (vr_burn_log_index p))"
| "burn_log_of _ = None"

fun transfer_of :: "ledger_move \<Rightarrow> (string \<times> u128) option" where
  "transfer_of (SettleReserveProof c p n) =
     Some (reserve_transfer_key (vr_reserve_tx_hash p) (vr_reserve_transfer_log_index p),
           vr_reserve_transfer_amount_e8s p)"
| "transfer_of _ = None"

definition proof_maps_eq :: "multi_chain_state \<Rightarrow> multi_chain_state \<Rightarrow> bool" where
  "proof_maps_eq s t \<longleftrightarrow> settled_settlement_burn_logs t = settled_settlement_burn_logs s
     \<and> settled_reserve_transfer_e8s t = settled_reserve_transfer_e8s s"

lemma settle_backing_burn_proof_maps:
  assumes "settle_backing_burn s c a term = Ok t"
  shows "proof_maps_eq s t"
  using assms by (cases "term") (auto simp: settle_backing_burn_def proof_maps_eq_def Let_def
      split: if_splits option.splits)

lemma shift_proof_maps:
  "apply_debt_to_reserve_shift s c v a n = Ok t \<Longrightarrow> proof_maps_eq s t"
  "apply_debt_to_pending_burn_shift s c v a = Ok t \<Longrightarrow> proof_maps_eq s t"
  "apply_pending_burn_to_supply_shift s c a = Ok t \<Longrightarrow> proof_maps_eq s t"
  by (auto simp: apply_debt_to_reserve_shift_def apply_debt_to_pending_burn_shift_def
      apply_pending_burn_to_supply_shift_def proof_maps_eq_def Let_def split: if_splits option.splits)

text \<open>How a successful move changes the set of consumed logs and the consumption of a transfer.\<close>

definition proof_effect :: "ledger_move \<Rightarrow> multi_chain_state \<Rightarrow> multi_chain_state \<Rightarrow> bool" where
  "proof_effect m s t \<longleftrightarrow>
     (case burn_log_of m of
        None \<Rightarrow> settled_settlement_burn_logs t = settled_settlement_burn_logs s
      | Some k \<Rightarrow> \<not> bs_mem k (settled_settlement_burn_logs s)
          \<and> settled_settlement_burn_logs t = bs_insert k (settled_settlement_burn_logs s)) \<and>
     (case transfer_of m of
        None \<Rightarrow> settled_reserve_transfer_e8s t = settled_reserve_transfer_e8s s
      | Some (k, amt) \<Rightarrow> (\<exists>c. settled_reserve_transfer_e8s t = bm_insert k c (settled_reserve_transfer_e8s s)
           \<and> bm_get_or 0 (settled_reserve_transfer_e8s s) k \<le> c \<and> c \<le> amt))"

lemma proof_effect_plain:
  "proof_maps_eq s t \<Longrightarrow> burn_log_of m = None \<Longrightarrow> transfer_of m = None \<Longrightarrow> proof_effect m s t"
  by (simp add: proof_effect_def proof_maps_eq_def)

lemma ledger_step_proof_effect:
  assumes ok: "ledger_step m s = Ok t"
  shows "proof_effect m s t"
proof (cases m)
  case (SettlePendingProof c p n)
  with ok have "settle_pending_chain_burn_with_verified_proof s c p n = Ok t" by simp
  then obtain u where "settle_backing_burn s c (vb_amount_e8s p) PendingChainBurn = Ok u"
    and "\<not> bs_mem (settlement_burn_key (vb_tx_hash p) (vb_log_index p)) (settled_settlement_burn_logs s)"
    and "settled_settlement_burn_logs t =
      bs_insert (settlement_burn_key (vb_tx_hash p) (vb_log_index p)) (settled_settlement_burn_logs u)"
    and "settled_reserve_transfer_e8s t = settled_reserve_transfer_e8s u"
    by (rule pending_proof_Ok) (simp add: settle_pending_chain_burn_def)
  with SettlePendingProof show ?thesis
    using settle_backing_burn_proof_maps [of s c "vb_amount_e8s p" PendingChainBurn u]
    by (simp add: proof_effect_def proof_maps_eq_def)
next
  case (SettleReserveProof c p n)
  let ?k = "reserve_transfer_key (vr_reserve_tx_hash p) (vr_reserve_transfer_log_index p)"
  from SettleReserveProof ok have "settle_reserve_burn_with_verified_proof s c p n = Ok t" by simp
  then obtain u where "settle_backing_burn s c (vr_amount_e8s p) ReserveBacking = Ok u"
    and "\<not> bs_mem (settlement_burn_key (vr_burn_tx_hash p) (vr_burn_log_index p)) (settled_settlement_burn_logs s)"
    and "settled_settlement_burn_logs t =
      bs_insert (settlement_burn_key (vr_burn_tx_hash p) (vr_burn_log_index p)) (settled_settlement_burn_logs u)"
    and "settled_reserve_transfer_e8s t = bm_insert ?k
          (bm_get_or 0 (settled_reserve_transfer_e8s s) ?k + vr_amount_e8s p) (settled_reserve_transfer_e8s u)"
    and "bm_get_or 0 (settled_reserve_transfer_e8s s) ?k + vr_amount_e8s p \<le> vr_reserve_transfer_amount_e8s p"
    by (rule reserve_proof_Ok) (simp add: settle_reserve_burn_def)
  with SettleReserveProof show ?thesis
    using settle_backing_burn_proof_maps [of s c "vr_amount_e8s p" ReserveBacking u]
    by (auto simp: proof_effect_def proof_maps_eq_def)
qed (use ok in \<open>simp_all add: proof_effect_plain settle_pending_chain_burn_def settle_reserve_burn_def
    settle_backing_burn_proof_maps shift_proof_maps\<close>)

lemma run_batch_simps [simp]: "run_batch f (a # as) s = run_batch f as (case f a s of Ok t \<Rightarrow> t | Err _ \<Rightarrow> s | Trap \<Rightarrow> s)"
  "run_batch f [] s = s"
  by (simp_all add: run_batch_def)

lemma burn_log_persists:
  assumes "bs_mem k (settled_settlement_burn_logs s)"
  shows "bs_mem k (settled_settlement_burn_logs (run_batch ledger_step ms s))"
  using assms
proof (induction ms arbitrary: s)
  case (Cons m ms)
  have "bs_mem k (settled_settlement_burn_logs t)" if "ledger_step m s = Ok t" for t
    using ledger_step_proof_effect [OF that] Cons.prems
    by (auto simp: proof_effect_def split: option.splits)
  then show ?case using Cons.prems by (auto intro!: Cons.IH split: outcome.split)
qed simp

lemma transfer_within:
  assumes "\<And>m k a. m \<in> set ms \<Longrightarrow> transfer_of m = Some (k, a) \<Longrightarrow> a \<le> cap k"
    and "\<And>k. bm_get_or 0 (settled_reserve_transfer_e8s s) k \<le> cap k"
  shows "bm_get_or 0 (settled_reserve_transfer_e8s (run_batch ledger_step ms s)) k \<le> cap k"
  using assms
proof (induction ms arbitrary: s)
  case (Cons m ms)
  have step: "bm_get_or 0 (settled_reserve_transfer_e8s t) j \<le> cap j" if "ledger_step m s = Ok t" for t j
    using ledger_step_proof_effect [OF that] Cons.prems(1) [of m] Cons.prems(2) [of j]
    by (fastforce simp: proof_effect_def split: option.splits prod.splits intro: le_trans)
  have step': "bm_get_or 0 (settled_reserve_transfer_e8s (case ledger_step m s of Ok t \<Rightarrow> t | Err _ \<Rightarrow> s | Trap \<Rightarrow> s)) j
      \<le> cap j" for j
    using step Cons.prems(2) by (simp split: outcome.split)
  show ?case
    unfolding run_batch_simps
  proof (rule Cons.IH)
    show "a \<le> cap k" if "m \<in> set ms" "transfer_of m = Some (k, a)" for m k a
      using Cons.prems(1) that by auto
  qed (rule step')
qed simp

section \<open>Properties\<close>

text \<open>A state with balanced books, on which the hypotheses of the properties are exhibited.\<close>

definition sample_vault :: chain_vault where
  "sample_vault = \<lparr>cv_vault_id = 1, cv_owner = 7, cv_collateral_chain = 10143, cv_custody_address = ''0xc'',
     cv_collateral_amount_native = 1000, cv_debt_e8s = 300, cv_mint_recipient = ''0xr'',
     cv_pending_mint_e8s = 0, cv_status = Open, cv_opened_at_ns = 1, cv_owner_evm = None,
     cv_last_interest_accrual_ns = 1, cv_pending_interest_mint_e8s = 0, cv_pending_liquidation = None\<rparr>"

definition sample_state :: multi_chain_state where
  "sample_state = multi_chain_default
     \<lparr>chain_supplies := bm_insert 10143 500 bm_empty,
      chain_vaults := bm_insert 1 sample_vault bm_empty,
      reserve_backing_e8s := bm_insert 10143 150 bm_empty,
      pending_chain_burn_e8s := bm_insert 10143 50 bm_empty\<rparr>"

definition sample_burn_proof :: verified_burn_settlement_proof where
  "sample_burn_proof = \<lparr>vb_proof_id = ''p1'', vb_tx_hash = ''0xAB'', vb_log_index = 3, vb_block_number = 9,
     vb_vault_id = 1, vb_burner = ''0xb'', vb_amount_e8s = 20\<rparr>"

definition sample_reserve_proof :: verified_reserve_settlement_proof where
  "sample_reserve_proof = \<lparr>vr_proof_id = ''r1'', vr_burn_tx_hash = ''0xab'', vr_burn_log_index = 3,
     vr_burn_block_number = 9, vr_reserve_tx_hash = ''0xdd'', vr_reserve_transfer_log_index = 0,
     vr_reserve_block_number = 8, vr_vault_id = 1, vr_burner = ''0xb'', vr_amount_e8s = 20,
     vr_reserve_transfer_amount_native = 1, vr_reserve_transfer_amount_e8s = 60\<rparr>"

lemma backed_sample: "backed sample_state"
  by (simp add: backed_def ledger_sums sample_state_def sample_vault_def u128_max_def)

text \<open>Any sequence of the supply moves (burn settlements with or without a verified proof,
  debt to reserve, debt to pending burn, pending burn to supply), a failing move leaving the
  state untouched, keeps the books of a balanced state balanced and never grows the supply.\<close>

theorem ledger_moves_keep_backed:
  assumes "backed s"
  shows "backed (run_batch ledger_step ms s) \<and> supply_sum (run_batch ledger_step ms s) \<le> supply_sum s"
  using ledger.batch_balanced [of s ms] assms unfolding backed_def by (metis le_trans)

theorem ledger_moves_keep_backed_witness:
  "backed (run_batch ledger_step [DebtToPending 10143 1 100, PendingToSupply 10143 120] sample_state)
   \<and> supply_sum (run_batch ledger_step [DebtToPending 10143 1 100, PendingToSupply 10143 120] sample_state)
       \<le> supply_sum sample_state"
  by (rule ledger_moves_keep_backed [OF backed_sample])

text \<open>C16. On balanced books a burn settles exactly when the guards of the code hold (not halted,
  positive amount, enough supply and enough of the chosen backing term); the self-check never
  rejects it, supply and backing fall by the settled amount, and vault debt is untouched.\<close>

theorem settle_backing_burn_correct:
  assumes "backed s"
  shows "settle_backing_burn s chain amt term = Ok t
     \<longleftrightarrow> settle_ready s chain amt term \<and> t = settled_state s chain amt term
         \<and> supply_sum t + amt = supply_sum s \<and> backing_sum t + amt = backing_sum s
         \<and> debt_sum t = debt_sum s"
  by (auto simp: settle_backing_burn_exact [OF assms] settled_state_sums [OF assms])

theorem settle_backing_burn_correct_witness:
  "settle_backing_burn sample_state 10143 20 PendingChainBurn
     = Ok (settled_state sample_state 10143 20 PendingChainBurn)"
proof -
  have "settle_ready sample_state 10143 20 PendingChainBurn"
    by (simp add: settle_ready_def sample_state_def multi_chain_default_def)
  with settled_state_sums [OF backed_sample this] show ?thesis
    by (simp add: settle_backing_burn_correct [OF backed_sample])
qed

text \<open>C14. A foreign burn log is consumed once. After a proof-gated settlement, whatever moves
  follow, a proof of either kind for the same transaction hash (in any letter case) and log index
  is refused.\<close>

theorem burn_log_settles_once:
  assumes "ledger_step m s = Ok t" and "burn_log_of m = Some k" and "burn_log_of m' = Some k"
  shows "\<not> is_Ok (ledger_step m' (run_batch ledger_step ms t))"
proof -
  have "bs_mem k (settled_settlement_burn_logs (run_batch ledger_step ms t))"
    using ledger_step_proof_effect [OF assms(1)] assms(2)
    by (intro burn_log_persists) (simp add: proof_effect_def)
  then show ?thesis
    using ledger_step_proof_effect [of m'] assms(3) by (fastforce simp: is_Ok_iff proof_effect_def)
qed

theorem burn_log_settles_once_witness:
  "\<exists>t. ledger_step (SettlePendingProof 10143 sample_burn_proof 5) sample_state = Ok t
     \<and> \<not> is_Ok (ledger_step (SettleReserveProof 10143 sample_reserve_proof 6)
              (run_batch ledger_step [PendingToSupply 10143 5] t))"
proof -
  have k: "burn_log_of (SettlePendingProof 10143 sample_burn_proof 5)
      = Some (settlement_burn_key ''0xab'' 3)"
    "burn_log_of (SettleReserveProof 10143 sample_reserve_proof 6) = Some (settlement_burn_key ''0xab'' 3)"
    by (simp_all add: sample_burn_proof_def sample_reserve_proof_def settlement_burn_key_inject
        to_ascii_lowercase_def ascii_lower_def char_of_def bit_Suc_0_iff)
  have "is_Ok (ledger_step (SettlePendingProof 10143 sample_burn_proof 5) sample_state)"
    by (simp add: sample_state_def sample_vault_def sample_burn_proof_def multi_chain_default_def
        settle_pending_chain_burn_with_verified_proof_def settle_pending_chain_burn_def
        settle_backing_burn_def drop_err_def backing_rhs_after_settlement_def
        totals_wrap ledger_sums rust_arith)
  with burn_log_settles_once [OF _ k] show ?thesis unfolding is_Ok_iff by blast
qed

text \<open>The reserve transfers are never overdrawn: if every proof that names a transfer reports
  at most the amount \<open>cap\<close> of that transfer, the total settled against it stays within \<open>cap\<close> along
  any sequence of moves.\<close>

theorem reserve_transfer_never_overdrawn:
  assumes "\<And>m k a. m \<in> set ms \<Longrightarrow> transfer_of m = Some (k, a) \<Longrightarrow> a \<le> cap k"
    and "\<And>k. bm_get_or 0 (settled_reserve_transfer_e8s s) k \<le> cap k"
  shows "bm_get_or 0 (settled_reserve_transfer_e8s (run_batch ledger_step ms s)) k \<le> cap k"
  by (rule transfer_within [OF assms])

theorem reserve_transfer_never_overdrawn_witness:
  "bm_get_or 0 (settled_reserve_transfer_e8s
     (run_batch ledger_step (replicate 5 (SettleReserveProof 10143 sample_reserve_proof 6)) sample_state))
     (reserve_transfer_key ''0xdd'' 0) \<le> 60"
proof (rule reserve_transfer_never_overdrawn [where cap = "\<lambda>_. 60"])
  show "a \<le> 60" if "m \<in> set (replicate 5 (SettleReserveProof 10143 sample_reserve_proof 6))"
    "transfer_of m = Some (k, a)" for m k a
    using that by (auto simp: sample_reserve_proof_def split: if_splits)
  show "bm_get_or 0 (settled_reserve_transfer_e8s sample_state) k \<le> 60" for k
    by (simp add: sample_state_def multi_chain_default_def)
qed

end
