(* ===== verification/Constant_Product.thy ===== *)
theory Constant_Product
  imports Rumi_Prelude
begin

text \<open>
  The contract of a constant-product quote. \<open>quote x y a\<close> offers an output for \<open>a\<close> units paid
  into a pool with reserves \<open>x\<close> (in) and \<open>y\<close> (out); \<open>kept a\<close> of them stay in the pool. The law
  says that the output is at most \<open>y * kept a / (x + kept a)\<close>. From it: the output never drains
  the pool, the product of the reserves never falls, and paying the output straight back
  returns no more than was kept.
\<close>

lemma sub_mult_add: "b \<le> a \<Longrightarrow> (a - b) * c + b * c = a * (c :: nat)"
  by (metis add_mult_distrib le_add_diff_inverse2)

locale constant_product =
  fixes quote :: "nat \<Rightarrow> nat \<Rightarrow> nat \<Rightarrow> nat option"
    and kept :: "nat \<Rightarrow> nat"
  assumes priced: "quote x y a = Some z \<Longrightarrow> z * (x + kept a) \<le> y * kept a"
    and reserves: "quote x y a = Some z \<Longrightarrow> 0 < x \<and> 0 < y"
    and kept_le: "kept a \<le> a"
begin

lemma output_below_reserve:
  assumes q: "quote x y a = Some z"
  shows "z < y"
proof -
  have pos: "0 < x" "0 < y" using reserves [OF q] by auto
  have "z * (x + kept a) \<le> y * kept a" by (rule priced [OF q])
  also have "\<dots> < y * (x + kept a)" using pos by simp
  finally show ?thesis by simp
qed

lemma product_grows:
  assumes q: "quote x y a = Some z"
  shows "x * y \<le> (x + kept a) * (y - z)"
proof -
  have "x * y + y * kept a = (x + kept a) * y" by (simp add: algebra_simps)
  moreover have "(x + kept a) * (y - z) + z * (x + kept a) = (x + kept a) * y"
    using sub_mult_add [of z y "x + kept a"] output_below_reserve [OF q] by (simp add: mult.commute)
  ultimately show ?thesis using priced [OF q] by linarith
qed

lemma round_trip:
  assumes q: "quote x y a = Some z" and ret: "quote (y - z) (x + kept a) z = Some b"
  shows "b \<le> kept a"
proof -
  let ?A = "x + kept a" and ?R = "y - z" and ?k = "kept z"
  have zy: "z < y" by (rule output_below_reserve [OF q])
  have bA: "b < ?A" by (rule output_below_reserve [OF ret])
  have "b * ?R + b * ?k \<le> ?A * ?k" using priced [OF ret] by (simp add: algebra_simps)
  moreover have "?A * ?k = b * ?k + (?A - b) * ?k"
    using sub_mult_add [of b ?A ?k] bA by simp
  ultimately have "b * ?R \<le> (?A - b) * ?k" by linarith
  also have "\<dots> \<le> (?A - b) * z" by (rule mult_le_mono2 [OF kept_le])
  finally have "b * ?R \<le> (?A - b) * z" .
  moreover have "(?A - b) * z + b * z = z * ?A" 
    using sub_mult_add [of b ?A z] bA by (simp add: mult.commute)
  moreover have "b * ?R + b * z = b * y"
    using zy by (metis add_mult_distrib2 le_add_diff_inverse2 less_imp_le)
  ultimately have "b * y \<le> z * ?A" by linarith
  also have "\<dots> \<le> y * kept a" by (rule priced [OF q])
  finally show ?thesis using reserves [OF q] by (simp add: mult.commute)
qed

end

end
