(* ===== verification/Chain_Math.thy ===== *)
theory Chain_Math
  imports Multi_Chain_State Constant_Product
begin

text \<open>
  The arithmetic of the foreign-chain rail: collateral ratio (\<^verbatim>\<open>chains/vault.rs\<close>), interest
  accrual (\<^verbatim>\<open>chains/interest.rs\<close>), liquidation sizing, price freshness and swap quotes
  (\<^verbatim>\<open>chains/liquidation.rs\<close>). The \<^verbatim>\<open>rust_decimal\<close> crate is a parameter, the record
  \<open>decimal_ops\<close>: a component that is \<open>None\<close> is a panic of the crate's operator. The locale
  \<open>constant_product\<close> is the contract of a constant-product quote; the swap quote here and the
  AMM canister's quote both meet it.
\<close>

section \<open>Accrual\<close>

record 'd decimal_ops =
  dec_from_u128 :: "u128 \<Rightarrow> 'd option"
  dec_from_u64 :: "u64 \<Rightarrow> 'd"
  dec_one :: 'd
  dec_add :: "'d \<Rightarrow> 'd \<Rightarrow> 'd option"
  dec_mul :: "'d \<Rightarrow> 'd \<Rightarrow> 'd option"
  dec_div :: "'d \<Rightarrow> 'd \<Rightarrow> 'd option"
  dec_ceil :: "'d \<Rightarrow> 'd"
  dec_to_u128 :: "'d \<Rightarrow> u128 option"

definition nanos_per_year :: u64 where
  "nanos_per_year = 365 * 24 * 60 * 60 * 1000000000"

text \<open>\<open>None\<close> is a panic (rollback of the message); the deferrals of the code return 0.\<close>

definition accrued_chain_interest_e8s :: "'d decimal_ops \<Rightarrow> u128 \<Rightarrow> u64 \<Rightarrow> u64 \<Rightarrow> u128 option" where
  "accrued_chain_interest_e8s D debt_e8s apr_bps elapsed_ns =
     (if debt_e8s = 0 \<or> apr_bps = 0 \<or> elapsed_ns = 0 then Some 0
      else case dec_from_u128 D debt_e8s of
        None \<Rightarrow> Some 0
      | Some debt \<Rightarrow>
          Option.bind (dec_div D (dec_from_u64 D apr_bps) (dec_from_u64 D 10000)) (\<lambda>rate.
          Option.bind (dec_mul D rate (dec_from_u64 D elapsed_ns)) (\<lambda>scaled.
          Option.bind (dec_div D scaled (dec_from_u64 D nanos_per_year)) (\<lambda>growth.
          Option.bind (dec_add D (dec_one D) growth) (\<lambda>factor.
          Option.bind (dec_mul D debt factor) (\<lambda>product.
            case dec_to_u128 D (dec_ceil D product) of
              None \<Rightarrow> Some 0
            | Some new_debt \<Rightarrow> Some (sat_sub new_debt debt_e8s)))))))"

section \<open>Collateral ratio and sizing\<close>

definition collateral_ratio_e4 :: "u128 \<Rightarrow> u8 \<Rightarrow> u64 \<Rightarrow> u128 \<Rightarrow> u64" where
  "collateral_ratio_e4 collateral_native native_decimals price_e8 debt_e8s =
     (if debt_e8s = 0 then u64_max
      else
        let native_scale = sat_pow10 native_decimals;
            collateral_usd_e8 = sat_mul128 collateral_native price_e8 div native_scale;
            cr = sat_mul128 collateral_usd_e8 10000 div debt_e8s
        in min cr u64_max)"

definition bonus_e4_from_penalty_bps :: "u64 \<Rightarrow> u64" where
  "bonus_e4_from_penalty_bps liquidation_penalty_bps = sat_add64 10000 liquidation_penalty_bps"

definition collateral_value_e8s :: "u128 \<Rightarrow> u8 \<Rightarrow> u64 \<Rightarrow> u128" where
  "collateral_value_e8s collateral_native native_decimals price_e8 =
     sat_mul128 collateral_native price_e8 div sat_pow10 native_decimals"

definition effective_debt_e8s :: "'d decimal_ops \<Rightarrow> u128 \<Rightarrow> u128 \<Rightarrow> u64 \<Rightarrow> u64 \<Rightarrow> u128 option" where
  "effective_debt_e8s D debt_e8s pending_interest_mint_e8s apr_bps elapsed_ns =
     map_option (\<lambda>accrued. sat_add128 (sat_add128 debt_e8s pending_interest_mint_e8s) accrued)
       (accrued_chain_interest_e8s D debt_e8s apr_bps elapsed_ns)"

definition sized_repay_e8s :: "u128 \<Rightarrow> u128 \<Rightarrow> u64 \<Rightarrow> u64 \<Rightarrow> u128" where
  "sized_repay_e8s eff_debt_e8s value_e8s target_cr_e4 bonus_e4 =
     (let numerator = sat_mul128 eff_debt_e8s target_cr_e4 div 10000 in
      if numerator \<le> value_e8s then 0
      else if target_cr_e4 \<le> bonus_e4 then eff_debt_e8s
      else
        let deficit = numerator - value_e8s;
            denom_e4 = target_cr_e4 - bonus_e4
        in min (sat_mul128 deficit 10000 div denom_e4) eff_debt_e8s)"

definition value_cap_to_repay :: "u128 \<Rightarrow> u64 \<Rightarrow> u128" where
  "value_cap_to_repay max_swap_value_e8s bonus_e4 =
     (if bonus_e4 = 0 then 0 else sat_mul128 max_swap_value_e8s 10000 div bonus_e4)"

definition collateral_in_native_for_repay :: "u128 \<Rightarrow> u64 \<Rightarrow> u8 \<Rightarrow> u64 \<Rightarrow> u128" where
  "collateral_in_native_for_repay repay_e8s bonus_e4 native_decimals price_e8 =
     (if price_e8 = 0 then 0
      else
        let native_scale = sat_pow10 native_decimals;
            grossed_value_e8s = sat_mul128 repay_e8s bonus_e4 div 10000
        in sat_mul128 grossed_value_e8s native_scale div price_e8)"

section \<open>Price freshness and escalation timing\<close>

definition default_bot_to_sp_timeout_ns :: u64 where
  "default_bot_to_sp_timeout_ns = 30 * 60 * 1000000000"

datatype price_error = PeNoPrice | PeZeroPrice | PeNoTimestamp | PeStale

definition fresh_chain_price_e8 ::
    "multi_chain_state \<Rightarrow> chain_id \<Rightarrow> string \<Rightarrow> u64 \<Rightarrow> u64 \<Rightarrow> (price_error, u64) outcome" where
  "fresh_chain_price_e8 s chain symbol now_ns max_price_age_ns =
     (case get_manual_price s chain symbol of
        None \<Rightarrow> Err PeNoPrice
      | Some (price_e8, set_at_ns) \<Rightarrow>
          if price_e8 = 0 then Err PeZeroPrice
          else if set_at_ns = 0 then Err PeNoTimestamp
          else if sat_sub now_ns set_at_ns > max_price_age_ns then Err PeStale
          else Ok price_e8)"

definition should_escalate_to_sp :: "u64 \<Rightarrow> u64 \<Rightarrow> u64 \<Rightarrow> bool \<Rightarrow> bool" where
  "should_escalate_to_sp bot_pending_since_ns now_ns bot_timeout_ns op_terminally_failed =
     (op_terminally_failed \<or> sat_sub now_ns bot_pending_since_ns \<ge> bot_timeout_ns)"

section \<open>Swap quotes\<close>

text \<open>\<^verbatim>\<open>ethnum::U256\<close> checked arithmetic\<close>

definition u256_max :: nat where
  "u256_max = 2 ^ 256 - 1"

definition checked_mul256 :: "nat \<Rightarrow> nat \<Rightarrow> nat option" where
  "checked_mul256 a b = (if a * b \<le> u256_max then Some (a * b) else None)"

definition checked_add256 :: "nat \<Rightarrow> nat \<Rightarrow> nat option" where
  "checked_add256 a b = (if a + b \<le> u256_max then Some (a + b) else None)"

definition u128_try_from :: "nat \<Rightarrow> u128 option" where
  "u128_try_from n = (if n \<le> u128_max then Some n else None)"

definition compute_amount_out_min :: "u128 \<Rightarrow> u128 \<Rightarrow> u128 \<Rightarrow> u16 \<Rightarrow> u16 \<Rightarrow> u128 \<times> u128" where
  "compute_amount_out_min amount_in reserve_in reserve_out fee_bps slippage_bps =
     (if amount_in = 0 \<or> reserve_in = 0 \<or> reserve_out = 0 \<or> fee_bps \<ge> 10000 then (0, 0)
      else
        let fee_mult = 10000 - fee_bps in
        case checked_mul256 amount_in fee_mult of
          None \<Rightarrow> (0, 0)
        | Some amount_in_with_fee \<Rightarrow>
            (case checked_mul256 amount_in_with_fee reserve_out of
               None \<Rightarrow> (0, 0)
             | Some numerator \<Rightarrow>
                 (case Option.bind (checked_mul256 reserve_in 10000)
                         (\<lambda>x. checked_add256 x amount_in_with_fee) of
                    None \<Rightarrow> (0, 0)
                  | Some denominator \<Rightarrow>
                      if denominator = 0 then (0, 0)
                      else case u128_try_from (numerator div denominator) of
                        None \<Rightarrow> (0, 0)
                      | Some expected_out \<Rightarrow>
                          let slip_mult = 10000 - min slippage_bps 10000 in
                          (case Option.bind (map_option (\<lambda>x. x div 10000)
                                   (checked_mul256 expected_out slip_mult)) u128_try_from of
                             None \<Rightarrow> (0, 0)
                           | Some min_out \<Rightarrow> (expected_out, min_out)))))"

definition stable_native_to_e8s :: "u128 \<Rightarrow> u8 \<Rightarrow> u128" where
  "stable_native_to_e8s native decimals =
     (let scale = sat_pow10 decimals in if scale = 0 then 0 else sat_mul128 native 100000000 div scale)"

definition oracle_corroborated :: "u128 \<Rightarrow> u8 \<Rightarrow> u128 \<Rightarrow> u32 \<Rightarrow> bool" where
  "oracle_corroborated expected_out_native settle_decimals oracle_value_e8 max_divergence_bps =
     (let expected_out_e8 = stable_native_to_e8s expected_out_native settle_decimals;
          floor = sat_mul128 oracle_value_e8 (sat_sub 10000 max_divergence_bps) div 10000
      in expected_out_e8 \<ge> floor)"

section \<open>Lemmas\<close>

lemma sat_mul128_le_mult: "sat_mul128 a b \<le> a * b"
  by (simp add: sat_mul128_def)

lemma div_mult_le: "(n div d) * d \<le> (n :: nat)"
  by simp

lemma sized_repay_le_debt: "sized_repay_e8s d v t b \<le> d"
  by (simp add: sized_repay_e8s_def Let_def)

lemma sat_pow10_exact: "d \<le> 38 \<Longrightarrow> sat_pow10 d = 10 ^ d"
proof -
  assume "d \<le> 38"
  then have "(10::nat) ^ d \<le> 10 ^ 38" by (rule power_increasing) simp
  also have "\<dots> \<le> u128_max" by (simp add: u128_max_def)
  finally show ?thesis by (simp add: sat_pow10_def)
qed

lemma ratio_numerator_le:
  "collateral_ratio_e4 c dec p d \<ge> m \<Longrightarrow> d \<noteq> 0 \<Longrightarrow> m * d \<le> collateral_value_e8s c dec p * 10000"
proof -
  let ?v = "collateral_value_e8s c dec p"
  assume ge: "collateral_ratio_e4 c dec p d \<ge> m" and d: "d \<noteq> 0"
  then have "m \<le> sat_mul128 ?v 10000 div d"
    by (simp add: collateral_ratio_e4_def collateral_value_e8s_def Let_def)
  then have "m * d \<le> sat_mul128 ?v 10000 div d * d" by (rule mult_le_mono1)
  also have "\<dots> \<le> ?v * 10000" using div_mult_le sat_mul128_le_mult by (rule le_trans)
  finally show ?thesis .
qed

lemma collateral_value_scaled: "collateral_value_e8s c dec p * sat_pow10 dec \<le> c * p"
  unfolding collateral_value_e8s_def using div_mult_le sat_mul128_le_mult by (rule le_trans)

lemma seized_value_le: "collateral_value_e8s (collateral_in_native_for_repay r b dec p) dec p \<le> r * b div 10000"
proof (cases "p = 0")
  case True
  then show ?thesis by (simp add: collateral_value_e8s_def sat_mul128_def)
next
  case False
  let ?g = "sat_mul128 r b div 10000" and ?S = "sat_pow10 dec"
  have "sat_mul128 (sat_mul128 ?g ?S div p) p \<le> ?g * ?S"
    using sat_mul128_le_mult [of "sat_mul128 ?g ?S div p" p] div_mult_le [of "sat_mul128 ?g ?S" p]
      sat_mul128_le_mult [of ?g ?S] by linarith
  then have "sat_mul128 (sat_mul128 ?g ?S div p) p div ?S \<le> ?g * ?S div ?S" by (rule div_le_mono)
  also have "\<dots> = ?g" using sat_pow10_pos [of dec] by simp
  also have "\<dots> \<le> r * b div 10000" by (rule div_le_mono [OF sat_mul128_le_mult])
  finally show ?thesis
    using False by (simp add: collateral_value_e8s_def collateral_in_native_for_repay_def Let_def)
qed

section \<open>Properties of the ratio and of the sizing\<close>

lemma ratio_sound:
  assumes "m \<le> collateral_ratio_e4 collateral dec price_e8 debt" and "debt \<noteq> 0" and "dec \<le> 38"
  shows "m * debt * 10 ^ dec \<le> collateral * price_e8 * 10000"
proof -
  have "m * debt * 10 ^ dec \<le> collateral_value_e8s collateral dec price_e8 * 10000 * 10 ^ dec"
    by (rule mult_le_mono1 [OF ratio_numerator_le [OF assms(1,2)]])
  also have "\<dots> = collateral_value_e8s collateral dec price_e8 * sat_pow10 dec * 10000"
    by (simp add: sat_pow10_exact [OF assms(3)])
  also have "\<dots> \<le> collateral * price_e8 * 10000"
    by (rule mult_le_mono1 [OF collateral_value_scaled])
  finally show ?thesis .
qed

text \<open>The integer collateral ratio is sound: for an asset with at most 38 decimals, a vault
  that passes \<open>ratio \<ge> m\<close> has at least \<open>m / 10000\<close> of its debt in collateral, computed exactly
  (no rounding, no saturation). Saturating multiplication and truncation only make the check
  stricter.\<close>

theorem collateral_ratio_sound:
  assumes "m \<le> collateral_ratio_e4 collateral dec price_e8 debt" and "debt \<noteq> 0" and "dec \<le> 38"
  shows "m * debt * 10 ^ dec \<le> collateral * price_e8 * 10000"
  by (rule ratio_sound [OF assms])

theorem collateral_ratio_sound_witness:
  "(15000::nat) * 100000000 * 10 ^ 18 \<le> 2000000000000000000 * 200000000 * 10000"
  by (rule collateral_ratio_sound) (simp_all add: collateral_ratio_e4_def rust_arith)

text \<open>The partial-liquidation size restores the target ratio from below. When the repay is
  partial (the vault is below target, the target exceeds the bonus rate and the debt is not the
  binding cap) and the scaled debt is in range, seizing \<open>r\<close> at the bonus rate never lifts the
  ratio above the target, and it lands within one repay unit plus rounding of it.\<close>

theorem sized_repay_restores_target:
  assumes "r = sized_repay_e8s debt val target bonus" and "debt * target \<le> u128_max" and "bonus < target"
    and "val < debt * target div 10000" and "r < debt"
  shows "r * target + val * 10000 \<le> debt * target + r * bonus
    \<and> debt * target + r * bonus < r * target + val * 10000 + (target - bonus) + 10000"
proof -
  let ?n = "debt * target div 10000" and ?e = "target - bonus"
  have n10: "?n * 10000 \<le> debt * target" "debt * target < ?n * 10000 + 10000"
    by simp_all
  have "(?n - val) * 10000 \<le> debt * target"
    using mult_le_mono1 [of "?n - val" ?n 10000] n10(1) by linarith
  then have sat: "sat_mul128 (?n - val) 10000 = (?n - val) * 10000"
    using assms(2) by (simp add: sat_mul128_def)
  have "r = min ((?n - val) * 10000 div ?e) debt"
    using assms(1-4) sat by (simp add: sized_repay_e8s_def sat_mul128_def Let_def)
  then have r: "r = (?n - val) * 10000 div ?e" using assms(5) by (simp add: min_def split: if_splits)
  have e: "0 < ?e" using assms(3) by simp
  have "r * ?e \<le> (?n - val) * 10000" unfolding r by (rule div_mult_le)
  moreover have "(?n - val) * 10000 < r * ?e + ?e"
    unfolding r using dividend_less_div_times [OF e, of "(?n - val) * 10000"] by linarith
  moreover have "r * ?e + r * bonus = r * target"
    using assms(3) by (simp add: add_mult_distrib2 [symmetric])
  moreover have "(?n - val) * 10000 = ?n * 10000 - val * 10000" by (simp add: diff_mult_distrib)
  moreover have "val * 10000 \<le> ?n * 10000" using assms(4) by simp
  ultimately show ?thesis using n10 by linarith
qed

theorem sized_repay_restores_target_witness:
  "sized_repay_e8s 10000000000 13000000000 15500 11200 = 5813953488
   \<and> 5813953488 * 15500 + 13000000000 * 10000 \<le> 10000000000 * 15500 + 5813953488 * (11200 :: nat)"
proof -
  have r: "sized_repay_e8s 10000000000 13000000000 15500 11200 = 5813953488"
    by (simp add: sized_repay_e8s_def rust_arith)
  show ?thesis
    using sized_repay_restores_target [OF r [symmetric]] r by (simp add: u128_max_def)
qed

lemma seizure_bound:
  assumes "repay \<le> value_cap_to_repay max_swap bonus"
  shows "collateral_value_e8s (collateral_in_native_for_repay repay bonus dec price_e8) dec price_e8
           \<le> min (repay * bonus div 10000) max_swap"
proof -
  have "repay * bonus \<le> max_swap * 10000"
  proof (cases "bonus = 0")
    case False
    with assms have "repay * bonus \<le> sat_mul128 max_swap 10000 div bonus * bonus"
      by (intro mult_le_mono1) (simp add: value_cap_to_repay_def)
    also have "\<dots> \<le> max_swap * 10000" using div_mult_le sat_mul128_le_mult by (rule le_trans)
    finally show ?thesis .
  qed simp
  then have "repay * bonus div 10000 \<le> max_swap * 10000 div 10000" by (rule div_le_mono)
  then have "repay * bonus div 10000 \<le> max_swap" by simp
  with seized_value_le [of repay bonus dec price_e8] show ?thesis by simp
qed

text \<open>What a liquidation sells is bounded twice: the oracle value of the collateral seized for
  a repay never exceeds the repay grossed up by the bonus, and a repay within the depth cap never
  sells more than the configured maximum. Both hold for all inputs, saturation included.\<close>

theorem seizure_value_bounded:
  assumes "repay \<le> value_cap_to_repay max_swap bonus"
  shows "collateral_value_e8s (collateral_in_native_for_repay repay bonus dec price_e8) dec price_e8
           \<le> min (repay * bonus div 10000) max_swap"
  by (rule seizure_bound [OF assms])

theorem seizure_value_bounded_witness:
  "collateral_value_e8s (collateral_in_native_for_repay 500000000 11200 18 20000000) 18 20000000
     \<le> min (500000000 * 11200 div 10000) 1000000000"
  by (rule seizure_value_bounded) (simp add: value_cap_to_repay_def rust_arith)

section \<open>The swap quote\<close>

lemma checked256_Some:
  "checked_mul256 a b = Some c \<longleftrightarrow> a * b \<le> u256_max \<and> c = a * b"
  "checked_add256 a b = Some c \<longleftrightarrow> a + b \<le> u256_max \<and> c = a + b"
  by (auto simp: checked_mul256_def checked_add256_def)

lemma small_mul256: "a \<le> u128_max \<Longrightarrow> b \<le> 10000 \<Longrightarrow> checked_mul256 a b = Some (a * b)"
proof -
  assume "a \<le> u128_max" "b \<le> 10000"
  then have "a * b \<le> u128_max * 10000" by (rule mult_le_mono)
  also have "\<dots> \<le> u256_max" by (simp add: u128_max_def u256_max_def)
  finally show ?thesis by (simp add: checked_mul256_def)
qed

lemma quote_below_reserve:
  assumes "0 < x"
  shows "a * f * y div (x * 10000 + a * f) \<le> (y :: nat)"
proof -
  have "a * f * y \<le> y * (x * 10000 + a * f)" by (simp add: algebra_simps)
  then have "a * f * y div (x * 10000 + a * f) \<le> y * (x * 10000 + a * f) div (x * 10000 + a * f)"
    by (rule div_le_mono)
  also have "\<dots> = y" using assms by simp
  finally show ?thesis .
qed

text \<open>The swap quote computes the UniswapV2 formula exactly on all 128-bit inputs: every
  intermediate but the numerator fits 256 bits, and where the numerator does not, the quote
  fails closed with \<open>(0, 0)\<close>. The minimum output is the expected output less the slippage.\<close>

theorem compute_amount_out_min_exact:
  assumes "a \<le> u128_max" "x \<le> u128_max" "y \<le> u128_max"
  shows "compute_amount_out_min a x y fee slip =
    (if a = 0 \<or> x = 0 \<or> y = 0 \<or> 10000 \<le> fee \<or> u256_max < a * (10000 - fee) * y then (0, 0)
     else let e = a * (10000 - fee) * y div (x * 10000 + a * (10000 - fee))
          in (e, e * (10000 - min slip 10000) div 10000))"
proof (cases "a = 0 \<or> x = 0 \<or> y = 0 \<or> 10000 \<le> fee \<or> u256_max < a * (10000 - fee) * y")
  case True
  then show ?thesis
    using small_mul256 [OF assms(1), of "10000 - fee"]
    by (auto simp: compute_amount_out_min_def checked_mul256_def Let_def)
next
  case False
  let ?f = "10000 - fee" and ?d = "x * 10000 + a * (10000 - fee)"
  let ?e = "a * ?f * y div ?d"
  have "?e \<le> y" using False by (intro quote_below_reserve) simp
  then have e: "?e \<le> u128_max" using assms(3) by linarith
  have m: "?e * (10000 - min slip 10000) div 10000 \<le> u128_max"
  proof -
    have "?e * (10000 - min slip 10000) div 10000 \<le> ?e * 10000 div 10000"
      by (rule div_le_mono) simp
    with e show ?thesis by simp
  qed
  have d: "?d \<le> u256_max"
  proof -
    have "x * 10000 \<le> u128_max * 10000" "a * ?f \<le> u128_max * 10000"
      using assms by (intro mult_le_mono; simp)+
    then show ?thesis by (simp add: u128_max_def u256_max_def)
  qed
  from False e m d show ?thesis
    using small_mul256 [OF assms(1), of ?f] small_mul256 [OF assms(2), of 10000]
      small_mul256 [OF e, of "10000 - min slip 10000"]
    by (simp add: compute_amount_out_min_def checked_mul256_def checked_add256_def u128_try_from_def Let_def)
qed

theorem compute_amount_out_min_exact_witness:
  "compute_amount_out_min 1000000000000000000 50000000000000000000 200000000 30 100 = (3910033, 3870932)"
  by (subst compute_amount_out_min_exact) (simp_all add: u128_max_def u256_max_def)

definition swap_quote :: "u16 \<Rightarrow> u128 \<Rightarrow> u128 \<Rightarrow> u128 \<Rightarrow> u128 option" where
  "swap_quote fee_bps x y a =
     (let out = fst (compute_amount_out_min a x y fee_bps 0) in if out = 0 then None else Some out)"

lemma swap_quote_priced:
  assumes "swap_quote fee x y a = Some z"
  shows "z * (x + a) \<le> y * a \<and> 0 < x \<and> 0 < y"
proof -
  let ?f = "10000 - fee"
  have pos: "0 < a" "0 < x" "0 < y" "fee < 10000" and z: "z = a * ?f * y div (x * 10000 + a * ?f)"
    using assms by (auto simp: swap_quote_def compute_amount_out_min_def checked256_Some u128_try_from_def Let_def
        bind_eq_Some_conv split: if_splits option.splits)
  have "z * (x * 10000 + a * ?f) \<le> a * ?f * y" unfolding z by (rule div_mult_le)
  moreover have zy: "z \<le> y" unfolding z by (rule quote_below_reserve [OF pos(2)])
  moreover have "(y - z) * (a * ?f) + z * (a * ?f) = y * (a * ?f)" by (rule sub_mult_add [OF zy])
  moreover have "z * (x * 10000 + a * ?f) = z * x * 10000 + z * (a * ?f)" by (simp only: add_mult_distrib2 mult.assoc)
  moreover have "a * ?f * y = y * (a * ?f)" by (simp only: mult.commute)
  ultimately have "z * x * 10000 \<le> (y - z) * (a * ?f)" by linarith
  also have "\<dots> = (y - z) * a * ?f" by (simp only: mult.assoc)
  also have "\<dots> \<le> (y - z) * a * 10000" by (rule mult_le_mono2) simp
  finally have "z * x \<le> (y - z) * a" by simp
  then have "z * (x + a) \<le> y * a"
    using sub_mult_add [OF zy, of a] by (simp add: add_mult_distrib2)
  with pos show ?thesis by simp
qed

interpretation swap: constant_product "swap_quote fee" "\<lambda>a. a" for fee
  by unfold_locales (use swap_quote_priced in auto)

end
