(* ===== verification/Chain_Vault.thy ===== *)
theory Chain_Vault
  imports Supply Chain_Math
begin

text \<open>
  The vault life cycle on a foreign chain (\<^verbatim>\<open>chains/vault.rs\<close>): open, verify a deposit and
  enqueue the mint, withdraw, close, begin a liquidation, borrow, prune unfunded vaults, and
  the interest harvest (\<^verbatim>\<open>chains/interest.rs\<close>). The address validator and the price symbol are
  arguments, as in the code. A call that reaches the decimal crate can panic, which is \<open>Trap\<close>.
\<close>

section \<open>Errors\<close>

datatype open_vault_error =
    OvUnknownChain
  | OvNoPrice
  | OvNoPriceTimestamp
  | OvStalePrice
  | OvZeroPrice
  | OvBelowMinCr u64 u64
  | OvZeroDebt
  | OvQueueError settlement_queue_error
  | OvUnknownVault
  | OvInvalidAddress string
  | OvBelowMinDebt u128 u128
  | OvDebtCeilingExceeded u128 u128
  | OvChainBadDebtCircuitTripped chain_id

datatype withdraw_error =
    WdUnknownVault
  | WdNoPrice
  | WdNoPriceTimestamp
  | WdStalePrice
  | WdZeroPrice
  | WdInsufficientCollateral
  | WdBelowMinCr u64 u64
  | WdQueueError settlement_queue_error
  | WdHasDebt
  | WdInvalidAddress string
  | WdWrongStatus chain_vault_status
  | WdMintInFlight
  | WdInterestRealizationPending
  | WdLiquidationInFlight
  | WdChainBadDebtCircuitTripped chain_id

datatype liquidation_error =
    LqUnknownVault
  | LqWrongStatus chain_vault_status
  | LqMintInFlight
  | LqInterestRealizationPending
  | LqAlreadyLiquidating
  | LqNoConfig
  | LqNotEnabled
  | LqNoPrice
  | LqZeroPrice
  | LqNoTimestamp
  | LqStalePrice
  | LqNotLiquidatable u64 u64
  | LqNothingToLiquidate
  | LqInvalidAddress string
  | LqQueueError settlement_queue_error

datatype borrow_error =
    BwUnknownVault
  | BwWrongStatus chain_vault_status
  | BwMintInFlight
  | BwZeroDebt
  | BwNoPrice
  | BwNoPriceTimestamp
  | BwStalePrice
  | BwZeroPrice
  | BwBelowMinCr u64 u64
  | BwQueueError settlement_queue_error
  | BwInvalidAddress string
  | BwBelowMinDebt u128 u128
  | BwDebtCeilingExceeded u128 u128
  | BwLiquidationInFlight
  | BwChainBadDebtCircuitTripped chain_id

datatype vault_price_error = VpNoPrice | VpNoTimestamp | VpStale | VpZeroPrice

section \<open>Shared reads\<close>

fun vault_price_error_of :: "price_error \<Rightarrow> vault_price_error" where
  "vault_price_error_of PeNoPrice = VpNoPrice"
| "vault_price_error_of PeZeroPrice = VpZeroPrice"
| "vault_price_error_of PeNoTimestamp = VpNoTimestamp"
| "vault_price_error_of PeStale = VpStale"

definition gated_chain_price_e8 ::
    "multi_chain_state \<Rightarrow> chain_id \<Rightarrow> string \<Rightarrow> u64 \<Rightarrow> (vault_price_error, u64) outcome" where
  "gated_chain_price_e8 s chain price_symbol now_ns =
     (let max_age = (case bm_get (chain_liquidation_configs s) chain of
                       Some c \<Rightarrow> lc_max_price_age_ns c | None \<Rightarrow> 0)
      in if max_age > 0
         then map_err vault_price_error_of (fresh_chain_price_e8 s chain price_symbol now_ns max_age)
         else ok_or VpNoPrice (bm_get (manual_prices s) (chain, price_symbol)))"

fun map_open_price_error :: "vault_price_error \<Rightarrow> open_vault_error" where
  "map_open_price_error VpNoPrice = OvNoPrice"
| "map_open_price_error VpNoTimestamp = OvNoPriceTimestamp"
| "map_open_price_error VpStale = OvStalePrice"
| "map_open_price_error VpZeroPrice = OvZeroPrice"

fun map_withdraw_price_error :: "vault_price_error \<Rightarrow> withdraw_error" where
  "map_withdraw_price_error VpNoPrice = WdNoPrice"
| "map_withdraw_price_error VpNoTimestamp = WdNoPriceTimestamp"
| "map_withdraw_price_error VpStale = WdStalePrice"
| "map_withdraw_price_error VpZeroPrice = WdZeroPrice"

fun map_borrow_price_error :: "vault_price_error \<Rightarrow> borrow_error" where
  "map_borrow_price_error VpNoPrice = BwNoPrice"
| "map_borrow_price_error VpNoTimestamp = BwNoPriceTimestamp"
| "map_borrow_price_error VpStale = BwStalePrice"
| "map_borrow_price_error VpZeroPrice = BwZeroPrice"

definition total_chain_debt_including_pending_e8s :: "multi_chain_state \<Rightarrow> chain_id \<Rightarrow> u128" where
  "total_chain_debt_including_pending_e8s s chain =
     fold (\<lambda>v acc. sat_add128 (sat_add128 (sat_add128 acc (cv_debt_e8s v)) (cv_pending_mint_e8s v))
                     (cv_pending_interest_mint_e8s v))
       (filter (\<lambda>v. cv_collateral_chain v = chain \<and> cv_status v \<noteq> Closed) (bm_values (chain_vaults s))) 0"

text \<open>\<^verbatim>\<open>chain_configs.get(&chain).map(|c| c.chain_native_decimals).unwrap_or(18)\<close>\<close>

definition native_decimals_of :: "multi_chain_state \<Rightarrow> chain_id \<Rightarrow> u8" where
  "native_decimals_of s chain =
     (case bm_get (chain_configs s) chain of Some c \<Rightarrow> cc_chain_native_decimals c | None \<Rightarrow> 18)"

text \<open>\<^verbatim>\<open>settlement_queues.entry(chain).or_default().enqueue(op)\<close>\<close>

definition enqueue_in_state ::
    "multi_chain_state \<Rightarrow> chain_id \<Rightarrow> settlement_op
      \<Rightarrow> (settlement_queue_error, multi_chain_state \<times> u64) outcome" where
  "enqueue_in_state s chain op =
     (case enqueue (bm_get_or settlement_queue_default (settlement_queues s) chain) op of
        Ok (q, i) \<Rightarrow> Ok (s\<lparr>settlement_queues := bm_insert chain q (settlement_queues s)\<rparr>, i)
      | Err e \<Rightarrow> Err e
      | Trap \<Rightarrow> Trap)"

definition update_vault :: "u64 \<Rightarrow> (chain_vault \<Rightarrow> chain_vault) \<Rightarrow> multi_chain_state \<Rightarrow> multi_chain_state" where
  "update_vault vid f s = s\<lparr>chain_vaults := bm_modify vid f (chain_vaults s)\<rparr>"

definition dash_key :: "string \<Rightarrow> nat list \<Rightarrow> string" where
  "dash_key tag ns = tag @ concat (map (\<lambda>n. ''-'' @ show_nat n) ns)"

section \<open>Opening and funding\<close>

definition open_chain_vault_in_state ::
    "multi_chain_state \<Rightarrow> chain_id \<Rightarrow> principal \<Rightarrow> string \<Rightarrow> u128 \<Rightarrow> u128 \<Rightarrow> string
      \<Rightarrow> (string \<Rightarrow> bool) \<Rightarrow> string \<Rightarrow> u64 \<Rightarrow> u128 \<Rightarrow> u128 option \<Rightarrow> u64 \<Rightarrow> u64
      \<Rightarrow> (open_vault_error, multi_chain_state) outcome" where
  "open_chain_vault_in_state s chain owner custody_address collateral_e18 debt_e8s mint_recipient
       address_validator price_symbol min_cr_e4 min_vault_debt_e8s debt_ceiling_e8s now_ns vault_id =
     (if \<not> bm_has (chain_configs s) chain then Err OvUnknownChain
      else if chain_bad_debt_circuit_tripped s chain then Err (OvChainBadDebtCircuitTripped chain)
      else if debt_e8s = 0 then Err OvZeroDebt
      else if \<not> address_validator mint_recipient then Err (OvInvalidAddress mint_recipient)
      else and_then (map_err map_open_price_error (gated_chain_price_e8 s chain price_symbol now_ns)) (\<lambda>price_e8.
        let cr_e4 = collateral_ratio_e4 collateral_e18 (native_decimals_of s chain) price_e8 debt_e8s in
        if cr_e4 < min_cr_e4 then Err (OvBelowMinCr cr_e4 min_cr_e4)
        else if debt_e8s < min_vault_debt_e8s then Err (OvBelowMinDebt debt_e8s min_vault_debt_e8s)
        else
          let would_be = sat_add128 (total_chain_debt_including_pending_e8s s chain) debt_e8s in
          if (case debt_ceiling_e8s of Some ceiling \<Rightarrow> would_be > ceiling | None \<Rightarrow> False)
          then Err (OvDebtCeilingExceeded would_be (the debt_ceiling_e8s))
          else Ok (s\<lparr>chain_vaults := bm_insert vault_id
                 \<lparr>cv_vault_id = vault_id, cv_owner = owner, cv_collateral_chain = chain,
                  cv_custody_address = custody_address, cv_collateral_amount_native = collateral_e18,
                  cv_debt_e8s = 0, cv_mint_recipient = mint_recipient, cv_pending_mint_e8s = debt_e8s,
                  cv_status = AwaitingDeposit, cv_opened_at_ns = now_ns, cv_owner_evm = None,
                  cv_last_interest_accrual_ns = 0, cv_pending_interest_mint_e8s = 0,
                  cv_pending_liquidation = None\<rparr> (chain_vaults s)\<rparr>)))"

definition verify_deposit_and_enqueue_mint_in_state ::
    "multi_chain_state \<Rightarrow> u64 \<Rightarrow> u128 \<Rightarrow> u64 \<Rightarrow> (open_vault_error, multi_chain_state \<times> bool) outcome" where
  "verify_deposit_and_enqueue_mint_in_state s vault_id observed_balance_e18 now_ns =
     (case bm_get (chain_vaults s) vault_id of
        None \<Rightarrow> Err OvUnknownVault
      | Some v \<Rightarrow>
          if cv_status v \<noteq> AwaitingDeposit then Ok (s, False)
          else
            let chain = cv_collateral_chain v in
            if observed_balance_e18 < cv_collateral_amount_native v then Ok (s, False)
            else if chain_bad_debt_circuit_tripped s chain then Err (OvChainBadDebtCircuitTripped chain)
            else and_then (map_err OvQueueError (enqueue_in_state s chain
                   (settlement_op_new (Mint (cv_mint_recipient v) (cv_pending_mint_e8s v) vault_id)
                      (dash_key ''mint'' [chain, vault_id]) now_ns))) (\<lambda>(s1, _).
                 Ok (update_vault vault_id (\<lambda>w. w\<lparr>cv_status := MintPending\<rparr>) s1, True)))"

section \<open>Withdrawing and closing\<close>

definition withdraw_collateral_in_state ::
    "'d decimal_ops \<Rightarrow> multi_chain_state \<Rightarrow> u64 \<Rightarrow> u128 \<Rightarrow> string \<Rightarrow> (string \<Rightarrow> bool) \<Rightarrow> string \<Rightarrow> u64 \<Rightarrow> u64
      \<Rightarrow> (withdraw_error, multi_chain_state) outcome" where
  "withdraw_collateral_in_state D s vault_id amount_e18 dest_address address_validator price_symbol min_cr_e4 now_ns =
     (case bm_get (chain_vaults s) vault_id of
        None \<Rightarrow> Err WdUnknownVault
      | Some v \<Rightarrow>
          if cv_status v \<noteq> Open then Err (WdWrongStatus (cv_status v))
          else if cv_pending_mint_e8s v \<noteq> 0 then Err WdMintInFlight
          else if cv_pending_interest_mint_e8s v > 0 then Err WdInterestRealizationPending
          else if cv_pending_liquidation v \<noteq> None then Err WdLiquidationInFlight
          else if amount_e18 > cv_collateral_amount_native v then Err WdInsufficientCollateral
          else if cv_debt_e8s v > 0 \<and> chain_bad_debt_circuit_tripped s (cv_collateral_chain v)
          then Err (WdChainBadDebtCircuitTripped (cv_collateral_chain v))
          else
            let remaining = cv_collateral_amount_native v - amount_e18;
                chain = cv_collateral_chain v;
                debt_e8s = cv_debt_e8s v
            in and_then (map_err map_withdraw_price_error (gated_chain_price_e8 s chain price_symbol now_ns)) (\<lambda>price_e8.
               and_then
                 (if debt_e8s > 0 then
                    let apr_bps = (case chain_collateral_config chain of
                                     Some c \<Rightarrow> ccc_interest_apr_bps c | None \<Rightarrow> 0)
                    in and_then (or_trap (accrued_chain_interest_e8s D debt_e8s apr_bps
                                            (sat_sub now_ns (cv_last_interest_accrual_ns v)))) (\<lambda>accrued.
                       let effective_debt = sat_add128 debt_e8s accrued;
                           cr_e4 = collateral_ratio_e4 remaining (native_decimals_of s chain) price_e8 effective_debt
                       in if cr_e4 < min_cr_e4 then Err (WdBelowMinCr cr_e4 min_cr_e4) else Ok ())
                  else Ok ()) (\<lambda>_.
               if \<not> address_validator dest_address then Err (WdInvalidAddress dest_address)
               else and_then (map_err WdQueueError (enqueue_in_state s chain
                      (settlement_op_new (NativeWithdrawal dest_address amount_e18 vault_id)
                         (dash_key ''withdraw'' [chain, vault_id, now_ns]) now_ns))) (\<lambda>(s1, _).
                    Ok (update_vault vault_id (\<lambda>w.
                          let w1 = w\<lparr>cv_collateral_amount_native := remaining\<rparr>
                          in if remaining = 0 \<and> debt_e8s = 0 then w1\<lparr>cv_status := Closing\<rparr> else w1) s1)))))"

definition close_chain_vault_in_state ::
    "'d decimal_ops \<Rightarrow> multi_chain_state \<Rightarrow> u64 \<Rightarrow> string \<Rightarrow> (string \<Rightarrow> bool) \<Rightarrow> string \<Rightarrow> u64 \<Rightarrow> u64
      \<Rightarrow> (withdraw_error, multi_chain_state) outcome" where
  "close_chain_vault_in_state D s vault_id dest_address address_validator price_symbol min_cr_e4 now_ns =
     (case bm_get (chain_vaults s) vault_id of
        None \<Rightarrow> Err WdUnknownVault
      | Some v \<Rightarrow>
          if cv_debt_e8s v \<noteq> 0 then Err WdHasDebt
          else if cv_pending_mint_e8s v \<noteq> 0 then Err WdMintInFlight
          else if cv_pending_liquidation v \<noteq> None then Err WdLiquidationInFlight
          else if cv_collateral_amount_native v = 0 \<and> cv_status v = Open
          then Ok (update_vault vault_id (\<lambda>w. w\<lparr>cv_status := Closed\<rparr>) s)
          else withdraw_collateral_in_state D s vault_id (cv_collateral_amount_native v) dest_address
                 address_validator price_symbol min_cr_e4 now_ns)"

section \<open>Liquidation start\<close>

fun liquidation_price_error_of :: "price_error \<Rightarrow> liquidation_error" where
  "liquidation_price_error_of PeNoPrice = LqNoPrice"
| "liquidation_price_error_of PeZeroPrice = LqZeroPrice"
| "liquidation_price_error_of PeNoTimestamp = LqNoTimestamp"
| "liquidation_price_error_of PeStale = LqStalePrice"

definition begin_liquidation_in_state ::
    "'d decimal_ops \<Rightarrow> multi_chain_state \<Rightarrow> u64 \<Rightarrow> (string \<Rightarrow> bool) \<Rightarrow> string \<Rightarrow> u64 \<Rightarrow> u64
      \<Rightarrow> (liquidation_error, multi_chain_state \<times> u64) outcome" where
  "begin_liquidation_in_state D s vault_id address_validator price_symbol liquidation_threshold_e4 now_ns =
     (case bm_get (chain_vaults s) vault_id of
        None \<Rightarrow> Err LqUnknownVault
      | Some v \<Rightarrow>
          if cv_status v \<noteq> Open then Err (LqWrongStatus (cv_status v))
          else if cv_pending_mint_e8s v \<noteq> 0 then Err LqMintInFlight
          else if cv_pending_interest_mint_e8s v \<noteq> 0 then Err LqInterestRealizationPending
          else if cv_pending_liquidation v \<noteq> None then Err LqAlreadyLiquidating
          else
            let chain = cv_collateral_chain v in
            case bm_get (chain_liquidation_configs s) chain of
              None \<Rightarrow> Err LqNoConfig
            | Some cfg \<Rightarrow>
                if \<not> lc_enabled cfg then Err LqNotEnabled
                else and_then (map_err liquidation_price_error_of
                       (fresh_chain_price_e8 s chain price_symbol now_ns (lc_max_price_age_ns cfg))) (\<lambda>price_e8.
                  let cc = chain_collateral_config chain;
                      apr_bps = (case cc of Some c \<Rightarrow> ccc_interest_apr_bps c | None \<Rightarrow> 0);
                      penalty_bps = (case cc of Some c \<Rightarrow> ccc_liquidation_penalty_bps c | None \<Rightarrow> 0);
                      target_cr_e4 = (case cc of Some c \<Rightarrow> ccc_recovery_target_cr_e4 c
                                                | None \<Rightarrow> lc_restore_target_cr_e4 cfg);
                      native_decimals = native_decimals_of s chain
                  in and_then (or_trap (effective_debt_e8s D (cv_debt_e8s v) (cv_pending_interest_mint_e8s v)
                                  apr_bps (sat_sub now_ns (cv_last_interest_accrual_ns v)))) (\<lambda>eff_debt.
                  let cr_e4 = collateral_ratio_e4 (cv_collateral_amount_native v) native_decimals price_e8 eff_debt in
                  if cr_e4 \<ge> liquidation_threshold_e4
                  then Err (LqNotLiquidatable cr_e4 liquidation_threshold_e4)
                  else
                    let bonus_e4 = bonus_e4_from_penalty_bps penalty_bps;
                        coll_value = collateral_value_e8s (cv_collateral_amount_native v) native_decimals price_e8;
                        sized = sized_repay_e8s eff_debt coll_value target_cr_e4 bonus_e4;
                        value_cap = value_cap_to_repay (lc_max_swap_value_e8s cfg) bonus_e4;
                        effective_repay = min sized value_cap;
                        collateral_in = min (collateral_in_native_for_repay effective_repay bonus_e4
                                               native_decimals price_e8) (cv_collateral_amount_native v)
                    in
                    if effective_repay = 0 \<or> collateral_in = 0 then Err LqNothingToLiquidate
                    else
                      let reserve_recipient = lc_settle_stable_token cfg in
                      case find (\<lambda>a. \<not> address_validator a) [lc_router cfg, lc_pair cfg, reserve_recipient] of
                        Some a \<Rightarrow> Err (LqInvalidAddress a)
                      | None \<Rightarrow>
                          and_then (map_err LqQueueError (enqueue_in_state s chain
                             (settlement_op_new
                                (LiquidationSwap vault_id collateral_in 0 effective_repay (lc_router cfg)
                                   (lc_pair cfg) [lc_collateral_token cfg, lc_settle_stable_token cfg]
                                   reserve_recipient 180)
                                (dash_key ''liquidate'' [chain, vault_id, now_ns]) now_ns))) (\<lambda>(s1, i).
                          let s2 = update_vault vault_id (\<lambda>w. w
                                     \<lparr>cv_collateral_amount_native := cv_collateral_amount_native w - collateral_in,
                                      cv_pending_liquidation :=
                                        Some \<lparr>pl_op_id = i, pl_debt_to_clear_e8s = effective_repay,
                                              pl_collateral_reserved_native = collateral_in,
                                              pl_tier = Bot, pl_started_at_ns = now_ns\<rparr>\<rparr>) s1
                          in Ok (s2\<lparr>bot_pending_chain_vaults :=
                                     bm_insert vault_id now_ns (bot_pending_chain_vaults s2)\<rparr>, i)))))"

section \<open>Borrowing\<close>

definition max_vaults_per_owner :: usize where
  "max_vaults_per_owner = 25"

definition borrow_chain_vault_in_state ::
    "multi_chain_state \<Rightarrow> u64 \<Rightarrow> u128 \<Rightarrow> string \<Rightarrow> (string \<Rightarrow> bool) \<Rightarrow> string \<Rightarrow> u64 \<Rightarrow> u128
      \<Rightarrow> u128 option \<Rightarrow> u64 \<Rightarrow> (borrow_error, multi_chain_state) outcome" where
  "borrow_chain_vault_in_state s vault_id additional_e8s rcpt address_validator price_symbol min_cr_e4
       min_vault_debt_e8s debt_ceiling_e8s now_ns =
     (if additional_e8s = 0 then Err BwZeroDebt
      else if \<not> address_validator rcpt then Err (BwInvalidAddress rcpt)
      else case bm_get (chain_vaults s) vault_id of
        None \<Rightarrow> Err BwUnknownVault
      | Some v \<Rightarrow>
          if cv_status v \<noteq> Open then Err (BwWrongStatus (cv_status v))
          else if cv_pending_mint_e8s v \<noteq> 0 then Err BwMintInFlight
          else if cv_pending_liquidation v \<noteq> None then Err BwLiquidationInFlight
          else if chain_bad_debt_circuit_tripped s (cv_collateral_chain v)
          then Err (BwChainBadDebtCircuitTripped (cv_collateral_chain v))
          else
            let chain = cv_collateral_chain v;
                new_debt = sat_add128 (cv_debt_e8s v) additional_e8s
            in and_then (map_err map_borrow_price_error (gated_chain_price_e8 s chain price_symbol now_ns)) (\<lambda>price_e8.
               let cr_e4 = collateral_ratio_e4 (cv_collateral_amount_native v) (native_decimals_of s chain)
                             price_e8 new_debt in
               if cr_e4 < min_cr_e4 then Err (BwBelowMinCr cr_e4 min_cr_e4)
               else if new_debt < min_vault_debt_e8s then Err (BwBelowMinDebt new_debt min_vault_debt_e8s)
               else
                 let would_be = sat_add128 (total_chain_debt_including_pending_e8s s chain) additional_e8s in
                 if (case debt_ceiling_e8s of Some ceiling \<Rightarrow> would_be > ceiling | None \<Rightarrow> False)
                 then Err (BwDebtCeilingExceeded would_be (the debt_ceiling_e8s))
                 else and_then (map_err BwQueueError (enqueue_in_state s chain
                        (settlement_op_new (Mint rcpt additional_e8s vault_id)
                           (dash_key ''mint'' [chain, vault_id, now_ns]) now_ns))) (\<lambda>(s1, _).
                      Ok (update_vault vault_id (\<lambda>w. w\<lparr>cv_pending_mint_e8s := additional_e8s\<rparr>) s1))))"

section \<open>Pruning unfunded vaults\<close>

definition awaiting_deposit_ttl_ns :: u64 where
  "awaiting_deposit_ttl_ns = 24 * 60 * 60 * 1000000000"

definition stale_awaiting :: "multi_chain_state \<Rightarrow> u64 \<Rightarrow> u64 \<Rightarrow> chain_vault \<Rightarrow> bool" where
  "stale_awaiting s now_ns ttl_ns v \<longleftrightarrow>
     (case bm_get (chain_configs s) (cv_collateral_chain v) of
        Some c \<Rightarrow> cc_status c = Registered | None \<Rightarrow> False)
     \<and> \<not> bm_get_or False (reorg_halted s) (cv_collateral_chain v)
     \<and> cv_status v = AwaitingDeposit \<and> sat_sub now_ns (cv_opened_at_ns v) > ttl_ns"

definition prune_stale_awaiting_deposit ::
    "multi_chain_state \<Rightarrow> u64 \<Rightarrow> u64 \<Rightarrow> multi_chain_state \<times> usize" where
  "prune_stale_awaiting_deposit s now_ns ttl_ns =
     (let stale = map fst (filter (\<lambda>(_, v). stale_awaiting s now_ns ttl_ns v) (bm_entries (chain_vaults s)))
      in (s\<lparr>chain_vaults := fold bm_remove stale (chain_vaults s)\<rparr>, length stale))"

section \<open>Harvesting interest\<close>

text \<open>Phase 1 of the harvest: the eligible vaults with their accrued amounts. The whole call
  panics if any accrual does.\<close>

definition harvest_candidate :: "chain_id \<Rightarrow> chain_vault \<Rightarrow> bool" where
  "harvest_candidate chain v \<longleftrightarrow> cv_collateral_chain v = chain \<and> cv_status v = Open
     \<and> cv_debt_e8s v > 0 \<and> cv_pending_interest_mint_e8s v = 0"

fun harvest_scan ::
    "'d decimal_ops \<Rightarrow> u64 \<Rightarrow> u128 \<Rightarrow> u64 \<Rightarrow> chain_vault list \<Rightarrow> (u64 \<times> u128) list option" where
  "harvest_scan D apr_bps threshold_e8s now_ns [] = Some []"
| "harvest_scan D apr_bps threshold_e8s now_ns (v # vs) =
     Option.bind (accrued_chain_interest_e8s D (cv_debt_e8s v) apr_bps
                    (sat_sub now_ns (cv_last_interest_accrual_ns v))) (\<lambda>accrued.
     Option.bind (harvest_scan D apr_bps threshold_e8s now_ns vs) (\<lambda>rest.
       Some (if accrued > 0 \<and> accrued \<ge> threshold_e8s then (cv_vault_id v, accrued) # rest else rest)))"

text \<open>Phase 2: the allocator \<open>alloc\<close> threads its own state \<open>c\<close>.\<close>

fun harvest_enqueue ::
    "chain_id \<Rightarrow> string \<Rightarrow> u64 \<Rightarrow> ('c \<Rightarrow> u64 \<times> 'c) \<Rightarrow> (u64 \<times> u128) list
      \<Rightarrow> multi_chain_state \<Rightarrow> 'c \<Rightarrow> multi_chain_state \<times> 'c \<times> u64 list" where
  "harvest_enqueue chain treasury now_ns alloc [] s c = (s, c, [])"
| "harvest_enqueue chain treasury now_ns alloc ((vid, amount) # es) s c =
     (let (mint_id, c1) = alloc c;
          op = settlement_op_new (InterestMint vid mint_id amount now_ns treasury)
                 (dash_key ''interest'' [chain, mint_id]) now_ns
      in case enqueue_in_state s chain op of
           Ok (s1, i) \<Rightarrow>
             let s2 = update_vault vid (\<lambda>v. v\<lparr>cv_pending_interest_mint_e8s := amount\<rparr>) s1;
                 (s3, c2, ids) = harvest_enqueue chain treasury now_ns alloc es s2 c1
             in (s3, c2, i # ids)
         | _ \<Rightarrow> harvest_enqueue chain treasury now_ns alloc es s c1)"

definition harvest_chain_interest_in_state ::
    "'d decimal_ops \<Rightarrow> multi_chain_state \<Rightarrow> chain_id \<Rightarrow> u64 \<Rightarrow> u128 \<Rightarrow> string \<Rightarrow> u64 \<Rightarrow> ('c \<Rightarrow> u64 \<times> 'c)
      \<Rightarrow> 'c \<Rightarrow> (multi_chain_state \<times> 'c \<times> u64 list) option" where
  "harvest_chain_interest_in_state D s chain apr_bps threshold_e8s treasury_recipient now_ns alloc c =
     (if chain_bad_debt_circuit_tripped s chain then Some (s, c, [])
      else map_option (\<lambda>eligible. harvest_enqueue chain treasury_recipient now_ns alloc eligible s c)
             (harvest_scan D apr_bps threshold_e8s now_ns
                (filter (harvest_candidate chain) (bm_values (chain_vaults s)))))"

end
