(* ===== verification/Chain_Liquidation.thy ===== *)
theory Chain_Liquidation
  imports Chain_Vault
begin

text \<open>
  Routing of underwater foreign-chain vaults (\<^verbatim>\<open>chains/liquidation.rs\<close>): detection and hand-over
  to the bot tier, escalation of stalled bot liquidations to the stability-pool tier, and the
  pruning of routing entries. The decimal crate is the parameter \<open>D\<close>; \<open>None\<close> is a panic.
\<close>

section \<open>Operations\<close>

record chain_bot_sp_escalation =
  be_vault_id :: u64
  be_op_id :: u64
  be_reason :: string

text \<open>\<^verbatim>\<open>settlement_queues.get_mut(&chain).and_then(|q| q.pending.get_mut(&op_id))\<close>\<close>

definition update_op ::
    "chain_id \<Rightarrow> u64 \<Rightarrow> (settlement_op \<Rightarrow> settlement_op) \<Rightarrow> multi_chain_state \<Rightarrow> multi_chain_state" where
  "update_op chain i f s =
     s\<lparr>settlement_queues := bm_modify chain (\<lambda>q. q\<lparr>q_pending := bm_modify i f (q_pending q)\<rparr>)
                             (settlement_queues s)\<rparr>"

definition find_op :: "multi_chain_state \<Rightarrow> chain_id \<Rightarrow> u64 \<Rightarrow> settlement_op option" where
  "find_op s chain i = Option.bind (bm_get (settlement_queues s) chain) (\<lambda>q. bm_get (q_pending q) i)"

definition escalation_candidate ::
    "multi_chain_state \<Rightarrow> chain_id \<Rightarrow> u64 \<Rightarrow> u64 \<Rightarrow> u64 \<times> u64 \<Rightarrow> (u64 \<times> u64 \<times> u128 \<times> string) option" where
  "escalation_candidate s chain now_ns bot_timeout_ns = (\<lambda>(vid, pending_since_ns).
     case bm_get (chain_vaults s) vid of
       None \<Rightarrow> None
     | Some v \<Rightarrow>
         if cv_collateral_chain v \<noteq> chain then None
         else case cv_pending_liquidation v of
           None \<Rightarrow> None
         | Some marker \<Rightarrow>
             if pl_tier marker \<noteq> Bot then None
             else
               let found = (\<lambda>reason. Some (vid, pl_op_id marker, pl_collateral_reserved_native marker, reason));
                   late = should_escalate_to_sp pending_since_ns now_ns bot_timeout_ns False;
                   waited = show_nat (sat_sub now_ns pending_since_ns)
               in case map_option op_status (find_op s chain (pl_op_id marker)) of
                    Some (Failed _ _) \<Rightarrow> found ''bot liquidation swap failed; escalated to stability pool''
                  | Some Queued \<Rightarrow>
                      if \<not> late then None
                      else found (''bot liquidation timed out after '' @ waited @ ''ns; escalated to stability pool'')
                  | Some (Inflight _ _) \<Rightarrow> None
                  | Some (Succeeded _ _) \<Rightarrow> None
                  | None \<Rightarrow>
                      if \<not> late then None
                      else found (''bot liquidation settlement op missing after '' @ waited
                                  @ ''ns; escalated to stability pool''))"

definition escalate_one ::
    "chain_id \<Rightarrow> u64 \<Rightarrow> u64 \<times> u64 \<times> u128 \<times> string \<Rightarrow> multi_chain_state \<times> chain_bot_sp_escalation list
      \<Rightarrow> multi_chain_state \<times> chain_bot_sp_escalation list" where
  "escalate_one chain now_ns = (\<lambda>(vid, i, reserved_native, reason) (s, escalated).
     if (case Option.bind (bm_get (chain_vaults s) vid) cv_pending_liquidation of
           Some m \<Rightarrow> pl_op_id m = i \<and> pl_tier m = Bot | None \<Rightarrow> False)
     then
       let s1 = update_vault vid (\<lambda>v. v
                  \<lparr>cv_collateral_amount_native := sat_add128 (cv_collateral_amount_native v) reserved_native,
                   cv_pending_liquidation := None\<rparr>) s;
           s2 = update_op chain i (\<lambda>op. case op_status op of Succeeded _ _ \<Rightarrow> op
                                              | _ \<Rightarrow> mark_failed reason now_ns op) s1
       in (s2\<lparr>bot_pending_chain_vaults := bm_remove vid (bot_pending_chain_vaults s2),
              sp_attempted_chain_vaults := bs_insert vid (sp_attempted_chain_vaults s2)\<rparr>,
           escalated @ [\<lparr>be_vault_id = vid, be_op_id = i, be_reason = reason\<rparr>])
     else (s, escalated))"

definition escalate_timed_out_bot_liquidations_in_state ::
    "multi_chain_state \<Rightarrow> chain_id \<Rightarrow> u64 \<Rightarrow> u64 \<Rightarrow> usize
      \<Rightarrow> multi_chain_state \<times> chain_bot_sp_escalation list" where
  "escalate_timed_out_bot_liquidations_in_state s chain now_ns bot_timeout_ns max_per_tick =
     (if max_per_tick = 0 then (s, [])
      else fold (escalate_one chain now_ns)
             (take max_per_tick (List.map_filter (escalation_candidate s chain now_ns bot_timeout_ns)
                (bm_entries (bot_pending_chain_vaults s)))) (s, []))"

definition max_price_age_of :: "multi_chain_state \<Rightarrow> chain_id \<Rightarrow> u64" where
  "max_price_age_of s chain =
     (case bm_get (chain_liquidation_configs s) chain of Some c \<Rightarrow> lc_max_price_age_ns c | None \<Rightarrow> 0)"

definition apr_bps_of :: "chain_id \<Rightarrow> u64" where
  "apr_bps_of chain = (case chain_collateral_config chain of Some c \<Rightarrow> ccc_interest_apr_bps c | None \<Rightarrow> 0)"

definition vault_cr_e4 :: "'d decimal_ops \<Rightarrow> multi_chain_state \<Rightarrow> chain_id \<Rightarrow> u64 \<Rightarrow> u64 \<Rightarrow> chain_vault \<Rightarrow> u64 option" where
  "vault_cr_e4 D s chain price_e8 now_ns v =
     map_option (collateral_ratio_e4 (cv_collateral_amount_native v) (native_decimals_of s chain) price_e8)
       (effective_debt_e8s D (cv_debt_e8s v) (cv_pending_interest_mint_e8s v) (apr_bps_of chain)
          (sat_sub now_ns (cv_last_interest_accrual_ns v)))"

text \<open>The loop over the vaults that collects the recovered ones; \<open>None\<close> is a panic in an accrual.\<close>

fun recovered_scan ::
    "'d decimal_ops \<Rightarrow> multi_chain_state \<Rightarrow> chain_id \<Rightarrow> (price_error, u64) outcome \<Rightarrow> u64 \<Rightarrow> u64
      \<Rightarrow> (u64 \<times> chain_vault) list \<Rightarrow> (u64 \<times> bool) list option" where
  "recovered_scan D s chain price threshold now_ns [] = Some []"
| "recovered_scan D s chain price threshold now_ns ((vid, v) # es) =
     (if cv_collateral_chain v \<noteq> chain \<or> cv_pending_liquidation v \<noteq> None
      then recovered_scan D s chain price threshold now_ns es
      else
        let resolved = (cv_status v = Closed \<or> cv_debt_e8s v = 0) in
        Option.bind (case price of
                       Ok p \<Rightarrow> map_option (\<lambda>cr. cr \<ge> threshold) (vault_cr_e4 D s chain p now_ns v)
                     | _ \<Rightarrow> Some False) (\<lambda>recovered_above.
        map_option (\<lambda>rest. if resolved \<or> recovered_above then (vid, resolved) # rest else rest)
          (recovered_scan D s chain price threshold now_ns es)))"

definition drop_routing :: "u64 \<times> bool \<Rightarrow> multi_chain_state \<Rightarrow> multi_chain_state" where
  "drop_routing = (\<lambda>(vid, resolved) s.
     let s1 = s\<lparr>bot_pending_chain_vaults := bm_remove vid (bot_pending_chain_vaults s)\<rparr>
     in if resolved then s1\<lparr>sp_attempted_chain_vaults := bs_remove vid (sp_attempted_chain_vaults s1)\<rparr> else s1)"

definition prune_recovered_chain_routing_state ::
    "'d decimal_ops \<Rightarrow> multi_chain_state \<Rightarrow> chain_id \<Rightarrow> string \<Rightarrow> u64 \<Rightarrow> u64 \<Rightarrow> multi_chain_state option" where
  "prune_recovered_chain_routing_state D s chain price_symbol liquidation_threshold_e4 now_ns =
     (let price_e8 = fresh_chain_price_e8 s chain price_symbol now_ns (max_price_age_of s chain)
      in map_option (\<lambda>recovered. fold drop_routing recovered s)
           (recovered_scan D s chain price_e8 liquidation_threshold_e4 now_ns (bm_entries (chain_vaults s))))"

text \<open>The read-only pass that picks candidates. The loop tests its cap after a push, so it
  takes at least one candidate even when \<open>max_per_tick\<close> is 0.\<close>

definition liquidation_scannable :: "multi_chain_state \<Rightarrow> chain_id \<Rightarrow> u64 \<Rightarrow> chain_vault \<Rightarrow> bool" where
  "liquidation_scannable s chain vid v \<longleftrightarrow>
     \<not> (cv_collateral_chain v \<noteq> chain \<or> cv_status v \<noteq> Open \<or> cv_pending_mint_e8s v \<noteq> 0
        \<or> cv_pending_interest_mint_e8s v \<noteq> 0 \<or> cv_pending_liquidation v \<noteq> None
        \<or> bs_mem vid (sp_attempted_chain_vaults s))"

fun candidate_scan ::
    "'d decimal_ops \<Rightarrow> multi_chain_state \<Rightarrow> chain_id \<Rightarrow> u64 \<Rightarrow> u64 \<Rightarrow> u64 \<Rightarrow> usize
      \<Rightarrow> (u64 \<times> chain_vault) list \<Rightarrow> u64 list \<Rightarrow> u64 list option" where
  "candidate_scan D s chain price_e8 threshold now_ns max_per_tick [] acc = Some acc"
| "candidate_scan D s chain price_e8 threshold now_ns max_per_tick ((vid, v) # es) acc =
     (if \<not> liquidation_scannable s chain vid v
      then candidate_scan D s chain price_e8 threshold now_ns max_per_tick es acc
      else Option.bind (vault_cr_e4 D s chain price_e8 now_ns v) (\<lambda>cr.
        if cr < threshold then
          (let acc1 = acc @ [vid] in
           if length acc1 \<ge> max_per_tick then Some acc1
           else candidate_scan D s chain price_e8 threshold now_ns max_per_tick es acc1)
        else candidate_scan D s chain price_e8 threshold now_ns max_per_tick es acc))"

fun route_candidates ::
    "'d decimal_ops \<Rightarrow> string \<Rightarrow> u64 \<Rightarrow> u64 \<Rightarrow> u64 list \<Rightarrow> multi_chain_state \<Rightarrow> usize
      \<Rightarrow> (multi_chain_state \<times> usize) option" where
  "route_candidates D price_symbol threshold now_ns [] s routed = Some (s, routed)"
| "route_candidates D price_symbol threshold now_ns (vid # vids) s routed =
     (case begin_liquidation_in_state D s vid is_valid_evm_address price_symbol threshold now_ns of
        Ok (s1, _) \<Rightarrow> route_candidates D price_symbol threshold now_ns vids s1 (routed + 1)
      | Err _ \<Rightarrow> route_candidates D price_symbol threshold now_ns vids s routed
      | Trap \<Rightarrow> None)"

definition detect_and_route_chain_liquidations_in_state ::
    "'d decimal_ops \<Rightarrow> multi_chain_state \<Rightarrow> chain_id \<Rightarrow> string \<Rightarrow> u64 \<Rightarrow> u64 \<Rightarrow> usize
      \<Rightarrow> (multi_chain_state \<times> usize) option" where
  "detect_and_route_chain_liquidations_in_state D s chain price_symbol liquidation_threshold_e4 now_ns max_per_tick =
     Option.bind (prune_recovered_chain_routing_state D s chain price_symbol liquidation_threshold_e4 now_ns) (\<lambda>s1.
       if \<not> (case bm_get (chain_liquidation_configs s1) chain of Some c \<Rightarrow> lc_enabled c | None \<Rightarrow> False)
       then Some (s1, 0)
       else case fresh_chain_price_e8 s1 chain price_symbol now_ns (max_price_age_of s1 chain) of
         Ok price_e8 \<Rightarrow>
           Option.bind (candidate_scan D s1 chain price_e8 liquidation_threshold_e4 now_ns max_per_tick
                          (bm_entries (chain_vaults s1)) []) (\<lambda>candidates.
             route_candidates D price_symbol liquidation_threshold_e4 now_ns candidates s1 0)
       | _ \<Rightarrow> Some (s1, 0))"

end
