(* ===== verification/Burn_Watch.thy ===== *)
theory Burn_Watch
  imports Chain_Vault
begin

text \<open>
  Observation of the foreign chain (\<^verbatim>\<open>evm/deposit_watch.rs\<close>, \<^verbatim>\<open>evm/burn_proof.rs\<close>) with the
  operational predicates of \<^verbatim>\<open>evm/hardening.rs\<close>: applying an observed burn, the de-duplication
  of burn logs, the catch-up sweep of the observer and the permissionless burn proof. The
  results of RPC calls are arguments. A call that stops half-way keeps the burns it applied, so
  these operations return the state beside the result.
\<close>

section \<open>Hardening predicates\<close>

definition hot_wallet_min_e18 :: u128 where
  "hot_wallet_min_e18 = 100000000000000000"

definition is_stuck :: "u32 \<Rightarrow> u32 \<Rightarrow> bool" where
  "is_stuck n finality_depth \<longleftrightarrow> n \<ge> max (sat_mul64 finality_depth 2) 2"

definition on_not_mined_tick :: "u32 \<Rightarrow> u32 \<Rightarrow> bool \<Rightarrow> u32 \<times> bool" where
  "on_not_mined_tick n finality_depth has_submit_nonce =
     (let new_tries = sat_add32 n 1 in (new_tries, has_submit_nonce \<and> is_stuck new_tries finality_depth))"

definition swap_confirm_finality_margin_secs :: u64 where
  "swap_confirm_finality_margin_secs = 600"

definition swap_confirm_timed_out :: "u64 \<Rightarrow> u64 \<Rightarrow> u64 \<Rightarrow> u64 \<Rightarrow> bool" where
  "swap_confirm_timed_out inflight_since_ns now_ns deadline_secs finality_margin_secs =
     (let timeout_ns = sat_mul64 (sat_add64 deadline_secs finality_margin_secs) 1000000000
      in sat_sub now_ns inflight_since_ns > timeout_ns)"

definition reorg_confirm_ticks :: u32 where
  "reorg_confirm_ticks = 3"

definition on_reorg_tick :: "u32 \<Rightarrow> bool \<Rightarrow> u32 \<times> bool" where
  "on_reorg_tick streak suspected =
     (if suspected then let n = sat_add32 streak 1 in (n, n \<ge> reorg_confirm_ticks) else (0, False))"

definition is_reorg :: "u64 \<Rightarrow> u64 \<Rightarrow> u32 \<Rightarrow> bool" where
  "is_reorg prev_observed now_observed finality_depth \<longleftrightarrow>
     now_observed < prev_observed \<and> prev_observed - now_observed > finality_depth"

definition hot_wallet_ok :: "u128 \<Rightarrow> bool" where
  "hot_wallet_ok balance_e18 \<longleftrightarrow> balance_e18 \<ge> hot_wallet_min_e18"

definition bump_gas :: "u128 \<Rightarrow> u128 \<Rightarrow> u128 \<times> u128" where
  "bump_gas prio max_fee = (sat_mul128 prio 125 div 100, sat_mul128 max_fee 125 div 100)"

definition inflight_stale_ns :: u64 where
  "inflight_stale_ns = 600000000000"

definition inflight_should_acquire :: "u64 option \<Rightarrow> u64 \<Rightarrow> u64 \<Rightarrow> bool" where
  "inflight_should_acquire existing now_ns stale_ns =
     (case existing of None \<Rightarrow> True | Some acquired_at \<Rightarrow> sat_sub now_ns acquired_at \<ge> stale_ns)"

section \<open>Deposits and burns\<close>

datatype burn_apply_error =
    InvalidUnknownVault u64
  | InvalidOverRepay u128 u64 u128
  | SupplyInvariant supply_invariant_error
  | DeferredLiquidation

text \<open>\<open>InvalidUnknownVault\<close> and \<open>InvalidOverRepay\<close> are the two messages of \<^verbatim>\<open>InvalidBurn\<close>.\<close>

definition backstop_should_scan :: "u128 \<Rightarrow> u128 \<Rightarrow> bool \<Rightarrow> bool" where
  "backstop_should_scan onchain_total_supply_e8s recorded_supply_e8s has_inflight_mint \<longleftrightarrow>
     \<not> has_inflight_mint \<and> onchain_total_supply_e8s < recorded_supply_e8s"

definition burn_watch_can_skip_for_no_supply_obligation :: "u128 \<Rightarrow> u128 \<Rightarrow> bool" where
  "burn_watch_can_skip_for_no_supply_obligation total_chain_debt_e8s pending_burn_e8s \<longleftrightarrow>
     total_chain_debt_e8s = 0 \<and> pending_burn_e8s = 0"

definition credit_deposit_to_state ::
    "multi_chain_state \<Rightarrow> u64 \<Rightarrow> u128 \<Rightarrow> (u64, multi_chain_state) outcome" where
  "credit_deposit_to_state s vault_id amount_e18 =
     (if \<not> bm_has (chain_vaults s) vault_id then Err vault_id
      else Ok (update_vault vault_id (\<lambda>v. v\<lparr>cv_collateral_amount_native :=
                 sat_add128 (cv_collateral_amount_native v) amount_e18\<rparr>) s))"

definition apply_burn_to_state ::
    "multi_chain_state \<Rightarrow> burn_log \<Rightarrow> u128 \<Rightarrow> (burn_apply_error, multi_chain_state) outcome" where
  "apply_burn_to_state s burn total_debt_e8s =
     (case bm_get (chain_vaults s) (bl_vault_id burn) of
        None \<Rightarrow> Err (InvalidUnknownVault (bl_vault_id burn))
      | Some v \<Rightarrow>
          if cv_pending_liquidation v \<noteq> None \<or> bs_mem (bl_vault_id burn) (sp_attempted_chain_vaults s)
          then Err DeferredLiquidation
          else if bl_amount_e8s burn > cv_debt_e8s v
          then Err (InvalidOverRepay (bl_amount_e8s burn) (bl_vault_id burn) (cv_debt_e8s v))
          else
            let post_burn_total = sat_sub total_debt_e8s (bl_amount_e8s burn)
            in and_then (map_err SupplyInvariant
                  (apply_supply_delta s (cv_collateral_chain v) (Decrease (bl_amount_e8s burn)) post_burn_total)) (\<lambda>s1.
                 Ok (update_vault (bl_vault_id burn)
                       (\<lambda>w. w\<lparr>cv_debt_e8s := wrap_sub128 (cv_debt_e8s w) (bl_amount_e8s burn)\<rparr>) s1)))"

section \<open>De-duplicated application\<close>

definition burn_key :: "string \<Rightarrow> u64 \<Rightarrow> string" where
  "burn_key tx_hash log_index = tx_hash @ '':'' @ show_nat log_index"

definition burn_seen :: "multi_chain_state \<Rightarrow> u64 \<Rightarrow> string \<Rightarrow> bool" where
  "burn_seen s block k =
     (case bm_get (processed_burn_keys s) block of Some ks \<Rightarrow> bs_mem k ks | None \<Rightarrow> False)"

definition record_burn_key :: "u64 \<Rightarrow> string \<Rightarrow> multi_chain_state \<Rightarrow> multi_chain_state" where
  "record_burn_key block k s =
     s\<lparr>processed_burn_keys :=
         bm_insert block (bs_insert k (bm_get_or bs_empty (processed_burn_keys s) block))
           (processed_burn_keys s)\<rparr>"

fun apply_receipt_logs ::
    "string \<Rightarrow> string \<Rightarrow> u64 \<Rightarrow> raw_log list \<Rightarrow> multi_chain_state \<Rightarrow> burn_log list
      \<Rightarrow> multi_chain_state \<times> (supply_invariant_error, burn_log list) outcome" where
  "apply_receipt_logs contract tx_hash block [] s applied = (s, Ok applied)"
| "apply_receipt_logs contract tx_hash block ((address, topics, data, log_index) # logs) s applied =
     (if \<not> eq_ignore_ascii_case address contract
         \<or> (case topics of t # _ \<Rightarrow> \<not> eq_ignore_ascii_case t burn_event_topic0 | [] \<Rightarrow> True)
      then apply_receipt_logs contract tx_hash block logs s applied
      else case decode_burn_log topics data tx_hash block of
        Ok burn \<Rightarrow>
          let k = burn_key (bl_tx_hash burn) log_index in
          if burn_seen s (bl_block_number burn) k
          then apply_receipt_logs contract tx_hash block logs s applied
          else (case apply_burn_to_state s burn (total_chain_vault_debt_e8s s) of
                  Ok s1 \<Rightarrow> apply_receipt_logs contract tx_hash block logs
                             (record_burn_key (bl_block_number burn) k s1) (applied @ [burn])
                | Err (SupplyInvariant e) \<Rightarrow> (s, Err e)
                | Err DeferredLiquidation \<Rightarrow> apply_receipt_logs contract tx_hash block logs s applied
                | Err _ \<Rightarrow> apply_receipt_logs contract tx_hash block logs
                             (record_burn_key (bl_block_number burn) k s) applied
                | Trap \<Rightarrow> (s, Trap))
      | _ \<Rightarrow> apply_receipt_logs contract tx_hash block logs s applied)"

definition apply_receipt_burns_to_state ::
    "multi_chain_state \<Rightarrow> string \<Rightarrow> string \<Rightarrow> tx_receipt_with_logs
      \<Rightarrow> multi_chain_state \<times> (supply_invariant_error, burn_log list) outcome" where
  "apply_receipt_burns_to_state s contract tx_hash receipt =
     apply_receipt_logs contract tx_hash (rc_block_number receipt) (rc_logs receipt) s []"

datatype burn_proof_error =
    BpNoContract
  | BpPending
  | BpReverted
  | BpNotFinal
  | BpRpc string
  | BpHalt supply_invariant_error

text \<open>\<open>receipt_of\<close> and \<open>final_of\<close> answer for \<^verbatim>\<open>eth_getTransactionReceipt\<close> and the finality probe.\<close>

definition verify_and_apply_burn_proof ::
    "(chain_id \<Rightarrow> string \<Rightarrow> (string, tx_receipt_with_logs option) outcome)
      \<Rightarrow> (chain_id \<Rightarrow> u64 \<Rightarrow> u64 \<Rightarrow> (string, bool) outcome)
      \<Rightarrow> multi_chain_state \<Rightarrow> chain_id \<Rightarrow> string \<Rightarrow> multi_chain_state \<times> (burn_proof_error, u32) outcome" where
  "verify_and_apply_burn_proof receipt_of final_of s chain tx_hash =
     (let tx = to_ascii_lowercase tx_hash in
      case bm_get (chain_contracts s) chain of
        None \<Rightarrow> (s, Err BpNoContract)
      | Some contract \<Rightarrow>
          let depth = (case bm_get (chain_configs s) chain of Some c \<Rightarrow> cc_finality_depth c | None \<Rightarrow> 1) in
          (case receipt_of chain tx of
             Err e \<Rightarrow> (s, Err (BpRpc e))
           | Trap \<Rightarrow> (s, Trap)
           | Ok None \<Rightarrow> (s, Err BpPending)
           | Ok (Some receipt) \<Rightarrow>
               if \<not> rc_success receipt then (s, Err BpReverted)
               else (case final_of chain (rc_block_number receipt) depth of
                       Err e \<Rightarrow> (s, Err (BpRpc e))
                     | Trap \<Rightarrow> (s, Trap)
                     | Ok False \<Rightarrow> (s, Err BpNotFinal)
                     | Ok True \<Rightarrow>
                         let (s1, r) = apply_receipt_burns_to_state s contract tx receipt
                         in (s1, and_then (map_err BpHalt r) (\<lambda>applied. Ok (length applied))))))"

definition advance_cursor_and_prune :: "multi_chain_state \<Rightarrow> chain_id \<Rightarrow> u64 \<Rightarrow> multi_chain_state" where
  "advance_cursor_and_prune s chain finalized =
     (let s1 = s\<lparr>last_observed_block := bm_insert chain finalized (last_observed_block s)\<rparr>;
          stale = filter (\<lambda>block. block \<le> finalized) (bm_keys (processed_burn_keys s1))
      in s1\<lparr>processed_burn_keys := fold bm_remove stale (processed_burn_keys s1)\<rparr>)"

text \<open>The catch-up sweep of \<^verbatim>\<open>run_observer\<close>: logs carry topics, data, transaction hash, block and
  log index. The flag tells whether the cursor may advance.\<close>

type_synonym swept_log = "string list \<times> string \<times> string \<times> u64 \<times> u64"

fun sweep_burn_logs :: "swept_log list \<Rightarrow> multi_chain_state \<Rightarrow> multi_chain_state \<times> bool" where
  "sweep_burn_logs [] s = (s, True)"
| "sweep_burn_logs ((topics, data, tx_hash, block, log_index) # logs) s =
     (case decode_burn_log topics data tx_hash block of
        Ok burn \<Rightarrow>
          let k = burn_key (bl_tx_hash burn) log_index in
          if burn_seen s (bl_block_number burn) k then sweep_burn_logs logs s
          else (case apply_burn_to_state s burn (total_chain_vault_debt_e8s s) of
                  Ok s1 \<Rightarrow> sweep_burn_logs logs (record_burn_key (bl_block_number burn) k s1)
                | Err (SupplyInvariant e) \<Rightarrow> (s, False)
                | Err DeferredLiquidation \<Rightarrow> (s, False)
                | Err _ \<Rightarrow> sweep_burn_logs logs (record_burn_key (bl_block_number burn) k s)
                | Trap \<Rightarrow> (s, False))
      | _ \<Rightarrow> sweep_burn_logs logs s)"

definition sweep_and_advance :: "chain_id \<Rightarrow> u64 \<Rightarrow> swept_log list \<Rightarrow> multi_chain_state \<Rightarrow> multi_chain_state" where
  "sweep_and_advance chain finalized logs s =
     (case sweep_burn_logs logs s of (s1, burn_ok) \<Rightarrow>
        if burn_ok then advance_cursor_and_prune s1 chain finalized else s1)"

text \<open>The burn-watch part of one observer tick, for a given finalized height: unseeded cursor,
  reorg debounce, fast path, notify-then-verify gate with the supply probe, sweep. The awaits of
  the code fall between these steps; no other message is interleaved here.\<close>

definition observer_burn_tick ::
    "chain_id \<Rightarrow> u64 \<Rightarrow> (string, u128) outcome \<Rightarrow> (string, swept_log list) outcome
      \<Rightarrow> multi_chain_state \<Rightarrow> multi_chain_state" where
  "observer_burn_tick chain finalized supply_probe fetched s =
     (let last_observed = bm_get_or 0 (last_observed_block s) chain;
          depth = (case bm_get (chain_configs s) chain of Some c \<Rightarrow> cc_finality_depth c | None \<Rightarrow> 1);
          suspected = is_reorg last_observed finalized depth;
          (new_streak, should_halt) = on_reorg_tick (bm_get_or 0 (reorg_suspect_streak s) chain) suspected;
          s1 = s\<lparr>reorg_suspect_streak := bm_insert chain new_streak (reorg_suspect_streak s)\<rparr>
      in if last_observed = 0 then s
         else if should_halt then s1\<lparr>reorg_halted := bm_insert chain True (reorg_halted s1)\<rparr>
         else if suspected \<or> finalized \<le> last_observed then s1
         else if burn_watch_can_skip_for_no_supply_obligation (total_chain_vault_debt_e8s s1)
                   (total_pending_chain_burn_e8s s1)
         then advance_cursor_and_prune s1 chain finalized
         else
           let poll_enabled = (case bm_get (chain_configs s1) chain of
                                 Some c \<Rightarrow> cc_burn_watch_poll_enabled c | None \<Rightarrow> False);
               has_inflight_mint = has_supply_increasing_settlement_op s1 chain;
               should_scan = (\<not> has_inflight_mint \<and>
                 (case supply_probe of
                    Ok onchain \<Rightarrow> backstop_should_scan onchain (bm_get_or 0 (chain_supplies s1) chain) has_inflight_mint
                  | _ \<Rightarrow> False))
           in if \<not> poll_enabled \<and> \<not> should_scan then advance_cursor_and_prune s1 chain finalized
              else case fetched of
                Ok logs \<Rightarrow> sweep_and_advance chain finalized logs s1
              | _ \<Rightarrow> s1)"

end
