(* ===== verification/Chain_Settlement.thy ===== *)
theory Chain_Settlement
  imports Chain_Liquidation Burn_Watch
begin

text \<open>
  State transitions of the settlement worker (\<^verbatim>\<open>evm/settlement.rs\<close>): confirming mints and
  interest mints, settling a liquidation swap, the stability-pool absorb with its collateral
  claim and payouts, the compare-and-swap claims before a broadcast, and the reversals of a
  reverted operation. What the worker learns over RPC (receipts, decoded logs) is an argument.
  The error strings are constructors that carry the interpolated values.
\<close>

section \<open>Confirming mints\<close>

datatype settlement_error =
    SeUnknownVault u64
  | SeAmountMismatch u128 u128
  | SeSupply supply_invariant_error
  | SeNoMarker u64
  | SeMarkerMismatch u64 u64
  | SeReserveShift reserve_shift_error
  | SeVaultChainMismatch chain_id chain_id
  | SeNotOpen u64
  | SePendingMint u64
  | SePendingInterestMint u64
  | SeHasMarker u64
  | SeNotEscalated u64
  | SeHasClaim u64
  | SeNothingToAbsorb u64
  | SeBurnedMismatch u128 u128 u64
  | SeNoCollateral u64
  | SePendingShift pending_burn_shift_error
  | SeZeroAmount
  | SeInvalidAddress
  | SeUnknownClaim u64
  | SeOverpaid u64
  | SeDuplicateKey string
  | SeExceedsRemaining u128 u128
  | SePendingOverflow u64
  | SeUnknownOp u64
  | SeAlreadyFailed u64 string
  | SeAlreadySucceeded u64
  | SeNotPayout u64 settlement_op_kind
  | SeClaimChainMismatch u64 chain_id chain_id
  | SePendingBelow u64 u128 u128
  | SePaidOverflow u64
  | SePaidExceedsSeized u64 u128 u128

definition confirm_mint_in_state ::
    "multi_chain_state \<Rightarrow> chain_id \<Rightarrow> u64 \<Rightarrow> u128 \<Rightarrow> u128 \<Rightarrow> u64 \<Rightarrow> (settlement_error, multi_chain_state) outcome" where
  "confirm_mint_in_state s chain vault_id observed_e8s pre_mint_total_debt now_ns =
     (case bm_get (chain_vaults s) vault_id of
        None \<Rightarrow> Err (SeUnknownVault vault_id)
      | Some v \<Rightarrow>
          if cv_pending_mint_e8s v \<noteq> observed_e8s then Err (SeAmountMismatch observed_e8s (cv_pending_mint_e8s v))
          else and_then (map_err SeSupply (apply_supply_delta s chain (Increase observed_e8s)
                           (sat_add128 pre_mint_total_debt observed_e8s))) (\<lambda>s1.
            Ok (update_vault vault_id (\<lambda>w. w\<lparr>cv_debt_e8s := sat_add128 (cv_debt_e8s w) observed_e8s,
                  cv_pending_mint_e8s := 0, cv_status := Open, cv_last_interest_accrual_ns := now_ns\<rparr>) s1)))"

definition confirm_interest_mint_in_state ::
    "multi_chain_state \<Rightarrow> chain_id \<Rightarrow> u64 \<Rightarrow> u128 \<Rightarrow> u64 \<Rightarrow> u128 \<Rightarrow> (settlement_error, multi_chain_state) outcome" where
  "confirm_interest_mint_in_state s chain vault_id observed_e8s accrual_through_ns pre_total =
     (case bm_get (chain_vaults s) vault_id of
        None \<Rightarrow> Err (SeUnknownVault vault_id)
      | Some v \<Rightarrow>
          if cv_pending_interest_mint_e8s v \<noteq> observed_e8s
          then Err (SeAmountMismatch observed_e8s (cv_pending_interest_mint_e8s v))
          else and_then (map_err SeSupply (apply_supply_delta s chain (Increase observed_e8s)
                           (sat_add128 pre_total observed_e8s))) (\<lambda>s1.
            Ok (update_vault vault_id (\<lambda>w. w\<lparr>cv_debt_e8s := sat_add128 (cv_debt_e8s w) observed_e8s,
                  cv_pending_interest_mint_e8s := 0, cv_last_interest_accrual_ns := accrual_through_ns\<rparr>) s1)))"

section \<open>Settling a liquidation swap\<close>

record liquidation_settlement =
  sl_actual_cleared :: u128
  sl_collateral_seized_native :: u128
  sl_tier :: liquidation_tier
  sl_realized_usdc_native :: u128
  sl_bad_debt_added_e8s :: u128
  sl_bad_debt_circuit_tripped :: bool

definition apply_liquidation_settlement_in_state ::
    "multi_chain_state \<Rightarrow> chain_id \<Rightarrow> u64 \<Rightarrow> u64 \<Rightarrow> u128 \<Rightarrow> u8 \<Rightarrow> u64
      \<Rightarrow> (settlement_error, multi_chain_state \<times> liquidation_settlement) outcome" where
  "apply_liquidation_settlement_in_state s chain vault_id i realized_usdc_native settle_decimals now_ns =
     (case bm_get (chain_vaults s) vault_id of
        None \<Rightarrow> Err (SeUnknownVault vault_id)
      | Some v \<Rightarrow>
          (case cv_pending_liquidation v of
             None \<Rightarrow> Err (SeNoMarker vault_id)
           | Some m \<Rightarrow>
               if pl_op_id m \<noteq> i then Err (SeMarkerMismatch (pl_op_id m) i)
               else
                 let debt_to_clear = pl_debt_to_clear_e8s m;
                     realized_usd_e8 = stable_native_to_e8s realized_usdc_native settle_decimals;
                     actual_cleared = min (min debt_to_clear (cv_debt_e8s v)) realized_usd_e8
                 in and_then (map_err SeReserveShift
                      (apply_debt_to_reserve_shift s chain vault_id actual_cleared realized_usdc_native)) (\<lambda>s1.
                    let bad_debt = sat_sub debt_to_clear actual_cleared;
                        (s2, tripped) = record_chain_bad_debt_and_maybe_trip s1 chain bad_debt now_ns;
                        s3 = update_vault vault_id (\<lambda>w.
                               let w1 = w\<lparr>cv_pending_liquidation := None\<rparr>
                               in if cv_debt_e8s w1 = 0 \<and> cv_collateral_amount_native w1 = 0
                                  then w1\<lparr>cv_status := Closed\<rparr> else w1) s2
                    in Ok (s3\<lparr>bot_pending_chain_vaults := bm_remove vault_id (bot_pending_chain_vaults s3)\<rparr>,
                           \<lparr>sl_actual_cleared = actual_cleared,
                            sl_collateral_seized_native = pl_collateral_reserved_native m,
                            sl_tier = pl_tier m, sl_realized_usdc_native = realized_usdc_native,
                            sl_bad_debt_added_e8s = bad_debt, sl_bad_debt_circuit_tripped = tripped\<rparr>))))"

section \<open>Stability-pool absorb\<close>

record sp_chain_liquidation_absorb =
  sa_actual_burned_e8s :: u128
  sa_collateral_seized_native :: u128
  sa_custody_address :: string

definition apply_sp_chain_liquidation_absorb_in_state ::
    "multi_chain_state \<Rightarrow> chain_id \<Rightarrow> u64 \<Rightarrow> u128 \<Rightarrow> u64 \<Rightarrow> u8 \<Rightarrow> u64
      \<Rightarrow> (settlement_error, multi_chain_state \<times> sp_chain_liquidation_absorb) outcome" where
  "apply_sp_chain_liquidation_absorb_in_state s chain vault_id icusd_burned_e8s price_e8 native_decimals
       liquidation_penalty_bps =
     (case bm_get (chain_vaults s) vault_id of
        None \<Rightarrow> Err (SeUnknownVault vault_id)
      | Some v \<Rightarrow>
          if cv_collateral_chain v \<noteq> chain then Err (SeVaultChainMismatch (cv_collateral_chain v) chain)
          else if cv_status v \<noteq> Open then Err (SeNotOpen vault_id)
          else if cv_pending_mint_e8s v \<noteq> 0 then Err (SePendingMint vault_id)
          else if cv_pending_interest_mint_e8s v \<noteq> 0 then Err (SePendingInterestMint vault_id)
          else if cv_pending_liquidation v \<noteq> None then Err (SeHasMarker vault_id)
          else if \<not> bs_mem vault_id (sp_attempted_chain_vaults s) then Err (SeNotEscalated vault_id)
          else if bm_has (chain_liquidation_claims s) vault_id then Err (SeHasClaim vault_id)
          else
            let live_debt = cv_debt_e8s v in
            if live_debt = 0 then Err (SeNothingToAbsorb vault_id)
            else if icusd_burned_e8s \<noteq> live_debt
            then Err (SeBurnedMismatch icusd_burned_e8s live_debt vault_id)
            else
              let bonus_e4 = bonus_e4_from_penalty_bps liquidation_penalty_bps;
                  collateral_seized = min (collateral_in_native_for_repay icusd_burned_e8s bonus_e4
                                             native_decimals price_e8) (cv_collateral_amount_native v)
              in if collateral_seized = 0 then Err (SeNoCollateral vault_id)
                 else and_then (map_err SePendingShift
                        (apply_debt_to_pending_burn_shift s chain vault_id icusd_burned_e8s)) (\<lambda>s1.
                   let s2 = update_vault vault_id (\<lambda>w.
                          let w1 = w\<lparr>cv_collateral_amount_native :=
                                     sat_sub (cv_collateral_amount_native w) collateral_seized\<rparr>
                          in if cv_debt_e8s w1 = 0 \<and> cv_collateral_amount_native w1 = 0
                             then w1\<lparr>cv_status := Closed\<rparr> else w1) s1
                   in Ok (s2\<lparr>chain_liquidation_claims := bm_insert vault_id
                              \<lparr>cl_vault_id = vault_id, cl_chain = chain,
                               cl_custody_address = cv_custody_address v,
                               cl_seized_native_total = collateral_seized, cl_paid_native = 0,
                               cl_pending_native = 0\<rparr> (chain_liquidation_claims s2)\<rparr>,
                          \<lparr>sa_actual_burned_e8s = icusd_burned_e8s,
                           sa_collateral_seized_native = collateral_seized,
                           sa_custody_address = cv_custody_address v\<rparr>)))"

section \<open>Collateral claims\<close>

text \<open>\<open>principal_text\<close> is the textual form of a principal (the \<^verbatim>\<open>candid\<close> crate).\<close>

definition claim_chain_collateral_in_state ::
    "(principal \<Rightarrow> string) \<Rightarrow> multi_chain_state \<Rightarrow> u64 \<Rightarrow> principal \<Rightarrow> u128 \<Rightarrow> string \<Rightarrow> u64 \<Rightarrow> (string \<Rightarrow> bool)
      \<Rightarrow> (settlement_error, multi_chain_state \<times> u64) outcome" where
  "claim_chain_collateral_in_state principal_text s claim_id claimant owed_wei dest_evm now_ns address_validator =
     (if owed_wei = 0 then Err SeZeroAmount
      else if \<not> address_validator dest_evm then Err SeInvalidAddress
      else case bm_get (chain_liquidation_claims s) claim_id of
        None \<Rightarrow> Err (SeUnknownClaim claim_id)
      | Some claim \<Rightarrow>
          if \<not> paid_within_seized claim then Err (SeOverpaid claim_id)
          else
            let chain = cl_chain claim;
                remaining = remaining_native claim;
                key = ''chain-collateral-claim-'' @ show_nat claim_id @ ''-'' @ principal_text claimant
                        @ ''-'' @ to_ascii_lowercase dest_evm @ ''-'' @ show_nat owed_wei
            in
            if (case bm_get (settlement_queues s) chain of
                  Some q \<Rightarrow> bs_mem key (q_seen_idempotency_keys q) | None \<Rightarrow> False)
            then Err (SeDuplicateKey key)
            else if owed_wei > remaining then Err (SeExceedsRemaining owed_wei remaining)
            else and_then (map_err (\<lambda>e. case e of DuplicateIdempotencyKey k \<Rightarrow> SeDuplicateKey k)
                   (enqueue_in_state s chain
                      ((settlement_op_new (ChainCollateralPayout dest_evm owed_wei claim_id claimant) key now_ns)
                         \<lparr>op_payout_uses_pending_reservation := Some True\<rparr>))) (\<lambda>(s1, i).
                 case checked_add128 (cl_pending_native claim) owed_wei of
                   None \<Rightarrow> Err (SePendingOverflow claim_id)
                 | Some p \<Rightarrow> Ok (s1\<lparr>chain_liquidation_claims :=
                     bm_insert claim_id (claim\<lparr>cl_pending_native := p\<rparr>) (chain_liquidation_claims s1)\<rparr>, i)))"

definition confirm_chain_collateral_payout_in_state ::
    "multi_chain_state \<Rightarrow> chain_id \<Rightarrow> u64 \<Rightarrow> string \<Rightarrow> u64 \<Rightarrow> (settlement_error, multi_chain_state \<times> bool) outcome" where
  "confirm_chain_collateral_payout_in_state s chain i tx_hash now_ns =
     (case find_op s chain i of
        None \<Rightarrow> Err (SeUnknownOp i)
      | Some op \<Rightarrow>
          (case op_status op of
             Succeeded _ _ \<Rightarrow> Ok (s, False)
           | Failed reason _ \<Rightarrow> Err (SeAlreadyFailed i reason)
           | _ \<Rightarrow>
               (case op_kind op of
                  ChainCollateralPayout _ amount claim_id _ \<Rightarrow>
                    (case bm_get (chain_liquidation_claims s) claim_id of
                       None \<Rightarrow> Err (SeUnknownClaim claim_id)
                     | Some claim \<Rightarrow>
                         if cl_chain claim \<noteq> chain then Err (SeClaimChainMismatch claim_id (cl_chain claim) chain)
                         else
                           let finish = (\<lambda>c. Ok (update_op chain i (mark_succeeded tx_hash now_ns)
                                 (s\<lparr>chain_liquidation_claims :=
                                     bm_insert claim_id c (chain_liquidation_claims s)\<rparr>), True))
                           in if op_payout_uses_pending_reservation op = Some True then
                                if cl_pending_native claim < amount
                                then Err (SePendingBelow claim_id (cl_pending_native claim) amount)
                                else (case checked_add128 (cl_paid_native claim) amount of
                                        None \<Rightarrow> Err (SePaidOverflow claim_id)
                                      | Some paid \<Rightarrow>
                                          if paid > cl_seized_native_total claim
                                          then Err (SePaidExceedsSeized claim_id paid (cl_seized_native_total claim))
                                          else finish (claim\<lparr>cl_pending_native := cl_pending_native claim - amount,
                                                             cl_paid_native := paid\<rparr>))
                              else if cl_paid_native claim \<ge> amount then
                                if cl_paid_native claim > cl_seized_native_total claim
                                then Err (SePaidExceedsSeized claim_id (cl_paid_native claim) (cl_seized_native_total claim))
                                else finish claim
                              else Err (SePendingBelow claim_id (cl_pending_native claim) amount))
                | other \<Rightarrow> Err (SeNotPayout i other))))"

text \<open>The failure path releases the reservation, and the payout's idempotency key so that the
  claim can be paid again; where the reservation cannot be released the reason says why.\<close>

datatype release_error =
    RePendingBelow u64 u128 u128
  | RePaidBelow u64 u128 u128
  | ReChainMismatch u64 chain_id chain_id
  | ReUnknownClaim u64

definition release_reservation ::
    "multi_chain_state \<Rightarrow> chain_id \<Rightarrow> u64 \<Rightarrow> u128 \<Rightarrow> bool \<Rightarrow> multi_chain_state \<times> release_error option" where
  "release_reservation s chain claim_id amount uses_pending =
     (case bm_get (chain_liquidation_claims s) claim_id of
        None \<Rightarrow> (s, Some (ReUnknownClaim claim_id))
      | Some claim \<Rightarrow>
          let put = (\<lambda>c. s\<lparr>chain_liquidation_claims := bm_insert claim_id c (chain_liquidation_claims s)\<rparr>) in
          if cl_chain claim = chain \<and> uses_pending then
            if cl_pending_native claim \<ge> amount
            then (put (claim\<lparr>cl_pending_native := cl_pending_native claim - amount\<rparr>), None)
            else (s, Some (RePendingBelow claim_id (cl_pending_native claim) amount))
          else if cl_chain claim = chain \<and> cl_paid_native claim \<ge> amount
          then (put (claim\<lparr>cl_paid_native := cl_paid_native claim - amount\<rparr>), None)
          else if cl_chain claim = chain
          then (s, Some (RePaidBelow claim_id (cl_paid_native claim) amount))
          else (s, Some (ReChainMismatch claim_id (cl_chain claim) chain)))"

fun release_error_text :: "release_error \<Rightarrow> string" where
  "release_error_text (RePendingBelow c p a) =
     ''claim '' @ show_nat c @ '' pending '' @ show_nat p @ '' is below payout '' @ show_nat a"
| "release_error_text (RePaidBelow c p a) =
     ''claim '' @ show_nat c @ '' paid '' @ show_nat p @ '' is below legacy payout '' @ show_nat a"
| "release_error_text (ReChainMismatch c x y) =
     ''claim '' @ show_nat c @ '' chain ChainId('' @ show_nat x @ '') != op chain ChainId('' @ show_nat y @ '')''"
| "release_error_text (ReUnknownClaim c) = ''unknown claim '' @ show_nat c"

definition fail_chain_collateral_payout_in_state ::
    "multi_chain_state \<Rightarrow> chain_id \<Rightarrow> u64 \<Rightarrow> string \<Rightarrow> u64 \<Rightarrow> (settlement_error, multi_chain_state \<times> bool) outcome" where
  "fail_chain_collateral_payout_in_state s chain i reason now_ns =
     (case find_op s chain i of
        None \<Rightarrow> Err (SeUnknownOp i)
      | Some op \<Rightarrow>
          (case op_status op of
             Failed _ _ \<Rightarrow> Ok (s, False)
           | Succeeded _ _ \<Rightarrow> Err (SeAlreadySucceeded i)
           | _ \<Rightarrow>
               (case op_kind op of
                  ChainCollateralPayout _ amount claim_id _ \<Rightarrow>
                    let (s1, err) = release_reservation s chain claim_id amount
                                      (op_payout_uses_pending_reservation op = Some True);
                        terminal_reason = (case err of
                            Some e \<Rightarrow> reason @ ''; backend reservation release skipped: '' @ release_error_text e
                          | None \<Rightarrow> reason);
                        s2 = update_op chain i (mark_failed terminal_reason now_ns) s1
                    in Ok (s2\<lparr>settlement_queues := bm_modify chain (\<lambda>q. q\<lparr>q_seen_idempotency_keys :=
                             bs_remove (op_idempotency_key op) (q_seen_idempotency_keys q)\<rparr>)
                             (settlement_queues s2)\<rparr>, True)
                | other \<Rightarrow> Err (SeNotPayout i other))))"

section \<open>Funding and the claims before a broadcast\<close>

definition native_withdrawal_gas_limit :: u64 where
  "native_withdrawal_gas_limit = 21000"

definition liquidation_swap_gas_limit :: u64 where
  "liquidation_swap_gas_limit = 250000"

definition fundable_withdrawal_value :: "u128 \<Rightarrow> u128 \<Rightarrow> u128 \<Rightarrow> u128" where
  "fundable_withdrawal_value amount_e18 custody_balance max_fee =
     (let gas_reserve = sat_mul128 native_withdrawal_gas_limit max_fee
      in min amount_e18 (sat_sub custody_balance gas_reserve))"

definition exact_native_transfer_is_funded :: "u128 \<Rightarrow> u128 \<Rightarrow> u128 \<Rightarrow> bool" where
  "exact_native_transfer_is_funded amount_e18 custody_balance max_fee =
     (let gas_reserve = sat_mul128 native_withdrawal_gas_limit max_fee
      in custody_balance \<ge> sat_add128 amount_e18 gas_reserve)"

definition fundable_swap_value :: "u128 \<Rightarrow> u128 \<Rightarrow> u128 \<Rightarrow> u128" where
  "fundable_swap_value collateral_in custody_balance max_fee =
     (let gas_reserve = sat_mul128 liquidation_swap_gas_limit max_fee
      in min collateral_in (sat_sub custody_balance gas_reserve))"

datatype claim_liquidation_swap_submit_error = CsMissingOp | CsWrongOpKind | CsNotQueued | CsMissingMarker
datatype claim_chain_payout_submit_error = CpMissingOp | CpWrongOpKind | CpNotQueued
datatype record_chain_payout_replacement_error = RrMissingOp | RrWrongOpKind | RrNotInflight

definition owns_bot_marker :: "u64 \<Rightarrow> chain_vault \<Rightarrow> bool" where
  "owns_bot_marker i v \<longleftrightarrow>
     (case cv_pending_liquidation v of Some m \<Rightarrow> pl_op_id m = i \<and> pl_tier m = Bot | None \<Rightarrow> False)"

definition stamp_submitted :: "u64 \<Rightarrow> string \<Rightarrow> u64 \<Rightarrow> settlement_op \<Rightarrow> settlement_op" where
  "stamp_submitted now_ns tx_hash nonce op =
     (record_tx_hash_candidate tx_hash (mark_inflight now_ns op))\<lparr>op_submit_nonce := Some nonce\<rparr>"

definition claim_liquidation_swap_submit_in_state ::
    "multi_chain_state \<Rightarrow> chain_id \<Rightarrow> u64 \<Rightarrow> u64 \<Rightarrow> u64 \<Rightarrow> string \<Rightarrow> u64
      \<Rightarrow> (claim_liquidation_swap_submit_error, multi_chain_state) outcome" where
  "claim_liquidation_swap_submit_in_state s chain i vault_id now_ns tx_hash nonce =
     (if \<not> (case bm_get (chain_vaults s) vault_id of Some v \<Rightarrow> owns_bot_marker i v | None \<Rightarrow> False)
      then Err CsMissingMarker
      else case find_op s chain i of
        None \<Rightarrow> Err CsMissingOp
      | Some op \<Rightarrow>
          if (case op_kind op of LiquidationSwap vid _ _ _ _ _ _ _ _ \<Rightarrow> vid \<noteq> vault_id | _ \<Rightarrow> True)
          then Err CsWrongOpKind
          else if op_status op \<noteq> Queued then Err CsNotQueued
          else Ok (update_op chain i (stamp_submitted now_ns tx_hash nonce) s))"

fun is_payout_kind :: "settlement_op_kind \<Rightarrow> bool" where
  "is_payout_kind (ChainCollateralPayout _ _ _ _) = True"
| "is_payout_kind _ = False"

definition claim_chain_collateral_payout_submit_in_state ::
    "multi_chain_state \<Rightarrow> chain_id \<Rightarrow> u64 \<Rightarrow> u64 \<Rightarrow> string \<Rightarrow> u64
      \<Rightarrow> (claim_chain_payout_submit_error, multi_chain_state) outcome" where
  "claim_chain_collateral_payout_submit_in_state s chain i now_ns tx_hash nonce =
     (case find_op s chain i of
        None \<Rightarrow> Err CpMissingOp
      | Some op \<Rightarrow>
          if \<not> is_payout_kind (op_kind op) then Err CpWrongOpKind
          else if op_status op \<noteq> Queued then Err CpNotQueued
          else Ok (update_op chain i (stamp_submitted now_ns tx_hash nonce) s))"

definition record_chain_collateral_payout_replacement_in_state ::
    "multi_chain_state \<Rightarrow> chain_id \<Rightarrow> u64 \<Rightarrow> u64 \<Rightarrow> string
      \<Rightarrow> (record_chain_payout_replacement_error, multi_chain_state) outcome" where
  "record_chain_collateral_payout_replacement_in_state s chain i now_ns tx_hash =
     (case find_op s chain i of
        None \<Rightarrow> Err RrMissingOp
      | Some op \<Rightarrow>
          if \<not> is_payout_kind (op_kind op) then Err RrWrongOpKind
          else (case op_status op of
                  Inflight n _ \<Rightarrow>
                    Ok (update_op chain i (\<lambda>o1. record_tx_hash_candidate tx_hash
                          (o1\<lparr>op_status := Inflight n now_ns\<rparr>)) s)
                | _ \<Rightarrow> Err RrNotInflight))"

section \<open>Failure and confirmation of an operation\<close>

definition escalate_failed_swap ::
    "multi_chain_state \<Rightarrow> chain_id \<Rightarrow> u64 \<Rightarrow> u64 \<Rightarrow> string \<Rightarrow> u64 \<Rightarrow> multi_chain_state" where
  "escalate_failed_swap s chain i vault_id reason now =
     (let s1 = update_op chain i (mark_failed reason now) s;
          s2 = update_vault vault_id (\<lambda>v.
                 case cv_pending_liquidation v of
                   Some m \<Rightarrow>
                     if pl_op_id m = i
                     then v\<lparr>cv_collateral_amount_native :=
                              sat_add128 (cv_collateral_amount_native v) (pl_collateral_reserved_native m),
                            cv_pending_liquidation := None\<rparr>
                     else v
                 | None \<Rightarrow> v) s1
      in s2\<lparr>bot_pending_chain_vaults := bm_remove vault_id (bot_pending_chain_vaults s2),
            sp_attempted_chain_vaults := bs_insert vault_id (sp_attempted_chain_vaults s2)\<rparr>)"

text \<open>The per-kind reversal of a reverted operation, shared by the worker and the recovery path.\<close>

fun reverse_effect :: "settlement_op_kind \<Rightarrow> multi_chain_state \<Rightarrow> multi_chain_state" where
  "reverse_effect (Mint _ _ vid) s = update_vault vid (\<lambda>v. v\<lparr>cv_pending_mint_e8s := 0\<rparr>) s"
| "reverse_effect (NativeWithdrawal _ amount vid) s =
     update_vault vid (\<lambda>v.
       let v1 = v\<lparr>cv_collateral_amount_native := sat_add128 (cv_collateral_amount_native v) amount\<rparr>
       in if cv_status v1 = Closing then v1\<lparr>cv_status := Open\<rparr> else v1) s"
| "reverse_effect (InterestMint vid _ _ _ _) s = update_vault vid (\<lambda>v. v\<lparr>cv_pending_interest_mint_e8s := 0\<rparr>) s"
| "reverse_effect (ChainCollateralPayout _ _ _ _) s = s"
| "reverse_effect (Burn _) s = s"
| "reverse_effect (LiquidationSwap _ _ _ _ _ _ _ _ _) s = s"

definition op_still_inflight :: "multi_chain_state \<Rightarrow> chain_id \<Rightarrow> u64 \<Rightarrow> bool" where
  "op_still_inflight s chain i =
     (case find_op s chain i of Some op \<Rightarrow> is_inflight (op_status op) | None \<Rightarrow> False)"

text \<open>\<^verbatim>\<open>confirm_op\<close> on a mined but reverted receipt. \<open>op\<close> is the copy the worker took before its
  awaits; the reversal is guarded on the stored operation being still in flight. A payout goes
  through the stability pool first; \<open>recredited\<close> is that call's answer.\<close>

definition confirm_op_reverted ::
    "multi_chain_state \<Rightarrow> chain_id \<Rightarrow> u64 \<Rightarrow> settlement_op \<Rightarrow> bool \<Rightarrow> u64 \<Rightarrow> multi_chain_state" where
  "confirm_op_reverted s chain i op recredited now =
     (case op_kind op of
        LiquidationSwap vid _ _ _ _ _ _ _ _ \<Rightarrow> escalate_failed_swap s chain i vid ''swap reverted on-chain'' now
      | ChainCollateralPayout _ _ _ _ \<Rightarrow>
          if \<not> recredited then s
          else (case fail_chain_collateral_payout_in_state s chain i ''tx reverted'' now of
                  Ok (s1, _) \<Rightarrow> s1 | _ \<Rightarrow> s)
      | k \<Rightarrow>
          if \<not> op_still_inflight s chain i then s
          else update_op chain i (mark_failed ''tx reverted'' now) (reverse_effect k s))"

text \<open>\<^verbatim>\<open>confirm_op\<close> when no receipt is found: a liquidation swap times out or counts a try,
  another operation counts a try.\<close>

definition set_inflight_tries :: "u32 \<Rightarrow> settlement_op \<Rightarrow> settlement_op" where
  "set_inflight_tries n op =
     (case op_status op of Inflight _ t \<Rightarrow> op\<lparr>op_status := Inflight n t\<rparr> | _ \<Rightarrow> op)"

definition confirm_op_not_mined ::
    "multi_chain_state \<Rightarrow> chain_id \<Rightarrow> u64 \<Rightarrow> settlement_op \<Rightarrow> u64 \<Rightarrow> multi_chain_state \<times> bool" where
  "confirm_op_not_mined s chain i op now =
     (case (op_kind op, op_status op) of
        (LiquidationSwap vid _ _ _ _ _ _ _ deadline, Inflight _ last_attempt) \<Rightarrow>
          if swap_confirm_timed_out last_attempt now deadline swap_confirm_finality_margin_secs
          then (escalate_failed_swap s chain i vid ''swap confirm timeout (never mined)'' now, False)
          else (update_op chain i (\<lambda>o1. case op_status o1 of
                  Inflight n t \<Rightarrow> o1\<lparr>op_status := Inflight (sat_add32 n 1) t\<rparr> | _ \<Rightarrow> o1) s, False)
      | (_, Inflight n _) \<Rightarrow>
          let depth = (case bm_get (chain_configs s) chain of Some c \<Rightarrow> cc_finality_depth c | None \<Rightarrow> 1);
              (new_tries, do_resubmit) = on_not_mined_tick n depth (op_submit_nonce op \<noteq> None)
          in (update_op chain i (set_inflight_tries new_tries) s, do_resubmit)
      | _ \<Rightarrow> (s, False))"

text \<open>Picking the log that belongs to the operation. A mint must match the transaction hash;
  an interest mint prefers it; a swap takes the first transfer to the reserve in the block.\<close>

definition match_mint_log :: "string \<Rightarrow> u64 \<Rightarrow> swept_log list \<Rightarrow> (u128 \<times> string) option" where
  "match_mint_log tx_hash vid logs =
     map_option (\<lambda>m. (ml_amount_e8s m, ml_recipient m))
       (find (\<lambda>m. ml_vault_id m = vid)
          (List.map_filter (\<lambda>(topics, data, log_tx, block, _).
             if \<not> eq_ignore_ascii_case log_tx tx_hash then None
             else case decode_mint_log topics data log_tx block of Ok m \<Rightarrow> Some m | _ \<Rightarrow> None) logs))"

definition match_interest_log :: "string \<Rightarrow> u64 \<Rightarrow> swept_log list \<Rightarrow> (u128 \<times> string) option" where
  "match_interest_log tx_hash mint_id logs =
     (let ms = filter (\<lambda>m. ml_vault_id m = mint_id)
                 (List.map_filter (\<lambda>(topics, data, log_tx, block, _).
                    case decode_mint_log topics data log_tx block of Ok m \<Rightarrow> Some m | _ \<Rightarrow> None) logs);
          pick = (case find (\<lambda>m. eq_ignore_ascii_case (ml_tx_hash m) tx_hash) ms of
                    Some m \<Rightarrow> Some m
                  | None \<Rightarrow> (case ms of m # _ \<Rightarrow> Some m | [] \<Rightarrow> None))
      in map_option (\<lambda>m. (ml_amount_e8s m, ml_recipient m)) pick)"

definition match_swap_transfer :: "string \<Rightarrow> swept_log list \<Rightarrow> u128 option" where
  "match_swap_transfer reserve_to logs =
     map_option tl_amount
       (find (\<lambda>t. eq_ignore_ascii_case (tl_to t) reserve_to)
          (List.map_filter (\<lambda>(topics, data, _, _, _).
             case transfer_log_from_raw topics data of Ok t \<Rightarrow> Some t | _ \<Rightarrow> None) logs))"

text \<open>\<^verbatim>\<open>confirm_op\<close> on a mined, successful and final receipt. \<open>logs\<close> are the logs fetched for the
  receipt's block, \<open>reserve_to\<close> the chain's reserve address.\<close>

definition finish_op :: "chain_id \<Rightarrow> u64 \<Rightarrow> string \<Rightarrow> u64 \<Rightarrow> multi_chain_state \<Rightarrow> multi_chain_state" where
  "finish_op chain i tx_hash now s = update_op chain i (mark_succeeded tx_hash now) s"

definition confirm_op_final ::
    "multi_chain_state \<Rightarrow> chain_id \<Rightarrow> u64 \<Rightarrow> settlement_op \<Rightarrow> string \<Rightarrow> swept_log list \<Rightarrow> string \<Rightarrow> u64
      \<Rightarrow> multi_chain_state" where
  "confirm_op_final s chain i op tx_hash logs reserve_to now =
     (case op_kind op of
        Mint _ _ vid \<Rightarrow>
          if \<not> bm_has (chain_contracts s) chain then s
          else (case (match_mint_log tx_hash vid logs, bm_get (chain_vaults s) vid) of
                  (Some (observed, rcpt), Some v) \<Rightarrow>
                    if \<not> eq_ignore_ascii_case (cv_mint_recipient v) rcpt then s
                    else (case confirm_mint_in_state s chain vid observed (total_chain_vault_debt_e8s s) now of
                            Ok s1 \<Rightarrow> finish_op chain i tx_hash now s1 | _ \<Rightarrow> s)
                | _ \<Rightarrow> s)
      | InterestMint vid mint_id _ through rcpt0 \<Rightarrow>
          if \<not> bm_has (chain_contracts s) chain then s
          else (case match_interest_log tx_hash mint_id logs of
                  Some (observed, rcpt) \<Rightarrow>
                    if \<not> eq_ignore_ascii_case rcpt0 rcpt then s
                    else (case confirm_interest_mint_in_state s chain vid observed through
                                 (total_chain_vault_debt_e8s s) of
                            Ok s1 \<Rightarrow> finish_op chain i tx_hash now s1 | _ \<Rightarrow> s)
                | None \<Rightarrow> s)
      | NativeWithdrawal _ _ vid \<Rightarrow>
          update_vault vid (\<lambda>v. if cv_status v = Closing then v\<lparr>cv_status := Closed\<rparr> else v)
            (finish_op chain i tx_hash now s)
      | ChainCollateralPayout _ _ _ _ \<Rightarrow>
          (case confirm_chain_collateral_payout_in_state s chain i tx_hash now of
             Ok (s1, _) \<Rightarrow> s1 | _ \<Rightarrow> s)
      | Burn _ \<Rightarrow> s
      | LiquidationSwap vid _ _ _ _ _ _ _ _ \<Rightarrow>
          let settle_decimals = (case bm_get (chain_liquidation_configs s) chain of
                                   Some c \<Rightarrow> lc_settle_stable_decimals c | None \<Rightarrow> 18)
          in (case match_swap_transfer reserve_to logs of
                None \<Rightarrow> s
              | Some realized \<Rightarrow>
                  (case apply_liquidation_settlement_in_state s chain vid i realized settle_decimals now of
                     Ok (s1, _) \<Rightarrow> finish_op chain i tx_hash now s1 | _ \<Rightarrow> s)))"

end
