(* ===== verification/Chain_Recovery.thy ===== *)
theory Chain_Recovery
  imports Chain_Settlement
begin

text \<open>
  Operator recovery (\<^verbatim>\<open>chains/recovery.rs\<close>) and chain administration (\<^verbatim>\<open>chains/admin.rs\<close>). The
  receipt and total-supply reads of the recovery endpoints are arguments: a receipt is absent,
  or present with its success flag and block.
\<close>

section \<open>Recovering a stuck operation\<close>

datatype recovery_error =
    RvUnknownChain chain_id
  | RvUnknownOp u64
  | RvNotInflight u64 settlement_op_status
  | RvUnknownVault u64
  | RvWrongChain u64 chain_id
  | RvNotRecoverable u64 chain_vault_status u128
  | RvLiveMintOp u64
  | RvVerificationUnavailable string
  | RvOnChainLanded u64
  | RvSupplyExceeds u128 u128 u128 u64
  | RvUnsupportedOpKind

text \<open>\<open>RvOnChainLanded\<close> and \<open>RvSupplyExceeds\<close> are the two messages of \<^verbatim>\<open>OnChainLanded\<close>.\<close>

definition snapshot_inflight_op_tx ::
    "multi_chain_state \<Rightarrow> chain_id \<Rightarrow> u64 \<Rightarrow> (recovery_error, string option) outcome" where
  "snapshot_inflight_op_tx s chain i =
     (case bm_get (settlement_queues s) chain of
        None \<Rightarrow> Err (RvUnknownChain chain)
      | Some q \<Rightarrow>
          (case bm_get (q_pending q) i of
             None \<Rightarrow> Err (RvUnknownOp i)
           | Some op \<Rightarrow>
               if \<not> is_inflight (op_status op) then Err (RvNotInflight i (op_status op))
               else Ok (op_last_tx_hash op)))"

definition apply_resolve_reversal_in_state ::
    "multi_chain_state \<Rightarrow> chain_id \<Rightarrow> u64 \<Rightarrow> u64 \<Rightarrow> (recovery_error, multi_chain_state \<times> bool) outcome" where
  "apply_resolve_reversal_in_state s chain i now =
     (case find_op s chain i of
        None \<Rightarrow> Ok (s, False)
      | Some op \<Rightarrow>
          if \<not> is_inflight (op_status op) then Ok (s, False)
          else if is_payout_kind (op_kind op) then Err RvUnsupportedOpKind
          else Ok (update_op chain i
                     (mark_failed ''manually resolved (stuck Inflight, on-chain-verified not landed)'' now)
                     (reverse_effect (op_kind op) s), True))"

type_synonym receipt_read = "chain_id \<Rightarrow> string \<Rightarrow> (string, (bool \<times> u64) option) outcome"

definition resolve_stuck_settlement_op_verified ::
    "receipt_read \<Rightarrow> multi_chain_state \<Rightarrow> chain_id \<Rightarrow> u64 \<Rightarrow> u64
      \<Rightarrow> (recovery_error, multi_chain_state \<times> bool) outcome" where
  "resolve_stuck_settlement_op_verified receipt_of s chain i now =
     and_then (snapshot_inflight_op_tx s chain i) (\<lambda>last_tx_hash.
     and_then (case last_tx_hash of
                 None \<Rightarrow> Ok ()
               | Some h \<Rightarrow> (case receipt_of chain h of
                   Ok (Some (True, _)) \<Rightarrow> Err (RvOnChainLanded i)
                 | Ok (Some (False, _)) \<Rightarrow> Ok ()
                 | Ok None \<Rightarrow> Ok ()
                 | Err e \<Rightarrow> Err (RvVerificationUnavailable e)
                 | Trap \<Rightarrow> Trap)) (\<lambda>_.
       apply_resolve_reversal_in_state s chain i now))"

section \<open>Recovering a stuck vault\<close>

definition is_mint_for :: "u64 \<Rightarrow> settlement_op \<Rightarrow> bool" where
  "is_mint_for vid op \<longleftrightarrow> (case op_kind op of Mint _ _ v \<Rightarrow> v = vid | _ \<Rightarrow> False)"

definition has_live_mint :: "multi_chain_state \<Rightarrow> chain_id \<Rightarrow> u64 \<Rightarrow> bool" where
  "has_live_mint s chain vid =
     (case bm_get (settlement_queues s) chain of
        None \<Rightarrow> False
      | Some q \<Rightarrow> list_ex (\<lambda>op. is_mint_for vid op \<and> is_active (op_status op)) (bm_values (q_pending q)))"

definition precheck_recover_vault_in_state ::
    "multi_chain_state \<Rightarrow> chain_id \<Rightarrow> u64 \<Rightarrow> (recovery_error, string list) outcome" where
  "precheck_recover_vault_in_state s chain vault_id =
     (case bm_get (chain_vaults s) vault_id of
        None \<Rightarrow> Err (RvUnknownVault vault_id)
      | Some v \<Rightarrow>
          if cv_collateral_chain v \<noteq> chain then Err (RvWrongChain vault_id chain)
          else if cv_status v \<noteq> MintPending \<or> cv_pending_mint_e8s v \<noteq> 0
          then Err (RvNotRecoverable vault_id (cv_status v) (cv_pending_mint_e8s v))
          else if has_live_mint s chain vault_id then Err (RvLiveMintOp vault_id)
          else Ok (case bm_get (settlement_queues s) chain of
                     None \<Rightarrow> []
                   | Some q \<Rightarrow> List.map_filter (\<lambda>op. if is_mint_for vault_id op then op_last_tx_hash op else None)
                                 (bm_values (q_pending q))))"

definition apply_recover_vault_in_state ::
    "multi_chain_state \<Rightarrow> chain_id \<Rightarrow> u64 \<Rightarrow> (recovery_error, multi_chain_state) outcome" where
  "apply_recover_vault_in_state s chain vault_id =
     (if has_live_mint s chain vault_id then Err (RvLiveMintOp vault_id)
      else case bm_get (chain_vaults s) vault_id of
        None \<Rightarrow> Err (RvUnknownVault vault_id)
      | Some v \<Rightarrow>
          if cv_collateral_chain v \<noteq> chain then Err (RvWrongChain vault_id chain)
          else if cv_status v \<noteq> MintPending \<or> cv_pending_mint_e8s v \<noteq> 0
          then Err (RvNotRecoverable vault_id (cv_status v) (cv_pending_mint_e8s v))
          else Ok (update_vault vault_id (\<lambda>w. w\<lparr>cv_status := Open\<rparr>) s))"

fun check_receipts :: "receipt_read \<Rightarrow> chain_id \<Rightarrow> u64 \<Rightarrow> string list \<Rightarrow> (recovery_error, unit) outcome" where
  "check_receipts receipt_of chain vid [] = Ok ()"
| "check_receipts receipt_of chain vid (h # hs) =
     (case receipt_of chain h of
        Ok (Some (True, _)) \<Rightarrow> Err (RvOnChainLanded vid)
      | Ok _ \<Rightarrow> check_receipts receipt_of chain vid hs
      | Err e \<Rightarrow> Err (RvVerificationUnavailable e)
      | Trap \<Rightarrow> Trap)"

definition in_flight_mint_e8s :: "multi_chain_state \<Rightarrow> chain_id \<Rightarrow> u128" where
  "in_flight_mint_e8s s chain =
     wrap128 (sum_list (map cv_pending_mint_e8s
       (filter (\<lambda>v. cv_collateral_chain v = chain) (bm_values (chain_vaults s)))))"

definition recover_stuck_chain_vault_verified ::
    "receipt_read \<Rightarrow> (chain_id \<Rightarrow> string \<Rightarrow> u64 \<Rightarrow> (string, u128) outcome) \<Rightarrow> multi_chain_state \<Rightarrow> chain_id \<Rightarrow> u64
      \<Rightarrow> (recovery_error, multi_chain_state) outcome" where
  "recover_stuck_chain_vault_verified receipt_of supply_at s chain vault_id =
     and_then (precheck_recover_vault_in_state s chain vault_id) (\<lambda>hashes.
     and_then (check_receipts receipt_of chain vault_id hashes) (\<lambda>_.
     let cursor = bm_get_or 0 (last_observed_block s) chain;
         recorded = bm_get_or 0 (chain_supplies s) chain;
         in_flight = in_flight_mint_e8s s chain
     in and_then
       (case bm_get (chain_contracts s) chain of
          None \<Rightarrow> Ok ()
        | Some contract \<Rightarrow>
            if cursor = 0 then Ok ()
            else (case supply_at chain contract cursor of
                    Ok onchain \<Rightarrow>
                      if onchain > sat_add128 recorded in_flight
                      then Err (RvSupplyExceeds onchain recorded in_flight cursor) else Ok ()
                  | Err e \<Rightarrow> Err (RvVerificationUnavailable e)
                  | Trap \<Rightarrow> Trap)) (\<lambda>_.
       apply_recover_vault_in_state s chain vault_id)))"

section \<open>Chain administration\<close>

datatype chain_admin_error =
    CaNotRegistered chain_id
  | CaAlreadyRegistered chain_id
  | CaInvalidConfig string

fun is_evm :: "gas_strategy \<Rightarrow> bool" where
  "is_evm (EvmEip1559 _ _) = True"
| "is_evm (EvmLegacy _) = True"
| "is_evm _ = False"

definition dedup_endpoints :: "string list \<Rightarrow> string list" where
  "dedup_endpoints endpoints =
     rev (fst (fold (\<lambda>url (out, seen). if bs_mem url seen then (out, seen) else (url # out, bs_insert url seen))
       endpoints ([], bs_empty)))"

definition finality_message :: string where
  "finality_message = ''finality_depth must be >= 1 for EVM chains (0 treats any mined block as final)''"

definition register_chain_in_state ::
    "multi_chain_state \<Rightarrow> register_chain_arg \<Rightarrow> u64 \<Rightarrow> (chain_admin_error, multi_chain_state \<times> chain_config) outcome" where
  "register_chain_in_state s arg now_ns =
     (let endpoints = dedup_endpoints (rca_rpc_endpoints arg) in
      if endpoints = [] then Err (CaInvalidConfig ''rpc_endpoints must contain at least one (distinct) URL'')
      else if rca_chain_native_decimals arg = 0 \<or> rca_chain_native_decimals arg > 36
      then Err (CaInvalidConfig (''chain_native_decimals '' @ show_nat (rca_chain_native_decimals arg)
             @ '' out of range (expected 1..=36; 18 for EVM, 9 for Solana)''))
      else if is_evm (rca_gas_strategy arg) \<and> rca_finality_depth arg = 0 then Err (CaInvalidConfig finality_message)
      else if rca_min_quorum_providers arg = Some 0
      then Err (CaInvalidConfig ''min_quorum_providers must be >= 1 (omit/null for the default floor)'')
      else if bm_has (chain_configs s) (rca_chain_id arg) then Err (CaAlreadyRegistered (rca_chain_id arg))
      else
        let cfg = \<lparr>cc_chain_id = rca_chain_id arg, cc_display_name = rca_display_name arg,
                   cc_rpc_endpoints = endpoints, cc_finality_depth = rca_finality_depth arg,
                   cc_gas_strategy = rca_gas_strategy arg,
                   cc_chain_native_decimals = rca_chain_native_decimals arg,
                   cc_registered_at_ns = now_ns, cc_status = Registered,
                   cc_burn_watch_poll_enabled = False,
                   cc_min_quorum_providers = rca_min_quorum_providers arg\<rparr>
        in Ok (s\<lparr>chain_configs := bm_insert (rca_chain_id arg) cfg (chain_configs s),
                 chain_supplies := bm_insert (rca_chain_id arg) 0 (chain_supplies s),
                 settlement_queues := bm_insert (rca_chain_id arg) settlement_queue_default (settlement_queues s)\<rparr>,
               cfg))"

definition disable_chain_in_state ::
    "multi_chain_state \<Rightarrow> chain_id \<Rightarrow> (chain_admin_error, multi_chain_state) outcome" where
  "disable_chain_in_state s chain =
     (if \<not> bm_has (chain_configs s) chain then Err (CaNotRegistered chain)
      else Ok (s\<lparr>chain_configs := bm_modify chain (\<lambda>c. c\<lparr>cc_status := Disabled\<rparr>) (chain_configs s)\<rparr>))"

definition delete_chain_in_state ::
    "multi_chain_state \<Rightarrow> chain_id \<Rightarrow> (chain_admin_error, multi_chain_state) outcome" where
  "delete_chain_in_state s chain =
     (if \<not> bm_has (chain_configs s) chain then Err (CaNotRegistered chain)
      else
        let supply = bm_get_or 0 (chain_supplies s) chain in
        if supply \<noteq> 0
        then Err (CaInvalidConfig (''chain '' @ show_nat chain @ '' has nonzero supply '' @ show_nat supply))
        else if list_ex (\<lambda>v. cv_collateral_chain v = chain) (bm_values (chain_vaults s))
        then Err (CaInvalidConfig (''chain '' @ show_nat chain @ '' still has vaults''))
        else Ok (s\<lparr>chain_configs := bm_remove chain (chain_configs s),
                   chain_supplies := bm_remove chain (chain_supplies s),
                   settlement_queues := bm_remove chain (settlement_queues s),
                   chain_contracts := bm_remove chain (chain_contracts s),
                   last_observed_block := bm_remove chain (last_observed_block s),
                   hot_wallet_balance_e18 := bm_remove chain (hot_wallet_balance_e18 s),
                   reorg_halted := bm_remove chain (reorg_halted s),
                   reorg_suspect_streak := bm_remove chain (reorg_suspect_streak s),
                   chain_bad_debt_e8s := bm_remove chain (chain_bad_debt_e8s s),
                   chain_bad_debt_circuit_threshold_e8s := bm_remove chain (chain_bad_debt_circuit_threshold_e8s s),
                   chain_bad_debt_circuit_tripped_at_ns := bm_remove chain (chain_bad_debt_circuit_tripped_at_ns s),
                   manual_prices := bm_retain (\<lambda>k _. fst k \<noteq> chain) (manual_prices s),
                   manual_price_set_at_ns := bm_retain (\<lambda>k _. fst k \<noteq> chain) (manual_price_set_at_ns s)\<rparr>))"

definition update_chain_config_in_state ::
    "multi_chain_state \<Rightarrow> chain_id \<Rightarrow> update_chain_config_arg \<Rightarrow> (chain_admin_error, multi_chain_state) outcome" where
  "update_chain_config_in_state s chain upd =
     (case bm_get (chain_configs s) chain of
        None \<Rightarrow> Err (CaNotRegistered chain)
      | Some cfg \<Rightarrow>
          let deduped = map_option dedup_endpoints (uca_rpc_endpoints upd);
              effective_finality = (case uca_finality_depth upd of Some d \<Rightarrow> d | None \<Rightarrow> cc_finality_depth cfg);
              effective_is_evm = is_evm (case uca_gas_strategy upd of Some g \<Rightarrow> g | None \<Rightarrow> cc_gas_strategy cfg)
          in if deduped = Some []
             then Err (CaInvalidConfig ''rpc_endpoints cannot be empty (after de-duplication)'')
             else if effective_is_evm \<and> effective_finality = 0 then Err (CaInvalidConfig finality_message)
             else if uca_min_quorum_providers upd = Some (Some 0)
             then Err (CaInvalidConfig ''min_quorum_providers must be >= 1 (pass opt null to clear to the default)'')
             else Ok (s\<lparr>chain_configs := bm_insert chain (cfg
                    \<lparr>cc_display_name := (case uca_display_name upd of Some n \<Rightarrow> n | None \<Rightarrow> cc_display_name cfg),
                     cc_rpc_endpoints := (case deduped of Some e \<Rightarrow> e | None \<Rightarrow> cc_rpc_endpoints cfg),
                     cc_finality_depth := effective_finality,
                     cc_gas_strategy := (case uca_gas_strategy upd of Some g \<Rightarrow> g | None \<Rightarrow> cc_gas_strategy cfg),
                     cc_min_quorum_providers := (case uca_min_quorum_providers upd of
                        Some n \<Rightarrow> n | None \<Rightarrow> cc_min_quorum_providers cfg)\<rparr>) (chain_configs s)\<rparr>))"

end
