(* ===== verification/Evm_Intent.thy ===== *)
theory Evm_Intent
  imports Evm_Logs
begin

text \<open>
  EIP-712 vault intents (\<^verbatim>\<open>chains/evm/eip712.rs\<close>): the signed message a user's wallet produces,
  its encoding, and the verification an endpoint runs before it acts. The hash function (the
  \<^verbatim>\<open>sha3\<close> crate) and the key recovery with its address derivation (the \<^verbatim>\<open>k256\<close> crate) are the
  fields of a parameter record; bytes are natural numbers.
\<close>

section \<open>Intents\<close>

record evm_crypto =
  ec_keccak :: "bytes \<Rightarrow> bytes"
  ec_recover :: "bytes \<Rightarrow> bytes \<Rightarrow> bytes \<Rightarrow> bool \<Rightarrow> string option"
  ec_principal :: "bytes \<Rightarrow> principal"

datatype intent_action = IaOpen | IaBorrow | IaWithdrawCollateral | IaClose

fun as_u8 :: "intent_action \<Rightarrow> u8" where
  "as_u8 IaOpen = 0"
| "as_u8 IaBorrow = 1"
| "as_u8 IaWithdrawCollateral = 2"
| "as_u8 IaClose = 3"

definition from_u8 :: "u8 \<Rightarrow> intent_action option" where
  "from_u8 v =
     (if v = 0 then Some IaOpen else if v = 1 then Some IaBorrow
      else if v = 2 then Some IaWithdrawCollateral else if v = 3 then Some IaClose else None)"

record vault_intent =
  vi_action :: u8
  vi_chain_id :: u64
  vi_owner :: string
  vi_vault_id :: u64
  vi_collateral_wei :: u128
  vi_debt_e8s :: u128
  vi_recipient :: string
  vi_nonce :: u64
  vi_deadline_secs :: u64

section \<open>Encoding\<close>

definition domain_name :: string where
  "domain_name = ''Rumi icUSD CDP''"

definition domain_version :: string where
  "domain_version = ''1''"

definition domain_typehash :: "evm_crypto \<Rightarrow> bytes" where
  "domain_typehash C = ec_keccak C (ascii_bytes
     ''EIP712Domain(string name,string version,uint256 chainId,address verifyingContract)'')"

definition intent_typehash :: "evm_crypto \<Rightarrow> bytes" where
  "intent_typehash C = ec_keccak C (ascii_bytes
     ''VaultIntent(uint8 action,uint64 chainId,address owner,uint64 vaultId,uint256 collateralWei,uint256 debtE8s,address recipient,uint256 nonce,uint256 deadline)'')"

definition word_u128 :: "u128 \<Rightarrow> bytes" where
  "word_u128 n = replicate 16 0 @ be_bytes 16 n"

definition word_u64 :: "u64 \<Rightarrow> bytes" where
  "word_u64 n = replicate 24 0 @ be_bytes 8 n"

text \<open>\<^verbatim>\<open>hex::decode\<close>: an even number of hexadecimal digits.\<close>

fun hex_decode :: "string \<Rightarrow> bytes option" where
  "hex_decode [] = Some []"
| "hex_decode [c] = None"
| "hex_decode (a # b # cs) =
     (case (hex_digit_value a, hex_digit_value b, hex_decode cs) of
        (Some x, Some y, Some rest) \<Rightarrow> Some ((16 * x + y) # rest) | _ \<Rightarrow> None)"

datatype intent_encode_error = BadAddressHex string | BadAddressLength nat

definition parse_addr_20 :: "string \<Rightarrow> (intent_encode_error, bytes) outcome" where
  "parse_addr_20 addr =
     (case hex_decode (strip_0x_or_self addr) of
        None \<Rightarrow> Err (BadAddressHex addr)
      | Some v \<Rightarrow> if length v = 20 then Ok v else Err (BadAddressLength (length v)))"

definition word_address :: "string \<Rightarrow> (intent_encode_error, bytes) outcome" where
  "word_address addr = and_then (parse_addr_20 addr) (\<lambda>bs. Ok (replicate 12 0 @ bs))"

definition domain_separator :: "evm_crypto \<Rightarrow> u64 \<Rightarrow> string \<Rightarrow> (intent_encode_error, bytes) outcome" where
  "domain_separator C chain_id verifying_contract =
     and_then (word_address verifying_contract) (\<lambda>w.
       Ok (ec_keccak C (domain_typehash C @ ec_keccak C (ascii_bytes domain_name)
             @ ec_keccak C (ascii_bytes domain_version) @ word_u64 chain_id @ w)))"

definition intent_struct_hash :: "evm_crypto \<Rightarrow> vault_intent \<Rightarrow> (intent_encode_error, bytes) outcome" where
  "intent_struct_hash C intent =
     and_then (word_address (vi_owner intent)) (\<lambda>owner_w.
     and_then (word_address (vi_recipient intent)) (\<lambda>recipient_w.
       Ok (ec_keccak C (intent_typehash C @ word_u64 (vi_action intent) @ word_u64 (vi_chain_id intent)
             @ owner_w @ word_u64 (vi_vault_id intent) @ word_u128 (vi_collateral_wei intent)
             @ word_u128 (vi_debt_e8s intent) @ recipient_w @ word_u64 (vi_nonce intent)
             @ word_u64 (vi_deadline_secs intent)))))"

definition intent_digest :: "evm_crypto \<Rightarrow> bytes \<Rightarrow> bytes \<Rightarrow> bytes" where
  "intent_digest C domain_sep struct_hash = ec_keccak C ([25, 1] @ domain_sep @ struct_hash)"

section \<open>Verification\<close>

datatype recover_error =
    BadSignatureLength nat
  | BadRecoveryByte nat
  | RecoverFailed
  | EncodeFailed intent_encode_error
  | ChainIdRange

datatype verify_error =
    ActionMismatch
  | Expired
  | Recover recover_error
  | SignerMismatch
  | RecipientNotOwner

definition recover_evm_address :: "evm_crypto \<Rightarrow> bytes \<Rightarrow> bytes \<Rightarrow> (recover_error, string) outcome" where
  "recover_evm_address C digest sig65 =
     (if length sig65 \<noteq> 65 then Err (BadSignatureLength (length sig65))
      else
        let r = take 32 sig65; s = take 32 (drop 32 sig65); v = sig65 ! 64 in
        if v = 0 \<or> v = 27 then ok_or RecoverFailed (ec_recover C digest r s False)
        else if v = 1 \<or> v = 28 then ok_or RecoverFailed (ec_recover C digest r s True)
        else Err (BadRecoveryByte v))"

definition synthetic_owner :: "evm_crypto \<Rightarrow> chain_id \<Rightarrow> string \<Rightarrow> (intent_encode_error, principal) outcome" where
  "synthetic_owner C chain evm_addr =
     and_then (parse_addr_20 evm_addr) (\<lambda>addr20.
       let h = ec_keccak C (ascii_bytes ''rumi.evm.owner.v1:'' @ rev (be_bytes 4 chain) @ addr20)
       in Ok (ec_principal C (take 28 h @ [1])))"

definition verify_intent ::
    "evm_crypto \<Rightarrow> vault_intent \<Rightarrow> bytes \<Rightarrow> intent_action \<Rightarrow> string \<Rightarrow> u64
      \<Rightarrow> (verify_error, string \<times> principal) outcome" where
  "verify_intent C intent signature expected_action verifying_contract now_secs =
     (if from_u8 (vi_action intent) \<noteq> Some expected_action then Err ActionMismatch
      else if vi_chain_id intent > u32_max then Err (Recover ChainIdRange)
      else if now_secs > vi_deadline_secs intent then Err Expired
      else
        and_then (map_err (\<lambda>e. Recover (EncodeFailed e))
          (domain_separator C (vi_chain_id intent) verifying_contract)) (\<lambda>dsep.
        and_then (map_err (\<lambda>e. Recover (EncodeFailed e)) (intent_struct_hash C intent)) (\<lambda>sh.
        and_then (map_err Recover (recover_evm_address C (intent_digest C dsep sh) signature)) (\<lambda>signer.
          if \<not> eq_ignore_ascii_case signer (vi_owner intent) then Err SignerMismatch
          else if \<not> eq_ignore_ascii_case (vi_recipient intent) (vi_owner intent) then Err RecipientNotOwner
          else
            and_then (map_err (\<lambda>e. Recover (EncodeFailed e))
              (synthetic_owner C (vi_chain_id intent) signer)) (\<lambda>synthetic.
            Ok (to_ascii_lowercase signer, synthetic))))))"

section \<open>What a signature binds\<close>

lemma word_lengths [simp]: "length (word_u64 n) = 32" "length (word_u128 n) = 32"
  by (simp_all add: word_u64_def word_u128_def)

lemma word_address_length: "word_address a = Ok w \<Longrightarrow> length w = 32"
  by (auto simp: word_address_def parse_addr_20_def and_then_Ok_iff split: option.splits if_splits)

lemma word_u64_inject: "n \<le> u64_max \<Longrightarrow> m \<le> u64_max \<Longrightarrow> word_u64 n = word_u64 m \<longleftrightarrow> n = m"
  using be_bytes_inject [of n 8 m] by (simp add: word_u64_def u64_max_def)

lemma word_u128_inject: "n \<le> u128_max \<Longrightarrow> m \<le> u128_max \<Longrightarrow> word_u128 n = word_u128 m \<longleftrightarrow> n = m"
  using be_bytes_inject [of n 16 m] by (simp add: word_u128_def u128_max_def)

text \<open>The widths of the Rust struct.\<close>

definition intent_in_range :: "vault_intent \<Rightarrow> bool" where
  "intent_in_range i \<longleftrightarrow> vi_action i \<le> u64_max \<and> vi_chain_id i \<le> u64_max \<and> vi_vault_id i \<le> u64_max
     \<and> vi_collateral_wei i \<le> u128_max \<and> vi_debt_e8s i \<le> u128_max \<and> vi_nonce i \<le> u64_max
     \<and> vi_deadline_secs i \<le> u64_max"

definition same_request :: "vault_intent \<Rightarrow> vault_intent \<Rightarrow> bool" where
  "same_request i j \<longleftrightarrow> vi_action i = vi_action j \<and> vi_chain_id i = vi_chain_id j
     \<and> parse_addr_20 (vi_owner i) = parse_addr_20 (vi_owner j) \<and> vi_vault_id i = vi_vault_id j
     \<and> vi_collateral_wei i = vi_collateral_wei j \<and> vi_debt_e8s i = vi_debt_e8s j
     \<and> parse_addr_20 (vi_recipient i) = parse_addr_20 (vi_recipient j)
     \<and> vi_nonce i = vi_nonce j \<and> vi_deadline_secs i = vi_deadline_secs j"

lemma word_address_inject: "word_address a = Ok w \<Longrightarrow> word_address b = Ok w \<Longrightarrow> parse_addr_20 a = parse_addr_20 b"
  by (auto simp: word_address_def and_then_Ok_iff)

text \<open>The three byte strings that are hashed for a request: the struct, the domain, and the two hashes
  under the prefix of EIP-712.\<close>

definition addr_word :: "string \<Rightarrow> bytes" where
  "addr_word a = (case word_address a of Ok w \<Rightarrow> w | _ \<Rightarrow> [])"

definition struct_preimage :: "evm_crypto \<Rightarrow> vault_intent \<Rightarrow> bytes" where
  "struct_preimage C i = intent_typehash C @ word_u64 (vi_action i) @ word_u64 (vi_chain_id i) @ addr_word (vi_owner i)
     @ word_u64 (vi_vault_id i) @ word_u128 (vi_collateral_wei i) @ word_u128 (vi_debt_e8s i) @ addr_word (vi_recipient i)
     @ word_u64 (vi_nonce i) @ word_u64 (vi_deadline_secs i)"

definition domain_preimage :: "evm_crypto \<Rightarrow> u64 \<Rightarrow> string \<Rightarrow> bytes" where
  "domain_preimage C c k = domain_typehash C @ ec_keccak C (ascii_bytes domain_name)
     @ ec_keccak C (ascii_bytes domain_version) @ word_u64 c @ addr_word k"

definition digest_preimage :: "bytes \<Rightarrow> bytes \<Rightarrow> bytes" where
  "digest_preimage d h = [25, 1] @ d @ h"

definition collide :: "evm_crypto \<Rightarrow> bytes \<Rightarrow> bytes \<Rightarrow> bool" where
  "collide C a b \<longleftrightarrow> a \<noteq> b \<and> ec_keccak C a = ec_keccak C b"

lemma struct_hash_Ok:
  assumes "intent_struct_hash C i = Ok h"
  shows "h = ec_keccak C (struct_preimage C i)" "word_address (vi_owner i) = Ok (addr_word (vi_owner i))"
    "word_address (vi_recipient i) = Ok (addr_word (vi_recipient i))"
  using assms by (auto simp: intent_struct_hash_def struct_preimage_def addr_word_def and_then_Ok_iff)

lemma domain_separator_Ok:
  assumes "domain_separator C c k = Ok d"
  shows "d = ec_keccak C (domain_preimage C c k)" "word_address k = Ok (addr_word k)"
  using assms by (auto simp: domain_separator_def domain_preimage_def addr_word_def and_then_Ok_iff)

lemma struct_preimage_binds:
  assumes "intent_struct_hash C i = Ok h" and "intent_struct_hash C j = Ok h'"
    and "intent_in_range i" "intent_in_range j" and "struct_preimage C i = struct_preimage C j"
  shows "same_request i j"
proof -
  note i = struct_hash_Ok(2,3) [OF assms(1)] and j = struct_hash_Ok(2,3) [OF assms(2)]
  note lens = i [THEN word_address_length] j [THEN word_address_length]
  from assms(3-5) i j lens show ?thesis
    by (auto simp: struct_preimage_def same_request_def intent_in_range_def word_u64_inject word_u128_inject
        intro: word_address_inject)
qed

lemma domain_preimage_binds:
  assumes "domain_separator C c k = Ok d" and "domain_separator C c' k' = Ok d'"
    and "domain_preimage C c k = domain_preimage C c' k'"
  shows "parse_addr_20 k = parse_addr_20 k'"
  using assms(3) domain_separator_Ok(2) [OF assms(1)] domain_separator_Ok(2) [OF assms(2)]
  by (auto simp: domain_preimage_def intro: word_address_inject)

text \<open>C21. A wallet signature authorises one request. If the digest that the canister recomputes for
  one intent and contract equals the digest for another, then action, chain, owner, vault, amounts,
  recipient, nonce, deadline and contract all agree, or two different byte strings that were hashed
  on the way, both structs, both domains or both prefixed pairs of hashes, have the same hash: the
  two requests themselves exhibit the collision. Nothing of the request is left out of the signed
  bytes and no two fields can be shifted into each other.\<close>

theorem digest_binds_request:
  assumes "\<And>x. length (ec_keccak C x) = 32" and "intent_in_range i" "intent_in_range j"
    and "domain_separator C (vi_chain_id i) k = Ok d" "intent_struct_hash C i = Ok h"
    and "domain_separator C (vi_chain_id j) k' = Ok d'" "intent_struct_hash C j = Ok h'"
    and "intent_digest C d h = intent_digest C d' h'"
  shows "same_request i j \<and> parse_addr_20 k = parse_addr_20 k'
    \<or> collide C (struct_preimage C i) (struct_preimage C j)
    \<or> collide C (domain_preimage C (vi_chain_id i) k) (domain_preimage C (vi_chain_id j) k')
    \<or> collide C (digest_preimage d h) (digest_preimage d' h')"
proof (cases "digest_preimage d h = digest_preimage d' h'")
  case True
  have "length d = 32" "length d' = 32"
    using assms(1) domain_separator_Ok(1) [OF assms(4)] domain_separator_Ok(1) [OF assms(6)] by simp_all
  with True have "d = d'" "h = h'" by (simp_all add: digest_preimage_def)
  then show ?thesis
    using struct_preimage_binds [OF assms(5,7,2,3)] domain_preimage_binds [OF assms(4,6)]
      struct_hash_Ok(1) [OF assms(5)] struct_hash_Ok(1) [OF assms(7)]
      domain_separator_Ok(1) [OF assms(4)] domain_separator_Ok(1) [OF assms(6)]
    unfolding collide_def by metis
qed (use assms(8) in \<open>simp add: collide_def digest_preimage_def intent_digest_def\<close>)

text \<open>A toy hash of the right length, and two spellings of one request.\<close>

definition sample_crypto :: evm_crypto where
  "sample_crypto = \<lparr>ec_keccak = (\<lambda>x. sum_list x mod 256 # replicate 31 0), ec_recover = (\<lambda>_ _ _ _. None),
     ec_principal = (\<lambda>_. 0)\<rparr>"

definition sample_intent :: "char \<Rightarrow> vault_intent" where
  "sample_intent c = \<lparr>vi_action = 2, vi_chain_id = 71, vi_owner = ''0x'' @ replicate 40 c, vi_vault_id = 5,
     vi_collateral_wei = 1000, vi_debt_e8s = 0, vi_recipient = ''0x'' @ replicate 40 c, vi_nonce = 3,
     vi_deadline_secs = 99\<rparr>"

lemma sample_addr: "word_address (''0x'' @ replicate 40 CHR ''a'') = Ok (replicate 12 0 @ replicate 20 170)"
    "word_address (''0x'' @ replicate 40 CHR ''A'') = Ok (replicate 12 0 @ replicate 20 170)"
  by code_simp+

lemma sample_preimages: "struct_preimage C (sample_intent CHR ''a'') = struct_preimage C (sample_intent CHR ''A'')"
  using sample_addr by (simp add: struct_preimage_def addr_word_def sample_intent_def)

theorem digest_binds_request_witness:
  "same_request (sample_intent CHR ''a'') (sample_intent CHR ''A'')"
proof -
  let ?C = sample_crypto and ?i = "sample_intent CHR ''a''" and ?j = "sample_intent CHR ''A''"
  let ?k = "''0x'' @ replicate 40 CHR ''a''"
  obtain d where d: "domain_separator ?C 71 ?k = Ok d"
    using sample_addr by (simp add: domain_separator_def)
  obtain h where h: "intent_struct_hash ?C ?i = Ok h"
    using sample_addr by (simp add: intent_struct_hash_def sample_intent_def)
  have h': "intent_struct_hash ?C ?j = Ok h"
    using sample_addr h by (simp add: intent_struct_hash_def sample_intent_def)
  have "same_request ?i ?j \<and> parse_addr_20 ?k = parse_addr_20 ?k
    \<or> collide ?C (struct_preimage ?C ?i) (struct_preimage ?C ?j)
    \<or> collide ?C (domain_preimage ?C (vi_chain_id ?i) ?k) (domain_preimage ?C (vi_chain_id ?j) ?k)
    \<or> collide ?C (digest_preimage d h) (digest_preimage d h)"
  proof (rule digest_binds_request)
    show "length (ec_keccak ?C x) = 32" for x by (simp add: sample_crypto_def)
    show "domain_separator ?C (vi_chain_id ?i) ?k = Ok d" "domain_separator ?C (vi_chain_id ?j) ?k = Ok d"
      using d by (simp_all add: sample_intent_def)
  qed (use h h' in \<open>simp_all add: intent_in_range_def sample_intent_def u64_max_def u128_max_def\<close>)
  moreover have "vi_chain_id ?i = vi_chain_id ?j" by (simp add: sample_intent_def)
  ultimately show ?thesis by (simp add: collide_def sample_preimages)
qed

end
