(* ===== verification/Icp_Types.thy ===== *)
theory Icp_Types
  imports Chain_Math
begin

text \<open>
  The data of the vault book of the protocol backend (\<^verbatim>\<open>rumi_protocol_backend/src/state.rs\<close>,
  \<^verbatim>\<open>vault.rs\<close>) and its token arithmetic (\<^verbatim>\<open>numeric.rs\<close>). A token amount is a \<open>u64\<close>; ratios and prices
  are decimals of the \<^verbatim>\<open>rust_decimal\<close> crate, which stays a parameter: the record of the chain rail,
  extended by subtraction, comparison and the conversions used here. \<open>None\<close> is a panic, after which
  the replica rolls the message back. The fields of the state that no modelled operation reads or
  writes are left out.
\<close>

section \<open>Decimals and tokens\<close>

record ('d, 'f) decimal = "'d decimal_ops" +
  dec_zero :: 'd
  dec_largest :: 'd
  dec_lit :: "nat \<Rightarrow> nat \<Rightarrow> 'd"
  dec_sub :: "'d \<Rightarrow> 'd \<Rightarrow> 'd option"
  dec_le :: "'d \<Rightarrow> 'd \<Rightarrow> bool"
  dec_to_u64 :: "'d \<Rightarrow> u64 option"
  dec_from_f64 :: "'f \<Rightarrow> 'd option"
  dec_to_f64 :: "'d \<Rightarrow> 'f"

abbreviation dec_less :: "('d, 'f) decimal \<Rightarrow> 'd \<Rightarrow> 'd \<Rightarrow> bool" where
  "dec_less D a b \<equiv> \<not> dec_le D b a"

abbreviation dec_eq :: "('d, 'f) decimal \<Rightarrow> 'd \<Rightarrow> 'd \<Rightarrow> bool" where
  "dec_eq D a b \<equiv> dec_le D a b \<and> dec_le D b a"

text \<open>\<open>dec_lit D n k\<close> is the literal \<open>n / 10\<^sup>k\<close>.\<close>

definition recovery_collateral_ratio :: "('d, 'f) decimal \<Rightarrow> 'd" where
  "recovery_collateral_ratio D = dec_lit D 15 1"

definition minimum_collateral_ratio :: "('d, 'f) decimal \<Rightarrow> 'd" where
  "minimum_collateral_ratio D = dec_lit D 133 2"

definition default_interest_rate_apr :: "('d, 'f) decimal \<Rightarrow> 'd" where
  "default_interest_rate_apr D = dec_lit D 0 1"

definition default_healthy_cr_multiplier :: "('d, 'f) decimal \<Rightarrow> 'd" where
  "default_healthy_cr_multiplier D = dec_lit D 15 1"

text \<open>\<^verbatim>\<open>Token - Token\<close> and \<^verbatim>\<open>Ratio - Ratio\<close> panic on underflow; \<^verbatim>\<open>Token + Token\<close> wraps.\<close>

definition token_add :: "u64 \<Rightarrow> u64 \<Rightarrow> u64" where
  "token_add a b = wrap64 (a + b)"

definition token_sub :: "u64 \<Rightarrow> u64 \<Rightarrow> u64 option" where
  "token_sub a b = (if b > a then None else Some (a - b))"

definition ratio_sub :: "('d, 'f) decimal \<Rightarrow> 'd \<Rightarrow> 'd \<Rightarrow> 'd option" where
  "ratio_sub D a b = (if dec_less D a b then None else dec_sub D a b)"

definition token_mul_ratio :: "('d, 'f) decimal \<Rightarrow> u64 \<Rightarrow> 'd \<Rightarrow> u64 option" where
  "token_mul_ratio D t r =
     Option.bind (dec_div D (dec_from_u64 D t) (dec_lit D 100000000 0)) (\<lambda>whole.
     Option.bind (dec_mul D whole r) (\<lambda>result.
     Option.bind (dec_mul D result (dec_lit D 100000000 0)) (\<lambda>e8s. dec_to_u64 D e8s)))"

definition token_div_token :: "('d, 'f) decimal \<Rightarrow> u64 \<Rightarrow> u64 \<Rightarrow> 'd option" where
  "token_div_token D a b = (if b = 0 then None else dec_div D (dec_from_u64 D a) (dec_from_u64 D b))"

definition icusd_div_ratio :: "('d, 'f) decimal \<Rightarrow> u64 \<Rightarrow> 'd \<Rightarrow> u64 option" where
  "icusd_div_ratio D t r =
     (if dec_eq D r (dec_zero D) then None
      else
        Option.bind (dec_div D (dec_from_u64 D t) (dec_from_u64 D 100000000)) (\<lambda>whole.
        Option.bind (dec_div D whole r) (\<lambda>result.
        Option.bind (dec_mul D result (dec_from_u64 D 100000000)) (\<lambda>e8s. dec_to_u64 D e8s))))"

text \<open>\<^verbatim>\<open>10u64.pow(decimals)\<close> wraps for more than 19 decimals, and a divisor that wrapped to 0 panics.\<close>

definition collateral_usd_value :: "('d, 'f) decimal \<Rightarrow> u64 \<Rightarrow> 'd \<Rightarrow> u8 \<Rightarrow> u64 option" where
  "collateral_usd_value D amount price_usd decimals =
     Option.bind (dec_div D (dec_from_u64 D amount) (dec_from_u64 D (wrap64 (10 ^ decimals)))) (\<lambda>whole_tokens.
     Option.bind (dec_mul D whole_tokens price_usd) (\<lambda>usd_value.
     Option.bind (dec_mul D usd_value (dec_lit D 100000000 0)) (\<lambda>e8s.
       Some (case dec_to_u64 D e8s of None \<Rightarrow> 0 | Some n \<Rightarrow> n))))"

definition icusd_to_collateral_amount :: "('d, 'f) decimal \<Rightarrow> u64 \<Rightarrow> 'd \<Rightarrow> u8 \<Rightarrow> u64 option" where
  "icusd_to_collateral_amount D icusd_value price_usd decimals =
     (if dec_eq D price_usd (dec_zero D) then Some 0
      else
        Option.bind (dec_div D (dec_from_u64 D icusd_value) (dec_lit D 100000000 0)) (\<lambda>usd_value.
        Option.bind (dec_div D usd_value price_usd) (\<lambda>whole_tokens.
        Option.bind (dec_mul D whole_tokens (dec_from_u64 D (wrap64 (10 ^ decimals)))) (\<lambda>raw_amount.
          Some (case dec_to_u64 D raw_amount of None \<Rightarrow> 0 | Some n \<Rightarrow> n)))))"

section \<open>Vaults and collateral\<close>

datatype protocol_mode = ReadOnly | GeneralAvailability | RecoveryMode

datatype collateral_status = CsActive | CsPaused | CsFrozen | CsSunset | CsDeprecated

fun allows_open :: "collateral_status \<Rightarrow> bool" where
  "allows_open st = (st = CsActive)"

fun allows_borrow :: "collateral_status \<Rightarrow> bool" where
  "allows_borrow st = (st = CsActive)"

fun allows_repay :: "collateral_status \<Rightarrow> bool" where
  "allows_repay st = (st \<in> {CsActive, CsPaused, CsSunset})"

fun allows_add_collateral :: "collateral_status \<Rightarrow> bool" where
  "allows_add_collateral st = (st \<in> {CsActive, CsPaused})"

fun allows_withdraw :: "collateral_status \<Rightarrow> bool" where
  "allows_withdraw st = (st \<in> {CsActive, CsSunset})"

fun allows_close :: "collateral_status \<Rightarrow> bool" where
  "allows_close st = (st \<in> {CsActive, CsPaused, CsSunset})"

fun allows_liquidation :: "collateral_status \<Rightarrow> bool" where
  "allows_liquidation st = (st \<in> {CsActive, CsPaused, CsSunset})"

fun allows_redemption :: "collateral_status \<Rightarrow> bool" where
  "allows_redemption st = (st = CsActive)"

datatype custody_kind = IcrcLedger | NativeXrp

record 'd rate_marker =
  rm_cr_level :: 'd
  rm_multiplier :: 'd

datatype asset_threshold = AtLiquidationRatio | AtBorrowThreshold | AtWarningCr | AtHealthyCr

datatype system_threshold = StLiquidationRatio | StBorrowThreshold | StWarningCr | StHealthyCr | StTotalCollateralRatio

datatype 'd cr_anchor =
    Fixed 'd
  | AssetThreshold asset_threshold
  | SystemThreshold system_threshold
  | Midpoint "'d cr_anchor" "'d cr_anchor"
  | Offset "'d cr_anchor" 'd

record 'd rate_marker_v2 =
  rm2_cr_anchor :: "'d cr_anchor"
  rm2_multiplier :: 'd

record 'd recovery_rate_marker =
  rrm_threshold :: system_threshold
  rrm_multiplier :: 'd

record ('d, 'f) collateral_config =
  cf_decimals :: u8
  cf_liquidation_ratio :: 'd
  cf_borrow_threshold_ratio :: 'd
  cf_liquidation_bonus :: 'd
  cf_borrowing_fee :: 'd
  cf_interest_rate_apr :: 'd
  cf_debt_ceiling :: u64
  cf_min_vault_debt :: u64
  cf_ledger_fee :: u64
  cf_status :: collateral_status
  cf_last_price :: "'f option"
  cf_last_price_timestamp :: "u64 option"
  cf_redemption_fee_floor :: 'd
  cf_redemption_fee_ceiling :: 'd
  cf_current_base_rate :: 'd
  cf_last_redemption_time :: u64
  cf_recovery_target_cr :: 'd
  cf_min_collateral_deposit :: u64
  cf_recovery_borrowing_fee :: "'d option"
  cf_recovery_interest_rate_apr :: "'d option"
  cf_healthy_cr :: "'d option"
  cf_rate_curve :: "'d rate_marker list option"
  cf_redemption_tier :: u8
  cf_custody_kind :: "custody_kind option"

definition custody_of :: "('d, 'f) collateral_config \<Rightarrow> custody_kind" where
  "custody_of c = (case cf_custody_kind c of None \<Rightarrow> IcrcLedger | Some k \<Rightarrow> k)"

definition is_native_xrp :: "('d, 'f) collateral_config \<Rightarrow> bool" where
  "is_native_xrp c \<longleftrightarrow> custody_of c = NativeXrp"

record icp_vault =
  iv_owner :: principal
  iv_borrowed_icusd_amount :: u64
  iv_collateral_amount :: u64
  iv_vault_id :: u64
  iv_collateral_type :: principal
  iv_last_accrual_time :: u64
  iv_accrued_interest :: u64
  iv_bot_processing :: bool

record vault_redemption =
  vr_vault_id :: u64
  vr_icusd_redeemed_e8s :: u64
  vr_collateral_seized :: u64

section \<open>State\<close>

text \<open>Indexes map a key to the set of the ids of its vaults.\<close>

type_synonym 'k vault_index = "('k, u64 bset) bmap"

record ('d, 'f) icp_state =
  ic_vault_id_to_vaults :: "(u64, icp_vault) bmap"
  ic_principal_to_vault_ids :: "principal vault_index"
  ic_collateral_to_vault_ids :: "principal vault_index"
  ic_vault_cr_index :: "u64 vault_index"
  ic_next_available_vault_id :: u64
  ic_collateral_configs :: "(principal, ('d, 'f) collateral_config) bmap"
  ic_icp_ledger_principal :: principal
  ic_last_icp_rate :: "'d option"
  ic_last_icp_timestamp :: "u64 option"
  ic_mode :: protocol_mode
  ic_frozen :: bool
  ic_manual_mode_override :: bool
  ic_mode_triggered_by_oracle :: bool
  ic_total_collateral_ratio :: 'd
  ic_recovery_mode_threshold :: 'd
  ic_weighted_avg_recovery_cr :: 'd
  ic_weighted_avg_warning_cr :: 'd
  ic_weighted_avg_healthy_cr :: 'd
  ic_recovery_cr_multiplier :: 'd
  ic_fee :: 'd
  ic_liquidation_bonus :: 'd
  ic_redemption_fee_floor :: 'd
  ic_redemption_fee_ceiling :: 'd
  ic_current_base_rate :: 'd
  ic_last_redemption_time :: u64
  ic_rmr_floor :: 'd
  ic_rmr_ceiling :: 'd
  ic_rmr_floor_cr :: 'd
  ic_rmr_ceiling_cr :: 'd
  ic_global_rate_curve :: "'d rate_marker list"
  ic_recovery_rate_curve :: "'d recovery_rate_marker list"
  ic_borrowing_fee_curve :: "'d rate_marker_v2 list option"
  ic_pending_interest_for_pools :: "(principal, u64) bmap"
  ic_pending_treasury_interest :: u64
  ic_protocol_deficit_icusd :: u64
  ic_total_deficit_repaid_icusd :: u64
  ic_deficit_repayment_fraction :: 'd
  ic_deficit_readonly_threshold_e8s :: u64
  ic_breaker_window_ns :: u64
  ic_breaker_window_debt_ceiling_e8s :: u64
  ic_recent_liquidations :: "(u64 \<times> u64) list"
  ic_liquidation_breaker_tripped :: bool
  ic_check_vaults_alert_band_bps :: u64
  ic_check_vaults_full_sweep_every_n_ticks :: u64
  ic_ticks_since_full_sweep :: u64
  ic_bot_cr_tolerance_bps :: u64
  ic_liquidity_pool :: "(principal, u64) bmap"
  ic_liquidity_returns :: "(principal, u64) bmap"

end
