(* ===== verification/Chain_Endpoints.thy ===== *)
theory Chain_Endpoints
  imports Chain_Recovery Evm_Intent Icp_Types
begin

text \<open>
  The canister endpoints of the foreign-chain rail (\<^verbatim>\<open>main.rs\<close>): developer-gated administration,
  the developer and Solana vault endpoints, the self-serve endpoints that act on an EIP-712 signed
  intent, and the timer's supply self-check (\<^verbatim>\<open>xrc.rs\<close>). An endpoint is a function of the caller
  and of the part of the canister state it reads; an endpoint that awaits is split at the await.
  Error strings are constructors that carry what they print.
\<close>

section \<open>State and errors\<close>

record canister =
  can_developer :: principal
  can_price_pusher :: "principal option"
  can_price_pusher_allowed :: "(u32 \<times> string) list"
  can_mode :: protocol_mode
  can_mode_triggered_by_oracle :: bool
  can_vault_id_counter :: u64
  can_chain :: multi_chain_state

datatype endpoint_error =
    EeNotDeveloper
  | EeNotPriceSetter
  | EeZeroPrice
  | EeNotEvmChain chain_id
  | EeNoCollateralConfig chain_id
  | EeUnknownChain chain_id
  | EeNotRegistered chain_id
  | EeInvalidSolanaAddress string
  | EeInvalidEvmAddress string
  | EeLiquidationConfig liquidation_config_error
  | EePenaltyCushion u16 u32 u64
  | EeRpc string
  | EeFactoryPair string string
  | EeCeilingBelowMin u128 u128
  | EeText string
  | EeAdmin chain_admin_error
  | EeDiverged supply_invariant_error
  | EeUnknownVault
  | EeEvmOwned
  | EeOpen open_vault_error
  | EeWithdraw withdraw_error
  | EeBorrow borrow_error
  | EeDerive string
  | EeNoContract chain_id
  | EeVerify verify_error
  | EeBadNonce u64 u64
  | EeVaultCap
  | EeNotOwner

type_synonym endpoint = "(endpoint_error, canister) outcome"

definition put_chain :: "canister \<Rightarrow> multi_chain_state \<Rightarrow> canister" where
  "put_chain c s = c\<lparr>can_chain := s\<rparr>"

definition lift_chain :: "('e \<Rightarrow> endpoint_error) \<Rightarrow> canister \<Rightarrow> ('e, multi_chain_state) outcome \<Rightarrow> endpoint" where
  "lift_chain err c r = and_then (map_err err r) (\<lambda>s. Ok (put_chain c s))"

section \<open>Chain tables\<close>

record evm_config_row =
  ev_chain_id :: chain_id
  ev_ecdsa_key_name :: string
  ev_getlogs_max_range :: u64
  ev_native_decimals :: u8
  ev_native_symbol :: string

definition evm_chain_config :: "chain_id \<Rightarrow> evm_config_row option" where
  "evm_chain_config chain =
     (if chain = 10143 then
        Some \<lparr>ev_chain_id = 10143, ev_ecdsa_key_name = ''test_key_1'', ev_getlogs_max_range = 100,
              ev_native_decimals = 18, ev_native_symbol = ''MON''\<rparr>
      else if chain = 71 then
        Some \<lparr>ev_chain_id = 71, ev_ecdsa_key_name = ''test_key_1'', ev_getlogs_max_range = 1000,
              ev_native_decimals = 18, ev_native_symbol = ''CFX''\<rparr>
      else if chain = 1030 then
        Some \<lparr>ev_chain_id = 1030, ev_ecdsa_key_name = ''test_key_1'', ev_getlogs_max_range = 1000,
              ev_native_decimals = 18, ev_native_symbol = ''CFX''\<rparr>
      else None)"

definition solana_chain_id :: chain_id where
  "solana_chain_id = 501"

definition solana_min_cr_e4 :: u64 where
  "solana_min_cr_e4 = 13000"

text \<open>\<open>b58\<close> is the decoder of the \<^verbatim>\<open>bs58\<close> crate.\<close>

definition is_valid_solana_address :: "(string \<Rightarrow> bytes option) \<Rightarrow> string \<Rightarrow> bool" where
  "is_valid_solana_address b58 s = (case b58 s of Some bs \<Rightarrow> length bs = 32 | None \<Rightarrow> False)"

definition evm_vault_params ::
    "multi_chain_state \<Rightarrow> chain_id \<Rightarrow> (endpoint_error, string \<times> u64 \<times> u128 \<times> u128 option) outcome" where
  "evm_vault_params s chain =
     (case evm_chain_config chain of
        None \<Rightarrow> Err (EeNotEvmChain chain)
      | Some row \<Rightarrow>
          (case chain_collateral_config chain of
             None \<Rightarrow> Err (EeNoCollateralConfig chain)
           | Some cfg \<Rightarrow>
               let debt_cfg = (case bm_get (chain_debt_configs s) chain of
                                 Some d \<Rightarrow> d | None \<Rightarrow> chain_debt_config_from_collateral_config cfg)
               in Ok (ev_native_symbol row, ccc_min_cr_e4 cfg, cdc_min_vault_debt_e8s debt_cfg,
                      cdc_debt_ceiling_e8s debt_cfg)))"

section \<open>Administration\<close>

definition require_developer :: "canister \<Rightarrow> principal \<Rightarrow> endpoint \<Rightarrow> endpoint" where
  "require_developer c caller body = (if can_developer c \<noteq> caller then Err EeNotDeveloper else body)"

definition register_chain :: "canister \<Rightarrow> principal \<Rightarrow> register_chain_arg \<Rightarrow> u64 \<Rightarrow> endpoint" where
  "register_chain c caller arg now =
     require_developer c caller
       (and_then (map_err EeAdmin (register_chain_in_state (can_chain c) arg now)) (\<lambda>(s, _). Ok (put_chain c s)))"

definition disable_chain :: "canister \<Rightarrow> principal \<Rightarrow> chain_id \<Rightarrow> endpoint" where
  "disable_chain c caller chain =
     require_developer c caller (lift_chain EeAdmin c (disable_chain_in_state (can_chain c) chain))"

definition set_chain_config :: "canister \<Rightarrow> principal \<Rightarrow> chain_id \<Rightarrow> update_chain_config_arg \<Rightarrow> endpoint" where
  "set_chain_config c caller chain upd =
     require_developer c caller (lift_chain EeAdmin c (update_chain_config_in_state (can_chain c) chain upd))"

definition delete_chain :: "canister \<Rightarrow> principal \<Rightarrow> chain_id \<Rightarrow> endpoint" where
  "delete_chain c caller chain =
     require_developer c caller (lift_chain EeAdmin c (delete_chain_in_state (can_chain c) chain))"

definition set_chain_contract ::
    "(string \<Rightarrow> bytes option) \<Rightarrow> canister \<Rightarrow> principal \<Rightarrow> chain_id \<Rightarrow> string \<Rightarrow> endpoint" where
  "set_chain_contract b58 c caller chain address =
     require_developer c caller
       (if chain = solana_chain_id \<and> \<not> is_valid_solana_address b58 address
        then Err (EeInvalidSolanaAddress address)
        else if chain \<noteq> solana_chain_id \<and> \<not> is_valid_evm_address address
        then Err (EeInvalidEvmAddress address)
        else Ok (put_chain c ((can_chain c)\<lparr>chain_contracts :=
                   bm_insert chain address (chain_contracts (can_chain c))\<rparr>)))"

definition validate_chain_liquidation_config_inputs ::
    "multi_chain_state \<Rightarrow> chain_id \<Rightarrow> chain_liquidation_config \<Rightarrow> (endpoint_error, unit) outcome" where
  "validate_chain_liquidation_config_inputs s chain config =
     and_then (map_err EeLiquidationConfig (validate_liquidation_config config)) (\<lambda>_.
       if evm_chain_config chain = None then Err (EeNotEvmChain chain)
       else case map_option cc_status (bm_get (chain_configs s) chain) of
         None \<Rightarrow> Err (EeUnknownChain chain)
       | Some Disabled \<Rightarrow> Err (EeNotRegistered chain)
       | Some Registered \<Rightarrow>
           if lc_enabled config then
             (case chain_collateral_config chain of
                None \<Rightarrow> Err (EeNoCollateralConfig chain)
              | Some cc \<Rightarrow>
                  let penalty_bps = ccc_liquidation_penalty_bps cc;
                      budget_bps = sat_add64 (lc_slippage_cap_bps config) (lc_max_dex_oracle_divergence_bps config)
                  in if budget_bps \<ge> penalty_bps
                     then Err (EePenaltyCushion (lc_slippage_cap_bps config)
                                (lc_max_dex_oracle_divergence_bps config) penalty_bps)
                     else Ok ())
           else Ok ())"

definition validate_liquidation_factory_pair_match ::
    "chain_liquidation_config \<Rightarrow> string \<Rightarrow> (endpoint_error, unit) outcome" where
  "validate_liquidation_factory_pair_match config derived_pair =
     and_then (map_err EeLiquidationConfig (canonical_evm_address derived_pair)) (\<lambda>derived.
     and_then (map_err EeLiquidationConfig (canonical_evm_address (lc_pair config))) (\<lambda>pinned.
       if derived \<noteq> pinned then Err (EeFactoryPair derived pinned) else Ok ()))"

text \<open>\<open>before\<close> is the state before the factory read, \<open>c\<close> the state after it; \<open>pair_read\<close> its answer.\<close>

definition set_chain_liquidation_config ::
    "canister \<Rightarrow> (string, string) outcome \<Rightarrow> canister \<Rightarrow> principal \<Rightarrow> chain_id \<Rightarrow> chain_liquidation_config \<Rightarrow> endpoint" where
  "set_chain_liquidation_config before pair_read c caller chain config =
     require_developer before caller
       (and_then (validate_chain_liquidation_config_inputs (can_chain before) chain config) (\<lambda>_.
        and_then
          (if lc_enabled config then
             and_then (map_err EeRpc pair_read) (\<lambda>derived.
             and_then (validate_liquidation_factory_pair_match config derived) (\<lambda>_.
               validate_chain_liquidation_config_inputs (can_chain c) chain config))
           else Ok ()) (\<lambda>_.
        Ok (put_chain c ((can_chain c)\<lparr>chain_liquidation_configs :=
              bm_insert chain config (chain_liquidation_configs (can_chain c))\<rparr>)))))"

definition validate_chain_debt_config :: "chain_id \<Rightarrow> chain_debt_config \<Rightarrow> (endpoint_error, unit) outcome" where
  "validate_chain_debt_config chain config =
     (if chain_collateral_config chain = None then Err (EeNoCollateralConfig chain)
      else case cdc_debt_ceiling_e8s config of
        Some cap \<Rightarrow>
          if cap < cdc_min_vault_debt_e8s config
          then Err (EeCeilingBelowMin cap (cdc_min_vault_debt_e8s config)) else Ok ()
      | None \<Rightarrow> Ok ())"

definition set_chain_debt_config :: "canister \<Rightarrow> principal \<Rightarrow> chain_id \<Rightarrow> chain_debt_config \<Rightarrow> endpoint" where
  "set_chain_debt_config c caller chain config =
     require_developer c caller
       (and_then (validate_chain_debt_config chain config) (\<lambda>_.
        Ok (put_chain c ((can_chain c)\<lparr>chain_debt_configs :=
              bm_insert chain config (chain_debt_configs (can_chain c))\<rparr>))))"

definition get_effective_chain_debt_config :: "multi_chain_state \<Rightarrow> chain_id \<Rightarrow> chain_debt_config option" where
  "get_effective_chain_debt_config s chain =
     map_option (\<lambda>base. case bm_get (chain_debt_configs s) chain of
         Some d \<Rightarrow> d | None \<Rightarrow> chain_debt_config_from_collateral_config base) (chain_collateral_config chain)"

definition set_chain_bad_debt_circuit_threshold_endpoint ::
    "canister \<Rightarrow> principal \<Rightarrow> chain_id \<Rightarrow> u128 option \<Rightarrow> u64 \<Rightarrow> endpoint" where
  "set_chain_bad_debt_circuit_threshold_endpoint c caller chain threshold_e8s now =
     require_developer c caller
       (if \<not> bm_has (chain_configs (can_chain c)) chain then Err (EeNotRegistered chain)
        else lift_chain EeText c (set_chain_bad_debt_circuit_threshold (can_chain c) chain threshold_e8s now))"

definition clear_chain_bad_debt_circuit_endpoint :: "canister \<Rightarrow> principal \<Rightarrow> chain_id \<Rightarrow> endpoint" where
  "clear_chain_bad_debt_circuit_endpoint c caller chain =
     require_developer c caller
       (if \<not> bm_has (chain_configs (can_chain c)) chain then Err (EeNotRegistered chain)
        else Ok (put_chain c (fst (clear_chain_bad_debt_circuit (can_chain c) chain))))"

definition is_price_setter_authorized :: "canister \<Rightarrow> principal \<Rightarrow> u32 \<Rightarrow> string \<Rightarrow> bool" where
  "is_price_setter_authorized c caller chain symbol \<longleftrightarrow>
     can_developer c = caller
     \<or> can_price_pusher c = Some caller \<and> (chain, symbol) \<in> set (can_price_pusher_allowed c)"

definition set_manual_collateral_price ::
    "canister \<Rightarrow> principal \<Rightarrow> chain_id \<Rightarrow> string \<Rightarrow> u64 \<Rightarrow> u64 \<Rightarrow> endpoint" where
  "set_manual_collateral_price c caller chain symbol price_e8 now =
     (if \<not> is_price_setter_authorized c caller chain symbol then Err EeNotPriceSetter
      else if price_e8 = 0 then Err EeZeroPrice
      else Ok (put_chain c (set_manual_price (can_chain c) chain symbol price_e8 now)))"

definition clear_invariant_halt :: "canister \<Rightarrow> principal \<Rightarrow> endpoint" where
  "clear_invariant_halt c caller =
     require_developer c caller
       (and_then (map_err EeDiverged (check_invariant (can_chain c) (total_chain_vault_debt_e8s (can_chain c)))) (\<lambda>_.
        Ok (put_chain c ((can_chain c)\<lparr>invariant_halted := False\<rparr>))))"

definition clear_reorg_halt :: "canister \<Rightarrow> principal \<Rightarrow> chain_id \<Rightarrow> endpoint" where
  "clear_reorg_halt c caller chain =
     require_developer c caller
       (Ok (put_chain c ((can_chain c)\<lparr>reorg_halted := bm_remove chain (reorg_halted (can_chain c)),
              reorg_suspect_streak := bm_remove chain (reorg_suspect_streak (can_chain c))\<rparr>)))"

definition set_last_observed_block :: "canister \<Rightarrow> principal \<Rightarrow> chain_id \<Rightarrow> u64 \<Rightarrow> endpoint" where
  "set_last_observed_block c caller chain block =
     require_developer c caller
       (Ok (put_chain c ((can_chain c)\<lparr>last_observed_block :=
              bm_insert chain block (last_observed_block (can_chain c))\<rparr>)))"

definition set_burn_watch_poll_enabled :: "canister \<Rightarrow> principal \<Rightarrow> chain_id \<Rightarrow> bool \<Rightarrow> endpoint" where
  "set_burn_watch_poll_enabled c caller chain enabled =
     require_developer c caller
       (Ok (put_chain c ((can_chain c)\<lparr>chain_configs :=
              bm_modify chain (\<lambda>cfg. cfg\<lparr>cc_burn_watch_poll_enabled := enabled\<rparr>) (chain_configs (can_chain c))\<rparr>)))"

definition refresh_hot_wallet_balance :: "canister \<Rightarrow> chain_id \<Rightarrow> (string, u128) outcome \<Rightarrow> canister" where
  "refresh_hot_wallet_balance c chain balance_read =
     (case balance_read of
        Ok bal \<Rightarrow> put_chain c ((can_chain c)\<lparr>hot_wallet_balance_e18 :=
                    bm_insert chain bal (hot_wallet_balance_e18 (can_chain c))\<rparr>)
      | _ \<Rightarrow> c)"

definition supply_self_check :: "canister \<Rightarrow> canister" where
  "supply_self_check c =
     (case check_invariant (can_chain c) (total_chain_vault_debt_e8s (can_chain c)) of
        Ok _ \<Rightarrow> c
      | _ \<Rightarrow>
          let c1 = put_chain c ((can_chain c)\<lparr>invariant_halted := True\<rparr>)
          in if can_mode c1 = GeneralAvailability
             then c1\<lparr>can_mode := ReadOnly, can_mode_triggered_by_oracle := False\<rparr> else c1)"

section \<open>Developer vault endpoints\<close>

text \<open>\<^verbatim>\<open>open_chain_vault\<close> up to its await: the parameters are resolved and an id is reserved. The
  64-bit counter wraps.\<close>

definition reserve_vault_id :: "canister \<Rightarrow> canister \<times> u64" where
  "reserve_vault_id c =
     (let k = (can_vault_id_counter c + 1) mod 2 ^ 64 in (c\<lparr>can_vault_id_counter := k\<rparr>, k))"

definition open_chain_vault_start ::
    "canister \<Rightarrow> principal \<Rightarrow> chain_id
      \<Rightarrow> (endpoint_error, canister \<times> u64 \<times> (string \<times> u64 \<times> u128 \<times> u128 option)) outcome" where
  "open_chain_vault_start c caller chain =
     (if can_developer c \<noteq> caller then Err EeNotDeveloper
      else and_then (evm_vault_params (can_chain c) chain) (\<lambda>params.
           let (c1, vid) = reserve_vault_id c in Ok (c1, vid, params)))"

text \<open>After the await: \<open>derived\<close> is the custody address the key derivation returned.\<close>

definition open_chain_vault_finish ::
    "canister \<Rightarrow> principal \<Rightarrow> chain_id \<Rightarrow> u128 \<Rightarrow> u128 \<Rightarrow> string \<Rightarrow> u64
      \<Rightarrow> (string \<times> u64 \<times> u128 \<times> u128 option) \<Rightarrow> (string, string) outcome \<Rightarrow> u64 \<Rightarrow> endpoint" where
  "open_chain_vault_finish c caller chain collateral_e18 debt_e8s mint_recipient vid params derived now =
     (case params of (symbol, min_cr, min_debt, cap) \<Rightarrow>
        and_then (map_err EeDerive derived) (\<lambda>custody.
          lift_chain EeOpen c (open_chain_vault_in_state (can_chain c) chain caller custody collateral_e18 debt_e8s
            mint_recipient is_valid_evm_address symbol min_cr min_debt cap now vid)))"

text \<open>The two endpoints of the operator resolve the parameters of the chain inside \<^verbatim>\<open>mutate_state\<close>, where
  \<^verbatim>\<open>evm_vault_params\<close> borrows the state a second time (\<^verbatim>\<open>read_state\<close>): once the vault is found and its
  chain known, the call traps and its message leaves no trace, so the state operation after it is
  never reached.\<close>

definition withdraw_chain_collateral ::
    "canister \<Rightarrow> principal \<Rightarrow> u64 \<Rightarrow> u128 \<Rightarrow> string \<Rightarrow> u64 \<Rightarrow> endpoint" where
  "withdraw_chain_collateral c caller vid amount_e18 dest_address now =
     require_developer c caller
       (case bm_get (chain_vaults (can_chain c)) vid of
          None \<Rightarrow> Err EeUnknownVault
        | Some v \<Rightarrow>
            if cv_owner_evm v \<noteq> None then Err EeEvmOwned
            else and_then (evm_vault_params (can_chain c) (cv_collateral_chain v)) (\<lambda>_. Trap))"

definition close_chain_vault :: "canister \<Rightarrow> principal \<Rightarrow> u64 \<Rightarrow> string \<Rightarrow> u64 \<Rightarrow> endpoint" where
  "close_chain_vault c caller vid dest_address now =
     require_developer c caller
       (case bm_get (chain_vaults (can_chain c)) vid of
          None \<Rightarrow> Err EeUnknownVault
        | Some v \<Rightarrow>
            if cv_owner_evm v \<noteq> None then Err EeEvmOwned
            else and_then (evm_vault_params (can_chain c) (cv_collateral_chain v)) (\<lambda>_. Trap))"

section \<open>Self-serve endpoints\<close>

record verified_intent =
  ve_chain :: chain_id
  ve_owner_evm :: string
  ve_synthetic :: principal
  ve_symbol :: string
  ve_min_cr :: u64
  ve_min_vault_debt_e8s :: u128
  ve_debt_ceiling_e8s :: "u128 option"

definition verify_intent_ctx ::
    "evm_crypto \<Rightarrow> multi_chain_state \<Rightarrow> vault_intent \<Rightarrow> bytes \<Rightarrow> intent_action \<Rightarrow> u64
      \<Rightarrow> (endpoint_error, verified_intent) outcome" where
  "verify_intent_ctx C s intent signature expected_action now_ns =
     (let chain = vi_chain_id intent mod 2 ^ 32 in
      and_then (evm_vault_params s chain) (\<lambda>(symbol, min_cr, min_debt, cap).
      and_then (ok_or (EeNoContract chain) (bm_get (chain_contracts s) chain)) (\<lambda>contract.
      and_then (map_err EeVerify (verify_intent C intent signature expected_action contract
                                    (now_ns div 1000000000))) (\<lambda>(owner_evm, synthetic).
        Ok \<lparr>ve_chain = chain, ve_owner_evm = owner_evm, ve_synthetic = synthetic, ve_symbol = symbol,
            ve_min_cr = min_cr, ve_min_vault_debt_e8s = min_debt, ve_debt_ceiling_e8s = cap\<rparr>))))"

definition evm_owns_vault :: "multi_chain_state \<Rightarrow> u64 \<Rightarrow> verified_intent \<Rightarrow> bool" where
  "evm_owns_vault s vid v =
     (case bm_get (chain_vaults s) vid of
        Some w \<Rightarrow> cv_owner w = ve_synthetic v
          \<and> (case cv_owner_evm w of Some a \<Rightarrow> eq_ignore_ascii_case a (ve_owner_evm v) | None \<Rightarrow> False)
      | None \<Rightarrow> False)"

text \<open>A failed closure returns \<open>Err\<close> with the state as the earlier statements of the closure left it:
  the cap check of the open comes after the nonce is spent, so \<open>start\<close> keeps the state beside the
  result.\<close>

definition open_chain_vault_evm_start ::
    "evm_crypto \<Rightarrow> canister \<Rightarrow> vault_intent \<Rightarrow> bytes \<Rightarrow> u64
      \<Rightarrow> canister \<times> (endpoint_error, u64 \<times> verified_intent) outcome" where
  "open_chain_vault_evm_start C c intent signature now =
     (case verify_intent_ctx C (can_chain c) intent signature IaOpen now of
        Err e \<Rightarrow> (c, Err e)
      | Trap \<Rightarrow> (c, Trap)
      | Ok v \<Rightarrow>
          (case consume_evm_nonce (can_chain c) (ve_synthetic v) (vi_nonce intent) of
             Err expected \<Rightarrow> (c, Err (EeBadNonce (vi_nonce intent) expected))
           | Trap \<Rightarrow> (c, Trap)
           | Ok s1 \<Rightarrow>
               let c1 = put_chain c s1 in
               if count_owner_active_vaults s1 (ve_synthetic v) \<ge> max_vaults_per_owner then (c1, Err EeVaultCap)
               else let (c2, vid) = reserve_vault_id c1 in (c2, Ok (vid, v))))"

definition open_chain_vault_evm_finish ::
    "canister \<Rightarrow> verified_intent \<Rightarrow> vault_intent \<Rightarrow> u64 \<Rightarrow> (string, string) outcome \<Rightarrow> u64 \<Rightarrow> endpoint" where
  "open_chain_vault_evm_finish c v intent vid derived now =
     and_then (map_err EeDerive derived) (\<lambda>custody.
       if count_owner_active_vaults (can_chain c) (ve_synthetic v) \<ge> max_vaults_per_owner then Err EeVaultCap
       else and_then (map_err EeOpen (open_chain_vault_in_state (can_chain c) (ve_chain v) (ve_synthetic v) custody
              (vi_collateral_wei intent) (vi_debt_e8s intent) (ve_owner_evm v) is_valid_evm_address (ve_symbol v)
              (ve_min_cr v) (ve_min_vault_debt_e8s v) (ve_debt_ceiling_e8s v) now vid)) (\<lambda>s.
            Ok (put_chain c (update_vault vid (\<lambda>w. w\<lparr>cv_owner_evm := Some (ve_owner_evm v)\<rparr>) s))))"

text \<open>The three synchronous endpoints share their authorisation and the nonce that a success spends.\<close>

definition with_signed_vault ::
    "evm_crypto \<Rightarrow> canister \<Rightarrow> vault_intent \<Rightarrow> bytes \<Rightarrow> intent_action \<Rightarrow> u64
      \<Rightarrow> (verified_intent \<Rightarrow> (endpoint_error, multi_chain_state) outcome) \<Rightarrow> endpoint" where
  "with_signed_vault C c intent signature action now body =
     and_then (verify_intent_ctx C (can_chain c) intent signature action now) (\<lambda>v.
       if \<not> evm_owns_vault (can_chain c) (vi_vault_id intent) v then Err EeNotOwner
       else
         let expected = expected_evm_nonce (can_chain c) (ve_synthetic v) in
         if vi_nonce intent \<noteq> expected then Err (EeBadNonce (vi_nonce intent) expected)
         else and_then (body v) (\<lambda>s.
           Ok (put_chain c (s\<lparr>evm_owner_nonces :=
                 bm_insert (ve_synthetic v) (sat_add64 expected 1) (evm_owner_nonces s)\<rparr>))))"

definition borrow_chain_vault_evm :: "evm_crypto \<Rightarrow> canister \<Rightarrow> vault_intent \<Rightarrow> bytes \<Rightarrow> u64 \<Rightarrow> endpoint" where
  "borrow_chain_vault_evm C c intent signature now =
     with_signed_vault C c intent signature IaBorrow now (\<lambda>v.
       map_err EeBorrow (borrow_chain_vault_in_state (can_chain c) (vi_vault_id intent) (vi_debt_e8s intent)
         (ve_owner_evm v) is_valid_evm_address (ve_symbol v) (ve_min_cr v) (ve_min_vault_debt_e8s v)
         (ve_debt_ceiling_e8s v) now))"

definition withdraw_chain_collateral_evm ::
    "'d decimal_ops \<Rightarrow> evm_crypto \<Rightarrow> canister \<Rightarrow> vault_intent \<Rightarrow> bytes \<Rightarrow> u64 \<Rightarrow> endpoint" where
  "withdraw_chain_collateral_evm D C c intent signature now =
     with_signed_vault C c intent signature IaWithdrawCollateral now (\<lambda>v.
       map_err EeWithdraw (withdraw_collateral_in_state D (can_chain c) (vi_vault_id intent)
         (vi_collateral_wei intent) (ve_owner_evm v) is_valid_evm_address (ve_symbol v) (ve_min_cr v) now))"

definition close_chain_vault_evm ::
    "'d decimal_ops \<Rightarrow> evm_crypto \<Rightarrow> canister \<Rightarrow> vault_intent \<Rightarrow> bytes \<Rightarrow> u64 \<Rightarrow> endpoint" where
  "close_chain_vault_evm D C c intent signature now =
     with_signed_vault C c intent signature IaClose now (\<lambda>v.
       map_err EeWithdraw (close_chain_vault_in_state D (can_chain c) (vi_vault_id intent) (ve_owner_evm v)
         is_valid_evm_address (ve_symbol v) (ve_min_cr v) now))"

section \<open>Solana vault endpoints\<close>

definition open_solana_vault_start :: "canister \<Rightarrow> principal \<Rightarrow> (endpoint_error, canister \<times> u64) outcome" where
  "open_solana_vault_start c caller =
     (if can_developer c \<noteq> caller then Err EeNotDeveloper else Ok (reserve_vault_id c))"

definition open_solana_vault_finish ::
    "(string \<Rightarrow> bytes option) \<Rightarrow> canister \<Rightarrow> principal \<Rightarrow> u128 \<Rightarrow> u128 \<Rightarrow> string \<Rightarrow> u64 \<Rightarrow> (string, string) outcome
      \<Rightarrow> u64 \<Rightarrow> endpoint" where
  "open_solana_vault_finish b58 c caller collateral_lamports debt_e8s mint_recipient vid derived now =
     and_then (map_err EeDerive derived) (\<lambda>custody.
       lift_chain EeOpen c (open_chain_vault_in_state (can_chain c) solana_chain_id caller custody
         collateral_lamports debt_e8s mint_recipient (is_valid_solana_address b58) ''SOL'' solana_min_cr_e4 0 None
         now vid))"

definition withdraw_solana_collateral ::
    "'d decimal_ops \<Rightarrow> (string \<Rightarrow> bytes option) \<Rightarrow> canister \<Rightarrow> principal \<Rightarrow> u64 \<Rightarrow> u128 \<Rightarrow> string \<Rightarrow> u64 \<Rightarrow> endpoint" where
  "withdraw_solana_collateral D b58 c caller vid amount_lamports dest_address now =
     require_developer c caller
       (lift_chain EeWithdraw c (withdraw_collateral_in_state D (can_chain c) vid amount_lamports dest_address
          (is_valid_solana_address b58) ''SOL'' solana_min_cr_e4 now))"

definition close_solana_vault ::
    "'d decimal_ops \<Rightarrow> (string \<Rightarrow> bytes option) \<Rightarrow> canister \<Rightarrow> principal \<Rightarrow> u64 \<Rightarrow> string \<Rightarrow> u64 \<Rightarrow> endpoint" where
  "close_solana_vault D b58 c caller vid dest_address now =
     require_developer c caller
       (lift_chain EeWithdraw c (close_chain_vault_in_state D (can_chain c) vid dest_address
          (is_valid_solana_address b58) ''SOL'' solana_min_cr_e4 now))"

end
