(* ===== verification/Chain_Invariant.thy ===== *)
theory Chain_Invariant
  imports Chain_Endpoints
begin

text \<open>
  The invariant of the foreign-chain state and its preservation by every operation. \<open>chain_inv K\<close>
  says that the books are balanced, that a vault is stored under its own id (one of the ids \<open>K\<close>),
  that a vault
  awaiting its deposit has neither debt nor a pending interest mint, and that only registered
  chains have a supply entry. Each operation has a lemma that it keeps the invariant; the
  machine of all operations is in the next theory.
\<close>

named_theorems chain_ops \<open>the operations keep the invariant\<close>

section \<open>The invariant\<close>

definition vault_ok :: "(u64 \<Rightarrow> bool) \<Rightarrow> u64 \<Rightarrow> chain_vault \<Rightarrow> bool" where
  "vault_ok K vid v \<longleftrightarrow> K vid \<and> cv_vault_id v = vid \<and>
     (cv_status v = AwaitingDeposit \<longrightarrow> cv_debt_e8s v = 0 \<and> cv_pending_interest_mint_e8s v = 0)"

definition vaults_ok :: "(u64 \<Rightarrow> bool) \<Rightarrow> (u64, chain_vault) bmap \<Rightarrow> bool" where
  "vaults_ok K m \<longleftrightarrow> (\<forall>vid v. bm_get m vid = Some v \<longrightarrow> vault_ok K vid v)"

definition supplies_registered :: "multi_chain_state \<Rightarrow> bool" where
  "supplies_registered s \<longleftrightarrow> (\<forall>c. bm_has (chain_supplies s) c \<longrightarrow> bm_has (chain_configs s) c)"

definition chain_inv :: "(u64 \<Rightarrow> bool) \<Rightarrow> multi_chain_state \<Rightarrow> bool" where
  "chain_inv K s \<longleftrightarrow> backed s \<and> vaults_ok K (chain_vaults s) \<and> supplies_registered s"

text \<open>The invariant reads five maps; an operation that leaves them alone keeps it.\<close>

definition same_books :: "multi_chain_state \<Rightarrow> multi_chain_state \<Rightarrow> bool" where
  "same_books s t \<longleftrightarrow> chain_supplies t = chain_supplies s \<and> chain_vaults t = chain_vaults s
     \<and> reserve_backing_e8s t = reserve_backing_e8s s
     \<and> pending_chain_burn_e8s t = pending_chain_burn_e8s s \<and> chain_configs t = chain_configs s"

lemma same_books_inv: "same_books s t \<Longrightarrow> chain_inv K s \<Longrightarrow> chain_inv K t"
  by (simp add: same_books_def chain_inv_def backed_def ledger_sums supplies_registered_def)

lemma same_books_refl [simp]: "same_books s s"
  by (simp add: same_books_def)

lemma same_books_trans: "same_books s t \<Longrightarrow> same_books t u \<Longrightarrow> same_books s u"
  by (simp add: same_books_def)

lemma same_books_sums:
  "same_books s t \<Longrightarrow> supply_sum t = supply_sum s" "same_books s t \<Longrightarrow> backed t = backed s"
  by (simp_all add: same_books_def backed_def ledger_sums)

lemma same_books_update_op [simp]: "same_books s (update_op c i f s)"
  by (simp add: same_books_def update_op_def)

lemma same_books_enqueue: "enqueue_in_state s c op = Ok (t, i) \<Longrightarrow> same_books s t"
  by (auto simp: enqueue_in_state_def same_books_def split: outcome.splits)

lemma inv_update_op [simp]: "chain_inv K s \<Longrightarrow> chain_inv K (update_op c i f s)"
  using same_books_inv [OF same_books_update_op] .

section \<open>Vault updates\<close>

text \<open>A change of one vault that leaves debt and id alone and does not create a dirty awaiting vault.\<close>

definition quiet :: "chain_vault \<Rightarrow> chain_vault \<Rightarrow> bool" where
  "quiet v w \<longleftrightarrow> cv_debt_e8s w = cv_debt_e8s v \<and> cv_vault_id w = cv_vault_id v
     \<and> (cv_status w = AwaitingDeposit \<longrightarrow> cv_status v = AwaitingDeposit
         \<and> (cv_pending_interest_mint_e8s w = cv_pending_interest_mint_e8s v \<or> cv_pending_interest_mint_e8s w = 0))"

lemma update_vault_fields [simp]:
  "chain_supplies (update_vault vid f s) = chain_supplies s"
  "reserve_backing_e8s (update_vault vid f s) = reserve_backing_e8s s"
  "pending_chain_burn_e8s (update_vault vid f s) = pending_chain_burn_e8s s"
  "chain_configs (update_vault vid f s) = chain_configs s"
  "settlement_queues (update_vault vid f s) = settlement_queues s"
  "bm_get (chain_vaults (update_vault vid f s)) a =
     (if a = vid then map_option f (bm_get (chain_vaults s) vid) else bm_get (chain_vaults s) a)"
  by (simp_all add: update_vault_def)

lemma debt_sum_update:
  assumes "bm_get (chain_vaults s) vid = Some v"
  shows "debt_sum (update_vault vid f s) + cv_debt_e8s v = debt_sum s + cv_debt_e8s (f v)"
  using bm_sum_insert_old [OF assms, of cv_debt_e8s "f v"] assms
  by (simp add: debt_sum_def update_vault_def bm_modify_def)

lemma debt_sum_update_none:
  "bm_get (chain_vaults s) vid = None \<Longrightarrow> debt_sum (update_vault vid f s) = debt_sum s"
  by (simp add: debt_sum_def update_vault_def bm_modify_def)

lemma other_sums_update [simp]:
  "supply_sum (update_vault vid f s) = supply_sum s"
  "reserve_sum (update_vault vid f s) = reserve_sum s"
  "pending_sum (update_vault vid f s) = pending_sum s"
  by (simp_all add: ledger_sums)

lemma vaults_ok_update:
  assumes "vaults_ok K (chain_vaults s)"
    and "\<And>v. bm_get (chain_vaults s) vid = Some v \<Longrightarrow> vault_ok K vid (f v)"
  shows "vaults_ok K (chain_vaults (update_vault vid f s))"
  using assms by (auto simp: vaults_ok_def split: if_splits)

lemma inv_update_quiet:
  assumes inv: "chain_inv K s" and q: "\<And>v. bm_get (chain_vaults s) vid = Some v \<Longrightarrow> quiet v (f v)"
  shows "chain_inv K (update_vault vid f s)"
proof -
  have "debt_sum (update_vault vid f s) = debt_sum s"
    using debt_sum_update [of s vid _ f] debt_sum_update_none [of s vid f] q
    by (cases "bm_get (chain_vaults s) vid") (auto simp: quiet_def)
  moreover have "vault_ok K vid (f v)" if "bm_get (chain_vaults s) vid = Some v" for v
    using inv q [OF that] that by (auto simp: chain_inv_def vaults_ok_def vault_ok_def quiet_def)
  ultimately show ?thesis
    using inv vaults_ok_update [of K s vid f]
    by (simp add: chain_inv_def backed_def backing_sum_def supplies_registered_def)
qed

lemma inv_update_quiet_all: "chain_inv K s \<Longrightarrow> (\<And>v. quiet v (f v)) \<Longrightarrow> chain_inv K (update_vault vid f s)"
  by (rule inv_update_quiet)

lemma inv_update_after:
  assumes "chain_inv K s" "same_books s t" "\<And>v. quiet v (f v)"
  shows "chain_inv K (update_vault vid f t)"
  using assms same_books_inv inv_update_quiet_all by blast

section \<open>The vault life cycle\<close>

lemma open_inv [chain_ops]:
  assumes inv: "chain_inv K s" and fresh: "\<not> bm_has (chain_vaults s) vid" and K: "K vid"
    and ok: "open_chain_vault_in_state s chain owner custody coll debt rcpt valid symbol min_cr min_debt ceiling now vid = Ok t"
  shows "chain_inv K t"
proof -
  from ok obtain v where t: "t = s\<lparr>chain_vaults := bm_insert vid v (chain_vaults s)\<rparr>"
    and v: "cv_vault_id v = vid" "cv_debt_e8s v = 0" "cv_pending_interest_mint_e8s v = 0"
    by (auto simp: open_chain_vault_in_state_def and_then_Ok_iff Let_def)
  have none: "bm_get (chain_vaults s) vid = None" using fresh by (simp add: bm_has_def)
  show ?thesis
    using inv v none K
    by (auto simp: t chain_inv_def backed_def ledger_sums vaults_ok_def vault_ok_def supplies_registered_def)
qed

text \<open>Enqueue first, then change the vault: the shape of every request that reserves something.\<close>

definition reserving :: "multi_chain_state \<Rightarrow> u64 \<Rightarrow> multi_chain_state \<Rightarrow> bool" where
  "reserving s vid t \<longleftrightarrow>
     (\<exists>c op u i f. enqueue_in_state s c op = Ok (u, i) \<and> t = update_vault vid f u \<and> (\<forall>v. quiet v (f v)))"

lemma reservingI:
  "enqueue_in_state s c op = Ok (u, i) \<Longrightarrow> (\<And>v. quiet v (f v)) \<Longrightarrow> reserving s vid (update_vault vid f u)"
  by (auto simp: reserving_def)

lemma reserving_inv: "chain_inv K s \<Longrightarrow> reserving s vid t \<Longrightarrow> chain_inv K t"
  by (auto simp: reserving_def intro: inv_update_after same_books_enqueue)

lemma verify_deposit_effect:
  "verify_deposit_and_enqueue_mint_in_state s vid bal now = Ok (t, b) \<Longrightarrow> t = s \<or> reserving s vid t"
  by (auto simp: verify_deposit_and_enqueue_mint_in_state_def and_then_Ok_iff Let_def quiet_def
      intro!: reservingI split: option.splits if_splits)

lemma withdraw_effect:
  assumes "withdraw_collateral_in_state D s vid amt dest valid symbol min_cr now = Ok t"
  shows "reserving s vid t"
proof (cases "bm_get (chain_vaults s) vid")
  case (Some v)
  from assms obtain u i where "enqueue_in_state s (cv_collateral_chain v)
      (settlement_op_new (NativeWithdrawal dest amt vid)
         (dash_key ''withdraw'' [cv_collateral_chain v, vid, now]) now) = Ok (u, i)"
    and t: "t = update_vault vid (\<lambda>w. let w1 = w\<lparr>cv_collateral_amount_native := cv_collateral_amount_native v - amt\<rparr>
                 in if cv_collateral_amount_native v - amt = 0 \<and> cv_debt_e8s v = 0
                    then w1\<lparr>cv_status := Closing\<rparr> else w1) u"
    by (fastforce simp: withdraw_collateral_in_state_def Some and_then_Ok_iff Let_def)
  then show ?thesis by (auto intro!: reservingI simp: quiet_def Let_def)
qed (use assms in \<open>simp add: withdraw_collateral_in_state_def\<close>)

lemma borrow_effect:
  "borrow_chain_vault_in_state s vid amt rcpt valid symbol min_cr min_debt ceiling now = Ok t \<Longrightarrow> reserving s vid t"
  by (fastforce simp: borrow_chain_vault_in_state_def and_then_Ok_iff Let_def quiet_def
      intro!: reservingI split: option.splits if_splits)

lemma verify_deposit_inv [chain_ops]:
  "chain_inv K s \<Longrightarrow> verify_deposit_and_enqueue_mint_in_state s vid bal now = Ok (t, b) \<Longrightarrow> chain_inv K t"
  using verify_deposit_effect reserving_inv by blast

lemma withdraw_inv [chain_ops]:
  "chain_inv K s \<Longrightarrow> withdraw_collateral_in_state D s vid amt dest valid symbol min_cr now = Ok t \<Longrightarrow> chain_inv K t"
  using withdraw_effect reserving_inv by blast

lemma borrow_inv [chain_ops]:
  "chain_inv K s \<Longrightarrow> borrow_chain_vault_in_state s vid amt rcpt valid symbol min_cr min_debt ceiling now = Ok t
   \<Longrightarrow> chain_inv K t"
  using borrow_effect reserving_inv by blast

lemma close_inv [chain_ops]:
  assumes inv: "chain_inv K s" and ok: "close_chain_vault_in_state D s vid dest valid symbol min_cr now = Ok t"
  shows "chain_inv K t"
proof (cases "bm_get (chain_vaults s) vid")
  case (Some v)
  with ok have "t = update_vault vid (\<lambda>w. w\<lparr>cv_status := Closed\<rparr>) s \<or>
      withdraw_collateral_in_state D s vid (cv_collateral_amount_native v) dest valid symbol min_cr now = Ok t"
    by (auto simp: close_chain_vault_in_state_def split: if_splits)
  then show ?thesis
    using inv by (auto intro: inv_update_quiet_all withdraw_inv simp: quiet_def)
qed (use ok in \<open>simp add: close_chain_vault_in_state_def\<close>)

lemma begin_liquidation_effect:
  assumes "begin_liquidation_in_state D s vid valid symbol threshold now = Ok (t, i)"
  shows "\<exists>u. reserving s vid u \<and> t = u\<lparr>bot_pending_chain_vaults := bm_insert vid now (bot_pending_chain_vaults u)\<rparr>"
proof (cases "bm_get (chain_vaults s) vid")
  case (Some v)
  from assms obtain c op u f where "enqueue_in_state s c op = Ok (u, i)"
    and "t = (update_vault vid f u)\<lparr>bot_pending_chain_vaults :=
           bm_insert vid now (bot_pending_chain_vaults (update_vault vid f u))\<rparr>"
    and "\<forall>w. quiet w (f w)"
    by (fastforce simp: begin_liquidation_in_state_def Some and_then_Ok_iff Let_def quiet_def
        split: option.splits if_splits)
  then show ?thesis by (auto intro!: reservingI exI [of _ "update_vault vid f u"])
qed (use assms in \<open>simp add: begin_liquidation_in_state_def\<close>)

lemma same_books_routing [simp]:
  "same_books s (s\<lparr>bot_pending_chain_vaults := x\<rparr>)"
  "same_books s (s\<lparr>bot_pending_chain_vaults := x, sp_attempted_chain_vaults := y\<rparr>)"
  "same_books s (s\<lparr>sp_attempted_chain_vaults := y\<rparr>)"
  "same_books s (s\<lparr>chain_liquidation_claims := z\<rparr>)"
  "same_books s (s\<lparr>settlement_queues := q\<rparr>)"
  "same_books s (s\<lparr>processed_burn_keys := pk\<rparr>)"
  by (simp_all add: same_books_def)

lemma begin_liquidation_inv [chain_ops]:
  "chain_inv K s \<Longrightarrow> begin_liquidation_in_state D s vid valid symbol threshold now = Ok (t, i) \<Longrightarrow> chain_inv K t"
  using begin_liquidation_effect [of D s vid valid symbol threshold now t i]
    reserving_inv same_books_inv same_books_routing(1) by blast

section \<open>Pruning and harvesting\<close>

lemma bm_get_fold_remove_list:
  "bm_get (fold bm_remove ks m) a = (if a \<in> set ks then None else bm_get m a)"
  by (induction ks arbitrary: m) auto

lemma bm_sum_fold_remove_zero:
  assumes "\<And>k v. k \<in> set ks \<Longrightarrow> bm_get m k = Some v \<Longrightarrow> f v = 0"
  shows "bm_sum f (fold bm_remove ks m) = bm_sum f m"
  using assms
proof (induction ks arbitrary: m)
  case (Cons k ks)
  have "bm_sum f (bm_remove k m) = bm_sum f m"
    using bm_sum_remove [of f k m] Cons.prems [of k] by (auto split: option.splits)
  moreover have "bm_sum f (fold bm_remove ks (bm_remove k m)) = bm_sum f (bm_remove k m)"
    by (rule Cons.IH) (use Cons.prems in \<open>auto split: if_splits\<close>)
  ultimately show ?case by simp
qed simp

lemma prune_stale_inv [chain_ops]:
  assumes inv: "chain_inv K s"
  shows "chain_inv K (fst (prune_stale_awaiting_deposit s now ttl))"
proof -
  define ks where "ks = map fst (filter (\<lambda>(_, v). stale_awaiting s now ttl v) (bm_entries (chain_vaults s)))"
  have t: "fst (prune_stale_awaiting_deposit s now ttl) = s\<lparr>chain_vaults := fold bm_remove ks (chain_vaults s)\<rparr>"
    by (simp add: prune_stale_awaiting_deposit_def ks_def Let_def)
  have zero: "cv_debt_e8s v = 0" if "k \<in> set ks" "bm_get (chain_vaults s) k = Some v" for k v
  proof -
    from that obtain w where "(k, w) \<in> set (bm_entries (chain_vaults s))" "stale_awaiting s now ttl w"
      by (auto simp: ks_def)
    with that have "cv_status v = AwaitingDeposit" by (simp add: bm.in_entries_iff stale_awaiting_def)
    with that inv show ?thesis by (auto simp: chain_inv_def vaults_ok_def vault_ok_def)
  qed
  have "debt_sum (s\<lparr>chain_vaults := fold bm_remove ks (chain_vaults s)\<rparr>) = debt_sum s"
    using bm_sum_fold_remove_zero [of ks "chain_vaults s" cv_debt_e8s] zero by (simp add: debt_sum_def)
  with inv show ?thesis
    by (simp add: t chain_inv_def backed_def backing_sum_def supplies_registered_def vaults_ok_def
        bm_get_fold_remove_list)
qed

definition harvestable :: "multi_chain_state \<Rightarrow> u64 \<Rightarrow> bool" where
  "harvestable s vid \<longleftrightarrow> (\<forall>v. bm_get (chain_vaults s) vid = Some v \<longrightarrow> cv_status v = Open)"

lemma harvest_enqueue_inv:
  assumes "chain_inv K s" and "\<And>e. e \<in> set es \<Longrightarrow> harvestable s (fst e)"
  shows "chain_inv K (fst (harvest_enqueue chain treasury now alloc es s c))"
  using assms
proof (induction es arbitrary: s c)
  case (Cons e es)
  obtain vid amount where e: "e = (vid, amount)" by (cases e)
  obtain mint_id c1 where a: "alloc c = (mint_id, c1)" by (cases "alloc c")
  let ?op = "settlement_op_new (InterestMint vid mint_id amount now treasury) (dash_key ''interest'' [chain, mint_id]) now"
  show ?case
  proof (cases "enqueue_in_state s chain ?op")
    case (Ok p)
    obtain s1 i where p: "p = (s1, i)" by (cases p)
    let ?s2 = "update_vault vid (\<lambda>v. v\<lparr>cv_pending_interest_mint_e8s := amount\<rparr>) s1"
    have books: "same_books s s1" using Ok p same_books_enqueue by blast
    have "harvestable s1 vid" using Cons.prems(2) [of e] books e
      by (simp add: harvestable_def same_books_def)
    then have "chain_inv K ?s2"
      using same_books_inv [OF books Cons.prems(1)]
      by (intro inv_update_quiet) (auto simp: quiet_def harvestable_def)
    moreover have "harvestable ?s2 (fst d)" if "d \<in> set es" for d
      using Cons.prems(2) [of d] that books by (auto simp: harvestable_def same_books_def)
    ultimately have "chain_inv K (fst (harvest_enqueue chain treasury now alloc es ?s2 c1))"
      by (rule Cons.IH)
    with Ok p a e show ?thesis by (auto simp: Let_def split: prod.splits)
  qed (use Cons a e in \<open>auto simp: Let_def\<close>)
qed simp

lemma harvest_scan_ids:
  "harvest_scan D apr threshold now vs = Some es \<Longrightarrow> fst ` set es \<subseteq> cv_vault_id ` set vs"
  by (induction vs arbitrary: es) (fastforce simp: bind_eq_Some_conv split: if_splits)+

lemma harvest_inv [chain_ops]:
  assumes inv: "chain_inv K s"
    and ok: "harvest_chain_interest_in_state D s chain apr threshold treasury now alloc c = Some (t, c', ids)"
  shows "chain_inv K t"
proof (cases "chain_bad_debt_circuit_tripped s chain")
  case True
  with ok inv show ?thesis by (simp add: harvest_chain_interest_in_state_def)
next
  case False
  let ?vs = "filter (harvest_candidate chain) (bm_values (chain_vaults s))"
  from ok False obtain es where scan: "harvest_scan D apr threshold now ?vs = Some es"
    and t: "harvest_enqueue chain treasury now alloc es s c = (t, c', ids)"
    by (auto simp: harvest_chain_interest_in_state_def)
  have "harvestable s (fst e)" if "e \<in> set es" for e
  proof -
    from harvest_scan_ids [OF scan] that obtain k v where "(k, v) \<in> set (bm_entries (chain_vaults s))"
      and cand: "harvest_candidate chain v" and id: "fst e = cv_vault_id v"
      by (auto simp: bm_values_def image_subset_iff)
    then have get: "bm_get (chain_vaults s) k = Some v" by (simp add: bm.in_entries_iff)
    with inv have "cv_vault_id v = k" by (auto simp: chain_inv_def vaults_ok_def vault_ok_def)
    with get cand id show ?thesis by (simp add: harvestable_def harvest_candidate_def)
  qed
  then show ?thesis using harvest_enqueue_inv [OF inv, of es chain treasury now alloc c] t by simp
qed

section \<open>Routing\<close>

lemma escalate_one_inv:
  "chain_inv K (fst st) \<Longrightarrow> chain_inv K (fst (escalate_one chain now e st))"
  by (auto simp: escalate_one_def Let_def quiet_def split: prod.splits option.splits
      intro!: same_books_inv [OF same_books_routing(2)] inv_update_op inv_update_quiet_all)

lemma escalate_inv [chain_ops]:
  assumes "chain_inv K s"
  shows "chain_inv K (fst (escalate_timed_out_bot_liquidations_in_state s chain now timeout n))"
proof -
  have "chain_inv K (fst (fold (escalate_one chain now) es st))" if "chain_inv K (fst st)" for es st
    using that by (induction es arbitrary: st) (simp_all add: escalate_one_inv)
  then show ?thesis using assms by (simp add: escalate_timed_out_bot_liquidations_in_state_def)
qed

lemma drop_routing_books: "same_books s (fold drop_routing es s)"
proof (induction es arbitrary: s)
  case (Cons e es)
  have "same_books s (drop_routing e s)"
    by (cases e) (simp add: drop_routing_def same_books_def Let_def)
  then show ?case using Cons.IH same_books_trans by (metis fold_simps(2))
qed simp

lemma prune_recovered_books:
  "prune_recovered_chain_routing_state D s chain symbol threshold now = Some t \<Longrightarrow> same_books s t"
  by (auto simp: prune_recovered_chain_routing_state_def Let_def drop_routing_books)

lemma route_candidates_inv:
  "chain_inv K s \<Longrightarrow> route_candidates D symbol threshold now vids s n = Some (t, m) \<Longrightarrow> chain_inv K t"
proof (induction vids arbitrary: s n)
  case (Cons vid vids)
  then show ?case
    by (auto split: outcome.splits prod.splits dest: begin_liquidation_inv)
qed simp

lemma detect_inv [chain_ops]:
  assumes "chain_inv K s"
    and "detect_and_route_chain_liquidations_in_state D s chain symbol threshold now n = Some (t, m)"
  shows "chain_inv K t"
proof -
  from assms(2) obtain u where u: "prune_recovered_chain_routing_state D s chain symbol threshold now = Some u"
    by (auto simp: detect_and_route_chain_liquidations_in_state_def bind_eq_Some_conv)
  have "t = u \<or> (\<exists>cs. route_candidates D symbol threshold now cs u 0 = Some (t, m))"
    using assms(2) unfolding detect_and_route_chain_liquidations_in_state_def u bind.bind_lunit
    by (cases "fresh_chain_price_e8 u chain symbol now (max_price_age_of u chain)")
      (auto simp: bind_eq_Some_conv split: if_splits)
  with u same_books_inv [OF prune_recovered_books [OF u] assms(1)] route_candidates_inv show ?thesis by blast
qed

section \<open>Burns\<close>

lemma credit_deposit_inv [chain_ops]:
  "chain_inv K s \<Longrightarrow> credit_deposit_to_state s vid amt = Ok t \<Longrightarrow> chain_inv K t"
  by (auto simp: credit_deposit_to_state_def quiet_def intro!: inv_update_quiet_all split: if_splits)

lemma apply_burn_effect:
  assumes ok: "apply_burn_to_state s burn n = Ok t"
  obtains v u where "bm_get (chain_vaults s) (bl_vault_id burn) = Some v"
    and "bl_amount_e8s burn \<le> cv_debt_e8s v"
    and "apply_supply_delta s (cv_collateral_chain v) (Decrease (bl_amount_e8s burn)) (n - bl_amount_e8s burn) = Ok u"
    and "t = update_vault (bl_vault_id burn)
           (\<lambda>w. w\<lparr>cv_debt_e8s := wrap_sub128 (cv_debt_e8s w) (bl_amount_e8s burn)\<rparr>) u"
    and "cv_pending_liquidation v = None"
  using ok unfolding apply_burn_to_state_def
  by (auto simp: and_then_Ok_iff Let_def split: option.splits if_splits)

lemma apply_burn_keeps:
  assumes inv: "chain_inv K s" and ok: "apply_burn_to_state s burn (total_chain_vault_debt_e8s s) = Ok t"
  shows "chain_inv K t" and "supply_sum t + bl_amount_e8s burn = supply_sum s"
    and "debt_sum t + bl_amount_e8s burn = debt_sum s"
proof -
  let ?a = "bl_amount_e8s burn" and ?vid = "bl_vault_id burn"
  have b: "backed s" and vok: "vaults_ok K (chain_vaults s)" using inv by (simp_all add: chain_inv_def)
  from ok obtain v u where v: "bm_get (chain_vaults s) ?vid = Some v" and le: "?a \<le> cv_debt_e8s v"
    and u: "apply_supply_delta s (cv_collateral_chain v) (Decrease ?a) (total_chain_vault_debt_e8s s - ?a) = Ok u"
    and t: "t = update_vault ?vid (\<lambda>w. w\<lparr>cv_debt_e8s := wrap_sub128 (cv_debt_e8s w) ?a\<rparr>) u"
    by (rule apply_burn_effect)
  from apply_supply_delta_frame [OF u] obtain cs where cs: "u = s\<lparr>chain_supplies := cs\<rparr>" ..
  have vd: "cv_debt_e8s v \<le> debt_sum s" using bm_sum_ge [OF v, of cv_debt_e8s] by (simp add: debt_sum_def)
  have d: "debt_sum s - ?a \<le> u128_max" using backed_bounds(2) [OF b] by linarith
  then have "total_chain_vault_debt_e8s s - ?a = wrap128 (debt_sum s - ?a)"
    by (simp add: backed_totals [OF b])
  with u have dec: "apply_supply_delta s (cv_collateral_chain v) (Decrease ?a) (wrap128 (debt_sum s - ?a)) = Ok u"
    by simp
  have wrap: "wrap_sub128 (cv_debt_e8s v) ?a = cv_debt_e8s v - ?a"
    using le vd backed_bounds(2) [OF b] by simp
  have sup: "supply_sum u + ?a = supply_sum s" by (rule apply_decrease_Ok(1) [OF b d dec])
  show "supply_sum t + ?a = supply_sum s" using sup by (simp add: t)
  have vu: "bm_get (chain_vaults u) ?vid = Some v" using v by (simp add: cs)
  have "debt_sum u = debt_sum s" by (simp add: cs)
  then show debt: "debt_sum t + ?a = debt_sum s"
    using debt_sum_update [OF vu, of "\<lambda>w. w\<lparr>cv_debt_e8s := wrap_sub128 (cv_debt_e8s w) ?a\<rparr>"] le vd wrap
    by (simp add: t)
  have "reserve_sum t = reserve_sum s" "pending_sum t = pending_sum s"
    by (simp_all add: t cs)
  then have "backed t"
    using sup debt b by (simp add: t backed_def backing_sum_def)
  moreover have "vaults_ok K (chain_vaults t)"
    unfolding t using vok le wrap v
    by (intro vaults_ok_update) (auto simp: cs vaults_ok_def vault_ok_def)
  moreover have "supplies_registered t"
    using inv u unfolding t
    by (auto simp: chain_inv_def supplies_registered_def apply_supply_delta_Ok bm_has_def split: if_splits)
  ultimately show "chain_inv K t" by (simp add: chain_inv_def)
qed

lemma record_burn_key_books [simp]: "same_books s (record_burn_key b k s)"
  by (simp add: record_burn_key_def)

lemma inv_record_burn_key [simp]: "chain_inv K s \<Longrightarrow> chain_inv K (record_burn_key b k s)"
  using same_books_inv [OF record_burn_key_books] .

lemma apply_receipt_logs_inv:
  "chain_inv K s \<Longrightarrow> chain_inv K (fst (apply_receipt_logs contract tx block logs s applied))"
proof (induction contract tx block logs s applied rule: apply_receipt_logs.induct)
  case (2 contract tx block address topics data log_index logs s applied)
  then show ?case
    by (simp add: Let_def split: outcome.splits burn_apply_error.splits) (metis apply_burn_keeps(1) inv_record_burn_key)
qed simp

lemma sweep_burn_logs_inv: "chain_inv K s \<Longrightarrow> chain_inv K (fst (sweep_burn_logs logs s))"
proof (induction logs s rule: sweep_burn_logs.induct)
  case (2 topics data tx block log_index logs s)
  then show ?case
    by (simp add: Let_def split: outcome.splits burn_apply_error.splits) (metis apply_burn_keeps(1) inv_record_burn_key)
qed simp

section \<open>Confirmed mints\<close>

text \<open>No pending mint would take the supply out of the 128-bit range.\<close>

definition mint_room :: "multi_chain_state \<Rightarrow> bool" where
  "mint_room s \<longleftrightarrow> (\<forall>vid v. bm_get (chain_vaults s) vid = Some v \<longrightarrow>
     supply_sum s + cv_pending_mint_e8s v \<le> u128_max \<and> supply_sum s + cv_pending_interest_mint_e8s v \<le> u128_max)"

lemma supplies_registered_delta:
  "supplies_registered s \<Longrightarrow> apply_supply_delta s chain delta d = Ok u \<Longrightarrow> supplies_registered u"
  by (auto simp: supplies_registered_def apply_supply_delta_Ok bm_has_def split: if_splits)

lemma credited_mint_keeps:
  assumes inv: "chain_inv K s" and v: "bm_get (chain_vaults s) vid = Some v"
    and room: "supply_sum s + n \<le> u128_max"
    and u: "apply_supply_delta s chain (Increase n) (sat_add128 (total_chain_vault_debt_e8s s) n) = Ok u"
    and f: "cv_debt_e8s (f v) = sat_add128 (cv_debt_e8s v) n" and ok: "vault_ok K vid (f v)"
  shows "chain_inv K (update_vault vid f u)" and "supply_sum (update_vault vid f u) = supply_sum s + n"
proof -
  have b: "backed s" using inv by (simp add: chain_inv_def)
  have "debt_sum s \<le> supply_sum s" using backed_eq [OF b] by simp
  then have d: "debt_sum s + n \<le> u128_max" using room by linarith
  have vd: "cv_debt_e8s v \<le> debt_sum s" using bm_sum_ge [OF v, of cv_debt_e8s] by (simp add: debt_sum_def)
  have sat: "sat_add128 (cv_debt_e8s v) n = cv_debt_e8s v + n" using vd d by simp
  from apply_supply_delta_frame [OF u] obtain cs where cs: "u = s\<lparr>chain_supplies := cs\<rparr>" ..
  from u have u': "apply_supply_delta s chain (Increase n) (wrap128 (debt_sum s + n)) = Ok u"
    using d by (simp add: backed_totals [OF b])
  have sup: "supply_sum u = supply_sum s + n" by (rule apply_increase_Ok(1) [OF b room d u'])
  then show "supply_sum (update_vault vid f u) = supply_sum s + n" by simp
  have vu: "bm_get (chain_vaults u) vid = Some v" using v by (simp add: cs)
  have "debt_sum (update_vault vid f u) = debt_sum s + n"
    using debt_sum_update [OF vu, of f] f sat by (simp add: cs)
  moreover have "reserve_sum u = reserve_sum s" "pending_sum u = pending_sum s" by (simp_all add: cs)
  ultimately have "backed (update_vault vid f u)"
    using sup room backed_eq [OF b] by (simp add: backed_def backing_sum_def)
  moreover have "vaults_ok K (chain_vaults (update_vault vid f u))"
    using inv ok vu v by (intro vaults_ok_update) (simp_all add: chain_inv_def cs)
  moreover have "supplies_registered (update_vault vid f u)"
    using supplies_registered_delta [OF _ u] inv by (simp add: chain_inv_def supplies_registered_def)
  ultimately show "chain_inv K (update_vault vid f u)" by (simp add: chain_inv_def)
qed

lemma confirm_mint_keeps:
  assumes inv: "chain_inv K s" and room: "mint_room s"
    and ok: "confirm_mint_in_state s chain vid n (total_chain_vault_debt_e8s s) now = Ok t"
  shows "chain_inv K t" and "supply_sum t = supply_sum s + n"
proof -
  let ?f = "\<lambda>w. w\<lparr>cv_debt_e8s := sat_add128 (cv_debt_e8s w) n, cv_pending_mint_e8s := 0,
              cv_status := Open, cv_last_interest_accrual_ns := now\<rparr>"
  from ok obtain v u where v: "bm_get (chain_vaults s) vid = Some v" and n: "cv_pending_mint_e8s v = n"
    and u: "apply_supply_delta s chain (Increase n) (sat_add128 (total_chain_vault_debt_e8s s) n) = Ok u"
    and t: "t = update_vault vid ?f u"
    by (auto simp: confirm_mint_in_state_def and_then_Ok_iff split: option.splits)
  have r: "supply_sum s + n \<le> u128_max" using room v n by (auto simp: mint_room_def)
  have "vault_ok K vid (?f v)" using inv v by (auto simp: chain_inv_def vaults_ok_def vault_ok_def)
  then show "chain_inv K t" "supply_sum t = supply_sum s + n"
    unfolding t using credited_mint_keeps [OF inv v r u, of ?f] by simp_all
qed

lemma confirm_interest_keeps:
  assumes inv: "chain_inv K s" and room: "mint_room s"
    and ok: "confirm_interest_mint_in_state s chain vid n through (total_chain_vault_debt_e8s s) = Ok t"
  shows "chain_inv K t" and "supply_sum t = supply_sum s + n"
proof -
  let ?f = "\<lambda>w. w\<lparr>cv_debt_e8s := sat_add128 (cv_debt_e8s w) n, cv_pending_interest_mint_e8s := 0,
              cv_last_interest_accrual_ns := through\<rparr>"
  from ok obtain v u where v: "bm_get (chain_vaults s) vid = Some v" and n: "cv_pending_interest_mint_e8s v = n"
    and u: "apply_supply_delta s chain (Increase n) (sat_add128 (total_chain_vault_debt_e8s s) n) = Ok u"
    and t: "t = update_vault vid ?f u"
    by (auto simp: confirm_interest_mint_in_state_def and_then_Ok_iff split: option.splits)
  have r: "supply_sum s + n \<le> u128_max" using room v n by (auto simp: mint_room_def)
  have "vault_ok K vid (?f v)"
    using inv v n by (auto simp: chain_inv_def vaults_ok_def vault_ok_def)
  then show "chain_inv K t" "supply_sum t = supply_sum s + n"
    unfolding t using credited_mint_keeps [OF inv v r u, of ?f] by simp_all
qed

section \<open>Ledger moves\<close>

lemma ledger_step_frame:
  assumes "ledger_step m s = Ok t"
  shows "chain_configs t = chain_configs s"
    and "bm_has (chain_supplies t) c \<longleftrightarrow> bm_has (chain_supplies s) c"
    and "vaults_ok K (chain_vaults s) \<Longrightarrow> vaults_ok K (chain_vaults t)"
proof -
  have settle: "chain_configs t = chain_configs s \<and> (bm_has (chain_supplies t) c \<longleftrightarrow> bm_has (chain_supplies s) c)
      \<and> chain_vaults t = chain_vaults s" if "settle_backing_burn s ch a term = Ok t" for ch a "term" and t
    using that by (cases "term") (auto simp: settle_backing_burn_def Let_def bm_has_def split: if_splits option.splits)
  have vok: "vaults_ok K (bm_insert vid (v\<lparr>cv_debt_e8s := cv_debt_e8s v - a\<rparr>) m)"
    if "vaults_ok K m" "bm_get m vid = Some v" for m vid v a
    using that by (auto simp: vaults_ok_def vault_ok_def)
  have "chain_configs t = chain_configs s \<and> (bm_has (chain_supplies t) c \<longleftrightarrow> bm_has (chain_supplies s) c)
      \<and> (vaults_ok K (chain_vaults s) \<longrightarrow> vaults_ok K (chain_vaults t))"
  proof (cases m)
    case (SettlePendingProof ch p n)
    with assms have "settle_pending_chain_burn_with_verified_proof s ch p n = Ok t" by simp
    then show ?thesis by (rule pending_proof_Ok) (auto dest!: settle simp: settle_pending_chain_burn_def)
  next
    case (SettleReserveProof ch p n)
    with assms have "settle_reserve_burn_with_verified_proof s ch p n = Ok t" by simp
    then show ?thesis by (rule reserve_proof_Ok) (auto dest!: settle simp: settle_reserve_burn_def)
  next
    case (DebtToReserve ch v a n)
    with assms vok show ?thesis
      by (auto simp: apply_debt_to_reserve_shift_def Let_def split: option.splits if_splits)
  next
    case (DebtToPending ch v a)
    with assms vok show ?thesis
      by (auto simp: apply_debt_to_pending_burn_shift_def Let_def split: option.splits if_splits)
  next
    case (PendingToSupply ch a)
    with assms show ?thesis
      by (auto simp: apply_pending_burn_to_supply_shift_def Let_def bm_has_def split: option.splits if_splits)
  qed (use assms settle in \<open>auto simp: settle_pending_chain_burn_def settle_reserve_burn_def\<close>)
  then show "chain_configs t = chain_configs s"
    and "bm_has (chain_supplies t) c \<longleftrightarrow> bm_has (chain_supplies s) c"
    and "vaults_ok K (chain_vaults s) \<Longrightarrow> vaults_ok K (chain_vaults t)"
    by blast+
qed

lemma ledger_step_inv [chain_ops]:
  assumes "chain_inv K s" and "ledger_step m s = Ok t"
  shows "chain_inv K t"
  using assms ledger_step_keeps_backed [of s m t] ledger_step_frame [OF assms(2)]
  by (auto simp: chain_inv_def supplies_registered_def)

section \<open>Liquidation settlement and claims\<close>

lemma record_bad_debt_books: "same_books s (fst (record_chain_bad_debt_and_maybe_trip s chain amt now))"
  by (auto simp: record_chain_bad_debt_and_maybe_trip_def same_books_def Let_def split: option.splits)

definition clear_marker :: "chain_vault \<Rightarrow> chain_vault" where
  "clear_marker w = (let w1 = w\<lparr>cv_pending_liquidation := None\<rparr>
     in if cv_debt_e8s w1 = 0 \<and> cv_collateral_amount_native w1 = 0 then w1\<lparr>cv_status := Closed\<rparr> else w1)"

lemma quiet_clear_marker [simp]: "quiet w (clear_marker w)"
  by (simp add: clear_marker_def quiet_def Let_def)

lemma liquidation_settlement_effect:
  assumes "apply_liquidation_settlement_in_state s chain vid i realized dec now = Ok (t, r)"
  obtains v m u s2 where "bm_get (chain_vaults s) vid = Some v" and "cv_pending_liquidation v = Some m"
    and "pl_op_id m = i"
    and "sl_actual_cleared r = min (min (pl_debt_to_clear_e8s m) (cv_debt_e8s v)) (stable_native_to_e8s realized dec)"
    and "sl_bad_debt_added_e8s r = pl_debt_to_clear_e8s m - sl_actual_cleared r"
    and "apply_debt_to_reserve_shift s chain vid (sl_actual_cleared r) realized = Ok u"
    and "s2 = fst (record_chain_bad_debt_and_maybe_trip u chain (sl_bad_debt_added_e8s r) now)"
    and "t = (update_vault vid clear_marker s2)\<lparr>bot_pending_chain_vaults := bm_remove vid (bot_pending_chain_vaults s2)\<rparr>"
proof (cases "bm_get (chain_vaults s) vid")
  case v: (Some v)
  show ?thesis
  proof (cases "cv_pending_liquidation v")
    case m: (Some m)
    define cleared where "cleared = min (min (pl_debt_to_clear_e8s m) (cv_debt_e8s v)) (stable_native_to_e8s realized dec)"
    have cm: "clear_marker = (\<lambda>w. let w1 = w\<lparr>cv_pending_liquidation := None\<rparr>
        in if cv_debt_e8s w1 = 0 \<and> cv_collateral_amount_native w1 = 0 then w1\<lparr>cv_status := Closed\<rparr> else w1)"
      by (simp add: clear_marker_def fun_eq_iff)
    from assms obtain u where i: "pl_op_id m = i" and u: "apply_debt_to_reserve_shift s chain vid cleared realized = Ok u"
      by (auto simp: apply_liquidation_settlement_in_state_def v m and_then_Ok_iff Let_def cleared_def split: if_splits)
    obtain s2 tr where rec: "record_chain_bad_debt_and_maybe_trip u chain (pl_debt_to_clear_e8s m - cleared) now = (s2, tr)"
      by fastforce
    from assms have "t = (update_vault vid clear_marker s2)\<lparr>bot_pending_chain_vaults :=
          bm_remove vid (bot_pending_chain_vaults s2)\<rparr>"
      and "sl_actual_cleared r = cleared" and "sl_bad_debt_added_e8s r = pl_debt_to_clear_e8s m - cleared"
      using u rec i
      by (auto simp: apply_liquidation_settlement_in_state_def v m and_then_Ok_iff Let_def cleared_def cm
          update_vault_def split: if_splits)
    then show ?thesis using that [of v m u s2] v m i u rec by (simp add: cleared_def)
  qed (use assms v in \<open>simp add: apply_liquidation_settlement_in_state_def\<close>)
qed (use assms in \<open>simp add: apply_liquidation_settlement_in_state_def\<close>)

lemma liquidation_settlement_inv [chain_ops]:
  assumes inv: "chain_inv K s"
    and ok: "apply_liquidation_settlement_in_state s chain vid i realized dec now = Ok (t, r)"
  shows "chain_inv K t"
  using ok
proof (rule liquidation_settlement_effect)
  fix v m u s2
  assume u: "apply_debt_to_reserve_shift s chain vid (sl_actual_cleared r) realized = Ok u"
    and s2: "s2 = fst (record_chain_bad_debt_and_maybe_trip u chain (sl_bad_debt_added_e8s r) now)"
    and t: "t = (update_vault vid clear_marker s2)\<lparr>bot_pending_chain_vaults := bm_remove vid (bot_pending_chain_vaults s2)\<rparr>"
  have "chain_inv K u"
    using ledger_step_inv [OF inv, of "DebtToReserve chain vid (sl_actual_cleared r) realized" u] u by simp
  then have "chain_inv K (update_vault vid clear_marker s2)"
    unfolding s2 using record_bad_debt_books by (rule inv_update_after) simp
  then show "chain_inv K t" unfolding t using same_books_inv same_books_routing(1) by blast
qed

lemma sp_absorb_inv [chain_ops]:
  assumes inv: "chain_inv K s"
    and ok: "apply_sp_chain_liquidation_absorb_in_state s chain vid burned price dec penalty = Ok (t, r)"
  shows "chain_inv K t"
proof (cases "bm_get (chain_vaults s) vid")
  case (Some v)
  from ok obtain u f cl where u: "apply_debt_to_pending_burn_shift s chain vid burned = Ok u"
    and t: "t = (update_vault vid f u)\<lparr>chain_liquidation_claims := cl\<rparr>" and q: "\<forall>w. quiet w (f w)"
    by (fastforce simp: apply_sp_chain_liquidation_absorb_in_state_def Some and_then_Ok_iff Let_def quiet_def)
  have "chain_inv K u"
    using ledger_step_inv [OF inv, of "DebtToPending chain vid burned" u] u by simp
  then have "chain_inv K (update_vault vid f u)" using q by (intro inv_update_quiet_all) simp_all
  then show ?thesis unfolding t using same_books_inv same_books_routing(4) by blast
qed (use ok in \<open>simp add: apply_sp_chain_liquidation_absorb_in_state_def\<close>)

lemma claim_books:
  "claim_chain_collateral_in_state ptext s cid who owed dest now valid = Ok (t, i) \<Longrightarrow> same_books s t"
  by (fastforce simp: claim_chain_collateral_in_state_def and_then_Ok_iff Let_def
      dest!: same_books_enqueue intro: same_books_trans split: option.splits if_splits)

lemma confirm_payout_books:
  "confirm_chain_collateral_payout_in_state s chain i tx now = Ok (t, b) \<Longrightarrow> same_books s t"
  by (auto simp: confirm_chain_collateral_payout_in_state_def Let_def
      intro: same_books_trans [OF same_books_routing(4) same_books_update_op]
      split: option.splits settlement_op_status.splits settlement_op_kind.splits if_splits)

lemma release_books: "same_books s (fst (release_reservation s chain cid amt p))"
  by (auto simp: release_reservation_def Let_def split: option.splits)

lemma fail_payout_books:
  assumes "fail_chain_collateral_payout_in_state s chain i reason now = Ok (t, b)"
  shows "same_books s t"
proof (cases "t = s")
  case False
  from assms obtain op where op: "find_op s chain i = Some op"
    by (auto simp: fail_chain_collateral_payout_in_state_def split: option.splits)
  from assms False op obtain x amt cid y where k: "op_kind op = ChainCollateralPayout x amt cid y"
    by (auto simp: fail_chain_collateral_payout_in_state_def
        split: settlement_op_status.splits settlement_op_kind.splits)
  obtain s1 err where rel: "release_reservation s chain cid amt (op_payout_uses_pending_reservation op = Some True) = (s1, err)"
    by fastforce
  have s1: "same_books s s1" using release_books [of s chain cid amt] rel by (metis fst_conv)
  from assms False op k rel obtain r q where "t = (update_op chain i (mark_failed r now) s1)\<lparr>settlement_queues := q\<rparr>"
    by (auto simp: fail_chain_collateral_payout_in_state_def Let_def split: settlement_op_status.splits)
  then show ?thesis
    using same_books_trans [OF s1 same_books_trans [OF same_books_update_op same_books_routing(5)]] by simp
qed simp

section \<open>The settlement worker\<close>

lemma escalate_failed_swap_inv [chain_ops]: "chain_inv K s \<Longrightarrow> chain_inv K (escalate_failed_swap s chain i vid reason now)"
  by (auto simp: escalate_failed_swap_def Let_def quiet_def split: option.splits
      intro!: same_books_inv [OF same_books_routing(2)] inv_update_op inv_update_quiet_all)

lemma reverse_effect_inv: "chain_inv K s \<Longrightarrow> chain_inv K (reverse_effect k s)"
  by (cases k) (auto simp: quiet_def Let_def intro!: inv_update_quiet_all)

lemma confirm_reverted_inv [chain_ops]:
  assumes inv: "chain_inv K s"
  shows "chain_inv K (confirm_op_reverted s chain i op rec now)"
proof (cases "op_kind op")
  case (ChainCollateralPayout a b c d)
  then show ?thesis
    using inv by (auto simp: confirm_op_reverted_def dest!: fail_payout_books intro: same_books_inv
        split: outcome.splits)
qed (use inv in \<open>auto simp: confirm_op_reverted_def escalate_failed_swap_inv reverse_effect_inv
      simp del: reverse_effect.simps\<close>)

lemma confirm_not_mined_inv [chain_ops]:
  "chain_inv K s \<Longrightarrow> chain_inv K (fst (confirm_op_not_mined s chain i op now))"
  by (auto simp: confirm_op_not_mined_def escalate_failed_swap_inv Let_def
      split: settlement_op_kind.splits settlement_op_status.splits prod.splits)

lemma confirm_final_inv [chain_ops]:
  assumes inv: "chain_inv K s" and room: "mint_room s"
  shows "chain_inv K (confirm_op_final s chain i op tx logs reserve now)"
proof (cases "op_kind op")
  case (Mint a b vid)
  then show ?thesis
    using inv confirm_mint_keeps(1) [OF inv room]
    by (auto simp: confirm_op_final_def finish_op_def split: option.splits outcome.splits prod.splits)
next
  case (InterestMint vid mid a b c)
  then show ?thesis
    using inv confirm_interest_keeps(1) [OF inv room]
    by (auto simp: confirm_op_final_def finish_op_def split: option.splits outcome.splits prod.splits)
next
  case (NativeWithdrawal a b vid)
  then show ?thesis
    using inv by (auto simp: confirm_op_final_def finish_op_def quiet_def intro!: inv_update_quiet_all)
next
  case (ChainCollateralPayout a b c d)
  then show ?thesis
    using inv by (auto simp: confirm_op_final_def dest!: confirm_payout_books intro: same_books_inv
        split: outcome.splits)
next
  case (LiquidationSwap a b c d e f g h j)
  then show ?thesis
    using inv liquidation_settlement_inv [OF inv]
    by (auto simp: confirm_op_final_def finish_op_def Let_def split: option.splits outcome.splits)
qed (use inv in \<open>simp add: confirm_op_final_def\<close>)

section \<open>Recovery, administration and the remaining writers\<close>

lemma resolve_reversal_inv [chain_ops]:
  "chain_inv K s \<Longrightarrow> apply_resolve_reversal_in_state s chain i now = Ok (t, b) \<Longrightarrow> chain_inv K t"
  by (auto simp: apply_resolve_reversal_in_state_def reverse_effect_inv
      simp del: reverse_effect.simps split: option.splits if_splits)

lemma resolve_stuck_inv [chain_ops]:
  "chain_inv K s \<Longrightarrow> resolve_stuck_settlement_op_verified receipt_of s chain i now = Ok (t, b) \<Longrightarrow> chain_inv K t"
  by (auto simp: resolve_stuck_settlement_op_verified_def and_then_Ok_iff intro: resolve_reversal_inv)

lemma recover_vault_inv [chain_ops]:
  "chain_inv K s \<Longrightarrow> recover_stuck_chain_vault_verified receipt_of supply_at s chain vid = Ok t \<Longrightarrow> chain_inv K t"
  by (auto simp: recover_stuck_chain_vault_verified_def apply_recover_vault_in_state_def and_then_Ok_iff Let_def
      quiet_def intro!: inv_update_quiet_all split: option.splits if_splits)

lemma register_inv [chain_ops]:
  assumes inv: "chain_inv K s" and ok: "register_chain_in_state s arg now = Ok (t, cfg)"
  shows "chain_inv K t"
proof -
  let ?c = "rca_chain_id arg"
  from ok have fresh: "\<not> bm_has (chain_configs s) ?c"
    and t: "t = s\<lparr>chain_configs := bm_insert ?c cfg (chain_configs s),
                 chain_supplies := bm_insert ?c 0 (chain_supplies s),
                 settlement_queues := bm_insert ?c settlement_queue_default (settlement_queues s)\<rparr>"
    by (auto simp: register_chain_in_state_def Let_def split: if_splits)
  have "\<not> bm_has (chain_supplies s) ?c" using inv fresh by (auto simp: chain_inv_def supplies_registered_def)
  then have "bm_get (chain_supplies s) ?c = None" by (simp add: bm_has_def)
  with inv show ?thesis
    by (auto simp: t chain_inv_def backed_def ledger_sums supplies_registered_def)
qed

lemma delete_inv [chain_ops]:
  assumes inv: "chain_inv K s" and ok: "delete_chain_in_state s chain = Ok t"
  shows "chain_inv K t"
proof -
  from ok have "bm_get_or 0 (chain_supplies s) chain = 0"
    by (auto simp: delete_chain_in_state_def Let_def split: if_splits)
  then have "bm_sum (\<lambda>v. v) (bm_remove chain (chain_supplies s)) = bm_sum (\<lambda>v. v) (chain_supplies s)"
    using bm_sum_remove [of "\<lambda>v. v" chain "chain_supplies s"] by (auto simp: bm_get_or_def split: option.splits)
  with inv ok show ?thesis
    by (auto simp: delete_chain_in_state_def Let_def chain_inv_def backed_def ledger_sums supplies_registered_def
        split: if_splits)
qed

lemma configs_only_inv:
  assumes "chain_inv K s" and "\<And>c. bm_has cs c \<longleftrightarrow> bm_has (chain_configs s) c"
  shows "chain_inv K (s\<lparr>chain_configs := cs\<rparr>)"
  using assms by (simp add: chain_inv_def backed_def ledger_sums supplies_registered_def)

lemma disable_inv [chain_ops]: "chain_inv K s \<Longrightarrow> disable_chain_in_state s chain = Ok t \<Longrightarrow> chain_inv K t"
  by (auto simp: disable_chain_in_state_def intro!: configs_only_inv split: if_splits)

lemma update_config_inv [chain_ops]:
  assumes inv: "chain_inv K s" and ok: "update_chain_config_in_state s chain upd = Ok t"
  shows "chain_inv K t"
proof -
  from ok obtain cfg where "bm_has (chain_configs s) chain"
    and t: "t = s\<lparr>chain_configs := bm_insert chain cfg (chain_configs s)\<rparr>"
    by (auto simp: update_chain_config_in_state_def Let_def bm_has_def split: option.splits if_splits)
  then show ?thesis using inv by (auto intro!: configs_only_inv)
qed

lemma small_writers_books:
  "set_chain_bad_debt_circuit_threshold s chain th now = Ok t \<Longrightarrow> same_books s t"
  "same_books s (fst (clear_chain_bad_debt_circuit s chain))"
  "consume_evm_nonce s owner n = Ok t \<Longrightarrow> same_books s t"
  "same_books s (set_manual_price s chain symbol price now)"
  "same_books s (advance_cursor_and_prune s chain fin)"
  by (auto simp: set_chain_bad_debt_circuit_threshold_def clear_chain_bad_debt_circuit_def consume_evm_nonce_def
      set_manual_price_def advance_cursor_and_prune_def same_books_def Let_def split: option.splits if_splits)

lemma submit_claims_books:
  "claim_liquidation_swap_submit_in_state s chain i vid now tx nonce = Ok t \<Longrightarrow> same_books s t"
  "claim_chain_collateral_payout_submit_in_state s chain i now tx nonce = Ok u \<Longrightarrow> same_books s u"
  "record_chain_collateral_payout_replacement_in_state s chain i now tx = Ok w \<Longrightarrow> same_books s w"
  by (auto simp: claim_liquidation_swap_submit_in_state_def claim_chain_collateral_payout_submit_in_state_def
      record_chain_collateral_payout_replacement_in_state_def
      split: option.splits if_splits settlement_op_status.splits)

lemma stamp_accrual_inv [chain_ops]:
  assumes inv: "chain_inv K s"
  shows "chain_inv K (stamp_chain_interest_accrual_start s now)"
proof -
  let ?f = "\<lambda>v :: chain_vault. if cv_last_interest_accrual_ns v = 0 then v\<lparr>cv_last_interest_accrual_ns := now\<rparr> else v"
  have "(\<lambda>v. cv_debt_e8s (?f v)) = cv_debt_e8s" by auto
  then have "bm_sum cv_debt_e8s (bm_map ?f m) = bm_sum cv_debt_e8s m" for m :: "(u64, chain_vault) bmap"
    by (simp only: bm_sum_map)
  with inv show ?thesis
    by (auto simp: stamp_chain_interest_accrual_start_def chain_inv_def backed_def ledger_sums
        supplies_registered_def vaults_ok_def vault_ok_def split: if_splits)
qed

lemma sweep_and_advance_inv: "chain_inv K s \<Longrightarrow> chain_inv K (sweep_and_advance chain fin logs s)"
  using sweep_burn_logs_inv [of K s logs]
  by (auto simp: sweep_and_advance_def intro: same_books_inv [OF small_writers_books(5)] split: prod.splits)

lemma observer_tick_inv [chain_ops]:
  assumes inv: "chain_inv K s"
  shows "chain_inv K (observer_burn_tick chain fin probe fetched s)"
proof -
  have streak: "chain_inv K (s\<lparr>reorg_suspect_streak := x\<rparr>)" for x
    by (rule same_books_inv [OF _ inv]) (simp add: same_books_def)
  have halt: "chain_inv K (s\<lparr>reorg_suspect_streak := x, reorg_halted := y\<rparr>)" for x y
    by (rule same_books_inv [OF _ inv]) (simp add: same_books_def)
  have adv: "chain_inv K (advance_cursor_and_prune t chain fin)" if "chain_inv K t" for t
    using same_books_inv [OF small_writers_books(5) that] .
  show ?thesis
    unfolding observer_burn_tick_def Let_def
    by (auto simp: inv halt intro: streak adv sweep_and_advance_inv split: prod.split outcome.split)
qed

lemma burn_proof_inv [chain_ops]:
  assumes inv: "chain_inv K s"
  shows "chain_inv K (fst (verify_and_apply_burn_proof receipt_of final_of s chain tx))"
  using inv apply_receipt_logs_inv [OF inv]
  by (auto simp: verify_and_apply_burn_proof_def apply_receipt_burns_to_state_def Let_def
      split: option.split outcome.split bool.split prod.split) (metis fst_conv)+

section \<open>Configuration writes of the endpoints\<close>

lemma config_writes_books:
  "same_books s (s\<lparr>chain_contracts := a\<rparr>)"
  "same_books s (s\<lparr>chain_liquidation_configs := b\<rparr>)"
  "same_books s (s\<lparr>chain_debt_configs := c\<rparr>)"
  "same_books s (s\<lparr>reorg_halted := d, reorg_suspect_streak := e\<rparr>)"
  "same_books s (s\<lparr>last_observed_block := f\<rparr>)"
  "same_books s (s\<lparr>hot_wallet_balance_e18 := g\<rparr>)"
  "same_books s (s\<lparr>evm_owner_nonces := h\<rparr>)"
  by (simp_all add: same_books_def)

lemma poll_flag_inv [chain_ops]:
  "chain_inv K s \<Longrightarrow> chain_inv K (s\<lparr>chain_configs := bm_modify chain f (chain_configs s)\<rparr>)"
  by (rule configs_only_inv) simp_all

lemma owner_evm_inv [chain_ops]:
  "chain_inv K s \<Longrightarrow> chain_inv K (update_vault vid (\<lambda>w. w\<lparr>cv_owner_evm := x\<rparr>) s)"
  by (rule inv_update_quiet_all) (simp_all add: quiet_def)

end
