(* ===== verification/Rumi_Systems.thy ===== *)
theory Rumi_Systems
  imports Rumi_Prelude
begin

text \<open>
  The interfaces of the state machines of the development: a step relation with an invariant, and a
  machine that refines another through an abstraction function.
\<close>

section \<open>The contract of an invariant system\<close>

locale invariant_system =
  fixes start :: "'s" and step :: "'s \<Rightarrow> 's \<Rightarrow> bool" and inv :: "'s \<Rightarrow> bool"
  assumes inv_start: "inv start"
    and inv_step: "inv s \<Longrightarrow> step s t \<Longrightarrow> inv t"
begin

lemma reachable_inv: "step\<^sup>*\<^sup>* start s \<Longrightarrow> inv s"
  by (induction rule: rtranclp_induct) (blast intro: inv_start inv_step)+

lemma run_inv: "inv s \<Longrightarrow> step\<^sup>*\<^sup>* s t \<Longrightarrow> inv t"
  by (rotate_tac 1, induction rule: rtranclp_induct) (blast intro: inv_step)+

end

section \<open>The contract of a refinement\<close>

locale refines_system = invariant_system start step inv
  for start :: "'s" and step :: "'s \<Rightarrow> 's \<Rightarrow> bool" and inv :: "'s \<Rightarrow> bool" +
  fixes initial :: "'c \<Rightarrow> bool" and cstep :: "'c \<Rightarrow> 'c \<Rightarrow> bool" and abstr :: "'c \<Rightarrow> 's"
  assumes abstr_initial: "initial c \<Longrightarrow> abstr c = start"
    and simulates: "cstep c d \<Longrightarrow> step\<^sup>*\<^sup>* (abstr c) (abstr d)"
begin

lemma run_simulates: "cstep\<^sup>*\<^sup>* c d \<Longrightarrow> step\<^sup>*\<^sup>* (abstr c) (abstr d)"
  by (induction rule: rtranclp_induct) (blast intro: simulates rtranclp_trans)+

lemma reachable_simulates: "initial c \<Longrightarrow> cstep\<^sup>*\<^sup>* c d \<Longrightarrow> step\<^sup>*\<^sup>* start (abstr d)"
  using run_simulates abstr_initial by metis

lemma reachable_abstr_inv: "initial c \<Longrightarrow> cstep\<^sup>*\<^sup>* c d \<Longrightarrow> inv (abstr d)"
  by (rule reachable_inv [OF reachable_simulates])

end

end
