(* ===== verification/Chain_Machine.thy ===== *)
theory Chain_Machine
  imports Chain_Invariant Rumi_Systems
begin

text \<open>
  The foreign-chain rail as a state machine: the persisted chain state together with the vault
  id counter of the canister and the ids handed out to opens that still await their key
  derivation. Every message of the rail is a step; whatever a message reads from outside (time,
  receipts, logs, prices, callers) is universally quantified. Reachable states satisfy
  \<open>chain_inv\<close>, by rule induction through the locale \<open>invariant_system\<close>.
\<close>

section \<open>Steps\<close>

inductive chain_action ::
    "'d decimal_ops \<Rightarrow> (principal \<Rightarrow> string) \<Rightarrow> multi_chain_state \<Rightarrow> multi_chain_state \<Rightarrow> bool"
  for D :: "'d decimal_ops" and ptext :: "principal \<Rightarrow> string"
where
  verify_deposit: "verify_deposit_and_enqueue_mint_in_state s vid bal now = Ok (t, b) \<Longrightarrow> chain_action D ptext s t"
| withdraw: "withdraw_collateral_in_state D s vid amt dest valid symbol min_cr now = Ok t \<Longrightarrow> chain_action D ptext s t"
| close: "close_chain_vault_in_state D s vid dest valid symbol min_cr now = Ok t \<Longrightarrow> chain_action D ptext s t"
| borrow: "borrow_chain_vault_in_state s vid amt rcpt valid symbol min_cr min_debt ceiling now = Ok t
    \<Longrightarrow> chain_action D ptext s t"
| begin_liquidation: "begin_liquidation_in_state D s vid valid symbol threshold now = Ok (t, i)
    \<Longrightarrow> chain_action D ptext s t"
| prune_awaiting: "chain_action D ptext s (fst (prune_stale_awaiting_deposit s now ttl))"
| escalate: "chain_action D ptext s (fst (escalate_timed_out_bot_liquidations_in_state s chain now timeout n))"
| detect: "detect_and_route_chain_liquidations_in_state D s chain symbol threshold now n = Some (t, m)
    \<Longrightarrow> chain_action D ptext s t"
| credit_deposit: "credit_deposit_to_state s vid amt = Ok t \<Longrightarrow> chain_action D ptext s t"
| burn_proof: "chain_action D ptext s (fst (verify_and_apply_burn_proof receipt_of final_of s chain tx))"
| observe: "chain_action D ptext s (observer_burn_tick chain fin probe fetched s)"
| confirm_final: "mint_room s \<Longrightarrow> chain_action D ptext s (confirm_op_final s chain i op tx logs reserve now)"
| confirm_reverted: "chain_action D ptext s (confirm_op_reverted s chain i op recredited now)"
| confirm_not_mined: "chain_action D ptext s (fst (confirm_op_not_mined s chain i op now))"
| fail_swap: "chain_action D ptext s (escalate_failed_swap s chain i vid reason now)"
| sp_absorb: "apply_sp_chain_liquidation_absorb_in_state s chain vid burned price dec penalty = Ok (t, r)
    \<Longrightarrow> chain_action D ptext s t"
| claim: "claim_chain_collateral_in_state ptext s cid who owed dest now valid = Ok (t, i) \<Longrightarrow> chain_action D ptext s t"
| fail_payout: "fail_chain_collateral_payout_in_state s chain i reason now = Ok (t, b) \<Longrightarrow> chain_action D ptext s t"
| submit_swap: "claim_liquidation_swap_submit_in_state s chain i vid now tx nonce = Ok t \<Longrightarrow> chain_action D ptext s t"
| submit_payout: "claim_chain_collateral_payout_submit_in_state s chain i now tx nonce = Ok t
    \<Longrightarrow> chain_action D ptext s t"
| replace_payout: "record_chain_collateral_payout_replacement_in_state s chain i now tx = Ok t
    \<Longrightarrow> chain_action D ptext s t"
| mark_submitted: "chain_action D ptext s (update_op chain i f s)"
| prune_queue: "bm_get (settlement_queues s) chain = Some q \<Longrightarrow>
    chain_action D ptext s (s\<lparr>settlement_queues := bm_insert chain (prune_terminal q) (settlement_queues s)\<rparr>)"
| settle: "ledger_step m s = Ok t \<Longrightarrow> chain_action D ptext s t"
| resolve: "resolve_stuck_settlement_op_verified receipts s chain i now = Ok (t, b) \<Longrightarrow> chain_action D ptext s t"
| recover: "recover_stuck_chain_vault_verified receipts supply_at s chain vid = Ok t \<Longrightarrow> chain_action D ptext s t"
| register: "register_chain_in_state s arg now = Ok (t, cfg) \<Longrightarrow> chain_action D ptext s t"
| disable: "disable_chain_in_state s chain = Ok t \<Longrightarrow> chain_action D ptext s t"
| delete: "delete_chain_in_state s chain = Ok t \<Longrightarrow> chain_action D ptext s t"
| configure: "update_chain_config_in_state s chain upd = Ok t \<Longrightarrow> chain_action D ptext s t"
| set_threshold: "set_chain_bad_debt_circuit_threshold s chain th now = Ok t \<Longrightarrow> chain_action D ptext s t"
| clear_circuit: "chain_action D ptext s (fst (clear_chain_bad_debt_circuit s chain))"
| nonce: "consume_evm_nonce s owner n = Ok t \<Longrightarrow> chain_action D ptext s t"
| price: "chain_action D ptext s (set_manual_price s chain symbol p now)"
| set_contract: "chain_action D ptext s (s\<lparr>chain_contracts := bm_insert chain a (chain_contracts s)\<rparr>)"
| set_liq_config: "chain_action D ptext s (s\<lparr>chain_liquidation_configs := bm_insert chain lc (chain_liquidation_configs s)\<rparr>)"
| set_debt_config: "chain_action D ptext s (s\<lparr>chain_debt_configs := bm_insert chain dc (chain_debt_configs s)\<rparr>)"
| clear_reorg: "chain_action D ptext s (s\<lparr>reorg_halted := bm_remove chain (reorg_halted s),
    reorg_suspect_streak := bm_remove chain (reorg_suspect_streak s)\<rparr>)"
| set_cursor: "chain_action D ptext s (s\<lparr>last_observed_block := bm_insert chain b (last_observed_block s)\<rparr>)"
| set_poll: "chain_action D ptext s (s\<lparr>chain_configs :=
    bm_modify chain (\<lambda>c. c\<lparr>cc_burn_watch_poll_enabled := flag\<rparr>) (chain_configs s)\<rparr>)"
| hot_wallet: "chain_action D ptext s (s\<lparr>hot_wallet_balance_e18 := bm_insert chain bal (hot_wallet_balance_e18 s)\<rparr>)"
| owner_evm: "chain_action D ptext s (update_vault vid (\<lambda>w. w\<lparr>cv_owner_evm := Some addr\<rparr>) s)"
| spend_nonce: "chain_action D ptext s (s\<lparr>evm_owner_nonces := bm_insert who n (evm_owner_nonces s)\<rparr>)"
| stamp: "chain_action D ptext s (stamp_chain_interest_accrual_start s now)"
| self_check: "check_invariant s (total_chain_vault_debt_e8s s) = Err e \<Longrightarrow>
    chain_action D ptext s (s\<lparr>invariant_halted := True\<rparr>)"
| clear_halt: "check_invariant s (total_chain_vault_debt_e8s s) = Ok () \<Longrightarrow>
    chain_action D ptext s (s\<lparr>invariant_halted := False\<rparr>)"

record rail =
  rs_chain :: multi_chain_state
  rs_counter :: u64
  rs_reserved :: "u64 set"

definition rail_init :: rail where
  "rail_init = \<lparr>rs_chain = multi_chain_default, rs_counter = 0, rs_reserved = {}\<rparr>"

text \<open>The id allocator that the harvest closes over: \<^verbatim>\<open>k += 1; k\<close>\<close>

definition next_id :: "u64 \<Rightarrow> u64 \<times> u64" where
  "next_id k = (k + 1, k + 1)"

inductive rail_step :: "'d decimal_ops \<Rightarrow> (principal \<Rightarrow> string) \<Rightarrow> rail \<Rightarrow> rail \<Rightarrow> bool"
  for D :: "'d decimal_ops" and ptext :: "principal \<Rightarrow> string"
where
  reserve_id: "rs_counter r < u64_max \<Longrightarrow>
    rail_step D ptext r (r\<lparr>rs_counter := rs_counter r + 1, rs_reserved := insert (rs_counter r + 1) (rs_reserved r)\<rparr>)"
| open_vault: "vid \<in> rs_reserved r \<Longrightarrow>
    open_chain_vault_in_state (rs_chain r) chain owner custody coll debt rcpt valid symbol min_cr min_debt ceiling now vid = Ok t
    \<Longrightarrow> rail_step D ptext r (r\<lparr>rs_chain := t, rs_reserved := rs_reserved r - {vid}\<rparr>)"
| abandon_id: "rail_step D ptext r (r\<lparr>rs_reserved := rs_reserved r - {vid}\<rparr>)"
| harvest: "harvest_chain_interest_in_state D (rs_chain r) chain apr threshold treasury now next_id (rs_counter r)
      = Some (t, k, ids) \<Longrightarrow> k \<le> u64_max \<Longrightarrow> rail_step D ptext r (r\<lparr>rs_chain := t, rs_counter := k\<rparr>)"
| action: "chain_action D ptext (rs_chain r) t \<Longrightarrow> rail_step D ptext r (r\<lparr>rs_chain := t\<rparr>)"

inductive_cases rail_stepE: "rail_step D ptext r r'"

section \<open>Invariance\<close>

definition fresh_ids :: "rail \<Rightarrow> u64 \<Rightarrow> bool" where
  "fresh_ids r vid \<longleftrightarrow> vid \<le> rs_counter r \<and> vid \<notin> rs_reserved r"

definition rail_inv :: "rail \<Rightarrow> bool" where
  "rail_inv r \<longleftrightarrow> chain_inv (fresh_ids r) (rs_chain r) \<and> (\<forall>vid \<in> rs_reserved r. vid \<le> rs_counter r)"

lemma chain_inv_mono: "chain_inv K s \<Longrightarrow> (\<And>vid. K vid \<Longrightarrow> L vid) \<Longrightarrow> chain_inv L s"
  by (auto simp: chain_inv_def vaults_ok_def vault_ok_def)

lemma chain_action_inv:
  assumes "chain_action D ptext s t" and inv: "chain_inv K s"
  shows "chain_inv K t"
  using assms
proof (induction rule: chain_action.induct)
  case (prune_queue s chain q)
  then show ?case using same_books_inv same_books_routing(5) by blast
next
  case (self_check s e)
  then show ?case by (auto intro: same_books_inv simp: same_books_def)
next
  case (clear_halt s)
  then show ?case by (auto intro: same_books_inv simp: same_books_def)
qed (auto intro: chain_ops same_books_inv claim_books fail_payout_books submit_claims_books small_writers_books
    config_writes_books)

lemma harvest_enqueue_counter:
  "c \<le> fst (snd (harvest_enqueue chain treasury now next_id es s c))"
proof (induction es arbitrary: s c)
  case (Cons e es)
  obtain vid amount where e: "e = (vid, amount)" by (cases e)
  have alloc: "next_id c = (c + 1, c + 1)" by (simp add: next_id_def)
  let ?op = "settlement_op_new (InterestMint vid (c + 1) amount now treasury) (dash_key ''interest'' [chain, c + 1]) now"
  show ?case
  proof (cases "enqueue_in_state s chain ?op")
    case (Ok p)
    obtain s1 i where p: "p = (s1, i)" by (cases p)
    have "c + 1 \<le> fst (snd (harvest_enqueue chain treasury now next_id es
        (update_vault vid (\<lambda>v. v\<lparr>cv_pending_interest_mint_e8s := amount\<rparr>) s1) (c + 1)))"
      by (rule Cons.IH)
    with Ok p e alloc show ?thesis by (auto simp: Let_def split: prod.splits)
  qed (use Cons.IH [of "c + 1" s] e alloc in \<open>auto simp: Let_def\<close>)
qed simp

lemma harvest_counter:
  "harvest_chain_interest_in_state D s chain apr threshold treasury now next_id c = Some (t, k, ids) \<Longrightarrow> c \<le> k"
  by (auto simp: harvest_chain_interest_in_state_def split: if_splits)
    (metis fst_conv snd_conv harvest_enqueue_counter)

lemma rail_step_inv:
  assumes inv: "rail_inv r" and step: "rail_step D ptext r r'"
  shows "rail_inv r'"
proof -
  note ci = inv [unfolded rail_inv_def]
  have c: "chain_inv (fresh_ids r) (rs_chain r)" and R: "\<And>vid. vid \<in> rs_reserved r \<Longrightarrow> vid \<le> rs_counter r"
    using ci by auto
  from step show ?thesis
  proof cases
    case reserve_id
    have "chain_inv (fresh_ids r') (rs_chain r)"
      by (rule chain_inv_mono [OF c]) (auto simp: reserve_id fresh_ids_def)
    with reserve_id R show ?thesis by (force simp: rail_inv_def)
  next
    case (open_vault vid chain owner custody coll debt rcpt valid symbol min_cr min_debt ceiling now t)
    have weaker: "chain_inv (fresh_ids r') (rs_chain r)"
      by (rule chain_inv_mono [OF c]) (auto simp: open_vault fresh_ids_def)
    have "\<not> bm_has (chain_vaults (rs_chain r)) vid"
      using c open_vault(2)
      by (cases "bm_get (chain_vaults (rs_chain r)) vid")
        (auto simp: chain_inv_def vaults_ok_def vault_ok_def fresh_ids_def bm_has_def)
    moreover have "fresh_ids r' vid" using R open_vault by (simp add: fresh_ids_def)
    ultimately have "chain_inv (fresh_ids r') t" using open_inv [OF weaker _ _ open_vault(3)] by simp
    with open_vault R show ?thesis by (auto simp: rail_inv_def)
  next
    case (abandon_id vid)
    have "chain_inv (fresh_ids r') (rs_chain r)"
      by (rule chain_inv_mono [OF c]) (auto simp: abandon_id fresh_ids_def)
    with abandon_id R show ?thesis by (auto simp: rail_inv_def)
  next
    case (harvest chain apr threshold treasury now t k ids)
    have le: "rs_counter r \<le> k" by (rule harvest_counter [OF harvest(2)])
    have "chain_inv (fresh_ids r') t"
      by (rule chain_inv_mono [OF harvest_inv [OF c harvest(2)]]) (use le in \<open>auto simp: harvest fresh_ids_def\<close>)
    with harvest R le show ?thesis by (auto simp: rail_inv_def intro: le_trans)
  next
    case (action t)
    have "chain_inv (fresh_ids r') t"
      by (rule chain_inv_mono [OF chain_action_inv [OF action(2) c]]) (simp add: action fresh_ids_def)
    with action R show ?thesis by (simp add: rail_inv_def)
  qed
qed

lemma rail_inv_init: "rail_inv rail_init"
proof -
  have "vaults_ok K (chain_vaults multi_chain_default)" "supplies_registered multi_chain_default" for K
    by (simp_all add: vaults_ok_def supplies_registered_def multi_chain_default_def)
  then show ?thesis by (simp add: rail_inv_def rail_init_def chain_inv_def backed_default)
qed

interpretation rail: invariant_system rail_init "rail_step D ptext" rail_inv for D ptext
  by unfold_locales (rule rail_inv_init, rule rail_step_inv)

lemma backed_check_invariant: "backed s \<Longrightarrow> check_invariant s (total_chain_vault_debt_e8s s) = Ok ()"
  using backed_bounds [of s] backed_eq [of s]
  by (simp add: check_invariant_def chain_backing_rhs_e8s_def backed_totals sum_values_id
      supply_sum_def [symmetric] Let_def)

section \<open>A concrete run\<close>

text \<open>Whole numbers as decimals: enough to instantiate the parameter.\<close>

definition sample_decimal :: "nat decimal_ops" where
  "sample_decimal = \<lparr>dec_from_u128 = Some, dec_from_u64 = (\<lambda>n. n), dec_one = 1, dec_add = (\<lambda>a b. Some (a + b)),
     dec_mul = (\<lambda>a b. Some (a * b)), dec_div = (\<lambda>a b. if b = 0 then None else Some (a div b)),
     dec_ceil = (\<lambda>a. a), dec_to_u128 = (\<lambda>a. if a \<le> u128_max then Some a else None)\<rparr>"

definition sample_register :: register_chain_arg where
  "sample_register = \<lparr>rca_chain_id = 10143, rca_display_name = ''Monad'', rca_rpc_endpoints = [''https://rpc''],
     rca_finality_depth = 2, rca_gas_strategy = EvmLegacy 50, rca_chain_native_decimals = 18,
     rca_min_quorum_providers = None\<rparr>"

definition sample_config :: chain_config where
  "sample_config = \<lparr>cc_chain_id = 10143, cc_display_name = ''Monad'', cc_rpc_endpoints = [''https://rpc''],
     cc_finality_depth = 2, cc_gas_strategy = EvmLegacy 50, cc_chain_native_decimals = 18,
     cc_registered_at_ns = 5, cc_status = Registered, cc_burn_watch_poll_enabled = False,
     cc_min_quorum_providers = None\<rparr>"

definition sample_registered :: multi_chain_state where
  "sample_registered = set_manual_price (multi_chain_default
     \<lparr>chain_configs := bm_insert 10143 sample_config bm_empty,
      chain_supplies := bm_insert 10143 0 bm_empty,
      settlement_queues := bm_insert 10143 settlement_queue_default bm_empty\<rparr>) 10143 ''MON'' 200000000 6"

definition sample_new_vault :: chain_vault where
  "sample_new_vault = \<lparr>cv_vault_id = 1, cv_owner = 7, cv_collateral_chain = 10143, cv_custody_address = ''0xc'',
     cv_collateral_amount_native = 2000000000000000000, cv_debt_e8s = 0, cv_mint_recipient = ''0xr'',
     cv_pending_mint_e8s = 100000000, cv_status = AwaitingDeposit, cv_opened_at_ns = 7, cv_owner_evm = None,
     cv_last_interest_accrual_ns = 0, cv_pending_interest_mint_e8s = 0, cv_pending_liquidation = None\<rparr>"

definition sample_rail :: rail where
  "sample_rail = \<lparr>rs_chain = sample_registered\<lparr>chain_vaults := bm_insert 1 sample_new_vault bm_empty\<rparr>,
     rs_counter = 1, rs_reserved = {}\<rparr>"

lemma sample_open: "open_chain_vault_in_state sample_registered 10143 7 ''0xc'' 2000000000000000000 100000000 ''0xr''
      (\<lambda>_. True) ''MON'' 15000 1000000 (Some 100000000000) 7 1 = Ok (rs_chain sample_rail)"
  by (simp add: open_chain_vault_in_state_def sample_registered_def sample_rail_def sample_new_vault_def
        multi_chain_default_def set_manual_price_def chain_bad_debt_circuit_tripped_def gated_chain_price_e8_def
        native_decimals_of_def sample_config_def collateral_ratio_e4_def total_chain_debt_including_pending_e8s_def
        rust_arith bm_values_def Let_def)

lemma sample_rail_reachable: "(rail_step sample_decimal show_nat)\<^sup>*\<^sup>* rail_init sample_rail"
proof -
  let ?R = "rail_step sample_decimal show_nat"
  let ?s = "multi_chain_default\<lparr>chain_configs := bm_insert 10143 sample_config bm_empty,
      chain_supplies := bm_insert 10143 0 bm_empty,
      settlement_queues := bm_insert 10143 settlement_queue_default bm_empty\<rparr>"
  have "register_chain_in_state multi_chain_default sample_register 5 = Ok (?s, sample_config)"
    by (simp add: register_chain_in_state_def sample_register_def sample_config_def dedup_endpoints_def
        multi_chain_default_def Let_def)
  then have "?R rail_init (rail_init\<lparr>rs_chain := ?s\<rparr>)"
    by (intro rail_step.action chain_action.register [of _ sample_register 5]) (simp add: rail_init_def)
  moreover have "?R (rail_init\<lparr>rs_chain := ?s\<rparr>) (rail_init\<lparr>rs_chain := sample_registered\<rparr>)"
    using rail_step.action [OF chain_action.price, of sample_decimal show_nat "rail_init\<lparr>rs_chain := ?s\<rparr>" 10143 "''MON''" 200000000 6]
    by (simp add: sample_registered_def)
  moreover have "?R (rail_init\<lparr>rs_chain := sample_registered\<rparr>)
      \<lparr>rs_chain = sample_registered, rs_counter = 1, rs_reserved = {1}\<rparr>"
    using rail_step.reserve_id [of "rail_init\<lparr>rs_chain := sample_registered\<rparr>" sample_decimal show_nat]
    by (simp add: rail_init_def u64_max_def)
  moreover from sample_open have "?R \<lparr>rs_chain = sample_registered, rs_counter = 1, rs_reserved = {1}\<rparr> sample_rail"
    using rail_step.open_vault [of 1 "\<lparr>rs_chain = sample_registered, rs_counter = 1, rs_reserved = {1}\<rparr>"]
    by (simp add: sample_rail_def)
  ultimately show ?thesis by (meson rtranclp.rtrancl_refl rtranclp.rtrancl_into_rtrancl)
qed

text \<open>C1. The supply invariant of the whole foreign-chain rail. In every state that any
  interleaving of the rail's messages can reach from the initial state (user requests, observer
  ticks, settlement confirmations and reversals, liquidations, burn settlements, recovery and
  administration), the recorded icUSD supply of all chains equals vault debt plus reserve backing
  plus pending burns, and the code's own self-check \<open>check_invariant\<close> accepts the state. Two
  bounds are part of the step relation: a mint is confirmed only while the supply stays in 128
  bits, and ids are allocated only while the counter stays in 64 bits.\<close>

theorem reachable_books_balanced:
  assumes "(rail_step D ptext)\<^sup>*\<^sup>* rail_init r"
  shows "supply_sum (rs_chain r) = debt_sum (rs_chain r) + reserve_sum (rs_chain r) + pending_sum (rs_chain r)
    \<and> check_invariant (rs_chain r) (total_chain_vault_debt_e8s (rs_chain r)) = Ok ()"
proof -
  have "backed (rs_chain r)" using rail.reachable_inv [OF assms] by (simp add: rail_inv_def chain_inv_def)
  then show ?thesis using backed_check_invariant by (simp add: backed_def backing_sum_def)
qed

theorem reachable_books_balanced_witness:
  "supply_sum (rs_chain sample_rail)
     = debt_sum (rs_chain sample_rail) + reserve_sum (rs_chain sample_rail) + pending_sum (rs_chain sample_rail)
   \<and> check_invariant (rs_chain sample_rail) (total_chain_vault_debt_e8s (rs_chain sample_rail)) = Ok ()"
  by (rule reachable_books_balanced [OF sample_rail_reachable])

text \<open>C23. Every vault of a reachable state is stored under its own id, that id was handed out by
  the canister's counter and is not reserved for an open still in progress; a vault that waits for
  its deposit carries neither debt nor a pending interest mint.\<close>

theorem reachable_vaults_well_formed:
  assumes "(rail_step D ptext)\<^sup>*\<^sup>* rail_init r" and "bm_get (chain_vaults (rs_chain r)) vid = Some v"
  shows "cv_vault_id v = vid \<and> vid \<le> rs_counter r \<and> vid \<notin> rs_reserved r
    \<and> (cv_status v = AwaitingDeposit \<longrightarrow> cv_debt_e8s v = 0 \<and> cv_pending_interest_mint_e8s v = 0)"
  using rail.reachable_inv [OF assms(1)] assms(2)
  by (auto simp: rail_inv_def chain_inv_def vaults_ok_def vault_ok_def fresh_ids_def)

theorem reachable_vaults_well_formed_witness:
  "cv_vault_id sample_new_vault = 1 \<and> 1 \<le> rs_counter sample_rail \<and> 1 \<notin> rs_reserved sample_rail
   \<and> cv_debt_e8s sample_new_vault = 0 \<and> cv_pending_interest_mint_e8s sample_new_vault = 0"
proof -
  have "bm_get (chain_vaults (rs_chain sample_rail)) 1 = Some sample_new_vault" by (simp add: sample_rail_def)
  moreover have "cv_status sample_new_vault = AwaitingDeposit" by (simp add: sample_new_vault_def)
  ultimately show ?thesis using reachable_vaults_well_formed [OF sample_rail_reachable, of 1 sample_new_vault] by simp
qed

end
