(* ===== verification/Burn_Guarantees.thy ===== *)
theory Burn_Guarantees
  imports Chain_Machine
begin

text \<open>
  What the burn path guarantees: the exact effect of one burn, conservation over a whole receipt,
  and how often a receipt can be applied. The record of processed burns makes a re-submission
  harmless only until the observer's cursor passes the block and prunes the record; the last
  section exhibits the second application.
\<close>

section \<open>One burn\<close>

definition burn_ready :: "multi_chain_state \<Rightarrow> burn_log \<Rightarrow> chain_vault \<Rightarrow> u128 \<Rightarrow> bool" where
  "burn_ready s burn v cur \<longleftrightarrow> \<not> invariant_halted s \<and> cv_pending_liquidation v = None
     \<and> \<not> bs_mem (bl_vault_id burn) (sp_attempted_chain_vaults s)
     \<and> bl_amount_e8s burn \<le> cv_debt_e8s v \<and> bl_amount_e8s burn \<le> cur"

definition burned_state :: "multi_chain_state \<Rightarrow> burn_log \<Rightarrow> chain_vault \<Rightarrow> u128 \<Rightarrow> multi_chain_state" where
  "burned_state s burn v cur =
     s\<lparr>chain_supplies := bm_insert (cv_collateral_chain v) (cur - bl_amount_e8s burn) (chain_supplies s),
       chain_vaults := bm_insert (bl_vault_id burn)
         (v\<lparr>cv_debt_e8s := cv_debt_e8s v - bl_amount_e8s burn\<rparr>) (chain_vaults s)\<rparr>"

lemma burned_state_sums:
  assumes v: "bm_get (chain_vaults s) (bl_vault_id burn) = Some v"
    and cur: "bm_get (chain_supplies s) (cv_collateral_chain v) = Some cur" and r: "burn_ready s burn v cur"
  shows "supply_sum (burned_state s burn v cur) + bl_amount_e8s burn = supply_sum s"
    and "debt_sum (burned_state s burn v cur) + bl_amount_e8s burn = debt_sum s"
  using r bm_sum_insert_old [OF cur, of "\<lambda>x. x" "cur - bl_amount_e8s burn"]
    bm_sum_insert_old [OF v, of cv_debt_e8s "v\<lparr>cv_debt_e8s := cv_debt_e8s v - bl_amount_e8s burn\<rparr>"]
  by (auto simp: burned_state_def burn_ready_def ledger_sums)

lemma burn_check_passes:
  assumes b: "backed s" and v: "bm_get (chain_vaults s) (bl_vault_id burn) = Some v"
    and cur: "bm_get (chain_supplies s) (cv_collateral_chain v) = Some cur" and r: "burn_ready s burn v cur"
  shows "wrap128 (bm_sum (\<lambda>x. x) (bm_insert (cv_collateral_chain v) (cur - bl_amount_e8s burn) (chain_supplies s)))
    = chain_backing_rhs_e8s s (total_chain_vault_debt_e8s s - bl_amount_e8s burn)"
proof -
  have sums: "supply_sum (burned_state s burn v cur) + bl_amount_e8s burn = supply_sum s"
    "debt_sum (burned_state s burn v cur) + bl_amount_e8s burn = debt_sum s"
    by (rule burned_state_sums [OF v cur r])+
  have "supply_sum (burned_state s burn v cur) =
      debt_sum s - bl_amount_e8s burn + reserve_sum s + pending_sum s"
    using sums backed_eq [OF b] by simp
  moreover have "supply_sum (burned_state s burn v cur) \<le> u128_max"
    using sums(1) backed_bounds [OF b] b by (simp add: backed_def)
  ultimately show ?thesis
    using backed_bounds [OF b]
    by (simp add: chain_backing_rhs_e8s_def backed_totals [OF b] burned_state_def supply_sum_def)
qed

lemma burned_state_backed:
  assumes "backed s" and "bm_get (chain_vaults s) (bl_vault_id burn) = Some v"
    and "bm_get (chain_supplies s) (cv_collateral_chain v) = Some cur" and "burn_ready s burn v cur"
  shows "backed (burned_state s burn v cur)"
proof -
  have "reserve_sum (burned_state s burn v cur) = reserve_sum s" "pending_sum (burned_state s burn v cur) = pending_sum s"
    by (simp_all add: burned_state_def ledger_sums)
  then show ?thesis using burned_state_sums [OF assms(2-4)] assms(1) by (simp add: backed_def backing_sum_def)
qed

lemma burn_applied_iff:
  assumes "backed s" and "bm_get (chain_vaults s) (bl_vault_id burn) = Some v"
    and "bm_get (chain_supplies s) (cv_collateral_chain v) = Some cur"
  shows "apply_burn_to_state s burn (total_chain_vault_debt_e8s s) = Ok t
    \<longleftrightarrow> burn_ready s burn v cur \<and> t = burned_state s burn v cur"
proof -
  have vd: "cv_debt_e8s v \<le> u128_max"
    using bm_sum_ge [OF assms(2), of cv_debt_e8s] backed_bounds(2) [OF assms(1)] by (simp add: debt_sum_def)
  show ?thesis
    using burn_check_passes [OF assms] assms(2,3) vd
    by (auto simp: apply_burn_to_state_def burn_ready_def burned_state_def and_then_Ok_iff Let_def
        apply_supply_delta_Ok update_vault_def bm_modify_def)
qed

text \<open>On balanced books an observed burn is applied exactly when the code's guards hold (not
  halted, no liquidation in progress, amount within the vault's debt and the chain's supply): the
  supply self-check inside never rejects it. Exactly that vault's debt and that chain's supply fall
  by the burned amount, and so do the totals.\<close>

theorem apply_burn_exact:
  assumes "backed s" and "bm_get (chain_vaults s) (bl_vault_id burn) = Some v"
    and "bm_get (chain_supplies s) (cv_collateral_chain v) = Some cur"
  shows "apply_burn_to_state s burn (total_chain_vault_debt_e8s s) = Ok t
    \<longleftrightarrow> burn_ready s burn v cur \<and> t = burned_state s burn v cur
        \<and> supply_sum t + bl_amount_e8s burn = supply_sum s \<and> debt_sum t + bl_amount_e8s burn = debt_sum s"
  using burned_state_sums [OF assms(2,3)] by (auto simp: burn_applied_iff [OF assms])

definition sample_burn :: burn_log where
  "sample_burn = \<lparr>bl_vault_id = 1, bl_amount_e8s = 120, bl_tx_hash = ''0xab'', bl_block_number = 9\<rparr>"

theorem apply_burn_exact_witness:
  "apply_burn_to_state sample_state sample_burn (total_chain_vault_debt_e8s sample_state)
     = Ok (burned_state sample_state sample_burn sample_vault 500)
   \<and> debt_sum (burned_state sample_state sample_burn sample_vault 500) + 120 = debt_sum sample_state"
proof -
  have v: "bm_get (chain_vaults sample_state) (bl_vault_id sample_burn) = Some sample_vault"
    and cur: "bm_get (chain_supplies sample_state) (cv_collateral_chain sample_vault) = Some 500"
    and r: "burn_ready sample_state sample_burn sample_vault 500"
    by (simp_all add: sample_state_def sample_vault_def sample_burn_def burn_ready_def multi_chain_default_def)
  from burned_state_sums [OF v cur r] r have "apply_burn_to_state sample_state sample_burn
      (total_chain_vault_debt_e8s sample_state) = Ok (burned_state sample_state sample_burn sample_vault 500)"
    using apply_burn_exact [OF backed_sample v cur] by blast
  with apply_burn_exact [OF backed_sample v cur] show ?thesis by (simp add: sample_burn_def)
qed

section \<open>Receipts\<close>

lemma apply_receipt_logs_conserve:
  assumes "chain_inv K s" and "apply_receipt_logs contract tx block logs s acc = (t, Ok applied)"
  shows "supply_sum t + sum_list (map bl_amount_e8s applied) = supply_sum s + sum_list (map bl_amount_e8s acc)
    \<and> debt_sum t + sum_list (map bl_amount_e8s applied) = debt_sum s + sum_list (map bl_amount_e8s acc)"
  using assms
proof (induction contract tx block logs s acc rule: apply_receipt_logs.induct)
  case (2 contract tx block address topics data log_index logs s acc)
  have keep: "supply_sum (record_burn_key b k u) = supply_sum u" "debt_sum (record_burn_key b k u) = debt_sum u" for b k u
    by (simp_all add: record_burn_key_def ledger_sums)
  show ?case
  proof (cases "decode_burn_log topics data tx block")
    case (Ok burn)
    show ?thesis
    proof (cases "apply_burn_to_state s burn (total_chain_vault_debt_e8s s)")
      case burned: (Ok s1)
      from apply_burn_keeps [OF "2.prems"(1) burned] Ok burned 2 show ?thesis
        by (fastforce simp: Let_def keep split: if_splits)
    next
      case (Err e)
      with Ok 2 show ?thesis
        by (cases e) (auto simp: Let_def keep split: if_splits)
    qed (use Ok 2 in \<open>auto simp: Let_def split: if_splits\<close>)
  qed (use 2 in \<open>auto split: if_splits\<close>)
qed simp

text \<open>A receipt moves exactly what it reports: from a state that satisfies the rail's invariant,
  total supply and total vault debt both fall by the sum of the burns the call returns as applied
  (seen, deferred, invalid and undecodable logs count nothing).\<close>

theorem receipt_burns_conserve:
  assumes "chain_inv K s" and "apply_receipt_burns_to_state s contract tx receipt = (t, Ok applied)"
  shows "supply_sum t + sum_list (map bl_amount_e8s applied) = supply_sum s
    \<and> debt_sum t + sum_list (map bl_amount_e8s applied) = debt_sum s"
  using apply_receipt_logs_conserve [OF assms(1), of contract tx "rc_block_number receipt" "rc_logs receipt" "[]"] assms(2)
  by (simp add: apply_receipt_burns_to_state_def)

text \<open>A log is absorbed when another pass over it would change nothing.\<close>

definition deferred :: "multi_chain_state \<Rightarrow> u64 \<Rightarrow> bool" where
  "deferred s vid \<longleftrightarrow> (\<exists>v. bm_get (chain_vaults s) vid = Some v
     \<and> (cv_pending_liquidation v \<noteq> None \<or> bs_mem vid (sp_attempted_chain_vaults s)))"

definition log_absorbed :: "string \<Rightarrow> string \<Rightarrow> u64 \<Rightarrow> multi_chain_state \<Rightarrow> raw_log \<Rightarrow> bool" where
  "log_absorbed contract tx block s = (\<lambda>(address, topics, data, log_index).
     \<not> eq_ignore_ascii_case address contract
     \<or> (case topics of t # _ \<Rightarrow> \<not> eq_ignore_ascii_case t burn_event_topic0 | [] \<Rightarrow> True)
     \<or> (case decode_burn_log topics data tx block of
          Ok burn \<Rightarrow> burn_seen s (bl_block_number burn) (burn_key (bl_tx_hash burn) log_index)
                     \<or> deferred s (bl_vault_id burn)
        | _ \<Rightarrow> True))"

definition absorbs_more :: "multi_chain_state \<Rightarrow> multi_chain_state \<Rightarrow> bool" where
  "absorbs_more s t \<longleftrightarrow> chain_contracts t = chain_contracts s \<and> chain_configs t = chain_configs s
     \<and> (\<forall>b k. burn_seen s b k \<longrightarrow> burn_seen t b k) \<and> (\<forall>vid. deferred s vid \<longrightarrow> deferred t vid)"

lemma absorbs_more_refl [simp]: "absorbs_more s s"
  by (simp add: absorbs_more_def)

lemma absorbs_more_trans: "absorbs_more s t \<Longrightarrow> absorbs_more t u \<Longrightarrow> absorbs_more s u"
  by (simp add: absorbs_more_def)

lemma absorbed_mono: "absorbs_more s t \<Longrightarrow> log_absorbed c tx b s l \<Longrightarrow> log_absorbed c tx b t l"
  by (auto simp: log_absorbed_def absorbs_more_def split: prod.splits outcome.splits list.splits)

lemma record_burn_key_absorbs: "absorbs_more s (record_burn_key b k s)" "burn_seen (record_burn_key b k s) b k"
  by (auto simp: absorbs_more_def record_burn_key_def burn_seen_def deferred_def bm_get_or_def
      split: option.splits)

lemma apply_burn_absorbs: "apply_burn_to_state s burn n = Ok t \<Longrightarrow> absorbs_more s t"
proof -
  assume ok: "apply_burn_to_state s burn n = Ok t"
  then obtain v :: chain_vault and u where u: "apply_supply_delta s (cv_collateral_chain v) (Decrease (bl_amount_e8s burn))
        (n - bl_amount_e8s burn) = Ok u"
    and t: "t = update_vault (bl_vault_id burn)
           (\<lambda>w. w\<lparr>cv_debt_e8s := wrap_sub128 (cv_debt_e8s w) (bl_amount_e8s burn)\<rparr>) u"
    by (rule apply_burn_effect) blast
  from apply_supply_delta_frame [OF u] obtain cs where "u = s\<lparr>chain_supplies := cs\<rparr>" ..
  then show ?thesis
    unfolding t absorbs_more_def by (auto simp: burn_seen_def deferred_def update_vault_def)
qed

lemma apply_burn_deferred: "apply_burn_to_state s burn n = Err DeferredLiquidation \<longleftrightarrow> deferred s (bl_vault_id burn)"
proof (cases "bm_get (chain_vaults s) (bl_vault_id burn)")
  case (Some v)
  show ?thesis
    by (cases "apply_supply_delta s (cv_collateral_chain v) (Decrease (bl_amount_e8s burn)) (sat_sub n (bl_amount_e8s burn))")
      (auto simp: apply_burn_to_state_def deferred_def Some Let_def)
qed (simp add: apply_burn_to_state_def deferred_def)

lemma absorbed_skip:
  assumes "log_absorbed contract tx block s l"
  shows "apply_receipt_logs contract tx block (l # logs) s acc = apply_receipt_logs contract tx block logs s acc"
proof -
  obtain address topics data log_index where l: "l = (address, topics, data, log_index)" by (cases l)
  show ?thesis
    using assms apply_burn_deferred [THEN iffD2, of s]
    by (auto simp: l log_absorbed_def Let_def split: outcome.split list.split)
qed

lemma receipt_step:
  assumes run: "apply_receipt_logs contract tx block (l # logs) s acc = (t, Ok applied)"
  obtains s' acc' where "apply_receipt_logs contract tx block logs s' acc' = (t, Ok applied)"
    and "absorbs_more s s'" and "log_absorbed contract tx block s' l"
proof (cases "log_absorbed contract tx block s l")
  case True
  with run show ?thesis using that by (simp add: absorbed_skip)
next
  case False
  obtain address topics data log_index where l: "l = (address, topics, data, log_index)" by (cases l)
  with False obtain burn where burn: "decode_burn_log topics data tx block = Ok burn"
    by (auto simp: log_absorbed_def split: outcome.splits)
  let ?k = "burn_key (bl_tx_hash burn) log_index" and ?b = "bl_block_number burn"
  have seen: "log_absorbed contract tx block (record_burn_key ?b ?k u) l" for u
    by (simp add: l log_absorbed_def burn record_burn_key_absorbs)
  have fresh: "\<not> burn_seen s ?b ?k" and nd: "\<not> deferred s (bl_vault_id burn)"
    and head: "eq_ignore_ascii_case address contract"
      "\<not> (case topics of t # _ \<Rightarrow> \<not> eq_ignore_ascii_case t burn_event_topic0 | [] \<Rightarrow> True)"
    using False by (auto simp: l log_absorbed_def burn)
  show ?thesis
  proof (cases "apply_burn_to_state s burn (total_chain_vault_debt_e8s s)")
    case (Ok s1)
    have "absorbs_more s (record_burn_key ?b ?k s1)"
      using absorbs_more_trans [OF apply_burn_absorbs [OF Ok] record_burn_key_absorbs(1)] .
    moreover have "apply_receipt_logs contract tx block logs (record_burn_key ?b ?k s1) (acc @ [burn]) = (t, Ok applied)"
      using run head fresh by (simp add: l burn Ok Let_def)
    ultimately show ?thesis using that seen by blast
  next
    case (Err e)
    with run head fresh nd have "apply_receipt_logs contract tx block logs (record_burn_key ?b ?k s) acc = (t, Ok applied)"
      using apply_burn_deferred [of s burn] by (cases e) (auto simp: l burn Let_def)
    then show ?thesis using that seen record_burn_key_absorbs(1) by blast
  qed (use run head fresh in \<open>simp add: l burn Let_def\<close>)
qed

lemma apply_receipt_logs_absorb:
  "apply_receipt_logs contract tx block logs s acc = (t, Ok applied)
   \<Longrightarrow> absorbs_more s t \<and> (\<forall>l \<in> set logs. log_absorbed contract tx block t l)"
proof (induction logs arbitrary: s acc)
  case (Cons l logs)
  from Cons.prems obtain s' acc' where "apply_receipt_logs contract tx block logs s' acc' = (t, Ok applied)"
    and s': "absorbs_more s s'" "log_absorbed contract tx block s' l" by (rule receipt_step)
  from Cons.IH [OF this(1)] s' show ?case using absorbs_more_trans absorbed_mono by (metis set_ConsD)
qed simp

lemma absorbed_all:
  "\<forall>l \<in> set logs. log_absorbed contract tx block s l
   \<Longrightarrow> apply_receipt_logs contract tx block logs s acc = (s, Ok acc)"
  by (induction logs) (simp_all add: absorbed_skip)

text \<open>Re-submitting a burn proof right after it was accepted, in any letter case of the
  transaction hash, returns zero applied burns and leaves the state as it is. Logs that were
  deferred because of a running liquidation stay deferred.\<close>

theorem burn_proof_resubmission:
  assumes "verify_and_apply_burn_proof receipt_of final_of s chain tx = (t, Ok n)"
    and "to_ascii_lowercase tx' = to_ascii_lowercase tx"
  shows "verify_and_apply_burn_proof receipt_of final_of t chain tx' = (t, Ok 0)"
proof -
  let ?tx = "to_ascii_lowercase tx"
  from assms(1) obtain contract receipt applied where
    c: "bm_get (chain_contracts s) chain = Some contract" and r: "receipt_of chain ?tx = Ok (Some receipt)"
    and ok: "rc_success receipt"
      "final_of chain (rc_block_number receipt) (case bm_get (chain_configs s) chain of
         Some c \<Rightarrow> cc_finality_depth c | None \<Rightarrow> 1) = Ok True"
    and run: "apply_receipt_logs contract ?tx (rc_block_number receipt) (rc_logs receipt) s [] = (t, Ok applied)"
    by (auto simp: verify_and_apply_burn_proof_def apply_receipt_burns_to_state_def Let_def and_then_Ok_iff
        split: option.splits outcome.splits if_splits bool.splits prod.splits)
  from apply_receipt_logs_absorb [OF run] have "absorbs_more s t"
    and "apply_receipt_logs contract ?tx (rc_block_number receipt) (rc_logs receipt) t [] = (t, Ok [])"
    by (auto intro: absorbed_all)
  with c r ok show ?thesis
    by (simp add: verify_and_apply_burn_proof_def apply_receipt_burns_to_state_def Let_def assms(2) absorbs_more_def)
qed

section \<open>A replay after pruning\<close>

lemma pruned_seen: "burn_seen (advance_cursor_and_prune s chain fin) b k \<longleftrightarrow> burn_seen s b k \<and> fin < b"
proof -
  have "bm_get m b = None" if "b \<notin> set (bm_keys m)" for m :: "(u64, string bset) bmap"
    using that by (cases "bm_get m b") (force simp: bm_keys_def bm.in_entries_iff [symmetric])+
  then show ?thesis
    by (auto simp: advance_cursor_and_prune_def burn_seen_def bm_get_fold_remove_list Let_def split: option.splits)
qed

lemma prune_frame [simp]:
  "chain_vaults (advance_cursor_and_prune s chain fin) = chain_vaults s"
  "chain_supplies (advance_cursor_and_prune s chain fin) = chain_supplies s"
  "chain_contracts (advance_cursor_and_prune s chain fin) = chain_contracts s"
  "invariant_halted (advance_cursor_and_prune s chain fin) = invariant_halted s"
  "sp_attempted_chain_vaults (advance_cursor_and_prune s chain fin) = sp_attempted_chain_vaults s"
  by (simp_all add: advance_cursor_and_prune_def Let_def)

text \<open>One Burn event of 20 units for vault 1, in block 9 of chain 10143.\<close>

definition sample_receipt :: tx_receipt_with_logs where
  "sample_receipt = \<lparr>rc_tx_hash = Some ''0xab'', rc_success = True, rc_block_number = 9,
     rc_logs = [(''0xcc'', [burn_event_topic0, ''0x1'', ''0xb''], ''0x14'', 3)]\<rparr>"

definition sample_prove :: "multi_chain_state \<Rightarrow> multi_chain_state \<times> (burn_proof_error, u32) outcome" where
  "sample_prove s = verify_and_apply_burn_proof (\<lambda>_ _. Ok (Some sample_receipt)) (\<lambda>_ _ _. Ok True) s 10143 ''0xAB''"

definition sample_contract_state :: multi_chain_state where
  "sample_contract_state = sample_state\<lparr>chain_configs := bm_insert 10143 sample_config bm_empty,
     chain_contracts := bm_insert 10143 ''0xCC'' bm_empty\<rparr>"

lemma sample_decoded: "decode_burn_log [burn_event_topic0, ''0x1'', ''0xb''] ''0x14'' ''0xab'' 9 =
    Ok \<lparr>bl_vault_id = 1, bl_amount_e8s = 20, bl_tx_hash = ''0xab'', bl_block_number = 9\<rparr>"
  by (simp add: decode_burn_log_def eq_ignore_ascii_case_def parse_hex_quantity_def strip_0x_def from_str_radix_16_def
      hex_digit_value_def u128_max_def u64_max_def)

lemma sample_strings: "to_ascii_lowercase ''0xAB'' = ''0xab''" "eq_ignore_ascii_case ''0xcc'' ''0xCC''"
    "eq_ignore_ascii_case burn_event_topic0 burn_event_topic0"
  by (code_simp, code_simp, simp add: eq_ignore_ascii_case_def)

lemma sample_prove_unfold:
  assumes "bm_get (chain_contracts s) 10143 = Some ''0xCC''"
  shows "sample_prove s =
    (if burn_seen s 9 (burn_key ''0xab'' 3) then (s, Ok 0)
     else case apply_burn_to_state s \<lparr>bl_vault_id = 1, bl_amount_e8s = 20, bl_tx_hash = ''0xab'', bl_block_number = 9\<rparr>
                 (total_chain_vault_debt_e8s s) of
            Ok s1 \<Rightarrow> (record_burn_key 9 (burn_key ''0xab'' 3) s1, Ok 1)
          | Err (SupplyInvariant e) \<Rightarrow> (s, Err (BpHalt e))
          | Err DeferredLiquidation \<Rightarrow> (s, Ok 0)
          | Err _ \<Rightarrow> (record_burn_key 9 (burn_key ''0xab'' 3) s, Ok 0)
          | Trap \<Rightarrow> (s, Trap))"
  using assms sample_decoded sample_strings
  by (auto simp: sample_prove_def verify_and_apply_burn_proof_def apply_receipt_burns_to_state_def sample_receipt_def
      Let_def split: outcome.split burn_apply_error.split)

abbreviation sample_log :: burn_log where
  "sample_log \<equiv> \<lparr>bl_vault_id = 1, bl_amount_e8s = 20, bl_tx_hash = ''0xab'', bl_block_number = 9\<rparr>"

definition sample_after :: multi_chain_state where
  "sample_after = record_burn_key 9 (burn_key ''0xab'' 3) (burned_state sample_contract_state sample_log sample_vault 500)"

lemma sample_start:
  "bm_get (chain_vaults sample_contract_state) 1 = Some sample_vault"
  "bm_get (chain_supplies sample_contract_state) 10143 = Some 500"
  "bm_get (chain_contracts sample_contract_state) 10143 = Some ''0xCC''"
  "\<not> burn_seen sample_contract_state 9 (burn_key ''0xab'' 3)"
  "backed sample_contract_state" "burn_ready sample_contract_state sample_log sample_vault 500"
  "chain_inv (\<lambda>_. True) sample_contract_state"
proof -
  show b: "backed sample_contract_state"
    using backed_sample by (simp add: sample_contract_state_def backed_def ledger_sums)
  show "chain_inv (\<lambda>_. True) sample_contract_state"
    using b by (simp add: chain_inv_def) (simp add: vaults_ok_def vault_ok_def supplies_registered_def
        sample_contract_state_def sample_state_def sample_vault_def)
qed (simp_all add: sample_contract_state_def sample_state_def burn_seen_def multi_chain_default_def
    burn_ready_def sample_vault_def)

lemma sample_applied:
  "apply_burn_to_state sample_contract_state sample_log (total_chain_vault_debt_e8s sample_contract_state)
     = Ok (burned_state sample_contract_state sample_log sample_vault 500)"
  using burn_applied_iff [OF sample_start(5), of sample_log sample_vault 500] sample_start by (simp add: sample_vault_def)

lemma sample_prove_first: "sample_prove sample_contract_state = (sample_after, Ok 1)"
  using sample_start sample_applied by (simp add: sample_prove_unfold sample_after_def)

theorem burn_proof_resubmission_witness:
  "verify_and_apply_burn_proof (\<lambda>_ _. Ok (Some sample_receipt)) (\<lambda>_ _ _. Ok True) sample_after 10143 ''0xab''
     = (sample_after, Ok 0)"
  by (rule burn_proof_resubmission [OF sample_prove_first [unfolded sample_prove_def]]) code_simp

theorem receipt_burns_conserve_witness:
  "supply_sum sample_after + 20 = supply_sum sample_contract_state"
proof -
  have "apply_receipt_burns_to_state sample_contract_state ''0xCC'' ''0xab'' sample_receipt = (sample_after, Ok [sample_log])"
    using sample_applied sample_start sample_strings sample_decoded
    by (simp add: apply_receipt_burns_to_state_def sample_receipt_def sample_after_def Let_def)
  from receipt_burns_conserve [OF sample_start(7) this] show ?thesis by simp
qed

text \<open>A receipt with one log that was applied, taken apart and put together again\<close>

lemma one_log_applied:
  assumes "verify_and_apply_burn_proof receipt_of final_of s chain tx = (s1, Ok 1)"
    and "receipt_of chain (to_ascii_lowercase tx) = Ok (Some receipt)" and "rc_logs receipt = [(address, topics, data, idx)]"
    and "decode_burn_log topics data (to_ascii_lowercase tx) (rc_block_number receipt) = Ok burn"
  obtains u where "apply_burn_to_state s burn (total_chain_vault_debt_e8s s) = Ok u"
    and "s1 = record_burn_key (bl_block_number burn) (burn_key (bl_tx_hash burn) idx) u"
    and "\<forall>t w. chain_contracts t = chain_contracts s \<longrightarrow> chain_configs t = chain_configs s
      \<longrightarrow> \<not> burn_seen t (bl_block_number burn) (burn_key (bl_tx_hash burn) idx)
      \<longrightarrow> apply_burn_to_state t burn (total_chain_vault_debt_e8s t) = Ok w
      \<longrightarrow> verify_and_apply_burn_proof receipt_of final_of t chain tx
          = (record_burn_key (bl_block_number burn) (burn_key (bl_tx_hash burn) idx) w, Ok 1)"
proof -
  from assms obtain contract applied where c: "bm_get (chain_contracts s) chain = Some contract" and ok: "rc_success receipt"
      "final_of chain (rc_block_number receipt) (case bm_get (chain_configs s) chain of
         Some c \<Rightarrow> cc_finality_depth c | None \<Rightarrow> 1) = Ok True"
    and run: "apply_receipt_logs contract (to_ascii_lowercase tx) (rc_block_number receipt) [(address, topics, data, idx)] s [] = (s1, Ok applied)"
      "length applied = 1"
    by (auto simp: verify_and_apply_burn_proof_def apply_receipt_burns_to_state_def Let_def and_then_Ok_iff map_err_Ok_iff
        simp del: apply_receipt_logs.simps split: option.splits outcome.splits if_splits bool.splits prod.splits)
  from run assms(4) have head: "eq_ignore_ascii_case address contract"
      "\<not> (case topics of x # _ \<Rightarrow> \<not> eq_ignore_ascii_case x burn_event_topic0 | [] \<Rightarrow> True)"
    by (auto split: if_splits)
  from run assms(4) head obtain u where u: "apply_burn_to_state s burn (total_chain_vault_debt_e8s s) = Ok u"
    and s1: "s1 = record_burn_key (bl_block_number burn) (burn_key (bl_tx_hash burn) idx) u"
    by (auto simp: Let_def split: if_splits outcome.splits burn_apply_error.splits)
  show thesis
  proof (rule that [OF u s1], intro allI impI)
    fix t w
    assume "chain_contracts t = chain_contracts s" "chain_configs t = chain_configs s"
      "\<not> burn_seen t (bl_block_number burn) (burn_key (bl_tx_hash burn) idx)"
      "apply_burn_to_state t burn (total_chain_vault_debt_e8s t) = Ok w"
    with c ok assms(2-4) head show "verify_and_apply_burn_proof receipt_of final_of t chain tx
        = (record_burn_key (bl_block_number burn) (burn_key (bl_tx_hash burn) idx) w, Ok 1)"
      by (simp add: verify_and_apply_burn_proof_def apply_receipt_burns_to_state_def Let_def)
  qed
qed

lemma applied_burn_vault:
  assumes "apply_burn_to_state s burn debt = Ok u"
  obtains v cur where "bm_get (chain_vaults s) (bl_vault_id burn) = Some v"
    and "bm_get (chain_supplies s) (cv_collateral_chain v) = Some cur"
  using assms
  by (auto simp: apply_burn_to_state_def apply_supply_delta_def and_then_Ok_iff map_err_Ok_iff Let_def
      split: option.splits if_splits outcome.splits)

lemma decoded_block: "decode_burn_log topics data tx block = Ok burn \<Longrightarrow> bl_block_number burn = block"
  by (auto simp: decode_burn_log_def and_then_Ok_iff Let_def split: list.splits if_splits option.splits)

text \<open>C22. The record of processed burns outlives neither the cursor nor, with it, the once-only
  promise. Whenever a receipt with one burn log has been applied on balanced books, a second
  submission changes nothing; but after the observer has advanced its finalized cursor to the block
  or past it, the same receipt is applied again, as long as the vault still owes the amount and the
  chain still counts it in its supply: the debt and the supply fall by the burned amount twice.\<close>

theorem pruned_burn_replays:
  assumes "backed s" and "verify_and_apply_burn_proof receipt_of final_of s chain tx = (s1, Ok 1)"
    and "receipt_of chain (to_ascii_lowercase tx) = Ok (Some receipt)" and "rc_logs receipt = [(address, topics, data, idx)]"
    and "decode_burn_log topics data (to_ascii_lowercase tx) (rc_block_number receipt) = Ok burn"
    and "bm_get (chain_vaults s1) (bl_vault_id burn) = Some v1" and "bl_amount_e8s burn \<le> cv_debt_e8s v1"
    and "bm_get (chain_supplies s1) (cv_collateral_chain v1) = Some cur1" and "bl_amount_e8s burn \<le> cur1"
    and "rc_block_number receipt \<le> finalized"
  shows "verify_and_apply_burn_proof receipt_of final_of s1 chain tx = (s1, Ok 0)
    \<and> (\<exists>s2. verify_and_apply_burn_proof receipt_of final_of (advance_cursor_and_prune s1 chain finalized) chain tx = (s2, Ok 1)
        \<and> debt_sum s2 + 2 * bl_amount_e8s burn = debt_sum s \<and> supply_sum s2 + 2 * bl_amount_e8s burn = supply_sum s)"
proof (intro conjI)
  show "verify_and_apply_burn_proof receipt_of final_of s1 chain tx = (s1, Ok 0)"
    by (rule burn_proof_resubmission [OF assms(2)]) simp
  let ?k = "burn_key (bl_tx_hash burn) idx" and ?p = "advance_cursor_and_prune s1 chain finalized"
  from assms(2-5) obtain u where u: "apply_burn_to_state s burn (total_chain_vault_debt_e8s s) = Ok u"
    and s1: "s1 = record_burn_key (bl_block_number burn) ?k u"
    and again: "\<forall>t w. chain_contracts t = chain_contracts s \<longrightarrow> chain_configs t = chain_configs s
      \<longrightarrow> \<not> burn_seen t (bl_block_number burn) ?k \<longrightarrow> apply_burn_to_state t burn (total_chain_vault_debt_e8s t) = Ok w
      \<longrightarrow> verify_and_apply_burn_proof receipt_of final_of t chain tx = (record_burn_key (bl_block_number burn) ?k w, Ok 1)"
    by (rule one_log_applied) blast
  from u obtain v cur where v: "bm_get (chain_vaults s) (bl_vault_id burn) = Some v"
    and cur: "bm_get (chain_supplies s) (cv_collateral_chain v) = Some cur" by (rule applied_burn_vault)
  from u have r: "burn_ready s burn v cur" and u': "u = burned_state s burn v cur"
    by (simp_all add: burn_applied_iff [OF assms(1) v cur])
  have books: "same_books u ?p" unfolding s1 by (rule same_books_trans [OF record_burn_key_books small_writers_books(5)])
  have b: "backed ?p" using burned_state_backed [OF assms(1) v cur r] books by (simp add: same_books_sums u')
  have frame: "chain_vaults ?p = chain_vaults s1" "chain_supplies ?p = chain_supplies s1"
    "chain_contracts ?p = chain_contracts s" "chain_configs ?p = chain_configs s"
    by (simp_all add: s1 u' record_burn_key_def burned_state_def advance_cursor_and_prune_def Let_def)
  have v1: "v1 = v\<lparr>cv_debt_e8s := cv_debt_e8s v - bl_amount_e8s burn\<rparr>"
    using assms(6) by (simp add: s1 u' record_burn_key_def burned_state_def)
  then have r2: "burn_ready ?p burn v1 cur1"
    using r assms(7,9) by (simp add: burn_ready_def s1 u' record_burn_key_def burned_state_def)
  have vs: "bm_get (chain_vaults ?p) (bl_vault_id burn) = Some v1" "bm_get (chain_supplies ?p) (cv_collateral_chain v1) = Some cur1"
    using assms(6,8) by (simp_all add: frame)
  have "\<not> burn_seen ?p (bl_block_number burn) ?k" using assms(10) decoded_block [OF assms(5)] by (simp add: pruned_seen)
  then have "verify_and_apply_burn_proof receipt_of final_of ?p chain tx
      = (record_burn_key (bl_block_number burn) ?k (burned_state ?p burn v1 cur1), Ok 1)"
    using again frame(3,4) by (simp add: burn_applied_iff [OF b vs] r2)
  moreover have debt: "debt_sum ?p = debt_sum u" by (simp add: s1 record_burn_key_def debt_sum_def)
  have "debt_sum (burned_state ?p burn v1 cur1) + 2 * bl_amount_e8s burn = debt_sum s"
      "supply_sum (burned_state ?p burn v1 cur1) + 2 * bl_amount_e8s burn = supply_sum s"
    using burned_state_sums [OF vs r2] burned_state_sums [OF v cur r] same_books_sums [OF books] debt by (simp_all add: u')
  moreover have "debt_sum (record_burn_key x y z) = debt_sum z" "supply_sum (record_burn_key x y z) = supply_sum z" for x y z
    by (simp_all add: record_burn_key_def ledger_sums)
  ultimately show "\<exists>s2. verify_and_apply_burn_proof receipt_of final_of ?p chain tx = (s2, Ok 1)
      \<and> debt_sum s2 + 2 * bl_amount_e8s burn = debt_sum s \<and> supply_sum s2 + 2 * bl_amount_e8s burn = supply_sum s"
    by simp
qed

text \<open>Vault 1 pays 20 units once, and its debt falls by 40.\<close>

theorem pruned_burn_replays_witness:
  "\<exists>s2. sample_prove (advance_cursor_and_prune sample_after 10143 9) = (s2, Ok 1)
     \<and> sample_prove sample_contract_state = (sample_after, Ok 1) \<and> sample_prove sample_after = (sample_after, Ok 0)
     \<and> debt_sum s2 + 40 = debt_sum sample_contract_state"
proof -
  let ?v = "sample_vault\<lparr>cv_debt_e8s := 280\<rparr>"
  have vs: "bm_get (chain_vaults sample_after) (bl_vault_id sample_log) = Some ?v"
    "bm_get (chain_supplies sample_after) (cv_collateral_chain ?v) = Some 480"
    using sample_start by (simp_all add: sample_after_def record_burn_key_def burned_state_def sample_vault_def)
  have ins: "(\<lambda>_ _. Ok (Some sample_receipt)) 10143 (to_ascii_lowercase ''0xAB'') = (Ok (Some sample_receipt) :: (string, tx_receipt_with_logs option) outcome)"
    "rc_logs sample_receipt = [(''0xcc'', [burn_event_topic0, ''0x1'', ''0xb''], ''0x14'', 3)]"
    "decode_burn_log [burn_event_topic0, ''0x1'', ''0xb''] ''0x14'' (to_ascii_lowercase ''0xAB'') (rc_block_number sample_receipt) = Ok sample_log"
    using sample_decoded sample_strings by (simp_all add: sample_receipt_def)
  have le: "bl_amount_e8s sample_log \<le> cv_debt_e8s ?v" "bl_amount_e8s sample_log \<le> 480" "rc_block_number sample_receipt \<le> 9"
    by (simp_all add: sample_receipt_def)
  show ?thesis
    using pruned_burn_replays [OF sample_start(5) sample_prove_first [unfolded sample_prove_def] ins vs(1) le(1) vs(2) le(2,3),
        folded sample_prove_def] sample_prove_first
    by auto
qed

end
