(* ===== verification/Sample_Run.thy ===== *)
theory Sample_Run
  imports Chain_Machine
begin

text \<open>
  A concrete run of the foreign-chain rail: chain 10143 is registered, vault 1 is opened with 2 units
  of native collateral at 2 dollars each, its deposit is verified and its mint of one icUSD confirms.
  The witnesses of the properties start from these states, which leave the settlement queue open.
\<close>

definition run_contract :: multi_chain_state where
  "run_contract = (rs_chain sample_rail)\<lparr>chain_contracts := bm_insert 10143 ''0xCC'' bm_empty\<rparr>"

definition run_funded :: "(chain_id, settlement_queue) bmap \<Rightarrow> multi_chain_state" where
  "run_funded Q = run_contract\<lparr>settlement_queues := Q,
     chain_vaults := bm_insert 1 (sample_new_vault\<lparr>cv_status := MintPending\<rparr>) bm_empty\<rparr>"

definition run_minted_vault :: chain_vault where
  "run_minted_vault = sample_new_vault\<lparr>cv_debt_e8s := 100000000, cv_pending_mint_e8s := 0, cv_status := Open,
     cv_last_interest_accrual_ns := 9\<rparr>"

definition run_minted :: "(chain_id, settlement_queue) bmap \<Rightarrow> multi_chain_state" where
  "run_minted Q = run_contract\<lparr>settlement_queues := Q, chain_supplies := bm_insert 10143 100000000 bm_empty,
     chain_vaults := bm_insert 1 run_minted_vault bm_empty\<rparr>"

lemma run_base:
  "chain_vaults run_contract = bm_insert 1 sample_new_vault bm_empty"
  "chain_supplies run_contract = bm_insert 10143 0 bm_empty"
  "chain_contracts run_contract = bm_insert 10143 ''0xCC'' bm_empty"
  "chain_bad_debt_circuit_tripped_at_ns run_contract = bm_empty" "invariant_halted run_contract = False"
  "reserve_backing_e8s run_contract = bm_empty" "pending_chain_burn_e8s run_contract = bm_empty"
  "chain_liquidation_claims run_contract = bm_empty" "sp_attempted_chain_vaults run_contract = bs_empty"
  "bot_pending_chain_vaults run_contract = bm_empty"
  "settlement_queues run_contract = bm_insert 10143 settlement_queue_default bm_empty"
  by (simp_all add: run_contract_def sample_rail_def sample_registered_def set_manual_price_def multi_chain_default_def)

lemma run_deposit: "\<exists>Q. verify_deposit_and_enqueue_mint_in_state run_contract 1 2000000000000000000 8 = Ok (run_funded Q, True)"
  by (simp add: verify_deposit_and_enqueue_mint_in_state_def run_base sample_new_vault_def Let_def update_vault_def
      chain_bad_debt_circuit_tripped_def enqueue_in_state_def enqueue_def settlement_queue_default_def run_funded_def
      bm_modify_def) (rule exI, rule refl)

definition run_mint_op :: settlement_op where
  "run_mint_op = settlement_op_new (Mint ''0xr'' 100000000 1) ''k'' 8"

definition run_mint_log :: swept_log where
  "run_mint_log = ([mint_event_topic0, ''0x1'', ''0xr''], ''0x5f5e100'', ''0xee'', 9, 0)"

lemma run_mint_decoded: "decode_mint_log [mint_event_topic0, ''0x1'', ''0xr''] ''0x5f5e100'' ''0xee'' 9
    = Ok \<lparr>ml_vault_id = 1, ml_recipient = ''0xr'', ml_amount_e8s = 100000000, ml_tx_hash = ''0xee'', ml_block_number = 9\<rparr>"
proof -
  have "parse_hex_quantity ''0x1'' = Ok 1" "parse_hex_quantity ''0x5f5e100'' = Ok 100000000"
    by (simp_all add: parse_hex_quantity_def strip_0x_def from_str_radix_16_def hex_digit_value_def u128_max_def)
  moreover have "topic_address ''0xr'' = ''0xr''" by code_simp
  ultimately show ?thesis by (simp add: decode_mint_log_def eq_ignore_ascii_case_def u64_max_def)
qed

lemma run_confirm:
  "\<exists>Q'. confirm_op_final (run_funded Q) 10143 0 run_mint_op ''0xee'' [run_mint_log] ''0xres'' 9 = run_minted Q'"
proof -
  have m: "match_mint_log ''0xee'' 1 [run_mint_log] = Some (100000000, ''0xr'')"
    using run_mint_decoded by (simp add: match_mint_log_def run_mint_log_def eq_ignore_ascii_case_def List.map_filter_def)
  have "confirm_mint_in_state (run_funded Q) 10143 1 100000000 (total_chain_vault_debt_e8s (run_funded Q)) 9 = Ok (run_minted Q)"
    by (simp add: confirm_mint_in_state_def run_funded_def run_minted_def run_base sample_new_vault_def
        run_minted_vault_def apply_supply_delta_def total_chain_vault_debt_e8s_def chain_backing_rhs_e8s_def
        total_reserve_backing_e8s_def total_pending_chain_burn_e8s_def bm_values_def update_vault_def bm_modify_def
        rust_arith Let_def)
  moreover have "bm_has (chain_contracts (run_funded Q)) 10143"
    "bm_get (chain_vaults (run_funded Q)) 1 = Some (sample_new_vault\<lparr>cv_status := MintPending\<rparr>)"
    by (simp_all add: run_funded_def run_base)
  ultimately have "confirm_op_final (run_funded Q) 10143 0 run_mint_op ''0xee'' [run_mint_log] ''0xres'' 9
      = finish_op 10143 0 ''0xee'' 9 (run_minted Q)"
    using m by (simp add: confirm_op_final_def run_mint_op_def settlement_op_new_def sample_new_vault_def
        eq_ignore_ascii_case_def)
  also have "\<dots> = run_minted (settlement_queues (finish_op 10143 0 ''0xee'' 9 (run_minted Q)))"
    by (simp add: finish_op_def update_op_def run_minted_def)
  finally show ?thesis by blast
qed

lemma run_mint_room: "mint_room (run_funded Q)"
  by (auto simp: mint_room_def run_funded_def run_base supply_sum_def sample_new_vault_def u128_max_def split: if_splits)

lemma run_action:
  assumes "(rail_step sample_decimal show_nat)\<^sup>*\<^sup>* rail_init (sample_rail\<lparr>rs_chain := s\<rparr>)"
    and "chain_action sample_decimal show_nat s t"
  shows "(rail_step sample_decimal show_nat)\<^sup>*\<^sup>* rail_init (sample_rail\<lparr>rs_chain := t\<rparr>)"
  using rail_step.action [of sample_decimal show_nat "sample_rail\<lparr>rs_chain := s\<rparr>" t] assms
  by (simp add: rtranclp.rtrancl_into_rtrancl)

lemma run_minted_reachable:
  "\<exists>Q. (rail_step sample_decimal show_nat)\<^sup>*\<^sup>* rail_init (sample_rail\<lparr>rs_chain := run_minted Q\<rparr>)"
proof -
  let ?R = "rail_step sample_decimal show_nat" and ?at = "\<lambda>s. sample_rail\<lparr>rs_chain := s\<rparr>"
  note step = run_action
  have "?R\<^sup>*\<^sup>* rail_init (?at (rs_chain sample_rail))" using sample_rail_reachable by simp
  moreover have "chain_action sample_decimal show_nat (rs_chain sample_rail) run_contract"
  proof -
    have "chain_contracts (rs_chain sample_rail) = bm_empty"
      by (simp add: sample_rail_def sample_registered_def set_manual_price_def multi_chain_default_def)
    then show ?thesis
      using chain_action.set_contract [of sample_decimal show_nat "rs_chain sample_rail" 10143 "''0xCC''"]
      by (simp add: run_contract_def)
  qed
  ultimately have r1: "?R\<^sup>*\<^sup>* rail_init (?at run_contract)" by (rule step)
  obtain Q where "verify_deposit_and_enqueue_mint_in_state run_contract 1 2000000000000000000 8 = Ok (run_funded Q, True)"
    using run_deposit by blast
  then have "chain_action sample_decimal show_nat run_contract (run_funded Q)" by (rule chain_action.verify_deposit)
  from step [OF r1 this] have r2: "?R\<^sup>*\<^sup>* rail_init (?at (run_funded Q))" .
  obtain Q1 where "confirm_op_final (run_funded Q) 10143 0 run_mint_op ''0xee'' [run_mint_log] ''0xres'' 9 = run_minted Q1"
    using run_confirm by blast
  with chain_action.confirm_final [OF run_mint_room] step [OF r2]
  have r3: "?R\<^sup>*\<^sup>* rail_init (?at (run_minted Q1))" by metis
  then show ?thesis by blast
qed
section \<open>A run that seizes collateral\<close>

text \<open>The liquidation swap of vault 1 fails, and the stability pool absorbs its debt against 0.56
  units of collateral.\<close>

definition run_escalated :: "(chain_id, settlement_queue) bmap \<Rightarrow> multi_chain_state" where
  "run_escalated Q = (run_minted Q)\<lparr>bot_pending_chain_vaults := bm_remove 1 bm_empty,
     sp_attempted_chain_vaults := bs_insert 1 bs_empty\<rparr>"

definition run_claim :: chain_liq_claim where
  "run_claim = \<lparr>cl_vault_id = 1, cl_chain = 10143, cl_custody_address = ''0xc'',
     cl_seized_native_total = 560000000000000000, cl_paid_native = 0, cl_pending_native = 0\<rparr>"

lemma run_escalate: "\<exists>Q'. escalate_failed_swap (run_minted Q) 10143 7 1 ''swap reverted on-chain'' 10 = run_escalated Q'"
  by (rule exI [of _ "settlement_queues (escalate_failed_swap (run_minted Q) 10143 7 1 ''swap reverted on-chain'' 10)"])
    (simp add: escalate_failed_swap_def run_minted_def run_escalated_def run_base update_op_def update_vault_def
      bm_modify_def run_minted_vault_def sample_new_vault_def Let_def)

lemma run_absorb:
  "\<exists>t r. apply_sp_chain_liquidation_absorb_in_state (run_escalated Q) 10143 1 100000000 200000000 18 1200 = Ok (t, r)
     \<and> bm_get (chain_liquidation_claims t) 1 = Some run_claim"
  by (simp add: apply_sp_chain_liquidation_absorb_in_state_def run_escalated_def run_minted_def run_base
      run_minted_vault_def sample_new_vault_def bonus_e4_from_penalty_bps_def collateral_in_native_for_repay_def
      apply_debt_to_pending_burn_shift_def total_chain_vault_debt_e8s_def chain_backing_rhs_e8s_def
      total_reserve_backing_e8s_def total_pending_chain_burn_e8s_def bm_values_def update_vault_def bm_modify_def
      total_supply_all_chains_e8s_def run_claim_def rust_arith Let_def)

end
