(* ===== verification/Claim_Guarantees.thy ===== *)
theory Claim_Guarantees
  imports Sample_Run
begin

text \<open>
  Seized collateral is paid out at most once. A claim opened by a stability-pool absorb fixes how
  much collateral was seized; payouts reserve, pay or release parts of it. The invariant that paid
  plus reserved never exceeds the seizure holds in every reachable state of the rail.
\<close>

section \<open>Who writes the claims\<close>

definition same_claims :: "multi_chain_state \<Rightarrow> multi_chain_state \<Rightarrow> bool" where
  "same_claims s t \<longleftrightarrow> chain_liquidation_claims t = chain_liquidation_claims s"

named_theorems claim_frames \<open>operations that leave the claims alone\<close>

lemma same_claims_refl [simp]: "same_claims s s"
  by (simp add: same_claims_def)

lemma same_claims_trans: "same_claims s t \<Longrightarrow> same_claims t u \<Longrightarrow> same_claims s u"
  by (simp add: same_claims_def)

lemma same_claims_writers [simp]:
  "same_claims s (update_vault vid f s)" "same_claims s (update_op c i g s)"
  "same_claims s (record_burn_key b k s)" "same_claims s (advance_cursor_and_prune s c fin)"
  by (simp_all add: same_claims_def update_vault_def update_op_def record_burn_key_def advance_cursor_and_prune_def Let_def)

lemma enqueue_claims: "enqueue_in_state s c op = Ok (t, i) \<Longrightarrow> same_claims s t"
  by (auto simp: enqueue_in_state_def same_claims_def split: outcome.splits)

lemma reserving_claims: "reserving s vid t \<Longrightarrow> same_claims s t"
  by (auto simp: reserving_def intro: same_claims_trans [OF enqueue_claims])

lemma vault_requests_claims [claim_frames]:
  "verify_deposit_and_enqueue_mint_in_state s vid bal now = Ok (t, b) \<Longrightarrow> same_claims s t"
  "withdraw_collateral_in_state D s vid amt dest valid symbol min_cr now = Ok t \<Longrightarrow> same_claims s t"
  "borrow_chain_vault_in_state s vid amt rcpt valid symbol min_cr min_debt ceiling now = Ok t \<Longrightarrow> same_claims s t"
  by (metis verify_deposit_effect reserving_claims same_claims_refl)
    (metis withdraw_effect reserving_claims, metis borrow_effect reserving_claims)

lemma close_claims [claim_frames]:
  "close_chain_vault_in_state D s vid dest valid symbol min_cr now = Ok t \<Longrightarrow> same_claims s t"
  by (auto simp: close_chain_vault_in_state_def vault_requests_claims(2) split: option.splits if_splits)

lemma begin_claims [claim_frames]:
  "begin_liquidation_in_state D s vid valid symbol threshold now = Ok (t, i) \<Longrightarrow> same_claims s t"
  by (auto dest!: begin_liquidation_effect reserving_claims simp: same_claims_def)

lemma prune_awaiting_claims [claim_frames]: "same_claims s (fst (prune_stale_awaiting_deposit s now ttl))"
  by (simp add: prune_stale_awaiting_deposit_def same_claims_def Let_def)

lemma escalate_one_claims: "same_claims (fst st) (fst (escalate_one chain now e st))"
  by (auto simp: escalate_one_def Let_def same_claims_def update_vault_def update_op_def split: prod.splits option.splits)

lemma escalate_claims [claim_frames]:
  "same_claims s (fst (escalate_timed_out_bot_liquidations_in_state s chain now timeout n))"
proof -
  have "same_claims (fst st) (fst (fold (escalate_one chain now) es st))" for es st
  proof (induction es arbitrary: st)
    case (Cons e es)
    show ?case using same_claims_trans [OF escalate_one_claims Cons.IH] by simp
  qed simp
  from this [of "(s, [])"] show ?thesis by (simp add: escalate_timed_out_bot_liquidations_in_state_def)
qed

lemma drop_routing_claims: "same_claims s (fold drop_routing es s)"
proof (induction es arbitrary: s)
  case (Cons e es)
  have "same_claims s (drop_routing e s)" by (cases e) (simp add: drop_routing_def same_claims_def Let_def)
  then show ?case using Cons.IH same_claims_trans by (metis fold_simps(2))
qed simp

lemma route_candidates_claims:
  "route_candidates D symbol threshold now vids s n = Some (t, m) \<Longrightarrow> same_claims s t"
proof (induction vids arbitrary: s n)
  case (Cons vid vids)
  then show ?case
    by (auto split: outcome.splits prod.splits dest: begin_claims intro: same_claims_trans)
qed simp

lemma detect_claims [claim_frames]:
  assumes "detect_and_route_chain_liquidations_in_state D s chain symbol threshold now n = Some (t, m)"
  shows "same_claims s t"
proof -
  from assms obtain u where u: "prune_recovered_chain_routing_state D s chain symbol threshold now = Some u"
    by (auto simp: detect_and_route_chain_liquidations_in_state_def bind_eq_Some_conv)
  have "t = u \<or> (\<exists>cs. route_candidates D symbol threshold now cs u 0 = Some (t, m))"
    using assms unfolding detect_and_route_chain_liquidations_in_state_def u bind.bind_lunit
    by (cases "fresh_chain_price_e8 u chain symbol now (max_price_age_of u chain)")
      (auto simp: bind_eq_Some_conv split: if_splits)
  moreover have "same_claims s u"
    using u by (auto simp: prune_recovered_chain_routing_state_def Let_def drop_routing_claims)
  ultimately show ?thesis using route_candidates_claims same_claims_trans by blast
qed

lemma credit_deposit_claims [claim_frames]: "credit_deposit_to_state s vid amt = Ok t \<Longrightarrow> same_claims s t"
  by (auto simp: credit_deposit_to_state_def split: if_splits)

lemma supply_delta_claims: "apply_supply_delta s c d n = Ok t \<Longrightarrow> same_claims s t"
  using apply_supply_delta_frame [of s c d n t] by (auto simp: same_claims_def)

lemma apply_burn_claims: "apply_burn_to_state s burn n = Ok t \<Longrightarrow> same_claims s t"
  by (erule apply_burn_effect) (auto dest: supply_delta_claims intro: same_claims_trans)

lemma receipt_logs_claims: "same_claims s (fst (apply_receipt_logs contract tx block logs s applied))"
proof (induction contract tx block logs s applied rule: apply_receipt_logs.induct)
  case (2 contract tx block address topics data log_index logs s applied)
  then show ?case
    by (auto simp: Let_def same_claims_def record_burn_key_def apply_burn_claims [unfolded same_claims_def]
        split: outcome.splits burn_apply_error.splits)
qed simp

lemma burn_proof_claims [claim_frames]:
  "same_claims s (fst (verify_and_apply_burn_proof receipt_of final_of s chain tx))"
  using receipt_logs_claims
  by (auto simp: verify_and_apply_burn_proof_def apply_receipt_burns_to_state_def Let_def
      split: option.split outcome.split bool.split prod.split) (metis fst_conv)+

lemma sweep_claims: "same_claims s (fst (sweep_burn_logs logs s))"
proof (induction logs s rule: sweep_burn_logs.induct)
  case (2 topics data tx block log_index logs s)
  then show ?case
    by (auto simp: Let_def same_claims_def record_burn_key_def apply_burn_claims [unfolded same_claims_def]
        split: outcome.splits burn_apply_error.splits)
qed simp


lemma observe_claims [claim_frames]: "same_claims s (observer_burn_tick chain fin probe fetched s)"
proof -
  have sweep: "same_claims u (sweep_and_advance chain fin logs u)" for u logs
    using sweep_claims [of u logs] same_claims_trans [OF _ same_claims_writers(4)]
    by (auto simp: sweep_and_advance_def split: prod.splits)
  show ?thesis
    unfolding observer_burn_tick_def Let_def
    using sweep by (auto simp: same_claims_def advance_cursor_and_prune_def Let_def split: prod.split outcome.split)
qed

lemma ledger_claims [claim_frames]:
  assumes "ledger_step m s = Ok t"
  shows "same_claims s t"
proof -
  have settle: "same_claims s t" if "settle_backing_burn s ch a trm = Ok t" for s ch a trm t
    using that by (cases trm) (auto simp: settle_backing_burn_def Let_def same_claims_def split: if_splits option.splits)
  show ?thesis
  proof (cases m)
    case (SettlePendingProof ch p n)
    with assms have "settle_pending_chain_burn_with_verified_proof s ch p n = Ok t" by simp
    then show ?thesis by (rule pending_proof_Ok) (auto dest!: settle simp: settle_pending_chain_burn_def same_claims_def)
  next
    case (SettleReserveProof ch p n)
    with assms have "settle_reserve_burn_with_verified_proof s ch p n = Ok t" by simp
    then show ?thesis by (rule reserve_proof_Ok) (auto dest!: settle simp: settle_reserve_burn_def same_claims_def)
  next
    case (DebtToReserve ch v a n)
    with assms show ?thesis
      by (auto simp: apply_debt_to_reserve_shift_def Let_def same_claims_def split: option.splits if_splits)
  next
    case (DebtToPending ch v a)
    with assms show ?thesis
      by (auto simp: apply_debt_to_pending_burn_shift_def Let_def same_claims_def split: option.splits if_splits)
  next
    case (PendingToSupply ch a)
    with assms show ?thesis
      by (auto simp: apply_pending_burn_to_supply_shift_def Let_def same_claims_def split: option.splits if_splits)
  qed (use assms settle in \<open>auto simp: settle_pending_chain_burn_def settle_reserve_burn_def\<close>)
qed

lemma confirm_mints_claims:
  "confirm_mint_in_state s chain vid n d now = Ok t \<Longrightarrow> same_claims s t"
  "confirm_interest_mint_in_state s chain vid n through d = Ok u \<Longrightarrow> same_claims s u"
  by (auto simp: confirm_mint_in_state_def confirm_interest_mint_in_state_def and_then_Ok_iff
      dest!: supply_delta_claims intro: same_claims_trans split: option.splits if_splits)

lemma settlement_claims:
  assumes "apply_liquidation_settlement_in_state s chain vid i realized dec now = Ok (t, r)"
  shows "same_claims s t"
  using assms
proof (rule liquidation_settlement_effect)
  fix v m u s2
  assume u: "apply_debt_to_reserve_shift s chain vid (sl_actual_cleared r) realized = Ok u"
    and s2: "s2 = fst (record_chain_bad_debt_and_maybe_trip u chain (sl_bad_debt_added_e8s r) now)"
    and t: "t = (update_vault vid clear_marker s2)\<lparr>bot_pending_chain_vaults := bm_remove vid (bot_pending_chain_vaults s2)\<rparr>"
  have "same_claims s u" using ledger_claims [of "DebtToReserve chain vid (sl_actual_cleared r) realized" s u] u by simp
  moreover have "same_claims u s2"
    unfolding s2 by (auto simp: record_chain_bad_debt_and_maybe_trip_def same_claims_def Let_def split: option.splits)
  ultimately show ?thesis unfolding t by (simp add: same_claims_def update_vault_def)
qed

lemma fail_swap_claims [claim_frames]: "same_claims s (escalate_failed_swap s chain i vid reason now)"
  by (simp add: escalate_failed_swap_def same_claims_def Let_def update_vault_def update_op_def)

lemma not_mined_claims [claim_frames]: "same_claims s (fst (confirm_op_not_mined s chain i op now))"
  by (auto simp: confirm_op_not_mined_def fail_swap_claims Let_def
      split: settlement_op_kind.splits settlement_op_status.splits prod.splits)

lemma reverse_claims: "same_claims s (reverse_effect k s)"
  by (cases k) simp_all

lemma admin_claims [claim_frames]:
  "claim_liquidation_swap_submit_in_state s chain i vid now tx nonce = Ok t \<Longrightarrow> same_claims s t"
  "claim_chain_collateral_payout_submit_in_state s chain i now tx nonce = Ok t \<Longrightarrow> same_claims s t"
  "record_chain_collateral_payout_replacement_in_state s chain i now tx = Ok t \<Longrightarrow> same_claims s t"
  "register_chain_in_state s arg now = Ok (t, cfg) \<Longrightarrow> same_claims s t"
  "disable_chain_in_state s chain = Ok t \<Longrightarrow> same_claims s t"
  "delete_chain_in_state s chain = Ok t \<Longrightarrow> same_claims s t"
  "update_chain_config_in_state s chain upd = Ok t \<Longrightarrow> same_claims s t"
  "set_chain_bad_debt_circuit_threshold s chain th now = Ok t \<Longrightarrow> same_claims s t"
  "same_claims s (fst (clear_chain_bad_debt_circuit s chain))"
  "consume_evm_nonce s owner n = Ok t \<Longrightarrow> same_claims s t"
  "same_claims s (set_manual_price s chain symbol p now)"
  "same_claims s (stamp_chain_interest_accrual_start s now)"
  by (auto simp: claim_liquidation_swap_submit_in_state_def claim_chain_collateral_payout_submit_in_state_def
      record_chain_collateral_payout_replacement_in_state_def register_chain_in_state_def disable_chain_in_state_def
      delete_chain_in_state_def update_chain_config_in_state_def set_chain_bad_debt_circuit_threshold_def
      clear_chain_bad_debt_circuit_def consume_evm_nonce_def set_manual_price_def
      stamp_chain_interest_accrual_start_def same_claims_def update_op_def Let_def
      split: option.splits if_splits settlement_op_status.splits)

lemma config_claims [claim_frames]:
  "same_claims s (s\<lparr>chain_contracts := a\<rparr>)" "same_claims s (s\<lparr>chain_liquidation_configs := b\<rparr>)"
  "same_claims s (s\<lparr>chain_debt_configs := c\<rparr>)" "same_claims s (s\<lparr>reorg_halted := d, reorg_suspect_streak := e\<rparr>)"
  "same_claims s (s\<lparr>last_observed_block := f\<rparr>)" "same_claims s (s\<lparr>hot_wallet_balance_e18 := g\<rparr>)"
  "same_claims s (s\<lparr>evm_owner_nonces := h\<rparr>)" "same_claims s (s\<lparr>chain_configs := k\<rparr>)"
  by (simp_all add: same_claims_def)

lemma recovery_claims [claim_frames]:
  "resolve_stuck_settlement_op_verified receipts s chain i now = Ok (t, b) \<Longrightarrow> same_claims s t"
  "recover_stuck_chain_vault_verified receipts supply_at s chain vid = Ok t \<Longrightarrow> same_claims s t"
proof -
  have undo: "same_claims s (update_op c j g (reverse_effect k s))" for c j g k
    using reverse_claims same_claims_writers(2) by (rule same_claims_trans)
  show "same_claims s t" if "resolve_stuck_settlement_op_verified receipts s chain i now = Ok (t, b)"
    using that
    by (auto simp: resolve_stuck_settlement_op_verified_def apply_resolve_reversal_in_state_def and_then_Ok_iff undo
        simp del: reverse_effect.simps split: option.splits if_splits)
  show "same_claims s t" if "recover_stuck_chain_vault_verified receipts supply_at s chain vid = Ok t"
    using that
    by (auto simp: recover_stuck_chain_vault_verified_def apply_recover_vault_in_state_def and_then_Ok_iff Let_def
        split: option.splits if_splits)
qed

section \<open>Claims are never overpaid\<close>

definition claim_ok :: "chain_liq_claim \<Rightarrow> bool" where
  "claim_ok c \<longleftrightarrow> cl_paid_native c + cl_pending_native c \<le> cl_seized_native_total c
     \<and> cl_seized_native_total c \<le> u128_max"

definition claims_ok :: "multi_chain_state \<Rightarrow> bool" where
  "claims_ok s \<longleftrightarrow> (\<forall>cid c. bm_get (chain_liquidation_claims s) cid = Some c \<longrightarrow> claim_ok c)"

lemma same_claims_ok: "same_claims s t \<Longrightarrow> claims_ok s \<Longrightarrow> claims_ok t"
  by (simp add: same_claims_def claims_ok_def)

lemma claims_ok_insert:
  "claims_ok s \<Longrightarrow> claim_ok c \<Longrightarrow> chain_liquidation_claims t = bm_insert cid c (chain_liquidation_claims s) \<Longrightarrow> claims_ok t"
  by (auto simp: claims_ok_def)

lemma claims_ok_put:
  "claims_ok s \<Longrightarrow> claim_ok c
   \<Longrightarrow> claims_ok (s\<lparr>chain_liquidation_claims := bm_insert cid c (chain_liquidation_claims s)\<rparr>)"
  by (auto simp: claims_ok_def)

lemma remaining_exact:
  "claim_ok c \<Longrightarrow> remaining_native c = cl_seized_native_total c - (cl_paid_native c + cl_pending_native c)"
  by (simp add: claim_ok_def remaining_native_def)

lemma sp_absorb_claims_ok:
  assumes ok: "claims_ok s"
    and run: "apply_sp_chain_liquidation_absorb_in_state s chain vid burned price dec penalty = Ok (t, r)"
  shows "claims_ok t"
proof (cases "bm_get (chain_vaults s) vid")
  case (Some v)
  let ?seized = "min (collateral_in_native_for_repay burned (bonus_e4_from_penalty_bps penalty) dec price)
                     (cv_collateral_amount_native v)"
  from run obtain u f where u: "apply_debt_to_pending_burn_shift s chain vid burned = Ok u"
    and t: "chain_liquidation_claims t = bm_insert vid \<lparr>cl_vault_id = vid, cl_chain = chain,
         cl_custody_address = cv_custody_address v, cl_seized_native_total = ?seized, cl_paid_native = 0,
         cl_pending_native = 0\<rparr> (chain_liquidation_claims (update_vault vid f u))"
    by (fastforce simp: apply_sp_chain_liquidation_absorb_in_state_def Some and_then_Ok_iff Let_def)
  have "claims_ok (update_vault vid f u)"
    using ledger_claims [of "DebtToPending chain vid burned" s u] u same_claims_ok [OF _ ok]
      same_claims_ok [OF same_claims_writers(1)] by simp
  moreover have "collateral_in_native_for_repay a b d p \<le> u128_max" for a b d p
  proof -
    have "sat_mul128 x y div p \<le> u128_max" for x y
      using div_le_dividend [of "sat_mul128 x y" p] by (simp add: sat_mul128_def)
    then show ?thesis by (simp add: collateral_in_native_for_repay_def Let_def)
  qed
  ultimately show ?thesis using t by (intro claims_ok_insert [OF _ _ t]) (simp_all add: claim_ok_def min.coboundedI1)
qed (use run in \<open>simp add: apply_sp_chain_liquidation_absorb_in_state_def\<close>)

lemma claim_claims_ok:
  assumes ok: "claims_ok s"
    and run: "claim_chain_collateral_in_state ptext s cid who owed dest now valid = Ok (t, i)"
  shows "claims_ok t"
proof -
  from run obtain c op u where c: "bm_get (chain_liquidation_claims s) cid = Some c"
    and le: "owed \<le> remaining_native c" and u: "enqueue_in_state s (cl_chain c) op = Ok (u, i)"
    and t: "t = u\<lparr>chain_liquidation_claims := bm_insert cid (c\<lparr>cl_pending_native := cl_pending_native c + owed\<rparr>)
                    (chain_liquidation_claims u)\<rparr>"
    by (fastforce simp: claim_chain_collateral_in_state_def and_then_Ok_iff Let_def checked_add128_def
        split: option.splits if_splits)
  have cok: "claim_ok c" using ok c by (simp add: claims_ok_def)
  then have "claim_ok (c\<lparr>cl_pending_native := cl_pending_native c + owed\<rparr>)"
    using le remaining_exact [OF cok] by (auto simp: claim_ok_def)
  moreover have "claims_ok u" using same_claims_ok [OF enqueue_claims [OF u] ok] .
  ultimately show ?thesis using claims_ok_insert [of u] t by simp
qed

lemma confirm_payout_claims_ok:
  assumes ok: "claims_ok s" and run: "confirm_chain_collateral_payout_in_state s chain i tx now = Ok (t, b)"
  shows "claims_ok t"
proof (cases "t = s")
  case False
  from run obtain op where op: "find_op s chain i = Some op"
    by (auto simp: confirm_chain_collateral_payout_in_state_def split: option.splits)
  from run False op obtain x amt cid y where k: "op_kind op = ChainCollateralPayout x amt cid y"
    by (auto simp: confirm_chain_collateral_payout_in_state_def
        split: settlement_op_status.splits settlement_op_kind.splits)
  from run False op k obtain c where c: "bm_get (chain_liquidation_claims s) cid = Some c"
    by (auto simp: confirm_chain_collateral_payout_in_state_def split: settlement_op_status.splits option.splits)
  have cok: "claim_ok c" using ok c by (simp add: claims_ok_def)
  let ?moved = "c\<lparr>cl_pending_native := cl_pending_native c - amt, cl_paid_native := cl_paid_native c + amt\<rparr>"
  from run False op k c have "t = update_op chain i (mark_succeeded tx now)
        (s\<lparr>chain_liquidation_claims := bm_insert cid c (chain_liquidation_claims s)\<rparr>)
     \<or> amt \<le> cl_pending_native c \<and> t = update_op chain i (mark_succeeded tx now)
        (s\<lparr>chain_liquidation_claims := bm_insert cid ?moved (chain_liquidation_claims s)\<rparr>)"
    by (auto simp: confirm_chain_collateral_payout_in_state_def Let_def checked_add128_def
        split: settlement_op_status.splits if_splits)
  moreover have "claim_ok ?moved" if "amt \<le> cl_pending_native c" using cok that by (auto simp: claim_ok_def)
  ultimately show ?thesis
    using same_claims_ok [OF same_claims_writers(2)] claims_ok_put [OF ok] cok by blast
qed (use ok in simp)

lemma claim_ok_release:
  "claim_ok c \<Longrightarrow> claim_ok (c\<lparr>cl_pending_native := cl_pending_native c - a\<rparr>)"
  "claim_ok c \<Longrightarrow> claim_ok (c\<lparr>cl_paid_native := cl_paid_native c - a\<rparr>)"
  by (auto simp: claim_ok_def)

lemma release_claims_ok:
  assumes ok: "claims_ok s"
  shows "claims_ok (fst (release_reservation s chain cid amt p))"
proof (cases "bm_get (chain_liquidation_claims s) cid")
  case (Some c)
  then have c: "claim_ok c" using ok by (simp add: claims_ok_def)
  show ?thesis
    using ok claim_ok_release [OF c] Some
    by (simp add: release_reservation_def Let_def claims_ok_put)
qed (use ok in \<open>simp add: release_reservation_def\<close>)

lemma finished_claims_ok: "claims_ok s \<Longrightarrow> same_claims s t \<Longrightarrow> claims_ok (update_op c i g t)"
  using same_claims_ok same_claims_trans same_claims_writers(2) by blast

lemma fail_payout_claims_ok:
  assumes ok: "claims_ok s" and run: "fail_chain_collateral_payout_in_state s chain i reason now = Ok (t, b)"
  shows "claims_ok t"
proof (cases "t = s")
  case False
  from run obtain op where op: "find_op s chain i = Some op"
    by (auto simp: fail_chain_collateral_payout_in_state_def split: option.splits)
  from run False op obtain x amt cid y where k: "op_kind op = ChainCollateralPayout x amt cid y"
    by (auto simp: fail_chain_collateral_payout_in_state_def
        split: settlement_op_status.splits settlement_op_kind.splits)
  let ?p = "op_payout_uses_pending_reservation op = Some True"
  obtain s1 err where rel: "release_reservation s chain cid amt ?p = (s1, err)" by fastforce
  from run False op k rel obtain r q where "t = (update_op chain i (mark_failed r now) s1)\<lparr>settlement_queues := q\<rparr>"
    by (auto simp: fail_chain_collateral_payout_in_state_def Let_def split: settlement_op_status.splits)
  then show ?thesis
    using release_claims_ok [OF ok, of chain cid amt ?p] rel by (simp add: claims_ok_def update_op_def)
qed (use ok in simp)

lemma confirm_final_claims_ok:
  assumes ok: "claims_ok s"
  shows "claims_ok (confirm_op_final s chain i op tx logs reserve now)"
proof (cases "op_kind op")
  case (ChainCollateralPayout a b c d)
  then show ?thesis
    using ok confirm_payout_claims_ok [OF ok] by (auto simp: confirm_op_final_def split: outcome.splits)
next
  case (Mint a b vid)
  then show ?thesis
    using ok by (auto intro: finished_claims_ok [OF ok] confirm_mints_claims(1) simp: confirm_op_final_def finish_op_def split: option.splits outcome.splits prod.splits)
next
  case (InterestMint vid mid a b c)
  then show ?thesis
    using ok by (auto intro: finished_claims_ok [OF ok] confirm_mints_claims(2) simp: confirm_op_final_def finish_op_def split: option.splits outcome.splits prod.splits)
next
  case (NativeWithdrawal a b vid)
  then show ?thesis
    using ok by (simp add: confirm_op_final_def finish_op_def claims_ok_def update_vault_def update_op_def)
next
  case (LiquidationSwap a b c d e f g h j)
  then show ?thesis
    using ok by (auto intro: finished_claims_ok [OF ok] settlement_claims simp: confirm_op_final_def finish_op_def Let_def split: option.splits outcome.splits)
qed (use ok in \<open>simp add: confirm_op_final_def\<close>)

lemma confirm_reverted_claims_ok:
  assumes ok: "claims_ok s"
  shows "claims_ok (confirm_op_reverted s chain i op rec now)"
proof (cases "op_kind op")
  case (ChainCollateralPayout a b c d)
  then show ?thesis
    using ok fail_payout_claims_ok [OF ok] by (auto simp: confirm_op_reverted_def split: outcome.splits)
qed (use ok same_claims_ok [OF fail_swap_claims ok]
    same_claims_ok [OF same_claims_trans [OF reverse_claims same_claims_writers(2)] ok]
    in \<open>auto simp: confirm_op_reverted_def simp del: reverse_effect.simps\<close>)

lemma chain_action_claims_ok:
  assumes "chain_action D ptext s t" and "claims_ok s"
  shows "claims_ok t"
  using assms
proof (induction rule: chain_action.induct)
  case (mark_submitted s chain i f)
  then show ?case using same_claims_ok same_claims_writers(2) by blast
qed (auto intro: same_claims_ok claim_frames sp_absorb_claims_ok claim_claims_ok confirm_final_claims_ok
    confirm_reverted_claims_ok fail_payout_claims_ok same_claims_writers simp: same_claims_def)

lemma harvest_enqueue_claims: "same_claims s (fst (harvest_enqueue chain treasury now alloc es s c))"
proof (induction es arbitrary: s c)
  case (Cons e es)
  obtain vid amount where e: "e = (vid, amount)" by (cases e)
  obtain mint_id c1 where a: "alloc c = (mint_id, c1)" by (cases "alloc c")
  let ?op = "settlement_op_new (InterestMint vid mint_id amount now treasury) (dash_key ''interest'' [chain, mint_id]) now"
  show ?case
  proof (cases "enqueue_in_state s chain ?op")
    case (Ok p)
    obtain s1 i where p: "p = (s1, i)" by (cases p)
    let ?s2 = "update_vault vid (\<lambda>v. v\<lparr>cv_pending_interest_mint_e8s := amount\<rparr>) s1"
    have "same_claims s ?s2" using same_claims_trans [OF enqueue_claims same_claims_writers(1)] Ok p by blast
    from same_claims_trans [OF this Cons.IH [of ?s2 c1]] Ok p a e show ?thesis
      by (auto simp: Let_def split: prod.splits)
  qed (use Cons.IH [of s c1] a e in \<open>auto simp: Let_def\<close>)
qed simp

lemma rail_step_claims_ok:
  assumes "rail_step D ptext r r'" and "claims_ok (rs_chain r)"
  shows "claims_ok (rs_chain r')"
  using assms
proof (induction rule: rail_step.induct)
  case (open_vault vid r chain owner custody coll debt rcpt valid symbol min_cr min_debt ceiling now t)
  then have "same_claims (rs_chain r) t"
    by (auto simp: open_chain_vault_in_state_def and_then_Ok_iff Let_def same_claims_def)
  with open_vault show ?case using same_claims_ok by simp
next
  case (harvest r chain apr threshold treasury now t k ids)
  have "same_claims (rs_chain r) t"
  proof (cases "t = rs_chain r")
    case False
    with harvest(1) obtain es where
      "harvest_enqueue chain treasury now next_id es (rs_chain r) (rs_counter r) = (t, k, ids)"
      by (auto simp: harvest_chain_interest_in_state_def split: if_splits)
    with harvest_enqueue_claims [of "rs_chain r" chain treasury now next_id es "rs_counter r"] show ?thesis by simp
  qed simp
  with harvest show ?case using same_claims_ok by simp
qed (auto intro: chain_action_claims_ok)

interpretation claim_rail: invariant_system rail_init "rail_step D ptext" "\<lambda>r. claims_ok (rs_chain r)" for D ptext
  by unfold_locales
    (simp add: rail_init_def claims_ok_def multi_chain_default_def, rule rail_step_claims_ok)

section \<open>A run that seizes collateral\<close>

lemma run_reachable:
  "\<exists>r. (rail_step sample_decimal show_nat)\<^sup>*\<^sup>* rail_init r
     \<and> bm_get (chain_liquidation_claims (rs_chain r)) 1 = Some run_claim"
proof -
  let ?R = "rail_step sample_decimal show_nat" and ?at = "\<lambda>s. sample_rail\<lparr>rs_chain := s\<rparr>"
  obtain Q1 where r3: "?R\<^sup>*\<^sup>* rail_init (?at (run_minted Q1))" using run_minted_reachable by blast
  note step = run_action
  obtain Q2 where "escalate_failed_swap (run_minted Q1) 10143 7 1 ''swap reverted on-chain'' 10 = run_escalated Q2"
    using run_escalate by blast
  with chain_action.fail_swap step [OF r3] have r4: "?R\<^sup>*\<^sup>* rail_init (?at (run_escalated Q2))" by metis
  obtain t r where "apply_sp_chain_liquidation_absorb_in_state (run_escalated Q2) 10143 1 100000000 200000000 18 1200 = Ok (t, r)"
    and t: "bm_get (chain_liquidation_claims t) 1 = Some run_claim"
    using run_absorb by blast
  with chain_action.sp_absorb step [OF r4] have "?R\<^sup>*\<^sup>* rail_init (?at t)" by metis
  with t show ?thesis by (intro exI [of _ "?at t"]) simp
qed

text \<open>C12. Seized collateral is never paid out twice: in every reachable state, what a liquidation claim
  has paid plus what its pending payouts reserve is at most what was seized. The code's own guard
  \<open>paid_within_seized\<close> holds of every stored claim, so its rejection is never taken, and the
  saturating \<open>remaining_native\<close> is the exact remainder.\<close>

theorem reachable_claims_never_overpaid:
  assumes "(rail_step D ptext)\<^sup>*\<^sup>* rail_init r" and "bm_get (chain_liquidation_claims (rs_chain r)) cid = Some c"
  shows "paid_within_seized c
    \<and> cl_paid_native c + cl_pending_native c + remaining_native c = cl_seized_native_total c"
proof -
  have "claim_ok c" using claim_rail.reachable_inv [OF assms(1)] assms(2) by (simp add: claims_ok_def)
  then show ?thesis by (auto simp: claim_ok_def paid_within_seized_def checked_add128_def remaining_exact)
qed

theorem reachable_claims_never_overpaid_witness:
  "paid_within_seized run_claim
   \<and> cl_paid_native run_claim + cl_pending_native run_claim + remaining_native run_claim = cl_seized_native_total run_claim"
  using run_reachable reachable_claims_never_overpaid by blast

end
