(* ===== verification/Vault_Guarantees.thy ===== *)
theory Vault_Guarantees
  imports Sample_Run
begin

text \<open>
  What the vault operations guarantee: collateralisation after a withdrawal, the debt ceiling after
  an open or a borrow, the bounds of a liquidation, the round trips of reserved collateral, and what
  the bad-debt circuit blocks.
\<close>

section \<open>The exposure of a chain\<close>

definition vault_exposure :: "chain_id \<Rightarrow> chain_vault \<Rightarrow> nat" where
  "vault_exposure chain v =
     (if cv_collateral_chain v = chain \<and> cv_status v \<noteq> Closed
      then cv_debt_e8s v + cv_pending_mint_e8s v + cv_pending_interest_mint_e8s v else 0)"

lemma fold_sat_exposure:
  "fold (\<lambda>v acc. sat_add128 (sat_add128 (sat_add128 acc (cv_debt_e8s v)) (cv_pending_mint_e8s v))
                   (cv_pending_interest_mint_e8s v))
     (filter (\<lambda>v. cv_collateral_chain v = chain \<and> cv_status v \<noteq> Closed) vs) (min a u128_max)
   = min (a + sum_list (map (vault_exposure chain) vs)) u128_max"
proof (induction vs arbitrary: a)
  case (Cons v vs)
  have "sat_add128 (sat_add128 (sat_add128 (min a u128_max) x) y) z = min (a + x + y + z) u128_max" for x y z
    by (simp add: sat_add128_def min_def)
  note step = this
  show ?case
  proof (cases "cv_collateral_chain v = chain \<and> cv_status v \<noteq> Closed")
    case True
    then have "vault_exposure chain v = cv_debt_e8s v + cv_pending_mint_e8s v + cv_pending_interest_mint_e8s v"
      by (simp add: vault_exposure_def)
    with Cons.IH [of "a + vault_exposure chain v"] True step show ?thesis by (simp add: add.assoc)
  next
    case False
    then have "vault_exposure chain v = 0" by (auto simp: vault_exposure_def)
    with Cons.IH [of a] False show ?thesis by auto
  qed
qed simp

text \<open>The saturating fold of the code is the saturated sum.\<close>

lemma exposure_total:
  "total_chain_debt_including_pending_e8s s chain = min (bm_sum (vault_exposure chain) (chain_vaults s)) u128_max"
  using fold_sat_exposure [of chain "bm_values (chain_vaults s)" 0]
  by (simp add: total_chain_debt_including_pending_e8s_def sum_values)

section \<open>A concrete chain\<close>

definition run_open :: multi_chain_state where
  "run_open = run_minted (bm_insert 10143 settlement_queue_default bm_empty)"

lemma run_open_simps:
  "chain_vaults run_open = bm_insert 1 run_minted_vault bm_empty" "chain_configs run_open = bm_insert 10143 sample_config bm_empty"
  "manual_prices run_open = manual_prices sample_registered"
  "chain_bad_debt_circuit_tripped_at_ns run_open = bm_empty" "invariant_halted run_open = False"
  "settlement_queues run_open = bm_insert 10143 settlement_queue_default bm_empty"
  "chain_supplies run_open = bm_insert 10143 100000000 bm_empty" "chain_liquidation_configs run_open = bm_empty"
  by (simp_all add: run_open_def run_minted_def run_contract_def sample_rail_def sample_registered_def
      set_manual_price_def multi_chain_default_def)

lemma run_open_price: "gated_chain_price_e8 run_open 10143 ''MON'' 10 = Ok 200000000"
  by (simp add: gated_chain_price_e8_def run_open_simps sample_registered_def set_manual_price_def
      multi_chain_default_def get_manual_price_def rust_arith Let_def)

lemma run_open_decimals [simp]: "native_decimals_of run_open 10143 = 18"
  by (simp add: native_decimals_of_def run_open_simps sample_config_def)

section \<open>Opening and borrowing\<close>

definition within_cap :: "u128 option \<Rightarrow> u128 \<Rightarrow> bool" where
  "within_cap cap n = (case cap of Some c \<Rightarrow> n \<le> c | None \<Rightarrow> True)"

lemma open_Ok:
  assumes "open_chain_vault_in_state s chain owner custody coll debt rcpt valid symbol min_cr min_debt cap now vid = Ok t"
  obtains price v where "gated_chain_price_e8 s chain symbol now = Ok price" and "debt \<noteq> 0" and "min_debt \<le> debt"
    and "min_cr \<le> collateral_ratio_e4 coll (native_decimals_of s chain) price debt"
    and "within_cap cap (sat_add128 (total_chain_debt_including_pending_e8s s chain) debt)"
    and "t = s\<lparr>chain_vaults := bm_insert vid v (chain_vaults s)\<rparr>"
    and "cv_collateral_chain v = chain" "cv_debt_e8s v = 0" "cv_pending_mint_e8s v = debt"
    and "cv_pending_interest_mint_e8s v = 0" "cv_status v = AwaitingDeposit" "cv_collateral_amount_native v = coll"
    and "bm_has (chain_configs s) chain" "\<not> chain_bad_debt_circuit_tripped s chain"
  using assms
  by (fastforce simp: open_chain_vault_in_state_def and_then_Ok_iff map_err_Ok_iff Let_def within_cap_def not_less
      split: if_splits option.splits)

text \<open>C20. Opening a vault respects the chain's limits. After a successful open under a fresh id, the
  chain's exposure (debt, pending mints and pending interest of all vaults not closed) is at most
  the debt ceiling, the new debt is at least the minimum, and the declared collateral is worth at
  least the minimum ratio of the debt, in exact arithmetic.\<close>

theorem open_respects_limits:
  assumes "open_chain_vault_in_state s chain owner custody coll debt rcpt valid symbol min_cr min_debt (Some cap) now vid = Ok t"
    and "\<not> bm_has (chain_vaults s) vid" and "native_decimals_of s chain \<le> 38"
  shows "total_chain_debt_including_pending_e8s t chain \<le> cap \<and> min_debt \<le> debt
    \<and> (\<exists>price. gated_chain_price_e8 s chain symbol now = Ok price
         \<and> min_cr * debt * 10 ^ native_decimals_of s chain \<le> coll * price * 10000)"
  using assms(1)
proof (rule open_Ok)
  fix price v
  assume p: "gated_chain_price_e8 s chain symbol now = Ok price" and d: "debt \<noteq> 0" "min_debt \<le> debt"
    and cr: "min_cr \<le> collateral_ratio_e4 coll (native_decimals_of s chain) price debt"
    and cap: "within_cap (Some cap) (sat_add128 (total_chain_debt_including_pending_e8s s chain) debt)"
    and t: "t = s\<lparr>chain_vaults := bm_insert vid v (chain_vaults s)\<rparr>"
    and v: "cv_collateral_chain v = chain" "cv_debt_e8s v = 0" "cv_pending_mint_e8s v = debt"
      "cv_pending_interest_mint_e8s v = 0" "cv_status v = AwaitingDeposit"
  have "bm_get (chain_vaults s) vid = None" using assms(2) by (simp add: bm_has_def)
  then have "bm_sum (vault_exposure chain) (chain_vaults t) = bm_sum (vault_exposure chain) (chain_vaults s) + debt"
    using v by (simp add: t vault_exposure_def)
  then have "total_chain_debt_including_pending_e8s t chain \<le> cap"
    using cap by (simp add: exposure_total within_cap_def sat_add128_def min_def split: if_splits)
  moreover have "min_cr * debt * 10 ^ native_decimals_of s chain \<le> coll * price * 10000"
    by (rule ratio_sound [OF cr d(1) assms(3)])
  ultimately show ?thesis using p d by blast
qed

theorem open_respects_limits_witness:
  "total_chain_debt_including_pending_e8s (rs_chain sample_rail) 10143 \<le> 100000000000 \<and> 1000000 \<le> (100000000 :: nat)
   \<and> (\<exists>price. gated_chain_price_e8 sample_registered 10143 ''MON'' 7 = Ok price
        \<and> 15000 * 100000000 * 10 ^ native_decimals_of sample_registered 10143 \<le> 2000000000000000000 * price * 10000)"
  by (rule open_respects_limits [OF sample_open])
    (simp_all add: sample_registered_def set_manual_price_def multi_chain_default_def native_decimals_of_def sample_config_def)

lemma borrow_Ok:
  assumes "borrow_chain_vault_in_state s vid amt rcpt valid symbol min_cr min_debt cap now = Ok t"
    and v: "bm_get (chain_vaults s) vid = Some v"
  obtains price u i op where "gated_chain_price_e8 s (cv_collateral_chain v) symbol now = Ok price" and "amt \<noteq> 0"
    and "cv_status v = Open" "cv_pending_mint_e8s v = 0" "cv_pending_liquidation v = None"
    and "\<not> chain_bad_debt_circuit_tripped s (cv_collateral_chain v)"
    and "min_debt \<le> sat_add128 (cv_debt_e8s v) amt"
    and "min_cr \<le> collateral_ratio_e4 (cv_collateral_amount_native v) (native_decimals_of s (cv_collateral_chain v))
           price (sat_add128 (cv_debt_e8s v) amt)"
    and "within_cap cap (sat_add128 (total_chain_debt_including_pending_e8s s (cv_collateral_chain v)) amt)"
    and "enqueue_in_state s (cv_collateral_chain v) op = Ok (u, i)" and "op_kind op = Mint rcpt amt vid"
    and "t = update_vault vid (\<lambda>w. w\<lparr>cv_pending_mint_e8s := amt\<rparr>) u"
  using assms
  by (fastforce simp: borrow_chain_vault_in_state_def and_then_Ok_iff Let_def within_cap_def not_less settlement_op_new_def
      split: if_splits option.splits)

lemma enqueue_vaults: "enqueue_in_state s c op = Ok (u, i) \<Longrightarrow> chain_vaults u = chain_vaults s"
  using same_books_enqueue by (auto simp: same_books_def)

text \<open>Borrowing respects the same limits: after a successful borrow the exposure of the chain is at
  most the debt ceiling, and the vault's collateral covers the minimum ratio of the enlarged debt
  in exact arithmetic (while that debt is in 128-bit range).\<close>

theorem borrow_respects_limits:
  assumes "borrow_chain_vault_in_state s vid amt rcpt valid symbol min_cr min_debt (Some cap) now = Ok t"
    and "bm_get (chain_vaults s) vid = Some v" and "native_decimals_of s (cv_collateral_chain v) \<le> 38"
    and "cv_debt_e8s v + amt \<le> u128_max"
  shows "total_chain_debt_including_pending_e8s t (cv_collateral_chain v) \<le> cap \<and> min_debt \<le> cv_debt_e8s v + amt
    \<and> (\<exists>price. gated_chain_price_e8 s (cv_collateral_chain v) symbol now = Ok price
         \<and> min_cr * (cv_debt_e8s v + amt) * 10 ^ native_decimals_of s (cv_collateral_chain v)
             \<le> cv_collateral_amount_native v * price * 10000)"
  using assms(1,2)
proof (rule borrow_Ok)
  fix price u i op
  assume p: "gated_chain_price_e8 s (cv_collateral_chain v) symbol now = Ok price" and a: "amt \<noteq> 0"
    and st: "cv_status v = Open" "cv_pending_mint_e8s v = 0"
    and md: "min_debt \<le> sat_add128 (cv_debt_e8s v) amt"
    and cr: "min_cr \<le> collateral_ratio_e4 (cv_collateral_amount_native v) (native_decimals_of s (cv_collateral_chain v))
           price (sat_add128 (cv_debt_e8s v) amt)"
    and cap: "within_cap (Some cap) (sat_add128 (total_chain_debt_including_pending_e8s s (cv_collateral_chain v)) amt)"
    and u: "enqueue_in_state s (cv_collateral_chain v) op = Ok (u, i)"
    and t: "t = update_vault vid (\<lambda>w. w\<lparr>cv_pending_mint_e8s := amt\<rparr>) u"
  let ?c = "cv_collateral_chain v" and ?w = "v\<lparr>cv_pending_mint_e8s := amt\<rparr>"
  have sat: "sat_add128 (cv_debt_e8s v) amt = cv_debt_e8s v + amt" using assms(4) by simp
  have "chain_vaults t = bm_insert vid ?w (chain_vaults s)"
    using assms(2) by (simp add: t update_vault_def bm_modify_def enqueue_vaults [OF u])
  moreover have "bm_sum (vault_exposure ?c) (bm_insert vid ?w (chain_vaults s)) + vault_exposure ?c v
      = bm_sum (vault_exposure ?c) (chain_vaults s) + vault_exposure ?c ?w"
    by (rule bm_sum_insert_old [OF assms(2)])
  moreover have "vault_exposure ?c ?w = vault_exposure ?c v + amt" using st by (simp add: vault_exposure_def)
  ultimately have "bm_sum (vault_exposure ?c) (chain_vaults t) = bm_sum (vault_exposure ?c) (chain_vaults s) + amt"
    by simp
  then have "total_chain_debt_including_pending_e8s t ?c \<le> cap"
    using cap by (simp add: exposure_total within_cap_def sat_add128_def min_def split: if_splits)
  moreover have "min_cr * (cv_debt_e8s v + amt) * 10 ^ native_decimals_of s ?c \<le> cv_collateral_amount_native v * price * 10000"
    using ratio_sound [OF cr _ assms(3)] a sat by simp
  ultimately show ?thesis using p md sat by auto
qed

theorem borrow_respects_limits_witness:
  "\<exists>t. borrow_chain_vault_in_state run_open 1 50000000 ''0xr'' (\<lambda>_. True) ''MON'' 15000 1000000 (Some 100000000000) 10 = Ok t
     \<and> total_chain_debt_including_pending_e8s t 10143 \<le> 100000000000
     \<and> (\<exists>price. gated_chain_price_e8 run_open 10143 ''MON'' 10 = Ok price
          \<and> 15000 * 150000000 * 10 ^ 18 \<le> 2000000000000000000 * price * 10000)"
proof -
  let ?b = "borrow_chain_vault_in_state run_open 1 50000000 ''0xr'' (\<lambda>_. True) ''MON'' 15000 1000000 (Some 100000000000) 10"
  have v: "bm_get (chain_vaults run_open) 1 = Some run_minted_vault" by (simp add: run_open_simps)
  have c: "cv_collateral_chain run_minted_vault = 10143" "cv_debt_e8s run_minted_vault = 100000000"
    "cv_collateral_amount_native run_minted_vault = 2000000000000000000"
    by (simp_all add: run_minted_vault_def sample_new_vault_def)
  have "\<exists>t. ?b = Ok t"
    using run_open_price
    by (simp add: borrow_chain_vault_in_state_def run_open_simps run_minted_vault_def sample_new_vault_def
        chain_bad_debt_circuit_tripped_def collateral_ratio_e4_def total_chain_debt_including_pending_e8s_def bm_values_def
        enqueue_in_state_def enqueue_def settlement_queue_default_def rust_arith Let_def)
  then obtain t where t: "?b = Ok t" ..
  from borrow_respects_limits [OF t v] c t show ?thesis by (simp add: u128_max_def)
qed

section \<open>Withdrawing\<close>

lemma withdraw_Ok:
  assumes "withdraw_collateral_in_state D s vid amt dest valid symbol min_cr now = Ok t"
    and "bm_get (chain_vaults s) vid = Some v"
  obtains price u i op w where "gated_chain_price_e8 s (cv_collateral_chain v) symbol now = Ok price"
    and "cv_status v = Open" "cv_pending_mint_e8s v = 0" "cv_pending_interest_mint_e8s v = 0"
    and "cv_pending_liquidation v = None" "amt \<le> cv_collateral_amount_native v" "valid dest"
    and "0 < cv_debt_e8s v \<Longrightarrow> \<not> chain_bad_debt_circuit_tripped s (cv_collateral_chain v) \<and>
      (\<exists>accrued. accrued_chain_interest_e8s D (cv_debt_e8s v)
           (case chain_collateral_config (cv_collateral_chain v) of Some c \<Rightarrow> ccc_interest_apr_bps c | None \<Rightarrow> 0)
           (now - cv_last_interest_accrual_ns v) = Some accrued
         \<and> min_cr \<le> collateral_ratio_e4 (cv_collateral_amount_native v - amt) (native_decimals_of s (cv_collateral_chain v))
               price (sat_add128 (cv_debt_e8s v) accrued))"
    and "op = settlement_op_new (NativeWithdrawal dest amt vid) (dash_key ''withdraw'' [cv_collateral_chain v, vid, now]) now"
    and "enqueue_in_state s (cv_collateral_chain v) op = Ok (u, i)"
    and "w = v\<lparr>cv_collateral_amount_native := cv_collateral_amount_native v - amt,
         cv_status := (if cv_collateral_amount_native v = amt \<and> cv_debt_e8s v = 0 then Closing else Open)\<rparr>"
    and "t = u\<lparr>chain_vaults := bm_insert vid w (chain_vaults s)\<rparr>"
proof -
  let ?chain = "cv_collateral_chain v" and ?rest = "cv_collateral_amount_native v - amt"
  let ?apr = "case chain_collateral_config ?chain of Some c \<Rightarrow> ccc_interest_apr_bps c | None \<Rightarrow> 0"
  let ?op = "settlement_op_new (NativeWithdrawal dest amt vid) (dash_key ''withdraw'' [?chain, vid, now]) now"
  from assms obtain price u i where p: "gated_chain_price_e8 s ?chain symbol now = Ok price"
    and g: "cv_status v = Open" "cv_pending_mint_e8s v = 0" "cv_pending_interest_mint_e8s v = 0"
      "cv_pending_liquidation v = None" "amt \<le> cv_collateral_amount_native v" "valid dest"
      "0 < cv_debt_e8s v \<longrightarrow> \<not> chain_bad_debt_circuit_tripped s ?chain"
    and debt: "(if cv_debt_e8s v > 0 then
        and_then (or_trap (accrued_chain_interest_e8s D (cv_debt_e8s v) ?apr (sat_sub now (cv_last_interest_accrual_ns v))))
          (\<lambda>accrued. let effective_debt = sat_add128 (cv_debt_e8s v) accrued;
             cr_e4 = collateral_ratio_e4 ?rest (native_decimals_of s ?chain) price effective_debt
           in if cr_e4 < min_cr then Err (WdBelowMinCr cr_e4 min_cr) else Ok ())
        else Ok ()) = Ok ()"
    and u: "enqueue_in_state s ?chain ?op = Ok (u, i)"
    and t: "t = update_vault vid (\<lambda>w. let w1 = w\<lparr>cv_collateral_amount_native := ?rest\<rparr>
               in if ?rest = 0 \<and> cv_debt_e8s v = 0 then w1\<lparr>cv_status := Closing\<rparr> else w1) u"
  proof (cases "0 < cv_debt_e8s v")
    case True
    note that' = that
    show ?thesis
      using assms(1) True
      by (auto simp: withdraw_collateral_in_state_def assms(2) and_then_Ok_iff Let_def not_less intro!: that')
  next
    case False
    note that' = that
    show ?thesis
      using assms(1) False
      by (auto simp: withdraw_collateral_in_state_def assms(2) and_then_Ok_iff Let_def not_less intro!: that')
  qed
  have d: "\<not> chain_bad_debt_circuit_tripped s ?chain \<and>
      (\<exists>accrued. accrued_chain_interest_e8s D (cv_debt_e8s v) ?apr (now - cv_last_interest_accrual_ns v) = Some accrued
         \<and> min_cr \<le> collateral_ratio_e4 ?rest (native_decimals_of s ?chain) price (sat_add128 (cv_debt_e8s v) accrued))"
    if "0 < cv_debt_e8s v"
    using that debt g(7) by (auto simp: and_then_Ok_iff Let_def not_less)
  have st: "v\<lparr>cv_collateral_amount_native := x, cv_status := Open\<rparr> = v\<lparr>cv_collateral_amount_native := x\<rparr>" for x
    using g(1) by (cases v) simp
  have "t = u\<lparr>chain_vaults := bm_insert vid (v\<lparr>cv_collateral_amount_native := ?rest,
         cv_status := (if cv_collateral_amount_native v = amt \<and> cv_debt_e8s v = 0 then Closing else Open)\<rparr>) (chain_vaults s)\<rparr>"
    using g assms(2) by (auto simp: t st update_vault_def bm_modify_def enqueue_vaults [OF u] Let_def)
  from that [OF p g(1-6) d refl u refl this] show ?thesis .
qed

text \<open>A withdrawal leaves the vault collateralised. When the vault has debt, the collateral that
  remains covers the minimum ratio of the debt including the interest accrued to this moment, in
  exact arithmetic; and exactly the withdrawn amount leaves the vault.\<close>

theorem withdraw_keeps_ratio:
  assumes "withdraw_collateral_in_state D s vid amt dest valid symbol min_cr now = Ok t"
    and "bm_get (chain_vaults s) vid = Some v" and "0 < cv_debt_e8s v"
    and "native_decimals_of s (cv_collateral_chain v) \<le> 38"
  shows "\<exists>price accrued w. gated_chain_price_e8 s (cv_collateral_chain v) symbol now = Ok price
    \<and> accrued_chain_interest_e8s D (cv_debt_e8s v)
         (case chain_collateral_config (cv_collateral_chain v) of Some c \<Rightarrow> ccc_interest_apr_bps c | None \<Rightarrow> 0)
         (now - cv_last_interest_accrual_ns v) = Some accrued
    \<and> bm_get (chain_vaults t) vid = Some w \<and> cv_debt_e8s w = cv_debt_e8s v
    \<and> cv_collateral_amount_native w + amt = cv_collateral_amount_native v
    \<and> min_cr * sat_add128 (cv_debt_e8s v) accrued * 10 ^ native_decimals_of s (cv_collateral_chain v)
        \<le> cv_collateral_amount_native w * price * 10000"
  using assms(1,2)
proof (rule withdraw_Ok)
  fix price u i op w
  let ?apr = "case chain_collateral_config (cv_collateral_chain v) of Some c \<Rightarrow> ccc_interest_apr_bps c | None \<Rightarrow> 0"
  assume p: "gated_chain_price_e8 s (cv_collateral_chain v) symbol now = Ok price"
    and le: "amt \<le> cv_collateral_amount_native v"
    and d: "0 < cv_debt_e8s v \<Longrightarrow> \<not> chain_bad_debt_circuit_tripped s (cv_collateral_chain v) \<and>
      (\<exists>accrued. accrued_chain_interest_e8s D (cv_debt_e8s v) ?apr (now - cv_last_interest_accrual_ns v) = Some accrued
         \<and> min_cr \<le> collateral_ratio_e4 (cv_collateral_amount_native v - amt) (native_decimals_of s (cv_collateral_chain v))
               price (sat_add128 (cv_debt_e8s v) accrued))"
    and w: "w = v\<lparr>cv_collateral_amount_native := cv_collateral_amount_native v - amt,
         cv_status := (if cv_collateral_amount_native v = amt \<and> cv_debt_e8s v = 0 then Closing else Open)\<rparr>"
    and t: "t = u\<lparr>chain_vaults := bm_insert vid w (chain_vaults s)\<rparr>"
  from d [OF assms(3)] obtain accrued where a: "accrued_chain_interest_e8s D (cv_debt_e8s v) ?apr
        (now - cv_last_interest_accrual_ns v) = Some accrued"
    and cr: "min_cr \<le> collateral_ratio_e4 (cv_collateral_amount_native v - amt)
        (native_decimals_of s (cv_collateral_chain v)) price (sat_add128 (cv_debt_e8s v) accrued)" by blast
  have "sat_add128 (cv_debt_e8s v) accrued \<noteq> 0" using assms(3) by (simp add: sat_add128_def u128_max_def min_def)
  from ratio_sound [OF cr this assms(4)] show ?thesis
    using p a le by (intro exI [of _ price] exI [of _ accrued] exI [of _ w]) (simp add: t w)
qed

lemma run_withdraw:
  "\<exists>t. withdraw_collateral_in_state sample_decimal run_open 1 500000000000000000 ''0xd'' (\<lambda>_. True) ''MON'' 15000 10 = Ok t"
  using run_open_price
  by (simp add: withdraw_collateral_in_state_def run_open_simps run_minted_vault_def sample_new_vault_def
      chain_bad_debt_circuit_tripped_def collateral_ratio_e4_def accrued_chain_interest_e8s_def sample_decimal_def
      chain_collateral_config_def icp_mirror_def nanos_per_year_def enqueue_in_state_def enqueue_def
      settlement_queue_default_def rust_arith Let_def)

lemma run_open_vault: "bm_get (chain_vaults run_open) 1 = Some run_minted_vault"
  "cv_collateral_chain run_minted_vault = 10143" "cv_debt_e8s run_minted_vault = 100000000"
  "cv_collateral_amount_native run_minted_vault = 2000000000000000000"
  by (simp_all add: run_open_simps run_minted_vault_def sample_new_vault_def)

theorem withdraw_keeps_ratio_witness:
  "\<exists>t price accrued w. withdraw_collateral_in_state sample_decimal run_open 1 500000000000000000 ''0xd'' (\<lambda>_. True)
       ''MON'' 15000 10 = Ok t
     \<and> gated_chain_price_e8 run_open 10143 ''MON'' 10 = Ok price \<and> bm_get (chain_vaults t) 1 = Some w
     \<and> cv_collateral_amount_native w + 500000000000000000 = 2000000000000000000
     \<and> 15000 * sat_add128 100000000 accrued * 10 ^ 18 \<le> cv_collateral_amount_native w * price * 10000"
proof -
  obtain t where t: "withdraw_collateral_in_state sample_decimal run_open 1 500000000000000000 ''0xd'' (\<lambda>_. True)
      ''MON'' 15000 10 = Ok t" using run_withdraw by blast
  have "0 < cv_debt_e8s run_minted_vault" "native_decimals_of run_open (cv_collateral_chain run_minted_vault) \<le> 38"
    by (simp_all add: run_open_vault)
  from withdraw_keeps_ratio [OF t run_open_vault(1) this] t show ?thesis by (auto simp: run_open_vault)
qed

text \<open>Round trip of a reverted withdrawal: when the transfer of a withdrawal fails on chain, the
  reversal gives the vault back exactly as it was, amount and status, whether or not the
  withdrawal had emptied it.\<close>

theorem withdraw_revert_roundtrip:
  assumes "withdraw_collateral_in_state D s vid amt dest valid symbol min_cr now = Ok t"
    and "bm_get (chain_vaults s) vid = Some v" and "cv_collateral_amount_native v \<le> u128_max"
  shows "bm_get (chain_vaults (reverse_effect (NativeWithdrawal dest amt vid) t)) vid = Some v"
  using assms(1,2) by (rule withdraw_Ok) (use assms(3) in \<open>auto simp: Let_def\<close>)

theorem withdraw_revert_roundtrip_witness:
  "\<exists>t. withdraw_collateral_in_state sample_decimal run_open 1 500000000000000000 ''0xd'' (\<lambda>_. True) ''MON'' 15000 10 = Ok t
     \<and> bm_get (chain_vaults (reverse_effect (NativeWithdrawal ''0xd'' 500000000000000000 1) t)) 1 = Some run_minted_vault"
proof -
  obtain t where t: "withdraw_collateral_in_state sample_decimal run_open 1 500000000000000000 ''0xd'' (\<lambda>_. True)
      ''MON'' 15000 10 = Ok t" using run_withdraw by blast
  with withdraw_revert_roundtrip [OF t run_open_vault(1)] show ?thesis by (simp add: run_open_vault u128_max_def)
qed

section \<open>Liquidating\<close>

definition liquidation_bonus :: "chain_id \<Rightarrow> u64" where
  "liquidation_bonus chain = bonus_e4_from_penalty_bps
     (case chain_collateral_config chain of Some c \<Rightarrow> ccc_liquidation_penalty_bps c | None \<Rightarrow> 0)"

lemma begin_Ok:
  assumes run: "begin_liquidation_in_state D s vid valid symbol threshold now = Ok (t, i)"
    and v: "bm_get (chain_vaults s) vid = Some v"
  obtains cfg price debt repay coll u op where
    "bm_get (chain_liquidation_configs s) (cv_collateral_chain v) = Some cfg"
    and "fresh_chain_price_e8 s (cv_collateral_chain v) symbol now (lc_max_price_age_ns cfg) = Ok price"
    and "vault_cr_e4 D s (cv_collateral_chain v) price now v = Some
           (collateral_ratio_e4 (cv_collateral_amount_native v) (native_decimals_of s (cv_collateral_chain v)) price debt)"
    and "collateral_ratio_e4 (cv_collateral_amount_native v) (native_decimals_of s (cv_collateral_chain v)) price debt < threshold"
    and "repay \<le> debt" "repay \<le> value_cap_to_repay (lc_max_swap_value_e8s cfg) (liquidation_bonus (cv_collateral_chain v))"
    and "coll = min (collateral_in_native_for_repay repay (liquidation_bonus (cv_collateral_chain v))
                       (native_decimals_of s (cv_collateral_chain v)) price) (cv_collateral_amount_native v)"
    and "0 < repay" "0 < coll" "cv_pending_liquidation v = None" "lc_enabled cfg" "cv_status v = Open"
    and "enqueue_in_state s (cv_collateral_chain v) op = Ok (u, i)"
    and "op_kind op = LiquidationSwap vid coll 0 repay (lc_router cfg) (lc_pair cfg)
           [lc_collateral_token cfg, lc_settle_stable_token cfg] (lc_settle_stable_token cfg) 180"
    and "t = u\<lparr>chain_vaults := bm_insert vid (v\<lparr>cv_collateral_amount_native := cv_collateral_amount_native v - coll,
           cv_pending_liquidation := Some \<lparr>pl_op_id = i, pl_debt_to_clear_e8s = repay,
             pl_collateral_reserved_native = coll, pl_tier = Bot, pl_started_at_ns = now\<rparr>\<rparr>) (chain_vaults s),
         bot_pending_chain_vaults := bm_insert vid now (bot_pending_chain_vaults u)\<rparr>"
proof -
  let ?c = "cv_collateral_chain v"
  from run v obtain cfg where cfg: "bm_get (chain_liquidation_configs s) ?c = Some cfg"
    by (auto simp: begin_liquidation_in_state_def Let_def split: option.splits)
  from run v cfg obtain price debt where
    price: "fresh_chain_price_e8 s ?c symbol now (lc_max_price_age_ns cfg) = Ok price"
    and debt: "effective_debt_e8s D (cv_debt_e8s v) (cv_pending_interest_mint_e8s v)
      (case chain_collateral_config ?c of Some c \<Rightarrow> ccc_interest_apr_bps c | None \<Rightarrow> 0)
      (sat_sub now (cv_last_interest_accrual_ns v)) = Some debt"
    and g: "cv_status v = Open" "cv_pending_liquidation v = None" "lc_enabled cfg"
    by (auto simp: begin_liquidation_in_state_def and_then_Ok_iff Let_def)
  define target where "target = (case chain_collateral_config ?c of Some c \<Rightarrow> ccc_recovery_target_cr_e4 c
    | None \<Rightarrow> lc_restore_target_cr_e4 cfg)"
  define repay where "repay = min (sized_repay_e8s debt (collateral_value_e8s (cv_collateral_amount_native v)
      (native_decimals_of s ?c) price) target (liquidation_bonus ?c))
      (value_cap_to_repay (lc_max_swap_value_e8s cfg) (liquidation_bonus ?c))"
  define coll where "coll = min (collateral_in_native_for_repay repay (liquidation_bonus ?c)
      (native_decimals_of s ?c) price) (cv_collateral_amount_native v)"
  let ?op = "settlement_op_new (LiquidationSwap vid coll 0 repay (lc_router cfg) (lc_pair cfg)
      [lc_collateral_token cfg, lc_settle_stable_token cfg] (lc_settle_stable_token cfg) 180)
      (dash_key ''liquidate'' [?c, vid, now]) now"
  from run v cfg price debt obtain u where cr: "collateral_ratio_e4 (cv_collateral_amount_native v)
      (native_decimals_of s ?c) price debt < threshold"
    and pos: "0 < repay" "0 < coll" and u: "enqueue_in_state s ?c ?op = Ok (u, i)"
    and t: "t = u\<lparr>chain_vaults := bm_insert vid (v\<lparr>cv_collateral_amount_native := cv_collateral_amount_native v - coll,
           cv_pending_liquidation := Some \<lparr>pl_op_id = i, pl_debt_to_clear_e8s = repay,
             pl_collateral_reserved_native = coll, pl_tier = Bot, pl_started_at_ns = now\<rparr>\<rparr>) (chain_vaults s),
         bot_pending_chain_vaults := bm_insert vid now (bot_pending_chain_vaults u)\<rparr>"
    by (auto simp: begin_liquidation_in_state_def and_then_Ok_iff Let_def not_le update_vault_def bm_modify_def
        enqueue_vaults repay_def coll_def target_def liquidation_bonus_def split: option.splits if_splits)
  have "vault_cr_e4 D s ?c price now v = Some (collateral_ratio_e4 (cv_collateral_amount_native v)
      (native_decimals_of s ?c) price debt)"
    using debt by (simp add: vault_cr_e4_def apr_bps_of_def)
  moreover have "repay \<le> debt" using sized_repay_le_debt by (auto simp: repay_def intro: min.coboundedI1)
  moreover have "repay \<le> value_cap_to_repay (lc_max_swap_value_e8s cfg) (liquidation_bonus ?c)" by (simp add: repay_def)
  ultimately show ?thesis
    using that [OF cfg price _ cr _ _ coll_def pos g(2,3,1) u _ t] by (simp add: settlement_op_new_def)
qed

lemma collateral_value_mono: "a \<le> b \<Longrightarrow> collateral_value_e8s a dec p \<le> collateral_value_e8s b dec p"
  unfolding collateral_value_e8s_def sat_mul128_def by (intro div_le_mono min.mono mult_le_mono1) simp_all

definition run_liq_config :: chain_liquidation_config where
  "run_liq_config = \<lparr>lc_dex = UniswapV2, lc_router = ''0xa1'', lc_factory = ''0xa2'', lc_pair = ''0xa3'',
     lc_collateral_token = ''0xa4'', lc_settle_stable_token = ''0xa5'', lc_slippage_cap_bps = 100,
     lc_restore_target_cr_e4 = 15500, lc_enabled = True, lc_max_swap_value_e8s = 50000000, lc_max_price_age_ns = 100,
     lc_max_dex_oracle_divergence_bps = 100, lc_fee_bps = 30, lc_settle_stable_decimals = 6, lc_deadline_secs = 180\<rparr>"

definition run_crash :: multi_chain_state where
  "run_crash = (set_manual_price run_open 10143 ''MON'' 60000000 9)
     \<lparr>chain_liquidation_configs := bm_insert 10143 run_liq_config bm_empty\<rparr>"

lemma run_crash_simps:
  "chain_vaults run_crash = bm_insert 1 run_minted_vault bm_empty"
  "chain_liquidation_configs run_crash = bm_insert 10143 run_liq_config bm_empty"
  "settlement_queues run_crash = bm_insert 10143 settlement_queue_default bm_empty"
  "native_decimals_of run_crash 10143 = 18" "get_manual_price run_crash 10143 ''MON'' = Some (60000000, 9)"
  by (simp_all add: run_crash_def set_manual_price_def get_manual_price_def run_open_simps native_decimals_of_def sample_config_def)

lemma run_effective: "effective_debt_e8s sample_decimal 100000000 0 200 1 = Some 100000000"
  by (simp add: effective_debt_e8s_def accrued_chain_interest_e8s_def sample_decimal_def nanos_per_year_def rust_arith)

lemma run_sizes:
  "collateral_ratio_e4 2000000000000000000 18 60000000 100000000 = 12000"
  "sized_repay_e8s 100000000 (collateral_value_e8s 2000000000000000000 18 60000000) 15500 11200 = 81395348"
  "value_cap_to_repay 50000000 11200 = 44642857"
  "collateral_in_native_for_repay 44642857 11200 18 60000000 = 833333316666666666"
  "bonus_e4_from_penalty_bps 1200 = 11200"
  by (simp_all add: collateral_ratio_e4_def collateral_value_e8s_def sized_repay_e8s_def value_cap_to_repay_def
      collateral_in_native_for_repay_def sat_pow10_def bonus_e4_from_penalty_bps_def rust_arith Let_def)

lemma run_begin: "\<exists>t i. begin_liquidation_in_state sample_decimal run_crash 1 (\<lambda>_. True) ''MON'' 12500 10 = Ok (t, i)"
  using run_effective run_sizes
  by (simp add: begin_liquidation_in_state_def run_crash_simps run_minted_vault_def sample_new_vault_def run_liq_config_def
      fresh_chain_price_e8_def chain_collateral_config_def icp_mirror_def
      enqueue_in_state_def enqueue_def settlement_queue_default_def Let_def)

lemma run_crash_vault: "bm_get (chain_vaults run_crash) 1 = Some run_minted_vault"
  by (simp add: run_crash_simps)

text \<open>A liquidation takes no more than it may. When the bot tier starts to liquidate a vault, the
  vault is open, its ratio at a fresh price is below the threshold, the debt to clear is at most the
  debt with its interest, the collateral set aside leaves the vault and is worth at most that debt
  with the liquidation bonus and at most the configured swap limit.\<close>

theorem begin_liquidation_bounded:
  assumes "begin_liquidation_in_state D s vid valid symbol threshold now = Ok (t, i)"
    and "bm_get (chain_vaults s) vid = Some v"
  shows "\<exists>cfg price debt w m.
      bm_get (chain_liquidation_configs s) (cv_collateral_chain v) = Some cfg \<and> lc_enabled cfg \<and> cv_status v = Open
    \<and> fresh_chain_price_e8 s (cv_collateral_chain v) symbol now (lc_max_price_age_ns cfg) = Ok price
    \<and> collateral_ratio_e4 (cv_collateral_amount_native v) (native_decimals_of s (cv_collateral_chain v)) price debt < threshold
    \<and> vault_cr_e4 D s (cv_collateral_chain v) price now v = Some (collateral_ratio_e4 (cv_collateral_amount_native v)
          (native_decimals_of s (cv_collateral_chain v)) price debt)
    \<and> bm_get (chain_vaults t) vid = Some w \<and> cv_pending_liquidation w = Some m \<and> cv_debt_e8s w = cv_debt_e8s v
    \<and> 0 < pl_debt_to_clear_e8s m \<and> pl_debt_to_clear_e8s m \<le> debt
    \<and> cv_collateral_amount_native w + pl_collateral_reserved_native m = cv_collateral_amount_native v
    \<and> collateral_value_e8s (pl_collateral_reserved_native m) (native_decimals_of s (cv_collateral_chain v)) price
        \<le> min (pl_debt_to_clear_e8s m * liquidation_bonus (cv_collateral_chain v) div 10000) (lc_max_swap_value_e8s cfg)"
  using assms
proof (rule begin_Ok)
  fix cfg price debt repay coll u op
  let ?dec = "native_decimals_of s (cv_collateral_chain v)" and ?b = "liquidation_bonus (cv_collateral_chain v)"
  let ?m = "\<lparr>pl_op_id = i, pl_debt_to_clear_e8s = repay, pl_collateral_reserved_native = coll, pl_tier = Bot, pl_started_at_ns = now\<rparr>"
  let ?w = "v\<lparr>cv_collateral_amount_native := cv_collateral_amount_native v - coll, cv_pending_liquidation := Some ?m\<rparr>"
  assume facts: "bm_get (chain_liquidation_configs s) (cv_collateral_chain v) = Some cfg"
      "fresh_chain_price_e8 s (cv_collateral_chain v) symbol now (lc_max_price_age_ns cfg) = Ok price"
      "vault_cr_e4 D s (cv_collateral_chain v) price now v = Some (collateral_ratio_e4 (cv_collateral_amount_native v) ?dec price debt)"
      "collateral_ratio_e4 (cv_collateral_amount_native v) ?dec price debt < threshold" "repay \<le> debt" "0 < repay"
      "lc_enabled cfg" "cv_status v = Open"
    and cap: "repay \<le> value_cap_to_repay (lc_max_swap_value_e8s cfg) ?b"
    and coll: "coll = min (collateral_in_native_for_repay repay ?b ?dec price) (cv_collateral_amount_native v)"
    and t: "t = u\<lparr>chain_vaults := bm_insert vid ?w (chain_vaults s), bot_pending_chain_vaults := bm_insert vid now (bot_pending_chain_vaults u)\<rparr>"
  have "collateral_value_e8s coll ?dec price \<le> collateral_value_e8s (collateral_in_native_for_repay repay ?b ?dec price) ?dec price"
    by (rule collateral_value_mono) (simp add: coll)
  also note seizure_bound [OF cap]
  finally have "collateral_value_e8s coll ?dec price \<le> min (repay * ?b div 10000) (lc_max_swap_value_e8s cfg)" .
  moreover have "bm_get (chain_vaults t) vid = Some ?w" by (simp add: t)
  moreover have "coll \<le> cv_collateral_amount_native v" by (simp add: coll)
  ultimately show ?thesis
    using facts by (intro exI [of _ cfg] exI [of _ price] exI [of _ debt] exI [of _ ?w] exI [of _ ?m]) simp
qed

theorem begin_liquidation_bounded_witness:
  "\<exists>t i price w m. begin_liquidation_in_state sample_decimal run_crash 1 (\<lambda>_. True) ''MON'' 12500 10 = Ok (t, i)
     \<and> fresh_chain_price_e8 run_crash 10143 ''MON'' 10 100 = Ok price
     \<and> bm_get (chain_vaults t) 1 = Some w \<and> cv_pending_liquidation w = Some m
     \<and> cv_collateral_amount_native w + pl_collateral_reserved_native m = 2000000000000000000
     \<and> collateral_value_e8s (pl_collateral_reserved_native m) 18 price \<le> 50000000"
proof -
  obtain t i where b: "begin_liquidation_in_state sample_decimal run_crash 1 (\<lambda>_. True) ''MON'' 12500 10 = Ok (t, i)"
    using run_begin by blast
  have "lc_max_price_age_ns run_liq_config = 100" "lc_max_swap_value_e8s run_liq_config = 50000000"
    by (simp_all add: run_liq_config_def)
  with begin_liquidation_bounded [OF b run_crash_vault] b show ?thesis by (auto simp: run_open_vault run_crash_simps)
qed

text \<open>Round trip of a failed liquidation: when the swap of a liquidation fails, the collateral that
  was set aside returns and the marker goes, so the vault is exactly what it was, it is no longer
  queued for the bot tier, and the stability pool may take it.\<close>

theorem failed_swap_roundtrip:
  assumes "begin_liquidation_in_state D s vid valid symbol threshold now = Ok (t, i)"
    and "bm_get (chain_vaults s) vid = Some v" and "cv_collateral_amount_native v \<le> u128_max"
  shows "bm_get (chain_vaults (escalate_failed_swap t (cv_collateral_chain v) i vid reason later)) vid = Some v
    \<and> \<not> bm_has (bot_pending_chain_vaults (escalate_failed_swap t (cv_collateral_chain v) i vid reason later)) vid
    \<and> bs_mem vid (sp_attempted_chain_vaults (escalate_failed_swap t (cv_collateral_chain v) i vid reason later))"
  using assms(1,2)
proof (rule begin_Ok)
  fix cfg price debt repay coll u op
  assume coll: "coll = min (collateral_in_native_for_repay repay (liquidation_bonus (cv_collateral_chain v))
                       (native_decimals_of s (cv_collateral_chain v)) price) (cv_collateral_amount_native v)"
    and none: "cv_pending_liquidation v = None"
    and t: "t = u\<lparr>chain_vaults := bm_insert vid (v\<lparr>cv_collateral_amount_native := cv_collateral_amount_native v - coll,
           cv_pending_liquidation := Some \<lparr>pl_op_id = i, pl_debt_to_clear_e8s = repay,
             pl_collateral_reserved_native = coll, pl_tier = Bot, pl_started_at_ns = now\<rparr>\<rparr>) (chain_vaults s),
         bot_pending_chain_vaults := bm_insert vid now (bot_pending_chain_vaults u)\<rparr>"
  have "sat_add128 (cv_collateral_amount_native v - coll) coll = cv_collateral_amount_native v"
    using assms(3) coll by (simp add: sat_add128_def)
  moreover have "v\<lparr>cv_pending_liquidation := None\<rparr> = v" using none by (cases v) simp
  ultimately show ?thesis
    by (simp add: escalate_failed_swap_def update_op_def update_vault_def bm_modify_def t Let_def)
qed

theorem failed_swap_roundtrip_witness:
  "\<exists>t i. begin_liquidation_in_state sample_decimal run_crash 1 (\<lambda>_. True) ''MON'' 12500 10 = Ok (t, i)
     \<and> bm_get (chain_vaults (escalate_failed_swap t 10143 i 1 ''failed'' 11)) 1 = Some run_minted_vault"
proof -
  obtain t i where b: "begin_liquidation_in_state sample_decimal run_crash 1 (\<lambda>_. True) ''MON'' 12500 10 = Ok (t, i)"
    using run_begin by blast
  have "cv_collateral_amount_native run_minted_vault \<le> u128_max" by (simp add: run_open_vault u128_max_def)
  from failed_swap_roundtrip [OF b run_crash_vault this, of "''failed''" 11] b show ?thesis by (auto simp: run_open_vault)
qed

section \<open>Settling a liquidation\<close>

definition bad_debt_of :: "multi_chain_state \<Rightarrow> chain_id \<Rightarrow> nat" where
  "bad_debt_of s chain = bm_get_or 0 (chain_bad_debt_e8s s) chain"

lemma record_bad_debt_effect:
  assumes "bad_debt_of s chain + amt \<le> u128_max"
  shows "bad_debt_of (fst (record_chain_bad_debt_and_maybe_trip s chain amt now)) chain = bad_debt_of s chain + amt"
    and "0 < amt \<Longrightarrow> bm_get (chain_bad_debt_circuit_threshold_e8s s) chain = Some th \<Longrightarrow> th \<le> bad_debt_of s chain + amt
      \<Longrightarrow> chain_bad_debt_circuit_tripped (fst (record_chain_bad_debt_and_maybe_trip s chain amt now)) chain"
  using assms
  by (auto simp: record_chain_bad_debt_and_maybe_trip_def bad_debt_of_def bm_get_or_def chain_bad_debt_circuit_tripped_def
      bm_has_def Let_def sat_add128_def split: option.splits)

lemma reserve_shift_frame:
  assumes "apply_debt_to_reserve_shift s chain vid amt native = Ok u"
  shows "chain_bad_debt_e8s u = chain_bad_debt_e8s s"
    and "chain_bad_debt_circuit_threshold_e8s u = chain_bad_debt_circuit_threshold_e8s s"
    and "\<exists>v. bm_get (chain_vaults s) vid = Some v \<and> bm_get (chain_vaults u) vid = Some (v\<lparr>cv_debt_e8s := cv_debt_e8s v - amt\<rparr>)"
  using assms by (auto simp: apply_debt_to_reserve_shift_def Let_def split: option.splits if_splits)

text \<open>C19. Settling a liquidation swap accounts for every unit. What is cleared is the smallest of the
  debt to clear, the vault's debt and the proceeds in dollars; it moves from vault debt to reserve
  backing while the supply stays; the rest of the debt to clear is recorded as the chain's bad debt,
  which trips the circuit once it reaches the threshold; and the marker is gone.\<close>

theorem liquidation_settlement_accounts:
  assumes "apply_liquidation_settlement_in_state s chain vid i realized dec now = Ok (t, r)" and "backed s"
    and "bm_get (chain_vaults s) vid = Some v" and "cv_pending_liquidation v = Some m"
    and "bad_debt_of s chain + pl_debt_to_clear_e8s m \<le> u128_max"
  shows "sl_actual_cleared r = min (min (pl_debt_to_clear_e8s m) (cv_debt_e8s v)) (stable_native_to_e8s realized dec)
    \<and> debt_sum t + sl_actual_cleared r = debt_sum s \<and> reserve_sum t = reserve_sum s + sl_actual_cleared r
    \<and> supply_sum t = supply_sum s \<and> pending_sum t = pending_sum s
    \<and> bad_debt_of t chain + sl_actual_cleared r = bad_debt_of s chain + pl_debt_to_clear_e8s m
    \<and> (\<forall>th. bm_get (chain_bad_debt_circuit_threshold_e8s s) chain = Some th \<and> th \<le> bad_debt_of t chain
          \<and> sl_actual_cleared r < pl_debt_to_clear_e8s m \<longrightarrow> chain_bad_debt_circuit_tripped t chain)
    \<and> (\<exists>w. bm_get (chain_vaults t) vid = Some w \<and> cv_pending_liquidation w = None
         \<and> cv_debt_e8s w + sl_actual_cleared r = cv_debt_e8s v)"
  using assms(1)
proof (rule liquidation_settlement_effect)
  fix v' m' u s2
  assume v': "bm_get (chain_vaults s) vid = Some v'" "cv_pending_liquidation v' = Some m'"
    and c': "sl_actual_cleared r = min (min (pl_debt_to_clear_e8s m') (cv_debt_e8s v')) (stable_native_to_e8s realized dec)"
    and b': "sl_bad_debt_added_e8s r = pl_debt_to_clear_e8s m' - sl_actual_cleared r"
    and u: "apply_debt_to_reserve_shift s chain vid (sl_actual_cleared r) realized = Ok u"
    and s2: "s2 = fst (record_chain_bad_debt_and_maybe_trip u chain (sl_bad_debt_added_e8s r) now)"
    and t: "t = (update_vault vid clear_marker s2)\<lparr>bot_pending_chain_vaults := bm_remove vid (bot_pending_chain_vaults s2)\<rparr>"
  have same: "v' = v" "m' = m" using assms(3,4) v' by auto
  note c = c' [unfolded same] and b = b' [unfolded same]
  have cle: "sl_actual_cleared r \<le> pl_debt_to_clear_e8s m" "sl_actual_cleared r \<le> cv_debt_e8s v" using c by simp_all
  have books: "same_books u s2" unfolding s2 by (rule record_bad_debt_books)
  then have vs: "chain_vaults s2 = chain_vaults u" by (simp add: same_books_def)
  from reserve_shift_frame [OF u] assms(3) have frame: "bad_debt_of u chain = bad_debt_of s chain"
    "chain_bad_debt_circuit_threshold_e8s u = chain_bad_debt_circuit_threshold_e8s s"
    and uv: "bm_get (chain_vaults u) vid = Some (v\<lparr>cv_debt_e8s := cv_debt_e8s v - sl_actual_cleared r\<rparr>)"
    by (simp_all add: bad_debt_of_def)
  have tv: "chain_vaults t = bm_insert vid (clear_marker (v\<lparr>cv_debt_e8s := cv_debt_e8s v - sl_actual_cleared r\<rparr>)) (chain_vaults u)"
    by (simp add: t update_vault_def bm_modify_def vs uv)
  have "bad_debt_of u chain + sl_bad_debt_added_e8s r \<le> u128_max" using assms(5) frame b by simp
  note bad = record_bad_debt_effect [OF this]
  have fields: "chain_bad_debt_e8s t = chain_bad_debt_e8s s2"
    "chain_bad_debt_circuit_tripped_at_ns t = chain_bad_debt_circuit_tripped_at_ns s2"
    by (simp_all add: t update_vault_def)
  have bd: "bad_debt_of t chain = bad_debt_of s chain + (pl_debt_to_clear_e8s m - sl_actual_cleared r)"
    using bad(1) frame(1) b by (simp add: bad_debt_of_def fields s2)
  have trip: "chain_bad_debt_circuit_tripped t chain"
    if "bm_get (chain_bad_debt_circuit_threshold_e8s s) chain = Some th" "th \<le> bad_debt_of t chain"
      "sl_actual_cleared r < pl_debt_to_clear_e8s m" for th
    using bad(2) [of th] that bd b frame by (simp add: chain_bad_debt_circuit_tripped_def fields s2)
  have quiet: "cv_debt_e8s (clear_marker w) = cv_debt_e8s w" "cv_pending_liquidation (clear_marker w) = None" for w
    by (simp_all add: clear_marker_def Let_def)
  have "debt_sum t = debt_sum u"
    using bm_sum_insert_old [OF uv, of cv_debt_e8s "clear_marker (v\<lparr>cv_debt_e8s := cv_debt_e8s v - sl_actual_cleared r\<rparr>)"]
    by (simp add: debt_sum_def tv quiet)
  moreover have "supply_sum t = supply_sum u" "reserve_sum t = reserve_sum u" "pending_sum t = pending_sum u"
    using books by (simp_all add: t ledger_sums update_vault_def same_books_def)
  moreover note debt_to_reserve_sums [OF assms(2) u]
  ultimately have sums: "debt_sum t + sl_actual_cleared r = debt_sum s" "reserve_sum t = reserve_sum s + sl_actual_cleared r"
    "supply_sum t = supply_sum s" "pending_sum t = pending_sum s" by simp_all
  have bd': "bad_debt_of t chain + sl_actual_cleared r = bad_debt_of s chain + pl_debt_to_clear_e8s m"
    using bd cle(1) by simp
  have vault: "\<exists>w. bm_get (chain_vaults t) vid = Some w \<and> cv_pending_liquidation w = None
      \<and> cv_debt_e8s w + sl_actual_cleared r = cv_debt_e8s v"
    using cle(2) by (simp add: tv quiet)
  show ?thesis by (intro conjI c sums bd' vault allI impI) (use trip in blast)
qed

definition run_marked :: multi_chain_state where
  "run_marked = run_open\<lparr>chain_vaults := bm_insert 1 (run_minted_vault
       \<lparr>cv_collateral_amount_native := 1000000000000000000,
        cv_pending_liquidation := Some \<lparr>pl_op_id = 0, pl_debt_to_clear_e8s = 60000000,
          pl_collateral_reserved_native = 1000000000000000000, pl_tier = Bot, pl_started_at_ns = 10\<rparr>\<rparr>) bm_empty,
     chain_bad_debt_circuit_threshold_e8s := bm_insert 10143 5000000 bm_empty\<rparr>"

lemma run_marked_empty:
  "reserve_backing_e8s run_marked = bm_empty" "pending_chain_burn_e8s run_marked = bm_empty"
  "chain_bad_debt_e8s run_marked = bm_empty" "reserve_usdc_native run_marked = bm_empty"
  "chain_bad_debt_circuit_tripped_at_ns run_marked = bm_empty" "invariant_halted run_marked = False"
  "chain_supplies run_marked = bm_insert 10143 100000000 bm_empty"
  "chain_bad_debt_circuit_threshold_e8s run_marked = bm_insert 10143 5000000 bm_empty"
  by (simp_all add: run_marked_def run_open_def run_minted_def run_contract_def sample_rail_def sample_registered_def
      set_manual_price_def multi_chain_default_def)

theorem liquidation_settlement_accounts_witness:
  "\<exists>t r. apply_liquidation_settlement_in_state run_marked 10143 1 0 500000 6 12 = Ok (t, r)
     \<and> sl_actual_cleared r = 50000000 \<and> reserve_sum t = 50000000 \<and> supply_sum t = 100000000
     \<and> bad_debt_of t 10143 = 10000000 \<and> chain_bad_debt_circuit_tripped t 10143"
proof -
  let ?m = "\<lparr>pl_op_id = 0, pl_debt_to_clear_e8s = 60000000, pl_collateral_reserved_native = 1000000000000000000,
    pl_tier = Bot, pl_started_at_ns = 10\<rparr>"
  let ?v = "run_minted_vault\<lparr>cv_collateral_amount_native := 1000000000000000000, cv_pending_liquidation := Some ?m\<rparr>"
  have v: "bm_get (chain_vaults run_marked) 1 = Some ?v" "cv_pending_liquidation ?v = Some ?m"
    "cv_debt_e8s ?v = 100000000" "cv_collateral_chain ?v = 10143"
    by (simp_all add: run_marked_def run_open_vault)
  have vs: "chain_vaults run_marked = bm_insert 1 ?v bm_empty" by (simp add: run_marked_def)
  have usd: "stable_native_to_e8s 500000 6 = 50000000" by (simp add: stable_native_to_e8s_def rust_arith)
  have s: "supply_sum run_marked = 100000000" "debt_sum run_marked = 100000000" "reserve_sum run_marked = 0"
    "pending_sum run_marked = 0" "bad_debt_of run_marked 10143 = 0"
    by (simp_all add: ledger_sums bad_debt_of_def run_marked_empty vs run_open_vault)
  then have b: "backed run_marked" by (simp add: backed_def backing_sum_def u128_max_def)
  have "clearable run_marked 10143 1 50000000" using v by (simp add: clearable_def run_marked_empty)
  then have "\<exists>u. apply_debt_to_reserve_shift run_marked 10143 1 50000000 500000 = Ok u"
    by (simp add: debt_to_reserve_exact [OF b])
  then obtain u where "apply_debt_to_reserve_shift run_marked 10143 1 50000000 500000 = Ok u" ..
  then have "\<exists>t r. apply_liquidation_settlement_in_state run_marked 10143 1 0 500000 6 12 = Ok (t, r)"
    using v by (simp add: apply_liquidation_settlement_in_state_def usd Let_def split: prod.splits)
  then obtain t r where ok: "apply_liquidation_settlement_in_state run_marked 10143 1 0 500000 6 12 = Ok (t, r)" by blast
  have room: "bad_debt_of run_marked 10143 + pl_debt_to_clear_e8s ?m \<le> u128_max" by (simp add: s u128_max_def)
  from liquidation_settlement_accounts [OF ok b v(1,2) room] ok show ?thesis by (simp add: usd s v run_marked_empty)
qed

section \<open>The stability pool absorbs a vault\<close>

text \<open>A stability-pool absorb burns the whole debt of an escalated vault and seizes no more than its
  collateral: the debt becomes a pending burn while the supply stays, the vault loses exactly the
  seized amount, which is worth at most the debt with the bonus, and a claim for exactly that amount,
  nothing paid, is recorded for the pool.\<close>

theorem sp_absorb_accounts:
  assumes "apply_sp_chain_liquidation_absorb_in_state s chain vid burned price dec penalty = Ok (t, r)" and "backed s"
    and "bm_get (chain_vaults s) vid = Some v"
  shows "burned = cv_debt_e8s v \<and> debt_sum t + burned = debt_sum s \<and> pending_sum t = pending_sum s + burned
    \<and> supply_sum t = supply_sum s \<and> reserve_sum t = reserve_sum s
    \<and> collateral_value_e8s (sa_collateral_seized_native r) dec price \<le> burned * bonus_e4_from_penalty_bps penalty div 10000
    \<and> (\<exists>w. bm_get (chain_vaults t) vid = Some w \<and> cv_debt_e8s w = 0
         \<and> cv_collateral_amount_native w + sa_collateral_seized_native r = cv_collateral_amount_native v)
    \<and> bm_get (chain_liquidation_claims t) vid = Some \<lparr>cl_vault_id = vid, cl_chain = chain,
         cl_custody_address = cv_custody_address v, cl_seized_native_total = sa_collateral_seized_native r,
         cl_paid_native = 0, cl_pending_native = 0\<rparr>"
proof -
  define f :: "chain_vault \<Rightarrow> chain_vault" where "f = (\<lambda>w. let w1 = w\<lparr>cv_collateral_amount_native := cv_collateral_amount_native w - sa_collateral_seized_native r\<rparr>
    in if cv_debt_e8s w1 = 0 \<and> cv_collateral_amount_native w1 = 0 then w1\<lparr>cv_status := Closed\<rparr> else w1)"
  from assms(1) obtain u where u: "apply_debt_to_pending_burn_shift s chain vid burned = Ok u"
    and burned: "burned = cv_debt_e8s v" and seized: "sa_collateral_seized_native r
        = min (collateral_in_native_for_repay burned (bonus_e4_from_penalty_bps penalty) dec price) (cv_collateral_amount_native v)"
    and t: "t = (update_vault vid f u)\<lparr>chain_liquidation_claims := bm_insert vid \<lparr>cl_vault_id = vid, cl_chain = chain,
         cl_custody_address = cv_custody_address v, cl_seized_native_total = sa_collateral_seized_native r,
         cl_paid_native = 0, cl_pending_native = 0\<rparr> (chain_liquidation_claims (update_vault vid f u))\<rparr>"
    by (fastforce simp: apply_sp_chain_liquidation_absorb_in_state_def assms(3) and_then_Ok_iff Let_def f_def)
  have uv: "bm_get (chain_vaults u) vid = Some (v\<lparr>cv_debt_e8s := 0\<rparr>)"
    using u burned assms(3) by (auto simp: apply_debt_to_pending_burn_shift_def Let_def split: if_splits)
  have tv: "chain_vaults t = bm_insert vid (f (v\<lparr>cv_debt_e8s := 0\<rparr>)) (chain_vaults u)"
    by (simp add: t update_vault_def bm_modify_def uv)
  have fw: "cv_debt_e8s (f w) = cv_debt_e8s w"
    "cv_collateral_amount_native (f w) = cv_collateral_amount_native w - sa_collateral_seized_native r" for w
    by (simp_all add: f_def Let_def)
  have "debt_sum t = debt_sum u"
    using bm_sum_insert_old [OF uv, of cv_debt_e8s "f (v\<lparr>cv_debt_e8s := 0\<rparr>)"] by (simp add: debt_sum_def tv fw)
  moreover have "supply_sum t = supply_sum u" "reserve_sum t = reserve_sum u" "pending_sum t = pending_sum u"
    by (simp_all add: t ledger_sums update_vault_def)
  moreover note debt_to_pending_sums [OF assms(2) u]
  ultimately have sums: "debt_sum t + burned = debt_sum s" "pending_sum t = pending_sum s + burned"
    "supply_sum t = supply_sum s" "reserve_sum t = reserve_sum s" by simp_all
  have "collateral_value_e8s (sa_collateral_seized_native r) dec price
      \<le> collateral_value_e8s (collateral_in_native_for_repay burned (bonus_e4_from_penalty_bps penalty) dec price) dec price"
    by (rule collateral_value_mono) (simp add: seized)
  also have "\<dots> \<le> burned * bonus_e4_from_penalty_bps penalty div 10000" by (rule seized_value_le)
  finally have worth: "collateral_value_e8s (sa_collateral_seized_native r) dec price
      \<le> burned * bonus_e4_from_penalty_bps penalty div 10000" .
  have vault: "\<exists>w. bm_get (chain_vaults t) vid = Some w \<and> cv_debt_e8s w = 0
      \<and> cv_collateral_amount_native w + sa_collateral_seized_native r = cv_collateral_amount_native v"
    using seized by (simp add: tv fw)
  show ?thesis by (intro conjI burned sums worth vault) (simp add: t)
qed

lemma backed_escalated: "backed (run_escalated Q)"
  by (simp add: backed_def ledger_sums run_escalated_def run_minted_def run_base run_open_vault u128_max_def)

theorem sp_absorb_accounts_witness:
  "\<exists>t r. apply_sp_chain_liquidation_absorb_in_state (run_escalated bm_empty) 10143 1 100000000 200000000 18 1200 = Ok (t, r)
     \<and> pending_sum t = pending_sum (run_escalated bm_empty) + 100000000
     \<and> supply_sum t = supply_sum (run_escalated bm_empty)
     \<and> bm_get (chain_liquidation_claims t) 1 = Some \<lparr>cl_vault_id = 1, cl_chain = 10143, cl_custody_address = ''0xc'',
          cl_seized_native_total = sa_collateral_seized_native r, cl_paid_native = 0, cl_pending_native = 0\<rparr>"
proof -
  obtain t r where ok: "apply_sp_chain_liquidation_absorb_in_state (run_escalated bm_empty) 10143 1 100000000 200000000 18 1200
      = Ok (t, r)" using run_absorb by blast
  have v: "bm_get (chain_vaults (run_escalated bm_empty)) 1 = Some run_minted_vault"
    by (simp add: run_escalated_def run_minted_def)
  have "cv_custody_address run_minted_vault = ''0xc''" by (simp add: run_minted_vault_def sample_new_vault_def)
  with sp_absorb_accounts [OF ok backed_escalated v] ok show ?thesis by simp
qed

section \<open>The bad-debt circuit\<close>

text \<open>While the bad-debt circuit of a chain is tripped nothing creates new exposure there: no vault
  opens, no vault borrows, no deposit leads to a mint, no indebted vault withdraws, the interest
  harvest does nothing, and the settlement worker submits neither a mint nor a withdrawal of an
  indebted vault.\<close>

theorem circuit_blocks_exposure:
  assumes "chain_bad_debt_circuit_tripped s chain"
    and "bm_get (chain_vaults s) vid = Some v" and "cv_collateral_chain v = chain"
  shows "open_chain_vault_in_state s chain owner custody coll debt rcpt valid symbol min_cr min_debt cap now new_id \<noteq> Ok t
    \<and> borrow_chain_vault_in_state s vid debt rcpt valid symbol min_cr min_debt cap now \<noteq> Ok t
    \<and> verify_deposit_and_enqueue_mint_in_state s vid observed now \<noteq> Ok (t, True)
    \<and> (0 < cv_debt_e8s v \<longrightarrow> withdraw_collateral_in_state D s vid amt dest valid symbol min_cr now \<noteq> Ok t)
    \<and> harvest_chain_interest_in_state D s chain apr threshold treasury now alloc k = Some (s, k, [])
    \<and> (select_next_op_with_submit_filter q (\<lambda>_ op. bad_debt_circuit_blocks_settlement_op s chain (op_kind op)) = Some (i, Submit)
        \<longrightarrow> (\<exists>op. bm_get (q_pending q) i = Some op \<and> (\<forall>rc a x. op_kind op \<noteq> Mint rc a x)
              \<and> (\<forall>rc a x y z. op_kind op \<noteq> InterestMint rc a x y z)
              \<and> (\<forall>d a. 0 < cv_debt_e8s v \<longrightarrow> op_kind op \<noteq> NativeWithdrawal d a vid)))"
proof (intro conjI impI)
  show "open_chain_vault_in_state s chain owner custody coll debt rcpt valid symbol min_cr min_debt cap now new_id \<noteq> Ok t"
    using assms(1) by (auto elim: open_Ok)
  show "borrow_chain_vault_in_state s vid debt rcpt valid symbol min_cr min_debt cap now \<noteq> Ok t"
    using assms by (auto elim!: borrow_Ok)
  show "verify_deposit_and_enqueue_mint_in_state s vid observed now \<noteq> Ok (t, True)"
    using assms by (simp add: verify_deposit_and_enqueue_mint_in_state_def Let_def)
  show "withdraw_collateral_in_state D s vid amt dest valid symbol min_cr now \<noteq> Ok t" if "0 < cv_debt_e8s v"
    using assms that by (auto elim!: withdraw_Ok)
  show "harvest_chain_interest_in_state D s chain apr threshold treasury now alloc k = Some (s, k, [])"
    using assms(1) by (simp add: harvest_chain_interest_in_state_def)
next
  assume sel: "select_next_op_with_submit_filter q (\<lambda>_ op. bad_debt_circuit_blocks_settlement_op s chain (op_kind op)) = Some (i, Submit)"
  then obtain op where f: "find (\<lambda>(i, op). op_status op = Queued \<and> \<not> bad_debt_circuit_blocks_settlement_op s chain (op_kind op))
      (bm_entries (q_pending q)) = Some (i, op)"
    by (auto simp: select_next_op_with_submit_filter_def split: option.splits)
  then have "(i, op) \<in> set (bm_entries (q_pending q))" and nb: "\<not> bad_debt_circuit_blocks_settlement_op s chain (op_kind op)"
    by (auto simp: find_Some_iff in_set_conv_nth)
  then have "bm_get (q_pending q) i = Some op" by (simp add: bm.in_entries_iff)
  then show "\<exists>op. bm_get (q_pending q) i = Some op \<and> (\<forall>rc a x. op_kind op \<noteq> Mint rc a x)
      \<and> (\<forall>rc a x y z. op_kind op \<noteq> InterestMint rc a x y z)
      \<and> (\<forall>d a. 0 < cv_debt_e8s v \<longrightarrow> op_kind op \<noteq> NativeWithdrawal d a vid)"
    using nb assms by auto
qed

theorem circuit_blocks_exposure_witness:
  "\<exists>s. chain_bad_debt_circuit_tripped s 10143 \<and> bm_get (chain_vaults s) 1 = Some run_minted_vault
     \<and> borrow_chain_vault_in_state s 1 50000000 ''0xr'' (\<lambda>_. True) ''MON'' 15000 1000000 None 10 \<noteq> Ok s
     \<and> withdraw_collateral_in_state sample_decimal s 1 5 ''0xd'' (\<lambda>_. True) ''MON'' 15000 10 \<noteq> Ok s
     \<and> harvest_chain_interest_in_state sample_decimal s 10143 200 1 ''0xt'' 10 (\<lambda>k :: nat. (k, k + 1)) 0 = Some (s, 0, [])"
proof -
  let ?s = "run_open\<lparr>chain_bad_debt_circuit_tripped_at_ns := bm_insert 10143 9 bm_empty\<rparr>"
  have tripped: "chain_bad_debt_circuit_tripped ?s 10143" by (simp add: chain_bad_debt_circuit_tripped_def)
  have v: "bm_get (chain_vaults ?s) 1 = Some run_minted_vault" by (simp add: run_open_simps)
  have "0 < cv_debt_e8s run_minted_vault" by (simp add: run_open_vault)
  note pos = this and all = circuit_blocks_exposure [OF tripped v run_open_vault(2), where t = ?s]
  have "borrow_chain_vault_in_state ?s 1 50000000 ''0xr'' (\<lambda>_. True) ''MON'' 15000 1000000 None 10 \<noteq> Ok ?s"
    by (rule all [THEN conjunct2, THEN conjunct1])
  moreover have "withdraw_collateral_in_state sample_decimal ?s 1 5 ''0xd'' (\<lambda>_. True) ''MON'' 15000 10 \<noteq> Ok ?s"
    by (rule all [THEN conjunct2, THEN conjunct2, THEN conjunct2, THEN conjunct1, THEN mp, OF pos])
  moreover have "harvest_chain_interest_in_state sample_decimal ?s 10143 200 1 ''0xt'' 10 (\<lambda>k :: nat. (k, k + 1)) 0 = Some (?s, 0, [])"
    by (rule all [THEN conjunct2, THEN conjunct2, THEN conjunct2, THEN conjunct2, THEN conjunct1])
  ultimately show ?thesis using tripped v by blast
qed

end
