(* ===== verification/Endpoint_Guarantees.thy ===== *)
theory Endpoint_Guarantees
  imports Vault_Guarantees
begin

text \<open>
  The canister refines the rail. The endpoints of the canister, the two halves of the opens around
  their awaits, the self-check and the messages of the timers form a step relation on the canister
  with its ids in flight; every step is a sequence of rail steps on the abstraction. The invariants
  of the rail therefore hold of the canister, and a signed intent is accepted at most once.
\<close>

section \<open>Calls and steps of the canister\<close>

datatype endpoint_call =
    RegisterChain register_chain_arg
  | DisableChain chain_id
  | SetChainConfig chain_id update_chain_config_arg
  | DeleteChain chain_id
  | SetChainContract chain_id string
  | SetLiquidationConfig canister "(string, string) outcome" chain_id chain_liquidation_config
  | SetDebtConfig chain_id chain_debt_config
  | SetCircuitThreshold chain_id "u128 option"
  | ClearCircuit chain_id
  | SetPrice chain_id string u64
  | ClearInvariantHalt
  | ClearReorgHalt chain_id
  | SetLastObserved chain_id u64
  | SetPollEnabled chain_id bool
  | WithdrawChain u64 u128 string
  | CloseChain u64 string
  | BorrowEvm vault_intent bytes
  | WithdrawEvm vault_intent bytes
  | CloseEvm vault_intent bytes
  | WithdrawSolana u64 u128 string
  | CloseSolana u64 string

fun run_call :: "'d decimal_ops \<Rightarrow> evm_crypto \<Rightarrow> (string \<Rightarrow> bytes option) \<Rightarrow> canister \<Rightarrow> principal \<Rightarrow> u64
    \<Rightarrow> endpoint_call \<Rightarrow> endpoint" where
  "run_call D C b58 c caller now (RegisterChain arg) = register_chain c caller arg now"
| "run_call D C b58 c caller now (DisableChain chain) = disable_chain c caller chain"
| "run_call D C b58 c caller now (SetChainConfig chain upd) = set_chain_config c caller chain upd"
| "run_call D C b58 c caller now (DeleteChain chain) = delete_chain c caller chain"
| "run_call D C b58 c caller now (SetChainContract chain a) = set_chain_contract b58 c caller chain a"
| "run_call D C b58 c caller now (SetLiquidationConfig before pair chain cfg) =
     set_chain_liquidation_config before pair c caller chain cfg"
| "run_call D C b58 c caller now (SetDebtConfig chain cfg) = set_chain_debt_config c caller chain cfg"
| "run_call D C b58 c caller now (SetCircuitThreshold chain th) =
     set_chain_bad_debt_circuit_threshold_endpoint c caller chain th now"
| "run_call D C b58 c caller now (ClearCircuit chain) = clear_chain_bad_debt_circuit_endpoint c caller chain"
| "run_call D C b58 c caller now (SetPrice chain symbol p) = set_manual_collateral_price c caller chain symbol p now"
| "run_call D C b58 c caller now ClearInvariantHalt = clear_invariant_halt c caller"
| "run_call D C b58 c caller now (ClearReorgHalt chain) = clear_reorg_halt c caller chain"
| "run_call D C b58 c caller now (SetLastObserved chain b) = set_last_observed_block c caller chain b"
| "run_call D C b58 c caller now (SetPollEnabled chain flag) = set_burn_watch_poll_enabled c caller chain flag"
| "run_call D C b58 c caller now (WithdrawChain vid amt dest) = withdraw_chain_collateral c caller vid amt dest now"
| "run_call D C b58 c caller now (CloseChain vid dest) = close_chain_vault c caller vid dest now"
| "run_call D C b58 c caller now (BorrowEvm intent sig) = borrow_chain_vault_evm C c intent sig now"
| "run_call D C b58 c caller now (WithdrawEvm intent sig) = withdraw_chain_collateral_evm D C c intent sig now"
| "run_call D C b58 c caller now (CloseEvm intent sig) = close_chain_vault_evm D C c intent sig now"
| "run_call D C b58 c caller now (WithdrawSolana vid amt dest) = withdraw_solana_collateral D b58 c caller vid amt dest now"
| "run_call D C b58 c caller now (CloseSolana vid dest) = close_solana_vault D b58 c caller vid dest now"



type_synonym node = "canister \<times> u64 set"

text \<open>The messages of the timers and of the permissionless endpoints are those of \<open>chain_action\<close>;
  none of them touches the nonces of the signers.\<close>

inductive canister_step ::
    "'d decimal_ops \<Rightarrow> (principal \<Rightarrow> string) \<Rightarrow> evm_crypto \<Rightarrow> (string \<Rightarrow> bytes option) \<Rightarrow> node \<Rightarrow> node \<Rightarrow> bool"
  for D :: "'d decimal_ops" and ptext :: "principal \<Rightarrow> string" and C :: evm_crypto and b58 :: "string \<Rightarrow> bytes option"
where
  call: "run_call D C b58 c caller now e = Ok c' \<Longrightarrow> canister_step D ptext C b58 (c, R) (c', R)"
| open_start: "open_chain_vault_start c caller chain = Ok (c', vid, params) \<Longrightarrow> can_vault_id_counter c < u64_max
    \<Longrightarrow> canister_step D ptext C b58 (c, R) (c', insert vid R)"
| open_finish: "vid \<in> R \<Longrightarrow> open_chain_vault_finish c caller chain coll debt rcpt vid params derived now = Ok c'
    \<Longrightarrow> canister_step D ptext C b58 (c, R) (c', R - {vid})"
| evm_start: "open_chain_vault_evm_start C c intent sig now = (c', r) \<Longrightarrow> can_vault_id_counter c < u64_max
    \<Longrightarrow> canister_step D ptext C b58 (c, R) (c', case r of Ok (vid, _) \<Rightarrow> insert vid R | _ \<Rightarrow> R)"
| evm_finish: "vid \<in> R \<Longrightarrow> open_chain_vault_evm_finish c v intent vid derived now = Ok c'
    \<Longrightarrow> canister_step D ptext C b58 (c, R) (c', R - {vid})"
| solana_start: "open_solana_vault_start c caller = Ok (c', vid) \<Longrightarrow> can_vault_id_counter c < u64_max
    \<Longrightarrow> canister_step D ptext C b58 (c, R) (c', insert vid R)"
| solana_finish: "vid \<in> R \<Longrightarrow> open_solana_vault_finish b58 c caller coll debt rcpt vid derived now = Ok c'
    \<Longrightarrow> canister_step D ptext C b58 (c, R) (c', R - {vid})"
| open_failed: "canister_step D ptext C b58 (c, R) (c, R - {vid})"
| self_check: "canister_step D ptext C b58 (c, R) (supply_self_check c, R)"
| wallet: "canister_step D ptext C b58 (c, R) (refresh_hot_wallet_balance c chain reading, R)"
| harvest: "harvest_chain_interest_in_state D (can_chain c) chain apr threshold treasury now next_id (can_vault_id_counter c)
      = Some (t, k, ids) \<Longrightarrow> k \<le> u64_max
    \<Longrightarrow> canister_step D ptext C b58 (c, R) (c\<lparr>can_chain := t, can_vault_id_counter := k\<rparr>, R)"
| worker: "chain_action D ptext (can_chain c) t \<Longrightarrow> evm_owner_nonces t = evm_owner_nonces (can_chain c)
    \<Longrightarrow> canister_step D ptext C b58 (c, R) (put_chain c t, R)"

definition rail_of :: "node \<Rightarrow> rail" where
  "rail_of n = \<lparr>rs_chain = can_chain (fst n), rs_counter = can_vault_id_counter (fst n), rs_reserved = snd n\<rparr>"


section \<open>Every step is a run of the rail\<close>


lemma rail_of_chain [simp]: "rs_chain (rail_of (c, R)) = can_chain c"
  "rs_counter (rail_of (c, R)) = can_vault_id_counter c" "rs_reserved (rail_of (c, R)) = R"
  by (simp_all add: rail_of_def)


lemma require_developer_Ok [simp]:
  "require_developer c caller body = Ok c' \<longleftrightarrow> can_developer c = caller \<and> body = Ok c'"
  by (auto simp: require_developer_def)

lemma lift_chain_Ok [simp]: "lift_chain f c r = Ok c' \<longleftrightarrow> (\<exists>t. r = Ok t \<and> c' = put_chain c t)"
  by (auto simp: lift_chain_def and_then_Ok_iff map_err_Ok_iff)

lemma signed_Ok:
  assumes "with_signed_vault C c intent sig action now body = Ok c'"
  obtains v t where "verify_intent_ctx C (can_chain c) intent sig action now = Ok v" and "body v = Ok t"
    and "evm_owns_vault (can_chain c) (vi_vault_id intent) v"
    and "vi_nonce intent = expected_evm_nonce (can_chain c) (ve_synthetic v)"
    and "c' = put_chain c (t\<lparr>evm_owner_nonces := bm_insert (ve_synthetic v)
           (sat_add64 (vi_nonce intent) 1) (evm_owner_nonces t)\<rparr>)"
  using assms by (auto simp: with_signed_vault_def and_then_Ok_iff Let_def split: if_splits)











section \<open>Nonces only grow\<close>

definition same_nonces :: "multi_chain_state \<Rightarrow> multi_chain_state \<Rightarrow> bool" where
  "same_nonces s t \<longleftrightarrow> evm_owner_nonces t = evm_owner_nonces s"

text \<open>What a message may do to the nonces: they stay in 64 bits and never fall.\<close>

definition nonces_grow :: "multi_chain_state \<Rightarrow> multi_chain_state \<Rightarrow> bool" where
  "nonces_grow s t \<longleftrightarrow> (\<forall>who. expected_evm_nonce s who \<le> u64_max \<longrightarrow>
     expected_evm_nonce s who \<le> expected_evm_nonce t who \<and> expected_evm_nonce t who \<le> u64_max)"

lemma same_nonces_grow: "same_nonces s t \<Longrightarrow> nonces_grow s t"
  by (simp add: nonces_grow_def same_nonces_def expected_evm_nonce_def)

lemma expected_insert:
  "expected_evm_nonce (t\<lparr>evm_owner_nonces := bm_insert who n (evm_owner_nonces t)\<rparr>) x
     = (if x = who then n else expected_evm_nonce t x)"
  by (simp add: expected_evm_nonce_def bm_get_or_def)

lemma spend_nonces_grow:
  assumes "same_nonces s t" and "n = expected_evm_nonce s who"
  shows "nonces_grow s (t\<lparr>evm_owner_nonces := bm_insert who (sat_add64 n 1) (evm_owner_nonces t)\<rparr>)"
proof -
  have "expected_evm_nonce t x = expected_evm_nonce s x" for x using assms(1) by (simp add: same_nonces_def expected_evm_nonce_def)
  then show ?thesis using assms(2) by (simp add: nonces_grow_def expected_insert sat_add64_def)
qed

lemma enqueue_nonces: "enqueue_in_state s c op = Ok (t, i) \<Longrightarrow> same_nonces s t"
  by (auto simp: enqueue_in_state_def same_nonces_def split: outcome.splits)

lemma update_vault_nonces [simp]: "evm_owner_nonces (update_vault vid f s) = evm_owner_nonces s"
  by (simp add: update_vault_def)

lemma vault_ops_nonces:
  "withdraw_collateral_in_state D s vid amt dest valid symbol min_cr now = Ok t \<Longrightarrow> same_nonces s t"
  "borrow_chain_vault_in_state s vid amt rcpt valid symbol min_cr min_debt ceiling now = Ok t \<Longrightarrow> same_nonces s t"
  "open_chain_vault_in_state s chain owner custody coll debt rcpt valid symbol min_cr min_debt ceiling now vid = Ok t
     \<Longrightarrow> same_nonces s t"
  by (auto simp: withdraw_collateral_in_state_def and_then_Ok_iff Let_def same_nonces_def
      dest!: enqueue_nonces split: option.splits if_splits)
    (auto simp: borrow_chain_vault_in_state_def open_chain_vault_in_state_def and_then_Ok_iff Let_def same_nonces_def
      dest!: enqueue_nonces split: option.splits if_splits)

lemma close_nonces: "close_chain_vault_in_state D s vid dest valid symbol min_cr now = Ok t \<Longrightarrow> same_nonces s t"
  by (auto simp: close_chain_vault_in_state_def Let_def dest: vault_ops_nonces(1) split: option.splits if_splits)
    (simp add: same_nonces_def)?

lemma admin_nonces:
  "register_chain_in_state s arg now = Ok (t, cfg) \<Longrightarrow> same_nonces s t"
  "disable_chain_in_state s chain = Ok t \<Longrightarrow> same_nonces s t"
  "delete_chain_in_state s chain = Ok t \<Longrightarrow> same_nonces s t"
  "update_chain_config_in_state s chain upd = Ok t \<Longrightarrow> same_nonces s t"
  "set_chain_bad_debt_circuit_threshold s chain th now = Ok t \<Longrightarrow> same_nonces s t"
  by (auto simp: register_chain_in_state_def disable_chain_in_state_def delete_chain_in_state_def
      update_chain_config_in_state_def set_chain_bad_debt_circuit_threshold_def same_nonces_def Let_def
      split: if_splits option.splits)

lemma small_nonces:
  "same_nonces s (fst (clear_chain_bad_debt_circuit s chain))" "same_nonces s (set_manual_price s chain symbol p now)"
  by (auto simp: clear_chain_bad_debt_circuit_def set_manual_price_def same_nonces_def Let_def split: option.splits)

lemma harvest_enqueue_nonces: "same_nonces s (fst (harvest_enqueue chain treasury now alloc es s c))"
proof (induction es arbitrary: s c)
  case (Cons e es)
  obtain vid amount where e: "e = (vid, amount)" by (cases e)
  obtain mint_id c1 where a: "alloc c = (mint_id, c1)" by (cases "alloc c")
  let ?op = "settlement_op_new (InterestMint vid mint_id amount now treasury) (dash_key ''interest'' [chain, mint_id]) now"
  show ?case
  proof (cases "enqueue_in_state s chain ?op")
    case (Ok p)
    obtain s1 i where p: "p = (s1, i)" by (cases p)
    with Ok have "same_nonces s s1" by (auto dest: enqueue_nonces)
    with Cons.IH [of "update_vault vid (\<lambda>v. v\<lparr>cv_pending_interest_mint_e8s := amount\<rparr>) s1" c1] Ok p a e show ?thesis
      by (auto simp: same_nonces_def Let_def split: prod.splits)
  qed (use Cons.IH [of s c1] a e in \<open>auto simp: Let_def\<close>)
qed (simp add: same_nonces_def)

lemma signed_nonces:
  assumes "with_signed_vault C c intent sig action now body = Ok c'" and "\<And>v t. body v = Ok t \<Longrightarrow> same_nonces (can_chain c) t"
  shows "nonces_grow (can_chain c) (can_chain c')"
  using assms(1) by (rule signed_Ok) (auto simp: put_chain_def simp del: One_nat_def intro!: spend_nonces_grow assms(2))

lemma call_nonces:
  assumes "run_call D C b58 c caller now e = Ok c'"
  shows "nonces_grow (can_chain c) (can_chain c')"
proof (cases e)
  case (BorrowEvm intent sig)
  from assms [unfolded this run_call.simps borrow_chain_vault_evm_def] show ?thesis
    by (rule signed_nonces) (auto simp: map_err_Ok_iff dest: vault_ops_nonces)
next
  case (WithdrawEvm intent sig)
  from assms [unfolded this run_call.simps withdraw_chain_collateral_evm_def] show ?thesis
    by (rule signed_nonces) (auto simp: map_err_Ok_iff dest: vault_ops_nonces)
next
  case (CloseEvm intent sig)
  from assms [unfolded this run_call.simps close_chain_vault_evm_def] show ?thesis
    by (rule signed_nonces) (auto simp: map_err_Ok_iff dest: close_nonces)
next
  case (WithdrawChain vid amt dest)
  with assms show ?thesis
    by (auto simp: withdraw_chain_collateral_def and_then_Ok_iff split: option.splits if_splits)
next
  case (CloseChain vid dest)
  with assms show ?thesis
    by (auto simp: close_chain_vault_def and_then_Ok_iff split: option.splits if_splits)
qed (use assms in \<open>auto simp: register_chain_def disable_chain_def set_chain_config_def delete_chain_def
    set_chain_contract_def set_chain_liquidation_config_def set_chain_debt_config_def
    set_chain_bad_debt_circuit_threshold_endpoint_def clear_chain_bad_debt_circuit_endpoint_def
    set_manual_collateral_price_def clear_invariant_halt_def clear_reorg_halt_def set_last_observed_block_def
    set_burn_watch_poll_enabled_def withdraw_solana_collateral_def close_solana_vault_def and_then_Ok_iff map_err_Ok_iff
    put_chain_def small_nonces [unfolded same_nonces_def] same_nonces_def split: if_splits intro!: same_nonces_grow
    dest: admin_nonces [unfolded same_nonces_def] vault_ops_nonces [unfolded same_nonces_def] close_nonces [unfolded same_nonces_def]\<close>)

lemma step_nonces:
  assumes "canister_step D ptext C b58 (c, R) (c', R')"
  shows "nonces_grow (can_chain c) (can_chain c')"
  using assms
proof cases
  case (evm_start intent sig now r)
  show ?thesis
  proof (cases "verify_intent_ctx C (can_chain c) intent sig IaOpen now")
    case (Ok v)
    show ?thesis
    proof (cases "consume_evm_nonce (can_chain c) (ve_synthetic v) (vi_nonce intent)")
      case s: (Ok s)
      then have "nonces_grow (can_chain c) s"
        by (auto simp: consume_evm_nonce_def Let_def same_nonces_def simp del: One_nat_def split: if_splits intro!: spend_nonces_grow)
      moreover have "can_chain c' = s"
        using evm_start Ok s by (auto simp: open_chain_vault_evm_start_def reserve_vault_id_def put_chain_def Let_def split: if_splits)
      ultimately show ?thesis by simp
    qed (use evm_start Ok in \<open>auto simp: open_chain_vault_evm_start_def same_nonces_def intro!: same_nonces_grow\<close>)
  qed (use evm_start in \<open>auto simp: open_chain_vault_evm_start_def same_nonces_def intro!: same_nonces_grow\<close>)
next
  case (call caller now e)
  then show ?thesis using call_nonces by blast
next
  case (harvest chain apr threshold treasury now t k ids)
  have "same_nonces (can_chain c) t"
  proof (cases "t = can_chain c")
    case False
    with harvest obtain es where
      "harvest_enqueue chain treasury now next_id es (can_chain c) (can_vault_id_counter c) = (t, k, ids)"
      by (auto simp: harvest_chain_interest_in_state_def split: if_splits)
    with harvest_enqueue_nonces [of "can_chain c" chain treasury now next_id es "can_vault_id_counter c"] show ?thesis by simp
  qed (simp add: same_nonces_def)
  with harvest show ?thesis by (auto intro: same_nonces_grow)
qed (auto simp: open_chain_vault_start_def open_chain_vault_finish_def open_chain_vault_evm_finish_def
    open_solana_vault_start_def open_solana_vault_finish_def reserve_vault_id_def supply_self_check_def
    refresh_hot_wallet_balance_def put_chain_def and_then_Ok_iff map_err_Ok_iff same_nonces_def Let_def
    split: if_splits prod.splits outcome.splits intro!: same_nonces_grow
    dest: vault_ops_nonces(3) [unfolded same_nonces_def])

lemma nonces_grow_trans: "nonces_grow s t \<Longrightarrow> nonces_grow t u \<Longrightarrow> nonces_grow s u"
  unfolding nonces_grow_def by (meson le_trans)

lemma run_nonces: "(canister_step D ptext C b58)\<^sup>*\<^sup>* n m \<Longrightarrow> nonces_grow (can_chain (fst n)) (can_chain (fst m))"
proof (induction rule: rtranclp_induct)
  case base
  then show ?case by (simp add: nonces_grow_def)
next
  case (step m p)
  then show ?case using step_nonces [of D ptext C b58 "fst m" "snd m" "fst p" "snd p"] nonces_grow_trans by auto
qed

section \<open>The account behind a signature\<close>

lemma hex_digit_lower [simp]: "hex_digit_value (ascii_lower ch) = hex_digit_value ch"
  by (auto simp: hex_digit_value_def ascii_lower_def Let_def)

lemma hex_decode_lower: "hex_decode (to_ascii_lowercase s) = hex_decode s"
  by (induction s rule: hex_decode.induct) (simp_all add: to_ascii_lowercase_def)

lemma of_char_lower: "(of_char (ascii_lower ch) :: nat) =
    (if 65 \<le> (of_char ch :: nat) \<and> (of_char ch :: nat) \<le> 90 then of_char ch + 32 else of_char ch)"
  by (simp add: ascii_lower_def Let_def)

lemma char_eq_code: "ch = d \<longleftrightarrow> (of_char ch :: nat) = of_char d"
  by simp

lemma ascii_lower_0x: "ascii_lower ch = CHR ''0'' \<longleftrightarrow> ch = CHR ''0''"
    "ascii_lower ch = CHR ''x'' \<or> ascii_lower ch = CHR ''X'' \<longleftrightarrow> ch = CHR ''x'' \<or> ch = CHR ''X''"
  unfolding char_eq_code [of "ascii_lower ch"] char_eq_code [of ch] of_char_lower by auto

lemma strip_lower: "strip_0x_or_self (to_ascii_lowercase s) = to_ascii_lowercase (strip_0x_or_self s)"
  using ascii_lower_0x
  by (auto simp: strip_0x_or_self_def strip_0x_def to_ascii_lowercase_def split: list.splits option.splits)

lemma parse_addr_ignores_case:
  assumes "eq_ignore_ascii_case a b" and "parse_addr_20 a = Ok x" and "parse_addr_20 b = Ok y"
  shows "x = y"
proof -
  have "hex_decode (strip_0x_or_self a) = hex_decode (strip_0x_or_self b)"
    using assms(1) unfolding eq_ignore_ascii_case_def by (metis hex_decode_lower strip_lower)
  with assms(2,3) show ?thesis by (auto simp: parse_addr_20_def split: option.splits if_splits)
qed

lemma lower_lower: "to_ascii_lowercase (to_ascii_lowercase s) = to_ascii_lowercase s"
proof -
  have "ascii_lower (ascii_lower ch) = ascii_lower ch" for ch
    unfolding char_eq_code [of "ascii_lower (ascii_lower ch)"] of_char_lower by simp
  then show ?thesis by (simp add: to_ascii_lowercase_def)
qed

lemma verified_account:
  assumes "verify_intent_ctx C s intent sig act now = Ok v"
  obtains signer where "eq_ignore_ascii_case signer (vi_owner intent)" and "ve_owner_evm v = to_ascii_lowercase signer"
    and "synthetic_owner C (vi_chain_id intent) signer = Ok (ve_synthetic v)"
  using assms
  by (fastforce simp: verify_intent_ctx_def verify_intent_def and_then_Ok_iff map_err_Ok_iff Let_def split: if_splits)

lemma verified_account_unique:
  assumes "verify_intent_ctx C s intent sig act now = Ok v" and "verify_intent_ctx C s' intent sig' act' now' = Ok v'"
  shows "ve_synthetic v = ve_synthetic v'"
proof -
  obtain a where a: "eq_ignore_ascii_case a (vi_owner intent)" "synthetic_owner C (vi_chain_id intent) a = Ok (ve_synthetic v)"
    using assms(1) by (rule verified_account)
  obtain b where b: "eq_ignore_ascii_case b (vi_owner intent)" "synthetic_owner C (vi_chain_id intent) b = Ok (ve_synthetic v')"
    using assms(2) by (rule verified_account)
  from a(1) b(1) have "eq_ignore_ascii_case a b" by (simp add: eq_ignore_ascii_case_def)
  then show ?thesis
    using a(2) b(2) parse_addr_ignores_case by (fastforce simp: synthetic_owner_def and_then_Ok_iff Let_def)
qed

definition signed_call :: "vault_intent \<Rightarrow> endpoint_call \<Rightarrow> bool" where
  "signed_call intent e \<longleftrightarrow> (\<exists>sig. e = BorrowEvm intent sig \<or> e = WithdrawEvm intent sig \<or> e = CloseEvm intent sig)"

lemma signed_call_Ok:
  assumes "signed_call intent e" and "run_call D C b58 c caller now e = Ok c'"
  obtains sig act v t where "verify_intent_ctx C (can_chain c) intent sig act now = Ok v"
    and "vi_nonce intent = expected_evm_nonce (can_chain c) (ve_synthetic v)"
    and "c' = put_chain c (t\<lparr>evm_owner_nonces := bm_insert (ve_synthetic v)
           (sat_add64 (vi_nonce intent) 1) (evm_owner_nonces t)\<rparr>)"
  using assms
  by (auto simp: signed_call_def borrow_chain_vault_evm_def withdraw_chain_collateral_evm_def close_chain_vault_evm_def
      simp del: One_nat_def elim!: signed_Ok)

lemma open_start_Ok:
  assumes "open_chain_vault_evm_start C c intent sig now = (c', Ok (vid, v))"
  shows "verify_intent_ctx C (can_chain c) intent sig IaOpen now = Ok v"
    and "vi_nonce intent = expected_evm_nonce (can_chain c) (ve_synthetic v)"
  using assms
  by (auto simp: open_chain_vault_evm_start_def consume_evm_nonce_def Let_def split: outcome.splits if_splits prod.splits)

lemma open_start_spends:
  assumes "open_chain_vault_evm_start C c intent sig now = (c', Ok (vid, v))"
  shows "expected_evm_nonce (can_chain c') (ve_synthetic v) = sat_add64 (vi_nonce intent) 1"
  using assms
  by (auto simp: open_chain_vault_evm_start_def consume_evm_nonce_def reserve_vault_id_def put_chain_def expected_insert Let_def
      simp del: One_nat_def split: outcome.splits if_splits prod.splits)

text \<open>An accepted intent, signed call or signed open, spends its nonce.\<close>

lemma accepted_spends:
  assumes "(\<exists>e caller. signed_call intent e \<and> run_call D C b58 c caller now e = Ok c1)
      \<or> (\<exists>sig vid v. open_chain_vault_evm_start C c intent sig now = (c1, Ok (vid, v)))"
  obtains sig act v where "verify_intent_ctx C (can_chain c) intent sig act now = Ok v"
    and "expected_evm_nonce (can_chain c1) (ve_synthetic v) = sat_add64 (vi_nonce intent) 1"
  using assms
proof (elim disjE exE conjE)
  fix e caller
  assume "signed_call intent e" and "run_call D C b58 c caller now e = Ok c1"
  then show thesis
    by (rule signed_call_Ok) (auto simp: put_chain_def expected_insert simp del: One_nat_def intro: that)
next
  fix sig vid v
  assume "open_chain_vault_evm_start C c intent sig now = (c1, Ok (vid, v))"
  then show thesis using open_start_Ok(1) open_start_spends that by blast
qed

section \<open>A canister and a run of it\<close>

definition run_canister :: canister where
  "run_canister = \<lparr>can_developer = 1, can_price_pusher = None, can_price_pusher_allowed = [], can_mode = GeneralAvailability,
     can_mode_triggered_by_oracle = False, can_vault_id_counter = 0, can_chain = multi_chain_default\<rparr>"






text \<open>C15. A signed intent is accepted at most once. After a signed borrow, withdrawal or close has
  succeeded or a signed open has started, no later state of the canister accepts the same intent
  again, whatever endpoint it is sent to, whoever sends it and with whatever signature: the signer's
  nonce has passed it.\<close>

theorem signed_intent_single_use:
  assumes "(\<exists>e caller. signed_call intent e \<and> run_call D C b58 c caller now e = Ok c1)
      \<or> (\<exists>sig vid v. open_chain_vault_evm_start C c intent sig now = (c1, Ok (vid, v)))"
    and "vi_nonce intent < u64_max" and "(canister_step D ptext C b58)\<^sup>*\<^sup>* (c1, R) (c2, R2)"
  shows "(signed_call intent e' \<longrightarrow> run_call D C b58 c2 caller' now' e' \<noteq> Ok c3)
    \<and> open_chain_vault_evm_start C c2 intent sig' now' \<noteq> (c3, Ok (vid', v'))"
proof -
  from assms(1) obtain sig act v where v: "verify_intent_ctx C (can_chain c) intent sig act now = Ok v"
    and spent: "expected_evm_nonce (can_chain c1) (ve_synthetic v) = sat_add64 (vi_nonce intent) 1"
    by (rule accepted_spends)
  have "nonces_grow (can_chain c1) (can_chain c2)" using run_nonces [OF assms(3)] by simp
  then have later: "vi_nonce intent < expected_evm_nonce (can_chain c2) (ve_synthetic v)"
    using assms(2) spent by (auto simp: nonces_grow_def sat_add64_def dest!: spec [of _ "ve_synthetic v"])
  have fresh: "vi_nonce intent \<noteq> expected_evm_nonce (can_chain c2) (ve_synthetic w)"
    if "verify_intent_ctx C (can_chain c2) intent sg ac nw = Ok w" for sg ac nw w
    using verified_account_unique [OF v that] later by simp
  show ?thesis
  proof (intro conjI impI notI)
    assume "signed_call intent e'" "run_call D C b58 c2 caller' now' e' = Ok c3"
    then show False by (rule signed_call_Ok) (use fresh in blast)
  next
    assume "open_chain_vault_evm_start C c2 intent sig' now' = (c3, Ok (vid', v'))"
    from open_start_Ok [OF this] fresh show False by blast
  qed
qed

definition run_address :: string where
  "run_address = ''0x'' @ replicate 40 CHR ''a''"

definition run_crypto :: evm_crypto where
  "run_crypto = \<lparr>ec_keccak = (\<lambda>x. replicate 32 0), ec_recover = (\<lambda>_ _ _ _. Some run_address), ec_principal = (\<lambda>_. 7)\<rparr>"

definition run_intent :: vault_intent where
  "run_intent = \<lparr>vi_action = 2, vi_chain_id = 10143, vi_owner = run_address, vi_vault_id = 1,
     vi_collateral_wei = 500000000000000000, vi_debt_e8s = 0, vi_recipient = run_address, vi_nonce = 0, vi_deadline_secs = 99\<rparr>"

definition run_signed :: canister where
  "run_signed = run_canister\<lparr>can_chain := (run_minted (bm_insert 10143 settlement_queue_default bm_empty))
     \<lparr>chain_contracts := bm_insert 10143 run_address bm_empty,
      chain_vaults := bm_insert 1 (run_minted_vault\<lparr>cv_owner_evm := Some run_address\<rparr>) bm_empty\<rparr>\<rparr>"

lemma run_address_facts: "parse_addr_20 run_address = Ok (replicate 20 170)" "is_valid_evm_address run_address"
    "to_ascii_lowercase run_address = run_address"
  by code_simp+

lemma run_signed_simps:
  "chain_vaults (can_chain run_signed) = bm_insert 1 (run_minted_vault\<lparr>cv_owner_evm := Some run_address\<rparr>) bm_empty"
  "chain_contracts (can_chain run_signed) = bm_insert 10143 run_address bm_empty"
  "chain_debt_configs (can_chain run_signed) = bm_empty" "evm_owner_nonces (can_chain run_signed) = bm_empty"
  "chain_bad_debt_circuit_tripped_at_ns (can_chain run_signed) = bm_empty"
  "settlement_queues (can_chain run_signed) = bm_insert 10143 settlement_queue_default bm_empty"
  "native_decimals_of (can_chain run_signed) 10143 = 18"
  "gated_chain_price_e8 (can_chain run_signed) 10143 ''MON'' 10 = Ok 200000000"
  by (simp_all add: run_signed_def run_canister_def run_minted_def run_contract_def sample_rail_def sample_registered_def
      set_manual_price_def multi_chain_default_def native_decimals_of_def sample_config_def gated_chain_price_e8_def
      get_manual_price_def rust_arith Let_def)

lemma run_verified: "verify_intent_ctx run_crypto (can_chain run_signed) run_intent (replicate 65 0) IaWithdrawCollateral 10
    = Ok \<lparr>ve_chain = 10143, ve_owner_evm = run_address, ve_synthetic = 7, ve_symbol = ''MON'', ve_min_cr = 13000,
         ve_min_vault_debt_e8s = 10000000, ve_debt_ceiling_e8s = None\<rparr>"
  by (simp add: verify_intent_ctx_def evm_vault_params_def evm_chain_config_def chain_collateral_config_def icp_mirror_def
      chain_debt_config_from_collateral_config_def run_signed_simps run_intent_def verify_intent_def from_u8_def
      domain_separator_def intent_struct_hash_def word_address_def run_address_facts run_crypto_def recover_evm_address_def
      synthetic_owner_def eq_ignore_ascii_case_def u32_max_def Let_def)

lemma run_signed_withdraw:
  "\<exists>c. run_call sample_decimal run_crypto (\<lambda>_. None) run_signed 3 10 (WithdrawEvm run_intent (replicate 65 0)) = Ok c"
  using run_verified
  by (simp add: withdraw_chain_collateral_evm_def with_signed_vault_def evm_owns_vault_def run_signed_simps run_minted_vault_def
      sample_new_vault_def eq_ignore_ascii_case_def expected_evm_nonce_def run_intent_def withdraw_collateral_in_state_def
      chain_bad_debt_circuit_tripped_def collateral_ratio_e4_def accrued_chain_interest_e8s_def sample_decimal_def
      chain_collateral_config_def icp_mirror_def nanos_per_year_def enqueue_in_state_def enqueue_def run_address_facts
      settlement_queue_default_def rust_arith Let_def)

definition run_open_intent :: vault_intent where
  "run_open_intent = run_intent\<lparr>vi_action := 0, vi_vault_id := 0\<rparr>"

lemma run_open_verified: "verify_intent_ctx run_crypto (can_chain run_signed) run_open_intent (replicate 65 0) IaOpen 10
    = Ok \<lparr>ve_chain = 10143, ve_owner_evm = run_address, ve_synthetic = 7, ve_symbol = ''MON'', ve_min_cr = 13000,
         ve_min_vault_debt_e8s = 10000000, ve_debt_ceiling_e8s = None\<rparr>"
  by (simp add: verify_intent_ctx_def evm_vault_params_def evm_chain_config_def chain_collateral_config_def icp_mirror_def
      chain_debt_config_from_collateral_config_def run_signed_simps run_intent_def run_open_intent_def verify_intent_def from_u8_def
      domain_separator_def intent_struct_hash_def word_address_def run_address_facts run_crypto_def recover_evm_address_def
      synthetic_owner_def eq_ignore_ascii_case_def u32_max_def Let_def)

lemma one_vault: "bm_values (bm_insert k v bm_empty) = [v]"
  by (simp add: bm_values_def bm_insert.rep_eq bm_empty.rep_eq)

lemma run_open_started:
  "\<exists>c vid v. open_chain_vault_evm_start run_crypto run_signed run_open_intent (replicate 65 0) 10 = (c, Ok (vid, v))"
  using run_open_verified
  by (simp add: open_chain_vault_evm_start_def consume_evm_nonce_def run_signed_simps run_open_intent_def run_intent_def
      expected_evm_nonce_def count_owner_active_vaults_def max_vaults_per_owner_def run_minted_vault_def sample_new_vault_def
      reserve_vault_id_def one_vault Let_def)

theorem signed_intent_single_use_witness:
  "(\<exists>c. run_call sample_decimal run_crypto (\<lambda>_. None) run_signed 3 10 (WithdrawEvm run_intent (replicate 65 0)) = Ok c
     \<and> run_call sample_decimal run_crypto (\<lambda>_. None) c 4 11 (WithdrawEvm run_intent (replicate 65 0)) \<noteq> Ok c)
   \<and> (\<exists>c vid v. open_chain_vault_evm_start run_crypto run_signed run_open_intent (replicate 65 0) 10 = (c, Ok (vid, v))
     \<and> open_chain_vault_evm_start run_crypto c run_open_intent (replicate 65 0) 11 \<noteq> (c, Ok (vid, v)))"
proof -
  let ?e = "WithdrawEvm run_intent (replicate 65 0)" and ?b = "\<lambda>_ :: string. None :: bytes option"
  let ?step = "canister_step sample_decimal show_nat run_crypto ?b"
  have stay: "?step\<^sup>*\<^sup>* (c, {}) (c, {})" for c by simp
  have n: "vi_nonce run_intent < u64_max" "vi_nonce run_open_intent < u64_max"
    by (simp_all add: run_intent_def run_open_intent_def u64_max_def)
  obtain c where c: "run_call sample_decimal run_crypto ?b run_signed 3 10 ?e = Ok c"
    using run_signed_withdraw by blast
  have s: "signed_call run_intent ?e" by (auto simp: signed_call_def)
  obtain c' vid v where o: "open_chain_vault_evm_start run_crypto run_signed run_open_intent (replicate 65 0) 10 = (c', Ok (vid, v))"
    using run_open_started by blast
  have "run_call sample_decimal run_crypto ?b c 4 11 ?e \<noteq> Ok c"
    using signed_intent_single_use [OF _ n(1) stay [of c], where c = run_signed and now = 10] s c by blast
  moreover have "open_chain_vault_evm_start run_crypto c' run_open_intent (replicate 65 0) 11 \<noteq> (c', Ok (vid, v))"
    using signed_intent_single_use [OF _ n(2) stay [of c'], where c = run_signed and now = 10] o by blast
  ultimately show ?thesis using c o by blast
qed

text \<open>A signed withdrawal moves only the signer's collateral, and only to the signer. When the endpoint
  accepts a signed withdrawal, the signature verifies for the intent's owner, the vault belongs to
  that account, the one operation that is enqueued pays the signed amount to the signer's address,
  and no other vault changes.\<close>

theorem signed_withdraw_pays_owner:
  assumes "withdraw_chain_collateral_evm D C c intent sig now = Ok c1"
  shows "\<exists>w a addr contract q i. bm_get (chain_vaults (can_chain c)) (vi_vault_id intent) = Some w
    \<and> verify_intent C intent sig IaWithdrawCollateral contract (now div 1000000000) = Ok (addr, cv_owner w)
    \<and> cv_owner_evm w = Some a \<and> eq_ignore_ascii_case a addr \<and> eq_ignore_ascii_case addr (vi_owner intent)
    \<and> enqueue (bm_get_or settlement_queue_default (settlement_queues (can_chain c)) (cv_collateral_chain w))
        (settlement_op_new (NativeWithdrawal addr (vi_collateral_wei intent) (vi_vault_id intent))
           (dash_key ''withdraw'' [cv_collateral_chain w, vi_vault_id intent, now]) now) = Ok (q, i)
    \<and> settlement_queues (can_chain c1) = bm_insert (cv_collateral_chain w) q (settlement_queues (can_chain c))
    \<and> (\<forall>other. other \<noteq> vi_vault_id intent
         \<longrightarrow> bm_get (chain_vaults (can_chain c1)) other = bm_get (chain_vaults (can_chain c)) other)"
  using assms unfolding withdraw_chain_collateral_evm_def
proof (rule signed_Ok)
  fix v t
  assume ver: "verify_intent_ctx C (can_chain c) intent sig IaWithdrawCollateral now = Ok v"
    and body: "map_err EeWithdraw (withdraw_collateral_in_state D (can_chain c) (vi_vault_id intent)
        (vi_collateral_wei intent) (ve_owner_evm v) is_valid_evm_address (ve_symbol v) (ve_min_cr v) now) = Ok t"
    and own: "evm_owns_vault (can_chain c) (vi_vault_id intent) v"
    and c1: "c1 = put_chain c (t\<lparr>evm_owner_nonces := bm_insert (ve_synthetic v)
           (sat_add64 (vi_nonce intent) 1) (evm_owner_nonces t)\<rparr>)"
  from own obtain w a where w: "bm_get (chain_vaults (can_chain c)) (vi_vault_id intent) = Some w"
    and o: "cv_owner w = ve_synthetic v" "cv_owner_evm w = Some a" "eq_ignore_ascii_case a (ve_owner_evm v)"
    by (auto simp: evm_owns_vault_def split: option.splits)
  from ver obtain contract where sg: "verify_intent C intent sig IaWithdrawCollateral contract (now div 1000000000)
      = Ok (ve_owner_evm v, ve_synthetic v)"
    by (auto simp: verify_intent_ctx_def and_then_Ok_iff map_err_Ok_iff Let_def)
  from ver obtain signer where "eq_ignore_ascii_case signer (vi_owner intent)" "ve_owner_evm v = to_ascii_lowercase signer"
    by (rule verified_account)
  then have addr: "eq_ignore_ascii_case (ve_owner_evm v) (vi_owner intent)"
    by (simp add: eq_ignore_ascii_case_def lower_lower)
  from body have "withdraw_collateral_in_state D (can_chain c) (vi_vault_id intent) (vi_collateral_wei intent) (ve_owner_evm v)
      is_valid_evm_address (ve_symbol v) (ve_min_cr v) now = Ok t" by (simp add: map_err_Ok_iff)
  then obtain u i w' where u: "enqueue_in_state (can_chain c) (cv_collateral_chain w)
        (settlement_op_new (NativeWithdrawal (ve_owner_evm v) (vi_collateral_wei intent) (vi_vault_id intent))
           (dash_key ''withdraw'' [cv_collateral_chain w, vi_vault_id intent, now]) now) = Ok (u, i)"
      and t: "t = u\<lparr>chain_vaults := bm_insert (vi_vault_id intent) w' (chain_vaults (can_chain c))\<rparr>"
    using w by (rule withdraw_Ok) blast
  from u obtain q where "enqueue (bm_get_or settlement_queue_default (settlement_queues (can_chain c)) (cv_collateral_chain w))
        (settlement_op_new (NativeWithdrawal (ve_owner_evm v) (vi_collateral_wei intent) (vi_vault_id intent))
           (dash_key ''withdraw'' [cv_collateral_chain w, vi_vault_id intent, now]) now) = Ok (q, i)"
    and "settlement_queues u = bm_insert (cv_collateral_chain w) q (settlement_queues (can_chain c))"
    by (auto simp: enqueue_in_state_def split: outcome.splits)
  with w o sg addr show ?thesis
    by (intro exI [of _ w] exI [of _ a] exI [of _ "ve_owner_evm v"] exI [of _ contract] exI [of _ q] exI [of _ i])
      (simp add: c1 t put_chain_def)
qed

theorem signed_withdraw_pays_owner_witness:
  "\<exists>c1 q i. withdraw_chain_collateral_evm sample_decimal run_crypto run_signed run_intent (replicate 65 0) 10 = Ok c1
     \<and> settlement_queues (can_chain c1) = bm_insert 10143 q (settlement_queues (can_chain run_signed))
     \<and> enqueue settlement_queue_default (settlement_op_new (NativeWithdrawal run_address 500000000000000000 1)
         (dash_key ''withdraw'' [10143, 1, 10]) 10) = Ok (q, i)"
proof -
  obtain c1 where ok: "withdraw_chain_collateral_evm sample_decimal run_crypto run_signed run_intent (replicate 65 0) 10 = Ok c1"
    using run_signed_withdraw by auto
  let ?w = "run_minted_vault\<lparr>cv_owner_evm := Some run_address\<rparr>"
  from signed_withdraw_pays_owner [OF ok] obtain w a addr contract q i where
    w: "bm_get (chain_vaults (can_chain run_signed)) (vi_vault_id run_intent) = Some w"
    and a: "cv_owner_evm w = Some a" "eq_ignore_ascii_case a addr"
      "verify_intent run_crypto run_intent (replicate 65 0) IaWithdrawCollateral contract (10 div 1000000000) = Ok (addr, cv_owner w)"
    and q: "enqueue (bm_get_or settlement_queue_default (settlement_queues (can_chain run_signed)) (cv_collateral_chain w))
        (settlement_op_new (NativeWithdrawal addr (vi_collateral_wei run_intent) (vi_vault_id run_intent))
           (dash_key ''withdraw'' [cv_collateral_chain w, vi_vault_id run_intent, 10]) 10) = Ok (q, i)"
      "settlement_queues (can_chain c1) = bm_insert (cv_collateral_chain w) q (settlement_queues (can_chain run_signed))"
    by blast
  from w have "w = ?w" by (simp add: run_signed_simps run_intent_def)
  moreover have "addr = run_address"
    using a(3) by (auto simp: verify_intent_def and_then_Ok_iff map_err_Ok_iff recover_evm_address_def run_crypto_def
        run_address_facts split: if_splits)
  ultimately show ?thesis using ok q by (auto simp: run_open_vault run_intent_def run_signed_simps bm_get_or_def)
qed

end
