(* ===== verification/Amm_Math.thy ===== *)
theory Amm_Math
  imports Constant_Product
begin

text \<open>
  The arithmetic of the constant-product market maker (\<^verbatim>\<open>rumi_amm/src/math.rs\<close>) and the reward
  accumulator of its liquidity providers (\<^verbatim>\<open>rumi_amm/src/rewards.rs\<close>). The swap is an instance of
  the contract \<open>constant_product\<close>; the square root of the first deposit is Newton's iteration with
  the wrapping additions of the code, where a division by zero is a panic.
\<close>

section \<open>Swaps\<close>

datatype amm_error =
    AePoolNotFound
  | AePoolAlreadyExists
  | AePoolPaused
  | AeZeroAmount
  | AeInsufficientOutput u128 u128
  | AeInsufficientLiquidity
  | AeInsufficientLpShares u128 u128
  | AeInvalidToken
  | AeTransferFailed string string
  | AeUnauthorized
  | AeMathOverflow
  | AeDisproportionateLiquidity
  | AePoolCreationClosed
  | AeFeeBpsOutOfRange
  | AeMaintenanceMode
  | AeClaimNotFound
  | AePoolBusy
  | AeDuplicateNonce
  | AeNoLiquidity
  | AeBelowMinClaim u128 u128
  | AeRewardLedgerTransferFailed string
  | AeInsufficientOnChainBalance u128 u128
  | AeInvalidInput string

definition compute_swap ::
    "u128 \<Rightarrow> u128 \<Rightarrow> u128 \<Rightarrow> u16 \<Rightarrow> u16 \<Rightarrow> (amm_error, u128 \<times> u128 \<times> u128) outcome" where
  "compute_swap reserve_in reserve_out amount_in fee_bps protocol_fee_bps =
     (if amount_in = 0 then Err AeZeroAmount
      else if reserve_in = 0 \<or> reserve_out = 0 then Err AeInsufficientLiquidity
      else
        and_then (ok_or AeMathOverflow (checked_mul128 amount_in fee_bps)) (\<lambda>fee_scaled.
        let total_fee = fee_scaled div 10000 in
        and_then (ok_or AeFeeBpsOutOfRange (checked_sub128 amount_in total_fee)) (\<lambda>effective_in.
        and_then (ok_or AeMathOverflow (checked_mul128 reserve_out effective_in)) (\<lambda>numerator.
        and_then (ok_or AeMathOverflow (checked_add128 reserve_in effective_in)) (\<lambda>denominator.
        let amount_out = numerator div denominator in
        if amount_out = 0 then Err AeInsufficientLiquidity
        else
          and_then (ok_or AeMathOverflow (checked_mul128 total_fee protocol_fee_bps)) (\<lambda>share.
          Ok (amount_out, total_fee, share div 10000)))))))"

section \<open>Liquidity shares\<close>

definition minimum_liquidity :: u128 where
  "minimum_liquidity = 1000"

text \<open>The loop of \<^verbatim>\<open>isqrt\<close>: \<^verbatim>\<open>while y < x { x = y; y = (x + n / x) / 2 }\<close>\<close>

function isqrt_loop :: "u128 \<Rightarrow> u128 \<Rightarrow> u128 \<Rightarrow> u128 option" where
  "isqrt_loop n x y =
     (if y < x then if y = 0 then None else isqrt_loop n y (wrap_add128 y (n div y) div 2) else Some x)"
  by pat_completeness auto

termination
  by (relation "measure (\<lambda>(n, x, y). x)") auto

declare isqrt_loop.simps [simp del]

definition isqrt :: "u128 \<Rightarrow> u128 option" where
  "isqrt n = (if n = 0 then Some 0 else isqrt_loop n n (wrap_add128 n 1 div 2))"

definition compute_initial_lp_shares :: "u128 \<Rightarrow> u128 \<Rightarrow> (amm_error, u128) outcome" where
  "compute_initial_lp_shares amount_a amount_b =
     (if amount_a = 0 \<or> amount_b = 0 then Err AeZeroAmount
      else
        and_then (ok_or AeMathOverflow (checked_mul128 amount_a amount_b)) (\<lambda>product.
        and_then (or_trap (isqrt product)) (\<lambda>shares.
        if shares \<le> minimum_liquidity then Err AeInsufficientLiquidity else Ok shares)))"

definition compute_proportional_lp_shares ::
    "u128 \<Rightarrow> u128 \<Rightarrow> u128 \<Rightarrow> u128 \<Rightarrow> u128 \<Rightarrow> (amm_error, u128) outcome" where
  "compute_proportional_lp_shares amount_a amount_b reserve_a reserve_b total_shares =
     (if amount_a = 0 \<or> amount_b = 0 then Err AeZeroAmount
      else if reserve_a = 0 \<or> reserve_b = 0 \<or> total_shares = 0 then Err AeInsufficientLiquidity
      else
        and_then (ok_or AeMathOverflow (checked_mul128 amount_a total_shares)) (\<lambda>scaled_a.
        and_then (ok_or AeMathOverflow (checked_mul128 amount_b total_shares)) (\<lambda>scaled_b.
        let shares = min (scaled_a div reserve_a) (scaled_b div reserve_b)
        in if shares = 0 then Err AeInsufficientLiquidity else Ok shares)))"

definition compute_remove_liquidity ::
    "u128 \<Rightarrow> u128 \<Rightarrow> u128 \<Rightarrow> u128 \<Rightarrow> (amm_error, u128 \<times> u128) outcome" where
  "compute_remove_liquidity shares reserve_a reserve_b total_shares =
     (if shares = 0 then Err AeZeroAmount
      else if shares > total_shares then Err (AeInsufficientLpShares shares total_shares)
      else
        and_then (ok_or AeMathOverflow (checked_mul128 shares reserve_a)) (\<lambda>scaled_a.
        and_then (ok_or AeMathOverflow (checked_mul128 shares reserve_b)) (\<lambda>scaled_b.
        let amount_a = scaled_a div total_shares; amount_b = scaled_b div total_shares
        in if amount_a = 0 \<and> amount_b = 0 then Err AeInsufficientLiquidity else Ok (amount_a, amount_b))))"

section \<open>Rewards\<close>

record reward_state =
  rw_reward_debt :: u128
  rw_claimable :: u128

definition reward_state_default :: reward_state where
  "reward_state_default = \<lparr>rw_reward_debt = 0, rw_claimable = 0\<rparr>"

definition reward_scale :: u128 where
  "reward_scale = 1000000000000"

definition pending :: "u128 \<Rightarrow> u128 \<Rightarrow> u128 \<Rightarrow> u128" where
  "pending shares acc_per_share reward_debt = sat_sub (sat_mul128 shares acc_per_share div reward_scale) reward_debt"

definition settle :: "reward_state \<Rightarrow> u128 \<Rightarrow> u128 \<Rightarrow> reward_state" where
  "settle st shares acc_per_share =
     st\<lparr>rw_claimable := sat_add128 (rw_claimable st) (pending shares acc_per_share (rw_reward_debt st))\<rparr>"

definition reset_debt :: "reward_state \<Rightarrow> u128 \<Rightarrow> u128 \<Rightarrow> reward_state" where
  "reset_debt st shares acc_per_share = st\<lparr>rw_reward_debt := sat_mul128 shares acc_per_share div reward_scale\<rparr>"

text \<open>\<^verbatim>\<open>checked_div\<close> by zero is \<^verbatim>\<open>None\<close>, which the code reads as 0, as \<open>div\<close> does.\<close>

definition accumulate :: "u128 \<Rightarrow> u128 \<Rightarrow> u128 \<Rightarrow> u128" where
  "accumulate acc_per_share donation total_shares =
     sat_add128 acc_per_share (sat_mul128 donation reward_scale div total_shares)"

section \<open>The square root\<close>

lemma newton_above:
  fixes n x :: nat
  assumes "0 < x"
  shows "n < ((x + n div x) div 2 + 1)\<^sup>2"
proof -
  let ?q = "n div x" and ?y = "(x + n div x) div 2"
  have "n < x * (?q + 1)" using assms by (simp add: dividend_less_times_div)
  then have "4 * n < 4 * (x * (?q + 1))" by simp
  also have "\<dots> \<le> (x + (?q + 1))\<^sup>2"
  proof -
    have "0 \<le> (int x - int (?q + 1))\<^sup>2" by simp
    then have "int (4 * (x * (?q + 1))) \<le> int ((x + (?q + 1))\<^sup>2)"
      by (simp add: power2_eq_square algebra_simps)
    then show ?thesis by (simp only: of_nat_le_iff)
  qed
  also have "\<dots> \<le> (2 * (?y + 1))\<^sup>2" by (rule power_mono) simp_all
  also have "\<dots> = 4 * (?y + 1)\<^sup>2" by (simp add: power2_eq_square)
  finally show ?thesis by simp
qed

lemma newton_sum_le:
  fixes n x :: nat
  assumes "0 < x" and "x \<le> n"
  shows "x + n div x \<le> n + 1"
proof -
  have "x * (n div x) \<le> n" by simp
  moreover have "x + n div x \<le> x * (n div x) + 1"
  proof -
    have "0 < n div x" using assms by (simp add: div_greater_zero_iff)
    then show ?thesis using assms(1) by (cases x; cases "n div x") (auto simp: algebra_simps)
  qed
  ultimately show ?thesis by linarith
qed

lemma isqrt_loop_correct:
  assumes "0 < n" "n < u128_max" "0 < x" "x \<le> n" and "n < (x + 1)\<^sup>2" and "y = (x + n div x) div 2"
  shows "\<exists>r. isqrt_loop n x y = Some r \<and> r\<^sup>2 \<le> n \<and> n < (r + 1)\<^sup>2"
  using assms
proof (induction n x y rule: isqrt_loop.induct)
  case (1 n x y)
  show ?case
  proof (cases "y < x")
    case True
    have above: "n < (y + 1)\<^sup>2" using newton_above [OF "1.prems"(3)] "1.prems"(6) by simp
    have y: "0 < y" using above "1.prems"(1) by (cases y) auto
    have "y + n div y \<le> u128_max" using newton_sum_le [of y n] y True "1.prems"(2,4) by linarith
    then have next_y: "wrap_add128 y (n div y) div 2 = (y + n div y) div 2" by simp
    from "1.IH" [OF True _ "1.prems"(1,2) y _ above next_y] True y "1.prems"(4) show ?thesis
      by (auto simp: isqrt_loop.simps [of n x y])
  next
    case False
    then have "2 * x \<le> x + n div x" using "1.prems"(6) by linarith
    then have "x \<le> n div x" by simp
    then have "x * x \<le> x * (n div x)" by (rule mult_le_mono2)
    also have "\<dots> \<le> n" by simp
    finally have "x\<^sup>2 \<le> n" by (simp add: power2_eq_square)
    with False "1.prems"(5) show ?thesis by (auto simp: isqrt_loop.simps [of n x y])
  qed
qed

lemma isqrt_floor:
  assumes "n < u128_max"
  shows "\<exists>r. isqrt n = Some r \<and> r\<^sup>2 \<le> n \<and> n < (r + 1)\<^sup>2"
proof (cases "n = 0")
  case False
  have "n < (n + 1)\<^sup>2" by (simp add: power2_eq_square)
  moreover have "wrap_add128 n 1 div 2 = (n + n div n) div 2" using assms False by (simp del: One_nat_def)
  ultimately show ?thesis using isqrt_loop_correct [of n n] assms False by (simp add: isqrt_def)
qed (simp add: isqrt_def)

text \<open>The integer square root of the first deposit is exact and its loop ends: for every 128-bit
  input but the largest the result is the floor of the root; at the largest input the first
  addition wraps, and the code panics.\<close>

theorem isqrt_exact:
  assumes "n \<le> u128_max"
  shows "if n = u128_max then isqrt n = None
    else \<exists>r. isqrt n = Some r \<and> r * r \<le> n \<and> n < (r + 1) * (r + 1)"
proof (cases "n = u128_max")
  case True
  have "wrap_add128 u128_max 1 div 2 = 0" by (simp add: rust_arith)
  then have "isqrt u128_max = None" by (simp add: isqrt_def isqrt_loop.simps u128_max_def)
  with True show ?thesis by simp
next
  case False
  with isqrt_floor [of n] assms show ?thesis by (simp add: power2_eq_square)
qed

theorem isqrt_exact_witness: "\<exists>r. isqrt 2000000 = Some r \<and> r * r \<le> 2000000 \<and> 2000000 < (r + 1) * (r + 1)"
  using isqrt_exact [of 2000000] by (simp add: u128_max_def)

section \<open>Swaps keep the product\<close>

lemma compute_swap_Ok:
  assumes "compute_swap x y a fee pfee = Ok (out, tot, prot)"
  shows "0 < x" "0 < y" "0 < a" "0 < out" "tot = a * fee div 10000" "prot = tot * pfee div 10000" "tot \<le> a"
    "out = y * (a - tot) div (x + (a - tot))"
  using assms by (auto simp: compute_swap_def and_then_Ok_iff checked128_Some Let_def split: if_splits)

definition swap_out :: "u16 \<Rightarrow> u16 \<Rightarrow> u128 \<Rightarrow> u128 \<Rightarrow> u128 \<Rightarrow> u128 option" where
  "swap_out fee pfee x y a = (case compute_swap x y a fee pfee of Ok (out, _, _) \<Rightarrow> Some out | _ \<Rightarrow> None)"

lemma swap_out_Some: "swap_out fee pfee x y a = Some out \<longleftrightarrow> (\<exists>tot prot. compute_swap x y a fee pfee = Ok (out, tot, prot))"
  by (auto simp: swap_out_def split: outcome.splits prod.splits)

interpretation amm: constant_product "swap_out fee pfee" "\<lambda>a. a - a * fee div 10000" for fee pfee
proof unfold_locales
  fix x y a z
  assume "swap_out fee pfee x y a = Some z"
  then obtain tot prot where ok: "compute_swap x y a fee pfee = Ok (z, tot, prot)" by (auto simp: swap_out_Some)
  note facts = compute_swap_Ok [OF ok]
  show "z * (x + (a - a * fee div 10000)) \<le> y * (a - a * fee div 10000)"
    using div_times_less_eq_dividend [of "y * (a - tot)" "x + (a - tot)"] facts(5,8) by simp
  show "0 < x \<and> 0 < y" using facts by simp
qed simp

lemma fee_share_le: "pfee \<le> 10000 \<Longrightarrow> t * pfee div 10000 \<le> (t :: nat)"
proof -
  assume "pfee \<le> 10000"
  then have "t * pfee div 10000 \<le> t * 10000 div 10000" by (intro div_le_mono mult_le_mono2)
  then show ?thesis by simp
qed

lemma swap_safe:
  assumes ok: "compute_swap x y a fee pfee = Ok (out, tot, prot)" and le: "pfee \<le> 10000"
  shows "out < y" "prot \<le> tot" "tot \<le> a" "x * y \<le> (x + (a - prot)) * (y - out)"
proof -
  note facts = compute_swap_Ok [OF ok]
  have q: "swap_out fee pfee x y a = Some out" using ok by (auto simp: swap_out_Some)
  show "out < y" by (rule amm.output_below_reserve [OF q])
  show prot: "prot \<le> tot" using fee_share_le [OF le] facts(6) by simp
  show "tot \<le> a" by (rule facts(7))
  have "x * y \<le> (x + (a - tot)) * (y - out)" using amm.product_grows [OF q] facts(5) by simp
  also have "\<dots> \<le> (x + (a - prot)) * (y - out)" using prot by (intro mult_le_mono1) simp
  finally show "x * y \<le> (x + (a - prot)) * (y - out)" .
qed

text \<open>A trade priced on reserves whose product is at least \<open>x * y\<close> and that turns at most \<open>out\<close> back takes
  no more than what the reserves gained over \<open>x\<close>.\<close>

lemma reverse_gains_nothing:
  assumes "compute_swap y' x' out fee pfee = Ok (ret, tot, prot)" and "x * (y' + out) \<le> x' * y'"
  shows "ret \<le> x' - x"
proof -
  define e where "e = out - out * fee div 10000"
  have q: "swap_out fee pfee y' x' out = Some ret" using assms(1) by (auto simp: swap_out_Some)
  have "x * (y' + e) \<le> x * (y' + out)" by (simp add: e_def)
  also have "\<dots> \<le> x' * y'" by (rule assms(2))
  also have "\<dots> \<le> (x' - ret) * (y' + e)" using amm.product_grows [OF q] by (simp add: e_def mult.commute)
  finally have "x \<le> x' - ret" using compute_swap_Ok(1) [OF assms(1)] by simp
  then show ?thesis using amm.output_below_reserve [OF q] by linarith
qed

text \<open>C25. A swap never drains the pool and never lowers the product of its reserves: the output is below
  the reserve, the protocol's share is at most the fee and the fee at most the input, and with the
  rest of the fee left in the pool the product of the reserves does not fall. Swapping the output
  back on the reserves the pool then holds, at any fees, returns at most the input less the protocol's share.\<close>

theorem compute_swap_keeps_product:
  assumes "compute_swap x y a fee pfee = Ok (out, tot, prot)" and "pfee \<le> 10000"
  shows "out < y \<and> prot \<le> tot \<and> tot \<le> a \<and> x * y \<le> (x + (a - prot)) * (y - out)
    \<and> (\<forall>fee' pfee' ret tot' prot'. compute_swap (y - out) (x + (a - prot)) out fee' pfee' = Ok (ret, tot', prot')
        \<longrightarrow> ret \<le> a - prot)"
proof (intro conjI allI impI)
  fix fee' pfee' ret tot' prot'
  assume "compute_swap (y - out) (x + (a - prot)) out fee' pfee' = Ok (ret, tot', prot')"
  then have "ret \<le> x + (a - prot) - x" by (rule reverse_gains_nothing) (use swap_safe [OF assms] in simp)
  then show "ret \<le> a - prot" by simp
qed (use swap_safe [OF assms] in simp_all)

theorem compute_swap_keeps_product_witness:
  "\<exists>out tot prot ret. compute_swap 1000000 2000000 5000 30 1000 = Ok (out, tot, prot)
     \<and> out < 2000000 \<and> 1000000 * 2000000 \<le> (1000000 + (5000 - prot)) * (2000000 - out)
     \<and> swap_out 30 1000 (2000000 - out) (1000000 + (5000 - prot)) out = Some ret \<and> ret \<le> 5000 - prot"
proof -
  have there: "compute_swap 1000000 2000000 5000 30 1000 = Ok (9920, 15, 1)" by (simp add: compute_swap_def rust_arith Let_def)
  have rev: "compute_swap 1990080 1004999 9920 30 1000 = Ok (4970, 29, 2)" by (simp add: compute_swap_def rust_arith Let_def)
  from compute_swap_keeps_product [OF there] there rev show ?thesis by (auto simp: swap_out_def)
qed

section \<open>Adding and removing liquidity\<close>

lemma proportional_Ok:
  assumes "compute_proportional_lp_shares a b ra rb tsh = Ok sh"
  shows "sh * ra \<le> a * tsh" "sh * rb \<le> b * tsh" "0 < sh" "0 < tsh" "0 < ra" "0 < rb"
proof -
  from assms have sh: "sh = min (a * tsh div ra) (b * tsh div rb)" "0 < sh" "0 < tsh" "0 < ra" "0 < rb"
    by (auto simp: compute_proportional_lp_shares_def and_then_Ok_iff checked128_Some Let_def split: if_splits)
  then have "sh \<le> a * tsh div ra" "sh \<le> b * tsh div rb" by simp_all
  then show "sh * ra \<le> a * tsh" "sh * rb \<le> b * tsh"
    by (meson div_times_less_eq_dividend le_trans mult_le_mono1)+
  show "0 < sh" "0 < tsh" "0 < ra" "0 < rb" using sh by simp_all
qed

lemma remove_Ok:
  assumes "compute_remove_liquidity sh ra rb tsh = Ok (a, b)"
  shows "a = sh * ra div tsh" "b = sh * rb div tsh" "0 < sh" "sh \<le> tsh" "a \<le> ra" "b \<le> rb"
proof -
  from assms show eqs: "a = sh * ra div tsh" "b = sh * rb div tsh" "0 < sh" "sh \<le> tsh"
    by (auto simp: compute_remove_liquidity_def and_then_Ok_iff checked128_Some Let_def split: if_splits)
  have "sh * r div tsh \<le> r" for r
  proof -
    have "sh * r div tsh \<le> tsh * r div tsh" using eqs(4) by (intro div_le_mono mult_le_mono1)
    also have "\<dots> = r" using eqs(3,4) by simp
    finally show ?thesis .
  qed
  then show "a \<le> ra" "b \<le> rb" by (simp_all only: eqs)
qed

lemma removed_share_fair: "sh \<le> tsh \<Longrightarrow> r * (tsh - sh) \<le> (r - sh * r div tsh) * (tsh :: nat)"
proof -
  have "sh * r div tsh * tsh \<le> r * sh" using div_times_less_eq_dividend [of "sh * r" tsh] by (simp add: mult.commute)
  then have "r * tsh - r * sh \<le> r * tsh - sh * r div tsh * tsh" by (rule diff_le_mono2)
  then show ?thesis by (simp add: diff_mult_distrib diff_mult_distrib2)
qed

text \<open>Nobody gains from adding and removing liquidity. Shares bought in proportion and redeemed at
  once return at most what was paid in for each token; and a redemption never takes more than the
  reserve and never lowers what a remaining share is worth in either token.\<close>

theorem liquidity_no_profit:
  assumes "compute_proportional_lp_shares a b ra rb tsh = Ok sh"
    and "compute_remove_liquidity sh' (ra + a) (rb + b) (tsh + sh) = Ok (a', b')"
  shows "(sh' = sh \<longrightarrow> a' \<le> a \<and> b' \<le> b) \<and> a' \<le> ra + a \<and> b' \<le> rb + b
    \<and> (ra + a) * (tsh + sh - sh') \<le> (ra + a - a') * (tsh + sh)
    \<and> (rb + b) * (tsh + sh - sh') \<le> (rb + b - b') * (tsh + sh)"
proof -
  note add = proportional_Ok [OF assms(1)] and rem = remove_Ok [OF assms(2)]
  have "sh * (r + d) div (tsh + sh) \<le> d" if "sh * r \<le> d * tsh" for r d
  proof -
    have "sh * (r + d) \<le> d * (tsh + sh)" using that by (simp add: algebra_simps)
    then have "sh * (r + d) div (tsh + sh) \<le> d * (tsh + sh) div (tsh + sh)" by (rule div_le_mono)
    then show ?thesis using add(4) by simp
  qed
  from this [OF add(1)] this [OF add(2)] have "sh' = sh \<longrightarrow> a' \<le> a \<and> b' \<le> b" using rem(1,2) by simp
  moreover note removed_share_fair [OF rem(4), of "ra + a"] removed_share_fair [OF rem(4), of "rb + b"]
  ultimately show ?thesis using rem by simp
qed

theorem liquidity_no_profit_witness:
  "\<exists>a' b'. compute_proportional_lp_shares 700 900 100000 200000 5000 = Ok 22
     \<and> compute_remove_liquidity 22 100700 200900 5022 = Ok (a', b') \<and> a' \<le> 700 \<and> b' \<le> 900"
proof -
  have add: "compute_proportional_lp_shares 700 900 100000 200000 5000 = Ok 22"
    by (simp add: compute_proportional_lp_shares_def rust_arith Let_def)
  have rem: "compute_remove_liquidity 22 (100000 + 700) (200000 + 900) (5000 + 22) = Ok (441, 880)"
    by (simp add: compute_remove_liquidity_def rust_arith Let_def)
  from liquidity_no_profit [OF add rem] add rem show ?thesis by simp
qed

end
