(* ===== verification/Amm_Pool.thy ===== *)
theory Amm_Pool
  imports Amm_Math Settlement_Queue
begin

text \<open>
  The state of the market maker canister (\<^verbatim>\<open>rumi_amm/src/types.rs\<close>, \<^verbatim>\<open>state.rs\<close>) and the segments of
  its endpoints (\<^verbatim>\<open>lib.rs\<close>, \<^verbatim>\<open>admin.rs\<close>) between their awaits: what runs before the first transfer,
  and what runs on each answer of a ledger. \<^verbatim>\<open>Sha256\<close> and the textual form of principals are
  parameters; log lines and the analytics cache are left out.
\<close>

section \<open>State\<close>

type_synonym pool_id = string
type_synonym subaccount = "nat list"

datatype curve_type = ConstantProduct

record pool =
  po_token_a :: principal
  po_token_b :: principal
  po_reserve_a :: u128
  po_reserve_b :: u128
  po_fee_bps :: u16
  po_protocol_fee_bps :: u16
  po_curve :: curve_type
  po_lp_shares :: "(principal, u128) bmap"
  po_total_lp_shares :: u128
  po_protocol_fees_a :: u128
  po_protocol_fees_b :: u128
  po_paused :: bool
  po_subaccount_a :: subaccount
  po_subaccount_b :: subaccount
  po_lp_rewards :: "(principal, reward_state) bmap"
  po_acc_reward_per_share :: u128
  po_pending_no_lp :: u128
  po_total_rewards_distributed :: u128
  po_processed_donation_nonces :: "u64 list"
  po_reward_balance_snapshot :: u128

record pending_claim =
  pc_id :: u64
  pc_pool_id :: pool_id
  pc_claimant :: principal
  pc_token :: principal
  pc_subaccount :: subaccount
  pc_amount :: u128
  pc_reason :: string
  pc_created_at :: u64

record amm_swap_event =
  se_id :: u64
  se_caller :: principal
  se_pool_id :: pool_id
  se_token_in :: principal
  se_amount_in :: u128
  se_token_out :: principal
  se_amount_out :: u128
  se_fee :: u128
  se_timestamp :: u64

datatype amm_liquidity_action = AddLiquidity | RemoveLiquidity

record amm_liquidity_event =
  le_id :: u64
  le_caller :: principal
  le_pool_id :: pool_id
  le_action :: amm_liquidity_action
  le_token_a :: principal
  le_amount_a :: u128
  le_token_b :: principal
  le_amount_b :: u128
  le_lp_shares :: u128
  le_timestamp :: u64

datatype amm_admin_action =
    AaCreatePool pool_id principal principal u16
  | AaSetFee pool_id u16
  | AaSetProtocolFee pool_id u16
  | AaWithdrawProtocolFees pool_id u128 u128
  | AaPausePool pool_id
  | AaUnpausePool pool_id
  | AaSetPoolCreationOpen bool
  | AaSetMaintenanceMode bool
  | AaClaimPending u64 principal u128
  | AaResolvePendingClaim u64
  | AaSetProtocolBackendPrincipal principal
  | AaAdminBurnSubaccount principal string u128 u64

record amm_admin_event =
  ae_id :: u64
  ae_caller :: principal
  ae_action :: amm_admin_action
  ae_timestamp :: u64

record amm_reward_event =
  re_id :: u64
  re_pool_id :: pool_id
  re_amount :: u128
  re_total_shares_at_time :: u128
  re_nonce :: u64
  re_timestamp :: u64

record amm_claim_event =
  ce_id :: u64
  ce_pool_id :: pool_id
  ce_claimant :: principal
  ce_amount :: u128
  ce_timestamp :: u64

record amm_state =
  as_admin :: principal
  as_pools :: "(pool_id, pool) bmap"
  as_pool_creation_open :: bool
  as_maintenance_mode :: bool
  as_pending_claims :: "pending_claim list"
  as_next_claim_id :: u64
  as_swap_events :: "amm_swap_event list"
  as_next_swap_event_id :: u64
  as_liquidity_events :: "amm_liquidity_event list"
  as_next_liquidity_event_id :: u64
  as_admin_events :: "amm_admin_event list"
  as_next_admin_event_id :: u64
  as_reward_events :: "amm_reward_event list"
  as_next_reward_event_id :: u64
  as_claim_events :: "amm_claim_event list"
  as_next_claim_event_id :: u64
  as_protocol_backend_principal :: "principal option"

definition amm_initial :: "principal \<Rightarrow> amm_state" where
  "amm_initial admin = \<lparr>as_admin = admin, as_pools = bm_empty, as_pool_creation_open = False, as_maintenance_mode = False,
     as_pending_claims = [], as_next_claim_id = 0, as_swap_events = [], as_next_swap_event_id = 0,
     as_liquidity_events = [], as_next_liquidity_event_id = 0, as_admin_events = [], as_next_admin_event_id = 0,
     as_reward_events = [], as_next_reward_event_id = 0, as_claim_events = [], as_next_claim_event_id = 0,
     as_protocol_backend_principal = None\<rparr>"

definition max_swap_events :: usize where "max_swap_events = 50000"
definition max_liquidity_events :: usize where "max_liquidity_events = 50000"
definition max_admin_events :: usize where "max_admin_events = 10000"
definition max_pending_claims :: usize where "max_pending_claims = 1000"
definition max_reward_events :: usize where "max_reward_events = 50000"
definition max_claim_events :: usize where "max_claim_events = 50000"
definition max_processed_nonces :: usize where "max_processed_nonces = 1024"
definition min_claim_e8s :: u128 where "min_claim_e8s = 1000000"

section \<open>Event rings\<close>

text \<open>\<^verbatim>\<open>if v.len() >= MAX { v.remove(0) }; v.push(x)\<close>\<close>

definition push_capped :: "usize \<Rightarrow> 'a list \<Rightarrow> 'a \<Rightarrow> 'a list" where
  "push_capped cap xs x = (if length xs \<ge> cap then tl xs else xs) @ [x]"

definition bump_id :: "u64 \<Rightarrow> u64" where
  "bump_id n = (n + 1) mod 2 ^ 64"

definition record_swap_event ::
    "principal \<Rightarrow> pool_id \<Rightarrow> principal \<Rightarrow> u128 \<Rightarrow> principal \<Rightarrow> u128 \<Rightarrow> u128 \<Rightarrow> u64 \<Rightarrow> amm_state \<Rightarrow> amm_state" where
  "record_swap_event caller pid token_in amount_in token_out amount_out fee now s =
     s\<lparr>as_swap_events := push_capped max_swap_events (as_swap_events s)
          \<lparr>se_id = as_next_swap_event_id s, se_caller = caller, se_pool_id = pid, se_token_in = token_in,
           se_amount_in = amount_in, se_token_out = token_out, se_amount_out = amount_out, se_fee = fee,
           se_timestamp = now\<rparr>,
       as_next_swap_event_id := bump_id (as_next_swap_event_id s)\<rparr>"

definition record_liquidity_event ::
    "principal \<Rightarrow> pool_id \<Rightarrow> amm_liquidity_action \<Rightarrow> principal \<Rightarrow> u128 \<Rightarrow> principal \<Rightarrow> u128 \<Rightarrow> u128 \<Rightarrow> u64
      \<Rightarrow> amm_state \<Rightarrow> amm_state" where
  "record_liquidity_event caller pid action token_a amount_a token_b amount_b lp now s =
     s\<lparr>as_liquidity_events := push_capped max_liquidity_events (as_liquidity_events s)
          \<lparr>le_id = as_next_liquidity_event_id s, le_caller = caller, le_pool_id = pid, le_action = action,
           le_token_a = token_a, le_amount_a = amount_a, le_token_b = token_b, le_amount_b = amount_b,
           le_lp_shares = lp, le_timestamp = now\<rparr>,
       as_next_liquidity_event_id := bump_id (as_next_liquidity_event_id s)\<rparr>"

definition record_admin_event :: "principal \<Rightarrow> amm_admin_action \<Rightarrow> u64 \<Rightarrow> amm_state \<Rightarrow> amm_state" where
  "record_admin_event caller action now s =
     s\<lparr>as_admin_events := push_capped max_admin_events (as_admin_events s)
          \<lparr>ae_id = as_next_admin_event_id s, ae_caller = caller, ae_action = action, ae_timestamp = now\<rparr>,
       as_next_admin_event_id := bump_id (as_next_admin_event_id s)\<rparr>"

definition record_reward_event :: "pool_id \<Rightarrow> u128 \<Rightarrow> u128 \<Rightarrow> u64 \<Rightarrow> u64 \<Rightarrow> amm_state \<Rightarrow> amm_state" where
  "record_reward_event pid amount shares nonce now s =
     s\<lparr>as_reward_events := push_capped max_reward_events (as_reward_events s)
          \<lparr>re_id = as_next_reward_event_id s, re_pool_id = pid, re_amount = amount, re_total_shares_at_time = shares,
           re_nonce = nonce, re_timestamp = now\<rparr>,
       as_next_reward_event_id := bump_id (as_next_reward_event_id s)\<rparr>"

definition record_claim_event :: "pool_id \<Rightarrow> principal \<Rightarrow> u128 \<Rightarrow> u64 \<Rightarrow> amm_state \<Rightarrow> amm_state" where
  "record_claim_event pid claimant amount now s =
     s\<lparr>as_claim_events := push_capped max_claim_events (as_claim_events s)
          \<lparr>ce_id = as_next_claim_event_id s, ce_pool_id = pid, ce_claimant = claimant, ce_amount = amount,
           ce_timestamp = now\<rparr>,
       as_next_claim_event_id := bump_id (as_next_claim_event_id s)\<rparr>"

section \<open>Pending claims\<close>

definition record_pending_claim ::
    "pool_id \<Rightarrow> principal \<Rightarrow> principal \<Rightarrow> subaccount \<Rightarrow> u128 \<Rightarrow> string \<Rightarrow> u64 \<Rightarrow> amm_state \<Rightarrow> amm_state" where
  "record_pending_claim pid claimant token sub amount reason now s =
     s\<lparr>as_pending_claims := push_capped max_pending_claims (as_pending_claims s)
          \<lparr>pc_id = as_next_claim_id s, pc_pool_id = pid, pc_claimant = claimant, pc_token = token,
           pc_subaccount = sub, pc_amount = amount, pc_reason = reason, pc_created_at = now div 1000000000\<rparr>,
       as_next_claim_id := bump_id (as_next_claim_id s)\<rparr>"

text \<open>\<^verbatim>\<open>claim_pending\<close> up to its first await: the claim leaves the list, unless the caller may not take it.\<close>

fun take_claim :: "u64 \<Rightarrow> pending_claim list \<Rightarrow> (pending_claim \<times> pending_claim list) option" where
  "take_claim cid [] = None"
| "take_claim cid (c # cs) =
     (if pc_id c = cid then Some (c, cs) else map_option (\<lambda>(d, ds). (d, c # ds)) (take_claim cid cs))"

definition push_claim :: "pending_claim \<Rightarrow> amm_state \<Rightarrow> amm_state" where
  "push_claim c s = s\<lparr>as_pending_claims := as_pending_claims s @ [c]\<rparr>"

definition claim_pending_begin ::
    "amm_state \<Rightarrow> principal \<Rightarrow> u64 \<Rightarrow> amm_state \<times> (amm_error, pending_claim) outcome" where
  "claim_pending_begin s caller cid =
     (case take_claim cid (as_pending_claims s) of
        None \<Rightarrow> (s, Err AeClaimNotFound)
      | Some (c, cs) \<Rightarrow>
          let s1 = s\<lparr>as_pending_claims := cs\<rparr> in
          if caller \<noteq> pc_claimant c \<and> caller \<noteq> as_admin s1 then (push_claim c s1, Err AeUnauthorized)
          else (s1, Ok c))"

definition claim_pending_check :: "amm_state \<Rightarrow> pending_claim \<Rightarrow> u128 \<Rightarrow> amm_state \<times> (amm_error, unit) outcome" where
  "claim_pending_check s c fee =
     (if pc_amount c \<le> fee then (push_claim c s, Err (AeBelowMinClaim (pc_amount c) (sat_add128 fee 1))) else (s, Ok ()))"

definition claim_pending_reply ::
    "amm_state \<Rightarrow> principal \<Rightarrow> pending_claim \<Rightarrow> (string, u64) outcome \<Rightarrow> u64 \<Rightarrow> amm_state \<times> (amm_error, unit) outcome" where
  "claim_pending_reply s caller c result now =
     (case result of
        Ok _ \<Rightarrow> (record_admin_event caller (AaClaimPending (pc_id c) (pc_claimant c) (pc_amount c)) now s, Ok ())
      | Err reason \<Rightarrow> (push_claim c s, Err (AeTransferFailed (show_nat (pc_id c)) reason))
      | Trap \<Rightarrow> (s, Trap))"

definition resolve_pending_claim :: "amm_state \<Rightarrow> principal \<Rightarrow> u64 \<Rightarrow> u64 \<Rightarrow> (amm_error, amm_state) outcome" where
  "resolve_pending_claim s caller cid now =
     (if caller \<noteq> as_admin s then Err AeUnauthorized
      else
        let cs = filter (\<lambda>c. pc_id c \<noteq> cid) (as_pending_claims s) in
        if length cs = length (as_pending_claims s) then Err AeClaimNotFound
        else Ok (record_admin_event caller (AaResolvePendingClaim cid) now (s\<lparr>as_pending_claims := cs\<rparr>)))"

section \<open>Pools\<close>

text \<open>The lock of a pool is held from the first segment of an endpoint to its return; \<open>locked\<close> tells
  whether another call holds it. The \<^verbatim>\<open>expect\<close> of a later segment finds the pool that the first
  segment read, as no endpoint removes a pool.\<close>

definition update_pool :: "pool_id \<Rightarrow> (pool \<Rightarrow> pool) \<Rightarrow> amm_state \<Rightarrow> amm_state" where
  "update_pool pid f s = s\<lparr>as_pools := bm_modify pid f (as_pools s)\<rparr>"

definition make_pool_id :: "(principal \<Rightarrow> string) \<Rightarrow> principal \<Rightarrow> principal \<Rightarrow> pool_id" where
  "make_pool_id to_text token_a token_b =
     (let a = to_text token_a; b = to_text token_b in if a \<le> b then a @ ''_'' @ b else b @ ''_'' @ a)"

definition derive_subaccount :: "(string \<Rightarrow> subaccount) \<Rightarrow> pool_id \<Rightarrow> string \<Rightarrow> subaccount" where
  "derive_subaccount sha256 pid token_label = sha256 (pid @ ''_'' @ token_label)"

definition create_pool ::
    "(principal \<Rightarrow> string) \<Rightarrow> (string \<Rightarrow> subaccount) \<Rightarrow> amm_state \<Rightarrow> principal \<Rightarrow> principal \<Rightarrow> principal \<Rightarrow> u16 \<Rightarrow> curve_type
      \<Rightarrow> u64 \<Rightarrow> (amm_error, amm_state \<times> pool_id) outcome" where
  "create_pool to_text sha256 s caller arg_a arg_b fee_bps curve now =
     (let is_admin = (caller = as_admin s) in
      if as_maintenance_mode s \<and> \<not> is_admin then Err AeMaintenanceMode
      else if \<not> is_admin \<and> \<not> as_pool_creation_open s then Err AePoolCreationClosed
      else if \<not> is_admin \<and> curve \<noteq> ConstantProduct then Err AeUnauthorized
      else if \<not> is_admin \<and> (fee_bps < 1 \<or> fee_bps > 1000) then Err AeFeeBpsOutOfRange
      else if fee_bps > 10000 then Err AeFeeBpsOutOfRange
      else if arg_a = arg_b then Err AeInvalidToken
      else
        let pid = make_pool_id to_text arg_a arg_b in
        if bm_has (as_pools s) pid then Err AePoolAlreadyExists
        else
          let (token_a, token_b) = (if to_text arg_a \<le> to_text arg_b then (arg_a, arg_b) else (arg_b, arg_a));
              pool = \<lparr>po_token_a = token_a, po_token_b = token_b, po_reserve_a = 0, po_reserve_b = 0,
                po_fee_bps = fee_bps, po_protocol_fee_bps = 0, po_curve = curve, po_lp_shares = bm_empty,
                po_total_lp_shares = 0, po_protocol_fees_a = 0, po_protocol_fees_b = 0, po_paused = False,
                po_subaccount_a = derive_subaccount sha256 pid ''token_a'',
                po_subaccount_b = derive_subaccount sha256 pid ''token_b'',
                po_lp_rewards = bm_empty, po_acc_reward_per_share = 0, po_pending_no_lp = 0,
                po_total_rewards_distributed = 0, po_processed_donation_nonces = [], po_reward_balance_snapshot = 0\<rparr>
          in Ok (record_admin_event caller (AaCreatePool pid token_a token_b fee_bps) now
                   (s\<lparr>as_pools := bm_insert pid pool (as_pools s)\<rparr>), pid))"

definition admin_pool_update ::
    "amm_state \<Rightarrow> principal \<Rightarrow> pool_id \<Rightarrow> (pool \<Rightarrow> pool) \<Rightarrow> amm_admin_action \<Rightarrow> u64 \<Rightarrow> (amm_error, amm_state) outcome" where
  "admin_pool_update s caller pid f action now =
     (if \<not> bm_has (as_pools s) pid then Err AePoolNotFound
      else Ok (record_admin_event caller action now (update_pool pid f s)))"

definition set_fee :: "amm_state \<Rightarrow> principal \<Rightarrow> pool_id \<Rightarrow> u16 \<Rightarrow> u64 \<Rightarrow> (amm_error, amm_state) outcome" where
  "set_fee s caller pid fee_bps now =
     (if caller \<noteq> as_admin s then Err AeUnauthorized
      else if fee_bps > 10000 then Err AeFeeBpsOutOfRange
      else admin_pool_update s caller pid (\<lambda>p. p\<lparr>po_fee_bps := fee_bps\<rparr>) (AaSetFee pid fee_bps) now)"

definition set_protocol_fee :: "amm_state \<Rightarrow> principal \<Rightarrow> pool_id \<Rightarrow> u16 \<Rightarrow> u64 \<Rightarrow> (amm_error, amm_state) outcome" where
  "set_protocol_fee s caller pid protocol_fee_bps now =
     (if caller \<noteq> as_admin s then Err AeUnauthorized
      else if protocol_fee_bps > 10000 then Err AeFeeBpsOutOfRange
      else admin_pool_update s caller pid (\<lambda>p. p\<lparr>po_protocol_fee_bps := protocol_fee_bps\<rparr>)
             (AaSetProtocolFee pid protocol_fee_bps) now)"

definition pause_pool :: "amm_state \<Rightarrow> principal \<Rightarrow> pool_id \<Rightarrow> u64 \<Rightarrow> (amm_error, amm_state) outcome" where
  "pause_pool s caller pid now =
     (if caller \<noteq> as_admin s then Err AeUnauthorized
      else admin_pool_update s caller pid (\<lambda>p. p\<lparr>po_paused := True\<rparr>) (AaPausePool pid) now)"

definition unpause_pool :: "amm_state \<Rightarrow> principal \<Rightarrow> pool_id \<Rightarrow> u64 \<Rightarrow> (amm_error, amm_state) outcome" where
  "unpause_pool s caller pid now =
     (if caller \<noteq> as_admin s then Err AeUnauthorized
      else admin_pool_update s caller pid (\<lambda>p. p\<lparr>po_paused := False\<rparr>) (AaUnpausePool pid) now)"

definition set_pool_creation_open :: "amm_state \<Rightarrow> principal \<Rightarrow> bool \<Rightarrow> u64 \<Rightarrow> (amm_error, amm_state) outcome" where
  "set_pool_creation_open s caller is_open now =
     (if caller \<noteq> as_admin s then Err AeUnauthorized
      else Ok (record_admin_event caller (AaSetPoolCreationOpen is_open) now (s\<lparr>as_pool_creation_open := is_open\<rparr>)))"

definition set_admin :: "amm_state \<Rightarrow> principal \<Rightarrow> principal \<Rightarrow> (amm_error, amm_state) outcome" where
  "set_admin s caller new_admin =
     (if caller \<noteq> as_admin s then Err AeUnauthorized
      else if new_admin = principal_anonymous then Err AeUnauthorized
      else Ok (s\<lparr>as_admin := new_admin\<rparr>))"

definition set_maintenance_mode :: "amm_state \<Rightarrow> principal \<Rightarrow> bool \<Rightarrow> u64 \<Rightarrow> (amm_error, amm_state) outcome" where
  "set_maintenance_mode s caller enabled now =
     (if caller \<noteq> as_admin s then Err AeUnauthorized
      else Ok (record_admin_event caller (AaSetMaintenanceMode enabled) now (s\<lparr>as_maintenance_mode := enabled\<rparr>)))"

definition set_protocol_backend_principal ::
    "amm_state \<Rightarrow> principal \<Rightarrow> principal \<Rightarrow> u64 \<Rightarrow> (amm_error, amm_state) outcome" where
  "set_protocol_backend_principal s caller backend now =
     (if caller \<noteq> as_admin s then Err AeUnauthorized
      else if backend = principal_anonymous then Err AeUnauthorized
      else Ok (record_admin_event caller (AaSetProtocolBackendPrincipal backend) now
                 (s\<lparr>as_protocol_backend_principal := Some backend\<rparr>)))"

section \<open>Queries\<close>

definition get_quote :: "amm_state \<Rightarrow> pool_id \<Rightarrow> principal \<Rightarrow> u128 \<Rightarrow> (amm_error, u128) outcome" where
  "get_quote s pid token_in amount_in =
     (case bm_get (as_pools s) pid of
        None \<Rightarrow> Err AePoolNotFound
      | Some p \<Rightarrow>
          and_then (if token_in = po_token_a p then Ok (po_reserve_a p, po_reserve_b p)
                    else if token_in = po_token_b p then Ok (po_reserve_b p, po_reserve_a p)
                    else Err AeInvalidToken)
            (\<lambda>(reserve_in, reserve_out).
             and_then (compute_swap reserve_in reserve_out amount_in (po_fee_bps p) (po_protocol_fee_bps p))
               (\<lambda>(amount_out, _, _). Ok amount_out)))"

definition get_lp_balance :: "amm_state \<Rightarrow> pool_id \<Rightarrow> principal \<Rightarrow> u128" where
  "get_lp_balance s pid user =
     (case bm_get (as_pools s) pid of None \<Rightarrow> 0 | Some p \<Rightarrow> bm_get_or 0 (po_lp_shares p) user)"

definition get_pending_rewards :: "amm_state \<Rightarrow> pool_id \<Rightarrow> principal \<Rightarrow> u128" where
  "get_pending_rewards s pid user =
     (case bm_get (as_pools s) pid of
        None \<Rightarrow> 0
      | Some p \<Rightarrow>
          let shares = bm_get_or 0 (po_lp_shares p) user;
              entry = bm_get (po_lp_rewards p) user;
              claimable = (case entry of None \<Rightarrow> 0 | Some e \<Rightarrow> rw_claimable e);
              debt = (case entry of None \<Rightarrow> 0 | Some e \<Rightarrow> rw_reward_debt e)
          in sat_add128 claimable (pending shares (po_acc_reward_per_share p) debt))"

section \<open>Swapping\<close>

record swap_plan =
  sw_caller :: principal
  sw_a_to_b :: bool
  sw_ledger_in :: principal
  sw_sub_in :: subaccount
  sw_ledger_out :: principal
  sw_sub_out :: subaccount
  sw_amount_in :: u128
  sw_amount_out :: u128
  sw_total_fee :: u128
  sw_protocol_fee :: u128

definition swap_begin ::
    "amm_state \<Rightarrow> bool \<Rightarrow> principal \<Rightarrow> pool_id \<Rightarrow> principal \<Rightarrow> u128 \<Rightarrow> (amm_error, swap_plan) outcome" where
  "swap_begin s locked caller pid token_in amount_in =
     (if as_maintenance_mode s then Err AeMaintenanceMode
      else if caller = principal_anonymous then Err AeUnauthorized
      else if locked then Err AePoolBusy
      else case bm_get (as_pools s) pid of
        None \<Rightarrow> Err AePoolNotFound
      | Some p \<Rightarrow>
          if po_paused p then Err AePoolPaused
          else if token_in = po_token_a p then
            and_then (compute_swap (po_reserve_a p) (po_reserve_b p) amount_in (po_fee_bps p) (po_protocol_fee_bps p))
              (\<lambda>(amount_out, total_fee, protocol_fee).
               Ok \<lparr>sw_caller = caller, sw_a_to_b = True, sw_ledger_in = po_token_a p, sw_sub_in = po_subaccount_a p,
                   sw_ledger_out = po_token_b p, sw_sub_out = po_subaccount_b p, sw_amount_in = amount_in,
                   sw_amount_out = amount_out, sw_total_fee = total_fee, sw_protocol_fee = protocol_fee\<rparr>)
          else if token_in = po_token_b p then
            and_then (compute_swap (po_reserve_b p) (po_reserve_a p) amount_in (po_fee_bps p) (po_protocol_fee_bps p))
              (\<lambda>(amount_out, total_fee, protocol_fee).
               Ok \<lparr>sw_caller = caller, sw_a_to_b = False, sw_ledger_in = po_token_b p, sw_sub_in = po_subaccount_b p,
                   sw_ledger_out = po_token_a p, sw_sub_out = po_subaccount_a p, sw_amount_in = amount_in,
                   sw_amount_out = amount_out, sw_total_fee = total_fee, sw_protocol_fee = protocol_fee\<rparr>)
          else Err AeInvalidToken)"

definition swap_check_output :: "swap_plan \<Rightarrow> u128 \<Rightarrow> u128 \<Rightarrow> (amm_error, unit) outcome" where
  "swap_check_output w fee min_amount_out =
     (let net_out = sat_sub (sw_amount_out w) fee in
      if net_out = 0 \<or> net_out < min_amount_out then Err (AeInsufficientOutput (max min_amount_out 1) net_out) else Ok ())"

text \<open>After the input has been pulled\<close>

definition swap_credit :: "pool_id \<Rightarrow> swap_plan \<Rightarrow> amm_state \<Rightarrow> amm_state" where
  "swap_credit pid w = update_pool pid (\<lambda>p.
     if sw_a_to_b w
     then p\<lparr>po_reserve_a := wrap_add128 (po_reserve_a p) (wrap_sub128 (sw_amount_in w) (sw_protocol_fee w)),
            po_protocol_fees_a := wrap_add128 (po_protocol_fees_a p) (sw_protocol_fee w)\<rparr>
     else p\<lparr>po_reserve_b := wrap_add128 (po_reserve_b p) (wrap_sub128 (sw_amount_in w) (sw_protocol_fee w)),
            po_protocol_fees_b := wrap_add128 (po_protocol_fees_b p) (sw_protocol_fee w)\<rparr>)"

text \<open>After the output has been sent\<close>

definition swap_paid :: "pool_id \<Rightarrow> swap_plan \<Rightarrow> u64 \<Rightarrow> amm_state \<Rightarrow> amm_state" where
  "swap_paid pid w now s =
     record_swap_event (sw_caller w) pid (sw_ledger_in w) (sw_amount_in w) (sw_ledger_out w) (sw_amount_out w)
       (sw_total_fee w) now
       (update_pool pid (\<lambda>p.
          if sw_a_to_b w then p\<lparr>po_reserve_b := wrap_sub128 (po_reserve_b p) (sw_amount_out w)\<rparr>
          else p\<lparr>po_reserve_a := wrap_sub128 (po_reserve_a p) (sw_amount_out w)\<rparr>) s)"

text \<open>After the output could not be sent\<close>

definition swap_rollback :: "pool_id \<Rightarrow> swap_plan \<Rightarrow> amm_state \<Rightarrow> amm_state" where
  "swap_rollback pid w = update_pool pid (\<lambda>p.
     if sw_a_to_b w
     then p\<lparr>po_reserve_a := wrap_sub128 (po_reserve_a p) (wrap_sub128 (sw_amount_in w) (sw_protocol_fee w)),
            po_protocol_fees_a := wrap_sub128 (po_protocol_fees_a p) (sw_protocol_fee w)\<rparr>
     else p\<lparr>po_reserve_b := wrap_sub128 (po_reserve_b p) (wrap_sub128 (sw_amount_in w) (sw_protocol_fee w)),
            po_protocol_fees_b := wrap_sub128 (po_protocol_fees_b p) (sw_protocol_fee w)\<rparr>)"

definition swap_refund_failed :: "pool_id \<Rightarrow> swap_plan \<Rightarrow> string \<Rightarrow> u64 \<Rightarrow> amm_state \<Rightarrow> amm_state" where
  "swap_refund_failed pid w reason now =
     record_pending_claim pid (sw_caller w) (sw_ledger_in w) (sw_sub_in w) (sw_amount_in w)
       (''Swap output transfer failed, then refund failed: '' @ reason) now"

section \<open>Adding liquidity\<close>

record liquidity_plan =
  lq_caller :: principal
  lq_token_a :: principal
  lq_token_b :: principal
  lq_sub_a :: subaccount
  lq_sub_b :: subaccount
  lq_amount_a :: u128
  lq_amount_b :: u128
  lq_shares :: u128

definition add_liquidity_begin ::
    "amm_state \<Rightarrow> bool \<Rightarrow> principal \<Rightarrow> pool_id \<Rightarrow> u128 \<Rightarrow> u128 \<Rightarrow> u128 \<Rightarrow> (amm_error, liquidity_plan) outcome" where
  "add_liquidity_begin s locked caller pid amount_a amount_b min_lp_shares =
     (if as_maintenance_mode s then Err AeMaintenanceMode
      else if caller = principal_anonymous then Err AeUnauthorized
      else if locked then Err AePoolBusy
      else case bm_get (as_pools s) pid of
        None \<Rightarrow> Err AePoolNotFound
      | Some p \<Rightarrow>
          if po_paused p then Err AePoolPaused
          else and_then
            (if po_total_lp_shares p = 0 then compute_initial_lp_shares amount_a amount_b
             else compute_proportional_lp_shares amount_a amount_b (po_reserve_a p) (po_reserve_b p) (po_total_lp_shares p))
            (\<lambda>shares.
             if shares < min_lp_shares then Err (AeInsufficientOutput min_lp_shares shares)
             else Ok \<lparr>lq_caller = caller, lq_token_a = po_token_a p, lq_token_b = po_token_b p,
                      lq_sub_a = po_subaccount_a p, lq_sub_b = po_subaccount_b p,
                      lq_amount_a = amount_a, lq_amount_b = amount_b, lq_shares = shares\<rparr>))"

definition add_refund_failed :: "pool_id \<Rightarrow> liquidity_plan \<Rightarrow> string \<Rightarrow> u64 \<Rightarrow> amm_state \<Rightarrow> amm_state" where
  "add_refund_failed pid l reason now =
     record_pending_claim pid (lq_caller l) (lq_token_a l) (lq_sub_a l) (lq_amount_a l)
       (''add_liquidity token_b failed, then token_a refund failed: '' @ reason) now"

text \<open>The closure that runs after both tokens have been pulled\<close>

definition add_liquidity_to_pool :: "principal \<Rightarrow> u128 \<Rightarrow> u128 \<Rightarrow> u128 \<Rightarrow> pool \<Rightarrow> pool" where
  "add_liquidity_to_pool caller amount_a amount_b shares p =
     (let was_first = (po_total_lp_shares p = 0);
          existing = bm_get_or 0 (po_lp_shares p) caller;
          acc = po_acc_reward_per_share p;
          entry = settle (bm_get_or reward_state_default (po_lp_rewards p) caller) existing acc;
          p1 = p\<lparr>po_lp_rewards := bm_insert caller entry (po_lp_rewards p)\<rparr>;
          p2 = (if was_first then
                  let user_shares = wrap_sub128 shares minimum_liquidity;
                      held = bm_insert principal_anonymous minimum_liquidity (po_lp_shares p1)
                  in p1\<lparr>po_lp_shares := bm_insert caller (wrap_add128 (bm_get_or 0 held caller) user_shares) held,
                        po_total_lp_shares := shares\<rparr>
                else p1\<lparr>po_lp_shares := bm_insert caller (wrap_add128 existing shares) (po_lp_shares p1),
                        po_total_lp_shares := wrap_add128 (po_total_lp_shares p1) shares\<rparr>);
          p3 = p2\<lparr>po_reserve_a := wrap_add128 (po_reserve_a p2) amount_a,
                  po_reserve_b := wrap_add128 (po_reserve_b p2) amount_b\<rparr>;
          entry2 = reset_debt (bm_get_or reward_state_default (po_lp_rewards p3) caller)
                     (bm_get_or 0 (po_lp_shares p3) caller) acc;
          p4 = p3\<lparr>po_lp_rewards := bm_insert caller entry2 (po_lp_rewards p3)\<rparr>
      in if was_first \<and> po_pending_no_lp p4 > 0 \<and> po_total_lp_shares p4 > 0
         then p4\<lparr>po_acc_reward_per_share := accumulate (po_acc_reward_per_share p4) (po_pending_no_lp p4) (po_total_lp_shares p4),
                 po_pending_no_lp := 0\<rparr>
         else p4)"

definition add_liquidity_apply :: "pool_id \<Rightarrow> liquidity_plan \<Rightarrow> u64 \<Rightarrow> amm_state \<Rightarrow> amm_state" where
  "add_liquidity_apply pid l now s =
     record_liquidity_event (lq_caller l) pid AddLiquidity (lq_token_a l) (lq_amount_a l) (lq_token_b l) (lq_amount_b l)
       (lq_shares l) now
       (update_pool pid (add_liquidity_to_pool (lq_caller l) (lq_amount_a l) (lq_amount_b l) (lq_shares l)) s)"

section \<open>Removing liquidity\<close>

definition remove_liquidity_begin ::
    "amm_state \<Rightarrow> bool \<Rightarrow> principal \<Rightarrow> pool_id \<Rightarrow> u128 \<Rightarrow> (amm_error, liquidity_plan) outcome" where
  "remove_liquidity_begin s locked caller pid lp_shares =
     (if caller = principal_anonymous then Err AeUnauthorized
      else if locked then Err AePoolBusy
      else case bm_get (as_pools s) pid of
        None \<Rightarrow> Err AePoolNotFound
      | Some p \<Rightarrow>
          let user_shares = bm_get_or 0 (po_lp_shares p) caller in
          if po_paused p then Err AePoolPaused
          else if lp_shares > user_shares then Err (AeInsufficientLpShares lp_shares user_shares)
          else and_then (compute_remove_liquidity lp_shares (po_reserve_a p) (po_reserve_b p) (po_total_lp_shares p))
            (\<lambda>(amount_a, amount_b).
             Ok \<lparr>lq_caller = caller, lq_token_a = po_token_a p, lq_token_b = po_token_b p,
                 lq_sub_a = po_subaccount_a p, lq_sub_b = po_subaccount_b p,
                 lq_amount_a = amount_a, lq_amount_b = amount_b, lq_shares = lp_shares\<rparr>))"

definition remove_check_output :: "liquidity_plan \<Rightarrow> u128 \<Rightarrow> u128 \<Rightarrow> u128 \<Rightarrow> u128 \<Rightarrow> (amm_error, unit) outcome" where
  "remove_check_output l fee_a fee_b min_amount_a min_amount_b =
     (let net_a = sat_sub (lq_amount_a l) fee_a; net_b = sat_sub (lq_amount_b l) fee_b in
      if lq_amount_a l > 0 \<and> net_a = 0 \<or> lq_amount_b l > 0 \<and> net_b = 0 then Err (AeInsufficientOutput 1 0)
      else if net_a < min_amount_a \<or> net_b < min_amount_b
      then Err (AeInsufficientOutput (max min_amount_a min_amount_b) (min net_a net_b))
      else Ok ())"

definition remove_liquidity_from_pool :: "principal \<Rightarrow> u128 \<Rightarrow> u128 \<Rightarrow> u128 \<Rightarrow> pool \<Rightarrow> pool" where
  "remove_liquidity_from_pool caller amount_a amount_b lp_shares p =
     (let existing = bm_get_or 0 (po_lp_shares p) caller;
          acc = po_acc_reward_per_share p;
          entry = settle (bm_get_or reward_state_default (po_lp_rewards p) caller) existing acc;
          p1 = p\<lparr>po_lp_rewards := bm_insert caller entry (po_lp_rewards p)\<rparr>;
          left = wrap_sub128 existing lp_shares;
          p2 = p1\<lparr>po_lp_shares := (if left = 0 then bm_remove caller (po_lp_shares p1)
                                    else bm_insert caller left (po_lp_shares p1)),
                  po_total_lp_shares := wrap_sub128 (po_total_lp_shares p1) lp_shares,
                  po_reserve_a := wrap_sub128 (po_reserve_a p1) amount_a,
                  po_reserve_b := wrap_sub128 (po_reserve_b p1) amount_b\<rparr>;
          new_shares = bm_get_or 0 (po_lp_shares p2) caller;
          entry2 = reset_debt (bm_get_or reward_state_default (po_lp_rewards p2) caller) new_shares acc;
          p3 = p2\<lparr>po_lp_rewards := bm_insert caller entry2 (po_lp_rewards p2)\<rparr>
      in if new_shares = 0 \<and> rw_claimable entry2 = 0
         then p3\<lparr>po_lp_rewards := bm_remove caller (po_lp_rewards p3)\<rparr> else p3)"

definition remove_liquidity_apply :: "pool_id \<Rightarrow> liquidity_plan \<Rightarrow> amm_state \<Rightarrow> amm_state" where
  "remove_liquidity_apply pid l =
     update_pool pid (remove_liquidity_from_pool (lq_caller l) (lq_amount_a l) (lq_amount_b l) (lq_shares l))"

definition remove_a_failed :: "pool_id \<Rightarrow> liquidity_plan \<Rightarrow> string \<Rightarrow> u64 \<Rightarrow> amm_state \<Rightarrow> amm_state" where
  "remove_a_failed pid l reason now =
     record_pending_claim pid (lq_caller l) (lq_token_a l) (lq_sub_a l) (lq_amount_a l)
       (''remove_liquidity transfer_a failed: '' @ reason) now"

definition remove_b_failed :: "pool_id \<Rightarrow> liquidity_plan \<Rightarrow> string \<Rightarrow> u64 \<Rightarrow> amm_state \<Rightarrow> amm_state" where
  "remove_b_failed pid l reason now =
     record_pending_claim pid (lq_caller l) (lq_token_b l) (lq_sub_b l) (lq_amount_b l)
       (''remove_liquidity transfer_b failed: '' @ reason) now"

definition remove_liquidity_done :: "pool_id \<Rightarrow> liquidity_plan \<Rightarrow> u64 \<Rightarrow> amm_state \<Rightarrow> amm_state" where
  "remove_liquidity_done pid l =
     record_liquidity_event (lq_caller l) pid RemoveLiquidity (lq_token_a l) (lq_amount_a l) (lq_token_b l) (lq_amount_b l)
       (lq_shares l)"

section \<open>Protocol fees\<close>

definition withdraw_fees_begin ::
    "amm_state \<Rightarrow> bool \<Rightarrow> principal \<Rightarrow> pool_id \<Rightarrow> (amm_error, amm_state \<times> liquidity_plan option) outcome" where
  "withdraw_fees_begin s locked caller pid =
     (if caller \<noteq> as_admin s then Err AeUnauthorized
      else if locked then Err AePoolBusy
      else case bm_get (as_pools s) pid of
        None \<Rightarrow> Err AePoolNotFound
      | Some p \<Rightarrow>
          if po_protocol_fees_a p = 0 \<and> po_protocol_fees_b p = 0 then Ok (s, None)
          else Ok (update_pool pid (\<lambda>q. q\<lparr>po_protocol_fees_a := 0, po_protocol_fees_b := 0\<rparr>) s,
                   Some \<lparr>lq_caller = as_admin s, lq_token_a = po_token_a p, lq_token_b = po_token_b p,
                         lq_sub_a = po_subaccount_a p, lq_sub_b = po_subaccount_b p,
                         lq_amount_a = po_protocol_fees_a p, lq_amount_b = po_protocol_fees_b p, lq_shares = 0\<rparr>))"

text \<open>After both transfers; \<open>withdrawn_a\<close> and \<open>withdrawn_b\<close> are what was sent.\<close>

definition withdraw_fees_finish ::
    "pool_id \<Rightarrow> liquidity_plan \<Rightarrow> principal \<Rightarrow> u128 \<Rightarrow> u128 \<Rightarrow> bool \<Rightarrow> u64 \<Rightarrow> amm_state \<Rightarrow> amm_state" where
  "withdraw_fees_finish pid l caller withdrawn_a withdrawn_b failed now s =
     (let rollback_a = wrap_sub128 (lq_amount_a l) withdrawn_a;
          rollback_b = wrap_sub128 (lq_amount_b l) withdrawn_b;
          s1 = (if rollback_a > 0 \<or> rollback_b > 0 then
                  update_pool pid (\<lambda>q. q\<lparr>po_protocol_fees_a := wrap_add128 (po_protocol_fees_a q) rollback_a,
                                        po_protocol_fees_b := wrap_add128 (po_protocol_fees_b q) rollback_b\<rparr>) s
                else s)
      in if failed then s1
         else record_admin_event caller (AaWithdrawProtocolFees pid withdrawn_a withdrawn_b) now s1)"

section \<open>Rewards\<close>

definition notify_reward_begin ::
    "amm_state \<Rightarrow> bool \<Rightarrow> principal \<Rightarrow> pool_id \<Rightarrow> u64 \<Rightarrow> (amm_error, bool) outcome" where
  "notify_reward_begin s locked caller pid nonce =
     (if as_protocol_backend_principal s \<noteq> Some caller then Err AeUnauthorized
      else if locked then Err AePoolBusy
      else Ok (case bm_get (as_pools s) pid of
                 Some p \<Rightarrow> nonce \<in> set (po_processed_donation_nonces p) | None \<Rightarrow> False))"

definition credit_donation :: "u128 \<Rightarrow> u64 \<Rightarrow> u128 \<Rightarrow> pool \<Rightarrow> pool" where
  "credit_donation amount nonce on_chain p =
     (let p1 = (if po_total_lp_shares p > 0
                then p\<lparr>po_acc_reward_per_share := accumulate (po_acc_reward_per_share p) amount (po_total_lp_shares p)\<rparr>
                else p\<lparr>po_pending_no_lp := sat_add128 (po_pending_no_lp p) amount\<rparr>);
          nonces = po_processed_donation_nonces p1 @ [nonce]
      in p1\<lparr>po_total_rewards_distributed := sat_add128 (po_total_rewards_distributed p1) amount,
            po_reward_balance_snapshot := on_chain,
            po_processed_donation_nonces := drop (length nonces - max_processed_nonces) nonces\<rparr>)"

definition notify_reward_apply ::
    "amm_state \<Rightarrow> pool_id \<Rightarrow> u128 \<Rightarrow> u64 \<Rightarrow> u128 \<Rightarrow> u64 \<Rightarrow> (amm_error, amm_state) outcome" where
  "notify_reward_apply s pid amount nonce on_chain now =
     (case bm_get (as_pools s) pid of
        None \<Rightarrow> Err AePoolNotFound
      | Some p \<Rightarrow>
          if nonce \<in> set (po_processed_donation_nonces p) then Ok s
          else
            let expected = sat_add128 (po_reward_balance_snapshot p) amount in
            if on_chain < expected then Err (AeInsufficientOnChainBalance expected on_chain)
            else
              let q = credit_donation amount nonce on_chain p
              in Ok (record_reward_event pid amount (po_total_lp_shares q) nonce now
                       (s\<lparr>as_pools := bm_insert pid q (as_pools s)\<rparr>)))"

text \<open>\<^verbatim>\<open>claim_rewards\<close> up to its transfer. The closure keeps what it settled also when it returns an error.\<close>

definition claim_rewards_begin ::
    "amm_state \<Rightarrow> bool \<Rightarrow> principal \<Rightarrow> pool_id \<Rightarrow> amm_state \<times> (amm_error, u128) outcome" where
  "claim_rewards_begin s locked caller pid =
     (if caller = principal_anonymous then (s, Err AeUnauthorized)
      else if locked then (s, Err AePoolBusy)
      else case bm_get (as_pools s) pid of
        None \<Rightarrow> (s, Err AePoolNotFound)
      | Some p \<Rightarrow>
          let shares = bm_get_or 0 (po_lp_shares p) caller;
              acc = po_acc_reward_per_share p;
              entry = reset_debt (settle (bm_get_or reward_state_default (po_lp_rewards p) caller) shares acc) shares acc;
              put = (\<lambda>e. s\<lparr>as_pools := bm_insert pid (p\<lparr>po_lp_rewards := bm_insert caller e (po_lp_rewards p)\<rparr>) (as_pools s)\<rparr>)
          in if rw_claimable entry < min_claim_e8s
             then (put entry, Err (AeBelowMinClaim (rw_claimable entry) min_claim_e8s))
             else (put (entry\<lparr>rw_claimable := 0\<rparr>), Ok (rw_claimable entry)))"

definition claim_rewards_paid :: "pool_id \<Rightarrow> principal \<Rightarrow> u128 \<Rightarrow> (amm_error, u128) outcome \<Rightarrow> u64 \<Rightarrow> amm_state \<Rightarrow> amm_state" where
  "claim_rewards_paid pid caller amount after_balance now s =
     record_claim_event pid caller amount now (update_pool pid (\<lambda>p. p\<lparr>po_reward_balance_snapshot :=
       (case after_balance of Ok on_chain \<Rightarrow> on_chain | _ \<Rightarrow> sat_sub (po_reward_balance_snapshot p) amount)\<rparr>) s)"

definition claim_rewards_failed :: "pool_id \<Rightarrow> principal \<Rightarrow> u128 \<Rightarrow> amm_state \<Rightarrow> amm_state" where
  "claim_rewards_failed pid caller amount =
     update_pool pid (\<lambda>p. p\<lparr>po_lp_rewards :=
       bm_modify caller (\<lambda>e. e\<lparr>rw_claimable := sat_add128 (rw_claimable e) amount\<rparr>) (po_lp_rewards p)\<rparr>)"

section \<open>What the queries announce\<close>

lemma quote_is_what_swap_pays:
  assumes "swap_begin s lk caller pid token amt = Ok w"
  shows "get_quote s pid token amt = Ok (sw_amount_out w)"
proof -
  obtain p where p: "bm_get (as_pools s) pid = Some p"
    using assms by (cases "bm_get (as_pools s) pid") (simp_all add: swap_begin_def split: if_splits)
  consider "token = po_token_a p" | "token \<noteq> po_token_a p" "token = po_token_b p"
    using assms p by (fastforce simp: swap_begin_def split: if_splits)
  then show ?thesis
  proof cases
    case 1
    with assms p show ?thesis
      by (cases "compute_swap (po_reserve_a p) (po_reserve_b p) amt (po_fee_bps p) (po_protocol_fee_bps p)")
        (auto simp: swap_begin_def get_quote_def split: if_splits)
  next
    case 2
    with assms p show ?thesis
      by (cases "compute_swap (po_reserve_b p) (po_reserve_a p) amt (po_fee_bps p) (po_protocol_fee_bps p)")
        (auto simp: swap_begin_def get_quote_def split: if_splits)
  qed
qed

lemma settled_claimable:
  "rw_claimable (reset_debt (settle e shares acc) shares acc)
     = sat_add128 (rw_claimable e) (pending shares acc (rw_reward_debt e))"
  by (simp add: settle_def reset_debt_def)

lemma pending_rewards_are_what_claim_pays:
  assumes "claim_rewards_begin s lk caller pid = (s', Ok amt)"
  shows "get_pending_rewards s pid caller = amt"
proof -
  obtain p where p: "bm_get (as_pools s) pid = Some p"
    using assms by (cases "bm_get (as_pools s) pid") (simp_all add: claim_rewards_begin_def split: if_splits)
  then have "amt = rw_claimable (reset_debt (settle (bm_get_or reward_state_default (po_lp_rewards p) caller)
      (bm_get_or 0 (po_lp_shares p) caller) (po_acc_reward_per_share p)) (bm_get_or 0 (po_lp_shares p) caller) (po_acc_reward_per_share p))"
    using assms by (simp add: claim_rewards_begin_def Let_def split: if_splits)
  then show ?thesis
    using p by (cases "bm_get (po_lp_rewards p) caller")
      (simp_all add: get_pending_rewards_def Let_def settled_claimable reward_state_default_def bm_get_or_def)
qed

end
