(* ===== verification/Amm_Machine.thy ===== *)
theory Amm_Machine
  imports Amm_Pool Rumi_Systems
begin

text \<open>
  The market maker as a state machine. A node is the canister state, the call that holds the lock of
  each pool with what it waits for, the claims being paid, and the canister's accounts on the token
  ledgers. A ledger's answer and its effect on the balance are one step. The fee the canister
  withholds (what \<^verbatim>\<open>ledger_fee\<close> returned: the cached answer of the ledger or the fallback of 10,000)
  and the fee the ledger charges are two numbers, both arbitrary in every step, and a ledger may
  answer a transfer with \<^verbatim>\<open>Duplicate\<close>, which the canister takes for success although nothing moves.
  Beside the balance of an account runs its shortfall, an auxiliary variable: the tokens that the
  canister counts on and that did not arrive, or left without being owed.
\<close>

section \<open>Nodes and steps\<close>

type_synonym account = "principal \<times> subaccount"

datatype session =
    SwapPulling swap_plan
  | SwapPaying swap_plan
  | SwapRefunding swap_plan
  | AddPullingA liquidity_plan
  | AddPullingB liquidity_plan
  | AddRefunding liquidity_plan
  | RemQuoted liquidity_plan
  | RemPayingA liquidity_plan
  | RemPayingB liquidity_plan bool
  | FeesPayingA liquidity_plan
  | FeesPayingB liquidity_plan u128
  | Rewarding

record ledger_book =
  lb_bal :: "account \<Rightarrow> nat"
  lb_short :: "account \<Rightarrow> nat"

record amm_node =
  an_state :: amm_state
  an_sessions :: "(pool_id, session) bmap"
  an_claiming :: "pending_claim list"
  an_burning :: "(principal \<times> account) list"
  an_book :: ledger_book

definition amm_start :: "principal \<Rightarrow> amm_node" where
  "amm_start admin = \<lparr>an_state = amm_initial admin, an_sessions = bm_empty, an_claiming = [], an_burning = [],
     an_book = \<lparr>lb_bal = (\<lambda>_. 0), lb_short = (\<lambda>_. 0)\<rparr>\<rparr>"

abbreviation an_bal :: "amm_node \<Rightarrow> account \<Rightarrow> nat" where
  "an_bal n \<equiv> lb_bal (an_book n)"

abbreviation an_short :: "amm_node \<Rightarrow> account \<Rightarrow> nat" where
  "an_short n \<equiv> lb_short (an_book n)"

text \<open>What an account holds with its shortfall: what it would hold had nothing gone missing.\<close>

definition covered :: "ledger_book \<Rightarrow> account \<Rightarrow> nat" where
  "covered b x = lb_bal b x + lb_short b x"

abbreviation an_cover :: "amm_node \<Rightarrow> account \<Rightarrow> nat" where
  "an_cover n \<equiv> covered (an_book n)"

abbreviation sw_acct_in :: "swap_plan \<Rightarrow> account" where
  "sw_acct_in w \<equiv> (sw_ledger_in w, sw_sub_in w)"

abbreviation sw_acct_out :: "swap_plan \<Rightarrow> account" where
  "sw_acct_out w \<equiv> (sw_ledger_out w, sw_sub_out w)"

abbreviation lq_acct_a :: "liquidity_plan \<Rightarrow> account" where
  "lq_acct_a l \<equiv> (lq_token_a l, lq_sub_a l)"

abbreviation lq_acct_b :: "liquidity_plan \<Rightarrow> account" where
  "lq_acct_b l \<equiv> (lq_token_b l, lq_sub_b l)"

text \<open>\<^verbatim>\<open>transfer_to_user\<close> sends the amount less the withheld fee \<open>q\<close>; the ledger takes what is sent and
  the fee \<open>f\<close> that it charges, and refuses when the account does not hold them. Nothing is sent when
  the withheld fee is not covered, and nothing leaves when the ledger answers that the transfer is a
  duplicate. The shortfall grows by what is charged above what was withheld.\<close>

definition sent :: "bool \<Rightarrow> u128 \<Rightarrow> u128 \<Rightarrow> account \<Rightarrow> u128 \<Rightarrow> ledger_book \<Rightarrow> ledger_book" where
  "sent dup q f acct amt b =
     (if dup \<or> amt \<le> q then b
      else b\<lparr>lb_bal := (lb_bal b)(acct := lb_bal b acct - (amt - q + f)),
             lb_short := (lb_short b)(acct := lb_short b acct + (f - q))\<rparr>)"

definition can_send :: "bool \<Rightarrow> u128 \<Rightarrow> u128 \<Rightarrow> account \<Rightarrow> u128 \<Rightarrow> ledger_book \<Rightarrow> bool" where
  "can_send dup q f acct amt b \<longleftrightarrow> dup \<or> amt \<le> q \<or> amt - q + f \<le> lb_bal b acct"

text \<open>\<^verbatim>\<open>transfer_from_user\<close> is answered with a block, and the tokens are there, or with \<^verbatim>\<open>Duplicate\<close>, which
  counts as success: no tokens come with it.\<close>

definition received :: "bool \<Rightarrow> account \<Rightarrow> u128 \<Rightarrow> ledger_book \<Rightarrow> ledger_book" where
  "received dup acct amt b =
     (if dup then b\<lparr>lb_short := (lb_short b)(acct := lb_short b acct + amt)\<rparr>
      else b\<lparr>lb_bal := (lb_bal b)(acct := lb_bal b acct + amt)\<rparr>)"

text \<open>Tokens that leave an account although they are not owed from it: the burn of an account by the
  administrator, which may name any account, and the payment of rewards. Rewards are paid from
  accounts of their own, derived from other strings than those of the pools; the machine allows any.\<close>

definition drained :: "account \<Rightarrow> u128 \<Rightarrow> ledger_book \<Rightarrow> ledger_book" where
  "drained acct amt b = b\<lparr>lb_bal := (lb_bal b)(acct := lb_bal b acct - amt),
     lb_short := (lb_short b)(acct := lb_short b acct + amt)\<rparr>"

definition admin_burn_subaccount_begin :: "amm_state \<Rightarrow> principal \<Rightarrow> subaccount \<Rightarrow> (amm_error, unit) outcome" where
  "admin_burn_subaccount_begin s caller sub =
     (if caller \<noteq> as_admin s then Err AeUnauthorized
      else if length sub \<noteq> 32 then Err (AeInvalidInput (''subaccount must be 32 bytes, got '' @ show_nat (length sub)))
      else Ok ())"

definition admin_burn_subaccount_done ::
    "principal \<Rightarrow> principal \<Rightarrow> string \<Rightarrow> u128 \<Rightarrow> u64 \<Rightarrow> u64 \<Rightarrow> amm_state \<Rightarrow> amm_state" where
  "admin_burn_subaccount_done caller ledger sub_hex amt block now =
     record_admin_event caller (AaAdminBurnSubaccount ledger sub_hex amt block) now"

definition hold :: "pool_id \<Rightarrow> session \<Rightarrow> amm_node \<Rightarrow> amm_node" where
  "hold pid ss n = n\<lparr>an_sessions := bm_insert pid ss (an_sessions n)\<rparr>"

definition release :: "pool_id \<Rightarrow> amm_node \<Rightarrow> amm_node" where
  "release pid n = n\<lparr>an_sessions := bm_remove pid (an_sessions n)\<rparr>"

abbreviation holds :: "amm_node \<Rightarrow> pool_id \<Rightarrow> session \<Rightarrow> bool" where
  "holds n pid ss \<equiv> bm_get (an_sessions n) pid = Some ss"

abbreviation locked :: "amm_node \<Rightarrow> pool_id \<Rightarrow> bool" where
  "locked n pid \<equiv> bm_has (an_sessions n) pid"

abbreviation run_on :: "(amm_state \<Rightarrow> amm_state) \<Rightarrow> amm_node \<Rightarrow> amm_node" where
  "run_on f n \<equiv> n\<lparr>an_state := f (an_state n)\<rparr>"

abbreviation on_ledger :: "(ledger_book \<Rightarrow> ledger_book) \<Rightarrow> amm_node \<Rightarrow> amm_node" where
  "on_ledger g n \<equiv> n\<lparr>an_book := g (an_book n)\<rparr>"

text \<open>The burn of an account takes no pool's lock, so it runs between the messages of any call. A
  premise of the form \<open>an_cover n a + amt \<le> u128_max\<close> says that the tokens counted on one account fit
  128 bits.\<close>

inductive amm_step :: "(principal \<Rightarrow> string) \<Rightarrow> (string \<Rightarrow> subaccount) \<Rightarrow> amm_node \<Rightarrow> amm_node \<Rightarrow> bool"
  for to_text :: "principal \<Rightarrow> string" and sha256 :: "string \<Rightarrow> subaccount"
where
  swap_start: "swap_begin (an_state n) (locked n pid) caller pid token amt = Ok w
    \<Longrightarrow> swap_check_output w q min_out = Ok ()
    \<Longrightarrow> amm_step to_text sha256 n (hold pid (SwapPulling w) n)"
| swap_pulled: "holds n pid (SwapPulling w) \<Longrightarrow> an_cover n (sw_acct_in w) + sw_amount_in w \<le> u128_max
    \<Longrightarrow> amm_step to_text sha256 n
          (hold pid (SwapPaying w) (run_on (swap_credit pid w) (on_ledger (received dup (sw_acct_in w) (sw_amount_in w)) n)))"
| swap_pull_failed: "holds n pid (SwapPulling w) \<Longrightarrow> amm_step to_text sha256 n (release pid n)"
| swap_paid: "holds n pid (SwapPaying w) \<Longrightarrow> can_send dup q f (sw_acct_out w) (sw_amount_out w) (an_book n)
    \<Longrightarrow> amm_step to_text sha256 n
    (release pid (run_on (swap_paid pid w now) (on_ledger (sent dup q f (sw_acct_out w) (sw_amount_out w)) n)))"
| swap_pay_failed: "holds n pid (SwapPaying w) \<Longrightarrow> amm_step to_text sha256 n
    (hold pid (SwapRefunding w) (run_on (swap_rollback pid w) n))"
| swap_refunded: "holds n pid (SwapRefunding w) \<Longrightarrow> can_send dup q f (sw_acct_in w) (sw_amount_in w) (an_book n)
    \<Longrightarrow> amm_step to_text sha256 n
    (release pid (on_ledger (sent dup q f (sw_acct_in w) (sw_amount_in w)) n))"
| swap_refund_failed: "holds n pid (SwapRefunding w) \<Longrightarrow> amm_step to_text sha256 n
    (release pid (run_on (swap_refund_failed pid w reason now) n))"
| add_start: "add_liquidity_begin (an_state n) (locked n pid) caller pid a b min_shares = Ok l
    \<Longrightarrow> amm_step to_text sha256 n (hold pid (AddPullingA l) n)"
| add_pulled_a: "holds n pid (AddPullingA l) \<Longrightarrow> an_cover n (lq_acct_a l) + lq_amount_a l \<le> u128_max
    \<Longrightarrow> amm_step to_text sha256 n (hold pid (AddPullingB l) (on_ledger (received dup (lq_acct_a l) (lq_amount_a l)) n))"
| add_pull_a_failed: "holds n pid (AddPullingA l) \<Longrightarrow> amm_step to_text sha256 n (release pid n)"
| add_pulled_b: "holds n pid (AddPullingB l) \<Longrightarrow> an_cover n (lq_acct_b l) + lq_amount_b l \<le> u128_max
    \<Longrightarrow> bm_get (as_pools (an_state n)) pid = Some p \<Longrightarrow> po_total_lp_shares p + lq_shares l \<le> u128_max
    \<Longrightarrow> amm_step to_text sha256 n (release pid
          (run_on (add_liquidity_apply pid l now) (on_ledger (received dup (lq_acct_b l) (lq_amount_b l)) n)))"
| add_pull_b_failed: "holds n pid (AddPullingB l) \<Longrightarrow> amm_step to_text sha256 n (hold pid (AddRefunding l) n)"
| add_refunded: "holds n pid (AddRefunding l) \<Longrightarrow> can_send dup q f (lq_acct_a l) (lq_amount_a l) (an_book n)
    \<Longrightarrow> amm_step to_text sha256 n
    (release pid (on_ledger (sent dup q f (lq_acct_a l) (lq_amount_a l)) n))"
| add_refund_failed: "holds n pid (AddRefunding l) \<Longrightarrow> amm_step to_text sha256 n
    (release pid (run_on (add_refund_failed pid l reason now) n))"
| remove_start: "remove_liquidity_begin (an_state n) (locked n pid) caller pid sh = Ok l
    \<Longrightarrow> amm_step to_text sha256 n (hold pid (RemQuoted l) n)"
| remove_rejected: "holds n pid (RemQuoted l)
    \<Longrightarrow> remove_check_output l qa qb min_a min_b = Err e
    \<Longrightarrow> amm_step to_text sha256 n (release pid n)"
| remove_burned: "holds n pid (RemQuoted l)
    \<Longrightarrow> remove_check_output l qa qb min_a min_b = Ok ()
    \<Longrightarrow> amm_step to_text sha256 n (hold pid (RemPayingA l) (run_on (remove_liquidity_apply pid l) n))"
| remove_paid_a: "holds n pid (RemPayingA l) \<Longrightarrow> can_send dup q f (lq_acct_a l) (lq_amount_a l) (an_book n)
    \<Longrightarrow> amm_step to_text sha256 n
    (hold pid (RemPayingB l False) (on_ledger (sent dup q f (lq_acct_a l) (lq_amount_a l)) n))"
| remove_a_failed: "holds n pid (RemPayingA l) \<Longrightarrow> 0 < lq_amount_a l \<Longrightarrow> amm_step to_text sha256 n
    (hold pid (RemPayingB l True) (run_on (remove_a_failed pid l reason now) n))"
| remove_paid_b: "holds n pid (RemPayingB l failed) \<Longrightarrow> can_send dup q f (lq_acct_b l) (lq_amount_b l) (an_book n)
    \<Longrightarrow> amm_step to_text sha256 n
    (release pid (run_on (if failed then (\<lambda>s. s) else remove_liquidity_done pid l now)
       (on_ledger (sent dup q f (lq_acct_b l) (lq_amount_b l)) n)))"
| remove_b_failed: "holds n pid (RemPayingB l failed) \<Longrightarrow> 0 < lq_amount_b l \<Longrightarrow> amm_step to_text sha256 n
    (release pid (run_on (remove_b_failed pid l reason now) n))"
| fees_start: "withdraw_fees_begin (an_state n) (locked n pid) caller pid = Ok (s, Some l)
    \<Longrightarrow> amm_step to_text sha256 n (hold pid (FeesPayingA l) (n\<lparr>an_state := s\<rparr>))"
| fees_paid_a: "holds n pid (FeesPayingA l) \<Longrightarrow> can_send dup q f (lq_acct_a l) (lq_amount_a l) (an_book n)
    \<Longrightarrow> amm_step to_text sha256 n
    (hold pid (FeesPayingB l (lq_amount_a l)) (on_ledger (sent dup q f (lq_acct_a l) (lq_amount_a l)) n))"
| fees_a_failed: "holds n pid (FeesPayingA l) \<Longrightarrow> 0 < lq_amount_a l \<Longrightarrow> amm_step to_text sha256 n
    (hold pid (FeesPayingB l 0) n)"
| fees_paid_b: "holds n pid (FeesPayingB l got_a) \<Longrightarrow> can_send dup q f (lq_acct_b l) (lq_amount_b l) (an_book n)
    \<Longrightarrow> amm_step to_text sha256 n
    (release pid (run_on (withdraw_fees_finish pid l caller got_a (lq_amount_b l) (got_a \<noteq> lq_amount_a l) now)
       (on_ledger (sent dup q f (lq_acct_b l) (lq_amount_b l)) n)))"
| fees_b_failed: "holds n pid (FeesPayingB l got_a) \<Longrightarrow> 0 < lq_amount_b l \<Longrightarrow> amm_step to_text sha256 n
    (release pid (run_on (withdraw_fees_finish pid l caller got_a 0 True now) n))"
| claim_start: "claim_pending_begin (an_state n) caller cid = (s, Ok c)
    \<Longrightarrow> amm_step to_text sha256 n (n\<lparr>an_state := s, an_claiming := c # an_claiming n\<rparr>)"
| claim_refused: "claim_pending_begin (an_state n) caller cid = (s, Err e)
    \<Longrightarrow> amm_step to_text sha256 n (n\<lparr>an_state := s\<rparr>)"
| claim_too_small: "an_claiming n = cs @ c # ds \<Longrightarrow> claim_pending_check (an_state n) c q = (s, Err e)
    \<Longrightarrow> amm_step to_text sha256 n (n\<lparr>an_state := s, an_claiming := cs @ ds\<rparr>)"
| claim_paid: "an_claiming n = cs @ c # ds \<Longrightarrow> claim_pending_check (an_state n) c q0 = (s0, Ok ())
    \<Longrightarrow> claim_pending_reply (an_state n) caller c (Ok block) now = (s, r)
    \<Longrightarrow> can_send dup q f (pc_token c, pc_subaccount c) (pc_amount c) (an_book n)
    \<Longrightarrow> amm_step to_text sha256 n (n\<lparr>an_state := s, an_claiming := cs @ ds,
          an_book := sent dup q f (pc_token c, pc_subaccount c) (pc_amount c) (an_book n)\<rparr>)"
| claim_failed: "an_claiming n = cs @ c # ds \<Longrightarrow> claim_pending_reply (an_state n) caller c (Err reason) now = (s, r)
    \<Longrightarrow> amm_step to_text sha256 n (n\<lparr>an_state := s, an_claiming := cs @ ds\<rparr>)"
| claim_resolved: "resolve_pending_claim (an_state n) caller cid now = Ok s \<Longrightarrow> amm_step to_text sha256 n (n\<lparr>an_state := s\<rparr>)"
| pool_created: "create_pool to_text sha256 (an_state n) caller ta tb bps curve now = Ok (s, pid)
    \<Longrightarrow> amm_step to_text sha256 n (n\<lparr>an_state := s\<rparr>)"
| fee_set: "set_fee (an_state n) caller pid bps now = Ok s \<Longrightarrow> amm_step to_text sha256 n (n\<lparr>an_state := s\<rparr>)"
| protocol_fee_set: "set_protocol_fee (an_state n) caller pid bps now = Ok s
    \<Longrightarrow> amm_step to_text sha256 n (n\<lparr>an_state := s\<rparr>)"
| paused: "pause_pool (an_state n) caller pid now = Ok s \<Longrightarrow> amm_step to_text sha256 n (n\<lparr>an_state := s\<rparr>)"
| unpaused: "unpause_pool (an_state n) caller pid now = Ok s \<Longrightarrow> amm_step to_text sha256 n (n\<lparr>an_state := s\<rparr>)"
| creation_set: "set_pool_creation_open (an_state n) caller flag now = Ok s \<Longrightarrow> amm_step to_text sha256 n (n\<lparr>an_state := s\<rparr>)"
| admin_set: "set_admin (an_state n) caller new_admin = Ok s \<Longrightarrow> amm_step to_text sha256 n (n\<lparr>an_state := s\<rparr>)"
| maintenance_set: "set_maintenance_mode (an_state n) caller flag now = Ok s \<Longrightarrow> amm_step to_text sha256 n (n\<lparr>an_state := s\<rparr>)"
| backend_set: "set_protocol_backend_principal (an_state n) caller backend now = Ok s \<Longrightarrow> amm_step to_text sha256 n (n\<lparr>an_state := s\<rparr>)"
| reward_locked: "notify_reward_begin (an_state n) (locked n pid) caller pid nonce = Ok False
    \<Longrightarrow> amm_step to_text sha256 n (hold pid Rewarding n)"
| reward_applied: "holds n pid Rewarding \<Longrightarrow> notify_reward_apply (an_state n) pid amt nonce on_chain now = Ok s
    \<Longrightarrow> amm_step to_text sha256 n (release pid (n\<lparr>an_state := s\<rparr>))"
| reward_claim_start: "claim_rewards_begin (an_state n) (locked n pid) caller pid = (s, Ok amt)
    \<Longrightarrow> amm_step to_text sha256 n (hold pid Rewarding (n\<lparr>an_state := s\<rparr>))"
| reward_claim_refused: "claim_rewards_begin (an_state n) (locked n pid) caller pid = (s, Err e)
    \<Longrightarrow> amm_step to_text sha256 n (n\<lparr>an_state := s\<rparr>)"
| reward_claim_paid: "holds n pid Rewarding \<Longrightarrow> left \<le> an_bal n acct \<Longrightarrow> amm_step to_text sha256 n
    (release pid (run_on (claim_rewards_paid pid caller amt after now) (on_ledger (drained acct left) n)))"
| reward_claim_failed: "holds n pid Rewarding \<Longrightarrow> amm_step to_text sha256 n
    (release pid (run_on (claim_rewards_failed pid caller amt) n))"
| reward_released: "holds n pid Rewarding \<Longrightarrow> amm_step to_text sha256 n (release pid n)"
| burn_start: "admin_burn_subaccount_begin (an_state n) caller sub = Ok ()
    \<Longrightarrow> amm_step to_text sha256 n (n\<lparr>an_burning := (caller, ledger, sub) # an_burning n\<rparr>)"
| burn_refused: "an_burning n = cs @ b # ds \<Longrightarrow> amm_step to_text sha256 n (n\<lparr>an_burning := cs @ ds\<rparr>)"
| burned: "an_burning n = cs @ (caller, acct) # ds \<Longrightarrow> dup \<or> amt \<le> an_bal n acct
    \<Longrightarrow> amm_step to_text sha256 n (run_on (admin_burn_subaccount_done caller (fst acct) sub_hex amt block now)
          (on_ledger (drained acct (if dup then 0 else amt)) (n\<lparr>an_burning := cs @ ds\<rparr>)))"
| topped_up: "an_cover n acct + amt \<le> u128_max \<Longrightarrow> amm_step to_text sha256 n (on_ledger (received False acct amt) n)"

end
