(* ===== verification/Amm_Invariant.thy ===== *)
theory Amm_Invariant
  imports Amm_Machine
begin

text \<open>
  The invariant of the market maker: it is solvent on every ledger account, the shares of a pool add
  up to its total and the locked minimum stays in it, and what a call waits for fits its pool. Each
  step of a call keeps it; the lemmas say so step by step.
\<close>

section \<open>What is owed\<close>

definition acct_a :: "pool \<Rightarrow> account" where
  "acct_a p = (po_token_a p, po_subaccount_a p)"

definition acct_b :: "pool \<Rightarrow> account" where
  "acct_b p = (po_token_b p, po_subaccount_b p)"

definition on_acct :: "account \<Rightarrow> account \<Rightarrow> nat \<Rightarrow> nat" where
  "on_acct x acct n = (if x = acct then n else 0)"

definition pool_owed :: "account \<Rightarrow> pool \<Rightarrow> nat" where
  "pool_owed x p = on_acct x (acct_a p) (po_reserve_a p + po_protocol_fees_a p)
     + on_acct x (acct_b p) (po_reserve_b p + po_protocol_fees_b p)"

fun session_owed :: "account \<Rightarrow> session \<Rightarrow> nat" where
  "session_owed x (SwapRefunding w) = on_acct x (sw_acct_in w) (sw_amount_in w)"
| "session_owed x (AddPullingB l) = on_acct x (lq_acct_a l) (lq_amount_a l)"
| "session_owed x (AddRefunding l) = on_acct x (lq_acct_a l) (lq_amount_a l)"
| "session_owed x (RemPayingA l) = on_acct x (lq_acct_a l) (lq_amount_a l) + on_acct x (lq_acct_b l) (lq_amount_b l)"
| "session_owed x (RemPayingB l failed) = on_acct x (lq_acct_b l) (lq_amount_b l)"
| "session_owed x (FeesPayingA l) = on_acct x (lq_acct_a l) (lq_amount_a l) + on_acct x (lq_acct_b l) (lq_amount_b l)"
| "session_owed x (FeesPayingB l got) = on_acct x (lq_acct_a l) (lq_amount_a l - got) + on_acct x (lq_acct_b l) (lq_amount_b l)"
| "session_owed x _ = 0"

definition claims_owed :: "account \<Rightarrow> pending_claim list \<Rightarrow> nat" where
  "claims_owed x cs = sum_list (map (\<lambda>c. on_acct x (pc_token c, pc_subaccount c) (pc_amount c)) cs)"

definition owed :: "amm_node \<Rightarrow> account \<Rightarrow> nat" where
  "owed n x = bm_sum (pool_owed x) (as_pools (an_state n)) + bm_sum (session_owed x) (an_sessions n)
     + claims_owed x (as_pending_claims (an_state n)) + claims_owed x (an_claiming n)"

section \<open>The invariant\<close>

definition reserve_in :: "swap_plan \<Rightarrow> pool \<Rightarrow> u128" where
  "reserve_in w p = (if sw_a_to_b w then po_reserve_a p else po_reserve_b p)"

definition reserve_out :: "swap_plan \<Rightarrow> pool \<Rightarrow> u128" where
  "reserve_out w p = (if sw_a_to_b w then po_reserve_b p else po_reserve_a p)"

definition fees_in :: "swap_plan \<Rightarrow> pool \<Rightarrow> u128" where
  "fees_in w p = (if sw_a_to_b w then po_protocol_fees_a p else po_protocol_fees_b p)"

definition swap_fits :: "pool \<Rightarrow> swap_plan \<Rightarrow> bool" where
  "swap_fits p w \<longleftrightarrow> sw_acct_in w = (if sw_a_to_b w then acct_a p else acct_b p)
     \<and> sw_acct_out w = (if sw_a_to_b w then acct_b p else acct_a p)
     \<and> sw_protocol_fee w \<le> sw_amount_in w \<and> sw_amount_out w \<le> reserve_out w p"

definition liquidity_fits :: "pool \<Rightarrow> liquidity_plan \<Rightarrow> bool" where
  "liquidity_fits p l \<longleftrightarrow> lq_acct_a l = acct_a p \<and> lq_acct_b l = acct_b p"

fun session_ok :: "pool \<Rightarrow> session \<Rightarrow> bool" where
  "session_ok p (SwapPulling w) = swap_fits p w"
| "session_ok p (SwapPaying w) = (swap_fits p w \<and> sw_amount_in w - sw_protocol_fee w \<le> reserve_in w p \<and> sw_protocol_fee w \<le> fees_in w p)"
| "session_ok p (AddPullingA l) = (liquidity_fits p l \<and> lq_caller l \<noteq> principal_anonymous
     \<and> (po_total_lp_shares p = 0 \<longrightarrow> minimum_liquidity \<le> lq_shares l))"
| "session_ok p (AddPullingB l) = (liquidity_fits p l \<and> lq_caller l \<noteq> principal_anonymous
     \<and> (po_total_lp_shares p = 0 \<longrightarrow> minimum_liquidity \<le> lq_shares l))"
| "session_ok p (RemQuoted l) = (liquidity_fits p l \<and> lq_caller l \<noteq> principal_anonymous \<and> lq_amount_a l \<le> po_reserve_a p \<and> lq_amount_b l \<le> po_reserve_b p
     \<and> lq_shares l \<le> bm_get_or 0 (po_lp_shares p) (lq_caller l))"
| "session_ok p (FeesPayingA l) = (liquidity_fits p l \<and> lq_amount_a l \<le> u128_max \<and> lq_amount_b l \<le> u128_max)"
| "session_ok p (FeesPayingB l got) = (liquidity_fits p l \<and> got \<le> lq_amount_a l
     \<and> lq_amount_a l \<le> u128_max \<and> lq_amount_b l \<le> u128_max)"
| "session_ok p _ = True"

definition pool_ok :: "pool \<Rightarrow> bool" where
  "pool_ok p \<longleftrightarrow> bm_sum (\<lambda>n. n) (po_lp_shares p) = po_total_lp_shares p \<and> po_total_lp_shares p \<le> u128_max
     \<and> (po_total_lp_shares p = 0 \<or> minimum_liquidity \<le> bm_get_or 0 (po_lp_shares p) principal_anonymous)
     \<and> po_protocol_fee_bps p \<le> 10000"

definition solvent :: "amm_node \<Rightarrow> bool" where
  "solvent n \<longleftrightarrow> (\<forall>x. owed n x \<le> an_cover n x \<and> an_cover n x \<le> u128_max)"

definition amm_inv :: "amm_node \<Rightarrow> bool" where
  "amm_inv n \<longleftrightarrow> solvent n
     \<and> (\<forall>pid p. bm_get (as_pools (an_state n)) pid = Some p \<longrightarrow> pool_ok p)
     \<and> (\<forall>pid ss. bm_get (an_sessions n) pid = Some ss \<longrightarrow>
          ss = Rewarding \<or> (\<exists>p. bm_get (as_pools (an_state n)) pid = Some p \<and> session_ok p ss))"

section \<open>One call moves at a time\<close>

definition opt_owed :: "account \<Rightarrow> session option \<Rightarrow> nat" where
  "opt_owed x so = (case so of Some ss \<Rightarrow> session_owed x ss | None \<Rightarrow> 0)"

definition put_session :: "pool_id \<Rightarrow> session option \<Rightarrow> (pool_id, session) bmap \<Rightarrow> (pool_id, session) bmap" where
  "put_session pid so m = (case so of Some ss \<Rightarrow> bm_insert pid ss m | None \<Rightarrow> bm_remove pid m)"

lemma put_session_sum: "bm_sum (session_owed x) (put_session pid so m) + opt_owed x (bm_get m pid)
    = bm_sum (session_owed x) m + opt_owed x so"
  using bm_sum_insert [of "session_owed x" pid _ m] bm_sum_remove [of "session_owed x" pid m]
  by (auto simp: put_session_def opt_owed_def split: option.splits)

lemma bm_insert_same: "bm_get m k = Some v \<Longrightarrow> bm_insert k v m = m"
  by (rule bm_ext) auto

text \<open>What a call owes after its step, with what it added to the balances, is covered by before.\<close>

lemma inv_pool_step:
  assumes inv: "amm_inv n" and p: "bm_get (as_pools (an_state n)) pid = Some p"
    and st: "as_pools (an_state m) = bm_insert pid p' (as_pools (an_state n))"
    and ss: "an_sessions m = put_session pid so (an_sessions n)"
    and bal: "\<And>x. an_cover m x \<le> u128_max"
    and delta: "\<And>x. pool_owed x p' + opt_owed x so + claims_owed x (as_pending_claims (an_state m))
          + claims_owed x (an_claiming m) + an_cover n x
        \<le> pool_owed x p + opt_owed x (bm_get (an_sessions n) pid) + claims_owed x (as_pending_claims (an_state n))
          + claims_owed x (an_claiming n) + an_cover m x"
    and ok: "pool_ok p'" "\<And>ss. so = Some ss \<Longrightarrow> ss = Rewarding \<or> session_ok p' ss"
  shows "amm_inv m"
proof -
  have "owed m x \<le> an_cover m x" for x
  proof -
    have "owed n x \<le> an_cover n x" using inv unfolding amm_inv_def solvent_def by blast
    moreover have "bm_sum (pool_owed x) (as_pools (an_state m)) + pool_owed x p
        = bm_sum (pool_owed x) (as_pools (an_state n)) + pool_owed x p'"
      unfolding st by (rule bm_sum_insert_old [OF p])
    moreover note put_session_sum [of x pid so "an_sessions n", folded ss] delta [of x]
    ultimately show ?thesis by (simp add: owed_def)
  qed
  moreover have "ss' = Rewarding \<or> (\<exists>q. bm_get (as_pools (an_state m)) k = Some q \<and> session_ok q ss')"
    if "bm_get (an_sessions m) k = Some ss'" for k ss'
  proof (cases "k = pid")
    case True
    with that have "so = Some ss'" by (auto simp: ss put_session_def split: option.splits)
    with ok(2) True show ?thesis by (auto simp: st)
  next
    case False
    with that have "bm_get (an_sessions n) k = Some ss'" by (auto simp: ss put_session_def split: option.splits)
    then have "ss' = Rewarding \<or> (\<exists>q. bm_get (as_pools (an_state n)) k = Some q \<and> session_ok q ss')"
      using inv by (auto simp: amm_inv_def)
    then show ?thesis using False by (auto simp: st)
  qed
  moreover have "pool_ok q" if "bm_get (as_pools (an_state m)) k = Some q" for k q
    using that ok(1) inv by (auto simp: st amm_inv_def split: if_splits)
  ultimately show ?thesis using bal by (auto simp: amm_inv_def solvent_def)
qed

lemma inv_session_step:
  assumes "amm_inv n" and "bm_get (as_pools (an_state n)) pid = Some p"
    and st: "as_pools (an_state m) = as_pools (an_state n)"
    and "an_sessions m = put_session pid so (an_sessions n)" and "\<And>x. an_cover m x \<le> u128_max"
    and delta: "\<And>x. opt_owed x so + claims_owed x (as_pending_claims (an_state m)) + claims_owed x (an_claiming m) + an_cover n x
        \<le> opt_owed x (bm_get (an_sessions n) pid) + claims_owed x (as_pending_claims (an_state n))
          + claims_owed x (an_claiming n) + an_cover m x"
    and "pool_ok p" "\<And>ss. so = Some ss \<Longrightarrow> ss = Rewarding \<or> session_ok p ss"
  shows "amm_inv m"
proof (rule inv_pool_step [OF assms(1,2) _ assms(4,5)])
  show "as_pools (an_state m) = bm_insert pid p (as_pools (an_state n))" using assms(2) by (simp add: st bm_insert_same)
  fix x
  show "pool_owed x p + opt_owed x so + claims_owed x (as_pending_claims (an_state m)) + claims_owed x (an_claiming m) + an_cover n x
      \<le> pool_owed x p + opt_owed x (bm_get (an_sessions n) pid) + claims_owed x (as_pending_claims (an_state n))
        + claims_owed x (an_claiming n) + an_cover m x"
    using delta [of x] by linarith
qed (use assms in auto)

lemma inv_facts:
  assumes "amm_inv n"
  shows "owed n x \<le> an_cover n x" "an_cover n x \<le> u128_max"
    "bm_get (as_pools (an_state n)) pid = Some p \<Longrightarrow> pool_ok p"
    "bm_get (as_pools (an_state n)) pid = Some p \<Longrightarrow> pool_owed x p \<le> an_cover n x"
    "bm_get (an_sessions n) pid = Some ss \<Longrightarrow> session_owed x ss \<le> an_cover n x"
proof -
  show o: "owed n x \<le> an_cover n x" "an_cover n x \<le> u128_max" using assms unfolding amm_inv_def solvent_def by blast+
  show "bm_get (as_pools (an_state n)) pid = Some p \<Longrightarrow> pool_ok p" using assms by (auto simp: amm_inv_def)
  show "pool_owed x p \<le> an_cover n x" if "bm_get (as_pools (an_state n)) pid = Some p"
    using bm_sum_ge [OF that, of "pool_owed x"] o(1) by (simp add: owed_def)
  show "session_owed x ss \<le> an_cover n x" if "bm_get (an_sessions n) pid = Some ss"
    using bm_sum_ge [OF that, of "session_owed x"] o(1) by (simp add: owed_def)
qed

lemma held_pool:
  assumes "amm_inv n" and "holds n pid ss" and "ss \<noteq> Rewarding"
  obtains p where "bm_get (as_pools (an_state n)) pid = Some p" and "session_ok p ss" and "pool_ok p"
  using assms unfolding amm_inv_def by blast

lemma received_cover [simp]: "covered (received dup acct amt b) x = covered b x + on_acct x acct amt"
  by (simp add: received_def covered_def on_acct_def)

lemma drained_cover: "amt \<le> lb_bal b acct \<Longrightarrow> covered (drained acct amt b) x = covered b x"
  by (simp add: drained_def covered_def)

text \<open>A payment takes at most the amount from what an account covers, whatever fee is withheld and
  whatever fee is charged.\<close>

lemma sent_le: "can_send dup q ch acct amt b \<Longrightarrow> covered (sent dup q ch acct amt b) x \<le> covered b x"
  by (auto simp: sent_def can_send_def covered_def)

lemma sent_ge: "can_send dup q ch acct amt b \<Longrightarrow> covered b x \<le> covered (sent dup q ch acct amt b) x + on_acct x acct amt"
  by (auto simp: sent_def can_send_def covered_def on_acct_def)

section \<open>Swaps\<close>

lemmas node_defs = hold_def release_def put_session_def

lemma update_pool_pools: "bm_get (as_pools s) pid = Some p \<Longrightarrow> as_pools (update_pool pid f s) = bm_insert pid (f p) (as_pools s)"
  by (simp add: update_pool_def bm_modify_def)

lemma update_pool_claims [simp]: "as_pending_claims (update_pool pid f s) = as_pending_claims s"
  by (simp add: update_pool_def)

lemma record_frames [simp]:
  "as_pools (record_swap_event c i ti ai to ao fe t s) = as_pools s"
  "as_pending_claims (record_swap_event c i ti ai to ao fe t s) = as_pending_claims s"
  "as_pools (record_liquidity_event c i ac ti ai to ao fe t s) = as_pools s"
  "as_pending_claims (record_liquidity_event c i ac ti ai to ao fe t s) = as_pending_claims s"
  "as_pools (record_admin_event c a t s) = as_pools s"
  "as_pending_claims (record_admin_event c a t s) = as_pending_claims s"
  "as_pools (record_reward_event i x y z t s) = as_pools s"
  "as_pending_claims (record_reward_event i x y z t s) = as_pending_claims s"
  "as_pools (record_claim_event i x y t s) = as_pools s"
  "as_pending_claims (record_claim_event i x y t s) = as_pending_claims s"
  "as_pools (record_pending_claim i who token sub amt why t s) = as_pools s"
  by (simp_all add: record_swap_event_def record_liquidity_event_def record_admin_event_def record_reward_event_def
      record_claim_event_def record_pending_claim_def)

lemma claims_owed_simps [simp]:
  "claims_owed x [] = 0" "claims_owed x (c # cs) = on_acct x (pc_token c, pc_subaccount c) (pc_amount c) + claims_owed x cs"
  "claims_owed x (cs @ ds) = claims_owed x cs + claims_owed x ds"
  by (simp_all add: claims_owed_def)

lemma claims_owed_tl: "claims_owed x (tl cs) \<le> claims_owed x cs"
  by (cases cs) simp_all

lemma recorded_claim_owed:
  "claims_owed x (as_pending_claims (record_pending_claim i who token sub amt why t s))
     \<le> claims_owed x (as_pending_claims s) + on_acct x (token, sub) amt"
  using claims_owed_tl [of x "as_pending_claims s"] by (simp add: record_pending_claim_def push_capped_def)

lemma on_acct_simps [simp]: "on_acct x a 0 = 0" "on_acct a a n = n" "on_acct x a (m + n) = on_acct x a m + on_acct x a n"
  by (simp_all add: on_acct_def)

lemma swap_start_fits:
  assumes "swap_begin s lk caller pid token amt = Ok w" and "bm_get (as_pools s) pid = Some p" and "pool_ok p"
  shows "swap_fits p w"
proof -
  have le: "po_protocol_fee_bps p \<le> 10000" using assms(3) by (simp add: pool_ok_def)
  have "prot \<le> amt \<and> out \<le> y" if "compute_swap x y amt f (po_protocol_fee_bps p) = Ok (out, tot, prot)" for x y f out tot prot
    using swap_safe [OF that le] by simp
  then show ?thesis
    using assms(1,2)
    by (auto simp: swap_begin_def swap_fits_def reserve_out_def acct_a_def acct_b_def and_then_Ok_iff split: if_splits)
qed

lemma swap_begin_pool: "swap_begin s lk caller pid token amt = Ok w \<Longrightarrow> \<not> lk \<and> (\<exists>p. bm_get (as_pools s) pid = Some p)"
  by (auto simp: swap_begin_def split: if_splits option.splits)

lemma unlocked [simp]: "\<not> locked n pid \<longleftrightarrow> bm_get (an_sessions n) pid = None"
  by (simp add: bm_has_def)

lemma inv_swap_start:
  assumes inv: "amm_inv n" and b: "swap_begin (an_state n) (locked n pid) caller pid token amt = Ok w"
  shows "amm_inv (hold pid (SwapPulling w) n)"
proof -
  from swap_begin_pool [OF b] obtain p where p: "bm_get (as_pools (an_state n)) pid = Some p"
    and free: "bm_get (an_sessions n) pid = None" by auto
  have ok: "pool_ok p" using inv_facts(3) [OF inv p] .
  show ?thesis
    by (rule inv_session_step [OF inv p, where so = "Some (SwapPulling w)"])
      (use p free ok swap_start_fits [OF b p ok] inv_facts(2) [OF inv] in \<open>simp_all add: node_defs opt_owed_def\<close>)
qed

definition credited :: "swap_plan \<Rightarrow> pool \<Rightarrow> pool" where
  "credited w p =
    (if sw_a_to_b w
     then p\<lparr>po_reserve_a := po_reserve_a p + (sw_amount_in w - sw_protocol_fee w),
            po_protocol_fees_a := po_protocol_fees_a p + sw_protocol_fee w\<rparr>
     else p\<lparr>po_reserve_b := po_reserve_b p + (sw_amount_in w - sw_protocol_fee w),
            po_protocol_fees_b := po_protocol_fees_b p + sw_protocol_fee w\<rparr>)"

lemma credited_facts:
  assumes "swap_fits p w"
  shows "pool_owed x (credited w p) = pool_owed x p + on_acct x (sw_acct_in w) (sw_amount_in w)"
    and "session_ok (credited w p) (SwapPaying w)" and "pool_ok (credited w p) \<longleftrightarrow> pool_ok p"
  using assms
  by (auto simp: credited_def swap_fits_def pool_owed_def on_acct_def acct_a_def acct_b_def reserve_in_def reserve_out_def
      fees_in_def pool_ok_def)

lemma swap_credit_pool:
  assumes inv: "amm_inv n" and p: "bm_get (as_pools (an_state n)) pid = Some p" and fits: "swap_fits p w"
    and room: "an_cover n (sw_acct_in w) + sw_amount_in w \<le> u128_max"
  shows "as_pools (swap_credit pid w (an_state n)) = bm_insert pid (credited w p) (as_pools (an_state n))"
proof -
  have le: "pool_owed (sw_acct_in w) p + sw_amount_in w \<le> u128_max"
    using inv_facts(4) [OF inv p, of "sw_acct_in w"] room by linarith
  have prot: "sw_protocol_fee w \<le> sw_amount_in w" using fits by (simp add: swap_fits_def)
  show ?thesis
  proof (cases "sw_a_to_b w")
    case True
    then have "sw_acct_in w = acct_a p" using fits by (simp add: swap_fits_def)
    with le have "po_reserve_a p + po_protocol_fees_a p + sw_amount_in w \<le> u128_max" by (simp add: pool_owed_def)
    with True prot p show ?thesis by (simp add: swap_credit_def credited_def update_pool_pools)
  next
    case False
    then have "sw_acct_in w = acct_b p" using fits by (simp add: swap_fits_def)
    with le have "po_reserve_b p + po_protocol_fees_b p + sw_amount_in w \<le> u128_max" by (simp add: pool_owed_def)
    with False prot p show ?thesis by (simp add: swap_credit_def credited_def update_pool_pools)
  qed
qed

lemma swap_credit_claims [simp]: "as_pending_claims (swap_credit pid w s) = as_pending_claims s"
  by (simp add: swap_credit_def)

lemma inv_swap_pulled:
  assumes inv: "amm_inv n" and h: "holds n pid (SwapPulling w)"
    and room: "an_cover n (sw_acct_in w) + sw_amount_in w \<le> u128_max"
  shows "amm_inv (hold pid (SwapPaying w) (run_on (swap_credit pid w) (on_ledger (received dup (sw_acct_in w) (sw_amount_in w)) n)))"
proof -
  from inv h obtain p where p: "bm_get (as_pools (an_state n)) pid = Some p" and "session_ok p (SwapPulling w)" and ok: "pool_ok p"
    by (rule held_pool) simp
  then have fits: "swap_fits p w" by simp
  show ?thesis
  proof (rule inv_pool_step [OF inv p, where so = "Some (SwapPaying w)" and p' = "credited w p"])
    show "an_cover (hold pid (SwapPaying w) (run_on (swap_credit pid w)
        (on_ledger (received dup (sw_acct_in w) (sw_amount_in w)) n))) x \<le> u128_max" for x
      using room inv_facts(2) [OF inv, of x] by (simp add: hold_def on_acct_def)
  qed (use swap_credit_pool [OF inv p fits room] ok credited_facts [OF fits] h in
      \<open>auto simp: node_defs opt_owed_def\<close>)
qed

lemma inv_release:
  assumes inv: "amm_inv n" and h: "holds n pid ss" and "\<And>x. session_owed x ss = 0"
  shows "amm_inv (release pid n)"
proof (cases "bm_get (as_pools (an_state n)) pid")
  case (Some p)
  show ?thesis
    by (rule inv_session_step [OF inv Some, where so = None])
      (use h assms(3) inv_facts(2) [OF inv] inv_facts(3) [OF inv Some] in \<open>simp_all add: node_defs opt_owed_def\<close>)
next
  case None
  have "bm_sum (session_owed x) (bm_remove pid (an_sessions n)) = bm_sum (session_owed x) (an_sessions n)" for x
    using bm_sum_remove [of "session_owed x" pid "an_sessions n"] h assms(3) by simp
  then show ?thesis using inv by (auto simp: amm_inv_def solvent_def owed_def release_def)
qed

lemma inv_swap_paid:
  assumes inv: "amm_inv n" and h: "holds n pid (SwapPaying w)"
    and pay: "can_send dup q ch (sw_acct_out w) (sw_amount_out w) (an_book n)"
  shows "amm_inv (release pid (run_on (swap_paid pid w now) (on_ledger (sent dup q ch (sw_acct_out w) (sw_amount_out w)) n)))"
proof -
  from inv h obtain p where p: "bm_get (as_pools (an_state n)) pid = Some p" and s: "session_ok p (SwapPaying w)" and ok: "pool_ok p"
    by (rule held_pool) simp
  have out: "sw_amount_out w \<le> reserve_out w p" "sw_acct_out w = (if sw_a_to_b w then acct_b p else acct_a p)"
    using s by (simp_all add: swap_fits_def)
  have cap: "reserve_out w p \<le> pool_owed (sw_acct_out w) p" using out(2) by (simp add: reserve_out_def pool_owed_def)
  have le: "reserve_out w p \<le> u128_max"
    using out(1) cap inv_facts(2) [OF inv, of "sw_acct_out w"] inv_facts(4) [OF inv p, of "sw_acct_out w"] by linarith
  let ?p = "if sw_a_to_b w then p\<lparr>po_reserve_b := po_reserve_b p - sw_amount_out w\<rparr>
    else p\<lparr>po_reserve_a := po_reserve_a p - sw_amount_out w\<rparr>"
  have st: "as_pools (swap_paid pid w now (an_state n)) = bm_insert pid ?p (as_pools (an_state n))"
    using p out(1) le by (cases "sw_a_to_b w") (simp_all add: swap_paid_def update_pool_pools reserve_out_def)
  have cl: "as_pending_claims (swap_paid pid w now (an_state n)) = as_pending_claims (an_state n)" by (simp add: swap_paid_def)
  have owed: "pool_owed x ?p + on_acct x (sw_acct_out w) (sw_amount_out w) = pool_owed x p" for x
    using out by (auto simp: pool_owed_def on_acct_def reserve_out_def acct_a_def acct_b_def)
  show ?thesis
  proof (rule inv_pool_step [OF inv p, where so = None and p' = ?p])
    fix x
    show "an_cover (release pid (run_on (swap_paid pid w now) (on_ledger (sent dup q ch (sw_acct_out w) (sw_amount_out w)) n))) x \<le> u128_max"
      using inv_facts(2) [OF inv, of x] sent_le [OF pay, of x] by (simp add: release_def)
    show "pool_owed x ?p + opt_owed x None
        + claims_owed x (as_pending_claims (an_state (release pid (run_on (swap_paid pid w now) (on_ledger (sent dup q ch (sw_acct_out w) (sw_amount_out w)) n)))))
        + claims_owed x (an_claiming (release pid (run_on (swap_paid pid w now) (on_ledger (sent dup q ch (sw_acct_out w) (sw_amount_out w)) n)))) + an_cover n x
      \<le> pool_owed x p + opt_owed x (bm_get (an_sessions n) pid) + claims_owed x (as_pending_claims (an_state n)) + claims_owed x (an_claiming n)
        + an_cover (release pid (run_on (swap_paid pid w now) (on_ledger (sent dup q ch (sw_acct_out w) (sw_amount_out w)) n))) x"
      using owed [of x] sent_ge [OF pay, of x] cl h
      by (simp add: node_defs opt_owed_def)
  qed (use st ok in \<open>simp_all add: node_defs pool_ok_def\<close>)
qed

definition uncredited :: "swap_plan \<Rightarrow> pool \<Rightarrow> pool" where
  "uncredited w p =
    (if sw_a_to_b w
     then p\<lparr>po_reserve_a := po_reserve_a p - (sw_amount_in w - sw_protocol_fee w),
            po_protocol_fees_a := po_protocol_fees_a p - sw_protocol_fee w\<rparr>
     else p\<lparr>po_reserve_b := po_reserve_b p - (sw_amount_in w - sw_protocol_fee w),
            po_protocol_fees_b := po_protocol_fees_b p - sw_protocol_fee w\<rparr>)"

lemma uncredited_facts:
  assumes "session_ok p (SwapPaying w)"
  shows "pool_owed x (uncredited w p) + on_acct x (sw_acct_in w) (sw_amount_in w) = pool_owed x p"
    and "pool_ok (uncredited w p) \<longleftrightarrow> pool_ok p"
  using assms
  by (auto simp: uncredited_def swap_fits_def pool_owed_def on_acct_def acct_a_def acct_b_def reserve_in_def
      fees_in_def pool_ok_def)

lemma swap_rollback_pool:
  assumes inv: "amm_inv n" and p: "bm_get (as_pools (an_state n)) pid = Some p" and s: "session_ok p (SwapPaying w)"
  shows "as_pools (swap_rollback pid w (an_state n)) = bm_insert pid (uncredited w p) (as_pools (an_state n))"
proof -
  have le: "pool_owed (sw_acct_in w) p \<le> u128_max"
    using inv_facts(2) [OF inv, of "sw_acct_in w"] inv_facts(4) [OF inv p, of "sw_acct_in w"] by linarith
  have w: "sw_protocol_fee w \<le> sw_amount_in w" "sw_acct_in w = (if sw_a_to_b w then acct_a p else acct_b p)"
    "sw_amount_in w - sw_protocol_fee w \<le> reserve_in w p" "sw_protocol_fee w \<le> fees_in w p"
    using s by (simp_all add: swap_fits_def)
  have cap: "reserve_in w p + fees_in w p \<le> u128_max"
    using w(2) le by (cases "sw_a_to_b w") (simp_all add: reserve_in_def fees_in_def pool_owed_def)
  moreover have "sw_amount_in w \<le> u128_max" using cap w by linarith
  ultimately show ?thesis
    using w p
    by (cases "sw_a_to_b w") (simp_all add: swap_rollback_def uncredited_def update_pool_pools reserve_in_def fees_in_def)
qed

lemma inv_swap_pay_failed:
  assumes inv: "amm_inv n" and h: "holds n pid (SwapPaying w)"
  shows "amm_inv (hold pid (SwapRefunding w) (run_on (swap_rollback pid w) n))"
proof -
  from inv h obtain p where p: "bm_get (as_pools (an_state n)) pid = Some p" and s: "session_ok p (SwapPaying w)" and ok: "pool_ok p"
    by (rule held_pool) simp
  have cl: "as_pending_claims (swap_rollback pid w (an_state n)) = as_pending_claims (an_state n)"
    by (simp add: swap_rollback_def)
  show ?thesis
    by (rule inv_pool_step [OF inv p, where so = "Some (SwapRefunding w)" and p' = "uncredited w p"])
      (use swap_rollback_pool [OF inv p s] cl uncredited_facts [OF s] inv_facts(2) [OF inv] h ok in
        \<open>auto simp: node_defs opt_owed_def\<close>)
qed

text \<open>A call that pays what its session owes, or records it as a claim.\<close>

lemma inv_pay_out:
  assumes inv: "amm_inv n" and h: "holds n pid ss" and p: "bm_get (as_pools (an_state n)) pid = Some p"
    and st: "as_pools s = as_pools (an_state n)" "as_pending_claims s = as_pending_claims (an_state n)"
    and owe: "\<And>x. session_owed x ss = opt_owed x so + on_acct x acct amt"
    and ok: "\<And>ss'. so = Some ss' \<Longrightarrow> ss' = Rewarding \<or> session_ok p ss'"
    and pay: "can_send dup q ch acct amt (an_book n)"
  shows "amm_inv (n\<lparr>an_state := s, an_sessions := put_session pid so (an_sessions n), an_book := sent dup q ch acct amt (an_book n)\<rparr>)"
proof -
  show ?thesis
  proof (rule inv_session_step [OF inv p, where so = so])
    fix x
    show "an_cover (n\<lparr>an_state := s, an_sessions := put_session pid so (an_sessions n),
        an_book := sent dup q ch acct amt (an_book n)\<rparr>) x \<le> u128_max"
      using inv_facts(2) [OF inv, of x] sent_le [OF pay, of x] by simp
    show "opt_owed x so + claims_owed x (as_pending_claims (an_state (n\<lparr>an_state := s,
            an_sessions := put_session pid so (an_sessions n), an_book := sent dup q ch acct amt (an_book n)\<rparr>)))
        + claims_owed x (an_claiming (n\<lparr>an_state := s, an_sessions := put_session pid so (an_sessions n),
            an_book := sent dup q ch acct amt (an_book n)\<rparr>)) + an_cover n x
      \<le> opt_owed x (bm_get (an_sessions n) pid) + claims_owed x (as_pending_claims (an_state n)) + claims_owed x (an_claiming n)
        + an_cover (n\<lparr>an_state := s, an_sessions := put_session pid so (an_sessions n), an_book := sent dup q ch acct amt (an_book n)\<rparr>) x"
      using sent_ge [OF pay, of x] owe [of x] h st by (simp add: opt_owed_def)
  qed (use st ok inv_facts(3) [OF inv p] in auto)
qed

lemma inv_claim_out:
  assumes inv: "amm_inv n" and h: "holds n pid ss" and p: "bm_get (as_pools (an_state n)) pid = Some p"
    and owe: "\<And>x. session_owed x ss = opt_owed x so + on_acct x (token, sub) amt"
    and ok: "\<And>ss'. so = Some ss' \<Longrightarrow> ss' = Rewarding \<or> session_ok p ss'"
  shows "amm_inv (n\<lparr>an_state := record_pending_claim pid who token sub amt why now (an_state n),
    an_sessions := put_session pid so (an_sessions n)\<rparr>)"
proof (rule inv_session_step [OF inv p, where so = so])
  fix x
  show "opt_owed x so + claims_owed x (as_pending_claims (an_state (n\<lparr>an_state := record_pending_claim pid who token sub amt why now (an_state n),
          an_sessions := put_session pid so (an_sessions n)\<rparr>)))
      + claims_owed x (an_claiming (n\<lparr>an_state := record_pending_claim pid who token sub amt why now (an_state n),
          an_sessions := put_session pid so (an_sessions n)\<rparr>)) + an_cover n x
    \<le> opt_owed x (bm_get (an_sessions n) pid) + claims_owed x (as_pending_claims (an_state n)) + claims_owed x (an_claiming n)
      + an_cover (n\<lparr>an_state := record_pending_claim pid who token sub amt why now (an_state n),
          an_sessions := put_session pid so (an_sessions n)\<rparr>) x"
    using recorded_claim_owed [of x pid who token sub amt why now "an_state n"] owe [of x] h by (simp add: opt_owed_def)
qed (use ok inv_facts(2) [OF inv] inv_facts(3) [OF inv p] in auto)

section \<open>Calls that wait\<close>

text \<open>A call that takes the lock, or changes what it waits for, without moving value\<close>

lemma inv_hold:
  assumes inv: "amm_inv n" and p: "bm_get (as_pools (an_state n)) pid = Some p"
    and owe: "\<And>x. session_owed x ss = opt_owed x (bm_get (an_sessions n) pid)" and ok: "session_ok p ss"
  shows "amm_inv (hold pid ss n)"
  by (rule inv_session_step [OF inv p, where so = "Some ss"])
    (use owe ok inv_facts(2) [OF inv] inv_facts(3) [OF inv p] in \<open>simp_all add: node_defs opt_owed_def\<close>)

lemma inv_owed_both:
  assumes inv: "amm_inv n" and p: "bm_get (as_pools (an_state n)) pid = Some p" and h: "holds n pid ss"
  shows "pool_owed x p + session_owed x ss \<le> an_cover n x"
  using bm_sum_ge [OF p, of "pool_owed x"] bm_sum_ge [OF h, of "session_owed x"] inv_facts(1) [OF inv, of x]
  by (simp add: owed_def)

section \<open>Adding liquidity\<close>

lemma add_begin_plan:
  assumes "add_liquidity_begin s lk caller pid a b min_shares = Ok l"
  shows "\<not> lk" and "\<exists>p. bm_get (as_pools s) pid = Some p \<and> session_ok p (AddPullingA l)"
proof -
  have first: "minimum_liquidity \<le> sh" if "compute_initial_lp_shares a b = Ok sh" for sh
    using that by (auto simp: compute_initial_lp_shares_def and_then_Ok_iff split: if_splits option.splits)
  from assms show "\<not> lk" by (auto simp: add_liquidity_begin_def split: if_splits)
  from assms first show "\<exists>p. bm_get (as_pools s) pid = Some p \<and> session_ok p (AddPullingA l)"
    by (auto simp: add_liquidity_begin_def liquidity_fits_def acct_a_def acct_b_def and_then_Ok_iff split: if_splits option.splits)
qed

lemma inv_add_start:
  assumes inv: "amm_inv n" and b: "add_liquidity_begin (an_state n) (locked n pid) caller pid x y min_shares = Ok l"
  shows "amm_inv (hold pid (AddPullingA l) n)"
proof -
  from add_begin_plan [OF b] obtain p where p: "bm_get (as_pools (an_state n)) pid = Some p"
    and ok: "session_ok p (AddPullingA l)" and free: "bm_get (an_sessions n) pid = None" by auto
  show ?thesis by (rule inv_hold [OF inv p _ ok]) (simp add: free opt_owed_def)
qed

lemma inv_add_pulled_a:
  assumes inv: "amm_inv n" and h: "holds n pid (AddPullingA l)" and room: "an_cover n (lq_acct_a l) + lq_amount_a l \<le> u128_max"
  shows "amm_inv (hold pid (AddPullingB l) (on_ledger (received dup (lq_acct_a l) (lq_amount_a l)) n))"
proof -
  from inv h obtain p where p: "bm_get (as_pools (an_state n)) pid = Some p" and s: "session_ok p (AddPullingA l)" and ok: "pool_ok p"
    by (rule held_pool) simp
  let ?m = "hold pid (AddPullingB l) (on_ledger (received dup (lq_acct_a l) (lq_amount_a l)) n)"
  show ?thesis
  proof (rule inv_session_step [OF inv p, where so = "Some (AddPullingB l)"])
    fix x
    show "an_cover ?m x \<le> u128_max" using room inv_facts(2) [OF inv, of x] by (simp add: hold_def on_acct_def)
    show "opt_owed x (Some (AddPullingB l)) + claims_owed x (as_pending_claims (an_state ?m)) + claims_owed x (an_claiming ?m) + an_cover n x
      \<le> opt_owed x (bm_get (an_sessions n) pid) + claims_owed x (as_pending_claims (an_state n)) + claims_owed x (an_claiming n) + an_cover ?m x"
      by (simp add: hold_def opt_owed_def)
  qed (use s ok in \<open>simp_all add: node_defs\<close>)
qed

lemma first_deposit_sum:
  assumes "bm_sum (\<lambda>v. v) m = 0" and "caller \<noteq> anon"
  shows "bm_sum (\<lambda>v. v) (bm_insert caller u (bm_insert anon v m)) = u + (v :: nat)"
  using bm_sum_id_insert [of caller u "bm_insert anon v m"] bm_sum_id_insert [of anon v m]
    bm_get_or_le_sum [of m caller] bm_get_or_le_sum [of m anon] assms by simp

lemma added_pool_facts:
  assumes ok: "pool_ok p" and who: "caller \<noteq> principal_anonymous" and first: "po_total_lp_shares p = 0 \<longrightarrow> minimum_liquidity \<le> sh"
    and room: "po_total_lp_shares p + sh \<le> u128_max" "po_reserve_a p + a \<le> u128_max" "po_reserve_b p + b \<le> u128_max"
  shows "pool_ok (add_liquidity_to_pool caller a b sh p)"
    and "pool_owed x (add_liquidity_to_pool caller a b sh p) = pool_owed x p + on_acct x (acct_a p) a + on_acct x (acct_b p) b"
proof -
  let ?m = "po_lp_shares p" and ?ex = "bm_get_or 0 (po_lp_shares p) caller"
  have total_eq: "bm_sum (\<lambda>v. v) ?m = po_total_lp_shares p" using ok by (simp add: pool_ok_def)
  have ex: "?ex \<le> po_total_lp_shares p" using bm_get_or_le_sum [of ?m caller] total_eq by simp
  have w: "wrap_add128 (po_reserve_a p) a = po_reserve_a p + a" "wrap_add128 (po_reserve_b p) b = po_reserve_b p + b"
    "wrap_add128 (po_total_lp_shares p) sh = po_total_lp_shares p + sh" "wrap_add128 ?ex sh = ?ex + sh"
    using room ex by simp_all
  have "bm_sum (\<lambda>v. v) (po_lp_shares (add_liquidity_to_pool caller a b sh p)) = po_total_lp_shares p + sh
      \<and> po_total_lp_shares (add_liquidity_to_pool caller a b sh p) = po_total_lp_shares p + sh"
  proof (cases "po_total_lp_shares p = 0")
    case True
    have u: "wrap_add128 ?ex (wrap_sub128 sh minimum_liquidity) = sh - minimum_liquidity"
      using True first ex room by simp
    show ?thesis
      using first_deposit_sum [of ?m caller principal_anonymous "sh - minimum_liquidity" minimum_liquidity] True total_eq who first u
      by (simp add: add_liquidity_to_pool_def Let_def)
  next
    case False
    then show ?thesis using bm_sum_id_insert [of caller "?ex + sh" ?m] total_eq w
      by (simp add: add_liquidity_to_pool_def Let_def)
  qed
  then show "pool_ok (add_liquidity_to_pool caller a b sh p)"
    using ok room(1) who by (auto simp: pool_ok_def add_liquidity_to_pool_def Let_def)
  show "pool_owed x (add_liquidity_to_pool caller a b sh p) = pool_owed x p + on_acct x (acct_a p) a + on_acct x (acct_b p) b"
    using w by (simp add: pool_owed_def acct_a_def acct_b_def add_liquidity_to_pool_def Let_def)
qed

lemma inv_add_pulled_b:
  assumes inv: "amm_inv n" and h: "holds n pid (AddPullingB l)" and room: "an_cover n (lq_acct_b l) + lq_amount_b l \<le> u128_max"
    and p: "bm_get (as_pools (an_state n)) pid = Some p" and lp: "po_total_lp_shares p + lq_shares l \<le> u128_max"
  shows "amm_inv (release pid (run_on (add_liquidity_apply pid l now) (on_ledger (received dup (lq_acct_b l) (lq_amount_b l)) n)))"
proof -
  have s: "session_ok p (AddPullingB l)" and ok: "pool_ok p" using inv h p by (auto elim!: held_pool [where ss = "AddPullingB l"])
  have acct: "lq_acct_a l = acct_a p" "lq_acct_b l = acct_b p" using s by (simp_all add: liquidity_fits_def)
  have "po_reserve_a p + lq_amount_a l \<le> u128_max"
    using inv_owed_both [OF inv p h, of "acct_a p"] inv_facts(2) [OF inv, of "acct_a p"] acct by (simp add: pool_owed_def)
  moreover have "po_reserve_b p + lq_amount_b l \<le> u128_max"
    using inv_facts(4) [OF inv p, of "acct_b p"] room acct by (simp add: pool_owed_def)
  ultimately have facts: "pool_ok (add_liquidity_to_pool (lq_caller l) (lq_amount_a l) (lq_amount_b l) (lq_shares l) p)"
    "\<And>x. pool_owed x (add_liquidity_to_pool (lq_caller l) (lq_amount_a l) (lq_amount_b l) (lq_shares l) p)
       = pool_owed x p + on_acct x (acct_a p) (lq_amount_a l) + on_acct x (acct_b p) (lq_amount_b l)"
    using s by (auto intro!: added_pool_facts [OF ok _ _ lp])
  let ?m = "release pid (run_on (add_liquidity_apply pid l now) (on_ledger (received dup (lq_acct_b l) (lq_amount_b l)) n))"
  let ?p = "add_liquidity_to_pool (lq_caller l) (lq_amount_a l) (lq_amount_b l) (lq_shares l) p"
  show ?thesis
  proof (rule inv_pool_step [OF inv p, where so = None and p' = ?p])
    fix x
    show "an_cover ?m x \<le> u128_max" using room inv_facts(2) [OF inv, of x] by (simp add: release_def on_acct_def)
    show "pool_owed x ?p + opt_owed x None + claims_owed x (as_pending_claims (an_state ?m)) + claims_owed x (an_claiming ?m) + an_cover n x
      \<le> pool_owed x p + opt_owed x (bm_get (an_sessions n) pid) + claims_owed x (as_pending_claims (an_state n))
        + claims_owed x (an_claiming n) + an_cover ?m x"
      using facts(2) [of x] h acct by (simp add: release_def opt_owed_def add_liquidity_apply_def)
  qed (use facts(1) p in \<open>simp_all add: node_defs add_liquidity_apply_def update_pool_pools\<close>)
qed

text \<open>The session that a payment or a claim leaves behind\<close>

lemma inv_paid_held:
  assumes inv: "amm_inv n" and h: "holds n pid ss" and ss: "ss \<noteq> Rewarding"
    and owe: "\<And>x. session_owed x ss = session_owed x ss' + on_acct x acct amt" and ok: "\<And>p. session_ok p ss \<Longrightarrow> session_ok p ss'"
    and pay: "can_send dup q ch acct amt (an_book n)"
  shows "amm_inv (hold pid ss' (on_ledger (sent dup q ch acct amt) n))"
proof -
  from inv h ss obtain p where p: "bm_get (as_pools (an_state n)) pid = Some p" and s: "session_ok p ss" by (rule held_pool)
  have "amm_inv (n\<lparr>an_state := an_state n, an_sessions := put_session pid (Some ss') (an_sessions n), an_book := sent dup q ch acct amt (an_book n)\<rparr>)"
    by (rule inv_pay_out [OF inv h p]) (use owe ok s pay in \<open>simp_all add: opt_owed_def\<close>)
  then show ?thesis by (cases n) (simp add: node_defs)
qed

lemma inv_paid_done:
  assumes inv: "amm_inv n" and h: "holds n pid ss" and ss: "ss \<noteq> Rewarding"
    and st: "as_pools (f (an_state n)) = as_pools (an_state n)" "as_pending_claims (f (an_state n)) = as_pending_claims (an_state n)"
    and owe: "\<And>x. session_owed x ss = on_acct x acct amt" and pay: "can_send dup q ch acct amt (an_book n)"
  shows "amm_inv (release pid (run_on f (on_ledger (sent dup q ch acct amt) n)))"
proof -
  from inv h ss obtain p where p: "bm_get (as_pools (an_state n)) pid = Some p" by (rule held_pool)
  have "amm_inv (n\<lparr>an_state := f (an_state n), an_sessions := put_session pid None (an_sessions n), an_book := sent dup q ch acct amt (an_book n)\<rparr>)"
    by (rule inv_pay_out [OF inv h p]) (use owe st pay in \<open>simp_all add: opt_owed_def\<close>)
  then show ?thesis by (cases n) (simp add: node_defs)
qed

lemma inv_claimed_held:
  assumes inv: "amm_inv n" and h: "holds n pid ss" and ss: "ss \<noteq> Rewarding"
    and owe: "\<And>x. session_owed x ss = session_owed x ss' + on_acct x (token, sub) amt" and ok: "\<And>p. session_ok p ss \<Longrightarrow> session_ok p ss'"
  shows "amm_inv (hold pid ss' (run_on (record_pending_claim pid who token sub amt why now) n))"
proof -
  from inv h ss obtain p where p: "bm_get (as_pools (an_state n)) pid = Some p" and s: "session_ok p ss" by (rule held_pool)
  have "amm_inv (n\<lparr>an_state := record_pending_claim pid who token sub amt why now (an_state n),
      an_sessions := put_session pid (Some ss') (an_sessions n)\<rparr>)"
    by (rule inv_claim_out [OF inv h p]) (use owe ok s in \<open>simp_all add: opt_owed_def\<close>)
  then show ?thesis by (cases n) (simp add: node_defs)
qed

lemma inv_claimed_done:
  assumes inv: "amm_inv n" and h: "holds n pid ss" and ss: "ss \<noteq> Rewarding"
    and owe: "\<And>x. session_owed x ss = on_acct x (token, sub) amt"
  shows "amm_inv (release pid (run_on (record_pending_claim pid who token sub amt why now) n))"
proof -
  from inv h ss obtain p where p: "bm_get (as_pools (an_state n)) pid = Some p" by (rule held_pool)
  have "amm_inv (n\<lparr>an_state := record_pending_claim pid who token sub amt why now (an_state n),
      an_sessions := put_session pid None (an_sessions n)\<rparr>)"
    by (rule inv_claim_out [OF inv h p]) (use owe in \<open>simp_all add: opt_owed_def\<close>)
  then show ?thesis by (cases n) (simp add: node_defs)
qed

section \<open>Removing liquidity\<close>

lemma inv_room:
  assumes inv: "amm_inv n" and p: "bm_get (as_pools (an_state n)) pid = Some p"
  shows "po_reserve_a p + po_protocol_fees_a p \<le> u128_max" and "po_reserve_b p + po_protocol_fees_b p \<le> u128_max"
  using inv_facts(2) [OF inv, of "acct_a p"] inv_facts(4) [OF inv p, of "acct_a p"]
    inv_facts(2) [OF inv, of "acct_b p"] inv_facts(4) [OF inv p, of "acct_b p"]
  by (simp_all add: pool_owed_def)

lemma remove_begin_plan:
  assumes "remove_liquidity_begin s lk caller pid sh = Ok l"
  shows "\<not> lk" and "\<exists>p. bm_get (as_pools s) pid = Some p \<and> session_ok p (RemQuoted l)"
  using assms remove_Ok(5,6)
  by (auto simp: remove_liquidity_begin_def liquidity_fits_def acct_a_def acct_b_def and_then_Ok_iff Let_def
      split: if_splits option.splits)

lemma inv_remove_start:
  assumes inv: "amm_inv n" and b: "remove_liquidity_begin (an_state n) (locked n pid) caller pid sh = Ok l"
  shows "amm_inv (hold pid (RemQuoted l) n)"
proof -
  from remove_begin_plan [OF b] obtain p where p: "bm_get (as_pools (an_state n)) pid = Some p"
    and ok: "session_ok p (RemQuoted l)" and free: "bm_get (an_sessions n) pid = None" by auto
  show ?thesis by (rule inv_hold [OF inv p _ ok]) (simp add: free opt_owed_def)
qed

lemma removed_pool_facts:
  assumes ok: "pool_ok p" and who: "caller \<noteq> principal_anonymous" and le: "sh \<le> bm_get_or 0 (po_lp_shares p) caller" "a \<le> po_reserve_a p" "b \<le> po_reserve_b p"
    and room: "po_reserve_a p \<le> u128_max" "po_reserve_b p \<le> u128_max"
  shows "pool_ok (remove_liquidity_from_pool caller a b sh p)"
    and "pool_owed x (remove_liquidity_from_pool caller a b sh p) + on_acct x (acct_a p) a + on_acct x (acct_b p) b = pool_owed x p"
proof -
  let ?m = "po_lp_shares p" and ?ex = "bm_get_or 0 (po_lp_shares p) caller"
  have total_eq: "bm_sum (\<lambda>v. v) ?m = po_total_lp_shares p" "po_total_lp_shares p \<le> u128_max" using ok by (simp_all add: pool_ok_def)
  have ex: "?ex \<le> po_total_lp_shares p" using bm_get_or_le_sum [of ?m caller] total_eq by simp
  have w: "wrap_sub128 (po_reserve_a p) a = po_reserve_a p - a" "wrap_sub128 (po_reserve_b p) b = po_reserve_b p - b"
    "wrap_sub128 (po_total_lp_shares p) sh = po_total_lp_shares p - sh" "wrap_sub128 ?ex sh = ?ex - sh"
    using room ex le total_eq by simp_all
  have drop: "bm_sum (\<lambda>v. v) (bm_remove caller ?m) + ?ex = po_total_lp_shares p"
    using bm_sum_remove [of "\<lambda>v. v" caller ?m] total_eq by (auto simp: bm_get_or_def split: option.splits)
  have "bm_sum (\<lambda>v. v) (if ?ex - sh = 0 then bm_remove caller ?m else bm_insert caller (?ex - sh) ?m) = po_total_lp_shares p - sh"
    using drop bm_sum_id_insert [of caller "?ex - sh" ?m] total_eq(1) le(1) ex by auto
  then show "pool_ok (remove_liquidity_from_pool caller a b sh p)"
    using ok w who by (auto simp: pool_ok_def remove_liquidity_from_pool_def Let_def)
  show "pool_owed x (remove_liquidity_from_pool caller a b sh p) + on_acct x (acct_a p) a + on_acct x (acct_b p) b = pool_owed x p"
    using w le by (simp add: pool_owed_def acct_a_def acct_b_def on_acct_def remove_liquidity_from_pool_def Let_def)
qed

lemma inv_remove_burned:
  assumes inv: "amm_inv n" and h: "holds n pid (RemQuoted l)"
  shows "amm_inv (hold pid (RemPayingA l) (run_on (remove_liquidity_apply pid l) n))"
proof -
  from inv h obtain p where p: "bm_get (as_pools (an_state n)) pid = Some p" and s: "session_ok p (RemQuoted l)" and ok: "pool_ok p"
    by (rule held_pool) simp
  have room: "po_reserve_a p \<le> u128_max" "po_reserve_b p \<le> u128_max"
    using inv_room [OF inv p] by simp_all
  note facts = removed_pool_facts [OF ok _ _ _ _ room]
  let ?p = "remove_liquidity_from_pool (lq_caller l) (lq_amount_a l) (lq_amount_b l) (lq_shares l) p"
  have sum_eq: "pool_owed x ?p + (on_acct x (lq_acct_a l) (lq_amount_a l) + on_acct x (lq_acct_b l) (lq_amount_b l)) = pool_owed x p" for x
    using facts(2) [of "lq_caller l" "lq_shares l" "lq_amount_a l" "lq_amount_b l" x] s by (simp add: liquidity_fits_def)
  show ?thesis
    by (rule inv_pool_step [OF inv p, where so = "Some (RemPayingA l)" and p' = ?p])
      (use p s h sum_eq facts(1) inv_facts(2) [OF inv] in
        \<open>simp_all add: node_defs opt_owed_def remove_liquidity_apply_def update_pool_pools\<close>)
qed

section \<open>Protocol fees\<close>

lemma inv_fees_start:
  assumes inv: "amm_inv n" and b: "withdraw_fees_begin (an_state n) (locked n pid) caller pid = Ok (s, Some l)"
  shows "amm_inv (hold pid (FeesPayingA l) (n\<lparr>an_state := s\<rparr>))"
proof -
  from b obtain p where p: "bm_get (as_pools (an_state n)) pid = Some p" and free: "bm_get (an_sessions n) pid = None"
    and s: "s = update_pool pid (\<lambda>q. q\<lparr>po_protocol_fees_a := 0, po_protocol_fees_b := 0\<rparr>) (an_state n)"
    and l: "lq_acct_a l = acct_a p" "lq_acct_b l = acct_b p" "lq_amount_a l = po_protocol_fees_a p" "lq_amount_b l = po_protocol_fees_b p"
    by (auto simp: withdraw_fees_begin_def acct_a_def acct_b_def bm_has_def split: if_splits option.splits)
  let ?p = "p\<lparr>po_protocol_fees_a := 0, po_protocol_fees_b := 0\<rparr>"
  have room: "po_protocol_fees_a p \<le> u128_max" "po_protocol_fees_b p \<le> u128_max"
    using inv_room [OF inv p] by simp_all
  have sum_eq: "pool_owed x ?p + (on_acct x (acct_a p) (po_protocol_fees_a p) + on_acct x (acct_b p) (po_protocol_fees_b p)) = pool_owed x p" for x
    by (simp add: pool_owed_def acct_a_def acct_b_def on_acct_def)
  show ?thesis
    by (rule inv_pool_step [OF inv p, where so = "Some (FeesPayingA l)" and p' = ?p])
      (use p free l sum_eq room inv_facts(2) [OF inv] inv_facts(3) [OF inv p] in
        \<open>simp_all add: node_defs opt_owed_def s update_pool_pools pool_ok_def liquidity_fits_def acct_a_def acct_b_def\<close>)
qed

lemma finished_fees_pools:
  assumes p: "bm_get (as_pools s) pid = Some p" and le: "got_a \<le> lq_amount_a l" "got_b \<le> lq_amount_b l"
    and room: "lq_amount_a l \<le> u128_max" "lq_amount_b l \<le> u128_max"
      "po_protocol_fees_a p + (lq_amount_a l - got_a) \<le> u128_max" "po_protocol_fees_b p + (lq_amount_b l - got_b) \<le> u128_max"
  shows "as_pools (withdraw_fees_finish pid l caller got_a got_b failed now s)
      = bm_insert pid (p\<lparr>po_protocol_fees_a := po_protocol_fees_a p + (lq_amount_a l - got_a),
          po_protocol_fees_b := po_protocol_fees_b p + (lq_amount_b l - got_b)\<rparr>) (as_pools s)"
    and "as_pending_claims (withdraw_fees_finish pid l caller got_a got_b failed now s) = as_pending_claims s"
  using assms by (simp_all add: withdraw_fees_finish_def Let_def update_pool_pools bm_insert_same)

lemma inv_fees_b:
  assumes inv: "amm_inv n" and h: "holds n pid (FeesPayingB l got_a)"
  shows "can_send dup q ch (lq_acct_b l) (lq_amount_b l) (an_book n) \<Longrightarrow>
      amm_inv (release pid (run_on (withdraw_fees_finish pid l caller got_a (lq_amount_b l) failed now)
       (on_ledger (sent dup q ch (lq_acct_b l) (lq_amount_b l)) n)))" (is "_ \<Longrightarrow> amm_inv ?m")
    and "amm_inv (release pid (run_on (withdraw_fees_finish pid l caller got_a 0 failed now) n))" (is "amm_inv ?k")
proof -
  from inv h obtain p where p: "bm_get (as_pools (an_state n)) pid = Some p" and s: "session_ok p (FeesPayingB l got_a)" and ok: "pool_ok p"
    by (rule held_pool) simp
  have acct: "lq_acct_a l = acct_a p" "lq_acct_b l = acct_b p" using s by (simp_all add: liquidity_fits_def)
  have room: "po_protocol_fees_a p + (lq_amount_a l - got_a) \<le> u128_max" "po_protocol_fees_b p + lq_amount_b l \<le> u128_max"
    using inv_owed_both [OF inv p h, of "acct_a p"] inv_owed_both [OF inv p h, of "acct_b p"] acct
      inv_facts(2) [OF inv, of "acct_a p"] inv_facts(2) [OF inv, of "acct_b p"] by (simp_all add: pool_owed_def)
  let ?p = "\<lambda>u. p\<lparr>po_protocol_fees_a := po_protocol_fees_a p + (lq_amount_a l - got_a), po_protocol_fees_b := po_protocol_fees_b p + u\<rparr>"
  have owe: "pool_owed x (?p u) = pool_owed x p + on_acct x (acct_a p) (lq_amount_a l - got_a) + on_acct x (acct_b p) u" for x u
    by (simp add: pool_owed_def acct_a_def acct_b_def)
  have ok': "pool_ok (?p u)" for u using ok by (simp add: pool_ok_def)
  have fin: "as_pools (withdraw_fees_finish pid l caller got_a got_b failed now (an_state n))
        = bm_insert pid (?p (lq_amount_b l - got_b)) (as_pools (an_state n))"
      "as_pending_claims (withdraw_fees_finish pid l caller got_a got_b failed now (an_state n)) = as_pending_claims (an_state n)"
    if "got_b \<le> lq_amount_b l" for got_b
    using finished_fees_pools [OF p _ that] s room by simp_all
  show "amm_inv ?m" if pay: "can_send dup q ch (lq_acct_b l) (lq_amount_b l) (an_book n)"
  proof (rule inv_pool_step [OF inv p, where so = None and p' = "?p 0"])
    fix x
    show "an_cover ?m x \<le> u128_max"
      using inv_facts(2) [OF inv, of x] sent_le [OF pay, of x] by (simp add: release_def)
    show "pool_owed x (?p 0) + opt_owed x None + claims_owed x (as_pending_claims (an_state ?m)) + claims_owed x (an_claiming ?m) + an_cover n x
      \<le> pool_owed x p + opt_owed x (bm_get (an_sessions n) pid) + claims_owed x (as_pending_claims (an_state n))
        + claims_owed x (an_claiming n) + an_cover ?m x"
      unfolding owe using fin(2) sent_ge [OF pay, of x] h acct
      by (simp add: release_def opt_owed_def)
  qed (use fin [of "lq_amount_b l"] ok' [of 0] in \<open>simp_all add: node_defs\<close>)
  show "amm_inv ?k"
    by (rule inv_pool_step [OF inv p, where so = None and p' = "?p (lq_amount_b l)"])
      (use fin [of 0] ok' [of "lq_amount_b l"] owe acct h inv_facts(2) [OF inv] in \<open>simp_all add: node_defs opt_owed_def\<close>)
qed

section \<open>Claims\<close>

lemma inv_claims_step:
  assumes inv: "amm_inv n" and st: "as_pools (an_state m) = as_pools (an_state n)" and ss: "an_sessions m = an_sessions n"
    and bal: "\<And>x. an_cover m x \<le> u128_max"
    and delta: "\<And>x. claims_owed x (as_pending_claims (an_state m)) + claims_owed x (an_claiming m) + an_cover n x
        \<le> claims_owed x (as_pending_claims (an_state n)) + claims_owed x (an_claiming n) + an_cover m x"
  shows "amm_inv m"
proof -
  have "owed m x \<le> an_cover m x" for x
    using inv_facts(1) [OF inv, of x] delta [of x] by (simp add: owed_def st ss)
  then have "solvent m" using bal unfolding solvent_def by blast
  then show ?thesis using inv st ss by (simp add: amm_inv_def)
qed

lemma take_claim_owed:
  "take_claim cid cs = Some (c, ds) \<Longrightarrow> claims_owed x cs = on_acct x (pc_token c, pc_subaccount c) (pc_amount c) + claims_owed x ds"
  by (induction cs arbitrary: ds) (auto split: if_splits)

lemma claim_begin_frame:
  assumes "claim_pending_begin s caller cid = (s', r)"
  shows "as_pools s' = as_pools s"
    and "claims_owed x (as_pending_claims s') + (case r of Ok c \<Rightarrow> on_acct x (pc_token c, pc_subaccount c) (pc_amount c) | _ \<Rightarrow> 0)
      = claims_owed x (as_pending_claims s)"
  using assms take_claim_owed [of cid "as_pending_claims s", where x = x]
  by (auto simp: claim_pending_begin_def push_claim_def Let_def split: option.splits if_splits)

lemma filter_claims_owed: "claims_owed x (filter P cs) \<le> claims_owed x cs"
  by (induction cs) auto

lemma inv_claims:
  assumes inv: "amm_inv n"
  shows "claim_pending_begin (an_state n) caller cid = (s, Ok c) \<Longrightarrow> amm_inv (n\<lparr>an_state := s, an_claiming := c # an_claiming n\<rparr>)"
    and "claim_pending_begin (an_state n) caller cid = (s, Err e) \<Longrightarrow> amm_inv (n\<lparr>an_state := s\<rparr>)"
    and "an_claiming n = cs @ c # ds \<Longrightarrow> claim_pending_check (an_state n) c k = (s, Err e)
      \<Longrightarrow> amm_inv (n\<lparr>an_state := s, an_claiming := cs @ ds\<rparr>)"
    and "an_claiming n = cs @ c # ds \<Longrightarrow> claim_pending_reply (an_state n) caller c (Err reason) now = (s, r)
      \<Longrightarrow> amm_inv (n\<lparr>an_state := s, an_claiming := cs @ ds\<rparr>)"
    and "resolve_pending_claim (an_state n) caller cid now = Ok s \<Longrightarrow> amm_inv (n\<lparr>an_state := s\<rparr>)"
  subgoal premises b using claim_begin_frame [OF b] inv_facts(2) [OF inv] by (intro inv_claims_step [OF inv]) auto
  subgoal premises b using claim_begin_frame [OF b] inv_facts(2) [OF inv] by (intro inv_claims_step [OF inv]) auto
  subgoal premises b using b inv_facts(2) [OF inv]
    by (intro inv_claims_step [OF inv]) (auto simp: claim_pending_check_def push_claim_def split: if_splits)
  subgoal premises b using b inv_facts(2) [OF inv]
    by (intro inv_claims_step [OF inv]) (auto simp: claim_pending_reply_def push_claim_def)
  subgoal premises b using b inv_facts(2) [OF inv]
    by (intro inv_claims_step [OF inv]) (auto simp: resolve_pending_claim_def Let_def filter_claims_owed split: if_splits)
  done

lemma inv_claim_paid:
  assumes inv: "amm_inv n" and cl: "an_claiming n = cs @ c # ds" and r: "claim_pending_reply (an_state n) caller c (Ok block) now = (s, r)"
    and pay: "can_send dup q ch (pc_token c, pc_subaccount c) (pc_amount c) (an_book n)"
  shows "amm_inv (n\<lparr>an_state := s, an_claiming := cs @ ds, an_book := sent dup q ch (pc_token c, pc_subaccount c) (pc_amount c) (an_book n)\<rparr>)"
    (is "amm_inv ?m")
proof (rule inv_claims_step [OF inv])
  fix x
  from sent_ge [OF pay, of x] cl r
  show "claims_owed x (as_pending_claims (an_state ?m)) + claims_owed x (an_claiming ?m) + an_cover n x
      \<le> claims_owed x (as_pending_claims (an_state n)) + claims_owed x (an_claiming n) + an_cover ?m x"
    by (auto simp: claim_pending_reply_def)
  show "an_cover ?m x \<le> u128_max" using inv_facts(2) [OF inv, of x] sent_le [OF pay, of x] by simp
qed (use r in \<open>auto simp: claim_pending_reply_def\<close>)

section \<open>Administration and rewards\<close>

definition same_core :: "pool \<Rightarrow> pool \<Rightarrow> bool" where
  "same_core p q \<longleftrightarrow> acct_a q = acct_a p \<and> acct_b q = acct_b p \<and> po_reserve_a q = po_reserve_a p \<and> po_reserve_b q = po_reserve_b p
     \<and> po_protocol_fees_a q = po_protocol_fees_a p \<and> po_protocol_fees_b q = po_protocol_fees_b p
     \<and> po_lp_shares q = po_lp_shares p \<and> po_total_lp_shares q = po_total_lp_shares p
     \<and> (po_protocol_fee_bps p \<le> 10000 \<longrightarrow> po_protocol_fee_bps q \<le> 10000)"

lemma same_core_facts:
  assumes "same_core p q"
  shows "pool_owed x q = pool_owed x p" "session_ok q ss = session_ok p ss" "pool_ok p \<Longrightarrow> pool_ok q"
  using assms
  by (cases ss; auto simp: same_core_def pool_owed_def swap_fits_def liquidity_fits_def reserve_in_def reserve_out_def fees_in_def pool_ok_def)+

lemma put_session_same: "put_session pid (bm_get m pid) m = m"
  by (rule bm_ext) (auto simp: put_session_def split: option.splits)

lemma inv_core_step:
  assumes inv: "amm_inv n" and p: "bm_get (as_pools (an_state n)) pid = Some p" and core: "same_core p q"
    and st: "as_pools (an_state m) = bm_insert pid q (as_pools (an_state n))" "as_pending_claims (an_state m) = as_pending_claims (an_state n)"
    and rest: "an_sessions m = put_session pid so (an_sessions n)" "an_claiming m = an_claiming n" "an_cover m = an_cover n"
    and so: "so = bm_get (an_sessions n) pid \<or> bm_get (an_sessions n) pid \<in> {None, Some Rewarding} \<and> so \<in> {None, Some Rewarding}"
  shows "amm_inv m"
proof (rule inv_pool_step [OF inv p st(1) rest(1)])
  fix x
  have "opt_owed x so = opt_owed x (bm_get (an_sessions n) pid)" using so by (auto simp: opt_owed_def)
  then show "pool_owed x q + opt_owed x so + claims_owed x (as_pending_claims (an_state m)) + claims_owed x (an_claiming m) + an_cover n x
      \<le> pool_owed x p + opt_owed x (bm_get (an_sessions n) pid) + claims_owed x (as_pending_claims (an_state n))
        + claims_owed x (an_claiming n) + an_cover m x"
    using same_core_facts(1) [OF core, of x] st rest by simp
  show "pool_ok q" by (rule same_core_facts(3) [OF core inv_facts(3) [OF inv p]])
  show "ss = Rewarding \<or> session_ok q ss" if "so = Some ss" for ss
  proof (cases "ss = Rewarding")
    case False
    then have "holds n pid ss" using that so by auto
    from held_pool [OF inv this False] p same_core_facts(2) [OF core, of ss] show ?thesis by (metis option.inject)
  qed simp
qed (use rest inv_facts(2) [OF inv] in simp)

lemma inv_update_pool:
  assumes inv: "amm_inv n" and core: "\<And>p. same_core p (f p)"
    and st: "as_pools s = as_pools (update_pool pid f (an_state n))" "as_pending_claims s = as_pending_claims (an_state n)"
  shows "amm_inv (n\<lparr>an_state := s\<rparr>)"
proof (cases "bm_get (as_pools (an_state n)) pid")
  case None
  then have "as_pools s = as_pools (an_state n)" using st by (simp add: update_pool_def bm_modify_def)
  then show ?thesis using inv_facts(2) [OF inv] st(2) by (intro inv_claims_step [OF inv]) simp_all
next
  case (Some p)
  show ?thesis
    by (rule inv_core_step [OF inv Some core, where so = "bm_get (an_sessions n) pid"])
      (use st Some in \<open>simp_all add: update_pool_pools put_session_same\<close>)
qed

lemma inv_admin:
  assumes inv: "amm_inv n"
  shows "set_fee (an_state n) caller pid bps now = Ok s \<Longrightarrow> amm_inv (n\<lparr>an_state := s\<rparr>)"
    and "set_protocol_fee (an_state n) caller pid bps now = Ok s \<Longrightarrow> amm_inv (n\<lparr>an_state := s\<rparr>)"
    and "pause_pool (an_state n) caller pid now = Ok s \<Longrightarrow> amm_inv (n\<lparr>an_state := s\<rparr>)"
    and "unpause_pool (an_state n) caller pid now = Ok s \<Longrightarrow> amm_inv (n\<lparr>an_state := s\<rparr>)"
  by (rule inv_update_pool [OF inv, where pid = pid];
      auto simp: set_fee_def set_protocol_fee_def pause_pool_def unpause_pool_def admin_pool_update_def same_core_def
        acct_a_def acct_b_def split: if_splits)+

lemma inv_settings:
  assumes inv: "amm_inv n"
  shows "set_pool_creation_open (an_state n) caller flag now = Ok s \<Longrightarrow> amm_inv (n\<lparr>an_state := s\<rparr>)"
    and "set_admin (an_state n) caller new_admin = Ok s \<Longrightarrow> amm_inv (n\<lparr>an_state := s\<rparr>)"
    and "set_maintenance_mode (an_state n) caller flag now = Ok s \<Longrightarrow> amm_inv (n\<lparr>an_state := s\<rparr>)"
    and "set_protocol_backend_principal (an_state n) caller backend now = Ok s \<Longrightarrow> amm_inv (n\<lparr>an_state := s\<rparr>)"
  by (rule inv_claims_step [OF inv]; use inv_facts(2) [OF inv] in \<open>auto simp: set_pool_creation_open_def set_admin_def
        set_maintenance_mode_def set_protocol_backend_principal_def split: if_splits\<close>)+

lemma inv_create_pool:
  assumes inv: "amm_inv n" and b: "create_pool to_text sha256 (an_state n) caller ta tb bps curve now = Ok (s, pid)"
  shows "amm_inv (n\<lparr>an_state := s\<rparr>)"
proof -
  from b obtain p where none: "bm_get (as_pools (an_state n)) pid = None"
    and st: "as_pools s = bm_insert pid p (as_pools (an_state n))" "as_pending_claims s = as_pending_claims (an_state n)"
    and new: "pool_ok p" "\<And>x. pool_owed x p = 0"
    by (auto simp: create_pool_def Let_def pool_ok_def pool_owed_def bm_has_def split: if_splits prod.splits)
  have "owed (n\<lparr>an_state := s\<rparr>) x = owed n x" for x using st none new(2) by (simp add: owed_def)
  then have "solvent (n\<lparr>an_state := s\<rparr>)" using inv unfolding amm_inv_def solvent_def by simp
  moreover have "ss = Rewarding \<or> (\<exists>q. bm_get (as_pools s) k = Some q \<and> session_ok q ss)" if "bm_get (an_sessions n) k = Some ss" for k ss
  proof (cases "ss = Rewarding")
    case False
    from inv that False obtain q where "bm_get (as_pools (an_state n)) k = Some q" "session_ok q ss" by (rule held_pool)
    then show ?thesis using none st(1) by auto
  qed simp
  ultimately show ?thesis using inv new(1) st(1) unfolding amm_inv_def by auto
qed

lemma same_core_rewards [simp]:
  "same_core p (p\<lparr>po_lp_rewards := r\<rparr>)" "same_core p (p\<lparr>po_reward_balance_snapshot := b\<rparr>)"
  by (simp_all add: same_core_def acct_a_def acct_b_def)

lemma inv_reward_applied:
  assumes inv: "amm_inv n" and h: "holds n pid Rewarding" and r: "notify_reward_apply (an_state n) pid amt nonce on_chain now = Ok s"
  shows "amm_inv (release pid (n\<lparr>an_state := s\<rparr>))"
proof -
  from r obtain p where p: "bm_get (as_pools (an_state n)) pid = Some p"
    by (auto simp: notify_reward_apply_def split: option.splits)
  obtain q where core: "same_core p q"
    and st: "as_pools s = bm_insert pid q (as_pools (an_state n))" "as_pending_claims s = as_pending_claims (an_state n)"
  proof (cases "nonce \<in> set (po_processed_donation_nonces p)")
    case True
    then show ?thesis using r p that [of p] by (simp add: notify_reward_apply_def same_core_def bm_insert_same)
  next
    case False
    have "same_core p (credit_donation amt nonce on_chain p)"
      by (simp add: credit_donation_def Let_def same_core_def acct_a_def acct_b_def)
    then show ?thesis using r p False that [of "credit_donation amt nonce on_chain p"]
      by (auto simp: notify_reward_apply_def Let_def split: if_splits)
  qed
  show ?thesis
    by (rule inv_core_step [OF inv p core, where so = None]) (use h st in \<open>simp_all add: node_defs\<close>)
qed

lemma inv_reward_claim_begin:
  assumes inv: "amm_inv n" and b: "claim_rewards_begin (an_state n) (locked n pid) caller pid = (s, r)"
  shows "r = Ok amt \<Longrightarrow> amm_inv (hold pid Rewarding (n\<lparr>an_state := s\<rparr>))" and "r = Err e \<Longrightarrow> amm_inv (n\<lparr>an_state := s\<rparr>)"
proof -
  show "amm_inv (hold pid Rewarding (n\<lparr>an_state := s\<rparr>))" if "r = Ok amt"
  proof -
    from b that obtain p rs where p: "bm_get (as_pools (an_state n)) pid = Some p" and free: "bm_get (an_sessions n) pid = None"
      and st: "as_pools s = bm_insert pid (p\<lparr>po_lp_rewards := rs\<rparr>) (as_pools (an_state n))" "as_pending_claims s = as_pending_claims (an_state n)"
      by (auto simp: claim_rewards_begin_def Let_def bm_has_def split: if_splits option.splits)
    show ?thesis
      by (rule inv_core_step [OF inv p, where so = "Some Rewarding" and q = "p\<lparr>po_lp_rewards := rs\<rparr>"])
        (use free st in \<open>simp_all add: node_defs\<close>)
  qed
  show "amm_inv (n\<lparr>an_state := s\<rparr>)" if "r = Err e"
  proof -
    have "s = an_state n \<or> (\<exists>p rs. bm_get (as_pools (an_state n)) pid = Some p
        \<and> s = an_state n\<lparr>as_pools := bm_insert pid (p\<lparr>po_lp_rewards := rs\<rparr>) (as_pools (an_state n))\<rparr>)"
      using b that by (auto simp: claim_rewards_begin_def Let_def split: if_splits option.splits)
    then obtain f where "as_pools s = as_pools (update_pool pid f (an_state n))" "\<And>p. same_core p (f p)"
        "as_pending_claims s = as_pending_claims (an_state n)"
    proof (elim disjE exE conjE, goal_cases)
      case 1
      then show ?case using 1(1) [of "\<lambda>p. p"]
        by (auto simp: update_pool_def bm_modify_def bm_insert_same same_core_def split: option.splits)
    next
      case (2 p rs)
      then show ?case using 2(1) [of "\<lambda>p. p\<lparr>po_lp_rewards := rs\<rparr>"] by (simp add: update_pool_pools)
    qed
    then show ?thesis by (intro inv_update_pool [OF inv])
  qed
qed

lemma inv_drained:
  assumes inv: "amm_inv n" and "amt \<le> an_bal n acct" and "as_pools s = as_pools (an_state n)"
    and "as_pending_claims s = as_pending_claims (an_state n)"
  shows "amm_inv (n\<lparr>an_state := s, an_book := drained acct amt (an_book n), an_burning := bs\<rparr>)"
  using assms(2-) inv_facts(2) [OF inv] by (intro inv_claims_step [OF inv]) (simp_all add: drained_cover)

lemma inv_reward_claim_end:
  assumes inv: "amm_inv n" and h: "holds n pid Rewarding"
  shows "left \<le> an_bal n acct \<Longrightarrow>
      amm_inv (release pid (run_on (claim_rewards_paid pid caller amt after_balance now) (on_ledger (drained acct left) n)))"
    and "amm_inv (release pid (run_on (claim_rewards_failed pid caller amt) n))"
proof -
  show "amm_inv (release pid (run_on (claim_rewards_paid pid caller amt after_balance now) (on_ledger (drained acct left) n)))"
    if "left \<le> an_bal n acct"
  proof (rule inv_release [where ss = Rewarding])
    have "amm_inv (on_ledger (drained acct left) n)"
      using inv_drained [OF inv that, of "an_state n" "an_burning n"] by simp
    then show "amm_inv (run_on (claim_rewards_paid pid caller amt after_balance now) (on_ledger (drained acct left) n))"
      by (rule inv_update_pool) (simp_all add: claim_rewards_paid_def)
  qed (simp_all add: h)
  have "amm_inv (run_on (claim_rewards_failed pid caller amt) n)"
    by (rule inv_update_pool [OF inv]) (simp_all add: claim_rewards_failed_def)
  then show "amm_inv (release pid (run_on (claim_rewards_failed pid caller amt) n))"
    by (rule inv_release [where ss = Rewarding]) (simp_all add: h)
qed

lemma inv_ledger_in:
  assumes inv: "amm_inv n" and room: "an_cover n acct + amt \<le> u128_max"
  shows "amm_inv (on_ledger (received dup acct amt) n)"
  using room inv_facts(2) [OF inv] by (intro inv_claims_step [OF inv]) (simp_all add: on_acct_def)

lemma inv_reward_locked:
  assumes inv: "amm_inv n" and b: "notify_reward_begin (an_state n) (locked n pid) caller pid nonce = Ok dup"
  shows "amm_inv (hold pid Rewarding n)"
proof -
  have "bm_get (an_sessions n) pid = None" using b by (auto simp: notify_reward_begin_def bm_has_def split: if_splits)
  then have "bm_sum (session_owed x) (bm_insert pid Rewarding (an_sessions n)) = bm_sum (session_owed x) (an_sessions n)" for x
    by simp
  then have "solvent (hold pid Rewarding n)" using inv unfolding amm_inv_def solvent_def by (simp add: owed_def hold_def)
  then show ?thesis using inv unfolding amm_inv_def by (simp add: hold_def)
qed

end
