(* ===== verification/Amm_Guarantees.thy ===== *)
theory Amm_Guarantees
  imports Amm_Invariant
begin

text \<open>
  What the market maker guarantees in every reachable state, under every interleaving of calls,
  every pattern of failing transfers and every fee: what it owes on a ledger account is covered by
  the balance and the shortfall that ledgers and administrator caused there, the shares of a pool
  add up and its locked minimum stays, and a swap whose output cannot be sent leaves no trace in the
  pool.
\<close>

section \<open>Every step keeps the invariant\<close>

lemma inv_amm_start: "amm_inv (amm_start admin)"
  by (simp add: amm_inv_def solvent_def owed_def amm_start_def amm_initial_def covered_def)

lemma inv_amm_step:
  assumes inv: "amm_inv n" and step: "amm_step to_text sha256 n m"
  shows "amm_inv m"
  using step
proof cases
  case swap_start then show ?thesis using inv_swap_start [OF inv] by simp
next
  case swap_pulled then show ?thesis using inv_swap_pulled [OF inv] by simp
next
  case swap_pull_failed then show ?thesis using inv_release [OF inv] by simp
next
  case swap_paid then show ?thesis using inv_swap_paid [OF inv] by simp
next
  case swap_pay_failed then show ?thesis using inv_swap_pay_failed [OF inv] by simp
next
  case (swap_refunded pid w)
  then show ?thesis using inv_paid_done [OF inv, where f = "\<lambda>s. s" and ss = "SwapRefunding w"] by simp
next
  case (swap_refund_failed pid w) then show ?thesis
    unfolding swap_refund_failed_def by (auto intro: inv_claimed_done [OF inv, where ss = "SwapRefunding w"])
next
  case add_start then show ?thesis using inv_add_start [OF inv] by simp
next
  case add_pulled_a then show ?thesis using inv_add_pulled_a [OF inv] by simp
next
  case add_pull_a_failed then show ?thesis using inv_release [OF inv] by simp
next
  case add_pulled_b then show ?thesis using inv_add_pulled_b [OF inv] by simp
next
  case (add_pull_b_failed pid l)
  from inv add_pull_b_failed(2) obtain p where "bm_get (as_pools (an_state n)) pid = Some p" by (rule held_pool) simp
  with add_pull_b_failed show ?thesis using inv_hold [OF inv, of pid p "AddRefunding l"] by (simp add: opt_owed_def)
next
  case (add_refunded pid l)
  then show ?thesis using inv_paid_done [OF inv, where f = "\<lambda>s. s" and ss = "AddRefunding l"] by simp
next
  case (add_refund_failed pid l) then show ?thesis
    unfolding add_refund_failed_def by (auto intro: inv_claimed_done [OF inv, where ss = "AddRefunding l"])
next
  case remove_start then show ?thesis using inv_remove_start [OF inv] by simp
next
  case remove_rejected then show ?thesis using inv_release [OF inv] by simp
next
  case remove_burned then show ?thesis using inv_remove_burned [OF inv] by simp
next
  case (remove_paid_a pid l)
  then show ?thesis using inv_paid_held [OF inv, where ss = "RemPayingA l" and ss' = "RemPayingB l False"] by simp
next
  case (remove_a_failed pid l) then show ?thesis
    unfolding remove_a_failed_def by (auto intro!: inv_claimed_held [OF inv, where ss = "RemPayingA l"])
next
  case (remove_paid_b pid l failed dup q f now)
  then show ?thesis
    using inv_paid_done [OF inv, where f = "if failed then (\<lambda>s. s) else remove_liquidity_done pid l now" and ss = "RemPayingB l failed"]
    by (simp add: remove_liquidity_done_def split: if_splits)
next
  case (remove_b_failed pid l failed) then show ?thesis
    unfolding remove_b_failed_def by (auto intro: inv_claimed_done [OF inv, where ss = "RemPayingB l failed"])
next
  case fees_start then show ?thesis using inv_fees_start [OF inv] by simp
next
  case (fees_paid_a pid l)
  then show ?thesis using inv_paid_held [OF inv, where ss = "FeesPayingA l" and ss' = "FeesPayingB l (lq_amount_a l)"] by simp
next
  case (fees_a_failed pid l)
  from inv fees_a_failed(2) obtain p where "bm_get (as_pools (an_state n)) pid = Some p" "session_ok p (FeesPayingA l)"
    by (rule held_pool) simp
  with fees_a_failed show ?thesis using inv_hold [OF inv, of pid p "FeesPayingB l 0"] by (simp add: opt_owed_def)
next
  case fees_paid_b then show ?thesis using inv_fees_b(1) [OF inv] by simp
next
  case fees_b_failed then show ?thesis using inv_fees_b(2) [OF inv] by simp
next
  case claim_start then show ?thesis using inv_claims(1) [OF inv] by simp
next
  case claim_refused then show ?thesis using inv_claims(2) [OF inv] by simp
next
  case claim_too_small then show ?thesis using inv_claims(3) [OF inv] by simp
next
  case claim_paid then show ?thesis using inv_claim_paid [OF inv] by simp
next
  case claim_failed then show ?thesis using inv_claims(4) [OF inv] by simp
next
  case claim_resolved then show ?thesis using inv_claims(5) [OF inv] by simp
next
  case pool_created then show ?thesis using inv_create_pool [OF inv] by simp
next
  case fee_set then show ?thesis using inv_admin(1) [OF inv] by simp
next
  case protocol_fee_set then show ?thesis using inv_admin(2) [OF inv] by simp
next
  case paused then show ?thesis using inv_admin(3) [OF inv] by simp
next
  case unpaused then show ?thesis using inv_admin(4) [OF inv] by simp
next
  case creation_set then show ?thesis using inv_settings(1) [OF inv] by simp
next
  case admin_set then show ?thesis using inv_settings(2) [OF inv] by simp
next
  case maintenance_set then show ?thesis using inv_settings(3) [OF inv] by simp
next
  case backend_set then show ?thesis using inv_settings(4) [OF inv] by simp
next
  case reward_locked then show ?thesis using inv_reward_locked [OF inv] by simp
next
  case reward_applied then show ?thesis using inv_reward_applied [OF inv] by simp
next
  case reward_claim_start then show ?thesis using inv_reward_claim_begin(1) [OF inv] by simp
next
  case reward_claim_refused then show ?thesis using inv_reward_claim_begin(2) [OF inv] by simp
next
  case reward_claim_paid then show ?thesis using inv_reward_claim_end(1) [OF inv] by simp
next
  case reward_claim_failed then show ?thesis using inv_reward_claim_end(2) [OF inv] by simp
next
  case reward_released then show ?thesis using inv_release [OF inv] by simp
next
  case (burn_start caller sub ledger)
  then show ?thesis using inv_facts(2) [OF inv] by (intro inv_claims_step [OF inv]) simp_all
next
  case (burn_refused cs b ds)
  then show ?thesis using inv_facts(2) [OF inv] by (intro inv_claims_step [OF inv]) simp_all
next
  case (burned cs caller acct ds dup amt)
  then show ?thesis
    using inv_facts(2) [OF inv]
    by (intro inv_claims_step [OF inv]) (auto simp: admin_burn_subaccount_done_def drained_cover)
next
  case topped_up then show ?thesis using inv_ledger_in [OF inv] by simp
qed

interpretation amm_node: invariant_system "amm_start admin" "amm_step to_text sha256" amm_inv for admin to_text sha256
  by unfold_locales (fact inv_amm_start, rule inv_amm_step)

section \<open>Solvency and shares\<close>

text \<open>C4. The market maker is solvent up to what ledgers and administrator took from it. In every
  reachable state, whatever fees the canister withholds and the ledgers charge and whichever
  transfers fail or are answered as duplicates, the balance of every account with its shortfall
  covers all that is owed from it: the reserves and protocol fees of the pools, the pending claims,
  the claims being paid and what calls in flight have pulled or have to send. The shortfall is the
  fees charged above those withheld, the pulls answered as duplicates and the tokens burned by the
  administrator or paid as rewards, so an account that has met none of these covers its pool's
  reserves and fees in full.\<close>

theorem amm_solvent:
  assumes "(amm_step to_text sha256)\<^sup>*\<^sup>* (amm_start admin) n"
  shows "owed n x \<le> an_bal n x + an_short n x
    \<and> (bm_get (as_pools (an_state n)) pid = Some p \<longrightarrow>
        (an_short n (po_token_a p, po_subaccount_a p) = 0
           \<longrightarrow> po_reserve_a p + po_protocol_fees_a p \<le> an_bal n (po_token_a p, po_subaccount_a p))
        \<and> (an_short n (po_token_b p, po_subaccount_b p) = 0
           \<longrightarrow> po_reserve_b p + po_protocol_fees_b p \<le> an_bal n (po_token_b p, po_subaccount_b p)))"
proof -
  have inv: "amm_inv n" using amm_node.reachable_inv [OF assms] .
  show ?thesis
    using inv_facts(1) [OF inv, of x] inv_facts(4) [OF inv, of pid p "acct_a p"] inv_facts(4) [OF inv, of pid p "acct_b p"]
    by (auto simp: pool_owed_def acct_a_def acct_b_def on_acct_def covered_def split: if_splits)
qed

text \<open>The shares of a pool always add up to its total, and once a pool has shares the locked minimum
  stays with the anonymous principal, so that no sequence of redemptions empties the pool.\<close>

theorem amm_shares_sum:
  assumes "(amm_step to_text sha256)\<^sup>*\<^sup>* (amm_start admin) n" and "bm_get (as_pools (an_state n)) pid = Some p"
  shows "bm_sum (\<lambda>v. v) (po_lp_shares p) = po_total_lp_shares p
    \<and> (po_total_lp_shares p \<noteq> 0 \<longrightarrow> minimum_liquidity \<le> bm_get_or 0 (po_lp_shares p) principal_anonymous
        \<and> minimum_liquidity \<le> po_total_lp_shares p)"
proof -
  have "pool_ok p" using inv_facts(3) [OF amm_node.reachable_inv [OF assms(1)] assms(2)] .
  then show ?thesis using bm_get_or_le_sum [of "po_lp_shares p" principal_anonymous] by (auto simp: pool_ok_def)
qed

section \<open>A swap that fails leaves no trace\<close>

lemma wrap_sub_add128: "x \<le> u128_max \<Longrightarrow> d \<le> u128_max \<Longrightarrow> wrap_sub128 (wrap_add128 x d) d = x"
proof -
  assume "x \<le> u128_max" "d \<le> u128_max"
  then have le: "x < 2 ^ 128" "d < 2 ^ 128" by (simp_all add: u128_max_def)
  show ?thesis
  proof (cases "x + d < 2 ^ 128")
    case True
    then have "wrap_add128 x d = x + d" by (simp add: wrap_add128_def wrap128_def)
    then show ?thesis using le by (simp add: wrap_sub128_def wrap128_def)
  next
    case False
    then have "(x + d) mod 2 ^ 128 = x + d - 2 ^ 128" using le by (simp add: mod_if)
    then show ?thesis using le False by (simp add: wrap_sub128_def wrap_add128_def wrap128_def)
  qed
qed

text \<open>A swap whose output transfer fails leaves the pools exactly as they were: taking back the input
  and the protocol fee undoes the credit, also where the credit wrapped around.\<close>

theorem swap_rollback_undoes_credit:
  assumes "\<And>p. bm_get (as_pools s) pid = Some p \<Longrightarrow> po_reserve_a p \<le> u128_max \<and> po_reserve_b p \<le> u128_max
      \<and> po_protocol_fees_a p \<le> u128_max \<and> po_protocol_fees_b p \<le> u128_max"
    and "sw_protocol_fee w \<le> sw_amount_in w" and "sw_amount_in w \<le> u128_max"
  shows "swap_rollback pid w (swap_credit pid w s) = s"
proof (cases "bm_get (as_pools s) pid")
  case None
  then show ?thesis by (simp add: swap_rollback_def swap_credit_def update_pool_def bm_modify_def)
next
  case (Some p)
  have d: "wrap_sub128 (sw_amount_in w) (sw_protocol_fee w) \<le> u128_max" "sw_protocol_fee w \<le> u128_max"
    using assms(2,3) by simp_all
  from assms(1) [OF Some] d Some show ?thesis
    by (cases "sw_a_to_b w")
      (simp_all add: swap_rollback_def swap_credit_def update_pool_def bm_modify_def wrap_sub_add128 bm_insert_insert bm_insert_same)
qed

section \<open>A concrete run\<close>

text \<open>An administrator opens a pool, and a depositor pays in both tokens.\<close>

definition demo_text :: "principal \<Rightarrow> string" where "demo_text p = (if p = 1 then ''a'' else ''b'')"
definition demo_sha :: "string \<Rightarrow> subaccount" where "demo_sha s = [if s = ''a_b_token_a'' then 1 else 2]"

abbreviation "demo_step \<equiv> amm_step demo_text demo_sha"

definition demo_pool :: pool where
  "demo_pool = \<lparr>po_token_a = 1, po_token_b = 2, po_reserve_a = 0, po_reserve_b = 0,
     po_fee_bps = 30, po_protocol_fee_bps = 0, po_curve = ConstantProduct, po_lp_shares = bm_empty,
     po_total_lp_shares = 0, po_protocol_fees_a = 0, po_protocol_fees_b = 0, po_paused = False,
     po_subaccount_a = [1], po_subaccount_b = [2],
     po_lp_rewards = bm_empty, po_acc_reward_per_share = 0, po_pending_no_lp = 0,
     po_total_rewards_distributed = 0, po_processed_donation_nonces = [], po_reward_balance_snapshot = 0\<rparr>"

definition demo_opened :: amm_node where
  "demo_opened = amm_start 9\<lparr>an_state := record_admin_event 9 (AaCreatePool ''a_b'' 1 2 30) 0
     (amm_initial 9\<lparr>as_pools := bm_insert ''a_b'' demo_pool bm_empty\<rparr>)\<rparr>"

definition demo_plan :: liquidity_plan where
  "demo_plan = \<lparr>lq_caller = 7, lq_token_a = 1, lq_token_b = 2, lq_sub_a = [1], lq_sub_b = [2],
     lq_amount_a = 10000, lq_amount_b = 40000, lq_shares = 20000\<rparr>"

definition demo_half :: amm_node where
  "demo_half = hold ''a_b'' (AddPullingB demo_plan) (on_ledger (received False (1, [1]) 10000) (hold ''a_b'' (AddPullingA demo_plan) demo_opened))"

definition demo_funded :: amm_node where
  "demo_funded = release ''a_b'' (run_on (add_liquidity_apply ''a_b'' demo_plan 5) (on_ledger (received False (2, [2]) 40000) demo_half))"

lemma demo_opened_reachable: "demo_step\<^sup>*\<^sup>* (amm_start 9) demo_opened"
proof -
  have "create_pool demo_text demo_sha (amm_initial 9) 9 1 2 30 ConstantProduct 0
      = Ok (record_admin_event 9 (AaCreatePool ''a_b'' 1 2 30) 0 (amm_initial 9\<lparr>as_pools := bm_insert ''a_b'' demo_pool bm_empty\<rparr>), ''a_b'')"
    by (simp add: create_pool_def make_pool_id_def derive_subaccount_def demo_text_def demo_sha_def demo_pool_def amm_initial_def Let_def)
  then have "demo_step (amm_start 9) demo_opened"
    unfolding demo_opened_def by (intro pool_created) (simp add: amm_start_def)
  then show ?thesis by (rule r_into_rtranclp)
qed

lemma demo_initial_shares: "compute_initial_lp_shares 10000 40000 = Ok 20000"
proof -
  have "isqrt 400000000 = Some 20000" by (simp add: isqrt_def isqrt_loop.simps u128_max_def)
  then show ?thesis by (simp add: compute_initial_lp_shares_def rust_arith minimum_liquidity_def)
qed

lemma demo_adding: "demo_step\<^sup>*\<^sup>* (amm_start 9) (hold ''a_b'' (AddPullingA demo_plan) demo_opened)"
proof -
  have "add_liquidity_begin (an_state demo_opened) (locked demo_opened ''a_b'') 7 ''a_b'' 10000 40000 0 = Ok demo_plan"
    using demo_initial_shares
    by (simp add: add_liquidity_begin_def demo_opened_def amm_start_def amm_initial_def demo_pool_def demo_plan_def
        principal_anonymous_def record_admin_event_def bm_has_def)
  then have "demo_step demo_opened (hold ''a_b'' (AddPullingA demo_plan) demo_opened)" by (rule add_start)
  then show ?thesis using demo_opened_reachable by (meson rtranclp.rtrancl_into_rtrancl)
qed

lemma demo_pulled: "demo_step\<^sup>*\<^sup>* (amm_start 9)
   (hold ''a_b'' (AddPullingB demo_plan) (on_ledger (received dup (1, [1]) 10000) (hold ''a_b'' (AddPullingA demo_plan) demo_opened)))"
proof (rule rtranclp.rtrancl_into_rtrancl [OF demo_adding])
  let ?n = "hold ''a_b'' (AddPullingA demo_plan) demo_opened"
  have "holds ?n ''a_b'' (AddPullingA demo_plan)" by (simp add: hold_def)
  moreover have "an_cover ?n (lq_acct_a demo_plan) + lq_amount_a demo_plan \<le> u128_max"
    by (simp add: covered_def demo_plan_def hold_def demo_opened_def amm_start_def u128_max_def)
  ultimately have "demo_step ?n (hold ''a_b'' (AddPullingB demo_plan)
      (on_ledger (received dup (lq_acct_a demo_plan) (lq_amount_a demo_plan)) ?n))"
    by (rule add_pulled_a)
  then show "demo_step ?n (hold ''a_b'' (AddPullingB demo_plan) (on_ledger (received dup (1, [1]) 10000) ?n))"
    by (simp add: demo_plan_def del: One_nat_def)
qed

lemma demo_half_reachable: "demo_step\<^sup>*\<^sup>* (amm_start 9) demo_half"
  using demo_pulled by (simp add: demo_half_def del: One_nat_def)

lemma demo_half_pool: "bm_get (as_pools (an_state demo_half)) ''a_b'' = Some demo_pool"
  by (simp add: demo_half_def hold_def demo_opened_def)

lemma demo_funded_reachable: "demo_step\<^sup>*\<^sup>* (amm_start 9) demo_funded"
proof -
  have "demo_step demo_half demo_funded"
    unfolding demo_funded_def
    using add_pulled_b [where n = demo_half and l = demo_plan and pid = "''a_b''" and now = 5 and dup = False, OF _ _ demo_half_pool]
    by (simp add: demo_plan_def demo_half_def hold_def demo_opened_def amm_start_def demo_pool_def received_def covered_def u128_max_def)
  then show ?thesis using demo_half_reachable by (rule rtranclp.rtrancl_into_rtrancl [rotated])
qed

text \<open>The ledger of the first token answers \<^verbatim>\<open>Duplicate\<close>: the deposit goes on, and the account is short.\<close>

definition demo_dup :: amm_node where
  "demo_dup = hold ''a_b'' (AddPullingB demo_plan) (on_ledger (received True (1, [1]) 10000) (hold ''a_b'' (AddPullingA demo_plan) demo_opened))"

lemma demo_dup_reachable: "demo_step\<^sup>*\<^sup>* (amm_start 9) demo_dup"
  using demo_pulled by (simp add: demo_dup_def del: One_nat_def)

theorem amm_solvent_witness:
  "owed demo_half (1, [1]) \<le> an_bal demo_half (1, [1]) + an_short demo_half (1, [1])
    \<and> owed demo_half (1, [1]) = 10000 \<and> an_short demo_half (1, [1]) = 0
    \<and> owed demo_dup (1, [1]) \<le> an_bal demo_dup (1, [1]) + an_short demo_dup (1, [1])
    \<and> owed demo_dup (1, [1]) = 10000 \<and> an_bal demo_dup (1, [1]) = 0"
  using amm_solvent [OF demo_half_reachable, of "(1, [1])"] amm_solvent [OF demo_dup_reachable, of "(1, [1])"]
  by (simp add: owed_def demo_half_def demo_dup_def demo_opened_def demo_plan_def hold_def amm_start_def amm_initial_def
      demo_pool_def pool_owed_def acct_a_def acct_b_def on_acct_def received_def)

theorem amm_shares_sum_witness:
  "\<exists>p. bm_get (as_pools (an_state demo_funded)) ''a_b'' = Some p \<and> po_total_lp_shares p = 20000
     \<and> bm_sum (\<lambda>v. v) (po_lp_shares p) = 20000"
proof -
  let ?p = "add_liquidity_to_pool 7 10000 40000 20000 demo_pool"
  have p: "bm_get (as_pools (an_state demo_funded)) ''a_b'' = Some ?p"
    using demo_half_pool by (simp add: demo_funded_def release_def add_liquidity_apply_def update_pool_def demo_plan_def)
  have "po_total_lp_shares ?p = 20000" by (simp add: add_liquidity_to_pool_def demo_pool_def Let_def)
  with amm_shares_sum [OF demo_funded_reachable p] p show ?thesis by simp
qed

definition demo_swap :: swap_plan where
  "demo_swap = \<lparr>sw_caller = 7, sw_a_to_b = True, sw_ledger_in = 1, sw_sub_in = [1], sw_ledger_out = 2, sw_sub_out = [2],
     sw_amount_in = 1000, sw_amount_out = 1993, sw_total_fee = 3, sw_protocol_fee = 1\<rparr>"

theorem swap_rollback_undoes_credit_witness:
  "swap_rollback ''a_b'' demo_swap (swap_credit ''a_b'' demo_swap (an_state demo_half)) = an_state demo_half"
  using swap_rollback_undoes_credit [of "an_state demo_half" "''a_b''" demo_swap] demo_half_pool
  by (simp add: demo_swap_def demo_pool_def u128_max_def)

end
