(* ===== verification/Icp_State.thy ===== *)
theory Icp_State
  imports Icp_Types
begin

text \<open>
  The queries of the vault book (\<^verbatim>\<open>state.rs\<close>, \<^verbatim>\<open>compute_collateral_ratio\<close> of \<^verbatim>\<open>lib.rs\<close>): collateral
  ratios, thresholds, the dynamic interest rate and its curves, fees, and the mode of the protocol.
  \<open>None\<close> is a panic of the decimal crate or of an \<^verbatim>\<open>expect\<close>.
\<close>

section \<open>Loops and sorting\<close>

fun fold_opt :: "('a \<Rightarrow> 'b \<Rightarrow> 'b option) \<Rightarrow> 'a list \<Rightarrow> 'b \<Rightarrow> 'b option" where
  "fold_opt f [] b = Some b"
| "fold_opt f (x # xs) b = Option.bind (f x b) (fold_opt f xs)"

fun map_opt :: "('a \<Rightarrow> 'b option) \<Rightarrow> 'a list \<Rightarrow> 'b list option" where
  "map_opt f [] = Some []"
| "map_opt f (x # xs) = Option.bind (f x) (\<lambda>y. Option.bind (map_opt f xs) (\<lambda>ys. Some (y # ys)))"

text \<open>The stable sort of \<^verbatim>\<open>sort_by\<close>\<close>

fun insert_by :: "('a \<Rightarrow> 'a \<Rightarrow> bool) \<Rightarrow> 'a \<Rightarrow> 'a list \<Rightarrow> 'a list" where
  "insert_by le x [] = [x]"
| "insert_by le x (y # ys) = (if le x y then x # y # ys else y # insert_by le x ys)"

definition sort_by :: "('a \<Rightarrow> 'a \<Rightarrow> bool) \<Rightarrow> 'a list \<Rightarrow> 'a list" where
  "sort_by le xs = foldr (insert_by le) xs []"

lemma set_insert_by [simp]: "set (insert_by le x xs) = insert x (set xs)"
  by (induction xs) auto

lemma set_sort_by [simp]: "set (sort_by le xs) = set xs"
  by (induction xs) (auto simp: sort_by_def)

lemma length_insert_by [simp]: "length (insert_by le x xs) = Suc (length xs)"
  by (induction xs) auto

lemma length_sort_by [simp]: "length (sort_by le xs) = length xs"
  by (induction xs) (auto simp: sort_by_def)

lemma distinct_insert_by: "distinct (map f (insert_by le x xs)) \<longleftrightarrow> f x \<notin> f ` set xs \<and> distinct (map f xs)"
  by (induction xs) auto

lemma distinct_sort_by [simp]: "distinct (map f (sort_by le xs)) \<longleftrightarrow> distinct (map f xs)"
proof (induction xs)
  case (Cons x xs)
  have "set (foldr (insert_by le) xs []) = set xs" using set_sort_by [of le xs] by (simp add: sort_by_def)
  with Cons show ?case by (simp add: sort_by_def distinct_insert_by)
qed (simp add: sort_by_def)

section \<open>Configuration\<close>

definition resolve_ct :: "('d, 'f) icp_state \<Rightarrow> principal \<Rightarrow> principal" where
  "resolve_ct s ct = (if ct = principal_anonymous then ic_icp_ledger_principal s else ct)"

definition get_collateral_config :: "('d, 'f) icp_state \<Rightarrow> principal \<Rightarrow> ('d, 'f) collateral_config option" where
  "get_collateral_config s ct = bm_get (ic_collateral_configs s) (resolve_ct s ct)"

definition config_or :: "('d, 'f) icp_state \<Rightarrow> principal \<Rightarrow> 'a \<Rightarrow> (('d, 'f) collateral_config \<Rightarrow> 'a) \<Rightarrow> 'a" where
  "config_or s ct d f = (case bm_get (ic_collateral_configs s) ct of None \<Rightarrow> d | Some c \<Rightarrow> f c)"

definition get_liquidation_bonus_for :: "('d, 'f) icp_state \<Rightarrow> principal \<Rightarrow> 'd" where
  "get_liquidation_bonus_for s ct = config_or s ct (ic_liquidation_bonus s) cf_liquidation_bonus"

definition get_liquidation_ratio_for :: "('d, 'f) decimal \<Rightarrow> ('d, 'f) icp_state \<Rightarrow> principal \<Rightarrow> 'd" where
  "get_liquidation_ratio_for D s ct = config_or s ct (minimum_collateral_ratio D) cf_liquidation_ratio"

definition get_min_collateral_ratio_for :: "('d, 'f) decimal \<Rightarrow> ('d, 'f) icp_state \<Rightarrow> principal \<Rightarrow> 'd" where
  "get_min_collateral_ratio_for D s ct = config_or s ct (recovery_collateral_ratio D) cf_borrow_threshold_ratio"

definition get_min_collateral_deposit_for :: "('d, 'f) icp_state \<Rightarrow> principal \<Rightarrow> u64" where
  "get_min_collateral_deposit_for s ct = config_or s ct 0 cf_min_collateral_deposit"

definition get_price_for :: "('d, 'f) icp_state \<Rightarrow> principal \<Rightarrow> 'f option" where
  "get_price_for s ct = Option.bind (get_collateral_config s ct) cf_last_price"

definition get_collateral_price_decimal :: "('d, 'f) decimal \<Rightarrow> ('d, 'f) icp_state \<Rightarrow> principal \<Rightarrow> 'd option" where
  "get_collateral_price_decimal D s ct = Option.bind (get_price_for s ct) (dec_from_f64 D)"

definition get_recovery_target_cr_for :: "('d, 'f) decimal \<Rightarrow> ('d, 'f) icp_state \<Rightarrow> 'd option" where
  "get_recovery_target_cr_for D s = dec_mul D (ic_recovery_mode_threshold s) (ic_recovery_cr_multiplier s)"

definition get_min_liquidation_ratio_for :: "('d, 'f) decimal \<Rightarrow> ('d, 'f) icp_state \<Rightarrow> principal \<Rightarrow> 'd" where
  "get_min_liquidation_ratio_for D s ct =
     (case ic_mode s of RecoveryMode \<Rightarrow> get_min_collateral_ratio_for D s ct | _ \<Rightarrow> get_liquidation_ratio_for D s ct)"

definition get_bot_claim_max_ratio_for :: "('d, 'f) decimal \<Rightarrow> ('d, 'f) icp_state \<Rightarrow> principal \<Rightarrow> 'd option" where
  "get_bot_claim_max_ratio_for D s ct =
     Option.bind (dec_div D (dec_from_u64 D (ic_bot_cr_tolerance_bps s)) (dec_from_u64 D 10000)) (\<lambda>tolerance.
     dec_add D (get_min_liquidation_ratio_for D s ct) tolerance)"

definition get_borrowing_fee_for :: "('d, 'f) icp_state \<Rightarrow> principal \<Rightarrow> 'd" where
  "get_borrowing_fee_for s ct =
     (if ic_mode s = RecoveryMode
      then config_or s ct (ic_fee s) (\<lambda>c. case cf_recovery_borrowing_fee c of Some f \<Rightarrow> f | None \<Rightarrow> cf_borrowing_fee c)
      else config_or s ct (ic_fee s) cf_borrowing_fee)"

definition get_interest_rate_for :: "('d, 'f) decimal \<Rightarrow> ('d, 'f) icp_state \<Rightarrow> principal \<Rightarrow> 'd" where
  "get_interest_rate_for D s ct =
     (if ic_mode s = RecoveryMode
      then config_or s ct (default_interest_rate_apr D)
             (\<lambda>c. case cf_recovery_interest_rate_apr c of Some r \<Rightarrow> r | None \<Rightarrow> cf_interest_rate_apr c)
      else config_or s ct (default_interest_rate_apr D) cf_interest_rate_apr)"

definition get_recovery_cr_for :: "('d, 'f) decimal \<Rightarrow> ('d, 'f) icp_state \<Rightarrow> principal \<Rightarrow> 'd option" where
  "get_recovery_cr_for D s ct = dec_mul D (get_min_collateral_ratio_for D s ct) (ic_recovery_cr_multiplier s)"

definition get_warning_cr_for :: "('d, 'f) decimal \<Rightarrow> ('d, 'f) icp_state \<Rightarrow> principal \<Rightarrow> 'd option" where
  "get_warning_cr_for D s ct =
     (let borrow_threshold = get_min_collateral_ratio_for D s ct in
      Option.bind (dec_mul D borrow_threshold (ic_recovery_cr_multiplier s)) (\<lambda>recovery_cr.
      Option.bind (dec_add D recovery_cr recovery_cr) (\<lambda>twice. ratio_sub D twice borrow_threshold)))"

definition get_healthy_cr_for :: "('d, 'f) decimal \<Rightarrow> ('d, 'f) icp_state \<Rightarrow> principal \<Rightarrow> 'd option" where
  "get_healthy_cr_for D s ct =
     (case config_or s ct None cf_healthy_cr of
        Some h \<Rightarrow> Some h
      | None \<Rightarrow> dec_mul D (get_min_collateral_ratio_for D s ct) (default_healthy_cr_multiplier D))"

definition get_collateral_status :: "('d, 'f) icp_state \<Rightarrow> principal \<Rightarrow> collateral_status option" where
  "get_collateral_status s ct = map_option cf_status (bm_get (ic_collateral_configs s) ct)"

section \<open>Totals\<close>

text \<open>\<^verbatim>\<open>Token::sum\<close> wraps at each addition, which is the exact sum modulo \<open>2\<^sup>64\<close>.\<close>

definition total_borrowed_icusd_amount :: "('d, 'f) icp_state \<Rightarrow> u64" where
  "total_borrowed_icusd_amount s = wrap64 (bm_sum iv_borrowed_icusd_amount (ic_vault_id_to_vaults s))"

definition indexed_vaults :: "('d, 'f) icp_state \<Rightarrow> principal \<Rightarrow> icp_vault list" where
  "indexed_vaults s ct =
     (case bm_get (ic_collateral_to_vault_ids s) ct of
        None \<Rightarrow> []
      | Some ids \<Rightarrow> List.map_filter (bm_get (ic_vault_id_to_vaults s)) (bm_keys ids))"

definition total_debt_for_collateral :: "('d, 'f) icp_state \<Rightarrow> principal \<Rightarrow> u64" where
  "total_debt_for_collateral s ct = wrap64 (sum_list (map iv_borrowed_icusd_amount (indexed_vaults s ct)))"

definition total_collateral_for :: "('d, 'f) icp_state \<Rightarrow> principal \<Rightarrow> u64" where
  "total_collateral_for s ct = wrap64 (sum_list (map iv_collateral_amount (indexed_vaults s ct)))"

definition total_collateral_value_for :: "('d, 'f) decimal \<Rightarrow> ('d, 'f) icp_state \<Rightarrow> principal \<Rightarrow> u64 option" where
  "total_collateral_value_for D s ct =
     (case bm_get (ic_collateral_configs s) ct of
        None \<Rightarrow> Some 0
      | Some c \<Rightarrow>
          (case cf_last_price c of
             None \<Rightarrow> Some 0
           | Some price \<Rightarrow>
               collateral_usd_value D (total_collateral_for s ct)
                 (case dec_from_f64 D price of None \<Rightarrow> dec_zero D | Some d \<Rightarrow> d) (cf_decimals c)))"

definition is_retired_sunset_collateral :: "('d, 'f) icp_state \<Rightarrow> principal \<Rightarrow> bool" where
  "is_retired_sunset_collateral s ct =
     (case bm_get (ic_collateral_configs s) ct of
        None \<Rightarrow> False
      | Some c \<Rightarrow> cf_status c = CsSunset \<and> total_debt_for_collateral s ct = 0 \<and> total_collateral_for s ct = 0
          \<and> \<not> list_ex (\<lambda>v. iv_collateral_type v = ct) (bm_values (ic_vault_id_to_vaults s)))"

definition supported_collateral_types :: "('d, 'f) icp_state \<Rightarrow> (principal \<times> collateral_status) list" where
  "supported_collateral_types s =
     map (\<lambda>(ct, c). (ct, cf_status c))
       (filter (\<lambda>(ct, _). \<not> is_retired_sunset_collateral s ct) (bm_entries (ic_collateral_configs s)))"

section \<open>Collateral ratios\<close>

definition price_or_zero :: "('d, 'f) decimal \<Rightarrow> 'f \<Rightarrow> 'd" where
  "price_or_zero D price = (case dec_from_f64 D price of None \<Rightarrow> dec_zero D | Some d \<Rightarrow> d)"

definition compute_collateral_ratio :: "('d, 'f) decimal \<Rightarrow> ('d, 'f) icp_state \<Rightarrow> icp_vault \<Rightarrow> 'd option" where
  "compute_collateral_ratio D s v =
     (if iv_borrowed_icusd_amount v = 0 then Some (dec_largest D)
      else case get_collateral_config s (iv_collateral_type v) of
        None \<Rightarrow> Some (dec_zero D)
      | Some c \<Rightarrow>
          (case cf_last_price c of
             None \<Rightarrow> Some (dec_zero D)
           | Some price \<Rightarrow>
               Option.bind (collateral_usd_value D (iv_collateral_amount v) (price_or_zero D price) (cf_decimals c))
                 (\<lambda>margin_value. token_div_token D margin_value (iv_borrowed_icusd_amount v))))"

definition vault_usd_value :: "('d, 'f) decimal \<Rightarrow> ('d, 'f) icp_state \<Rightarrow> icp_vault \<Rightarrow> u64 option" where
  "vault_usd_value D s v =
     (case get_collateral_config s (iv_collateral_type v) of
        None \<Rightarrow> Some 0
      | Some c \<Rightarrow>
          (case cf_last_price c of
             None \<Rightarrow> Some 0
           | Some price \<Rightarrow> collateral_usd_value D (iv_collateral_amount v) (price_or_zero D price) (cf_decimals c)))"

definition compute_total_collateral_ratio :: "('d, 'f) decimal \<Rightarrow> ('d, 'f) icp_state \<Rightarrow> 'd option" where
  "compute_total_collateral_ratio D s =
     (let total_debt = total_borrowed_icusd_amount s in
      if total_debt = 0 then Some (dec_largest D)
      else Option.bind
        (fold_opt (\<lambda>v acc. Option.bind (vault_usd_value D s v) (\<lambda>x. Some (token_add acc x)))
           (bm_values (ic_vault_id_to_vaults s)) 0)
        (\<lambda>total_value. token_div_token D total_value total_debt))"

text \<open>The weighted sum that the threshold functions share: each collateral type with debt adds its weight
  times a decimal of its configuration.\<close>

definition weighted_over_configs ::
    "('d, 'f) decimal \<Rightarrow> ('d, 'f) icp_state \<Rightarrow> u64 \<Rightarrow> (('d, 'f) collateral_config \<Rightarrow> 'd option) \<Rightarrow> 'd option" where
  "weighted_over_configs D s total_debt f =
     fold_opt (\<lambda>(ct, c) acc.
         let debt_i = total_debt_for_collateral s ct in
         if debt_i = 0 then Some acc
         else Option.bind (dec_div D (dec_from_u64 D debt_i) (dec_from_u64 D total_debt)) (\<lambda>weight.
              Option.bind (f c) (\<lambda>x.
              Option.bind (dec_mul D weight x) (\<lambda>y. dec_add D acc y))))
       (bm_entries (ic_collateral_configs s)) (dec_zero D)"

definition compute_dynamic_recovery_threshold :: "('d, 'f) decimal \<Rightarrow> ('d, 'f) icp_state \<Rightarrow> 'd option" where
  "compute_dynamic_recovery_threshold D s =
     (let total_debt = total_borrowed_icusd_amount s in
      if total_debt = 0 then Some (recovery_collateral_ratio D)
      else map_option (\<lambda>w. if dec_eq D w (dec_zero D) then recovery_collateral_ratio D else w)
             (weighted_over_configs D s total_debt (\<lambda>c. Some (cf_borrow_threshold_ratio c))))"

definition compute_weighted_liquidation_ratio :: "('d, 'f) decimal \<Rightarrow> ('d, 'f) icp_state \<Rightarrow> 'd option" where
  "compute_weighted_liquidation_ratio D s =
     (let total_debt = total_borrowed_icusd_amount s in
      if total_debt = 0 then Some (minimum_collateral_ratio D)
      else map_option (\<lambda>w. if dec_eq D w (dec_zero D) then minimum_collateral_ratio D else w)
             (weighted_over_configs D s total_debt (\<lambda>c. Some (cf_liquidation_ratio c))))"

definition compute_weighted_cr_averages :: "('d, 'f) decimal \<Rightarrow> ('d, 'f) icp_state \<Rightarrow> ('d \<times> 'd \<times> 'd) option" where
  "compute_weighted_cr_averages D s =
     (let total_debt = total_borrowed_icusd_amount s; threshold = recovery_collateral_ratio D in
      if total_debt = 0 then
        Option.bind (dec_mul D threshold (ic_recovery_cr_multiplier s)) (\<lambda>default_recovery.
        Option.bind (dec_add D default_recovery default_recovery) (\<lambda>twice.
        Option.bind (ratio_sub D twice threshold) (\<lambda>default_warning.
        Option.bind (dec_mul D threshold (default_healthy_cr_multiplier D)) (\<lambda>healthy.
          Some (default_recovery, default_warning, healthy)))))
      else
        let recovery_cr = (\<lambda>c. dec_mul D (cf_borrow_threshold_ratio c) (ic_recovery_cr_multiplier s)) in
        Option.bind (weighted_over_configs D s total_debt recovery_cr) (\<lambda>w_recovery.
        Option.bind (weighted_over_configs D s total_debt (\<lambda>c. Option.bind (recovery_cr c) (\<lambda>r.
            Option.bind (dec_add D r r) (\<lambda>twice. dec_sub D twice (cf_borrow_threshold_ratio c))))) (\<lambda>w_warning.
        Option.bind (weighted_over_configs D s total_debt (\<lambda>c. case cf_healthy_cr c of
            Some h \<Rightarrow> Some h | None \<Rightarrow> dec_mul D (cf_borrow_threshold_ratio c) (default_healthy_cr_multiplier D))) (\<lambda>w_healthy.
          Some (w_recovery, w_warning, w_healthy)))))"

section \<open>Rate curves\<close>

fun interpolate_between :: "('d, 'f) decimal \<Rightarrow> ('d \<times> 'd) list \<Rightarrow> 'd \<Rightarrow> 'd option" where
  "interpolate_between D ((lo_cr, lo_mult) # (hi_cr, hi_mult) # ms) cr =
     (if dec_le D lo_cr cr \<and> dec_le D cr hi_cr then
        Option.bind (dec_sub D hi_cr lo_cr) (\<lambda>range.
        if dec_eq D range (dec_zero D) then Some lo_mult
        else Option.bind (dec_sub D cr lo_cr) (\<lambda>d.
             Option.bind (dec_div D d range) (\<lambda>t.
             Option.bind (dec_sub D hi_mult lo_mult) (\<lambda>span.
             Option.bind (dec_mul D t span) (\<lambda>x. dec_add D lo_mult x)))))
      else interpolate_between D ((hi_cr, hi_mult) # ms) cr)"
| "interpolate_between D _ cr = Some (dec_lit D 10 1)"

definition interpolate_multiplier :: "('d, 'f) decimal \<Rightarrow> ('d \<times> 'd) list \<Rightarrow> 'd \<Rightarrow> 'd option" where
  "interpolate_multiplier D markers cr =
     (if markers = [] then Some (dec_lit D 10 1)
      else if dec_le D cr (fst (hd markers)) then Some (snd (hd markers))
      else if dec_le D (fst (last markers)) cr then Some (snd (last markers))
      else interpolate_between D markers cr)"

definition sort_markers :: "('d, 'f) decimal \<Rightarrow> ('d \<times> 'd) list \<Rightarrow> ('d \<times> 'd) list" where
  "sort_markers D = sort_by (\<lambda>a b. dec_le D (fst a) (fst b))"

definition resolve_layer1_markers :: "('d, 'f) decimal \<Rightarrow> ('d, 'f) icp_state \<Rightarrow> principal \<Rightarrow> ('d \<times> 'd) list option" where
  "resolve_layer1_markers D s ct =
     (case config_or s ct None cf_rate_curve of
        Some curve \<Rightarrow> Some (map (\<lambda>m. (rm_cr_level m, rm_multiplier m)) curve)
      | None \<Rightarrow>
          let liq_ratio = get_liquidation_ratio_for D s ct;
              borrow_threshold = get_min_collateral_ratio_for D s ct in
          Option.bind (get_healthy_cr_for D s ct) (\<lambda>healthy_cr.
          Option.bind (dec_add D borrow_threshold healthy_cr) (\<lambda>sum_cr.
          Option.bind (dec_div D sum_cr (dec_lit D 2 0)) (\<lambda>warning_cr.
          let cr_levels = [liq_ratio, borrow_threshold, warning_cr, healthy_cr];
              ms = ic_global_rate_curve s
          in Some (sort_markers D (map (\<lambda>(i, m). (if i < length cr_levels then cr_levels ! i else rm_cr_level m, rm_multiplier m))
                     (zip [0..<length ms] ms)))))))"

fun resolve_system_threshold :: "('d, 'f) decimal \<Rightarrow> ('d, 'f) icp_state \<Rightarrow> system_threshold \<Rightarrow> 'd option" where
  "resolve_system_threshold D s StLiquidationRatio = compute_weighted_liquidation_ratio D s"
| "resolve_system_threshold D s StBorrowThreshold = Some (ic_recovery_mode_threshold s)"
| "resolve_system_threshold D s StWarningCr = Some (ic_weighted_avg_warning_cr s)"
| "resolve_system_threshold D s StHealthyCr = Some (ic_weighted_avg_healthy_cr s)"
| "resolve_system_threshold D s StTotalCollateralRatio = Some (ic_total_collateral_ratio s)"

definition resolve_layer2_markers :: "('d, 'f) decimal \<Rightarrow> ('d, 'f) icp_state \<Rightarrow> ('d \<times> 'd) list option" where
  "resolve_layer2_markers D s =
     map_option (sort_markers D)
       (map_opt (\<lambda>m. map_option (\<lambda>cr. (cr, rrm_multiplier m)) (resolve_system_threshold D s (rrm_threshold m)))
          (ic_recovery_rate_curve s))"

fun resolve_asset_threshold :: "('d, 'f) decimal \<Rightarrow> ('d, 'f) icp_state \<Rightarrow> principal \<Rightarrow> asset_threshold \<Rightarrow> 'd option" where
  "resolve_asset_threshold D s ct AtLiquidationRatio = Some (get_liquidation_ratio_for D s ct)"
| "resolve_asset_threshold D s ct AtBorrowThreshold = Some (get_min_collateral_ratio_for D s ct)"
| "resolve_asset_threshold D s ct AtWarningCr = get_warning_cr_for D s ct"
| "resolve_asset_threshold D s ct AtHealthyCr = get_healthy_cr_for D s ct"

fun resolve_anchor :: "('d, 'f) decimal \<Rightarrow> ('d, 'f) icp_state \<Rightarrow> principal option \<Rightarrow> 'd cr_anchor \<Rightarrow> 'd option" where
  "resolve_anchor D s ctx (Fixed r) = Some r"
| "resolve_anchor D s ctx (AssetThreshold t) = Option.bind ctx (\<lambda>ct. resolve_asset_threshold D s ct t)"
| "resolve_anchor D s ctx (SystemThreshold t) = resolve_system_threshold D s t"
| "resolve_anchor D s ctx (Midpoint a b) =
     Option.bind (resolve_anchor D s ctx a) (\<lambda>va.
     Option.bind (resolve_anchor D s ctx b) (\<lambda>vb.
     case dec_add D va vb of
       Some both \<Rightarrow> dec_div D both (dec_lit D 2 0)
     | None \<Rightarrow> Some (if dec_le D va vb then vb else va)))"
| "resolve_anchor D s ctx (Offset base delta) =
     map_option (\<lambda>v. case dec_add D v delta of Some moved \<Rightarrow> moved | None \<Rightarrow> dec_largest D) (resolve_anchor D s ctx base)"

definition resolve_curve :: "('d, 'f) decimal \<Rightarrow> ('d, 'f) icp_state \<Rightarrow> 'd rate_marker_v2 list \<Rightarrow> principal option \<Rightarrow> ('d \<times> 'd) list option" where
  "resolve_curve D s curve ctx =
     map_option (sort_markers D)
       (map_opt (\<lambda>m. map_option (\<lambda>cr. (cr, rm2_multiplier m)) (resolve_anchor D s ctx (rm2_cr_anchor m))) curve)"

text \<open>\<^verbatim>\<open>max_by\<close> returns the last of equal maxima.\<close>

definition max_multiplier :: "('d, 'f) decimal \<Rightarrow> ('d \<times> 'd) list \<Rightarrow> 'd" where
  "max_multiplier D ms = foldl (\<lambda>m (_, x). if dec_le D m x then x else m) (snd (hd ms)) (tl ms)"

definition get_borrowing_fee_multiplier :: "('d, 'f) decimal \<Rightarrow> ('d, 'f) icp_state \<Rightarrow> 'd \<Rightarrow> 'd option" where
  "get_borrowing_fee_multiplier D s projected_vault_cr =
     (case ic_borrowing_fee_curve s of
        None \<Rightarrow> Some (dec_lit D 10 1)
      | Some curve \<Rightarrow>
          Option.bind (resolve_curve D s curve None) (\<lambda>resolved.
          if length resolved \<ge> 2 \<and> dec_less D (snd (hd resolved)) (snd (last resolved))
          then Some (max_multiplier D resolved)
          else interpolate_multiplier D resolved projected_vault_cr))"

definition get_dynamic_interest_rate_for :: "('d, 'f) decimal \<Rightarrow> ('d, 'f) icp_state \<Rightarrow> principal \<Rightarrow> 'd \<Rightarrow> 'd option" where
  "get_dynamic_interest_rate_for D s ct vault_cr =
     (case (if ic_mode s = RecoveryMode then config_or s ct None cf_recovery_interest_rate_apr else None) of
        Some static_rate \<Rightarrow> Some static_rate
      | None \<Rightarrow>
          let base_rate = config_or s ct (default_interest_rate_apr D) cf_interest_rate_apr in
          Option.bind (resolve_layer1_markers D s ct) (\<lambda>layer1.
          Option.bind (interpolate_multiplier D layer1 vault_cr) (\<lambda>mult1.
          Option.bind (dec_mul D base_rate mult1) (\<lambda>rate1.
          if ic_mode s = RecoveryMode then
            Option.bind (resolve_layer2_markers D s) (\<lambda>layer2.
            Option.bind (interpolate_multiplier D layer2 (ic_total_collateral_ratio s)) (\<lambda>mult2. dec_mul D rate1 mult2))
          else Some rate1))))"

section \<open>Redemption terms\<close>

definition get_redemption_margin_ratio :: "('d, 'f) decimal \<Rightarrow> ('d, 'f) icp_state \<Rightarrow> 'd option" where
  "get_redemption_margin_ratio D s =
     (let tcr = ic_total_collateral_ratio s in
      if dec_le D tcr (ic_rmr_ceiling_cr s) then Some (ic_rmr_ceiling s)
      else if dec_le D (ic_rmr_floor_cr s) tcr then Some (ic_rmr_floor s)
      else
        Option.bind (ratio_sub D (ic_rmr_floor_cr s) (ic_rmr_ceiling_cr s)) (\<lambda>range.
        Option.bind (ratio_sub D tcr (ic_rmr_ceiling_cr s)) (\<lambda>position.
        Option.bind (ratio_sub D (ic_rmr_ceiling s) (ic_rmr_floor s)) (\<lambda>spread.
        Option.bind (dec_div D position range) (\<lambda>x.
        Option.bind (dec_mul D x spread) (\<lambda>discount. ratio_sub D (ic_rmr_ceiling s) discount))))))"

fun ratio_pow :: "('d, 'f) decimal \<Rightarrow> 'd \<Rightarrow> u64 \<Rightarrow> 'd option" where
  "ratio_pow D r 0 = Some (dec_one D)"
| "ratio_pow D r (Suc n) = Option.bind (ratio_pow D r n) (\<lambda>x. dec_mul D x r)"

definition compute_redemption_fee :: "('d, 'f) decimal \<Rightarrow> u64 \<Rightarrow> u64 \<Rightarrow> u64 \<Rightarrow> 'd \<Rightarrow> 'd \<Rightarrow> 'd \<Rightarrow> 'd option" where
  "compute_redemption_fee D elapsed_hours redeemed_amount total_borrowed current_base_rate fee_floor fee_ceiling =
     (if total_borrowed = 0 then Some (dec_zero D)
      else
        Option.bind (ratio_pow D (dec_lit D 94 2) elapsed_hours) (\<lambda>decay.
        Option.bind (dec_mul D current_base_rate decay) (\<lambda>rate.
        Option.bind (token_div_token D redeemed_amount total_borrowed) (\<lambda>part.
        Option.bind (dec_mul D part (dec_lit D 5 1)) (\<lambda>half.
        Option.bind (dec_add D rate half) (\<lambda>total_rate.
          let floored = (if dec_le D total_rate fee_floor then fee_floor else total_rate)
          in Some (if dec_le D floored fee_ceiling then floored else fee_ceiling)))))))"

section \<open>Mode\<close>

definition update_total_collateral_ratio_and_mode :: "('d, 'f) decimal \<Rightarrow> ('d, 'f) icp_state \<Rightarrow> ('d, 'f) icp_state option" where
  "update_total_collateral_ratio_and_mode D s =
     Option.bind (compute_total_collateral_ratio D s) (\<lambda>tcr.
     let s1 = s\<lparr>ic_total_collateral_ratio := tcr\<rparr> in
     Option.bind (compute_dynamic_recovery_threshold D s1) (\<lambda>threshold.
     let s2 = s1\<lparr>ic_recovery_mode_threshold := threshold\<rparr> in
     Option.bind (compute_weighted_cr_averages D s2) (\<lambda>(w_recovery, w_warning, w_healthy).
     let s3 = s2\<lparr>ic_weighted_avg_recovery_cr := w_recovery, ic_weighted_avg_warning_cr := w_warning,
                 ic_weighted_avg_healthy_cr := w_healthy\<rparr>;
         under = dec_less D tcr (dec_lit D 10 1)
     in Some (if ic_frozen s3 then s3
        else if ic_manual_mode_override s3 then (if under then s3\<lparr>ic_mode := ReadOnly\<rparr> else s3)
        else if ic_mode_triggered_by_oracle s3 then (if under then s3\<lparr>ic_mode := ReadOnly\<rparr> else s3)
        else if under then s3\<lparr>ic_mode := ReadOnly\<rparr>
        else if dec_less D tcr threshold then s3\<lparr>ic_mode := RecoveryMode\<rparr>
        else s3\<lparr>ic_mode := GeneralAvailability\<rparr>))))"

end
