(* ===== verification/Icp_Vaults.thy ===== *)
theory Icp_Vaults
  imports Icp_State
begin

text \<open>
  The operations of the vault book (\<^verbatim>\<open>impl State\<close> of \<^verbatim>\<open>state.rs\<close>): vaults with their three secondary
  indexes, interest, liquidation and redistribution, the deficit account, the liquidation breaker and
  the cadence of the health scan. Redemption has its own theory. \<open>None\<close> is a trap or a panic.
\<close>

section \<open>Indexes\<close>

text \<open>\<^verbatim>\<open>entry(k).or_insert_with(BTreeSet::new).insert(v)\<close>, and removal that drops an emptied set\<close>

definition idx_add :: "'k::linorder \<Rightarrow> u64 \<Rightarrow> 'k vault_index \<Rightarrow> 'k vault_index" where
  "idx_add k v m = bm_insert k (bs_insert v (bm_get_or bs_empty m k)) m"

definition idx_del :: "'k::linorder \<Rightarrow> u64 \<Rightarrow> 'k vault_index \<Rightarrow> 'k vault_index" where
  "idx_del k v m =
     (case bm_get m k of
        None \<Rightarrow> m
      | Some ids \<Rightarrow> (let left = bs_remove v ids in if bm_entries left = [] then bm_remove k m else bm_insert k left m))"

type_synonym ('d, 'f) ics = "('d, 'f) icp_state"

definition index_vault_by_collateral :: "principal \<Rightarrow> u64 \<Rightarrow> ('d, 'f) ics \<Rightarrow> ('d, 'f) ics" where
  "index_vault_by_collateral ct vid s = s\<lparr>ic_collateral_to_vault_ids := idx_add ct vid (ic_collateral_to_vault_ids s)\<rparr>"

definition unindex_vault_by_collateral :: "principal \<Rightarrow> u64 \<Rightarrow> ('d, 'f) ics \<Rightarrow> ('d, 'f) ics" where
  "unindex_vault_by_collateral ct vid s = s\<lparr>ic_collateral_to_vault_ids := idx_del ct vid (ic_collateral_to_vault_ids s)\<rparr>"

definition cr_index_key :: "('d, 'f) decimal \<Rightarrow> 'd \<Rightarrow> u64" where
  "cr_index_key D cr =
     (case dec_mul D cr (dec_from_u64 D 10000) of
        None \<Rightarrow> u64_max
      | Some scaled \<Rightarrow> (case dec_to_u64 D scaled of None \<Rightarrow> u64_max | Some n \<Rightarrow> n))"

definition unindex_vault_cr :: "u64 \<Rightarrow> ('d, 'f) ics \<Rightarrow> ('d, 'f) ics" where
  "unindex_vault_cr vid s =
     (case find (\<lambda>(k, bucket). bs_mem vid bucket) (bm_entries (ic_vault_cr_index s)) of
        None \<Rightarrow> s
      | Some (k, _) \<Rightarrow> s\<lparr>ic_vault_cr_index := idx_del k vid (ic_vault_cr_index s)\<rparr>)"

definition reindex_vault_cr :: "('d, 'f) decimal \<Rightarrow> u64 \<Rightarrow> ('d, 'f) ics \<Rightarrow> ('d, 'f) ics option" where
  "reindex_vault_cr D vid s =
     (let s1 = unindex_vault_cr vid s in
      case bm_get (ic_vault_id_to_vaults s1) vid of
        None \<Rightarrow> Some s1
      | Some v \<Rightarrow>
          map_option (\<lambda>cr. s1\<lparr>ic_vault_cr_index := idx_add (cr_index_key D cr) vid (ic_vault_cr_index s1)\<rparr>)
            (compute_collateral_ratio D s1 v))"

definition remove_vault_and_unindex :: "u64 \<Rightarrow> ('d, 'f) ics \<Rightarrow> ('d, 'f) ics \<times> icp_vault option" where
  "remove_vault_and_unindex vid s =
     (case bm_get (ic_vault_id_to_vaults s) vid of
        None \<Rightarrow> (s, None)
      | Some v \<Rightarrow>
          (unindex_vault_cr vid
             (unindex_vault_by_collateral (iv_collateral_type v) vid
                (s\<lparr>ic_vault_id_to_vaults := bm_remove vid (ic_vault_id_to_vaults s),
                   ic_principal_to_vault_ids := idx_del (iv_owner v) vid (ic_principal_to_vault_ids s)\<rparr>)),
           Some v))"

definition cleanup_if_drained :: "('d, 'f) decimal \<Rightarrow> u64 \<Rightarrow> ('d, 'f) ics \<Rightarrow> (('d, 'f) ics \<times> bool) option" where
  "cleanup_if_drained D vid s =
     (let drained = (case bm_get (ic_vault_id_to_vaults s) vid of
                       None \<Rightarrow> False | Some v \<Rightarrow> iv_borrowed_icusd_amount v = 0 \<and> iv_collateral_amount v = 0)
      in if drained then Some (fst (remove_vault_and_unindex vid s), True)
         else map_option (\<lambda>s'. (s', False)) (reindex_vault_cr D vid s))"

definition fresh_collateral_index :: "(u64, icp_vault) bmap \<Rightarrow> principal vault_index" where
  "fresh_collateral_index vaults = foldl (\<lambda>m (vid, v). idx_add (iv_collateral_type v) vid m) bm_empty (bm_entries vaults)"

definition index_pairs :: "'k::linorder vault_index \<Rightarrow> ('k \<times> u64) list" where
  "index_pairs m = concat (map (\<lambda>(k, ids). map (Pair k) (bm_keys ids)) (bm_entries m))"

definition in_index :: "'k::linorder vault_index \<Rightarrow> 'k \<Rightarrow> u64 \<Rightarrow> bool" where
  "in_index m k v = (case bm_get m k of None \<Rightarrow> False | Some ids \<Rightarrow> bs_mem v ids)"

definition rebuild_collateral_index :: "('d, 'f) ics \<Rightarrow> ('d, 'f) ics \<times> usize \<times> usize" where
  "rebuild_collateral_index s =
     (let fresh = fresh_collateral_index (ic_vault_id_to_vaults s); old = ic_collateral_to_vault_ids s;
          stale_removed = length (filter (\<lambda>(ct, vid). \<not> in_index fresh ct vid) (index_pairs old));
          missing_added = length (filter (\<lambda>(ct, vid). \<not> in_index old ct vid) (index_pairs fresh))
      in (s\<lparr>ic_collateral_to_vault_ids := fresh\<rparr>, stale_removed, missing_added))"

definition prune_empty_principal_entries :: "('d, 'f) ics \<Rightarrow> ('d, 'f) ics \<times> usize" where
  "prune_empty_principal_entries s =
     (let m = ic_principal_to_vault_ids s; kept = bm_retain (\<lambda>_ ids. bm_entries ids \<noteq> []) m
      in (s\<lparr>ic_principal_to_vault_ids := kept\<rparr>, length (bm_entries m) - length (bm_entries kept)))"

section \<open>Vault operations\<close>

definition increment_vault_id :: "('d, 'f) ics \<Rightarrow> (('d, 'f) ics \<times> u64) option" where
  "increment_vault_id s =
     (let vid = ic_next_available_vault_id s in
      if bm_has (ic_vault_id_to_vaults s) vid then None
      else Some (s\<lparr>ic_next_available_vault_id := wrap64 (vid + 1)\<rparr>, vid))"

definition put_vault :: "icp_vault \<Rightarrow> ('d, 'f) ics \<Rightarrow> ('d, 'f) ics" where
  "put_vault v s = s\<lparr>ic_vault_id_to_vaults := bm_insert (iv_vault_id v) v (ic_vault_id_to_vaults s)\<rparr>"

definition open_vault :: "('d, 'f) decimal \<Rightarrow> icp_vault \<Rightarrow> ('d, 'f) ics \<Rightarrow> ('d, 'f) ics option" where
  "open_vault D v s =
     (let vid = iv_vault_id v; ct = iv_collateral_type v;
          s1 = (case bm_get (ic_vault_id_to_vaults s) vid of
                  None \<Rightarrow> s
                | Some old \<Rightarrow>
                    let t = (if iv_owner old \<noteq> iv_owner v
                             then s\<lparr>ic_principal_to_vault_ids := idx_del (iv_owner old) vid (ic_principal_to_vault_ids s)\<rparr> else s)
                    in if iv_collateral_type old \<noteq> ct then unindex_vault_by_collateral (iv_collateral_type old) vid t else t);
          s2 = put_vault v s1;
          s3 = s2\<lparr>ic_principal_to_vault_ids := idx_add (iv_owner v) vid (ic_principal_to_vault_ids s2)\<rparr>
      in reindex_vault_cr D vid (index_vault_by_collateral ct vid s3))"

definition close_vault :: "u64 \<Rightarrow> ('d, 'f) ics \<Rightarrow> ('d, 'f) ics option" where
  "close_vault vid s = (case remove_vault_and_unindex vid s of (s', Some _) \<Rightarrow> Some s' | (_, None) \<Rightarrow> None)"

text \<open>\<^verbatim>\<open>get_mut\<close> on the vault, a trap when it is unknown, and the new key in the ratio index\<close>

definition rekeyed :: "('d, 'f) decimal \<Rightarrow> u64 \<Rightarrow> (icp_vault \<Rightarrow> icp_vault) \<Rightarrow> ('d, 'f) ics \<Rightarrow> ('d, 'f) ics option" where
  "rekeyed D vid f s =
     (if bm_has (ic_vault_id_to_vaults s) vid
      then reindex_vault_cr D vid (s\<lparr>ic_vault_id_to_vaults := bm_modify vid f (ic_vault_id_to_vaults s)\<rparr>) else None)"

definition borrow_from_vault :: "('d, 'f) decimal \<Rightarrow> u64 \<Rightarrow> u64 \<Rightarrow> ('d, 'f) ics \<Rightarrow> ('d, 'f) ics option" where
  "borrow_from_vault D vid amount =
     rekeyed D vid (\<lambda>v. v\<lparr>iv_borrowed_icusd_amount := token_add (iv_borrowed_icusd_amount v) amount\<rparr>)"

definition add_margin_to_vault :: "('d, 'f) decimal \<Rightarrow> u64 \<Rightarrow> u64 \<Rightarrow> ('d, 'f) ics \<Rightarrow> ('d, 'f) ics option" where
  "add_margin_to_vault D vid amount =
     rekeyed D vid (\<lambda>v. v\<lparr>iv_collateral_amount := wrap64 (iv_collateral_amount v + amount)\<rparr>)"

definition remove_margin_from_vault :: "('d, 'f) decimal \<Rightarrow> u64 \<Rightarrow> u64 \<Rightarrow> ('d, 'f) ics \<Rightarrow> ('d, 'f) ics option" where
  "remove_margin_from_vault D vid amount =
     rekeyed D vid (\<lambda>v. v\<lparr>iv_collateral_amount := sat_sub (iv_collateral_amount v) amount\<rparr>)"

text \<open>The interest part of a repayment: proportional, truncated, at most the accrued interest\<close>

definition interest_part :: "('d, 'f) decimal \<Rightarrow> u64 \<Rightarrow> icp_vault \<Rightarrow> u64 option" where
  "interest_part D amount v =
     (if iv_accrued_interest v > 0 \<and> iv_borrowed_icusd_amount v > 0 then
        Option.bind (dec_mul D (dec_from_u64 D amount) (dec_from_u64 D (iv_accrued_interest v))) (\<lambda>x.
        Option.bind (dec_div D x (dec_from_u64 D (iv_borrowed_icusd_amount v))) (\<lambda>y.
          Some (min (case dec_to_u64 D y of None \<Rightarrow> 0 | Some n \<Rightarrow> n) (iv_accrued_interest v))))
      else Some 0)"

definition repay_to_vault :: "('d, 'f) decimal \<Rightarrow> u64 \<Rightarrow> u64 \<Rightarrow> ('d, 'f) ics \<Rightarrow> (('d, 'f) ics \<times> u64 \<times> u64) option" where
  "repay_to_vault D vid amount s =
     Option.bind (bm_get (ic_vault_id_to_vaults s) vid) (\<lambda>v.
     let repayed = min amount (iv_borrowed_icusd_amount v) in
     Option.bind (interest_part D repayed v) (\<lambda>part.
     let interest_share = min part repayed;
         principal_share = sat_sub repayed interest_share in
     map_option (\<lambda>s'. (s', interest_share, principal_share))
       (rekeyed D vid (\<lambda>v. v\<lparr>iv_borrowed_icusd_amount := sat_sub (iv_borrowed_icusd_amount v) repayed,
                            iv_accrued_interest := sat_sub (iv_accrued_interest v) interest_share\<rparr>) s)))"

section \<open>The liquidity pool\<close>

definition provide_liquidity :: "u64 \<Rightarrow> principal \<Rightarrow> ('d, 'f) ics \<Rightarrow> ('d, 'f) ics" where
  "provide_liquidity amount caller s =
     (if amount = 0 then s
      else s\<lparr>ic_liquidity_pool := (case bm_get (ic_liquidity_pool s) caller of
               None \<Rightarrow> bm_insert caller amount (ic_liquidity_pool s)
             | Some held \<Rightarrow> bm_insert caller (token_add held amount) (ic_liquidity_pool s))\<rparr>)"

text \<open>An occupied entry is debited and dropped at zero; an amount above it, or an unknown principal, panics.\<close>

definition debit_entry :: "u64 \<Rightarrow> principal \<Rightarrow> (principal, u64) bmap \<Rightarrow> (principal, u64) bmap option" where
  "debit_entry amount caller m =
     (case bm_get m caller of
        None \<Rightarrow> None
      | Some held \<Rightarrow>
          if held < amount then None
          else if held - amount = 0 then Some (bm_remove caller m) else Some (bm_insert caller (held - amount) m))"

definition withdraw_liquidity :: "u64 \<Rightarrow> principal \<Rightarrow> ('d, 'f) ics \<Rightarrow> ('d, 'f) ics option" where
  "withdraw_liquidity amount caller s =
     map_option (\<lambda>m. s\<lparr>ic_liquidity_pool := m\<rparr>) (debit_entry amount caller (ic_liquidity_pool s))"

definition claim_liquidity_returns :: "u64 \<Rightarrow> principal \<Rightarrow> ('d, 'f) ics \<Rightarrow> ('d, 'f) ics option" where
  "claim_liquidity_returns amount caller s =
     map_option (\<lambda>m. s\<lparr>ic_liquidity_returns := m\<rparr>) (debit_entry amount caller (ic_liquidity_returns s))"

definition get_liquidity_returns_of :: "('d, 'f) ics \<Rightarrow> principal \<Rightarrow> u64" where
  "get_liquidity_returns_of s caller = bm_get_or 0 (ic_liquidity_returns s) caller"

definition total_provided_liquidity_amount :: "('d, 'f) ics \<Rightarrow> u64" where
  "total_provided_liquidity_amount s = wrap64 (sum_list (bm_values (ic_liquidity_pool s)))"

definition total_available_returns :: "('d, 'f) ics \<Rightarrow> u64" where
  "total_available_returns s = wrap64 (sum_list (bm_values (ic_liquidity_returns s)))"

definition get_provided_liquidity :: "('d, 'f) ics \<Rightarrow> principal \<Rightarrow> u64" where
  "get_provided_liquidity s caller = bm_get_or 0 (ic_liquidity_pool s) caller"

section \<open>Interest\<close>

definition accrued_vault :: "('d, 'f) decimal \<Rightarrow> 'd \<Rightarrow> u64 \<Rightarrow> u64 \<Rightarrow> icp_vault \<Rightarrow> icp_vault option" where
  "accrued_vault D rate elapsed now v =
     Option.bind (dec_mul D rate (dec_from_u64 D elapsed)) (\<lambda>x.
     Option.bind (dec_div D x (dec_from_u64 D nanos_per_year)) (\<lambda>growth.
     Option.bind (dec_add D (dec_one D) growth) (\<lambda>factor.
     Option.bind (dec_mul D (dec_from_u64 D (iv_borrowed_icusd_amount v)) factor) (\<lambda>product.
       Some (case dec_to_u64 D (dec_ceil D product) of
               None \<Rightarrow> v
             | Some new_debt \<Rightarrow>
                 v\<lparr>iv_accrued_interest := token_add (iv_accrued_interest v) (sat_sub new_debt (iv_borrowed_icusd_amount v)),
                   iv_borrowed_icusd_amount := new_debt, iv_last_accrual_time := now\<rparr>)))))"

definition vault_rate :: "('d, 'f) decimal \<Rightarrow> ('d, 'f) ics \<Rightarrow> icp_vault \<Rightarrow> 'd option" where
  "vault_rate D s v =
     Option.bind (compute_collateral_ratio D s v) (get_dynamic_interest_rate_for D s (iv_collateral_type v))"

definition accrues :: "u64 \<Rightarrow> icp_vault \<Rightarrow> bool" where
  "accrues now v \<longleftrightarrow> iv_borrowed_icusd_amount v > 0 \<and> iv_last_accrual_time v < now"

definition accrue_single_vault :: "('d, 'f) decimal \<Rightarrow> u64 \<Rightarrow> u64 \<Rightarrow> ('d, 'f) ics \<Rightarrow> ('d, 'f) ics option" where
  "accrue_single_vault D vid now s =
     (case bm_get (ic_vault_id_to_vaults s) vid of
        None \<Rightarrow> Some s
      | Some v \<Rightarrow>
          if accrues now v then
            Option.bind (vault_rate D s v) (\<lambda>rate.
            map_option (\<lambda>v'. s\<lparr>ic_vault_id_to_vaults := bm_insert vid v' (ic_vault_id_to_vaults s)\<rparr>)
              (accrued_vault D rate (sat_sub now (iv_last_accrual_time v)) now v))
          else Some s)"

text \<open>Phase 1 reads all rates from the state before any accrual; phase 2 applies them.\<close>

definition accrue_all_vault_interest :: "('d, 'f) decimal \<Rightarrow> u64 \<Rightarrow> ('d, 'f) ics \<Rightarrow> ('d, 'f) ics option" where
  "accrue_all_vault_interest D now s =
     Option.bind
       (map_opt (\<lambda>(vid, v). map_option (\<lambda>rate. (vid, rate, sat_sub now (iv_last_accrual_time v))) (vault_rate D s v))
          (filter (\<lambda>(_, v). accrues now v) (bm_entries (ic_vault_id_to_vaults s))))
       (\<lambda>accruals. map_option (\<lambda>vs. s\<lparr>ic_vault_id_to_vaults := vs\<rparr>)
          (fold_opt (\<lambda>(vid, rate, elapsed) vs.
               case bm_get vs vid of
                 None \<Rightarrow> Some vs
               | Some v \<Rightarrow> map_option (\<lambda>v'. bm_insert vid v' vs) (accrued_vault D rate elapsed now v))
             accruals (ic_vault_id_to_vaults s)))"

definition harvest_accrued_interest :: "('d, 'f) ics \<Rightarrow> ('d, 'f) ics" where
  "harvest_accrued_interest s =
     s\<lparr>ic_pending_interest_for_pools :=
         foldl (\<lambda>m v. if iv_accrued_interest v > 0
                      then bm_insert (iv_collateral_type v) (wrap64 (bm_get_or 0 m (iv_collateral_type v) + iv_accrued_interest v)) m
                      else m)
           (ic_pending_interest_for_pools s) (bm_values (ic_vault_id_to_vaults s)),
       ic_vault_id_to_vaults := bm_map (\<lambda>v. if iv_accrued_interest v > 0 then v\<lparr>iv_accrued_interest := 0\<rparr> else v)
         (ic_vault_id_to_vaults s)\<rparr>"

definition take_pending_interest_for_pool :: "principal \<Rightarrow> ('d, 'f) ics \<Rightarrow> ('d, 'f) ics \<times> u64" where
  "take_pending_interest_for_pool ct s =
     (s\<lparr>ic_pending_interest_for_pools := bm_remove ct (ic_pending_interest_for_pools s)\<rparr>,
      bm_get_or 0 (ic_pending_interest_for_pools s) ct)"

definition restore_pending_interest_for_pool :: "principal \<Rightarrow> u64 \<Rightarrow> ('d, 'f) ics \<Rightarrow> ('d, 'f) ics" where
  "restore_pending_interest_for_pool ct amount s =
     (if amount = 0 then s
      else s\<lparr>ic_pending_interest_for_pools :=
             bm_insert ct (sat_add64 (bm_get_or 0 (ic_pending_interest_for_pools s) ct) amount) (ic_pending_interest_for_pools s)\<rparr>)"

definition take_pending_treasury_interest :: "('d, 'f) ics \<Rightarrow> ('d, 'f) ics \<times> u64" where
  "take_pending_treasury_interest s = (s\<lparr>ic_pending_treasury_interest := 0\<rparr>, ic_pending_treasury_interest s)"

definition restore_pending_treasury_interest :: "u64 \<Rightarrow> ('d, 'f) ics \<Rightarrow> ('d, 'f) ics" where
  "restore_pending_treasury_interest amount s =
     (if amount = 0 then s
      else s\<lparr>ic_pending_treasury_interest := sat_add64 (ic_pending_treasury_interest s) amount\<rparr>)"

section \<open>Liquidation\<close>

text \<open>The repayment that restores a target ratio: \<open>(debt * target - value) / (target - bonus)\<close>\<close>

definition restoring_repay :: "('d, 'f) decimal \<Rightarrow> u64 \<Rightarrow> u64 \<Rightarrow> 'd \<Rightarrow> 'd \<Rightarrow> u64 option" where
  "restoring_repay D deficit debt target bonus =
     Option.bind (ratio_sub D target bonus) (\<lambda>denominator.
     map_option (\<lambda>r. min r debt) (icusd_div_ratio D deficit denominator))"

definition compute_recovery_repay_cap :: "('d, 'f) decimal \<Rightarrow> ('d, 'f) ics \<Rightarrow> icp_vault \<Rightarrow> u64 option option" where
  "compute_recovery_repay_cap D s v =
     (if ic_mode s \<noteq> RecoveryMode then Some None
      else Option.bind (compute_collateral_ratio D s v) (\<lambda>cr.
        if dec_le D cr (get_liquidation_ratio_for D s (iv_collateral_type v))
           \<or> dec_le D (get_min_collateral_ratio_for D s (iv_collateral_type v)) cr then Some None
        else case get_collateral_config s (iv_collateral_type v) of
          None \<Rightarrow> Some None
        | Some c \<Rightarrow>
            (case Option.bind (cf_last_price c) (dec_from_f64 D) of
               None \<Rightarrow> Some None
             | Some price \<Rightarrow>
                 Option.bind (collateral_usd_value D (iv_collateral_amount v) price (cf_decimals c)) (\<lambda>collateral_value.
                 Option.bind (get_recovery_target_cr_for D s) (\<lambda>target.
                 Option.bind (token_mul_ratio D (iv_borrowed_icusd_amount v) target) (\<lambda>numerator.
                 if numerator \<le> collateral_value then Some None
                 else map_option Some (restoring_repay D (numerator - collateral_value) (iv_borrowed_icusd_amount v) target
                        (get_liquidation_bonus_for s (iv_collateral_type v)))))))))"

definition compute_partial_liquidation_cap :: "('d, 'f) decimal \<Rightarrow> ('d, 'f) ics \<Rightarrow> icp_vault \<Rightarrow> u64 option" where
  "compute_partial_liquidation_cap D s v =
     (case Option.bind (get_collateral_config s (iv_collateral_type v))
             (\<lambda>c. map_option (\<lambda>p. (p, cf_decimals c)) (Option.bind (cf_last_price c) (dec_from_f64 D))) of
        None \<Rightarrow> Some (iv_borrowed_icusd_amount v)
      | Some (price, decimals) \<Rightarrow>
          Option.bind (collateral_usd_value D (iv_collateral_amount v) price decimals) (\<lambda>collateral_value.
          let target = get_min_collateral_ratio_for D s (iv_collateral_type v);
              bonus = get_liquidation_bonus_for s (iv_collateral_type v) in
          Option.bind (token_mul_ratio D (iv_borrowed_icusd_amount v) target) (\<lambda>numerator.
          if numerator \<le> collateral_value then Some 0
          else Option.bind (ratio_sub D target bonus) (\<lambda>denominator.
            if dec_le D denominator (dec_lit D 0 0) then Some (iv_borrowed_icusd_amount v)
            else map_option (\<lambda>r. min r (iv_borrowed_icusd_amount v))
                   (icusd_div_ratio D (numerator - collateral_value) denominator)))))"

definition liquidate_vault :: "('d, 'f) decimal \<Rightarrow> u64 \<Rightarrow> protocol_mode \<Rightarrow> ('d, 'f) ics \<Rightarrow> (('d, 'f) ics \<times> u64) option" where
  "liquidate_vault D vid mode s =
     (case bm_get (ic_vault_id_to_vaults s) vid of
        None \<Rightarrow> Some (s, 0)
      | Some v \<Rightarrow>
          Option.bind (compute_collateral_ratio D s v) (\<lambda>cr.
          if mode = RecoveryMode \<and> dec_less D (minimum_collateral_ratio D) cr then
            case Option.bind (get_collateral_config s (iv_collateral_type v))
                   (\<lambda>c. map_option (\<lambda>p. (p, cf_decimals c)) (Option.bind (cf_last_price c) (dec_from_f64 D))) of
              None \<Rightarrow> Some (s, 0)
            | Some (price, decimals) \<Rightarrow>
                Option.bind (collateral_usd_value D (iv_collateral_amount v) price decimals) (\<lambda>collateral_value.
                Option.bind (get_recovery_target_cr_for D s) (\<lambda>target.
                let bonus = get_liquidation_bonus_for s (iv_collateral_type v) in
                Option.bind (token_mul_ratio D (iv_borrowed_icusd_amount v) target) (\<lambda>numerator.
                if numerator \<le> collateral_value then Some (s, 0)
                else
                  Option.bind (restoring_repay D (numerator - collateral_value) (iv_borrowed_icusd_amount v) target bonus) (\<lambda>repay.
                  Option.bind (token_mul_ratio D repay bonus) (\<lambda>repay_with_bonus.
                  Option.bind (icusd_to_collateral_amount D repay_with_bonus price decimals) (\<lambda>wanted.
                  let seized = min wanted (iv_collateral_amount v) in
                  Option.bind (interest_part D repay v) (\<lambda>interest_share.
                  map_option (\<lambda>s'. (s', interest_share))
                    (rekeyed D vid (\<lambda>v. v\<lparr>iv_borrowed_icusd_amount := sat_sub (iv_borrowed_icusd_amount v) repay,
                       iv_collateral_amount := sat_sub (iv_collateral_amount v) seized,
                       iv_accrued_interest := sat_sub (iv_accrued_interest v) interest_share\<rparr>) s))))))))
          else Some (fst (remove_vault_and_unindex vid s), iv_accrued_interest v)))"

section \<open>Redistribution\<close>

record distribute_entry =
  de_vault_id :: u64
  de_icp_share_amount :: u64
  de_icusd_share_amount :: u64

definition vault_share :: "('d, 'f) decimal \<Rightarrow> u64 \<Rightarrow> icp_vault \<Rightarrow> u64 \<times> icp_vault \<Rightarrow> distribute_entry option" where
  "vault_share D total_margin target e =
     Option.bind (token_div_token D (iv_collateral_amount (snd e)) total_margin) (\<lambda>share.
     Option.bind (token_mul_ratio D (iv_collateral_amount target) share) (\<lambda>icp_share.
     Option.bind (token_mul_ratio D (iv_borrowed_icusd_amount target) share) (\<lambda>icusd_share.
       Some \<lparr>de_vault_id = fst e, de_icp_share_amount = icp_share, de_icusd_share_amount = icusd_share\<rparr>)))"

text \<open>The first entry takes what the truncated shares leave; a share sum above the target panics.\<close>

definition distribute_across_vaults ::
    "('d, 'f) decimal \<Rightarrow> (u64, icp_vault) bmap \<Rightarrow> icp_vault \<Rightarrow> distribute_entry list option" where
  "distribute_across_vaults D vaults target =
     (let others = filter (\<lambda>(vid, _). vid \<noteq> iv_vault_id target) (bm_entries vaults);
          total_margin = wrap64 (sum_list (map (\<lambda>e. iv_collateral_amount (snd e)) others)) in
      if bm_entries vaults = [] \<or> total_margin = 0 then None
      else Option.bind (map_opt (vault_share D total_margin target) others) (\<lambda>entries.
        let distributed_icp = wrap64 (sum_list (map de_icp_share_amount entries));
            distributed_icusd = wrap64 (sum_list (map de_icusd_share_amount entries)) in
        case entries of
          [] \<Rightarrow> Some []
        | e # es \<Rightarrow>
            Option.bind (token_sub (iv_borrowed_icusd_amount target) distributed_icusd) (\<lambda>rest_icusd.
            Option.bind (token_sub (iv_collateral_amount target) distributed_icp) (\<lambda>rest_icp.
              Some (e\<lparr>de_icusd_share_amount := token_add (de_icusd_share_amount e) rest_icusd,
                      de_icp_share_amount := token_add (de_icp_share_amount e) rest_icp\<rparr> # es)))))"

definition receive_share :: "distribute_entry \<Rightarrow> icp_vault \<Rightarrow> icp_vault" where
  "receive_share e v = v\<lparr>iv_collateral_amount := wrap64 (iv_collateral_amount v + de_icp_share_amount e),
     iv_borrowed_icusd_amount := token_add (iv_borrowed_icusd_amount v) (de_icusd_share_amount e)\<rparr>"

definition redistribute_vault :: "('d, 'f) decimal \<Rightarrow> u64 \<Rightarrow> ('d, 'f) ics \<Rightarrow> ('d, 'f) ics option" where
  "redistribute_vault D vid s =
     Option.bind (bm_get (ic_vault_id_to_vaults s) vid) (\<lambda>target.
     Option.bind (distribute_across_vaults D (ic_vault_id_to_vaults s) target) (\<lambda>entries.
     let s1 = s\<lparr>ic_vault_id_to_vaults := foldl (\<lambda>vs e. bm_modify (de_vault_id e) (receive_share e) vs) (ic_vault_id_to_vaults s) entries\<rparr>
     in fold_opt (\<lambda>e. reindex_vault_cr D (de_vault_id e)) entries (fst (remove_vault_and_unindex vid s1))))"

section \<open>Deficit, breaker and scan cadence\<close>

definition accrue_deficit_shortfall :: "u64 \<Rightarrow> ('d, 'f) ics \<Rightarrow> ('d, 'f) ics \<times> u64" where
  "accrue_deficit_shortfall shortfall s =
     (if shortfall = 0 then (s, 0)
      else (s\<lparr>ic_protocol_deficit_icusd := token_add (ic_protocol_deficit_icusd s) shortfall\<rparr>, shortfall))"

definition compute_deficit_repay_amount :: "('d, 'f) decimal \<Rightarrow> ('d, 'f) ics \<Rightarrow> u64 \<Rightarrow> u64 option" where
  "compute_deficit_repay_amount D s fee =
     (if ic_protocol_deficit_icusd s = 0 \<or> dec_eq D (ic_deficit_repayment_fraction s) (dec_zero D) then Some 0
      else map_option (\<lambda>x. min (case dec_to_u64 D x of None \<Rightarrow> 0 | Some n \<Rightarrow> n) (ic_protocol_deficit_icusd s))
             (dec_mul D (dec_from_u64 D fee) (ic_deficit_repayment_fraction s)))"

definition apply_deficit_repayment :: "u64 \<Rightarrow> ('d, 'f) ics \<Rightarrow> ('d, 'f) ics" where
  "apply_deficit_repayment amount s =
     (if amount = 0 then s
      else s\<lparr>ic_protocol_deficit_icusd := sat_sub (ic_protocol_deficit_icusd s) amount,
             ic_total_deficit_repaid_icusd := token_add (ic_total_deficit_repaid_icusd s) amount\<rparr>)"

definition check_deficit_readonly_latch :: "('d, 'f) ics \<Rightarrow> ('d, 'f) ics \<times> bool" where
  "check_deficit_readonly_latch s =
     (if ic_deficit_readonly_threshold_e8s s = 0 then (s, False)
      else if ic_protocol_deficit_icusd s < ic_deficit_readonly_threshold_e8s s then (s, False)
      else (s\<lparr>ic_mode := ReadOnly\<rparr>, True))"

definition windowed_liquidation_total :: "('d, 'f) ics \<Rightarrow> u64 \<Rightarrow> u64" where
  "windowed_liquidation_total s now =
     (if ic_breaker_window_ns s = 0 then 0
      else
        let cutoff = sat_sub now (ic_breaker_window_ns s)
        in wrap64 (sum_list (map snd (filter (\<lambda>(ts, _). ts \<ge> cutoff) (ic_recent_liquidations s)))))"

definition record_recent_liquidation :: "('d, 'f) ics \<Rightarrow> u64 \<Rightarrow> u64 \<Rightarrow> ('d, 'f) ics \<times> bool" where
  "record_recent_liquidation s debt now =
     (if debt = 0 \<or> ic_breaker_window_ns s = 0 then (s, False)
      else
        let cutoff = sat_sub now (ic_breaker_window_ns s);
            s1 = s\<lparr>ic_recent_liquidations := filter (\<lambda>(ts, _). ts \<ge> cutoff) (ic_recent_liquidations s @ [(now, debt)])\<rparr> in
        if ic_breaker_window_debt_ceiling_e8s s1 = 0 \<or> ic_liquidation_breaker_tripped s1 then (s1, False)
        else if windowed_liquidation_total s1 now \<ge> ic_breaker_window_debt_ceiling_e8s s1
        then (s1\<lparr>ic_liquidation_breaker_tripped := True\<rparr>, True) else (s1, False))"

definition advance_check_vaults_tick :: "('d, 'f) ics \<Rightarrow> ('d, 'f) ics \<times> bool" where
  "advance_check_vaults_tick s =
     (let n = ic_check_vaults_full_sweep_every_n_ticks s in
      if n \<le> 1 then (s\<lparr>ic_ticks_since_full_sweep := 0\<rparr>, True)
      else
        let t = sat_add64 (ic_ticks_since_full_sweep s) 1
        in if t \<ge> n then (s\<lparr>ic_ticks_since_full_sweep := 0\<rparr>, True) else (s\<lparr>ic_ticks_since_full_sweep := t\<rparr>, False))"

definition check_vaults_alert_threshold_key :: "('d, 'f) decimal \<Rightarrow> ('d, 'f) ics \<Rightarrow> u64 option" where
  "check_vaults_alert_threshold_key D s =
     Option.bind (dec_div D (dec_from_u64 D (ic_check_vaults_alert_band_bps s)) (dec_from_u64 D 10000)) (\<lambda>band.
     let floors = map (\<lambda>c. case ic_mode s of RecoveryMode \<Rightarrow> cf_borrow_threshold_ratio c | _ \<Rightarrow> cf_liquidation_ratio c)
                    (bm_values (ic_collateral_configs s));
         max_min_liq = (case floors of [] \<Rightarrow> minimum_collateral_ratio D
                        | f # fs \<Rightarrow> foldl (\<lambda>m x. if dec_le D m x then x else m) f fs)
     in map_option (cr_index_key D) (dec_add D max_min_liq band))"

record unhealthy_vault_scan =
  uv_unhealthy_vaults :: "icp_vault list"
  uv_vaults_visited :: u64
  uv_was_full_sweep :: bool
  uv_threshold_key :: u64

definition unhealthy :: "('d, 'f) decimal \<Rightarrow> ('d, 'f) ics \<Rightarrow> icp_vault \<Rightarrow> bool option" where
  "unhealthy D s v =
     (if iv_bot_processing v then Some False
      else if (case get_collateral_config s (iv_collateral_type v) of None \<Rightarrow> False | Some c \<Rightarrow> is_native_xrp c) then Some False
      else map_option (\<lambda>cr. dec_less D cr (get_min_liquidation_ratio_for D s (iv_collateral_type v)))
             (compute_collateral_ratio D s v))"

definition scan_unhealthy_vaults :: "('d, 'f) decimal \<Rightarrow> ('d, 'f) ics \<Rightarrow> bool \<Rightarrow> unhealthy_vault_scan option" where
  "scan_unhealthy_vaults D s do_full_sweep =
     Option.bind (check_vaults_alert_threshold_key D s) (\<lambda>threshold.
     let buckets = filter (\<lambda>(k, _). do_full_sweep \<or> k < threshold) (bm_entries (ic_vault_cr_index s));
         vaults = List.map_filter (bm_get (ic_vault_id_to_vaults s)) (concat (map (\<lambda>(_, ids). bm_keys ids) buckets))
     in map_option (\<lambda>flags.
          \<lparr>uv_unhealthy_vaults = map fst (filter snd (zip vaults flags)), uv_vaults_visited = length vaults,
           uv_was_full_sweep = do_full_sweep, uv_threshold_key = threshold\<rparr>)
          (map_opt (unhealthy D s) vaults))"

section \<open>The self-check\<close>

datatype invariant_violation =
    VaultCountInconsistent
  | IndexSizeMismatch
  | WrongCollateralType u64
  | StaleVaultId u64

definition index_size :: "'k::linorder vault_index \<Rightarrow> usize" where
  "index_size m = bm_sum (\<lambda>ids. length (bm_entries ids)) m"

definition check_invariants :: "('d, 'f) ics \<Rightarrow> (invariant_violation, unit) outcome" where
  "check_invariants s =
     (let vaults = ic_vault_id_to_vaults s in
      if length (bm_entries vaults) > index_size (ic_principal_to_vault_ids s) then Err VaultCountInconsistent
      else if \<not> list_all (\<lambda>(_, vid). bm_has vaults vid) (index_pairs (ic_principal_to_vault_ids s)) then Trap
      else if index_size (ic_collateral_to_vault_ids s) \<noteq> length (bm_entries vaults) then Err IndexSizeMismatch
      else
        (case find (\<lambda>(ct, vid). case bm_get vaults vid of None \<Rightarrow> True | Some v \<Rightarrow> iv_collateral_type v \<noteq> ct)
                (index_pairs (ic_collateral_to_vault_ids s)) of
           None \<Rightarrow> Ok ()
         | Some (ct, vid) \<Rightarrow> Err (if bm_has vaults vid then WrongCollateralType vid else StaleVaultId vid)))"

end
