(* ===== verification/Icp_Redemption.thy ===== *)
theory Icp_Redemption
  imports Icp_Vaults
begin

text \<open>
  Redemption (\<^verbatim>\<open>redeem_on_vaults\<close> of \<^verbatim>\<open>state.rs\<close>): icUSD is redeemed against the vaults of one collateral
  type by water-filling, from the lowest collateral ratio upwards; the per-vault outcomes are
  recorded, and a replay applies the recorded outcomes. \<open>locked\<close> is the set of vaults that
  another operation holds (\<^verbatim>\<open>guard::is_vault_liquidating\<close>). The loop is given as many rounds as two per
  vault and one more; the lemma \<open>water_fill_fuel\<close> shows that it never needs more.
\<close>

section \<open>One vault\<close>

definition deducted :: "u64 \<Rightarrow> u64 \<Rightarrow> icp_vault \<Rightarrow> icp_vault" where
  "deducted collateral icusd v =
     (let debt = sat_sub (iv_borrowed_icusd_amount v) icusd
      in v\<lparr>iv_borrowed_icusd_amount := debt,
           iv_collateral_amount := sat_sub (iv_collateral_amount v) collateral,
           iv_accrued_interest := (if iv_accrued_interest v > debt then debt else iv_accrued_interest v)\<rparr>)"

definition deduct_amount_from_vault ::
    "('d, 'f) decimal \<Rightarrow> u64 \<Rightarrow> u64 \<Rightarrow> u64 \<Rightarrow> ('d, 'f) ics \<Rightarrow> (('d, 'f) ics \<times> u64) option" where
  "deduct_amount_from_vault D collateral icusd vid s =
     Option.bind (bm_get (ic_vault_id_to_vaults s) vid) (\<lambda>v.
     let actual = sat_sub (iv_collateral_amount v) (sat_sub (iv_collateral_amount v) collateral)
     in map_option (\<lambda>s'. (s', actual)) (rekeyed D vid (deducted collateral icusd) s))"

definition apply_vault_redemption :: "('d, 'f) decimal \<Rightarrow> vault_redemption \<Rightarrow> ('d, 'f) ics \<Rightarrow> ('d, 'f) ics option" where
  "apply_vault_redemption D r s =
     (if bm_has (ic_vault_id_to_vaults s) (vr_vault_id r)
      then map_option fst (deduct_amount_from_vault D (vr_collateral_seized r) (vr_icusd_redeemed_e8s r) (vr_vault_id r) s)
      else Some s)"

definition apply_vault_redemptions :: "('d, 'f) decimal \<Rightarrow> vault_redemption list \<Rightarrow> ('d, 'f) ics \<Rightarrow> ('d, 'f) ics option" where
  "apply_vault_redemptions D = fold_opt (apply_vault_redemption D)"

definition redeemable :: "u64 set \<Rightarrow> ('d, 'f) ics \<Rightarrow> principal \<Rightarrow> icp_vault \<Rightarrow> bool" where
  "redeemable locked s ct v \<longleftrightarrow> iv_borrowed_icusd_amount v \<noteq> 0 \<and> \<not> iv_bot_processing v \<and> iv_vault_id v \<notin> locked
     \<and> resolve_ct s (iv_collateral_type v) = resolve_ct s ct"

definition total_redeemable_debt_for :: "u64 set \<Rightarrow> ('d, 'f) ics \<Rightarrow> principal \<Rightarrow> u64" where
  "total_redeemable_debt_for locked s ct =
     wrap64 (sum_list (map iv_borrowed_icusd_amount (filter (redeemable locked s ct) (bm_values (ic_vault_id_to_vaults s)))))"

section \<open>One band\<close>

type_synonym ('d, 'f) redemption_acc = "('d, 'f) ics \<times> vault_redemption list"

fun band_loop ::
    "('d, 'f) decimal \<Rightarrow> 'd \<Rightarrow> u8 \<Rightarrow> u128 \<Rightarrow> u128 \<Rightarrow> (u64 \<times> u128) list \<Rightarrow> u128 \<Rightarrow> ('d, 'f) redemption_acc
      \<Rightarrow> ('d, 'f) redemption_acc option" where
  "band_loop D price decimals total_debt redemption [] distributed acc = Some acc"
| "band_loop D price decimals total_debt redemption ((vid, debt) # rest) distributed (s, results) =
     (let share = (if rest = [] then wrap_sub128 redemption distributed else wrap128 (redemption * debt) div total_debt) in
      if share = 0 then band_loop D price decimals total_debt redemption rest distributed (s, results)
      else Option.bind (bm_get (ic_vault_id_to_vaults s) vid) (\<lambda>v.
        let actual = min share (iv_borrowed_icusd_amount v) in
        Option.bind (icusd_to_collateral_amount D actual price decimals) (\<lambda>collateral.
        Option.bind (deduct_amount_from_vault D collateral actual vid s) (\<lambda>(s', seized).
          band_loop D price decimals total_debt redemption rest (wrap_add128 distributed actual)
            (s', results @ [\<lparr>vr_vault_id = vid, vr_icusd_redeemed_e8s = actual, vr_collateral_seized = seized\<rparr>])))))"

definition distribute_redemption_across_band ::
    "('d, 'f) decimal \<Rightarrow> 'd \<Rightarrow> u8 \<Rightarrow> (u64 \<times> u128) list \<Rightarrow> u128 \<Rightarrow> u128 \<Rightarrow> ('d, 'f) redemption_acc \<Rightarrow> ('d, 'f) redemption_acc option" where
  "distribute_redemption_across_band D price decimals band total_debt redemption acc =
     (if total_debt = 0 \<or> redemption = 0 then Some acc
      else band_loop D price decimals total_debt redemption band 0 acc)"

section \<open>Water-filling\<close>

definition same_cr :: "('d, 'f) decimal \<Rightarrow> 'd \<Rightarrow> 'd \<times> u64 \<Rightarrow> bool" where
  "same_cr D cr e \<longleftrightarrow> dec_eq D (fst e) cr"

definition vault_debt :: "('d, 'f) ics \<Rightarrow> u64 \<Rightarrow> u128 option" where
  "vault_debt s vid = map_option iv_borrowed_icusd_amount (bm_get (ic_vault_id_to_vaults s) vid)"

definition band_needed :: "('d, 'f) decimal \<Rightarrow> u128 \<Rightarrow> 'd \<Rightarrow> 'd \<Rightarrow> u128 option" where
  "band_needed D total_band_debt cr_diff cr_denom =
     Option.bind (dec_mul D (dec_from_u64 D (wrap64 total_band_debt)) cr_diff) (\<lambda>x.
     map_option (\<lambda>y. case dec_to_u64 D y of None \<Rightarrow> u64_max | Some n \<Rightarrow> n) (dec_div D x cr_denom))"

fun water_fill ::
    "nat \<Rightarrow> ('d, 'f) decimal \<Rightarrow> 'd \<Rightarrow> u8 \<Rightarrow> ('d \<times> u64) list \<Rightarrow> u128 \<Rightarrow> ('d, 'f) redemption_acc \<Rightarrow> ('d, 'f) redemption_acc option" where
  "water_fill fuel D price decimals [] remaining acc = Some acc"
| "water_fill 0 D price decimals (e # es) remaining acc = None"
| "water_fill (Suc fuel) D price decimals (e # es) remaining acc =
     (if remaining = 0 then Some acc
      else
        let band_cr = fst e; band = e # takeWhile (same_cr D band_cr) es; rest = dropWhile (same_cr D band_cr) es in
        Option.bind (map_opt (vault_debt (fst acc)) (map snd band)) (\<lambda>debts.
        let total_band_debt = wrap128 (sum_list debts);
            spread = (\<lambda>amount. distribute_redemption_across_band D price decimals (zip (map snd band) debts) total_band_debt amount acc) in
        if total_band_debt = 0 then water_fill fuel D price decimals rest remaining acc
        else (case rest of
          [] \<Rightarrow> spread remaining
        | f # _ \<Rightarrow>
            let next_cr = fst f in
            Option.bind (dec_sub D next_cr band_cr) (\<lambda>cr_diff.
            Option.bind (dec_sub D next_cr (dec_one D)) (\<lambda>cr_denom.
            if dec_le D cr_denom (dec_zero D) then spread remaining
            else Option.bind (band_needed D total_band_debt cr_diff cr_denom) (\<lambda>needed.
              if remaining \<ge> needed \<and> needed > 0
              then Option.bind (spread needed) (\<lambda>acc'.
                     water_fill fuel D price decimals (map (\<lambda>(_, vid). (next_cr, vid)) band @ rest) (remaining - needed) acc')
              else spread remaining))))))"

definition redemption_entries :: "('d, 'f) decimal \<Rightarrow> u64 set \<Rightarrow> ('d, 'f) ics \<Rightarrow> principal \<Rightarrow> ('d \<times> u64) list option" where
  "redemption_entries D locked s ct =
     map_option (sort_by (\<lambda>a b. dec_le D (fst a) (fst b)))
       (map_opt (\<lambda>v. map_option (\<lambda>cr. (cr, iv_vault_id v)) (compute_collateral_ratio D s v))
          (filter (redeemable locked s ct) (bm_values (ic_vault_id_to_vaults s))))"

definition redemption_price :: "('d, 'f) decimal \<Rightarrow> ('d, 'f) ics \<Rightarrow> 'd \<Rightarrow> principal \<Rightarrow> 'd \<times> u8" where
  "redemption_price D s collateral_price ct =
     (case get_collateral_config s ct of
        None \<Rightarrow> (collateral_price, 8)
      | Some c \<Rightarrow> (case Option.bind (cf_last_price c) (dec_from_f64 D) of None \<Rightarrow> collateral_price | Some p \<Rightarrow> p, cf_decimals c))"

definition redeem_on_vaults ::
    "('d, 'f) decimal \<Rightarrow> u64 set \<Rightarrow> u64 \<Rightarrow> 'd \<Rightarrow> principal \<Rightarrow> ('d, 'f) ics \<Rightarrow> ('d, 'f) redemption_acc option" where
  "redeem_on_vaults D locked icusd_amount collateral_price ct s =
     (if icusd_amount = 0 then Some (s, [])
      else
        Option.bind (redemption_entries D locked s ct) (\<lambda>entries.
        let (price, decimals) = redemption_price D s collateral_price ct
        in water_fill (Suc (2 * length entries)) D price decimals entries icusd_amount (s, [])))"

section \<open>What one round does\<close>

lemma water_fill_cases [consumes 1, case_names stopped skip final level]:
  assumes run: "water_fill (Suc fuel) D price decimals (e # es) remaining acc = Some acc'"
  obtains "acc' = acc"
  | "water_fill fuel D price decimals (dropWhile (same_cr D (fst e)) es) remaining acc = Some acc'"
  | ids debts where "map_opt (vault_debt (fst acc)) ids = Some debts" "set ids \<subseteq> snd ` set (e # es)" "length ids \<le> length (e # es)"
      "distribute_redemption_across_band D price decimals (zip ids debts) (wrap128 (sum_list debts)) remaining acc = Some acc'"
  | ids debts needed acc1 fs where "map_opt (vault_debt (fst acc)) ids = Some debts" "set ids \<subseteq> snd ` set (e # es)" "length ids \<le> length (e # es)"
      "distribute_redemption_across_band D price decimals (zip ids debts) (wrap128 (sum_list debts)) needed acc = Some acc1"
      "needed \<le> remaining" "snd ` set fs \<subseteq> snd ` set (e # es)" "length fs \<le> length (e # es)"
      "water_fill fuel D price decimals fs (remaining - needed) acc1 = Some acc'"
proof (cases "remaining = 0")
  case True
  then show ?thesis using run that(1) by simp
next
  case False
  let ?band = "e # takeWhile (same_cr D (fst e)) es" and ?rest = "dropWhile (same_cr D (fst e)) es"
  have sub: "set (map snd ?band) \<subseteq> snd ` set (e # es)" by (auto dest: set_takeWhileD)
  have short: "length (map snd ?band) \<le> length (e # es)" by (simp add: length_takeWhile_le)
  obtain debts where debts: "map_opt (vault_debt (fst acc)) (map snd ?band) = Some debts"
    using run False by (auto simp: Let_def bind_eq_Some_conv simp del: map_opt.simps split: if_splits)
  let ?spread = "\<lambda>amount. distribute_redemption_across_band D price decimals (zip (map snd ?band) debts) (wrap128 (sum_list debts)) amount acc"
  note last_case = that(3) [OF debts sub short]
  note run = run [unfolded water_fill.simps Let_def debts, simplified False if_False bind.bind_lunit]
  show ?thesis
  proof (cases "wrap128 (sum_list debts) = 0")
    case True
    then show ?thesis using run that(2) by simp
  next
    case pos: False
    show ?thesis
    proof (cases ?rest)
      case Nil
      show ?thesis using run pos last_case unfolding Nil by simp
    next
      case (Cons f fs)
      from run pos Cons obtain cr_diff cr_denom where
        body: "(if dec_le D cr_denom (dec_zero D) then ?spread remaining
          else Option.bind (band_needed D (wrap128 (sum_list debts)) cr_diff cr_denom) (\<lambda>needed.
            if remaining \<ge> needed \<and> needed > 0
            then Option.bind (?spread needed) (\<lambda>acc1. water_fill fuel D price decimals
                   (map (\<lambda>(_, vid). (fst f, vid)) ?band @ ?rest) (remaining - needed) acc1)
            else ?spread remaining)) = Some acc'"
        by (auto simp: bind_eq_Some_conv simp del: list.map takeWhile.simps zip_Cons_Cons)
      have ids: "snd ` set (map (\<lambda>(_, vid). (fst f, vid)) ?band @ ?rest) \<subseteq> snd ` set (e # es)"
      proof -
        have "map snd (map (\<lambda>(_, vid). (fst f, vid)) ?band) = map snd ?band" by (simp add: case_prod_beta' comp_def)
        then have "snd ` set (map (\<lambda>(_, vid). (fst f, vid)) ?band) = snd ` set ?band" by (metis list.set_map)
        moreover have "set ?band \<subseteq> set (e # es)" "set ?rest \<subseteq> set (e # es)" by (auto dest: set_takeWhileD set_dropWhileD)
        ultimately show ?thesis unfolding set_append image_Un by blast
      qed
      have len: "length (map (\<lambda>(_, vid). (fst f, vid)) ?band @ ?rest) \<le> length (e # es)"
        using arg_cong [OF takeWhile_dropWhile_id [of "same_cr D (fst e)" es], of length] by (simp del: takeWhile_dropWhile_id)
      from body show ?thesis
        using last_case that(4) [OF debts sub short _ _ ids len]
        by (auto simp: bind_eq_Some_conv simp del: list.map split: if_splits)
    qed
  qed
qed

section \<open>The loop ends\<close>

lemma water_fill_fuel:
  assumes refl: "\<And>x. dec_le D x x"
    and "length es + length (dropWhile (same_cr D (fst (hd es))) es) \<le> fuel"
  shows "water_fill (fuel + k) D price decimals es remaining acc = water_fill fuel D price decimals es remaining acc"
  using assms(2)
proof (induction fuel arbitrary: es remaining acc)
  case 0
  then show ?case by (cases es) auto
next
  case (Suc fuel)
  show ?case
  proof (cases es)
    case (Cons e es')
    have hd: "same_cr D (fst e) e" using refl by (simp add: same_cr_def)
    let ?rest = "dropWhile (same_cr D (fst e)) es'"
    let ?band = "e # takeWhile (same_cr D (fst e)) es'"
    have le: "length ?rest \<le> length es'" by (simp add: length_dropWhile_le)
    have "length es' + length ?rest \<le> fuel" using Suc.prems hd by (simp add: Cons)
    then have drop: "water_fill (fuel + k) D price decimals ?rest remaining acc = water_fill fuel D price decimals ?rest remaining acc"
      using le length_dropWhile_le [of "same_cr D (fst (hd ?rest))" ?rest] by (intro Suc.IH) linarith
    have level: "water_fill (fuel + k) D price decimals (map (\<lambda>(_, vid). (fst f, vid)) ?band @ f # fs)
        = water_fill fuel D price decimals (map (\<lambda>(_, vid). (fst f, vid)) ?band @ f # fs)"
      if rest: "?rest = f # fs" for f fs
    proof (intro ext Suc.IH)
      let ?es = "map (\<lambda>(_, vid). (fst f, vid)) ?band @ f # fs"
      have all: "dropWhile (same_cr D (fst f)) (map (\<lambda>(_, vid). (fst f, vid)) ?band @ ys) = dropWhile (same_cr D (fst f)) ys" for ys
        using refl by (subst dropWhile_append2) (auto simp: same_cr_def split: prod.splits)
      have "fst (hd ?es) = fst f" by (simp split: prod.splits)
      then have "dropWhile (same_cr D (fst (hd ?es))) ?es = dropWhile (same_cr D (fst f)) fs"
        using all [of "f # fs"] refl by (simp add: same_cr_def)
      moreover have "length ?es = length es"
        using arg_cong [OF takeWhile_dropWhile_id [of "same_cr D (fst e)" es'], of length] by (simp add: Cons rest)
      ultimately show "length ?es + length (dropWhile (same_cr D (fst (hd ?es))) ?es) \<le> fuel"
        using Suc.prems hd length_dropWhile_le [of "same_cr D (fst f)" fs] rest by (simp add: Cons)
    qed
    show ?thesis
    proof (cases ?rest)
      case Nil
      show ?thesis using drop by (simp add: Cons Let_def Nil cong: if_cong)
    next
      case rest: (Cons f fs)
      show ?thesis using drop level [OF rest] by (simp add: Cons Let_def rest cong: if_cong)
    qed
  qed simp
qed

section \<open>Invariants of a redemption\<close>

lemma map_opt_map:
  assumes "map_opt f xs = Some ys" and "\<And>x y. x \<in> set xs \<Longrightarrow> f x = Some y \<Longrightarrow> g y = h x"
  shows "map g ys = map h xs"
  using assms by (induction xs arbitrary: ys) (auto simp: bind_eq_Some_conv)

lemma redemption_entries_ids:
  assumes "redemption_entries D locked s ct = Some es"
  shows "snd ` set es = iv_vault_id ` set (filter (redeemable locked s ct) (bm_values (ic_vault_id_to_vaults s)))"
    and "length es \<le> length (bm_entries (ic_vault_id_to_vaults s))"
proof -
  from assms obtain ys where ys: "map_opt (\<lambda>v. map_option (\<lambda>cr. (cr, iv_vault_id v)) (compute_collateral_ratio D s v))
      (filter (redeemable locked s ct) (bm_values (ic_vault_id_to_vaults s))) = Some ys"
    and es: "es = sort_by (\<lambda>a b. dec_le D (fst a) (fst b)) ys"
    by (auto simp: redemption_entries_def)
  have ids: "map snd ys = map iv_vault_id (filter (redeemable locked s ct) (bm_values (ic_vault_id_to_vaults s)))"
    by (rule map_opt_map [OF ys]) auto
  show "snd ` set es = iv_vault_id ` set (filter (redeemable locked s ct) (bm_values (ic_vault_id_to_vaults s)))"
    using arg_cong [OF ids, of set] es by simp
  show "length es \<le> length (bm_entries (ic_vault_id_to_vaults s))"
    using arg_cong [OF ids, of length] es length_filter_le [of "redeemable locked s ct" "bm_values (ic_vault_id_to_vaults s)"]
    by (simp add: bm_values_def)
qed

text \<open>A property of the state and the record that each single deduction keeps holds after the whole
  redemption. \<open>ids\<close> are the vaults that may be touched.\<close>

definition touched :: "u64 \<Rightarrow> u64 \<Rightarrow> u64 \<Rightarrow> vault_redemption" where
  "touched vid redeemed seized = \<lparr>vr_vault_id = vid, vr_icusd_redeemed_e8s = redeemed, vr_collateral_seized = seized\<rparr>"

locale redemption_invariant =
  fixes D :: "('d, 'f) decimal" and ids :: "u64 set" and P :: "('d, 'f) redemption_acc \<Rightarrow> bool"
  assumes deduction: "P (s, rs) \<Longrightarrow> vid \<in> ids \<Longrightarrow> bm_get (ic_vault_id_to_vaults s) vid = Some v
      \<Longrightarrow> actual \<le> iv_borrowed_icusd_amount v \<Longrightarrow> deduct_amount_from_vault D collateral actual vid s = Some (t, seized)
      \<Longrightarrow> P (t, rs @ [touched vid actual seized])"
begin

lemma band: "band_loop D price decimals total_debt red band dist acc = Some acc' \<Longrightarrow> P acc \<Longrightarrow> fst ` set band \<subseteq> ids \<Longrightarrow> P acc'"
proof (induction band arbitrary: dist acc)
  case (Cons e band)
  obtain s rs where acc: "acc = (s, rs)" by (cases acc)
  show ?case
    using Cons.prems
    by (cases e) (auto simp: acc Let_def bind_eq_Some_conv touched_def [symmetric] split: if_splits
        intro: Cons.IH deduction [OF _ _ _ min.cobounded2])
qed simp

lemma spread:
  assumes "distribute_redemption_across_band D price decimals (zip vids debts) total_debt red acc = Some acc'" and "P acc" and "set vids \<subseteq> ids"
  shows "P acc'"
proof -
  have "fst ` set (zip vids debts) \<subseteq> ids" using assms(3) by (auto dest: set_zip_leftD)
  then show ?thesis using assms(1,2) band by (auto simp: distribute_redemption_across_band_def split: if_splits)
qed

lemma filled:
  "water_fill fuel D price decimals es remaining acc = Some acc' \<Longrightarrow> P acc \<Longrightarrow> snd ` set es \<subseteq> ids \<Longrightarrow> P acc'"
proof (induction fuel arbitrary: es remaining acc)
  case 0
  then show ?case by (cases es) auto
next
  case (Suc fuel)
  show ?case
  proof (cases es)
    case (Cons e es')
    show ?thesis
      using Suc.prems(1) unfolding Cons
    proof (cases rule: water_fill_cases)
      case skip
      then show ?thesis using Suc.IH [OF skip Suc.prems(2)] Suc.prems(3) Cons by (auto dest: set_dropWhileD)
    next
      case (final vids debts)
      then show ?thesis using spread [OF final(4) Suc.prems(2)] Suc.prems(3) Cons by blast
    next
      case (level vids debts needed acc1 fs)
      then show ?thesis using Suc.IH [OF level(8)] spread [OF level(4) Suc.prems(2)] Suc.prems(3) Cons by blast
    qed (use Suc.prems(2) in simp)
  qed (use Suc.prems in simp)
qed

lemma redeemed:
  assumes "redeem_on_vaults D locked amount cp ct s = Some acc" and "P (s, [])"
    and "\<And>v. v \<in> set (bm_values (ic_vault_id_to_vaults s)) \<Longrightarrow> redeemable locked s ct v \<Longrightarrow> iv_vault_id v \<in> ids"
  shows "P acc"
proof (cases "amount = 0")
  case False
  with assms(1) obtain es price decimals where es: "redemption_entries D locked s ct = Some es"
    and run: "water_fill (Suc (2 * length es)) D price decimals es amount (s, []) = Some acc"
    by (cases "redemption_price D s cp ct") (auto simp: redeem_on_vaults_def bind_eq_Some_conv)
  have "snd ` set es \<subseteq> ids" using redemption_entries_ids [OF es] assms(3) by auto
  with run assms(2) show ?thesis by (rule filled)
qed (use assms(1,2) in \<open>simp add: redeem_on_vaults_def\<close>)

end

end
