(* ===== verification/Icp_Book.thy ===== *)
theory Icp_Book
  imports Icp_Redemption Rumi_Systems
begin

text \<open>
  The vault book and its secondary indexes. The locale \<open>bucket_index\<close> is the contract of an index from
  keys to sets of vault ids; the book relies on it twice, for owners and for collateral types. The
  invariant \<open>book_ok\<close> says that these two indexes mirror the vaults exactly and that the index of
  collateral ratios holds every vault in exactly one bucket. Every operation keeps it.
\<close>

section \<open>The contract of a bucket index\<close>

definition mirrors :: "('k \<Rightarrow> u64 \<Rightarrow> bool) \<Rightarrow> ('v \<Rightarrow> 'k) \<Rightarrow> (u64 \<Rightarrow> 'v option) \<Rightarrow> bool" where
  "mirrors mem key f \<longleftrightarrow> (\<forall>k v. mem k v \<longleftrightarrow> (\<exists>w. f v = Some w \<and> key w = k))"

locale bucket_index =
  fixes mem :: "'m \<Rightarrow> 'k \<Rightarrow> u64 \<Rightarrow> bool" and count :: "'m \<Rightarrow> nat"
    and add :: "'k \<Rightarrow> u64 \<Rightarrow> 'm \<Rightarrow> 'm" and del :: "'k \<Rightarrow> u64 \<Rightarrow> 'm \<Rightarrow> 'm"
  assumes mem_add: "mem (add k v m) a b \<longleftrightarrow> a = k \<and> b = v \<or> mem m a b"
    and mem_del: "mem (del k v m) a b \<longleftrightarrow> mem m a b \<and> \<not> (a = k \<and> b = v)"
    and count_add: "count (add k v m) = (if mem m k v then count m else Suc (count m))"
    and count_del: "mem m k v \<Longrightarrow> Suc (count (del k v m)) = count m"
    and count_del_absent: "\<not> mem m k v \<Longrightarrow> count (del k v m) = count m"
begin

lemma mirrors_add: "mirrors (mem m) key f \<Longrightarrow> f v = None \<Longrightarrow> mirrors (mem (add (key w) v m)) key (f(v \<mapsto> w))"
  by (auto simp: mirrors_def mem_add)

lemma mirrors_add_again:
  "mirrors (mem m) key f \<Longrightarrow> f v = Some w \<Longrightarrow> key w = k \<Longrightarrow> mem (add k v m) = mem m \<and> count (add k v m) = count m"
  by (auto simp: mirrors_def mem_add count_add fun_eq_iff)

lemma mirrors_del: "mirrors (mem m) key f \<Longrightarrow> f v = Some w \<Longrightarrow> mirrors (mem (del (key w) v m)) key (f(v := None))"
  by (auto simp: mirrors_def mem_del)

lemma mirrors_count_add: "mirrors (mem m) key f \<Longrightarrow> f v = None \<Longrightarrow> count (add k v m) = Suc (count m)"
  by (simp add: mirrors_def count_add)

lemma mirrors_count_del: "mirrors (mem m) key f \<Longrightarrow> f v = Some w \<Longrightarrow> Suc (count (del (key w) v m)) = count m"
  by (rule count_del) (auto simp: mirrors_def)

lemma add_del_other: "j \<noteq> k \<Longrightarrow> mem (add j v (del k v m)) a b \<longleftrightarrow> a = j \<and> b = v \<or> mem m a b \<and> \<not> (a = k \<and> b = v)"
  by (auto simp: mem_add mem_del)

end

lemma bm_len: "length (bm_entries m) = bm_sum (\<lambda>_. 1) m"
  by (simp add: bm_sum_def sum_list_triv)

lemma bm_no_entries: "bm_entries m = [] \<longleftrightarrow> m = bm_empty"
  by (metis bm_empty.rep_eq bm_entries_inject)

lemma bs_len_insert: "length (bm_entries (bm_insert v () s)) = (if bm_has s v then length (bm_entries s) else Suc (length (bm_entries s)))"
  using bm_sum_insert [of "\<lambda>_. 1" v "()" s] by (auto simp: bm_len bm_has_def simp del: bm_insert.rep_eq split: option.splits)

lemma bm_len_remove: "length (bm_entries (bm_remove v s)) = (if bm_has s v then length (bm_entries s) - 1 else length (bm_entries s))"
  using bm_sum_remove [of "\<lambda>_. 1" v s] by (auto simp: bm_len bm_has_def split: option.splits)

lemma in_index_add: "in_index (idx_add k v m) a b \<longleftrightarrow> a = k \<and> b = v \<or> in_index m a b"
  by (auto simp: in_index_def idx_add_def bm_get_or_def split: option.splits)

lemma in_index_del: "in_index (idx_del k v m) a b \<longleftrightarrow> in_index m a b \<and> \<not> (a = k \<and> b = v)"
proof (cases "bm_get m k")
  case (Some ids)
  show ?thesis
  proof (cases "bm_entries (bm_remove v ids) = []")
    case True
    then have "bm_has (bm_remove v ids) b = False" by (simp add: bm_no_entries)
    with True Some show ?thesis by (auto simp: in_index_def idx_del_def Let_def split: option.splits if_splits)
  qed (use Some in \<open>auto simp: in_index_def idx_del_def Let_def split: option.splits if_splits\<close>)
qed (auto simp: in_index_def idx_del_def)

lemma index_size_put:
  "index_size (bm_insert k ids m) + (case bm_get m k of None \<Rightarrow> 0 | Some old \<Rightarrow> length (bm_entries old)) = index_size m + length (bm_entries ids)"
  unfolding index_size_def by (rule bm_sum_insert)

lemma index_size_add: "index_size (idx_add k v m) = (if in_index m k v then index_size m else Suc (index_size m))"
  using index_size_put [of k "bm_insert v () (bm_get_or bm_empty m k)" m]
  by (auto simp: idx_add_def in_index_def bm_get_or_def bs_len_insert simp del: bm_insert.rep_eq split: option.splits if_splits)

lemma index_size_del_any: "index_size (idx_del k v m) + (if in_index m k v then 1 else 0) = index_size m"
proof (cases "bm_get m k")
  case (Some ids)
  have len: "length (bm_entries (bm_remove v ids)) + (if bm_has ids v then 1 else 0) = length (bm_entries ids)"
    using bm_sum_remove [of "\<lambda>_. 1" v ids] by (auto simp: bm_len bm_has_def split: option.splits)
  have rem: "index_size (bm_remove k m) + length (bm_entries ids) = index_size m"
    using bm_sum_remove [of "\<lambda>ids. length (bm_entries ids)" k m] Some by (simp add: index_size_def)
  show ?thesis
    using len rem index_size_put [of k "bm_remove v ids" m] Some by (auto simp: idx_del_def in_index_def Let_def)
qed (simp add: idx_del_def in_index_def)

interpretation book_index: bucket_index in_index index_size idx_add idx_del
proof unfold_locales
  show "Suc (index_size (idx_del k v m)) = index_size m" if "in_index m k v" for k :: 'a and v m
    using index_size_del_any [of k v m] that by simp
  show "index_size (idx_del k v m) = index_size m" if "\<not> in_index m k v" for k :: 'a and v m
    using index_size_del_any [of k v m] that by simp
qed (rule in_index_add in_index_del index_size_add)+

section \<open>The index of collateral ratios\<close>

definition one_bucket :: "u64 vault_index \<Rightarrow> bool" where
  "one_bucket m \<longleftrightarrow> (\<forall>v j k. in_index m j v \<and> in_index m k v \<longrightarrow> j = k)"

definition cr_ok :: "(u64, icp_vault) bmap \<Rightarrow> u64 vault_index \<Rightarrow> bool" where
  "cr_ok vs m \<longleftrightarrow> one_bucket m \<and> (\<forall>v. (\<exists>k. in_index m k v) \<longleftrightarrow> bm_has vs v) \<and> index_size m = length (bm_entries vs)"

text \<open>The same, for all vaults but one\<close>

definition cr_part :: "u64 \<Rightarrow> (u64, icp_vault) bmap \<Rightarrow> u64 vault_index \<Rightarrow> bool" where
  "cr_part vid vs m \<longleftrightarrow> one_bucket m \<and> (\<forall>v. v \<noteq> vid \<longrightarrow> ((\<exists>k. in_index m k v) \<longleftrightarrow> bm_has vs v))
     \<and> index_size m = length (bm_entries (bm_remove vid vs)) + (if \<exists>k. in_index m k vid then 1 else 0)"

lemma cr_ok_part: "cr_ok vs m \<Longrightarrow> cr_part vid vs m"
proof -
  assume ok: "cr_ok vs m"
  have "length (bm_entries vs) = length (bm_entries (bm_remove vid vs)) + (if bm_has vs vid then 1 else 0)"
    using bm_sum_remove [of "\<lambda>_. 1" vid vs] by (auto simp: bm_len bm_has_def split: option.splits)
  with ok show ?thesis by (auto simp: cr_ok_def cr_part_def)
qed

lemma cr_part_same_rest:
  assumes "cr_part vid vs m" and "bm_remove vid ws = bm_remove vid vs"
  shows "cr_part vid ws m"
proof -
  have "bm_has ws v \<longleftrightarrow> bm_has vs v" if "v \<noteq> vid" for v
    using arg_cong [OF assms(2), of "\<lambda>m. bm_has m v"] that by simp
  with assms show ?thesis by (auto simp: cr_part_def)
qed

lemma find_bucket:
  "find (\<lambda>(k, bucket). bs_mem vid bucket) (bm_entries m) = None \<longleftrightarrow> (\<forall>k. \<not> in_index m k vid)"
  "find (\<lambda>(k, bucket). bs_mem vid bucket) (bm_entries m) = Some (k, b) \<Longrightarrow> in_index m k vid"
proof -
  show "find (\<lambda>(k, bucket). bs_mem vid bucket) (bm_entries m) = None \<longleftrightarrow> (\<forall>k. \<not> in_index m k vid)"
    using find_entries_None [of "\<lambda>_ bucket. bs_mem vid bucket" m] by (auto simp: bm_none_def in_index_def split: option.splits)
  show "in_index m k vid" if "find (\<lambda>(k, bucket). bs_mem vid bucket) (bm_entries m) = Some (k, b)"
    using find_entries_Some [OF that] by (auto simp: bm_first_def in_index_def)
qed

definition unindexed :: "u64 \<Rightarrow> u64 vault_index \<Rightarrow> u64 vault_index" where
  "unindexed vid m = (case find (\<lambda>(k, bucket). bs_mem vid bucket) (bm_entries m) of None \<Rightarrow> m | Some (k, _) \<Rightarrow> idx_del k vid m)"

lemma unindex_vault_cr_eq: "unindex_vault_cr vid s = s\<lparr>ic_vault_cr_index := unindexed vid (ic_vault_cr_index s)\<rparr>"
  by (simp add: unindex_vault_cr_def unindexed_def split: option.splits prod.splits)

lemma unindexed_facts:
  assumes "one_bucket m"
  shows "in_index (unindexed vid m) k v \<longleftrightarrow> in_index m k v \<and> v \<noteq> vid"
    and "index_size (unindexed vid m) + (if \<exists>k. in_index m k vid then 1 else 0) = index_size m"
proof -
  show "in_index (unindexed vid m) k v \<longleftrightarrow> in_index m k v \<and> v \<noteq> vid"
    using assms find_bucket [of vid m] unfolding one_bucket_def unindexed_def
    by (auto simp: in_index_del split: option.splits)
  show "index_size (unindexed vid m) + (if \<exists>k. in_index m k vid then 1 else 0) = index_size m"
    using find_bucket [of vid m] book_index.count_del [of m _ vid] unfolding unindexed_def
    by (auto split: option.splits if_splits)
qed

lemma cr_removed: "cr_part vid vs m \<Longrightarrow> cr_ok (bm_remove vid vs) (unindexed vid m)"
  using unindexed_facts [of m vid] by (auto simp: cr_part_def cr_ok_def one_bucket_def)

lemma cr_rekeyed:
  assumes "cr_part vid vs m" and "bm_has vs vid"
  shows "cr_ok vs (idx_add k vid (unindexed vid m))"
proof -
  have one: "one_bucket m" using assms(1) by (simp add: cr_part_def)
  note u = unindexed_facts [OF one, of vid]
  have len: "length (bm_entries vs) = Suc (length (bm_entries (bm_remove vid vs)))"
    using bm_sum_remove [of "\<lambda>_. 1" vid vs] assms(2) by (auto simp: bm_len bm_has_def split: option.splits)
  have "one_bucket (idx_add k vid (unindexed vid m))" using one u(1) by (auto simp: one_bucket_def in_index_add)
  moreover have "(\<exists>j. in_index (idx_add k vid (unindexed vid m)) j v) \<longleftrightarrow> bm_has vs v" for v
    using assms u(1) by (cases "v = vid") (auto simp: in_index_add cr_part_def)
  moreover have "index_size (idx_add k vid (unindexed vid m)) = length (bm_entries vs)"
    using assms(1) u(1) u(2) len by (auto simp: index_size_add cr_part_def)
  ultimately show ?thesis by (simp add: cr_ok_def)
qed

section \<open>The invariant of the book\<close>

definition index_ok :: "(icp_vault \<Rightarrow> 'k::linorder) \<Rightarrow> (u64, icp_vault) bmap \<Rightarrow> 'k vault_index \<Rightarrow> bool" where
  "index_ok key vs m \<longleftrightarrow> mirrors (in_index m) key (bm_get vs) \<and> index_size m = length (bm_entries vs)"

definition ids_ok :: "(u64, icp_vault) bmap \<Rightarrow> bool" where
  "ids_ok vs \<longleftrightarrow> (\<forall>k v. bm_get vs k = Some v \<longrightarrow> iv_vault_id v = k)"

definition book_ok :: "('d, 'f) ics \<Rightarrow> bool" where
  "book_ok s \<longleftrightarrow> index_ok iv_owner (ic_vault_id_to_vaults s) (ic_principal_to_vault_ids s)
     \<and> index_ok iv_collateral_type (ic_vault_id_to_vaults s) (ic_collateral_to_vault_ids s)
     \<and> cr_ok (ic_vault_id_to_vaults s) (ic_vault_cr_index s) \<and> ids_ok (ic_vault_id_to_vaults s)"

text \<open>Everything but the entry of one vault in the ratio index\<close>

definition book_part :: "u64 \<Rightarrow> ('d, 'f) ics \<Rightarrow> bool" where
  "book_part vid s \<longleftrightarrow> index_ok iv_owner (ic_vault_id_to_vaults s) (ic_principal_to_vault_ids s)
     \<and> index_ok iv_collateral_type (ic_vault_id_to_vaults s) (ic_collateral_to_vault_ids s)
     \<and> cr_part vid (ic_vault_id_to_vaults s) (ic_vault_cr_index s) \<and> ids_ok (ic_vault_id_to_vaults s)"

lemma book_ok_part: "book_ok s \<Longrightarrow> book_part vid s"
  by (simp add: book_ok_def book_part_def cr_ok_part)

definition keeps_keys :: "(icp_vault \<Rightarrow> icp_vault) \<Rightarrow> bool" where
  "keeps_keys f \<longleftrightarrow> (\<forall>v. iv_owner (f v) = iv_owner v \<and> iv_collateral_type (f v) = iv_collateral_type v \<and> iv_vault_id (f v) = iv_vault_id v)"

lemma bm_len_insert_old: "bm_get m k = Some w \<Longrightarrow> length (bm_entries (bm_insert k v m)) = length (bm_entries m)"
  using bm_sum_insert_old [of m k w "\<lambda>_. 1" v] by (simp add: bm_len del: bm_insert.rep_eq)

lemma bm_len_insert_new: "bm_get m k = None \<Longrightarrow> length (bm_entries (bm_insert k v m)) = Suc (length (bm_entries m))"
  using bm_sum_insert_new [of m k "\<lambda>_. 1" v] by (simp add: bm_len del: bm_insert.rep_eq)

lemma index_ok_replace:
  assumes "index_ok key vs m" and "bm_get vs vid = Some w" and "key v = key w"
  shows "index_ok key (bm_insert vid v vs) m"
  using assms bm_len_insert_old [OF assms(2), of v]
  by (auto simp: index_ok_def mirrors_def simp del: bm_insert.rep_eq)

lemma index_ok_new:
  assumes "index_ok key vs m" and "bm_get vs vid = None"
  shows "index_ok key (bm_insert vid v vs) (idx_add (key v) vid m)"
proof -
  have "bm_get (bm_insert vid v vs) = (bm_get vs)(vid \<mapsto> v)" by (simp add: fun_eq_iff)
  then show ?thesis
    using assms book_index.mirrors_add [of m key "bm_get vs" vid v] book_index.mirrors_count_add [of m key "bm_get vs" vid]
      bm_len_insert_new [OF assms(2), of v]
    by (simp add: index_ok_def del: bm_insert.rep_eq)
qed

lemma index_ok_remove:
  assumes "index_ok key vs m" and "bm_get vs vid = Some w"
  shows "index_ok key (bm_remove vid vs) (idx_del (key w) vid m)"
proof -
  have "bm_get (bm_remove vid vs) = (bm_get vs)(vid := None)" by (simp add: fun_eq_iff)
  moreover have "bm_has vs vid" using assms(2) by (simp add: bm_has_def)
  ultimately show ?thesis
    using assms book_index.mirrors_del [of m key "bm_get vs" vid w] book_index.mirrors_count_del [of m key "bm_get vs" vid w]
    by (auto simp: index_ok_def bm_len_remove)
qed

lemma remove_insert_same: "bm_remove k (bm_insert k v m) = bm_remove k m"
  by (rule bm_ext) simp

lemma book_part_replace:
  assumes "book_part vid s" and "bm_get (ic_vault_id_to_vaults s) vid = Some w"
    and "iv_owner v = iv_owner w" "iv_collateral_type v = iv_collateral_type w" "iv_vault_id v = iv_vault_id w"
  shows "book_part vid (s\<lparr>ic_vault_id_to_vaults := bm_insert vid v (ic_vault_id_to_vaults s)\<rparr>)"
  using assms
  by (auto simp: book_part_def ids_ok_def intro: index_ok_replace cr_part_same_rest [OF _ remove_insert_same])

lemma book_ok_replace:
  assumes "book_ok s" and "bm_get (ic_vault_id_to_vaults s) vid = Some w"
    and "iv_owner v = iv_owner w" "iv_collateral_type v = iv_collateral_type w" "iv_vault_id v = iv_vault_id w"
  shows "book_ok (s\<lparr>ic_vault_id_to_vaults := bm_insert vid v (ic_vault_id_to_vaults s)\<rparr>)"
proof -
  have "cr_ok (bm_insert vid v (ic_vault_id_to_vaults s)) (ic_vault_cr_index s)"
    using assms(1) bm_len_insert_old [OF assms(2), of v] assms(2)
    by (auto simp: book_ok_def cr_ok_def bm_has_def simp del: bm_insert.rep_eq)
  then show ?thesis using assms by (auto simp: book_ok_def ids_ok_def intro: index_ok_replace)
qed

lemma reindex_book:
  assumes "book_part vid s" and "reindex_vault_cr D vid s = Some t"
  shows "book_ok t" and "ic_vault_id_to_vaults t = ic_vault_id_to_vaults s"
proof -
  show "ic_vault_id_to_vaults t = ic_vault_id_to_vaults s"
    using assms(2) by (auto simp: reindex_vault_cr_def unindex_vault_cr_eq Let_def split: option.splits)
  show "book_ok t"
  proof (cases "bm_get (ic_vault_id_to_vaults s) vid")
    case None
    then have "bm_remove vid (ic_vault_id_to_vaults s) = ic_vault_id_to_vaults s" by (intro bm_ext) simp
    then have "cr_ok (ic_vault_id_to_vaults s) (unindexed vid (ic_vault_cr_index s))"
      using cr_removed [of vid "ic_vault_id_to_vaults s"] assms(1) by (simp add: book_part_def)
    then show ?thesis using assms None by (auto simp: reindex_vault_cr_def unindex_vault_cr_eq book_ok_def book_part_def Let_def)
  next
    case (Some v)
    then have "cr_ok (ic_vault_id_to_vaults s) (idx_add k vid (unindexed vid (ic_vault_cr_index s)))" for k
      using cr_rekeyed assms(1) by (auto simp: book_part_def bm_has_def)
    then show ?thesis using assms Some by (auto simp: reindex_vault_cr_def unindex_vault_cr_eq book_ok_def book_part_def Let_def)
  qed
qed

lemma rekeyed_book:
  assumes "book_ok s" and "keeps_keys f" and "rekeyed D vid f s = Some t"
  shows "book_ok t"
proof -
  obtain v where v: "bm_get (ic_vault_id_to_vaults s) vid = Some v"
    and r: "reindex_vault_cr D vid (s\<lparr>ic_vault_id_to_vaults := bm_insert vid (f v) (ic_vault_id_to_vaults s)\<rparr>) = Some t"
    using assms(3) by (auto simp: rekeyed_def bm_has_def bm_modify_def split: if_splits)
  have "book_part vid (s\<lparr>ic_vault_id_to_vaults := bm_insert vid (f v) (ic_vault_id_to_vaults s)\<rparr>)"
    using assms(2) by (intro book_part_replace [OF book_ok_part [OF assms(1)] v]) (simp_all add: keeps_keys_def)
  from reindex_book(1) [OF this r] show ?thesis .
qed

lemma removed_book:
  assumes "book_ok s"
  shows "book_ok (fst (remove_vault_and_unindex vid s))"
proof (cases "bm_get (ic_vault_id_to_vaults s) vid")
  case (Some v)
  note b = assms [unfolded book_ok_def]
  have "cr_ok (bm_remove vid (ic_vault_id_to_vaults s)) (unindexed vid (ic_vault_cr_index s))"
    using cr_removed cr_ok_part b by blast
  then show ?thesis
    using Some b index_ok_remove [of iv_owner "ic_vault_id_to_vaults s" _ vid v]
      index_ok_remove [of iv_collateral_type "ic_vault_id_to_vaults s" _ vid v]
    by (simp add: remove_vault_and_unindex_def unindex_vault_cr_eq unindex_vault_by_collateral_def book_ok_def ids_ok_def)
qed (simp add: remove_vault_and_unindex_def assms)

section \<open>Every operation keeps the book\<close>

lemma index_ok_move:
  assumes ok: "index_ok key vs m" and old: "bm_get vs vid = Some w"
  shows "index_ok key (bm_insert vid v vs) (idx_add (key v) vid (if key w \<noteq> key v then idx_del (key w) vid m else m))"
proof (cases "key w = key v")
  case True
  have "in_index (idx_add (key v) vid m) = in_index m \<and> index_size (idx_add (key v) vid m) = index_size m"
    using ok old True by (intro book_index.mirrors_add_again [of m key "bm_get vs" vid w]) (simp_all add: index_ok_def)
  then show ?thesis using index_ok_replace [OF ok old, of v] True by (simp add: index_ok_def)
next
  case False
  have "bm_insert vid v (bm_remove vid vs) = bm_insert vid v vs" by (rule bm_ext) simp
  then show ?thesis using False index_ok_new [OF index_ok_remove [OF ok old], of vid v] by simp
qed

lemma opened_book:
  assumes "book_ok s" and "open_vault D v s = Some t"
  shows "book_ok t"
proof -
  note b = assms(1) [unfolded book_ok_def]
  let ?vid = "iv_vault_id v" and ?vs = "bm_insert (iv_vault_id v) v (ic_vault_id_to_vaults s)"
  have rest: "cr_part ?vid ?vs (ic_vault_cr_index s)" "ids_ok ?vs"
    using b cr_part_same_rest [OF cr_ok_part remove_insert_same] by (auto simp: ids_ok_def)
  have "\<exists>u. book_part ?vid u \<and> reindex_vault_cr D ?vid u = Some t"
  proof (cases "bm_get (ic_vault_id_to_vaults s) ?vid")
    case None
    then show ?thesis
      using assms(2) rest b index_ok_new [of iv_owner _ _ ?vid v] index_ok_new [of iv_collateral_type _ _ ?vid v]
      by (intro exI conjI, rule_tac [2] assms(2) [unfolded open_vault_def Let_def])
        (simp add: put_vault_def index_vault_by_collateral_def book_part_def)
  next
    case (Some w)
    note owner = index_ok_move [of iv_owner "ic_vault_id_to_vaults s" "ic_principal_to_vault_ids s", OF _ Some, of v]
      and ct = index_ok_move [of iv_collateral_type "ic_vault_id_to_vaults s" "ic_collateral_to_vault_ids s", OF _ Some, of v]
    show ?thesis
      using rest b owner ct Some
      by (intro exI conjI, rule_tac [2] assms(2) [unfolded open_vault_def Let_def])
        (auto simp: put_vault_def index_vault_by_collateral_def unindex_vault_by_collateral_def book_part_def split: if_splits)
  qed
  then show ?thesis using reindex_book(1) by blast
qed

lemma fold_opt_inv:
  assumes "\<And>x b b'. x \<in> set xs \<Longrightarrow> P b \<Longrightarrow> f x b = Some b' \<Longrightarrow> P b'" and "P b" and "fold_opt f xs b = Some b'"
  shows "P b'"
  using assms
proof (induction xs arbitrary: b)
  case (Cons x xs)
  from Cons.prems(3) obtain c where "f x b = Some c" "fold_opt f xs c = Some b'" by (auto simp: bind_eq_Some_conv)
  with Cons.IH [of c] Cons.prems(1,2) show ?case by auto
qed simp

lemma deducted_keeps: "keeps_keys (deducted c i)"
  by (simp add: keeps_keys_def deducted_def Let_def)

lemma deduct_book: "book_ok s \<Longrightarrow> deduct_amount_from_vault D c i vid s = Some (t, k) \<Longrightarrow> book_ok t"
  by (auto simp: deduct_amount_from_vault_def Let_def bind_eq_Some_conv intro: rekeyed_book [OF _ deducted_keeps])

lemma applied_book: "book_ok s \<Longrightarrow> apply_vault_redemptions D rs s = Some t \<Longrightarrow> book_ok t"
  unfolding apply_vault_redemptions_def
  by (erule (1) fold_opt_inv [rotated]) (auto simp: apply_vault_redemption_def intro: deduct_book split: if_splits)

interpretation redeeming_book: redemption_invariant D UNIV "\<lambda>acc. book_ok (fst acc)" for D
  by unfold_locales (auto dest: deduct_book)

lemma redeemed_book: "book_ok s \<Longrightarrow> redeem_on_vaults D locked amt cp ct s = Some (t, rs) \<Longrightarrow> book_ok t"
  using redeeming_book.redeemed by fastforce

lemma bm_map_len: "length (bm_entries (bm_map f m)) = length (bm_entries m)"
  by simp

lemma mapped_book:
  assumes "book_ok s" and "keeps_keys f"
  shows "book_ok (s\<lparr>ic_vault_id_to_vaults := bm_map f (ic_vault_id_to_vaults s)\<rparr>)"
  using assms
  by (auto simp: book_ok_def index_ok_def mirrors_def cr_ok_def ids_ok_def keeps_keys_def bm_has_def)

lemma book_ok_cong:
  assumes "ic_vault_id_to_vaults t = ic_vault_id_to_vaults s" "ic_principal_to_vault_ids t = ic_principal_to_vault_ids s"
    "ic_collateral_to_vault_ids t = ic_collateral_to_vault_ids s" "ic_vault_cr_index t = ic_vault_cr_index s"
  shows "book_ok t \<longleftrightarrow> book_ok s"
  using assms by (simp add: book_ok_def)

lemma harvested_book:
  assumes "book_ok s"
  shows "book_ok (harvest_accrued_interest s)"
proof -
  have "book_ok (s\<lparr>ic_vault_id_to_vaults := bm_map (\<lambda>v. if iv_accrued_interest v > 0 then v\<lparr>iv_accrued_interest := 0\<rparr> else v)
      (ic_vault_id_to_vaults s)\<rparr>)"
    by (rule mapped_book [OF assms]) (simp add: keeps_keys_def)
  then show ?thesis by (rule book_ok_cong [THEN iffD1, rotated -1]) (simp_all add: harvest_accrued_interest_def)
qed

lemma accrued_vault_keeps:
  "accrued_vault D rate elapsed now v = Some w \<Longrightarrow>
     iv_owner w = iv_owner v \<and> iv_collateral_type w = iv_collateral_type v \<and> iv_vault_id w = iv_vault_id v"
  by (auto simp: accrued_vault_def bind_eq_Some_conv split: option.splits)

lemma accrued_replace:
  assumes "book_ok s" and "bm_get (ic_vault_id_to_vaults s) vid = Some v" and "accrued_vault D rate elapsed now v = Some w"
  shows "book_ok (s\<lparr>ic_vault_id_to_vaults := bm_insert vid w (ic_vault_id_to_vaults s)\<rparr>)"
  using accrued_vault_keeps [OF assms(3)] by (intro book_ok_replace [OF assms(1,2)]) simp_all

lemma accrued_one_book: "book_ok s \<Longrightarrow> accrue_single_vault D vid now s = Some t \<Longrightarrow> book_ok t"
  by (auto simp: accrue_single_vault_def bind_eq_Some_conv intro: accrued_replace split: option.splits if_splits)

lemma accrued_all_book:
  assumes "book_ok s" and "accrue_all_vault_interest D now s = Some t"
  shows "book_ok t"
proof -
  from assms(2) obtain accruals vs where t: "t = s\<lparr>ic_vault_id_to_vaults := vs\<rparr>"
    and run: "fold_opt (\<lambda>(vid, rate, elapsed) vs.
               case bm_get vs vid of
                 None \<Rightarrow> Some vs
               | Some v \<Rightarrow> map_option (\<lambda>v'. bm_insert vid v' vs) (accrued_vault D rate elapsed now v))
             accruals (ic_vault_id_to_vaults s) = Some vs"
    by (auto simp: accrue_all_vault_interest_def bind_eq_Some_conv)
  have "book_ok (s\<lparr>ic_vault_id_to_vaults := vs\<rparr>)"
  proof (rule fold_opt_inv [OF _ _ run, where P = "\<lambda>vs. book_ok (s\<lparr>ic_vault_id_to_vaults := vs\<rparr>)"])
    fix x vs vs'
    assume ok: "book_ok (s\<lparr>ic_vault_id_to_vaults := vs\<rparr>)" and step: "(case x of (vid, rate, elapsed) \<Rightarrow> \<lambda>vs.
               case bm_get vs vid of
                 None \<Rightarrow> Some vs
               | Some v \<Rightarrow> map_option (\<lambda>v'. bm_insert vid v' vs) (accrued_vault D rate elapsed now v)) vs = Some vs'"
    show "book_ok (s\<lparr>ic_vault_id_to_vaults := vs'\<rparr>)"
    proof (cases x)
      case (fields vid rate elapsed)
      show ?thesis
      proof (cases "bm_get vs vid")
        case None
        then show ?thesis using ok step by (simp add: fields)
      next
        case (Some v)
        with step obtain w where "accrued_vault D rate elapsed now v = Some w" "vs' = bm_insert vid w vs" by (auto simp: fields)
        then show ?thesis using accrued_replace [OF ok, of vid v] Some by simp
      qed
    qed
  qed (simp add: assms(1))
  then show ?thesis by (simp add: t)
qed

lemma cleaned_book:
  "book_part vid s \<Longrightarrow> book_ok s \<or> \<not> b \<Longrightarrow> cleanup_if_drained D vid s = Some (t, b) \<Longrightarrow> book_ok t"
  by (auto simp: cleanup_if_drained_def Let_def removed_book intro: reindex_book(1) split: if_splits option.splits)

lemma liquidated_book: "book_ok s \<Longrightarrow> liquidate_vault D vid mode s = Some (t, k) \<Longrightarrow> book_ok t"
  by (auto simp: liquidate_vault_def Let_def bind_eq_Some_conv removed_book split: option.splits if_splits prod.splits
      elim!: rekeyed_book [rotated 2]) (simp_all add: keeps_keys_def)

lemma repaid_book: "book_ok s \<Longrightarrow> repay_to_vault D vid amt s = Some (t, i, p) \<Longrightarrow> book_ok t"
  by (auto simp: repay_to_vault_def Let_def bind_eq_Some_conv elim!: rekeyed_book [rotated 2]) (simp_all add: keeps_keys_def)

lemma moved_book:
  "book_ok s \<Longrightarrow> borrow_from_vault D vid amt s = Some t \<Longrightarrow> book_ok t"
  "book_ok s \<Longrightarrow> add_margin_to_vault D vid amt s = Some t \<Longrightarrow> book_ok t"
  "book_ok s \<Longrightarrow> remove_margin_from_vault D vid amt s = Some t \<Longrightarrow> book_ok t"
  unfolding borrow_from_vault_def add_margin_to_vault_def remove_margin_from_vault_def
  by (erule rekeyed_book [rotated 2], assumption, simp add: keeps_keys_def)+

lemma closed_book: "book_ok s \<Longrightarrow> close_vault vid s = Some t \<Longrightarrow> book_ok t"
  using removed_book [of s vid] by (auto simp: close_vault_def split: prod.splits option.splits)

lemma reindexed_book: "book_ok s \<Longrightarrow> reindex_vault_cr D vid s = Some t \<Longrightarrow> book_ok t"
  using reindex_book(1) [OF book_ok_part] .

lemma redistributed_book:
  assumes "book_ok s" and "redistribute_vault D vid s = Some t"
  shows "book_ok t"
proof -
  have "book_ok (s\<lparr>ic_vault_id_to_vaults := foldl (\<lambda>vs e. bm_modify (de_vault_id e) (receive_share e) vs) vs entries\<rparr>)"
    if "book_ok (s\<lparr>ic_vault_id_to_vaults := vs\<rparr>)" for entries vs
    using that
  proof (induction entries arbitrary: vs)
    case (Cons e es)
    have "book_ok (s\<lparr>ic_vault_id_to_vaults := bm_modify (de_vault_id e) (receive_share e) vs\<rparr>)"
      using Cons.prems book_ok_replace [OF Cons.prems, of "de_vault_id e"]
      by (auto simp: bm_modify_def receive_share_def split: option.splits)
    from Cons.IH [OF this] show ?case by simp
  qed simp
  note shared = this [of "ic_vault_id_to_vaults s"]
  from assms(2) obtain entries where run: "fold_opt (\<lambda>e. reindex_vault_cr D (de_vault_id e)) entries
      (fst (remove_vault_and_unindex vid (s\<lparr>ic_vault_id_to_vaults :=
         foldl (\<lambda>vs e. bm_modify (de_vault_id e) (receive_share e) vs) (ic_vault_id_to_vaults s) entries\<rparr>))) = Some t"
    by (auto simp: redistribute_vault_def Let_def bind_eq_Some_conv)
  show ?thesis
    by (rule fold_opt_inv [OF _ _ run, where P = book_ok]) (use shared assms(1) in \<open>auto intro: reindexed_book removed_book\<close>)
qed

end
