(* ===== verification/Icp_Sample.thy ===== *)
theory Icp_Sample
  imports Icp_Book Complex_Main
begin

text \<open>
  A small vault book for the witnesses: decimals are rational numbers, one collateral at 5 USD with
  eight decimals, three vaults of different collateral ratios.
\<close>

definition rat_to_u64 :: "rat \<Rightarrow> u64 option" where
  "rat_to_u64 x = (if x < 0 \<or> of_nat u64_max < x then None else Some (nat \<lfloor>x\<rfloor>))"

definition rat_decimal :: "(rat, rat) decimal" where
  "rat_decimal = \<lparr>dec_from_u128 = (\<lambda>n. Some (of_nat n)), dec_from_u64 = of_nat, dec_one = 1, dec_add = (\<lambda>a b. Some (a + b)),
     dec_mul = (\<lambda>a b. Some (a * b)), dec_div = (\<lambda>a b. if b = 0 then None else Some (a / b)),
     dec_ceil = (\<lambda>x. of_int \<lceil>x\<rceil>), dec_to_u128 = (\<lambda>x. if x < 0 then None else Some (nat \<lfloor>x\<rfloor>)),
     dec_zero = 0, dec_largest = 79228162514264337593543950335, dec_lit = (\<lambda>n k. of_nat n / 10 ^ k),
     dec_sub = (\<lambda>a b. Some (a - b)), dec_le = (\<le>), dec_to_u64 = rat_to_u64,
     dec_from_f64 = Some, dec_to_f64 = (\<lambda>x. x)\<rparr>"

definition sample_ct :: principal where
  "sample_ct = 7"

definition sample_config :: "(rat, rat) collateral_config" where
  "sample_config = \<lparr>cf_decimals = 8, cf_liquidation_ratio = 133 / 100, cf_borrow_threshold_ratio = 3 / 2, cf_liquidation_bonus = 115 / 100,
     cf_borrowing_fee = 0, cf_interest_rate_apr = 1 / 20, cf_debt_ceiling = u64_max, cf_min_vault_debt = 0, cf_ledger_fee = 10000,
     cf_status = CsActive, cf_last_price = Some 5, cf_last_price_timestamp = Some 1, cf_redemption_fee_floor = 0,
     cf_redemption_fee_ceiling = 1, cf_current_base_rate = 0, cf_last_redemption_time = 0, cf_recovery_target_cr = 155 / 100,
     cf_min_collateral_deposit = 0, cf_recovery_borrowing_fee = None, cf_recovery_interest_rate_apr = None, cf_healthy_cr = None,
     cf_rate_curve = None, cf_redemption_tier = 1, cf_custody_kind = None\<rparr>"

definition sample_empty :: "(rat, rat) ics" where
  "sample_empty = \<lparr>ic_vault_id_to_vaults = bm_empty, ic_principal_to_vault_ids = bm_empty, ic_collateral_to_vault_ids = bm_empty,
     ic_vault_cr_index = bm_empty, ic_next_available_vault_id = 1, ic_collateral_configs = bm_insert sample_ct sample_config bm_empty,
     ic_icp_ledger_principal = sample_ct, ic_last_icp_rate = Some 5, ic_last_icp_timestamp = Some 1, ic_mode = GeneralAvailability,
     ic_frozen = False, ic_manual_mode_override = False, ic_mode_triggered_by_oracle = False, ic_total_collateral_ratio = 2,
     ic_recovery_mode_threshold = 3 / 2, ic_weighted_avg_recovery_cr = 3 / 2, ic_weighted_avg_warning_cr = 2,
     ic_weighted_avg_healthy_cr = 2, ic_recovery_cr_multiplier = 1, ic_fee = 0, ic_liquidation_bonus = 115 / 100,
     ic_redemption_fee_floor = 0, ic_redemption_fee_ceiling = 1, ic_current_base_rate = 0, ic_last_redemption_time = 0,
     ic_rmr_floor = 1, ic_rmr_ceiling = 1, ic_rmr_floor_cr = 2, ic_rmr_ceiling_cr = 2, ic_global_rate_curve = [],
     ic_recovery_rate_curve = [], ic_borrowing_fee_curve = None, ic_pending_interest_for_pools = bm_empty,
     ic_pending_treasury_interest = 0, ic_protocol_deficit_icusd = 0, ic_total_deficit_repaid_icusd = 0,
     ic_deficit_repayment_fraction = 1 / 2, ic_deficit_readonly_threshold_e8s = 0, ic_breaker_window_ns = 100,
     ic_breaker_window_debt_ceiling_e8s = 50, ic_recent_liquidations = [], ic_liquidation_breaker_tripped = False,
     ic_check_vaults_alert_band_bps = 1000, ic_check_vaults_full_sweep_every_n_ticks = 10, ic_ticks_since_full_sweep = 0,
     ic_bot_cr_tolerance_bps = 0, ic_liquidity_pool = bm_empty, ic_liquidity_returns = bm_empty\<rparr>"

definition sample_vault :: "u64 \<Rightarrow> u64 \<Rightarrow> u64 \<Rightarrow> icp_vault" where
  "sample_vault vid debt collateral = \<lparr>iv_owner = 100 + vid, iv_borrowed_icusd_amount = debt, iv_collateral_amount = collateral,
     iv_vault_id = vid, iv_collateral_type = sample_ct, iv_last_accrual_time = 0, iv_accrued_interest = 0, iv_bot_processing = False\<rparr>"

definition sample_opens :: "icp_vault list \<Rightarrow> (rat, rat) ics option" where
  "sample_opens vs = fold_opt (open_vault rat_decimal) vs sample_empty"

text \<open>Ratios 2 and 4\<close>

definition sample_book :: "(rat, rat) ics" where
  "sample_book = sample_empty\<lparr>
     ic_vault_id_to_vaults := bm_insert 2 (sample_vault 2 250 200) (bm_insert 1 (sample_vault 1 500 200) bm_empty),
     ic_principal_to_vault_ids := bm_insert 102 (bs_insert 2 bs_empty) (bm_insert 101 (bs_insert 1 bs_empty) bm_empty),
     ic_collateral_to_vault_ids := bm_insert 7 (bs_insert 2 (bs_insert 1 bs_empty)) bm_empty,
     ic_vault_cr_index := bm_insert 40000 (bs_insert 2 bs_empty) (bm_insert 20000 (bs_insert 1 bs_empty) bm_empty)\<rparr>"

lemma floor_rat_numerals [simp]: "\<lfloor>numeral a / numeral b :: rat\<rfloor> = numeral a div numeral b"
  using floor_divide_of_int_eq [of "numeral a" "numeral b", where ?'a = rat] by simp

lemmas sample_eval = sample_opens_def sample_empty_def sample_vault_def sample_ct_def sample_config_def rat_decimal_def rat_to_u64_def
  reindex_vault_cr_def unindex_vault_cr_def idx_add_def idx_del_def bm_get_or_def Let_def compute_collateral_ratio_def
  get_collateral_config_def resolve_ct_def principal_anonymous_def collateral_usd_value_def token_div_token_def price_or_zero_def
  wrap64_def u64_max_def cr_index_key_def

lemma sample_book_opened: "sample_opens [sample_vault 1 500 200, sample_vault 2 250 200] = Some sample_book"
  by (simp add: sample_eval sample_book_def open_vault_def put_vault_def index_vault_by_collateral_def)

lemma sample_vault_debt [simp]: "iv_borrowed_icusd_amount (sample_vault vid debt collateral) = debt"
  by (simp add: sample_vault_def)

lemma sample_book_vault: "bm_get (ic_vault_id_to_vaults sample_book) 1 = Some (sample_vault 1 500 200)"
  by (simp add: sample_book_def)

lemma sample_entries: "redemption_entries rat_decimal {} sample_book sample_ct = Some [(2, 1), (4, 2)]"
  by (simp add: redemption_entries_def sample_book_def redeemable_def bm_values_def sort_by_def sample_eval)

lemma sample_price: "redemption_price rat_decimal sample_book 5 sample_ct = (5, 8)"
  by (simp add: redemption_price_def sample_book_def sample_eval)

lemma sample_deduct: "\<exists>t. deduct_amount_from_vault rat_decimal 60 300 1 sample_book = Some (t, 60)"
  by (simp add: sample_book_def deduct_amount_from_vault_def rekeyed_def deducted_def bm_modify_def sat_sub_def sample_eval)

text \<open>300 redeemed: less than the 333 that would lift the first vault to the ratio of the second\<close>

lemma sample_redemption: "\<exists>t. redeem_on_vaults rat_decimal {} 300 5 sample_ct sample_book = Some (t, [touched 1 300 60])"
proof -
  obtain t where t: "deduct_amount_from_vault rat_decimal 60 300 1 sample_book = Some (t, 60)" using sample_deduct by blast
  have ops: "dec_le rat_decimal = (\<le>)" "dec_sub rat_decimal 4 2 = Some 2" "dec_sub rat_decimal 4 1 = Some 3"
    "dec_one rat_decimal = 1" "dec_zero rat_decimal = 0"
    by (simp_all add: rat_decimal_def)
  have needed: "band_needed rat_decimal 500 2 3 = Some 333" by (simp add: band_needed_def sample_eval)
  have seized: "icusd_to_collateral_amount rat_decimal 300 5 8 = Some 60" by (simp add: icusd_to_collateral_amount_def sample_eval)
  have fuel: "Suc (2 * length [(2, 1), (4, 2)]) = Suc 4" by simp
  have all: "wrap_sub128 300 0 = 300" by (simp add: wrap_sub128_def wrap128_def)
  show ?thesis
    unfolding redeem_on_vaults_def sample_entries sample_price bind.bind_lunit fuel water_fill.simps
    using t sample_book_vault needed seized
    by (simp add: ops same_cr_def vault_debt_def wrap128_def all distribute_redemption_across_band_def touched_def Let_def)
qed

end
