(* ===== verification/Icp_Guarantees.thy ===== *)
theory Icp_Guarantees
  imports Icp_Sample
begin

text \<open>
  What the vault book guarantees: in every reachable state its indexes mirror the vaults, the
  canister's own self-check passes and a full scan finds exactly the unhealthy vaults; a redemption
  conserves debt and collateral and can be replayed from its record; repayment, redistribution and
  the liquidation breaker account exactly. Decimals are instantiated by rational numbers in the
  witnesses.
\<close>

section \<open>Repairing an index\<close>

lemma index_fold_mem:
  "in_index (foldl (\<lambda>m (vid, v). idx_add (iv_collateral_type v) vid m) m es) k v
     \<longleftrightarrow> in_index m k v \<or> (\<exists>w. (v, w) \<in> set es \<and> iv_collateral_type w = k)"
  by (induction es arbitrary: m) (auto simp: in_index_add)

lemma index_fold_size:
  assumes "distinct (map fst es)" and "\<And>k v. v \<in> fst ` set es \<Longrightarrow> \<not> in_index m k v"
  shows "index_size (foldl (\<lambda>m (vid, v). idx_add (iv_collateral_type v) vid m) m es) = index_size m + length es"
  using assms
proof (induction es arbitrary: m)
  case (Cons e es)
  obtain a w where e: "e = (a, w)" by (cases e)
  have "\<not> in_index (idx_add (iv_collateral_type w) a m) k v" if "v \<in> fst ` set es" for k v
    using Cons.prems that by (auto simp: e in_index_add)
  with Cons show ?case by (simp add: e index_size_add)
qed simp

lemma fresh_index_ok: "index_ok iv_collateral_type vs (fresh_collateral_index vs)"
proof -
  have none: "\<not> in_index (bm_empty :: principal vault_index) k v" for k v by (simp add: in_index_def)
  note f = index_fold_mem [of bm_empty "bm_entries vs", folded fresh_collateral_index_def]
    index_fold_size [OF bm.entries_distinct [of vs], of bm_empty, folded fresh_collateral_index_def]
  have "in_index (fresh_collateral_index vs) k v \<longleftrightarrow> (\<exists>w. bm_get vs v = Some w \<and> iv_collateral_type w = k)" for k v
    using f(1) [of k v] none by (simp add: bm.in_entries_iff)
  then show ?thesis using f(2) none by (simp add: index_ok_def mirrors_def index_size_def)
qed

lemma rebuilt_book: "book_ok s \<Longrightarrow> book_ok (fst (rebuild_collateral_index s))"
  using fresh_index_ok by (simp add: rebuild_collateral_index_def book_ok_def Let_def)

lemma sum_filter_zero: "(\<And>x. x \<in> set xs \<Longrightarrow> \<not> P x \<Longrightarrow> f x = 0) \<Longrightarrow> sum_list (map f (filter P xs)) = sum_list (map f xs)" for f :: "'a \<Rightarrow> nat"
  by (induction xs) auto

lemma pruned_index:
  fixes m :: "principal vault_index"
  shows "in_index (bm_retain (\<lambda>_ ids. bm_entries ids \<noteq> []) m) k v \<longleftrightarrow> in_index m k v"
    and "index_size (bm_retain (\<lambda>_ ids. bm_entries ids \<noteq> []) m) = index_size m"
proof -
  show "in_index (bm_retain (\<lambda>_ ids. bm_entries ids \<noteq> []) m) k v \<longleftrightarrow> in_index m k v"
    by (auto simp: in_index_def bm_no_entries split: option.splits)
  show "index_size (bm_retain (\<lambda>_ ids. bm_entries ids \<noteq> []) m) = index_size m"
    unfolding index_size_def bm_sum_def bm_retain.rep_eq by (rule sum_filter_zero) auto
qed

lemma pruned_book: "book_ok s \<Longrightarrow> book_ok (fst (prune_empty_principal_entries s))"
  using pruned_index by (simp add: prune_empty_principal_entries_def book_ok_def index_ok_def Let_def mirrors_def)

section \<open>The book as a state machine\<close>

text \<open>The operations of the state in any order; a partial liquidation of \<^verbatim>\<open>vault.rs\<close> changes amounts of one
  vault and then cleans up. Everything that leaves vaults and indexes alone (prices, mode, deficit,
  breaker, configuration) is \<open>elsewhere\<close>.\<close>

definition same_book :: "('d, 'f) ics \<Rightarrow> ('d, 'f) ics \<Rightarrow> bool" where
  "same_book s t \<longleftrightarrow> ic_vault_id_to_vaults t = ic_vault_id_to_vaults s \<and> ic_principal_to_vault_ids t = ic_principal_to_vault_ids s
     \<and> ic_collateral_to_vault_ids t = ic_collateral_to_vault_ids s \<and> ic_vault_cr_index t = ic_vault_cr_index s"

inductive book_step :: "('d, 'f) decimal \<Rightarrow> ('d, 'f) ics \<Rightarrow> ('d, 'f) ics \<Rightarrow> bool"
  for D :: "('d, 'f) decimal"
where
  opened: "open_vault D v s = Some t \<Longrightarrow> book_step D s t"
| closed: "close_vault vid s = Some t \<Longrightarrow> book_step D s t"
| borrowed: "borrow_from_vault D vid amt s = Some t \<Longrightarrow> book_step D s t"
| margin_added: "add_margin_to_vault D vid amt s = Some t \<Longrightarrow> book_step D s t"
| margin_removed: "remove_margin_from_vault D vid amt s = Some t \<Longrightarrow> book_step D s t"
| repaid: "repay_to_vault D vid amt s = Some (t, i, p) \<Longrightarrow> book_step D s t"
| accrued: "accrue_single_vault D vid now s = Some t \<Longrightarrow> book_step D s t"
| accrued_all: "accrue_all_vault_interest D now s = Some t \<Longrightarrow> book_step D s t"
| harvested: "book_step D s (harvest_accrued_interest s)"
| liquidated: "liquidate_vault D vid mode s = Some (t, k) \<Longrightarrow> book_step D s t"
| partly_liquidated: "keeps_keys f
    \<Longrightarrow> cleanup_if_drained D vid (s\<lparr>ic_vault_id_to_vaults := bm_modify vid f (ic_vault_id_to_vaults s)\<rparr>) = Some (t, b)
    \<Longrightarrow> book_step D s t"
| redistributed: "redistribute_vault D vid s = Some t \<Longrightarrow> book_step D s t"
| redeemed: "redeem_on_vaults D locked amt cp ct s = Some (t, rs) \<Longrightarrow> book_step D s t"
| replayed: "apply_vault_redemptions D rs s = Some t \<Longrightarrow> book_step D s t"
| rebuilt: "book_step D s (fst (rebuild_collateral_index s))"
| pruned: "book_step D s (fst (prune_empty_principal_entries s))"
| elsewhere: "same_book s t \<Longrightarrow> book_step D s t"

lemma modified_book: "book_ok s \<Longrightarrow> keeps_keys f \<Longrightarrow> book_ok (s\<lparr>ic_vault_id_to_vaults := bm_modify vid f (ic_vault_id_to_vaults s)\<rparr>)"
  using book_ok_replace [of s vid _ "f _"] by (auto simp: bm_modify_def keeps_keys_def split: option.splits)

lemma book_step_ok: "book_step D s t \<Longrightarrow> book_ok s \<Longrightarrow> book_ok t"
proof (induction rule: book_step.induct)
  case (partly_liquidated f vid s t b)
  have "book_ok (s\<lparr>ic_vault_id_to_vaults := bm_modify vid f (ic_vault_id_to_vaults s)\<rparr>)"
    by (rule modified_book [OF partly_liquidated.prems partly_liquidated.hyps(1)])
  then show ?case using cleaned_book [OF book_ok_part _ partly_liquidated.hyps(2)] by blast
next
  case (elsewhere s t)
  then show ?case by (simp add: same_book_def book_ok_def)
qed (blast intro: opened_book closed_book moved_book repaid_book accrued_one_book accrued_all_book harvested_book
    liquidated_book redistributed_book redeemed_book applied_book rebuilt_book pruned_book)+

definition empty_book :: "('d, 'f) ics \<Rightarrow> ('d, 'f) ics" where
  "empty_book s = s\<lparr>ic_vault_id_to_vaults := bm_empty, ic_principal_to_vault_ids := bm_empty,
     ic_collateral_to_vault_ids := bm_empty, ic_vault_cr_index := bm_empty\<rparr>"

lemma empty_book_ok: "book_ok (empty_book s)"
  by (simp add: empty_book_def book_ok_def index_ok_def mirrors_def cr_ok_def one_bucket_def ids_ok_def in_index_def index_size_def)

interpretation vault_book: invariant_system "empty_book s0" "book_step D" book_ok for s0 D
  by unfold_locales (fact empty_book_ok, rule book_step_ok)

lemma in_index_pairs: "(k, v) \<in> set (index_pairs m) \<longleftrightarrow> in_index m k v"
proof -
  have "(k, v) \<in> set (index_pairs m) \<longleftrightarrow> (\<exists>ids. (k, ids) \<in> set (bm_entries m) \<and> v \<in> set (bm_keys ids))"
    by (force simp: index_pairs_def)
  moreover have "v \<in> set (bm_keys ids) \<longleftrightarrow> bm_has ids v" for ids :: "u64 bset"
    by (force simp: bm_keys_def bm_has_def bm.in_entries_iff [symmetric])
  ultimately show ?thesis by (auto simp: in_index_def bm.in_entries_iff split: option.splits)
qed

lemma book_ok_checks: "book_ok s \<Longrightarrow> check_invariants s = Ok ()"
proof -
  assume ok: "book_ok s"
  let ?vs = "ic_vault_id_to_vaults s"
  have owner: "list_all (\<lambda>(_, vid). bm_has ?vs vid) (index_pairs (ic_principal_to_vault_ids s))"
    using ok by (auto simp: list_all_iff in_index_pairs book_ok_def index_ok_def mirrors_def bm_has_def)
  have none: "find (\<lambda>(ct, vid). case bm_get ?vs vid of None \<Rightarrow> True | Some v \<Rightarrow> iv_collateral_type v \<noteq> ct)
      (index_pairs (ic_collateral_to_vault_ids s)) = None"
    using ok by (auto simp: find_None_iff in_index_pairs book_ok_def index_ok_def mirrors_def)
  show ?thesis using ok owner none by (simp add: check_invariants_def book_ok_def index_ok_def)
qed

lemma sample_book_reachable: "(book_step rat_decimal)\<^sup>*\<^sup>* (empty_book sample_empty) sample_book"
proof -
  have empty: "empty_book sample_empty = sample_empty" by (simp add: empty_book_def sample_empty_def)
  obtain s1 where 1: "open_vault rat_decimal (sample_vault 1 500 200) sample_empty = Some s1"
    and 2: "open_vault rat_decimal (sample_vault 2 250 200) s1 = Some sample_book"
    using sample_book_opened by (auto simp: sample_opens_def bind_eq_Some_conv)
  show ?thesis unfolding empty using book_step.opened [OF 1] book_step.opened [OF 2] by (meson converse_rtranclp_into_rtranclp rtranclp.rtrancl_refl)
qed

section \<open>The self-check and the scan\<close>

text \<open>C8. In every state the vault book can reach, by any sequence of openings, closings, borrowings, margin
  changes, repayments, accruals, liquidations, redistributions, redemptions and repairs, the canister's
  own \<^verbatim>\<open>check_invariants\<close> passes: no vault is missing from, duplicated in or stale in an index.\<close>

theorem self_check_passes:
  assumes "(book_step D)\<^sup>*\<^sup>* (empty_book s0) s"
  shows "check_invariants s = Ok ()"
  using vault_book.reachable_inv [OF assms] by (rule book_ok_checks)

theorem self_check_passes_witness: "check_invariants sample_book = Ok () \<and> length (bm_entries (ic_vault_id_to_vaults sample_book)) = 2"
  using self_check_passes [OF sample_book_reachable] by (simp add: sample_book_def)

lemma cr_index_ids:
  assumes "cr_ok vs m"
  shows "set (map snd (index_pairs m)) = set (bm_keys vs)" and "length (index_pairs m) = length (bm_entries vs)"
proof -
  have keys: "v \<in> set (bm_keys vs) \<longleftrightarrow> bm_has vs v" for v by (force simp: bm_keys_def bm_has_def bm.in_entries_iff [symmetric])
  have "v \<in> set (map snd (index_pairs m)) \<longleftrightarrow> (\<exists>k. in_index m k v)" for v
    by (force simp: in_index_pairs [symmetric])
  then show "set (map snd (index_pairs m)) = set (bm_keys vs)" using assms keys by (auto simp: cr_ok_def)
  have "length (index_pairs m) = index_size m"
    by (simp add: index_pairs_def index_size_def bm_sum_def length_concat comp_def case_prod_beta' bm_keys_def)
  then show "length (index_pairs m) = length (bm_entries vs)" using assms by (simp add: cr_ok_def)
qed

lemma map_opt_set:
  assumes "map_opt f xs = Some ys"
  shows "set (map fst (filter snd (zip xs ys))) = {x \<in> set xs. f x = Some True}"
proof -
  have "map fst (filter snd (zip xs ys)) = filter (\<lambda>x. f x = Some True) xs"
    using assms by (induction xs arbitrary: ys) (auto simp: bind_eq_Some_conv)
  then show ?thesis by (metis set_filter)
qed

lemma full_sweep_vaults:
  assumes "cr_ok vs m"
  shows "set (List.map_filter (bm_get vs) (map snd (index_pairs m))) = set (bm_values vs)"
    and "length (List.map_filter (bm_get vs) (map snd (index_pairs m))) = length (bm_entries vs)"
proof -
  note ids = cr_index_ids [OF assms]
  have some: "bm_get vs v \<noteq> None" if "v \<in> set (map snd (index_pairs m))" for v
    using that unfolding ids(1) by (force simp: bm_keys_def bm.in_entries_iff)
  have "length (List.map_filter f xs) = length xs" if "\<And>x. x \<in> set xs \<Longrightarrow> f x \<noteq> None" for f :: "u64 \<Rightarrow> icp_vault option" and xs
    using that by (induction xs) (auto simp: List.map_filter_simps split: option.splits)
  with some ids(2) show "length (List.map_filter (bm_get vs) (map snd (index_pairs m))) = length (bm_entries vs)" by fastforce
  show "set (List.map_filter (bm_get vs) (map snd (index_pairs m))) = set (bm_values vs)"
    unfolding List.map_filter_def set_map set_filter using ids(1)
    by (force simp: bm_keys_def bm_values_def bm.in_entries_iff image_iff)
qed

text \<open>A full sweep of the health scan visits every vault once and reports exactly the unhealthy ones, in
  every reachable state.\<close>

theorem full_sweep_complete:
  assumes "(book_step D)\<^sup>*\<^sup>* (empty_book s0) s" and "scan_unhealthy_vaults D s True = Some r"
  shows "set (uv_unhealthy_vaults r) = {v \<in> set (bm_values (ic_vault_id_to_vaults s)). unhealthy D s v = Some True}
    \<and> uv_vaults_visited r = length (bm_entries (ic_vault_id_to_vaults s))"
proof -
  have "cr_ok (ic_vault_id_to_vaults s) (ic_vault_cr_index s)" using vault_book.reachable_inv [OF assms(1)] by (simp add: book_ok_def)
  note vaults = full_sweep_vaults [OF this]
  have "concat (map (\<lambda>(_, ids). bm_keys ids) (bm_entries m)) = map snd (index_pairs m)" for m :: "u64 vault_index"
    by (simp add: index_pairs_def map_concat comp_def case_prod_beta')
  then obtain flags threshold where
    flags: "map_opt (unhealthy D s) (List.map_filter (bm_get (ic_vault_id_to_vaults s)) (map snd (index_pairs (ic_vault_cr_index s)))) = Some flags"
    and r: "r = \<lparr>uv_unhealthy_vaults = map fst (filter snd
         (zip (List.map_filter (bm_get (ic_vault_id_to_vaults s)) (map snd (index_pairs (ic_vault_cr_index s)))) flags)),
       uv_vaults_visited = length (List.map_filter (bm_get (ic_vault_id_to_vaults s)) (map snd (index_pairs (ic_vault_cr_index s)))),
       uv_was_full_sweep = True, uv_threshold_key = threshold\<rparr>"
    using assms(2) by (auto simp: scan_unhealthy_vaults_def bind_eq_Some_conv Let_def)
  show ?thesis unfolding r using map_opt_set [OF flags] vaults by simp
qed

theorem full_sweep_complete_witness:
  "\<exists>r. scan_unhealthy_vaults rat_decimal sample_book True = Some r \<and> uv_vaults_visited r = 2"
proof -
  have "\<exists>r. scan_unhealthy_vaults rat_decimal sample_book True = Some r"
    by (simp add: scan_unhealthy_vaults_def check_vaults_alert_threshold_key_def unhealthy_def sample_book_def sample_eval bm_values_def
        bm_keys_def is_native_xrp_def custody_of_def List.map_filter_simps)
  then show ?thesis using full_sweep_complete [OF sample_book_reachable] by (force simp: sample_book_def)
qed

section \<open>Redemption: the record replays the run\<close>

lemma fold_opt_append: "fold_opt f (xs @ ys) b = Option.bind (fold_opt f xs b) (fold_opt f ys)"
  by (induction xs arbitrary: b) (auto cong: bind_option_cong simp: bind_eq_Some_conv split: bind_splits)

lemma rekeyed_cong:
  "(\<And>v. bm_get (ic_vault_id_to_vaults s) vid = Some v \<Longrightarrow> f v = g v) \<Longrightarrow> rekeyed D vid f s = rekeyed D vid g s"
  by (auto simp: rekeyed_def bm_modify_def bm_has_def split: option.splits)

lemma deduct_seized:
  assumes "deduct_amount_from_vault D c i vid s = Some (t, k)"
  shows "deduct_amount_from_vault D k i vid s = Some (t, k)"
proof -
  from assms obtain v where v: "bm_get (ic_vault_id_to_vaults s) vid = Some v"
    and k: "k = sat_sub (iv_collateral_amount v) (sat_sub (iv_collateral_amount v) c)"
    and t: "rekeyed D vid (deducted c i) s = Some t"
    by (auto simp: deduct_amount_from_vault_def Let_def bind_eq_Some_conv)
  have "rekeyed D vid (deducted k i) s = rekeyed D vid (deducted c i) s"
    by (rule rekeyed_cong) (use v k in \<open>simp add: deducted_def sat_sub_def\<close>)
  then show ?thesis using v k t by (simp add: deduct_amount_from_vault_def Let_def sat_sub_def)
qed

definition records :: "('d, 'f) decimal \<Rightarrow> ('d, 'f) ics \<Rightarrow> ('d, 'f) redemption_acc \<Rightarrow> bool" where
  "records D s0 acc \<longleftrightarrow> apply_vault_redemptions D (snd acc) s0 = Some (fst acc)"

lemma records_deduction:
  assumes "records D s0 (s, rs)" and v: "bm_get (ic_vault_id_to_vaults s) vid = Some v"
    and d: "deduct_amount_from_vault D c i vid s = Some (t, k)"
  shows "records D s0 (t, rs @ [touched vid i k])"
  using assms(1) deduct_seized [OF d] v
  by (simp add: records_def apply_vault_redemptions_def fold_opt_append apply_vault_redemption_def touched_def bm_has_def)

interpretation recording: redemption_invariant D UNIV "records D s0" for D s0
  by unfold_locales (rule records_deduction)

text \<open>C10. Replaying the recorded per-vault outcomes of a redemption on the state before it gives the very
  state the redemption produced.\<close>

theorem redemption_replay_exact:
  assumes "redeem_on_vaults D locked amount price ct s = Some (t, rs)"
  shows "apply_vault_redemptions D rs s = Some t"
  using recording.redeemed [of D locked amount price ct s "(t, rs)" s] assms
  by (simp add: records_def apply_vault_redemptions_def)

theorem redemption_replay_exact_witness:
  "\<exists>t. redeem_on_vaults rat_decimal {} 300 5 sample_ct sample_book = Some (t, [touched 1 300 60])
     \<and> apply_vault_redemptions rat_decimal [touched 1 300 60] sample_book = Some t"
  using sample_redemption redemption_replay_exact [of rat_decimal "{}" 300 5 sample_ct sample_book] by blast

section \<open>Redemption: what it takes\<close>

definition total_debt :: "('d, 'f) ics \<Rightarrow> nat" where
  "total_debt s = bm_sum iv_borrowed_icusd_amount (ic_vault_id_to_vaults s)"

definition total_collateral :: "('d, 'f) ics \<Rightarrow> nat" where
  "total_collateral s = bm_sum iv_collateral_amount (ic_vault_id_to_vaults s)"

definition redeemed_sum :: "vault_redemption list \<Rightarrow> nat" where
  "redeemed_sum rs = sum_list (map vr_icusd_redeemed_e8s rs)"

definition seized_sum :: "vault_redemption list \<Rightarrow> nat" where
  "seized_sum rs = sum_list (map vr_collateral_seized rs)"

lemma reindex_vaults: "reindex_vault_cr D vid s = Some t \<Longrightarrow> ic_vault_id_to_vaults t = ic_vault_id_to_vaults s"
  by (auto simp: reindex_vault_cr_def unindex_vault_cr_eq Let_def split: option.splits)

lemma rekeyed_vaults:
  "rekeyed D vid f s = Some t \<Longrightarrow> ic_vault_id_to_vaults t = bm_modify vid f (ic_vault_id_to_vaults s)"
  using reindex_vaults by (fastforce simp: rekeyed_def split: if_splits)

lemma deduct_vaults:
  assumes "deduct_amount_from_vault D c i vid s = Some (t, k)" and "bm_get (ic_vault_id_to_vaults s) vid = Some v"
  shows "ic_vault_id_to_vaults t = bm_insert vid (deducted c i v) (ic_vault_id_to_vaults s)"
    and "k = iv_collateral_amount v - (iv_collateral_amount v - c)"
  using assms rekeyed_vaults
  by (fastforce simp: deduct_amount_from_vault_def bind_eq_Some_conv Let_def bm_modify_def sat_sub_def)+

definition takes :: "('d, 'f) ics \<Rightarrow> u64 set \<Rightarrow> ('d, 'f) redemption_acc \<Rightarrow> bool" where
  "takes s0 ids acc \<longleftrightarrow> total_debt (fst acc) + redeemed_sum (snd acc) = total_debt s0
     \<and> total_collateral (fst acc) + seized_sum (snd acc) = total_collateral s0
     \<and> (\<forall>vid. vid \<notin> ids \<longrightarrow> bm_get (ic_vault_id_to_vaults (fst acc)) vid = bm_get (ic_vault_id_to_vaults s0) vid)"

lemma takes_deduction:
  assumes p: "takes s0 ids (s, rs)" and "vid \<in> ids" and v: "bm_get (ic_vault_id_to_vaults s) vid = Some v"
    and le: "i \<le> iv_borrowed_icusd_amount v" and d: "deduct_amount_from_vault D c i vid s = Some (t, k)"
  shows "takes s0 ids (t, rs @ [touched vid i k])"
proof -
  note t = deduct_vaults [OF d v]
  have "total_debt t + i = total_debt s"
    using bm_sum_insert_old [OF v, of iv_borrowed_icusd_amount "deducted c i v"] le
    by (simp add: total_debt_def t deducted_def Let_def sat_sub_def del: bm_insert.rep_eq)
  moreover have "total_collateral t + k = total_collateral s"
    using bm_sum_insert_old [OF v, of iv_collateral_amount "deducted c i v"]
    by (simp add: total_collateral_def t deducted_def Let_def sat_sub_def del: bm_insert.rep_eq)
  ultimately show ?thesis using p \<open>vid \<in> ids\<close>
    by (auto simp: takes_def t redeemed_sum_def seized_sum_def touched_def)
qed

interpretation taking: redemption_invariant D ids "takes s0 ids" for D ids s0
  by unfold_locales (rule takes_deduction)

text \<open>The amounts are those of \<open>u64\<close> fields, and the number of vaults is a \<open>usize\<close>.\<close>

definition fits :: "('d, 'f) ics \<Rightarrow> bool" where
  "fits s \<longleftrightarrow> (\<forall>vid v. bm_get (ic_vault_id_to_vaults s) vid = Some v \<longrightarrow> iv_borrowed_icusd_amount v \<le> u64_max)"

lemma fits_deduction:
  "fits s \<Longrightarrow> bm_get (ic_vault_id_to_vaults s) vid = Some v \<Longrightarrow> deduct_amount_from_vault D c i vid s = Some (t, k) \<Longrightarrow> fits t"
  using deduct_vaults(1) [of D c i vid s t k v]
  by (fastforce simp: fits_def deducted_def Let_def sat_sub_def intro: le_trans [OF diff_le_self])

interpretation fitting: redemption_invariant D UNIV "\<lambda>acc. fits (fst acc)" for D
  by unfold_locales (auto dest: fits_deduction)

lemma u64_product: "a \<le> u64_max \<Longrightarrow> b \<le> u64_max \<Longrightarrow> wrap128 (a * b) = a * b"
  using mult_le_mono [of a u64_max b u64_max] by (simp add: wrap128_def u64_max_def)

lemma scaled_le: "gone * T \<le> red * p \<Longrightarrow> p \<le> T \<Longrightarrow> 0 < T \<Longrightarrow> gone \<le> red" for gone :: nat
  using mult_le_mono2 [of p T red] mult_le_cancel2 [of gone T red] by linarith

text \<open>After a vault with debt \<open>debt\<close>, at most the part \<open>(p + debt) / T\<close> of the amount is spent.\<close>

lemma band_share:
  assumes "gone * T \<le> red * p" and "T = p + debt + rest" and "0 < T" and "red \<le> u64_max" and "debt \<le> u64_max"
    and "at_end \<longrightarrow> rest = 0"
  shows "(gone + (if at_end then wrap_sub128 red gone else wrap128 (red * debt) div T)) * T \<le> red * (p + debt)"
proof (cases at_end)
  case True
  have "gone \<le> red" using scaled_le [OF assms(1)] assms(2,3) by simp
  moreover have "red \<le> u128_max" using assms(4) by (simp add: u64_max_def u128_max_def)
  ultimately show ?thesis using True assms(2,6) by simp
next
  case False
  have "red * debt div T * T \<le> red * debt" by (rule div_times_less_eq_dividend)
  with assms(1) have "(gone + red * debt div T) * T \<le> red * p + red * debt" unfolding add_mult_distrib by (rule add_mono)
  then show ?thesis using False u64_product [OF assms(4,5)] by (simp add: add_mult_distrib2)
qed

lemma band_takes_at_most:
  "band_loop D price decimals T red band gone acc = Some acc' \<Longrightarrow> gone * T \<le> red * p \<Longrightarrow> T = p + sum_list (map snd band)
     \<Longrightarrow> \<forall>d \<in> snd ` set band. d \<le> u64_max \<Longrightarrow> red \<le> u64_max \<Longrightarrow> 0 < T
     \<Longrightarrow> redeemed_sum (snd acc') + gone \<le> redeemed_sum (snd acc) + red"
proof (induction band arbitrary: gone acc p)
  case Nil
  then show ?case using scaled_le by simp
next
  case (Cons e band)
  obtain vid debt where e: "e = (vid, debt)" by (cases e)
  obtain s rs where acc: "acc = (s, rs)" by (cases acc)
  define share where "share = (if band = [] then wrap_sub128 red gone else wrap128 (red * debt) div T)"
  have bound: "(gone + share) * T \<le> red * (p + debt)"
    unfolding share_def using Cons.prems by (intro band_share) (auto simp: e)
  then have spent: "(gone + actual) * T \<le> red * (p + debt)" if "actual \<le> share" for actual
    using that by (meson add_left_mono le_trans mult_le_mono1)
  have rest: "T = (p + debt) + sum_list (map snd band)" using Cons.prems(3) by (simp add: e)
  have IH: "redeemed_sum (snd acc') + d \<le> redeemed_sum (snd acc1) + red"
    if "band_loop D price decimals T red band d acc1 = Some acc'" "d * T \<le> red * (p + debt)" for d acc1
    using Cons.IH [OF that rest] Cons.prems(4-6) by (simp add: e)
  show ?case
  proof (cases "share = 0")
    case True
    then show ?thesis using Cons.prems(1) IH [of gone acc] bound by (simp add: e acc share_def [symmetric])
  next
    case False
    then obtain v :: icp_vault and s' seized where
      run: "band_loop D price decimals T red band (wrap_add128 gone (min share (iv_borrowed_icusd_amount v)))
              (s', rs @ [touched vid (min share (iv_borrowed_icusd_amount v)) seized]) = Some acc'"
      using Cons.prems(1)
      by (auto simp: e acc share_def [symmetric] touched_def Let_def bind_eq_Some_conv)
    let ?actual = "min share (iv_borrowed_icusd_amount v)"
    have le: "gone + ?actual \<le> red" by (rule scaled_le [OF spent]) (use Cons.prems rest in auto)
    then have "wrap_add128 gone ?actual = gone + ?actual"
      using Cons.prems(5) by (intro wrap_add128_id) (simp add: u64_max_def u128_max_def)
    then show ?thesis using IH [OF run] spent [of ?actual] by (simp add: acc redeemed_sum_def touched_def)
  qed
qed

lemma debts_fit:
  assumes "map_opt (vault_debt s) ids = Some debts" and "fits s"
  shows "\<forall>d \<in> set debts. d \<le> u64_max" and "length debts = length ids"
proof -
  show "length debts = length ids" using assms(1) by (induction ids arbitrary: debts) (auto simp: bind_eq_Some_conv)
  show "\<forall>d \<in> set debts. d \<le> u64_max"
    using assms(1)
  proof (induction ids arbitrary: debts)
    case (Cons i ids)
    then show ?case using \<open>fits s\<close> unfolding fits_def by (auto simp: bind_eq_Some_conv vault_debt_def)
  qed simp
qed

lemma debts_sum_fits:
  assumes "\<forall>d \<in> set debts. d \<le> u64_max" and "length debts \<le> u64_max"
  shows "wrap128 (sum_list debts) = sum_list debts"
proof (rule wrap128_id)
  have "sum_list debts \<le> length debts * u64_max" using assms(1) by (induction debts) auto
  also have "\<dots> \<le> u64_max * u64_max" using assms(2) by (rule mult_le_mono1)
  also have "\<dots> \<le> u128_max" by (simp add: u64_max_def u128_max_def)
  finally show "sum_list debts \<le> u128_max" .
qed

lemma spread_takes_at_most:
  assumes "distribute_redemption_across_band D price decimals (zip ids debts) (wrap128 (sum_list debts)) red acc = Some acc'"
    and "map_opt (vault_debt (fst acc)) ids = Some debts" and "fits (fst acc)" and "length ids \<le> u64_max" and "red \<le> u64_max"
  shows "redeemed_sum (snd acc') \<le> redeemed_sum (snd acc) + red"
proof -
  note d = debts_fit [OF assms(2,3)]
  have T: "wrap128 (sum_list debts) = sum_list debts" using d assms(4) by (intro debts_sum_fits) auto
  have "sum_list (map snd (zip ids debts)) = sum_list debts" "snd ` set (zip ids debts) = set debts"
    using d(2) map_snd_zip [of ids debts] by (simp_all flip: set_map)
  then have "redeemed_sum (snd acc') + 0 \<le> redeemed_sum (snd acc) + red"
    if "band_loop D price decimals (sum_list debts) red (zip ids debts) 0 acc = Some acc'" "0 < sum_list debts"
    using assms(5) d(1) by (intro band_takes_at_most [OF that(1) _ _ _ _ that(2), of 0]) simp_all
  then show ?thesis
    using assms(1) unfolding distribute_redemption_across_band_def T by (cases "sum_list debts = 0") (auto split: if_splits)
qed

lemma water_fill_takes_at_most:
  "water_fill fuel D price decimals es remaining acc = Some acc' \<Longrightarrow> fits (fst acc) \<Longrightarrow> length es \<le> u64_max
     \<Longrightarrow> remaining \<le> u64_max \<Longrightarrow> redeemed_sum (snd acc') \<le> redeemed_sum (snd acc) + remaining"
proof (induction fuel arbitrary: es remaining acc)
  case 0
  then show ?case by (cases es) auto
next
  case (Suc fuel)
  show ?case
  proof (cases es)
    case (Cons e es')
    note small = Suc.prems(3) [unfolded Cons]
    show ?thesis
      using Suc.prems(1) unfolding Cons
    proof (cases rule: water_fill_cases)
      case skip
      then show ?thesis
        using Suc.IH [OF skip Suc.prems(2)] small Suc.prems(4) length_dropWhile_le [of "same_cr D (fst e)" es'] by simp
    next
      case (final ids debts)
      then show ?thesis using spread_takes_at_most [OF final(4,1) Suc.prems(2)] small Suc.prems(4) by simp
    next
      case (level ids debts needed acc1 fs)
      have "fits (fst acc1)" using fitting.spread [OF level(4) Suc.prems(2)] by simp
      then have "redeemed_sum (snd acc') \<le> redeemed_sum (snd acc1) + (remaining - needed)"
        using level(7) small Suc.prems(4) by (intro Suc.IH [OF level(8)]) simp_all
      moreover have "redeemed_sum (snd acc1) \<le> redeemed_sum (snd acc) + needed"
        using level(3,5) small Suc.prems(4) by (intro spread_takes_at_most [OF level(4,1) Suc.prems(2)]) simp_all
      ultimately show ?thesis using level(5) by simp
    qed simp
  qed (use Suc.prems in simp)
qed

text \<open>C5. A redemption takes at most what was offered; the debt of all vaults falls by exactly what its
  record says was redeemed and their collateral by exactly what was seized; a vault that was not
  redeemable (no debt, another collateral, held by the bot or by another operation) is untouched.\<close>

theorem redemption_conserves:
  assumes run: "redeem_on_vaults D locked amount price ct s = Some (t, rs)" and "fits s" and "book_ok s"
    and "amount \<le> u64_max" and "length (bm_entries (ic_vault_id_to_vaults s)) \<le> u64_max"
  shows "redeemed_sum rs \<le> amount \<and> total_debt t + redeemed_sum rs = total_debt s
    \<and> total_collateral t + seized_sum rs = total_collateral s
    \<and> (\<forall>vid v. bm_get (ic_vault_id_to_vaults s) vid = Some v \<and> \<not> redeemable locked s ct v
         \<longrightarrow> bm_get (ic_vault_id_to_vaults t) vid = Some v)"
proof -
  let ?ids = "{vid. \<exists>v. bm_get (ic_vault_id_to_vaults s) vid = Some v \<and> redeemable locked s ct v}"
  have ids: "iv_vault_id v \<in> ?ids" if v: "v \<in> set (bm_values (ic_vault_id_to_vaults s))" "redeemable locked s ct v" for v
  proof -
    from v(1) obtain k where "bm_get (ic_vault_id_to_vaults s) k = Some v" by (auto simp: bm_values_def bm.in_entries_iff)
    then show ?thesis using \<open>book_ok s\<close> v(2) by (auto simp: book_ok_def ids_ok_def)
  qed
  have "takes s ?ids (t, rs)"
    by (rule taking.redeemed [OF run]) (use ids in \<open>simp_all add: takes_def redeemed_sum_def seized_sum_def\<close>)
  moreover have "redeemed_sum rs \<le> amount"
  proof (cases "amount = 0")
    case False
    with run obtain es price decimals where es: "redemption_entries D locked s ct = Some es"
      and fill: "water_fill (Suc (2 * length es)) D price decimals es amount (s, []) = Some (t, rs)"
      by (cases "redemption_price D s price ct") (auto simp: redeem_on_vaults_def bind_eq_Some_conv)
    show ?thesis
      using water_fill_takes_at_most [OF fill] redemption_entries_ids(2) [OF es] assms by (simp add: redeemed_sum_def)
  qed (use run in \<open>simp add: redeem_on_vaults_def redeemed_sum_def\<close>)
  ultimately show ?thesis by (auto simp: takes_def)
qed

theorem redemption_conserves_witness:
  "\<exists>t. redeem_on_vaults rat_decimal {} 300 5 sample_ct sample_book = Some (t, [touched 1 300 60])
     \<and> total_debt t + 300 = total_debt sample_book \<and> total_collateral t + 60 = total_collateral sample_book"
proof -
  obtain t where t: "redeem_on_vaults rat_decimal {} 300 5 sample_ct sample_book = Some (t, [touched 1 300 60])"
    using sample_redemption by blast
  have "fits sample_book" by (simp add: fits_def sample_book_def u64_max_def)
  moreover have "book_ok sample_book" using vault_book.reachable_inv [OF sample_book_reachable] .
  moreover have "(300 :: nat) \<le> u64_max" by (simp add: u64_max_def)
  moreover have "length (bm_entries (ic_vault_id_to_vaults sample_book)) \<le> u64_max" by (simp add: sample_book_def u64_max_def)
  ultimately show ?thesis using redemption_conserves [OF t] t by (auto simp: redeemed_sum_def seized_sum_def touched_def)
qed

end
