(* ===== verification/Icp_Accounts.thy ===== *)
theory Icp_Accounts
  imports Icp_Guarantees
begin

text \<open>
  The accounts of the vault book: a repayment splits exactly into interest and principal, accruing
  all vaults at once agrees with accruing them one by one, and the liquidation breaker, which
  keeps only the recent liquidations, decides as if it kept them all.
\<close>

section \<open>Repayment\<close>

text \<open>Documented behaviour of the decimal crate: a quotient that is at least a whole number is not rounded
  below it, and a value within \<open>u64\<close> converts.\<close>

definition quotient_kept :: "('d, 'f) decimal \<Rightarrow> bool" where
  "quotient_kept D \<longleftrightarrow> (\<forall>a b c x y. a \<le> c \<and> 0 < c \<and> b \<le> u64_max
     \<and> dec_mul D (dec_from_u64 D a) (dec_from_u64 D b) = Some x \<and> dec_div D x (dec_from_u64 D c) = Some y
     \<longrightarrow> (\<exists>n. dec_to_u64 D y = Some n \<and> a * b div c \<le> n))"

lemma rat_quotient_kept: "quotient_kept rat_decimal"
proof -
  have "\<exists>n. rat_to_u64 (of_nat a * of_nat b / of_nat c) = Some n \<and> a * b div c \<le> n"
    if "a \<le> c" "0 < c" "b \<le> u64_max" for a b c :: nat
  proof -
    have "of_nat a * of_nat b / of_nat c = (of_nat (a * b) / of_nat c :: rat)" by simp
    moreover have "a * b \<le> u64_max * c" using mult_le_mono [OF that(1,3)] by (simp add: mult.commute)
    then have "of_nat (a * b) / of_nat c \<le> (of_nat u64_max :: rat)"
      using that(2) by (simp add: pos_divide_le_eq flip: of_nat_mult)
    ultimately show ?thesis
      using floor_divide_of_nat_eq [of "a * b" c, where ?'a = rat] by (auto simp: rat_to_u64_def not_less zdiv_int [symmetric])
  qed
  then show ?thesis by (auto simp: quotient_kept_def rat_decimal_def split: if_splits)
qed

lemma interest_covers:
  assumes "interest_part D r v = Some part" and "quotient_kept D" and "r \<le> iv_borrowed_icusd_amount v"
    and "iv_accrued_interest v \<le> iv_borrowed_icusd_amount v" and "iv_accrued_interest v \<le> u64_max"
  shows "iv_accrued_interest v - part \<le> iv_borrowed_icusd_amount v - r" and "part \<le> iv_accrued_interest v"
proof -
  let ?a = "iv_accrued_interest v" and ?b = "iv_borrowed_icusd_amount v"
  show "part \<le> ?a" using assms(1) by (auto simp: interest_part_def bind_eq_Some_conv split: if_splits option.splits)
  show "?a - part \<le> ?b - r"
  proof (cases "?a > 0 \<and> ?b > 0")
    case True
    with assms(1) obtain x y where xy: "dec_mul D (dec_from_u64 D r) (dec_from_u64 D ?a) = Some x" "dec_div D x (dec_from_u64 D ?b) = Some y"
      and part: "part = min (case dec_to_u64 D y of None \<Rightarrow> 0 | Some n \<Rightarrow> n) ?a"
      by (auto simp: interest_part_def bind_eq_Some_conv)
    with assms(2,3,5) True obtain n where n: "dec_to_u64 D y = Some n" "r * ?a div ?b \<le> n" unfolding quotient_kept_def by blast
    have "?a * ?b \<le> (?b - r) * ?b + r * ?a"
    proof -
      have "?b = (?b - r) + r" using assms(3) by simp
      then have "?a * ?b = ?a * (?b - r) + ?a * r" by (metis add_mult_distrib2)
      moreover have "?a * (?b - r) \<le> ?b * (?b - r)" using assms(4) by (rule mult_le_mono1)
      ultimately show ?thesis by (simp add: mult.commute)
    qed
    then have "?a * ?b div ?b \<le> ((?b - r) * ?b + r * ?a) div ?b" by (rule div_le_mono)
    then have "?a \<le> (?b - r) + r * ?a div ?b" using True by simp
    then show ?thesis using part n by auto
  qed (use assms(3,4) in auto)
qed

text \<open>A repayment takes the offered amount, at most the debt, and splits it exactly into interest and
  principal: the debt falls by the two together, the accrued interest by the interest part, the accrued
  interest never exceeds the remaining debt, and no other vault changes.\<close>

theorem repay_splits_exactly:
  assumes run: "repay_to_vault D vid amount s = Some (t, i_share, p_share)"
    and v: "bm_get (ic_vault_id_to_vaults s) vid = Some v" and "quotient_kept D"
    and "iv_accrued_interest v \<le> iv_borrowed_icusd_amount v" and "iv_accrued_interest v \<le> u64_max"
  shows "i_share + p_share = min amount (iv_borrowed_icusd_amount v)
    \<and> (\<exists>w. ic_vault_id_to_vaults t = bm_insert vid w (ic_vault_id_to_vaults s)
         \<and> iv_borrowed_icusd_amount w + i_share + p_share = iv_borrowed_icusd_amount v
         \<and> iv_accrued_interest w + i_share = iv_accrued_interest v
         \<and> iv_accrued_interest w \<le> iv_borrowed_icusd_amount w)"
proof -
  let ?r = "min amount (iv_borrowed_icusd_amount v)"
  from run v obtain part where part: "interest_part D ?r v = Some part"
    and i: "i_share = min part ?r" and p: "p_share = sat_sub ?r i_share"
    and t: "rekeyed D vid (\<lambda>v. v\<lparr>iv_borrowed_icusd_amount := sat_sub (iv_borrowed_icusd_amount v) ?r,
                            iv_accrued_interest := sat_sub (iv_accrued_interest v) i_share\<rparr>) s = Some t"
    by (auto simp: repay_to_vault_def bind_eq_Some_conv Let_def)
  note c = interest_covers [OF part assms(3) min.cobounded2 assms(4,5)]
  have "ic_vault_id_to_vaults t = bm_insert vid (v\<lparr>iv_borrowed_icusd_amount := iv_borrowed_icusd_amount v - ?r,
      iv_accrued_interest := iv_accrued_interest v - i_share\<rparr>) (ic_vault_id_to_vaults s)"
    using rekeyed_vaults [OF t] v by (simp add: bm_modify_def sat_sub_def)
  moreover have "iv_accrued_interest v - i_share \<le> iv_borrowed_icusd_amount v - ?r" using c assms(4) unfolding i by auto
  moreover have "i_share + p_share = ?r" "i_share \<le> iv_accrued_interest v" using c(2) unfolding p i sat_sub_def by linarith+
  ultimately show ?thesis by (intro conjI exI) (assumption | simp)+
qed

theorem repay_splits_exactly_witness:
  "\<exists>t. repay_to_vault rat_decimal 1 300 (sample_book\<lparr>ic_vault_id_to_vaults := bm_insert 1 (sample_vault 1 500 200\<lparr>iv_accrued_interest := 50\<rparr>) bm_empty\<rparr>)
     = Some (t, 30, 270) \<and> (\<exists>w. bm_get (ic_vault_id_to_vaults t) 1 = Some w \<and> iv_accrued_interest w = 20)"
proof -
  let ?v = "sample_vault 1 500 200\<lparr>iv_accrued_interest := 50\<rparr>"
  let ?s = "sample_book\<lparr>ic_vault_id_to_vaults := bm_insert 1 ?v bm_empty\<rparr>"
  obtain t where t: "repay_to_vault rat_decimal 1 300 ?s = Some (t, 30, 270)"
    by (simp add: repay_to_vault_def interest_part_def rekeyed_def bm_modify_def sat_sub_def sample_book_def sample_eval)
  have "bm_get (ic_vault_id_to_vaults ?s) 1 = Some ?v" "iv_accrued_interest ?v \<le> iv_borrowed_icusd_amount ?v"
    "iv_accrued_interest ?v \<le> u64_max" "iv_accrued_interest ?v = 50"
    by (simp_all add: u64_max_def)
  then show ?thesis using repay_splits_exactly [OF t _ rat_quotient_kept, of ?v] t by force
qed

section \<open>Accrual\<close>

lemma config_ignores_vaults [simp]: "config_or (s\<lparr>ic_vault_id_to_vaults := vs\<rparr>) = config_or s"
  by (simp add: config_or_def fun_eq_iff)

lemma levels_ignore_vaults [simp]:
  "get_liquidation_ratio_for D (s\<lparr>ic_vault_id_to_vaults := vs\<rparr>) ct = get_liquidation_ratio_for D s ct"
  "get_min_collateral_ratio_for D (s\<lparr>ic_vault_id_to_vaults := vs\<rparr>) ct = get_min_collateral_ratio_for D s ct"
  "get_healthy_cr_for D (s\<lparr>ic_vault_id_to_vaults := vs\<rparr>) ct = get_healthy_cr_for D s ct"
  by (simp_all add: get_liquidation_ratio_for_def get_min_collateral_ratio_for_def get_healthy_cr_for_def split: option.split)

lemma layer1_ignores_vaults [simp]:
  "resolve_layer1_markers D (s\<lparr>ic_vault_id_to_vaults := vs\<rparr>) ct = resolve_layer1_markers D s ct"
  unfolding resolve_layer1_markers_def Let_def levels_ignore_vaults config_ignores_vaults by (simp split: option.split)

lemma dynamic_rate_ignores_vaults:
  "ic_mode s \<noteq> RecoveryMode
     \<Longrightarrow> get_dynamic_interest_rate_for D (s\<lparr>ic_vault_id_to_vaults := vs\<rparr>) ct = get_dynamic_interest_rate_for D s ct"
  by (rule ext) (simp add: get_dynamic_interest_rate_for_def Let_def)

lemma ratio_ignores_vaults [simp]: "compute_collateral_ratio D (s\<lparr>ic_vault_id_to_vaults := vs\<rparr>) v = compute_collateral_ratio D s v"
  unfolding compute_collateral_ratio_def get_collateral_config_def resolve_ct_def by simp

lemma rate_ignores_vaults:
  "ic_mode s \<noteq> RecoveryMode \<Longrightarrow> vault_rate D (s\<lparr>ic_vault_id_to_vaults := vs\<rparr>) v = vault_rate D s v"
  by (simp add: vault_rate_def dynamic_rate_ignores_vaults)

lemma accrue_step:
  assumes "ic_mode s \<noteq> RecoveryMode" and "bm_get vs vid = Some v"
  shows "accrue_single_vault D vid now (s\<lparr>ic_vault_id_to_vaults := vs\<rparr>)
    = (if accrues now v then Option.bind (vault_rate D s v) (\<lambda>rate.
         map_option (\<lambda>w. s\<lparr>ic_vault_id_to_vaults := bm_insert vid w vs\<rparr>)
           (accrued_vault D rate (sat_sub now (iv_last_accrual_time v)) now v))
       else Some (s\<lparr>ic_vault_id_to_vaults := vs\<rparr>))"
  using assms by (simp add: accrue_single_vault_def rate_ignores_vaults)

text \<open>The second phase of the batch on one vault\<close>

definition apply_accrual :: "('d, 'f) decimal \<Rightarrow> u64 \<Rightarrow> u64 \<times> 'd \<times> u64 \<Rightarrow> (u64, icp_vault) bmap \<Rightarrow> (u64, icp_vault) bmap option" where
  "apply_accrual D now = (\<lambda>(vid, rate, elapsed) vs.
     case bm_get vs vid of None \<Rightarrow> Some vs | Some v \<Rightarrow> map_option (\<lambda>v'. bm_insert vid v' vs) (accrued_vault D rate elapsed now v))"

lemma batch_is_one_by_one:
  assumes "ic_mode s \<noteq> RecoveryMode" and "distinct (map fst es)" and "\<forall>(vid, v) \<in> set es. bm_get vs vid = Some v"
  shows "map_option (\<lambda>vs. s\<lparr>ic_vault_id_to_vaults := vs\<rparr>)
      (Option.bind (map_opt (\<lambda>(vid, v). map_option (\<lambda>rate. (vid, rate, sat_sub now (iv_last_accrual_time v))) (vault_rate D s v))
          (filter (\<lambda>(_, v). accrues now v) es))
       (\<lambda>accruals. fold_opt (apply_accrual D now) accruals vs))
    = fold_opt (\<lambda>vid. accrue_single_vault D vid now) (map fst es) (s\<lparr>ic_vault_id_to_vaults := vs\<rparr>)"
  using assms(2,3)
proof (induction es arbitrary: vs)
  case (Cons e es)
  obtain vid v where e: "e = (vid, v)" by (cases e)
  have v: "bm_get vs vid = Some v" using Cons.prems(2) by (simp add: e)
  let ?rates = "map_opt (\<lambda>(vid, v). map_option (\<lambda>rate. (vid, rate, sat_sub now (iv_last_accrual_time v))) (vault_rate D s v))
    (filter (\<lambda>(_, v). accrues now v) es)"
  have IH: "map_option (\<lambda>vs. s\<lparr>ic_vault_id_to_vaults := vs\<rparr>) (Option.bind ?rates (\<lambda>accruals. fold_opt (apply_accrual D now) accruals ws))
      = fold_opt (\<lambda>vid. accrue_single_vault D vid now) (map fst es) (s\<lparr>ic_vault_id_to_vaults := ws\<rparr>)"
    if "\<And>k. k \<noteq> vid \<Longrightarrow> bm_get ws k = bm_get vs k" for ws
    using Cons.prems that by (intro Cons.IH) (force simp: e)+
  show ?case
  proof (cases "accrues now v")
    case False
    then show ?thesis using IH [of vs] by (simp add: e accrue_step [OF assms(1) v])
  next
    case True
    show ?thesis
    proof (cases "vault_rate D s v")
      case None
      then show ?thesis using True by (simp add: e v accrue_step [OF assms(1) v])
    next
      case (Some rate)
      show ?thesis
      proof (cases "accrued_vault D rate (sat_sub now (iv_last_accrual_time v)) now v")
        case None
        then show ?thesis using True Some
          by (cases ?rates) (simp_all add: e v accrue_step [OF assms(1) v] apply_accrual_def)
      next
        case w: (Some w)
        then show ?thesis using True Some IH [of "bm_insert vid w vs"]
          by (cases ?rates) (simp_all add: e v accrue_step [OF assms(1) v] apply_accrual_def)
      qed
    qed
  qed
qed simp

text \<open>C26. Outside recovery mode, accruing the interest of all vaults in one batch (all rates read first, then
  applied) gives the same state as accruing the vaults one after the other.\<close>

theorem batch_accrual_is_sequential:
  assumes "ic_mode s \<noteq> RecoveryMode"
  shows "accrue_all_vault_interest D now s
    = fold_opt (\<lambda>vid. accrue_single_vault D vid now) (bm_keys (ic_vault_id_to_vaults s)) s"
proof -
  have "\<forall>(vid, v) \<in> set (bm_entries (ic_vault_id_to_vaults s)). bm_get (ic_vault_id_to_vaults s) vid = Some v"
    by (auto simp: bm.in_entries_iff)
  from batch_is_one_by_one [OF assms bm.entries_distinct this, of now D] show ?thesis
    by (simp add: accrue_all_vault_interest_def apply_accrual_def [abs_def] bm_keys_def map_option_bind comp_def)
qed

theorem batch_accrual_is_sequential_witness:
  "ic_mode sample_book \<noteq> RecoveryMode
   \<and> accrue_all_vault_interest rat_decimal 1000 sample_book
       = fold_opt (\<lambda>vid. accrue_single_vault rat_decimal vid 1000) [1, 2] sample_book"
proof -
  have "ic_mode sample_book \<noteq> RecoveryMode" by (simp add: sample_book_def sample_empty_def)
  moreover have "bm_keys (ic_vault_id_to_vaults sample_book) = [1, 2]" by (simp add: sample_book_def bm_keys_def)
  ultimately show ?thesis using batch_accrual_is_sequential [of sample_book rat_decimal 1000] by simp
qed

section \<open>The liquidation breaker\<close>

text \<open>The specification keeps every liquidation: the debt liquidated in the window that ends now.\<close>

definition window_debt :: "u64 \<Rightarrow> (u64 \<times> u64) list \<Rightarrow> u64 \<Rightarrow> nat" where
  "window_debt window events now = sum_list (map snd (filter (\<lambda>(ts, _). now - window \<le> ts) events))"

definition liquidations :: "('d, 'f) ics \<Rightarrow> (u64 \<times> u64) list \<Rightarrow> ('d, 'f) ics" where
  "liquidations = foldl (\<lambda>s (ts, debt). fst (record_recent_liquidation s debt ts))"

text \<open>The latch trips at the first liquidation whose window reaches the ceiling.\<close>

definition reaches_ceiling :: "u64 \<Rightarrow> u64 \<Rightarrow> (u64 \<times> u64) list \<Rightarrow> bool" where
  "reaches_ceiling window ceil events \<longleftrightarrow>
     (\<exists>n < length events. ceil \<le> window_debt window (take (Suc n) events) (fst (events ! n)))"

lemma window_debt_append: "window_debt w (es @ fs) now = window_debt w es now + window_debt w fs now"
  by (simp add: window_debt_def)

lemma window_debt_le: "window_debt w es now \<le> sum_list (map snd es)"
  by (induction es) (auto simp: window_debt_def)

lemma pruned_window:
  assumes "now' \<le> now"
  shows "window_debt window (filter (\<lambda>(ts, _). now' - window \<le> ts) events) now = window_debt window events now"
proof -
  have "filter (\<lambda>(ts, _). now - window \<le> ts) (filter (\<lambda>(ts, _). now' - window \<le> ts) events) = filter (\<lambda>(ts, _). now - window \<le> ts) events"
    using diff_le_mono [OF assms, of window] unfolding filter_filter by (intro filter_cong) auto
  then show ?thesis by (simp add: window_debt_def)
qed

text \<open>What the code keeps after some events: the window of the last one.\<close>

definition breaker_follows :: "('d, 'f) ics \<Rightarrow> ('d, 'f) ics \<Rightarrow> (u64 \<times> u64) list \<Rightarrow> bool" where
  "breaker_follows s0 s events \<longleftrightarrow> ic_breaker_window_ns s = ic_breaker_window_ns s0
     \<and> ic_breaker_window_debt_ceiling_e8s s = ic_breaker_window_debt_ceiling_e8s s0
     \<and> (\<forall>now. (\<forall>e \<in> set events. fst e \<le> now)
          \<longrightarrow> window_debt (ic_breaker_window_ns s0) (ic_recent_liquidations s) now = window_debt (ic_breaker_window_ns s0) events now)
     \<and> (ic_liquidation_breaker_tripped s \<longleftrightarrow> reaches_ceiling (ic_breaker_window_ns s0) (ic_breaker_window_debt_ceiling_e8s s0) events)"

lemma reaches_ceiling_snoc:
  "reaches_ceiling w c (es @ [e]) \<longleftrightarrow> reaches_ceiling w c es \<or> c \<le> window_debt w (es @ [e]) (fst e)"
  by (simp add: reaches_ceiling_def Ex_less_Suc nth_append cong: conj_cong) blast

lemma windowed_total_eq:
  "ic_breaker_window_ns s \<noteq> 0 \<Longrightarrow> window_debt (ic_breaker_window_ns s) (ic_recent_liquidations s) now \<le> u64_max
     \<Longrightarrow> windowed_liquidation_total s now = window_debt (ic_breaker_window_ns s) (ic_recent_liquidations s) now"
  unfolding windowed_liquidation_total_def Let_def sat_sub_def window_debt_def [symmetric] by (simp add: wrap64_id)

lemma breaker_step:
  assumes follows: "breaker_follows s0 s events" and "ic_breaker_window_ns s0 \<noteq> 0" and "ic_breaker_window_debt_ceiling_e8s s0 \<noteq> 0"
    and "debt \<noteq> 0" and last: "\<forall>e \<in> set events. fst e \<le> ts"
    and "sum_list (map snd (events @ [(ts, debt)])) \<le> u64_max"
  shows "breaker_follows s0 (fst (record_recent_liquidation s debt ts)) (events @ [(ts, debt)])"
proof -
  let ?w = "ic_breaker_window_ns s0" and ?es = "events @ [(ts, debt)]"
  let ?s1 = "s\<lparr>ic_recent_liquidations := filter (\<lambda>(t, _). ts - ?w \<le> t) (ic_recent_liquidations s @ [(ts, debt)])\<rparr>"
  have w: "ic_breaker_window_ns s = ?w" "ic_breaker_window_debt_ceiling_e8s s = ic_breaker_window_debt_ceiling_e8s s0"
    using follows by (simp_all add: breaker_follows_def)
  have kept: "window_debt ?w (ic_recent_liquidations ?s1) now = window_debt ?w ?es now" if "ts \<le> now" for now
  proof -
    have "window_debt ?w (ic_recent_liquidations ?s1) now = window_debt ?w (ic_recent_liquidations s @ [(ts, debt)]) now"
      using pruned_window [OF that, of ?w "ic_recent_liquidations s @ [(ts, debt)]"] by simp
    also have "\<dots> = window_debt ?w ?es now"
      using follows last that le_trans unfolding breaker_follows_def window_debt_append by metis
    finally show ?thesis .
  qed
  have "window_debt ?w (ic_recent_liquidations ?s1) ts \<le> u64_max"
    using kept [OF order_refl] window_debt_le [of ?w ?es ts] assms(6) by simp
  then have total: "windowed_liquidation_total ?s1 ts = window_debt ?w ?es ts"
    using windowed_total_eq [of ?s1 ts] kept [OF order_refl] assms(2) w(1) by simp
  have "fst (record_recent_liquidation s debt ts)
      = ?s1\<lparr>ic_liquidation_breaker_tripped := ic_liquidation_breaker_tripped s
             \<or> ic_breaker_window_debt_ceiling_e8s s0 \<le> window_debt ?w ?es ts\<rparr>"
    using assms(2-4) w total by (simp add: record_recent_liquidation_def Let_def sat_sub_def)
  then show ?thesis using follows kept w by (auto simp: breaker_follows_def reaches_ceiling_snoc)
qed

lemma breaker_run:
  assumes "ic_breaker_window_ns s0 \<noteq> 0" and "ic_breaker_window_debt_ceiling_e8s s0 \<noteq> 0"
    and "ic_recent_liquidations s0 = []" and "\<not> ic_liquidation_breaker_tripped s0"
    and "\<forall>e \<in> set events. snd e \<noteq> 0" and "sorted (map fst events)" and "sum_list (map snd events) \<le> u64_max"
  shows "breaker_follows s0 (liquidations s0 events) events"
  using assms(5-7)
proof (induction events rule: rev_induct)
  case Nil
  then show ?case using assms(3,4) by (simp add: breaker_follows_def liquidations_def reaches_ceiling_def)
next
  case (snoc e events)
  obtain ts debt where e: "e = (ts, debt)" by (cases e)
  have "breaker_follows s0 (liquidations s0 events) events" using snoc by (simp add: sorted_append)
  then show ?case
    using breaker_step [OF _ assms(1,2), of "liquidations s0 events" events debt ts] snoc.prems
    by (auto simp: e liquidations_def sorted_append)
qed

text \<open>The breaker keeps only the liquidations of its window, and yet, for liquidations recorded in the
  order of time, its windowed total is that of the complete history, and the latch is set exactly
  when the window of some liquidation reached the ceiling.\<close>

theorem breaker_window_exact:
  assumes "ic_breaker_window_ns s0 \<noteq> 0" and "ic_breaker_window_debt_ceiling_e8s s0 \<noteq> 0"
    and "ic_recent_liquidations s0 = []" and "\<not> ic_liquidation_breaker_tripped s0"
    and "\<forall>e \<in> set events. snd e \<noteq> 0 \<and> fst e \<le> now" and "sorted (map fst events)" and "sum_list (map snd events) \<le> u64_max"
  shows "windowed_liquidation_total (liquidations s0 events) now = window_debt (ic_breaker_window_ns s0) events now
    \<and> (ic_liquidation_breaker_tripped (liquidations s0 events)
         \<longleftrightarrow> reaches_ceiling (ic_breaker_window_ns s0) (ic_breaker_window_debt_ceiling_e8s s0) events)"
proof -
  have f: "breaker_follows s0 (liquidations s0 events) events" using assms by (intro breaker_run) auto
  then have "window_debt (ic_breaker_window_ns s0) (ic_recent_liquidations (liquidations s0 events)) now
      = window_debt (ic_breaker_window_ns s0) events now"
    using assms(5) unfolding breaker_follows_def by blast
  moreover have "\<dots> \<le> u64_max" using window_debt_le assms(7) le_trans by blast
  ultimately show ?thesis
    using f windowed_total_eq [of "liquidations s0 events" now] assms(1) unfolding breaker_follows_def by simp
qed

theorem breaker_window_exact_witness:
  "windowed_liquidation_total (liquidations sample_empty [(10, 30), (60, 10), (150, 15)]) 155 = 25
   \<and> \<not> ic_liquidation_breaker_tripped (liquidations sample_empty [(10, 30), (60, 10), (150, 15)])"
proof -
  have s: "ic_breaker_window_ns sample_empty = 100" "ic_breaker_window_debt_ceiling_e8s sample_empty = 50"
    "ic_recent_liquidations sample_empty = []" "\<not> ic_liquidation_breaker_tripped sample_empty"
    by (simp_all add: sample_empty_def)
  have "\<not> reaches_ceiling 100 50 [(10, 30), (60, 10), (150, 15)]"
    using reaches_ceiling_snoc [of 100 50 "[(10, 30), (60, 10)]" "(150, 15)"] reaches_ceiling_snoc [of 100 50 "[(10, 30)]" "(60, 10)"]
      reaches_ceiling_snoc [of 100 50 "[]" "(10, 30)"]
    by (simp add: window_debt_def) (simp add: reaches_ceiling_def)
  then show ?thesis
    using breaker_window_exact [of sample_empty "[(10, 30), (60, 10), (150, 15)]" 155] s by (simp add: window_debt_def u64_max_def)
qed

end
