(* ===== verification/ThreePool_Math.thy ===== *)
theory ThreePool_Math
  imports Rumi_Prelude Complex_Main
begin

text \<open>
  The stable-swap mathematics of the three-pool (\<^verbatim>\<open>rumi_3pool/src/math.rs\<close>). The code computes with the
  \<^verbatim>\<open>U256\<close> of the \<^verbatim>\<open>ethnum\<close> crate, which stays a parameter: \<open>u_fit\<close> gives the value of an operation whose exact
  result is an integer, \<open>None\<close> a panic, and all the code relies on is that a result within 256 bits is
  exact and that the casts to \<open>u128\<close> and \<open>u64\<close> truncate (\<open>u256_ok\<close>). An arithmetic expression of the code is a term of type \<open>uexp\<close>, so it reads like
  the code and every operation in it goes through the crate. \<open>None\<close> is a panic; \<open>Err ()\<close> is the \<open>None\<close> of
  the code.
\<close>

section \<open>256-bit expressions\<close>

type_synonym u256 = nat

definition u256_top :: u256 where
  "u256_top = 2 ^ 256 - 1"

record u256_ops =
  u_fit :: "int \<Rightarrow> u256 option"
  u_as_u128 :: "u256 \<Rightarrow> u128"
  u_as_u64 :: "u256 \<Rightarrow> u64"

definition u256_ok :: "u256_ops \<Rightarrow> bool" where
  "u256_ok U \<longleftrightarrow> (\<forall>n. n \<le> u256_top \<longrightarrow> u_fit U (int n) = Some n)
     \<and> (\<forall>n. u_as_u128 U n = n mod 2 ^ 128) \<and> (\<forall>n. u_as_u64 U n = n mod 2 ^ 64)"

text \<open>The arithmetic that panics instead of overflowing, and the wrapping one\<close>

definition u256_checked :: u256_ops where
  "u256_checked = \<lparr>u_fit = (\<lambda>i. if 0 \<le> i \<and> i \<le> int u256_top then Some (nat i) else None),
     u_as_u128 = (\<lambda>n. n mod 2 ^ 128), u_as_u64 = (\<lambda>n. n mod 2 ^ 64)\<rparr>"

definition u256_wrapping :: u256_ops where
  "u256_wrapping = \<lparr>u_fit = (\<lambda>i. Some (nat (i mod 2 ^ 256))), u_as_u128 = (\<lambda>n. n mod 2 ^ 128), u_as_u64 = (\<lambda>n. n mod 2 ^ 64)\<rparr>"

datatype uexp = Num u256 | Plus uexp uexp | Minus uexp uexp | Times uexp uexp | Over uexp uexp

fun ueval :: "u256_ops \<Rightarrow> uexp \<Rightarrow> u256 option" where
  "ueval U (Num n) = Some n"
| "ueval U (Plus a b) = Option.bind (ueval U a) (\<lambda>x. Option.bind (ueval U b) (\<lambda>y. u_fit U (int x + int y)))"
| "ueval U (Minus a b) = Option.bind (ueval U a) (\<lambda>x. Option.bind (ueval U b) (\<lambda>y. u_fit U (int x - int y)))"
| "ueval U (Times a b) = Option.bind (ueval U a) (\<lambda>x. Option.bind (ueval U b) (\<lambda>y. u_fit U (int x * int y)))"
| "ueval U (Over a b) = Option.bind (ueval U a) (\<lambda>x. Option.bind (ueval U b) (\<lambda>y. if y = 0 then None else Some (x div y)))"

text \<open>What an expression is worth when nothing overflows, and that nothing does\<close>

fun uexact :: "uexp \<Rightarrow> nat" where
  "uexact (Num n) = n"
| "uexact (Plus a b) = uexact a + uexact b"
| "uexact (Minus a b) = uexact a - uexact b"
| "uexact (Times a b) = uexact a * uexact b"
| "uexact (Over a b) = uexact a div uexact b"

fun ufits :: "uexp \<Rightarrow> bool" where
  "ufits (Num n) \<longleftrightarrow> True"
| "ufits (Plus a b) \<longleftrightarrow> ufits a \<and> ufits b \<and> uexact a + uexact b \<le> u256_top"
| "ufits (Minus a b) \<longleftrightarrow> ufits a \<and> ufits b \<and> uexact b \<le> uexact a \<and> uexact a - uexact b \<le> u256_top"
| "ufits (Times a b) \<longleftrightarrow> ufits a \<and> ufits b \<and> uexact a * uexact b \<le> u256_top"
| "ufits (Over a b) \<longleftrightarrow> ufits a \<and> ufits b \<and> uexact b \<noteq> 0"

lemma u256_checked_ok: "u256_ok u256_checked"
  by (auto simp: u256_ok_def u256_checked_def u128_max_def u64_max_def)

lemma u256_wrapping_ok: "u256_ok u256_wrapping"
proof -
  have "nat (int n mod 2 ^ 256) = n" if "n \<le> u256_top" for n
    using that by (simp add: u256_top_def nat_mod_distrib)
  then show ?thesis by (auto simp: u256_ok_def u256_wrapping_def u128_max_def u64_max_def)
qed

lemma u_fit_exact: "u256_ok U \<Longrightarrow> n \<le> u256_top \<Longrightarrow> int n = i \<Longrightarrow> u_fit U i = Some n"
  by (auto simp: u256_ok_def)

lemma ueval_exact: "u256_ok U \<Longrightarrow> ufits e \<Longrightarrow> ueval U e = Some (uexact e)"
  by (induction e) (auto intro!: u_fit_exact simp: of_nat_diff)

text \<open>The checked arithmetic succeeds exactly when nothing overflows; every other arithmetic then agrees.\<close>

lemma checked_fit: "u_fit u256_checked i = Some n \<longleftrightarrow> i = int n \<and> n \<le> u256_top"
  by (auto simp: u256_checked_def)

lemma ueval_checked: "ueval u256_checked e = Some n \<longleftrightarrow> ufits e \<and> n = uexact e"
proof
  show "ueval u256_checked e = Some n \<Longrightarrow> ufits e \<and> n = uexact e"
  proof (induction e arbitrary: n)
    case (Minus a b)
    then obtain x y where "ueval u256_checked a = Some x" "ueval u256_checked b = Some y" "int x - int y = int n" "n \<le> u256_top"
      by (auto simp: bind_eq_Some_conv checked_fit)
    with Minus.IH show ?case by (auto simp: of_nat_diff [symmetric])
  next
    case (Plus a b)
    then show ?case by (auto simp: bind_eq_Some_conv checked_fit simp flip: of_nat_add)
  next
    case (Times a b)
    then show ?case by (auto simp: bind_eq_Some_conv checked_fit simp flip: of_nat_mult)
  qed (auto simp: bind_eq_Some_conv split: if_splits)
qed (simp add: ueval_exact [OF u256_checked_ok])

lemma ueval_agrees: "u256_ok U \<Longrightarrow> ueval u256_checked e = Some n \<Longrightarrow> ueval U e = Some n"
  by (simp add: ueval_checked ueval_exact)

section \<open>Amplification\<close>

text \<open>Plain \<open>u64\<close> arithmetic of the code wraps; the division panics on 0 only if the ramp has no length, and then the
  code has already returned.\<close>

definition u64_wrap :: "int \<Rightarrow> u64" where
  "u64_wrap i = nat (i mod 2 ^ 64)"

definition get_a :: "u64 \<Rightarrow> u64 \<Rightarrow> u64 \<Rightarrow> u64 \<Rightarrow> u64 \<Rightarrow> u64" where
  "get_a initial_a future_a initial_a_time future_a_time current_time =
     (if current_time \<ge> future_a_time \<or> initial_a_time = future_a_time then future_a
      else
        let elapsed = u64_wrap (int current_time - int initial_a_time);
            duration = u64_wrap (int future_a_time - int initial_a_time) in
        if future_a > initial_a
        then u64_wrap (int initial_a + int (u64_wrap (int (future_a - initial_a) * int elapsed) div duration))
        else u64_wrap (int initial_a - int (u64_wrap (int (initial_a - future_a) * int elapsed) div duration)))"

section \<open>The invariant D\<close>

definition max_iterations :: usize where
  "max_iterations = 256"

definition abs_diff :: "nat \<Rightarrow> nat \<Rightarrow> nat" where
  "abs_diff a b = (if a > b then a - b else b - a)"

fun d_product :: "u256_ops \<Rightarrow> u256 \<Rightarrow> u256 list \<Rightarrow> u256 \<Rightarrow> (unit, u256) outcome" where
  "d_product U d [] d_p = Ok d_p"
| "d_product U d (x # xs) d_p =
     (if x = 0 then Err ()
      else and_then (or_trap (ueval U (Over (Times (Num d_p) (Num d)) (Times (Num x) (Num 3))))) (d_product U d xs))"

fun d_loop :: "nat \<Rightarrow> u256_ops \<Rightarrow> u256 list \<Rightarrow> u256 \<Rightarrow> u256 \<Rightarrow> u256 \<Rightarrow> (unit, u256) outcome" where
  "d_loop 0 U xp ann s d = Err ()"
| "d_loop (Suc n) U xp ann s d =
     and_then (d_product U d xp d) (\<lambda>d_p.
     and_then (or_trap (ueval U (Over
         (Times (Plus (Times (Num ann) (Num s)) (Times (Num d_p) (Num 3))) (Num d))
         (Plus (Times (Minus (Num ann) (Num 1)) (Num d)) (Times (Plus (Num 3) (Num 1)) (Num d_p)))))) (\<lambda>d'.
     if abs_diff d' d \<le> 1 then Ok d' else d_loop n U xp ann s d'))"

definition get_d :: "u256_ops \<Rightarrow> u256 list \<Rightarrow> u64 \<Rightarrow> (unit, u256) outcome" where
  "get_d U xp amp =
     and_then (or_trap (ueval U (Plus (Plus (Num (xp ! 0)) (Num (xp ! 1))) (Num (xp ! 2))))) (\<lambda>s.
     if s = 0 then Ok 0
     else and_then (or_trap (ueval U (Times (Num amp) (Num 3)))) (\<lambda>ann. d_loop max_iterations U xp ann s s))"

section \<open>The balance of one coin\<close>

text \<open>The loop over the known balances: their sum and \<open>c\<close>\<close>

fun y_terms :: "u256_ops \<Rightarrow> u256 \<Rightarrow> u256 list \<Rightarrow> u256 \<Rightarrow> u256 \<Rightarrow> (u256 \<times> u256) option" where
  "y_terms U d [] s c = Some (s, c)"
| "y_terms U d (x # xs) s c =
     Option.bind (ueval U (Plus (Num s) (Num x))) (\<lambda>s'.
     Option.bind (ueval U (Over (Times (Num c) (Num d)) (Times (Num x) (Num 3)))) (\<lambda>c'. y_terms U d xs s' c'))"

fun y_loop :: "nat \<Rightarrow> u256_ops \<Rightarrow> u256 \<Rightarrow> u256 \<Rightarrow> u256 \<Rightarrow> u256 \<Rightarrow> (unit, u256) outcome" where
  "y_loop 0 U b c d y = Err ()"
| "y_loop (Suc n) U b c d y =
     and_then (or_trap (ueval U (Over (Plus (Times (Num y) (Num y)) (Num c))
         (Minus (Plus (Times (Num 2) (Num y)) (Num b)) (Num d))))) (\<lambda>y_new.
     if abs_diff y_new y \<le> 1 then Ok y_new else y_loop n U b c d y_new)"

definition solve_y :: "u256_ops \<Rightarrow> u256 list \<Rightarrow> u64 \<Rightarrow> u256 \<Rightarrow> (unit, u256) outcome" where
  "solve_y U known amp d =
     and_then (or_trap (ueval U (Times (Num amp) (Num 3)))) (\<lambda>ann.
     and_then (or_trap (y_terms U d known 0 d)) (\<lambda>(s, c0).
     and_then (or_trap (ueval U (Over (Times (Num c0) (Num d)) (Times (Num ann) (Num 3))))) (\<lambda>c.
     and_then (or_trap (ueval U (Plus (Num s) (Over (Num d) (Num ann))))) (\<lambda>b.
     y_loop max_iterations U b c d d))))"

definition get_y :: "u256_ops \<Rightarrow> usize \<Rightarrow> usize \<Rightarrow> u256 \<Rightarrow> u256 list \<Rightarrow> u64 \<Rightarrow> u256 \<Rightarrow> (unit, u256) outcome" where
  "get_y U i j x xp amp d =
     (if i = j \<or> \<not> (i < 3 \<and> j < 3) then Trap
      else solve_y U (map (\<lambda>k. if k = i then x else xp ! k) (filter (\<lambda>k. k \<noteq> j) [0, 1, 2])) amp d)"

definition get_y_d :: "u256_ops \<Rightarrow> usize \<Rightarrow> u256 list \<Rightarrow> u64 \<Rightarrow> u256 \<Rightarrow> (unit, u256) outcome" where
  "get_y_d U j xp amp d =
     (if \<not> j < 3 then Trap else solve_y U (map (\<lambda>k. xp ! k) (filter (\<lambda>k. k \<noteq> j) [0, 1, 2])) amp d)"

section \<open>Precision\<close>

definition normalize_balance :: "u256_ops \<Rightarrow> u128 \<Rightarrow> u64 \<Rightarrow> u256 option" where
  "normalize_balance U raw precision_mul = ueval U (Times (Num raw) (Num precision_mul))"

definition denormalize_balance :: "u256_ops \<Rightarrow> u256 \<Rightarrow> u64 \<Rightarrow> u128 option" where
  "denormalize_balance U normalized precision_mul =
     map_option (u_as_u128 U) (ueval U (Over (Num normalized) (Num precision_mul)))"

definition normalize_all :: "u256_ops \<Rightarrow> u128 list \<Rightarrow> u64 list \<Rightarrow> u256 list option" where
  "normalize_all U balances precision_muls =
     Option.bind (normalize_balance U (balances ! 0) (precision_muls ! 0)) (\<lambda>a.
     Option.bind (normalize_balance U (balances ! 1) (precision_muls ! 1)) (\<lambda>b.
     Option.bind (normalize_balance U (balances ! 2) (precision_muls ! 2)) (\<lambda>c. Some [a, b, c])))"

definition virtual_price :: "u256_ops \<Rightarrow> u128 list \<Rightarrow> u64 list \<Rightarrow> u64 \<Rightarrow> u128 \<Rightarrow> (unit, u128) outcome" where
  "virtual_price U balances precision_muls amp lp_total_supply =
     (if lp_total_supply = 0 then Err ()
      else
        and_then (or_trap (normalize_all U balances precision_muls)) (\<lambda>xp.
        and_then (get_d U xp amp) (\<lambda>d.
        and_then (or_trap (ueval U (Over (Times (Num d) (Num 100000000)) (Num lp_total_supply)))) (\<lambda>vp.
        Ok (u_as_u128 U vp)))))"

section \<open>Imbalance and fees\<close>

definition imb_scale :: u64 where
  "imb_scale = 1000000000"

definition weight_scale :: u256 where
  "weight_scale = 1000000000000000000"

definition weight_target :: u256 where
  "weight_target = weight_scale div 3"

fun ssd_sum :: "u256_ops \<Rightarrow> u256 \<Rightarrow> u256 list \<Rightarrow> u256 \<Rightarrow> u256 option" where
  "ssd_sum U whole [] ssd = Some ssd"
| "ssd_sum U whole (x # xs) ssd =
     Option.bind (ueval U (Over (Times (Num x) (Num weight_scale)) (Num whole))) (\<lambda>w.
     let dev = abs_diff w weight_target in
     Option.bind (ueval U (Plus (Num ssd) (Over (Times (Num dev) (Num dev)) (Num weight_scale)))) (ssd_sum U whole xs))"

definition compute_imbalance :: "u256_ops \<Rightarrow> u128 list \<Rightarrow> u64 list \<Rightarrow> u64 option" where
  "compute_imbalance U balances precision_muls =
     Option.bind (normalize_all U balances precision_muls) (\<lambda>xp.
     Option.bind (ueval U (Plus (Plus (Num (xp ! 0)) (Num (xp ! 1))) (Num (xp ! 2)))) (\<lambda>whole.
     if whole = 0 then Some 0
     else
       Option.bind (ssd_sum U whole xp 0) (\<lambda>ssd.
       Option.bind (ueval U (Over (Times (Num 2) (Num weight_scale)) (Num 3))) (\<lambda>max_ssd.
       map_option (u_as_u64 U) (ueval U (Over (Times (Num ssd) (Num imb_scale)) (Num max_ssd)))))))"

record fee_curve_params =
  fc_min_fee_bps :: u16
  fc_max_fee_bps :: u16
  fc_imb_saturation :: u64

definition compute_fee_bps :: "u64 \<Rightarrow> u64 \<Rightarrow> fee_curve_params \<Rightarrow> u16" where
  "compute_fee_bps imb_before imb_after p =
     (if imb_after \<le> imb_before then fc_min_fee_bps p
      else if fc_max_fee_bps p \<le> fc_min_fee_bps p then fc_min_fee_bps p
      else if fc_imb_saturation p = 0 then fc_max_fee_bps p
      else
        let capped = min imb_after (fc_imb_saturation p);
            span = fc_max_fee_bps p - fc_min_fee_bps p
        in min (fc_min_fee_bps p + span * capped div fc_imb_saturation p) (fc_max_fee_bps p))"

end
