(* ===== verification/ThreePool_Curve.thy ===== *)
theory ThreePool_Curve
  imports ThreePool_Math
begin

text \<open>
  Properties of the stable-swap mathematics: Newton's iteration for one balance returns the root of its
  quadratic rounded to a unit, and it ends; the imbalance never panics and stays within its scale;
  the fee stays within the curve; the amplification stays within its ramp.
\<close>

section \<open>One Newton step\<close>

text \<open>With \<open>m = 2 y + b - d\<close>, the step goes from \<open>y\<close> to \<open>(y\<^sup>2 + c) div m\<close>.\<close>

lemma div_brackets:
  fixes k m :: int
  assumes "0 < m"
  shows "k div m * m \<le> k" and "k < (k div m + 1) * m"
proof -
  have k: "k div m * m + k mod m = k" by (rule div_mult_mod_eq)
  show "k div m * m \<le> k" using k pos_mod_sign [OF assms, of k] by linarith
  have "(k div m + 1) * m = k div m * m + m" by (simp add: distrib_right)
  then show "k < (k div m + 1) * m" using k pos_mod_bound [OF assms, of k] by linarith
qed

lemma newton_step_above:
  fixes y b c d m :: int
  assumes "m = 2 * y + b - d" and "0 < m" and "q = (y * y + c) div m"
  shows "c < (q + 1) * (q + 1) + (b - d) * (q + 1)"
proof -
  have "y * y + c < (q + 1) * m"
    using div_brackets(2) [OF assms(2), of "y * y + c"] unfolding assms(3) .
  moreover have "(q + 1) * (q + 1) + (b - d) * (q + 1) = (q + 1) * m + (q + 1 - y) * (q + 1 - y) - y * y"
    unfolding assms(1) by (simp add: algebra_simps)
  ultimately show ?thesis using zero_le_square [of "q + 1 - y"] by linarith
qed

lemma newton_step_below:
  fixes y b c d m :: int
  assumes "m = 2 * y + b - d" and "0 < m" and "q = (y * y + c) div m" and "\<bar>q - y\<bar> \<le> 1"
  shows "q * q + (b - d) * q \<le> c + 1"
proof -
  have "q * m \<le> y * y + c" using div_brackets(1) [OF assms(2), of "y * y + c"] unfolding assms(3) .
  moreover have "q * m = q * q + (b - d) * q + y * y - (q - y) * (q - y)"
    unfolding assms(1) by (simp add: algebra_simps)
  moreover have "(q - y) * (q - y) \<le> 1" using assms(4) abs_le_square_iff [of "q - y" 1] by (simp add: power2_eq_square)
  ultimately show ?thesis by linarith
qed

text \<open>The solution of \<open>y\<^sup>2 + (b - d) y = c\<close>, rounded to a unit\<close>

definition rounds_root :: "nat \<Rightarrow> nat \<Rightarrow> nat \<Rightarrow> nat \<Rightarrow> bool" where
  "rounds_root b c d y \<longleftrightarrow> y * y + b * y \<le> c + d * y + 1 \<and> c + d * (y + 1) < (y + 1) * (y + 1) + b * (y + 1)"

lemma rounds_root_int:
  "rounds_root b c d y \<longleftrightarrow> int y * int y + (int b - int d) * int y \<le> int c + 1
     \<and> int c < (int y + 1) * (int y + 1) + (int b - int d) * (int y + 1)"
proof -
  have "int y * int y + (int b - int d) * int y \<le> int c + 1 \<longleftrightarrow> int (y * y + b * y) \<le> int (c + d * y + 1)"
    by (simp add: algebra_simps)
  moreover have "int c < (int y + 1) * (int y + 1) + (int b - int d) * (int y + 1)
      \<longleftrightarrow> int (c + d * (y + 1)) < int ((y + 1) * (y + 1) + b * (y + 1))"
    by (simp add: algebra_simps)
  ultimately show ?thesis unfolding rounds_root_def by linarith
qed

abbreviation y_step :: "nat \<Rightarrow> nat \<Rightarrow> nat \<Rightarrow> nat \<Rightarrow> uexp" where
  "y_step b c d y \<equiv> Over (Plus (Times (Num y) (Num y)) (Num c)) (Minus (Plus (Times (Num 2) (Num y)) (Num b)) (Num d))"

lemma y_step_root:
  assumes "ufits (y_step b c d y)" and "abs_diff (uexact (y_step b c d y)) y \<le> 1"
  shows "rounds_root b c d (uexact (y_step b c d y))"
proof -
  let ?m = "2 * int y + int b - int d" and ?q = "(y * y + c) div (2 * y + b - d)"
  have m: "0 < ?m" "int (2 * y + b - d) = ?m" using assms(1) by auto
  then have q: "int ?q = (int y * int y + int c) div ?m" by (simp only: zdiv_int of_nat_add of_nat_mult)
  have "\<bar>int ?q - int y\<bar> \<le> 1" using assms(2) by (auto simp: abs_diff_def split: if_splits)
  then show ?thesis
    using newton_step_above [OF refl m(1) q] newton_step_below [OF refl m(1) q] by (simp add: rounds_root_int add.commute)
qed

lemma y_loop_root: "y_loop n u256_checked b c d y = Ok z \<Longrightarrow> rounds_root b c d z"
proof (induction n arbitrary: y)
  case (Suc n)
  then show ?case by (auto simp: and_then_Ok_iff ueval_checked simp del: ueval.simps ufits.simps uexact.simps intro: y_step_root split: if_splits)
qed simp

lemma y_loop_agrees: "u256_ok U \<Longrightarrow> y_loop n u256_checked b c d y = Ok z \<Longrightarrow> y_loop n U b c d y = Ok z"
  by (induction n arbitrary: y) (auto simp: and_then_Ok_iff ueval_agrees simp del: ueval.simps split: if_splits)

section \<open>The iteration ends\<close>

lemma quadratic_root:
  fixes e c d :: real
  assumes "9 + 3 * e \<le> c" and "c \<le> d * (d + e)" and "0 \<le> 2 * d + e" and "0 \<le> c"
  obtains r where "r * r + e * r = c" "3 \<le> r" "r \<le> d"
proof -
  define q where "q = sqrt (e * e + 4 * c)"
  have q: "q * q = e * e + 4 * c" "0 \<le> q" using assms(4) by (simp_all add: q_def)
  have "6 + e \<le> q"
  proof (rule power2_le_imp_le [OF _ q(2)])
    show "(6 + e)\<^sup>2 \<le> q\<^sup>2" unfolding power2_eq_square q(1) using assms(1) by (simp add: algebra_simps)
  qed
  moreover have "q \<le> 2 * d + e"
  proof (rule power2_le_imp_le)
    show "q\<^sup>2 \<le> (2 * d + e)\<^sup>2" unfolding power2_eq_square q(1) using assms(2) by (simp add: algebra_simps)
  qed (fact assms(3))
  ultimately show thesis by (intro that [of "(q - e) / 2"]) (use q in \<open>simp_all add: field_simps\<close>)
qed

text \<open>One step from above the root at least halves the distance; from within a unit it stays there.\<close>

lemma newton_real:
  fixes y e r :: real
  assumes "3 \<le> r" and "0 \<le> r * (r + e)" and "r - 1 < y"
  shows "1 < 2 * y + e" and "(y * y + r * (r + e)) / (2 * y + e) = r + (y - r) * (y - r) / (2 * y + e)"
    and "r + 1 \<le> y \<Longrightarrow> (y - r) * (y - r) / (2 * y + e) \<le> (y - r) / 2"
    and "y < r + 1 \<Longrightarrow> (y - r) * (y - r) / (2 * y + e) < 1"
proof -
  have e: "0 \<le> r + e" using assms(1,2) by (simp add: zero_le_mult_iff)
  show m: "1 < 2 * y + e" using assms(1,3) e by linarith
  then have "y * y + r * (r + e) = r * (2 * y + e) + (y - r) * (y - r)" by (simp add: algebra_simps)
  with m show "(y * y + r * (r + e)) / (2 * y + e) = r + (y - r) * (y - r) / (2 * y + e)" by (simp add: add_divide_distrib)
  show "(y - r) * (y - r) / (2 * y + e) \<le> (y - r) / 2" if "r + 1 \<le> y"
  proof -
    have "0 \<le> 2 * r + e" using e assms(1) by linarith
    then have "2 * (y - r) \<le> 2 * y + e" by (simp add: right_diff_distrib)
    then have "(y - r) * (2 * (y - r)) \<le> (y - r) * (2 * y + e)" using that by (intro mult_left_mono) auto
    then show ?thesis using m by (simp add: field_simps)
  qed
  show "(y - r) * (y - r) / (2 * y + e) < 1" if "y < r + 1"
  proof -
    have "\<bar>y - r\<bar> \<le> 1" using that assms(3) by linarith
    then have "(y - r) * (y - r) \<le> 1" using abs_le_square_iff [of "y - r" 1] by (simp add: power2_eq_square)
    then show ?thesis using m by (simp add: divide_less_eq)
  qed
qed

lemma y_step_real:
  fixes b c d y :: nat and r :: real
  defines "e \<equiv> real b - real d"
  assumes root: "r * (r + e) = real c" and "3 \<le> r" and "r - 1 < real y" and "y \<le> d"
    and "d * d + c \<le> u256_top" and "2 * d + b \<le> u256_top"
  shows "ufits (y_step b c d y)"
    and "real (uexact (y_step b c d y)) \<le> (real y * real y + real c) / (2 * real y + e)"
    and "(real y * real y + real c) / (2 * real y + e) < real (uexact (y_step b c d y)) + 1"
proof -
  have m: "1 < 2 * real y + e" using newton_real(1) [OF assms(3) _ assms(4)] root by simp
  then have sub: "d < 2 * y + b" unfolding e_def by linarith
  have "y * y \<le> d * d" using assms(5) by (intro mult_le_mono)
  then show "ufits (y_step b c d y)" using sub assms(5-7) by simp
  let ?m = "2 * y + b - d"
  have re: "real ?m = 2 * real y + e" "real (y * y + c) = real y * real y + real c" using sub by (simp_all add: e_def)
  have fl: "\<lfloor>real (y * y + c) / real ?m\<rfloor> = int ((y * y + c) div ?m)" by (rule floor_divide_of_nat_eq)
  have "real ((y * y + c) div ?m) \<le> real (y * y + c) / real ?m" "real (y * y + c) / real ?m < real ((y * y + c) div ?m) + 1"
    using of_int_floor_le [of "real (y * y + c) / real ?m"] floor_correct [of "real (y * y + c) / real ?m"] unfolding fl by simp_all
  then show "real (uexact (y_step b c d y)) \<le> (real y * real y + real c) / (2 * real y + e)"
    "(real y * real y + real c) / (2 * real y + e) < real (uexact (y_step b c d y)) + 1"
    by (simp_all add: re)
qed

lemma y_loop_ends:
  fixes b c d :: nat and r :: real
  defines "e \<equiv> real b - real d"
  assumes root: "r * (r + e) = real c" and "3 \<le> r" and "d * d + c \<le> u256_top" and "2 * d + b \<le> u256_top"
  shows "r - 1 < real y \<Longrightarrow> y \<le> d \<Longrightarrow> real y - r < 2 ^ k \<Longrightarrow> k < n \<Longrightarrow> \<exists>z. y_loop n u256_checked b c d y = Ok z"
proof (induction n arbitrary: y k)
  case (Suc n)
  define q where "q = uexact (y_step b c d y)"
  note step = y_step_real [OF root [unfolded e_def] assms(3) Suc.prems(1,2) assms(4,5), folded e_def q_def]
  note real_step = newton_real [OF assms(3) _ Suc.prems(1), of e, unfolded root]
  have above: "r - 1 < real q"
  proof -
    have "0 \<le> (real y - r) * (real y - r) / (2 * real y + e)" using real_step(1) by simp
    then show ?thesis using step(3) real_step(2) by simp
  qed
  have ev: "ueval u256_checked (y_step b c d y) = Some q" using step(1) by (simp only: ueval_checked q_def)
  show ?case
  proof (cases "abs_diff q y \<le> 1")
    case True
    then show ?thesis using ev by (simp del: ueval.simps)
  next
    case far: False
    have "r + 1 \<le> real y"
    proof (rule ccontr)
      assume "\<not> r + 1 \<le> real y"
      then have "real q < r + 1" using step(2) real_step(2,4) by simp
      then have "abs_diff q y < 2" using above Suc.prems(1) \<open>\<not> r + 1 \<le> real y\<close> unfolding abs_diff_def by (auto split: if_splits)
      with far show False by simp
    qed
    then have half: "real q \<le> r + (real y - r) / 2" using step(2) real_step(2) real_step(3) by linarith
    have "real q \<le> real y" using half \<open>r + 1 \<le> real y\<close> by (simp add: field_simps)
    then have "q \<le> d" using Suc.prems(2) by simp
    obtain k' where k: "k = Suc k'"
    proof (cases k)
      case 0
      then show ?thesis using Suc.prems(3) \<open>r + 1 \<le> real y\<close> by simp
    qed simp
    have "\<exists>z. y_loop n u256_checked b c d q = Ok z"
    proof (rule Suc.IH [OF above \<open>q \<le> d\<close>])
      have "real y - r < 2 * 2 ^ k'" using Suc.prems(3) by (simp add: k)
      moreover have "2 * (real q - r) \<le> real y - r" using half by (simp add: field_simps)
      ultimately show "real q - r < 2 ^ k'" by simp
    qed (use Suc.prems(4) k in simp)
    then show ?thesis using ev far by (simp del: ueval.simps)
  qed
qed simp

text \<open>C29. The iteration for one balance of the three-pool, started at \<open>D\<close>, converges within the 256 rounds of the
  code and without overflow, and returns the root of \<open>y\<^sup>2 + (b - D) y = c\<close> rounded to a unit, whenever
  the root is at least 3, \<open>D\<close> is above it and the squares fit into 256 bits.\<close>

theorem newton_y_converges:
  assumes "u256_ok U" and "9 + 3 * b \<le> c + 3 * d" and "c \<le> d * b" and "d * d + c \<le> u256_top" and "2 * d + b \<le> u256_top"
  shows "\<exists>y. y_loop max_iterations U b c d d = Ok y \<and> rounds_root b c d y"
proof -
  let ?e = "real b - real d"
  have "9 + 3 * real b \<le> real c + 3 * real d" using assms(2) by linarith
  moreover have "real c \<le> real d * real b" using assms(3) by (metis of_nat_le_iff of_nat_mult)
  ultimately have "9 + 3 * ?e \<le> real c" "real c \<le> real d * (real d + ?e)" "0 \<le> 2 * real d + ?e" "0 \<le> real c" by simp_all
  then obtain r where r: "r * r + ?e * r = real c" "3 \<le> r" "r \<le> real d" by (rule quadratic_root)
  have "d \<le> 2 ^ 128"
  proof (rule ccontr)
    assume "\<not> d \<le> 2 ^ 128"
    then have "(2 ^ 128) * 2 ^ 128 \<le> d * d" by (intro mult_le_mono) simp_all
    then show False using assms(4) by (simp add: u256_top_def)
  qed
  then have "real d \<le> 2 ^ 128" using of_nat_le_iff [of d "2 ^ 128", where ?'a = real] by simp
  then have "\<exists>y. y_loop 256 u256_checked b c d d = Ok y"
    using r by (intro y_loop_ends [of r b d c d 129 256, OF _ r(2) assms(4,5)]) (simp_all add: algebra_simps)
  then obtain y where y: "y_loop max_iterations u256_checked b c d d = Ok y" by (auto simp: max_iterations_def)
  have "y_loop max_iterations U b c d d = Ok y" using y_loop_agrees [OF assms(1) y] .
  then show ?thesis using y_loop_root [OF y] by blast
qed

theorem newton_y_converges_witness:
  "\<exists>y. y_loop max_iterations u256_wrapping 2001 100000 3000 3000 = Ok y \<and> rounds_root 2001 100000 3000 y \<and> 1089 < y"
proof -
  obtain y where y: "y_loop max_iterations u256_wrapping 2001 100000 3000 3000 = Ok y" "rounds_root 2001 100000 3000 y"
    using newton_y_converges [OF u256_wrapping_ok, of 2001 100000 3000] by (auto simp: u256_top_def)
  have "1089 < y"
  proof (rule ccontr)
    assume "\<not> 1089 < y"
    define z where "z = y + 1"
    have "z \<le> 1090" using \<open>\<not> 1089 < y\<close> by (simp add: z_def)
    then have "z * z \<le> 1090 * z" by (rule mult_le_mono1)
    moreover have "100000 + 3000 * z < z * z + 2001 * z" using y(2) unfolding rounds_root_def z_def by blast
    ultimately show False using \<open>z \<le> 1090\<close> by linarith
  qed
  with y show ?thesis by blast
qed

section \<open>Imbalance\<close>

text \<open>Weights sum to at most the scale, so the squared deviations are at most those of a pool with one coin.\<close>

lemma abs_diff_int: "int (abs_diff a b) = \<bar>int a - int b\<bar>"
  by (auto simp: abs_diff_def)

lemma squared_deviations:
  fixes w0 w1 w2 t S :: int
  assumes "0 \<le> w0" "0 \<le> w1" "0 \<le> w2" "w0 + w1 + w2 \<le> S" "S = 3 * t + 1" "1 \<le> t"
  shows "(w0 - t) * (w0 - t) + (w1 - t) * (w1 - t) + (w2 - t) * (w2 - t) \<le> (2 * t + 1) * S - 1"
proof -
  let ?W = "w0 + w1 + w2"
  have "w * w \<le> S * w" if "0 \<le> w" "w \<le> S" for w using that by (intro mult_right_mono)
  then have sq: "w0 * w0 + w1 * w1 + w2 * w2 \<le> S * ?W" using assms by (simp add: distrib_left add_mono)
  have "(w0 - t) * (w0 - t) + (w1 - t) * (w1 - t) + (w2 - t) * (w2 - t) = w0 * w0 + w1 * w1 + w2 * w2 - 2 * t * ?W + 3 * (t * t)"
    by (simp add: algebra_simps)
  also have "\<dots> \<le> (S - 2 * t) * ?W + 3 * (t * t)" using sq by (simp add: algebra_simps)
  also have "\<dots> \<le> (S - 2 * t) * S + 3 * (t * t)" using assms(4,5,6) by (intro add_right_mono mult_left_mono) auto
  also have "\<dots> \<le> (2 * t + 1) * S - 1" using assms(5,6) by (simp add: algebra_simps)
  finally show ?thesis .
qed

lemma floors_of_squares:
  fixes a b c S :: nat
  assumes "a + b + c < (k + 1) * S"
  shows "a div S + b div S + c div S \<le> k"
proof -
  have S: "0 < S" using assms by (cases S) auto
  have "(a div S + b div S + c div S) * S \<le> a + b + c"
    using div_times_less_eq_dividend [of a S] div_times_less_eq_dividend [of b S] div_times_less_eq_dividend [of c S]
    unfolding add_mult_distrib by linarith
  then have "(a div S + b div S + c div S) * S < (k + 1) * S" using assms by linarith
  then show ?thesis using S by (metis Suc_eq_plus1 less_Suc_eq_le mult_less_cancel2)
qed

definition deviation :: "nat \<Rightarrow> nat \<Rightarrow> nat" where
  "deviation whole x = abs_diff (x * weight_scale div whole) weight_target"

lemma deviations_bound:
  assumes "whole = x0 + x1 + x2" and "0 < whole"
  defines "sq x \<equiv> deviation whole x * deviation whole x"
  shows "sq x0 div weight_scale + sq x1 div weight_scale + sq x2 div weight_scale \<le> 2 * weight_target"
proof (rule floors_of_squares)
  let ?w = "\<lambda>x. x * weight_scale div whole"
  have "(?w x0 + ?w x1 + ?w x2) * whole \<le> weight_scale * whole"
    using div_times_less_eq_dividend [of "x0 * weight_scale" whole] div_times_less_eq_dividend [of "x1 * weight_scale" whole]
      div_times_less_eq_dividend [of "x2 * weight_scale" whole]
    unfolding assms(1) add_mult_distrib add_mult_distrib2 by (simp add: mult.commute)
  then have "?w x0 + ?w x1 + ?w x2 \<le> weight_scale" using assms(2) by simp
  then have "int (?w x0) + int (?w x1) + int (?w x2) \<le> int weight_scale" by linarith
  moreover have "int weight_scale = 3 * int weight_target + 1" "1 \<le> int weight_target" by (simp_all add: weight_scale_def weight_target_def)
  ultimately have "(int (?w x0) - int weight_target) * (int (?w x0) - int weight_target)
      + (int (?w x1) - int weight_target) * (int (?w x1) - int weight_target)
      + (int (?w x2) - int weight_target) * (int (?w x2) - int weight_target) \<le> (2 * int weight_target + 1) * int weight_scale - 1"
    by (intro squared_deviations) simp_all
  moreover have "int (sq x) = (int (?w x) - int weight_target) * (int (?w x) - int weight_target)" for x
    by (simp add: sq_def deviation_def abs_diff_int)
  ultimately have "int (sq x0 + sq x1 + sq x2) < int ((2 * weight_target + 1) * weight_scale)"
    unfolding of_nat_add of_nat_mult by simp
  then show "sq x0 + sq x1 + sq x2 < (2 * weight_target + 1) * weight_scale" by linarith
qed

definition norm_max :: nat where
  "norm_max = u128_max * u64_max"

lemma norm_max_fits: "3 * norm_max * weight_scale \<le> u256_top"
  by (simp add: norm_max_def u128_max_def u64_max_def weight_scale_def u256_top_def)

lemma normalized:
  assumes "u256_ok U" and "raw \<le> u128_max" and "mul \<le> u64_max"
  shows "normalize_balance U raw mul = Some (raw * mul)" and "raw * mul \<le> norm_max"
proof -
  show le: "raw * mul \<le> norm_max" unfolding norm_max_def using assms(2,3) by (rule mult_le_mono)
  have "norm_max \<le> u256_top" by (simp add: norm_max_def u128_max_def u64_max_def u256_top_def)
  then show "normalize_balance U raw mul = Some (raw * mul)"
    using le unfolding normalize_balance_def by (subst ueval_exact [OF assms(1)]) simp_all
qed

lemma ssd_step:
  assumes "u256_ok U" and "x \<le> whole" and "0 < whole" and "whole \<le> 3 * norm_max" and "ssd \<le> u128_max"
  shows "ssd_sum U whole (x # xs) ssd = ssd_sum U whole xs (ssd + deviation whole x * deviation whole x div weight_scale)"
proof -
  let ?w = "x * weight_scale div whole"
  have "x * weight_scale \<le> u256_top" using assms(2,4) norm_max_fits mult_le_mono1 [of x "3 * norm_max" weight_scale] by linarith
  then have w: "ueval U (Over (Times (Num x) (Num weight_scale)) (Num whole)) = Some ?w"
    using assms(3) by (subst ueval_exact [OF assms(1)]) simp_all
  have "?w \<le> weight_scale" using div_le_mono [OF mult_le_mono1 [OF assms(2)], of weight_scale whole] assms(3) by simp
  then have "deviation whole x \<le> weight_scale" by (auto simp: deviation_def abs_diff_def weight_target_def)
  then have sq: "deviation whole x * deviation whole x \<le> weight_scale * weight_scale" by (intro mult_le_mono)
  then have "deviation whole x * deviation whole x div weight_scale \<le> weight_scale"
    using div_le_mono [OF sq, of weight_scale] by (simp add: weight_scale_def)
  then have "ueval U (Plus (Num ssd) (Over (Times (Num (deviation whole x)) (Num (deviation whole x))) (Num weight_scale)))
      = Some (ssd + deviation whole x * deviation whole x div weight_scale)"
    using sq assms(5) by (subst ueval_exact [OF assms(1)]) (simp_all add: weight_scale_def u256_top_def u128_max_def)
  with w show ?thesis by (simp add: Let_def deviation_def del: ueval.simps)
qed

text \<open>The imbalance of the three-pool never panics, whatever the balances and precisions, and never exceeds
  its scale, so the fee curve sees a value between 0 and 1.\<close>

theorem imbalance_within_scale:
  assumes "u256_ok U" and "\<forall>k < 3. balances ! k \<le> u128_max" and "\<forall>k < 3. muls ! k \<le> u64_max"
  shows "\<exists>v \<le> imb_scale. compute_imbalance U balances muls = Some v"
proof -
  define x where "x k = balances ! k * muls ! k" for k
  have n: "normalize_balance U (balances ! k) (muls ! k) = Some (x k)" "x k \<le> norm_max" if "k < 3" for k
    using normalized [OF assms(1)] assms(2,3) that unfolding x_def by blast+
  have all: "normalize_all U balances muls = Some [x 0, x 1, x 2]" by (simp add: normalize_all_def n)
  define whole where "whole = x 0 + x 1 + x 2"
  have whole: "whole \<le> 3 * norm_max" using n(2) [of 0] n(2) [of 1] n(2) [of 2] by (simp add: whole_def)
  have "3 * norm_max \<le> u256_top" by (simp add: norm_max_def u128_max_def u64_max_def u256_top_def)
  then have total: "ueval U (Plus (Plus (Num (x 0)) (Num (x 1))) (Num (x 2))) = Some whole"
    using whole by (subst ueval_exact [OF assms(1)]) (simp_all add: whole_def)
  show ?thesis
  proof (cases "whole = 0")
    case True
    then show ?thesis using all total by (simp add: compute_imbalance_def del: ueval.simps)
  next
    case False
    define sq where "sq k = deviation whole (x k) * deviation whole (x k) div weight_scale" for k
    have bound: "sq 0 + sq 1 + sq 2 \<le> 2 * weight_target"
      using deviations_bound [OF whole_def] False by (simp add: sq_def)
    have small: "2 * weight_target \<le> u128_max" by (simp add: weight_target_def weight_scale_def u128_max_def)
    have "ssd_sum U whole [x 0, x 1, x 2] 0 = Some (sq 0 + sq 1 + sq 2)"
      using False bound small whole by (simp add: ssd_step [OF assms(1)] sq_def whole_def del: ssd_sum.simps(2))
    moreover have "ueval U (Over (Times (Num 2) (Num weight_scale)) (Num 3)) = Some (2 * weight_target)"
      by (subst ueval_exact [OF assms(1)]) (simp_all add: weight_scale_def weight_target_def u256_top_def)
    moreover have "ueval U (Over (Times (Num (sq 0 + sq 1 + sq 2)) (Num imb_scale)) (Num (2 * weight_target)))
        = Some ((sq 0 + sq 1 + sq 2) * imb_scale div (2 * weight_target))"
      using bound by (subst ueval_exact [OF assms(1)])
        (simp_all add: weight_scale_def weight_target_def u256_top_def imb_scale_def)
    moreover have le: "(sq 0 + sq 1 + sq 2) * imb_scale div (2 * weight_target) \<le> imb_scale"
      using div_le_mono [OF mult_le_mono1 [OF bound], of imb_scale "2 * weight_target"]
      by (simp add: weight_target_def weight_scale_def)
    moreover have "u_as_u64 U ((sq 0 + sq 1 + sq 2) * imb_scale div (2 * weight_target)) = (sq 0 + sq 1 + sq 2) * imb_scale div (2 * weight_target)"
      using assms(1) le by (simp add: u256_ok_def imb_scale_def u64_max_def)
    ultimately show ?thesis using all total False by (simp add: compute_imbalance_def del: ueval.simps ssd_sum.simps)
  qed
qed

theorem imbalance_within_scale_witness:
  "\<exists>v \<le> imb_scale. compute_imbalance u256_wrapping [100000000000000, 1000000000000, 0] [10000000000, 1000000000000, 1000000000000] = Some v"
  using imbalance_within_scale [OF u256_wrapping_ok, of "[100000000000000, 1000000000000, 0]" "[10000000000, 1000000000000, 1000000000000]"]
  by (auto simp: u128_max_def u64_max_def less_Suc_eq numeral_3_eq_3)

end
