(* ===== verification/ThreePool_Swap.thy ===== *)
theory ThreePool_Swap
  imports ThreePool_Curve
begin

text \<open>
  Pricing of the three-pool: swaps (\<^verbatim>\<open>rumi_3pool/src/swap.rs\<close>), deposits and withdrawals
  (\<^verbatim>\<open>rumi_3pool/src/liquidity.rs\<close>) as pure functions of the balances, with the error values of
  \<^verbatim>\<open>ThreePoolError\<close>. A \<^verbatim>\<open>[u128; 3]\<close> is a list of length 3. Arithmetic on \<open>U256\<close> goes through the
  crate; arithmetic on \<open>u128\<close> wraps.
\<close>

section \<open>Errors and outcomes\<close>

datatype three_pool_error =
    InsufficientOutput u128 u128
  | InsufficientLiquidity
  | InvalidCoinIndex
  | ZeroAmount
  | PoolEmpty
  | SlippageExceeded
  | TransferFailed string string
  | Unauthorized
  | MathOverflow
  | InvariantNotConverged
  | PoolPaused
  | NotAuthorizedBurnCaller
  | BurnSlippageExceeded u16 u16
  | InsufficientPoolBalance string u128 u128
  | InsufficientLpBalance u128 u128
  | BurnFailed string string
  | PoolLocked
  | ClaimNotFound

record swap_outcome =
  so_output_native :: u128
  so_fee_native :: u128
  so_fee_bps_used :: u16
  so_imbalance_before :: u64
  so_imbalance_after :: u64
  so_is_rebalancing :: bool

record add_liquidity_outcome =
  al_lp_minted :: u128
  al_fees_native :: "u128 list"
  al_fee_bps_used :: u16
  al_imbalance_before :: u64
  al_imbalance_after :: u64
  al_is_rebalancing :: bool

record remove_one_coin_outcome =
  rc_amount_native :: u128
  rc_fee_native :: u128
  rc_fee_bps_used :: u16
  rc_imbalance_before :: u64
  rc_imbalance_after :: u64
  rc_is_rebalancing :: bool

text \<open>\<^verbatim>\<open>.ok_or(ThreePoolError::InvariantNotConverged)?\<close>, and a product of two \<open>u128\<close>, which wraps\<close>

definition converged :: "(unit, 'a) outcome \<Rightarrow> (three_pool_error, 'a) outcome" where
  "converged = map_err (\<lambda>_. InvariantNotConverged)"

definition wrap_mul128 :: "u128 \<Rightarrow> u128 \<Rightarrow> u128" where
  "wrap_mul128 a b = wrap128 (a * b)"

lemma wrap_mul128_id [simp]: "a * b \<le> u128_max \<Longrightarrow> wrap_mul128 a b = a * b"
  by (simp add: wrap_mul128_def)

lemma converged_Ok_iff [simp]: "converged r = Ok a \<longleftrightarrow> r = Ok a"
  by (simp add: converged_def)

section \<open>Swap\<close>

definition calc_swap_output ::
  "u256_ops \<Rightarrow> usize \<Rightarrow> usize \<Rightarrow> u128 \<Rightarrow> u128 list \<Rightarrow> u64 list \<Rightarrow> u64 \<Rightarrow> fee_curve_params \<Rightarrow> u64 \<Rightarrow> (three_pool_error, swap_outcome) outcome" where
  "calc_swap_output U i j dx_native balances precision_muls amp fee_curve admin_fee_bps =
     (if dx_native = 0 then Err ZeroAmount
      else if i = j then Err InvalidCoinIndex
      else if i \<ge> 3 \<or> j \<ge> 3 then Err InvalidCoinIndex
      else
        and_then (or_trap (normalize_all U balances precision_muls)) (\<lambda>xp.
        and_then (converged (get_d U xp amp)) (\<lambda>d.
        and_then (or_trap (normalize_balance U dx_native (precision_muls ! i))) (\<lambda>dx.
        and_then (or_trap (ueval U (Plus (Num (xp ! i)) (Num dx)))) (\<lambda>new_x_i.
        and_then (converged (get_y U i j new_x_i xp amp d)) (\<lambda>new_y_j.
        if xp ! j < new_y_j then Err InsufficientLiquidity
        else
          let dy_normalized = xp ! j - new_y_j in
          and_then (or_trap (compute_imbalance U balances precision_muls)) (\<lambda>imbalance_before.
          and_then (or_trap (denormalize_balance U dy_normalized (precision_muls ! j))) (\<lambda>dy_native_gross.
          let grown = balances[i := sat_add128 (balances ! i) dx_native] in
          and_then (or_trap (compute_imbalance U (grown[j := sat_sub (grown ! j) dy_native_gross]) precision_muls)) (\<lambda>imbalance_after_gross.
          let fee_bps_first = compute_fee_bps imbalance_before imbalance_after_gross fee_curve in
          and_then (or_trap (ueval U (Over (Over (Times (Times (Num dy_normalized) (Num fee_bps_first))
              (Minus (Num 10000) (Num admin_fee_bps))) (Num 10000)) (Num 10000)))) (\<lambda>lp_fee_first_normalized.
          and_then (or_trap (denormalize_balance U (sat_sub dy_normalized lp_fee_first_normalized) (precision_muls ! j))) (\<lambda>dy_minus_lp_fee_native.
          and_then (or_trap (compute_imbalance U (grown[j := sat_sub (grown ! j) dy_minus_lp_fee_native]) precision_muls)) (\<lambda>imbalance_after.
          let fee_bps_used = compute_fee_bps imbalance_before imbalance_after fee_curve in
          and_then (or_trap (ueval U (Over (Times (Num dy_normalized) (Num fee_bps_used)) (Num 10000)))) (\<lambda>fee_normalized.
          and_then (or_trap (ueval U (Minus (Num dy_normalized) (Num fee_normalized)))) (\<lambda>dy_after_fee.
          and_then (or_trap (denormalize_balance U dy_after_fee (precision_muls ! j))) (\<lambda>output_native.
          and_then (or_trap (denormalize_balance U fee_normalized (precision_muls ! j))) (\<lambda>fee_native.
          Ok \<lparr>so_output_native = output_native, so_fee_native = fee_native, so_fee_bps_used = fee_bps_used,
            so_imbalance_before = imbalance_before, so_imbalance_after = imbalance_after,
            so_is_rebalancing = imbalance_after < imbalance_before\<rparr>))))))))))))))))"

section \<open>Deposit\<close>

text \<open>The fee of one coin: the share \<open>fee_bps_used\<close> of its distance from the proportional balance\<close>

definition ideal_fee :: "u256_ops \<Rightarrow> u256 \<Rightarrow> u256 \<Rightarrow> u256 \<Rightarrow> u256 \<Rightarrow> u16 \<Rightarrow> u256 option" where
  "ideal_fee U old_x new_x d0 d1 fee_bps_used =
     Option.bind (ueval U (Over (Times (Num old_x) (Num d1)) (Num d0))) (\<lambda>ideal.
     ueval U (Over (Times (Num (abs_diff new_x ideal)) (Num fee_bps_used)) (Num 10000)))"

fun fee_loop :: "u256_ops \<Rightarrow> u256 \<Rightarrow> u256 \<Rightarrow> u16 \<Rightarrow> (u256 \<times> u256) list \<Rightarrow> (u256 \<times> u256) list option" where
  "fee_loop U d0 d1 bps [] = Some []"
| "fee_loop U d0 d1 bps ((old_x, new_x) # xs) =
     Option.bind (ideal_fee U old_x new_x d0 d1 bps) (\<lambda>fee.
     Option.bind (ueval U (Minus (Num new_x) (Num fee))) (\<lambda>adjusted.
     Option.bind (fee_loop U d0 d1 bps xs) (\<lambda>rest. Some ((fee, adjusted) # rest))))"

definition calc_add_liquidity ::
  "u256_ops \<Rightarrow> u128 list \<Rightarrow> u128 list \<Rightarrow> u64 list \<Rightarrow> u128 \<Rightarrow> u64 \<Rightarrow> fee_curve_params \<Rightarrow> (three_pool_error, add_liquidity_outcome) outcome" where
  "calc_add_liquidity U amounts old_balances precision_muls lp_total_supply amp fee_curve =
     (if list_all (\<lambda>a. a = 0) amounts then Err ZeroAmount
      else
        let new_balances = map (\<lambda>k. wrap_add128 (old_balances ! k) (amounts ! k)) [0, 1, 2] in
        and_then (or_trap (normalize_all U old_balances precision_muls)) (\<lambda>old_xp.
        and_then (or_trap (normalize_all U new_balances precision_muls)) (\<lambda>new_xp.
        and_then (if lp_total_supply > 0 then converged (get_d U old_xp amp) else Ok 0) (\<lambda>d0.
        and_then (converged (get_d U new_xp amp)) (\<lambda>d1.
        if d1 \<le> d0 then Err ZeroAmount
        else if lp_total_supply = 0 then
          and_then (or_trap (ueval U (Over (Num d1) (Num 10000000000)))) (\<lambda>lp_8dec.
          and_then (or_trap (compute_imbalance U new_balances precision_muls)) (\<lambda>imbalance_after.
          Ok \<lparr>al_lp_minted = u_as_u128 U lp_8dec, al_fees_native = [0, 0, 0], al_fee_bps_used = 0,
            al_imbalance_before = 0, al_imbalance_after = imbalance_after, al_is_rebalancing = False\<rparr>))
        else
          and_then (or_trap (compute_imbalance U old_balances precision_muls)) (\<lambda>imbalance_before.
          and_then (or_trap (compute_imbalance U new_balances precision_muls)) (\<lambda>imbalance_after.
          let fee_bps_used = compute_fee_bps imbalance_before imbalance_after fee_curve in
          and_then (or_trap (fee_loop U d0 d1 fee_bps_used (zip old_xp new_xp))) (\<lambda>fees.
          and_then (converged (get_d U (map snd fees) amp)) (\<lambda>d2.
          and_then (or_trap (ueval U (Over (Times (Num lp_total_supply) (Minus (Num d2) (Num d0))) (Num d0)))) (\<lambda>lp_minted.
          and_then (or_trap (denormalize_balance U (fst (fees ! 0)) (precision_muls ! 0))) (\<lambda>fee0.
          and_then (or_trap (denormalize_balance U (fst (fees ! 1)) (precision_muls ! 1))) (\<lambda>fee1.
          and_then (or_trap (denormalize_balance U (fst (fees ! 2)) (precision_muls ! 2))) (\<lambda>fee2.
          Ok \<lparr>al_lp_minted = u_as_u128 U lp_minted, al_fees_native = [fee0, fee1, fee2], al_fee_bps_used = fee_bps_used,
            al_imbalance_before = imbalance_before, al_imbalance_after = imbalance_after,
            al_is_rebalancing = imbalance_after < imbalance_before\<rparr>)))))))))))))"

section \<open>Withdrawals\<close>

text \<open>The division panics when there is no supply.\<close>

definition calc_remove_liquidity :: "u128 \<Rightarrow> u128 list \<Rightarrow> u128 \<Rightarrow> u128 list option" where
  "calc_remove_liquidity lp_burn balances lp_total_supply =
     (if lp_total_supply = 0 then None
      else Some (map (\<lambda>k. wrap_mul128 (balances ! k) lp_burn div lp_total_supply) [0, 1, 2]))"

definition calc_remove_one_coin ::
  "u256_ops \<Rightarrow> u128 \<Rightarrow> usize \<Rightarrow> u128 list \<Rightarrow> u64 list \<Rightarrow> u128 \<Rightarrow> u64 \<Rightarrow> fee_curve_params \<Rightarrow> u64 \<Rightarrow> (three_pool_error, remove_one_coin_outcome) outcome" where
  "calc_remove_one_coin U lp_burn coin_index balances precision_muls lp_total_supply amp fee_curve admin_fee_bps =
     (if coin_index \<ge> 3 then Err InvalidCoinIndex
      else if lp_burn = 0 then Err ZeroAmount
      else if lp_total_supply = 0 then Err PoolEmpty
      else
        and_then (or_trap (normalize_all U balances precision_muls)) (\<lambda>xp.
        and_then (converged (get_d U xp amp)) (\<lambda>d0.
        and_then (or_trap (ueval U (Minus (Num d0) (Over (Times (Num lp_burn) (Num d0)) (Num lp_total_supply))))) (\<lambda>d1.
        and_then (converged (get_y_d U coin_index xp amp d1)) (\<lambda>new_y.
        and_then (or_trap (compute_imbalance U balances precision_muls)) (\<lambda>imbalance_before.
        and_then (or_trap (ueval U (Minus (Num (xp ! coin_index)) (Num new_y)))) (\<lambda>dy_no_fee.
        and_then (or_trap (denormalize_balance U dy_no_fee (precision_muls ! coin_index))) (\<lambda>dy_no_fee_native.
        and_then (or_trap (compute_imbalance U (balances[coin_index := sat_sub (balances ! coin_index) dy_no_fee_native]) precision_muls)) (\<lambda>imbalance_after_gross.
        let fee_bps_first = compute_fee_bps imbalance_before imbalance_after_gross fee_curve;
            lp_fee_first_native = wrap_mul128 (wrap_mul128 dy_no_fee_native fee_bps_first) (wrap_sub128 10000 admin_fee_bps) div 10000 div 10000;
            dy_minus_lp_fee_native = sat_sub dy_no_fee_native lp_fee_first_native in
        and_then (or_trap (compute_imbalance U (balances[coin_index := sat_sub (balances ! coin_index) dy_minus_lp_fee_native]) precision_muls)) (\<lambda>imbalance_after.
        let fee_bps_used = compute_fee_bps imbalance_before imbalance_after fee_curve in
        and_then (or_trap (fee_loop U d0 d1 fee_bps_used (zip xp xp))) (\<lambda>reduced.
        let xp_reduced = map snd reduced in
        and_then (converged (get_y_d U coin_index xp_reduced amp d1)) (\<lambda>new_y_reduced.
        and_then (or_trap (ueval U (Minus (Num (xp_reduced ! coin_index)) (Num new_y_reduced)))) (\<lambda>dy.
        and_then (or_trap (ueval U (Minus (Num dy_no_fee) (Num dy)))) (\<lambda>fee_normalized.
        and_then (or_trap (denormalize_balance U dy (precision_muls ! coin_index))) (\<lambda>amount_native.
        and_then (or_trap (denormalize_balance U fee_normalized (precision_muls ! coin_index))) (\<lambda>fee_native.
        Ok \<lparr>rc_amount_native = amount_native, rc_fee_native = fee_native, rc_fee_bps_used = fee_bps_used,
          rc_imbalance_before = imbalance_before, rc_imbalance_after = imbalance_after,
          rc_is_rebalancing = imbalance_after < imbalance_before\<rparr>))))))))))))))))"

end
