(* ===== verification/ThreePool_Blocks.thy ===== *)
theory ThreePool_Blocks
  imports BTree_Map
begin

text \<open>
  The transaction log of the three-pool's LP token: the ICRC-3 encoding of a block
  (\<^verbatim>\<open>rumi_3pool/src/icrc3.rs\<close>), the representation-independent hash, the hash chain and the certified tip
  (\<^verbatim>\<open>certification.rs\<close>), \<^verbatim>\<open>log_block\<close> (\<^verbatim>\<open>state.rs\<close>), the cache of hashes with its backfill (\<^verbatim>\<open>storage.rs\<close>)
  and its check after an upgrade (\<^verbatim>\<open>lib.rs\<close>). SHA-256 (the \<^verbatim>\<open>sha2\<close> crate) and the bytes of a principal (the
  \<^verbatim>\<open>candid\<close> crate) are the fields of a parameter record.
\<close>

section \<open>Values and their hash\<close>

record icrc3_crypto =
  cr_sha256 :: "bytes \<Rightarrow> bytes"
  cr_principal :: "principal \<Rightarrow> bytes"

datatype icrc3_value =
    VBlob bytes
  | VText string
  | VNat nat
  | VInt int
  | VArray "icrc3_value list"
  | VMap "(string \<times> icrc3_value) list"

text \<open>Seven bits a byte, the top bit set on all but the last\<close>

fun leb128_loop :: "nat \<Rightarrow> bytes" where
  "leb128_loop val =
     (if val = 0 then []
      else let byte = val mod 128; rest = val div 128 in (if rest > 0 then byte + 128 else byte) # leb128_loop rest)"

declare leb128_loop.simps [simp del]

definition leb128_encode_u128 :: "u128 \<Rightarrow> bytes" where
  "leb128_encode_u128 val = (if val = 0 then [0] else leb128_loop val)"

definition leb128_encode_u64 :: "u64 \<Rightarrow> bytes" where
  "leb128_encode_u64 val = (if val = 0 then [0] else leb128_loop val)"

text \<open>More than 16 bytes are encoded as the largest \<open>u128\<close>.\<close>

definition leb128_encode_nat :: "nat \<Rightarrow> bytes" where
  "leb128_encode_nat n = (if n \<le> u128_max then leb128_encode_u128 n else leb128_encode_u128 u128_max)"

function sleb128_loop :: "int \<Rightarrow> bytes" where
  "sleb128_loop val =
     (let byte = nat (val mod 128); rest = val div 128 in
      if (rest = 0 \<and> byte < 64) \<or> (rest = -1 \<and> byte \<ge> 64) then [byte] else (byte + 128) # sleb128_loop rest)"
  by auto
termination
proof (relation "measure (\<lambda>v. nat \<bar>v\<bar>)")
  fix val :: int and byte rest
  assume byte: "byte = nat (val mod 128)" and rest: "rest = val div 128"
    and go: "\<not> ((rest = 0 \<and> byte < 64) \<or> (rest = -1 \<and> byte \<ge> 64))"
  then have "val \<noteq> 0 \<and> val \<noteq> -1" by auto
  then show "(rest, val) \<in> measure (\<lambda>v. nat \<bar>v\<bar>)" unfolding rest by (cases "0 \<le> val") auto
qed simp

declare sleb128_loop.simps [simp del]

definition i128_ok :: "int \<Rightarrow> bool" where
  "i128_ok i \<longleftrightarrow> - (2 ^ 127) \<le> i \<and> i < 2 ^ 127"

definition sleb128_encode_int :: "int \<Rightarrow> bytes" where
  "sleb128_encode_int i = sleb128_loop (if i128_ok i then i else 0)"

fun hash_value :: "icrc3_crypto \<Rightarrow> icrc3_value \<Rightarrow> bytes"
  and hash_array :: "icrc3_crypto \<Rightarrow> icrc3_value list \<Rightarrow> bytes"
  and hash_pairs :: "icrc3_crypto \<Rightarrow> (string \<times> icrc3_value) list \<Rightarrow> (bytes \<times> bytes) list" where
  "hash_value C (VBlob bs) = cr_sha256 C bs"
| "hash_value C (VText t) = cr_sha256 C (ascii_bytes t)"
| "hash_value C (VNat n) = cr_sha256 C (leb128_encode_nat n)"
| "hash_value C (VInt i) = cr_sha256 C (sleb128_encode_int i)"
| "hash_value C (VArray vs) = cr_sha256 C (hash_array C vs)"
| "hash_value C (VMap es) = cr_sha256 C (concat (map (\<lambda>(kh, vh). kh @ vh) (sort (hash_pairs C es))))"
| "hash_array C [] = []"
| "hash_array C (v # vs) = hash_value C v @ hash_array C vs"
| "hash_pairs C [] = []"
| "hash_pairs C ((k, v) # es) = (cr_sha256 C (ascii_bytes k), hash_value C v) # hash_pairs C es"

section \<open>The certified tip\<close>

datatype hash_tree = HEmpty | HFork hash_tree hash_tree | HLabeled bytes hash_tree | HLeaf bytes

definition domain_sep :: "string \<Rightarrow> bytes" where
  "domain_sep s = (length s mod 256) # ascii_bytes s"

fun tree_digest :: "icrc3_crypto \<Rightarrow> hash_tree \<Rightarrow> bytes" where
  "tree_digest C HEmpty = cr_sha256 C (domain_sep ''ic-hashtree-empty'')"
| "tree_digest C (HFork l r) = cr_sha256 C (domain_sep ''ic-hashtree-fork'' @ tree_digest C l @ tree_digest C r)"
| "tree_digest C (HLabeled lab t) = cr_sha256 C (domain_sep ''ic-hashtree-labeled'' @ lab @ tree_digest C t)"
| "tree_digest C (HLeaf d) = cr_sha256 C (domain_sep ''ic-hashtree-leaf'' @ d)"

definition tip_tree :: "u64 \<Rightarrow> bytes \<Rightarrow> hash_tree" where
  "tip_tree last_block_index last_block_hash =
     HFork (HLabeled (ascii_bytes ''last_block_hash'') (HLeaf last_block_hash))
           (HLabeled (ascii_bytes ''last_block_index'') (HLeaf (leb128_encode_u64 last_block_index)))"

definition set_certified_tip :: "icrc3_crypto \<Rightarrow> u64 \<Rightarrow> bytes \<Rightarrow> bytes" where
  "set_certified_tip C last_block_index last_block_hash = tree_digest C (tip_tree last_block_index last_block_hash)"

section \<open>Blocks\<close>

datatype icrc3_transaction =
    TxMint (tx_to: principal) (tx_amount: u128) (tx_to_sub: "bytes option")
  | TxBurn (tx_from: principal) (tx_amount: u128) (tx_from_sub: "bytes option")
  | TxTransfer (tx_from: principal) (tx_to: principal) (tx_amount: u128) (tx_spender: "principal option")
      (tx_from_sub: "bytes option") (tx_to_sub: "bytes option") (tx_spender_sub: "bytes option")
  | TxApprove (tx_from: principal) (tx_approved: principal) (tx_amount: u128) (tx_expires_at: "u64 option")
      (tx_from_sub: "bytes option") (tx_spender_sub: "bytes option")

record icrc3_block =
  b_id :: u64
  b_timestamp :: u64
  b_tx :: icrc3_transaction

definition account_to_value :: "icrc3_crypto \<Rightarrow> principal \<Rightarrow> bytes option \<Rightarrow> icrc3_value" where
  "account_to_value C p subaccount =
     VArray (VBlob (cr_principal C p) # (case subaccount of None \<Rightarrow> [] | Some sub \<Rightarrow> [VBlob sub]))"

fun tx_fields :: "icrc3_crypto \<Rightarrow> icrc3_transaction \<Rightarrow> (string \<times> icrc3_value) list" where
  "tx_fields C (TxMint to amount to_sub) =
     [(''op'', VText ''mint''), (''to'', account_to_value C to to_sub), (''amt'', VNat amount)]"
| "tx_fields C (TxBurn from amount from_sub) =
     [(''op'', VText ''burn''), (''from'', account_to_value C from from_sub), (''amt'', VNat amount)]"
| "tx_fields C (TxTransfer from to amount spender from_sub to_sub spender_sub) =
     [(''op'', VText ''xfer''), (''from'', account_to_value C from from_sub), (''to'', account_to_value C to to_sub),
      (''amt'', VNat amount)]
     @ (case spender of None \<Rightarrow> [] | Some p \<Rightarrow> [(''spender'', account_to_value C p spender_sub)])"
| "tx_fields C (TxApprove from spender amount expires_at from_sub spender_sub) =
     [(''op'', VText ''approve''), (''from'', account_to_value C from from_sub),
      (''spender'', account_to_value C spender spender_sub), (''amt'', VNat (min amount u64_max))]
     @ (case expires_at of None \<Rightarrow> [] | Some t \<Rightarrow> [(''expires_at'', VNat t)])"

definition encode_block_with_phash :: "icrc3_crypto \<Rightarrow> icrc3_block \<Rightarrow> bytes option \<Rightarrow> icrc3_value" where
  "encode_block_with_phash C block phash =
     VMap ((case phash of None \<Rightarrow> [] | Some h \<Rightarrow> [(''phash'', VBlob h)])
       @ [(''ts'', VNat (b_timestamp block)), (''fee'', VNat 0), (''tx'', VMap (tx_fields C (b_tx block)))])"

section \<open>The log\<close>

text \<open>The block log, the cache of hashes, the last hash of the state and the certified data\<close>

record block_log =
  bl_blocks :: "icrc3_block list"
  bl_hashes :: "bytes list"
  bl_last_hash :: "bytes option"
  bl_certified :: "bytes option"

definition log_block :: "icrc3_crypto \<Rightarrow> u64 \<Rightarrow> icrc3_transaction \<Rightarrow> block_log \<Rightarrow> block_log \<times> u64" where
  "log_block C now tx l =
     (let id = length (bl_blocks l);
          block = \<lparr>b_id = id, b_timestamp = now, b_tx = tx\<rparr>;
          block_hash = hash_value C (encode_block_with_phash C block (bl_last_hash l))
      in (l\<lparr>bl_blocks := bl_blocks l @ [block], bl_hashes := bl_hashes l @ [block_hash], bl_last_hash := Some block_hash,
            bl_certified := Some (set_certified_tip C id block_hash)\<rparr>, id))"

definition recompute_hash_chain :: "icrc3_crypto \<Rightarrow> icrc3_block list \<Rightarrow> bytes option" where
  "recompute_hash_chain C blocks = fold (\<lambda>b h. Some (hash_value C (encode_block_with_phash C b h))) blocks None"

fun backfill_loop :: "icrc3_crypto \<Rightarrow> icrc3_block list \<Rightarrow> bytes option \<Rightarrow> bytes list \<Rightarrow> bytes list" where
  "backfill_loop C [] prev_hash hashes = hashes"
| "backfill_loop C (b # bs) prev_hash hashes =
     (let h = hash_value C (encode_block_with_phash C b prev_hash) in backfill_loop C bs (Some h) (hashes @ [h]))"

text \<open>\<open>None\<close> is the trap that rolls the upgrade back.\<close>

definition backfill_hash_chain :: "icrc3_crypto \<Rightarrow> block_log \<Rightarrow> block_log option" where
  "backfill_hash_chain C l =
     (let start = length (bl_hashes l) in
      if start > length (bl_blocks l) then None
      else if start = length (bl_blocks l) then Some l
      else Some (l\<lparr>bl_hashes := backfill_loop C (drop start (bl_blocks l))
             (if start = 0 then None else Some (bl_hashes l ! (start - 1))) (bl_hashes l)\<rparr>))"

text \<open>The part of \<^verbatim>\<open>post_upgrade\<close> that concerns the log: certify the tip, backfill, compare lengths and tips\<close>

definition upgrade_log :: "icrc3_crypto \<Rightarrow> block_log \<Rightarrow> block_log option" where
  "upgrade_log C l =
     (let n = length (bl_blocks l);
          l1 = (case bl_last_hash l of
                  Some h \<Rightarrow> if n > 0 then l\<lparr>bl_certified := Some (set_certified_tip C (n - 1) h)\<rparr> else l
                | None \<Rightarrow> l)
      in Option.bind (backfill_hash_chain C l1) (\<lambda>l2.
         if length (bl_hashes l2) \<noteq> n then None
         else if n > 0 \<and> Some (bl_hashes l2 ! (n - 1)) \<noteq> bl_last_hash l2 then None
         else Some l2))"

section \<open>Reading the log\<close>

definition max_get_blocks_response :: u64 where
  "max_get_blocks_response = 2000"

definition nat_to_u64 :: "nat \<Rightarrow> u64" where
  "nat_to_u64 n = (if n \<le> u64_max then n else 0)"

fun encode_range :: "icrc3_crypto \<Rightarrow> icrc3_block list \<Rightarrow> bytes option \<Rightarrow> (nat \<times> icrc3_value) list" where
  "encode_range C [] prev_hash = []"
| "encode_range C (b # bs) prev_hash =
     (let encoded = encode_block_with_phash C b prev_hash
      in (b_id b, encoded) # encode_range C bs (Some (hash_value C encoded)))"

text \<open>\<^verbatim>\<open>blocks::range\<close>, whose own page limit is \<^verbatim>\<open>MAX_EVENT_PAGE\<close>\<close>

definition max_event_page :: u64 where
  "max_event_page = 2000"

definition log_range :: "'a list \<Rightarrow> u64 \<Rightarrow> u64 \<Rightarrow> 'a list" where
  "log_range xs start count =
     (let end = min (sat_add64 start (min count max_event_page)) (length xs) in map (\<lambda>i. xs ! i) [start ..< end])"

text \<open>The loop over the requested ranges, with the number of blocks that may still be returned. \<open>None\<close> is the
  \<^verbatim>\<open>expect\<close> on the cache.\<close>

fun get_blocks_loop :: "icrc3_crypto \<Rightarrow> block_log \<Rightarrow> (nat \<times> nat) list \<Rightarrow> u64 \<Rightarrow> (nat \<times> icrc3_value) list option" where
  "get_blocks_loop C l [] remaining = Some []"
| "get_blocks_loop C l ((arg_start, arg_length) # args) remaining =
     (if remaining = 0 then Some []
      else
        let start = nat_to_u64 arg_start;
            len = min (nat_to_u64 arg_length) remaining;
            log_length = length (bl_blocks l);
            end = min (sat_add64 start len) log_length in
        if start \<ge> log_length then get_blocks_loop C l args remaining
        else if end \<le> start then get_blocks_loop C l args remaining
        else if start > 0 \<and> start - 1 \<ge> length (bl_hashes l) then None
        else
          let prev_hash = (if start = 0 then None else Some (bl_hashes l ! (start - 1)));
              blocks = log_range (bl_blocks l) start (end - start)
          in map_option (\<lambda>rest. encode_range C blocks prev_hash @ rest)
               (get_blocks_loop C l args (sat_sub remaining (length blocks))))"

definition icrc3_get_blocks :: "icrc3_crypto \<Rightarrow> block_log \<Rightarrow> (nat \<times> nat) list \<Rightarrow> (nat \<times> (nat \<times> icrc3_value) list) option" where
  "icrc3_get_blocks C l args = map_option (\<lambda>bs. (length (bl_blocks l), bs)) (get_blocks_loop C l args max_get_blocks_response)"

end
