(* ===== verification/ThreePool_Token.thy ===== *)
theory ThreePool_Token
  imports ThreePool_Swap ThreePool_Blocks
begin

text \<open>
  The state of the three-pool canister (\<^verbatim>\<open>rumi_3pool/src/state.rs\<close>, \<^verbatim>\<open>storage.rs\<close>, \<^verbatim>\<open>types.rs\<close>) and its LP token
  (\<^verbatim>\<open>icrc_token.rs\<close>): balances and allowances in stable maps, ICRC-1 and ICRC-2 transfers with
  deduplication, and the block each of them logs. An update that returns \<open>Err\<close> keeps what it had already written,
  so \<open>icrc2_transfer_from\<close> returns the state on every branch.
\<close>

section \<open>State\<close>

record token_config =
  tk_ledger_id :: principal
  tk_symbol :: string
  tk_decimals :: u8
  tk_precision_mul :: u64

record pool_config =
  pcf_tokens :: "token_config list"
  pcf_initial_a :: u64
  pcf_future_a :: u64
  pcf_initial_a_time :: u64
  pcf_future_a_time :: u64
  pcf_swap_fee_bps :: u64
  pcf_admin_fee_bps :: u64
  pcf_admin :: principal
  pcf_fee_curve :: "fee_curve_params option"

record lp_allowance =
  la_amount :: u128
  la_expires_at :: "u64 option"

record three_pool_pending_claim =
  tc_id :: u64
  tc_claimant :: principal
  tc_token_index :: u8
  tc_ledger :: principal
  tc_symbol :: string
  tc_amount :: u128
  tc_reason :: string
  tc_created_at :: u64

record swap_event_v2 =
  sv_id :: u64
  sv_timestamp :: u64
  sv_caller :: principal
  sv_token_in :: u8
  sv_token_out :: u8
  sv_amount_in :: u128
  sv_amount_out :: u128
  sv_fee :: u128
  sv_fee_bps :: u16
  sv_imbalance_before :: u64
  sv_imbalance_after :: u64
  sv_is_rebalancing :: bool
  sv_pool_balances_after :: "u128 list"
  sv_virtual_price_after :: u128
  sv_migrated :: bool

datatype liquidity_action = LaAddLiquidity | LaRemoveLiquidity | LaRemoveOneCoin | LaDonate

record liquidity_event_v2 =
  lv_id :: u64
  lv_timestamp :: u64
  lv_caller :: principal
  lv_action :: liquidity_action
  lv_amounts :: "u128 list"
  lv_lp_amount :: u128
  lv_coin_index :: "u8 option"
  lv_fee :: "u128 option"
  lv_fee_bps :: "u16 option"
  lv_imbalance_before :: u64
  lv_imbalance_after :: u64
  lv_is_rebalancing :: bool
  lv_pool_balances_after :: "u128 list"
  lv_virtual_price_after :: u128
  lv_migrated :: bool

datatype three_pool_admin_action =
    RampA u64 u64
  | StopRampA u64
  | WithdrawAdminFees "u128 list"
  | SetPaused bool
  | SetSwapFee u64
  | SetAdminFee u64
  | AddAuthorizedBurnCaller principal
  | RemoveAuthorizedBurnCaller principal
  | FeeCurveParamsUpdated "fee_curve_params option" fee_curve_params

record three_pool_admin_event =
  av_id :: u64
  av_timestamp :: u64
  av_caller :: principal
  av_action :: three_pool_admin_action

record virtual_price_snapshot =
  vs_timestamp_secs :: u64
  vs_virtual_price :: u128
  vs_lp_total_supply :: u128

text \<open>The heap state with the stable maps and logs, the seen transfers, and the lock of the pool\<close>

record tp_state =
  tp_config :: pool_config
  tp_balances :: "u128 list"
  tp_lp_balances :: "(principal, u128) bmap"
  tp_lp_total_supply :: u128
  tp_lp_allowances :: "(principal \<times> principal, lp_allowance) bmap"
  tp_log :: block_log
  tp_admin_fees :: "u128 list"
  tp_is_paused :: bool
  tp_is_initialized :: bool
  tp_burn_callers :: "principal bset"
  tp_swap_events :: "swap_event_v2 list"
  tp_liq_events :: "liquidity_event_v2 list"
  tp_admin_events :: "three_pool_admin_event list"
  tp_vp_snapshots :: "virtual_price_snapshot list"
  tp_pending_claims :: "(u64, three_pool_pending_claim) bmap"
  tp_next_claim_id :: u128
  tp_seen_txs :: "(bytes, u64 \<times> u64) bmap"
  tp_locked :: bool

section \<open>Stable maps\<close>

definition lp_balance_get :: "tp_state \<Rightarrow> principal \<Rightarrow> u128" where
  "lp_balance_get s p = bm_get_or 0 (tp_lp_balances s) p"

definition lp_balance_set :: "principal \<Rightarrow> u128 \<Rightarrow> tp_state \<Rightarrow> tp_state" where
  "lp_balance_set p amount s =
     s\<lparr>tp_lp_balances := (if amount = 0 then bm_remove p (tp_lp_balances s) else bm_insert p amount (tp_lp_balances s))\<rparr>"

definition allowance_get :: "tp_state \<Rightarrow> principal \<Rightarrow> principal \<Rightarrow> lp_allowance option" where
  "allowance_get s owner spender = bm_get (tp_lp_allowances s) (owner, spender)"

definition allowance_set :: "principal \<Rightarrow> principal \<Rightarrow> lp_allowance \<Rightarrow> tp_state \<Rightarrow> tp_state" where
  "allowance_set owner spender a s = s\<lparr>tp_lp_allowances := bm_insert (owner, spender) a (tp_lp_allowances s)\<rparr>"

definition allowance_remove :: "principal \<Rightarrow> principal \<Rightarrow> tp_state \<Rightarrow> tp_state" where
  "allowance_remove owner spender s = s\<lparr>tp_lp_allowances := bm_remove (owner, spender) (tp_lp_allowances s)\<rparr>"

definition tp_log_block :: "icrc3_crypto \<Rightarrow> u64 \<Rightarrow> icrc3_transaction \<Rightarrow> tp_state \<Rightarrow> tp_state" where
  "tp_log_block C now tx s = s\<lparr>tp_log := fst (log_block C now tx (tp_log s))\<rparr>"

definition next_block_id :: "tp_state \<Rightarrow> u64" where
  "next_block_id s = length (bl_blocks (tp_log s))"

section \<open>Deduplication\<close>

definition transaction_window_ns :: u64 where
  "transaction_window_ns = 24 * 60 * 60 * 1000000000"

definition permitted_drift_ns :: u64 where
  "permitted_drift_ns = 60 * 1000000000"

datatype dedup_reject = DrTooOld | DrCreatedInFuture u64 | DrDuplicate u64

definition tx_expired :: "u64 \<Rightarrow> u64 \<Rightarrow> bool" where
  "tx_expired created_at_time now \<longleftrightarrow> sat_add64 (sat_add64 created_at_time transaction_window_ns) permitted_drift_ns < now"

definition dedup_check :: "u64 \<Rightarrow> u64 option \<Rightarrow> bytes \<Rightarrow> tp_state \<Rightarrow> (dedup_reject, unit) outcome" where
  "dedup_check now created_at_time tx_hash s =
     (case created_at_time of
        None \<Rightarrow> Ok ()
      | Some cat \<Rightarrow>
          if tx_expired cat now then Err DrTooOld
          else if cat > sat_add64 now permitted_drift_ns then Err (DrCreatedInFuture now)
          else case bm_get (tp_seen_txs s) tx_hash of
            Some (_, block) \<Rightarrow> Err (DrDuplicate block)
          | None \<Rightarrow> Ok ())"

definition dedup_record :: "u64 \<Rightarrow> u64 option \<Rightarrow> bytes \<Rightarrow> u64 \<Rightarrow> tp_state \<Rightarrow> tp_state" where
  "dedup_record now created_at_time tx_hash block_index s =
     (case created_at_time of
        None \<Rightarrow> s
      | Some cat \<Rightarrow> s\<lparr>tp_seen_txs := bm_insert tx_hash (cat, block_index)
            (bm_retain (\<lambda>_ e. \<not> tx_expired (fst e) now) (tp_seen_txs s))\<rparr>)"

text \<open>The bytes that are hashed: optional fields with a presence byte and their length\<close>

definition hash_part :: "bytes option \<Rightarrow> bytes" where
  "hash_part part = (case part of Some b \<Rightarrow> 1 # be_bytes 8 (length b) @ b | None \<Rightarrow> [0])"

text \<open>\<^verbatim>\<open>BigUint::to_bytes_be\<close>: no leading zeros, one byte for 0\<close>

fun to_bytes_be :: "nat \<Rightarrow> bytes" where
  "to_bytes_be n = (if n < 256 then [n] else to_bytes_be (n div 256) @ [n mod 256])"

declare to_bytes_be.simps [simp del]

record icrc_account =
  ac_owner :: principal
  ac_subaccount :: "bytes option"

record transfer_arg =
  ta_from_subaccount :: "bytes option"
  ta_to :: icrc_account
  ta_amount :: nat
  ta_fee :: "nat option"
  ta_memo :: "bytes option"
  ta_created_at_time :: "u64 option"

record transfer_from_args =
  tf_spender_subaccount :: "bytes option"
  tf_from :: icrc_account
  tf_to :: icrc_account
  tf_amount :: nat
  tf_fee :: "nat option"
  tf_memo :: "bytes option"
  tf_created_at_time :: "u64 option"

record approve_args =
  ap_from_subaccount :: "bytes option"
  ap_spender :: icrc_account
  ap_amount :: nat
  ap_expected_allowance :: "nat option"
  ap_expires_at :: "u64 option"
  ap_fee :: "nat option"

definition icrc1_preimage :: "icrc3_crypto \<Rightarrow> principal \<Rightarrow> transfer_arg \<Rightarrow> bytes" where
  "icrc1_preimage C caller args =
     ascii_bytes ''3usd.icrc1_transfer'' @ hash_part (Some (cr_principal C caller)) @ hash_part (ta_from_subaccount args)
     @ hash_part (Some (cr_principal C (ac_owner (ta_to args)))) @ hash_part (ac_subaccount (ta_to args))
     @ hash_part (Some (to_bytes_be (ta_amount args))) @ hash_part (map_option to_bytes_be (ta_fee args))
     @ hash_part (ta_memo args) @ hash_part (map_option (be_bytes 8) (ta_created_at_time args))"

definition hash_icrc1_transfer :: "icrc3_crypto \<Rightarrow> principal \<Rightarrow> transfer_arg \<Rightarrow> bytes" where
  "hash_icrc1_transfer C caller args = cr_sha256 C (icrc1_preimage C caller args)"

definition icrc2_preimage :: "icrc3_crypto \<Rightarrow> principal \<Rightarrow> transfer_from_args \<Rightarrow> bytes" where
  "icrc2_preimage C caller args =
     ascii_bytes ''3usd.icrc2_transfer_from'' @ hash_part (Some (cr_principal C caller)) @ hash_part (tf_spender_subaccount args)
     @ hash_part (Some (cr_principal C (ac_owner (tf_from args)))) @ hash_part (ac_subaccount (tf_from args))
     @ hash_part (Some (cr_principal C (ac_owner (tf_to args)))) @ hash_part (ac_subaccount (tf_to args))
     @ hash_part (Some (to_bytes_be (tf_amount args))) @ hash_part (map_option to_bytes_be (tf_fee args))
     @ hash_part (tf_memo args) @ hash_part (map_option (be_bytes 8) (tf_created_at_time args))"

definition hash_icrc2_transfer_from :: "icrc3_crypto \<Rightarrow> principal \<Rightarrow> transfer_from_args \<Rightarrow> bytes" where
  "hash_icrc2_transfer_from C caller args = cr_sha256 C (icrc2_preimage C caller args)"

section \<open>Transfers\<close>

datatype token_error =
    BadFee nat
  | TooOld
  | CreatedInFuture u64
  | Duplicate nat
  | InsufficientFunds nat
  | InsufficientAllowance nat
  | AllowanceChanged nat
  | Expired u64
  | GenericError nat string

fun dedup_error :: "dedup_reject \<Rightarrow> token_error" where
  "dedup_error DrTooOld = TooOld"
| "dedup_error (DrCreatedInFuture t) = CreatedInFuture t"
| "dedup_error (DrDuplicate b) = Duplicate b"

definition nat_to_u128 :: "nat \<Rightarrow> u128 option" where
  "nat_to_u128 n = (if n \<le> u128_max then Some n else None)"

definition bad_fee :: "nat option \<Rightarrow> bool" where
  "bad_fee fee \<longleftrightarrow> (case fee of Some f \<Rightarrow> f \<noteq> 0 | None \<Rightarrow> False)"

definition effective_allowance :: "u64 \<Rightarrow> lp_allowance \<Rightarrow> u128" where
  "effective_allowance now a =
     (case la_expires_at a of Some expiry \<Rightarrow> if expiry < now then 0 else la_amount a | None \<Rightarrow> la_amount a)"

text \<open>The two writes of a transfer\<close>

definition move_lp :: "principal \<Rightarrow> principal \<Rightarrow> u128 \<Rightarrow> tp_state \<Rightarrow> tp_state" where
  "move_lp from to amount s =
     (let s1 = lp_balance_set from (wrap_sub128 (lp_balance_get s from) amount) s
      in lp_balance_set to (wrap_add128 (lp_balance_get s1 to) amount) s1)"

definition icrc1_transfer :: "icrc3_crypto \<Rightarrow> u64 \<Rightarrow> principal \<Rightarrow> transfer_arg \<Rightarrow> tp_state \<Rightarrow> (token_error, tp_state \<times> u64) outcome" where
  "icrc1_transfer C now caller args s =
     (if bad_fee (ta_fee args) then Err (BadFee 0)
      else
        let tx_hash = hash_icrc1_transfer C caller args in
        and_then (map_err dedup_error (dedup_check now (ta_created_at_time args) tx_hash s)) (\<lambda>_.
        and_then (ok_or (GenericError 2 ''amount overflow'') (nat_to_u128 (ta_amount args))) (\<lambda>amount.
        if amount = 0 then Err (GenericError 3 ''transfer amount must be positive'')
        else if lp_balance_get s caller < amount then Err (InsufficientFunds (lp_balance_get s caller))
        else
          let id = next_block_id s;
              s1 = tp_log_block C now (TxTransfer caller (ac_owner (ta_to args)) amount None (ta_from_subaccount args)
                     (ac_subaccount (ta_to args)) None) (move_lp caller (ac_owner (ta_to args)) amount s)
          in Ok (dedup_record now (ta_created_at_time args) tx_hash id s1, id))))"

definition icrc2_approve :: "icrc3_crypto \<Rightarrow> u64 \<Rightarrow> principal \<Rightarrow> approve_args \<Rightarrow> tp_state \<Rightarrow> (token_error, tp_state \<times> u64) outcome" where
  "icrc2_approve C now caller args s =
     (if bad_fee (ap_fee args) then Err (BadFee 0)
      else
        and_then (ok_or (GenericError 2 ''amount overflow'') (nat_to_u128 (ap_amount args))) (\<lambda>amount.
        if (case ap_expires_at args of Some t \<Rightarrow> t < now | None \<Rightarrow> False) then Err (Expired now)
        else
          let spender = ac_owner (ap_spender args);
              held = (case allowance_get s caller spender of Some a \<Rightarrow> effective_allowance now a | None \<Rightarrow> 0)
          in if (case ap_expected_allowance args of
                   Some expected \<Rightarrow> held \<noteq> (case nat_to_u128 expected of Some e \<Rightarrow> e | None \<Rightarrow> u128_max)
                 | None \<Rightarrow> False)
             then Err (AllowanceChanged held)
             else Ok (tp_log_block C now (TxApprove caller spender amount (ap_expires_at args) (ap_from_subaccount args)
                        (ac_subaccount (ap_spender args)))
                        (allowance_set caller spender \<lparr>la_amount = amount, la_expires_at = ap_expires_at args\<rparr> s),
                      next_block_id s)))"

text \<open>The allowance is charged before the balance is checked.\<close>

definition charge_allowance :: "u64 \<Rightarrow> principal \<Rightarrow> principal \<Rightarrow> u128 \<Rightarrow> tp_state \<Rightarrow> (token_error, tp_state) outcome" where
  "charge_allowance now caller from amount s =
     (if caller = from then Ok s
      else case allowance_get s from caller of
        None \<Rightarrow> if 0 < amount then Err (InsufficientAllowance 0) else Trap
      | Some a \<Rightarrow>
          if effective_allowance now a < amount then Err (InsufficientAllowance (effective_allowance now a))
          else
            let left = sat_sub (la_amount a) amount
            in Ok (if left = 0 then allowance_remove from caller s else allowance_set from caller (a\<lparr>la_amount := left\<rparr>) s))"

definition icrc2_transfer_from ::
  "icrc3_crypto \<Rightarrow> u64 \<Rightarrow> principal \<Rightarrow> transfer_from_args \<Rightarrow> tp_state \<Rightarrow> tp_state \<times> (token_error, u64) outcome" where
  "icrc2_transfer_from C now caller args s =
     (if bad_fee (tf_fee args) then (s, Err (BadFee 0))
      else
        let tx_hash = hash_icrc2_transfer_from C caller args;
            from = ac_owner (tf_from args);
            to = ac_owner (tf_to args) in
        case map_err dedup_error (dedup_check now (tf_created_at_time args) tx_hash s) of
          Err e \<Rightarrow> (s, Err e)
        | Trap \<Rightarrow> (s, Trap)
        | Ok _ \<Rightarrow>
            case nat_to_u128 (tf_amount args) of
              None \<Rightarrow> (s, Err (GenericError 2 ''amount overflow''))
            | Some amount \<Rightarrow>
                if amount = 0 then (s, Err (GenericError 3 ''transfer amount must be positive''))
                else case charge_allowance now caller from amount s of
                  Err e \<Rightarrow> (s, Err e)
                | Trap \<Rightarrow> (s, Trap)
                | Ok s1 \<Rightarrow>
                    if lp_balance_get s1 from < amount then (s1, Err (InsufficientFunds (lp_balance_get s1 from)))
                    else
                      let id = next_block_id s1;
                          s2 = tp_log_block C now (TxTransfer from to amount (Some caller) (ac_subaccount (tf_from args))
                                 (ac_subaccount (tf_to args)) (tf_spender_subaccount args)) (move_lp from to amount s1)
                      in (dedup_record now (tf_created_at_time args) tx_hash id s2, Ok id))"

definition icrc2_allowance :: "u64 \<Rightarrow> principal \<Rightarrow> principal \<Rightarrow> tp_state \<Rightarrow> nat \<times> u64 option" where
  "icrc2_allowance now owner spender s =
     (case allowance_get s owner spender of
        Some a \<Rightarrow> let eff = effective_allowance now a in (eff, if eff > 0 then la_expires_at a else None)
      | None \<Rightarrow> (0, None))"

end
