(* ===== verification/ThreePool_Pool.thy ===== *)
theory ThreePool_Pool
  imports ThreePool_Token
begin

text \<open>
  The endpoints of the three-pool (\<^verbatim>\<open>rumi_3pool/src/lib.rs\<close>, \<^verbatim>\<open>admin.rs\<close>, \<^verbatim>\<open>transfers.rs\<close>, \<^verbatim>\<open>pool_guard.rs\<close>). An endpoint that
  awaits a ledger is cut at its awaits: \<open>_begin\<close> runs up to the first one and takes the lock, the later
  segments run on the state they find, and the last one releases the lock. What a ledger answers is an
  argument. \<open>Trap\<close> rolls its segment back; \<open>None\<close> is the trap of a segment without error values.
\<close>

section \<open>Helpers\<close>

definition get_precision_muls :: "tp_state \<Rightarrow> u64 list" where
  "get_precision_muls s = map tk_precision_mul (pcf_tokens (tp_config s))"

text \<open>\<open>now\<close> is in nanoseconds, the ramp in seconds.\<close>

definition get_current_a :: "u64 \<Rightarrow> tp_state \<Rightarrow> u64" where
  "get_current_a now s =
     get_a (pcf_initial_a (tp_config s)) (pcf_future_a (tp_config s)) (pcf_initial_a_time (tp_config s))
       (pcf_future_a_time (tp_config s)) (now div 1000000000)"

definition default_fee_curve :: fee_curve_params where
  "default_fee_curve = \<lparr>fc_min_fee_bps = 1, fc_max_fee_bps = 99, fc_imb_saturation = 250000000\<rparr>"

definition fee_curve_of :: "tp_state \<Rightarrow> fee_curve_params" where
  "fee_curve_of s = (case pcf_fee_curve (tp_config s) of Some p \<Rightarrow> p | None \<Rightarrow> default_fee_curve)"

abbreviation token_of :: "tp_state \<Rightarrow> usize \<Rightarrow> token_config" where
  "token_of s k \<equiv> pcf_tokens (tp_config s) ! k"

definition add_at :: "usize \<Rightarrow> u128 \<Rightarrow> u128 list \<Rightarrow> u128 list" where
  "add_at k v xs = xs[k := wrap_add128 (xs ! k) v]"

definition sub_at :: "usize \<Rightarrow> u128 \<Rightarrow> u128 list \<Rightarrow> u128 list" where
  "sub_at k v xs = xs[k := wrap_sub128 (xs ! k) v]"

text \<open>\<^verbatim>\<open>virtual_price(..).unwrap_or(0)\<close>\<close>

definition vp_or_zero :: "u256_ops \<Rightarrow> u64 list \<Rightarrow> u64 \<Rightarrow> tp_state \<Rightarrow> u128 option" where
  "vp_or_zero U muls amp s =
     (case virtual_price U (tp_balances s) muls amp (tp_lp_total_supply s) of Ok v \<Rightarrow> Some v | Err _ \<Rightarrow> Some 0 | Trap \<Rightarrow> None)"

definition init :: "token_config list \<Rightarrow> u64 \<Rightarrow> u64 \<Rightarrow> u64 \<Rightarrow> principal \<Rightarrow> tp_state" where
  "init tokens initial_a swap_fee_bps admin_fee_bps admin =
     \<lparr>tp_config = \<lparr>pcf_tokens = tokens, pcf_initial_a = initial_a, pcf_future_a = initial_a, pcf_initial_a_time = 0,
        pcf_future_a_time = 0, pcf_swap_fee_bps = swap_fee_bps, pcf_admin_fee_bps = admin_fee_bps, pcf_admin = admin,
        pcf_fee_curve = Some default_fee_curve\<rparr>,
      tp_balances = [0, 0, 0], tp_lp_balances = bm_empty, tp_lp_total_supply = 0, tp_lp_allowances = bm_empty,
      tp_log = \<lparr>bl_blocks = [], bl_hashes = [], bl_last_hash = None, bl_certified = None\<rparr>,
      tp_admin_fees = [0, 0, 0], tp_is_paused = False, tp_is_initialized = True, tp_burn_callers = bs_empty,
      tp_swap_events = [], tp_liq_events = [], tp_admin_events = [], tp_vp_snapshots = [], tp_pending_claims = bm_empty,
      tp_next_claim_id = 0, tp_seen_txs = bm_empty, tp_locked = False\<rparr>"

definition take_vp_snapshot :: "u256_ops \<Rightarrow> u64 \<Rightarrow> tp_state \<Rightarrow> tp_state option" where
  "take_vp_snapshot U now s =
     (if tp_lp_total_supply s = 0 then Some s
      else case virtual_price U (tp_balances s) (get_precision_muls s) (get_current_a now s) (tp_lp_total_supply s) of
        Ok vp \<Rightarrow> Some (s\<lparr>tp_vp_snapshots := tp_vp_snapshots s
              @ [\<lparr>vs_timestamp_secs = now div 1000000000, vs_virtual_price = vp, vs_lp_total_supply = tp_lp_total_supply s\<rparr>]\<rparr>)
      | Err _ \<Rightarrow> Some s
      | Trap \<Rightarrow> None)"

section \<open>Ledgers\<close>

definition default_ledger_fee :: u128 where
  "default_ledger_fee = 10000"

text \<open>The fee of a ledger and the cache after the look-up; \<open>reply\<close> is what the ledger answers when it has to be asked.\<close>

definition ledger_fee :: "(principal, u128) bmap \<Rightarrow> principal \<Rightarrow> nat option \<Rightarrow> (principal, u128) bmap \<times> u128" where
  "ledger_fee cache ledger reply =
     (case bm_get cache ledger of
        Some fee \<Rightarrow> (cache, fee)
      | None \<Rightarrow>
          let fee = (case reply of Some n \<Rightarrow> if n \<le> u128_max then n else default_ledger_fee | None \<Rightarrow> default_ledger_fee)
          in (bm_insert ledger fee cache, fee))"

text \<open>What \<^verbatim>\<open>transfer_to_user\<close> asks the ledger to send\<close>

definition transfer_to_user :: "u128 \<Rightarrow> u128 \<Rightarrow> u128 option" where
  "transfer_to_user fee amount = (if amount \<le> fee then None else Some (amount - fee))"

section \<open>Pending claims\<close>

definition tp_max_pending_claims :: u64 where
  "tp_max_pending_claims = 10000"

definition tp_next_id :: "tp_state \<Rightarrow> tp_state \<times> u64" where
  "tp_next_id s = (s\<lparr>tp_next_claim_id := sat_add128 (tp_next_claim_id s) 1\<rparr>, tp_next_claim_id s mod 2 ^ 64)"

definition insert_claim :: "three_pool_pending_claim \<Rightarrow> tp_state \<Rightarrow> tp_state" where
  "insert_claim c s = s\<lparr>tp_pending_claims := bm_insert (tc_id c) c (tp_pending_claims s)\<rparr>"

definition remove_claim :: "u64 \<Rightarrow> tp_state \<Rightarrow> tp_state" where
  "remove_claim i s = s\<lparr>tp_pending_claims := bm_remove i (tp_pending_claims s)\<rparr>"

definition tp_record_pending_claim :: "u64 \<Rightarrow> principal \<Rightarrow> u8 \<Rightarrow> principal \<Rightarrow> string \<Rightarrow> u128 \<Rightarrow> string \<Rightarrow> tp_state \<Rightarrow> tp_state" where
  "tp_record_pending_claim now claimant token_index ledger symbol amount reason s =
     (let s1 = (if length (bm_entries (tp_pending_claims s)) \<ge> tp_max_pending_claims
                then case bm_entries (tp_pending_claims s) of (_, oldest) # _ \<Rightarrow> remove_claim (tc_id oldest) s | [] \<Rightarrow> s
                else s);
          (s2, i) = tp_next_id s1
      in insert_claim \<lparr>tc_id = i, tc_claimant = claimant, tc_token_index = token_index, tc_ledger = ledger, tc_symbol = symbol,
           tc_amount = amount, tc_reason = reason, tc_created_at = now div 1000000000\<rparr> s2)"

definition tp_claim_pending_begin :: "tp_state \<Rightarrow> principal \<Rightarrow> u64 \<Rightarrow> tp_state \<times> (three_pool_error, three_pool_pending_claim) outcome" where
  "tp_claim_pending_begin s caller claim_id =
     (case bm_get (tp_pending_claims s) claim_id of
        None \<Rightarrow> (s, Err ClaimNotFound)
      | Some claim \<Rightarrow>
          let s1 = remove_claim claim_id s in
          if caller \<noteq> tc_claimant claim \<and> caller \<noteq> pcf_admin (tp_config s1) then (insert_claim claim s1, Err Unauthorized)
          else (s1, Ok claim))"

definition tp_claim_pending_check :: "tp_state \<Rightarrow> three_pool_pending_claim \<Rightarrow> u128 \<Rightarrow> tp_state \<times> (three_pool_error, unit) outcome" where
  "tp_claim_pending_check s claim fee =
     (if tc_amount claim \<le> fee
      then (insert_claim claim s, Err (TransferFailed (tc_symbol claim)
              (''claim amount '' @ show_nat (tc_amount claim) @ '' does not exceed the ledger fee '' @ show_nat fee
               @ ''; nothing would be received'')))
      else (s, Ok ()))"

definition tp_claim_pending_reply :: "tp_state \<Rightarrow> three_pool_pending_claim \<Rightarrow> (string, unit) outcome \<Rightarrow> tp_state \<times> (three_pool_error, unit) outcome" where
  "tp_claim_pending_reply s claim reply =
     (case reply of
        Ok _ \<Rightarrow> (s, Ok ())
      | Err reason \<Rightarrow> (insert_claim claim s, Err (TransferFailed (tc_symbol claim) reason))
      | Trap \<Rightarrow> (s, Trap))"

section \<open>Swap\<close>

text \<open>\<^verbatim>\<open>PoolGuard::new\<close> and its \<^verbatim>\<open>Drop\<close>\<close>

definition lock_pool :: "tp_state \<Rightarrow> (three_pool_error, tp_state) outcome" where
  "lock_pool s = (if tp_locked s then Err PoolLocked else Ok (s\<lparr>tp_locked := True\<rparr>))"

definition unlock_pool :: "tp_state \<Rightarrow> tp_state" where
  "unlock_pool s = s\<lparr>tp_locked := False\<rparr>"

record tp_swap_plan =
  sp_caller :: principal
  sp_i :: u8
  sp_j :: u8
  sp_dx :: u128
  sp_outcome :: swap_outcome
  sp_amp :: u64
  sp_muls :: "u64 list"
  sp_admin_fee_bps :: u64

definition tp_swap_begin :: "u256_ops \<Rightarrow> u64 \<Rightarrow> principal \<Rightarrow> u8 \<Rightarrow> u8 \<Rightarrow> u128 \<Rightarrow> tp_state \<Rightarrow> (three_pool_error, tp_state \<times> tp_swap_plan) outcome" where
  "tp_swap_begin U now caller i j dx s =
     (if tp_is_paused s then Err PoolPaused
      else
        and_then (lock_pool s) (\<lambda>s1.
        if i \<ge> 3 \<or> j \<ge> 3 \<or> i = j then Err InvalidCoinIndex
        else
          let amp = get_current_a now s1; muls = get_precision_muls s1; adm = pcf_admin_fee_bps (tp_config s1) in
          and_then (calc_swap_output U i j dx (tp_balances s1) muls amp (fee_curve_of s1) adm) (\<lambda>outcome.
          Ok (s1, \<lparr>sp_caller = caller, sp_i = i, sp_j = j, sp_dx = dx, sp_outcome = outcome, sp_amp = amp, sp_muls = muls,
                   sp_admin_fee_bps = adm\<rparr>))))"

definition tp_swap_check :: "tp_swap_plan \<Rightarrow> u128 \<Rightarrow> u128 \<Rightarrow> (three_pool_error, unit) outcome" where
  "tp_swap_check w fee min_dy =
     (let net_output = sat_sub (so_output_native (sp_outcome w)) fee in
      if net_output = 0 then Err (InsufficientOutput 1 0)
      else if net_output < min_dy then Err SlippageExceeded
      else Ok ())"

text \<open>After the input has been pulled and the output has been sent\<close>

definition tp_swap_commit :: "u256_ops \<Rightarrow> u64 \<Rightarrow> tp_swap_plan \<Rightarrow> tp_state \<Rightarrow> tp_state option" where
  "tp_swap_commit U now w s =
     (let output = so_output_native (sp_outcome w);
          fee = so_fee_native (sp_outcome w);
          admin_fee_share = wrap_mul128 fee (sp_admin_fee_bps w) div 10000;
          s1 = s\<lparr>tp_balances := sub_at (sp_j w) (wrap_add128 output admin_fee_share) (add_at (sp_i w) (sp_dx w) (tp_balances s)),
                 tp_admin_fees := add_at (sp_j w) admin_fee_share (tp_admin_fees s)\<rparr>
      in map_option (\<lambda>vp_after. unlock_pool (s1\<lparr>tp_swap_events := tp_swap_events s1 @
            [\<lparr>sv_id = length (tp_swap_events s1), sv_timestamp = now, sv_caller = sp_caller w, sv_token_in = sp_i w,
              sv_token_out = sp_j w, sv_amount_in = sp_dx w, sv_amount_out = output, sv_fee = fee,
              sv_fee_bps = so_fee_bps_used (sp_outcome w), sv_imbalance_before = so_imbalance_before (sp_outcome w),
              sv_imbalance_after = so_imbalance_after (sp_outcome w), sv_is_rebalancing = so_is_rebalancing (sp_outcome w),
              sv_pool_balances_after = tp_balances s1, sv_virtual_price_after = vp_after, sv_migrated = False\<rparr>]\<rparr>))
           (vp_or_zero U (sp_muls w) (sp_amp w) s1))"

text \<open>After neither the output nor the refund could be sent\<close>

definition tp_swap_refund_failed :: "u64 \<Rightarrow> tp_swap_plan \<Rightarrow> string \<Rightarrow> string \<Rightarrow> tp_state \<Rightarrow> tp_state" where
  "tp_swap_refund_failed now w reason refund_err s =
     unlock_pool (tp_record_pending_claim now (sp_caller w) (sp_i w) (tk_ledger_id (token_of s (sp_i w))) (tk_symbol (token_of s (sp_i w)))
       (sp_dx w) (''swap output transfer failed ('' @ reason @ ''), then input refund failed ('' @ refund_err @ '')'') s)"

section \<open>Deposit\<close>

definition record_liquidity :: "u64 \<Rightarrow> principal \<Rightarrow> liquidity_action \<Rightarrow> u128 list \<Rightarrow> u128 \<Rightarrow> u8 option \<Rightarrow> u128 option \<Rightarrow> u16 option
    \<Rightarrow> u64 \<Rightarrow> u64 \<Rightarrow> bool \<Rightarrow> u128 \<Rightarrow> tp_state \<Rightarrow> tp_state" where
  "record_liquidity now caller action amounts lp_amount coin_index fee fee_bps imbalance_before imbalance_after is_rebalancing vp_after s =
     s\<lparr>tp_liq_events := tp_liq_events s @
         [\<lparr>lv_id = length (tp_liq_events s), lv_timestamp = now, lv_caller = caller, lv_action = action, lv_amounts = amounts,
           lv_lp_amount = lp_amount, lv_coin_index = coin_index, lv_fee = fee, lv_fee_bps = fee_bps,
           lv_imbalance_before = imbalance_before, lv_imbalance_after = imbalance_after, lv_is_rebalancing = is_rebalancing,
           lv_pool_balances_after = tp_balances s, lv_virtual_price_after = vp_after, lv_migrated = False\<rparr>]\<rparr>"

record tp_add_plan =
  adp_caller :: principal
  adp_amounts :: "u128 list"
  adp_outcome :: add_liquidity_outcome
  adp_amp :: u64
  adp_muls :: "u64 list"

definition tp_add_begin :: "u256_ops \<Rightarrow> u64 \<Rightarrow> principal \<Rightarrow> u128 list \<Rightarrow> u128 \<Rightarrow> tp_state \<Rightarrow> (three_pool_error, tp_state \<times> tp_add_plan) outcome" where
  "tp_add_begin U now caller amounts min_lp s =
     (if tp_is_paused s then Err PoolPaused
      else if length amounts \<noteq> 3 then Err InvalidCoinIndex
      else
        and_then (lock_pool s) (\<lambda>s1.
        let amp = get_current_a now s1; muls = get_precision_muls s1 in
        and_then (calc_add_liquidity U amounts (tp_balances s1) muls (tp_lp_total_supply s1) amp (fee_curve_of s1)) (\<lambda>outcome.
        if al_lp_minted outcome < min_lp then Err SlippageExceeded
        else Ok (s1, \<lparr>adp_caller = caller, adp_amounts = amounts, adp_outcome = outcome, adp_amp = amp, adp_muls = muls\<rparr>))))"

text \<open>After the pull of coin \<open>k\<close> failed: the coins pulled before it are sent back; \<open>refunds\<close> gives the reason for each
  refund that failed.\<close>

fun tp_add_abort_loop :: "u64 \<Rightarrow> tp_add_plan \<Rightarrow> usize \<Rightarrow> (usize \<Rightarrow> string option) \<Rightarrow> usize list \<Rightarrow> tp_state \<Rightarrow> tp_state" where
  "tp_add_abort_loop now w k refunds [] s = s"
| "tp_add_abort_loop now w k refunds (r # rs) s =
     tp_add_abort_loop now w k refunds rs
       (if adp_amounts w ! r > 0
        then case refunds r of
          None \<Rightarrow> s
        | Some refund_err \<Rightarrow>
            tp_record_pending_claim now (adp_caller w) r (tk_ledger_id (token_of s r)) (tk_symbol (token_of s r)) (adp_amounts w ! r)
              (''add_liquidity aborted after token '' @ show_nat k @ '' pull failed; refund of token '' @ show_nat r
               @ '' also failed ('' @ refund_err @ '')'') s
        else s)"

definition tp_add_abort :: "u64 \<Rightarrow> tp_add_plan \<Rightarrow> usize \<Rightarrow> (usize \<Rightarrow> string option) \<Rightarrow> tp_state \<Rightarrow> tp_state" where
  "tp_add_abort now w k refunds s = unlock_pool (tp_add_abort_loop now w k refunds [0 ..< k] s)"

text \<open>After everything has been pulled\<close>

definition credit_lp :: "principal \<Rightarrow> u128 \<Rightarrow> tp_state \<Rightarrow> tp_state" where
  "credit_lp who amount s =
     (let s1 = lp_balance_set who (wrap_add128 (lp_balance_get s who) amount) s
      in s1\<lparr>tp_lp_total_supply := wrap_add128 (tp_lp_total_supply s1) amount\<rparr>)"

definition tp_add_commit :: "icrc3_crypto \<Rightarrow> u256_ops \<Rightarrow> u64 \<Rightarrow> tp_add_plan \<Rightarrow> tp_state \<Rightarrow> tp_state option" where
  "tp_add_commit C U now w s =
     (let o' = adp_outcome w;
          s1 = credit_lp (adp_caller w) (al_lp_minted o')
                 (s\<lparr>tp_balances := add_at 2 (adp_amounts w ! 2) (add_at 1 (adp_amounts w ! 1) (add_at 0 (adp_amounts w ! 0) (tp_balances s)))\<rparr>);
          s2 = tp_log_block C now (TxMint (adp_caller w) (al_lp_minted o') None) (s1\<lparr>tp_is_initialized := True\<rparr>)
      in map_option (\<lambda>vp_after. unlock_pool (record_liquidity now (adp_caller w) LaAddLiquidity (adp_amounts w) (al_lp_minted o') None None
            (Some (al_fee_bps_used o')) (al_imbalance_before o') (al_imbalance_after o') (al_is_rebalancing o') vp_after s2))
           (vp_or_zero U (adp_muls w) (adp_amp w) s2))"

section \<open>Withdrawal\<close>

text \<open>The burn of LP tokens, with the balance and the supply it finds\<close>

definition debit_lp :: "principal \<Rightarrow> u128 \<Rightarrow> tp_state \<Rightarrow> tp_state" where
  "debit_lp who amount s =
     (let s1 = lp_balance_set who (wrap_sub128 (lp_balance_get s who) amount) s
      in s1\<lparr>tp_lp_total_supply := wrap_sub128 (tp_lp_total_supply s1) amount\<rparr>)"

record tp_remove_plan =
  rmp_caller :: principal
  rmp_lp_burn :: u128
  rmp_amounts :: "u128 list"
  rmp_imbalance_before :: u64
  rmp_amp :: u64
  rmp_muls :: "u64 list"

definition tp_remove_begin :: "u256_ops \<Rightarrow> u64 \<Rightarrow> principal \<Rightarrow> u128 \<Rightarrow> u128 list \<Rightarrow> tp_state \<Rightarrow> (three_pool_error, tp_state \<times> tp_remove_plan) outcome" where
  "tp_remove_begin U now caller lp_burn min_amounts s =
     (if length min_amounts \<noteq> 3 then Err InvalidCoinIndex
      else if lp_burn = 0 then Err ZeroAmount
      else
        and_then (lock_pool s) (\<lambda>s1.
        if lp_balance_get s1 caller < lp_burn then Err InsufficientLiquidity
        else if tp_lp_total_supply s1 = 0 then Err PoolEmpty
        else
          let muls = get_precision_muls s1; amp = get_current_a now s1 in
          and_then (or_trap (compute_imbalance U (tp_balances s1) muls)) (\<lambda>imbalance_before.
          and_then (or_trap (calc_remove_liquidity lp_burn (tp_balances s1) (tp_lp_total_supply s1))) (\<lambda>amounts.
          Ok (s1, \<lparr>rmp_caller = caller, rmp_lp_burn = lp_burn, rmp_amounts = amounts, rmp_imbalance_before = imbalance_before,
                   rmp_amp = amp, rmp_muls = muls\<rparr>)))))"

text \<open>The check of each leg against its minimum, net of the ledger's fee\<close>

fun tp_remove_check :: "tp_remove_plan \<Rightarrow> (usize \<Rightarrow> u128) \<Rightarrow> u128 list \<Rightarrow> usize list \<Rightarrow> (three_pool_error, unit) outcome" where
  "tp_remove_check w fee min_amounts [] = Ok ()"
| "tp_remove_check w fee min_amounts (k # ks) =
     (let net = sat_sub (rmp_amounts w ! k) (fee k) in
      if rmp_amounts w ! k > 0 \<and> net = 0 then Err (InsufficientOutput 1 0)
      else if net < min_amounts ! k then Err SlippageExceeded
      else tp_remove_check w fee min_amounts ks)"

definition tp_remove_deduct :: "icrc3_crypto \<Rightarrow> u64 \<Rightarrow> tp_remove_plan \<Rightarrow> tp_state \<Rightarrow> tp_state" where
  "tp_remove_deduct C now w s =
     (let s1 = debit_lp (rmp_caller w) (rmp_lp_burn w) s;
          s2 = s1\<lparr>tp_balances := sub_at 2 (rmp_amounts w ! 2) (sub_at 1 (rmp_amounts w ! 1) (sub_at 0 (rmp_amounts w ! 0) (tp_balances s1)))\<rparr>
      in tp_log_block C now (TxBurn (rmp_caller w) (rmp_lp_burn w) None) s2)"

text \<open>A leg that could not be paid\<close>

definition tp_remove_leg_failed :: "u64 \<Rightarrow> tp_remove_plan \<Rightarrow> usize \<Rightarrow> string \<Rightarrow> tp_state \<Rightarrow> tp_state" where
  "tp_remove_leg_failed now w k reason s =
     tp_record_pending_claim now (rmp_caller w) k (tk_ledger_id (token_of s k)) (tk_symbol (token_of s k)) (rmp_amounts w ! k)
       (''remove_liquidity payout of token '' @ show_nat k @ '' failed ('' @ reason @ '')'') s"

definition tp_remove_finish :: "u256_ops \<Rightarrow> u64 \<Rightarrow> tp_remove_plan \<Rightarrow> tp_state \<Rightarrow> tp_state option" where
  "tp_remove_finish U now w s =
     Option.bind (vp_or_zero U (rmp_muls w) (rmp_amp w) s) (\<lambda>vp_after.
     map_option (\<lambda>imbalance_after. unlock_pool (record_liquidity now (rmp_caller w) LaRemoveLiquidity (rmp_amounts w) (rmp_lp_burn w) None None None
         (rmp_imbalance_before w) imbalance_after False vp_after s))
       (compute_imbalance U (tp_balances s) (rmp_muls w)))"

record tp_one_plan =
  onp_caller :: principal
  onp_coin :: u8
  onp_lp_burn :: u128
  onp_outcome :: remove_one_coin_outcome
  onp_admin_fee_bps :: u64
  onp_amp :: u64
  onp_muls :: "u64 list"

definition tp_one_begin :: "u256_ops \<Rightarrow> u64 \<Rightarrow> principal \<Rightarrow> u128 \<Rightarrow> u8 \<Rightarrow> tp_state \<Rightarrow> (three_pool_error, tp_state \<times> tp_one_plan) outcome" where
  "tp_one_begin U now caller lp_burn coin_index s =
     (if coin_index \<ge> 3 then Err InvalidCoinIndex
      else
        and_then (lock_pool s) (\<lambda>s1.
        if lp_balance_get s1 caller < lp_burn then Err InsufficientLiquidity
        else
          let amp = get_current_a now s1; muls = get_precision_muls s1; adm = pcf_admin_fee_bps (tp_config s1) in
          and_then (calc_remove_one_coin U lp_burn coin_index (tp_balances s1) muls (tp_lp_total_supply s1) amp (fee_curve_of s1) adm) (\<lambda>outcome.
          Ok (s1, \<lparr>onp_caller = caller, onp_coin = coin_index, onp_lp_burn = lp_burn, onp_outcome = outcome, onp_admin_fee_bps = adm,
                   onp_amp = amp, onp_muls = muls\<rparr>))))"

definition tp_one_check :: "tp_one_plan \<Rightarrow> u128 \<Rightarrow> u128 \<Rightarrow> (three_pool_error, unit) outcome" where
  "tp_one_check w fee min_amount =
     (let net_amount = sat_sub (rc_amount_native (onp_outcome w)) fee in
      if net_amount = 0 then Err (InsufficientOutput 1 0)
      else if net_amount < min_amount then Err SlippageExceeded
      else Ok ())"

definition tp_one_deduct :: "icrc3_crypto \<Rightarrow> u64 \<Rightarrow> tp_one_plan \<Rightarrow> tp_state \<Rightarrow> tp_state" where
  "tp_one_deduct C now w s =
     (let amount = rc_amount_native (onp_outcome w);
          admin_fee_share = wrap_mul128 (rc_fee_native (onp_outcome w)) (onp_admin_fee_bps w) div 10000;
          s1 = debit_lp (onp_caller w) (onp_lp_burn w) s;
          s2 = s1\<lparr>tp_balances := sub_at (onp_coin w) (wrap_add128 amount admin_fee_share) (tp_balances s1),
                  tp_admin_fees := add_at (onp_coin w) admin_fee_share (tp_admin_fees s1)\<rparr>
      in tp_log_block C now (TxBurn (onp_caller w) (onp_lp_burn w) None) s2)"

definition tp_one_failed :: "u64 \<Rightarrow> tp_one_plan \<Rightarrow> string \<Rightarrow> tp_state \<Rightarrow> tp_state" where
  "tp_one_failed now w reason s =
     unlock_pool (tp_record_pending_claim now (onp_caller w) (onp_coin w) (tk_ledger_id (token_of s (onp_coin w)))
       (tk_symbol (token_of s (onp_coin w))) (rc_amount_native (onp_outcome w))
       (''remove_one_coin payout of token '' @ show_nat (onp_coin w) @ '' failed ('' @ reason @ '')'') s)"

definition tp_one_finish :: "u256_ops \<Rightarrow> u64 \<Rightarrow> tp_one_plan \<Rightarrow> tp_state \<Rightarrow> tp_state option" where
  "tp_one_finish U now w s =
     (let o' = onp_outcome w in
      map_option (\<lambda>vp_after. unlock_pool (record_liquidity now (onp_caller w) LaRemoveOneCoin ([0, 0, 0][onp_coin w := rc_amount_native o'])
          (onp_lp_burn w) (Some (onp_coin w)) (Some (rc_fee_native o')) (Some (rc_fee_bps_used o'))
          (rc_imbalance_before o') (rc_imbalance_after o') (rc_is_rebalancing o') vp_after s))
        (vp_or_zero U (onp_muls w) (onp_amp w) s))"

section \<open>Donations\<close>

definition donate_begin :: "u8 \<Rightarrow> u128 \<Rightarrow> tp_state \<Rightarrow> (three_pool_error, tp_state) outcome" where
  "donate_begin token_index amount s =
     (if tp_is_paused s then Err PoolPaused
      else if amount = 0 then Err ZeroAmount
      else if token_index \<ge> 3 then Err InvalidCoinIndex
      else if tp_lp_total_supply s = 0 then Err PoolEmpty
      else lock_pool s)"

definition donate_commit :: "u256_ops \<Rightarrow> u64 \<Rightarrow> principal \<Rightarrow> u8 \<Rightarrow> u128 \<Rightarrow> tp_state \<Rightarrow> tp_state option" where
  "donate_commit U now caller token_index amount s =
     (let muls = get_precision_muls s; amp = get_current_a now s;
          s1 = s\<lparr>tp_balances := add_at token_index amount (tp_balances s)\<rparr> in
      Option.bind (compute_imbalance U (tp_balances s) muls) (\<lambda>imbalance_before.
      Option.bind (vp_or_zero U muls amp s1) (\<lambda>vp_after.
      map_option (\<lambda>imbalance_after. unlock_pool (record_liquidity now caller LaDonate ([0, 0, 0][token_index := amount]) 0 (Some token_index) None None
          imbalance_before imbalance_after (imbalance_after < imbalance_before) vp_after s1))
        (compute_imbalance U (tp_balances s1) muls))))"

definition receive_donation_begin :: "principal \<Rightarrow> bool \<Rightarrow> u8 \<Rightarrow> u128 \<Rightarrow> tp_state \<Rightarrow> (three_pool_error, tp_state) outcome" where
  "receive_donation_begin caller is_controller token_index amount s =
     (if caller \<noteq> pcf_admin (tp_config s) \<and> \<not> is_controller then Err Unauthorized else donate_begin token_index amount s)"

text \<open>\<open>balance\<close> is the balance the ledger reports, or the reason for a failed call. The lock is released either way.\<close>

definition receive_donation_commit :: "u8 \<Rightarrow> u128 \<Rightarrow> string + nat \<Rightarrow> tp_state \<Rightarrow> tp_state \<times> (three_pool_error, unit) outcome" where
  "receive_donation_commit token_index amount balance s =
     (let symbol = tk_symbol (token_of s token_index) in
      case balance of
        Inl reason \<Rightarrow> (unlock_pool s, Err (TransferFailed symbol (''balance check failed: '' @ reason)))
      | Inr n \<Rightarrow>
          let on_chain_balance = (if n \<le> u128_max then n else 0);
              expected_min = wrap_add128 (tp_balances s ! token_index) amount in
          if on_chain_balance < expected_min
          then (unlock_pool s, Err (TransferFailed symbol
                  (''on-chain balance '' @ show_nat on_chain_balance @ '' < expected '' @ show_nat expected_min)))
          else (unlock_pool (s\<lparr>tp_balances := add_at token_index amount (tp_balances s)\<rparr>), Ok ()))"

section \<open>Redeem and burn\<close>

record redeem_args =
  ra_token_ledger :: principal
  ra_token_amount :: u128
  ra_lp_amount :: u128
  ra_max_slippage_bps :: u16

fun token_index_of :: "principal \<Rightarrow> token_config list \<Rightarrow> usize \<Rightarrow> usize option" where
  "token_index_of ledger [] i = None"
| "token_index_of ledger (t # ts) i = (if tk_ledger_id t = ledger then Some i else token_index_of ledger ts (i + 1))"

text \<open>The price check; the ramp is evaluated at the time in nanoseconds.\<close>

definition redeem_slippage :: "u256_ops \<Rightarrow> u64 \<Rightarrow> redeem_args \<Rightarrow> usize \<Rightarrow> tp_state \<Rightarrow> (three_pool_error, unit) outcome" where
  "redeem_slippage U now args token_idx s =
     (let a = get_a (pcf_initial_a (tp_config s)) (pcf_future_a (tp_config s)) (pcf_initial_a_time (tp_config s)) (pcf_future_a_time (tp_config s)) now in
      case virtual_price U (tp_balances s) (get_precision_muls s) a (tp_lp_total_supply s) of
        Trap \<Rightarrow> Trap
      | Err _ \<Rightarrow> Ok ()
      | Ok vp \<Rightarrow>
          let expected_value_18 = wrap_mul128 (ra_lp_amount args) vp div 100000000;
              shift = nat ((18 - int (tk_decimals (token_of s token_idx))) mod 256);
              token_amount_18 = wrap_mul128 (ra_token_amount args) (wrap128 (10 ^ shift));
              max_token_18 = wrap_mul128 expected_value_18 (wrap_add128 10000 (ra_max_slippage_bps args)) div 10000 in
          if token_amount_18 > max_token_18
          then Err (BurnSlippageExceeded (ra_max_slippage_bps args)
                 (if expected_value_18 > 0
                  then wrap_mul128 (wrap_sub128 token_amount_18 expected_value_18) 10000 div expected_value_18 mod 2 ^ 16
                  else 2 ^ 16 - 1))
          else Ok ())"

definition redeem_begin :: "u256_ops \<Rightarrow> u64 \<Rightarrow> principal \<Rightarrow> redeem_args \<Rightarrow> tp_state \<Rightarrow> (three_pool_error, tp_state \<times> usize) outcome" where
  "redeem_begin U now caller args s =
     (if \<not> bs_mem caller (tp_burn_callers s) then Err NotAuthorizedBurnCaller
      else
        and_then (lock_pool s) (\<lambda>s1.
        and_then (ok_or InvalidCoinIndex (token_index_of (ra_token_ledger args) (pcf_tokens (tp_config s1)) 0)) (\<lambda>token_idx.
        if lp_balance_get s1 caller < ra_lp_amount args
        then Err (InsufficientLpBalance (ra_lp_amount args) (lp_balance_get s1 caller))
        else if tp_balances s1 ! token_idx < ra_token_amount args
        then Err (InsufficientPoolBalance (tk_symbol (token_of s1 token_idx)) (ra_token_amount args) (tp_balances s1 ! token_idx))
        else
          and_then (redeem_slippage U now args token_idx s1) (\<lambda>_.
          let s2 = lp_balance_set caller (sat_sub (lp_balance_get s1 caller) (ra_lp_amount args)) s1;
              s3 = s2\<lparr>tp_lp_total_supply := wrap_sub128 (tp_lp_total_supply s2) (ra_lp_amount args),
                      tp_balances := sub_at token_idx (ra_token_amount args) (tp_balances s2)\<rparr>
          in Ok (s3, token_idx)))))"

definition redeem_burned :: "icrc3_crypto \<Rightarrow> u64 \<Rightarrow> principal \<Rightarrow> redeem_args \<Rightarrow> tp_state \<Rightarrow> tp_state" where
  "redeem_burned C now caller args s = unlock_pool (tp_log_block C now (TxBurn caller (ra_lp_amount args) None) s)"

definition redeem_rollback :: "principal \<Rightarrow> redeem_args \<Rightarrow> usize \<Rightarrow> tp_state \<Rightarrow> tp_state" where
  "redeem_rollback caller args token_idx s =
     (let s1 = credit_lp caller (ra_lp_amount args) s
      in unlock_pool (s1\<lparr>tp_balances := add_at token_idx (ra_token_amount args) (tp_balances s1)\<rparr>))"

section \<open>Administration\<close>

definition tp_record_admin_event :: "u64 \<Rightarrow> principal \<Rightarrow> three_pool_admin_action \<Rightarrow> tp_state \<Rightarrow> tp_state" where
  "tp_record_admin_event now caller action s =
     s\<lparr>tp_admin_events := tp_admin_events s @
         [\<lparr>av_id = length (tp_admin_events s), av_timestamp = now, av_caller = caller, av_action = action\<rparr>]\<rparr>"

definition max_fee_curve_bps :: u16 where
  "max_fee_curve_bps = 1000"

definition min_ramp_time :: u64 where
  "min_ramp_time = 86400"

definition max_a_change :: u64 where
  "max_a_change = 10"

abbreviation tp_admin :: "tp_state \<Rightarrow> principal" where
  "tp_admin s \<equiv> pcf_admin (tp_config s)"

definition ramp_a :: "u64 \<Rightarrow> u64 \<Rightarrow> principal \<Rightarrow> u64 \<Rightarrow> tp_state \<Rightarrow> (three_pool_error, tp_state) outcome" where
  "ramp_a future_a future_a_time caller now_ns s =
     (let now = now_ns div 1000000000; current_a = get_current_a now_ns s in
      if caller \<noteq> tp_admin s then Err Unauthorized
      else if future_a_time < u64_wrap (int now + int min_ramp_time) then Err Unauthorized
      else if future_a > u64_wrap (int current_a * int max_a_change) \<or> u64_wrap (int future_a * int max_a_change) < current_a then Err Unauthorized
      else if future_a = 0 then Err ZeroAmount
      else Ok (tp_record_admin_event now_ns caller (RampA future_a future_a_time)
             (s\<lparr>tp_config := (tp_config s)\<lparr>pcf_initial_a := current_a, pcf_future_a := future_a, pcf_initial_a_time := now,
                  pcf_future_a_time := future_a_time\<rparr>\<rparr>)))"

definition stop_ramp_a :: "principal \<Rightarrow> u64 \<Rightarrow> tp_state \<Rightarrow> (three_pool_error, tp_state) outcome" where
  "stop_ramp_a caller now_ns s =
     (let current_a = get_current_a now_ns s in
      if caller \<noteq> tp_admin s then Err Unauthorized
      else Ok (tp_record_admin_event now_ns caller (StopRampA current_a)
             (s\<lparr>tp_config := (tp_config s)\<lparr>pcf_initial_a := current_a, pcf_future_a := current_a, pcf_initial_a_time := 0,
                  pcf_future_a_time := 0\<rparr>\<rparr>)))"

definition withdraw_admin_fees_begin :: "principal \<Rightarrow> tp_state \<Rightarrow> (three_pool_error, tp_state \<times> u128 list) outcome" where
  "withdraw_admin_fees_begin caller s =
     and_then (lock_pool s) (\<lambda>s1.
     if caller \<noteq> tp_admin s1 then Err Unauthorized
     else Ok (s1\<lparr>tp_admin_fees := [0, 0, 0]\<rparr>, tp_admin_fees s1))"

text \<open>A payout that failed gives its fee back.\<close>

definition withdraw_admin_fees_failed :: "usize \<Rightarrow> u128 \<Rightarrow> tp_state \<Rightarrow> tp_state" where
  "withdraw_admin_fees_failed k fee s = s\<lparr>tp_admin_fees := (tp_admin_fees s)[k := sat_add128 (tp_admin_fees s ! k) fee]\<rparr>"

definition withdraw_admin_fees_finish :: "u64 \<Rightarrow> principal \<Rightarrow> u128 list \<Rightarrow> tp_state \<Rightarrow> tp_state" where
  "withdraw_admin_fees_finish now caller withdrawn s = unlock_pool (tp_record_admin_event now caller (WithdrawAdminFees withdrawn) s)"

definition admin_only :: "principal \<Rightarrow> tp_state \<Rightarrow> (three_pool_error, tp_state) outcome \<Rightarrow> (three_pool_error, tp_state) outcome" where
  "admin_only caller s r = (if caller \<noteq> tp_admin s then Err Unauthorized else r)"

definition set_paused :: "u64 \<Rightarrow> principal \<Rightarrow> bool \<Rightarrow> tp_state \<Rightarrow> (three_pool_error, tp_state) outcome" where
  "set_paused now caller paused s =
     admin_only caller s (Ok (tp_record_admin_event now caller (SetPaused paused) (s\<lparr>tp_is_paused := paused\<rparr>)))"

definition set_swap_fee :: "u64 \<Rightarrow> principal \<Rightarrow> u64 \<Rightarrow> tp_state \<Rightarrow> (three_pool_error, tp_state) outcome" where
  "set_swap_fee now caller fee_bps s =
     admin_only caller s (if fee_bps > 100 then Err InvalidCoinIndex
       else Ok (tp_record_admin_event now caller (SetSwapFee fee_bps) (s\<lparr>tp_config := (tp_config s)\<lparr>pcf_swap_fee_bps := fee_bps\<rparr>\<rparr>)))"

definition add_authorized_burn_caller :: "u64 \<Rightarrow> principal \<Rightarrow> principal \<Rightarrow> tp_state \<Rightarrow> (three_pool_error, tp_state) outcome" where
  "add_authorized_burn_caller now caller canister s =
     admin_only caller s (Ok (tp_record_admin_event now caller (AddAuthorizedBurnCaller canister)
       (s\<lparr>tp_burn_callers := bs_insert canister (tp_burn_callers s)\<rparr>)))"

definition remove_authorized_burn_caller :: "u64 \<Rightarrow> principal \<Rightarrow> principal \<Rightarrow> tp_state \<Rightarrow> (three_pool_error, tp_state) outcome" where
  "remove_authorized_burn_caller now caller canister s =
     admin_only caller s (Ok (tp_record_admin_event now caller (RemoveAuthorizedBurnCaller canister)
       (s\<lparr>tp_burn_callers := bs_remove canister (tp_burn_callers s)\<rparr>)))"

definition set_admin_fee :: "u64 \<Rightarrow> principal \<Rightarrow> u64 \<Rightarrow> tp_state \<Rightarrow> (three_pool_error, tp_state) outcome" where
  "set_admin_fee now caller fee_bps s =
     admin_only caller s (if fee_bps > 10000 then Err InvalidCoinIndex
       else Ok (tp_record_admin_event now caller (SetAdminFee fee_bps) (s\<lparr>tp_config := (tp_config s)\<lparr>pcf_admin_fee_bps := fee_bps\<rparr>\<rparr>)))"

definition set_fee_curve_params :: "u64 \<Rightarrow> principal \<Rightarrow> fee_curve_params \<Rightarrow> tp_state \<Rightarrow> (three_pool_error, tp_state) outcome" where
  "set_fee_curve_params now caller p s =
     admin_only caller s
       (if fc_min_fee_bps p > fc_max_fee_bps p then Err InvalidCoinIndex
        else if fc_max_fee_bps p > max_fee_curve_bps then Err InvalidCoinIndex
        else if fc_imb_saturation p = 0 \<or> fc_imb_saturation p > imb_scale then Err InvalidCoinIndex
        else Ok (tp_record_admin_event now caller (FeeCurveParamsUpdated (pcf_fee_curve (tp_config s)) p)
               (s\<lparr>tp_config := (tp_config s)\<lparr>pcf_fee_curve := Some p\<rparr>\<rparr>)))"

end
