(* ===== verification/ThreePool_Chain.thy ===== *)
theory ThreePool_Chain
  imports ThreePool_Blocks
begin

text \<open>
  Properties of the transaction log of the LP token: LEB128 is a round trip, the cache of hashes is the hash chain
  of the log after every block and every upgrade, and a query returns exactly the requested
  blocks with their canonical encoding.
\<close>

section \<open>LEB128\<close>

fun leb128_decode :: "bytes \<Rightarrow> nat" where
  "leb128_decode [] = 0"
| "leb128_decode (b # bs) = b mod 128 + (if b \<ge> 128 then 128 * leb128_decode bs else 0)"

lemma leb128_loop_decode: "leb128_decode (leb128_loop val) = val"
proof (induction val rule: leb128_loop.induct)
  case (1 val)
  show ?case
  proof (cases "val div 128 = 0")
    case True
    then have "val < 128" by (simp add: div_eq_0_iff)
    then show ?thesis by (subst leb128_loop.simps) (simp add: Let_def leb128_loop.simps [of 0])
  next
    case False
    then have "val \<noteq> 0" by (intro notI) simp
    then have "leb128_decode (leb128_loop (val div 128)) = val div 128" using 1 by simp
    then show ?thesis using False \<open>val \<noteq> 0\<close> by (subst leb128_loop.simps) (simp add: Let_def)
  qed
qed

lemma leb128_loop_bytes: "b \<in> set (leb128_loop val) \<Longrightarrow> b < 256"
proof (induction val rule: leb128_loop.induct)
  case (1 val)
  have "val mod 128 < 128" by simp
  then have "val mod 128 + 128 < 256" "val mod 128 < 256" by linarith+
  with 1 show ?case by (subst (asm) leb128_loop.simps) (auto simp: Let_def split: if_splits)
qed

section \<open>The chain\<close>

fun chain_from :: "icrc3_crypto \<Rightarrow> bytes option \<Rightarrow> icrc3_block list \<Rightarrow> bytes list" where
  "chain_from C prev [] = []"
| "chain_from C prev (b # bs) = (let h = hash_value C (encode_block_with_phash C b prev) in h # chain_from C (Some h) bs)"

definition chain_tip :: "bytes option \<Rightarrow> bytes list \<Rightarrow> bytes option" where
  "chain_tip prev hs = (if hs = [] then prev else Some (last hs))"

text \<open>A block with the hash of its predecessor in the log, as it has to be served\<close>

definition block_value :: "icrc3_crypto \<Rightarrow> icrc3_block list \<Rightarrow> nat \<Rightarrow> icrc3_value" where
  "block_value C blocks i = encode_block_with_phash C (blocks ! i) (if i = 0 then None else Some (chain_from C None blocks ! (i - 1)))"

definition log_ok :: "icrc3_crypto \<Rightarrow> block_log \<Rightarrow> bool" where
  "log_ok C l \<longleftrightarrow> bl_hashes l = chain_from C None (bl_blocks l) \<and> bl_last_hash l = chain_tip None (bl_hashes l)
     \<and> map b_id (bl_blocks l) = [0 ..< length (bl_blocks l)]"

lemma length_chain_from [simp]: "length (chain_from C prev bs) = length bs"
  by (induction bs arbitrary: prev) (simp_all add: Let_def)

lemma chain_tip_simps [simp]: "chain_tip prev [] = prev" "chain_tip prev (h # hs) = chain_tip (Some h) hs"
  "chain_tip prev (hs @ [h]) = Some h"
  by (simp_all add: chain_tip_def)

lemma chain_from_append: "chain_from C prev (xs @ ys) = chain_from C prev xs @ chain_from C (chain_tip prev (chain_from C prev xs)) ys"
  by (induction xs arbitrary: prev) (simp_all add: Let_def)

lemma chain_take: "chain_from C prev (take n bs) = take n (chain_from C prev bs)"
proof -
  have "chain_from C prev bs = chain_from C prev (take n bs) @ chain_from C (chain_tip prev (chain_from C prev (take n bs))) (drop n bs)"
    using chain_from_append [of C prev "take n bs" "drop n bs"] by simp
  then show ?thesis by (metis append_eq_conv_conj length_chain_from length_take min.absorb2 nat_le_linear take_all)
qed

lemma chain_tip_take:
  "n \<le> length hs \<Longrightarrow> chain_tip None (take n hs) = (if n = 0 then None else Some (hs ! (n - 1)))"
  by (auto simp: chain_tip_def take_eq_Nil last_conv_nth)

lemma recompute_tip: "recompute_hash_chain C bs = chain_tip None (chain_from C None bs)"
proof -
  have "fold (\<lambda>b h. Some (hash_value C (encode_block_with_phash C b h))) bs prev = chain_tip prev (chain_from C prev bs)" for prev
    by (induction bs arbitrary: prev) (simp_all add: Let_def)
  then show ?thesis by (simp add: recompute_hash_chain_def)
qed

lemma backfill_loop_chain: "backfill_loop C bs prev hashes = hashes @ chain_from C prev bs"
  by (induction bs arbitrary: prev hashes) (simp_all add: Let_def)

lemma log_ok_block: "log_ok C l \<Longrightarrow> log_ok C (fst (log_block C now tx l))"
  by (auto simp: log_ok_def log_block_def Let_def chain_from_append)

lemma log_ok_empty: "log_ok C \<lparr>bl_blocks = [], bl_hashes = [], bl_last_hash = None, bl_certified = None\<rparr>"
  by (simp add: log_ok_def)

section \<open>Upgrades\<close>

text \<open>C30. An upgrade of the three-pool succeeds and leaves the hash cache equal to the hash chain of the log, whenever
  the cache was any prefix of it (the whole for a log written by the current code, nothing for one written
  before the cache existed) and the stored tip is the tip of the chain; the chain recomputed from scratch has
  the same tip, and the certified data is the digest for it.\<close>

theorem upgrade_restores_chain:
  assumes "bl_hashes l = take k (chain_from C None (bl_blocks l))" and "bl_last_hash l = recompute_hash_chain C (bl_blocks l)"
    and "map b_id (bl_blocks l) = [0 ..< length (bl_blocks l)]"
  shows "\<exists>l'. upgrade_log C l = Some l' \<and> log_ok C l' \<and> bl_blocks l' = bl_blocks l
    \<and> (bl_blocks l \<noteq> [] \<longrightarrow> bl_certified l' = Some (set_certified_tip C (length (bl_blocks l) - 1) (last (bl_hashes l'))))"
proof -
  let ?bs = "bl_blocks l" and ?ch = "chain_from C None (bl_blocks l)"
  define n where "n = length ?bs"
  define s where "s = length (bl_hashes l)"
  have s: "s \<le> n" "bl_hashes l = take s ?ch" using assms(1) by (auto simp: s_def n_def min_def)
  have tip: "chain_tip None (take s ?ch) = (if s = 0 then None else Some (bl_hashes l ! (s - 1)))"
    using s by (simp add: chain_tip_take n_def)
  have split: "?ch = take s ?ch @ chain_from C (chain_tip None (take s ?ch)) (drop s ?bs)"
    using chain_from_append [of C None "take s ?bs" "drop s ?bs"] by (simp add: chain_take)
  have fill: "backfill_loop C (drop s ?bs) (if s = 0 then None else Some (bl_hashes l ! (s - 1))) (bl_hashes l) = ?ch"
    unfolding backfill_loop_chain tip [symmetric] using split [symmetric] by (simp only: s(2) [symmetric])
  define l1 where "l1 = (case bl_last_hash l of
      Some h \<Rightarrow> if n > 0 then l\<lparr>bl_certified := Some (set_certified_tip C (n - 1) h)\<rparr> else l | None \<Rightarrow> l)"
  have l1: "bl_blocks l1 = ?bs" "bl_hashes l1 = bl_hashes l" "bl_last_hash l1 = bl_last_hash l"
    by (auto simp: l1_def split: option.splits)
  have last: "bl_last_hash l = chain_tip None ?ch" using assms(2) by (simp add: recompute_tip)
  have "backfill_hash_chain C l1 = Some (l1\<lparr>bl_hashes := ?ch\<rparr>)"
  proof (cases "s = n")
    case True
    then have "bl_hashes l1 = ?ch" using s(2) l1(2) by (simp add: n_def)
    then have "l1 = l1\<lparr>bl_hashes := ?ch\<rparr>" by simp
    then show ?thesis using True unfolding backfill_hash_chain_def Let_def l1 s_def [symmetric] n_def [symmetric] by simp
  next
    case False
    then show ?thesis using s(1) fill unfolding backfill_hash_chain_def Let_def l1 s_def [symmetric] n_def [symmetric] by simp
  qed
  moreover have "n > 0 \<Longrightarrow> Some (?ch ! (n - 1)) = bl_last_hash l"
    unfolding last using chain_tip_take [of n ?ch] by (simp add: n_def)
  ultimately have up: "upgrade_log C l = Some (l1\<lparr>bl_hashes := ?ch\<rparr>)"
    unfolding upgrade_log_def Let_def n_def [symmetric] l1_def [symmetric] by (auto simp: l1 n_def)
  moreover have "log_ok C (l1\<lparr>bl_hashes := ?ch\<rparr>)" using assms(3) last by (simp add: log_ok_def l1)
  moreover have "bl_certified l1 = Some (set_certified_tip C (n - 1) (List.last ?ch))" if "?bs \<noteq> []"
  proof -
    have "?ch \<noteq> []" using that by (metis length_0_conv length_chain_from)
    then show ?thesis using that last by (simp add: l1_def chain_tip_def n_def)
  qed
  ultimately show ?thesis by (simp add: l1 n_def)
qed

theorem upgrade_restores_chain_witness:
  "\<exists>l'. upgrade_log \<lparr>cr_sha256 = (\<lambda>bs. [length bs]), cr_principal = (\<lambda>p. [p])\<rparr>
      \<lparr>bl_blocks = [\<lparr>b_id = 0, b_timestamp = 5, b_tx = TxMint 7 100 None\<rparr>, \<lparr>b_id = 1, b_timestamp = 6, b_tx = TxBurn 7 40 None\<rparr>],
       bl_hashes = [], bl_last_hash = recompute_hash_chain \<lparr>cr_sha256 = (\<lambda>bs. [length bs]), cr_principal = (\<lambda>p. [p])\<rparr>
         [\<lparr>b_id = 0, b_timestamp = 5, b_tx = TxMint 7 100 None\<rparr>, \<lparr>b_id = 1, b_timestamp = 6, b_tx = TxBurn 7 40 None\<rparr>],
       bl_certified = None\<rparr> = Some l' \<and> length (bl_hashes l') = 2"
proof -
  let ?C = "\<lparr>cr_sha256 = (\<lambda>bs :: nat list. [length bs]), cr_principal = (\<lambda>p :: nat. [p])\<rparr>"
    and ?bs = "[\<lparr>b_id = 0, b_timestamp = 5, b_tx = TxMint 7 100 None\<rparr>, \<lparr>b_id = 1, b_timestamp = 6, b_tx = TxBurn 7 40 None\<rparr>]"
  obtain l' where "upgrade_log ?C \<lparr>bl_blocks = ?bs, bl_hashes = [], bl_last_hash = recompute_hash_chain ?C ?bs, bl_certified = None\<rparr> = Some l'"
    "log_ok ?C l'" "bl_blocks l' = ?bs"
    using upgrade_restores_chain [of "\<lparr>bl_blocks = ?bs, bl_hashes = [], bl_last_hash = recompute_hash_chain ?C ?bs, bl_certified = None\<rparr>" 0 ?C]
    by auto
  then show ?thesis by (auto simp: log_ok_def Let_def)
qed

section \<open>Queries\<close>

text \<open>The numbers of the blocks a query asks for, in order, up to the budget\<close>

fun wanted :: "nat \<Rightarrow> (nat \<times> nat) list \<Rightarrow> nat \<Rightarrow> nat list" where
  "wanted n [] r = []"
| "wanted n ((s, k) # args) r =
     (let ids = [nat_to_u64 s ..< min (nat_to_u64 s + min (nat_to_u64 k) r) n] in ids @ wanted n args (r - length ids))"

lemma wanted_0 [simp]: "wanted n args 0 = []"
  by (induction args) (auto simp: Let_def)

lemma wanted_le: "length (wanted n args r) \<le> r"
proof (induction args arbitrary: r)
  case (Cons a args)
  obtain s k where a: "a = (s, k)" by (cases a)
  define m where "m = min (nat_to_u64 s + min (nat_to_u64 k) r) n - nat_to_u64 s"
  have "m \<le> r" by (simp add: m_def)
  moreover have "length (wanted n (a # args) r) = m + length (wanted n args (r - m))" by (simp add: a Let_def m_def)
  ultimately show ?case using Cons.IH [of "r - m"] by linarith
qed simp

lemma encode_range_chain:
  "encode_range C bs prev = map (\<lambda>k. (b_id (bs ! k), encode_block_with_phash C (bs ! k) (if k = 0 then prev else Some (chain_from C prev bs ! (k - 1))))) [0 ..< length bs]"
proof (induction bs arbitrary: prev)
  case (Cons b bs)
  have "[0 ..< length (b # bs)] = 0 # map Suc [0 ..< length bs]"
    unfolding map_Suc_upt by (simp add: upt_conv_Cons del: upt_Suc)
  then show ?case by (auto simp: Cons.IH Let_def nth_Cons' simp del: upt_Suc)
qed simp

lemma encode_slice:
  assumes "s < e" and "e \<le> length bs" and "map b_id bs = [0 ..< length bs]"
  shows "encode_range C (map (\<lambda>i. bs ! i) [s ..< e]) (if s = 0 then None else Some (chain_from C None bs ! (s - 1)))
    = map (\<lambda>i. (i, block_value C bs i)) [s ..< e]"
proof -
  let ?mid = "map (\<lambda>i. bs ! i) [s ..< e]"
  define p where "p = (if s = 0 then None else Some (chain_from C None bs ! (s - 1)))"
  have mid: "take e bs = take s bs @ ?mid"
    using assms(1,2) by (intro nth_equalityI) (auto simp: nth_append)
  have tip: "chain_tip None (chain_from C None (take s bs)) = p"
    using assms(1,2) by (simp add: chain_take chain_tip_take p_def)
  have ch: "take e (chain_from C None bs) = take s (chain_from C None bs) @ chain_from C p ?mid"
    unfolding chain_take [symmetric] mid chain_from_append tip chain_take [symmetric] by simp
  have "chain_from C p ?mid ! k = chain_from C None bs ! (s + k)" if "k < e - s" for k
  proof -
    have "take e (chain_from C None bs) ! (s + k) = chain_from C p ?mid ! k"
      unfolding ch using assms(1,2) by (simp add: nth_append)
    then show ?thesis using that by simp
  qed
  then have par: "(if k = 0 then p else Some (chain_from C p ?mid ! (k - 1))) = (if s + k = 0 then None else Some (chain_from C None bs ! (s + k - 1)))"
    if "k < e - s" for k using that by (cases k) (auto simp: p_def)
  have id: "b_id (bs ! i) = i" if "i < length bs" for i
    using assms(3) that by (metis add_0 diff_zero length_map nth_map nth_upt)
  show ?thesis unfolding encode_range_chain p_def [symmetric]
  proof (rule nth_equalityI)
    fix i assume "i < length (map (\<lambda>k. (b_id (?mid ! k), encode_block_with_phash C (?mid ! k)
      (if k = 0 then p else Some (chain_from C p ?mid ! (k - 1))))) [0 ..< length ?mid])"
    then have i: "i < e - s" by simp
    then have "map (\<lambda>k. (b_id (?mid ! k), encode_block_with_phash C (?mid ! k)
        (if k = 0 then p else Some (chain_from C p ?mid ! (k - 1))))) [0 ..< length ?mid] ! i
        = (b_id (bs ! (s + i)), encode_block_with_phash C (bs ! (s + i)) (if i = 0 then p else Some (chain_from C p ?mid ! (i - 1))))"
      by (simp cong: if_cong split del: if_split)
    also have "\<dots> = (s + i, block_value C bs (s + i))" unfolding par [OF i] block_value_def using id [of "s + i"] i assms(2) by simp
    finally show "map (\<lambda>k. (b_id (?mid ! k), encode_block_with_phash C (?mid ! k)
        (if k = 0 then p else Some (chain_from C p ?mid ! (k - 1))))) [0 ..< length ?mid] ! i
        = map (\<lambda>i. (i, block_value C bs i)) [s ..< e] ! i" using i by simp
  qed simp
qed

text \<open>A query for blocks of the three-pool's LP token never panics and returns exactly the requested blocks, in the
  order of the request and at most 2000 of them; each carries its number and the encoding whose parent hash
  is the hash of the block before it in the whole log, although the code hashes only the requested blocks.\<close>

theorem get_blocks_exact:
  assumes "log_ok C l" and "length (bl_blocks l) \<le> u64_max"
  shows "icrc3_get_blocks C l args
    = Some (length (bl_blocks l), map (\<lambda>i. (i, block_value C (bl_blocks l) i)) (wanted (length (bl_blocks l)) args max_get_blocks_response))
    \<and> length (wanted (length (bl_blocks l)) args max_get_blocks_response) \<le> 2000"
proof -
  let ?bs = "bl_blocks l"
  let ?n = "length ?bs"
  have h: "bl_hashes l = chain_from C None ?bs" and ids: "map b_id ?bs = [0 ..< ?n]" using assms(1) by (auto simp: log_ok_def)
  have loop: "r \<le> 2000 \<Longrightarrow> get_blocks_loop C l args r = Some (map (\<lambda>i. (i, block_value C ?bs i)) (wanted ?n args r))" for r
  proof (induction args arbitrary: r)
    case (Cons a args)
    obtain s0 k0 where a: "a = (s0, k0)" by (cases a)
    define s e where "s = nat_to_u64 s0" and "e = min (s + min (nat_to_u64 k0) r) ?n"
    have e: "min (sat_add64 s (min (nat_to_u64 k0) r)) ?n = e" using assms(2) by (auto simp: e_def sat_add64_def)
    show ?case
    proof (cases "r = 0 \<or> ?n \<le> s \<or> e \<le> s")
      case True
      then have "[s ..< e] = []" by (auto simp: e_def)
      with True Cons.IH [of r] Cons.prems show ?thesis
        by (auto simp: a Let_def s_def [symmetric] e e_def [symmetric])
    next
      case False
      then have se: "e - s \<le> 2000" "s < e" "e \<le> ?n" using Cons.prems by (auto simp: e_def)
      then have rng: "log_range ?bs s (e - s) = map (\<lambda>i. ?bs ! i) [s ..< e]"
        using assms(2) by (auto simp: log_range_def Let_def sat_add64_def max_event_page_def min_def)
      have "encode_range C (log_range ?bs s (e - s)) (if s = 0 then None else Some (bl_hashes l ! (s - 1)))
          = map (\<lambda>i. (i, block_value C ?bs i)) [s ..< e]"
        unfolding rng h using se by (intro encode_slice [OF _ _ ids])
      moreover have "get_blocks_loop C l args (r - (e - s)) = Some (map (\<lambda>i. (i, block_value C ?bs i)) (wanted ?n args (r - (e - s))))"
        using Cons.IH Cons.prems by simp
      moreover have "(0 < s \<and> length (bl_hashes l) \<le> s - Suc 0) = False" using se by (auto simp: h)
      ultimately show ?thesis using False
        by (simp add: a Let_def s_def [symmetric] e e_def [symmetric] rng cong: if_cong split del: if_split) auto
    qed
  qed simp
  show ?thesis using loop [of max_get_blocks_response] wanted_le [of ?n args max_get_blocks_response]
    by (simp add: icrc3_get_blocks_def max_get_blocks_response_def)
qed

theorem get_blocks_exact_witness:
  "\<exists>l. log_ok \<lparr>cr_sha256 = (\<lambda>bs. [length bs]), cr_principal = (\<lambda>p. [p])\<rparr> l \<and>
     icrc3_get_blocks \<lparr>cr_sha256 = (\<lambda>bs. [length bs]), cr_principal = (\<lambda>p. [p])\<rparr> l [(0, 5)]
       = Some (1, [(0, block_value \<lparr>cr_sha256 = (\<lambda>bs. [length bs]), cr_principal = (\<lambda>p. [p])\<rparr> (bl_blocks l) 0)])"
proof -
  let ?C = "\<lparr>cr_sha256 = (\<lambda>bs :: nat list. [length bs]), cr_principal = (\<lambda>p :: nat. [p])\<rparr>"
  let ?l = "fst (log_block ?C 5 (TxMint 7 100 None) \<lparr>bl_blocks = [], bl_hashes = [], bl_last_hash = None, bl_certified = None\<rparr>)"
  have ok: "log_ok ?C ?l" by (rule log_ok_block [OF log_ok_empty])
  have one: "length (bl_blocks ?l) = 1" by (simp add: log_block_def Let_def)
  have "wanted 1 [(0, 5)] max_get_blocks_response = [0]" by (simp add: max_get_blocks_response_def nat_to_u64_def u64_max_def Let_def)
  then show ?thesis using get_blocks_exact [OF ok, of "[(0, 5)]"] ok one by (intro exI [of _ ?l]) (simp add: u64_max_def)
qed

end
