(* ===== verification/ThreePool_Machine.thy ===== *)
theory ThreePool_Machine
  imports ThreePool_Pool ThreePool_Chain Rumi_Systems
begin

text \<open>
  The three-pool as a state machine. A node is the canister state, the call that holds the pool lock with what it
  waits for, and the claims being paid. LP transfers take no lock, so they run between the segments of a
  locked call. The flag \<open>calm\<close> restricts the machine to runs in which a withdrawal still finds the LP tokens it
  checked and a deposit does not mint past 128 bits; the code checks neither, and \<open>calm = False\<close> is the code.
\<close>

section \<open>Nodes and steps\<close>

datatype tp_session =
    TsSwap tp_swap_plan
  | TsAdd tp_add_plan
  | TsRemove tp_remove_plan
  | TsRemovePaying tp_remove_plan
  | TsOne tp_one_plan
  | TsOnePaying tp_one_plan
  | TsDonate principal u8 u128
  | TsReceive u8 u128
  | TsRedeem principal redeem_args usize
  | TsFees principal "u128 list"

record tp_node =
  tn_state :: tp_state
  tn_session :: "tp_session option"
  tn_claiming :: "three_pool_pending_claim list"

definition tp_start :: "tp_state \<Rightarrow> tp_node" where
  "tp_start s = \<lparr>tn_state = s, tn_session = None, tn_claiming = []\<rparr>"

abbreviation goto :: "tp_state \<Rightarrow> tp_session option \<Rightarrow> tp_node \<Rightarrow> tp_node" where
  "goto s t n \<equiv> n\<lparr>tn_state := s, tn_session := t\<rparr>"

inductive tp_step :: "icrc3_crypto \<Rightarrow> u256_ops \<Rightarrow> bool \<Rightarrow> tp_node \<Rightarrow> tp_node \<Rightarrow> bool"
  for C :: icrc3_crypto and U :: u256_ops and calm :: bool
where
  token_sent: "icrc1_transfer C now caller args (tn_state n) = Ok (s, i) \<Longrightarrow> tp_step C U calm n (n\<lparr>tn_state := s\<rparr>)"
| token_approved: "icrc2_approve C now caller apr (tn_state n) = Ok (s, i) \<Longrightarrow> tp_step C U calm n (n\<lparr>tn_state := s\<rparr>)"
| token_pulled: "icrc2_transfer_from C now caller tfa (tn_state n) = (s, r) \<Longrightarrow> tp_step C U calm n (n\<lparr>tn_state := s\<rparr>)"
| swap_started: "tp_swap_begin U now caller ci cj dx (tn_state n) = Ok (s, w) \<Longrightarrow> tp_step C U calm n (goto s (Some (TsSwap w)) n)"
| swap_stopped: "tn_session n = Some (TsSwap w) \<Longrightarrow> tp_step C U calm n (goto (unlock_pool (tn_state n)) None n)"
| swap_done: "tn_session n = Some (TsSwap w) \<Longrightarrow> tp_swap_commit U now w (tn_state n) = Some s \<Longrightarrow> tp_step C U calm n (goto s None n)"
| swap_stranded: "tn_session n = Some (TsSwap w) \<Longrightarrow>
    tp_step C U calm n (goto (tp_swap_refund_failed now w reason refund_err (tn_state n)) None n)"
| add_started: "tp_add_begin U now caller amounts min_lp (tn_state n) = Ok (s, aw) \<Longrightarrow> tp_step C U calm n (goto s (Some (TsAdd aw)) n)"
| add_aborted: "tn_session n = Some (TsAdd aw) \<Longrightarrow> tp_step C U calm n (goto (tp_add_abort now aw k refunds (tn_state n)) None n)"
| add_done: "tn_session n = Some (TsAdd aw) \<Longrightarrow> tp_add_commit C U now aw (tn_state n) = Some s
    \<Longrightarrow> calm \<longrightarrow> tp_lp_total_supply (tn_state n) + al_lp_minted (adp_outcome aw) \<le> u128_max \<Longrightarrow> tp_step C U calm n (goto s None n)"
| remove_started: "tp_remove_begin U now caller lp_burn mins (tn_state n) = Ok (s, rw) \<Longrightarrow> tp_step C U calm n (goto s (Some (TsRemove rw)) n)"
| remove_rejected: "tn_session n = Some (TsRemove rw) \<Longrightarrow> tp_remove_check rw fee mins [0, 1, 2] = Err e
    \<Longrightarrow> tp_step C U calm n (goto (unlock_pool (tn_state n)) None n)"
| remove_deducted: "tn_session n = Some (TsRemove rw) \<Longrightarrow> tp_remove_check rw fee mins [0, 1, 2] = Ok ()
    \<Longrightarrow> calm \<longrightarrow> rmp_lp_burn rw \<le> lp_balance_get (tn_state n) (rmp_caller rw)
    \<Longrightarrow> tp_step C U calm n (goto (tp_remove_deduct C now rw (tn_state n)) (Some (TsRemovePaying rw)) n)"
| remove_leg_failed: "tn_session n = Some (TsRemovePaying rw) \<Longrightarrow>
    tp_step C U calm n (n\<lparr>tn_state := tp_remove_leg_failed now rw k reason (tn_state n)\<rparr>)"
| remove_done: "tn_session n = Some (TsRemovePaying rw) \<Longrightarrow> tp_remove_finish U now rw (tn_state n) = Some s \<Longrightarrow> tp_step C U calm n (goto s None n)"
| one_started: "tp_one_begin U now caller lp_burn ci (tn_state n) = Ok (s, ow) \<Longrightarrow> tp_step C U calm n (goto s (Some (TsOne ow)) n)"
| one_rejected: "tn_session n = Some (TsOne ow) \<Longrightarrow> tp_one_check ow ledger_fee' min_amount = Err e
    \<Longrightarrow> tp_step C U calm n (goto (unlock_pool (tn_state n)) None n)"
| one_deducted: "tn_session n = Some (TsOne ow) \<Longrightarrow> tp_one_check ow ledger_fee' min_amount = Ok ()
    \<Longrightarrow> calm \<longrightarrow> onp_lp_burn ow \<le> lp_balance_get (tn_state n) (onp_caller ow)
    \<Longrightarrow> tp_step C U calm n (goto (tp_one_deduct C now ow (tn_state n)) (Some (TsOnePaying ow)) n)"
| one_failed: "tn_session n = Some (TsOnePaying ow) \<Longrightarrow> tp_step C U calm n (goto (tp_one_failed now ow reason (tn_state n)) None n)"
| one_done: "tn_session n = Some (TsOnePaying ow) \<Longrightarrow> tp_one_finish U now ow (tn_state n) = Some s \<Longrightarrow> tp_step C U calm n (goto s None n)"
| donate_started: "donate_begin ci amount (tn_state n) = Ok s \<Longrightarrow> tp_step C U calm n (goto s (Some (TsDonate caller ci amount)) n)"
| donate_failed: "tn_session n = Some (TsDonate caller ci amount) \<Longrightarrow> tp_step C U calm n (goto (unlock_pool (tn_state n)) None n)"
| donate_done: "tn_session n = Some (TsDonate caller ci amount) \<Longrightarrow> donate_commit U now caller ci amount (tn_state n) = Some s
    \<Longrightarrow> tp_step C U calm n (goto s None n)"
| receive_started: "receive_donation_begin caller is_controller ci amount (tn_state n) = Ok s
    \<Longrightarrow> tp_step C U calm n (goto s (Some (TsReceive ci amount)) n)"
| receive_done: "tn_session n = Some (TsReceive ci amount) \<Longrightarrow> receive_donation_commit ci amount balance (tn_state n) = (s, r')
    \<Longrightarrow> tp_step C U calm n (goto s None n)"
| redeem_started: "redeem_begin U now caller ra (tn_state n) = Ok (s, ci) \<Longrightarrow> tp_step C U calm n (goto s (Some (TsRedeem caller ra ci)) n)"
| redeem_done: "tn_session n = Some (TsRedeem caller ra ci) \<Longrightarrow> tp_step C U calm n (goto (redeem_burned C now caller ra (tn_state n)) None n)"
| redeem_undone: "tn_session n = Some (TsRedeem caller ra ci) \<Longrightarrow> tp_step C U calm n (goto (redeem_rollback caller ra ci (tn_state n)) None n)"
| fees_started: "withdraw_admin_fees_begin caller (tn_state n) = Ok (s, fees) \<Longrightarrow> tp_step C U calm n (goto s (Some (TsFees caller fees)) n)"
| fees_leg_failed: "tn_session n = Some (TsFees caller fees) \<Longrightarrow> k < length fees \<Longrightarrow>
    tp_step C U calm n (n\<lparr>tn_state := withdraw_admin_fees_failed k (fees ! k) (tn_state n)\<rparr>)"
| fees_done: "tn_session n = Some (TsFees caller fees) \<Longrightarrow>
    tp_step C U calm n (goto (withdraw_admin_fees_finish now caller withdrawn (tn_state n)) None n)"
| claim_taken: "tp_claim_pending_begin (tn_state n) caller cid = (s, Ok c) \<Longrightarrow>
    tp_step C U calm n (n\<lparr>tn_state := s, tn_claiming := c # tn_claiming n\<rparr>)"
| claim_refused: "tp_claim_pending_begin (tn_state n) caller cid = (s, Err e) \<Longrightarrow> tp_step C U calm n (n\<lparr>tn_state := s\<rparr>)"
| claim_small: "tn_claiming n = xs @ c # ys \<Longrightarrow> tp_claim_pending_check (tn_state n) c fee0 = (s, Err e) \<Longrightarrow>
    tp_step C U calm n (n\<lparr>tn_state := s, tn_claiming := xs @ ys\<rparr>)"
| claim_answered: "tn_claiming n = xs @ c # ys \<Longrightarrow> tp_claim_pending_check (tn_state n) c fee0 = (s0, Ok ()) \<Longrightarrow>
    tp_claim_pending_reply (tn_state n) c reply = (s, r'') \<Longrightarrow> tp_step C U calm n (n\<lparr>tn_state := s, tn_claiming := xs @ ys\<rparr>)"
| ramp_started: "ramp_a fa fat caller now (tn_state n) = Ok s \<Longrightarrow> tp_step C U calm n (n\<lparr>tn_state := s\<rparr>)"
| ramp_stopped: "stop_ramp_a caller now (tn_state n) = Ok s \<Longrightarrow> tp_step C U calm n (n\<lparr>tn_state := s\<rparr>)"
| pause_set: "set_paused now caller flag (tn_state n) = Ok s \<Longrightarrow> tp_step C U calm n (n\<lparr>tn_state := s\<rparr>)"
| swap_fee_set: "set_swap_fee now caller bps (tn_state n) = Ok s \<Longrightarrow> tp_step C U calm n (n\<lparr>tn_state := s\<rparr>)"
| admin_fee_set: "set_admin_fee now caller bps (tn_state n) = Ok s \<Longrightarrow> tp_step C U calm n (n\<lparr>tn_state := s\<rparr>)"
| curve_set: "set_fee_curve_params now caller p (tn_state n) = Ok s \<Longrightarrow> tp_step C U calm n (n\<lparr>tn_state := s\<rparr>)"
| burner_added: "add_authorized_burn_caller now caller who (tn_state n) = Ok s \<Longrightarrow> tp_step C U calm n (n\<lparr>tn_state := s\<rparr>)"
| burner_removed: "remove_authorized_burn_caller now caller who (tn_state n) = Ok s \<Longrightarrow> tp_step C U calm n (n\<lparr>tn_state := s\<rparr>)"
| snapshot_taken: "take_vp_snapshot U now (tn_state n) = Some s \<Longrightarrow> tp_step C U calm n (n\<lparr>tn_state := s\<rparr>)"

section \<open>The ledger the block log describes\<close>

text \<open>An index of the token replays the blocks; approvals do not move tokens.\<close>

fun replay_tx :: "icrc3_transaction \<Rightarrow> (principal \<Rightarrow> int) \<Rightarrow> principal \<Rightarrow> int" where
  "replay_tx (TxMint to amount _) bal = bal(to := bal to + int amount)"
| "replay_tx (TxBurn from amount _) bal = bal(from := bal from - int amount)"
| "replay_tx (TxTransfer from to amount _ _ _ _) bal =
     (let bal1 = bal(from := bal from - int amount) in bal1(to := bal1 to + int amount))"
| "replay_tx (TxApprove _ _ _ _ _ _) bal = bal"

definition replay :: "icrc3_block list \<Rightarrow> principal \<Rightarrow> int" where
  "replay blocks = fold (\<lambda>b. replay_tx (b_tx b)) blocks (\<lambda>_. 0)"

text \<open>LP tokens taken by a redemption whose burn is not decided yet\<close>

fun redeeming :: "tp_session option \<Rightarrow> principal \<Rightarrow> nat" where
  "redeeming (Some (TsRedeem caller args _)) p = (if p = caller then ra_lp_amount args else 0)"
| "redeeming _ p = 0"

fun redeemed_lp :: "tp_session option \<Rightarrow> nat" where
  "redeemed_lp (Some (TsRedeem caller args _)) = ra_lp_amount args"
| "redeemed_lp _ = 0"

definition lp_sum :: "tp_state \<Rightarrow> nat" where
  "lp_sum s = bm_sum (\<lambda>v. v) (tp_lp_balances s)"

definition lp_exact :: "tp_node \<Rightarrow> bool" where
  "lp_exact n \<longleftrightarrow>
     (let s = tn_state n in
      lp_sum s = tp_lp_total_supply s \<and> tp_lp_total_supply s + redeemed_lp (tn_session n) \<le> u128_max
      \<and> (\<forall>p. int (lp_balance_get s p) + int (redeeming (tn_session n) p) = replay (bl_blocks (tp_log s)) p))"

definition tp_inv :: "icrc3_crypto \<Rightarrow> bool \<Rightarrow> tp_node \<Rightarrow> bool" where
  "tp_inv C calm n \<longleftrightarrow>
     log_ok C (tp_log (tn_state n)) \<and> (tp_locked (tn_state n) \<longleftrightarrow> tn_session n \<noteq> None) \<and> (calm \<longrightarrow> lp_exact n)"

end
