(* ===== verification/ThreePool_Pricing.thy ===== *)
theory ThreePool_Pricing
  imports ThreePool_Swap
begin

text \<open>
  What the prices of the three-pool promise: where nothing overflows, a swap and a single-coin withdrawal leave
  the paid coin at or above the balance the curve asks for, a deposit does not dilute the share of the
  other holders, and the fee stays within the curve.
\<close>

section \<open>The arithmetic that does not overflow\<close>

text \<open>Where the checked arithmetic returns, every arithmetic that is exact within 256 bits returns the same.\<close>

named_theorems agree \<open>agreement of the checked arithmetic with every other\<close>

lemma casts_agree: "u256_ok U \<Longrightarrow> u_as_u128 U n = u_as_u128 u256_checked n" "u256_ok U \<Longrightarrow> u_as_u64 U n = u_as_u64 u256_checked n"
  by (simp_all add: u256_ok_def u256_checked_def)

lemma u256_as_u128: "u_as_u128 u256_checked n = n mod 2 ^ 128"
  by (simp add: u256_checked_def)

lemmas [agree] = ueval_agrees y_loop_agrees

lemma normalize_balance_agrees [agree]: "u256_ok U \<Longrightarrow> normalize_balance u256_checked x m = Some r \<Longrightarrow> normalize_balance U x m = Some r"
  unfolding normalize_balance_def by (rule ueval_agrees)

lemma denormalize_balance_agrees [agree]: "u256_ok U \<Longrightarrow> denormalize_balance u256_checked x m = Some r \<Longrightarrow> denormalize_balance U x m = Some r"
  by (auto simp: denormalize_balance_def casts_agree dest: ueval_agrees simp del: ueval.simps)

lemma normalize_all_agrees [agree]: "u256_ok U \<Longrightarrow> normalize_all u256_checked x m = Some r \<Longrightarrow> normalize_all U x m = Some r"
  by (auto simp: normalize_all_def bind_eq_Some_conv normalize_balance_agrees)

lemma ssd_sum_agrees [agree]: "u256_ok U \<Longrightarrow> ssd_sum u256_checked w xs s = Some r \<Longrightarrow> ssd_sum U w xs s = Some r"
  by (induction xs arbitrary: s) (auto simp: bind_eq_Some_conv ueval_agrees Let_def simp del: ueval.simps)

lemma compute_imbalance_agrees [agree]:
  "u256_ok U \<Longrightarrow> compute_imbalance u256_checked x m = Some r \<Longrightarrow> compute_imbalance U x m = Some r"
  unfolding compute_imbalance_def bind_eq_Some_conv
  by (elim exE conjE, intro exI conjI) (auto simp: bind_eq_Some_conv casts_agree agree simp del: ueval.simps split: if_splits)

lemma d_product_agrees [agree]: "u256_ok U \<Longrightarrow> d_product u256_checked d xs p = Ok r \<Longrightarrow> d_product U d xs p = Ok r"
  by (induction xs arbitrary: p) (auto simp: and_then_Ok_iff ueval_agrees simp del: ueval.simps split: if_splits)

lemma d_loop_agrees [agree]: "u256_ok U \<Longrightarrow> d_loop n u256_checked xs a s d = Ok r \<Longrightarrow> d_loop n U xs a s d = Ok r"
  by (induction n arbitrary: d) (auto simp: and_then_Ok_iff agree simp del: ueval.simps split: if_splits)

lemma get_d_agrees [agree]: "u256_ok U \<Longrightarrow> get_d u256_checked xp a = Ok r \<Longrightarrow> get_d U xp a = Ok r"
  unfolding get_d_def and_then_Ok_iff or_trap_Ok_iff
  by (elim exE conjE, intro exI conjI) (auto simp: and_then_Ok_iff agree simp del: ueval.simps split: if_splits)

lemma y_terms_agrees [agree]: "u256_ok U \<Longrightarrow> y_terms u256_checked d xs s c = Some r \<Longrightarrow> y_terms U d xs s c = Some r"
  by (induction xs arbitrary: s c) (auto simp: bind_eq_Some_conv ueval_agrees simp del: ueval.simps)

lemma solve_y_agrees [agree]: "u256_ok U \<Longrightarrow> solve_y u256_checked xs a d = Ok r \<Longrightarrow> solve_y U xs a d = Ok r"
  by (auto simp: solve_y_def and_then_Ok_iff agree simp del: ueval.simps)

lemma get_y_agrees [agree]: "u256_ok U \<Longrightarrow> get_y u256_checked i j x xp a d = Ok r \<Longrightarrow> get_y U i j x xp a d = Ok r"
  by (auto simp: get_y_def agree split: if_splits)

lemma get_y_d_agrees [agree]: "u256_ok U \<Longrightarrow> get_y_d u256_checked j xp a d = Ok r \<Longrightarrow> get_y_d U j xp a d = Ok r"
  by (auto simp: get_y_d_def agree split: if_splits)

lemma fee_loop_agrees [agree]: "u256_ok U \<Longrightarrow> fee_loop u256_checked d0 d1 b xs = Some r \<Longrightarrow> fee_loop U d0 d1 b xs = Some r"
  by (induction xs arbitrary: r) (auto simp: bind_eq_Some_conv ideal_fee_def ueval_agrees simp del: ueval.simps)

lemma calc_swap_output_agrees:
  "u256_ok U \<Longrightarrow> calc_swap_output u256_checked i j dx bs ms a fc adm = Ok r \<Longrightarrow> calc_swap_output U i j dx bs ms a fc adm = Ok r"
  by (auto simp: calc_swap_output_def and_then_Ok_iff agree Let_def simp del: ueval.simps split: if_splits)

lemma calc_add_liquidity_agrees:
  "u256_ok U \<Longrightarrow> calc_add_liquidity u256_checked am bs ms lp a fc = Ok r \<Longrightarrow> calc_add_liquidity U am bs ms lp a fc = Ok r"
  by (auto simp: calc_add_liquidity_def and_then_Ok_iff agree casts_agree Let_def simp del: ueval.simps split: if_splits)

lemma calc_remove_one_coin_agrees:
  "u256_ok U \<Longrightarrow> calc_remove_one_coin u256_checked lp k bs ms lp_total a fc adm = Ok r \<Longrightarrow> calc_remove_one_coin U lp k bs ms lp_total a fc adm = Ok r"
  by (auto simp: calc_remove_one_coin_def and_then_Ok_iff agree Let_def simp del: ueval.simps split: if_splits)

section \<open>Evaluation\<close>

text \<open>Unfolding of the loops at a numeral, and evaluation of the first argument before the rest\<close>

lemma loops_unfold:
  assumes "0 < n"
  shows "d_loop n U xp ann s d =
     and_then (d_product U d xp d) (\<lambda>d_p.
     and_then (or_trap (ueval U (Over
         (Times (Plus (Times (Num ann) (Num s)) (Times (Num d_p) (Num 3))) (Num d))
         (Plus (Times (Minus (Num ann) (Num 1)) (Num d)) (Times (Plus (Num 3) (Num 1)) (Num d_p)))))) (\<lambda>d'.
     if abs_diff d' d \<le> 1 then Ok d' else d_loop (n - 1) U xp ann s d'))"
    and "y_loop n U b c d y =
     and_then (or_trap (ueval U (y_step b c d y))) (\<lambda>y_new. if abs_diff y_new y \<le> 1 then Ok y_new else y_loop (n - 1) U b c d y_new)"
proof -
  obtain m where n: "n = Suc m" using assms by (cases n) auto
  show "d_loop n U xp ann s d =
     and_then (d_product U d xp d) (\<lambda>d_p.
     and_then (or_trap (ueval U (Over
         (Times (Plus (Times (Num ann) (Num s)) (Times (Num d_p) (Num 3))) (Num d))
         (Plus (Times (Minus (Num ann) (Num 1)) (Num d)) (Times (Plus (Num 3) (Num 1)) (Num d_p)))))) (\<lambda>d'.
     if abs_diff d' d \<le> 1 then Ok d' else d_loop (n - 1) U xp ann s d'))" unfolding n diff_Suc_1 by (rule d_loop.simps(2))
  show "y_loop n U b c d y =
     and_then (or_trap (ueval U (y_step b c d y))) (\<lambda>y_new. if abs_diff y_new y \<le> 1 then Ok y_new else y_loop (n - 1) U b c d y_new)"
    unfolding n diff_Suc_1 by (rule y_loop.simps(2))
qed

lemma eval_first: "r = r' \<Longrightarrow> and_then r f = and_then r' f" "x = x' \<Longrightarrow> Option.bind x g = Option.bind x' g"
  by simp_all

lemma checked_eval: "u_fit u256_checked i = (if 0 \<le> i \<and> i \<le> int u256_top then Some (nat i) else None)"
  "u_as_u128 u256_checked n = n mod 2 ^ 128" "u_as_u64 u256_checked n = n mod 2 ^ 64"
  by (simp_all add: u256_checked_def)

lemmas pricing_eval = checked_eval loops_unfold calc_swap_output_def calc_add_liquidity_def calc_remove_one_coin_def normalize_all_def
  normalize_balance_def denormalize_balance_def get_d_def get_y_def get_y_d_def solve_y_def converged_def compute_imbalance_def
  compute_fee_bps_def abs_diff_def max_iterations_def u256_top_def weight_scale_def weight_target_def imb_scale_def sat_add128_def u128_max_def
  ideal_fee_def wrap_add128_def wrap128_def wrap_mul128_def wrap_sub128_def

definition sample_balances :: "u128 list" where
  "sample_balances = [100000000000, 1000000000, 1000000000]"

definition sample_muls :: "u64 list" where
  "sample_muls = [10000000000, 1000000000000, 1000000000000]"

definition sample_curve :: fee_curve_params where
  "sample_curve = \<lparr>fc_min_fee_bps = 1, fc_max_fee_bps = 99, fc_imb_saturation = 250000000\<rparr>"

lemmas sample_eval = pricing_eval sample_balances_def sample_muls_def sample_curve_def

lemma sample_swap:
  "calc_swap_output u256_checked 0 1 1000000000 sample_balances sample_muls 100 sample_curve 5000
     = Ok \<lparr>so_output_native = 9998010, so_fee_native = 999, so_fee_bps_used = 1, so_imbalance_before = 0,
         so_imbalance_after = 33328, so_is_rebalancing = False\<rparr>"
  by (simp add: sample_eval cong: eval_first)

lemma sample_deposit:
  "calc_add_liquidity u256_checked [1000000000, 0, 0] sample_balances sample_muls 300000000000 100 sample_curve
     = Ok \<lparr>al_lp_minted = 999833848, al_fees_native = [66667, 333, 333], al_fee_bps_used = 1, al_imbalance_before = 0,
         al_imbalance_after = 11037, al_is_rebalancing = False\<rparr>"
  by (simp add: sample_eval cong: eval_first)

lemma sample_one_coin:
  "calc_remove_one_coin u256_checked 1000000000 0 sample_balances sample_muls 300000000000 100 sample_curve 5000
     = Ok \<lparr>rc_amount_native = 999866820, rc_fee_native = 99993, rc_fee_bps_used = 1, rc_imbalance_before = 0,
         rc_imbalance_after = 11183, rc_is_rebalancing = False\<rparr>"
  by (simp add: sample_eval cong: eval_first)

lemma sample_length: "length sample_balances = 3"
  by (simp add: sample_balances_def)

section \<open>The curve\<close>

text \<open>The coefficients of the quadratic for one balance, without any bound on their size: with \<open>n\<close> coins of which
  all but one are \<open>known\<close>, \<open>b = \<Sum> known + D / Ann\<close> and \<open>c = D\<^sup>4 / (27 \<Prod> known Ann)\<close>, divided step by step.\<close>

definition curve_b :: "nat \<Rightarrow> nat \<Rightarrow> nat list \<Rightarrow> nat" where
  "curve_b amp d known = sum_list known + d div (amp * 3)"

definition curve_c :: "nat \<Rightarrow> nat \<Rightarrow> nat list \<Rightarrow> nat" where
  "curve_c amp d known = fold (\<lambda>x c. c * d div (x * 3)) known d * d div (amp * 3 * 3)"

definition on_curve :: "nat \<Rightarrow> nat \<Rightarrow> nat list \<Rightarrow> nat \<Rightarrow> bool" where
  "on_curve amp d known y \<longleftrightarrow> rounds_root (curve_b amp d known) (curve_c amp d known) d y"

lemma y_terms_exact:
  "y_terms u256_checked d xs s c = Some (s', c') \<Longrightarrow> s' = s + sum_list xs \<and> c' = fold (\<lambda>x c. c * d div (x * 3)) xs c"
proof (induction xs arbitrary: s c)
  case (Cons x xs)
  then show ?case by (fastforce simp: bind_eq_Some_conv ueval_checked simp del: ueval.simps)
qed simp

lemma solve_y_on_curve:
  assumes "solve_y u256_checked known amp d = Ok y"
  shows "on_curve amp d known y"
proof -
  from assms obtain ann s c0 c b where
    "ueval u256_checked (Times (Num amp) (Num 3)) = Some ann" and t: "y_terms u256_checked d known 0 d = Some (s, c0)"
    and "ueval u256_checked (Over (Times (Num c0) (Num d)) (Times (Num ann) (Num 3))) = Some c"
    and "ueval u256_checked (Plus (Num s) (Over (Num d) (Num ann))) = Some b" and y: "y_loop max_iterations u256_checked b c d d = Ok y"
    by (auto simp: solve_y_def and_then_Ok_iff simp del: ueval.simps)
  then have "b = curve_b amp d known" "c = curve_c amp d known"
    using y_terms_exact [OF t] by (auto simp: ueval_checked curve_b_def curve_c_def simp del: ueval.simps)
  with y_loop_root [OF y] show ?thesis by (simp add: on_curve_def)
qed

text \<open>The normalized balances of the coins other than \<open>j\<close>\<close>

definition others :: "usize \<Rightarrow> nat list \<Rightarrow> nat list" where
  "others j xp = map (\<lambda>k. xp ! k) (filter (\<lambda>k. k \<noteq> j) [0, 1, 2])"

definition scaled :: "u128 list \<Rightarrow> u64 list \<Rightarrow> nat list" where
  "scaled balances muls = map (\<lambda>k. balances ! k * muls ! k) [0, 1, 2]"

lemma below_3: "(k::nat) < 3 \<longleftrightarrow> k = 0 \<or> k = 1 \<or> k = 2"
  by auto

lemma length_scaled [simp]: "length (scaled balances muls) = 3"
  by (simp add: scaled_def)

lemma scaled_nth: "k < 3 \<Longrightarrow> scaled balances muls ! k = balances ! k * muls ! k"
  by (auto simp: scaled_def below_3)

lemma scaled_update: "i < 3 \<Longrightarrow> length balances = 3 \<Longrightarrow> scaled (balances[i := v]) muls = (scaled balances muls)[i := v * muls ! i]"
  by (rule nth_equalityI) (auto simp: scaled_nth nth_list_update)

lemma normalize_all_exact: "normalize_all u256_checked balances muls = Some xp \<Longrightarrow> xp = scaled balances muls"
  by (auto simp: normalize_all_def normalize_balance_def bind_eq_Some_conv ueval_checked scaled_def simp del: ueval.simps)

lemma get_y_on_curve: "get_y u256_checked i j x xp amp d = Ok y \<Longrightarrow> length xp = 3 \<Longrightarrow> on_curve amp d (others j (xp[i := x])) y"
proof -
  assume y: "get_y u256_checked i j x xp amp d = Ok y" and l: "length xp = 3"
  then have "solve_y u256_checked (map (\<lambda>k. if k = i then x else xp ! k) (filter (\<lambda>k. k \<noteq> j) [0, 1, 2])) amp d = Ok y"
    by (auto simp: get_y_def split: if_splits)
  moreover have "map (\<lambda>k. if k = i then x else xp ! k) (filter (\<lambda>k. k \<noteq> j) [0, 1, 2]) = others j (xp[i := x])"
    using l by (auto simp: others_def)
  ultimately show ?thesis using solve_y_on_curve by simp
qed

lemma get_y_d_on_curve: "get_y_d u256_checked j xp amp d = Ok y \<Longrightarrow> on_curve amp d (others j xp) y"
  using solve_y_on_curve by (auto simp: get_y_d_def others_def split: if_splits)

lemma denormalize_le:
  assumes "denormalize_balance u256_checked x m = Some v"
  shows "v * m \<le> x"
proof -
  from assms have "v = x div m mod 2 ^ 128"
    by (auto simp: denormalize_balance_def ueval_checked u256_as_u128 simp del: ueval.simps)
  then have "v \<le> x div m" by simp
  then have "v * m \<le> x div m * m" by (rule mult_le_mono1)
  then show ?thesis using div_times_less_eq_dividend [of x m] by linarith
qed

text \<open>The fee stays within the curve, and a trade that does not worsen the balance pays the minimum.\<close>

lemma compute_fee_bps_bounds: "fc_min_fee_bps p \<le> compute_fee_bps b a p" "compute_fee_bps b a p \<le> max (fc_min_fee_bps p) (fc_max_fee_bps p)"
  by (auto simp: compute_fee_bps_def Let_def)

lemma compute_fee_bps_rebalancing: "a \<le> b \<Longrightarrow> compute_fee_bps b a p = fc_min_fee_bps p"
  by (simp add: compute_fee_bps_def)

lemma swap_on_curve:
  assumes "u256_ok U" and "length balances = 3" and "calc_swap_output u256_checked i j dx balances muls amp fc adm = Ok r"
  shows "calc_swap_output U i j dx balances muls amp fc adm = Ok r
    \<and> (\<exists>d y. get_d U (scaled balances muls) amp = Ok d
        \<and> on_curve amp d (others j (scaled (balances[i := balances ! i + dx]) muls)) y
        \<and> y + (so_output_native r + so_fee_native r) * muls ! j \<le> balances ! j * muls ! j)
    \<and> so_fee_bps_used r \<in> {fc_min_fee_bps fc .. max (fc_min_fee_bps fc) (fc_max_fee_bps fc)}
    \<and> (so_imbalance_after r \<le> so_imbalance_before r \<longrightarrow> so_fee_bps_used r = fc_min_fee_bps fc)"
proof -
  from assms(3) obtain xp d n x y fee left fee_bps where
    j: "i \<noteq> j" "i < 3" "j < 3" and xp: "normalize_all u256_checked balances muls = Some xp" and d: "get_d u256_checked xp amp = Ok d"
    and n: "normalize_balance u256_checked dx (muls ! i) = Some n" and x: "ueval u256_checked (Plus (Num (xp ! i)) (Num n)) = Some x"
    and y: "get_y u256_checked i j x xp amp d = Ok y" "y \<le> xp ! j"
    and fee: "ueval u256_checked (Over (Times (Num (xp ! j - y)) (Num fee_bps)) (Num 10000)) = Some fee"
    and left: "ueval u256_checked (Minus (Num (xp ! j - y)) (Num fee)) = Some left"
    and out: "denormalize_balance u256_checked left (muls ! j) = Some (so_output_native r)"
    and fee': "denormalize_balance u256_checked fee (muls ! j) = Some (so_fee_native r)"
    and bps: "so_fee_bps_used r = compute_fee_bps (so_imbalance_before r) (so_imbalance_after r) fc"
    by (auto simp: calc_swap_output_def and_then_Ok_iff Let_def simp del: ueval.simps split: if_splits)
  have xp': "xp = scaled balances muls" using xp by (rule normalize_all_exact)
  have l: "length xp = 3" by (simp add: xp')
  have "n = dx * muls ! i" using n by (simp add: normalize_balance_def ueval_checked del: ueval.simps)
  then have "x = (balances ! i + dx) * muls ! i" using x j(2)
    by (simp add: ueval_checked xp' scaled_nth add_mult_distrib del: ueval.simps)
  then have "others j (xp[i := x]) = others j (scaled (balances[i := balances ! i + dx]) muls)"
    using j(2) assms(2) unfolding xp' by (simp add: scaled_update)
  then have curve: "on_curve amp d (others j (scaled (balances[i := balances ! i + dx]) muls)) y"
    using get_y_on_curve [OF y(1) l] by simp
  have "fee \<le> xp ! j - y" "left = xp ! j - y - fee" using left by (auto simp: ueval_checked simp del: ueval.simps)
  then have "so_output_native r * muls ! j + so_fee_native r * muls ! j \<le> xp ! j - y"
    using denormalize_le [OF out] denormalize_le [OF fee'] by linarith
  then have "y + (so_output_native r + so_fee_native r) * muls ! j \<le> xp ! j" using y(2) by (simp add: add_mult_distrib)
  moreover have "xp ! j = balances ! j * muls ! j" using j(3) by (simp add: xp' scaled_nth)
  moreover have "get_d U (scaled balances muls) amp = Ok d" using get_d_agrees [OF assms(1) d] by (simp add: xp')
  ultimately show ?thesis using curve calc_swap_output_agrees [OF assms(1,3)]
    by (auto simp: bps compute_fee_bps_bounds compute_fee_bps_rebalancing)
qed

text \<open>C27. A swap of the three-pool in which nothing overflows leaves the coin it pays at or above the balance the
  curve asks for: after the output and the whole fee are taken, the balance of coin \<open>j\<close> is at least the root
  of the curve through the other balances, at the invariant \<open>D\<close> from before the trade. The fee rate
  is between the two ends of the curve, and it is the minimum for a trade that does not worsen the imbalance. Every
  256-bit arithmetic gives this result.\<close>

theorem swap_keeps_curve:
  assumes "u256_ok U" and "length balances = 3" and "calc_swap_output u256_checked i j dx balances muls amp fc adm = Ok r"
  shows "calc_swap_output U i j dx balances muls amp fc adm = Ok r
    \<and> (\<exists>d y. get_d U (scaled balances muls) amp = Ok d
        \<and> on_curve amp d (others j (scaled (balances[i := balances ! i + dx]) muls)) y
        \<and> y + (so_output_native r + so_fee_native r) * muls ! j \<le> balances ! j * muls ! j)
    \<and> so_fee_bps_used r \<in> {fc_min_fee_bps fc .. max (fc_min_fee_bps fc) (fc_max_fee_bps fc)}
    \<and> (so_imbalance_after r \<le> so_imbalance_before r \<longrightarrow> so_fee_bps_used r = fc_min_fee_bps fc)"
  using assms by (rule swap_on_curve)

theorem swap_keeps_curve_witness:
  "\<exists>r d y. calc_swap_output u256_wrapping 0 1 1000000000 sample_balances sample_muls 100 sample_curve 5000 = Ok r \<and> so_output_native r = 9998010
    \<and> on_curve 100 d (others 1 (scaled (sample_balances[0 := sample_balances ! 0 + 1000000000]) sample_muls)) y
    \<and> y + (so_output_native r + so_fee_native r) * sample_muls ! 1 \<le> sample_balances ! 1 * sample_muls ! 1"
  using swap_keeps_curve [OF u256_wrapping_ok sample_length sample_swap] by auto

section \<open>Deposits and withdrawals\<close>

lemma fee_loop_exact:
  "fee_loop u256_checked d0 d1 bps xs = Some fees \<Longrightarrow>
   length fees = length xs \<and> (\<forall>k < length xs. fst (fees ! k) + snd (fees ! k) = snd (xs ! k))"
proof (induction xs arbitrary: fees)
  case (Cons x xs)
  obtain o' n where x: "x = (o', n)" by (cases x)
  from Cons.prems obtain fee adj rest where r: "fee_loop u256_checked d0 d1 bps xs = Some rest" "fees = (fee, adj) # rest"
    and "ueval u256_checked (Minus (Num n) (Num fee)) = Some adj"
    by (auto simp: x bind_eq_Some_conv simp del: ueval.simps)
  then have "fee + adj = n" by (auto simp: ueval_checked simp del: ueval.simps)
  with Cons.IH [OF r(1)] show ?case by (auto simp: r(2) x nth_Cons split: nat.splits)
qed simp

definition deposited :: "u128 list \<Rightarrow> u128 list \<Rightarrow> u128 list" where
  "deposited balances amounts = map (\<lambda>k. wrap_add128 (balances ! k) (amounts ! k)) [0, 1, 2]"

lemma minted_keeps_price:
  fixes d0 d2 lp_total minted :: nat
  assumes "minted \<le> lp_total * (d2 - d0) div d0" and "d0 \<le> d2"
  shows "d0 * (lp_total + minted) \<le> d2 * lp_total"
proof -
  have "d0 * minted \<le> d0 * (lp_total * (d2 - d0) div d0)" using assms(1) by (rule mult_le_mono2)
  also have "\<dots> \<le> lp_total * (d2 - d0)" by (rule times_div_less_eq_dividend)
  finally have "d0 * lp_total + d0 * minted \<le> d0 * lp_total + lp_total * (d2 - d0)" by simp
  also have "\<dots> = d2 * lp_total" using assms(2) by (simp add: diff_mult_distrib2 mult.commute)
  finally show ?thesis by (simp add: distrib_left)
qed

text \<open>C28. A deposit into a three-pool with holders, in which nothing overflows, does not dilute them: with \<open>d0\<close> the
  invariant before and \<open>d2\<close> the invariant of the new balances less the fees, the invariant per LP token does not fall.
  The fees taken per coin, together with the balances used for \<open>d2\<close>, stay within the new balances.\<close>

theorem deposit_keeps_price:
  assumes "u256_ok U" and "calc_add_liquidity u256_checked amounts balances muls lp_total amp fc = Ok r" and "0 < lp_total"
  shows "calc_add_liquidity U amounts balances muls lp_total amp fc = Ok r
    \<and> (\<exists>d0 d2 xp. get_d U (scaled balances muls) amp = Ok d0 \<and> get_d U xp amp = Ok d2 \<and> length xp = 3
        \<and> (\<forall>k < 3. xp ! k + al_fees_native r ! k * muls ! k \<le> deposited balances amounts ! k * muls ! k)
        \<and> d0 * (lp_total + al_lp_minted r) \<le> d2 * lp_total)"
proof -
  from assms(2,3) obtain old new d0 d1 bps fees d2 m f0 f1 f2 where
    old: "normalize_all u256_checked balances muls = Some old" and d0: "get_d u256_checked old amp = Ok d0"
    and new: "normalize_all u256_checked (deposited balances amounts) muls = Some new"
    and fees: "fee_loop u256_checked d0 d1 bps (zip old new) = Some fees" and d2: "get_d u256_checked (map snd fees) amp = Ok d2"
    and m: "ueval u256_checked (Over (Times (Num lp_total) (Minus (Num d2) (Num d0))) (Num d0)) = Some m"
    and f: "denormalize_balance u256_checked (fst (fees ! 0)) (muls ! 0) = Some f0" "denormalize_balance u256_checked (fst (fees ! 1)) (muls ! 1) = Some f1"
      "denormalize_balance u256_checked (fst (fees ! 2)) (muls ! 2) = Some f2"
    and r: "al_lp_minted r = u_as_u128 u256_checked m" "al_fees_native r = [f0, f1, f2]"
    unfolding deposited_def by (auto simp: calc_add_liquidity_def and_then_Ok_iff Let_def simp del: ueval.simps split: if_splits)
  have xs: "old = scaled balances muls" "new = scaled (deposited balances amounts) muls" using old new normalize_all_exact by blast+
  have len: "length fees = 3" using fee_loop_exact [OF fees] by (simp add: xs)
  have "fst (fees ! k) + snd (fees ! k) = deposited balances amounts ! k * muls ! k" if "k < 3" for k
    using fee_loop_exact [OF fees] that by (simp add: xs scaled_nth)
  moreover have "al_fees_native r ! k * muls ! k \<le> fst (fees ! k)" if "k < 3" for k
    using that f by (auto simp: r(2) below_3 dest: denormalize_le)
  ultimately have bal: "map snd fees ! k + al_fees_native r ! k * muls ! k \<le> deposited balances amounts ! k * muls ! k" if "k < 3" for k
    using that len by (metis add.commute add_le_mono1 nth_map)
  have "m = lp_total * (d2 - d0) div d0" "d0 \<le> d2" using m by (auto simp: ueval_checked simp del: ueval.simps)
  moreover have "al_lp_minted r \<le> m" by (simp add: r(1) u256_as_u128)
  ultimately have "d0 * (lp_total + al_lp_minted r) \<le> d2 * lp_total" using minted_keeps_price by simp
  moreover have "get_d U (scaled balances muls) amp = Ok d0" "get_d U (map snd fees) amp = Ok d2"
    using get_d_agrees [OF assms(1)] d0 d2 xs(1) by auto
  ultimately show ?thesis using calc_add_liquidity_agrees [OF assms(1,2)] bal len by (intro conjI exI [of _ d0] exI [of _ d2] exI [of _ "map snd fees"]) auto
qed

theorem deposit_keeps_price_witness:
  "\<exists>r d0 d2. calc_add_liquidity u256_wrapping [1000000000, 0, 0] sample_balances sample_muls 300000000000 100 sample_curve = Ok r
    \<and> al_lp_minted r = 999833848 \<and> get_d u256_wrapping (scaled sample_balances sample_muls) 100 = Ok d0
    \<and> d0 * (300000000000 + al_lp_minted r) \<le> d2 * 300000000000"
  using deposit_keeps_price [OF u256_wrapping_ok sample_deposit] by auto

text \<open>A single-coin withdrawal of the three-pool in which nothing overflows leaves the coin at or above the
  balance the curve asks for at the reduced invariant: burning \<open>lp_burn\<close> of the supply lowers \<open>D\<close> in
  proportion, rounding in favour of the pool, and amount and fee together take no more than the
  distance to the root.\<close>

theorem one_coin_keeps_curve:
  assumes "u256_ok U" and "calc_remove_one_coin u256_checked lp_burn k balances muls lp_total amp fc adm = Ok r"
  shows "calc_remove_one_coin U lp_burn k balances muls lp_total amp fc adm = Ok r
    \<and> (\<exists>d0 y. get_d U (scaled balances muls) amp = Ok d0
        \<and> on_curve amp (d0 - lp_burn * d0 div lp_total) (others k (scaled balances muls)) y
        \<and> y + (rc_amount_native r + rc_fee_native r) * muls ! k \<le> balances ! k * muls ! k)"
proof -
  from assms(2) obtain xp d0 d1 y gross dy fee where
    k: "k < 3" and xp: "normalize_all u256_checked balances muls = Some xp" and d0: "get_d u256_checked xp amp = Ok d0"
    and d1: "ueval u256_checked (Minus (Num d0) (Over (Times (Num lp_burn) (Num d0)) (Num lp_total))) = Some d1"
    and y: "get_y_d u256_checked k xp amp d1 = Ok y" and gross: "ueval u256_checked (Minus (Num (xp ! k)) (Num y)) = Some gross"
    and fee: "ueval u256_checked (Minus (Num gross) (Num dy)) = Some fee"
    and out: "denormalize_balance u256_checked dy (muls ! k) = Some (rc_amount_native r)"
    and fee': "denormalize_balance u256_checked fee (muls ! k) = Some (rc_fee_native r)"
    by (auto simp: calc_remove_one_coin_def and_then_Ok_iff Let_def simp del: ueval.simps split: if_splits)
  have xp': "xp = scaled balances muls" using xp by (rule normalize_all_exact)
  have "d1 = d0 - lp_burn * d0 div lp_total" using d1 by (auto simp: ueval_checked simp del: ueval.simps)
  then have "on_curve amp (d0 - lp_burn * d0 div lp_total) (others k (scaled balances muls)) y"
    using get_y_d_on_curve [OF y] by (simp add: xp')
  moreover have "y \<le> xp ! k" "gross = xp ! k - y" "dy \<le> gross" "fee = gross - dy" using gross fee by (auto simp: ueval_checked simp del: ueval.simps)
  then have "y + (rc_amount_native r + rc_fee_native r) * muls ! k \<le> xp ! k"
    using denormalize_le [OF out] denormalize_le [OF fee'] by (simp add: add_mult_distrib)
  moreover have "xp ! k = balances ! k * muls ! k" using k by (simp add: xp' scaled_nth)
  moreover have "get_d U (scaled balances muls) amp = Ok d0" using get_d_agrees [OF assms(1) d0] by (simp add: xp')
  ultimately show ?thesis using calc_remove_one_coin_agrees [OF assms] by auto
qed

theorem one_coin_keeps_curve_witness:
  "\<exists>r d0 y. calc_remove_one_coin u256_wrapping 1000000000 0 sample_balances sample_muls 300000000000 100 sample_curve 5000 = Ok r
    \<and> rc_amount_native r = 999866820 \<and> on_curve 100 (d0 - 1000000000 * d0 div 300000000000) (others 0 (scaled sample_balances sample_muls)) y"
  using one_coin_keeps_curve [OF u256_wrapping_ok sample_one_coin] by auto

end
