(* ===== verification/ThreePool_Ledger.thy ===== *)
theory ThreePool_Ledger
  imports ThreePool_Machine ThreePool_Pricing
begin

text \<open>
  The LP token of the three-pool under every interleaving: the block log stays a hash chain and the lock is held exactly by
  the call in flight; in the runs where no withdrawal races with a transfer, the balances sum up to the supply
  and are what a replay of the block log gives. A race breaks this: the code subtracts from a balance it checked
  before an await.
\<close>

section \<open>Balances\<close>

lemma lp_get_set [simp]: "lp_balance_get (lp_balance_set p v s) q = (if q = p then v else lp_balance_get s q)"
  by (simp add: lp_balance_get_def lp_balance_set_def)

lemma lp_sum_set: "lp_sum (lp_balance_set p v s) + lp_balance_get s p = lp_sum s + v"
  using bm_sum_id_insert [of p v "tp_lp_balances s"] bm_sum_remove [of "\<lambda>v. v" p "tp_lp_balances s"]
  by (auto simp: lp_sum_def lp_balance_set_def lp_balance_get_def bm_get_or_def split: option.splits)

lemma lp_get_le_sum: "lp_balance_get s p \<le> lp_sum s"
  by (simp add: lp_balance_get_def lp_sum_def bm_get_or_le_sum)

lemma lp_set_fields [simp]:
  "tp_lp_total_supply (lp_balance_set p v s) = tp_lp_total_supply s" "tp_log (lp_balance_set p v s) = tp_log s"
  "tp_locked (lp_balance_set p v s) = tp_locked s" "tp_balances (lp_balance_set p v s) = tp_balances s"
  "tp_admin_fees (lp_balance_set p v s) = tp_admin_fees s" "tp_config (lp_balance_set p v s) = tp_config s"
  by (simp_all add: lp_balance_set_def)

text \<open>An operation that leaves balances, supply and log alone\<close>

definition same_lp :: "tp_state \<Rightarrow> tp_state \<Rightarrow> bool" where
  "same_lp s t \<longleftrightarrow> tp_lp_balances t = tp_lp_balances s \<and> tp_lp_total_supply t = tp_lp_total_supply s \<and> tp_log t = tp_log s"

named_theorems quiet \<open>operations that leave the LP token alone\<close>

lemma claim_quiet [quiet]: "same_lp s (tp_record_pending_claim now who k l sy a r s)"
  "tp_locked (tp_record_pending_claim now who k l sy a r s) = tp_locked s"
  by (auto simp: same_lp_def tp_record_pending_claim_def tp_next_id_def insert_claim_def remove_claim_def Let_def split: list.splits)

lemma same_lp_trans: "same_lp s t \<Longrightarrow> same_lp t u \<Longrightarrow> same_lp s u"
  by (simp add: same_lp_def)

lemma same_lp_refl [simp]: "same_lp s s"
  by (simp add: same_lp_def)

lemma unlock_quiet [quiet]: "same_lp s t \<Longrightarrow> same_lp s (unlock_pool t)" "tp_locked (unlock_pool t) = False"
  by (simp_all add: same_lp_def unlock_pool_def)

lemma abort_quiet [quiet]: "same_lp s (tp_add_abort_loop now w k refunds rs s)"
proof (induction rs arbitrary: s)
  case (Cons r rs)
  show ?case unfolding tp_add_abort_loop.simps by (rule same_lp_trans [OF _ Cons.IH]) (auto simp: quiet split: option.splits)
qed simp

lemma lock_quiet: "lock_pool s = Ok t \<Longrightarrow> same_lp s t \<and> tp_locked t \<and> \<not> tp_locked s"
  by (auto simp: lock_pool_def same_lp_def split: if_splits)

lemma begins_quiet:
  "tp_swap_begin U now caller i j dx s = Ok (t, w) \<Longrightarrow> same_lp s t \<and> tp_locked t \<and> \<not> tp_locked s"
  "tp_add_begin U now caller am m s = Ok (t, aw) \<Longrightarrow> same_lp s t \<and> tp_locked t \<and> \<not> tp_locked s"
  "tp_remove_begin U now caller lp ms s = Ok (t, rw) \<Longrightarrow> same_lp s t \<and> tp_locked t \<and> \<not> tp_locked s"
  "tp_one_begin U now caller lp k s = Ok (t, ow) \<Longrightarrow> same_lp s t \<and> tp_locked t \<and> \<not> tp_locked s"
  "donate_begin k a s = Ok t \<Longrightarrow> same_lp s t \<and> tp_locked t \<and> \<not> tp_locked s"
  "receive_donation_begin caller ic k a s = Ok t \<Longrightarrow> same_lp s t \<and> tp_locked t \<and> \<not> tp_locked s"
  "withdraw_admin_fees_begin caller s = Ok (t, fees) \<Longrightarrow> same_lp s t \<and> tp_locked t \<and> \<not> tp_locked s"
  by (auto simp: tp_swap_begin_def tp_add_begin_def tp_remove_begin_def tp_one_begin_def donate_begin_def receive_donation_begin_def
      withdraw_admin_fees_begin_def and_then_Ok_iff Let_def same_lp_def lock_pool_def split: if_splits)

lemma ends_quiet:
  "tp_swap_commit U now w s = Some t \<Longrightarrow> same_lp s t \<and> \<not> tp_locked t"
  "tp_remove_finish U now rw s = Some t \<Longrightarrow> same_lp s t \<and> \<not> tp_locked t"
  "tp_one_finish U now ow s = Some t \<Longrightarrow> same_lp s t \<and> \<not> tp_locked t"
  "donate_commit U now caller k a s = Some t \<Longrightarrow> same_lp s t \<and> \<not> tp_locked t"
  "receive_donation_commit k a b s = (t, r) \<Longrightarrow> same_lp s t \<and> \<not> tp_locked t"
  "same_lp s (tp_swap_refund_failed now w rs re s) \<and> \<not> tp_locked (tp_swap_refund_failed now w rs re s)"
  "same_lp s (tp_add_abort now aw j rf s) \<and> \<not> tp_locked (tp_add_abort now aw j rf s)"
  "same_lp s (tp_one_failed now ow rs s) \<and> \<not> tp_locked (tp_one_failed now ow rs s)"
  "same_lp s (unlock_pool s) \<and> \<not> tp_locked (unlock_pool s)"
  "same_lp s (withdraw_admin_fees_finish now caller wd s) \<and> \<not> tp_locked (withdraw_admin_fees_finish now caller wd s)"
  by (auto simp: tp_swap_commit_def tp_remove_finish_def tp_one_finish_def donate_commit_def receive_donation_commit_def
      tp_swap_refund_failed_def tp_add_abort_def tp_one_failed_def withdraw_admin_fees_finish_def tp_record_admin_event_def
      record_liquidity_def unlock_pool_def same_lp_def Let_def bind_eq_Some_conv abort_quiet [unfolded same_lp_def] claim_quiet [unfolded same_lp_def]
      split: if_splits sum.splits)

lemma middles_quiet:
  "same_lp s (tp_remove_leg_failed now rw k rs s) \<and> tp_locked (tp_remove_leg_failed now rw k rs s) = tp_locked s"
  "same_lp s (withdraw_admin_fees_failed k f s) \<and> tp_locked (withdraw_admin_fees_failed k f s) = tp_locked s"
  "tp_claim_pending_begin s caller cid = (t, rc) \<Longrightarrow> same_lp s t \<and> tp_locked t = tp_locked s"
  "tp_claim_pending_check s c f' = (t, ru) \<Longrightarrow> same_lp s t \<and> tp_locked t = tp_locked s"
  "tp_claim_pending_reply s c reply = (t, ru) \<Longrightarrow> same_lp s t \<and> tp_locked t = tp_locked s"
  "ramp_a fa fat caller now s = Ok t \<Longrightarrow> same_lp s t \<and> tp_locked t = tp_locked s"
  "stop_ramp_a caller now s = Ok t \<Longrightarrow> same_lp s t \<and> tp_locked t = tp_locked s"
  "set_paused now caller b s = Ok t \<Longrightarrow> same_lp s t \<and> tp_locked t = tp_locked s"
  "set_swap_fee now caller bps s = Ok t \<Longrightarrow> same_lp s t \<and> tp_locked t = tp_locked s"
  "set_admin_fee now caller bps s = Ok t \<Longrightarrow> same_lp s t \<and> tp_locked t = tp_locked s"
  "set_fee_curve_params now caller p s = Ok t \<Longrightarrow> same_lp s t \<and> tp_locked t = tp_locked s"
  "add_authorized_burn_caller now caller who s = Ok t \<Longrightarrow> same_lp s t \<and> tp_locked t = tp_locked s"
  "remove_authorized_burn_caller now caller who s = Ok t \<Longrightarrow> same_lp s t \<and> tp_locked t = tp_locked s"
  "take_vp_snapshot U now s = Some t \<Longrightarrow> same_lp s t \<and> tp_locked t = tp_locked s"
  by (auto simp: tp_remove_leg_failed_def claim_quiet(2) claim_quiet(1) [unfolded same_lp_def] withdraw_admin_fees_failed_def tp_claim_pending_begin_def tp_claim_pending_check_def
      tp_claim_pending_reply_def insert_claim_def remove_claim_def ramp_a_def stop_ramp_a_def set_paused_def set_swap_fee_def set_admin_fee_def
      set_fee_curve_params_def add_authorized_burn_caller_def remove_authorized_burn_caller_def take_vp_snapshot_def admin_only_def
      tp_record_admin_event_def same_lp_def Let_def split: if_splits option.splits outcome.splits)

section \<open>The log of an operation\<close>

lemma replay_append [simp]: "replay (bs @ [b]) = replay_tx (b_tx b) (replay bs)"
  by (simp add: replay_def)

lemma log_block_fields [simp]:
  "bl_blocks (tp_log (tp_log_block C now tx s)) = bl_blocks (tp_log s) @ [\<lparr>b_id = length (bl_blocks (tp_log s)), b_timestamp = now, b_tx = tx\<rparr>]"
  "tp_lp_balances (tp_log_block C now tx s) = tp_lp_balances s" "tp_lp_total_supply (tp_log_block C now tx s) = tp_lp_total_supply s"
  "tp_locked (tp_log_block C now tx s) = tp_locked s" "lp_balance_get (tp_log_block C now tx s) = lp_balance_get s"
  "lp_sum (tp_log_block C now tx s) = lp_sum s"
  by (auto simp: tp_log_block_def log_block_def Let_def lp_balance_get_def lp_sum_def)

lemma log_block_ok: "log_ok C (tp_log s) \<Longrightarrow> log_ok C (tp_log (tp_log_block C now tx s))"
  by (simp add: tp_log_block_def log_ok_block)

lemma same_lp_get: "same_lp s t \<Longrightarrow> lp_balance_get t = lp_balance_get s" "same_lp s t \<Longrightarrow> lp_sum t = lp_sum s"
  by (auto simp: same_lp_def lp_balance_get_def lp_sum_def)

lemma dedup_record_quiet: "same_lp s (dedup_record now cat h b s)" "tp_locked (dedup_record now cat h b s) = tp_locked s"
  by (auto simp: dedup_record_def same_lp_def split: option.splits)

section \<open>Keeping the invariant\<close>

lemma tp_inv_quiet:
  assumes "tp_inv C calm n" and "same_lp (tn_state n) (tn_state m)" and "tp_locked (tn_state m) \<longleftrightarrow> tn_session m \<noteq> None"
    and "redeeming (tn_session m) = redeeming (tn_session n)" and "redeemed_lp (tn_session m) = redeemed_lp (tn_session n)"
  shows "tp_inv C calm m"
  using assms same_lp_get [OF assms(2)] by (simp add: tp_inv_def lp_exact_def same_lp_def Let_def)

text \<open>A transfer moves tokens between two balances whose sum is within 128 bits.\<close>

lemma move_lp_exact:
  assumes "amount \<le> lp_balance_get s from" and "lp_sum s \<le> u128_max"
  shows "lp_sum (move_lp from to amount s) = lp_sum s"
    and "int (lp_balance_get (move_lp from to amount s) p)
      = (let b = (\<lambda>q. int (lp_balance_get s q)); b1 = b(from := b from - int amount) in (b1(to := b1 to + int amount)) p)"
proof -
  let ?s1 = "lp_balance_set from (lp_balance_get s from - amount) s"
  have le: "lp_balance_get s from \<le> u128_max" using lp_get_le_sum [of s "from"] assms(2) by linarith
  have sum1: "lp_sum ?s1 + amount = lp_sum s" using lp_sum_set [of "from" "lp_balance_get s from - amount" s] assms(1) by linarith
  then have "lp_balance_get ?s1 to + amount \<le> u128_max" using lp_get_le_sum [of ?s1 to] assms(2) by linarith
  then have mv: "move_lp from to amount s = lp_balance_set to (lp_balance_get ?s1 to + amount) ?s1"
    using le assms(1) by (simp add: move_lp_def Let_def)
  show "lp_sum (move_lp from to amount s) = lp_sum s"
    unfolding mv using lp_sum_set [of to "lp_balance_get ?s1 to + amount" ?s1] sum1 by linarith
  show "int (lp_balance_get (move_lp from to amount s) p)
      = (let b = (\<lambda>q. int (lp_balance_get s q)); b1 = b(from := b from - int amount) in (b1(to := b1 to + int amount)) p)"
    unfolding mv using assms(1) by (auto simp: Let_def of_nat_diff)
qed

lemma move_lp_fields [simp]:
  "tp_lp_total_supply (move_lp a b v s) = tp_lp_total_supply s" "tp_log (move_lp a b v s) = tp_log s" "tp_locked (move_lp a b v s) = tp_locked s"
  by (simp_all add: move_lp_def Let_def)

lemma transfer_keeps:
  assumes inv: "tp_inv C calm n" and le: "amount \<le> lp_balance_get (tn_state n) from"
    and s: "s = tp_log_block C now (TxTransfer from to amount sp fs ts ss) (move_lp from to amount (tn_state n))"
  shows "tp_inv C calm (n\<lparr>tn_state := s\<rparr>)"
proof -
  have "log_ok C (tp_log s)" unfolding s using inv by (intro log_block_ok) (simp add: tp_inv_def)
  moreover have "lp_exact (n\<lparr>tn_state := s\<rparr>)" if "lp_exact n"
  proof -
    have "lp_sum (tn_state n) \<le> u128_max" using that by (simp add: lp_exact_def Let_def)
    note mv = move_lp_exact [OF le this]
    have bal: "replay (bl_blocks (tp_log (tn_state n))) = (\<lambda>p. int (lp_balance_get (tn_state n) p) + int (redeeming (tn_session n) p))"
      using that by (auto simp: lp_exact_def Let_def)
    show ?thesis using that mv(1) unfolding lp_exact_def Let_def s by (auto simp: mv(2) bal Let_def)
  qed
  ultimately show ?thesis using inv by (auto simp: tp_inv_def s)
qed

lemma sent_keeps: "tp_inv C calm n \<Longrightarrow> icrc1_transfer C now caller args (tn_state n) = Ok (s, i) \<Longrightarrow> tp_inv C calm (n\<lparr>tn_state := s\<rparr>)"
proof -
  assume inv: "tp_inv C calm n" and ok: "icrc1_transfer C now caller args (tn_state n) = Ok (s, i)"
  define t where "t = tp_log_block C now (TxTransfer caller (ac_owner (ta_to args)) (ta_amount args) None (ta_from_subaccount args)
    (ac_subaccount (ta_to args)) None) (move_lp caller (ac_owner (ta_to args)) (ta_amount args) (tn_state n))"
  have "ta_amount args \<le> lp_balance_get (tn_state n) caller" "\<exists>h b. s = dedup_record now (ta_created_at_time args) h b t"
    using ok by (auto simp: icrc1_transfer_def and_then_Ok_iff Let_def nat_to_u128_def t_def split: if_splits)
  then obtain h b where le: "ta_amount args \<le> lp_balance_get (tn_state n) caller" and s: "s = dedup_record now (ta_created_at_time args) h b t" by blast
  have "tp_inv C calm (n\<lparr>tn_state := t\<rparr>)" by (rule transfer_keeps [OF inv le]) (simp add: t_def)
  then show ?thesis by (rule tp_inv_quiet) (use inv in \<open>simp_all add: s dedup_record_quiet tp_inv_def t_def\<close>)
qed

lemma charge_quiet: "charge_allowance now caller from amount s = Ok t \<Longrightarrow> same_lp s t \<and> tp_locked t = tp_locked s"
  by (auto simp: charge_allowance_def allowance_set_def allowance_remove_def same_lp_def Let_def split: if_splits option.splits)

lemma pulled_keeps: "tp_inv C calm n \<Longrightarrow> icrc2_transfer_from C now caller args (tn_state n) = (s, r) \<Longrightarrow> tp_inv C calm (n\<lparr>tn_state := s\<rparr>)"
proof -
  assume inv: "tp_inv C calm n" and res: "icrc2_transfer_from C now caller args (tn_state n) = (s, r)"
  let ?from = "ac_owner (tf_from args)" and ?to = "ac_owner (tf_to args)"
  consider "s = tn_state n"
    | s1 where "charge_allowance now caller ?from (tf_amount args) (tn_state n) = Ok s1" "s = s1"
    | s1 h b where "charge_allowance now caller ?from (tf_amount args) (tn_state n) = Ok s1" "tf_amount args \<le> lp_balance_get s1 ?from"
        "s = dedup_record now (tf_created_at_time args) h b (tp_log_block C now (TxTransfer ?from ?to (tf_amount args) (Some caller)
          (ac_subaccount (tf_from args)) (ac_subaccount (tf_to args)) (tf_spender_subaccount args)) (move_lp ?from ?to (tf_amount args) s1))"
    using res by (auto simp: icrc2_transfer_from_def Let_def nat_to_u128_def split: if_splits outcome.splits)
  then show ?thesis
  proof cases
    case 1
    then show ?thesis using inv by simp
  next
    case 2
    then show ?thesis using charge_quiet [OF 2(1)] inv by (intro tp_inv_quiet [OF inv]) (auto simp: tp_inv_def)
  next
    case 3
    define t where "t = tp_log_block C now (TxTransfer ?from ?to (tf_amount args) (Some caller)
          (ac_subaccount (tf_from args)) (ac_subaccount (tf_to args)) (tf_spender_subaccount args)) (move_lp ?from ?to (tf_amount args) s1)"
    have "tp_inv C calm (n\<lparr>tn_state := s1\<rparr>)"
      using charge_quiet [OF 3(1)] inv by (intro tp_inv_quiet [OF inv]) (auto simp: tp_inv_def)
    from transfer_keeps [OF this, of "tf_amount args" ?from t] 3(2) have t: "tp_inv C calm (n\<lparr>tn_state := t\<rparr>)" by (simp add: t_def)
    show ?thesis by (rule tp_inv_quiet [OF t]) (use t 3(3) in \<open>simp_all add: dedup_record_quiet tp_inv_def t_def [symmetric]\<close>)
  qed
qed

lemma approved_keeps: "tp_inv C calm n \<Longrightarrow> icrc2_approve C now caller args (tn_state n) = Ok (s, i) \<Longrightarrow> tp_inv C calm (n\<lparr>tn_state := s\<rparr>)"
proof -
  assume inv: "tp_inv C calm n" and ok: "icrc2_approve C now caller args (tn_state n) = Ok (s, i)"
  then obtain t tx where s: "s = tp_log_block C now tx t" and t: "same_lp (tn_state n) t" "tp_locked t = tp_locked (tn_state n)"
    and tx: "replay_tx tx = (\<lambda>b. b)"
    by (force simp: icrc2_approve_def and_then_Ok_iff Let_def allowance_set_def same_lp_def fun_eq_iff split: if_splits)
  have "lp_balance_get t = lp_balance_get (tn_state n)" "lp_sum t = lp_sum (tn_state n)" using same_lp_get [OF t(1)] by auto
  then show ?thesis using inv t tx log_block_ok [of C "t" now tx]
    by (simp add: tp_inv_def lp_exact_def Let_def s same_lp_def)
qed

section \<open>Minting and burning\<close>

lemma credit_lp_fields [simp]: "tp_log (credit_lp p a s) = tp_log s" "tp_locked (credit_lp p a s) = tp_locked s"
  by (simp_all add: credit_lp_def Let_def)

lemma debit_lp_fields [simp]: "tp_log (debit_lp p a s) = tp_log s" "tp_locked (debit_lp p a s) = tp_locked s"
  by (simp_all add: debit_lp_def Let_def)

lemma lp_sum_supply_upd [simp]: "lp_sum (s\<lparr>tp_lp_total_supply := x\<rparr>) = lp_sum s" "lp_balance_get (s\<lparr>tp_lp_total_supply := x\<rparr>) = lp_balance_get s"
  by (simp_all add: lp_sum_def lp_balance_get_def fun_eq_iff)

lemma credit_lp_exact:
  assumes "lp_sum s = tp_lp_total_supply s" and "tp_lp_total_supply s + a \<le> u128_max"
  shows "lp_sum (credit_lp p a s) = tp_lp_total_supply s + a" "tp_lp_total_supply (credit_lp p a s) = tp_lp_total_supply s + a"
    "lp_balance_get (credit_lp p a s) q = (if q = p then lp_balance_get s p + a else lp_balance_get s q)"
proof -
  have "lp_balance_get s p + a \<le> u128_max" using lp_get_le_sum [of s p] assms by linarith
  then have c: "credit_lp p a s = (lp_balance_set p (lp_balance_get s p + a) s)\<lparr>tp_lp_total_supply := tp_lp_total_supply s + a\<rparr>"
    using assms(2) by (simp add: credit_lp_def Let_def)
  show "lp_sum (credit_lp p a s) = tp_lp_total_supply s + a" unfolding c using lp_sum_set [of p "lp_balance_get s p + a" s] assms(1) by simp
  show "tp_lp_total_supply (credit_lp p a s) = tp_lp_total_supply s + a" by (simp add: c)
  show "lp_balance_get (credit_lp p a s) q = (if q = p then lp_balance_get s p + a else lp_balance_get s q)" by (simp add: c)
qed

lemma debit_lp_exact:
  assumes "lp_sum s = tp_lp_total_supply s" and "tp_lp_total_supply s \<le> u128_max" and "a \<le> lp_balance_get s p"
  shows "lp_sum (debit_lp p a s) = tp_lp_total_supply s - a" "tp_lp_total_supply (debit_lp p a s) = tp_lp_total_supply s - a"
    "lp_balance_get (debit_lp p a s) q = (if q = p then lp_balance_get s p - a else lp_balance_get s q)" "a \<le> tp_lp_total_supply s"
proof -
  show le: "a \<le> tp_lp_total_supply s" using lp_get_le_sum [of s p] assms by linarith
  have "lp_balance_get s p \<le> u128_max" using lp_get_le_sum [of s p] assms by linarith
  then have d: "debit_lp p a s = (lp_balance_set p (lp_balance_get s p - a) s)\<lparr>tp_lp_total_supply := tp_lp_total_supply s - a\<rparr>"
    using assms(2,3) le by (simp add: debit_lp_def Let_def)
  show "lp_sum (debit_lp p a s) = tp_lp_total_supply s - a" unfolding d using lp_sum_set [of p "lp_balance_get s p - a" s] assms(1,3) by simp
  show "tp_lp_total_supply (debit_lp p a s) = tp_lp_total_supply s - a" by (simp add: d)
  show "lp_balance_get (debit_lp p a s) q = (if q = p then lp_balance_get s p - a else lp_balance_get s q)" by (simp add: d)
qed

text \<open>A burn that is logged with the deduction, and a mint that is logged with the credit\<close>

lemma burn_keeps:
  assumes inv: "tp_inv C calm n" and held: "calm \<longrightarrow> a \<le> lp_balance_get (tn_state n) p" and none: "redeeming (tn_session n) = (\<lambda>_. 0)" "redeemed_lp (tn_session n) = 0"
    and t: "same_lp (debit_lp p a (tn_state n)) t" "tp_locked t = tp_locked (tn_state n)"
    and m: "tn_state m = tp_log_block C now (TxBurn p a su) t" "tn_session m \<noteq> None \<longleftrightarrow> tn_session n \<noteq> None"
      "redeeming (tn_session m) = (\<lambda>_. 0)" "redeemed_lp (tn_session m) = 0"
  shows "tp_inv C calm m"
proof -
  have log: "tp_log t = tp_log (tn_state n)" using t(1) by (simp add: same_lp_def)
  have "lp_exact m" if calm
  proof -
    from that inv held have ex: "lp_exact n" and le: "a \<le> lp_balance_get (tn_state n) p" by (auto simp: tp_inv_def)
    then have sums: "lp_sum (tn_state n) = tp_lp_total_supply (tn_state n)" "tp_lp_total_supply (tn_state n) \<le> u128_max"
      by (auto simp: lp_exact_def Let_def)
    note d = debit_lp_exact [OF sums le]
    have bal: "replay (bl_blocks (tp_log (tn_state n))) = (\<lambda>q. int (lp_balance_get (tn_state n) q))"
      using ex none by (auto simp: lp_exact_def Let_def)
    have "tp_lp_total_supply t = tp_lp_total_supply (debit_lp p a (tn_state n))" using t(1) by (simp add: same_lp_def)
    then show ?thesis using sums le same_lp_get [OF t(1)] unfolding lp_exact_def Let_def m log_block_fields log
      by (auto simp: d bal of_nat_diff)
  qed
  moreover have "log_ok C (tp_log (tn_state m))" unfolding m(1) using inv by (intro log_block_ok) (simp add: log tp_inv_def)
  ultimately show ?thesis using inv t(2) m(1,2) by (simp add: tp_inv_def)
qed

lemma mint_keeps:
  assumes inv: "tp_inv C calm n" and room: "calm \<longrightarrow> tp_lp_total_supply (tn_state n) + a \<le> u128_max"
    and none: "redeeming (tn_session n) = (\<lambda>_. 0)" "redeemed_lp (tn_session n) = 0"
    and t: "same_lp (credit_lp p a (tn_state n)) t"
    and m: "same_lp (tp_log_block C now (TxMint p a su) t) (tn_state m)" "tp_locked (tn_state m) \<longleftrightarrow> tn_session m \<noteq> None"
      "redeeming (tn_session m) = (\<lambda>_. 0)" "redeemed_lp (tn_session m) = 0"
  shows "tp_inv C calm m"
proof -
  have log: "tp_log t = tp_log (tn_state n)" using t by (simp add: same_lp_def)
  have lm: "tp_log (tn_state m) = tp_log (tp_log_block C now (TxMint p a su) t)"
    "tp_lp_total_supply (tn_state m) = tp_lp_total_supply (credit_lp p a (tn_state n))" using m(1) t by (simp_all add: same_lp_def)
  have "lp_exact m" if calm
  proof -
    from that inv room have ex: "lp_exact n" and le: "tp_lp_total_supply (tn_state n) + a \<le> u128_max" by (auto simp: tp_inv_def)
    then have sums: "lp_sum (tn_state n) = tp_lp_total_supply (tn_state n)" by (auto simp: lp_exact_def Let_def)
    note c = credit_lp_exact [OF sums le]
    have bal: "replay (bl_blocks (tp_log (tn_state n))) = (\<lambda>q. int (lp_balance_get (tn_state n) q))"
      using ex none by (auto simp: lp_exact_def Let_def)
    show ?thesis using le same_lp_get [OF t] same_lp_get [OF m(1)] unfolding lp_exact_def Let_def lm log_block_fields log
      by (auto simp: c bal m(3,4))
  qed
  moreover have "log_ok C (tp_log (tn_state m))" unfolding lm using inv by (intro log_block_ok) (simp add: log tp_inv_def)
  ultimately show ?thesis using m(2) by (simp add: tp_inv_def)
qed

section \<open>Redemptions\<close>

lemma redeem_begin_cases:
  assumes "redeem_begin U now caller args s = Ok (t, k)"
  shows "\<not> tp_locked s" "tp_locked t" "tp_log t = tp_log s" "ra_lp_amount args \<le> lp_balance_get s caller"
    "tp_lp_balances t = tp_lp_balances (lp_balance_set caller (lp_balance_get s caller - ra_lp_amount args) s)"
    "tp_lp_total_supply t = wrap_sub128 (tp_lp_total_supply s) (ra_lp_amount args)"
proof -
  from assms obtain s1 where l: "lock_pool s = Ok s1" and le: "\<not> lp_balance_get s1 caller < ra_lp_amount args"
    and t: "t = (lp_balance_set caller (lp_balance_get s1 caller - ra_lp_amount args) s1)
        \<lparr>tp_lp_total_supply := wrap_sub128 (tp_lp_total_supply s1) (ra_lp_amount args), tp_balances := sub_at k (ra_token_amount args) (tp_balances s1)\<rparr>"
    by (auto simp: redeem_begin_def and_then_Ok_iff Let_def split: if_splits)
  then have s1: "s1 = s\<lparr>tp_locked := True\<rparr>" "\<not> tp_locked s" by (auto simp: lock_pool_def split: if_splits)
  have "lp_balance_get s1 caller = lp_balance_get s caller" by (simp add: s1 lp_balance_get_def)
  then show "\<not> tp_locked s" "tp_locked t" "tp_log t = tp_log s" "ra_lp_amount args \<le> lp_balance_get s caller"
    "tp_lp_balances t = tp_lp_balances (lp_balance_set caller (lp_balance_get s caller - ra_lp_amount args) s)"
    "tp_lp_total_supply t = wrap_sub128 (tp_lp_total_supply s) (ra_lp_amount args)"
    using s1 le t by (simp_all add: lp_balance_set_def)
qed

lemma redeem_started_keeps:
  assumes inv: "tp_inv C calm n" and ok: "redeem_begin U now caller args (tn_state n) = Ok (s, k)"
  shows "tp_inv C calm (goto s (Some (TsRedeem caller args k)) n)"
proof -
  note b = redeem_begin_cases [OF ok]
  have free: "tn_session n = None" using inv b(1) by (simp add: tp_inv_def)
  have "lp_exact (goto s (Some (TsRedeem caller args k)) n)" if calm
  proof -
    from that inv have ex: "lp_exact n" by (simp add: tp_inv_def)
    then have sums: "lp_sum (tn_state n) = tp_lp_total_supply (tn_state n)" "tp_lp_total_supply (tn_state n) \<le> u128_max"
      by (auto simp: lp_exact_def Let_def)
    note d = debit_lp_exact [OF sums b(4)]
    have deb: "debit_lp caller (ra_lp_amount args) (tn_state n)
        = (lp_balance_set caller (lp_balance_get (tn_state n) caller - ra_lp_amount args) (tn_state n))\<lparr>tp_lp_total_supply := tp_lp_total_supply (tn_state n) - ra_lp_amount args\<rparr>"
      using b(4) d(4) sums lp_get_le_sum [of "tn_state n" caller] by (simp add: debit_lp_def Let_def)
    have "same_lp (debit_lp caller (ra_lp_amount args) (tn_state n)) s" unfolding deb using b d(4) sums by (simp add: same_lp_def)
    from same_lp_get [OF this] this show ?thesis using ex sums d b(4) free
      by (auto simp: lp_exact_def Let_def same_lp_def of_nat_diff)
  qed
  then show ?thesis using inv b by (simp add: tp_inv_def)
qed

lemma redeem_done_keeps:
  assumes "tp_inv C calm n" and "tn_session n = Some (TsRedeem caller args k)"
  shows "tp_inv C calm (goto (redeem_burned C now caller args (tn_state n)) None n)"
proof -
  let ?t = "tp_log_block C now (TxBurn caller (ra_lp_amount args) None) (tn_state n)"
  have u: "same_lp ?t (unlock_pool ?t)" by (simp add: unlock_quiet)
  have "lp_exact (goto (unlock_pool ?t) None n)" if ex: "lp_exact n"
  proof -
    have bal: "replay (bl_blocks (tp_log (tn_state n))) = (\<lambda>p. int (lp_balance_get (tn_state n) p) + int (redeeming (tn_session n) p))"
      using ex by (auto simp: lp_exact_def Let_def)
    have "tp_log (unlock_pool ?t) = tp_log ?t" "tp_lp_total_supply (unlock_pool ?t) = tp_lp_total_supply ?t" using u by (simp_all add: same_lp_def)
    then show ?thesis using ex assms(2) same_lp_get [OF u] by (auto simp: lp_exact_def Let_def bal)
  qed
  then show ?thesis using assms log_block_ok [of C "tn_state n" now "TxBurn caller (ra_lp_amount args) None"] u
    by (auto simp: tp_inv_def redeem_burned_def unlock_quiet same_lp_def)
qed

lemma redeem_undone_keeps:
  assumes "tp_inv C calm n" and "tn_session n = Some (TsRedeem caller args k)"
  shows "tp_inv C calm (goto (redeem_rollback caller args k (tn_state n)) None n)"
proof -
  let ?s = "tn_state n" and ?t = "redeem_rollback caller args k (tn_state n)"
  have u: "same_lp (credit_lp caller (ra_lp_amount args) ?s) ?t" "\<not> tp_locked ?t"
    by (simp_all add: redeem_rollback_def Let_def same_lp_def unlock_pool_def)
  have "lp_exact (goto ?t None n)" if ex: "lp_exact n"
  proof -
    have le: "lp_sum ?s = tp_lp_total_supply ?s" "tp_lp_total_supply ?s + ra_lp_amount args \<le> u128_max"
      using ex assms(2) by (auto simp: lp_exact_def Let_def)
    have bal: "replay (bl_blocks (tp_log ?s)) = (\<lambda>p. int (lp_balance_get ?s p) + int (redeeming (tn_session n) p))"
      using ex by (auto simp: lp_exact_def Let_def)
    have "tp_log ?t = tp_log ?s" "tp_lp_total_supply ?t = tp_lp_total_supply (credit_lp caller (ra_lp_amount args) ?s)" using u(1) by (simp_all add: same_lp_def)
    then show ?thesis using le assms(2) same_lp_get [OF u(1)] by (auto simp: lp_exact_def Let_def credit_lp_exact [OF le] bal)
  qed
  moreover have "tp_log ?t = tp_log ?s" using u(1) by (simp add: same_lp_def)
  ultimately show ?thesis using assms u(2) by (auto simp: tp_inv_def)
qed

section \<open>Every reachable state\<close>

lemma tp_inv_begin:
  assumes "tp_inv C calm n" and "same_lp (tn_state n) s \<and> tp_locked s \<and> \<not> tp_locked (tn_state n)" and "redeeming (Some t) = (\<lambda>_. 0)" "redeemed_lp (Some t) = 0"
  shows "tp_inv C calm (goto s (Some t) n)"
  by (rule tp_inv_quiet [OF assms(1)]) (use assms in \<open>auto simp: tp_inv_def fun_eq_iff\<close>)

lemma tp_inv_end:
  assumes "tp_inv C calm n" and "same_lp (tn_state n) s \<and> \<not> tp_locked s" and "redeeming (tn_session n) = (\<lambda>_. 0)" "redeemed_lp (tn_session n) = 0"
  shows "tp_inv C calm (goto s None n)"
  by (rule tp_inv_quiet [OF assms(1)]) (use assms in \<open>auto simp: fun_eq_iff\<close>)

lemma tp_inv_middle:
  assumes "tp_inv C calm n" and "same_lp (tn_state n) s \<and> tp_locked s = tp_locked (tn_state n)"
  shows "tp_inv C calm (n\<lparr>tn_state := s\<rparr>)" and "tp_inv C calm (n\<lparr>tn_state := s, tn_claiming := cs\<rparr>)"
  by (rule tp_inv_quiet [OF assms(1)]; use assms in \<open>auto simp: tp_inv_def\<close>)+

lemma add_done_keeps:
  assumes inv: "tp_inv C calm n" and ses: "tn_session n = Some (TsAdd w)" and ok: "tp_add_commit C U now w (tn_state n) = Some s"
    and room: "calm \<longrightarrow> tp_lp_total_supply (tn_state n) + al_lp_minted (adp_outcome w) \<le> u128_max"
  shows "tp_inv C calm (goto s None n)"
proof -
  let ?s0 = "(tn_state n)\<lparr>tp_balances := add_at 2 (adp_amounts w ! 2) (add_at 1 (adp_amounts w ! 1) (add_at 0 (adp_amounts w ! 0) (tp_balances (tn_state n))))\<rparr>"
  define t where "t = (credit_lp (adp_caller w) (al_lp_minted (adp_outcome w)) ?s0)\<lparr>tp_is_initialized := True\<rparr>"
  have c: "same_lp (credit_lp (adp_caller w) (al_lp_minted (adp_outcome w)) (tn_state n)) t"
    by (simp add: t_def same_lp_def credit_lp_def lp_balance_set_def lp_balance_get_def Let_def)
  have s: "same_lp (tp_log_block C now (TxMint (adp_caller w) (al_lp_minted (adp_outcome w)) None) t) s \<and> \<not> tp_locked s"
    using ok by (auto simp: tp_add_commit_def Let_def t_def same_lp_def record_liquidity_def unlock_pool_def)
  show ?thesis by (rule mint_keeps [OF inv room _ _ c]) (use s ses in \<open>auto simp: fun_eq_iff\<close>)
qed

lemma remove_deducted_keeps:
  assumes inv: "tp_inv C calm n" and ses: "tn_session n = Some (TsRemove w)" and held: "calm \<longrightarrow> rmp_lp_burn w \<le> lp_balance_get (tn_state n) (rmp_caller w)"
  shows "tp_inv C calm (goto (tp_remove_deduct C now w (tn_state n)) (Some (TsRemovePaying w)) n)"
  by (rule burn_keeps [OF inv held]) (use ses in \<open>auto simp: fun_eq_iff tp_remove_deduct_def Let_def same_lp_def\<close>)

lemma one_deducted_keeps:
  assumes inv: "tp_inv C calm n" and ses: "tn_session n = Some (TsOne w)" and held: "calm \<longrightarrow> onp_lp_burn w \<le> lp_balance_get (tn_state n) (onp_caller w)"
  shows "tp_inv C calm (goto (tp_one_deduct C now w (tn_state n)) (Some (TsOnePaying w)) n)"
  by (rule burn_keeps [OF inv held]) (use ses in \<open>auto simp: fun_eq_iff tp_one_deduct_def Let_def same_lp_def\<close>)

lemma tp_inv_step: "tp_inv C calm n \<Longrightarrow> tp_step C U calm n m \<Longrightarrow> tp_inv C calm m"
proof -
  assume inv: "tp_inv C calm n" and step: "tp_step C U calm n m"
  note keeps = sent_keeps [OF inv] approved_keeps [OF inv] pulled_keeps [OF inv] add_done_keeps [OF inv] remove_deducted_keeps [OF inv]
    one_deducted_keeps [OF inv] redeem_started_keeps [OF inv] redeem_done_keeps [OF inv] redeem_undone_keeps [OF inv]
  from step show ?thesis
    by cases (simp_all only:, ((rule keeps; assumption)
      | (rule tp_inv_begin [OF inv]; (erule begins_quiet | simp add: fun_eq_iff))
      | (rule tp_inv_end [OF inv]; (rule ends_quiet, assumption | rule ends_quiet(6-) | simp add: fun_eq_iff))
      | (rule tp_inv_middle [OF inv]; (erule middles_quiet | rule middles_quiet(1,2))))+)
qed

lemma tp_inv_init: "tp_inv C calm (tp_start (init tokens a f g admin))"
  by (simp add: tp_inv_def tp_start_def init_def log_ok_empty lp_exact_def lp_sum_def lp_balance_get_def replay_def u128_max_def)

interpretation three_pool: invariant_system "tp_start (init tokens a f g admin)" "tp_step C U calm" "tp_inv C calm"
  for tokens a f g admin C U calm
  by unfold_locales (rule tp_inv_init, rule tp_inv_step)

text \<open>C7. In every state the three-pool reaches, under every interleaving of its calls, its block log is a hash chain with
  consecutive numbers and the pool lock is held exactly while a call is in flight. In the runs where no
  withdrawal races with an LP transfer and no deposit mints past 128 bits, the LP balances add up to the
  supply, and every balance is what a replay of the block log gives, up to the tokens of a
  redemption whose burn is still undecided.\<close>

theorem lp_ledger_explained:
  assumes "(tp_step C U calm)\<^sup>*\<^sup>* (tp_start (init tokens a f g admin)) n"
  shows "log_ok C (tp_log (tn_state n)) \<and> (tp_locked (tn_state n) \<longleftrightarrow> tn_session n \<noteq> None)
    \<and> (calm \<longrightarrow> bm_sum (\<lambda>v. v) (tp_lp_balances (tn_state n)) = tp_lp_total_supply (tn_state n)
        \<and> (\<forall>p. int (lp_balance_get (tn_state n) p) + int (redeeming (tn_session n) p) = replay (bl_blocks (tp_log (tn_state n))) p))"
  using three_pool.reachable_inv [OF assms] by (auto simp: tp_inv_def lp_exact_def lp_sum_def Let_def)

text \<open>A first deposit into a fresh pool\<close>

definition sample_tokens :: "token_config list" where
  "sample_tokens = map (\<lambda>k. \<lparr>tk_ledger_id = k, tk_symbol = show_nat k, tk_decimals = 8, tk_precision_mul = sample_muls ! k\<rparr>) [0, 1, 2]"

abbreviation sample_pool :: tp_state where
  "sample_pool \<equiv> init sample_tokens 100 4 5000 9"

definition sample_hashing :: icrc3_crypto where
  "sample_hashing = \<lparr>cr_sha256 = (\<lambda>bs. [length bs]), cr_principal = (\<lambda>p. [p])\<rparr>"

lemma sample_first_deposit:
  "calc_add_liquidity u256_checked sample_balances [0, 0, 0] sample_muls 0 100 default_fee_curve
     = Ok \<lparr>al_lp_minted = 300000000000, al_fees_native = [0, 0, 0], al_fee_bps_used = 0, al_imbalance_before = 0,
         al_imbalance_after = 0, al_is_rebalancing = False\<rparr>"
  by (simp add: sample_eval cong: eval_first)

lemma sample_vp: "virtual_price u256_checked sample_balances sample_muls 100 300000000000 = Ok 1000000000000000000"
  by (simp add: sample_eval virtual_price_def cong: eval_first)

lemma sample_pool_muls: "get_precision_muls sample_pool = sample_muls" "get_current_a 5 sample_pool = 100" "fee_curve_of sample_pool = default_fee_curve"
  by (simp_all add: get_precision_muls_def sample_tokens_def init_def sample_muls_def get_current_a_def get_a_def fee_curve_of_def)

lemma sample_deposit_run:
  "\<exists>n. (tp_step sample_hashing u256_checked True)\<^sup>*\<^sup>* (tp_start sample_pool) n \<and> lp_balance_get (tn_state n) 7 = 300000000000"
proof -
  let ?s = "sample_pool\<lparr>tp_locked := True\<rparr>"
  define o' where "o' = \<lparr>al_lp_minted = 300000000000, al_fees_native = [0, 0, 0], al_fee_bps_used = 0, al_imbalance_before = 0,
         al_imbalance_after = 0, al_is_rebalancing = False\<rparr>"
  define w where "w = \<lparr>adp_caller = 7, adp_amounts = sample_balances, adp_outcome = o', adp_amp = 100, adp_muls = sample_muls\<rparr>"
  have fields: "tp_is_paused sample_pool = False" "lock_pool sample_pool = Ok ?s" "tp_balances ?s = [0, 0, 0]" "tp_lp_total_supply ?s = 0"
    "get_precision_muls ?s = sample_muls" "get_current_a 5 ?s = 100" "fee_curve_of ?s = default_fee_curve"
    using sample_pool_muls by (simp_all add: init_def lock_pool_def get_precision_muls_def get_current_a_def fee_curve_of_def)
  have "tp_add_begin u256_checked 5 7 sample_balances 0 sample_pool = Ok (?s, w)"
    by (simp add: tp_add_begin_def fields sample_length sample_first_deposit w_def o'_def Let_def)
  then have 1: "tp_step sample_hashing u256_checked True (tp_start sample_pool) (goto ?s (Some (TsAdd w)) (tp_start sample_pool))"
    using add_started [of u256_checked 5 7 sample_balances 0 "tp_start sample_pool" ?s w] by (simp add: tp_start_def)
  have bal: "add_at 2 (sample_balances ! 2) (add_at (Suc 0) (sample_balances ! Suc 0) (add_at 0 (sample_balances ! 0) [0, 0, 0])) = sample_balances"
    by (simp add: add_at_def sample_balances_def u128_max_def)
  have "\<exists>s. tp_add_commit sample_hashing u256_checked 5 w ?s = Some s \<and> lp_balance_get s 7 = 300000000000"
    by (simp add: tp_add_commit_def Let_def w_def o'_def vp_or_zero_def credit_lp_def lp_balance_set_def tp_log_block_def init_def bal
        sample_vp record_liquidity_def unlock_pool_def lp_balance_get_def u128_max_def)
  then obtain s where s: "tp_add_commit sample_hashing u256_checked 5 w ?s = Some s" "lp_balance_get s 7 = 300000000000" by blast
  have room: "tp_lp_total_supply ?s + al_lp_minted (adp_outcome w) \<le> u128_max" by (simp add: w_def o'_def init_def u128_max_def)
  have "tp_step sample_hashing u256_checked True (goto ?s (Some (TsAdd w)) (tp_start sample_pool))
      (goto s None (goto ?s (Some (TsAdd w)) (tp_start sample_pool)))"
    by (rule add_done [where aw = w and now = 5]) (use s(1) room in simp_all)
  with 1 have "(tp_step sample_hashing u256_checked True)\<^sup>*\<^sup>* (tp_start sample_pool) (goto s None (goto ?s (Some (TsAdd w)) (tp_start sample_pool)))"
    by (meson rtranclp.rtrancl_into_rtrancl rtranclp.rtrancl_refl)
  then show ?thesis using s(2) by (intro exI [of _ "goto s None (goto ?s (Some (TsAdd w)) (tp_start sample_pool))"] conjI) simp_all
qed

theorem lp_ledger_explained_witness:
  "\<exists>n :: tp_node. lp_balance_get (tn_state n) 7 = 300000000000 \<and> log_ok sample_hashing (tp_log (tn_state n))
     \<and> bm_sum (\<lambda>v. v) (tp_lp_balances (tn_state n)) = tp_lp_total_supply (tn_state n)"
proof -
  obtain n where n: "(tp_step sample_hashing u256_checked True)\<^sup>*\<^sup>* (tp_start sample_pool) n" "lp_balance_get (tn_state n) 7 = 300000000000"
    using sample_deposit_run by blast
  then have "lp_balance_get (tn_state n) 7 = 300000000000 \<and> log_ok sample_hashing (tp_log (tn_state n))
     \<and> bm_sum (\<lambda>v. v) (tp_lp_balances (tn_state n)) = tp_lp_total_supply (tn_state n)"
    using lp_ledger_explained [OF n(1)] by simp
  then show ?thesis by (rule exI)
qed

section \<open>Races\<close>

text \<open>C31. A withdrawal checks the LP balance of its caller before it awaits the fees of the ledgers and subtracts
  afterwards from the balance it then finds. A caller who transfers the tokens away in between ends with almost
  \<open>2\<^sup>1\<^sup>2\<^sup>8\<close> LP tokens: the subtraction wraps.\<close>

theorem racing_withdrawal_inflates:
  assumes "tn_session n = Some (TsRemove w)" and "tp_remove_check w fee mins [0, 1, 2] = Ok ()"
    and "icrc1_transfer C now (rmp_caller w) args (tn_state n) = Ok (s, i)"
    and "lp_balance_get s (rmp_caller w) < rmp_lp_burn w" and "rmp_lp_burn w \<le> u128_max"
  shows "\<exists>m. (tp_step C U False)\<^sup>*\<^sup>* n m
    \<and> lp_balance_get (tn_state m) (rmp_caller w) = 2 ^ 128 + lp_balance_get s (rmp_caller w) - rmp_lp_burn w"
proof -
  let ?n1 = "n\<lparr>tn_state := s\<rparr>" and ?m = "goto (tp_remove_deduct C now w s) (Some (TsRemovePaying w)) n"
  have "tp_step C U False n ?n1" using assms(3) by (rule token_sent)
  moreover have "tp_step C U False ?n1 ?m" using remove_deducted [of ?n1 w fee mins False C U now] assms(1,2) by simp
  moreover have "lp_balance_get (tn_state ?m) (rmp_caller w) = wrap_sub128 (lp_balance_get s (rmp_caller w)) (rmp_lp_burn w)"
    by (simp add: tp_remove_deduct_def debit_lp_def Let_def) (simp add: lp_balance_get_def lp_balance_set_def)
  moreover have "wrap_sub128 (lp_balance_get s (rmp_caller w)) (rmp_lp_burn w) = 2 ^ 128 + lp_balance_get s (rmp_caller w) - rmp_lp_burn w"
    using assms(4,5) unfolding wrap_sub128_def wrap128_def by (subst mod_less) (auto simp: u128_max_def)
  ultimately show ?thesis by (intro exI [of _ ?m]) (auto intro: rtranclp_trans)
qed

theorem racing_withdrawal_inflates_witness:
  "\<exists>n m. lp_balance_get (tn_state n) 7 = 100 \<and> (tp_step sample_hashing u256_checked False)\<^sup>*\<^sup>* n m \<and> lp_balance_get (tn_state m) 7 = 2 ^ 128 - 100"
proof -
  let ?s0 = "sample_pool\<lparr>tp_lp_balances := bm_insert 7 100 bm_empty, tp_lp_total_supply := 100, tp_locked := True\<rparr>"
  let ?w = "\<lparr>rmp_caller = 7, rmp_lp_burn = 100, rmp_amounts = [10, 10, 10], rmp_imbalance_before = 0, rmp_amp = 100, rmp_muls = sample_muls\<rparr>"
  let ?n = "\<lparr>tn_state = ?s0, tn_session = Some (TsRemove ?w), tn_claiming = []\<rparr>"
  let ?args = "\<lparr>ta_from_subaccount = None, ta_to = \<lparr>ac_owner = 8, ac_subaccount = None\<rparr>, ta_amount = 100, ta_fee = None, ta_memo = None,
    ta_created_at_time = None\<rparr>"
  have lp: "lp_balance_get ?s0 7 = 100" by (simp add: lp_balance_get_def)
  then have "icrc1_transfer sample_hashing 5 7 ?args ?s0 = Ok (tp_log_block sample_hashing 5 (TxTransfer 7 8 100 None None None None) (move_lp 7 8 100 ?s0),
      next_block_id ?s0)"
    by (simp add: icrc1_transfer_def bad_fee_def dedup_check_def nat_to_u128_def dedup_record_def Let_def u128_max_def)
  moreover have "lp_balance_get (tp_log_block sample_hashing 5 (TxTransfer 7 8 100 None None None None) (move_lp 7 8 100 ?s0)) 7 = 0"
    using lp by (simp add: move_lp_def Let_def u128_max_def)
  ultimately have "\<exists>m. (tp_step sample_hashing u256_checked False)\<^sup>*\<^sup>* ?n m \<and> lp_balance_get (tn_state m) 7 = 2 ^ 128 + 0 - 100"
    using racing_withdrawal_inflates [of ?n ?w "\<lambda>_. 0" "[0, 0, 0]" sample_hashing 5 ?args _ _ u256_checked] by (simp add: u128_max_def)
  then obtain m where "(tp_step sample_hashing u256_checked False)\<^sup>*\<^sup>* ?n m" "lp_balance_get (tn_state m) 7 = 2 ^ 128 - 100" by auto
  then show ?thesis using lp by (intro exI [of _ ?n] exI [of _ m]) simp
qed

end
