(* ===== verification/ThreePool_Accounts.thy ===== *)
theory ThreePool_Accounts
  imports ThreePool_Ledger
begin

text \<open>
  Accounting of the three-pool across its segments: a swap books exactly what it moves and leaves the pool on its curve;
  the deduplication of LP transfers identifies a transfer by all of its fields; a failed \<^verbatim>\<open>icrc2_transfer_from\<close>
  has already spent the allowance.
\<close>

section \<open>Swaps\<close>

lemma swap_within_balance:
  assumes "calc_swap_output u256_checked i j dx balances muls amp fc adm = Ok r" and "length balances = 3"
  shows "i < 3" "j < 3" "i \<noteq> j" "so_output_native r + so_fee_native r \<le> balances ! j"
proof -
  show ij: "i < 3" "j < 3" "i \<noteq> j" using assms(1) by (auto simp: calc_swap_output_def split: if_splits)
  from assms(1) obtain x where "denormalize_balance u256_checked x (muls ! j) = Some (so_output_native r)"
    by (auto simp: calc_swap_output_def and_then_Ok_iff Let_def simp del: ueval.simps split: if_splits)
  then have "0 < muls ! j" by (auto simp: denormalize_balance_def ueval_checked simp del: ueval.simps)
  moreover obtain y :: nat where "y + (so_output_native r + so_fee_native r) * muls ! j \<le> balances ! j * muls ! j"
    using swap_on_curve [OF u256_checked_ok assms(2,1)] by blast
  then have "(so_output_native r + so_fee_native r) * muls ! j \<le> balances ! j * muls ! j" by linarith
  ultimately show "so_output_native r + so_fee_native r \<le> balances ! j" by simp
qed

lemma add_at_nth: "k < length xs \<Longrightarrow> add_at k v xs ! l = (if l = k then wrap_add128 (xs ! k) v else xs ! l)"
  by (cases "l = k") (simp_all add: add_at_def)

lemma sub_at_nth: "k < length xs \<Longrightarrow> sub_at k v xs ! l = (if l = k then wrap_sub128 (xs ! k) v else xs ! l)"
  by (cases "l = k") (simp_all add: sub_at_def)

lemma length_at [simp]: "length (add_at k v xs) = length xs" "length (sub_at k v xs) = length xs"
  by (simp_all add: add_at_def sub_at_def)

lemma others_cong: "(\<And>k. k < 3 \<Longrightarrow> k \<noteq> j \<Longrightarrow> xs ! k = ys ! k) \<Longrightarrow> others j xs = others j ys"
  by (auto simp: others_def)

lemma share_le: "(b :: nat) \<le> 10000 \<Longrightarrow> a * b div 10000 \<le> a"
  using div_le_mono [of "a * b" "a * 10000" 10000] by simp

text \<open>C11. A swap of the three-pool that is priced without overflow and completes on the balances it was priced on (the lock
  keeps them) books exactly what it moved: coin \<open>i\<close> gains the input, coin \<open>j\<close> and the fees of the
  administrator together lose the output, the third coin is untouched, and the balance of coin \<open>j\<close> stays
  at or above the root of the curve through the new balances of the other coins, at the invariant \<open>D\<close> that
  \<^verbatim>\<open>get_d\<close> finds for the balances from before the trade; the part of the fee that is not the administrator's stays on top.\<close>

theorem swap_books_exact:
  assumes "u256_ok U" and "length (tp_balances s) = 3" and "length (tp_admin_fees s) = 3"
    and "tp_swap_begin u256_checked now caller i j dx s = Ok (s1, w)"
    and "tp_balances s2 = tp_balances s" and "tp_admin_fees s2 = tp_admin_fees s"
    and "tp_swap_commit U now' w s2 = Some s3" and "pcf_admin_fee_bps (tp_config s) \<le> 10000"
    and "tp_balances s ! i + dx \<le> u128_max" and "10000 * (tp_balances s ! j + tp_admin_fees s ! j) \<le> u128_max"
  shows "tp_swap_begin U now caller i j dx s = Ok (s1, w)
    \<and> tp_balances s3 ! i = tp_balances s ! i + dx
    \<and> tp_balances s3 ! j + tp_admin_fees s3 ! j + so_output_native (sp_outcome w) = tp_balances s ! j + tp_admin_fees s ! j
    \<and> (\<forall>k < 3. k \<noteq> i \<longrightarrow> k \<noteq> j \<longrightarrow> tp_balances s3 ! k = tp_balances s ! k)
    \<and> (\<exists>d y. get_d U (scaled (tp_balances s) (sp_muls w)) (sp_amp w) = Ok d
        \<and> on_curve (sp_amp w) d (others j (scaled (tp_balances s3) (sp_muls w))) y
        \<and> y + (so_fee_native (sp_outcome w) - (tp_admin_fees s3 ! j - tp_admin_fees s ! j)) * sp_muls w ! j
            \<le> tp_balances s3 ! j * sp_muls w ! j)"
proof -
  let ?b = "tp_balances s" and ?m = "sp_muls w" and ?a = "pcf_admin_fee_bps (tp_config s)"
  define out fee share where "out = so_output_native (sp_outcome w)" and "fee = so_fee_native (sp_outcome w)" and "share = fee * ?a div 10000"
  have calc: "calc_swap_output u256_checked i j dx ?b ?m (sp_amp w) (fee_curve_of s) ?a = Ok (sp_outcome w)"
    and w: "sp_i w = i" "sp_j w = j" "sp_dx w = dx" "sp_admin_fee_bps w = ?a"
    using assms(4) by (auto simp: tp_swap_begin_def and_then_Ok_iff Let_def lock_pool_def get_current_a_def get_precision_muls_def fee_curve_of_def split: if_splits)
  have beg: "tp_swap_begin U now caller i j dx s = Ok (s1, w)"
    using assms(4) by (auto simp: tp_swap_begin_def and_then_Ok_iff Let_def calc_swap_output_agrees [OF assms(1)] split: if_splits)
  note in_bal = swap_within_balance [OF calc assms(2), folded out_def fee_def]
  have "fee * ?a \<le> ?b ! j * 10000" using in_bal(4) assms(8) by (intro mult_le_mono) linarith+
  then have share: "wrap_mul128 fee ?a div 10000 = share" using assms(10) by (simp add: share_def)
  have fee: "share \<le> fee" unfolding share_def using assms(8) by (rule share_le)
  have "?b ! j + tp_admin_fees s ! j \<le> u128_max" by (rule order_trans [OF _ assms(10)]) simp
  with fee have le: "out + share \<le> ?b ! j" "?b ! j \<le> u128_max" "share + tp_admin_fees s ! j \<le> u128_max" using in_bal(4) by linarith+
  have s3: "tp_balances s3 = sub_at j (wrap_add128 out share) (add_at i dx ?b)" "tp_admin_fees s3 = add_at j share (tp_admin_fees s)"
    using assms(5-7) share by (auto simp: tp_swap_commit_def Let_def w out_def fee_def unlock_pool_def)
  have bi: "tp_balances s3 ! i = ?b ! i + dx" and bj: "tp_balances s3 ! j = ?b ! j - (out + share)" and fj: "tp_admin_fees s3 ! j = tp_admin_fees s ! j + share"
    and bk: "\<forall>k < 3. k \<noteq> i \<longrightarrow> k \<noteq> j \<longrightarrow> tp_balances s3 ! k = ?b ! k"
    using in_bal(1-3) le assms(2,3,9) by (auto simp: s3 add_at_nth sub_at_nth add.commute)
  obtain d y where d: "get_d U (scaled ?b ?m) (sp_amp w) = Ok d"
    and y: "on_curve (sp_amp w) d (others j (scaled (?b[i := ?b ! i + dx]) ?m)) y" "y + (out + fee) * ?m ! j \<le> ?b ! j * ?m ! j"
    using swap_on_curve [OF assms(1,2) calc, folded out_def fee_def] by blast
  have "others j (scaled (?b[i := ?b ! i + dx]) ?m) = others j (scaled (tp_balances s3) ?m)"
    by (rule others_cong) (use bi bk in_bal(1) assms(2) in \<open>auto simp: scaled_nth nth_list_update\<close>)
  moreover have "y + (fee - share) * ?m ! j \<le> tp_balances s3 ! j * ?m ! j"
  proof -
    have "(out + fee) * ?m ! j = (out + share) * ?m ! j + (fee - share) * ?m ! j" using fee by (simp flip: distrib_right)
    then have "y + (fee - share) * ?m ! j + (out + share) * ?m ! j \<le> ?b ! j * ?m ! j" using y(2) by linarith
    then show ?thesis by (simp add: bj diff_mult_distrib)
  qed
  ultimately show ?thesis using beg bi bj fj bk d y(1) le(1) by (auto simp: out_def fee_def)
qed

lemma sample_vp_after:
  "\<exists>v. virtual_price u256_checked [101000000000, 990001491, 1000000000] sample_muls 100 300000000000 = Ok v"
  by (simp add: sample_eval virtual_price_def cong: eval_first)

theorem swap_books_exact_witness:
  "\<exists>s1 w s3. tp_swap_begin u256_wrapping 5 7 0 1 1000000000 (sample_pool\<lparr>tp_balances := sample_balances, tp_lp_total_supply := 300000000000\<rparr>) = Ok (s1, w)
     \<and> tp_balances (s3 :: tp_state) ! 0 = 101000000000
     \<and> tp_balances s3 ! 1 + tp_admin_fees s3 ! 1 + so_output_native (sp_outcome w) = 1000000000
     \<and> (\<exists>d y. get_d u256_checked (scaled sample_balances sample_muls) 100 = Ok d \<and> on_curve 100 d (others 1 (scaled (tp_balances s3) sample_muls)) y
         \<and> y \<le> tp_balances s3 ! 1 * sample_muls ! 1)"
proof -
  let ?s = "sample_pool\<lparr>tp_balances := sample_balances, tp_lp_total_supply := 300000000000\<rparr>"
  let ?s1 = "?s\<lparr>tp_locked := True\<rparr>"
  have curve: "default_fee_curve = sample_curve" by (simp add: default_fee_curve_def sample_curve_def)
  have env: "get_precision_muls ?s1 = sample_muls" "get_current_a 5 ?s1 = 100" "fee_curve_of ?s1 = sample_curve"
    "tp_is_paused ?s = False" "lock_pool ?s = Ok ?s1" "pcf_admin_fee_bps (tp_config ?s1) = 5000" "tp_balances ?s1 = sample_balances"
    "tp_admin_fees ?s = [0, 0, 0]" "tp_lp_total_supply ?s1 = 300000000000"
    using sample_pool_muls by (simp_all add: init_def lock_pool_def get_precision_muls_def get_current_a_def fee_curve_of_def curve)
  have adm: "pcf_admin_fee_bps (tp_config sample_pool) = 5000" by (simp add: init_def)
  define w where "w = \<lparr>sp_caller = 7, sp_i = 0, sp_j = 1, sp_dx = 1000000000,
     sp_outcome = \<lparr>so_output_native = 9998010, so_fee_native = 999, so_fee_bps_used = 1, so_imbalance_before = 0,
         so_imbalance_after = 33328, so_is_rebalancing = False\<rparr>, sp_amp = 100, sp_muls = sample_muls, sp_admin_fee_bps = 5000\<rparr>"
  have b: "tp_swap_begin u256_checked 5 7 0 1 1000000000 ?s = Ok (?s1, w)"
    unfolding tp_swap_begin_def env Let_def using sample_swap by (simp add: env w_def adm)
  have bal: "sub_at 1 (wrap_add128 9998010 499) (add_at 0 1000000000 sample_balances) = [101000000000, 990001491, 1000000000]"
    by (simp add: sub_at_def add_at_def sample_balances_def u128_max_def)
  obtain s3 where s3: "tp_swap_commit u256_checked 5 w ?s1 = Some s3"
    using sample_vp_after bal by (auto simp: tp_swap_commit_def Let_def w_def vp_or_zero_def u128_max_def init_def)
  have room: "10000 * (tp_balances ?s ! 1 + tp_admin_fees ?s ! 1) \<le> u128_max" "tp_balances ?s ! 0 + 1000000000 \<le> u128_max"
    by (simp_all add: init_def sample_balances_def u128_max_def)
  have fits: "length (tp_balances ?s) = 3" "length (tp_admin_fees ?s) = 3" "pcf_admin_fee_bps (tp_config ?s) \<le> 10000"
    by (simp_all add: init_def sample_length)
  have "u256_ok u256_checked" by (rule u256_checked_ok)
  note ok = swap_books_exact [OF this fits(1,2) b _ _ s3 fits(3) room(2,1)]
  have "tp_balances s3 ! 0 = 101000000000" "tp_balances s3 ! 1 + tp_admin_fees s3 ! 1 + so_output_native (sp_outcome w) = 1000000000"
    using ok by (simp_all add: init_def sample_balances_def)
  moreover have "\<exists>d y. get_d u256_checked (scaled sample_balances sample_muls) 100 = Ok d \<and> on_curve 100 d (others 1 (scaled (tp_balances s3) sample_muls)) y
      \<and> y \<le> tp_balances s3 ! 1 * sample_muls ! 1"
    using ok by (auto simp: w_def dest: add_leD1)
  moreover have "tp_swap_begin u256_wrapping 5 7 0 1 1000000000 ?s = Ok (?s1, w)"
    unfolding tp_swap_begin_def env Let_def using calc_swap_output_agrees [OF u256_wrapping_ok sample_swap] by (simp add: env w_def adm)
  ultimately show ?thesis by blast
qed

section \<open>Deduplication\<close>

lemma to_bytes_be_value: "foldl (\<lambda>v b. 256 * v + b) 0 (to_bytes_be n) = n"
proof (induction n rule: to_bytes_be.induct)
  case (1 n)
  then show ?case by (subst to_bytes_be.simps) simp
qed

lemma to_bytes_be_inj: "to_bytes_be m = to_bytes_be n \<Longrightarrow> m = n"
  by (metis to_bytes_be_value)

text \<open>Every part of the hashed message ends where its length says.\<close>

definition part_fits :: "bytes option \<Rightarrow> bool" where
  "part_fits p \<longleftrightarrow> (case p of None \<Rightarrow> True | Some b \<Rightarrow> length b < 2 ^ 64)"

lemma hash_part_split: "hash_part p @ xs = hash_part q @ ys \<Longrightarrow> part_fits p \<Longrightarrow> part_fits q \<Longrightarrow> p = q \<and> xs = ys"
proof (cases p; cases q)
  fix a b
  assume eq: "hash_part p @ xs = hash_part q @ ys" and fits: "part_fits p" "part_fits q" and pq: "p = Some a" "q = Some b"
  from eq have "be_bytes 8 (length a) @ a @ xs = be_bytes 8 (length b) @ b @ ys" by (simp add: pq hash_part_def)
  then have "be_bytes 8 (length a) = be_bytes 8 (length b)" and rest: "a @ xs = b @ ys" by (simp_all add: append_eq_append_conv)
  then have "length a = length b" using fits be_bytes_inject [of "length a" 8 "length b"] by (simp add: part_fits_def pq)
  with rest show "p = q \<and> xs = ys" by (simp add: pq append_eq_append_conv)
qed (auto simp: hash_part_def)

lemma hash_part_inj: "hash_part p = hash_part q \<Longrightarrow> part_fits p \<Longrightarrow> part_fits q \<Longrightarrow> p = q"
  using hash_part_split [of p "[]" q "[]"] by simp

definition arg_fits :: "icrc3_crypto \<Rightarrow> principal \<Rightarrow> transfer_arg \<Rightarrow> bool" where
  "arg_fits C caller args \<longleftrightarrow> list_all part_fits [Some (cr_principal C caller), ta_from_subaccount args, Some (cr_principal C (ac_owner (ta_to args))),
     ac_subaccount (ta_to args), Some (to_bytes_be (ta_amount args)), map_option to_bytes_be (ta_fee args), ta_memo args]
     \<and> (case ta_created_at_time args of None \<Rightarrow> True | Some t \<Rightarrow> t \<le> u64_max)"

lemma preimage_inj:
  assumes "icrc1_preimage C c1 a1 = icrc1_preimage C c2 a2" and "inj (cr_principal C)" and "arg_fits C c1 a1" and "arg_fits C c2 a2"
  shows "c1 = c2 \<and> a1 = a2"
proof -
  note fits = assms(3,4) [unfolded arg_fits_def, simplified]
  have time: "part_fits (map_option (be_bytes 8) t)" for t by (simp add: part_fits_def split: option.splits)
  from assms(1) have "hash_part (Some (cr_principal C c1)) @ hash_part (ta_from_subaccount a1) @ hash_part (Some (cr_principal C (ac_owner (ta_to a1))))
      @ hash_part (ac_subaccount (ta_to a1)) @ hash_part (Some (to_bytes_be (ta_amount a1))) @ hash_part (map_option to_bytes_be (ta_fee a1))
      @ hash_part (ta_memo a1) @ hash_part (map_option (be_bytes 8) (ta_created_at_time a1)) @ []
    = hash_part (Some (cr_principal C c2)) @ hash_part (ta_from_subaccount a2) @ hash_part (Some (cr_principal C (ac_owner (ta_to a2))))
      @ hash_part (ac_subaccount (ta_to a2)) @ hash_part (Some (to_bytes_be (ta_amount a2))) @ hash_part (map_option to_bytes_be (ta_fee a2))
      @ hash_part (ta_memo a2) @ hash_part (map_option (be_bytes 8) (ta_created_at_time a2)) @ []"
    by (simp add: icrc1_preimage_def)
  then have parts: "cr_principal C c1 = cr_principal C c2" "ta_from_subaccount a1 = ta_from_subaccount a2"
    "cr_principal C (ac_owner (ta_to a1)) = cr_principal C (ac_owner (ta_to a2))" "ac_subaccount (ta_to a1) = ac_subaccount (ta_to a2)"
    "to_bytes_be (ta_amount a1) = to_bytes_be (ta_amount a2)" "map_option to_bytes_be (ta_fee a1) = map_option to_bytes_be (ta_fee a2)"
    "ta_memo a1 = ta_memo a2" "map_option (be_bytes 8) (ta_created_at_time a1) = map_option (be_bytes 8) (ta_created_at_time a2)"
    using fits time by (auto dest!: hash_part_split hash_part_inj)
  have "ta_created_at_time a1 = ta_created_at_time a2"
    using parts(8) fits by (cases "ta_created_at_time a1"; cases "ta_created_at_time a2") (auto simp: u64_max_def be_bytes_inject)
  moreover have "ta_fee a1 = ta_fee a2"
    using parts(6) by (cases "ta_fee a1"; cases "ta_fee a2") (auto dest: to_bytes_be_inj)
  ultimately show ?thesis using parts assms(2) to_bytes_be_inj [OF parts(5)]
    by (auto simp: inj_def intro!: transfer_arg.equality icrc_account.equality)
qed

text \<open>The deduplication of LP transfers confuses two transfers only if they are the same or SHA-256 collides: with the
  same key, caller, both accounts, amount, fee, memo and time agree. Byte strings longer than \<open>2\<^sup>6\<^sup>4\<close> are
  excluded, and the encoding of principals is taken to be injective.\<close>

theorem transfer_dedup_binds:
  assumes "hash_icrc1_transfer C c1 a1 = hash_icrc1_transfer C c2 a2" and "inj (cr_principal C)" and "arg_fits C c1 a1" and "arg_fits C c2 a2"
  shows "(c1 = c2 \<and> a1 = a2) \<or> (\<exists>x y. x \<noteq> y \<and> cr_sha256 C x = cr_sha256 C y)"
  using assms preimage_inj [of C c1 a1 c2 a2] unfolding hash_icrc1_transfer_def by blast

theorem transfer_dedup_binds_witness:
  "let C = \<lparr>cr_sha256 = (\<lambda>x. x), cr_principal = (\<lambda>p. [p])\<rparr>;
       a = (\<lambda>n. \<lparr>ta_from_subaccount = None, ta_to = \<lparr>ac_owner = 8, ac_subaccount = None\<rparr>, ta_amount = n, ta_fee = None, ta_memo = None,
         ta_created_at_time = Some 5\<rparr>)
   in hash_icrc1_transfer C 7 (a 100) \<noteq> hash_icrc1_transfer C 7 (a 101)"
proof -
  let ?C = "\<lparr>cr_sha256 = (\<lambda>x :: nat list. x), cr_principal = (\<lambda>p :: nat. [p])\<rparr>"
  let ?a = "\<lambda>n. \<lparr>ta_from_subaccount = None, ta_to = \<lparr>ac_owner = 8, ac_subaccount = None\<rparr>, ta_amount = n, ta_fee = None, ta_memo = None,
         ta_created_at_time = Some 5\<rparr>"
  have fits: "arg_fits ?C 7 (?a 100)" "arg_fits ?C 7 (?a 101)"
    by (simp_all add: arg_fits_def part_fits_def u64_max_def to_bytes_be.simps)
  have "inj (cr_principal ?C)" by (auto simp: inj_def)
  from transfer_dedup_binds [OF _ this fits] show ?thesis by (auto simp: Let_def)
qed

section \<open>A failed pull\<close>

text \<open>\<^verbatim>\<open>icrc2_transfer_from\<close> of the LP token charges the allowance before it checks the balance: when the owner cannot cover an
  allowed amount, the call answers \<open>InsufficientFunds\<close>, no token moves and no block is logged, but the
  allowance is already lower by the amount.\<close>

theorem failed_pull_spends_allowance:
  assumes "bad_fee (tf_fee args) = False" and "tf_created_at_time args = None" and "0 < tf_amount args" and "tf_amount args \<le> u128_max"
    and "allowance_get s (ac_owner (tf_from args)) caller = Some a" and "caller \<noteq> ac_owner (tf_from args)"
    and "tf_amount args \<le> effective_allowance now a" and "lp_balance_get s (ac_owner (tf_from args)) < tf_amount args"
  shows "\<exists>s'. icrc2_transfer_from C now caller args s = (s', Err (InsufficientFunds (lp_balance_get s (ac_owner (tf_from args)))))
    \<and> same_lp s s' \<and> (case allowance_get s' (ac_owner (tf_from args)) caller of None \<Rightarrow> 0 | Some a' \<Rightarrow> la_amount a') = la_amount a - tf_amount args"
proof -
  let ?from = "ac_owner (tf_from args)"
  obtain s' where s': "charge_allowance now caller ?from (tf_amount args) s = Ok s'"
    "(case allowance_get s' ?from caller of None \<Rightarrow> 0 | Some a' \<Rightarrow> la_amount a') = la_amount a - tf_amount args"
    using assms(5-7) by (auto simp: charge_allowance_def Let_def allowance_get_def allowance_set_def allowance_remove_def)
  have q: "same_lp s s'" using charge_quiet [OF s'(1)] by simp
  have "icrc2_transfer_from C now caller args s = (s', Err (InsufficientFunds (lp_balance_get s ?from)))"
    using assms(1-4,8) s'(1) same_lp_get(1) [OF q] by (simp add: icrc2_transfer_from_def Let_def dedup_check_def nat_to_u128_def)
  with s'(2) q show ?thesis by blast
qed

theorem failed_pull_spends_allowance_witness:
  "\<exists>s'. icrc2_transfer_from sample_hashing 5 8 \<lparr>tf_spender_subaccount = None, tf_from = \<lparr>ac_owner = 7, ac_subaccount = None\<rparr>,
       tf_to = \<lparr>ac_owner = 8, ac_subaccount = None\<rparr>, tf_amount = 60, tf_fee = None, tf_memo = None, tf_created_at_time = None\<rparr>
       (sample_pool\<lparr>tp_lp_allowances := bm_insert (7, 8) \<lparr>la_amount = 100, la_expires_at = None\<rparr> bm_empty\<rparr>) = (s', Err (InsufficientFunds 0))
     \<and> (case allowance_get s' 7 8 of None \<Rightarrow> 0 | Some a' \<Rightarrow> la_amount a') = 40"
proof -
  let ?args = "\<lparr>tf_spender_subaccount = None, tf_from = \<lparr>ac_owner = 7, ac_subaccount = None\<rparr>,
       tf_to = \<lparr>ac_owner = 8, ac_subaccount = None\<rparr>, tf_amount = 60, tf_fee = None, tf_memo = None, tf_created_at_time = None\<rparr>"
  let ?s = "sample_pool\<lparr>tp_lp_allowances := bm_insert (7, 8) \<lparr>la_amount = 100, la_expires_at = None\<rparr> bm_empty\<rparr>"
  have "lp_balance_get ?s 7 = 0" by (simp add: lp_balance_get_def init_def)
  then show ?thesis using failed_pull_spends_allowance [of ?args ?s 8 "\<lparr>la_amount = 100, la_expires_at = None\<rparr>" 5 sample_hashing]
    by (auto simp: bad_fee_def allowance_get_def effective_allowance_def u128_max_def)
qed

end
