(* ===== verification/Sp_Types.thy ===== *)
theory Sp_Types
  imports BTree_Map
begin

text \<open>
  The data of the stability pool (\<^verbatim>\<open>src/stability_pool/src/types.rs\<close>): registered stablecoins and collaterals, the
  position of a depositor, the receipts and records the pool keeps, its errors, and the conversions between the
  decimals of a token and e8s. A \<^verbatim>\<open>BTreeSet\<close> is a map to \<open>unit\<close>. Fields that are \<^verbatim>\<open>Option\<close> for upgrades are options.

  The conversions raise ten to the distance of the decimals from eight with \<^verbatim>\<open>10u64.pow\<close>, which wraps; from a distance
  of 64 on the power is zero and the quotient panics. Here that quotient is zero, and the properties that depend
  on the conversion ask for fewer than 28 decimals (\<open>sane_decimals\<close>), where nothing wraps.
\<close>

section \<open>Principals that are constants of the code\<close>

definition principal_of_bytes :: "bytes \<Rightarrow> principal" where
  "principal_of_bytes = foldl (\<lambda>n b. 256 * n + b) 0"

definition bob_collateral :: principal where
  "bob_collateral = principal_of_bytes [0, 0, 0, 0, 2, 64, 0, 89, 1, 1]"

definition xrp_collateral_principal :: principal where
  "xrp_collateral_principal = principal_of_bytes (ascii_bytes ''rumi-xrp-native'')"

definition chain_collateral_sentinel :: "u32 \<Rightarrow> principal" where
  "chain_collateral_sentinel chain_id =
     principal_of_bytes (ascii_bytes ''rumi-chain-collateral'' @ [0, 0, 0] @ rev (be_bytes 4 chain_id) @ [127])"

section \<open>Registries\<close>

record stablecoin_config =
  sc_ledger_id :: principal
  sc_symbol :: string
  sc_decimals :: u8
  sc_priority :: u8
  sc_is_active :: bool
  sc_transfer_fee :: "u64 option"
  sc_is_lp_token :: "bool option"
  sc_underlying_pool :: "principal option"

datatype sp_collateral_status = CsActive | CsPaused | CsFrozen | CsSunset | CsDeprecated

record collateral_info =
  ci_ledger_id :: principal
  ci_symbol :: string
  ci_decimals :: u8
  ci_status :: sp_collateral_status

type_synonym stablecoins = "(principal, stablecoin_config) bmap"
type_synonym amounts = "(principal, u64) bmap"
type_synonym principals = "(principal, unit) bmap"

text \<open>\<^verbatim>\<open>unwrap_or(false)\<close>, \<^verbatim>\<open>unwrap_or(0)\<close> and \<^verbatim>\<open>get_or_insert_with(BTreeMap::new)\<close>\<close>

definition opt_or :: "'a \<Rightarrow> 'a option \<Rightarrow> 'a" where
  "opt_or d x = (case x of None \<Rightarrow> d | Some v \<Rightarrow> v)"

lemma opt_or_simps [simp]: "opt_or d None = d" "opt_or d (Some v) = v"
  by (simp_all add: opt_or_def)

abbreviation is_lp :: "stablecoin_config \<Rightarrow> bool" where
  "is_lp c \<equiv> opt_or False (sc_is_lp_token c)"

section \<open>Decimals\<close>

definition pow10_u64 :: "nat \<Rightarrow> u64" where
  "pow10_u64 n = wrap64 (10 ^ n)"

definition normalize_to_e8s :: "u64 \<Rightarrow> u8 \<Rightarrow> u64" where
  "normalize_to_e8s amount decimals =
     (if decimals = 8 then amount
      else if decimals < 8 then sat_mul64 amount (pow10_u64 (8 - decimals))
      else amount div pow10_u64 (decimals - 8))"

definition normalize_from_e8s :: "u64 \<Rightarrow> u8 \<Rightarrow> u64" where
  "normalize_from_e8s amount_e8s decimals =
     (if decimals = 8 then amount_e8s
      else if decimals < 8 then amount_e8s div pow10_u64 (8 - decimals)
      else sat_mul64 amount_e8s (pow10_u64 (decimals - 8)))"

definition denormalize_from_e8s :: "u64 \<Rightarrow> u8 \<Rightarrow> u64" where
  "denormalize_from_e8s amount_e8s decimals =
     (if decimals = 8 then amount_e8s
      else if decimals < 8 then amount_e8s div pow10_u64 (8 - decimals)
      else sat_mul64 amount_e8s (pow10_u64 (decimals - 8)))"

definition lp_to_usd_e8s :: "u64 \<Rightarrow> u128 \<Rightarrow> u64" where
  "lp_to_usd_e8s lp_amount virtual_price = wrap64 (wrap128 (lp_amount * virtual_price) div 10 ^ 18)"

definition usd_e8s_to_lp :: "u64 \<Rightarrow> u128 \<Rightarrow> u64" where
  "usd_e8s_to_lp usd_e8s virtual_price =
     (if virtual_price = 0 then 0 else wrap64 (usd_e8s * 10 ^ 18 div virtual_price))"

section \<open>Positions\<close>

record native_xrp_pending_payout =
  xp_claim_id :: u64
  xp_collateral_type :: principal
  xp_vault_id :: u64
  xp_drops :: u64
  xp_payout_address :: string
  xp_destination_tag :: "u32 option"
  xp_created_at_ns :: u64

record deposit_position =
  dp_stablecoin_balances :: amounts
  dp_collateral_gains :: amounts
  dp_opted_out_collateral :: principals
  dp_opted_in_chain_collateral :: "principals option"
  dp_deposit_timestamp :: u64
  dp_total_claimed_gains :: amounts
  dp_total_interest_earned_e8s :: "u64 option"
  dp_cfx_claims :: "(principal, u128) bmap option"
  dp_native_payout_addresses :: "(principal, string) bmap option"
  dp_native_payout_destination_tags :: "(principal, u32) bmap option"
  dp_pending_native_xrp_payouts :: "(u64, native_xrp_pending_payout) bmap option"

definition deposit_position_new :: "u64 \<Rightarrow> deposit_position" where
  "deposit_position_new timestamp = \<lparr>
     dp_stablecoin_balances = bm_empty,
     dp_collateral_gains = bm_empty,
     dp_opted_out_collateral = bm_insert bob_collateral () bm_empty,
     dp_opted_in_chain_collateral = Some bm_empty,
     dp_deposit_timestamp = timestamp,
     dp_total_claimed_gains = bm_empty,
     dp_total_interest_earned_e8s = Some 0,
     dp_cfx_claims = Some bm_empty,
     dp_native_payout_addresses = Some bm_empty,
     dp_native_payout_destination_tags = Some bm_empty,
     dp_pending_native_xrp_payouts = Some bm_empty\<rparr>"

text \<open>The value of an amount of a registered token in e8s: at the virtual price for an LP token.\<close>

definition token_value_e8s :: "(principal, u128) bmap \<Rightarrow> principal \<Rightarrow> u8 \<Rightarrow> bool \<Rightarrow> u64 \<Rightarrow> u64" where
  "token_value_e8s virtual_prices ledger decimals lp amount =
     (if lp then (case bm_get virtual_prices ledger of None \<Rightarrow> 0 | Some vp \<Rightarrow> lp_to_usd_e8s amount vp)
      else normalize_to_e8s amount decimals)"

definition total_usd_value :: "stablecoins \<Rightarrow> (principal, u128) bmap \<Rightarrow> deposit_position \<Rightarrow> u64" where
  "total_usd_value registry virtual_prices pos =
     wrap64 (sum_list (map (\<lambda>(ledger, amount).
       case bm_get registry ledger of
         None \<Rightarrow> 0
       | Some c \<Rightarrow> token_value_e8s virtual_prices ledger (sc_decimals c) (is_lp c) amount)
       (bm_entries (dp_stablecoin_balances pos))))"

text \<open>The ledger of icUSD is found by its symbol.\<close>

definition find_icusd :: "stablecoins \<Rightarrow> principal option" where
  "find_icusd registry = map_option fst (find (\<lambda>(_, c). sc_symbol c = ''icUSD'') (bm_entries registry))"

definition balance_of :: "principal \<Rightarrow> deposit_position \<Rightarrow> u64" where
  "balance_of ledger pos = bm_get_or 0 (dp_stablecoin_balances pos) ledger"

definition icusd_value :: "stablecoins \<Rightarrow> deposit_position \<Rightarrow> u64" where
  "icusd_value registry pos =
     (case find_icusd registry of None \<Rightarrow> 0 | Some ledger \<Rightarrow> balance_of ledger pos)"

definition is_opted_in :: "principal \<Rightarrow> deposit_position \<Rightarrow> bool" where
  "is_opted_in collateral_type pos \<longleftrightarrow> \<not> bm_has (dp_opted_out_collateral pos) collateral_type"

definition is_opted_in_for_chain :: "principal \<Rightarrow> deposit_position \<Rightarrow> bool" where
  "is_opted_in_for_chain sentinel pos \<longleftrightarrow>
     (case dp_opted_in_chain_collateral pos of None \<Rightarrow> False | Some s \<Rightarrow> bm_has s sentinel)"

definition position_is_empty :: "deposit_position \<Rightarrow> bool" where
  "position_is_empty pos \<longleftrightarrow>
     (\<forall>v \<in> set (bm_values (dp_stablecoin_balances pos)). v = 0)
     \<and> (\<forall>v \<in> set (bm_values (dp_collateral_gains pos)). v = 0)
     \<and> (case dp_cfx_claims pos of None \<Rightarrow> True | Some m \<Rightarrow> \<forall>v \<in> set (bm_values m). v = 0)
     \<and> (case dp_pending_native_xrp_payouts pos of None \<Rightarrow> True | Some m \<Rightarrow> bm_entries m = [])"

section \<open>Records and receipts\<close>

record chain_claim_source =
  cs_claim_id :: u64
  cs_remaining_native :: u128

record pool_liquidation_record =
  lr_vault_id :: u64
  lr_timestamp :: u64
  lr_stables_consumed :: amounts
  lr_collateral_gained :: u64
  lr_collateral_type :: principal
  lr_depositors_count :: u64
  lr_collateral_price_e8s :: "u64 option"

record pending_refund =
  pr_id :: u64
  pr_user :: principal
  pr_token_ledger :: principal
  pr_amount :: u64
  pr_reason :: string
  pr_created_at :: u64

record unallocated_interest_forward_batch =
  ub_id :: u64
  ub_source_mint_blocks :: "u64 list"
  ub_token_ledger :: principal
  ub_treasury :: "principal option"
  ub_gross_amount :: u64
  ub_fee :: "u64 option"
  ub_transfer_created_at_ns :: "u64 option"
  ub_transfer_block_index :: "u64 option"
  ub_treasury_recorded :: bool
  ub_created_at_ns :: u64
  ub_last_error :: "string option"

record pool_configuration =
  pc_min_deposit_e8s :: u64
  pc_max_liquidations_per_batch :: u64
  pc_emergency_pause :: bool
  pc_authorized_admins :: "principal list"

record cfx_claim_payout_recovery_record =
  rr_chain_sentinel :: principal
  rr_op_id :: u64
  rr_claim_id :: u64
  rr_claimant :: principal
  rr_amount_wei :: u128
  rr_reason :: string
  rr_failed_at_ns :: u64
  rr_recovered_at_ns :: u64

text \<open>The target of a failed call: the text of a canister's principal, or the literal of the code.\<close>

datatype call_target = Canister principal | Named string

datatype stability_pool_error =
    InsufficientBalance principal u64 u64
  | AmountTooLow u64
  | NoPositionFound
  | InsufficientPoolBalance
  | Unauthorized
  | TokenNotAccepted principal
  | TokenNotActive principal
  | CollateralNotFound principal
  | LedgerTransferFailed string
  | InterCanisterCallFailed call_target string
  | LiquidationFailed u64 string
  | EmergencyPaused
  | SystemBusy
  | AlreadyOptedOut principal
  | AlreadyOptedIn principal
  | PayoutAddressRequired principal
  | InvalidPayoutAddress string
  | XrpClaimStillOutstanding u64
  | XrpClaimStatusCheckFailed string
  | RefundClaimNotFound

type_synonym 'a sp_result = "(stability_pool_error, 'a) outcome"

datatype pool_event_type =
    EvDeposit principal u64
  | EvWithdraw principal u64
  | EvClaimCollateral principal u64
  | EvDepositAs3USD principal u64 u64
  | EvInterestReceived principal u64
  | EvOptOutCollateral principal
  | EvOptInCollateral principal
  | EvLiquidationNotification u64
  | EvLiquidationExecuted u64 u64 u64 principal bool
  | EvStablecoinRegistered principal string
  | EvCollateralRegistered principal string
  | EvConfigurationUpdated
  | EvEmergencyPauseActivated
  | EvOperationsResumed
  | EvBalanceCorrected principal principal u64
  | EvCollateralGainCorrected principal principal u64

record pool_event =
  pe_id :: u64
  pe_timestamp :: u64
  pe_caller :: principal
  pe_event_type :: pool_event_type

section \<open>Absorption of chain vaults\<close>

type_synonym sp_account = "principal \<times> bytes option"

datatype sp_proof_ledger = IcusdBurn | ThreePoolTransfer

record sp_writedown_proof =
  wp_block_index :: u64
  wp_ledger_kind :: sp_proof_ledger
  wp_vault_id_memo :: u64

record chain_liquidatable_vault_info =
  cv_vault_id :: u64
  cv_chain_id :: u32
  cv_chain_collateral_sentinel :: principal
  cv_sp_attempted :: bool
  cv_debt_e8s :: u128
  cv_effective_debt_e8s :: u128
  cv_collateral_native :: u128
  cv_cr_e4 :: u64
  cv_liquidation_threshold_e4 :: u64
  cv_sized_repay_e8s :: u128

record chain_sp_liquidation_result =
  br_success :: bool
  br_vault_id :: u64
  br_chain_id :: u32
  br_liquidated_debt_e8s :: u128
  br_collateral_received_native :: u128
  br_claim_id :: u64
  br_custody_address :: string
  br_block_index :: u64
  br_collateral_price_e8s :: u64

record chain_sp_absorb_result =
  ab_success :: bool
  ab_vault_id :: u64
  ab_chain_id :: u32
  ab_icusd_burned_e8s :: u64
  ab_liquidated_debt_e8s :: u128
  ab_collateral_received_native :: u128
  ab_claim_id :: u64
  ab_custody_address :: string
  ab_block_index :: u64
  ab_collateral_price_e8s :: u64

datatype absorb_status = AsPrepared | AsBurned | AsBackendAccepted | AsLocalApplied | AsBackendRejected

record chain_sp_absorb_intent =
  ai_vault_id :: u64
  ai_chain_id :: u32
  ai_chain_sentinel :: principal
  ai_icusd_ledger :: principal
  ai_icusd_minting_account :: sp_account
  ai_icusd_to_burn_e8s :: u64
  ai_stables_consumed :: amounts
  ai_burn_created_at_time_ns :: u64
  ai_status :: absorb_status
  ai_burn_proof :: "sp_writedown_proof option"
  ai_backend_result :: "chain_sp_liquidation_result option"
  ai_last_error :: "string option"
  ai_created_at_ns :: u64
  ai_updated_at_ns :: u64

record chain_sp_absorb_completion =
  ac_vault_id :: u64
  ac_result :: chain_sp_absorb_result
  ac_completed_at_ns :: u64

record cfx_claim_payout_recovery =
  cr_chain_sentinel :: principal
  cr_op_id :: u64
  cr_claim_id :: u64
  cr_claimant :: principal
  cr_amount_wei :: u128
  cr_reason :: string
  cr_failed_at_ns :: u64

section \<open>Absorption of native XRP\<close>

record xrp_sp_payout_allocation =
  xa_claimant :: principal
  xa_payout_address :: string
  xa_destination_tag :: "u32 option"
  xa_drops :: u64

record xrp_sp_payout_claim =
  xc_claimant :: principal
  xc_claim_id :: u64
  xc_payout_address :: string
  xc_destination_tag :: "u32 option"
  xc_drops :: u64

record xrp_sp_absorb_result =
  xr_success :: bool
  xr_vault_id :: u64
  xr_liquidated_debt_e8s :: u64
  xr_collateral_received_drops :: u64
  xr_payout_claims :: "xrp_sp_payout_claim list"
  xr_block_index :: u64
  xr_collateral_price_e8s :: u64

record native_xrp_absorb_intent =
  xi_vault_id :: u64
  xi_collateral_type :: principal
  xi_icusd_ledger :: principal
  xi_icusd_minting_account :: sp_account
  xi_icusd_to_burn_e8s :: u64
  xi_stables_consumed :: amounts
  xi_collateral_received_drops :: u64
  xi_collateral_price_e8s :: u64
  xi_allocations :: "xrp_sp_payout_allocation list"
  xi_burn_created_at_time_ns :: u64
  xi_status :: absorb_status
  xi_burn_proof :: "sp_writedown_proof option"
  xi_backend_result :: "xrp_sp_absorb_result option"
  xi_last_error :: "string option"
  xi_created_at_ns :: u64
  xi_updated_at_ns :: u64

section \<open>Arithmetic of the conversions\<close>

definition sane_decimals :: "u8 \<Rightarrow> bool" where
  "sane_decimals d \<longleftrightarrow> d < 28"

lemma sat_mul64_le [simp]: "sat_mul64 a b \<le> u64_max"
  by (simp add: sat_mul64_def)

lemma pow10_u64_eq: "n < 20 \<Longrightarrow> pow10_u64 n = 10 ^ n"
proof -
  assume "n < 20"
  then have "(10::nat) ^ n \<le> 10 ^ 19" by (intro power_increasing) auto
  then show ?thesis by (simp add: pow10_u64_def wrap64_id u64_max_def)
qed

lemma pow10_u64_pos: "n < 20 \<Longrightarrow> 0 < pow10_u64 n"
  by (simp add: pow10_u64_eq)

text \<open>Converting a value to a token and back never gains.\<close>

lemma normalize_roundtrip:
  assumes "sane_decimals d" and "x \<le> u64_max"
  shows "normalize_to_e8s (normalize_from_e8s x d) d \<le> x"
proof -
  consider "d = 8" | "d < 8" | "8 < d" by linarith
  then show ?thesis
  proof cases
    case 2
    then have "x div pow10_u64 (8 - d) * pow10_u64 (8 - d) \<le> x" by simp
    with 2 show ?thesis by (simp add: normalize_to_e8s_def normalize_from_e8s_def sat_mul64_def min.coboundedI1)
  next
    case 3
    with assms have pos: "0 < pow10_u64 (d - 8)" by (intro pow10_u64_pos) (auto simp: sane_decimals_def)
    have "sat_mul64 x (pow10_u64 (d - 8)) div pow10_u64 (d - 8) \<le> x * pow10_u64 (d - 8) div pow10_u64 (d - 8)"
      by (intro div_le_mono) (simp add: sat_mul64_def)
    with 3 pos show ?thesis by (simp add: normalize_to_e8s_def normalize_from_e8s_def)
  qed (simp add: normalize_to_e8s_def normalize_from_e8s_def)
qed

lemma lp_roundtrip:
  assumes "x \<le> u64_max"
  shows "lp_to_usd_e8s (usd_e8s_to_lp x vp) vp \<le> x"
proof (cases "vp = 0")
  case False
  have "usd_e8s_to_lp x vp * vp \<le> x * 10 ^ 18 div vp * vp"
    using False by (simp add: usd_e8s_to_lp_def wrap64_le)
  also have "\<dots> \<le> x * 10 ^ 18" by simp
  finally have "wrap128 (usd_e8s_to_lp x vp * vp) div 10 ^ 18 \<le> x * 10 ^ 18 div 10 ^ 18"
    by (intro div_le_mono) (simp add: wrap128_def order.trans [OF mod_less_eq_dividend])
  then show ?thesis by (simp add: lp_to_usd_e8s_def order.trans [OF wrap64_le])
qed (simp add: lp_to_usd_e8s_def usd_e8s_to_lp_def wrap128_def wrap64_def)

text \<open>Dividing a total into floored shares loses but never gains.\<close>

lemma div_superadditive: "sum_list (map (\<lambda>x. f x div k) xs) \<le> sum_list (map f xs) div (k :: nat)"
proof (induction xs)
  case (Cons x xs)
  have "f x div k + sum_list (map f xs) div k \<le> (f x + sum_list (map f xs)) div k"
    using div_add1_eq [of "f x" "sum_list (map f xs)" k] by linarith
  with Cons show ?case by simp
qed simp

lemma shares_le:
  assumes "sum_list (map f xs) \<le> (t :: nat)"
  shows "sum_list (map (\<lambda>x. a * f x div t) xs) \<le> a"
proof -
  have "sum_list (map (\<lambda>x. a * f x div t) xs) \<le> sum_list (map (\<lambda>x. a * f x) xs) div t"
    by (rule div_superadditive)
  also have "\<dots> = a * sum_list (map f xs) div t" by (simp add: sum_list_const_mult)
  also have "\<dots> \<le> a * t div t" using assms by (intro div_le_mono mult_le_mono2)
  also have "\<dots> \<le> a" by (cases "t = 0") simp_all
  finally show ?thesis .
qed

text \<open>The loss is less than one unit per share.\<close>

lemma shares_loss:
  assumes "sum_list (map f xs) = (t :: nat)" and "0 < t"
  shows "a \<le> sum_list (map (\<lambda>x. a * f x div t) xs) + (length xs - 1)"
proof -
  have "a * sum_list (map f ys) \<le> t * sum_list (map (\<lambda>x. a * f x div t) ys) + length ys * (t - 1)" for ys
  proof (induction ys)
    case (Cons y ys)
    have "a * f y \<le> t * (a * f y div t) + (t - 1)"
      using mod_less_divisor [OF assms(2), of "a * f y"] mult_div_mod_eq [of t "a * f y"] by linarith
    with Cons show ?case by (simp only: list.map sum_list.Cons list.size distrib_left distrib_right)
  qed simp
  from this [of xs] have le: "a * t \<le> t * sum_list (map (\<lambda>x. a * f x div t) xs) + length xs * (t - 1)"
    using assms by simp
  let ?S = "sum_list (map (\<lambda>x. a * f x div t) xs)"
  show ?thesis
  proof (rule ccontr)
    assume "\<not> ?thesis"
    then have "?S + length xs \<le> a" by simp
    then have "t * (?S + length xs) \<le> a * t" by (metis mult.commute mult_le_mono2)
    with le have "t * length xs \<le> length xs * (t - 1)" by (simp add: algebra_simps)
    moreover have "xs \<noteq> []" using assms by auto
    ultimately show False using assms(2) by (cases t) (auto simp: algebra_simps)
  qed
qed

end
