(* ===== verification/Sp_State.thy ===== *)
theory Sp_State
  imports Sp_Types
begin

text \<open>
  The state of the stability pool and the operations on its books (\<^verbatim>\<open>src/stability_pool/src/state.rs\<close>): registries,
  deposits and withdrawals, the distribution of interest, the receipts of interest that nobody may receive,
  preferences of a depositor, refunds, corrections by an administrator, and the pool's own validation. The clock is
  the argument \<open>now\<close>. Plain additions of the code wrap (\<open>wrap64\<close>), as release builds do.
\<close>

section \<open>The state\<close>

text \<open>
  Left out are the counters of failures, which the code no longer reads, and the configuration and the last tick of the
  automatic absorber. Where an operation returns an error the model drops the state; the code has then at most turned
  an absent optional map into the empty one, which every reader treats alike.
\<close>

record sp_state =
  sps_deposits :: "(principal, deposit_position) bmap"
  sps_total_stablecoin_balances :: amounts
  sps_stablecoin_registry :: stablecoins
  sps_collateral_registry :: "(principal, collateral_info) bmap"
  sps_chain_collateral_sentinels :: "principals option"
  sps_chain_claim_sources :: "(principal, chain_claim_source list) bmap option"
  sps_pending_chain_absorbs :: "(u64, chain_sp_absorb_intent) bmap option"
  sps_completed_chain_absorbs :: "(u64, chain_sp_absorb_completion) bmap option"
  sps_pending_native_xrp_absorbs :: "(u64, native_xrp_absorb_intent) bmap option"
  sps_completed_recoveries :: "(principal \<times> u64, cfx_claim_payout_recovery_record) bmap option"
  sps_completed_recovery_floor :: "(principal, u64) bmap option"
  sps_protocol_canister_id :: principal
  sps_configuration :: pool_configuration
  sps_liquidation_history :: "pool_liquidation_record list"
  sps_in_flight_liquidations :: "(u64, unit) bmap"
  sps_total_liquidations_executed :: u64
  sps_pool_creation_timestamp :: u64
  sps_total_interest_received_e8s :: "u64 option"
  sps_cached_virtual_prices :: "(principal, u128) bmap option"
  sps_protocol_reserve_address :: "principal option"
  sps_interest_treasury :: "principal option"
  sps_unallocated_batches :: "(u64, unallocated_interest_forward_batch) bmap option"
  sps_next_unallocated_batch_id :: "u64 option"
  sps_is_initialized :: bool
  sps_pool_events :: "pool_event list option"
  sps_next_event_id :: "u64 option"
  sps_pending_refunds :: "(u64, pending_refund) bmap option"
  sps_next_pending_refund_id :: "u64 option"

definition sp_default :: sp_state where
  "sp_default = \<lparr>
     sps_deposits = bm_empty,
     sps_total_stablecoin_balances = bm_empty,
     sps_stablecoin_registry = bm_empty,
     sps_collateral_registry = bm_empty,
     sps_chain_collateral_sentinels = Some bm_empty,
     sps_chain_claim_sources = Some bm_empty,
     sps_pending_chain_absorbs = Some bm_empty,
     sps_completed_chain_absorbs = Some bm_empty,
     sps_pending_native_xrp_absorbs = Some bm_empty,
     sps_completed_recoveries = Some bm_empty,
     sps_completed_recovery_floor = Some bm_empty,
     sps_protocol_canister_id = principal_anonymous,
     sps_configuration = \<lparr>pc_min_deposit_e8s = 1000000, pc_max_liquidations_per_batch = 10,
       pc_emergency_pause = False, pc_authorized_admins = []\<rparr>,
     sps_liquidation_history = [],
     sps_in_flight_liquidations = bm_empty,
     sps_total_liquidations_executed = 0,
     sps_pool_creation_timestamp = 0,
     sps_total_interest_received_e8s = Some 0,
     sps_cached_virtual_prices = Some bm_empty,
     sps_protocol_reserve_address = None,
     sps_interest_treasury = None,
     sps_unallocated_batches = Some bm_empty,
     sps_next_unallocated_batch_id = Some 0,
     sps_is_initialized = False,
     sps_pool_events = Some [],
     sps_next_event_id = Some 0,
     sps_pending_refunds = Some bm_empty,
     sps_next_pending_refund_id = Some 0\<rparr>"

definition sp_initialize :: "principal \<Rightarrow> principal list \<Rightarrow> u64 \<Rightarrow> sp_state \<Rightarrow> sp_state" where
  "sp_initialize protocol_canister_id authorized_admins now s = s\<lparr>
     sps_protocol_canister_id := protocol_canister_id,
     sps_configuration := (sps_configuration s)\<lparr>pc_authorized_admins := authorized_admins\<rparr>,
     sps_pool_creation_timestamp := now,
     sps_is_initialized := True\<rparr>"

definition max_pool_events :: nat where
  "max_pool_events = 10000"

definition push_event :: "u64 \<Rightarrow> principal \<Rightarrow> pool_event_type \<Rightarrow> sp_state \<Rightarrow> sp_state" where
  "push_event now caller event_type s =
     (let id = opt_or 0 (sps_next_event_id s);
          events = opt_or [] (sps_pool_events s)
                   @ [\<lparr>pe_id = id, pe_timestamp = now, pe_caller = caller, pe_event_type = event_type\<rparr>]
      in s\<lparr>sps_next_event_id := Some (wrap64 (id + 1)),
           sps_pool_events := Some (drop (length events - max_pool_events) events)\<rparr>)"

definition is_admin :: "sp_state \<Rightarrow> principal \<Rightarrow> bool" where
  "is_admin s caller \<longleftrightarrow> caller \<in> set (pc_authorized_admins (sps_configuration s))"

section \<open>Registries\<close>

definition known_stablecoin_transfer_fee :: "string \<Rightarrow> u8 \<Rightarrow> u64 option" where
  "known_stablecoin_transfer_fee symbol decimals =
     (if symbol = ''icUSD'' \<and> decimals = 8 then Some 100000
      else if (symbol = ''ckUSDT'' \<or> symbol = ''ckUSDC'') \<and> decimals = 6 then Some 10000
      else if symbol = ''3USD'' then Some 0
      else None)"

definition normalize_known_stablecoin_transfer_fee :: "stablecoin_config \<Rightarrow> stablecoin_config \<times> bool" where
  "normalize_known_stablecoin_transfer_fee c =
     (case known_stablecoin_transfer_fee (sc_symbol c) (sc_decimals c) of
        None \<Rightarrow> (c, False)
      | Some known_fee \<Rightarrow>
          let corrected_fee = max (opt_or 0 (sc_transfer_fee c)) known_fee in
          if sc_transfer_fee c = Some corrected_fee then (c, False)
          else (c\<lparr>sc_transfer_fee := Some corrected_fee\<rparr>, True))"

definition register_stablecoin :: "stablecoin_config \<Rightarrow> sp_state \<Rightarrow> sp_state" where
  "register_stablecoin cfg s =
     (let c = fst (normalize_known_stablecoin_transfer_fee cfg); ledger = sc_ledger_id c;
          totals = sps_total_stablecoin_balances s
      in s\<lparr>sps_total_stablecoin_balances := (if bm_has totals ledger then totals else bm_insert ledger 0 totals),
           sps_stablecoin_registry := bm_insert ledger c (sps_stablecoin_registry s)\<rparr>)"

definition normalize_registered_stablecoin_transfer_fees :: "sp_state \<Rightarrow> sp_state \<times> nat" where
  "normalize_registered_stablecoin_transfer_fees s =
     (s\<lparr>sps_stablecoin_registry := bm_map (fst \<circ> normalize_known_stablecoin_transfer_fee) (sps_stablecoin_registry s)\<rparr>,
      length (filter (snd \<circ> normalize_known_stablecoin_transfer_fee) (bm_values (sps_stablecoin_registry s))))"

definition is_accepted_stablecoin :: "sp_state \<Rightarrow> principal \<Rightarrow> bool" where
  "is_accepted_stablecoin s ledger \<longleftrightarrow>
     (case bm_get (sps_stablecoin_registry s) ledger of None \<Rightarrow> False | Some c \<Rightarrow> sc_is_active c)"

definition virtual_prices :: "sp_state \<Rightarrow> (principal, u128) bmap" where
  "virtual_prices s = opt_or bm_empty (sps_cached_virtual_prices s)"

definition register_collateral :: "collateral_info \<Rightarrow> sp_state \<Rightarrow> sp_state" where
  "register_collateral info s = s\<lparr>sps_collateral_registry := bm_insert (ci_ledger_id info) info (sps_collateral_registry s)\<rparr>"

definition register_chain_collateral_sentinel :: "principal \<Rightarrow> sp_state \<Rightarrow> sp_state" where
  "register_chain_collateral_sentinel sentinel s =
     s\<lparr>sps_chain_collateral_sentinels :=
         Some (bm_insert sentinel () (opt_or bm_empty (sps_chain_collateral_sentinels s)))\<rparr>"

definition register_chain_collateral :: "u32 \<Rightarrow> string \<Rightarrow> u8 \<Rightarrow> sp_state \<Rightarrow> sp_state \<times> principal" where
  "register_chain_collateral chain_id symbol decimals s =
     (let sentinel = chain_collateral_sentinel chain_id in
      (register_chain_collateral_sentinel sentinel
         (register_collateral \<lparr>ci_ledger_id = sentinel, ci_symbol = symbol, ci_decimals = decimals, ci_status = CsActive\<rparr> s),
       sentinel))"

definition is_chain_collateral_sentinel :: "sp_state \<Rightarrow> principal \<Rightarrow> bool" where
  "is_chain_collateral_sentinel s collateral_type \<longleftrightarrow>
     (case sps_chain_collateral_sentinels s of None \<Rightarrow> False | Some m \<Rightarrow> bm_has m collateral_type)"

definition collateral_requires_payout_address :: "principal \<Rightarrow> bool" where
  "collateral_requires_payout_address collateral_type \<longleftrightarrow> collateral_type = xrp_collateral_principal"

definition ensure_icrc_claimable_collateral :: "principal \<Rightarrow> unit sp_result" where
  "ensure_icrc_claimable_collateral collateral_type =
     (if collateral_requires_payout_address collateral_type then Err (PayoutAddressRequired collateral_type) else Ok ())"

definition position_opted_in_for :: "sp_state \<Rightarrow> principal \<Rightarrow> deposit_position \<Rightarrow> bool" where
  "position_opted_in_for s collateral_type pos \<longleftrightarrow>
     (if collateral_requires_payout_address collateral_type
      then (case dp_native_payout_addresses pos of None \<Rightarrow> False | Some m \<Rightarrow> bm_has m collateral_type)
      else if is_chain_collateral_sentinel s collateral_type then is_opted_in_for_chain collateral_type pos
      else is_opted_in collateral_type pos)"

section \<open>Deposits and withdrawals\<close>

text \<open>\<^verbatim>\<open>*map.entry(k).or_insert(0) += x\<close>\<close>

definition credit :: "principal \<Rightarrow> u64 \<Rightarrow> amounts \<Rightarrow> amounts" where
  "credit k x m = bm_insert k (wrap64 (bm_get_or 0 m k + x)) m"

definition credit_balance :: "principal \<Rightarrow> u64 \<Rightarrow> deposit_position \<Rightarrow> deposit_position" where
  "credit_balance ledger x pos = pos\<lparr>dp_stablecoin_balances := credit ledger x (dp_stablecoin_balances pos)\<rparr>"

definition sub_total :: "principal \<Rightarrow> u64 \<Rightarrow> sp_state \<Rightarrow> sp_state" where
  "sub_total ledger x s =
     s\<lparr>sps_total_stablecoin_balances := bm_modify ledger (\<lambda>t. sat_sub t x) (sps_total_stablecoin_balances s)\<rparr>"

definition add_deposit :: "u64 \<Rightarrow> principal \<Rightarrow> principal \<Rightarrow> u64 \<Rightarrow> sp_state \<Rightarrow> sp_state" where
  "add_deposit now user token_ledger amount s =
     (let pos = (case bm_get (sps_deposits s) user of None \<Rightarrow> deposit_position_new now | Some p \<Rightarrow> p)
      in s\<lparr>sps_deposits := bm_insert user (credit_balance token_ledger amount pos) (sps_deposits s),
           sps_total_stablecoin_balances := credit token_ledger amount (sps_total_stablecoin_balances s)\<rparr>)"

definition process_withdrawal :: "principal \<Rightarrow> principal \<Rightarrow> u64 \<Rightarrow> sp_state \<Rightarrow> sp_state sp_result" where
  "process_withdrawal user token_ledger amount s =
     (case bm_get (sps_deposits s) user of
        None \<Rightarrow> Err NoPositionFound
      | Some pos \<Rightarrow>
          let balance = balance_of token_ledger pos in
          if balance < amount then Err (InsufficientBalance token_ledger amount balance)
          else if \<not> bm_has (dp_stablecoin_balances pos) token_ledger then Trap
          else
            let left = balance - amount;
                balances = (if left = 0 then bm_remove token_ledger (dp_stablecoin_balances pos)
                            else bm_insert token_ledger left (dp_stablecoin_balances pos));
                pos' = pos\<lparr>dp_stablecoin_balances := balances\<rparr>
            in Ok (sub_total token_ledger amount
                 (s\<lparr>sps_deposits := (if position_is_empty pos' then bm_remove user (sps_deposits s)
                                    else bm_insert user pos' (sps_deposits s))\<rparr>)))"

section \<open>Interest\<close>

definition interest_holders :: "principal option \<Rightarrow> sp_state \<Rightarrow> (principal \<times> u64) list" where
  "interest_holders collateral_type s =
     map (\<lambda>(p, pos). (p, icusd_value (sps_stablecoin_registry s) pos))
       (filter (\<lambda>(p, pos). icusd_value (sps_stablecoin_registry s) pos \<noteq> 0
                  \<and> (case collateral_type of None \<Rightarrow> True | Some ct \<Rightarrow> position_opted_in_for s ct pos))
         (bm_entries (sps_deposits s)))"

definition earn_interest :: "principal \<Rightarrow> u8 \<Rightarrow> u64 \<Rightarrow> deposit_position \<Rightarrow> deposit_position" where
  "earn_interest ledger decimals x pos =
     (credit_balance ledger x pos)\<lparr>dp_total_interest_earned_e8s :=
        Some (wrap64 (opt_or 0 (dp_total_interest_earned_e8s pos) + normalize_to_e8s x decimals))\<rparr>"

definition pro_rata :: "u64 \<Rightarrow> u64 \<Rightarrow> u64 \<Rightarrow> u64" where
  "pro_rata amount balance t = wrap64 (amount * balance div t)"

text \<open>One turn of the loop over the holders: the deposits and what has been distributed so far.\<close>

definition pay_holder ::
    "principal \<Rightarrow> u8 \<Rightarrow> u64 \<Rightarrow> u64 \<Rightarrow> (principal, deposit_position) bmap \<times> u64 \<Rightarrow> principal \<times> u64
       \<Rightarrow> (principal, deposit_position) bmap \<times> u64" where
  "pay_holder ledger decimals amount eligible_total = (\<lambda>(ds, n) (p, balance).
     let share = pro_rata amount balance eligible_total in
     if share > 0 then (bm_modify p (earn_interest ledger decimals share) ds, wrap64 (n + share)) else (ds, n))"

definition distribute_interest_revenue :: "principal \<Rightarrow> u64 \<Rightarrow> principal option \<Rightarrow> sp_state \<Rightarrow> sp_state" where
  "distribute_interest_revenue token_ledger amount collateral_type s =
     (if amount = 0 then s
      else
        let decimals = (case bm_get (sps_stablecoin_registry s) token_ledger of None \<Rightarrow> 8 | Some c \<Rightarrow> sc_decimals c);
            holders = interest_holders collateral_type s;
            eligible_total = wrap64 (sum_list (map snd holders))
        in if eligible_total = 0 then s
        else
          let (deposits, distributed) =
                foldl (pay_holder token_ledger decimals amount eligible_total) (sps_deposits s, 0) holders;
              dust = sat_sub amount distributed;
              deposits = (if dust > 0 then (case holders of [] \<Rightarrow> deposits
                            | (first, _) # _ \<Rightarrow> bm_modify first (earn_interest token_ledger decimals dust) deposits)
                          else deposits)
          in s\<lparr>sps_deposits := deposits,
               sps_total_stablecoin_balances := credit token_ledger amount (sps_total_stablecoin_balances s),
               sps_total_interest_received_e8s :=
                 Some (wrap64 (opt_or 0 (sps_total_interest_received_e8s s) + normalize_to_e8s amount decimals))\<rparr>)"

definition has_eligible_interest_recipient :: "principal option \<Rightarrow> sp_state \<Rightarrow> bool" where
  "has_eligible_interest_recipient collateral_type s \<longleftrightarrow>
     (\<exists>pos \<in> set (bm_values (sps_deposits s)).
        icusd_value (sps_stablecoin_registry s) pos > 0
        \<and> (case collateral_type of None \<Rightarrow> True | Some ct \<Rightarrow> position_opted_in_for s ct pos))"

section \<open>Receipts of interest without a recipient\<close>

definition max_source_blocks :: nat where
  "max_source_blocks = 1000"

definition batches :: "sp_state \<Rightarrow> (u64, unallocated_interest_forward_batch) bmap" where
  "batches s = opt_or bm_empty (sps_unallocated_batches s)"

definition accepts_receipt ::
    "principal \<Rightarrow> principal option \<Rightarrow> unallocated_interest_forward_batch \<Rightarrow> bool" where
  "accepts_receipt token_ledger treasury b \<longleftrightarrow>
     ub_token_ledger b = token_ledger \<and> ub_treasury b = treasury \<and> ub_transfer_block_index b = None
     \<and> (ub_fee b = None \<or> ub_gross_amount b \<le> opt_or 0 (ub_fee b))
     \<and> length (ub_source_mint_blocks b) < max_source_blocks"

definition queue_unallocated_interest_forward ::
    "u64 \<Rightarrow> principal \<Rightarrow> u64 \<Rightarrow> u64 \<Rightarrow> sp_state \<Rightarrow> sp_state \<times> u64" where
  "queue_unallocated_interest_forward source_mint_block token_ledger amount now s =
     (case find (\<lambda>(_, b). source_mint_block \<in> set (ub_source_mint_blocks b)) (bm_entries (batches s)) of
        Some (existing, _) \<Rightarrow> (s, existing)
      | None \<Rightarrow>
          (case find (\<lambda>(_, b). accepts_receipt token_ledger (sps_interest_treasury s) b) (bm_entries (batches s)) of
             Some (n, b) \<Rightarrow>
               (s\<lparr>sps_unallocated_batches := Some (bm_insert n
                    (b\<lparr>ub_source_mint_blocks := ub_source_mint_blocks b @ [source_mint_block],
                       ub_gross_amount := sat_add64 (ub_gross_amount b) amount\<rparr>) (batches s))\<rparr>, n)
           | None \<Rightarrow>
               let id = opt_or 0 (sps_next_unallocated_batch_id s) in
               (s\<lparr>sps_next_unallocated_batch_id := Some (sat_add64 id 1),
                  sps_unallocated_batches := Some (bm_insert id
                    \<lparr>ub_id = id, ub_source_mint_blocks = [source_mint_block], ub_token_ledger = token_ledger,
                     ub_treasury = sps_interest_treasury s, ub_gross_amount = amount, ub_fee = None,
                     ub_transfer_created_at_ns = None, ub_transfer_block_index = None, ub_treasury_recorded = False,
                     ub_created_at_ns = now, ub_last_error = None\<rparr> (batches s))\<rparr>, id)))"

definition modify_batch ::
    "u64 \<Rightarrow> (unallocated_interest_forward_batch \<Rightarrow> unallocated_interest_forward_batch) \<Rightarrow> sp_state \<Rightarrow> sp_state" where
  "modify_batch batch_id f s = s\<lparr>sps_unallocated_batches := map_option (bm_modify batch_id f) (sps_unallocated_batches s)\<rparr>"

definition pending_unallocated_interest_forwards :: "sp_state \<Rightarrow> unallocated_interest_forward_batch list" where
  "pending_unallocated_interest_forwards s = filter (\<lambda>b. \<not> ub_treasury_recorded b) (bm_values (batches s))"

definition prepare_unallocated_interest_forward ::
    "u64 \<Rightarrow> u64 \<Rightarrow> u64 \<Rightarrow> sp_state \<Rightarrow> (sp_state \<times> unallocated_interest_forward_batch) sp_result" where
  "prepare_unallocated_interest_forward batch_id fee now s =
     (case bm_get (batches s) batch_id of
        None \<Rightarrow> Err RefundClaimNotFound
      | Some b \<Rightarrow>
          let b' = (if ub_transfer_block_index b = None \<and> ub_fee b = None
                    then b\<lparr>ub_fee := Some fee, ub_transfer_created_at_ns := Some now\<rparr> else b)
          in Ok (modify_batch batch_id (\<lambda>_. b') s, b'))"

definition update_unallocated_interest_forward_fee :: "u64 \<Rightarrow> u64 \<Rightarrow> sp_state \<Rightarrow> sp_state" where
  "update_unallocated_interest_forward_fee batch_id fee =
     modify_batch batch_id (\<lambda>b. if ub_transfer_block_index b = None then b\<lparr>ub_fee := Some fee, ub_last_error := None\<rparr> else b)"

definition mark_unallocated_interest_forward_transferred :: "u64 \<Rightarrow> u64 \<Rightarrow> sp_state \<Rightarrow> sp_state" where
  "mark_unallocated_interest_forward_transferred batch_id block_index =
     modify_batch batch_id (\<lambda>b. b\<lparr>ub_transfer_block_index := Some block_index, ub_last_error := None\<rparr>)"

definition mark_unallocated_interest_forward_recorded :: "u64 \<Rightarrow> sp_state \<Rightarrow> sp_state" where
  "mark_unallocated_interest_forward_recorded batch_id =
     modify_batch batch_id (\<lambda>b. b\<lparr>ub_treasury_recorded := True, ub_last_error := None\<rparr>)"

definition record_unallocated_interest_forward_error :: "u64 \<Rightarrow> string \<Rightarrow> sp_state \<Rightarrow> sp_state" where
  "record_unallocated_interest_forward_error batch_id e = modify_batch batch_id (\<lambda>b. b\<lparr>ub_last_error := Some e\<rparr>)"

definition set_interest_treasury :: "principal option \<Rightarrow> sp_state \<Rightarrow> sp_state sp_result" where
  "set_interest_treasury treasury s =
     (if \<exists>b \<in> set (bm_values (batches s)).
           \<not> ub_treasury_recorded b \<and> ub_treasury b \<noteq> None \<and> ub_treasury b \<noteq> treasury
      then Err (LedgerTransferFailed ''cannot change interest treasury while a forward is pending'')
      else Ok (s\<lparr>sps_interest_treasury := treasury,
                 sps_unallocated_batches :=
                   (case treasury of None \<Rightarrow> sps_unallocated_batches s
                    | Some _ \<Rightarrow> map_option (bm_map (\<lambda>b.
                        if \<not> ub_treasury_recorded b \<and> ub_transfer_block_index b = None
                        then b\<lparr>ub_treasury := treasury\<rparr> else b)) (sps_unallocated_batches s))\<rparr>))"

section \<open>Operator tools on a token of the pool\<close>

text \<open>\<^verbatim>\<open>max_by_key\<close> returns the last of the largest.\<close>

fun last_max :: "('a \<times> u64) list \<Rightarrow> ('a \<times> u64) option" where
  "last_max [] = None"
| "last_max (x # xs) = (case last_max xs of None \<Rightarrow> Some x | Some y \<Rightarrow> if snd y < snd x then Some x else Some y)"

definition token_holders :: "principal \<Rightarrow> sp_state \<Rightarrow> (principal \<times> u64) list" where
  "token_holders token_ledger s =
     filter (\<lambda>(_, b). b > 0) (map (\<lambda>(p, pos). (p, balance_of token_ledger pos)) (bm_entries (sps_deposits s)))"

definition debit_balance :: "principal \<Rightarrow> u64 \<Rightarrow> deposit_position \<Rightarrow> deposit_position" where
  "debit_balance ledger x pos =
     pos\<lparr>dp_stablecoin_balances := bm_modify ledger (\<lambda>b. sat_sub b x) (dp_stablecoin_balances pos)\<rparr>"

definition deduct_burned_lp_from_balances :: "principal \<Rightarrow> u64 \<Rightarrow> sp_state \<Rightarrow> sp_state" where
  "deduct_burned_lp_from_balances token_ledger burned_amount s =
     (let t = bm_get_or 0 (sps_total_stablecoin_balances s) token_ledger in
      if t = 0 \<or> burned_amount = 0 then s
      else
        let actual_deduct = min burned_amount t;
            depositors = token_holders token_ledger s;
            (deposits, deducted) =
              foldl (\<lambda>(ds, n) (p, user_bal).
                       let user_share = min (wrap64 (user_bal * actual_deduct div t)) user_bal in
                       (bm_modify p (debit_balance token_ledger user_share) ds, wrap64 (n + user_share)))
                (sps_deposits s, 0) depositors;
            dust = sat_sub actual_deduct deducted;
            (deposits, deducted) =
              (if dust > 0 then
                 (case last_max depositors of None \<Rightarrow> (deposits, deducted)
                  | Some (largest, _) \<Rightarrow> (bm_modify largest (debit_balance token_ledger dust) deposits, wrap64 (deducted + dust)))
               else (deposits, deducted))
        in sub_total token_ledger deducted (s\<lparr>sps_deposits := deposits\<rparr>))"

definition credit_tokens_to_pool :: "principal \<Rightarrow> u64 \<Rightarrow> sp_state \<Rightarrow> sp_state" where
  "credit_tokens_to_pool token_ledger amount s =
     (if amount = 0 then s
      else
        let s1 = s\<lparr>sps_total_stablecoin_balances := credit token_ledger amount (sps_total_stablecoin_balances s)\<rparr>;
            holders = token_holders token_ledger s
        in case holders of
          [] \<Rightarrow> (case bm_keys (sps_deposits s) of
                    [] \<Rightarrow> s1
                  | first # _ \<Rightarrow> s1\<lparr>sps_deposits := bm_modify first (credit_balance token_ledger amount) (sps_deposits s)\<rparr>)
        | (first, _) # _ \<Rightarrow>
            let holder_total = wrap64 (sum_list (map snd holders)) in
            if holder_total = 0 then s
            else
              let (deposits, credited) =
                    foldl (\<lambda>(ds, n) (p, bal).
                             let share = pro_rata amount bal holder_total in
                             (bm_modify p (credit_balance token_ledger share) ds, wrap64 (n + share)))
                      (sps_deposits s, 0) holders;
                  dust = sat_sub amount credited;
                  deposits = (if dust > 0 then bm_modify first (credit_balance token_ledger dust) deposits else deposits)
              in s1\<lparr>sps_deposits := deposits\<rparr>)"

text \<open>A fee the ledger charged to the pool, taken from every holder of the token in proportion.\<close>

definition pay_fee_share :: "principal \<Rightarrow> u64 \<Rightarrow> u64 \<Rightarrow> deposit_position \<Rightarrow> deposit_position \<times> u64" where
  "pay_fee_share token_ledger fee t pos =
     (case bm_get (dp_stablecoin_balances pos) token_ledger of
        None \<Rightarrow> (pos, 0)
      | Some bal \<Rightarrow>
          if bal = 0 then (pos, 0)
          else
            let actual = min (pro_rata fee bal t) bal; left = sat_sub bal actual in
            (pos\<lparr>dp_stablecoin_balances :=
                (if left = 0 then bm_remove token_ledger (dp_stablecoin_balances pos)
                 else bm_insert token_ledger left (dp_stablecoin_balances pos))\<rparr>, actual))"

definition deduct_fee_from_pool :: "principal \<Rightarrow> u64 \<Rightarrow> sp_state \<Rightarrow> sp_state" where
  "deduct_fee_from_pool token_ledger fee s =
     (let t = bm_get_or 0 (sps_total_stablecoin_balances s) token_ledger in
      if t = 0 then s
      else
        let deducted = wrap64 (sum_list (map (\<lambda>pos. snd (pay_fee_share token_ledger fee t pos)) (bm_values (sps_deposits s))))
        in sub_total token_ledger deducted
             (s\<lparr>sps_deposits := bm_map (\<lambda>pos. fst (pay_fee_share token_ledger fee t pos)) (sps_deposits s)\<rparr>))"

section \<open>Gains and claims\<close>

definition get_collateral_gains :: "sp_state \<Rightarrow> principal \<Rightarrow> amounts" where
  "get_collateral_gains s user =
     (case bm_get (sps_deposits s) user of None \<Rightarrow> bm_empty | Some p \<Rightarrow> dp_collateral_gains p)"

definition claim_gains :: "principal \<Rightarrow> u64 \<Rightarrow> deposit_position \<Rightarrow> deposit_position" where
  "claim_gains collateral_ledger amount pos =
     (let gains = (case bm_get (dp_collateral_gains pos) collateral_ledger of
                     None \<Rightarrow> dp_collateral_gains pos
                   | Some g \<Rightarrow> if sat_sub g amount = 0 then bm_remove collateral_ledger (dp_collateral_gains pos)
                               else bm_insert collateral_ledger (sat_sub g amount) (dp_collateral_gains pos))
      in pos\<lparr>dp_collateral_gains := gains,
             dp_total_claimed_gains := credit collateral_ledger amount (dp_total_claimed_gains pos)\<rparr>)"

definition mark_gains_claimed :: "principal \<Rightarrow> principal \<Rightarrow> u64 \<Rightarrow> sp_state \<Rightarrow> sp_state" where
  "mark_gains_claimed user collateral_ledger amount s =
     s\<lparr>sps_deposits := bm_modify user (claim_gains collateral_ledger amount) (sps_deposits s)\<rparr>"

definition mark_cfx_claimed :: "principal \<Rightarrow> principal \<Rightarrow> u128 \<Rightarrow> sp_state \<Rightarrow> sp_state" where
  "mark_cfx_claimed user chain_sentinel amount s =
     s\<lparr>sps_deposits := bm_modify user (\<lambda>pos. pos\<lparr>dp_cfx_claims := map_option (\<lambda>claims.
          case bm_get claims chain_sentinel of
            None \<Rightarrow> claims
          | Some g \<Rightarrow> if sat_sub g amount = 0 then bm_remove chain_sentinel claims
                      else bm_insert chain_sentinel (sat_sub g amount) claims) (dp_cfx_claims pos)\<rparr>) (sps_deposits s)\<rparr>"

definition claim_sources :: "sp_state \<Rightarrow> (principal, chain_claim_source list) bmap" where
  "claim_sources s = opt_or bm_empty (sps_chain_claim_sources s)"

fun add_source :: "u64 \<Rightarrow> u128 \<Rightarrow> chain_claim_source list \<Rightarrow> chain_claim_source list" where
  "add_source claim_id amount [] = [\<lparr>cs_claim_id = claim_id, cs_remaining_native = amount\<rparr>]"
| "add_source claim_id amount (x # xs) =
     (if cs_claim_id x = claim_id
      then x\<lparr>cs_remaining_native := sat_add128 (cs_remaining_native x) amount\<rparr> # xs
      else x # add_source claim_id amount xs)"

definition record_chain_claim_source :: "principal \<Rightarrow> u64 \<Rightarrow> u128 \<Rightarrow> sp_state \<Rightarrow> sp_state" where
  "record_chain_claim_source chain_sentinel claim_id amount_native s =
     (if amount_native = 0 then s
      else s\<lparr>sps_chain_claim_sources := Some (bm_insert chain_sentinel
               (add_source claim_id amount_native (bm_get_or [] (claim_sources s) chain_sentinel)) (claim_sources s))\<rparr>)"

section \<open>Preferences\<close>

definition opt_in_cfx :: "principal \<Rightarrow> principal \<Rightarrow> sp_state \<Rightarrow> sp_state sp_result" where
  "opt_in_cfx user sentinel s =
     (if \<not> is_chain_collateral_sentinel s sentinel then Err (CollateralNotFound sentinel)
      else case bm_get (sps_deposits s) user of
        None \<Rightarrow> Err NoPositionFound
      | Some pos \<Rightarrow>
          let opted = opt_or bm_empty (dp_opted_in_chain_collateral pos) in
          if bm_has opted sentinel then Err (AlreadyOptedIn sentinel)
          else Ok (s\<lparr>sps_deposits := bm_insert user (pos\<lparr>dp_opted_in_chain_collateral := Some (bm_insert sentinel () opted)\<rparr>)
                      (sps_deposits s)\<rparr>))"

definition opt_out_cfx :: "principal \<Rightarrow> principal \<Rightarrow> sp_state \<Rightarrow> sp_state sp_result" where
  "opt_out_cfx user sentinel s =
     (if \<not> is_chain_collateral_sentinel s sentinel then Err (CollateralNotFound sentinel)
      else case bm_get (sps_deposits s) user of
        None \<Rightarrow> Err NoPositionFound
      | Some pos \<Rightarrow>
          let opted = opt_or bm_empty (dp_opted_in_chain_collateral pos) in
          if \<not> bm_has opted sentinel then Err (AlreadyOptedOut sentinel)
          else Ok (s\<lparr>sps_deposits := bm_insert user (pos\<lparr>dp_opted_in_chain_collateral := Some (bm_remove sentinel opted)\<rparr>)
                      (sps_deposits s)\<rparr>))"

definition opt_out_collateral :: "principal \<Rightarrow> principal \<Rightarrow> sp_state \<Rightarrow> sp_state sp_result" where
  "opt_out_collateral user collateral_type s =
     (if collateral_requires_payout_address collateral_type then
        (case bm_get (sps_deposits s) user of
           None \<Rightarrow> Err NoPositionFound
         | Some pos \<Rightarrow>
             let addresses = opt_or bm_empty (dp_native_payout_addresses pos);
                 tags = opt_or bm_empty (dp_native_payout_destination_tags pos)
             in if \<not> bm_has addresses collateral_type then Err (AlreadyOptedOut collateral_type)
             else Ok (s\<lparr>sps_deposits := bm_insert user
                    (pos\<lparr>dp_native_payout_addresses := Some (bm_remove collateral_type addresses),
                         dp_native_payout_destination_tags := Some (bm_remove collateral_type tags)\<rparr>) (sps_deposits s)\<rparr>))
      else if is_chain_collateral_sentinel s collateral_type then opt_out_cfx user collateral_type s
      else case bm_get (sps_deposits s) user of
        None \<Rightarrow> Err NoPositionFound
      | Some pos \<Rightarrow>
          if bm_has (dp_opted_out_collateral pos) collateral_type then Err (AlreadyOptedOut collateral_type)
          else Ok (s\<lparr>sps_deposits := bm_insert user
                 (pos\<lparr>dp_opted_out_collateral := bm_insert collateral_type () (dp_opted_out_collateral pos)\<rparr>) (sps_deposits s)\<rparr>))"

definition opt_in_collateral :: "principal \<Rightarrow> principal \<Rightarrow> sp_state \<Rightarrow> sp_state sp_result" where
  "opt_in_collateral user collateral_type s =
     (if collateral_type = bob_collateral then Err (TokenNotActive collateral_type)
      else if collateral_requires_payout_address collateral_type then Err (PayoutAddressRequired collateral_type)
      else if is_chain_collateral_sentinel s collateral_type then opt_in_cfx user collateral_type s
      else case bm_get (sps_deposits s) user of
        None \<Rightarrow> Err NoPositionFound
      | Some pos \<Rightarrow>
          if \<not> bm_has (dp_opted_out_collateral pos) collateral_type then Err (AlreadyOptedIn collateral_type)
          else Ok (s\<lparr>sps_deposits := bm_insert user
                 (pos\<lparr>dp_opted_out_collateral := bm_remove collateral_type (dp_opted_out_collateral pos)\<rparr>) (sps_deposits s)\<rparr>))"

section \<open>Refunds\<close>

definition max_pending_refunds :: nat where
  "max_pending_refunds = 10000"

definition refunds :: "sp_state \<Rightarrow> (u64, pending_refund) bmap" where
  "refunds s = opt_or bm_empty (sps_pending_refunds s)"

definition record_pending_refund :: "principal \<Rightarrow> principal \<Rightarrow> u64 \<Rightarrow> string \<Rightarrow> u64 \<Rightarrow> sp_state \<Rightarrow> sp_state \<times> u64" where
  "record_pending_refund user token_ledger amount reason now s =
     (let m = (if length (bm_entries (refunds s)) \<ge> max_pending_refunds
               then (case bm_keys (refunds s) of [] \<Rightarrow> refunds s | oldest # _ \<Rightarrow> bm_remove oldest (refunds s))
               else refunds s);
          id = opt_or 0 (sps_next_pending_refund_id s)
      in (s\<lparr>sps_next_pending_refund_id := Some (wrap64 (id + 1)),
            sps_pending_refunds := Some (bm_insert id \<lparr>pr_id = id, pr_user = user, pr_token_ledger = token_ledger,
              pr_amount = amount, pr_reason = reason, pr_created_at = now\<rparr> m)\<rparr>, id))"

definition take_pending_refund :: "u64 \<Rightarrow> sp_state \<Rightarrow> sp_state \<times> pending_refund option" where
  "take_pending_refund refund_id s =
     (s\<lparr>sps_pending_refunds := map_option (bm_remove refund_id) (sps_pending_refunds s)\<rparr>, bm_get (refunds s) refund_id)"

definition put_pending_refund :: "pending_refund \<Rightarrow> sp_state \<Rightarrow> sp_state" where
  "put_pending_refund refund s = s\<lparr>sps_pending_refunds := Some (bm_insert (pr_id refund) refund (refunds s))\<rparr>"

section \<open>Coverage\<close>

definition effective_pool_for_collateral :: "sp_state \<Rightarrow> principal \<Rightarrow> u64" where
  "effective_pool_for_collateral s collateral_type =
     wrap64 (sum_list (map (total_usd_value (sps_stablecoin_registry s) (virtual_prices s))
       (filter (position_opted_in_for s collateral_type) (bm_values (sps_deposits s)))))"

definition icusd_ledger :: "sp_state \<Rightarrow> principal option" where
  "icusd_ledger s = find_icusd (sps_stablecoin_registry s)"

definition effective_icusd_pool_for_collateral :: "sp_state \<Rightarrow> principal \<Rightarrow> u64" where
  "effective_icusd_pool_for_collateral s collateral_type =
     wrap64 (sum_list (map (icusd_value (sps_stablecoin_registry s))
       (filter (position_opted_in_for s collateral_type) (bm_values (sps_deposits s)))))"

section \<open>Corrections and validation\<close>

text \<open>The messages of the corrections: nothing to change, or the old and the new amount.\<close>

datatype correction = NoChange u64 | Corrected u64 u64

definition correct_balance :: "principal \<Rightarrow> principal \<Rightarrow> u64 \<Rightarrow> sp_state \<Rightarrow> sp_state \<times> correction" where
  "correct_balance user token_ledger correct_amount s =
     (let old_amount = (case bm_get (sps_deposits s) user of None \<Rightarrow> 0 | Some pos \<Rightarrow> balance_of token_ledger pos) in
      if old_amount = correct_amount then (s, NoChange correct_amount)
      else
        let deposits =
              (case bm_get (sps_deposits s) user of
                 None \<Rightarrow> sps_deposits s
               | Some pos \<Rightarrow>
                   let pos' = pos\<lparr>dp_stablecoin_balances :=
                         (if correct_amount = 0 then bm_remove token_ledger (dp_stablecoin_balances pos)
                          else bm_insert token_ledger correct_amount (dp_stablecoin_balances pos))\<rparr>
                   in if position_is_empty pos' then bm_remove user (sps_deposits s) else bm_insert user pos' (sps_deposits s));
            totals = bm_modify token_ledger
              (\<lambda>t. if correct_amount < old_amount then sat_sub t (old_amount - correct_amount)
                   else sat_add64 t (correct_amount - old_amount)) (sps_total_stablecoin_balances s)
        in (s\<lparr>sps_deposits := deposits, sps_total_stablecoin_balances := totals\<rparr>, Corrected old_amount correct_amount))"

definition correct_collateral_gain :: "principal \<Rightarrow> principal \<Rightarrow> u64 \<Rightarrow> sp_state \<Rightarrow> sp_state \<times> correction" where
  "correct_collateral_gain user collateral_ledger correct_amount s =
     (let old_amount = (case bm_get (sps_deposits s) user of None \<Rightarrow> 0
                        | Some pos \<Rightarrow> bm_get_or 0 (dp_collateral_gains pos) collateral_ledger) in
      if old_amount = correct_amount then (s, NoChange correct_amount)
      else (s\<lparr>sps_deposits := bm_modify user (\<lambda>pos. pos\<lparr>dp_collateral_gains :=
                (if correct_amount = 0 then bm_remove collateral_ledger (dp_collateral_gains pos)
                 else bm_insert collateral_ledger correct_amount (dp_collateral_gains pos))\<rparr>) (sps_deposits s)\<rparr>,
            Corrected old_amount correct_amount))"

definition computed_total :: "sp_state \<Rightarrow> principal \<Rightarrow> u64" where
  "computed_total s ledger = wrap64 (bm_sum (balance_of ledger) (sps_deposits s))"

definition validate_state :: "sp_state \<Rightarrow> bool" where
  "validate_state s \<longleftrightarrow> (\<forall>(ledger, tracked) \<in> set (bm_entries (sps_total_stablecoin_balances s)). computed_total s ledger = tracked)"

end
