(* ===== verification/Sp_Gains.thy ===== *)
theory Sp_Gains
  imports Sp_State
begin

text \<open>
  What a liquidation does to the books of the stability pool (\<^verbatim>\<open>compute_token_draw\<close>, \<^verbatim>\<open>compute_icusd_chain_draw\<close>,
  \<^verbatim>\<open>process_liquidation_gains_at\<close> and \<^verbatim>\<open>process_chain_liquidation_gains_at\<close> of \<^verbatim>\<open>state.rs\<close>): how much of each token is
  drawn for a debt, and how the consumption and the collateral are divided among the depositors who take part.
\<close>

section \<open>The draw\<close>

definition available_native :: "sp_state \<Rightarrow> principal \<Rightarrow> principal \<Rightarrow> u64" where
  "available_native s collateral_type ledger =
     wrap64 (sum_list (map (balance_of ledger) (filter (position_opted_in_for s collateral_type) (bm_values (sps_deposits s)))))"

text \<open>A token with something to draw: its ledger, the amount, its decimals and whether it is an LP token.\<close>

type_synonym drawable = "principal \<times> u64 \<times> u8 \<times> bool"

definition drawable_e8s :: "sp_state \<Rightarrow> drawable \<Rightarrow> u64" where
  "drawable_e8s s = (\<lambda>(ledger, amount, decimals, lp). token_value_e8s (virtual_prices s) ledger decimals lp amount)"

definition drawn_native :: "sp_state \<Rightarrow> drawable \<Rightarrow> u64 \<Rightarrow> u64" where
  "drawn_native s = (\<lambda>(ledger, _, decimals, lp) draw_e8s.
     if lp then (case bm_get (virtual_prices s) ledger of None \<Rightarrow> 0 | Some vp \<Rightarrow> usd_e8s_to_lp draw_e8s vp)
     else normalize_from_e8s draw_e8s decimals)"

definition drawables :: "sp_state \<Rightarrow> principal \<Rightarrow> (u8 \<times> drawable) list" where
  "drawables s collateral_type =
     map (\<lambda>(ledger, c). (sc_priority c, ledger, available_native s collateral_type ledger, sc_decimals c, is_lp c))
       (filter (\<lambda>(ledger, _). available_native s collateral_type ledger > 0) (bm_entries (sps_stablecoin_registry s)))"

definition small_debt_threshold :: u64 where
  "small_debt_threshold = 100000000"

definition draw_single :: "sp_state \<Rightarrow> u64 \<Rightarrow> (drawable \<times> u64) list \<Rightarrow> amounts" where
  "draw_single s debt_e8s all_tokens =
     (case last_max all_tokens of
        None \<Rightarrow> bm_empty
      | Some (tok, available_e8s) \<Rightarrow>
          let draw = drawn_native s tok (min debt_e8s available_e8s) in
          if draw > 0 then bm_insert (fst tok) (min draw (fst (snd tok))) bm_empty else bm_empty)"

fun draw_bucket :: "sp_state \<Rightarrow> u64 \<Rightarrow> u64 \<Rightarrow> drawable list \<Rightarrow> amounts \<Rightarrow> amounts" where
  "draw_bucket s draw_e8s total_available [] result = result"
| "draw_bucket s draw_e8s total_available (tok # toks) result =
     (let e8s = drawable_e8s s tok in
      if e8s = 0 then draw_bucket s draw_e8s total_available toks result
      else
        let draw = drawn_native s tok (wrap64 (draw_e8s * e8s div total_available)) in
        draw_bucket s draw_e8s total_available toks
          (if draw > 0 then bm_insert (fst tok) (min draw (fst (snd tok))) result else result))"

fun draw_priorities :: "sp_state \<Rightarrow> (u8 \<times> drawable) list \<Rightarrow> u8 list \<Rightarrow> u64 \<Rightarrow> amounts \<Rightarrow> amounts" where
  "draw_priorities s toks [] remaining result = result"
| "draw_priorities s toks (p # ps) remaining result =
     (if remaining = 0 then result
      else
        let bucket = map snd (filter (\<lambda>(q, _). q = p) toks);
            total_available = wrap64 (sum_list (map (drawable_e8s s) bucket))
        in if total_available = 0 then draw_priorities s toks ps remaining result
        else
          let draw_e8s = min remaining total_available in
          draw_priorities s toks ps (remaining - draw_e8s) (draw_bucket s draw_e8s total_available bucket result))"

definition compute_token_draw :: "sp_state \<Rightarrow> u64 \<Rightarrow> principal \<Rightarrow> amounts" where
  "compute_token_draw s debt_e8s collateral_type =
     (let toks = drawables s collateral_type;
          all_tokens = filter (\<lambda>(_, e8s). e8s > 0) (map (\<lambda>(_, tok). (tok, drawable_e8s s tok)) toks)
      in if all_tokens = [] then bm_empty
      else if debt_e8s < small_debt_threshold then draw_single s debt_e8s all_tokens
      else draw_priorities s toks (rev (sorted_list_of_set (fst ` set toks))) debt_e8s bm_empty)"

definition compute_icusd_chain_draw :: "sp_state \<Rightarrow> u64 \<Rightarrow> principal \<Rightarrow> amounts" where
  "compute_icusd_chain_draw s debt_e8s chain_sentinel =
     (if debt_e8s = 0 \<or> \<not> is_chain_collateral_sentinel s chain_sentinel then bm_empty
      else case icusd_ledger s of
        None \<Rightarrow> bm_empty
      | Some ledger \<Rightarrow>
          let draw_e8s = min debt_e8s (effective_icusd_pool_for_collateral s chain_sentinel) in
          if draw_e8s > 0 then bm_insert ledger draw_e8s bm_empty else bm_empty)"

section \<open>Consumption and gains\<close>

text \<open>
  The parts that the ICRC path and the chain path share: the total each token has among the participants, the
  e8s value of what was consumed, and what one participant loses. A participant's loop over the consumed tokens
  returns the position, the deductions token by token, and the value consumed; the two paths add that value up
  with a wrapping and with a saturating addition.
\<close>

definition consumed_value :: "sp_state \<Rightarrow> principal \<Rightarrow> u64 \<Rightarrow> u64" where
  "consumed_value s ledger amount =
     (let (decimals, lp) = (case bm_get (sps_stablecoin_registry s) ledger of
                              None \<Rightarrow> (8, False) | Some c \<Rightarrow> (sc_decimals c, is_lp c))
      in token_value_e8s (virtual_prices s) ledger decimals lp amount)"

definition total_consumed_e8s :: "sp_state \<Rightarrow> amounts \<Rightarrow> u64" where
  "total_consumed_e8s s stables_consumed =
     wrap64 (sum_list (map (\<lambda>(ledger, amount). consumed_value s ledger amount) (bm_entries stables_consumed)))"

definition opted_in_total :: "(principal \<times> deposit_position) list \<Rightarrow> principal \<Rightarrow> u64" where
  "opted_in_total participants ledger = wrap64 (sum_list (map (\<lambda>(_, pos). balance_of ledger pos) participants))"

definition consume_share :: "u64 \<Rightarrow> u64 \<Rightarrow> u64 \<Rightarrow> u64" where
  "consume_share consumed t balance =
     (if t = 0 \<or> balance = 0 then 0 else min (pro_rata consumed balance t) balance)"

definition consume_tokens :: "(principal \<Rightarrow> u64) \<Rightarrow> amounts \<Rightarrow> deposit_position \<Rightarrow> deposit_position" where
  "consume_tokens totals stables_consumed pos =
     foldl (\<lambda>p (ledger, consumed). debit_balance ledger (consume_share consumed (totals ledger) (balance_of ledger p)) p)
       pos (bm_entries stables_consumed)"

text \<open>The deductions are added per token in the order of the participants.\<close>

definition token_deducted :: "(principal \<Rightarrow> u64) \<Rightarrow> amounts \<Rightarrow> (principal \<times> deposit_position) list \<Rightarrow> principal \<Rightarrow> u64" where
  "token_deducted totals stables_consumed participants ledger =
     (case bm_get stables_consumed ledger of
        None \<Rightarrow> 0
      | Some consumed \<Rightarrow>
          wrap64 (sum_list (map (\<lambda>(_, pos). consume_share consumed (totals ledger) (balance_of ledger pos)) participants)))"

definition sub_deducted :: "(principal \<Rightarrow> u64) \<Rightarrow> amounts \<Rightarrow> (principal \<times> deposit_position) list \<Rightarrow> sp_state \<Rightarrow> sp_state" where
  "sub_deducted totals stables_consumed participants s =
     foldl (\<lambda>s ledger. sub_total ledger (token_deducted totals stables_consumed participants ledger) s) s (bm_keys stables_consumed)"

definition share_values :: "sp_state \<Rightarrow> (principal \<Rightarrow> u64) \<Rightarrow> amounts \<Rightarrow> deposit_position \<Rightarrow> u64 list" where
  "share_values s totals stables_consumed pos =
     map (\<lambda>(ledger, consumed). consumed_value s ledger (consume_share consumed (totals ledger) (balance_of ledger pos)))
       (bm_entries stables_consumed)"

definition credit_gain :: "principal \<Rightarrow> u64 \<Rightarrow> deposit_position \<Rightarrow> deposit_position" where
  "credit_gain collateral_type x pos = pos\<lparr>dp_collateral_gains := credit collateral_type x (dp_collateral_gains pos)\<rparr>"

definition credit_cfx :: "principal \<Rightarrow> u128 \<Rightarrow> deposit_position \<Rightarrow> deposit_position" where
  "credit_cfx sentinel x pos =
     (let claims = opt_or bm_empty (dp_cfx_claims pos)
      in pos\<lparr>dp_cfx_claims := Some (bm_insert sentinel (sat_add128 (bm_get_or 0 claims sentinel) x) claims)\<rparr>)"

definition max_liquidation_history :: nat where
  "max_liquidation_history = 1000"

text \<open>One turn of the loop over the participants: the deposits and the collateral distributed so far.\<close>

definition absorb_share ::
    "sp_state \<Rightarrow> (principal \<Rightarrow> u64) \<Rightarrow> amounts \<Rightarrow> principal \<Rightarrow> u64 \<Rightarrow> u64 \<Rightarrow> (principal, deposit_position) bmap \<times> u64
       \<Rightarrow> principal \<times> deposit_position \<Rightarrow> (principal, deposit_position) bmap \<times> u64" where
  "absorb_share s totals stables_consumed collateral_type collateral_gained total_e8s = (\<lambda>(ds, n) (p, pos).
     let value_e8s = wrap64 (sum_list (share_values s totals stables_consumed pos));
         gain = pro_rata collateral_gained value_e8s total_e8s;
         pos' = consume_tokens totals stables_consumed pos
     in if value_e8s > 0 then (bm_insert p (credit_gain collateral_type gain pos') ds, wrap64 (n + gain))
        else (bm_insert p pos' ds, n))"

definition absorb_chain_share ::
    "sp_state \<Rightarrow> (principal \<Rightarrow> u64) \<Rightarrow> amounts \<Rightarrow> principal \<Rightarrow> u128 \<Rightarrow> u64 \<Rightarrow> (principal, deposit_position) bmap \<times> u128
       \<Rightarrow> principal \<times> deposit_position \<Rightarrow> (principal, deposit_position) bmap \<times> u128" where
  "absorb_chain_share s totals stables_consumed sentinel gained total_e8s = (\<lambda>(ds, n) (p, pos).
     let value_e8s = foldl sat_add64 0 (share_values s totals stables_consumed pos);
         gain = sat_mul128 gained value_e8s div total_e8s;
         pos' = consume_tokens totals stables_consumed pos
     in if value_e8s > 0 then (bm_insert p (credit_cfx sentinel gain pos') ds, sat_add128 n gain)
        else (bm_insert p pos' ds, n))"

definition process_liquidation_gains ::
    "u64 \<Rightarrow> principal \<Rightarrow> amounts \<Rightarrow> u64 \<Rightarrow> u64 \<Rightarrow> u64 \<Rightarrow> sp_state \<Rightarrow> sp_state" where
  "process_liquidation_gains vault_id collateral_type stables_consumed collateral_gained collateral_price_e8s timestamp s =
     (if collateral_requires_payout_address collateral_type then s
      else
        let participants = filter (\<lambda>(_, pos). position_opted_in_for s collateral_type pos) (bm_entries (sps_deposits s));
            totals = opted_in_total participants;
            total_e8s = total_consumed_e8s s stables_consumed
        in if total_e8s = 0 then s
        else
          let (deposits, distributed) =
                foldl (absorb_share s totals stables_consumed collateral_type collateral_gained total_e8s)
                  (sps_deposits s, 0) participants;
              dust = sat_sub collateral_gained distributed;
              deposits = (if dust > 0 then (case participants of [] \<Rightarrow> deposits
                            | (first, _) # _ \<Rightarrow> bm_modify first (credit_gain collateral_type dust) deposits)
                          else deposits);
              s1 = sub_deducted totals stables_consumed participants s;
              history = sps_liquidation_history s @ [\<lparr>lr_vault_id = vault_id, lr_timestamp = timestamp,
                lr_stables_consumed = stables_consumed, lr_collateral_gained = collateral_gained,
                lr_collateral_type = collateral_type, lr_depositors_count = length participants,
                lr_collateral_price_e8s = Some collateral_price_e8s\<rparr>]
          in s1\<lparr>sps_deposits := bm_retain (\<lambda>_ pos. \<not> position_is_empty pos) deposits,
                sps_liquidation_history := drop (length history - max_liquidation_history) history,
                sps_total_liquidations_executed := wrap64 (sps_total_liquidations_executed s + 1)\<rparr>)"

definition process_chain_liquidation_gains ::
    "principal \<Rightarrow> amounts \<Rightarrow> u128 \<Rightarrow> sp_state \<Rightarrow> sp_state" where
  "process_chain_liquidation_gains chain_sentinel stables_consumed cfx_gained_native s =
     (if \<not> is_chain_collateral_sentinel s chain_sentinel \<or> cfx_gained_native = 0 then s
      else
        let participants = filter (\<lambda>(_, pos). is_opted_in_for_chain chain_sentinel pos) (bm_entries (sps_deposits s));
            totals = opted_in_total participants;
            total_e8s = total_consumed_e8s s stables_consumed
        in if participants = [] \<or> total_e8s = 0 then s
        else
          let (deposits, distributed) =
                foldl (absorb_chain_share s totals stables_consumed chain_sentinel cfx_gained_native total_e8s)
                  (sps_deposits s, 0) participants;
              dust = sat_sub cfx_gained_native distributed;
              deposits = (if dust > 0 then (case participants of [] \<Rightarrow> deposits
                            | (first, _) # _ \<Rightarrow> bm_modify first (credit_cfx chain_sentinel dust) deposits)
                          else deposits);
              s1 = sub_deducted totals stables_consumed participants s
          in s1\<lparr>sps_deposits := bm_retain (\<lambda>_ pos. \<not> position_is_empty pos) deposits,
                sps_total_liquidations_executed := wrap64 (sps_total_liquidations_executed s + 1)\<rparr>)"

end
