(* ===== verification/Sp_Absorb.thy ===== *)
theory Sp_Absorb
  imports Sp_Gains
begin

text \<open>
  The stability pool absorbs the debt of a chain vault (\<^verbatim>\<open>src/stability_pool/src/liquidation.rs\<close>): it burns icUSD of its
  depositors on the IC, proves the burn to the backend, and credits the seized native collateral as claims, backed by
  claim sources at the backend. The journal of intents makes the sequence resumable. A depositor turns a claim into a
  payout of the backend, and the backend hands back payouts that failed. The replies of the icUSD ledger and of the
  backend are arguments; \<^verbatim>\<open>now\<close> is the clock.
\<close>

section \<open>Sentinels\<close>

definition le_value :: "bytes \<Rightarrow> nat" where
  "le_value bs = foldr (\<lambda>b n. b + 256 * n) bs 0"

definition chain_id_from_sentinel :: "principal \<Rightarrow> u32 option" where
  "chain_id_from_sentinel sentinel =
     (let bs = be_bytes 29 sentinel in
      if 256 ^ 29 \<le> sentinel \<or> take 21 bs \<noteq> ascii_bytes ''rumi-chain-collateral'' \<or> bs ! 28 \<noteq> 127 then None
      else if \<exists>b \<in> set (drop 21 (take 24 bs)). b \<noteq> 0 then None
      else Some (le_value (take 4 (drop 24 bs))))"

section \<open>The journal\<close>

definition max_pending_chain_absorbs :: nat where
  "max_pending_chain_absorbs = 1000"

definition max_completed_chain_absorbs :: nat where
  "max_completed_chain_absorbs = 10000"

definition pending_absorbs :: "sp_state \<Rightarrow> (u64, chain_sp_absorb_intent) bmap" where
  "pending_absorbs s = opt_or bm_empty (sps_pending_chain_absorbs s)"

definition completed_absorbs :: "sp_state \<Rightarrow> (u64, chain_sp_absorb_completion) bmap" where
  "completed_absorbs s = opt_or bm_empty (sps_completed_chain_absorbs s)"

definition has_pending_chain_absorbs :: "sp_state \<Rightarrow> bool" where
  "has_pending_chain_absorbs s \<longleftrightarrow> bm_entries (pending_absorbs s) \<noteq> []"

definition has_pending_native_xrp_absorbs :: "sp_state \<Rightarrow> bool" where
  "has_pending_native_xrp_absorbs s \<longleftrightarrow> bm_entries (opt_or bm_empty (sps_pending_native_xrp_absorbs s)) \<noteq> []"

definition has_pending_pool_absorbs :: "sp_state \<Rightarrow> bool" where
  "has_pending_pool_absorbs s \<longleftrightarrow> has_pending_chain_absorbs s \<or> has_pending_native_xrp_absorbs s"

definition put_pending_chain_absorb :: "chain_sp_absorb_intent \<Rightarrow> sp_state \<Rightarrow> sp_state sp_result" where
  "put_pending_chain_absorb intent s =
     (if \<not> bm_has (pending_absorbs s) (ai_vault_id intent)
         \<and> length (bm_entries (pending_absorbs s)) \<ge> max_pending_chain_absorbs then Err SystemBusy
      else Ok (s\<lparr>sps_pending_chain_absorbs := Some (bm_insert (ai_vault_id intent) intent (pending_absorbs s))\<rparr>))"

definition take_pending_chain_absorb :: "u64 \<Rightarrow> sp_state \<Rightarrow> sp_state" where
  "take_pending_chain_absorb vault_id s =
     s\<lparr>sps_pending_chain_absorbs := map_option (bm_remove vault_id) (sps_pending_chain_absorbs s)\<rparr>"

text \<open>Beyond the cap the entries with the smallest vault ids go.\<close>

definition record_completed_chain_absorb :: "chain_sp_absorb_completion \<Rightarrow> sp_state \<Rightarrow> sp_state" where
  "record_completed_chain_absorb c s =
     (let m = bm_insert (ac_vault_id c) c (completed_absorbs s);
          old = take (length (bm_keys m) - max_completed_chain_absorbs) (bm_keys m)
      in s\<lparr>sps_completed_chain_absorbs := Some (bm_retain (\<lambda>k _. k \<notin> set old) m)\<rparr>)"

definition completed_chain_absorb :: "sp_state \<Rightarrow> u64 \<Rightarrow> chain_sp_absorb_completion option" where
  "completed_chain_absorb s vault_id = bm_get (completed_absorbs s) vault_id"

section \<open>Plans\<close>

record chain_absorb_plan =
  cp_vault_id :: u64
  cp_chain_id :: u32
  cp_chain_sentinel :: principal
  cp_icusd_ledger :: principal
  cp_icusd_to_burn_e8s :: u64
  cp_stables_consumed :: amounts

definition prepare_chain_absorb_plan :: "sp_state \<Rightarrow> chain_liquidatable_vault_info \<Rightarrow> chain_absorb_plan sp_result" where
  "prepare_chain_absorb_plan s v =
     (let sentinel = cv_chain_collateral_sentinel v; debt = cv_debt_e8s v in
      if \<not> cv_sp_attempted v
      then Err (LiquidationFailed (cv_vault_id v) ''chain vault has not been escalated to the stability pool'')
      else if \<not> is_chain_collateral_sentinel s sentinel then Err (CollateralNotFound sentinel)
      else if chain_id_from_sentinel sentinel \<noteq> Some (cv_chain_id v)
      then Err (LiquidationFailed (cv_vault_id v) ''chain collateral sentinel does not match chain id'')
      else if u64_max < debt
      then Err (LiquidationFailed (cv_vault_id v) (''chain vault debt '' @ show_nat debt @ '' exceeds SP u64 burn amount''))
      else if debt = 0 then Err (LiquidationFailed (cv_vault_id v) ''chain vault has no debt to absorb'')
      else if effective_icusd_pool_for_collateral s sentinel < debt then Err InsufficientPoolBalance
      else
        let stables_consumed = compute_icusd_chain_draw s debt sentinel in
        case icusd_ledger s of
          None \<Rightarrow> Err (TokenNotAccepted principal_anonymous)
        | Some ledger \<Rightarrow>
            if bm_get_or 0 stables_consumed ledger \<noteq> debt then Err InsufficientPoolBalance
            else Ok \<lparr>cp_vault_id = cv_vault_id v, cp_chain_id = cv_chain_id v, cp_chain_sentinel = sentinel,
                     cp_icusd_ledger = ledger, cp_icusd_to_burn_e8s = debt, cp_stables_consumed = stables_consumed\<rparr>)"

definition intent_matches_plan :: "chain_sp_absorb_intent \<Rightarrow> chain_absorb_plan \<Rightarrow> sp_account \<Rightarrow> bool" where
  "intent_matches_plan i p minting_account \<longleftrightarrow>
     ai_vault_id i = cp_vault_id p \<and> ai_chain_id i = cp_chain_id p \<and> ai_chain_sentinel i = cp_chain_sentinel p
     \<and> ai_icusd_ledger i = cp_icusd_ledger p \<and> ai_icusd_minting_account i = minting_account
     \<and> ai_icusd_to_burn_e8s i = cp_icusd_to_burn_e8s p \<and> ai_stables_consumed i = cp_stables_consumed p"

definition chain_absorb_plan_from_intent :: "chain_sp_absorb_intent \<Rightarrow> chain_absorb_plan" where
  "chain_absorb_plan_from_intent i = \<lparr>cp_vault_id = ai_vault_id i, cp_chain_id = ai_chain_id i,
     cp_chain_sentinel = ai_chain_sentinel i, cp_icusd_ledger = ai_icusd_ledger i,
     cp_icusd_to_burn_e8s = ai_icusd_to_burn_e8s i, cp_stables_consumed = ai_stables_consumed i\<rparr>"

definition ensure_no_other_pending_pool_absorb_for_chain :: "sp_state \<Rightarrow> u64 \<Rightarrow> unit sp_result" where
  "ensure_no_other_pending_pool_absorb_for_chain s vault_id =
     (if has_pending_chain_absorbs s \<and> bm_get (pending_absorbs s) vault_id = None then Err SystemBusy
      else if has_pending_native_xrp_absorbs s then Err SystemBusy
      else Ok ())"

definition prepare_or_reuse_chain_absorb_intent ::
    "chain_absorb_plan \<Rightarrow> sp_account \<Rightarrow> u64 \<Rightarrow> sp_state \<Rightarrow> (sp_state \<times> chain_sp_absorb_intent) sp_result" where
  "prepare_or_reuse_chain_absorb_intent plan minting_account now s =
     (case completed_chain_absorb s (cp_vault_id plan) of
        Some c \<Rightarrow> Err (LiquidationFailed (cp_vault_id plan)
          (''chain absorb already completed at block '' @ show_nat (ab_block_index (ac_result c))))
      | None \<Rightarrow>
          (case bm_get (pending_absorbs s) (cp_vault_id plan) of
             Some i \<Rightarrow>
               if intent_matches_plan i plan minting_account then Ok (s, i)
               else Err (LiquidationFailed (cp_vault_id plan) ''pending chain absorb intent conflicts with current preflight'')
           | None \<Rightarrow>
               let i = \<lparr>ai_vault_id = cp_vault_id plan, ai_chain_id = cp_chain_id plan,
                        ai_chain_sentinel = cp_chain_sentinel plan, ai_icusd_ledger = cp_icusd_ledger plan,
                        ai_icusd_minting_account = minting_account, ai_icusd_to_burn_e8s = cp_icusd_to_burn_e8s plan,
                        ai_stables_consumed = cp_stables_consumed plan, ai_burn_created_at_time_ns = now,
                        ai_status = AsPrepared, ai_burn_proof = None, ai_backend_result = None, ai_last_error = None,
                        ai_created_at_ns = now, ai_updated_at_ns = now\<rparr>
               in and_then (put_pending_chain_absorb i s) (\<lambda>s'. Ok (s', i))))"

definition missing_intent :: "u64 \<Rightarrow> stability_pool_error" where
  "missing_intent vault_id = LiquidationFailed vault_id ''missing pending chain absorb intent''"

definition mark_chain_absorb_burned ::
    "u64 \<Rightarrow> sp_writedown_proof \<Rightarrow> u64 \<Rightarrow> sp_state \<Rightarrow> (sp_state \<times> chain_sp_absorb_intent) sp_result" where
  "mark_chain_absorb_burned vault_id proof now s =
     and_then (ok_or (missing_intent vault_id) (bm_get (pending_absorbs s) vault_id)) (\<lambda>i.
       if ai_burn_proof i \<noteq> None \<and> ai_burn_proof i \<noteq> Some proof
       then Err (LiquidationFailed vault_id ''pending chain absorb burn proof conflicts with retry proof'')
       else
         let i' = i\<lparr>ai_burn_proof := Some proof, ai_status := AsBurned, ai_last_error := None, ai_updated_at_ns := now\<rparr>
         in and_then (put_pending_chain_absorb i' s) (\<lambda>s'. Ok (s', i')))"

definition mark_chain_absorb_backend_result ::
    "u64 \<Rightarrow> chain_sp_liquidation_result \<Rightarrow> u64 \<Rightarrow> sp_state \<Rightarrow> (sp_state \<times> chain_sp_absorb_intent) sp_result" where
  "mark_chain_absorb_backend_result vault_id result now s =
     and_then (ok_or (missing_intent vault_id) (bm_get (pending_absorbs s) vault_id)) (\<lambda>i.
       if ai_backend_result i \<noteq> None \<and> ai_backend_result i \<noteq> Some result
       then Err (LiquidationFailed vault_id ''pending chain absorb backend result conflicts with retry result'')
       else
         let i' = i\<lparr>ai_backend_result := Some result, ai_status := AsBackendAccepted, ai_last_error := None,
                    ai_updated_at_ns := now\<rparr>
         in and_then (put_pending_chain_absorb i' s) (\<lambda>s'. Ok (s', i')))"

definition mark_chain_absorb_error :: "u64 \<Rightarrow> absorb_status \<Rightarrow> string \<Rightarrow> u64 \<Rightarrow> sp_state \<Rightarrow> sp_state" where
  "mark_chain_absorb_error vault_id status reason now s =
     (case bm_get (pending_absorbs s) vault_id of
        None \<Rightarrow> s
      | Some i \<Rightarrow>
          (case put_pending_chain_absorb (i\<lparr>ai_status := status, ai_last_error := Some reason, ai_updated_at_ns := now\<rparr>) s of
             Ok s' \<Rightarrow> s' | _ \<Rightarrow> s))"

definition clear_unburned_chain_absorb_intent :: "u64 \<Rightarrow> sp_state \<Rightarrow> sp_state" where
  "clear_unburned_chain_absorb_intent vault_id s =
     (case bm_get (pending_absorbs s) vault_id of
        None \<Rightarrow> s
      | Some i \<Rightarrow>
          if ai_status i = AsPrepared \<and> ai_burn_proof i = None \<and> ai_backend_result i = None
          then take_pending_chain_absorb vault_id s else s)"

section \<open>Applying the result\<close>

definition chain_absorb_result_from_backend ::
    "chain_absorb_plan \<Rightarrow> chain_sp_liquidation_result \<Rightarrow> chain_sp_absorb_result sp_result" where
  "chain_absorb_result_from_backend plan r =
     (let failed = (\<lambda>reason. Err (LiquidationFailed (cp_vault_id plan) reason)) in
      if \<not> br_success r then failed ''backend reported unsuccessful chain absorb''
      else if br_vault_id r \<noteq> cp_vault_id plan \<or> br_chain_id r \<noteq> cp_chain_id plan
      then failed ''backend chain absorb result does not match requested vault''
      else if br_liquidated_debt_e8s r \<noteq> cp_icusd_to_burn_e8s plan
      then failed ''backend liquidated debt does not match SP burn''
      else if br_collateral_received_native r = 0 then failed ''backend returned zero chain collateral''
      else Ok \<lparr>ab_success = True, ab_vault_id = br_vault_id r, ab_chain_id = br_chain_id r,
               ab_icusd_burned_e8s = cp_icusd_to_burn_e8s plan, ab_liquidated_debt_e8s = br_liquidated_debt_e8s r,
               ab_collateral_received_native = br_collateral_received_native r, ab_claim_id = br_claim_id r,
               ab_custody_address = br_custody_address r, ab_block_index = br_block_index r,
               ab_collateral_price_e8s = br_collateral_price_e8s r\<rparr>)"

definition apply_chain_absorb_success ::
    "chain_absorb_plan \<Rightarrow> chain_sp_liquidation_result \<Rightarrow> u64 \<Rightarrow> sp_state \<Rightarrow> (sp_state \<times> chain_sp_absorb_result) sp_result" where
  "apply_chain_absorb_success plan result now s =
     and_then (chain_absorb_result_from_backend plan result) (\<lambda>absorbed.
       case completed_chain_absorb s (cp_vault_id plan) of
         Some c \<Rightarrow>
           if ac_result c = absorbed then Ok (s, ac_result c)
           else Err (LiquidationFailed (cp_vault_id plan) ''completed chain absorb conflicts with backend result'')
       | None \<Rightarrow>
           let s1 = record_chain_claim_source (cp_chain_sentinel plan) (ab_claim_id absorbed)
                      (ab_collateral_received_native absorbed) s;
               s2 = process_chain_liquidation_gains (cp_chain_sentinel plan) (cp_stables_consumed plan)
                      (ab_collateral_received_native absorbed) s1;
               s3 = take_pending_chain_absorb (cp_vault_id plan) s2
           in Ok (record_completed_chain_absorb
                    \<lparr>ac_vault_id = cp_vault_id plan, ac_result = absorbed, ac_completed_at_ns = now\<rparr> s3, absorbed))"

section \<open>The saga, split at its awaits\<close>

text \<open>What the endpoint does after its guards: it is done, or it waits for the next reply.\<close>

datatype absorb_next =
    AbsorbDone chain_sp_absorb_result
  | AwaitSubmit chain_absorb_plan sp_writedown_proof
  | AwaitResumePreflight chain_sp_absorb_intent
  | AwaitDiscovery

datatype 'a call_reply = Replied 'a | CallFailed

datatype ledger_reply = TransferOk nat | TransferDuplicate nat | TransferRejected string

definition sp_absorb_chain_vault_core ::
    "u64 \<Rightarrow> bool \<Rightarrow> bool \<Rightarrow> u64 \<Rightarrow> sp_state \<Rightarrow> (sp_state \<times> absorb_next) sp_result" where
  "sp_absorb_chain_vault_core vault_id balance_async_in_flight liquidation_active now s =
     (case completed_chain_absorb s vault_id of
        Some c \<Rightarrow> Ok (s, AbsorbDone (ac_result c))
      | None \<Rightarrow>
          if balance_async_in_flight \<or> liquidation_active then Err SystemBusy
          else and_then (ensure_no_other_pending_pool_absorb_for_chain s vault_id) (\<lambda>_.
            case bm_get (pending_absorbs s) vault_id of
              Some i \<Rightarrow>
                (case ai_backend_result i of
                   Some r \<Rightarrow> and_then (apply_chain_absorb_success (chain_absorb_plan_from_intent i) r now s)
                               (\<lambda>(s', a). Ok (s', AbsorbDone a))
                 | None \<Rightarrow>
                     (case ai_burn_proof i of
                        Some proof \<Rightarrow> Ok (s, AwaitSubmit (chain_absorb_plan_from_intent i) proof)
                      | None \<Rightarrow>
                          if pc_emergency_pause (sps_configuration s) then Err EmergencyPaused
                          else Ok (s, AwaitResumePreflight i)))
            | None \<Rightarrow>
                if pc_emergency_pause (sps_configuration s) then Err EmergencyPaused
                else Ok (s, AwaitDiscovery)))"

text \<open>The reply of the preflight of a resumed intent: a refusal forgets the intent, which has not burned anything.\<close>

definition resume_preflight_reply :: "u64 \<Rightarrow> unit sp_result \<Rightarrow> sp_state \<Rightarrow> sp_state \<times> unit sp_result" where
  "resume_preflight_reply vault_id reply s =
     (case reply of
        Ok _ \<Rightarrow> if pc_emergency_pause (sps_configuration s) then (s, Err EmergencyPaused) else (s, Ok ())
      | r \<Rightarrow> (clear_unburned_chain_absorb_intent vault_id s, r))"

text \<open>The reply of the burn on the icUSD ledger.\<close>

definition burn_icusd_reply :: "principal \<Rightarrow> u64 \<Rightarrow> u64 \<Rightarrow> ledger_reply call_reply \<Rightarrow> sp_writedown_proof sp_result" where
  "burn_icusd_reply ledger amount_e8s vault_id reply =
     (if amount_e8s = 0 then Err (AmountTooLow 1)
      else let proof = (\<lambda>block. if block \<le> u64_max
                 then Ok \<lparr>wp_block_index = block, wp_ledger_kind = IcusdBurn, wp_vault_id_memo = vault_id\<rparr>
                 else Err (LedgerTransferFailed (''ledger block index '' @ show_nat block @ '' does not fit in u64'')))
      in case reply of
        Replied (TransferOk block) \<Rightarrow> proof block
      | Replied (TransferDuplicate block) \<Rightarrow> proof block
      | Replied (TransferRejected e) \<Rightarrow> Err (LedgerTransferFailed e)
      | CallFailed \<Rightarrow> Err (InterCanisterCallFailed (Canister ledger) ''icrc1_transfer''))"

definition absorb_burn_reply ::
    "principal \<Rightarrow> u64 \<Rightarrow> u64 \<Rightarrow> ledger_reply call_reply \<Rightarrow> u64 \<Rightarrow> sp_state \<Rightarrow> sp_state \<times> sp_writedown_proof sp_result" where
  "absorb_burn_reply ledger amount_e8s vault_id reply now s =
     (case burn_icusd_reply ledger amount_e8s vault_id reply of
        Ok proof \<Rightarrow>
          (case mark_chain_absorb_burned vault_id proof now s of
             Ok (s', _) \<Rightarrow> (s', Ok proof)
           | Err e \<Rightarrow> (s, Err e)
           | Trap \<Rightarrow> (s, Trap))
      | Err e \<Rightarrow> (clear_unburned_chain_absorb_intent vault_id s, Err e)
      | Trap \<Rightarrow> (s, Trap))"

text \<open>The reply of the backend to a submitted burn proof, and the local accounting that follows an acceptance.\<close>

definition submit_chain_absorb_reply ::
    "u64 \<Rightarrow> (string + chain_sp_liquidation_result) call_reply \<Rightarrow> u64 \<Rightarrow> sp_state
       \<Rightarrow> sp_state \<times> chain_sp_liquidation_result sp_result" where
  "submit_chain_absorb_reply vault_id reply now s =
     (case reply of
        Replied (Inr r) \<Rightarrow>
          (case mark_chain_absorb_backend_result vault_id r now s of
             Ok (s', _) \<Rightarrow> (s', Ok r)
           | Err e \<Rightarrow> (s, Err e)
           | Trap \<Rightarrow> (s, Trap))
      | Replied (Inl e) \<Rightarrow>
          let reason = ''backend rejected chain absorb after burn: '' @ e in
          (mark_chain_absorb_error vault_id AsBackendRejected reason now s, Err (LiquidationFailed vault_id reason))
      | CallFailed \<Rightarrow>
          (mark_chain_absorb_error vault_id AsBurned ''backend call failed after icUSD burn'' now s,
           Err (InterCanisterCallFailed (Canister (sps_protocol_canister_id s)) ''stability_pool_liquidate_chain_vault'')))"

definition absorb_submit_and_apply ::
    "chain_absorb_plan \<Rightarrow> u64 \<Rightarrow> (string + chain_sp_liquidation_result) call_reply \<Rightarrow> u64 \<Rightarrow> sp_state
       \<Rightarrow> sp_state \<times> chain_sp_absorb_result sp_result" where
  "absorb_submit_and_apply plan vault_id reply now s =
     (case submit_chain_absorb_reply vault_id reply now s of
        (s1, Ok r) \<Rightarrow>
          (case apply_chain_absorb_success plan r now s1 of
             Ok (s2, a) \<Rightarrow> (s2, Ok a)
           | Err e \<Rightarrow> (s1, Err e)
           | Trap \<Rightarrow> (s1, Trap))
      | (s1, Err e) \<Rightarrow> (s1, Err e)
      | (s1, Trap) \<Rightarrow> (s1, Trap))"

section \<open>Payouts of native collateral\<close>

record cfx_claim_payout_plan =
  pp_claimant :: principal
  pp_chain_sentinel :: principal
  pp_claim_id :: u64
  pp_amount_wei :: u128
  pp_dest_evm :: string

definition cfx_owed :: "principal \<Rightarrow> deposit_position \<Rightarrow> u128" where
  "cfx_owed sentinel pos = (case dp_cfx_claims pos of None \<Rightarrow> 0 | Some m \<Rightarrow> bm_get_or 0 m sentinel)"

text \<open>The first funded source pays; it is dropped when it is spent, and so is a list of sources that is empty.\<close>

fun draw_source :: "u128 \<Rightarrow> chain_claim_source list \<Rightarrow> (u64 \<times> u128 \<times> chain_claim_source list) option" where
  "draw_source owed [] = None"
| "draw_source owed (x # xs) =
     (if cs_remaining_native x > 0
      then
        let amount = min owed (cs_remaining_native x); left = sat_sub (cs_remaining_native x) amount
        in Some (cs_claim_id x, amount, if left = 0 then xs else x\<lparr>cs_remaining_native := left\<rparr> # xs)
      else map_option (\<lambda>(i, a, ys). (i, a, x # ys)) (draw_source owed xs))"

definition prepare_cfx_claim_payout ::
    "(string \<Rightarrow> bool) \<Rightarrow> principal \<Rightarrow> principal \<Rightarrow> string \<Rightarrow> sp_state \<Rightarrow> (sp_state \<times> cfx_claim_payout_plan option) sp_result" where
  "prepare_cfx_claim_payout valid_address claimant sentinel dest_evm s =
     (if \<not> valid_address dest_evm then Err (LiquidationFailed 0 ''invalid EVM address'')
      else if \<not> is_chain_collateral_sentinel s sentinel then Err (CollateralNotFound sentinel)
      else
        let owed = (case bm_get (sps_deposits s) claimant of None \<Rightarrow> 0 | Some pos \<Rightarrow> cfx_owed sentinel pos) in
        if owed = 0 then Ok (s, None)
        else and_then (ok_or (LiquidationFailed 0 ''no backend chain claim source available'')
                         (bm_get (claim_sources s) sentinel)) (\<lambda>sources.
             and_then (ok_or (LiquidationFailed 0 ''no funded backend chain claim source available'')
                         (draw_source owed sources)) (\<lambda>(claim_id, amount, sources').
               let m = (if sources' = [] then bm_remove sentinel (claim_sources s)
                        else bm_insert sentinel sources' (claim_sources s))
               in Ok (mark_cfx_claimed claimant sentinel amount (s\<lparr>sps_chain_claim_sources := Some m\<rparr>),
                      Some \<lparr>pp_claimant = claimant, pp_chain_sentinel = sentinel, pp_claim_id = claim_id,
                            pp_amount_wei = amount, pp_dest_evm = dest_evm\<rparr>))))"

definition recredit_claim :: "principal \<Rightarrow> principal \<Rightarrow> u128 \<Rightarrow> sp_state \<Rightarrow> sp_state" where
  "recredit_claim claimant sentinel amount s =
     (let pos = (case bm_get (sps_deposits s) claimant of None \<Rightarrow> deposit_position_new 0 | Some p \<Rightarrow> p)
      in s\<lparr>sps_deposits := bm_insert claimant (credit_cfx sentinel amount pos) (sps_deposits s)\<rparr>)"

definition rollback_cfx_claim_payout :: "cfx_claim_payout_plan \<Rightarrow> sp_state \<Rightarrow> sp_state" where
  "rollback_cfx_claim_payout plan s =
     recredit_claim (pp_claimant plan) (pp_chain_sentinel plan) (pp_amount_wei plan)
       (record_chain_claim_source (pp_chain_sentinel plan) (pp_claim_id plan) (pp_amount_wei plan) s)"

definition max_completed_recoveries :: nat where
  "max_completed_recoveries = 10000"

definition recoveries :: "sp_state \<Rightarrow> (principal \<times> u64, cfx_claim_payout_recovery_record) bmap" where
  "recoveries s = opt_or bm_empty (sps_completed_recoveries s)"

fun oldest_recovery :: "((principal \<times> u64) \<times> cfx_claim_payout_recovery_record) list \<Rightarrow> (principal \<times> u64) option" where
  "oldest_recovery [] = None"
| "oldest_recovery [(k, r)] = Some k"
| "oldest_recovery ((k, r) # (k', r') # es) =
     (if (rr_recovered_at_ns r, k) \<le> (rr_recovered_at_ns r', k') then oldest_recovery ((k, r) # es)
      else oldest_recovery ((k', r') # es))"

definition evict_recovery :: "sp_state \<Rightarrow> sp_state" where
  "evict_recovery s =
     (case oldest_recovery (bm_entries (recoveries s)) of
        None \<Rightarrow> s
      | Some (sentinel, op_id) \<Rightarrow>
          let floors = opt_or bm_empty (sps_completed_recovery_floor s) in
          s\<lparr>sps_completed_recoveries := Some (bm_remove (sentinel, op_id) (recoveries s)),
            sps_completed_recovery_floor := Some (bm_insert sentinel (max (bm_get_or 0 floors sentinel) op_id) floors)\<rparr>)"

text \<open>One eviction for every entry above the cap.\<close>

definition record_completed_recovery :: "cfx_claim_payout_recovery_record \<Rightarrow> sp_state \<Rightarrow> sp_state" where
  "record_completed_recovery r s =
     (let s1 = s\<lparr>sps_completed_recoveries := Some (bm_insert (rr_chain_sentinel r, rr_op_id r) r (recoveries s))\<rparr>
      in (evict_recovery ^^ (length (bm_entries (recoveries s1)) - max_completed_recoveries)) s1)"

definition recovery_was_evicted :: "sp_state \<Rightarrow> principal \<Rightarrow> u64 \<Rightarrow> bool" where
  "recovery_was_evicted s sentinel op_id \<longleftrightarrow>
     (case bm_get (opt_or bm_empty (sps_completed_recovery_floor s)) sentinel of None \<Rightarrow> False | Some f \<Rightarrow> op_id \<le> f)"

definition recredit_failed_cfx_claim_payout ::
    "cfx_claim_payout_recovery \<Rightarrow> u64 \<Rightarrow> sp_state \<Rightarrow> (sp_state \<times> bool) sp_result" where
  "recredit_failed_cfx_claim_payout rec now s =
     (let sentinel = cr_chain_sentinel rec in
      if cr_amount_wei rec = 0 then Err (AmountTooLow 1)
      else if \<not> is_chain_collateral_sentinel s sentinel then Err (CollateralNotFound sentinel)
      else case bm_get (recoveries s) (sentinel, cr_op_id rec) of
        Some r \<Rightarrow>
          if rr_claim_id r = cr_claim_id rec \<and> rr_claimant r = cr_claimant rec \<and> rr_amount_wei r = cr_amount_wei rec
          then Ok (s, False)
          else Err (LiquidationFailed (cr_claim_id rec)
                      (''completed CFX claim payout recovery conflicts for op '' @ show_nat (cr_op_id rec)))
      | None \<Rightarrow>
          if recovery_was_evicted s sentinel (cr_op_id rec) then Ok (s, False)
          else
            Ok (record_completed_recovery
                  \<lparr>rr_chain_sentinel = sentinel, rr_op_id = cr_op_id rec, rr_claim_id = cr_claim_id rec,
                   rr_claimant = cr_claimant rec, rr_amount_wei = cr_amount_wei rec, rr_reason = cr_reason rec,
                   rr_failed_at_ns = cr_failed_at_ns rec, rr_recovered_at_ns = now\<rparr>
                  (recredit_claim (cr_claimant rec) sentinel (cr_amount_wei rec)
                    (record_chain_claim_source sentinel (cr_claim_id rec) (cr_amount_wei rec) s)), True))"

end
