(* ===== verification/Sp_Endpoints.thy ===== *)
theory Sp_Endpoints
  imports Sp_Absorb
begin

text \<open>
  The endpoints of the stability pool (\<^verbatim>\<open>lib.rs\<close>, \<^verbatim>\<open>deposits.rs\<close> and \<^verbatim>\<open>pool_guard.rs\<close> of \<^verbatim>\<open>src/stability_pool/src\<close>), split at their
  awaits. The canister is the state with its guards; the caller, the clock and the replies of the ledgers are
  arguments. An operation that may fail after it changed the state returns the state on every branch.
\<close>

section \<open>The canister\<close>

record sp_canister =
  spc_state :: sp_state
  spc_liquidation_active :: bool
  spc_balance_async :: u32
  spc_forward_active :: bool

abbreviation upd :: "(sp_state \<Rightarrow> sp_state) \<Rightarrow> sp_canister \<Rightarrow> sp_canister" where
  "upd f c \<equiv> c\<lparr>spc_state := f (spc_state c)\<rparr>"

abbreviation paused :: "sp_canister \<Rightarrow> bool" where
  "paused c \<equiv> pc_emergency_pause (sps_configuration (spc_state c))"

definition liquidation_guard_new :: "sp_canister \<Rightarrow> sp_canister sp_result" where
  "liquidation_guard_new c = (if spc_liquidation_active c then Err SystemBusy else Ok (c\<lparr>spc_liquidation_active := True\<rparr>))"

definition liquidation_guard_drop :: "sp_canister \<Rightarrow> sp_canister" where
  "liquidation_guard_drop c = c\<lparr>spc_liquidation_active := False\<rparr>"

definition balance_guard_new :: "sp_canister \<Rightarrow> sp_canister" where
  "balance_guard_new c = c\<lparr>spc_balance_async := sat_add32 (spc_balance_async c) 1\<rparr>"

definition balance_guard_drop :: "sp_canister \<Rightarrow> sp_canister" where
  "balance_guard_drop c = c\<lparr>spc_balance_async := sat_sub (spc_balance_async c) 1\<rparr>"

definition forward_guard_new :: "sp_canister \<Rightarrow> sp_canister sp_result" where
  "forward_guard_new c = (if spc_forward_active c then Err SystemBusy else Ok (c\<lparr>spc_forward_active := True\<rparr>))"

definition forward_guard_drop :: "sp_canister \<Rightarrow> sp_canister" where
  "forward_guard_drop c = c\<lparr>spc_forward_active := False\<rparr>"

definition pool_balance_mutation_blocked :: "sp_canister \<Rightarrow> bool" where
  "pool_balance_mutation_blocked c \<longleftrightarrow> spc_liquidation_active c \<or> has_pending_pool_absorbs (spc_state c)"

section \<open>Ledger fees\<close>

definition sp_default_ledger_fee :: u64 where
  "sp_default_ledger_fee = 10000"

definition fallback_ledger_fee :: "sp_state \<Rightarrow> principal \<Rightarrow> u64" where
  "fallback_ledger_fee s ledger =
     (case bm_get (sps_stablecoin_registry s) ledger of
        None \<Rightarrow> sp_default_ledger_fee
      | Some c \<Rightarrow> max (opt_or 0 (sc_transfer_fee c))
                     (opt_or sp_default_ledger_fee (known_stablecoin_transfer_fee (sc_symbol c) (sc_decimals c))))"

text \<open>The cached fee, or the reply of the ledger, which is cached when it came.\<close>

definition ledger_transfer_fee ::
    "sp_state \<Rightarrow> amounts \<Rightarrow> principal \<Rightarrow> nat call_reply \<Rightarrow> amounts \<times> u64" where
  "ledger_transfer_fee s cache ledger reply =
     (case bm_get cache ledger of
        Some fee \<Rightarrow> (cache, fee)
      | None \<Rightarrow>
          (case reply of
             Replied n \<Rightarrow> let fee = (if n \<le> u64_max then n else sp_default_ledger_fee) in (bm_insert ledger fee cache, fee)
           | CallFailed \<Rightarrow> (cache, fallback_ledger_fee s ledger)))"

section \<open>Refunds\<close>

text \<open>A refund pays the amount net of the fee; a failed payment is kept as a pending refund of the gross amount.\<close>

datatype refund_next = RefundDust | RefundTransfer u64

definition refund_user :: "u64 \<Rightarrow> u64 \<Rightarrow> refund_next" where
  "refund_user amount fee = (if amount \<le> fee then RefundDust else RefundTransfer (amount - fee))"

definition refund_user_reply ::
    "u64 \<Rightarrow> principal \<Rightarrow> principal \<Rightarrow> u64 \<Rightarrow> string \<Rightarrow> ledger_reply call_reply \<Rightarrow> sp_canister \<Rightarrow> sp_canister" where
  "refund_user_reply now user token_ledger amount reason reply c =
     (case reply of
        Replied (TransferOk _) \<Rightarrow> c
      | Replied (TransferDuplicate _) \<Rightarrow> c
      | Replied (TransferRejected e) \<Rightarrow>
          upd (\<lambda>s. fst (record_pending_refund user token_ledger amount (reason @ ''; refund transfer failed: '' @ e) now s)) c
      | CallFailed \<Rightarrow>
          upd (\<lambda>s. fst (record_pending_refund user token_ledger amount (reason @ ''; refund call failed'') now s)) c)"

section \<open>Deposits\<close>

definition deposit_begin :: "principal \<Rightarrow> u64 \<Rightarrow> sp_canister \<Rightarrow> unit sp_result" where
  "deposit_begin token_ledger amount c =
     (if pool_balance_mutation_blocked c then Err SystemBusy
      else and_then (ok_or (TokenNotAccepted token_ledger) (bm_get (sps_stablecoin_registry (spc_state c)) token_ledger)) (\<lambda>cfg.
        let minimum = pc_min_deposit_e8s (sps_configuration (spc_state c)) in
        if \<not> sc_is_active cfg then Err (TokenNotActive token_ledger)
        else if normalize_to_e8s amount (sc_decimals cfg) < minimum then Err (AmountTooLow minimum)
        else if paused c then Err EmergencyPaused
        else Ok ()))"

definition record_deposit_credit :: "u64 \<Rightarrow> principal \<Rightarrow> principal \<Rightarrow> u64 \<Rightarrow> sp_canister \<Rightarrow> sp_canister sp_result" where
  "record_deposit_credit now caller token_ledger amount c =
     (if pool_balance_mutation_blocked c then Err SystemBusy
      else Ok (upd (\<lambda>s. push_event now caller (EvDeposit token_ledger amount) (add_deposit now caller token_ledger amount s)) c))"

datatype deposit_next = DepositCredited | DepositRefund stability_pool_error | DepositFailed stability_pool_error

definition deposit_reply ::
    "u64 \<Rightarrow> principal \<Rightarrow> principal \<Rightarrow> u64 \<Rightarrow> ledger_reply call_reply \<Rightarrow> sp_canister \<Rightarrow> sp_canister \<times> deposit_next" where
  "deposit_reply now caller token_ledger amount reply c =
     (let credit_or_refund = (case record_deposit_credit now caller token_ledger amount c of
            Ok c' \<Rightarrow> (c', DepositCredited) | Err e \<Rightarrow> (c, DepositRefund e) | Trap \<Rightarrow> (c, DepositFailed SystemBusy))
      in case reply of
        Replied (TransferOk _) \<Rightarrow> credit_or_refund
      | Replied (TransferDuplicate _) \<Rightarrow> credit_or_refund
      | Replied (TransferRejected e) \<Rightarrow> (c, DepositFailed (LedgerTransferFailed e))
      | CallFailed \<Rightarrow> (c, DepositFailed (InterCanisterCallFailed (Canister token_ledger) ''icrc2_transfer_from'')))"

section \<open>Withdrawals\<close>

definition withdraw_begin :: "sp_canister \<Rightarrow> unit sp_result" where
  "withdraw_begin c =
     (if pool_balance_mutation_blocked c then Err SystemBusy
      else if paused c then Err EmergencyPaused
      else Ok ())"

definition prepare_withdrawal_after_ledger_check ::
    "u64 \<Rightarrow> principal \<Rightarrow> principal \<Rightarrow> u64 \<Rightarrow> u64 option \<Rightarrow> u64 \<Rightarrow> sp_state \<Rightarrow> sp_state \<times> u64 sp_result" where
  "prepare_withdrawal_after_ledger_check now caller token_ledger requested ledger_balance ledger_fee s =
     (let user_balance = (case bm_get (sps_deposits s) caller of None \<Rightarrow> 0 | Some pos \<Rightarrow> balance_of token_ledger pos);
          aggregate = bm_get_or 0 (sps_total_stablecoin_balances s) token_ledger;
          withdraw = (\<lambda>s amount. case process_withdrawal caller token_ledger amount s of
                        Ok s' \<Rightarrow> (s', Ok amount) | Err e \<Rightarrow> (s, Err e) | Trap \<Rightarrow> (s, Trap))
      in case ledger_balance of
        None \<Rightarrow> withdraw s requested
      | Some live \<Rightarrow>
          if live < aggregate then
            if live \<le> ledger_fee then (s, Err (AmountTooLow (wrap64 (ledger_fee + 1))))
            else if user_balance > 0 \<and> user_balance = aggregate \<and> (requested = user_balance \<or> requested = live)
            then withdraw (push_event now caller (EvBalanceCorrected caller token_ledger live)
                             (fst (correct_balance caller token_ledger live s))) live
            else (s, Err InsufficientPoolBalance)
          else if live < requested then (s, Err InsufficientPoolBalance)
          else withdraw s requested)"

text \<open>After the two queries: the deduction, and the transfer of what is left after the fee.\<close>

definition withdraw_deduct ::
    "u64 \<Rightarrow> principal \<Rightarrow> principal \<Rightarrow> u64 \<Rightarrow> u64 option \<Rightarrow> u64 \<Rightarrow> sp_canister \<Rightarrow> sp_canister \<times> (u64 \<times> u64) sp_result" where
  "withdraw_deduct now caller token_ledger amount ledger_balance ledger_fee c =
     (if amount \<le> ledger_fee then (c, Err (AmountTooLow (wrap64 (ledger_fee + 1))))
      else case prepare_withdrawal_after_ledger_check now caller token_ledger amount ledger_balance ledger_fee (spc_state c) of
        (s', Ok n) \<Rightarrow> (balance_guard_new (c\<lparr>spc_state := s'\<rparr>), Ok (n, n - ledger_fee))
      | (s', Err e) \<Rightarrow> (c\<lparr>spc_state := s'\<rparr>, Err e)
      | (_, Trap) \<Rightarrow> (c, Trap))"

definition withdraw_reply ::
    "u64 \<Rightarrow> principal \<Rightarrow> principal \<Rightarrow> u64 \<Rightarrow> ledger_reply call_reply \<Rightarrow> sp_canister \<Rightarrow> sp_canister \<times> unit sp_result" where
  "withdraw_reply now caller token_ledger withdrawn reply c =
     (let c = balance_guard_drop c;
          done = (upd (push_event now caller (EvWithdraw token_ledger withdrawn)) c, Ok ());
          restored = upd (add_deposit now caller token_ledger withdrawn) c
      in case reply of
        Replied (TransferOk _) \<Rightarrow> done
      | Replied (TransferDuplicate _) \<Rightarrow> done
      | Replied (TransferRejected e) \<Rightarrow> (restored, Err (LedgerTransferFailed e))
      | CallFailed \<Rightarrow> (restored, Err (InterCanisterCallFailed (Canister token_ledger) ''icrc1_transfer'')))"

section \<open>Claims of collateral\<close>

definition fallback_collateral_fee :: u64 where
  "fallback_collateral_fee = 10000"

definition claim_collateral_begin :: "principal \<Rightarrow> principal \<Rightarrow> sp_canister \<Rightarrow> sp_canister \<times> u64 sp_result" where
  "claim_collateral_begin caller collateral_ledger c =
     (if pool_balance_mutation_blocked c then (c, Err SystemBusy)
      else if paused c then (c, Err EmergencyPaused)
      else case ensure_icrc_claimable_collateral collateral_ledger of
        Ok _ \<Rightarrow>
          let amount = bm_get_or 0 (get_collateral_gains (spc_state c) caller) collateral_ledger in
          (if amount > 0 then upd (mark_gains_claimed caller collateral_ledger amount) c else c, Ok amount)
      | Err e \<Rightarrow> (c, Err e)
      | Trap \<Rightarrow> (c, Trap))"

text \<open>The restoration of the three failure branches: only where the position is still there.\<close>

definition restore_gains :: "principal \<Rightarrow> principal \<Rightarrow> u64 \<Rightarrow> sp_state \<Rightarrow> sp_state" where
  "restore_gains caller collateral_ledger gains s =
     s\<lparr>sps_deposits := bm_modify caller (\<lambda>pos. pos\<lparr>
          dp_collateral_gains := credit collateral_ledger gains (dp_collateral_gains pos),
          dp_total_claimed_gains := bm_modify collateral_ledger (\<lambda>x. sat_sub x gains) (dp_total_claimed_gains pos)\<rparr>)
        (sps_deposits s)\<rparr>"

definition collateral_fee :: "nat call_reply \<Rightarrow> u64" where
  "collateral_fee reply = (case reply of Replied n \<Rightarrow> if n \<le> u128_max then wrap64 n else 0 | CallFailed \<Rightarrow> fallback_collateral_fee)"

definition claim_collateral_fee ::
    "principal \<Rightarrow> principal \<Rightarrow> u64 \<Rightarrow> nat call_reply \<Rightarrow> sp_canister \<Rightarrow> sp_canister \<times> u64 option" where
  "claim_collateral_fee caller collateral_ledger gains reply c =
     (let fee = collateral_fee reply in
      if gains \<le> fee then (upd (restore_gains caller collateral_ledger gains) c, None)
      else (c, Some (gains - fee)))"

definition claim_collateral_reply ::
    "u64 \<Rightarrow> principal \<Rightarrow> principal \<Rightarrow> u64 \<Rightarrow> u64 \<Rightarrow> ledger_reply call_reply \<Rightarrow> sp_canister \<Rightarrow> sp_canister \<times> u64 sp_result" where
  "claim_collateral_reply now caller collateral_ledger gains transfer_amount reply c =
     (let paid = (upd (push_event now caller (EvClaimCollateral collateral_ledger transfer_amount)) c, Ok transfer_amount);
          restored = upd (restore_gains caller collateral_ledger gains) c
      in case reply of
        Replied (TransferOk _) \<Rightarrow> paid
      | Replied (TransferDuplicate _) \<Rightarrow> paid
      | Replied (TransferRejected e) \<Rightarrow> (restored, Err (LedgerTransferFailed e))
      | CallFailed \<Rightarrow> (restored, Err (InterCanisterCallFailed (Canister collateral_ledger) ''icrc1_transfer'')))"

section \<open>Pending refunds\<close>

definition claim_pending_refund_begin :: "principal \<Rightarrow> u64 \<Rightarrow> sp_canister \<Rightarrow> sp_canister \<times> pending_refund sp_result" where
  "claim_pending_refund_begin caller refund_id c =
     (if pool_balance_mutation_blocked c then (c, Err SystemBusy)
      else case take_pending_refund refund_id (spc_state c) of
        (_, None) \<Rightarrow> (c, Err RefundClaimNotFound)
      | (s', Some r) \<Rightarrow>
          if caller \<noteq> pr_user r \<and> \<not> is_admin s' caller
          then (c\<lparr>spc_state := put_pending_refund r s'\<rparr>, Err Unauthorized)
          else (c\<lparr>spc_state := s'\<rparr>, Ok r))"

definition claim_pending_refund_fee :: "pending_refund \<Rightarrow> u64 \<Rightarrow> u64 option" where
  "claim_pending_refund_fee r fee = (if pr_amount r \<le> fee then None else Some (pr_amount r - fee))"

definition claim_pending_refund_reply ::
    "pending_refund \<Rightarrow> u64 \<Rightarrow> ledger_reply call_reply \<Rightarrow> sp_canister \<Rightarrow> sp_canister \<times> u64 sp_result" where
  "claim_pending_refund_reply r net reply c =
     (case reply of
        Replied (TransferOk _) \<Rightarrow> (c, Ok net)
      | Replied (TransferDuplicate _) \<Rightarrow> (c, Ok net)
      | Replied (TransferRejected e) \<Rightarrow> (upd (put_pending_refund r) c, Err (LedgerTransferFailed e))
      | CallFailed \<Rightarrow> (upd (put_pending_refund r) c,
                       Err (InterCanisterCallFailed (Canister (pr_token_ledger r)) ''icrc1_transfer'')))"

section \<open>Interest\<close>

definition interest_guards :: "principal \<Rightarrow> principal \<Rightarrow> sp_canister \<Rightarrow> unit sp_result" where
  "interest_guards caller token_ledger c =
     (if caller \<noteq> sps_protocol_canister_id (spc_state c) then Err Unauthorized
      else if pool_balance_mutation_blocked c then Err SystemBusy
      else if paused c then Err EmergencyPaused
      else if \<not> bm_has (sps_stablecoin_registry (spc_state c)) token_ledger then Err (TokenNotAccepted token_ledger)
      else Ok ())"

definition receive_interest_revenue ::
    "u64 \<Rightarrow> principal \<Rightarrow> principal \<Rightarrow> u64 \<Rightarrow> principal option \<Rightarrow> sp_canister \<Rightarrow> sp_canister sp_result" where
  "receive_interest_revenue now caller token_ledger amount collateral_type c =
     and_then (interest_guards caller token_ledger c) (\<lambda>_.
       Ok (upd (\<lambda>s. push_event now caller (EvInterestReceived token_ledger amount)
                      (distribute_interest_revenue token_ledger amount collateral_type s)) c))"

text \<open>Version 2 returns the batch to forward where nobody may receive the interest.\<close>

definition receive_interest_revenue_v2 ::
    "u64 \<Rightarrow> principal \<Rightarrow> principal \<Rightarrow> u64 \<Rightarrow> principal option \<Rightarrow> u64 \<Rightarrow> sp_canister \<Rightarrow> (sp_canister \<times> u64 option) sp_result" where
  "receive_interest_revenue_v2 now caller token_ledger amount collateral_type source_mint_block c =
     and_then (interest_guards caller token_ledger c) (\<lambda>_.
       if has_eligible_interest_recipient collateral_type (spc_state c)
       then Ok (upd (\<lambda>s. push_event now caller (EvInterestReceived token_ledger amount)
                           (distribute_interest_revenue token_ledger amount collateral_type s)) c, None)
       else
         let (s', batch_id) = queue_unallocated_interest_forward source_mint_block token_ledger amount now (spc_state c)
         in Ok (c\<lparr>spc_state := s'\<rparr>, Some batch_id))"

datatype forward_next =
    ForwardDone
  | ForwardFee principal
  | ForwardTransfer principal principal u64 u64 u64 bytes
  | ForwardRecord principal u64 u64 "u64 list"

text \<open>What follows once the batch has its fee: dust, the transfer, or the record at the treasury.\<close>

definition forward_step :: "unallocated_interest_forward_batch \<Rightarrow> principal \<Rightarrow> forward_next sp_result" where
  "forward_step b treasury =
     and_then (ok_or (LedgerTransferFailed ''unallocated interest forward missing persisted fee'') (ub_fee b)) (\<lambda>fee.
       if ub_gross_amount b \<le> fee then Ok ForwardDone
       else
         let net = ub_gross_amount b - fee in
         case ub_transfer_block_index b of
           Some block \<Rightarrow> Ok (ForwardRecord treasury net block (ub_source_mint_blocks b))
         | None \<Rightarrow>
             and_then (ok_or (LedgerTransferFailed ''unallocated interest forward missing timestamp'') (ub_transfer_created_at_ns b))
               (\<lambda>created_at. Ok (ForwardTransfer (ub_token_ledger b) treasury net fee created_at
                  (ascii_bytes ''RUMI-SP-INT-FWD'' @ be_bytes 8 (ub_id b)))))"

definition process_forward_begin :: "u64 \<Rightarrow> sp_canister \<Rightarrow> (sp_canister \<times> forward_next) sp_result" where
  "process_forward_begin batch_id c =
     and_then (forward_guard_new c) (\<lambda>c'.
     and_then (ok_or RefundClaimNotFound (bm_get (batches (spc_state c)) batch_id)) (\<lambda>b.
       if ub_treasury_recorded b then Ok (c, ForwardDone)
       else case ub_treasury b of
         None \<Rightarrow> Ok (c, ForwardDone)
       | Some treasury \<Rightarrow>
           if ub_transfer_block_index b = None \<and> ub_fee b = None then Ok (c', ForwardFee treasury)
           else and_then (forward_step b treasury) (\<lambda>n. Ok (if n = ForwardDone then c else c', n))))"

definition process_forward_fee :: "u64 \<Rightarrow> u64 \<Rightarrow> u64 \<Rightarrow> principal \<Rightarrow> sp_canister \<Rightarrow> sp_canister \<times> forward_next sp_result" where
  "process_forward_fee now batch_id fee treasury c =
     (case prepare_unallocated_interest_forward batch_id fee now (spc_state c) of
        Ok (s', b) \<Rightarrow>
          (case forward_step b treasury of
             Ok ForwardDone \<Rightarrow> (forward_guard_drop (c\<lparr>spc_state := s'\<rparr>), Ok ForwardDone)
           | Ok n \<Rightarrow> (c\<lparr>spc_state := s'\<rparr>, Ok n)
           | r \<Rightarrow> (forward_guard_drop (c\<lparr>spc_state := s'\<rparr>), r))
      | Err e \<Rightarrow> (forward_guard_drop c, Err e)
      | Trap \<Rightarrow> (forward_guard_drop c, Trap))"

datatype forward_reply = FwdSent nat | FwdDuplicate nat | FwdBadFee nat | FwdTooOld | FwdRejected string

text \<open>The transfer of a batch: an answer of the ledger, then the record, which uses the amounts of the batch it sent.\<close>

definition process_forward_transfer ::
    "u64 \<Rightarrow> principal \<Rightarrow> u64 \<Rightarrow> u64 list \<Rightarrow> principal \<Rightarrow> forward_reply call_reply \<Rightarrow> sp_canister
       \<Rightarrow> sp_canister \<times> forward_next sp_result" where
  "process_forward_transfer batch_id treasury net blocks ledger reply c =
     (let sent = (\<lambda>n reason. if n \<le> u64_max
                   then (upd (mark_unallocated_interest_forward_transferred batch_id n) c, Ok (ForwardRecord treasury net n blocks))
                   else (forward_guard_drop c, Err (LedgerTransferFailed reason)))
      in case reply of
        Replied (FwdSent n) \<Rightarrow> sent n ''treasury transfer block index exceeds u64''
      | Replied (FwdDuplicate n) \<Rightarrow> sent n ''duplicate treasury transfer block index exceeds u64''
      | Replied (FwdBadFee fee) \<Rightarrow>
          if fee \<le> u64_max
          then (forward_guard_drop (upd (update_unallocated_interest_forward_fee batch_id fee) c),
                Err (LedgerTransferFailed ''ledger transfer fee changed; retry queued treasury forward''))
          else (forward_guard_drop c, Err (LedgerTransferFailed ''treasury transfer fee exceeds u64''))
      | Replied FwdTooOld \<Rightarrow>
          (forward_guard_drop (upd (record_unallocated_interest_forward_error batch_id
             ''ICRC dedup window expired; verify the ledger transfer and confirm its block before retrying'') c),
           Err (LedgerTransferFailed ''unallocated interest transfer is too old; reconciliation required''))
      | Replied (FwdRejected e) \<Rightarrow>
          (forward_guard_drop c, Err (LedgerTransferFailed (''unallocated interest transfer failed: '' @ e)))
      | CallFailed \<Rightarrow> (forward_guard_drop c, Err (InterCanisterCallFailed (Canister ledger) ''icrc1_transfer'')))"

definition process_forward_record ::
    "u64 \<Rightarrow> principal \<Rightarrow> (string + u64) call_reply \<Rightarrow> sp_canister \<Rightarrow> sp_canister \<times> unit sp_result" where
  "process_forward_record batch_id treasury reply c =
     (case reply of
        Replied (Inr _) \<Rightarrow> (forward_guard_drop (upd (mark_unallocated_interest_forward_recorded batch_id) c), Ok ())
      | Replied (Inl reason) \<Rightarrow> (forward_guard_drop c, Err (LedgerTransferFailed reason))
      | CallFailed \<Rightarrow> (forward_guard_drop c,
          Err (InterCanisterCallFailed (Canister treasury) ''record_stability_pool_unallocated_interest'')))"

section \<open>Preferences and administration\<close>

text \<open>The four endpoints for preferences share their shape: blocked while a liquidation runs, logged on success.\<close>

definition preference_endpoint ::
    "(principal \<Rightarrow> principal \<Rightarrow> sp_state \<Rightarrow> sp_state sp_result) \<Rightarrow> (principal \<Rightarrow> pool_event_type)
       \<Rightarrow> u64 \<Rightarrow> principal \<Rightarrow> principal \<Rightarrow> sp_canister \<Rightarrow> sp_canister sp_result" where
  "preference_endpoint f ev now caller collateral_type c =
     (if pool_balance_mutation_blocked c then Err SystemBusy
      else and_then (f caller collateral_type (spc_state c))
             (\<lambda>s'. Ok (c\<lparr>spc_state := push_event now caller (ev collateral_type) s'\<rparr>)))"

definition opt_out_collateral_endpoint :: "u64 \<Rightarrow> principal \<Rightarrow> principal \<Rightarrow> sp_canister \<Rightarrow> sp_canister sp_result" where
  "opt_out_collateral_endpoint = preference_endpoint opt_out_collateral EvOptOutCollateral"

definition opt_in_collateral_endpoint :: "u64 \<Rightarrow> principal \<Rightarrow> principal \<Rightarrow> sp_canister \<Rightarrow> sp_canister sp_result" where
  "opt_in_collateral_endpoint = preference_endpoint opt_in_collateral EvOptInCollateral"

definition opt_in_cfx_endpoint :: "u64 \<Rightarrow> principal \<Rightarrow> principal \<Rightarrow> sp_canister \<Rightarrow> sp_canister sp_result" where
  "opt_in_cfx_endpoint = preference_endpoint opt_in_cfx EvOptInCollateral"

definition opt_out_cfx_endpoint :: "u64 \<Rightarrow> principal \<Rightarrow> principal \<Rightarrow> sp_canister \<Rightarrow> sp_canister sp_result" where
  "opt_out_cfx_endpoint = preference_endpoint opt_out_cfx EvOptOutCollateral"

definition admin_endpoint ::
    "(sp_state \<Rightarrow> sp_state sp_result) \<Rightarrow> pool_event_type \<Rightarrow> u64 \<Rightarrow> principal \<Rightarrow> sp_canister \<Rightarrow> sp_canister sp_result" where
  "admin_endpoint f ev now caller c =
     (if \<not> is_admin (spc_state c) caller then Err Unauthorized
      else and_then (f (spc_state c)) (\<lambda>s'. Ok (c\<lparr>spc_state := push_event now caller ev s'\<rparr>)))"

definition register_stablecoin_endpoint :: "u64 \<Rightarrow> principal \<Rightarrow> stablecoin_config \<Rightarrow> sp_canister \<Rightarrow> sp_canister sp_result" where
  "register_stablecoin_endpoint now caller cfg =
     admin_endpoint (Ok \<circ> register_stablecoin cfg) (EvStablecoinRegistered (sc_ledger_id cfg) (sc_symbol cfg)) now caller"

definition register_collateral_endpoint :: "u64 \<Rightarrow> principal \<Rightarrow> collateral_info \<Rightarrow> sp_canister \<Rightarrow> sp_canister sp_result" where
  "register_collateral_endpoint now caller info =
     admin_endpoint (Ok \<circ> register_collateral info) (EvCollateralRegistered (ci_ledger_id info) (ci_symbol info)) now caller"

definition register_cfx_collateral_endpoint :: "u64 \<Rightarrow> principal \<Rightarrow> u32 \<Rightarrow> sp_canister \<Rightarrow> sp_canister sp_result" where
  "register_cfx_collateral_endpoint now caller chain_id =
     admin_endpoint (\<lambda>s. Ok (fst (register_chain_collateral chain_id ''CFX'' 18 s)))
       (EvCollateralRegistered (chain_collateral_sentinel chain_id) ''CFX'') now caller"

definition update_pool_configuration :: "u64 \<Rightarrow> principal \<Rightarrow> pool_configuration \<Rightarrow> sp_canister \<Rightarrow> sp_canister sp_result" where
  "update_pool_configuration now caller new_config =
     admin_endpoint (\<lambda>s. Ok (s\<lparr>sps_configuration := new_config\<rparr>)) EvConfigurationUpdated now caller"

definition emergency_pause :: "u64 \<Rightarrow> principal \<Rightarrow> sp_canister \<Rightarrow> sp_canister sp_result" where
  "emergency_pause now caller =
     admin_endpoint (\<lambda>s. Ok (s\<lparr>sps_configuration := (sps_configuration s)\<lparr>pc_emergency_pause := True\<rparr>\<rparr>))
       EvEmergencyPauseActivated now caller"

definition resume_operations :: "u64 \<Rightarrow> principal \<Rightarrow> sp_canister \<Rightarrow> sp_canister sp_result" where
  "resume_operations now caller =
     admin_endpoint (\<lambda>s. Ok (s\<lparr>sps_configuration := (sps_configuration s)\<lparr>pc_emergency_pause := False\<rparr>\<rparr>))
       EvOperationsResumed now caller"

definition set_interest_treasury_endpoint :: "u64 \<Rightarrow> principal \<Rightarrow> principal option \<Rightarrow> sp_canister \<Rightarrow> sp_canister sp_result" where
  "set_interest_treasury_endpoint now caller treasury =
     admin_endpoint (set_interest_treasury treasury) EvConfigurationUpdated now caller"

definition admin_correct_balance ::
    "u64 \<Rightarrow> principal \<Rightarrow> principal \<Rightarrow> principal \<Rightarrow> u64 \<Rightarrow> sp_canister \<Rightarrow> sp_canister sp_result" where
  "admin_correct_balance now caller user token_ledger amount c =
     admin_endpoint (\<lambda>s. if pool_balance_mutation_blocked c then Err SystemBusy
                         else Ok (fst (correct_balance user token_ledger amount s)))
       (EvBalanceCorrected user token_ledger amount) now caller c"

definition admin_correct_collateral_gain ::
    "u64 \<Rightarrow> principal \<Rightarrow> principal \<Rightarrow> principal \<Rightarrow> u64 \<Rightarrow> sp_canister \<Rightarrow> sp_canister sp_result" where
  "admin_correct_collateral_gain now caller user collateral_ledger amount =
     admin_endpoint (\<lambda>s. Ok (fst (correct_collateral_gain user collateral_ledger amount s)))
       (EvCollateralGainCorrected user collateral_ledger amount) now caller"

definition recredit_failed_cfx_claim_payout_endpoint ::
    "u64 \<Rightarrow> principal \<Rightarrow> cfx_claim_payout_recovery \<Rightarrow> sp_canister \<Rightarrow> (sp_canister \<times> bool) sp_result" where
  "recredit_failed_cfx_claim_payout_endpoint now caller recovery c =
     (if caller \<noteq> sps_protocol_canister_id (spc_state c) then Err Unauthorized
      else and_then (recredit_failed_cfx_claim_payout recovery now (spc_state c)) (\<lambda>(s', b). Ok (c\<lparr>spc_state := s'\<rparr>, b)))"

section \<open>Payouts of native collateral\<close>

definition claim_cfx_begin ::
    "(string \<Rightarrow> bool) \<Rightarrow> principal \<Rightarrow> principal \<Rightarrow> string \<Rightarrow> sp_canister \<Rightarrow> (sp_canister \<times> cfx_claim_payout_plan option) sp_result" where
  "claim_cfx_begin valid_address caller sentinel dest_evm c =
     (if pool_balance_mutation_blocked c then Err SystemBusy
      else if caller = principal_anonymous then Err Unauthorized
      else if paused c then Err EmergencyPaused
      else and_then (prepare_cfx_claim_payout valid_address caller sentinel dest_evm (spc_state c))
             (\<lambda>(s', p). Ok (c\<lparr>spc_state := s'\<rparr>, p)))"

text \<open>The backend answers with an operation id, a duplicate of the claim's idempotency key, or another error.\<close>

datatype backend_claim_reply = ClaimQueued u64 | ClaimDuplicate | ClaimRejected string

definition claim_cfx_reply ::
    "cfx_claim_payout_plan \<Rightarrow> backend_claim_reply call_reply \<Rightarrow> sp_canister \<Rightarrow> sp_canister \<times> u128 sp_result" where
  "claim_cfx_reply plan reply c =
     (case reply of
        Replied (ClaimQueued _) \<Rightarrow> (c, Ok (pp_amount_wei plan))
      | Replied ClaimDuplicate \<Rightarrow> (c, Ok (pp_amount_wei plan))
      | Replied (ClaimRejected e) \<Rightarrow>
          (upd (rollback_cfx_claim_payout plan) c, Err (LiquidationFailed (pp_claim_id plan) (''backend rejected CFX claim: '' @ e)))
      | CallFailed \<Rightarrow>
          (upd (rollback_cfx_claim_payout plan) c,
           Err (InterCanisterCallFailed (Canister (sps_protocol_canister_id (spc_state c))) ''claim_chain_collateral'')))"

end
