(* ===== verification/Sp_Books.thy ===== *)
theory Sp_Books
  imports Sp_Endpoints
begin

text \<open>
  The books of the stability pool: for every token the aggregate the pool tracks is the sum of the balances of its
  depositors (\<open>sp_books\<close>), and every operation that an endpoint reaches keeps it so. The additive operations ask
  for room below the width of the counters. The lemmas on folds over the deposits are shared by the distribution of
  interest, the fees and the two forms of liquidation.
\<close>

section \<open>Sums over the deposits\<close>

lemma bm_sum_modify:
  assumes "bm_has m k" and "\<And>v. bm_get m k = Some v \<Longrightarrow> g (f v) = g v + (d :: nat)"
  shows "bm_sum g (bm_modify k f m) = bm_sum g m + d"
proof -
  obtain v where v: "bm_get m k = Some v" using assms(1) by (auto simp: bm_has_def)
  then have "bm_sum g (bm_modify k f m) + g v = bm_sum g m + g (f v)"
    by (simp add: bm_modify_def bm_sum_insert_old)
  with assms(2) [OF v] show ?thesis by simp
qed

lemma bm_sum_modify_keep:
  assumes "\<And>v. bm_get m k = Some v \<Longrightarrow> g (f v) = (g v :: nat)"
  shows "bm_sum g (bm_modify k f m) = bm_sum g m"
  using assms by (auto simp: bm_modify_def bm_sum_insert_same split: option.splits)

lemma foldl_modify_keep:
  assumes "\<And>x v. g (f x v) = (g v :: nat)"
  shows "bm_sum g (foldl (\<lambda>ds x. bm_modify (key x) (f x) ds) m xs) = bm_sum g m"
  by (induction xs arbitrary: m) (simp_all add: bm_sum_modify_keep assms)

text \<open>Credits that fit add up exactly.\<close>

lemma foldl_modify_add:
  assumes "\<forall>x \<in> set xs. bm_has m (key x)"
    and "\<And>x v. x \<in> set xs \<Longrightarrow> g v + amt x \<le> (B :: nat) \<Longrightarrow> g (f x v) = g v + amt x"
    and "bm_sum g m + sum_list (map amt xs) \<le> B"
  shows "bm_sum g (foldl (\<lambda>ds x. bm_modify (key x) (f x) ds) m xs) = bm_sum g m + sum_list (map amt xs)"
  using assms
proof (induction xs arbitrary: m)
  case (Cons x xs)
  have one: "bm_sum g (bm_modify (key x) (f x) m) = bm_sum g m + amt x"
  proof (rule bm_sum_modify)
    show "bm_has m (key x)" using Cons.prems(1) by simp
    show "g (f x v) = g v + amt x" if "bm_get m (key x) = Some v" for v
      using Cons.prems(2) [of x v] Cons.prems(3) bm_sum_ge [OF that, of g] by simp
  qed
  have "bm_sum g (foldl (\<lambda>ds x. bm_modify (key x) (f x) ds) (bm_modify (key x) (f x) m) xs)
      = bm_sum g (bm_modify (key x) (f x) m) + sum_list (map amt xs)"
    using Cons.prems one by (intro Cons.IH) auto
  with one show ?case by simp
qed simp

lemma bm_has_foldl_modify [simp]:
  "bm_has (foldl (\<lambda>ds x. bm_modify (key x) (f x) ds) m xs) k \<longleftrightarrow> bm_has m k"
  by (induction xs arbitrary: m) simp_all

lemma get_foldl_modify:
  assumes "distinct (map fst xs)"
  shows "bm_get (foldl (\<lambda>ds x. bm_modify (fst x) (f (snd x)) ds) m xs) k
       = (case map_of xs k of None \<Rightarrow> bm_get m k | Some y \<Rightarrow> map_option (f y) (bm_get m k))"
  using assms
proof (induction xs arbitrary: m)
  case (Cons x xs)
  moreover have "k = fst x \<Longrightarrow> map_of xs k = None" using Cons.prems by (simp add: map_of_eq_None_iff)
  ultimately show ?case by (cases x) (auto split: option.splits)
qed simp

text \<open>Rewriting the entries that satisfy a predicate, in their order, is a map over the values.\<close>

lemma get_foldl_insert:
  assumes "distinct (map fst es)"
  shows "bm_get (foldl (\<lambda>ds (p, v). bm_insert p (F v) ds) m es) k
       = (case map_of es k of None \<Rightarrow> bm_get m k | Some v \<Rightarrow> Some (F v))"
  using assms
proof (induction es arbitrary: m)
  case (Cons e es)
  obtain p v where e: "e = (p, v)" by (cases e)
  have "bm_get (foldl (\<lambda>ds (p, v). bm_insert p (F v) ds) (bm_insert p (F v) m) es) k
      = (case map_of es k of None \<Rightarrow> bm_get (bm_insert p (F v) m) k | Some v \<Rightarrow> Some (F v))"
    using Cons by (simp add: e)
  moreover have "k = p \<Longrightarrow> map_of es k = None" using Cons.prems by (simp add: e map_of_eq_None_iff)
  ultimately show ?case by (auto simp: e split: option.splits)
qed simp

lemma rewrite_filtered:
  "foldl (\<lambda>ds (p, v). bm_insert p (F v) ds) m (filter (\<lambda>(_, v). P v) (bm_entries m))
     = bm_map (\<lambda>v. if P v then F v else v) m"
proof (rule bm_ext)
  fix k
  have "distinct (map fst (filter (\<lambda>(_, v). P v) (bm_entries m)))"
    using bm.entries_distinct [of m] by (simp add: distinct_map_filter)
  then show "bm_get (foldl (\<lambda>ds (p, v). bm_insert p (F v) ds) m (filter (\<lambda>(_, v). P v) (bm_entries m))) k
      = bm_get (bm_map (\<lambda>v. if P v then F v else v) m) k"
    using map_of_filter_pred [OF bm.entries_distinct [of m], of "\<lambda>_. P" k]
    by (simp add: get_foldl_insert) (simp add: bm_get_def split: option.splits)
qed

lemma bm_sum_retain:
  assumes "\<And>k v. bm_get m k = Some v \<Longrightarrow> \<not> P k v \<Longrightarrow> g v = (0 :: nat)"
  shows "bm_sum g (bm_retain P m) = bm_sum g m"
proof -
  have "sum_list (map (\<lambda>e. g (snd e)) (filter (\<lambda>(k, v). P k v) es)) = sum_list (map (\<lambda>e. g (snd e)) es)"
    if "\<forall>(k, v) \<in> set es. \<not> P k v \<longrightarrow> g v = 0" for es
    using that by (induction es) auto
  moreover have "\<forall>(k, v) \<in> set (bm_entries m). \<not> P k v \<longrightarrow> g v = 0" using assms by (auto simp: bm.in_entries_iff)
  ultimately show ?thesis by (simp add: bm_sum_def)
qed

lemma dust_keeps:
  assumes "\<And>v. g (h v) = (g v :: nat)"
  shows "bm_sum g (if c then (case ps of [] \<Rightarrow> m | (first, _) # _ \<Rightarrow> bm_modify first h m) else m) = bm_sum g m"
  using assms by (auto simp: bm_sum_modify_keep split: list.split)

lemma bm_sum_values: "bm_sum g m = sum_list (map g (bm_values m))"
  by (simp add: bm_sum_def bm_values_def comp_def)

lemma sum_filter_le: "sum_list (map g (filter P xs)) \<le> sum_list (map (g :: 'a \<Rightarrow> nat) xs)"
  by (induction xs) auto

section \<open>The invariant\<close>

definition tracked :: "sp_state \<Rightarrow> principal \<Rightarrow> u64" where
  "tracked s t = bm_get_or 0 (sps_total_stablecoin_balances s) t"

definition held :: "sp_state \<Rightarrow> principal \<Rightarrow> nat" where
  "held s t = bm_sum (balance_of t) (sps_deposits s)"

definition sp_books :: "sp_state \<Rightarrow> bool" where
  "sp_books s \<longleftrightarrow> (\<forall>t. held s t = tracked s t \<and> tracked s t \<le> u64_max)"

lemma sp_booksI: "(\<And>t. held s t = tracked s t) \<Longrightarrow> (\<And>t. tracked s t \<le> u64_max) \<Longrightarrow> sp_books s"
  by (simp add: sp_books_def)

lemma sp_booksD: "sp_books s \<Longrightarrow> held s t = tracked s t" "sp_books s \<Longrightarrow> tracked s t \<le> u64_max"
  by (simp_all add: sp_books_def)

lemma books_validate: "sp_books s \<Longrightarrow> validate_state s"
  by (auto simp: validate_state_def computed_total_def sp_books_def held_def tracked_def bm_get_or_def wrap64_id
      bm.in_entries_iff)

text \<open>Whatever leaves the balances and the aggregates alone keeps the books.\<close>

lemma books_cong:
  assumes "sp_books s" and "sps_deposits s' = sps_deposits s"
    and "sps_total_stablecoin_balances s' = sps_total_stablecoin_balances s"
  shows "sp_books s'"
  using assms by (simp add: sp_books_def held_def tracked_def)

lemma push_event_same [simp]:
  "sps_deposits (push_event now p e s) = sps_deposits s"
  "sps_total_stablecoin_balances (push_event now p e s) = sps_total_stablecoin_balances s"
  by (simp_all add: push_event_def Let_def)

lemma held_push_event [simp]: "held (push_event now p e s) = held s"
  by (simp add: held_def fun_eq_iff)

lemma tracked_push_event [simp]: "tracked (push_event now p e s) = tracked s"
  by (simp add: tracked_def fun_eq_iff)

lemma sub_total_fields [simp]:
  "sps_deposits (sub_total t x s) = sps_deposits s"
  "sps_stablecoin_registry (sub_total t x s) = sps_stablecoin_registry s"
  by (simp_all add: sub_total_def)

lemma held_sub_total [simp]: "held (sub_total t x s) = held s"
  by (simp add: held_def fun_eq_iff)

lemma tracked_sub_total [simp]: "tracked (sub_total t x s) u = (if u = t then tracked s t - x else tracked s u)"
  by (auto simp: tracked_def sub_total_def bm_get_or_def split: option.splits)

lemma held_update [simp]: "held (s\<lparr>sps_deposits := ds\<rparr>) t = bm_sum (balance_of t) ds"
  by (simp add: held_def)

lemma tracked_update [simp]: "tracked (s\<lparr>sps_deposits := ds\<rparr>) = tracked s"
  by (simp add: tracked_def fun_eq_iff)

lemma credit_get [simp]: "bm_get_or 0 (credit k x m) t = (if t = k then wrap64 (bm_get_or 0 m k + x) else bm_get_or 0 m t)"
  by (simp add: credit_def)

lemma balance_credit [simp]:
  "balance_of t (credit_balance k x pos) = (if t = k then wrap64 (balance_of k pos + x) else balance_of t pos)"
  by (simp add: balance_of_def credit_balance_def)

lemma balance_debit [simp]:
  "balance_of t (debit_balance k x pos) = (if t = k then balance_of k pos - x else balance_of t pos)"
  by (auto simp: balance_of_def debit_balance_def bm_get_or_def split: option.splits)

lemma balance_new [simp]: "balance_of t (deposit_position_new now) = 0"
  by (simp add: balance_of_def deposit_position_new_def)

lemma balance_le_held: "bm_get (sps_deposits s) p = Some pos \<Longrightarrow> balance_of t pos \<le> held s t"
  by (simp add: held_def bm_sum_ge)

lemma empty_balance: "position_is_empty pos \<Longrightarrow> balance_of t pos = 0"
  by (auto simp: position_is_empty_def balance_of_def bm_get_or_def bm_values_def bm.in_entries_iff [symmetric]
      split: option.splits)

section \<open>Deposits and withdrawals\<close>

lemma add_deposit_held:
  assumes "held s t + amount \<le> u64_max"
  shows "held (add_deposit now user t amount s) u = held s u + (if u = t then amount else 0)"
proof (cases "bm_get (sps_deposits s) user")
  case None
  then show ?thesis using assms by (auto simp: add_deposit_def held_def wrap64_id)
next
  case (Some pos)
  have "balance_of t pos + amount \<le> u64_max" using balance_le_held [OF Some, of t] assms by simp
  then show ?thesis
    using bm_sum_insert_old [OF Some, of "balance_of u" "credit_balance t amount pos"] Some
    by (auto simp: add_deposit_def held_def wrap64_id)
qed

lemma add_deposit_tracked:
  "tracked (add_deposit now user t amount s) u = (if u = t then wrap64 (tracked s t + amount) else tracked s u)"
  by (simp add: add_deposit_def tracked_def Let_def)

lemma add_deposit_books:
  assumes "sp_books s" and "tracked s t + amount \<le> u64_max"
  shows "sp_books (add_deposit now user t amount s)"
  using assms by (intro sp_booksI) (simp_all add: add_deposit_held add_deposit_tracked sp_booksD wrap64_id)

text \<open>A successful withdrawal takes the amount from the user and from the aggregate, and nothing else.\<close>

lemma process_withdrawal_held:
  assumes "process_withdrawal user t amount s = Ok s'"
  shows "held s u = held s' u + (if u = t then amount else 0)"
    and "tracked s' u = tracked s u - (if u = t then amount else 0)"
    and "amount \<le> held s t"
proof -
  obtain pos where pos: "bm_get (sps_deposits s) user = Some pos" and le: "amount \<le> balance_of t pos"
    using assms by (auto simp: process_withdrawal_def Let_def split: option.splits if_splits)
  define bal where "bal = (if balance_of t pos - amount = 0 then bm_remove t (dp_stablecoin_balances pos)
                    else bm_insert t (balance_of t pos - amount) (dp_stablecoin_balances pos))"
  define pos' where "pos' = pos\<lparr>dp_stablecoin_balances := bal\<rparr>"
  have s': "s' = sub_total t amount (s\<lparr>sps_deposits :=
      (if position_is_empty pos' then bm_remove user (sps_deposits s) else bm_insert user pos' (sps_deposits s))\<rparr>)"
    using assms pos by (simp add: process_withdrawal_def Let_def bal_def pos'_def split: if_splits)
  have left: "balance_of v pos' = balance_of v pos - (if v = t then amount else 0)" for v
    by (simp add: pos'_def bal_def balance_of_def)
  have "bm_sum (balance_of u) (bm_remove user (sps_deposits s)) + balance_of u pos = held s u"
    using bm_sum_remove [of "balance_of u" user "sps_deposits s"] pos by (simp add: held_def)
  moreover have "bm_sum (balance_of u) (bm_insert user pos' (sps_deposits s)) + balance_of u pos = held s u + balance_of u pos'"
    using bm_sum_insert_old [OF pos, of "balance_of u" pos'] by (simp add: held_def)
  ultimately show "held s u = held s' u + (if u = t then amount else 0)"
    using left [of u] le empty_balance [of pos' u] by (auto simp: s')
  show "tracked s' u = tracked s u - (if u = t then amount else 0)" by (simp add: s')
  show "amount \<le> held s t" using balance_le_held [OF pos, of t] le by simp
qed

lemma process_withdrawal_books:
  assumes "sp_books s" and "process_withdrawal user t amount s = Ok s'"
  shows "sp_books s'"
proof (rule sp_booksI)
  show "held s' u = tracked s' u" for u
    using process_withdrawal_held(1,2) [OF assms(2), of u] sp_booksD(1) [OF assms(1), of u] by (auto split: if_splits)
  show "tracked s' u \<le> u64_max" for u
    using process_withdrawal_held(2) [OF assms(2), of u] sp_booksD(2) [OF assms(1), of u] by simp
qed

text \<open>A correction of a depositor who has a position, in a token the pool tracks.\<close>

lemma correct_balance_books:
  assumes "sp_books s" and pos: "bm_get (sps_deposits s) user = Some pos"
    and "bm_has (sps_total_stablecoin_balances s) t" and "tracked s t - balance_of t pos + amount \<le> u64_max"
  shows "sp_books (fst (correct_balance user t amount s))"
proof (cases "balance_of t pos = amount")
  case False
  define pos' where "pos' = pos\<lparr>dp_stablecoin_balances := (if amount = 0 then bm_remove t (dp_stablecoin_balances pos)
                    else bm_insert t amount (dp_stablecoin_balances pos))\<rparr>"
  let ?s' = "fst (correct_balance user t amount s)"
  have le: "balance_of u pos \<le> held s u" for u by (rule balance_le_held [OF pos])
  have left: "balance_of u pos' = (if u = t then amount else balance_of u pos)" for u
    by (simp add: pos'_def balance_of_def)
  have deps: "sps_deposits ?s' = (if position_is_empty pos' then bm_remove user (sps_deposits s)
      else bm_insert user pos' (sps_deposits s))"
    using False pos by (simp add: correct_balance_def Let_def pos'_def)
  have h: "held ?s' u + balance_of u pos = held s u + balance_of u pos'" for u
    using bm_sum_remove [of "balance_of u" user "sps_deposits s"] pos
      bm_sum_insert_old [OF pos, of "balance_of u" pos'] empty_balance [of pos' u]
    by (auto simp: held_def deps)
  have tr: "tracked ?s' u = (if u = t then tracked s t - balance_of t pos + amount else tracked s u)" for u
    using False pos assms(3) sp_booksD [OF assms(1), of t] le [of t] assms(4)
    by (auto simp: correct_balance_def Let_def tracked_def bm_get_or_def bm_has_def sat_add64_def split: option.splits)
  show ?thesis
  proof (rule sp_booksI)
    show "held ?s' u = tracked ?s' u" for u
      using h [of u] le [of u] sp_booksD(1) [OF assms(1), of u] by (simp add: tr left split: if_splits)
    show "tracked ?s' u \<le> u64_max" for u using assms(4) sp_booksD(2) [OF assms(1)] by (simp add: tr)
  qed
qed (use assms in \<open>simp add: correct_balance_def\<close>)

section \<open>Interest\<close>

lemma pro_rata_le: "pro_rata a b t \<le> a * b div t"
  by (simp add: pro_rata_def wrap64_le)

lemma interest_holders_present: "\<forall>x \<in> set (interest_holders ct s). bm_has (sps_deposits s) (fst x)"
  by (auto simp: interest_holders_def bm_has_def bm.in_entries_iff)

text \<open>The distribution as a fold of credits: what each holder gets, and the dust for the first.\<close>

lemma interest_fold:
  assumes "n + sum_list (map (\<lambda>x. pro_rata amount (snd x) t) hs) \<le> u64_max"
  shows "foldl (pay_holder ledger decimals amount t) (ds, n) hs
       = (foldl (\<lambda>ds x. bm_modify (fst x) (earn_interest ledger decimals (pro_rata amount (snd x) t)) ds) ds
            (filter (\<lambda>x. pro_rata amount (snd x) t > 0) hs),
          n + sum_list (map (\<lambda>x. pro_rata amount (snd x) t) hs))"
  using assms
proof (induction hs arbitrary: ds n)
  case (Cons x xs)
  then show ?case by (cases x) (simp add: pay_holder_def Let_def wrap64_id)
qed simp

lemma balance_earn [simp]:
  "balance_of t (earn_interest k d x pos) = (if t = k then wrap64 (balance_of k pos + x) else balance_of t pos)"
proof -
  have "balance_of t (earn_interest k d x pos) = balance_of t (credit_balance k x pos)"
    by (simp add: earn_interest_def balance_of_def)
  then show ?thesis by simp
qed

definition interest_shares :: "u64 \<Rightarrow> principal option \<Rightarrow> sp_state \<Rightarrow> (principal \<times> u64) list" where
  "interest_shares amount ct s =
     (let hs = interest_holders ct s in map (\<lambda>x. (fst x, pro_rata amount (snd x) (wrap64 (sum_list (map snd hs))))) hs)"

definition interest_dust :: "u64 \<Rightarrow> principal option \<Rightarrow> sp_state \<Rightarrow> u64" where
  "interest_dust amount ct s = amount - sum_list (map snd (interest_shares amount ct s))"

lemma icusd_value_le:
  "sum_list (map snd (interest_holders ct s)) \<le> bm_sum (icusd_value (sps_stablecoin_registry s)) (sps_deposits s)"
proof -
  have "sum_list (map snd (interest_holders ct s))
      \<le> sum_list (map (\<lambda>e. icusd_value (sps_stablecoin_registry s) (snd e)) (bm_entries (sps_deposits s)))"
    unfolding interest_holders_def by (simp add: comp_def case_prod_beta' sum_filter_le)
  then show ?thesis by (simp add: bm_sum_def)
qed

lemma icusd_total_fits:
  assumes "sp_books s"
  shows "bm_sum (icusd_value (sps_stablecoin_registry s)) (sps_deposits s) \<le> u64_max"
proof (cases "find_icusd (sps_stablecoin_registry s)")
  case None
  then have "icusd_value (sps_stablecoin_registry s) = (\<lambda>_. 0)" by (simp add: icusd_value_def fun_eq_iff)
  then show ?thesis by (simp add: bm_sum_def)
next
  case (Some l)
  then have "icusd_value (sps_stablecoin_registry s) = balance_of l" by (simp add: icusd_value_def fun_eq_iff)
  then show ?thesis using sp_booksD [OF assms, of l] by (simp add: held_def)
qed

lemma interest_shares_le:
  assumes "sp_books s"
  shows "sum_list (map snd (interest_shares amount ct s)) \<le> amount"
proof -
  let ?hs = "interest_holders ct s" and ?t = "sum_list (map snd (interest_holders ct s))"
  have fit: "wrap64 ?t = ?t"
    using icusd_value_le [of ct s] icusd_total_fits [OF assms] by (simp add: wrap64_id)
  have "sum_list (map snd (interest_shares amount ct s)) = sum_list (map (\<lambda>x. pro_rata amount (snd x) ?t) ?hs)"
    by (simp add: interest_shares_def Let_def fit comp_def)
  also have "\<dots> \<le> sum_list (map (\<lambda>x. amount * snd x div ?t) ?hs)"
    by (intro sum_list_mono pro_rata_le)
  also have "\<dots> \<le> amount" by (rule shares_le) simp
  finally show ?thesis .
qed

abbreviation earn_fold :: "principal \<Rightarrow> u8 \<Rightarrow> (principal, deposit_position) bmap \<Rightarrow> (principal \<times> u64) list \<Rightarrow> (principal, deposit_position) bmap" where
  "earn_fold t d \<equiv> foldl (\<lambda>ds x. bm_modify (fst x) (earn_interest t d (snd x)) ds)"

definition token_decimals :: "sp_state \<Rightarrow> principal \<Rightarrow> u8" where
  "token_decimals s t = (case bm_get (sps_stablecoin_registry s) t of None \<Rightarrow> 8 | Some c \<Rightarrow> sc_decimals c)"

definition interest_credits :: "u64 \<Rightarrow> principal option \<Rightarrow> sp_state \<Rightarrow> (principal \<times> u64) list" where
  "interest_credits amount ct s =
     filter (\<lambda>x. snd x > 0) (interest_shares amount ct s)
     @ (if interest_dust amount ct s > 0 then map (\<lambda>x. (fst x, interest_dust amount ct s)) (take (Suc 0) (interest_shares amount ct s)) else [])"

lemma eligible_iff:
  assumes "sp_books s"
  shows "wrap64 (sum_list (map snd (interest_holders ct s))) \<noteq> 0 \<longleftrightarrow> has_eligible_interest_recipient ct s"
    and "has_eligible_interest_recipient ct s \<longleftrightarrow> interest_holders ct s \<noteq> []"
proof -
  have fit: "wrap64 (sum_list (map snd (interest_holders ct s))) = sum_list (map snd (interest_holders ct s))"
    using icusd_value_le [of ct s] icusd_total_fits [OF assms] by (simp add: wrap64_id)
  have pos: "snd x \<noteq> 0" if "x \<in> set (interest_holders ct s)" for x
    using that by (auto simp: interest_holders_def)
  have nz: "sum_list (map snd (interest_holders ct s)) \<noteq> 0 \<longleftrightarrow> interest_holders ct s \<noteq> []"
    using pos by (cases "interest_holders ct s") auto
  show "has_eligible_interest_recipient ct s \<longleftrightarrow> interest_holders ct s \<noteq> []"
    unfolding has_eligible_interest_recipient_def interest_holders_def bm_values_def
    by (simp add: filter_empty_conv case_prod_beta')
  with fit nz show "wrap64 (sum_list (map snd (interest_holders ct s))) \<noteq> 0 \<longleftrightarrow> has_eligible_interest_recipient ct s" by simp
qed

lemma distribute_none:
  assumes "sp_books s" and "\<not> (has_eligible_interest_recipient ct s \<and> 0 < amount)"
  shows "distribute_interest_revenue t amount ct s = s"
  using assms eligible_iff(1) [OF assms(1), of ct] by (auto simp: distribute_interest_revenue_def Let_def)

lemma distribute_some:
  assumes "sp_books s" and "has_eligible_interest_recipient ct s" and "0 < amount" and "amount \<le> u64_max"
  shows "sps_deposits (distribute_interest_revenue t amount ct s)
           = earn_fold t (token_decimals s t) (sps_deposits s) (interest_credits amount ct s)"
    and "sps_total_stablecoin_balances (distribute_interest_revenue t amount ct s)
           = credit t amount (sps_total_stablecoin_balances s)"
proof -
  let ?hs = "interest_holders ct s" and ?d = "token_decimals s t"
  let ?T = "wrap64 (sum_list (map snd ?hs))"
  have nz: "?T \<noteq> 0" using eligible_iff(1) [OF assms(1), of ct] assms(2) by simp
  have sum: "sum_list (map (\<lambda>x. pro_rata amount (snd x) ?T) ?hs) = sum_list (map snd (interest_shares amount ct s))"
    by (simp add: interest_shares_def Let_def comp_def)
  have fits: "0 + sum_list (map (\<lambda>x. pro_rata amount (snd x) ?T) ?hs) \<le> u64_max"
    using interest_shares_le [OF assms(1), of amount ct] assms(4) sum by simp
  have shares: "foldl (\<lambda>ds x. bm_modify (fst x) (earn_interest t ?d (pro_rata amount (snd x) ?T)) ds) ds
            (filter (\<lambda>x. pro_rata amount (snd x) ?T > 0) ?hs)
      = earn_fold t ?d ds (filter (\<lambda>x. snd x > 0) (interest_shares amount ct s))" for ds
    by (simp add: interest_shares_def Let_def filter_map foldl_map comp_def)
  obtain h hs where hs: "?hs = h # hs" using eligible_iff(2) [OF assms(1), of ct] assms(2) by (cases ?hs) auto
  have first: "map (\<lambda>x. (fst x, interest_dust amount ct s)) (take (Suc 0) (interest_shares amount ct s)) = [(fst h, interest_dust amount ct s)]"
    by (simp add: interest_shares_def Let_def hs)
  show "sps_deposits (distribute_interest_revenue t amount ct s)
           = earn_fold t ?d (sps_deposits s) (interest_credits amount ct s)"
    using assms(3) nz unfolding distribute_interest_revenue_def Let_def interest_fold [OF fits] token_decimals_def [symmetric] shares sum
    by (cases h) (simp add: interest_credits_def first [unfolded interest_dust_def] interest_dust_def hs)
  show "sps_total_stablecoin_balances (distribute_interest_revenue t amount ct s)
           = credit t amount (sps_total_stablecoin_balances s)"
    using assms(3) nz by (simp add: distribute_interest_revenue_def Let_def case_prod_beta')
qed

lemma interest_credits_total:
  assumes "sp_books s" and "has_eligible_interest_recipient ct s"
  shows "sum_list (map snd (interest_credits amount ct s)) = amount"
proof -
  have drop: "sum_list (map snd (filter (\<lambda>x. snd x > 0) xs)) = (sum_list (map snd xs) :: nat)" for xs :: "(principal \<times> nat) list"
    by (induction xs) auto
  have "interest_shares amount ct s \<noteq> []"
    using eligible_iff(2) [OF assms(1), of ct] assms(2) by (simp add: interest_shares_def Let_def)
  then obtain x xs where "interest_shares amount ct s = x # xs" by (cases "interest_shares amount ct s") auto
  then show ?thesis
    using interest_shares_le [OF assms(1), of amount ct] by (simp add: interest_credits_def drop interest_dust_def)
qed

lemma distribute_held:
  assumes "sp_books s" and "has_eligible_interest_recipient ct s" and "0 < amount" and "tracked s t + amount \<le> u64_max"
  shows "held (distribute_interest_revenue t amount ct s) u = held s u + (if u = t then amount else 0)"
proof -
  have deps: "sps_deposits (distribute_interest_revenue t amount ct s)
           = earn_fold t (token_decimals s t) (sps_deposits s) (interest_credits amount ct s)"
    using assms by (intro distribute_some) auto
  have present: "\<forall>x \<in> set (interest_credits amount ct s). bm_has (sps_deposits s) (fst x)"
    using interest_holders_present [of ct s]
    by (auto simp: interest_credits_def interest_shares_def Let_def dest!: in_set_takeD)
  show ?thesis
  proof (cases "u = t")
    case True
    have "bm_sum (balance_of t) (earn_fold t (token_decimals s t) (sps_deposits s) (interest_credits amount ct s))
        = bm_sum (balance_of t) (sps_deposits s) + sum_list (map snd (interest_credits amount ct s))"
    proof (rule foldl_modify_add [where B = u64_max])
      show "bm_sum (balance_of t) (sps_deposits s) + sum_list (map snd (interest_credits amount ct s)) \<le> u64_max"
        using assms(4) sp_booksD(1) [OF assms(1), of t] by (simp add: interest_credits_total assms held_def)
    qed (use present in \<open>auto simp: wrap64_id\<close>)
    with True show ?thesis by (simp add: held_def deps interest_credits_total assms)
  next
    case False
    then show ?thesis by (simp add: held_def deps foldl_modify_keep)
  qed
qed

lemma distribute_books:
  assumes "sp_books s" and "tracked s t + amount \<le> u64_max"
  shows "sp_books (distribute_interest_revenue t amount ct s)"
proof (cases "has_eligible_interest_recipient ct s \<and> 0 < amount")
  case True
  then have tr: "tracked (distribute_interest_revenue t amount ct s) u = (if u = t then tracked s t + amount else tracked s u)" for u
    using assms distribute_some(2) [OF assms(1), of ct amount t] by (simp add: tracked_def wrap64_id)
  from True assms show ?thesis
    by (intro sp_booksI) (simp_all add: tr distribute_held sp_booksD)
next
  case False
  then show ?thesis using assms by (simp add: distribute_none)
qed

section \<open>Fees\<close>

lemma pay_fee_share_balance:
  "balance_of u (fst (pay_fee_share t fee n pos)) + (if u = t then snd (pay_fee_share t fee n pos) else 0) = balance_of u pos"
proof (cases "bm_get (dp_stablecoin_balances pos) t")
  case (Some b)
  then have b: "balance_of t pos = b" by (simp add: balance_of_def bm_get_or_def)
  show ?thesis
  proof (cases "b = 0")
    case False
    with Some b show ?thesis by (auto simp: pay_fee_share_def Let_def balance_of_def)
  qed (use Some in \<open>simp add: pay_fee_share_def\<close>)
qed (simp add: pay_fee_share_def)

lemma deduct_fee_held:
  assumes "sp_books s"
  shows "held (deduct_fee_from_pool t fee s) u = tracked (deduct_fee_from_pool t fee s) u"
    and "tracked (deduct_fee_from_pool t fee s) u \<le> tracked s u"
proof -
  let ?n = "bm_get_or 0 (sps_total_stablecoin_balances s) t"
  let ?F = "\<lambda>pos. fst (pay_fee_share t fee ?n pos)" and ?x = "\<lambda>pos. snd (pay_fee_share t fee ?n pos)"
  have split: "bm_sum (\<lambda>v. balance_of w (?F v)) (sps_deposits s) + (if w = t then bm_sum ?x (sps_deposits s) else 0) = held s w" for w
  proof -
    have "sum_list (map (\<lambda>e. balance_of w (?F (snd e))) es) + (if w = t then sum_list (map (\<lambda>e. ?x (snd e)) es) else 0)
        = sum_list (map (\<lambda>e. balance_of w (snd e)) es)" for es :: "(principal \<times> deposit_position) list"
      using pay_fee_share_balance [of w t fee ?n] by (induction es) (auto simp: algebra_simps split: if_splits)
    from this [of "bm_entries (sps_deposits s)"] show ?thesis unfolding held_def bm_sum_def .
  qed
  have fit: "bm_sum ?x (sps_deposits s) \<le> u64_max"
    using split [of t] sp_booksD [OF assms, of t] by simp
  have eq: "deduct_fee_from_pool t fee s = (if ?n = 0 then s
      else sub_total t (bm_sum ?x (sps_deposits s)) (s\<lparr>sps_deposits := bm_map ?F (sps_deposits s)\<rparr>))"
    using fit by (simp add: deduct_fee_from_pool_def Let_def wrap64_id bm_sum_values [symmetric])
  show "held (deduct_fee_from_pool t fee s) u = tracked (deduct_fee_from_pool t fee s) u"
    using split [of u] sp_booksD(1) [OF assms, of u] by (auto simp: eq bm_sum_map)
  show "tracked (deduct_fee_from_pool t fee s) u \<le> tracked s u" by (simp add: eq)
qed

lemma deduct_fee_books:
  assumes "sp_books s"
  shows "sp_books (deduct_fee_from_pool t fee s)"
proof (rule sp_booksI)
  show "tracked (deduct_fee_from_pool t fee s) u \<le> u64_max" for u
    using deduct_fee_held(2) [OF assms, of t fee u] sp_booksD(2) [OF assms, of u] by simp
qed (simp add: deduct_fee_held assms)

section \<open>Liquidations\<close>

definition token_loss :: "(principal \<Rightarrow> u64) \<Rightarrow> amounts \<Rightarrow> principal \<Rightarrow> deposit_position \<Rightarrow> u64" where
  "token_loss totals sc u pos =
     (case bm_get sc u of None \<Rightarrow> 0 | Some consumed \<Rightarrow> consume_share consumed (totals u) (balance_of u pos))"

lemma token_loss_le: "token_loss totals sc u pos \<le> balance_of u pos"
  by (auto simp: token_loss_def consume_share_def split: option.splits)

lemma consume_tokens_balance:
  "balance_of u (consume_tokens totals sc pos) = balance_of u pos - token_loss totals sc u pos"
proof -
  have "balance_of u (foldl (\<lambda>p (l, c). debit_balance l (consume_share c (totals l) (balance_of l p)) p) pos es)
      = balance_of u pos - (case map_of es u of None \<Rightarrow> 0 | Some c \<Rightarrow> consume_share c (totals u) (balance_of u pos))"
    if "distinct (map fst es)" for es
    using that
  proof (induction es arbitrary: pos)
    case (Cons e es)
    obtain l c where e: "e = (l, c)" by (cases e)
    have "u = l \<Longrightarrow> map_of es u = None" using Cons.prems by (simp add: e map_of_eq_None_iff)
    with Cons show ?case by (auto simp: e split: option.splits)
  qed simp
  from this [OF bm.entries_distinct [of sc]] show ?thesis
    by (simp add: consume_tokens_def token_loss_def bm_get_def)
qed

lemma balance_credit_gain [simp]: "balance_of u (credit_gain ct x pos) = balance_of u pos"
  by (simp add: balance_of_def credit_gain_def)

lemma balance_credit_cfx [simp]: "balance_of u (credit_cfx ct x pos) = balance_of u pos"
  by (simp add: balance_of_def credit_cfx_def Let_def)

lemma sub_deducted_fields [simp]: "sps_deposits (sub_deducted totals sc ps s) = sps_deposits s"
proof -
  have "sps_deposits (foldl (\<lambda>s l. sub_total l (token_deducted totals sc ps l) s) s ls) = sps_deposits s" for ls
    by (induction ls arbitrary: s) simp_all
  then show ?thesis by (simp add: sub_deducted_def)
qed

lemma tracked_sub_deducted: "tracked (sub_deducted totals sc ps s) u = tracked s u - token_deducted totals sc ps u"
proof -
  have "tracked (foldl (\<lambda>s l. sub_total l (token_deducted totals sc ps l) s) s ls) u
      = tracked s u - (if u \<in> set ls then token_deducted totals sc ps u else 0)" if "distinct ls" for ls
    using that by (induction ls arbitrary: s) auto
  moreover have "u \<notin> set (bm_keys sc) \<Longrightarrow> token_deducted totals sc ps u = 0"
    by (simp add: token_deducted_def bm_keys_def bm_get_def map_of_eq_None_iff [symmetric])
  ultimately show ?thesis
    using bm.entries_distinct [of sc] by (auto simp: sub_deducted_def bm_keys_def)
qed

text \<open>The deductions of the participants, exactly.\<close>

lemma deducted_exact:
  assumes "sum_list (map (\<lambda>x. balance_of u (snd x)) ps) \<le> u64_max"
  shows "token_deducted totals sc ps u = sum_list (map (\<lambda>x. token_loss totals sc u (snd x)) ps)"
proof (cases "bm_get sc u")
  case (Some c)
  have "sum_list (map (\<lambda>x. token_loss totals sc u (snd x)) ps) \<le> u64_max"
    using order.trans [OF sum_list_mono [of ps "\<lambda>x. token_loss totals sc u (snd x)" "\<lambda>x. balance_of u (snd x)"] assms]
    by (simp add: token_loss_le)
  with Some show ?thesis by (simp add: token_deducted_def token_loss_def case_prod_beta' wrap64_id)
next
  case None
  then show ?thesis by (simp add: token_deducted_def token_loss_def)
qed

text \<open>The value one participant loses, what it gains, and its position afterwards.\<close>

definition value_lost :: "sp_state \<Rightarrow> (principal \<Rightarrow> u64) \<Rightarrow> amounts \<Rightarrow> deposit_position \<Rightarrow> u64" where
  "value_lost s totals sc pos = wrap64 (sum_list (share_values s totals sc pos))"

definition after_share :: "sp_state \<Rightarrow> (principal \<Rightarrow> u64) \<Rightarrow> amounts \<Rightarrow> principal \<Rightarrow> u64 \<Rightarrow> u64 \<Rightarrow> deposit_position \<Rightarrow> deposit_position" where
  "after_share s totals sc ct gained total_e8s pos =
     (if value_lost s totals sc pos > 0
      then credit_gain ct (pro_rata gained (value_lost s totals sc pos) total_e8s) (consume_tokens totals sc pos)
      else consume_tokens totals sc pos)"

lemma absorb_fold_fst:
  "fst (foldl (absorb_share s totals sc ct gained total_e8s) (ds, n) ps)
     = foldl (\<lambda>ds (p, v). bm_insert p (after_share s totals sc ct gained total_e8s v) ds) ds ps"
proof (induction ps arbitrary: ds n)
  case (Cons x ps)
  then show ?case by (cases x) (simp add: absorb_share_def Let_def after_share_def value_lost_def)
qed simp

lemma absorb_fold_snd:
  assumes "n + sum_list (map (\<lambda>x. pro_rata gained (value_lost s totals sc (snd x)) total_e8s) ps) \<le> u64_max"
  shows "snd (foldl (absorb_share s totals sc ct gained total_e8s) (ds, n) ps)
     = n + sum_list (map (\<lambda>x. pro_rata gained (value_lost s totals sc (snd x)) total_e8s) ps)"
  using assms
proof (induction ps arbitrary: ds n)
  case (Cons x ps)
  have zero: "pro_rata gained 0 total_e8s = 0" by (simp add: pro_rata_def wrap64_def)
  from Cons show ?case by (cases x) (simp add: absorb_share_def Let_def value_lost_def wrap64_id zero)
qed simp

definition chain_value_lost :: "sp_state \<Rightarrow> (principal \<Rightarrow> u64) \<Rightarrow> amounts \<Rightarrow> deposit_position \<Rightarrow> u64" where
  "chain_value_lost s totals sc pos = foldl sat_add64 0 (share_values s totals sc pos)"

definition after_chain_share :: "sp_state \<Rightarrow> (principal \<Rightarrow> u64) \<Rightarrow> amounts \<Rightarrow> principal \<Rightarrow> u128 \<Rightarrow> u64 \<Rightarrow> deposit_position \<Rightarrow> deposit_position" where
  "after_chain_share s totals sc ct gained total_e8s pos =
     (if chain_value_lost s totals sc pos > 0
      then credit_cfx ct (sat_mul128 gained (chain_value_lost s totals sc pos) div total_e8s) (consume_tokens totals sc pos)
      else consume_tokens totals sc pos)"

lemma absorb_chain_fold_fst:
  "fst (foldl (absorb_chain_share s totals sc ct gained total_e8s) (ds, n) ps)
     = foldl (\<lambda>ds (p, v). bm_insert p (after_chain_share s totals sc ct gained total_e8s v) ds) ds ps"
proof (induction ps arbitrary: ds n)
  case (Cons x ps)
  then show ?case by (cases x) (simp add: absorb_chain_share_def Let_def after_chain_share_def chain_value_lost_def)
qed simp

lemma absorb_chain_fold_snd:
  assumes "n + sum_list (map (\<lambda>x. sat_mul128 gained (chain_value_lost s totals sc (snd x)) div total_e8s) ps) \<le> u128_max"
  shows "snd (foldl (absorb_chain_share s totals sc ct gained total_e8s) (ds, n) ps)
     = n + sum_list (map (\<lambda>x. sat_mul128 gained (chain_value_lost s totals sc (snd x)) div total_e8s) ps)"
  using assms
proof (induction ps arbitrary: ds n)
  case (Cons x ps)
  have zero: "sat_mul128 gained 0 div total_e8s = 0" by (simp add: sat_mul128_def)
  from Cons show ?case by (cases x) (simp add: absorb_chain_share_def Let_def chain_value_lost_def zero)
qed simp

lemma after_share_balance:
  "balance_of u (after_share s totals sc ct gained total_e8s pos) = balance_of u pos - token_loss totals sc u pos"
  "balance_of u (after_chain_share s totals sc ct g total_e8s pos) = balance_of u pos - token_loss totals sc u pos"
  by (simp_all add: after_share_def after_chain_share_def consume_tokens_balance)

text \<open>
  Both liquidations change the books alike: the participants lose their shares, the aggregates the sum of the
  shares, and positions without any value left go.
\<close>

lemma liquidation_books:
  assumes "sp_books s"
    and deps: "sps_deposits s' = bm_retain (\<lambda>_ pos. \<not> position_is_empty pos) ds"
    and sums: "\<And>u. bm_sum (balance_of u) ds = bm_sum (balance_of u) (bm_map (\<lambda>v. if P v then F v else v) (sps_deposits s))"
    and F: "\<And>u v. balance_of u (F v) = balance_of u v - token_loss totals sc u v"
    and ps: "ps = filter (\<lambda>(_, v). P v) (bm_entries (sps_deposits s))"
    and tr: "\<And>u. tracked s' u = tracked s u - token_deducted totals sc ps u"
  shows "sp_books s'"
proof -
  let ?ps = "filter (\<lambda>(_, v). P v) (bm_entries (sps_deposits s))"
  have split: "bm_sum (balance_of u) (bm_map (\<lambda>v. if P v then F v else v) (sps_deposits s))
      + sum_list (map (\<lambda>x. token_loss totals sc u (snd x)) ?ps) = held s u" for u
  proof -
    have "sum_list (map (\<lambda>e. balance_of u (if P (snd e) then F (snd e) else snd e)) es)
        + sum_list (map (\<lambda>x. token_loss totals sc u (snd x)) (filter (\<lambda>(_, v). P v) es))
        = sum_list (map (\<lambda>e. balance_of u (snd e)) es)" for es :: "(principal \<times> deposit_position) list"
    proof (induction es)
      case (Cons e es)
      then show ?case using token_loss_le [of totals sc u "snd e"] by (cases e) (auto simp: F)
    qed simp
    from this [of "bm_entries (sps_deposits s)"] show ?thesis unfolding held_def bm_sum_map unfolding bm_sum_def .
  qed
  have part: "sum_list (map (\<lambda>x. balance_of u (snd x)) ?ps) \<le> u64_max" for u
    using sum_filter_le [of "\<lambda>x. balance_of u (snd x)" "\<lambda>(_, v). P v" "bm_entries (sps_deposits s)"]
      sp_booksD [OF assms(1), of u] by (simp add: held_def bm_sum_def)
  have h: "held s' u = held s u - sum_list (map (\<lambda>x. token_loss totals sc u (snd x)) ?ps)" for u
  proof -
    have "held s' u = bm_sum (balance_of u) ds"
      unfolding held_def deps by (rule bm_sum_retain) (simp add: empty_balance)
    with split [of u] sums [of u] show ?thesis by simp
  qed
  show ?thesis
  proof (rule sp_booksI)
    show "held s' u = tracked s' u" for u
      using sp_booksD(1) [OF assms(1), of u] by (simp add: h tr ps deducted_exact [OF part])
    show "tracked s' u \<le> u64_max" for u using sp_booksD(2) [OF assms(1), of u] by (simp add: tr)
  qed
qed

definition participants :: "sp_state \<Rightarrow> principal \<Rightarrow> (principal \<times> deposit_position) list" where
  "participants s ct = filter (\<lambda>(_, pos). position_opted_in_for s ct pos) (bm_entries (sps_deposits s))"

definition chain_participants :: "sp_state \<Rightarrow> principal \<Rightarrow> (principal \<times> deposit_position) list" where
  "chain_participants s ct = filter (\<lambda>(_, pos). is_opted_in_for_chain ct pos) (bm_entries (sps_deposits s))"

text \<open>The deposits after each of the two, with the shares as a map over the positions and the dust for the first.\<close>

lemma gains_form:
  fixes s sc ct gained
  defines "T \<equiv> opted_in_total (participants s ct)" and "e \<equiv> total_consumed_e8s s sc"
  defines "m \<equiv> bm_map (\<lambda>v. if position_opted_in_for s ct v then after_share s T sc ct gained e v else v) (sps_deposits s)"
    and "n \<equiv> snd (foldl (absorb_share s T sc ct gained e) (sps_deposits s, 0) (participants s ct))"
  assumes "\<not> collateral_requires_payout_address ct" and "e \<noteq> 0"
  shows "sps_deposits (process_liquidation_gains vault_id ct sc gained price now s)
      = bm_retain (\<lambda>_ pos. \<not> position_is_empty pos)
          (if 0 < gained - n then (case participants s ct of [] \<Rightarrow> m | (first, _) # _ \<Rightarrow> bm_modify first (credit_gain ct (gained - n)) m) else m)"
    and "tracked (process_liquidation_gains vault_id ct sc gained price now s) u = tracked s u - token_deducted T sc (participants s ct) u"
proof -
  have m: "fst (foldl (absorb_share s T sc ct gained e) (sps_deposits s, 0) (participants s ct)) = m"
    unfolding absorb_fold_fst participants_def m_def by (rule rewrite_filtered)
  have eq: "foldl (absorb_share s T sc ct gained e) (sps_deposits s, 0) (participants s ct) = (m, n)"
    by (simp add: n_def m [symmetric])
  show "sps_deposits (process_liquidation_gains vault_id ct sc gained price now s)
      = bm_retain (\<lambda>_ pos. \<not> position_is_empty pos)
          (if 0 < gained - n then (case participants s ct of [] \<Rightarrow> m | (first, _) # _ \<Rightarrow> bm_modify first (credit_gain ct (gained - n)) m) else m)"
    using assms(5,6) eq unfolding process_liquidation_gains_def Let_def sat_sub_def participants_def [symmetric] T_def [symmetric] e_def [symmetric]
    by simp
  show "tracked (process_liquidation_gains vault_id ct sc gained price now s) u = tracked s u - token_deducted T sc (participants s ct) u"
    using assms(5,6) eq tracked_sub_deducted [of T sc "participants s ct" s u]
    unfolding process_liquidation_gains_def Let_def participants_def [symmetric] T_def [symmetric] e_def [symmetric]
    by (simp add: tracked_def)
qed

lemma chain_gains_form:
  fixes s sc ct gained
  defines "T \<equiv> opted_in_total (chain_participants s ct)" and "e \<equiv> total_consumed_e8s s sc"
  defines "m \<equiv> bm_map (\<lambda>v. if is_opted_in_for_chain ct v then after_chain_share s T sc ct gained e v else v) (sps_deposits s)"
    and "n \<equiv> snd (foldl (absorb_chain_share s T sc ct gained e) (sps_deposits s, 0) (chain_participants s ct))"
  assumes "is_chain_collateral_sentinel s ct" and "gained \<noteq> 0" and "chain_participants s ct \<noteq> []" and "e \<noteq> 0"
  shows "sps_deposits (process_chain_liquidation_gains ct sc gained s)
      = bm_retain (\<lambda>_ pos. \<not> position_is_empty pos)
          (if 0 < gained - n then (case chain_participants s ct of [] \<Rightarrow> m | (first, _) # _ \<Rightarrow> bm_modify first (credit_cfx ct (gained - n)) m) else m)"
    and "tracked (process_chain_liquidation_gains ct sc gained s) u = tracked s u - token_deducted T sc (chain_participants s ct) u"
proof -
  have m: "fst (foldl (absorb_chain_share s T sc ct gained e) (sps_deposits s, 0) (chain_participants s ct)) = m"
    unfolding absorb_chain_fold_fst chain_participants_def m_def by (rule rewrite_filtered)
  have eq: "foldl (absorb_chain_share s T sc ct gained e) (sps_deposits s, 0) (chain_participants s ct) = (m, n)"
    by (simp add: n_def m [symmetric])
  show "sps_deposits (process_chain_liquidation_gains ct sc gained s)
      = bm_retain (\<lambda>_ pos. \<not> position_is_empty pos)
          (if 0 < gained - n then (case chain_participants s ct of [] \<Rightarrow> m | (first, _) # _ \<Rightarrow> bm_modify first (credit_cfx ct (gained - n)) m) else m)"
    using assms(5-8) eq
    unfolding process_chain_liquidation_gains_def Let_def sat_sub_def chain_participants_def [symmetric] T_def [symmetric] e_def [symmetric]
    by simp
  show "tracked (process_chain_liquidation_gains ct sc gained s) u = tracked s u - token_deducted T sc (chain_participants s ct) u"
    using assms(5-8) eq tracked_sub_deducted [of T sc "chain_participants s ct" s u]
    unfolding process_chain_liquidation_gains_def Let_def chain_participants_def [symmetric] T_def [symmetric] e_def [symmetric]
    by (simp add: tracked_def)
qed

lemma gains_books:
  assumes "sp_books s"
  shows "sp_books (process_liquidation_gains vault_id ct sc gained price now s)"
proof (cases "collateral_requires_payout_address ct \<or> total_consumed_e8s s sc = 0")
  case True
  then show ?thesis using assms by (auto simp: process_liquidation_gains_def Let_def)
next
  case False
  then have ok: "\<not> collateral_requires_payout_address ct" "total_consumed_e8s s sc \<noteq> 0" by auto
  show ?thesis
    by (rule liquidation_books [OF assms gains_form(1) [OF ok] dust_keeps after_share_balance(1)
          participants_def gains_form(2) [OF ok]]) simp
qed

lemma chain_gains_books:
  assumes "sp_books s"
  shows "sp_books (process_chain_liquidation_gains ct sc gained s)"
proof (cases "is_chain_collateral_sentinel s ct \<and> gained \<noteq> 0 \<and> chain_participants s ct \<noteq> [] \<and> total_consumed_e8s s sc \<noteq> 0")
  case True
  then have ok: "is_chain_collateral_sentinel s ct" "gained \<noteq> 0" "chain_participants s ct \<noteq> []" "total_consumed_e8s s sc \<noteq> 0"
    by auto
  show ?thesis
    by (rule liquidation_books [OF assms chain_gains_form(1) [OF ok] dust_keeps after_share_balance(2)
          chain_participants_def chain_gains_form(2) [OF ok]]) simp
next
  case False
  then show ?thesis using assms by (auto simp: process_chain_liquidation_gains_def Let_def chain_participants_def)
qed

end
