(* ===== verification/Sp_Conserve.thy ===== *)
theory Sp_Conserve
  imports Sp_Books
begin

text \<open>
  What a liquidation distributes: the collateral credited to the depositors is exactly what the pool received, the
  tokens deducted are what was consumed up to one unit per participant, and whoever did not opt in is untouched. The
  value of a share is a quotient of the amount as long as nothing saturates (\<open>value_fits\<close>), and quotients of shares
  never add up to more than the quotient of the whole.
\<close>

section \<open>Values of shares\<close>

definition coin_of :: "sp_state \<Rightarrow> principal \<Rightarrow> u8 \<times> bool" where
  "coin_of s ledger = (case bm_get (sps_stablecoin_registry s) ledger of None \<Rightarrow> (8, False) | Some c \<Rightarrow> (sc_decimals c, is_lp c))"

definition value_fits :: "sp_state \<Rightarrow> amounts \<Rightarrow> bool" where
  "value_fits s sc \<longleftrightarrow>
     (\<forall>(ledger, amount) \<in> set (bm_entries sc). amount \<le> u64_max \<and>
        (case coin_of s ledger of
           (d, True) \<Rightarrow> (case bm_get (virtual_prices s) ledger of None \<Rightarrow> True
                          | Some vp \<Rightarrow> amount * vp \<le> u128_max \<and> amount * vp div 10 ^ 18 \<le> u64_max)
         | (d, False) \<Rightarrow> sane_decimals d \<and> (d < 8 \<longrightarrow> amount * 10 ^ (8 - d) \<le> u64_max)))
     \<and> sum_list (map (\<lambda>(ledger, amount). consumed_value s ledger amount) (bm_entries sc)) \<le> u64_max"

lemma consumed_value_coin: "consumed_value s ledger x = token_value_e8s (virtual_prices s) ledger (fst (coin_of s ledger)) (snd (coin_of s ledger)) x"
  by (simp add: consumed_value_def coin_of_def split: option.splits)

lemma consumed_value_quotient:
  assumes "value_fits s sc" and "(ledger, amount) \<in> set (bm_entries sc)"
  shows "\<exists>a b. \<forall>x \<le> amount. consumed_value s ledger x = x * a div b"
proof -
  obtain d lp where coin: "coin_of s ledger = (d, lp)" by (cases "coin_of s ledger")
  show ?thesis
  proof (cases lp)
    case True
    show ?thesis
    proof (cases "bm_get (virtual_prices s) ledger")
      case None
      then have "consumed_value s ledger x = x * 0 div 1" for x
        by (simp add: consumed_value_coin coin token_value_e8s_def True)
      then show ?thesis by blast
    next
      case (Some vp)
      then have fit: "amount * vp \<le> u128_max" "amount * vp div 10 ^ 18 \<le> u64_max"
        using assms by (auto simp: value_fits_def coin True)
      have "consumed_value s ledger x = x * vp div 10 ^ 18" if "x \<le> amount" for x
      proof -
        have le: "x * vp \<le> amount * vp" using that by simp
        with fit have "x * vp \<le> u128_max" by linarith
        moreover have "x * vp div 10 ^ 18 \<le> u64_max" using div_le_mono [OF le, of "10 ^ 18"] fit(2) by linarith
        ultimately show ?thesis
          by (simp add: consumed_value_coin coin token_value_e8s_def True Some lp_to_usd_e8s_def wrap64_id)
      qed
      then show ?thesis by blast
    qed
  next
    case False
    then have d: "sane_decimals d" "d < 8 \<longrightarrow> amount * 10 ^ (8 - d) \<le> u64_max"
      using assms by (auto simp: value_fits_def coin)
    consider "d = 8" | "d < 8" | "8 < d" by linarith
    then show ?thesis
    proof cases
      case 1
      then have "consumed_value s ledger x = x * 1 div 1" for x
        by (simp add: consumed_value_coin coin token_value_e8s_def False normalize_to_e8s_def)
      then show ?thesis by blast
    next
      case 2
      have "consumed_value s ledger x = x * 10 ^ (8 - d) div 1" if "x \<le> amount" for x
      proof -
        have "x * 10 ^ (8 - d) \<le> amount * 10 ^ (8 - d)" using that by simp
        with 2 d(2) have "x * 10 ^ (8 - d) \<le> u64_max" by linarith
        with 2 show ?thesis
          by (simp add: consumed_value_coin coin token_value_e8s_def False normalize_to_e8s_def sat_mul64_def pow10_u64_eq)
      qed
      then show ?thesis by blast
    next
      case 3
      then have "consumed_value s ledger x = x * 1 div 10 ^ (d - 8)" for x
        using d(1) by (simp add: consumed_value_coin coin token_value_e8s_def False normalize_to_e8s_def pow10_u64_eq sane_decimals_def)
      then show ?thesis by blast
    qed
  qed
qed

lemma consumed_value_shares:
  assumes "value_fits s sc" and "(ledger, amount) \<in> set (bm_entries sc)" and "sum_list (map f xs) \<le> amount"
  shows "sum_list (map (\<lambda>x. consumed_value s ledger (f x)) xs) \<le> consumed_value s ledger amount"
proof -
  obtain a b where q: "\<And>x. x \<le> amount \<Longrightarrow> consumed_value s ledger x = x * a div b"
    using consumed_value_quotient [OF assms(1,2)] by blast
  have le: "f x \<le> amount" if "x \<in> set xs" for x using sum_list_ge_elem [OF that, of f] assms(3) by simp
  have "sum_list (map (\<lambda>x. consumed_value s ledger (f x)) xs) = sum_list (map (\<lambda>x. f x * a div b) xs)"
    by (intro arg_cong [where f = sum_list] map_cong) (simp_all add: q le)
  also have "\<dots> \<le> sum_list (map (\<lambda>x. f x * a) xs) div b" by (rule div_superadditive)
  also have "\<dots> = sum_list (map f xs) * a div b" by (simp add: sum_list_mult_const)
  also have "\<dots> \<le> amount * a div b" using assms(3) by (intro div_le_mono mult_le_mono1)
  finally show ?thesis by (simp add: q)
qed

section \<open>Shares of a token\<close>

text \<open>The participants lose at most what was consumed, and fall short of it by less than one unit each.\<close>

lemma consume_share_le:
  assumes "sum_list (map f xs) = t" and "x \<in> set xs" and "c \<le> u64_max"
  shows "consume_share c t (f x) = min (c * f x div t) (f x)"
proof (cases "f x = 0")
  case False
  have fx: "f x \<le> t" using sum_list_ge_elem [OF assms(2), of f] assms(1) by simp
  with False have "0 < t" by simp
  have "c * f x div t \<le> c * t div t" using fx by (intro div_le_mono mult_le_mono2)
  with \<open>0 < t\<close> assms(3) have "c * f x div t \<le> u64_max" by simp
  with False \<open>0 < t\<close> show ?thesis by (simp add: consume_share_def pro_rata_def wrap64_id)
qed (simp add: consume_share_def)

lemma losses_le:
  assumes "sum_list (map f xs) = t" and "c \<le> u64_max"
  shows "sum_list (map (\<lambda>x. consume_share c t (f x)) xs) \<le> c"
proof -
  have "sum_list (map (\<lambda>x. consume_share c t (f x)) xs) \<le> sum_list (map (\<lambda>x. c * f x div t) xs)"
    using assms by (intro sum_list_mono) (simp add: consume_share_le)
  also have "\<dots> \<le> c" using assms by (intro shares_le) simp
  finally show ?thesis .
qed

lemma losses_ge:
  assumes "sum_list (map f xs) = t" and "c \<le> u64_max" and "c \<le> t"
  shows "c \<le> sum_list (map (\<lambda>x. consume_share c t (f x)) xs) + (length xs - 1)"
proof (cases "t = 0")
  case False
  have "consume_share c t (f x) = c * f x div t" if "x \<in> set xs" for x
  proof -
    have "c * f x div t \<le> t * f x div t" using assms(3) by (intro div_le_mono mult_le_mono1)
    then show ?thesis using False consume_share_le [OF assms(1) that assms(2)] by (simp add: min_def)
  qed
  then have eq: "map (\<lambda>x. consume_share c t (f x)) xs = map (\<lambda>x. c * f x div t) xs" by (intro map_cong) auto
  show ?thesis unfolding eq using shares_loss [OF assms(1), of c] False by simp
qed (use assms in simp)

section \<open>The value lost by all participants\<close>

lemma values_le_total:
  assumes "value_fits s sc"
    and "\<And>ledger. sum_list (map (\<lambda>x. balance_of ledger (snd x)) ps) \<le> u64_max"
  shows "sum_list (map (\<lambda>x. sum_list (share_values s (opted_in_total ps) sc (snd x))) ps) \<le> total_consumed_e8s s sc"
proof -
  have "sum_list (map (\<lambda>x. sum_list (map (\<lambda>e. consumed_value s (fst e)
            (consume_share (snd e) (opted_in_total ps (fst e)) (balance_of (fst e) (snd x)))) es)) ps)
      \<le> sum_list (map (\<lambda>e. consumed_value s (fst e) (snd e)) es)" if "set es \<subseteq> set (bm_entries sc)" for es
    using that
  proof (induction es)
    case (Cons e es)
    let ?v = "\<lambda>x. consumed_value s (fst e) (consume_share (snd e) (opted_in_total ps (fst e)) (balance_of (fst e) (snd x)))"
    have mem: "(fst e, snd e) \<in> set (bm_entries sc)" using Cons.prems by simp
    have tot: "sum_list (map (\<lambda>x. balance_of (fst e) (snd x)) ps) = opted_in_total ps (fst e)"
      using assms(2) [of "fst e"] by (simp add: opted_in_total_def case_prod_beta' wrap64_id)
    have "sum_list (map ?v ps) \<le> consumed_value s (fst e) (snd e)"
      by (intro consumed_value_shares [OF assms(1) mem] losses_le [OF tot]) (use assms(1) mem in \<open>auto simp: value_fits_def\<close>)
    with Cons show ?case by (simp add: sum_list_addf)
  qed simp
  from this [of "bm_entries sc"] show ?thesis
    using assms(1) by (simp add: share_values_def total_consumed_e8s_def value_fits_def case_prod_beta' wrap64_id)
qed

lemma sat_sum_le: "foldl sat_add64 n xs \<le> n + sum_list xs"
proof (induction xs arbitrary: n)
  case (Cons x xs)
  have "foldl sat_add64 (sat_add64 n x) xs \<le> sat_add64 n x + sum_list xs" by (rule Cons)
  also have "\<dots> \<le> n + x + sum_list xs" by (simp add: sat_add64_def)
  finally show ?case by simp
qed simp

lemma gains_le:
  assumes "sum_list (map v ps) \<le> (t :: nat)" and "\<And>x. x \<in> set ps \<Longrightarrow> w x \<le> v x" and "\<And>x. g x \<le> gained * w x div t"
  shows "sum_list (map g ps) \<le> gained"
proof -
  have "sum_list (map g ps) \<le> sum_list (map (\<lambda>x. gained * v x div t) ps)"
    using assms by (intro sum_list_mono) (meson div_le_mono mult_le_mono2 order.trans)
  also have "\<dots> \<le> gained" using assms(1) by (rule shares_le)
  finally show ?thesis .
qed

section \<open>Distribution over the deposits\<close>

text \<open>Shares for the participants and the remainder for the first of them add up to the whole.\<close>

lemma distribution_exact:
  fixes h d :: "deposit_position \<Rightarrow> nat" and ds :: "(principal, deposit_position) bmap" and P :: "deposit_position \<Rightarrow> bool"
    and F C :: "deposit_position \<Rightarrow> deposit_position"
  defines "ps \<equiv> filter (\<lambda>(_, v). P v) (bm_entries ds)" and "m \<equiv> bm_map (\<lambda>v. if P v then F v else v) ds"
  assumes F: "\<And>v. h v + d v \<le> B \<Longrightarrow> h (F v) = h v + d v"
    and C: "\<And>v. h v + dust \<le> B \<Longrightarrow> h (C v) = h v + dust"
    and le: "sum_list (map (\<lambda>x. d (snd x)) ps) \<le> gained"
    and dust: "dust = gained - sum_list (map (\<lambda>x. d (snd x)) ps)"
    and room: "bm_sum h ds + gained \<le> B" and ne: "ps \<noteq> []"
  shows "bm_sum h (if 0 < dust then (case ps of [] \<Rightarrow> m | (first, _) # _ \<Rightarrow> bm_modify first C m) else m) = bm_sum h ds + gained"
proof -
  have fit: "h v + d v \<le> B" if "(k, v) \<in> set (bm_entries ds)" and "P v" for k v
  proof -
    have "(k, v) \<in> set ps" using that by (simp add: ps_def)
    then have "d v \<le> gained" using sum_list_ge_elem [of "(k, v)" ps "\<lambda>x. d (snd x)"] le by simp
    moreover have "h v \<le> bm_sum h ds" using that by (intro bm_sum_ge [of ds k]) (simp add: bm.in_entries_iff)
    ultimately show ?thesis using room by simp
  qed
  have "sum_list (map (\<lambda>e. h (if P (snd e) then F (snd e) else snd e)) es)
      = sum_list (map (\<lambda>e. h (snd e)) es) + sum_list (map (\<lambda>x. d (snd x)) (filter (\<lambda>(_, v). P v) es))"
    if "set es \<subseteq> set (bm_entries ds)" for es
    using that
  proof (induction es)
    case (Cons e es)
    then show ?case using F [OF fit [of "fst e" "snd e"]] by (cases e) auto
  qed simp
  from this [of "bm_entries ds"] have m: "bm_sum h m = bm_sum h ds + sum_list (map (\<lambda>x. d (snd x)) ps)"
    unfolding m_def bm_sum_map unfolding bm_sum_def ps_def by simp
  obtain k v rest where ps: "ps = (k, v) # rest" using ne by (cases ps) auto
  have "(k, v) \<in> set (bm_entries ds)" using ps unfolding ps_def by (metis (no_types, lifting) filter_eq_ConsD in_set_conv_decomp)
  then have has: "bm_has m k" by (auto simp: m_def bm_has_def bm.in_entries_iff)
  have "bm_sum h (bm_modify k C m) = bm_sum h m + dust"
  proof (rule bm_sum_modify [OF has])
    show "h (C w) = h w + dust" if "bm_get m k = Some w" for w
      using bm_sum_ge [OF that, of h] m le dust room by (intro C) simp
  qed
  with m le dust show ?thesis by (simp add: ps)
qed

definition gain_of :: "principal \<Rightarrow> deposit_position \<Rightarrow> u64" where
  "gain_of ct pos = bm_get_or 0 (dp_collateral_gains pos) ct"

lemma consume_tokens_fields [simp]:
  "dp_collateral_gains (consume_tokens totals sc pos) = dp_collateral_gains pos"
  "dp_cfx_claims (consume_tokens totals sc pos) = dp_cfx_claims pos"
proof -
  have "dp_collateral_gains (foldl (\<lambda>p (l, c). debit_balance l (consume_share c (totals l) (balance_of l p)) p) pos es) = dp_collateral_gains pos
      \<and> dp_cfx_claims (foldl (\<lambda>p (l, c). debit_balance l (consume_share c (totals l) (balance_of l p)) p) pos es) = dp_cfx_claims pos" for es
    by (induction es arbitrary: pos) (auto simp: debit_balance_def)
  then show "dp_collateral_gains (consume_tokens totals sc pos) = dp_collateral_gains pos"
    and "dp_cfx_claims (consume_tokens totals sc pos) = dp_cfx_claims pos" by (simp_all add: consume_tokens_def)
qed

lemma gain_of_credit: "gain_of ct pos + x \<le> u64_max \<Longrightarrow> gain_of ct (credit_gain ct x pos) = gain_of ct pos + x"
  by (simp add: gain_of_def credit_gain_def wrap64_id)

lemma cfx_owed_credit: "cfx_owed ct pos + x \<le> u128_max \<Longrightarrow> cfx_owed ct (credit_cfx ct x pos) = cfx_owed ct pos + x"
  by (auto simp: cfx_owed_def credit_cfx_def Let_def opt_or_def split: option.splits)

lemma cfx_owed_credit_other: "u \<noteq> ct \<Longrightarrow> cfx_owed u (credit_cfx ct x pos) = cfx_owed u pos"
  by (auto simp: cfx_owed_def credit_cfx_def Let_def opt_or_def split: option.splits)

lemma gain_of_after:
  "gain_of ct v + pro_rata gained (value_lost s totals sc v) e \<le> u64_max \<Longrightarrow>
   gain_of ct (after_share s totals sc ct gained e v) = gain_of ct v + pro_rata gained (value_lost s totals sc v) e"
proof -
  have zero: "pro_rata gained 0 e = 0" by (simp add: pro_rata_def wrap64_def)
  have keep: "gain_of ct (consume_tokens totals sc v) = gain_of ct v" by (simp add: gain_of_def)
  assume "gain_of ct v + pro_rata gained (value_lost s totals sc v) e \<le> u64_max"
  then show ?thesis by (auto simp: after_share_def keep zero gain_of_credit)
qed

lemma cfx_owed_after:
  "cfx_owed ct v + sat_mul128 gained (chain_value_lost s totals sc v) div e \<le> u128_max \<Longrightarrow>
   cfx_owed ct (after_chain_share s totals sc ct gained e v) = cfx_owed ct v + sat_mul128 gained (chain_value_lost s totals sc v) div e"
proof -
  have zero: "sat_mul128 gained 0 div e = 0" by (simp add: sat_mul128_def)
  have keep: "cfx_owed ct (consume_tokens totals sc v) = cfx_owed ct v" by (simp add: cfx_owed_def)
  assume "cfx_owed ct v + sat_mul128 gained (chain_value_lost s totals sc v) div e \<le> u128_max"
  then show ?thesis by (auto simp: after_chain_share_def keep zero cfx_owed_credit)
qed

lemma empty_gain: "position_is_empty pos \<Longrightarrow> gain_of ct pos = 0"
  by (auto simp: position_is_empty_def gain_of_def bm_get_or_def bm_values_def bm.in_entries_iff [symmetric] split: option.splits)

lemma empty_owed: "position_is_empty pos \<Longrightarrow> cfx_owed ct pos = 0"
  by (auto simp: position_is_empty_def cfx_owed_def bm_get_or_def bm_values_def bm.in_entries_iff [symmetric] split: option.splits)

section \<open>The two liquidations\<close>

lemma participants_fit:
  assumes "sp_books s"
  shows "sum_list (map (\<lambda>x. balance_of u (snd x)) (participants s ct)) \<le> u64_max"
    and "sum_list (map (\<lambda>x. balance_of u (snd x)) (chain_participants s ct)) \<le> u64_max"
proof -
  have all: "sum_list (map (\<lambda>x. balance_of u (snd x)) (bm_entries (sps_deposits s))) \<le> u64_max"
    using sp_booksD [OF assms, of u] by (simp add: held_def bm_sum_def)
  show "sum_list (map (\<lambda>x. balance_of u (snd x)) (participants s ct)) \<le> u64_max"
    unfolding participants_def by (rule order.trans [OF sum_filter_le all])
  show "sum_list (map (\<lambda>x. balance_of u (snd x)) (chain_participants s ct)) \<le> u64_max"
    unfolding chain_participants_def by (rule order.trans [OF sum_filter_le all])
qed

lemma gains_total:
  assumes "sp_books s" and "\<not> collateral_requires_payout_address ct" and "value_fits s sc" and "total_consumed_e8s s sc \<noteq> 0"
    and "participants s ct \<noteq> []" and "bm_sum (gain_of ct) (sps_deposits s) + gained \<le> u64_max"
  shows "bm_sum (gain_of ct) (sps_deposits (process_liquidation_gains vault_id ct sc gained price now s))
       = bm_sum (gain_of ct) (sps_deposits s) + gained"
proof -
  let ?ps = "participants s ct" and ?T = "opted_in_total (participants s ct)" and ?e = "total_consumed_e8s s sc"
  let ?d = "\<lambda>v. pro_rata gained (value_lost s ?T sc v) ?e"
  let ?n = "snd (foldl (absorb_share s ?T sc ct gained ?e) (sps_deposits s, 0) ?ps)"
  have le: "sum_list (map (\<lambda>x. ?d (snd x)) ?ps) \<le> gained"
  proof (rule gains_le)
    show "sum_list (map (\<lambda>x. sum_list (share_values s ?T sc (snd x))) ?ps) \<le> ?e"
      by (rule values_le_total [OF assms(3)]) (rule participants_fit(1) [OF assms(1)])
    show "value_lost s ?T sc (snd x) \<le> sum_list (share_values s ?T sc (snd x))" for x
      by (simp add: value_lost_def wrap64_le)
    show "?d (snd x) \<le> gained * value_lost s ?T sc (snd x) div ?e" for x by (rule pro_rata_le)
  qed
  then have n: "?n = sum_list (map (\<lambda>x. ?d (snd x)) ?ps)"
    using absorb_fold_snd [of 0 gained s ?T sc ?e ?ps ct "sps_deposits s"] assms(6) by simp
  show ?thesis
    unfolding gains_form(1) [OF assms(2,4)]
  proof (subst bm_sum_retain)
    show "gain_of ct v = 0" if "\<not> \<not> position_is_empty v" for v using that empty_gain by simp
  qed (use le n assms(5,6) in \<open>unfold participants_def, intro distribution_exact [where d = ?d and B = u64_max], auto simp: participants_def gain_of_after gain_of_credit\<close>)
qed

lemma chain_gains_total:
  assumes "sp_books s" and "is_chain_collateral_sentinel s ct" and "gained \<noteq> 0" and "chain_participants s ct \<noteq> []"
    and "total_consumed_e8s s sc \<noteq> 0" and "value_fits s sc" and "bm_sum (cfx_owed ct) (sps_deposits s) + gained \<le> u128_max"
  shows "bm_sum (cfx_owed ct) (sps_deposits (process_chain_liquidation_gains ct sc gained s))
       = bm_sum (cfx_owed ct) (sps_deposits s) + gained"
proof -
  let ?ps = "chain_participants s ct" and ?T = "opted_in_total (chain_participants s ct)" and ?e = "total_consumed_e8s s sc"
  let ?d = "\<lambda>v. sat_mul128 gained (chain_value_lost s ?T sc v) div ?e"
  let ?n = "snd (foldl (absorb_chain_share s ?T sc ct gained ?e) (sps_deposits s, 0) ?ps)"
  have le: "sum_list (map (\<lambda>x. ?d (snd x)) ?ps) \<le> gained"
  proof (rule gains_le)
    show "sum_list (map (\<lambda>x. sum_list (share_values s ?T sc (snd x))) ?ps) \<le> ?e"
      by (rule values_le_total [OF assms(6)]) (rule participants_fit(2) [OF assms(1)])
    show "chain_value_lost s ?T sc (snd x) \<le> sum_list (share_values s ?T sc (snd x))" for x
      using sat_sum_le [of 0] by (simp add: chain_value_lost_def)
    show "?d (snd x) \<le> gained * chain_value_lost s ?T sc (snd x) div ?e" for x
      by (intro div_le_mono) (simp add: sat_mul128_def)
  qed
  then have n: "?n = sum_list (map (\<lambda>x. ?d (snd x)) ?ps)"
    using absorb_chain_fold_snd [of 0 gained s ?T sc ?e ?ps ct "sps_deposits s"] assms(7) by simp
  show ?thesis
    unfolding chain_gains_form(1) [OF assms(2-5)]
  proof (subst bm_sum_retain)
    show "cfx_owed ct v = 0" if "\<not> \<not> position_is_empty v" for v using that empty_owed by simp
  qed (use le n assms(4,7) in \<open>unfold chain_participants_def, intro distribution_exact [where d = ?d and B = u128_max], auto simp: chain_participants_def cfx_owed_after cfx_owed_credit\<close>)
qed

lemma chain_gains_other:
  assumes "u \<noteq> ct"
  shows "bm_sum (cfx_owed u) (sps_deposits (process_chain_liquidation_gains ct sc gained s)) = bm_sum (cfx_owed u) (sps_deposits s)"
proof (cases "is_chain_collateral_sentinel s ct \<and> gained \<noteq> 0 \<and> chain_participants s ct \<noteq> [] \<and> total_consumed_e8s s sc \<noteq> 0")
  case True
  then have ok: "is_chain_collateral_sentinel s ct" "gained \<noteq> 0" "chain_participants s ct \<noteq> []" "total_consumed_e8s s sc \<noteq> 0"
    by auto
  have keep: "cfx_owed u (consume_tokens totals sc v) = cfx_owed u v" for totals v by (simp add: cfx_owed_def)
  have after: "cfx_owed u (after_chain_share s totals sc ct gained e v) = cfx_owed u v" for totals e v
    by (simp add: after_chain_share_def keep cfx_owed_credit_other [OF assms])
  have "bm_sum (cfx_owed u) (sps_deposits (process_chain_liquidation_gains ct sc gained s))
      = bm_sum (cfx_owed u) (bm_map (\<lambda>v. if is_opted_in_for_chain ct v
          then after_chain_share s (opted_in_total (chain_participants s ct)) sc ct gained (total_consumed_e8s s sc) v else v) (sps_deposits s))"
    unfolding chain_gains_form(1) [OF ok]
  proof (subst bm_sum_retain)
    show "cfx_owed u v = 0" if "\<not> \<not> position_is_empty v" for v using that empty_owed by simp
  qed (rule dust_keeps, rule cfx_owed_credit_other [OF assms])
  then show ?thesis by (simp add: bm_sum_map after if_distrib [of "cfx_owed u"] cong: if_cong)
next
  case False
  then show ?thesis by (auto simp: process_chain_liquidation_gains_def Let_def chain_participants_def)
qed

text \<open>What the aggregate of a consumed token loses.\<close>

lemma gains_deducted:
  assumes "sp_books s" and "\<not> collateral_requires_payout_address ct" and "total_consumed_e8s s sc \<noteq> 0"
    and "bm_get sc u = Some c" and "c \<le> u64_max"
  shows "tracked (process_liquidation_gains vault_id ct sc gained price now s) u \<le> tracked s u"
    and "tracked s u \<le> tracked (process_liquidation_gains vault_id ct sc gained price now s) u + c"
    and "c \<le> opted_in_total (participants s ct) u \<Longrightarrow>
         tracked (process_liquidation_gains vault_id ct sc gained price now s) u + c
           \<le> tracked s u + (length (participants s ct) - 1)"
proof -
  let ?ps = "participants s ct" and ?s' = "process_liquidation_gains vault_id ct sc gained price now s"
  let ?T = "opted_in_total ?ps"
  have tot: "sum_list (map (\<lambda>x. balance_of u (snd x)) ?ps) = ?T u"
    using participants_fit(1) [OF assms(1)] by (simp add: opted_in_total_def case_prod_beta' wrap64_id)
  let ?L = "sum_list (map (\<lambda>x. consume_share c (?T u) (balance_of u (snd x))) ?ps)"
  have ded: "token_deducted ?T sc ?ps u = ?L"
    using deducted_exact [OF participants_fit(1) [OF assms(1), of u ct], of ?T sc] by (simp add: token_loss_def assms(4))
  have tr: "tracked ?s' u = tracked s u - ?L" using gains_form(2) [OF assms(2,3), of vault_id gained price now u] ded by simp
  have "?L \<le> ?T u"
    using sum_list_mono [of ?ps "\<lambda>x. consume_share c (?T u) (balance_of u (snd x))" "\<lambda>x. balance_of u (snd x)"] tot
    by (simp add: consume_share_def)
  moreover have "?T u \<le> tracked s u"
    using sum_filter_le [of "\<lambda>x. balance_of u (snd x)" "\<lambda>(_, pos). position_opted_in_for s ct pos" "bm_entries (sps_deposits s)"]
      sp_booksD(1) [OF assms(1), of u] tot by (simp add: participants_def held_def bm_sum_def)
  ultimately have L: "?L \<le> tracked s u" by simp
  show "tracked ?s' u \<le> tracked s u" by (simp add: tr)
  show "tracked s u \<le> tracked ?s' u + c" using losses_le [OF tot assms(5)] by (simp add: tr)
  show "tracked ?s' u + c \<le> tracked s u + (length ?ps - 1)" if "c \<le> ?T u"
    using losses_ge [OF tot assms(5) that] L by (simp add: tr)
qed

text \<open>Whoever did not opt in keeps the position.\<close>

lemma gains_bystander:
  assumes "bm_get (sps_deposits s) p = Some pos" and "\<not> position_opted_in_for s ct pos" and "\<not> position_is_empty pos"
  shows "bm_get (sps_deposits (process_liquidation_gains vault_id ct sc gained price now s)) p = Some pos"
proof (cases "collateral_requires_payout_address ct \<or> total_consumed_e8s s sc = 0")
  case True
  then show ?thesis using assms by (auto simp: process_liquidation_gains_def Let_def)
next
  case False
  then have ok: "\<not> collateral_requires_payout_address ct" "total_consumed_e8s s sc \<noteq> 0" by auto
  have "p \<noteq> k" if "participants s ct = (k, v) # rest" for k v rest
  proof -
    from that have "(k, v) \<in> set (participants s ct)" by simp
    then have "bm_get (sps_deposits s) k = Some v" "position_opted_in_for s ct v"
      by (auto simp: participants_def bm.in_entries_iff)
    then show ?thesis using assms by auto
  qed
  then show ?thesis unfolding gains_form(1) [OF ok] using assms by (auto split: list.split)
qed

end
