(* ===== verification/Sp_Funding.thy ===== *)
theory Sp_Funding
  imports Sp_Conserve
begin

text \<open>
  The claims to native collateral: what the depositors are owed on a chain is covered by the sources the backend holds
  for the pool (\<open>cfx_funded\<close>), whatever mixture of absorptions, payouts, rollbacks and recoveries has run. With the
  books this is the invariant of the pool (\<open>sp_inv\<close>).
\<close>

definition owed_total :: "sp_state \<Rightarrow> principal \<Rightarrow> nat" where
  "owed_total s c = bm_sum (cfx_owed c) (sps_deposits s)"

definition source_total :: "sp_state \<Rightarrow> principal \<Rightarrow> nat" where
  "source_total s c = sum_list (map cs_remaining_native (bm_get_or [] (claim_sources s) c))"

definition cfx_funded :: "sp_state \<Rightarrow> bool" where
  "cfx_funded s \<longleftrightarrow> (\<forall>c. owed_total s c \<le> source_total s c \<and> source_total s c \<le> u128_max)"

definition sp_inv :: "sp_state \<Rightarrow> bool" where
  "sp_inv s \<longleftrightarrow> sp_books s \<and> cfx_funded s"

lemma sp_invI: "sp_books s \<Longrightarrow> cfx_funded s \<Longrightarrow> sp_inv s"
  by (simp add: sp_inv_def)

lemma sp_inv_books: "sp_inv s \<Longrightarrow> sp_books s"
  by (simp add: sp_inv_def)

lemma sp_inv_funded: "sp_inv s \<Longrightarrow> owed_total s c \<le> source_total s c" "sp_inv s \<Longrightarrow> source_total s c \<le> u128_max"
  by (simp_all add: sp_inv_def cfx_funded_def)

section \<open>Changes that move no money\<close>

definition same_money :: "sp_state \<Rightarrow> sp_state \<Rightarrow> bool" where
  "same_money s s' \<longleftrightarrow> sps_deposits s' = sps_deposits s \<and> sps_total_stablecoin_balances s' = sps_total_stablecoin_balances s
     \<and> sps_chain_claim_sources s' = sps_chain_claim_sources s"

lemma same_money_inv: "same_money s s' \<Longrightarrow> sp_inv s' \<longleftrightarrow> sp_inv s"
  by (simp add: same_money_def sp_inv_def sp_books_def cfx_funded_def held_def tracked_def owed_total_def source_total_def claim_sources_def)

lemma same_money_refl [simp]: "same_money s s"
  by (simp add: same_money_def)

lemma same_money_push [simp]: "same_money s (push_event now p e s)"
  by (simp add: same_money_def push_event_def Let_def)

lemma push_event_inv [simp]: "sp_inv (push_event now p e s) \<longleftrightarrow> sp_inv s"
  by (rule same_money_inv) simp

lemma modify_inv:
  assumes "sp_inv s" and "\<And>u v. balance_of u (f v) = balance_of u v" and "\<And>u v. cfx_owed u (f v) = cfx_owed u v"
  shows "sp_inv (s\<lparr>sps_deposits := bm_modify k f (sps_deposits s)\<rparr>)"
proof -
  have "bm_sum (balance_of u) (bm_modify k f (sps_deposits s)) = bm_sum (balance_of u) (sps_deposits s)"
    and "bm_sum (cfx_owed u) (bm_modify k f (sps_deposits s)) = bm_sum (cfx_owed u) (sps_deposits s)" for u
    by (simp_all add: bm_sum_modify_keep assms)
  with assms(1) show ?thesis
    by (simp add: sp_inv_def sp_books_def cfx_funded_def held_def tracked_def owed_total_def source_total_def claim_sources_def)
qed

lemma replace_inv:
  assumes "sp_inv s" and "bm_get (sps_deposits s) k = Some pos"
    and "\<And>u. balance_of u pos' = balance_of u pos" and "\<And>u. cfx_owed u pos' = cfx_owed u pos"
  shows "sp_inv (s\<lparr>sps_deposits := bm_insert k pos' (sps_deposits s)\<rparr>)"
proof -
  have "bm_sum (balance_of u) (bm_insert k pos' (sps_deposits s)) = bm_sum (balance_of u) (sps_deposits s)"
    and "bm_sum (cfx_owed u) (bm_insert k pos' (sps_deposits s)) = bm_sum (cfx_owed u) (sps_deposits s)" for u
    using bm_sum_insert_same [OF assms(2)] assms(3,4) by auto
  with assms(1) show ?thesis
    by (simp add: sp_inv_def sp_books_def cfx_funded_def held_def tracked_def owed_total_def source_total_def claim_sources_def)
qed

text \<open>Preferences and gains do not enter the sums.\<close>

lemma preferences_inv:
  assumes "sp_inv s"
  shows "opt_in_cfx user ct s = Ok s' \<Longrightarrow> sp_inv s'" and "opt_out_cfx user ct s = Ok s' \<Longrightarrow> sp_inv s'"
    and "opt_in_collateral user ct s = Ok s' \<Longrightarrow> sp_inv s'" and "opt_out_collateral user ct s = Ok s' \<Longrightarrow> sp_inv s'"
proof -
  have cfx: "sp_inv s'" if "opt_in_cfx user ct s = Ok s'" for s'
    using that assms by (auto simp: opt_in_cfx_def Let_def balance_of_def cfx_owed_def split: if_splits option.splits intro!: replace_inv)
  have out: "sp_inv s'" if "opt_out_cfx user ct s = Ok s'" for s'
    using that assms by (auto simp: opt_out_cfx_def Let_def balance_of_def cfx_owed_def split: if_splits option.splits intro!: replace_inv)
  show "opt_in_cfx user ct s = Ok s' \<Longrightarrow> sp_inv s'" by (rule cfx)
  show "opt_out_cfx user ct s = Ok s' \<Longrightarrow> sp_inv s'" by (rule out)
  show "opt_in_collateral user ct s = Ok s' \<Longrightarrow> sp_inv s'"
    using assms by (auto simp: opt_in_collateral_def balance_of_def cfx_owed_def split: if_splits option.splits intro!: replace_inv dest: cfx)
  show "opt_out_collateral user ct s = Ok s' \<Longrightarrow> sp_inv s'"
    using assms by (auto simp: opt_out_collateral_def Let_def balance_of_def cfx_owed_def split: if_splits option.splits intro!: replace_inv dest: out)
qed

lemma claim_gains_inv: "sp_inv s \<Longrightarrow> sp_inv (mark_gains_claimed user ct amount s)"
  unfolding mark_gains_claimed_def by (rule modify_inv) (auto simp: claim_gains_def Let_def balance_of_def cfx_owed_def)

lemma restore_gains_inv: "sp_inv s \<Longrightarrow> sp_inv (restore_gains user ct amount s)"
  unfolding restore_gains_def by (rule modify_inv) (auto simp: balance_of_def cfx_owed_def)

lemma correct_gain_inv: "sp_inv s \<Longrightarrow> sp_inv (fst (correct_collateral_gain user ct amount s))"
  unfolding correct_collateral_gain_def Let_def by (auto simp: balance_of_def cfx_owed_def intro!: modify_inv)

section \<open>Changes of the balances\<close>

lemma owed_same:
  assumes "cfx_funded s" and "\<And>c. owed_total s' c \<le> owed_total s c" and "sps_chain_claim_sources s' = sps_chain_claim_sources s"
  shows "cfx_funded s'"
  using assms by (auto simp: cfx_funded_def source_total_def claim_sources_def intro: order.trans)

lemma owed_credit_balance [simp]: "cfx_owed c (credit_balance t x pos) = cfx_owed c pos"
  by (simp add: cfx_owed_def credit_balance_def)

lemma owed_earn [simp]: "cfx_owed c (earn_interest t d x pos) = cfx_owed c pos"
  by (simp add: cfx_owed_def earn_interest_def credit_balance_def)

lemma owed_new [simp]: "cfx_owed c (deposit_position_new now) = 0"
  by (simp add: cfx_owed_def deposit_position_new_def)

lemma owed_put:
  "owed_total (s\<lparr>sps_deposits := bm_insert k pos (sps_deposits s)\<rparr>) c
     + (case bm_get (sps_deposits s) k of None \<Rightarrow> 0 | Some old \<Rightarrow> cfx_owed c old) = owed_total s c + cfx_owed c pos"
  using bm_sum_insert [of "cfx_owed c" k pos "sps_deposits s"] by (simp add: owed_total_def)

lemma add_deposit_inv:
  assumes "sp_inv s" and "tracked s t + amount \<le> u64_max"
  shows "sp_inv (add_deposit now user t amount s)"
proof (rule sp_invI)
  show "sp_books (add_deposit now user t amount s)" by (rule add_deposit_books [OF sp_inv_books [OF assms(1)] assms(2)])
  show "cfx_funded (add_deposit now user t amount s)"
  proof (rule owed_same)
    show "cfx_funded s" using assms by (simp add: sp_inv_def)
    show "owed_total (add_deposit now user t amount s) c \<le> owed_total s c" for c
      using bm_sum_insert [of "cfx_owed c" user _ "sps_deposits s"]
      by (auto simp: add_deposit_def Let_def owed_total_def bm_sum_insert_same split: option.splits)
  qed (simp add: add_deposit_def Let_def)
qed

lemma owed_replaced:
  assumes "bm_get (sps_deposits s) user = Some pos" and "\<And>c. cfx_owed c pos' = cfx_owed c pos"
  shows "bm_sum (cfx_owed c) (if position_is_empty pos' then bm_remove user (sps_deposits s) else bm_insert user pos' (sps_deposits s))
       \<le> owed_total s c"
  using bm_sum_remove [of "cfx_owed c" user "sps_deposits s"] bm_sum_insert_old [OF assms(1), of "cfx_owed c" pos'] assms
  by (auto simp: owed_total_def)

lemma withdrawal_form:
  assumes "process_withdrawal user t amount s = Ok s'"
  obtains pos b where "bm_get (sps_deposits s) user = Some pos"
    and "s' = sub_total t amount (s\<lparr>sps_deposits := (if position_is_empty (pos\<lparr>dp_stablecoin_balances := b\<rparr>)
           then bm_remove user (sps_deposits s) else bm_insert user (pos\<lparr>dp_stablecoin_balances := b\<rparr>) (sps_deposits s))\<rparr>)"
proof -
  obtain pos where pos: "bm_get (sps_deposits s) user = Some pos"
    using assms by (auto simp: process_withdrawal_def split: option.splits)
  let ?b = "if balance_of t pos - amount = 0 then bm_remove t (dp_stablecoin_balances pos)
            else bm_insert t (balance_of t pos - amount) (dp_stablecoin_balances pos)"
  have "s' = sub_total t amount (s\<lparr>sps_deposits := (if position_is_empty (pos\<lparr>dp_stablecoin_balances := ?b\<rparr>)
           then bm_remove user (sps_deposits s) else bm_insert user (pos\<lparr>dp_stablecoin_balances := ?b\<rparr>) (sps_deposits s))\<rparr>)"
    using assms pos by (simp add: process_withdrawal_def Let_def split: if_splits)
  with pos show ?thesis by (rule that)
qed

lemma withdrawal_inv:
  assumes "sp_inv s" and "process_withdrawal user t amount s = Ok s'"
  shows "sp_inv s'"
proof (rule sp_invI)
  show "sp_books s'" by (rule process_withdrawal_books [OF sp_inv_books [OF assms(1)] assms(2)])
  show "cfx_funded s'"
  proof (rule owed_same)
    show "cfx_funded s" using assms by (simp add: sp_inv_def)
    from assms(2) obtain pos b where pos: "bm_get (sps_deposits s) user = Some pos"
      and s': "s' = sub_total t amount (s\<lparr>sps_deposits := (if position_is_empty (pos\<lparr>dp_stablecoin_balances := b\<rparr>)
           then bm_remove user (sps_deposits s) else bm_insert user (pos\<lparr>dp_stablecoin_balances := b\<rparr>) (sps_deposits s))\<rparr>)"
      by (rule withdrawal_form)
    show "owed_total s' c \<le> owed_total s c" for c
      using owed_replaced [OF pos, of "pos\<lparr>dp_stablecoin_balances := b\<rparr>" c]
      by (simp only: s' owed_total_def sub_total_fields) (simp add: cfx_owed_def)
    show "sps_chain_claim_sources s' = sps_chain_claim_sources s" by (simp add: s' sub_total_def)
  qed
qed

lemma correct_balance_inv:
  assumes "sp_inv s" and "bm_get (sps_deposits s) user = Some pos" and "bm_has (sps_total_stablecoin_balances s) t"
    and "tracked s t - balance_of t pos + amount \<le> u64_max"
  shows "sp_inv (fst (correct_balance user t amount s))"
proof (rule sp_invI)
  show "sp_books (fst (correct_balance user t amount s))"
    by (rule correct_balance_books [OF sp_inv_books [OF assms(1)] assms(2-4)])
  show "cfx_funded (fst (correct_balance user t amount s))"
  proof (rule owed_same)
    show "cfx_funded s" using assms by (simp add: sp_inv_def)
    show "owed_total (fst (correct_balance user t amount s)) c \<le> owed_total s c" for c
      using owed_replaced [OF assms(2)] assms(2)
      by (auto simp: correct_balance_def Let_def owed_total_def cfx_owed_def)
  qed (auto simp: correct_balance_def Let_def)
qed

lemma interest_inv:
  assumes "sp_inv s" and "tracked s t + amount \<le> u64_max"
  shows "sp_inv (distribute_interest_revenue t amount ct s)"
proof (rule sp_invI)
  have books: "sp_books s" by (rule sp_inv_books [OF assms(1)])
  show "sp_books (distribute_interest_revenue t amount ct s)" by (rule distribute_books [OF books assms(2)])
  show "cfx_funded (distribute_interest_revenue t amount ct s)"
  proof (rule owed_same)
    show "cfx_funded s" using assms by (simp add: sp_inv_def)
    show "sps_chain_claim_sources (distribute_interest_revenue t amount ct s) = sps_chain_claim_sources s"
      by (auto simp: distribute_interest_revenue_def Let_def case_prod_beta')
    show "owed_total (distribute_interest_revenue t amount ct s) c \<le> owed_total s c" for c
    proof (cases "has_eligible_interest_recipient ct s \<and> 0 < amount")
      case True
      then have "sps_deposits (distribute_interest_revenue t amount ct s)
          = earn_fold t (token_decimals s t) (sps_deposits s) (interest_credits amount ct s)"
        using assms(2) by (intro distribute_some(1) [OF books]) auto
      then show ?thesis by (simp add: owed_total_def foldl_modify_keep)
    next
      case False
      then show ?thesis by (simp add: distribute_none [OF books])
    qed
  qed
qed

lemma fee_inv:
  assumes "sp_inv s"
  shows "sp_inv (deduct_fee_from_pool t fee s)"
proof (rule sp_invI)
  show "sp_books (deduct_fee_from_pool t fee s)" by (rule deduct_fee_books [OF sp_inv_books [OF assms]])
  have keep: "cfx_owed c (fst (pay_fee_share t fee n pos)) = cfx_owed c pos" for c n pos
    by (auto simp: pay_fee_share_def Let_def cfx_owed_def split: option.splits)
  show "cfx_funded (deduct_fee_from_pool t fee s)"
  proof (rule owed_same)
    show "cfx_funded s" using assms by (simp add: sp_inv_def)
    show "owed_total (deduct_fee_from_pool t fee s) c \<le> owed_total s c" for c
      by (simp add: deduct_fee_from_pool_def Let_def owed_total_def bm_sum_map keep)
  qed (simp add: deduct_fee_from_pool_def Let_def sub_total_def)
qed

lemma gains_inv:
  assumes "sp_inv s"
  shows "sp_inv (process_liquidation_gains vault_id ct sc gained price now s)"
proof (rule sp_invI)
  show "sp_books (process_liquidation_gains vault_id ct sc gained price now s)" by (rule gains_books [OF sp_inv_books [OF assms]])
  show "cfx_funded (process_liquidation_gains vault_id ct sc gained price now s)"
  proof (rule owed_same)
    show "cfx_funded s" using assms by (simp add: sp_inv_def)
    have "sps_chain_claim_sources (foldl (\<lambda>s l. sub_total l (f l) s) s ls) = sps_chain_claim_sources s" for f ls
      by (induction ls arbitrary: s) (simp_all add: sub_total_def)
    then show "sps_chain_claim_sources (process_liquidation_gains vault_id ct sc gained price now s) = sps_chain_claim_sources s"
      by (simp add: process_liquidation_gains_def Let_def case_prod_beta' sub_deducted_def)
    show "owed_total (process_liquidation_gains vault_id ct sc gained price now s) c \<le> owed_total s c" for c
    proof (cases "collateral_requires_payout_address ct \<or> total_consumed_e8s s sc = 0")
      case True
      then show ?thesis by (auto simp: process_liquidation_gains_def Let_def)
    next
      case False
      then have ok: "\<not> collateral_requires_payout_address ct" "total_consumed_e8s s sc \<noteq> 0" by auto
      have after: "cfx_owed c (after_share s totals sc ct gained e v) = cfx_owed c v" for totals e v
        by (simp add: after_share_def cfx_owed_def credit_gain_def)
      have "owed_total (process_liquidation_gains vault_id ct sc gained price now s) c
          = bm_sum (cfx_owed c) (bm_map (\<lambda>v. if position_opted_in_for s ct v
              then after_share s (opted_in_total (participants s ct)) sc ct gained (total_consumed_e8s s sc) v else v) (sps_deposits s))"
        unfolding owed_total_def gains_form(1) [OF ok]
      proof (subst bm_sum_retain)
        show "cfx_owed c v = 0" if "\<not> \<not> position_is_empty v" for v using that empty_owed by simp
      qed (rule dust_keeps, simp add: cfx_owed_def credit_gain_def)
      then show ?thesis by (simp add: bm_sum_map after if_distrib [of "cfx_owed c"] owed_total_def cong: if_cong)
    qed
  qed
qed

section \<open>Claims and their sources\<close>

lemma add_source_total:
  "sum_list (map cs_remaining_native xs) + a \<le> u128_max \<Longrightarrow>
   sum_list (map cs_remaining_native (add_source i a xs)) = sum_list (map cs_remaining_native xs) + a"
  by (induction xs) (auto simp: sat_add128_def)

lemma record_source_total:
  assumes "source_total s ct + a \<le> u128_max"
  shows "source_total (record_chain_claim_source ct i a s) c = source_total s c + (if c = ct then a else 0)"
    and "owed_total (record_chain_claim_source ct i a s) c = owed_total s c"
    and "sp_books (record_chain_claim_source ct i a s) = sp_books s"
proof -
  show "source_total (record_chain_claim_source ct i a s) c = source_total s c + (if c = ct then a else 0)"
    using assms by (auto simp: record_chain_claim_source_def source_total_def claim_sources_def add_source_total)
  show "owed_total (record_chain_claim_source ct i a s) c = owed_total s c"
    by (simp add: record_chain_claim_source_def owed_total_def)
  show "sp_books (record_chain_claim_source ct i a s) = sp_books s"
    by (simp add: record_chain_claim_source_def sp_books_def held_def tracked_def)
qed

text \<open>A payout that comes back raises the claim and its source by the same amount.\<close>

lemma recredit_claim_inv:
  assumes "sp_inv s" and "source_total s ct + a \<le> u128_max"
  shows "sp_inv (recredit_claim user ct a (record_chain_claim_source ct i a s))"
proof -
  let ?r = "record_chain_claim_source ct i a s" and ?s' = "recredit_claim user ct a (record_chain_claim_source ct i a s)"
  note r = record_source_total [OF assms(2), where i = i]
  define pos where "pos = (case bm_get (sps_deposits ?r) user of None \<Rightarrow> deposit_position_new 0 | Some p \<Rightarrow> p)"
  have s': "?s' = ?r\<lparr>sps_deposits := bm_insert user (credit_cfx ct a pos) (sps_deposits ?r)\<rparr>"
    by (simp add: recredit_claim_def pos_def)
  have old: "(case bm_get (sps_deposits ?r) user of None \<Rightarrow> 0 | Some old \<Rightarrow> cfx_owed c old) = cfx_owed c pos" for c
    by (simp add: pos_def split: option.splits)
  have "cfx_owed ct pos \<le> owed_total ?r ct"
    by (auto simp: pos_def owed_total_def intro: bm_sum_ge split: option.splits)
  then have fit: "cfx_owed ct pos + a \<le> u128_max"
    using r(2) [of ct] sp_inv_funded [OF assms(1), of ct] assms(2) by simp
  have owed: "owed_total ?s' c = owed_total s c + (if c = ct then a else 0)" for c
    using owed_put [where s = ?r and k = user and pos = "credit_cfx ct a pos" and c = c] old [of c] r(2) [of c] fit
    by (auto simp: s' cfx_owed_credit cfx_owed_credit_other)
  have held: "bm_sum (balance_of u) (bm_insert user (credit_cfx ct a pos) (sps_deposits ?r)) = held ?r u" for u
    using bm_sum_insert [of "balance_of u" user "credit_cfx ct a pos" "sps_deposits ?r"]
    by (auto simp: held_def pos_def split: option.splits)
  have "sp_books ?s'"
    using r(3) sp_inv_books [OF assms(1)] by (simp add: s' sp_books_def held)
  moreover have "source_total ?s' c = source_total s c + (if c = ct then a else 0)" for c
    using r(1) [of c] by (simp add: s' source_total_def claim_sources_def)
  then have "cfx_funded ?s'" using sp_inv_funded [OF assms(1)] assms(2) by (auto simp: cfx_funded_def owed)
  ultimately show ?thesis by (rule sp_invI)
qed

lemma record_recovery_money: "same_money s (record_completed_recovery r s)"
proof -
  have evict: "same_money s (evict_recovery s)" for s
    by (auto simp: same_money_def evict_recovery_def Let_def split: option.splits)
  have "same_money s ((evict_recovery ^^ n) s)" for n s
    using evict by (induction n arbitrary: s) (auto simp: same_money_def)
  then show ?thesis by (simp add: record_completed_recovery_def Let_def same_money_def)
qed

lemma recredit_inv:
  assumes "sp_inv s" and "source_total s (cr_chain_sentinel rec) + cr_amount_wei rec \<le> u128_max"
    and "recredit_failed_cfx_claim_payout rec now s = Ok (s', b)"
  shows "sp_inv s'"
  using assms recredit_claim_inv [OF assms(1,2), of "cr_claimant rec" "cr_claim_id rec"]
  by (auto simp: recredit_failed_cfx_claim_payout_def Let_def same_money_inv [OF record_recovery_money] split: if_splits option.splits)

lemma rollback_inv:
  assumes "sp_inv s" and "source_total s (pp_chain_sentinel plan) + pp_amount_wei plan \<le> u128_max"
  shows "sp_inv (rollback_cfx_claim_payout plan s)"
  unfolding rollback_cfx_claim_payout_def by (rule recredit_claim_inv [OF assms])

text \<open>A payout lowers the claim and the source it is drawn from by the same amount.\<close>

lemma draw_source_total:
  "draw_source owed xs = Some (i, a, ys) \<Longrightarrow>
   sum_list (map cs_remaining_native xs) = sum_list (map cs_remaining_native ys) + a \<and> a \<le> owed"
  by (induction xs arbitrary: i a ys) (auto simp: Let_def split: if_splits)

lemma mark_claimed:
  assumes "bm_get (sps_deposits s) user = Some pos" and "a \<le> cfx_owed ct pos"
  shows "owed_total (mark_cfx_claimed user ct a s) c + (if c = ct then a else 0) = owed_total s c"
    and "held (mark_cfx_claimed user ct a s) u = held s u"
proof -
  define f :: "deposit_position \<Rightarrow> deposit_position" where "f = (\<lambda>pos. pos\<lparr>dp_cfx_claims := map_option (\<lambda>claims.
          case bm_get claims ct of
            None \<Rightarrow> claims
          | Some g \<Rightarrow> if sat_sub g a = 0 then bm_remove ct claims
                      else bm_insert ct (sat_sub g a) claims) (dp_cfx_claims pos)\<rparr>)"
  have s': "sps_deposits (mark_cfx_claimed user ct a s) = bm_insert user (f pos) (sps_deposits s)"
    using assms(1) by (simp add: mark_cfx_claimed_def f_def bm_modify_def)
  have "cfx_owed c (f pos) + (if c = ct then a else 0) = cfx_owed c pos"
    using assms(2) by (auto simp: f_def cfx_owed_def bm_get_or_def split: option.splits)
  then show "owed_total (mark_cfx_claimed user ct a s) c + (if c = ct then a else 0) = owed_total s c"
    using bm_sum_insert_old [OF assms(1), of "cfx_owed c" "f pos"] bm_sum_ge [OF assms(1), of "cfx_owed c"]
    by (simp add: owed_total_def s' split: if_splits)
  have "balance_of u (f pos) = balance_of u pos" by (simp add: f_def balance_of_def)
  then show "held (mark_cfx_claimed user ct a s) u = held s u"
    using bm_sum_insert_same [OF assms(1)] by (simp add: held_def s')
qed

lemma prepare_payout_inv:
  assumes "sp_inv s" and "prepare_cfx_claim_payout valid user ct dest s = Ok (s', p)"
  shows "sp_inv s'"
proof (cases p)
  case None
  then show ?thesis using assms by (auto simp: prepare_cfx_claim_payout_def Let_def and_then_Ok_iff split: if_splits)
next
  case (Some plan)
  then obtain pos sources i a sources' where pos: "bm_get (sps_deposits s) user = Some pos"
    and src: "bm_get (claim_sources s) ct = Some sources" and draw: "draw_source (cfx_owed ct pos) sources = Some (i, a, sources')"
    and s': "s' = mark_cfx_claimed user ct a (s\<lparr>sps_chain_claim_sources := Some (if sources' = [] then bm_remove ct (claim_sources s)
               else bm_insert ct sources' (claim_sources s))\<rparr>)"
    using assms(2) by (auto simp: prepare_cfx_claim_payout_def Let_def and_then_Ok_iff split: if_splits option.splits prod.splits)
  note d = draw_source_total [OF draw]
  let ?t = "s\<lparr>sps_chain_claim_sources := Some (if sources' = [] then bm_remove ct (claim_sources s)
               else bm_insert ct sources' (claim_sources s))\<rparr>"
  have pos': "bm_get (sps_deposits ?t) user = Some pos" using pos by simp
  have same: "owed_total ?t c = owed_total s c" "held ?t u = held s u" "tracked ?t u = tracked s u" for c u
    by (simp_all add: owed_total_def held_def tracked_def)
  have m: "owed_total s' c + (if c = ct then a else 0) = owed_total s c" "held s' u = held s u" for c u
    using mark_claimed [OF pos', of a ct] d same unfolding s' by auto
  have tr: "tracked s' u = tracked s u" for u by (simp add: s' mark_cfx_claimed_def tracked_def)
  have so: "source_total s' c + (if c = ct then a else 0) = source_total s c" for c
    using d src by (auto simp: s' mark_cfx_claimed_def source_total_def claim_sources_def bm_get_or_def)
  show ?thesis
  proof (rule sp_invI)
    show "sp_books s'" using sp_inv_books [OF assms(1)] by (simp add: sp_books_def m(2) tr)
    have "owed_total s' c \<le> source_total s' c \<and> source_total s' c \<le> u128_max" for c
      using sp_inv_funded [OF assms(1), of c] m(1) [of c] so [of c] by (auto split: if_splits)
    then show "cfx_funded s'" by (simp add: cfx_funded_def)
  qed
qed

text \<open>An absorption adds a source, and at most its amount to the claims.\<close>

lemma journal_money [simp]:
  "same_money s (take_pending_chain_absorb v s)" "same_money s (record_completed_chain_absorb c s)"
  "same_money s (clear_unburned_chain_absorb_intent v s)" "same_money s (mark_chain_absorb_error v st r now s)"
  by (auto simp: same_money_def take_pending_chain_absorb_def record_completed_chain_absorb_def Let_def
      clear_unburned_chain_absorb_intent_def mark_chain_absorb_error_def put_pending_chain_absorb_def
      split: option.splits outcome.splits if_splits)

lemma chain_gains_sources [simp]: "sps_chain_claim_sources (process_chain_liquidation_gains ct sc g s) = sps_chain_claim_sources s"
proof -
  have "sps_chain_claim_sources (foldl (\<lambda>s l. sub_total l (f l) s) s ls) = sps_chain_claim_sources s" for f ls
    by (induction ls arbitrary: s) (simp_all add: sub_total_def)
  then show ?thesis by (simp add: process_chain_liquidation_gains_def Let_def case_prod_beta' sub_deducted_def)
qed

lemma absorb_gains_inv:
  assumes "sp_inv s" and "value_fits s sc" and "source_total s ct + g \<le> u128_max"
  shows "sp_inv (process_chain_liquidation_gains ct sc g (record_chain_claim_source ct i g s))"
proof -
  let ?r = "record_chain_claim_source ct i g s" and ?s' = "process_chain_liquidation_gains ct sc g (record_chain_claim_source ct i g s)"
  note r = record_source_total [OF assms(3), where i = i]
  have books: "sp_books ?r" using r(3) sp_inv_books [OF assms(1)] by simp
  have eqs: "coin_of ?r = coin_of s" "virtual_prices ?r = virtual_prices s" "consumed_value ?r = consumed_value s"
    by (simp_all add: fun_eq_iff coin_of_def virtual_prices_def consumed_value_def record_chain_claim_source_def)
  have fits: "value_fits ?r sc" using assms(2) unfolding value_fits_def eqs .
  have owed: "owed_total ?s' c \<le> owed_total s c + (if c = ct then g else 0)" for c
  proof (cases "c = ct")
    case True
    show ?thesis
    proof (cases "is_chain_collateral_sentinel ?r ct \<and> g \<noteq> 0 \<and> chain_participants ?r ct \<noteq> [] \<and> total_consumed_e8s ?r sc \<noteq> 0")
      case conds: True
      have "owed_total ?r ct + g \<le> u128_max" using r(2) [of ct] sp_inv_funded(1) [OF assms(1), of ct] assms(3) by simp
      then have "owed_total ?s' ct = owed_total ?r ct + g"
        using conds unfolding owed_total_def by (intro chain_gains_total [OF books _ _ _ _ fits]) auto
      with True r(2) [of ct] show ?thesis by simp
    next
      case False
      then have "?s' = ?r" by (auto simp: process_chain_liquidation_gains_def Let_def chain_participants_def)
      with r(2) [of c] show ?thesis by simp
    qed
  next
    case False
    then show ?thesis using chain_gains_other [OF False, of sc g ?r] r(2) [of c] by (simp add: owed_total_def)
  qed
  show ?thesis
  proof (rule sp_invI)
    show "sp_books ?s'" by (rule chain_gains_books [OF books])
    have src: "source_total ?s' c = source_total s c + (if c = ct then g else 0)" for c
      using r(1) [of c] by (simp add: source_total_def claim_sources_def)
    have "owed_total ?s' c \<le> source_total ?s' c \<and> source_total ?s' c \<le> u128_max" for c
      using owed [of c] src [of c] sp_inv_funded [OF assms(1), of c] assms(3) by (auto split: if_splits)
    then show "cfx_funded ?s'" by (simp add: cfx_funded_def)
  qed
qed

lemma apply_absorb_inv:
  assumes "sp_inv s" and "value_fits s (cp_stables_consumed plan)"
    and "source_total s (cp_chain_sentinel plan) + br_collateral_received_native r \<le> u128_max"
    and "apply_chain_absorb_success plan r now s = Ok (s', a)"
  shows "sp_inv s'"
proof (cases "completed_chain_absorb s (cp_vault_id plan)")
  case (Some c)
  then show ?thesis using assms(1,4) by (auto simp: apply_chain_absorb_success_def and_then_Ok_iff split: if_splits)
next
  case None
  obtain ab where ab: "chain_absorb_result_from_backend plan r = Ok ab"
    using assms(4) by (auto simp: apply_chain_absorb_success_def and_then_Ok_iff)
  then have g: "ab_collateral_received_native ab = br_collateral_received_native r"
    by (auto simp: chain_absorb_result_from_backend_def Let_def split: if_splits)
  let ?s2 = "process_chain_liquidation_gains (cp_chain_sentinel plan) (cp_stables_consumed plan) (br_collateral_received_native r)
      (record_chain_claim_source (cp_chain_sentinel plan) (ab_claim_id ab) (br_collateral_received_native r) s)"
  have "sp_inv ?s2" by (rule absorb_gains_inv [OF assms(1-3)])
  moreover have "s' = record_completed_chain_absorb
      \<lparr>ac_vault_id = cp_vault_id plan, ac_result = ab, ac_completed_at_ns = now\<rparr> (take_pending_chain_absorb (cp_vault_id plan) ?s2)"
    using assms(4) ab None g by (auto simp: apply_chain_absorb_success_def Let_def)
  ultimately show ?thesis by (simp add: same_money_inv [OF journal_money(2)] same_money_inv [OF journal_money(1)])
qed

end
