(* ===== verification/Sp_Machine.thy ===== *)
theory Sp_Machine
  imports Sp_Funding Rumi_Systems
begin

text \<open>
  The stability pool as a state machine. A step is one message of the canister, that is an endpoint up to its first
  await, or the code that runs when a reply arrives; the steps of different calls interleave freely. The premises of
  a step are the bounds under which the sums of the code do not leave their integer types: the pool's total of a token
  and the native collateral it holds claims on. The correction of a balance by an administrator is not bounded by the
  code; the machine takes the corrections it admits as a parameter, so that \<open>sp_step (\<lambda>_ _ _ _. True)\<close> is the
  canister as it is and \<open>sp_step placed_correction\<close> the canister whose administrators place their corrections.
\<close>

section \<open>The steps\<close>

definition sp_start :: "principal \<Rightarrow> principal list \<Rightarrow> u64 \<Rightarrow> sp_canister" where
  "sp_start protocol_canister_id authorized_admins now =
     \<lparr>spc_state = sp_initialize protocol_canister_id authorized_admins now sp_default,
      spc_liquidation_active = False, spc_balance_async = 0, spc_forward_active = False\<rparr>"

abbreviation token_room :: "sp_canister \<Rightarrow> principal \<Rightarrow> u64 \<Rightarrow> bool" where
  "token_room c t amount \<equiv> tracked (spc_state c) t + amount \<le> u64_max"

abbreviation native_room :: "sp_canister \<Rightarrow> principal \<Rightarrow> u128 \<Rightarrow> bool" where
  "native_room c sentinel amount \<equiv> source_total (spc_state c) sentinel + amount \<le> u128_max"

abbreviation absorb_room :: "sp_canister \<Rightarrow> chain_absorb_plan \<Rightarrow> chain_sp_liquidation_result \<Rightarrow> bool" where
  "absorb_room c plan r \<equiv> value_fits (spc_state c) (cp_stables_consumed plan)
     \<and> native_room c (cp_chain_sentinel plan) (br_collateral_received_native r)"

text \<open>A correction that keeps the aggregate of the token the sum of the positions: the depositor has a position, the
  pool tracks the token and the new aggregate fits; or nothing is written at all. The code checks none of this.\<close>

definition placed_correction :: "sp_canister \<Rightarrow> principal \<Rightarrow> principal \<Rightarrow> u64 \<Rightarrow> bool" where
  "placed_correction c p t amount \<longleftrightarrow>
     (case bm_get (sps_deposits (spc_state c)) p of
        None \<Rightarrow> amount = 0 \<or> \<not> bm_has (sps_total_stablecoin_balances (spc_state c)) t \<or> tracked (spc_state c) t = u64_max
      | Some pos \<Rightarrow> balance_of t pos = amount
          \<or> bm_has (sps_total_stablecoin_balances (spc_state c)) t \<and> tracked (spc_state c) t - balance_of t pos + amount \<le> u64_max)"

inductive sp_step :: "(sp_canister \<Rightarrow> principal \<Rightarrow> principal \<Rightarrow> u64 \<Rightarrow> bool) \<Rightarrow> sp_canister \<Rightarrow> sp_canister \<Rightarrow> bool"
  for admitted :: "sp_canister \<Rightarrow> principal \<Rightarrow> principal \<Rightarrow> u64 \<Rightarrow> bool"
where
  deposit: "token_room c t amount \<Longrightarrow> sp_step admitted c (fst (deposit_reply now user t amount reply c))"
| refund: "sp_step admitted c (refund_user_reply now user t amount reason reply c)"
| withdraw: "sp_step admitted c (fst (withdraw_deduct now user t amount live fee c))"
| withdrawn: "token_room c t amount \<Longrightarrow> sp_step admitted c (fst (withdraw_reply now user t amount reply c))"
| claim: "sp_step admitted c (fst (claim_collateral_begin user ct c))"
| claim_fee: "sp_step admitted c (fst (claim_collateral_fee user ct gains fee_reply c))"
| claimed: "sp_step admitted c (fst (claim_collateral_reply now user ct gains net reply c))"
| claim_refund: "sp_step admitted c (fst (claim_pending_refund_begin user n c))"
| refund_claimed: "sp_step admitted c (fst (claim_pending_refund_reply r net reply c))"
| interest: "token_room c t amount \<Longrightarrow> receive_interest_revenue now user t amount ct c = Ok c' \<Longrightarrow> sp_step admitted c c'"
| interest_v2: "token_room c t amount \<Longrightarrow> receive_interest_revenue_v2 now user t amount ct block c = Ok (c', b) \<Longrightarrow> sp_step admitted c c'"
| forward: "process_forward_begin n c = Ok (c', f) \<Longrightarrow> sp_step admitted c c'"
| forward_fee: "sp_step admitted c (fst (process_forward_fee now n fee treasury c))"
| forward_sent: "sp_step admitted c (fst (process_forward_transfer n treasury net blocks ledger freply c))"
| forward_recorded: "sp_step admitted c (fst (process_forward_record n treasury rreply c))"
| opt_out: "opt_out_collateral_endpoint now user ct c = Ok c' \<Longrightarrow> sp_step admitted c c'"
| opt_in: "opt_in_collateral_endpoint now user ct c = Ok c' \<Longrightarrow> sp_step admitted c c'"
| cfx_out: "opt_out_cfx_endpoint now user ct c = Ok c' \<Longrightarrow> sp_step admitted c c'"
| cfx_in: "opt_in_cfx_endpoint now user ct c = Ok c' \<Longrightarrow> sp_step admitted c c'"
| add_coin: "register_stablecoin_endpoint now user cfg c = Ok c' \<Longrightarrow> sp_step admitted c c'"
| add_collateral: "register_collateral_endpoint now user info c = Ok c' \<Longrightarrow> sp_step admitted c c'"
| add_cfx: "register_cfx_collateral_endpoint now user chain c = Ok c' \<Longrightarrow> sp_step admitted c c'"
| configure: "update_pool_configuration now user conf c = Ok c' \<Longrightarrow> sp_step admitted c c'"
| pause: "emergency_pause now user c = Ok c' \<Longrightarrow> sp_step admitted c c'"
| resume: "resume_operations now user c = Ok c' \<Longrightarrow> sp_step admitted c c'"
| treasury: "set_interest_treasury_endpoint now user tr c = Ok c' \<Longrightarrow> sp_step admitted c c'"
| correct: "admitted c p t amount \<Longrightarrow> admin_correct_balance now user p t amount c = Ok c' \<Longrightarrow> sp_step admitted c c'"
| correct_gain: "admin_correct_collateral_gain now user p ct amount c = Ok c' \<Longrightarrow> sp_step admitted c c'"
| recredit: "native_room c (cr_chain_sentinel rec) (cr_amount_wei rec) \<Longrightarrow>
    recredit_failed_cfx_claim_payout_endpoint now user rec c = Ok (c', b) \<Longrightarrow> sp_step admitted c c'"
| claim_native: "claim_cfx_begin valid user ct dest c = Ok (c', p) \<Longrightarrow> sp_step admitted c c'"
| native_reply: "native_room c (pp_chain_sentinel plan) (pp_amount_wei plan) \<Longrightarrow> sp_step admitted c (fst (claim_cfx_reply plan creply c))"
| lock: "liquidation_guard_new c = Ok c' \<Longrightarrow> sp_step admitted c c'"
| unlock: "sp_step admitted c (liquidation_guard_drop c)"
| pool_fee: "sp_step admitted c (upd (deduct_fee_from_pool t fee) c)"
| liquidated: "sp_step admitted c (upd (process_liquidation_gains vault_id ct sc gained price now) c)"
| absorb: "(\<And>i r. bm_get (pending_absorbs (spc_state c)) vault_id = Some i \<Longrightarrow> ai_backend_result i = Some r \<Longrightarrow>
       absorb_room c (chain_absorb_plan_from_intent i) r) \<Longrightarrow>
    sp_absorb_chain_vault_core vault_id async active now (spc_state c) = Ok (s', nx) \<Longrightarrow> sp_step admitted c (c\<lparr>spc_state := s'\<rparr>)"
| absorb_intent: "prepare_or_reuse_chain_absorb_intent plan account now (spc_state c) = Ok (s', i) \<Longrightarrow> sp_step admitted c (c\<lparr>spc_state := s'\<rparr>)"
| absorb_preflight: "sp_step admitted c (upd (\<lambda>s. fst (resume_preflight_reply vault_id preply s)) c)"
| absorb_burned: "sp_step admitted c (upd (\<lambda>s. fst (absorb_burn_reply ledger amount vault_id reply now s)) c)"
| absorb_submitted: "(\<And>r. sreply = Replied (Inr r) \<Longrightarrow> absorb_room c plan r) \<Longrightarrow>
    sp_step admitted c (upd (\<lambda>s. fst (absorb_submit_and_apply plan vault_id sreply now s)) c)"

section \<open>Every step keeps the books and the funding\<close>

text \<open>Steps that change no balance, no claim and no source.\<close>

lemma same_moneyI:
  "sps_deposits s' = sps_deposits s \<Longrightarrow> sps_total_stablecoin_balances s' = sps_total_stablecoin_balances s \<Longrightarrow>
   sps_chain_claim_sources s' = sps_chain_claim_sources s \<Longrightarrow> sp_inv s \<Longrightarrow> sp_inv s'"
  using same_money_inv [of s s'] by (simp add: same_money_def)

lemma refunds_inv [simp]:
  "sp_inv (fst (record_pending_refund user t amount reason now s)) = sp_inv s"
  "sp_inv (put_pending_refund r s) = sp_inv s" "sp_inv (fst (take_pending_refund n s)) = sp_inv s"
  by (rule same_money_inv, simp add: same_money_def record_pending_refund_def put_pending_refund_def take_pending_refund_def Let_def)+

lemma batches_inv [simp]: "sp_inv (modify_batch n f s) = sp_inv s"
  by (rule same_money_inv) (simp add: same_money_def modify_batch_def)

lemma queue_inv: "queue_unallocated_interest_forward block t amount now s = (s', n) \<Longrightarrow> sp_inv s' = sp_inv s"
  by (rule same_money_inv) (auto simp: same_money_def queue_unallocated_interest_forward_def Let_def split: option.splits)

lemma put_absorb_inv: "put_pending_chain_absorb i s = Ok s' \<Longrightarrow> sp_inv s' = sp_inv s"
  by (rule same_money_inv) (auto simp: same_money_def put_pending_chain_absorb_def split: if_splits)

lemma journal_inv [simp]:
  "sp_inv (clear_unburned_chain_absorb_intent v s) = sp_inv s" "sp_inv (mark_chain_absorb_error v st r now s) = sp_inv s"
  by (rule same_money_inv, simp)+

lemma register_stablecoin_inv: "sp_inv s \<Longrightarrow> sp_inv (register_stablecoin cfg s)"
  by (auto simp: sp_inv_def sp_books_def cfx_funded_def held_def tracked_def owed_total_def source_total_def claim_sources_def
      register_stablecoin_def Let_def bm_get_or_def bm_has_def split: option.splits)

lemma admin_endpoint_inv:
  "admin_endpoint f ev now user c = Ok c' \<Longrightarrow> (\<And>s'. f (spc_state c) = Ok s' \<Longrightarrow> sp_inv s') \<Longrightarrow> sp_inv (spc_state c')"
  by (auto simp: admin_endpoint_def and_then_Ok_iff split: if_splits)

lemma preference_endpoint_inv:
  "preference_endpoint f ev now user ct c = Ok c' \<Longrightarrow> (\<And>s'. f user ct (spc_state c) = Ok s' \<Longrightarrow> sp_inv s') \<Longrightarrow> sp_inv (spc_state c')"
  by (auto simp: preference_endpoint_def and_then_Ok_iff split: if_splits)

section \<open>Invariance, group by group\<close>

lemma deposit_reply_inv:
  "sp_inv (spc_state c) \<Longrightarrow> token_room c t amount \<Longrightarrow> sp_inv (spc_state (fst (deposit_reply now user t amount reply c)))"
  by (auto simp: deposit_reply_def record_deposit_credit_def Let_def add_deposit_inv split: call_reply.splits ledger_reply.splits)

lemma refund_inv: "sp_inv (spc_state c) \<Longrightarrow> sp_inv (spc_state (refund_user_reply now user t amount reason reply c))"
  by (auto simp: refund_user_reply_def split: call_reply.splits ledger_reply.splits)

lemma prepare_withdrawal_inv:
  assumes "sp_inv s"
  shows "sp_inv (fst (prepare_withdrawal_after_ledger_check now user t amount live fee s))"
proof -
  have withdraw: "sp_inv (fst (case process_withdrawal user t n s of Ok s' \<Rightarrow> (s', Ok n) | Err e \<Rightarrow> (s, Err e) | Trap \<Rightarrow> (s, Trap)))"
    if "sp_inv s" for s n
    using that withdrawal_inv [OF that, of user t n] by (auto split: outcome.splits)
  have shrink: "sp_inv (push_event now user (EvBalanceCorrected user t n) (fst (correct_balance user t n s)))"
    if "bm_get (sps_deposits s) user = Some pos" "balance_of t pos > 0" "balance_of t pos = bm_get_or 0 (sps_total_stablecoin_balances s) t"
      "n < bm_get_or 0 (sps_total_stablecoin_balances s) t" for pos n
  proof -
    have "bm_has (sps_total_stablecoin_balances s) t" using that by (auto simp: bm_has_def bm_get_or_def split: option.splits)
    moreover have "tracked s t - balance_of t pos + n \<le> u64_max"
      using that sp_booksD(2) [OF sp_inv_books [OF assms], of t] by (simp add: tracked_def)
    ultimately show ?thesis using correct_balance_inv [OF assms that(1)] by simp
  qed
  show ?thesis
    using assms withdraw shrink
    by (auto simp: prepare_withdrawal_after_ledger_check_def Let_def split: option.splits if_splits)
qed

lemma withdraw_deduct_inv:
  assumes "sp_inv (spc_state c)"
  shows "sp_inv (spc_state (fst (withdraw_deduct now user t amount live fee c)))"
  using assms prepare_withdrawal_inv [OF assms, of now user t amount live fee]
  by (auto simp: withdraw_deduct_def balance_guard_new_def split: prod.splits outcome.splits)

lemma withdraw_reply_inv:
  "sp_inv (spc_state c) \<Longrightarrow> token_room c t amount \<Longrightarrow> sp_inv (spc_state (fst (withdraw_reply now user t amount reply c)))"
  by (auto simp: withdraw_reply_def balance_guard_drop_def Let_def add_deposit_inv split: call_reply.splits ledger_reply.splits)

lemma claim_inv:
  assumes "sp_inv (spc_state c)"
  shows "sp_inv (spc_state (fst (claim_collateral_begin user ct c)))"
    and "sp_inv (spc_state (fst (claim_collateral_fee user ct gains fee_reply c)))"
    and "sp_inv (spc_state (fst (claim_collateral_reply now user ct gains net reply c)))"
  using assms
  by (auto simp: claim_collateral_begin_def claim_collateral_fee_def claim_collateral_reply_def Let_def claim_gains_inv
      restore_gains_inv split: outcome.splits call_reply.splits ledger_reply.splits)

lemma pending_refund_inv:
  assumes "sp_inv (spc_state c)"
  shows "sp_inv (spc_state (fst (claim_pending_refund_begin user n c)))"
    and "sp_inv (spc_state (fst (claim_pending_refund_reply r net reply c)))"
proof -
  have "sp_inv s'" if "take_pending_refund n (spc_state c) = (s', r)" for s' r
    using refunds_inv(3) [of n "spc_state c"] assms that by simp
  then show "sp_inv (spc_state (fst (claim_pending_refund_begin user n c)))"
    using assms by (auto simp: claim_pending_refund_begin_def split: prod.splits option.splits)
  show "sp_inv (spc_state (fst (claim_pending_refund_reply r net reply c)))"
    using assms by (auto simp: claim_pending_refund_reply_def split: call_reply.splits ledger_reply.splits)
qed

lemma receive_interest_inv:
  assumes "sp_inv (spc_state c)" and "token_room c t amount"
  shows "receive_interest_revenue now user t amount ct c = Ok c' \<Longrightarrow> sp_inv (spc_state c')"
    and "receive_interest_revenue_v2 now user t amount ct block c = Ok (c', b) \<Longrightarrow> sp_inv (spc_state c')"
  using assms interest_inv [OF assms] queue_inv [of block t amount now "spc_state c"]
  by (auto simp: receive_interest_revenue_def receive_interest_revenue_v2_def and_then_Ok_iff split: if_splits prod.splits)

lemma forward_inv:
  assumes "sp_inv (spc_state c)"
  shows "process_forward_begin n c = Ok (c', f) \<Longrightarrow> sp_inv (spc_state c')"
    and "sp_inv (spc_state (fst (process_forward_fee now n fee treasury c)))"
    and "sp_inv (spc_state (fst (process_forward_transfer n treasury net blocks ledger freply c)))"
    and "sp_inv (spc_state (fst (process_forward_record n treasury rreply c)))"
proof -
  show "process_forward_begin n c = Ok (c', f) \<Longrightarrow> sp_inv (spc_state c')"
    using assms by (auto simp: process_forward_begin_def forward_guard_new_def and_then_Ok_iff split: if_splits option.splits)
  show "sp_inv (spc_state (fst (process_forward_fee now n fee treasury c)))"
    using assms by (auto simp: process_forward_fee_def forward_guard_drop_def prepare_unallocated_interest_forward_def Let_def
        split: outcome.splits option.splits forward_next.splits)
  show "sp_inv (spc_state (fst (process_forward_transfer n treasury net blocks ledger freply c)))"
    using assms by (auto simp: process_forward_transfer_def forward_guard_drop_def Let_def mark_unallocated_interest_forward_transferred_def
        update_unallocated_interest_forward_fee_def record_unallocated_interest_forward_error_def split: call_reply.splits forward_reply.splits)
  show "sp_inv (spc_state (fst (process_forward_record n treasury rreply c)))"
    using assms by (auto simp: process_forward_record_def forward_guard_drop_def mark_unallocated_interest_forward_recorded_def
        split: call_reply.splits sum.splits)
qed

lemma preference_step_inv:
  assumes "sp_inv (spc_state c)"
  shows "opt_out_collateral_endpoint now user ct c = Ok c' \<Longrightarrow> sp_inv (spc_state c')"
    and "opt_in_collateral_endpoint now user ct c = Ok c' \<Longrightarrow> sp_inv (spc_state c')"
    and "opt_out_cfx_endpoint now user ct c = Ok c' \<Longrightarrow> sp_inv (spc_state c')"
    and "opt_in_cfx_endpoint now user ct c = Ok c' \<Longrightarrow> sp_inv (spc_state c')"
  unfolding opt_out_collateral_endpoint_def opt_in_collateral_endpoint_def opt_out_cfx_endpoint_def opt_in_cfx_endpoint_def
  using preferences_inv [OF assms] by (blast intro: preference_endpoint_inv)+

lemma admin_step_inv:
  assumes "sp_inv (spc_state c)"
  shows "register_stablecoin_endpoint now user cfg c = Ok c' \<Longrightarrow> sp_inv (spc_state c')"
    and "register_collateral_endpoint now user info c = Ok c' \<Longrightarrow> sp_inv (spc_state c')"
    and "register_cfx_collateral_endpoint now user chain c = Ok c' \<Longrightarrow> sp_inv (spc_state c')"
    and "update_pool_configuration now user conf c = Ok c' \<Longrightarrow> sp_inv (spc_state c')"
    and "emergency_pause now user c = Ok c' \<Longrightarrow> sp_inv (spc_state c')"
    and "resume_operations now user c = Ok c' \<Longrightarrow> sp_inv (spc_state c')"
    and "set_interest_treasury_endpoint now user tr c = Ok c' \<Longrightarrow> sp_inv (spc_state c')"
    and "admin_correct_collateral_gain now user p ct amount c = Ok c' \<Longrightarrow> sp_inv (spc_state c')"
  unfolding register_stablecoin_endpoint_def register_collateral_endpoint_def register_cfx_collateral_endpoint_def
    update_pool_configuration_def emergency_pause_def resume_operations_def set_interest_treasury_endpoint_def
    admin_correct_collateral_gain_def
  by (erule admin_endpoint_inv;
      use assms in \<open>auto simp: register_stablecoin_inv correct_gain_inv register_collateral_def register_chain_collateral_def
        register_chain_collateral_sentinel_def set_interest_treasury_def Let_def split: if_splits elim: same_moneyI [rotated -1]\<close>)+

lemma native_step_inv:
  assumes "sp_inv (spc_state c)"
  shows "native_room c (cr_chain_sentinel rec) (cr_amount_wei rec) \<Longrightarrow>
         recredit_failed_cfx_claim_payout_endpoint now user rec c = Ok (c', b) \<Longrightarrow> sp_inv (spc_state c')"
    and "claim_cfx_begin valid user ct dest c = Ok (c', p) \<Longrightarrow> sp_inv (spc_state c')"
    and "native_room c (pp_chain_sentinel plan) (pp_amount_wei plan) \<Longrightarrow> sp_inv (spc_state (fst (claim_cfx_reply plan creply c)))"
  using assms recredit_inv [OF assms, of rec now] prepare_payout_inv [OF assms, of valid user ct dest] rollback_inv [OF assms, of plan]
  by (auto simp: recredit_failed_cfx_claim_payout_endpoint_def claim_cfx_begin_def claim_cfx_reply_def and_then_Ok_iff
      split: if_splits prod.splits call_reply.splits backend_claim_reply.splits)

lemma burn_reply_inv: "sp_inv s \<Longrightarrow> sp_inv (fst (absorb_burn_reply ledger amount vault_id reply now s))"
  using put_absorb_inv
  by (fastforce simp: absorb_burn_reply_def mark_chain_absorb_burned_def Let_def and_then_Ok_iff split: outcome.splits prod.splits if_splits)

text \<open>Marking the backend's result leaves the registry, the prices and the money alone, so that the bounds still hold.\<close>

lemma submitted_room:
  assumes "submit_chain_absorb_reply vault_id (Replied (Inr r)) now s = (s', Ok r')"
  shows "r' = r" and "sp_inv s' = sp_inv s" and "value_fits s' sc = value_fits s sc" and "source_total s' ct = source_total s ct"
proof -
  obtain i where i: "put_pending_chain_absorb i s = Ok s'" and "r' = r"
    using assms by (auto simp: submit_chain_absorb_reply_def mark_chain_absorb_backend_result_def Let_def and_then_Ok_iff
        split: outcome.splits prod.splits if_splits)
  then show "r' = r" by simp
  show "sp_inv s' = sp_inv s" by (rule put_absorb_inv [OF i])
  obtain m where s': "s' = s\<lparr>sps_pending_chain_absorbs := m\<rparr>" using i by (auto simp: put_pending_chain_absorb_def split: if_splits)
  have eqs: "coin_of s' = coin_of s" "virtual_prices s' = virtual_prices s" "consumed_value s' = consumed_value s"
    by (simp_all add: s' fun_eq_iff coin_of_def virtual_prices_def consumed_value_def)
  show "value_fits s' sc = value_fits s sc" unfolding value_fits_def eqs ..
  show "source_total s' ct = source_total s ct" by (simp add: s' source_total_def claim_sources_def)
qed

lemma submit_inv:
  assumes "sp_inv s" and "\<And>r. reply = Replied (Inr r) \<Longrightarrow> value_fits s (cp_stables_consumed plan)
      \<and> source_total s (cp_chain_sentinel plan) + br_collateral_received_native r \<le> u128_max"
  shows "sp_inv (fst (absorb_submit_and_apply plan vault_id reply now s))"
proof (cases "\<exists>r s'. reply = Replied (Inr r) \<and> submit_chain_absorb_reply vault_id reply now s = (s', Ok r)")
  case True
  then obtain r s' where r: "reply = Replied (Inr r)" and sub: "submit_chain_absorb_reply vault_id (Replied (Inr r)) now s = (s', Ok r)"
    by auto
  note room = submitted_room [OF sub]
  have "sp_inv s'" using assms(1) room(2) by simp
  moreover have "sp_inv t" if "apply_chain_absorb_success plan r now s' = Ok (t, a)" for t a
    using apply_absorb_inv [OF \<open>sp_inv s'\<close> _ _ that] assms(2) [OF r] room(3,4) by simp
  ultimately show ?thesis using sub by (auto simp: absorb_submit_and_apply_def r split: outcome.splits)
next
  case False
  have "sp_inv (fst (submit_chain_absorb_reply vault_id reply now s))"
    using assms(1) put_absorb_inv
    by (fastforce simp: submit_chain_absorb_reply_def mark_chain_absorb_backend_result_def Let_def and_then_Ok_iff
        split: call_reply.splits sum.splits outcome.splits prod.splits if_splits)
  moreover have "submit_chain_absorb_reply vault_id reply now s \<noteq> (t, Ok r)" for t r
    using False by (auto simp: submit_chain_absorb_reply_def Let_def split: call_reply.splits sum.splits outcome.splits prod.splits)
  ultimately show ?thesis
    by (cases "submit_chain_absorb_reply vault_id reply now s"; cases "snd (submit_chain_absorb_reply vault_id reply now s)")
       (auto simp: absorb_submit_and_apply_def)
qed

lemma absorb_core_inv:
  assumes "sp_inv s" and "\<And>i r. bm_get (pending_absorbs s) vault_id = Some i \<Longrightarrow> ai_backend_result i = Some r \<Longrightarrow>
      value_fits s (ai_stables_consumed i) \<and> source_total s (ai_chain_sentinel i) + br_collateral_received_native r \<le> u128_max"
    and "sp_absorb_chain_vault_core vault_id async active now s = Ok (s', nx)"
  shows "sp_inv s'"
proof -
  have "sp_inv t" if "bm_get (pending_absorbs s) vault_id = Some i" "ai_backend_result i = Some r"
    "apply_chain_absorb_success (chain_absorb_plan_from_intent i) r now s = Ok (t, a)" for i r t a
    using apply_absorb_inv [OF assms(1) _ _ that(3)] assms(2) [OF that(1,2)] by (simp add: chain_absorb_plan_from_intent_def)
  then show ?thesis
    using assms(1,3) by (auto simp: sp_absorb_chain_vault_core_def and_then_Ok_iff split: option.splits if_splits)
qed

lemma intent_inv: "prepare_or_reuse_chain_absorb_intent plan account now s = Ok (s', i) \<Longrightarrow> sp_inv s' = sp_inv s"
  using put_absorb_inv
  by (fastforce simp: prepare_or_reuse_chain_absorb_intent_def Let_def and_then_Ok_iff split: option.splits if_splits)

section \<open>The invariant system\<close>

lemma sp_start_inv: "sp_inv (spc_state (sp_start pc admins now))"
  by (simp add: sp_start_def sp_initialize_def sp_default_def sp_inv_def sp_books_def cfx_funded_def held_def tracked_def
      owed_total_def source_total_def claim_sources_def opt_or_def bm_get_or_def)

lemmas endpoint_invs = deposit_reply_inv refund_inv withdraw_deduct_inv withdraw_reply_inv claim_inv pending_refund_inv receive_interest_inv
  forward_inv preference_step_inv admin_step_inv native_step_inv

text \<open>What a correction does to the sum of the positions and to the aggregate of its token\<close>

lemma misplaced_books:
  assumes "sp_inv (spc_state c)" and "\<not> placed_correction c p t amount"
  shows "held (fst (correct_balance p t amount (spc_state c))) t \<noteq> tracked (fst (correct_balance p t amount (spc_state c))) t"
proof (cases "bm_get (sps_deposits (spc_state c)) p")
  case None
  with assms(2) have "0 < amount" "bm_has (sps_total_stablecoin_balances (spc_state c)) t" "tracked (spc_state c) t < u64_max"
    using sp_booksD(2) [OF sp_inv_books [OF assms(1)], of t] by (auto simp: placed_correction_def order_le_less)
  then show ?thesis
    using None sp_booksD(1) [OF sp_inv_books [OF assms(1)], of t]
    by (auto simp: correct_balance_def held_def tracked_def bm_get_or_def bm_has_def sat_add64_def Let_def)
next
  case (Some pos)
  let ?s = "spc_state c" and ?s' = "fst (correct_balance p t amount (spc_state c))"
  note books = sp_booksD [OF sp_inv_books [OF assms(1)], of t] and le = balance_le_held [OF Some, of t]
  define pos' where "pos' = pos\<lparr>dp_stablecoin_balances := (if amount = 0 then bm_remove t (dp_stablecoin_balances pos)
                    else bm_insert t amount (dp_stablecoin_balances pos))\<rparr>"
  have ne: "balance_of t pos \<noteq> amount" using assms(2) Some by (simp add: placed_correction_def)
  have deps: "sps_deposits ?s' = (if position_is_empty pos' then bm_remove p (sps_deposits ?s) else bm_insert p pos' (sps_deposits ?s))"
    using ne Some by (simp add: correct_balance_def Let_def pos'_def)
  have amt: "balance_of t pos' = amount" by (simp add: pos'_def balance_of_def)
  then have h: "held ?s' t = tracked ?s t - balance_of t pos + amount"
    using bm_sum_remove [of "balance_of t" p "sps_deposits ?s"] Some bm_sum_insert_old [OF Some, of "balance_of t" pos']
      empty_balance [of pos' t] books le by (auto simp: held_def deps)
  show ?thesis
  proof (cases "bm_has (sps_total_stablecoin_balances ?s) t")
    case True
    have "u64_max < tracked ?s t - balance_of t pos + amount" using assms(2) Some True ne by (simp add: placed_correction_def)
    moreover have "tracked ?s' t \<le> u64_max"
      using books True ne Some by (auto simp: correct_balance_def Let_def tracked_def bm_get_or_def bm_has_def sat_add64_def split: if_splits)
    ultimately show ?thesis using h by simp
  next
    case False
    then have "tracked ?s t = 0" "tracked ?s' t = 0"
      using ne Some by (auto simp: correct_balance_def Let_def tracked_def bm_get_or_def bm_has_def bm_modify_def split: option.splits)
    then show ?thesis using h ne le books by simp
  qed
qed

lemma bm_modify_id: "(\<And>v. bm_get m k = Some v \<Longrightarrow> g v = v) \<Longrightarrow> bm_modify k g m = m"
  by (rule bm_ext) (auto simp: bm_modify_def split: option.splits)

lemma placed_inv:
  assumes "sp_inv (spc_state c)" and "placed_correction c p t amount"
  shows "sp_inv (fst (correct_balance p t amount (spc_state c)))"
proof (cases "bm_get (sps_deposits (spc_state c)) p")
  case None
  have "bm_modify t (\<lambda>n. sat_add64 n amount) (sps_total_stablecoin_balances (spc_state c)) = sps_total_stablecoin_balances (spc_state c)"
    using assms(2) None sp_booksD(2) [OF sp_inv_books [OF assms(1)], of t]
    by (intro bm_modify_id) (auto simp: placed_correction_def tracked_def bm_get_or_def bm_has_def sat_add64_def)
  then have "fst (correct_balance p t amount (spc_state c)) = spc_state c"
    using None by (simp add: correct_balance_def Let_def)
  then show ?thesis using assms(1) by simp
next
  case (Some pos)
  show ?thesis
  proof (cases "balance_of t pos = amount")
    case True
    then show ?thesis using assms(1) Some by (simp add: correct_balance_def)
  next
    case False
    with assms(2) Some show ?thesis by (intro correct_balance_inv [OF assms(1) Some]) (simp_all add: placed_correction_def)
  qed
qed

lemma sp_step_inv: "sp_step placed_correction c c' \<Longrightarrow> sp_inv (spc_state c) \<Longrightarrow> sp_inv (spc_state c')"
proof (induction rule: sp_step.induct)
  case (correct c p t amount now user c')
  have "sp_inv (fst (correct_balance p t amount (spc_state c)))" by (rule placed_inv [OF correct.prems correct.hyps(1)])
  with correct.hyps(2) show ?case unfolding admin_correct_balance_def by (auto elim!: admin_endpoint_inv split: if_splits)
next
  case (absorb c vault_id async active now s' nx)
  have "sp_inv s'" by (rule absorb_core_inv [OF absorb.prems _ absorb.hyps(2)], use absorb.hyps(1) in \<open>simp add: chain_absorb_plan_from_intent_def\<close>)
  then show ?case by simp
next
  case (absorb_submitted sreply c plan vault_id now)
  then show ?case by (auto intro!: submit_inv)
next
  case (absorb_preflight c vault_id preply)
  then show ?case by (auto simp: resume_preflight_reply_def split: outcome.splits)
next
  case (lock c c')
  then show ?case by (auto simp: liquidation_guard_new_def split: if_splits)
qed ((rule endpoint_invs; assumption) | simp add: liquidation_guard_drop_def fee_inv gains_inv burn_reply_inv intent_inv)+

interpretation sp_node: invariant_system "sp_start pc admins now" "sp_step placed_correction" "\<lambda>c. sp_inv (spc_state c)" for pc admins now
  by unfold_locales (fact sp_start_inv, rule sp_step_inv)

end
