(* ===== verification/Sp_Draw.thy ===== *)
theory Sp_Draw
  imports Sp_Conserve
begin

text \<open>
  The draw of a liquidation stays within the deposits and within the debt: what \<^verbatim>\<open>compute_token_draw\<close> takes of a token
  is available among the participants, and the value of the whole draw is at most the debt.
\<close>

section \<open>Values\<close>

definition draw_value :: "sp_state \<Rightarrow> amounts \<Rightarrow> nat" where
  "draw_value s m = sum_list (map (\<lambda>(t, n). consumed_value s t n) (bm_entries m))"

lemma draw_value_empty [simp]: "draw_value s bm_empty = 0"
  by (simp add: draw_value_def)

lemma draw_value_insert:
  assumes "bm_get m k = None"
  shows "draw_value s (bm_insert k v m) = consumed_value s k v + draw_value s m"
proof -
  have "k \<notin> fst ` set es \<Longrightarrow> sum_list (map (\<lambda>(t, n). consumed_value s t n) (entries_insert k v es))
      = consumed_value s k v + sum_list (map (\<lambda>(t, n). consumed_value s t n) es)" for es
    by (induction k v es rule: entries_insert.induct) auto
  moreover have "k \<notin> fst ` set (bm_entries m)" using assms by (auto simp: bm_get_def map_of_eq_None_iff)
  ultimately show ?thesis by (simp add: draw_value_def)
qed

lemma sat_mul64_mono: "a \<le> b \<Longrightarrow> sat_mul64 a c \<le> sat_mul64 b c"
  by (simp add: sat_mul64_def min.coboundedI1 min_le_iff_disj)

lemma normalize_mono: "a \<le> b \<Longrightarrow> normalize_to_e8s a d \<le> normalize_to_e8s b d"
  by (simp add: normalize_to_e8s_def sat_mul64_mono div_le_mono)

lemma le_div_times: "a \<le> m div v \<Longrightarrow> a * v \<le> (m :: nat)"
  using mult_le_mono1 [of a "m div v" v] div_times_less_eq_dividend [of m v] by linarith

text \<open>A token of the registry with its decimals and its kind.\<close>

definition registered :: "sp_state \<Rightarrow> drawable \<Rightarrow> bool" where
  "registered s = (\<lambda>(ledger, _, decimals, lp). coin_of s ledger = (decimals, lp) \<and> sane_decimals decimals)"

lemma drawn_value:
  assumes "registered s tok" and "x \<le> u64_max" and "a \<le> drawn_native s tok x"
  shows "consumed_value s (fst tok) a \<le> x"
proof -
  obtain ledger n d lp where tok: "tok = (ledger, n, d, lp)" by (cases tok)
  have coin: "coin_of s ledger = (d, lp)" "sane_decimals d" using assms(1) by (auto simp: registered_def tok)
  show ?thesis
  proof (cases lp)
    case False
    then have "a \<le> normalize_from_e8s x d" using assms(3) by (simp add: drawn_native_def tok)
    then have "normalize_to_e8s a d \<le> x" using normalize_mono normalize_roundtrip [OF coin(2) assms(2)] order.trans by blast
    then show ?thesis using False by (simp add: tok consumed_value_coin coin token_value_e8s_def)
  next
    case True
    show ?thesis
    proof (cases "bm_get (virtual_prices s) ledger")
      case (Some vp)
      have "a \<le> (if vp = 0 then 0 else x * 10 ^ 18 div vp)"
        using assms(3) wrap64_le [of "x * 10 ^ 18 div vp"] by (auto simp: drawn_native_def tok True Some usd_e8s_to_lp_def split: if_splits)
      then have "a * vp \<le> x * 10 ^ 18"
        using le_div_times [of a "x * 10 ^ 18" vp] by (cases "vp = 0") auto
      then have "wrap128 (a * vp) \<le> x * 10 ^ 18" by (rule order.trans [rotated]) (simp add: wrap128_def)
      then have "wrap128 (a * vp) div 10 ^ 18 \<le> x" using div_le_mono [of "wrap128 (a * vp)" "x * 10 ^ 18" "10 ^ 18"] by simp
      then have "lp_to_usd_e8s a vp \<le> x" using wrap64_le order.trans by (simp add: lp_to_usd_e8s_def) blast
      then show ?thesis by (simp add: tok consumed_value_coin coin token_value_e8s_def True Some)
    qed (simp add: tok consumed_value_coin coin token_value_e8s_def True)
  qed
qed

section \<open>The loops\<close>

lemma bucket_within:
  assumes "bm_get (draw_bucket s d T toks res) t = Some n"
  shows "bm_get res t = Some n \<or> (\<exists>tok \<in> set toks. fst tok = t \<and> n \<le> fst (snd tok))"
  using assms
proof (induction toks arbitrary: res)
  case (Cons tok toks)
  let ?x = "drawn_native s tok (wrap64 (d * drawable_e8s s tok div T))"
  consider "bm_get (draw_bucket s d T toks res) t = Some n"
    | "bm_get (draw_bucket s d T toks (bm_insert (fst tok) (min ?x (fst (snd tok))) res)) t = Some n"
    using Cons.prems by (auto simp: Let_def split: if_splits)
  then show ?case
  proof cases
    case 1
    then show ?thesis using Cons.IH by auto
  next
    case 2
    then show ?thesis using Cons.IH [OF 2] by (auto split: if_splits)
  qed
qed simp

lemma bucket_value:
  assumes "distinct (map fst toks)" and "\<forall>tok \<in> set toks. registered s tok \<and> bm_get res (fst tok) = None"
  shows "draw_value s (draw_bucket s d T toks res) \<le> draw_value s res + sum_list (map (\<lambda>tok. d * drawable_e8s s tok div T) toks)"
  using assms
proof (induction s d T toks res rule: draw_bucket.induct)
  case (2 s d T tok toks res)
  let ?x = "wrap64 (d * drawable_e8s s tok div T)"
  let ?res = "if drawn_native s tok ?x > 0 then bm_insert (fst tok) (min (drawn_native s tok ?x) (fst (snd tok))) res else res"
  show ?case
  proof (cases "drawable_e8s s tok = 0")
    case True
    then show ?thesis using 2(1) [OF refl True] 2(3,4) by simp
  next
    case False
    have "draw_value s (draw_bucket s d T toks ?res) \<le> draw_value s ?res + sum_list (map (\<lambda>tok. d * drawable_e8s s tok div T) toks)"
    proof (rule 2(2) [OF refl False refl])
      show "\<forall>x \<in> set toks. registered s x \<and> bm_get ?res (fst x) = None"
      proof
        fix x
        assume x: "x \<in> set toks"
        then have "fst x \<noteq> fst tok" using 2(3) by (metis distinct.simps(2) image_eqI list.set_map list.simps(9))
        with x 2(4) show "registered s x \<and> bm_get ?res (fst x) = None" by simp
      qed
    qed (use 2(3) in simp)
    moreover have "consumed_value s (fst tok) (min (drawn_native s tok ?x) (fst (snd tok))) \<le> ?x"
      by (rule drawn_value) (use 2(4) in \<open>auto simp: wrap64_bound\<close>)
    then have "draw_value s ?res \<le> d * drawable_e8s s tok div T + draw_value s res"
      using 2(4) wrap64_le [of "d * drawable_e8s s tok div T"] by (simp add: draw_value_insert)
    ultimately show ?thesis using False by (simp add: Let_def)
  qed
qed simp

definition draw_ok :: "sp_state \<Rightarrow> (u8 \<times> drawable) list \<Rightarrow> bool" where
  "draw_ok s toks \<longleftrightarrow> distinct (map (fst \<circ> snd) toks) \<and> (\<forall>x \<in> set toks. registered s (snd x))
     \<and> sum_list (map (drawable_e8s s \<circ> snd) toks) \<le> u64_max"

lemma sum_bucket_le: "sum_list (map f (map snd (filter P xs))) \<le> sum_list (map (f \<circ> snd) xs :: nat list)"
  by (induction xs) auto

lemma priorities_within:
  "bm_get (draw_priorities s toks ps rem res) t = Some n \<Longrightarrow>
   bm_get res t = Some n \<or> (\<exists>x \<in> set toks. fst (snd x) = t \<and> n \<le> fst (snd (snd x)))"
  by (induction s toks ps rem res rule: draw_priorities.induct)
     (fastforce simp: Let_def dest: bucket_within split: if_splits)+

lemma priorities_value:
  assumes "draw_ok s toks" and "distinct ps" and "\<forall>x \<in> set toks. fst x \<in> set ps \<longrightarrow> bm_get res (fst (snd x)) = None"
  shows "draw_value s (draw_priorities s toks ps rem res) \<le> draw_value s res + rem"
  using assms
proof (induction ps arbitrary: rem res)
  case (Cons p ps)
  define b where "b = map snd (filter (\<lambda>(q, _). q = p) toks)"
  define T where "T = sum_list (map (drawable_e8s s) b)"
  have fits: "wrap64 T = T"
    using sum_bucket_le [of "drawable_e8s s" "\<lambda>(q, _). q = p" toks] Cons.prems(1)
    by (intro wrap64_id) (auto simp: draw_ok_def T_def b_def)
  have step: "draw_priorities s toks (p # ps) rem res = (if rem = 0 then res else if T = 0 then draw_priorities s toks ps rem res
      else draw_priorities s toks ps (rem - min rem T) (draw_bucket s (min rem T) T b res))"
    using fits by (simp add: Let_def b_def [symmetric] T_def [symmetric])
  show ?case
  proof (cases "rem = 0 \<or> T = 0")
    case True
    then show ?thesis using Cons.IH [of res rem] Cons.prems unfolding step by auto
  next
    case False
    let ?d = "min rem T" and ?res = "draw_bucket s (min rem T) T b res"
    have dist: "distinct (map fst b)"
      using Cons.prems(1) distinct_map_filter [of "fst \<circ> snd" toks] by (simp add: draw_ok_def comp_def b_def)
    have reg: "\<forall>tok \<in> set b. registered s tok \<and> bm_get res (fst tok) = None" using Cons.prems(1,3) by (force simp: draw_ok_def b_def)
    have "draw_value s ?res \<le> draw_value s res + ?d"
      using bucket_value [OF dist reg, of ?d T] shares_le [of "drawable_e8s s" b T ?d] unfolding T_def by linarith
    moreover have "draw_value s (draw_priorities s toks ps (rem - ?d) ?res) \<le> draw_value s ?res + (rem - ?d)"
    proof (rule Cons.IH [OF Cons.prems(1)])
      show "\<forall>x \<in> set toks. fst x \<in> set ps \<longrightarrow> bm_get ?res (fst (snd x)) = None"
      proof (intro ballI impI)
        fix x
        assume x: "x \<in> set toks" "fst x \<in> set ps"
        have "fst tok \<noteq> fst (snd x)" if tok: "tok \<in> set b" for tok
        proof -
          from tok have "(p, tok) \<in> set toks" by (auto simp: b_def)
          moreover have "fst x \<noteq> p" using x(2) Cons.prems(2) by auto
          ultimately show ?thesis using x(1) Cons.prems(1) by (fastforce simp: draw_ok_def distinct_map inj_on_def)
        qed
        then show "bm_get ?res (fst (snd x)) = None"
          using bucket_within [of s ?d T b res "fst (snd x)"] Cons.prems(3) x by (cases "bm_get ?res (fst (snd x))") auto
      qed
    qed (use Cons.prems(2) in simp)
    moreover have "?d \<le> rem" by simp
    moreover have eq: "draw_priorities s toks (p # ps) rem res = draw_priorities s toks ps (rem - ?d) ?res" using False unfolding step by simp
    ultimately show ?thesis unfolding eq by linarith
  qed
qed simp

lemma last_max_mem: "last_max xs = Some x \<Longrightarrow> x \<in> set xs"
  by (induction xs rule: last_max.induct) (auto split: if_splits option.splits)

section \<open>The tokens of the registry\<close>

lemma drawables_ok:
  assumes "\<forall>c \<in> set (bm_values (sps_stablecoin_registry s)). sane_decimals (sc_decimals c)"
    and "sum_list (map (drawable_e8s s \<circ> snd) (drawables s ct)) \<le> u64_max"
  shows "draw_ok s (drawables s ct)" and "\<forall>x \<in> set (drawables s ct). fst (snd (snd x)) = available_native s ct (fst (snd x))"
proof -
  have sane: "sane_decimals (sc_decimals c)" if "bm_get (sps_stablecoin_registry s) t = Some c" for t c
    using assms(1) that by (force simp: bm_values_def bm.in_entries_iff [symmetric])
  have "distinct (map (fst \<circ> snd) (drawables s ct))"
    using bm.entries_distinct [of "sps_stablecoin_registry s"]
    by (simp add: drawables_def comp_def case_prod_beta' distinct_map_filter)
  moreover have "\<forall>x \<in> set (drawables s ct). registered s (snd x)"
    using sane by (auto simp: drawables_def registered_def coin_of_def bm.in_entries_iff)
  ultimately show "draw_ok s (drawables s ct)" using assms(2) by (simp add: draw_ok_def)
  show "\<forall>x \<in> set (drawables s ct). fst (snd (snd x)) = available_native s ct (fst (snd x))" by (auto simp: drawables_def)
qed

section \<open>The draw\<close>

lemma draw_within_deposits:
  assumes "bm_get (compute_token_draw s debt ct) t = Some n"
  shows "n \<le> available_native s ct t"
proof -
  let ?toks = "drawables s ct"
  have avail: "fst (snd (snd x)) = available_native s ct (fst (snd x))" if "x \<in> set ?toks" for x using that by (auto simp: drawables_def)
  have "\<exists>x \<in> set ?toks. fst (snd x) = t \<and> n \<le> fst (snd (snd x))"
  proof (cases "debt < small_debt_threshold")
    case True
    then obtain tok e where m: "last_max (filter (\<lambda>(_, e8s). e8s > 0) (map (\<lambda>(_, tok). (tok, drawable_e8s s tok)) ?toks)) = Some (tok, e)"
      and "t = fst tok" "n \<le> fst (snd tok)"
      using assms by (auto simp: compute_token_draw_def draw_single_def Let_def split: if_splits option.splits)
    with last_max_mem [OF m] show ?thesis by force
  next
    case False
    then have "bm_get (draw_priorities s ?toks (rev (sorted_list_of_set (fst ` set ?toks))) debt bm_empty) t = Some n"
      using assms by (auto simp: compute_token_draw_def Let_def split: if_splits)
    from priorities_within [OF this] show ?thesis by simp
  qed
  with avail show ?thesis by auto
qed

lemma draw_within_debt:
  assumes "\<forall>c \<in> set (bm_values (sps_stablecoin_registry s)). sane_decimals (sc_decimals c)"
    and "sum_list (map (drawable_e8s s \<circ> snd) (drawables s ct)) \<le> u64_max" and "debt \<le> u64_max"
  shows "draw_value s (compute_token_draw s debt ct) \<le> debt"
proof -
  let ?toks = "drawables s ct"
  note ok = drawables_ok(1) [OF assms(1,2)]
  have single: "draw_value s (draw_single s debt xs) \<le> debt" if "\<forall>x \<in> set xs. registered s (fst x)" for xs
  proof (cases "last_max xs")
    case (Some x)
    then have "registered s (fst x)" using last_max_mem [OF Some] that by blast
    then have "consumed_value s (fst (fst x)) (min (drawn_native s (fst x) (min debt (snd x))) (fst (snd (fst x)))) \<le> min debt (snd x)"
      using assms(3) by (intro drawn_value) auto
    then show ?thesis using Some by (cases x) (auto simp: draw_single_def Let_def draw_value_insert)
  qed (simp add: draw_single_def)
  have "draw_value s (draw_priorities s ?toks (rev (sorted_list_of_set (fst ` set ?toks))) debt bm_empty) \<le> draw_value s bm_empty + debt"
    by (rule priorities_value [OF ok]) simp_all
  moreover have "draw_value s (draw_single s debt (filter (\<lambda>(_, e8s). e8s > 0) (map (\<lambda>(_, tok). (tok, drawable_e8s s tok)) ?toks))) \<le> debt"
    by (rule single) (use ok in \<open>auto simp: draw_ok_def\<close>)
  ultimately show ?thesis by (simp add: compute_token_draw_def Let_def)
qed

end
