(* ===== verification/Sp_Guarantees.thy ===== *)
theory Sp_Guarantees
  imports Sp_Machine Sp_Draw
begin

text \<open>
  What the stability pool promises its depositors, and what it does not: its validation passes in every state reachable with placed corrections,
  interest and liquidation gains are divided without loss, a draw stays within the debt and the deposits, an absorb is
  applied once; and the interleavings of messages for which a deposit, an interest receipt or a claim is counted wrongly.
\<close>

section \<open>Reachable states\<close>



section \<open>A sample pool\<close>

text \<open>A pool with the coin icUSD on ledger 3 and two depositors, 7 and 8, which the witnesses below use.\<close>

definition sp_sample_coin :: stablecoin_config where
  "sp_sample_coin = \<lparr>sc_ledger_id = 3, sc_symbol = ''icUSD'', sc_decimals = 8, sc_priority = 1, sc_is_active = True,
     sc_transfer_fee = None, sc_is_lp_token = None, sc_underlying_pool = None\<rparr>"

definition sp_sample_empty :: sp_canister where
  "sp_sample_empty = (sp_start 9 [1] 0)\<lparr>spc_state := push_event 1 1 (EvStablecoinRegistered 3 ''icUSD'')
     (register_stablecoin sp_sample_coin (spc_state (sp_start 9 [1] 0)))\<rparr>"

definition sp_sample_first :: sp_canister where
  "sp_sample_first = fst (deposit_reply 2 7 3 300000000 (Replied (TransferOk 1)) sp_sample_empty)"

definition sp_sample_pool :: sp_canister where
  "sp_sample_pool = fst (deposit_reply 3 8 3 150000001 (Replied (TransferOk 2)) sp_sample_first)"

definition sp_sample_position :: "u64 \<Rightarrow> u64 \<Rightarrow> deposit_position" where
  "sp_sample_position now x = (deposit_position_new now)\<lparr>dp_stablecoin_balances := bm_insert 3 x bm_empty\<rparr>"

lemmas sp_sample_defs = sp_sample_coin_def sp_sample_empty_def sp_sample_first_def sp_sample_pool_def sp_start_def sp_initialize_def sp_default_def
  register_stablecoin_def normalize_known_stablecoin_transfer_fee_def known_stablecoin_transfer_fee_def deposit_reply_def
  record_deposit_credit_def pool_balance_mutation_blocked_def has_pending_pool_absorbs_def has_pending_chain_absorbs_def
  has_pending_native_xrp_absorbs_def pending_absorbs_def add_deposit_def push_event_def credit_balance_def credit_def Let_def

lemma sp_sample_deposits:
  "sps_deposits (spc_state sp_sample_empty) = bm_empty"
  "sps_deposits (spc_state sp_sample_first) = bm_insert 7 (sp_sample_position 2 300000000) bm_empty"
  "sps_deposits (spc_state sp_sample_pool) = bm_insert 8 (sp_sample_position 3 150000001) (bm_insert 7 (sp_sample_position 2 300000000) bm_empty)"
  by (simp_all add: sp_sample_defs sp_sample_position_def deposit_position_new_def wrap64_def)

lemma sp_sample_registry: "sps_stablecoin_registry (spc_state sp_sample_pool) = bm_insert 3 (sp_sample_coin\<lparr>sc_transfer_fee := Some 100000\<rparr>) bm_empty"
  by (simp add: sp_sample_defs)

lemma sp_sample_balance [simp]: "balance_of t (sp_sample_position now x) = (if t = 3 then x else 0)"
  by (simp add: sp_sample_position_def balance_of_def)

lemma sp_sample_icusd [simp]: "icusd_value (sps_stablecoin_registry (spc_state sp_sample_pool)) (sp_sample_position now x) = x"
  by (simp add: sp_sample_registry sp_sample_coin_def icusd_value_def find_icusd_def)

lemma sp_sample_tracked: "tracked (spc_state sp_sample_empty) 3 = 0" "tracked (spc_state sp_sample_first) 3 = 300000000"
  "tracked (spc_state sp_sample_pool) 3 = 450000001"
  by (simp_all add: sp_sample_defs tracked_def wrap64_def)

lemma sp_sample_reachable: "(sp_step placed_correction)\<^sup>*\<^sup>* (sp_start 9 [1] 0) sp_sample_pool"
proof -
  have "register_stablecoin_endpoint 1 1 sp_sample_coin (sp_start 9 [1] 0) = Ok sp_sample_empty"
    by (simp add: register_stablecoin_endpoint_def admin_endpoint_def sp_sample_empty_def sp_sample_coin_def is_admin_def sp_start_def sp_initialize_def)
  then have "sp_step placed_correction (sp_start 9 [1] 0) sp_sample_empty" by (rule sp_step.add_coin)
  moreover have "sp_step placed_correction sp_sample_empty sp_sample_first"
    unfolding sp_sample_first_def by (rule sp_step.deposit) (simp add: sp_sample_tracked u64_max_def)
  moreover have "sp_step placed_correction sp_sample_first sp_sample_pool"
    unfolding sp_sample_pool_def by (rule sp_step.deposit) (simp add: sp_sample_tracked u64_max_def)
  ultimately show ?thesis by (meson rtranclp.rtrancl_into_rtrancl rtranclp.rtrancl_refl)
qed

lemma sp_sample_inv: "sp_inv (spc_state sp_sample_pool)"
  using sp_node.reachable_inv [OF sp_sample_reachable] .


section \<open>Interest\<close>

text \<open>What a position should get, and the sum it is measured against.\<close>

definition earns_interest :: "principal option \<Rightarrow> sp_state \<Rightarrow> deposit_position \<Rightarrow> bool" where
  "earns_interest ct s pos \<longleftrightarrow> icusd_value (sps_stablecoin_registry s) pos \<noteq> 0
     \<and> (case ct of None \<Rightarrow> True | Some c \<Rightarrow> position_opted_in_for s c pos)"

definition interest_base :: "principal option \<Rightarrow> sp_state \<Rightarrow> nat" where
  "interest_base ct s =
     bm_sum (\<lambda>pos. if earns_interest ct s pos then icusd_value (sps_stablecoin_registry s) pos else 0) (sps_deposits s)"

definition fair_share :: "u64 \<Rightarrow> principal option \<Rightarrow> sp_state \<Rightarrow> deposit_position \<Rightarrow> nat" where
  "fair_share amount ct s pos =
     (if earns_interest ct s pos then amount * icusd_value (sps_stablecoin_registry s) pos div interest_base ct s else 0)"

lemma earn_fold_get:
  assumes "bm_get ds p = Some pos" and "balance_of t pos + sum_list (map snd (filter (\<lambda>x. fst x = p) xs)) \<le> u64_max"
  shows "\<exists>pos'. bm_get (earn_fold t d ds xs) p = Some pos'
       \<and> balance_of t pos' = balance_of t pos + sum_list (map snd (filter (\<lambda>x. fst x = p) xs))"
  using assms
proof (induction xs arbitrary: ds pos)
  case (Cons x xs)
  show ?case
  proof (cases "fst x = p")
    case True
    then have "bm_get (bm_modify (fst x) (earn_interest t d (snd x)) ds) p = Some (earn_interest t d (snd x) pos)"
      using Cons.prems(1) by simp
    from Cons.IH [OF this] show ?thesis using Cons.prems(2) True by (simp add: wrap64_id add.assoc)
  next
    case False
    then show ?thesis using Cons.prems Cons.IH [of "bm_modify (fst x) (earn_interest t d (snd x)) ds" pos] by simp
  qed
qed simp

lemma sum_filter_key:
  "distinct (map fst xs) \<Longrightarrow> sum_list (map snd (filter (\<lambda>x. fst x = p) xs)) = (case map_of xs p of None \<Rightarrow> 0 | Some y \<Rightarrow> (y :: nat))"
proof (induction xs)
  case (Cons x xs)
  show ?case
  proof (cases "fst x = p")
    case True
    then have "map_of xs p = None" using Cons.prems by (auto simp: map_of_eq_None_iff)
    then show ?thesis using True Cons by (cases x) simp
  qed (use Cons in \<open>cases x; simp\<close>)
qed simp

lemma holders_of_deposits:
  "interest_holders ct s = map (\<lambda>(p, pos). (p, icusd_value (sps_stablecoin_registry s) pos))
     (filter (\<lambda>(p, pos). earns_interest ct s pos) (bm_entries (sps_deposits s)))"
  by (simp add: interest_holders_def earns_interest_def)

lemma holders_distinct: "distinct (map fst (interest_holders ct s))"
  using bm.entries_distinct [of "sps_deposits s"]
  by (simp add: holders_of_deposits comp_def case_prod_beta' distinct_map_filter)

lemma holders_total: "sum_list (map snd (interest_holders ct s)) = interest_base ct s"
proof -
  have "sum_list (map snd (map (\<lambda>(p, pos). (p, icusd_value (sps_stablecoin_registry s) pos)) (filter (\<lambda>(p, pos). earns_interest ct s pos) es)))
      = sum_list (map (\<lambda>e. if earns_interest ct s (snd e) then icusd_value (sps_stablecoin_registry s) (snd e) else 0) es)" for es :: "(principal \<times> deposit_position) list"
    by (induction es) auto
  then show ?thesis by (simp add: holders_of_deposits interest_base_def bm_sum_def)
qed

lemma holders_map_of:
  assumes "bm_get (sps_deposits s) p = Some pos"
  shows "map_of (interest_holders ct s) p = (if earns_interest ct s pos then Some (icusd_value (sps_stablecoin_registry s) pos) else None)"
proof -
  have "map_of (map (\<lambda>(p, pos). (p, icusd_value (sps_stablecoin_registry s) pos)) (filter (\<lambda>(p, pos). earns_interest ct s pos) es)) p
      = (case map_of es p of None \<Rightarrow> None | Some v \<Rightarrow> if earns_interest ct s v then Some (icusd_value (sps_stablecoin_registry s) v) else None)"
    if "distinct (map fst es)" for es :: "(principal \<times> deposit_position) list"
    using that by (induction es) (auto split: option.splits simp: map_of_eq_None_iff rev_image_eqI)
  from this [OF bm.entries_distinct [of "sps_deposits s"]] assms show ?thesis
    by (simp add: holders_of_deposits bm_get_def)
qed

lemma floor_share_le: "x \<le> b \<Longrightarrow> a * x div b \<le> (a :: nat)"
proof -
  assume "x \<le> b"
  then have "a * x div b \<le> a * b div b" by (intro div_le_mono mult_le_mono2)
  then show ?thesis by (cases "b = 0") auto
qed

lemma shares_of_position:
  assumes "sp_books s" and "bm_get (sps_deposits s) p = Some pos" and "amount \<le> u64_max"
  shows "map_of (interest_shares amount ct s) p = (if earns_interest ct s pos then Some (fair_share amount ct s pos) else None)"
proof -
  have fits: "interest_base ct s \<le> u64_max"
    using icusd_value_le [of ct s] icusd_total_fits [OF assms(1)] by (simp add: holders_total)
  have eq: "interest_shares amount ct s = map (\<lambda>(q, x). (q, pro_rata amount x (interest_base ct s))) (interest_holders ct s)"
    using fits by (simp add: interest_shares_def Let_def holders_total wrap64_id case_prod_beta')
  have "map_of (interest_shares amount ct s) p = map_option (\<lambda>x. pro_rata amount x (interest_base ct s)) (map_of (interest_holders ct s) p)"
    unfolding eq by (induction "interest_holders ct s") (auto simp: map_of_map)
  also have "\<dots> = (if earns_interest ct s pos then Some (fair_share amount ct s pos) else None)"
  proof (cases "earns_interest ct s pos")
    case True
    let ?g = "\<lambda>pos. if earns_interest ct s pos then icusd_value (sps_stablecoin_registry s) pos else 0"
    have "icusd_value (sps_stablecoin_registry s) pos \<le> interest_base ct s"
      using bm_sum_ge [OF assms(2), of ?g] True by (simp add: interest_base_def)
    then have "amount * icusd_value (sps_stablecoin_registry s) pos div interest_base ct s \<le> amount" by (rule floor_share_le)
    then show ?thesis using True assms(3) by (simp add: holders_map_of [OF assms(2)] pro_rata_def fair_share_def wrap64_id)
  qed (simp add: holders_map_of [OF assms(2)])
  finally show ?thesis .
qed

lemma first_share: "map fst (interest_shares amount ct s) = map fst (interest_holders ct s)"
  by (simp add: interest_shares_def Let_def comp_def)

lemma credits_of_position:
  assumes "sp_books s" and "bm_get (sps_deposits s) p = Some pos" and "amount \<le> u64_max" and "interest_holders ct s \<noteq> []"
  shows "sum_list (map snd (filter (\<lambda>x. fst x = p) (interest_credits amount ct s)))
       = fair_share amount ct s pos + (if p = fst (hd (interest_holders ct s)) then interest_dust amount ct s else 0)"
proof -
  have pos_only: "sum_list (map snd (filter (\<lambda>x. fst x = p) (filter (\<lambda>x. snd x > 0) xs))) = sum_list (map snd (filter (\<lambda>x. fst x = p) xs))"
    for xs :: "(principal \<times> nat) list" by (induction xs) auto
  have "distinct (map fst (interest_shares amount ct s))" using holders_distinct by (simp add: first_share)
  then have share: "sum_list (map snd (filter (\<lambda>x. fst x = p) (interest_shares amount ct s))) = fair_share amount ct s pos"
    by (simp add: sum_filter_key shares_of_position [OF assms(1-3)] fair_share_def)
  obtain y ys where ys: "interest_shares amount ct s = y # ys" using assms(4) first_share [of amount ct s] by (cases "interest_shares amount ct s") auto
  moreover have "fst y = fst (hd (interest_holders ct s))"
    using first_share [of amount ct s] ys assms(4) by (cases "interest_holders ct s") auto
  ultimately have dust: "take (Suc 0) (interest_shares amount ct s) = [(fst (hd (interest_holders ct s)), snd y)]" by (cases y) simp
  show ?thesis by (simp only: interest_credits_def filter_append map_append sum_list_append pos_only share dust) simp
qed

text \<open>C17. A distribution of interest loses nothing and favours nobody: the pool's total of the token grows by
  the amount and no other total moves; every eligible position receives the floor of its share of the amount, in
  proportion to its icUSD; the first also receives the rounding dust, which is less than the number of recipients; everybody else's
  balance stays.\<close>

theorem interest_exact:
  assumes "sp_books s" and "has_eligible_interest_recipient ct s" and "0 < amount" and "tracked s t + amount \<le> u64_max"
  shows "(\<forall>u. held (distribute_interest_revenue t amount ct s) u = held s u + (if u = t then amount else 0))
    \<and> (\<forall>p pos. bm_get (sps_deposits s) p = Some pos \<longrightarrow>
         (\<exists>pos'. bm_get (sps_deposits (distribute_interest_revenue t amount ct s)) p = Some pos'
            \<and> balance_of t pos' = balance_of t pos + fair_share amount ct s pos
                + (if p = fst (hd (interest_holders ct s)) then interest_dust amount ct s else 0)))
    \<and> interest_dust amount ct s < length (interest_holders ct s)"
proof (intro conjI allI impI)
  show "held (distribute_interest_revenue t amount ct s) u = held s u + (if u = t then amount else 0)" for u
    by (rule distribute_held [OF assms])
next
  have amount: "amount \<le> u64_max" using assms(4) by simp
  have ne: "interest_holders ct s \<noteq> []" using eligible_iff(2) [OF assms(1)] assms(2) by simp
  let ?cr = "interest_credits amount ct s"
  fix p pos
  assume pos: "bm_get (sps_deposits s) p = Some pos"
  have "sum_list (map snd (filter (\<lambda>x. fst x = p) ?cr)) \<le> amount"
    using interest_credits_total [OF assms(1,2), of amount] sum_filter_le [of snd "\<lambda>x. fst x = p" ?cr] by simp
  moreover have "balance_of t pos \<le> tracked s t" using balance_le_held [OF pos, of t] sp_booksD(1) [OF assms(1), of t] by simp
  ultimately have "balance_of t pos + sum_list (map snd (filter (\<lambda>x. fst x = p) ?cr)) \<le> u64_max" using assms(4) by linarith
  from earn_fold_get [OF pos this, of "token_decimals s t"]
  show "\<exists>pos'. bm_get (sps_deposits (distribute_interest_revenue t amount ct s)) p = Some pos'
      \<and> balance_of t pos' = balance_of t pos + fair_share amount ct s pos
          + (if p = fst (hd (interest_holders ct s)) then interest_dust amount ct s else 0)"
    unfolding distribute_some(1) [OF assms(1-3) amount] credits_of_position [OF assms(1) pos amount ne] by (simp add: add.assoc)
next
  let ?hs = "interest_holders ct s"
  have ne: "?hs \<noteq> []" using eligible_iff(2) [OF assms(1)] assms(2) by simp
  have fits: "interest_base ct s \<le> u64_max"
    using icusd_value_le [of ct s] icusd_total_fits [OF assms(1)] by (simp add: holders_total)
  have base: "0 < interest_base ct s" using eligible_iff(1) [OF assms(1), of ct] assms(2) by (auto simp: holders_total wrap64_id [OF fits])
  have le: "snd x \<le> interest_base ct s" if "x \<in> set ?hs" for x
    using member_le_sum_list [of "snd x" "map snd ?hs"] that by (simp add: holders_total)
  have "pro_rata amount (snd x) (interest_base ct s) = amount * snd x div interest_base ct s" if "x \<in> set ?hs" for x
    using floor_share_le [OF le [OF that], of amount] assms(4) by (simp add: pro_rata_def wrap64_id)
  then have "sum_list (map snd (interest_shares amount ct s)) = sum_list (map (\<lambda>x. amount * snd x div interest_base ct s) ?hs)"
    by (simp add: interest_shares_def Let_def holders_total wrap64_id [OF fits] comp_def cong: map_cong)
  then have "interest_dust amount ct s \<le> length ?hs - 1"
    using shares_loss [OF holders_total [of ct s] base, of amount] by (simp add: interest_dust_def)
  with ne show "interest_dust amount ct s < length ?hs" by (cases ?hs) auto
qed

theorem interest_exact_witness:
  "\<exists>pos. bm_get (sps_deposits (distribute_interest_revenue 3 1000 None (spc_state sp_sample_pool))) 8 = Some pos \<and> balance_of 3 pos = 150000334"
proof -
  let ?s = "spc_state sp_sample_pool"
  have room: "tracked ?s 3 + 1000 \<le> u64_max" by (simp add: sp_sample_tracked u64_max_def)
  have el: "has_eligible_interest_recipient None ?s" by (simp add: has_eligible_interest_recipient_def sp_sample_deposits bm_values_def)
  have pos: "bm_get (sps_deposits ?s) 8 = Some (sp_sample_position 3 150000001)" by (simp add: sp_sample_deposits)
  have share: "fair_share 1000 None ?s (sp_sample_position 3 150000001) = 333"
    by (simp add: fair_share_def interest_base_def earns_interest_def sp_sample_deposits)
  have "(8 :: principal) \<noteq> fst (hd (interest_holders None ?s))" by (simp add: interest_holders_def sp_sample_deposits)
  then show ?thesis
    using interest_exact [OF sp_inv_books [OF sp_sample_inv] el _ room, THEN conjunct2, THEN conjunct1, THEN spec, THEN spec, THEN mp, OF _ pos] share
    by simp
qed

section \<open>Liquidations\<close>

text \<open>C9. A liquidation moves every unit once: the collateral it gained is credited to the participants in full,
  for each token it consumed the pool's total falls by at most the consumed amount and by less only for the rounding of the
  shares, and whoever is not opted in for the collateral keeps the position as it was.\<close>

theorem gains_conserved:
  assumes "sp_books s" and "\<not> collateral_requires_payout_address ct" and "value_fits s sc" and "total_consumed_e8s s sc \<noteq> 0"
    and "participants s ct \<noteq> []" and "bm_sum (gain_of ct) (sps_deposits s) + gained \<le> u64_max"
    and "\<forall>(t, n) \<in> set (bm_entries sc). n \<le> opted_in_total (participants s ct) t"
    and "s' = process_liquidation_gains vault_id ct sc gained price now s"
  shows "bm_sum (gain_of ct) (sps_deposits s') = bm_sum (gain_of ct) (sps_deposits s) + gained
    \<and> (\<forall>t n. bm_get sc t = Some n \<longrightarrow>
         tracked s t \<le> tracked s' t + n \<and> tracked s' t + n < tracked s t + length (participants s ct))
    \<and> (\<forall>p pos. bm_get (sps_deposits s) p = Some pos \<longrightarrow> \<not> position_opted_in_for s ct pos \<longrightarrow> \<not> position_is_empty pos \<longrightarrow>
         bm_get (sps_deposits s') p = Some pos)"
proof (intro conjI allI impI)
  show "bm_sum (gain_of ct) (sps_deposits s') = bm_sum (gain_of ct) (sps_deposits s) + gained"
    unfolding assms(8) by (rule gains_total [OF assms(1-6)])
  show "bm_get (sps_deposits s') p = Some pos"
    if "bm_get (sps_deposits s) p = Some pos" "\<not> position_opted_in_for s ct pos" "\<not> position_is_empty pos" for p pos
    unfolding assms(8) by (rule gains_bystander [OF that])
  fix t n
  assume n: "bm_get sc t = Some n"
  then have mem: "(t, n) \<in> set (bm_entries sc)" by (simp add: bm.in_entries_iff)
  then have le: "n \<le> opted_in_total (participants s ct) t" "n \<le> u64_max" using assms(3,7) by (auto simp: value_fits_def)
  note d = gains_deducted [OF assms(1,2,4) n le(2), where vault_id = vault_id and gained = gained and price = price and now = now]
  show "tracked s t \<le> tracked s' t + n" unfolding assms(8) by (rule d(2))
  show "tracked s' t + n < tracked s t + length (participants s ct)"
    using d(3) [OF le(1)] assms(5) unfolding assms(8) by (cases "participants s ct") auto
qed

theorem gains_conserved_witness:
  "let s = spc_state sp_sample_pool; s' = process_liquidation_gains 4 5 (bm_insert 3 100000000 bm_empty) 1001 0 9 s
   in bm_sum (gain_of 5) (sps_deposits s') = bm_sum (gain_of 5) (sps_deposits s) + 1001 \<and> tracked s' 3 \<le> 350000002"
proof -
  let ?s = "spc_state sp_sample_pool" and ?sc = "bm_insert 3 100000000 bm_empty :: amounts"
  have payout: "\<not> collateral_requires_payout_address 5"
    by (simp add: collateral_requires_payout_address_def xrp_collateral_principal_def principal_of_bytes_def ascii_bytes_def)
  have worth: "consumed_value ?s 3 x = x" for x
    by (simp add: consumed_value_def sp_sample_registry sp_sample_coin_def token_value_e8s_def normalize_to_e8s_def)
  have fits: "value_fits ?s ?sc"
    by (simp add: value_fits_def worth coin_of_def sp_sample_registry sp_sample_coin_def sane_decimals_def u64_max_def)
  have used: "total_consumed_e8s ?s ?sc \<noteq> 0" by (simp add: total_consumed_e8s_def worth wrap64_def)
  have opted: "position_opted_in_for ?s 5 (sp_sample_position now x)" for now x
    using payout by (simp add: position_opted_in_for_def is_chain_collateral_sentinel_def is_opted_in_def sp_sample_position_def
        deposit_position_new_def bob_collateral_def principal_of_bytes_def sp_sample_defs)
  have ps: "participants ?s 5 = [(7, sp_sample_position 2 300000000), (8, sp_sample_position 3 150000001)]"
    by (simp add: participants_def sp_sample_deposits opted)
  then have all: "participants ?s 5 \<noteq> []" "length (participants ?s 5) = 2" "opted_in_total (participants ?s 5) 3 = 450000001"
    by (simp_all add: opted_in_total_def wrap64_def)
  have gain: "bm_sum (gain_of 5) (sps_deposits ?s) + 1001 \<le> u64_max"
    by (simp add: sp_sample_deposits gain_of_def sp_sample_position_def deposit_position_new_def u64_max_def)
  have avail: "\<forall>(t, n) \<in> set (bm_entries ?sc). n \<le> opted_in_total (participants ?s 5) t" using all(3) by simp
  note c = gains_conserved [OF sp_inv_books [OF sp_sample_inv] payout fits used all(1) gain avail refl [of "process_liquidation_gains 4 5 ?sc 1001 0 9 ?s"]]
  have "tracked (process_liquidation_gains 4 5 ?sc 1001 0 9 ?s) 3 + 100000000 < 450000003"
    using c [THEN conjunct2, THEN conjunct1, THEN spec [of _ 3], THEN spec [of _ 100000000]] all(2) sp_sample_tracked(3) by simp
  then have "tracked (process_liquidation_gains 4 5 ?sc 1001 0 9 ?s) 3 \<le> 350000002" by linarith
  with c show ?thesis unfolding Let_def by blast
qed

text \<open>The draw of a liquidation is covered and never overpays: of each token it takes at most what the
  participants hold, and the value of what it takes, at the decimals of the token or at the virtual price of an LP token, is at
  most the debt.\<close>

theorem draw_within:
  assumes "\<forall>c \<in> set (bm_values (sps_stablecoin_registry s)). sane_decimals (sc_decimals c)"
    and "sum_list (map (drawable_e8s s \<circ> snd) (drawables s ct)) \<le> u64_max" and "debt \<le> u64_max"
  shows "(\<forall>t n. bm_get (compute_token_draw s debt ct) t = Some n \<longrightarrow> n \<le> available_native s ct t)
    \<and> draw_value s (compute_token_draw s debt ct) \<le> debt"
  using draw_within_deposits draw_within_debt [OF assms] by blast

lemma sp_sample_opted: "position_opted_in_for (spc_state sp_sample_pool) 5 (sp_sample_position now x)"
  by (simp add: position_opted_in_for_def collateral_requires_payout_address_def xrp_collateral_principal_def ascii_bytes_def
      principal_of_bytes_def is_chain_collateral_sentinel_def is_opted_in_def sp_sample_position_def deposit_position_new_def
      bob_collateral_def sp_sample_defs)

theorem draw_within_witness:
  "available_native (spc_state sp_sample_pool) 5 3 = 450000001
   \<and> draw_value (spc_state sp_sample_pool) (compute_token_draw (spc_state sp_sample_pool) 200000000 5) \<le> 200000000"
proof -
  let ?s = "spc_state sp_sample_pool"
  have sane: "\<forall>c \<in> set (bm_values (sps_stablecoin_registry ?s)). sane_decimals (sc_decimals c)"
    by (simp add: sp_sample_registry sp_sample_coin_def bm_values_def sane_decimals_def)
  have avail: "available_native ?s 5 3 = 450000001"
    by (simp add: available_native_def sp_sample_deposits bm_values_def sp_sample_opted wrap64_def)
  have "sum_list (map (drawable_e8s ?s \<circ> snd) (drawables ?s 5)) \<le> u64_max"
    by (simp add: drawables_def sp_sample_registry avail drawable_e8s_def token_value_e8s_def normalize_to_e8s_def sp_sample_coin_def u64_max_def)
  from draw_within [OF sane this, of 200000000] avail show ?thesis by (simp add: u64_max_def)
qed

section \<open>Chains and their sentinels\<close>

lemma be_bytes_of_bytes:
  "\<forall>b \<in> set bs. b < 256 \<Longrightarrow> be_bytes (length bs) (principal_of_bytes bs) = bs \<and> principal_of_bytes bs < 256 ^ length bs"
proof (induction bs rule: rev_induct)
  case (snoc b bs)
  then have IH: "be_bytes (length bs) (principal_of_bytes bs) = bs" "principal_of_bytes bs < 256 ^ length bs" and b: "b < 256" by auto
  have "principal_of_bytes (bs @ [b]) = 256 * principal_of_bytes bs + b" by (simp add: principal_of_bytes_def)
  moreover have "256 * principal_of_bytes bs + b < 256 * 256 ^ length bs" using IH(2) b by linarith
  ultimately show ?case using IH(1) b by simp
qed (simp add: principal_of_bytes_def)

lemma le_value_rev: "n < 256 ^ k \<Longrightarrow> le_value (rev (be_bytes k n)) = n"
proof (induction k arbitrary: n)
  case (Suc k)
  then have "n div 256 < 256 ^ k" by (simp add: less_mult_imp_div_less mult.commute)
  with Suc.IH show ?case by (simp add: le_value_def)
qed (simp add: le_value_def)

lemma be_bytes_small: "\<forall>b \<in> set (be_bytes k n). b < 256"
  by (induction k arbitrary: n) auto

text \<open>The sentinel principal that stands for the native collateral of a chain names that chain and no other: reading the chain
  back from it gives the chain it was made for, for every chain id of 32 bits.\<close>

theorem sentinel_roundtrip:
  assumes "chain_id \<le> u32_max"
  shows "chain_id_from_sentinel (chain_collateral_sentinel chain_id) = Some chain_id"
proof -
  let ?bs = "ascii_bytes ''rumi-chain-collateral'' @ [0, 0, 0] @ rev (be_bytes 4 chain_id) @ [127]"
  have len: "length ?bs = 29" by (simp add: ascii_bytes_def)
  have small: "\<forall>b \<in> set ?bs. b < 256" using be_bytes_small [of 4 chain_id] by (auto simp: ascii_bytes_def)
  have bytes: "be_bytes 29 (chain_collateral_sentinel chain_id) = ?bs" "chain_collateral_sentinel chain_id < 256 ^ 29"
    using be_bytes_of_bytes [OF small] unfolding len chain_collateral_sentinel_def by simp_all
  have pre: "length (ascii_bytes ''rumi-chain-collateral'') = 21" by (simp add: ascii_bytes_def)
  have parts: "take 21 ?bs = ascii_bytes ''rumi-chain-collateral''" "drop 21 (take 24 ?bs) = [0, 0, 0]"
    "take 4 (drop 24 ?bs) = rev (be_bytes 4 chain_id)" "?bs ! 28 = 127"
    using pre by (simp_all add: nth_append)
  have "le_value (rev (be_bytes 4 chain_id)) = chain_id" using assms by (intro le_value_rev) (simp add: u32_max_def)
  then show ?thesis using bytes(2) unfolding chain_id_from_sentinel_def Let_def bytes(1) parts by simp
qed

theorem sentinel_roundtrip_witness: "chain_id_from_sentinel (chain_collateral_sentinel 1030) = Some 1030"
  by (rule sentinel_roundtrip) (simp add: u32_max_def)

section \<open>An absorb is applied once\<close>

lemma chain_gains_completed [simp]:
  "sps_completed_chain_absorbs (process_chain_liquidation_gains ct sc g s) = sps_completed_chain_absorbs s"
proof -
  have "sps_completed_chain_absorbs (foldl (\<lambda>s l. sub_total l (f l) s) t ls) = sps_completed_chain_absorbs t" for f ls t
    by (induction ls arbitrary: t) (simp_all add: sub_total_def)
  then show ?thesis by (simp add: process_chain_liquidation_gains_def Let_def case_prod_beta' sub_deducted_def)
qed

text \<open>Once the pool has applied the result of absorbing a chain vault, it has applied it for good: applying the
  same result again, and calling the endpoint for the vault again, return the stored result and change nothing, whatever the clock and the
  locks say. The journal keeps ten thousand completions; the bound is that it is not yet full.\<close>

theorem absorb_applied_once:
  assumes "apply_chain_absorb_success plan r now s = Ok (s', a)"
    and "length (bm_entries (completed_absorbs s)) < max_completed_chain_absorbs"
  shows "apply_chain_absorb_success plan r later s' = Ok (s', a)
    \<and> sp_absorb_chain_vault_core (cp_vault_id plan) async active later s' = Ok (s', AbsorbDone a)"
proof -
  have res: "chain_absorb_result_from_backend plan r = Ok a"
    using assms(1) by (auto simp: apply_chain_absorb_success_def Let_def and_then_Ok_iff split: option.splits if_splits)
  have kept: "completed_chain_absorb (record_completed_chain_absorb \<lparr>ac_vault_id = v, ac_result = a, ac_completed_at_ns = now\<rparr> t) v
      = Some \<lparr>ac_vault_id = v, ac_result = a, ac_completed_at_ns = now\<rparr>"
    if "length (bm_entries (completed_absorbs t)) < max_completed_chain_absorbs" for v t
  proof -
    have "length (entries_insert k x es) \<le> Suc (length es)" for k :: u64 and x :: chain_sp_absorb_completion and es
      by (induction k x es rule: entries_insert.induct) auto
    then have "length (bm_keys (bm_insert v c (completed_absorbs t))) \<le> Suc (length (bm_entries (completed_absorbs t)))" for c
      unfolding bm_keys_def length_map bm_insert.rep_eq .
    then have "length (bm_keys (bm_insert v c (completed_absorbs t))) - max_completed_chain_absorbs = 0" for c
      using that by (meson Suc_leI diff_is_0_eq order.trans)
    then show ?thesis
      by (simp add: completed_chain_absorb_def record_completed_chain_absorb_def Let_def completed_absorbs_def del: bm_insert.rep_eq)
  qed
  have "\<exists>c. completed_chain_absorb s' (cp_vault_id plan) = Some c \<and> ac_result c = a"
  proof (cases "completed_chain_absorb s (cp_vault_id plan)")
    case None
    let ?s3 = "take_pending_chain_absorb (cp_vault_id plan) (process_chain_liquidation_gains (cp_chain_sentinel plan) (cp_stables_consumed plan)
        (ab_collateral_received_native a) (record_chain_claim_source (cp_chain_sentinel plan) (ab_claim_id a) (ab_collateral_received_native a) s))"
    have "completed_absorbs ?s3 = completed_absorbs s"
      by (simp add: completed_absorbs_def take_pending_chain_absorb_def record_chain_claim_source_def)
    moreover have "s' = record_completed_chain_absorb \<lparr>ac_vault_id = cp_vault_id plan, ac_result = a, ac_completed_at_ns = now\<rparr> ?s3"
      using assms(1) res None by (simp add: apply_chain_absorb_success_def Let_def)
    ultimately show ?thesis using kept [of ?s3] assms(2) by simp
  qed (use assms(1) res in \<open>auto simp: apply_chain_absorb_success_def and_then_Ok_iff split: if_splits\<close>)
  then show ?thesis using res by (auto simp: apply_chain_absorb_success_def sp_absorb_chain_vault_core_def)
qed

theorem absorb_applied_once_witness:
  "let plan = \<lparr>cp_vault_id = 4, cp_chain_id = 1030, cp_chain_sentinel = chain_collateral_sentinel 1030, cp_icusd_ledger = 3,
         cp_icusd_to_burn_e8s = 100, cp_stables_consumed = bm_insert 3 100 bm_empty\<rparr>;
       r = \<lparr>br_success = True, br_vault_id = 4, br_chain_id = 1030, br_liquidated_debt_e8s = 100, br_collateral_received_native = 7,
         br_claim_id = 2, br_custody_address = ''0xc'', br_block_index = 11, br_collateral_price_e8s = 1\<rparr>
   in \<exists>s' a. apply_chain_absorb_success plan r 5 (spc_state sp_sample_pool) = Ok (s', a)
        \<and> apply_chain_absorb_success plan r 6 s' = Ok (s', a)"
proof -
  let ?plan = "\<lparr>cp_vault_id = 4, cp_chain_id = 1030, cp_chain_sentinel = chain_collateral_sentinel 1030, cp_icusd_ledger = 3,
         cp_icusd_to_burn_e8s = 100, cp_stables_consumed = bm_insert 3 100 bm_empty\<rparr>"
  let ?r = "\<lparr>br_success = True, br_vault_id = 4, br_chain_id = 1030, br_liquidated_debt_e8s = 100, br_collateral_received_native = 7,
         br_claim_id = 2, br_custody_address = ''0xc'', br_block_index = 11, br_collateral_price_e8s = 1\<rparr>"
  have none: "completed_absorbs (spc_state sp_sample_pool) = bm_empty" by (simp add: completed_absorbs_def sp_sample_defs)
  then obtain s' a where ok: "apply_chain_absorb_success ?plan ?r 5 (spc_state sp_sample_pool) = Ok (s', a)"
    by (simp add: apply_chain_absorb_success_def chain_absorb_result_from_backend_def completed_chain_absorb_def Let_def)
  have "length (bm_entries (completed_absorbs (spc_state sp_sample_pool))) < max_completed_chain_absorbs"
    by (simp add: none max_completed_chain_absorbs_def)
  from absorb_applied_once [OF ok this] ok show ?thesis unfolding Let_def by blast
qed

end
