(* ===== verification/Sp_Interleaving.thy ===== *)
theory Sp_Interleaving
  imports Sp_Guarantees ThreePool_Ledger
begin

text \<open>
  Interleavings in which the stability pool counts something wrongly. Each is a sequence of the messages of the machine
  with ordinary arguments: a second deposit in the same instant, a repeated notification of interest, a withdrawal between the two halves of a
  claim, and a withdrawal that passed its guard before a liquidation took the lock.
\<close>

section \<open>Two deposits in one instant\<close>

text \<open>The arguments that \<^verbatim>\<open>deposit\<close> passes to the ledger, and the ledger's answer as the pool reads it.\<close>

definition deposit_transfer_args :: "u64 \<Rightarrow> principal \<Rightarrow> principal \<Rightarrow> u64 \<Rightarrow> transfer_from_args" where
  "deposit_transfer_args now pool user amount = \<lparr>
     tf_spender_subaccount = None,
     tf_from = \<lparr>ac_owner = user, ac_subaccount = None\<rparr>,
     tf_to = \<lparr>ac_owner = pool, ac_subaccount = None\<rparr>,
     tf_amount = amount, tf_fee = None, tf_memo = None, tf_created_at_time = Some now\<rparr>"

definition ledger_answer :: "(token_error, u64) outcome \<Rightarrow> ledger_reply call_reply" where
  "ledger_answer r =
     (case r of
        Ok block \<Rightarrow> Replied (TransferOk block)
      | Err (Duplicate block) \<Rightarrow> Replied (TransferDuplicate block)
      | Err _ \<Rightarrow> Replied (TransferRejected ''rejected'')
      | Trap \<Rightarrow> CallFailed)"

lemma dedup_remembers:
  assumes "icrc2_transfer_from C now caller args L = (L', Ok block)" and "tf_created_at_time args = Some now" and "now \<le> u64_max"
  shows "icrc2_transfer_from C now caller args L' = (L', Err (Duplicate block))"
    and "ac_owner (tf_from args) \<noteq> ac_owner (tf_to args) \<Longrightarrow> lp_balance_get L' (ac_owner (tf_to args)) \<le> lp_balance_get L (ac_owner (tf_to args)) + tf_amount args"
proof -
  let ?h = "hash_icrc2_transfer_from C caller args" and ?to = "ac_owner (tf_to args)" and ?from = "ac_owner (tf_from args)"
  have fee: "\<not> bad_fee (tf_fee args)" using assms(1) by (auto simp: icrc2_transfer_from_def)
  obtain s1 tx where L': "L' = dedup_record now (Some now) ?h block (tp_log_block C now tx (move_lp ?from ?to (tf_amount args) s1))"
    and s1: "charge_allowance now caller ?from (tf_amount args) L = Ok s1"
    using assms(1,2) fee by (auto simp: icrc2_transfer_from_def Let_def nat_to_u128_def split: outcome.splits option.splits if_splits)
  have "bm_get (tp_seen_txs L') ?h = Some (now, block)" by (simp add: L' dedup_record_def)
  moreover have "\<not> tx_expired now now" using assms(3) by (simp add: tx_expired_def sat_add64_def)
  moreover have "\<not> now > sat_add64 now permitted_drift_ns" using assms(3) by (simp add: sat_add64_def)
  ultimately show "icrc2_transfer_from C now caller args L' = (L', Err (Duplicate block))"
    using fee by (simp add: icrc2_transfer_from_def Let_def assms(2) dedup_check_def)
  have "lp_balance_get s1 p = lp_balance_get L p" for p
    using s1 by (auto simp: charge_allowance_def Let_def lp_balance_get_def allowance_remove_def allowance_set_def split: if_splits option.splits)
  then show "lp_balance_get L' ?to \<le> lp_balance_get L ?to + tf_amount args" if "?from \<noteq> ?to"
    using that by (simp add: L' dedup_record_def tp_log_block_def move_lp_def Let_def lp_balance_get_def lp_balance_set_def
        wrap_add128_def wrap128_def)
qed

text \<open>C18. Two equal deposits of LP tokens in the same instant are credited twice and paid once. The pool stamps
  its transfer with the time of the message and sends no memo, so the second transfer is to the LP ledger a duplicate of the first: the
  ledger answers \<open>Duplicate\<close> and moves nothing, and the pool, which takes a duplicate for a retry that already landed, credits
  the depositor again.\<close>

theorem duplicate_deposit_credits_twice:
  assumes "icrc2_transfer_from C now pool (deposit_transfer_args now pool user amount) L = (L1, Ok block)"
    and "now \<le> u64_max" and "user \<noteq> pool"
    and "sp_books (spc_state c)" and "\<not> pool_balance_mutation_blocked c" and "tracked (spc_state c) t + 2 * amount \<le> u64_max"
  shows "\<exists>L2 r c1 c2. icrc2_transfer_from C now pool (deposit_transfer_args now pool user amount) L1 = (L2, r)
    \<and> deposit_reply now user t amount (ledger_answer (Ok block)) c = (c1, DepositCredited)
    \<and> deposit_reply now user t amount (ledger_answer r) c1 = (c2, DepositCredited)
    \<and> held (spc_state c2) t = held (spc_state c) t + 2 * amount
    \<and> lp_balance_get L2 pool \<le> lp_balance_get L pool + amount"
proof -
  let ?args = "deposit_transfer_args now pool user amount"
  let ?f = "\<lambda>s. push_event now user (EvDeposit t amount) (add_deposit now user t amount s)"
  have args: "tf_created_at_time ?args = Some now" "ac_owner (tf_from ?args) = user" "ac_owner (tf_to ?args) = pool" "tf_amount ?args = amount"
    by (simp_all add: deposit_transfer_args_def)
  note dup = dedup_remembers [OF assms(1) args(1) assms(2), unfolded args]
  have unblocked: "\<not> pool_balance_mutation_blocked (upd ?f c)"
    using assms(5) by (simp add: pool_balance_mutation_blocked_def has_pending_pool_absorbs_def has_pending_chain_absorbs_def
        has_pending_native_xrp_absorbs_def pending_absorbs_def push_event_def add_deposit_def Let_def)
  have credit: "deposit_reply now user t amount (ledger_answer (Ok block)) c = (upd ?f c, DepositCredited)"
    "deposit_reply now user t amount (ledger_answer (Err (Duplicate block))) (upd ?f c) = (upd ?f (upd ?f c), DepositCredited)"
    using assms(5) unblocked by (simp_all add: deposit_reply_def ledger_answer_def record_deposit_credit_def)
  have "held (spc_state c) t = tracked (spc_state c) t" using sp_booksD(1) [OF assms(4)] .
  then have "held (spc_state (upd ?f (upd ?f c))) t = held (spc_state c) t + 2 * amount"
    using assms(6) by (simp add: add_deposit_held)
  with dup assms(3) credit show ?thesis by blast
qed

theorem duplicate_deposit_credits_twice_witness:
  "let L = sample_pool\<lparr>tp_lp_balances := bm_insert 7 100 bm_empty, tp_lp_allowances := bm_insert (7, 6) \<lparr>la_amount = 100, la_expires_at = None\<rparr> bm_empty\<rparr>
   in \<exists>L1 L2 r c1 c2. icrc2_transfer_from sample_hashing 5 6 (deposit_transfer_args 5 6 7 60) L = (L1, Ok 0)
     \<and> icrc2_transfer_from sample_hashing 5 6 (deposit_transfer_args 5 6 7 60) L1 = (L2, r)
     \<and> deposit_reply 5 7 10 60 (ledger_answer (Ok 0)) sp_sample_pool = (c1, DepositCredited)
     \<and> deposit_reply 5 7 10 60 (ledger_answer r) c1 = (c2, DepositCredited)
     \<and> held (spc_state c2) 10 = 120 \<and> lp_balance_get L2 6 \<le> 60"
proof -
  let ?L = "sample_pool\<lparr>tp_lp_balances := bm_insert 7 100 bm_empty, tp_lp_allowances := bm_insert (7, 6) \<lparr>la_amount = 100, la_expires_at = None\<rparr> bm_empty\<rparr>"
  have "dedup_check 5 (Some 5) h ?L = Ok ()" for h
    by (simp add: dedup_check_def tx_expired_def sat_add64_def permitted_drift_ns_def transaction_window_ns_def u64_max_def init_def)
  then obtain L1 where first: "icrc2_transfer_from sample_hashing 5 6 (deposit_transfer_args 5 6 7 60) ?L = (L1, Ok 0)"
    by (auto simp: icrc2_transfer_from_def deposit_transfer_args_def Let_def bad_fee_def nat_to_u128_def u128_max_def charge_allowance_def
        allowance_get_def effective_allowance_def allowance_set_def lp_balance_get_def next_block_id_def init_def)
  have zero: "lp_balance_get ?L 6 = 0" "tracked (spc_state sp_sample_pool) 10 = 0"
    by (simp_all add: lp_balance_get_def tracked_def sp_sample_defs)
  have free: "\<not> pool_balance_mutation_blocked sp_sample_pool" by (simp add: sp_sample_defs)
  have room: "tracked (spc_state sp_sample_pool) 10 + 2 * 60 \<le> u64_max" by (simp add: zero u64_max_def)
  have "held (spc_state sp_sample_pool) 10 = 0" using sp_booksD(1) [OF sp_inv_books [OF sp_sample_inv], of 10] zero by simp
  with duplicate_deposit_credits_twice [OF first _ _ sp_inv_books [OF sp_sample_inv] free room] first zero(1)
  show ?thesis unfolding Let_def by (auto simp: u64_max_def)
qed

section \<open>A notification of interest that arrives twice\<close>

text \<open>C32. A mint of interest that found no recipient and was queued for the treasury is distributed as well when its
  notification is repeated after somebody became eligible: version 2 looks for a recipient before it looks for the mint block, which the first notification
  recorded as its receipt. The depositors are credited the amount, while the batch that owes the same mint to
  the treasury stays as it was.\<close>

theorem interest_notification_replayed:
  assumes "receive_interest_revenue_v2 now p t amount ct block c = Ok (c1, Some n)"
    and "deposit_reply later user icusd x (Replied (TransferOk b)) c1 = (c2, DepositCredited)"
    and "has_eligible_interest_recipient ct (spc_state c2)" and "sp_books (spc_state c2)"
    and "0 < amount" and "tracked (spc_state c2) t + amount \<le> u64_max"
  shows "\<exists>c3. receive_interest_revenue_v2 again p t amount ct block c2 = Ok (c3, None)
    \<and> tracked (spc_state c3) t = tracked (spc_state c2) t + amount
    \<and> bm_get (batches (spc_state c3)) n = bm_get (batches (spc_state c1)) n
    \<and> (\<exists>batch. bm_get (batches (spc_state c3)) n = Some batch \<and> block \<in> set (ub_source_mint_blocks batch))"
proof -
  have guards: "interest_guards p t c = Ok ()" using assms(1) by (auto simp: receive_interest_revenue_v2_def and_then_Ok_iff)
  obtain s1 where q: "queue_unallocated_interest_forward block t amount now (spc_state c) = (s1, n)" and c1: "c1 = c\<lparr>spc_state := s1\<rparr>"
    using assms(1) by (auto simp: receive_interest_revenue_v2_def and_then_Ok_iff split: if_splits prod.splits)
  have found: "bm_get m k = Some v \<and> Q v" if "find (\<lambda>(_, b). Q b) (bm_entries m) = Some (k, v)"
    for m :: "(u64, unallocated_interest_forward_batch) bmap" and k v Q
  proof -
    have "(k, v) \<in> set es \<and> Q v" if "find (\<lambda>(_, b). Q b) es = Some (k, v)" for es :: "(u64 \<times> unallocated_interest_forward_batch) list"
      using that by (induction es) (auto split: if_splits)
    with that show ?thesis by (simp add: bm.in_entries_iff [symmetric])
  qed
  have batch: "\<exists>batch. bm_get (batches s1) n = Some batch \<and> block \<in> set (ub_source_mint_blocks batch)"
    using q by (auto simp: queue_unallocated_interest_forward_def Let_def batches_def dest: found split: option.splits)
  have same: "sps_protocol_canister_id s1 = sps_protocol_canister_id (spc_state c)" "sps_configuration s1 = sps_configuration (spc_state c)"
    "sps_stablecoin_registry s1 = sps_stablecoin_registry (spc_state c)"
    using q by (auto simp: queue_unallocated_interest_forward_def Let_def split: option.splits)
  have c2: "c2 = upd (\<lambda>s. push_event later user (EvDeposit icusd x) (add_deposit later user icusd x s)) c1" "\<not> pool_balance_mutation_blocked c1"
    using assms(2) by (auto simp: deposit_reply_def record_deposit_credit_def split: if_splits)
  then have "\<not> pool_balance_mutation_blocked c2" by (simp add: pool_balance_mutation_blocked_def has_pending_pool_absorbs_def
        has_pending_chain_absorbs_def has_pending_native_xrp_absorbs_def pending_absorbs_def push_event_def add_deposit_def Let_def)
  then have guards2: "interest_guards p t c2 = Ok ()"
    using guards same by (auto simp: c2(1) c1 interest_guards_def push_event_def add_deposit_def Let_def split: if_splits)
  define s3 where "s3 = distribute_interest_revenue t amount ct (spc_state c2)"
  have "tracked s3 t = tracked (spc_state c2) t + amount"
    using distribute_some(2) [OF assms(4,3,5), of t] assms(6) by (simp add: s3_def tracked_def wrap64_id)
  moreover have "batches s3 = batches (spc_state c1)"
    by (simp add: s3_def c2(1) batches_def distribute_interest_revenue_def push_event_def add_deposit_def Let_def case_prod_beta')
  moreover have "receive_interest_revenue_v2 again p t amount ct block c2 = Ok (c2\<lparr>spc_state := push_event again p (EvInterestReceived t amount) s3\<rparr>, None)"
    using guards2 assms(3) by (simp add: receive_interest_revenue_v2_def s3_def)
  moreover have "batches (push_event again p (EvInterestReceived t amount) s3) = batches s3" by (simp add: batches_def push_event_def Let_def)
  ultimately show ?thesis using batch by (simp add: c1)
qed

theorem interest_notification_replayed_witness:
  "\<exists>c1 c2 c3. receive_interest_revenue_v2 4 9 3 1000 None 42 sp_sample_empty = Ok (c1, Some 0)
     \<and> deposit_reply 5 7 3 300000000 (Replied (TransferOk 1)) c1 = (c2, DepositCredited)
     \<and> receive_interest_revenue_v2 6 9 3 1000 None 42 c2 = Ok (c3, None) \<and> tracked (spc_state c3) 3 = 300001000"
proof -
  have empty: "pool_balance_mutation_blocked sp_sample_empty = False" "paused sp_sample_empty = False" "batches (spc_state sp_sample_empty) = bm_empty"
    "sps_next_unallocated_batch_id (spc_state sp_sample_empty) = Some 0" "\<not> has_eligible_interest_recipient None (spc_state sp_sample_empty)"
    "interest_guards 9 3 sp_sample_empty = Ok ()"
    by (simp_all add: sp_sample_defs batches_def has_eligible_interest_recipient_def bm_values_def interest_guards_def)
  define s1 where "s1 = fst (queue_unallocated_interest_forward 42 3 1000 4 (spc_state sp_sample_empty))"
  define c1 where "c1 = sp_sample_empty\<lparr>spc_state := s1\<rparr>"
  have q: "queue_unallocated_interest_forward 42 3 1000 4 (spc_state sp_sample_empty) = (s1, 0)"
    by (simp add: s1_def queue_unallocated_interest_forward_def empty Let_def)
  then have first: "receive_interest_revenue_v2 4 9 3 1000 None 42 sp_sample_empty = Ok (c1, Some 0)"
    by (simp add: receive_interest_revenue_v2_def empty c1_def)
  have same: "sps_deposits s1 = bm_empty" "sps_total_stablecoin_balances s1 = sps_total_stablecoin_balances (spc_state sp_sample_empty)"
    "sps_stablecoin_registry s1 = sps_stablecoin_registry (spc_state sp_sample_pool)" "\<not> pool_balance_mutation_blocked c1"
    by (simp_all add: s1_def c1_def queue_unallocated_interest_forward_def Let_def empty sp_sample_deposits sp_sample_registry)
       (simp_all add: sp_sample_defs queue_unallocated_interest_forward_def batches_def)
  define c2 where "c2 = upd (\<lambda>s. push_event 5 7 (EvDeposit 3 300000000) (add_deposit 5 7 3 300000000 s)) c1"
  have dep: "deposit_reply 5 7 3 300000000 (Replied (TransferOk 1)) c1 = (c2, DepositCredited)"
    using same(4) by (simp add: deposit_reply_def record_deposit_credit_def c2_def)
  have c2: "sps_deposits (spc_state c2) = bm_insert 7 (sp_sample_position 5 300000000) bm_empty" "tracked (spc_state c2) 3 = 300000000"
    using same(1,2) sp_sample_tracked(1)
    by (simp_all add: c2_def c1_def add_deposit_def Let_def credit_balance_def credit_def sp_sample_position_def deposit_position_new_def tracked_def wrap64_def)
  have elig: "has_eligible_interest_recipient None (spc_state c2)"
    by (simp add: has_eligible_interest_recipient_def c2 bm_values_def) (simp add: c2_def c1_def push_event_def add_deposit_def Let_def same)
  have "sp_inv (spc_state sp_sample_empty)" by (simp add: sp_sample_empty_def register_stablecoin_inv sp_start_inv)
  then have "sp_inv (spc_state c1)" using queue_inv [OF q] by (simp add: c1_def)
  then have books: "sp_books (spc_state c2)"
    using add_deposit_inv [of s1 3 300000000 5 7] same(2) sp_sample_tracked(1) sp_inv_books
    by (simp add: c2_def c1_def tracked_def u64_max_def)
  show ?thesis
    using interest_notification_replayed [OF first dep elig books, of 6] c2(2) first dep by (auto simp: u64_max_def)
qed

section \<open>A withdrawal between the halves of a claim\<close>

text \<open>C33. A claim of collateral takes the gains out of the position, pays, and puts them back if the payment fails, but
  only into a position that is still there. A depositor who withdraws the whole balance while the payment is under way has no
  position when it fails: the rollback writes nothing, and the gains are lost.\<close>

theorem failed_claim_loses_gains:
  assumes "bm_get (sps_deposits (spc_state c)) user = Some pos"
    and "dp_stablecoin_balances pos = bm_insert t x bm_empty" and "dp_collateral_gains pos = bm_insert ct g bm_empty"
    and "position_is_empty (pos\<lparr>dp_stablecoin_balances := bm_empty, dp_collateral_gains := bm_empty\<rparr>)"
    and "claim_collateral_begin user ct c = (c1, Ok g)" and "withdraw_deduct now user t x None fee c1 = (c2, Ok (x, net))"
  shows "claim_collateral_reply later user ct g paid (Replied (TransferRejected e)) c2 = (c2, Err (LedgerTransferFailed e))
    \<and> claim_collateral_reply later user ct g paid CallFailed c2
        = (c2, Err (InterCanisterCallFailed (Canister ct) ''icrc1_transfer''))
    \<and> get_collateral_gains (spc_state c2) user = bm_empty"
proof -
  have undo: "bm_remove k (bm_insert k v bm_empty) = (bm_empty :: amounts)" for k v by (rule bm_ext) simp
  have g: "get_collateral_gains (spc_state c) user = bm_insert ct g bm_empty" using assms(1,3) by (simp add: get_collateral_gains_def)
  have c1: "c1 = (if g > 0 then upd (mark_gains_claimed user ct g) c else c)"
    using assms(5) g by (auto simp: claim_collateral_begin_def Let_def split: if_splits outcome.splits)
  obtain pos1 where pos1: "bm_get (sps_deposits (spc_state c1)) user = Some pos1" "dp_stablecoin_balances pos1 = bm_insert t x bm_empty"
    "position_is_empty (pos1\<lparr>dp_stablecoin_balances := bm_empty\<rparr>)"
  proof (cases "g > 0")
    case True
    have "bm_get (sps_deposits (spc_state c1)) user = Some (claim_gains ct g pos)" using True assms(1) by (simp add: c1 mark_gains_claimed_def)
    moreover have "position_is_empty (claim_gains ct g pos\<lparr>dp_stablecoin_balances := bm_empty\<rparr>)"
      using assms(3,4) by (auto simp: claim_gains_def Let_def position_is_empty_def bm_values_def sat_sub_def undo)
    ultimately show ?thesis using that assms(2) by (simp add: claim_gains_def Let_def)
  next
    case False
    then show ?thesis using that [of pos] assms(1-4) by (simp add: c1 position_is_empty_def bm_values_def)
  qed
  obtain s' where s': "process_withdrawal user t x (spc_state c1) = Ok s'" "spc_state c2 = s'"
    using assms(6) by (auto simp: withdraw_deduct_def prepare_withdrawal_after_ledger_check_def balance_guard_new_def Let_def split: if_splits outcome.splits)
  from s'(1) pos1 have gone: "bm_get (sps_deposits s') user = None"
    by (auto simp: process_withdrawal_def balance_of_def Let_def sub_total_def undo)
  then have "restore_gains user ct g (spc_state c2) = spc_state c2" by (simp add: restore_gains_def bm_modify_def s'(2))
  with gone show ?thesis by (simp add: claim_collateral_reply_def Let_def get_collateral_gains_def s'(2))
qed

theorem failed_claim_loses_gains_witness:
  "let c = sp_sample_pool\<lparr>spc_state := (spc_state sp_sample_pool)\<lparr>sps_deposits :=
         bm_insert 7 ((sp_sample_position 2 300000000)\<lparr>dp_collateral_gains := bm_insert 5 900 bm_empty\<rparr>) bm_empty\<rparr>\<rparr>
   in \<exists>c1 c2. claim_collateral_begin 7 5 c = (c1, Ok 900) \<and> withdraw_deduct 4 7 3 300000000 None 100000 c1 = (c2, Ok (300000000, 299900000))
        \<and> claim_collateral_reply 6 7 5 900 890 CallFailed c2 = (c2, Err (InterCanisterCallFailed (Canister 5) ''icrc1_transfer''))"
proof -
  let ?pos = "(sp_sample_position 2 300000000)\<lparr>dp_collateral_gains := bm_insert 5 900 bm_empty\<rparr>"
  let ?c = "sp_sample_pool\<lparr>spc_state := (spc_state sp_sample_pool)\<lparr>sps_deposits := bm_insert 7 ?pos bm_empty\<rparr>\<rparr>"
  have pos: "bm_get (sps_deposits (spc_state ?c)) 7 = Some ?pos" "dp_stablecoin_balances ?pos = bm_insert 3 300000000 bm_empty"
    "dp_collateral_gains ?pos = bm_insert 5 900 bm_empty"
    "position_is_empty (?pos\<lparr>dp_stablecoin_balances := bm_empty, dp_collateral_gains := bm_empty\<rparr>)"
    by (simp_all add: sp_sample_position_def deposit_position_new_def position_is_empty_def bm_values_def)
  have "pool_balance_mutation_blocked ?c = False" "paused ?c = False" by (simp_all add: sp_sample_defs)
  moreover have "ensure_icrc_claimable_collateral 5 = Ok ()"
    by (simp add: ensure_icrc_claimable_collateral_def collateral_requires_payout_address_def xrp_collateral_principal_def ascii_bytes_def principal_of_bytes_def)
  ultimately have start: "claim_collateral_begin 7 5 ?c = (upd (mark_gains_claimed 7 5 900) ?c, Ok 900)"
    by (simp add: claim_collateral_begin_def get_collateral_gains_def)
  obtain c2 where deduct: "withdraw_deduct 4 7 3 300000000 None 100000 (upd (mark_gains_claimed 7 5 900) ?c) = (c2, Ok (300000000, 299900000))"
    by (simp add: withdraw_deduct_def prepare_withdrawal_after_ledger_check_def Let_def mark_gains_claimed_def claim_gains_def
        process_withdrawal_def balance_of_def sp_sample_position_def)
  show ?thesis using failed_claim_loses_gains [OF pos start deduct] start deduct by auto
qed

section \<open>A withdrawal that overtakes the lock\<close>

text \<open>A withdrawal that passed its guard is not stopped by a liquidation that starts while the withdrawal waits for the fee and
  the balance of the ledger: a withdrawal that begins then is refused, but this one is deducted
  in full under the liquidation's lock.\<close>

theorem withdraw_lands_in_liquidation:
  assumes "withdraw_begin c = Ok ()" and "liquidation_guard_new c = Ok c1"
    and "process_withdrawal user t amount (spc_state c) = Ok s'" and "fee < amount"
  shows "withdraw_begin c1 = Err SystemBusy
    \<and> (\<exists>c2. withdraw_deduct now user t amount None fee c1 = (c2, Ok (amount, amount - fee))
          \<and> spc_liquidation_active c2 \<and> tracked (spc_state c2) t = tracked (spc_state c) t - amount)"
proof -
  have c1: "c1 = c\<lparr>spc_liquidation_active := True\<rparr>" using assms(2) by (auto simp: liquidation_guard_new_def split: if_splits)
  have "tracked s' t = tracked (spc_state c) t - amount" using process_withdrawal_held(2) [OF assms(3), of t] by simp
  then show ?thesis
    using assms(3,4) by (simp add: c1 withdraw_begin_def pool_balance_mutation_blocked_def withdraw_deduct_def
        prepare_withdrawal_after_ledger_check_def Let_def balance_guard_new_def)
qed

theorem withdraw_lands_in_liquidation_witness:
  "\<exists>c1 c2. liquidation_guard_new sp_sample_pool = Ok c1 \<and> withdraw_deduct 5 8 3 150000001 None 100000 c1 = (c2, Ok (150000001, 149900001))
     \<and> spc_liquidation_active c2 \<and> tracked (spc_state c2) 3 = 300000000"
proof -
  have free: "withdraw_begin sp_sample_pool = Ok ()" by (simp add: withdraw_begin_def sp_sample_defs)
  obtain c1 where lock: "liquidation_guard_new sp_sample_pool = Ok c1" by (simp add: liquidation_guard_new_def sp_sample_defs)
  obtain s' where "process_withdrawal 8 3 150000001 (spc_state sp_sample_pool) = Ok s'"
    by (simp add: process_withdrawal_def sp_sample_deposits Let_def) (simp add: sp_sample_position_def Let_def)
  from withdraw_lands_in_liquidation [OF free lock this, of 100000 5] lock show ?thesis by (auto simp: sp_sample_tracked)
qed

end
