(* ===== verification/Treasury.thy ===== *)
theory Treasury
  imports BTree_Map
begin

text \<open>
  The treasury canister (\<^verbatim>\<open>rumi_treasury\<close>): its deposit log, its balances per asset with their mirror in stable
  memory, the audit trail, the receipts of the stability pool's interest, and the withdrawals, split at their awaits. The state record
  holds the heap and the stable memory together; \<open>restore_state\<close> reads only the stable fields and computes the others
  again. What the management canister, the ledgers and the stable cells answer is an argument.
\<close>

section \<open>Data\<close>

datatype deposit_type = BorrowingFee | RedemptionFee | LiquidationFee | InterestRevenue

datatype asset_type = ICUSD | ICP | CKBTC | CKUSDT | CKUSDC

text \<open>The order of the declaration. It only fixes in which order the table of balances is listed.\<close>

primrec asset_rank :: "asset_type \<Rightarrow> nat" where
  "asset_rank ICUSD = 0"
| "asset_rank ICP = 1"
| "asset_rank CKBTC = 2"
| "asset_rank CKUSDT = 3"
| "asset_rank CKUSDC = 4"

lemma asset_rank_inject: "asset_rank a = asset_rank b \<longleftrightarrow> a = b"
  by (cases a; cases b) simp_all

instantiation asset_type :: linorder
begin

definition less_eq_asset_type :: "asset_type \<Rightarrow> asset_type \<Rightarrow> bool" where
  "less_eq_asset_type a b \<longleftrightarrow> asset_rank a \<le> asset_rank b"

definition less_asset_type :: "asset_type \<Rightarrow> asset_type \<Rightarrow> bool" where
  "less_asset_type a b \<longleftrightarrow> asset_rank a < asset_rank b"

instance
  by standard (auto simp: less_eq_asset_type_def less_asset_type_def asset_rank_inject)

end

record deposit_record =
  dr_id :: u64
  dr_deposit_type :: deposit_type
  dr_asset_type :: asset_type
  dr_amount :: u64
  dr_block_index :: u64
  dr_timestamp :: u64
  dr_memo :: "string option"

record asset_balance =
  ab_total :: u64
  ab_reserved :: u64
  ab_available :: u64

record treasury_init_args =
  ia_controller :: principal
  ia_icusd_ledger :: principal
  ia_icp_ledger :: principal
  ia_ckbtc_ledger :: "principal option"
  ia_ckusdt_ledger :: "principal option"
  ia_ckusdc_ledger :: "principal option"

record deposit_args =
  da_deposit_type :: deposit_type
  da_asset_type :: asset_type
  da_amount :: u64
  da_block_index :: u64
  da_memo :: "string option"

record withdraw_args =
  wa_asset_type :: asset_type
  wa_amount :: u64
  wa_to :: principal
  wa_memo :: "string option"
  wa_request_id :: "u64 option"

record withdraw_result =
  wr_block_index :: u64
  wr_amount_transferred :: u64
  wr_fee :: u64

datatype treasury_action =
    TrDeposit deposit_type asset_type u64
  | TrWithdraw asset_type u64 principal
  | TrSetPaused bool

record treasury_event =
  te_id :: u64
  te_timestamp :: u64
  te_caller :: principal
  te_action :: treasury_action

record treasury_config =
  tc_icusd_ledger :: principal
  tc_icp_ledger :: principal
  tc_ckbtc_ledger :: "principal option"
  tc_ckusdt_ledger :: "principal option"
  tc_ckusdc_ledger :: "principal option"
  tc_is_paused :: bool
  tc_stability_pool_reporter :: "principal option"

record treasury_state =
  ts_deposits :: "(u64, deposit_record) bmap"
  ts_balances :: "(asset_type, asset_balance) bmap"
  ts_balances_cell :: "(asset_type \<times> asset_balance) list"
  ts_config :: treasury_config
  ts_next_deposit_id :: u64
  ts_events :: "(u64, treasury_event) bmap"
  ts_next_event_id :: u64
  ts_withdrawal_created_at :: "(u64, u64) bmap"
  ts_sp_blocks :: "(u64, u64) bmap"
  ts_sp_transfer_blocks :: "(u64, u64) bmap"

text \<open>The errors of ICRC-1, and one constructor for each message of the canister.\<close>

datatype icrc1_error =
    IcrcBadFee nat
  | IcrcBadBurn nat
  | IcrcInsufficientFunds nat
  | IcrcTooOld
  | IcrcCreatedInFuture u64
  | IcrcTemporarilyUnavailable
  | IcrcDuplicate nat
  | IcrcGenericError nat string

datatype treasury_error =
    TrAccessDenied principal
  | TrPaused
  | TrNotReporter
  | TrNoSourceBlocks
  | TrSourceBlocksRecorded
  | TrTransferBlockRecorded u64 u64
  | TrUnknownAsset asset_type
  | TrInsufficientBalance u64 u64
  | TrLedgerNotConfigured
  | TrAmountBelowFee u64 u64
  | TrTransferFailed icrc1_error
  | TrTransportError u64
  | TrCellNotUpdated

section \<open>Installation\<close>

definition zero_balance :: asset_balance where
  "zero_balance = \<lparr>ab_total = 0, ab_reserved = 0, ab_available = 0\<rparr>"

definition empty_balances :: "(asset_type, asset_balance) bmap" where
  "empty_balances =
     bm_insert CKUSDC zero_balance (bm_insert CKUSDT zero_balance (bm_insert CKBTC zero_balance
       (bm_insert ICP zero_balance (bm_insert ICUSD zero_balance bm_empty))))"

definition treasury_state_init :: "treasury_init_args \<Rightarrow> treasury_state" where
  "treasury_state_init args = \<lparr>
     ts_deposits = bm_empty,
     ts_balances = empty_balances,
     ts_balances_cell = [],
     ts_config = \<lparr>tc_icusd_ledger = ia_icusd_ledger args, tc_icp_ledger = ia_icp_ledger args,
                  tc_ckbtc_ledger = ia_ckbtc_ledger args, tc_ckusdt_ledger = ia_ckusdt_ledger args,
                  tc_ckusdc_ledger = ia_ckusdc_ledger args, tc_is_paused = False, tc_stability_pool_reporter = None\<rparr>,
     ts_next_deposit_id = 1,
     ts_events = bm_empty,
     ts_next_event_id = 1,
     ts_withdrawal_created_at = bm_empty,
     ts_sp_blocks = bm_empty,
     ts_sp_transfer_blocks = bm_empty\<rparr>"

section \<open>Balances, deposits and receipts\<close>

text \<open>The write of the cell fails only where the memory region cannot grow (\<open>stored\<close>); the code ignores that.\<close>

definition persist_balances :: "bool \<Rightarrow> treasury_state \<Rightarrow> treasury_state" where
  "persist_balances stored s = (if stored then s\<lparr>ts_balances_cell := bm_entries (ts_balances s)\<rparr> else s)"

definition credit_asset :: "u64 \<Rightarrow> asset_balance \<Rightarrow> asset_balance" where
  "credit_asset amount b =
     b\<lparr>ab_total := wrap64 (ab_total b + amount), ab_available := wrap64 (ab_available b + amount)\<rparr>"

definition debit_asset :: "u64 \<Rightarrow> asset_balance \<Rightarrow> asset_balance" where
  "debit_asset amount b =
     b\<lparr>ab_total := wrap64 (ab_total b + 2 ^ 64 - amount), ab_available := wrap64 (ab_available b + 2 ^ 64 - amount)\<rparr>"

definition treasury_push_event :: "u64 \<Rightarrow> principal \<Rightarrow> treasury_action \<Rightarrow> treasury_state \<Rightarrow> treasury_state" where
  "treasury_push_event now caller action s =
     (let event_id = ts_next_event_id s in
      s\<lparr>ts_next_event_id := wrap64 (event_id + 1),
        ts_events := bm_insert event_id
          \<lparr>te_id = event_id, te_timestamp = now, te_caller = caller, te_action = action\<rparr> (ts_events s)\<rparr>)"

definition treasury_add_deposit :: "bool \<Rightarrow> deposit_record \<Rightarrow> treasury_state \<Rightarrow> treasury_state \<times> u64" where
  "treasury_add_deposit stored r s =
     (let deposit_id = ts_next_deposit_id s in
      (persist_balances stored
         (s\<lparr>ts_next_deposit_id := wrap64 (deposit_id + 1),
            ts_balances := bm_modify (dr_asset_type r) (credit_asset (dr_amount r)) (ts_balances s),
            ts_deposits := bm_insert deposit_id (r\<lparr>dr_id := deposit_id\<rparr>) (ts_deposits s)\<rparr>),
       deposit_id))"

text \<open>A report of the stability pool is credited once per mint block: a repeated report returns the deposit it made.\<close>

definition interest_deposit :: "u64 \<Rightarrow> u64 \<Rightarrow> u64 \<Rightarrow> deposit_record" where
  "interest_deposit amount transfer_block_index now =
     \<lparr>dr_id = 0, dr_deposit_type = InterestRevenue, dr_asset_type = ICUSD, dr_amount = amount,
      dr_block_index = transfer_block_index, dr_timestamp = now, dr_memo = Some ''stability-pool unallocated interest''\<rparr>"

definition record_sp_unallocated_interest_once ::
    "bool \<Rightarrow> u64 \<Rightarrow> u64 \<Rightarrow> u64 list \<Rightarrow> u64 \<Rightarrow> treasury_state
       \<Rightarrow> (treasury_error, treasury_state \<times> u64 \<times> bool) outcome" where
  "record_sp_unallocated_interest_once stored amount transfer_block_index source_mint_blocks now s =
     (if source_mint_blocks = [] then Err TrNoSourceBlocks
      else
        let existing = List.map_filter (bm_get (ts_sp_blocks s)) source_mint_blocks in
        if existing \<noteq> [] then
          if length existing = length source_mint_blocks \<and> list_all (\<lambda>i. i = hd existing) existing
          then Ok (s, hd existing, False)
          else Err TrSourceBlocksRecorded
        else case bm_get (ts_sp_transfer_blocks s) transfer_block_index of
          Some existing_transfer \<Rightarrow> Err (TrTransferBlockRecorded transfer_block_index existing_transfer)
        | None \<Rightarrow>
            let (s1, deposit_id) = treasury_add_deposit stored (interest_deposit amount transfer_block_index now) s in
            Ok (s1\<lparr>ts_sp_blocks := fold (\<lambda>b. bm_insert b deposit_id) source_mint_blocks (ts_sp_blocks s1),
                   ts_sp_transfer_blocks := bm_insert transfer_block_index deposit_id (ts_sp_transfer_blocks s1)\<rparr>,
                deposit_id, True))"

section \<open>Withdrawals in the book\<close>

definition treasury_withdraw :: "bool \<Rightarrow> asset_type \<Rightarrow> u64 \<Rightarrow> treasury_state \<Rightarrow> (treasury_error, treasury_state) outcome" where
  "treasury_withdraw stored asset amount s =
     (case bm_get (ts_balances s) asset of
        None \<Rightarrow> Err (TrUnknownAsset asset)
      | Some b \<Rightarrow>
          if ab_available b < amount then Err (TrInsufficientBalance (ab_available b) amount)
          else Ok (persist_balances stored (s\<lparr>ts_balances := bm_insert asset (debit_asset amount b) (ts_balances s)\<rparr>)))"

definition restore_balance :: "bool \<Rightarrow> asset_type \<Rightarrow> u64 \<Rightarrow> treasury_state \<Rightarrow> treasury_state" where
  "restore_balance stored asset amount s =
     persist_balances stored (s\<lparr>ts_balances := bm_modify asset (credit_asset amount) (ts_balances s)\<rparr>)"

definition ledger_dedup_window_nanos :: u64 where
  "ledger_dedup_window_nanos = 24 * 60 * 60 * 1000000000"

text \<open>Expired time stamps are dropped first; a request keeps the time of its first attempt as long as that one is live.\<close>

definition created_at_time_for_request :: "u64 \<Rightarrow> u64 \<Rightarrow> treasury_state \<Rightarrow> treasury_state \<times> u64" where
  "created_at_time_for_request request_id now s =
     (let cutoff = sat_sub now ledger_dedup_window_nanos;
          live = bm_retain (\<lambda>_ t. \<not> t < cutoff) (ts_withdrawal_created_at s)
      in case bm_get live request_id of
           Some t \<Rightarrow> (s\<lparr>ts_withdrawal_created_at := live\<rparr>, t)
         | None \<Rightarrow> (s\<lparr>ts_withdrawal_created_at := bm_insert request_id now live\<rparr>, now))"

definition clear_request_created_at :: "u64 \<Rightarrow> treasury_state \<Rightarrow> treasury_state" where
  "clear_request_created_at request_id s =
     s\<lparr>ts_withdrawal_created_at := bm_remove request_id (ts_withdrawal_created_at s)\<rparr>"

section \<open>Configuration and queries\<close>

definition treasury_set_paused :: "bool \<Rightarrow> bool \<Rightarrow> treasury_state \<Rightarrow> (treasury_error, treasury_state) outcome" where
  "treasury_set_paused stored paused s =
     (if stored then Ok (s\<lparr>ts_config := (ts_config s)\<lparr>tc_is_paused := paused\<rparr>\<rparr>) else Err TrCellNotUpdated)"

definition treasury_set_reporter ::
    "bool \<Rightarrow> principal option \<Rightarrow> treasury_state \<Rightarrow> (treasury_error, treasury_state) outcome" where
  "treasury_set_reporter stored reporter s =
     (if stored then Ok (s\<lparr>ts_config := (ts_config s)\<lparr>tc_stability_pool_reporter := reporter\<rparr>\<rparr>) else Err TrCellNotUpdated)"

definition treasury_page :: "u64 option \<Rightarrow> usize option \<Rightarrow> (u64, 'v) bmap \<Rightarrow> 'v list" where
  "treasury_page start limit m =
     map snd (take (min (case limit of None \<Rightarrow> 100 | Some n \<Rightarrow> n) 1000)
       (filter (\<lambda>(k, _). (case start of None \<Rightarrow> 0 | Some n \<Rightarrow> n) \<le> k) (bm_entries m)))"

definition treasury_get_deposits :: "u64 option \<Rightarrow> usize option \<Rightarrow> treasury_state \<Rightarrow> deposit_record list" where
  "treasury_get_deposits start limit s = treasury_page start limit (ts_deposits s)"

definition treasury_get_events :: "u64 option \<Rightarrow> usize option \<Rightarrow> treasury_state \<Rightarrow> treasury_event list" where
  "treasury_get_events start limit s = treasury_page start limit (ts_events s)"

section \<open>Upgrade\<close>

text \<open>The last key of a stable map, 0 where it is empty, and the id after it.\<close>

definition next_stable_id :: "(u64, 'v) bmap \<Rightarrow> u64" where
  "next_stable_id m =
     (let max_id = (if bm_keys m = [] then 0 else last (bm_keys m)) in
      if max_id > 0 then wrap64 (max_id + 1) else 1)"

definition restored_balances :: "treasury_state \<Rightarrow> (asset_type, asset_balance) bmap" where
  "restored_balances s =
     (if ts_balances_cell s = []
      then fold (\<lambda>r. bm_modify (dr_asset_type r) (credit_asset (dr_amount r))) (bm_values (ts_deposits s)) empty_balances
      else fold (\<lambda>(asset, bal). bm_insert asset bal) (ts_balances_cell s) empty_balances)"

definition restore_state :: "treasury_state \<Rightarrow> treasury_state" where
  "restore_state s =
     s\<lparr>ts_balances := restored_balances s,
       ts_next_deposit_id := next_stable_id (ts_deposits s),
       ts_next_event_id := next_stable_id (ts_events s)\<rparr>"

end
