(* ===== verification/Treasury_Endpoints.thy ===== *)
theory Treasury_Endpoints
  imports Treasury
begin

text \<open>
  The endpoints of the treasury canister. A withdrawal runs up to the query of the ledger's fee, which a cache may answer
  at once, then up to the transfer, then on its reply; each part is one definition. \<open>is_controller\<close> is the management
  canister's answer, \<open>hash\<close> the standard library's hasher, a reply \<open>None\<close> a call that failed.
\<close>

section \<open>The canister\<close>

record treasury_canister =
  tk_state :: treasury_state
  tk_ledger_fees :: "(principal, u64) bmap"

definition default_ledger_fee_e8s :: u64 where
  "default_ledger_fee_e8s = 10000"

definition treasury_init :: "nat \<Rightarrow> treasury_init_args \<Rightarrow> (treasury_error, treasury_canister) outcome" where
  "treasury_init stable_size args =
     (if stable_size \<noteq> 0 then Trap else Ok \<lparr>tk_state = treasury_state_init args, tk_ledger_fees = bm_empty\<rparr>)"

definition treasury_post_upgrade :: "treasury_canister \<Rightarrow> treasury_canister" where
  "treasury_post_upgrade c = \<lparr>tk_state = restore_state (tk_state c), tk_ledger_fees = bm_empty\<rparr>"

definition ensure_controller :: "(principal \<Rightarrow> bool) \<Rightarrow> principal \<Rightarrow> (treasury_error, unit) outcome" where
  "ensure_controller is_controller caller = (if is_controller caller then Ok () else Err (TrAccessDenied caller))"

section \<open>Deposits and configuration\<close>

definition treasury_deposit ::
    "(principal \<Rightarrow> bool) \<Rightarrow> bool \<Rightarrow> u64 \<Rightarrow> principal \<Rightarrow> deposit_args \<Rightarrow> treasury_canister
       \<Rightarrow> (treasury_error, treasury_canister \<times> u64) outcome" where
  "treasury_deposit is_controller stored now caller args c =
     and_then (ensure_controller is_controller caller) (\<lambda>_.
       if tc_is_paused (ts_config (tk_state c)) then Err TrPaused
       else
         let r = \<lparr>dr_id = 0, dr_deposit_type = da_deposit_type args, dr_asset_type = da_asset_type args,
                  dr_amount = da_amount args, dr_block_index = da_block_index args, dr_timestamp = now,
                  dr_memo = da_memo args\<rparr>;
             (s1, deposit_id) = treasury_add_deposit stored r (tk_state c)
         in Ok (c\<lparr>tk_state := treasury_push_event now caller
                    (TrDeposit (da_deposit_type args) (da_asset_type args) (da_amount args)) s1\<rparr>, deposit_id))"

definition set_stability_pool_reporter ::
    "(principal \<Rightarrow> bool) \<Rightarrow> bool \<Rightarrow> principal \<Rightarrow> principal option \<Rightarrow> treasury_canister
       \<Rightarrow> (treasury_error, treasury_canister) outcome" where
  "set_stability_pool_reporter is_controller stored caller reporter c =
     and_then (ensure_controller is_controller caller) (\<lambda>_.
     and_then (treasury_set_reporter stored reporter (tk_state c)) (\<lambda>s. Ok (c\<lparr>tk_state := s\<rparr>)))"

definition record_stability_pool_unallocated_interest ::
    "bool \<Rightarrow> u64 \<Rightarrow> principal \<Rightarrow> u64 \<Rightarrow> u64 \<Rightarrow> u64 list \<Rightarrow> treasury_canister
       \<Rightarrow> (treasury_error, treasury_canister \<times> u64) outcome" where
  "record_stability_pool_unallocated_interest stored now caller amount transfer_block_index source_mint_blocks c =
     (if tc_is_paused (ts_config (tk_state c)) then Err TrPaused
      else if tc_stability_pool_reporter (ts_config (tk_state c)) \<noteq> Some caller then Err TrNotReporter
      else
        and_then (record_sp_unallocated_interest_once stored amount transfer_block_index source_mint_blocks now (tk_state c))
          (\<lambda>(s1, deposit_id, newly_recorded).
             Ok (c\<lparr>tk_state := (if newly_recorded
                    then treasury_push_event now caller (TrDeposit InterestRevenue ICUSD amount) s1 else s1)\<rparr>,
                 deposit_id)))"

definition set_paused_endpoint ::
    "(principal \<Rightarrow> bool) \<Rightarrow> bool \<Rightarrow> u64 \<Rightarrow> principal \<Rightarrow> bool \<Rightarrow> treasury_canister
       \<Rightarrow> (treasury_error, treasury_canister) outcome" where
  "set_paused_endpoint is_controller stored now caller paused c =
     and_then (ensure_controller is_controller caller) (\<lambda>_.
     and_then (treasury_set_paused stored paused (tk_state c)) (\<lambda>s.
       Ok (c\<lparr>tk_state := treasury_push_event now caller (TrSetPaused paused) s\<rparr>)))"

section \<open>Withdrawals\<close>

record ledger_transfer_arg =
  lt_to :: principal
  lt_amount :: u64
  lt_memo :: "bytes option"
  lt_created_at_time :: "u64 option"

text \<open>What a withdrawal carries across the transfer.\<close>

record pending_withdrawal =
  pw_caller :: principal
  pw_args :: withdraw_args
  pw_fee :: u64
  pw_send_amount :: u64
  pw_request_id :: u64

datatype withdraw_next =
    AskFee principal
  | SendTransfer principal ledger_transfer_arg pending_withdrawal

definition withdrawal_send_amount :: "u64 \<Rightarrow> u64 \<Rightarrow> (treasury_error, u64) outcome" where
  "withdrawal_send_amount amount fee = (if amount \<le> fee then Err (TrAmountBelowFee amount fee) else Ok (amount - fee))"

definition asset_ledger :: "treasury_config \<Rightarrow> asset_type \<Rightarrow> principal option" where
  "asset_ledger config asset =
     (case asset of
        ICUSD \<Rightarrow> Some (tc_icusd_ledger config)
      | ICP \<Rightarrow> Some (tc_icp_ledger config)
      | CKBTC \<Rightarrow> tc_ckbtc_ledger config
      | CKUSDT \<Rightarrow> tc_ckusdt_ledger config
      | CKUSDC \<Rightarrow> tc_ckusdc_ledger config)"

text \<open>The id of a request without one is the hash of the caller, the asset, the amount, the recipient and the minute.\<close>

definition derive_request_id ::
    "(principal \<Rightarrow> asset_type \<Rightarrow> u64 \<Rightarrow> principal \<Rightarrow> u64 \<Rightarrow> u64) \<Rightarrow> u64 \<Rightarrow> principal \<Rightarrow> asset_type \<Rightarrow> u64 \<Rightarrow> principal \<Rightarrow> u64" where
  "derive_request_id hash now caller asset amount to = hash caller asset amount to (now div 60000000000)"

definition treasury_withdraw_send ::
    "(principal \<Rightarrow> asset_type \<Rightarrow> u64 \<Rightarrow> principal \<Rightarrow> u64 \<Rightarrow> u64) \<Rightarrow> bool \<Rightarrow> u64 \<Rightarrow> principal \<Rightarrow> withdraw_args \<Rightarrow> principal \<Rightarrow> u64
       \<Rightarrow> treasury_canister \<Rightarrow> treasury_canister \<times> (treasury_error, withdraw_next) outcome" where
  "treasury_withdraw_send hash stored now caller args ledger fee c =
     (case withdrawal_send_amount (wa_amount args) fee of
        Ok send_amount \<Rightarrow>
          (case treasury_withdraw stored (wa_asset_type args) (wa_amount args) (tk_state c) of
             Ok s1 \<Rightarrow>
               let request_id = (case wa_request_id args of Some r \<Rightarrow> r
                     | None \<Rightarrow> derive_request_id hash now caller (wa_asset_type args) (wa_amount args) (wa_to args));
                   (s2, created_at) = created_at_time_for_request request_id now s1
               in (c\<lparr>tk_state := s2\<rparr>,
                   Ok (SendTransfer ledger
                     \<lparr>lt_to = wa_to args, lt_amount = send_amount,
                      lt_memo = (case wa_memo args of Some m \<Rightarrow> Some (ascii_bytes m) | None \<Rightarrow> Some (be_bytes 8 request_id)),
                      lt_created_at_time = Some created_at\<rparr>
                     \<lparr>pw_caller = caller, pw_args = args, pw_fee = fee, pw_send_amount = send_amount, pw_request_id = request_id\<rparr>))
           | Err e \<Rightarrow> (c, Err e)
           | Trap \<Rightarrow> (c, Trap))
      | Err e \<Rightarrow> (c, Err e)
      | Trap \<Rightarrow> (c, Trap))"

definition treasury_withdraw_begin ::
    "(principal \<Rightarrow> bool) \<Rightarrow> (principal \<Rightarrow> asset_type \<Rightarrow> u64 \<Rightarrow> principal \<Rightarrow> u64 \<Rightarrow> u64) \<Rightarrow> bool \<Rightarrow> u64 \<Rightarrow> principal \<Rightarrow> withdraw_args
       \<Rightarrow> treasury_canister \<Rightarrow> treasury_canister \<times> (treasury_error, withdraw_next) outcome" where
  "treasury_withdraw_begin is_controller hash stored now caller args c =
     (case ensure_controller is_controller caller of
        Ok _ \<Rightarrow>
          (case asset_ledger (ts_config (tk_state c)) (wa_asset_type args) of
             None \<Rightarrow> (c, Err TrLedgerNotConfigured)
           | Some ledger \<Rightarrow>
               (case bm_get (tk_ledger_fees c) ledger of
                  Some fee \<Rightarrow> treasury_withdraw_send hash stored now caller args ledger fee c
                | None \<Rightarrow> (c, Ok (AskFee ledger))))
      | Err e \<Rightarrow> (c, Err e)
      | Trap \<Rightarrow> (c, Trap))"

definition fee_of_reply :: "nat option \<Rightarrow> u64" where
  "fee_of_reply reply =
     (case reply of Some f \<Rightarrow> if f \<le> u64_max then f else default_ledger_fee_e8s | None \<Rightarrow> default_ledger_fee_e8s)"

definition treasury_withdraw_fee ::
    "(principal \<Rightarrow> asset_type \<Rightarrow> u64 \<Rightarrow> principal \<Rightarrow> u64 \<Rightarrow> u64) \<Rightarrow> bool \<Rightarrow> u64 \<Rightarrow> principal \<Rightarrow> withdraw_args \<Rightarrow> principal \<Rightarrow> nat option
       \<Rightarrow> treasury_canister \<Rightarrow> treasury_canister \<times> (treasury_error, withdraw_next) outcome" where
  "treasury_withdraw_fee hash stored now caller args ledger reply c =
     (let fee = fee_of_reply reply in
      treasury_withdraw_send hash stored now caller args ledger fee
        (c\<lparr>tk_ledger_fees := bm_insert ledger fee (tk_ledger_fees c)\<rparr>))"

datatype ledger_error = LedgerDuplicate u64 | LedgerRejected icrc1_error | LedgerTransport

definition call_ledger_transfer :: "(icrc1_error + nat) option \<Rightarrow> (ledger_error, u64) outcome" where
  "call_ledger_transfer reply =
     (case reply of
        None \<Rightarrow> Err LedgerTransport
      | Some (Inl (IcrcDuplicate n)) \<Rightarrow> Err (LedgerDuplicate (if n \<le> u64_max then n else 0))
      | Some (Inl e) \<Rightarrow> Err (LedgerRejected e)
      | Some (Inr n) \<Rightarrow> if n \<le> u64_max then Ok n
                        else Err (LedgerRejected (IcrcGenericError 501 ''Block index too large'')))"

definition stale_timestamp :: "icrc1_error \<Rightarrow> bool" where
  "stale_timestamp e = (case e of IcrcTooOld \<Rightarrow> True | IcrcCreatedInFuture _ \<Rightarrow> True | _ \<Rightarrow> False)"

definition treasury_withdraw_reply ::
    "bool \<Rightarrow> u64 \<Rightarrow> pending_withdrawal \<Rightarrow> (icrc1_error + nat) option \<Rightarrow> treasury_canister
       \<Rightarrow> treasury_canister \<times> (treasury_error, withdraw_result) outcome" where
  "treasury_withdraw_reply stored now w reply c =
     (let args = pw_args w;
          finish = (\<lambda>block. (c\<lparr>tk_state := treasury_push_event now (pw_caller w)
                       (TrWithdraw (wa_asset_type args) (wa_amount args) (wa_to args)) (tk_state c)\<rparr>,
                     Ok \<lparr>wr_block_index = block, wr_amount_transferred = pw_send_amount w, wr_fee = pw_fee w\<rparr>))
      in case call_ledger_transfer reply of
        Ok block \<Rightarrow> finish block
      | Err (LedgerDuplicate block) \<Rightarrow> finish block
      | Err (LedgerRejected e) \<Rightarrow>
          (c\<lparr>tk_state := restore_balance stored (wa_asset_type args) (wa_amount args)
               (if stale_timestamp e then clear_request_created_at (pw_request_id w) (tk_state c) else tk_state c)\<rparr>,
           Err (TrTransferFailed e))
      | Err LedgerTransport \<Rightarrow> (c, Err (TrTransportError (pw_request_id w)))
      | Trap \<Rightarrow> (c, Trap))"

end
