(* ===== verification/Treasury_Machine.thy ===== *)
theory Treasury_Machine
  imports Treasury_Endpoints Rumi_Systems
begin

text \<open>
  The treasury beside the ledgers that hold its funds. A step is a message of the canister, an arrival of tokens at one of its
  accounts, or an upgrade, in any order; a reply of a ledger to a transfer takes what the transfer moved from the account, at
  whatever fee the ledger charges, and a deposit reports whatever its caller says. Beside each account runs its shortfall, an
  auxiliary variable that grows by the fees charged above those withheld and by the tokens reported that had not arrived.
  The invariant \<open>treasury_inv\<close> says that the accounts and the shortfall cover the book.
\<close>

section \<open>The canister and its accounts\<close>

text \<open>\<open>tn_unreported\<close> counts the tokens that arrived and that no deposit has reported yet, \<open>tn_flight\<close> the
  transfers without an answer.\<close>

record treasury_node =
  tn_canister :: treasury_canister
  tn_account :: "asset_type \<Rightarrow> nat"
  tn_unreported :: "asset_type \<Rightarrow> nat"
  tn_flight :: "pending_withdrawal list"
  tn_short :: "asset_type \<Rightarrow> nat"

definition treasury_start :: "treasury_init_args \<Rightarrow> treasury_node" where
  "treasury_start args =
     \<lparr>tn_canister = \<lparr>tk_state = treasury_state_init args, tk_ledger_fees = bm_empty\<rparr>,
      tn_account = (\<lambda>_. 0), tn_unreported = (\<lambda>_. 0), tn_flight = [], tn_short = (\<lambda>_. 0)\<rparr>"

abbreviation pw_asset :: "pending_withdrawal \<Rightarrow> asset_type" where
  "pw_asset w \<equiv> wa_asset_type (pw_args w)"

abbreviation pw_amount :: "pending_withdrawal \<Rightarrow> u64" where
  "pw_amount w \<equiv> wa_amount (pw_args w)"

definition sent_transfers :: "(treasury_error, withdraw_next) outcome \<Rightarrow> pending_withdrawal list" where
  "sent_transfers r = (case r of Ok (SendTransfer _ _ w) \<Rightarrow> [w] | _ \<Rightarrow> [])"

text \<open>Whether a reply means that the transfer took place; after a failed call the ledger may have executed it or not.\<close>

definition executed :: "(icrc1_error + nat) option \<Rightarrow> bool \<Rightarrow> bool" where
  "executed reply lost = (case reply of None \<Rightarrow> lost | Some (Inl _) \<Rightarrow> False | Some (Inr _) \<Rightarrow> True)"

abbreviation ids_room :: "treasury_canister \<Rightarrow> bool" where
  "ids_room c \<equiv> ts_next_deposit_id (tk_state c) < u64_max \<and> ts_next_event_id (tk_state c) < u64_max"

definition asset_total :: "(asset_type, asset_balance) bmap \<Rightarrow> asset_type \<Rightarrow> nat" where
  "asset_total m a = (case bm_get m a of None \<Rightarrow> 0 | Some b \<Rightarrow> ab_total b)"

definition flight_sum :: "asset_type \<Rightarrow> pending_withdrawal list \<Rightarrow> nat" where
  "flight_sum a ws = sum_list (map pw_amount (filter (\<lambda>w. pw_asset w = a) ws))"

text \<open>What the book counts of an asset, in its balance and in flight, fits in 64 bits.\<close>

abbreviation book_fits :: "treasury_node \<Rightarrow> asset_type \<Rightarrow> u64 \<Rightarrow> bool" where
  "book_fits n a x \<equiv> asset_total (ts_balances (tk_state (tn_canister n))) a + flight_sum a (tn_flight n) + x \<le> u64_max"

text \<open>A report of \<open>x\<close> tokens uses up tokens that arrived; what it reports beyond them is missing.\<close>

definition reported :: "asset_type \<Rightarrow> u64 \<Rightarrow> treasury_node \<Rightarrow> treasury_node" where
  "reported a x n = n\<lparr>tn_unreported := (tn_unreported n)(a := tn_unreported n a - x),
     tn_short := (tn_short n)(a := tn_short n a + (x - tn_unreported n a))\<rparr>"

text \<open>A transfer that takes place moves the amount sent and the fee \<open>charged\<close> out of the account, and what is
  charged above the fee that the withdrawal withheld is missing.\<close>

definition paid_out :: "nat \<Rightarrow> pending_withdrawal \<Rightarrow> treasury_node \<Rightarrow> treasury_node" where
  "paid_out charged w n = n\<lparr>tn_account := (tn_account n)(pw_asset w := tn_account n (pw_asset w) - (pw_send_amount w + charged)),
     tn_short := (tn_short n)(pw_asset w := tn_short n (pw_asset w) + (charged - pw_fee w))\<rparr>"

text \<open>The parameters: the controllers and the hasher. The fee a withdrawal withholds is the cached or queried one or the
  fallback, whatever the ledger charges. Stable cells have room; block indices and ids fit in 64 bits; a ledger executes a
  transfer that the account can pay.\<close>

inductive treasury_step ::
    "(principal \<Rightarrow> bool) \<Rightarrow> (principal \<Rightarrow> asset_type \<Rightarrow> u64 \<Rightarrow> principal \<Rightarrow> u64 \<Rightarrow> u64)
       \<Rightarrow> treasury_node \<Rightarrow> treasury_node \<Rightarrow> bool"
  for ctrl :: "principal \<Rightarrow> bool" and hash :: "principal \<Rightarrow> asset_type \<Rightarrow> u64 \<Rightarrow> principal \<Rightarrow> u64 \<Rightarrow> u64" where
  inflow: "treasury_step ctrl hash n (n\<lparr>tn_account := (tn_account n)(a := tn_account n a + x),
                          tn_unreported := (tn_unreported n)(a := tn_unreported n a + x)\<rparr>)"
| deposit: "treasury_deposit ctrl True now caller args (tn_canister n) = Ok (c', i) \<Longrightarrow> ids_room (tn_canister n) \<Longrightarrow>
    book_fits n (da_asset_type args) (da_amount args) \<Longrightarrow>
    treasury_step ctrl hash n ((reported (da_asset_type args) (da_amount args) n)\<lparr>tn_canister := c'\<rparr>)"
| report: "record_stability_pool_unallocated_interest True now caller amount block blocks (tn_canister n) = Ok (c', i) \<Longrightarrow>
    c' \<noteq> tn_canister n \<Longrightarrow> ids_room (tn_canister n) \<Longrightarrow> book_fits n ICUSD amount \<Longrightarrow>
    treasury_step ctrl hash n ((reported ICUSD amount n)\<lparr>tn_canister := c'\<rparr>)"
| reporter: "set_stability_pool_reporter ctrl stored caller p (tn_canister n) = Ok c' \<Longrightarrow>
    treasury_step ctrl hash n (n\<lparr>tn_canister := c'\<rparr>)"
| pause: "set_paused_endpoint ctrl stored now caller b (tn_canister n) = Ok c' \<Longrightarrow> ids_room (tn_canister n) \<Longrightarrow>
    treasury_step ctrl hash n (n\<lparr>tn_canister := c'\<rparr>)"
| withdraw: "treasury_withdraw_begin ctrl hash True now caller wargs (tn_canister n) = (c', r) \<Longrightarrow>
    treasury_step ctrl hash n (n\<lparr>tn_canister := c', tn_flight := sent_transfers r @ tn_flight n\<rparr>)"
| fee: "treasury_withdraw_fee hash True now caller wargs ledger freply (tn_canister n) = (c', r) \<Longrightarrow>
    treasury_step ctrl hash n (n\<lparr>tn_canister := c', tn_flight := sent_transfers r @ tn_flight n\<rparr>)"
| reply: "tn_flight n = xs @ w # ys \<Longrightarrow> ids_room (tn_canister n) \<Longrightarrow>
    (\<And>k. reply = Some (Inr k) \<Longrightarrow> k \<le> u64_max) \<Longrightarrow>
    (executed reply lost \<Longrightarrow> pw_send_amount w + charged \<le> tn_account n (pw_asset w)) \<Longrightarrow>
    treasury_withdraw_reply True now w reply (tn_canister n) = (c', r) \<Longrightarrow>
    treasury_step ctrl hash n ((if executed reply lost then paid_out charged w n else n)\<lparr>tn_canister := c', tn_flight := xs @ ys\<rparr>)"
| upgrade: "treasury_step ctrl hash n (n\<lparr>tn_canister := treasury_post_upgrade (tn_canister n)\<rparr>)"

section \<open>The invariant\<close>

definition balances_ok :: "(asset_type, asset_balance) bmap \<Rightarrow> bool" where
  "balances_ok m \<longleftrightarrow>
     (\<forall>a. \<exists>t \<le> u64_max. bm_get m a = Some \<lparr>ab_total = t, ab_reserved = 0, ab_available = t\<rparr>)"

text \<open>The ids in use are exactly those from 1 up to the next one.\<close>

definition stable_ids_ok :: "(u64, 'v) bmap \<Rightarrow> u64 \<Rightarrow> bool" where
  "stable_ids_ok m n \<longleftrightarrow> 1 \<le> n \<and> n \<le> u64_max \<and> (\<forall>k. bm_has m k \<longleftrightarrow> 1 \<le> k \<and> k < n)"

definition cell_ok :: "treasury_state \<Rightarrow> bool" where
  "cell_ok s \<longleftrightarrow>
     ts_balances_cell s = bm_entries (ts_balances s)
     \<or> ts_balances_cell s = [] \<and> ts_balances s = empty_balances \<and> ts_deposits s = bm_empty"

definition receipts_ok :: "treasury_state \<Rightarrow> bool" where
  "receipts_ok s \<longleftrightarrow> (\<forall>m i. bm_get (ts_sp_blocks s) m = Some i \<longrightarrow>
     (\<exists>r. bm_get (ts_deposits s) i = Some r \<and> dr_deposit_type r = InterestRevenue \<and> dr_asset_type r = ICUSD))"

definition treasury_ok :: "treasury_state \<Rightarrow> bool" where
  "treasury_ok s \<longleftrightarrow> balances_ok (ts_balances s) \<and> cell_ok s \<and> stable_ids_ok (ts_deposits s) (ts_next_deposit_id s)
     \<and> stable_ids_ok (ts_events s) (ts_next_event_id s) \<and> receipts_ok s"

definition accounts_cover :: "treasury_node \<Rightarrow> bool" where
  "accounts_cover n \<longleftrightarrow> (\<forall>a. asset_total (ts_balances (tk_state (tn_canister n))) a + flight_sum a (tn_flight n) + tn_unreported n a
       \<le> tn_account n a + tn_short n a \<and> book_fits n a 0)"

definition splits_fee :: "pending_withdrawal \<Rightarrow> bool" where
  "splits_fee w \<longleftrightarrow> pw_send_amount w + pw_fee w = pw_amount w"

definition treasury_inv :: "treasury_node \<Rightarrow> bool" where
  "treasury_inv n \<longleftrightarrow> treasury_ok (tk_state (tn_canister n)) \<and> accounts_cover n \<and> (\<forall>w \<in> set (tn_flight n). splits_fee w)"

lemma accounts_coverD: "treasury_inv n \<Longrightarrow>
    asset_total (ts_balances (tk_state (tn_canister n))) a + flight_sum a (tn_flight n) + tn_unreported n a \<le> tn_account n a + tn_short n a"
  "treasury_inv n \<Longrightarrow> book_fits n a 0"
  by (simp_all add: treasury_inv_def accounts_cover_def)

section \<open>Balances\<close>

lemma balances_ok_total: "balances_ok m \<Longrightarrow> bm_get m a = Some \<lparr>ab_total = asset_total m a, ab_reserved = 0, ab_available = asset_total m a\<rparr>"
  by (auto simp: balances_ok_def asset_total_def dest: spec [of _ a])

lemma balances_ok_le: "balances_ok m \<Longrightarrow> asset_total m a \<le> u64_max"
  by (auto simp: balances_ok_def asset_total_def dest!: spec [of _ a])

lemma balances_okI:
  "(\<And>a. bm_get m a = Some \<lparr>ab_total = f a, ab_reserved = 0, ab_available = f a\<rparr>) \<Longrightarrow> (\<And>a. f a \<le> u64_max) \<Longrightarrow>
     balances_ok m \<and> (\<forall>a. asset_total m a = f a)"
  by (simp add: balances_ok_def asset_total_def)

lemma credit_balances:
  assumes "balances_ok m" and "asset_total m a + x \<le> u64_max"
  shows "balances_ok (bm_modify a (credit_asset x) m)"
    and "asset_total (bm_modify a (credit_asset x) m) b = asset_total m b + (if b = a then x else 0)"
proof -
  let ?f = "\<lambda>b. asset_total m b + (if b = a then x else 0)"
  have le: "?f b \<le> u64_max" for b using balances_ok_le [OF assms(1), of b] assms(2) by auto
  have "bm_get (bm_modify a (credit_asset x) m) b = Some \<lparr>ab_total = ?f b, ab_reserved = 0, ab_available = ?f b\<rparr>" for b
    using balances_ok_total [OF assms(1), of b] wrap64_id [OF assms(2)] by (cases "b = a") (simp_all add: credit_asset_def)
  from balances_okI [OF this le] show "balances_ok (bm_modify a (credit_asset x) m)"
    and "asset_total (bm_modify a (credit_asset x) m) b = ?f b" by simp_all
qed

lemma debit_balances:
  assumes "balances_ok m" and "x \<le> asset_total m a"
  shows "balances_ok (bm_modify a (debit_asset x) m)"
    and "asset_total (bm_modify a (debit_asset x) m) b = asset_total m b - (if b = a then x else 0)"
proof -
  let ?f = "\<lambda>b. asset_total m b - (if b = a then x else 0)"
  have le: "?f b \<le> u64_max" for b using balances_ok_le [OF assms(1), of b] by simp
  have "asset_total m a + 2 ^ 64 - x = (asset_total m a - x) + 2 ^ 64" using assms(2) by simp
  then have "wrap64 (asset_total m a + 2 ^ 64 - x) = (asset_total m a - x) mod 2 ^ 64"
    by (simp only: wrap64_def mod_add_self2)
  then have "wrap64 (asset_total m a + 2 ^ 64 - x) = asset_total m a - x"
    using balances_ok_le [OF assms(1), of a] by (simp add: u64_max_def)
  then have "bm_get (bm_modify a (debit_asset x) m) b = Some \<lparr>ab_total = ?f b, ab_reserved = 0, ab_available = ?f b\<rparr>" for b
    using balances_ok_total [OF assms(1), of b] by (cases "b = a") (simp_all add: debit_asset_def)
  from balances_okI [OF this le] show "balances_ok (bm_modify a (debit_asset x) m)"
    and "asset_total (bm_modify a (debit_asset x) m) b = ?f b" by simp_all
qed

lemma empty_balances_ok: "balances_ok empty_balances" "asset_total empty_balances a = 0"
proof -
  have "bm_get empty_balances b = Some zero_balance" for b by (cases b) (simp_all add: empty_balances_def)
  then show "balances_ok empty_balances" "asset_total empty_balances a = 0"
    using balances_okI [of empty_balances "\<lambda>_. 0"] by (simp_all add: zero_balance_def)
qed

section \<open>Ids\<close>

lemma stable_ids_ok_insert:
  assumes "stable_ids_ok m n" and "n < u64_max"
  shows "stable_ids_ok (bm_insert n v m) (wrap64 (n + 1))"
proof -
  have "wrap64 (n + 1) = n + 1" using assms(2) by (intro wrap64_id) simp
  with assms show ?thesis by (auto simp: stable_ids_ok_def less_Suc_eq)
qed

lemma stable_ids_ok_fresh: "stable_ids_ok m n \<Longrightarrow> bm_get m n = None"
  by (auto simp: stable_ids_ok_def bm_has_def dest: spec [of _ n])

lemma next_stable_id_ids:
  assumes "stable_ids_ok m n"
  shows "next_stable_id m = n"
proof -
  have keys: "set (bm_keys m) = {1..<n}"
  proof -
    have "k \<in> set (bm_keys m) \<longleftrightarrow> bm_has m k" for k by (simp add: bm_has_def bm_keys_def bm_get_def map_of_eq_None_iff)
    moreover have "bm_has m k \<longleftrightarrow> 1 \<le> k \<and> k < n" for k using assms by (simp add: stable_ids_ok_def)
    ultimately show ?thesis by (simp add: set_eq_iff)
  qed
  have sorted: "sorted_wrt (<) (bm_keys m)" by (simp add: bm_keys_def bm.entries_sorted)
  show ?thesis
  proof (cases "n = 1")
    case True
    with keys show ?thesis by (simp add: next_stable_id_def)
  next
    case False
    with assms keys have ne: "bm_keys m \<noteq> []" and top: "n - 1 \<in> set (bm_keys m)" by (auto simp: stable_ids_ok_def)
    have "k \<le> last ks" if "k \<in> set ks" and "sorted_wrt (<) ks" for k and ks :: "nat list"
      using that by (induction ks) (auto simp: less_imp_le split: if_splits)
    from this [OF top sorted] have "n - 1 \<le> last (bm_keys m)" .
    moreover have "last (bm_keys m) < n" using last_in_set [OF ne] keys by auto
    ultimately have "last (bm_keys m) = n - 1" by simp
    moreover have "wrap64 (n - 1 + 1) = n" "0 < n - 1" using False assms by (simp_all add: stable_ids_ok_def wrap64_id)
    ultimately show ?thesis using ne by (simp only: next_stable_id_def Let_def if_False if_True)
  qed
qed

section \<open>An upgrade restores the state\<close>

lemma get_fold_insert:
  "distinct (map fst es) \<Longrightarrow> bm_get (fold (\<lambda>(k, v). bm_insert k v) es m) k = (case map_of es k of None \<Rightarrow> bm_get m k | Some v \<Rightarrow> Some v)"
proof (induction es arbitrary: m)
  case (Cons e es)
  obtain a b where e: "e = (a, b)" by fastforce
  with Cons.prems have "map_of es a = None" by (simp add: map_of_eq_None_iff)
  with Cons e show ?case by (auto split: option.splits)
qed simp

lemma restored_balances_id:
  assumes "balances_ok (ts_balances s)" and "cell_ok s"
  shows "restored_balances s = ts_balances s"
proof -
  have ne: "bm_entries (ts_balances s) \<noteq> []"
    using balances_ok_total [OF assms(1), of ICP] by (auto simp: bm_get_def)
  have "fold (\<lambda>(k, v). bm_insert k v) (bm_entries (ts_balances s)) empty_balances = ts_balances s"
    by (rule bm_ext) (simp add: get_fold_insert bm.entries_distinct bm.get_entries [symmetric] balances_ok_total [OF assms(1)])
  with assms(2) ne show ?thesis by (auto simp: restored_balances_def cell_ok_def bm_values_def)
qed

lemma restore_state_id: "treasury_ok s \<Longrightarrow> restore_state s = s"
  by (simp add: treasury_ok_def restore_state_def restored_balances_id next_stable_id_ids)

section \<open>Every operation keeps the state in order\<close>

lemma push_event_ok:
  assumes "treasury_ok s" and "ts_next_event_id s < u64_max"
  shows "treasury_ok (treasury_push_event now p act s)"
  using assms stable_ids_ok_insert [of "ts_events s" "ts_next_event_id s"]
  by (simp add: treasury_ok_def treasury_push_event_def Let_def cell_ok_def receipts_ok_def)

lemma treasury_push_same [simp]:
  "ts_balances (treasury_push_event now p act s) = ts_balances s"
  "ts_next_deposit_id (treasury_push_event now p act s) = ts_next_deposit_id s"
  "ts_config (treasury_push_event now p act s) = ts_config s"
  "ts_sp_blocks (treasury_push_event now p act s) = ts_sp_blocks s"
  "ts_deposits (treasury_push_event now p act s) = ts_deposits s"
  by (simp_all add: treasury_push_event_def Let_def)

lemma add_deposit_ok:
  assumes "treasury_ok s" and "ts_next_deposit_id s < u64_max" and "asset_total (ts_balances s) (dr_asset_type r) + dr_amount r \<le> u64_max"
    and "treasury_add_deposit True r s = (s', i)"
  shows "treasury_ok s'"
    and "asset_total (ts_balances s') b = asset_total (ts_balances s) b + (if b = dr_asset_type r then dr_amount r else 0)"
    and "ts_next_event_id s' = ts_next_event_id s" and "i = ts_next_deposit_id s" and "ts_sp_blocks s' = ts_sp_blocks s"
    and "ts_deposits s' = bm_insert i (r\<lparr>dr_id := i\<rparr>) (ts_deposits s)"
proof -
  have bal: "balances_ok (ts_balances s)" and ids: "stable_ids_ok (ts_deposits s) (ts_next_deposit_id s)" and rec: "receipts_ok s"
    using assms(1) by (simp_all add: treasury_ok_def)
  have s': "s' = persist_balances True (s\<lparr>ts_next_deposit_id := wrap64 (ts_next_deposit_id s + 1),
      ts_balances := bm_modify (dr_asset_type r) (credit_asset (dr_amount r)) (ts_balances s),
      ts_deposits := bm_insert i (r\<lparr>dr_id := i\<rparr>) (ts_deposits s)\<rparr>)" and i: "i = ts_next_deposit_id s"
    using assms(4) by (auto simp: treasury_add_deposit_def Let_def)
  note credit = credit_balances [OF bal assms(3)]
  show "treasury_ok s'"
  proof -
    have "receipts_ok s'"
      unfolding receipts_ok_def
    proof (intro allI impI)
      fix m k assume "bm_get (ts_sp_blocks s') m = Some k"
      then have "bm_get (ts_sp_blocks s) m = Some k" by (simp add: s' persist_balances_def)
      with rec obtain q where "bm_get (ts_deposits s) k = Some q" "dr_deposit_type q = InterestRevenue" "dr_asset_type q = ICUSD"
        by (auto simp: receipts_ok_def)
      moreover from this(1) stable_ids_ok_fresh [OF ids] have "k \<noteq> i" by (auto simp: i)
      ultimately show "\<exists>q. bm_get (ts_deposits s') k = Some q \<and> dr_deposit_type q = InterestRevenue \<and> dr_asset_type q = ICUSD"
        by (simp add: s' persist_balances_def)
    qed
    with assms(1) credit(1) stable_ids_ok_insert [OF ids assms(2)] show ?thesis
      by (simp add: treasury_ok_def s' i persist_balances_def cell_ok_def)
  qed
  show "asset_total (ts_balances s') b = asset_total (ts_balances s) b + (if b = dr_asset_type r then dr_amount r else 0)"
    by (simp add: s' persist_balances_def credit(2))
  show "ts_next_event_id s' = ts_next_event_id s" "i = ts_next_deposit_id s" "ts_sp_blocks s' = ts_sp_blocks s"
    "ts_deposits s' = bm_insert i (r\<lparr>dr_id := i\<rparr>) (ts_deposits s)"
    by (simp_all add: s' i persist_balances_def)
qed

lemma get_fold_blocks: "bm_get (fold (\<lambda>b. bm_insert b d) bs m) k = (if k \<in> set bs then Some d else bm_get m k)"
  by (induction bs arbitrary: m) auto

lemma record_once_new:
  assumes "treasury_ok s" and "ts_next_deposit_id s < u64_max" and "asset_total (ts_balances s) ICUSD + amount \<le> u64_max"
    and "record_sp_unallocated_interest_once True amount block blocks now s = Ok (s', i, True)"
  shows "treasury_ok s'"
    and "asset_total (ts_balances s') b = asset_total (ts_balances s) b + (if b = ICUSD then amount else 0)"
    and "ts_next_event_id s' = ts_next_event_id s"
proof -
  obtain s1 where s1: "treasury_add_deposit True (interest_deposit amount block now) s = (s1, i)"
    and s': "s' = s1\<lparr>ts_sp_blocks := fold (\<lambda>b. bm_insert b i) blocks (ts_sp_blocks s1),
                 ts_sp_transfer_blocks := bm_insert block i (ts_sp_transfer_blocks s1)\<rparr>"
    using assms(4) by (auto simp: record_sp_unallocated_interest_once_def Let_def split: if_splits option.splits prod.splits)
  have r: "dr_asset_type (interest_deposit amount block now) = ICUSD" "dr_amount (interest_deposit amount block now) = amount"
    "dr_deposit_type (interest_deposit amount block now) = InterestRevenue" by (simp_all add: interest_deposit_def)
  note add = add_deposit_ok [OF assms(1,2) _ s1, unfolded r, OF assms(3)]
  have "receipts_ok s'" using add(1) by (auto simp: s' receipts_ok_def treasury_ok_def get_fold_blocks add(6) r)
  then show "treasury_ok s'" using add(1) by (simp add: s' treasury_ok_def cell_ok_def)
  show "asset_total (ts_balances s') b = asset_total (ts_balances s) b + (if b = ICUSD then amount else 0)"
    "ts_next_event_id s' = ts_next_event_id s" by (simp_all add: s' add)
qed

lemma record_once_old: "record_sp_unallocated_interest_once st amount block blocks now s = Ok (s', i, False) \<Longrightarrow> s' = s"
  by (auto simp: record_sp_unallocated_interest_once_def Let_def split: if_splits option.splits prod.splits)

lemma set_balances_ok: "treasury_ok s \<Longrightarrow> balances_ok m \<Longrightarrow> treasury_ok (persist_balances True (s\<lparr>ts_balances := m\<rparr>))"
  by (simp add: treasury_ok_def persist_balances_def cell_ok_def receipts_ok_def)

lemma withdraw_book:
  assumes "treasury_ok s" and "treasury_withdraw True a x s = Ok s'"
  shows "treasury_ok s'" and "asset_total (ts_balances s') b + (if b = a then x else 0) = asset_total (ts_balances s) b"
proof -
  have bal: "balances_ok (ts_balances s)" using assms(1) by (simp add: treasury_ok_def)
  note get = balances_ok_total [OF bal, of a]
  have le: "x \<le> asset_total (ts_balances s) a"
    and s': "s' = persist_balances True (s\<lparr>ts_balances := bm_modify a (debit_asset x) (ts_balances s)\<rparr>)"
    using assms(2) get by (auto simp: treasury_withdraw_def bm_modify_def split: if_splits)
  show "treasury_ok s'" unfolding s' by (rule set_balances_ok [OF assms(1) debit_balances(1) [OF bal le]])
  show "asset_total (ts_balances s') b + (if b = a then x else 0) = asset_total (ts_balances s) b"
    using le by (simp add: s' persist_balances_def debit_balances(2) [OF bal le])
qed

lemma restore_book:
  assumes "treasury_ok s" and "asset_total (ts_balances s) a + x \<le> u64_max"
  shows "treasury_ok (restore_balance True a x s)"
    and "asset_total (ts_balances (restore_balance True a x s)) b = asset_total (ts_balances s) b + (if b = a then x else 0)"
proof -
  have bal: "balances_ok (ts_balances s)" using assms(1) by (simp add: treasury_ok_def)
  note credit = credit_balances [OF bal assms(2)]
  show "treasury_ok (restore_balance True a x s)" unfolding restore_balance_def by (rule set_balances_ok [OF assms(1) credit(1)])
  show "asset_total (ts_balances (restore_balance True a x s)) b = asset_total (ts_balances s) b + (if b = a then x else 0)"
    by (simp add: restore_balance_def persist_balances_def credit(2))
qed

lemma created_at_ok [simp]: "treasury_ok (s\<lparr>ts_withdrawal_created_at := m\<rparr>) = treasury_ok s"
  by (simp add: treasury_ok_def cell_ok_def receipts_ok_def)

lemma config_ok [simp]: "treasury_ok (s\<lparr>ts_config := m\<rparr>) = treasury_ok s"
  by (simp add: treasury_ok_def cell_ok_def receipts_ok_def)

section \<open>Withdrawals\<close>

lemma flight_sum_simps [simp]:
  "flight_sum a [] = 0"
  "flight_sum a (w # ws) = (if pw_asset w = a then pw_amount w else 0) + flight_sum a ws"
  "flight_sum a (ws @ vs) = flight_sum a ws + flight_sum a vs"
  by (simp_all add: flight_sum_def)

text \<open>The part up to the transfer either changes no state or moves the amount from the book into flight.\<close>

lemma withdraw_send_books:
  assumes "treasury_ok (tk_state c)" and "treasury_withdraw_send hash True now caller args ledger fee c = (c', r)"
  shows "treasury_ok (tk_state c')"
    and "asset_total (ts_balances (tk_state c')) a + flight_sum a (sent_transfers r) = asset_total (ts_balances (tk_state c)) a"
    and "w \<in> set (sent_transfers r) \<Longrightarrow> pw_send_amount w + pw_fee w = pw_amount w"
proof -
  consider (no) "c' = c" "sent_transfers r = []"
    | (go) s1 m w' where "treasury_withdraw True (wa_asset_type args) (wa_amount args) (tk_state c) = Ok s1"
        "c' = c\<lparr>tk_state := s1\<lparr>ts_withdrawal_created_at := m\<rparr>\<rparr>" "sent_transfers r = [w']" "pw_args w' = args"
        "pw_send_amount w' + pw_fee w' = wa_amount args"
  proof (cases "\<exists>s1. fee < wa_amount args \<and> treasury_withdraw True (wa_asset_type args) (wa_amount args) (tk_state c) = Ok s1")
    case False
    have "c' = c \<and> sent_transfers r = []"
    proof (cases "wa_amount args \<le> fee")
      case True
      with assms(2) show ?thesis by (auto simp: treasury_withdraw_send_def withdrawal_send_amount_def sent_transfers_def)
    next
      case False
      with \<open>\<nexists>s1. fee < wa_amount args \<and> _ s1\<close> assms(2) show ?thesis
        by (cases "treasury_withdraw True (wa_asset_type args) (wa_amount args) (tk_state c)")
           (auto simp: treasury_withdraw_send_def withdrawal_send_amount_def sent_transfers_def)
    qed
    with no show ?thesis by blast
  next
    case True
    then obtain s1 where s1: "fee < wa_amount args" "treasury_withdraw True (wa_asset_type args) (wa_amount args) (tk_state c) = Ok s1" by blast
    have time: "\<exists>m v. created_at_time_for_request q now s1 = (s1\<lparr>ts_withdrawal_created_at := m\<rparr>, v)" for q
      by (auto simp: created_at_time_for_request_def Let_def split: option.split)
    define q where "q = (case wa_request_id args of Some r \<Rightarrow> r
        | None \<Rightarrow> derive_request_id hash now caller (wa_asset_type args) (wa_amount args) (wa_to args))"
    obtain m v where "created_at_time_for_request q now s1 = (s1\<lparr>ts_withdrawal_created_at := m\<rparr>, v)" using time by blast
    with s1 assms(2) show ?thesis
      by (intro go [of s1 m "\<lparr>pw_caller = caller, pw_args = args, pw_fee = fee, pw_send_amount = wa_amount args - fee, pw_request_id = q\<rparr>"])
         (auto simp: treasury_withdraw_send_def withdrawal_send_amount_def sent_transfers_def q_def Let_def)
  qed
  then have "treasury_ok (tk_state c')
    \<and> asset_total (ts_balances (tk_state c')) a + flight_sum a (sent_transfers r) = asset_total (ts_balances (tk_state c)) a
    \<and> (w \<in> set (sent_transfers r) \<longrightarrow> pw_send_amount w + pw_fee w = pw_amount w)"
  proof cases
    case no
    with assms(1) show ?thesis by simp
  next
    case go
    from withdraw_book(1) [OF assms(1) go(1)] withdraw_book(2) [OF assms(1) go(1), of a] show ?thesis
      by (auto simp: go split: if_splits)
  qed
  then show "treasury_ok (tk_state c')"
    "asset_total (ts_balances (tk_state c')) a + flight_sum a (sent_transfers r) = asset_total (ts_balances (tk_state c)) a"
    "w \<in> set (sent_transfers r) \<Longrightarrow> pw_send_amount w + pw_fee w = pw_amount w" by blast+
qed

lemma withdraw_begin_cases:
  assumes "treasury_withdraw_begin ctrl hash stored now caller args c = (c', r)"
  shows "c' = c \<and> sent_transfers r = [] \<or> (\<exists>ledger fee. treasury_withdraw_send hash stored now caller args ledger fee c = (c', r))"
  using assms by (auto simp: treasury_withdraw_begin_def sent_transfers_def split: outcome.splits option.splits)

text \<open>A withdrawal that is sent keeps every account covered.\<close>

lemma withdraw_sent_inv:
  assumes "treasury_inv n" and "treasury_withdraw_send hash True now caller args ledger fee c = (c', r)"
    and "tk_state c = tk_state (tn_canister n)"
  shows "treasury_inv (n\<lparr>tn_canister := c', tn_flight := sent_transfers r @ tn_flight n\<rparr>)"
proof -
  have ok: "treasury_ok (tk_state c)" using assms(1,3) by (simp add: treasury_inv_def)
  note send = withdraw_send_books [OF ok assms(2)]
  have "asset_total (ts_balances (tk_state c')) a + (flight_sum a (sent_transfers r) + flight_sum a (tn_flight n)) + tn_unreported n a
      \<le> tn_account n a + tn_short n a"
    and "asset_total (ts_balances (tk_state c')) a + (flight_sum a (sent_transfers r) + flight_sum a (tn_flight n)) \<le> u64_max" for a
    using send(2) [of a] accounts_coverD [OF assms(1), of a] unfolding assms(3) by linarith+
  moreover have "\<forall>w \<in> set (tn_flight n). splits_fee w" using assms(1) by (simp add: treasury_inv_def)
  ultimately show ?thesis
    using send(1,3) by (simp add: treasury_inv_def accounts_cover_def splits_fee_def ball_Un)
qed

text \<open>The reply: the book keeps the amount out unless the ledger refused, and then gets it back.\<close>

lemma withdraw_reply_cases:
  assumes "treasury_withdraw_reply True now w reply c = (c', r)" and "\<And>k. reply = Some (Inr k) \<Longrightarrow> k \<le> u64_max"
  shows "(\<exists>act. tk_state c' = treasury_push_event now (pw_caller w) act (tk_state c)) \<or> tk_state c' = tk_state c
     \<or> \<not> executed reply lost \<and> (\<exists>m. tk_state c' = restore_balance True (pw_asset w) (pw_amount w) (tk_state c\<lparr>ts_withdrawal_created_at := m\<rparr>))"
proof (cases reply)
  case None
  with assms(1) show ?thesis by (auto simp: treasury_withdraw_reply_def call_ledger_transfer_def)
next
  case (Some x)
  show ?thesis
  proof (cases x)
    case (Inr k)
    with Some assms show ?thesis by (auto simp: treasury_withdraw_reply_def call_ledger_transfer_def Let_def)
  next
    case (Inl e)
    have "\<exists>m. (if stale_timestamp e then clear_request_created_at (pw_request_id w) (tk_state c) else tk_state c)
        = (tk_state c)\<lparr>ts_withdrawal_created_at := m\<rparr>"
      by (cases "stale_timestamp e") (auto simp: clear_request_created_at_def intro: exI [of _ "ts_withdrawal_created_at (tk_state c)"])
    with Some Inl assms(1) show ?thesis
      by (cases e) (auto simp: treasury_withdraw_reply_def call_ledger_transfer_def executed_def Let_def)
  qed
qed

lemma treasury_reply_inv:
  assumes "treasury_inv n" and "tn_flight n = xs @ w # ys" and "ids_room (tn_canister n)"
    and "\<And>k. reply = Some (Inr k) \<Longrightarrow> k \<le> u64_max"
    and "executed reply lost \<Longrightarrow> pw_send_amount w + charged \<le> tn_account n (pw_asset w)"
    and "treasury_withdraw_reply True now w reply (tn_canister n) = (c', r)"
  shows "treasury_inv ((if executed reply lost then paid_out charged w n else n)\<lparr>tn_canister := c', tn_flight := xs @ ys\<rparr>)"
    (is "treasury_inv ?m")
proof -
  let ?s = "tk_state (tn_canister n)" and ?a = "pw_asset w"
  let ?T = "asset_total (ts_balances ?s)" and ?T' = "asset_total (ts_balances (tk_state c'))"
  have ok: "treasury_ok ?s" using assms(1) by (simp add: treasury_inv_def)
  have split: "splits_fee v" if "v \<in> set (xs @ w # ys)" for v using assms(1,2) that by (auto simp: treasury_inv_def)
  have bkd: "?T a + flight_sum a (xs @ w # ys) + tn_unreported n a \<le> tn_account n a + tn_short n a"
    "?T a + flight_sum a (xs @ w # ys) \<le> u64_max" for a
    using assms(1,2) by (simp_all add: treasury_inv_def accounts_cover_def)
  have room: "?T ?a + pw_amount w \<le> u64_max" using bkd(2) [of ?a] by simp
  have book: "treasury_ok (tk_state c') \<and> (\<forall>a. ?T' a = ?T a \<or> \<not> executed reply lost \<and> ?T' a = ?T a + (if a = ?a then pw_amount w else 0))"
    using withdraw_reply_cases [OF assms(6,4), of lost] push_event_ok [OF ok] ok assms(3)
      restore_book [of "?s\<lparr>ts_withdrawal_created_at := m\<rparr>" ?a "pw_amount w" for m] room
    by auto
  have "?T' a + flight_sum a (xs @ ys) + tn_unreported n a \<le> tn_account ?m a + tn_short ?m a \<and> ?T' a + flight_sum a (xs @ ys) \<le> u64_max" for a
    using bkd [of a] assms(5) split [of w] book [THEN conjunct2, THEN spec [of _ a]]
    by (cases "a = ?a") (auto simp: paid_out_def splits_fee_def split: if_splits)
  moreover have "tn_unreported ?m = tn_unreported n" by (simp add: paid_out_def)
  ultimately show ?thesis using split book by (simp add: treasury_inv_def accounts_cover_def)
qed

section \<open>The invariant of the machine\<close>

text \<open>A report: the book takes what the unreported tokens lose and the shortfall gains.\<close>

lemma credited_inv:
  assumes "treasury_inv n" and "treasury_ok (tk_state c')" and "book_fits n a x"
    and "\<And>b. asset_total (ts_balances (tk_state c')) b = asset_total (ts_balances (tk_state (tn_canister n))) b + (if b = a then x else 0)"
  shows "treasury_inv ((reported a x n)\<lparr>tn_canister := c'\<rparr>)"
proof -
  let ?m = "(reported a x n)\<lparr>tn_canister := c'\<rparr>"
  have "asset_total (ts_balances (tk_state c')) b + flight_sum b (tn_flight n) + tn_unreported ?m b \<le> tn_account n b + tn_short ?m b
      \<and> asset_total (ts_balances (tk_state c')) b + flight_sum b (tn_flight n) \<le> u64_max" for b
    using accounts_coverD [OF assms(1), of b] assms(3,4) by (auto simp: reported_def)
  with assms(1,2) show ?thesis by (simp add: treasury_inv_def accounts_cover_def reported_def)
qed

lemma treasury_start_inv: "treasury_inv (treasury_start args)"
  by (simp add: treasury_inv_def treasury_start_def treasury_state_init_def treasury_ok_def empty_balances_ok cell_ok_def stable_ids_ok_def
      receipts_ok_def accounts_cover_def u64_max_def flight_sum_def)

lemma treasury_step_inv:
  assumes "treasury_step ctrl hash n n'" and "treasury_inv n"
  shows "treasury_inv n'"
  using assms(1)
proof cases
  case (inflow a x)
  have "asset_total (ts_balances (tk_state (tn_canister n))) b + flight_sum b (tn_flight n)
      + ((tn_unreported n)(a := tn_unreported n a + x)) b \<le> ((tn_account n)(a := tn_account n a + x)) b + tn_short n b" for b
    using accounts_coverD(1) [OF assms(2), of b] by (cases "b = a") simp_all
  with assms(2) inflow show ?thesis by (simp add: treasury_inv_def accounts_cover_def)
next
  case (deposit now caller args c' i)
  have ok: "treasury_ok (tk_state (tn_canister n))" using assms(2) by (simp add: treasury_inv_def)
  define r where "r = \<lparr>dr_id = 0, dr_deposit_type = da_deposit_type args, dr_asset_type = da_asset_type args, dr_amount = da_amount args,
    dr_block_index = da_block_index args, dr_timestamp = now, dr_memo = da_memo args\<rparr>"
  have r: "dr_asset_type r = da_asset_type args" "dr_amount r = da_amount args" by (simp_all add: r_def)
  obtain s1 act where s1: "treasury_add_deposit True r (tk_state (tn_canister n)) = (s1, i)" and c': "tk_state c' = treasury_push_event now caller act s1"
    using deposit(2) by (auto simp: treasury_deposit_def and_then_Ok_iff Let_def r_def split: if_splits prod.splits)
  note add = add_deposit_ok [OF ok _ _ s1, unfolded r, OF conjunct1 [OF deposit(3)]]
  show ?thesis unfolding deposit(1)
    by (rule credited_inv [OF assms(2) _ deposit(4)]) (use add deposit(3,4) in \<open>auto simp: c' intro: push_event_ok\<close>)
next
  case (report now caller amount block blocks c' i)
  have ok: "treasury_ok (tk_state (tn_canister n))" using assms(2) by (simp add: treasury_inv_def)
  obtain s1 b where once: "record_sp_unallocated_interest_once True amount block blocks now (tk_state (tn_canister n)) = Ok (s1, i, b)"
    and c': "c' = (tn_canister n)\<lparr>tk_state := (if b then treasury_push_event now caller (TrDeposit InterestRevenue ICUSD amount) s1 else s1)\<rparr>"
    using report(2) by (auto simp: record_stability_pool_unallocated_interest_def and_then_Ok_iff split: if_splits)
  have b using report(3) c' record_once_old [of True amount block blocks now "tk_state (tn_canister n)" s1 i] once by (cases b) auto
  with once have once: "record_sp_unallocated_interest_once True amount block blocks now (tk_state (tn_canister n)) = Ok (s1, i, True)" by simp
  note new = record_once_new [OF ok conjunct1 [OF report(4)] _ once]
  show ?thesis unfolding report(1)
    by (rule credited_inv [OF assms(2) _ report(5)]) (use new report(4,5) \<open>b\<close> in \<open>auto simp: c' intro: push_event_ok\<close>)
next
  case (reporter stored caller p c')
  then show ?thesis using assms(2)
    by (auto simp: set_stability_pool_reporter_def treasury_set_reporter_def and_then_Ok_iff treasury_inv_def accounts_cover_def split: if_splits)
next
  case (pause stored now caller b c')
  then show ?thesis using assms(2)
    by (auto simp: set_paused_endpoint_def treasury_set_paused_def and_then_Ok_iff treasury_inv_def accounts_cover_def push_event_ok split: if_splits)
next
  case (withdraw now caller wargs c' r)
  from withdraw_begin_cases [OF withdraw(2)] show ?thesis
  proof
    assume "c' = tn_canister n \<and> sent_transfers r = []"
    with withdraw(1) assms(2) show ?thesis by simp
  next
    assume "\<exists>ledger fee. treasury_withdraw_send hash True now caller wargs ledger fee (tn_canister n) = (c', r)"
    with withdraw(1) assms(2) show ?thesis by (auto intro: withdraw_sent_inv)
  qed
next
  case (fee now caller wargs ledger freply c' r)
  then show ?thesis using assms(2) by (auto simp: treasury_withdraw_fee_def Let_def intro: withdraw_sent_inv)
next
  case (reply xs w ys reply lost charged now c' r)
  show ?thesis unfolding reply(1) by (rule treasury_reply_inv [OF assms(2) reply(2-6)])
next
  case upgrade
  then show ?thesis using assms(2) by (simp add: treasury_post_upgrade_def treasury_inv_def accounts_cover_def restore_state_id)
qed

interpretation treasury_node: invariant_system "treasury_start args" "treasury_step ctrl hash" treasury_inv
  for args ctrl hash
  by unfold_locales (auto simp: treasury_start_inv intro: treasury_step_inv)

end
