(* ===== verification/Treasury_Guarantees.thy ===== *)
theory Treasury_Guarantees
  imports Treasury_Machine Sp_Guarantees
begin

text \<open>
  What the treasury guarantees, alone and together with the stability pool that forwards interest to it, and two ways in which
  its book and its accounts part: a retried withdrawal and a fee query that fails.
\<close>

section \<open>A sample treasury\<close>

definition sample_treasury_args :: treasury_init_args where
  "sample_treasury_args = \<lparr>ia_controller = 1, ia_icusd_ledger = 3, ia_icp_ledger = 5, ia_ckbtc_ledger = None,
     ia_ckusdt_ledger = None, ia_ckusdc_ledger = None\<rparr>"

definition sample_hash :: "principal \<Rightarrow> asset_type \<Rightarrow> u64 \<Rightarrow> principal \<Rightarrow> u64 \<Rightarrow> u64" where
  "sample_hash p a x to bucket = bucket"

abbreviation sample_step :: "treasury_node \<Rightarrow> treasury_node \<Rightarrow> bool" where
  "sample_step \<equiv> treasury_step (\<lambda>p. p = 1) sample_hash"

text \<open>Five million of icUSD arrive and are reported.\<close>

definition sample_deposit :: deposit_args where
  "sample_deposit = \<lparr>da_deposit_type = BorrowingFee, da_asset_type = ICUSD, da_amount = 5000000, da_block_index = 9, da_memo = None\<rparr>"

definition sample_treasury :: treasury_canister where
  "sample_treasury =
     (case treasury_deposit (\<lambda>p. p = 1) True 20 1 sample_deposit (tn_canister (treasury_start sample_treasury_args)) of
        Ok (c, _) \<Rightarrow> c | _ \<Rightarrow> tn_canister (treasury_start sample_treasury_args))"

definition sample_treasury_node :: treasury_node where
  "sample_treasury_node = \<lparr>tn_canister = sample_treasury, tn_account = (\<lambda>_. 0)(ICUSD := 5000000), tn_unreported = (\<lambda>_. 0), tn_flight = [],
     tn_short = (\<lambda>_. 0)\<rparr>"

lemmas sample_treasury_defs = sample_treasury_def sample_deposit_def treasury_deposit_def ensure_controller_def treasury_start_def
  treasury_state_init_def sample_treasury_args_def treasury_add_deposit_def persist_balances_def treasury_push_event_def

lemma sample_treasury_config:
  "tc_is_paused (ts_config (tk_state sample_treasury)) = False" "tc_icusd_ledger (ts_config (tk_state sample_treasury)) = 3"
  "tk_ledger_fees sample_treasury = bm_empty" "ts_withdrawal_created_at (tk_state sample_treasury) = bm_empty"
  by (simp_all add: sample_treasury_defs Let_def)

lemma sample_treasury_ids: "ts_next_deposit_id (tk_state sample_treasury) = 2" "ts_next_event_id (tk_state sample_treasury) = 2"
  by (simp_all add: sample_treasury_defs Let_def wrap64_def)

lemma sample_treasury_reachable: "sample_step\<^sup>*\<^sup>* (treasury_start sample_treasury_args) sample_treasury_node"
proof -
  let ?n0 = "treasury_start sample_treasury_args"
  let ?n1 = "?n0\<lparr>tn_account := (tn_account ?n0)(ICUSD := tn_account ?n0 ICUSD + 5000000),
                 tn_unreported := (tn_unreported ?n0)(ICUSD := tn_unreported ?n0 ICUSD + 5000000)\<rparr>"
  have "sample_step ?n0 ?n1" by (rule treasury_step.inflow)
  moreover have dep: "treasury_deposit (\<lambda>p. p = 1) True 20 1 sample_deposit (tn_canister ?n1) = Ok (sample_treasury, 1)"
    by (simp add: sample_treasury_defs Let_def)
  have "sample_step ?n1 ((reported (da_asset_type sample_deposit) (da_amount sample_deposit) ?n1)\<lparr>tn_canister := sample_treasury\<rparr>)"
    by (rule treasury_step.deposit [OF dep])
      (simp_all add: treasury_start_def treasury_state_init_def sample_deposit_def empty_balances_ok u64_max_def)
  moreover have "(reported (da_asset_type sample_deposit) (da_amount sample_deposit) ?n1)\<lparr>tn_canister := sample_treasury\<rparr> = sample_treasury_node"
    by (simp add: sample_treasury_node_def reported_def treasury_start_def sample_deposit_def fun_eq_iff)
  ultimately show ?thesis by (metis (no_types, lifting) r_into_rtranclp rtranclp.rtrancl_into_rtrancl)
qed

lemma sample_treasury_ok: "treasury_ok (tk_state sample_treasury)"
  using treasury_node.reachable_inv [OF sample_treasury_reachable] by (simp add: treasury_inv_def sample_treasury_node_def)

lemma sample_treasury_total: "asset_total (ts_balances (tk_state sample_treasury)) ICUSD = 5000000"
  by (simp add: sample_treasury_defs Let_def asset_total_def empty_balances_def zero_balance_def credit_asset_def wrap64_def)

section \<open>The accounts cover the book\<close>

text \<open>C34. In every state the treasury can reach, with deposits, reports, withdrawals, failed and lost transfers and upgrades in any
  order, at any fees and with any reports, as long as ids, block indices and book fit in 64 bits and stable cells have room, each asset's book balance is fully available, and together with the transfers in flight and the
  arrivals that no deposit has reported it is at most what the ledger account holds and its shortfall. The shortfall is
  what ledgers charged above the fees that the withdrawals withheld and what was reported without having arrived: where there was neither, the
  account covers the book.\<close>

theorem treasury_solvent:
  assumes "(treasury_step ctrl hash)\<^sup>*\<^sup>* (treasury_start args) n"
  shows "\<exists>b. bm_get (ts_balances (tk_state (tn_canister n))) a = Some b \<and> ab_available b = ab_total b \<and> ab_reserved b = 0
    \<and> ab_total b + flight_sum a (tn_flight n) + tn_unreported n a \<le> tn_account n a + tn_short n a
    \<and> ab_total b + flight_sum a (tn_flight n) \<le> u64_max"
proof -
  have inv: "treasury_inv n" using treasury_node.reachable_inv [OF assms] .
  then have "balances_ok (ts_balances (tk_state (tn_canister n)))" by (simp add: treasury_inv_def treasury_ok_def)
  from balances_ok_total [OF this, of a] accounts_coverD [OF inv, of a] show ?thesis by simp
qed

section \<open>An upgrade\<close>

text \<open>C36. An upgrade in any reachable state gives back the very state the canister had, balances, receipts and the next ids
  included: what is computed again from stable memory is what was on the heap. Only the cache of ledger fees is dropped.\<close>

theorem treasury_upgrade_identity:
  assumes "(treasury_step ctrl hash)\<^sup>*\<^sup>* (treasury_start args) n"
  shows "treasury_post_upgrade (tn_canister n) = (tn_canister n)\<lparr>tk_ledger_fees := bm_empty\<rparr>"
proof -
  have "restore_state (tk_state (tn_canister n)) = tk_state (tn_canister n)"
    using treasury_node.reachable_inv [OF assms] by (simp add: treasury_inv_def restore_state_id)
  then show ?thesis by (simp add: treasury_post_upgrade_def)
qed

theorem treasury_upgrade_identity_witness: "treasury_post_upgrade sample_treasury = sample_treasury"
  using treasury_upgrade_identity [OF sample_treasury_reachable] by (simp add: sample_treasury_node_def sample_treasury_config(3))

section \<open>Interest of the stability pool\<close>

lemma record_once_blocks:
  assumes "record_sp_unallocated_interest_once st amount block blocks now s = Ok (s', i, b)"
  shows "blocks \<noteq> []" and "m \<in> set blocks \<Longrightarrow> bm_get (ts_sp_blocks s') m = Some i"
    and "bm_get (ts_sp_blocks s) k = Some j \<Longrightarrow> bm_get (ts_sp_blocks s') k = Some j"
proof -
  let ?ex = "List.map_filter (bm_get (ts_sp_blocks s)) blocks"
  show "blocks \<noteq> []" using assms by (auto simp: record_sp_unallocated_interest_once_def)
  have none: "?ex = [] \<longleftrightarrow> (\<forall>m \<in> set blocks. bm_get (ts_sp_blocks s) m = None)"
    by (auto simp: List.map_filter_def filter_empty_conv)
  have "(m \<in> set blocks \<longrightarrow> bm_get (ts_sp_blocks s') m = Some i) \<and> (bm_get (ts_sp_blocks s) k = Some j \<longrightarrow> bm_get (ts_sp_blocks s') k = Some j)"
  proof (cases "?ex = []")
    case True
    then have "ts_sp_blocks s' = fold (\<lambda>b. bm_insert b i) blocks (ts_sp_blocks s)"
      using assms by (auto simp: record_sp_unallocated_interest_once_def Let_def treasury_add_deposit_def persist_balances_def
          split: if_splits option.splits)
    with True none show ?thesis by (auto simp: get_fold_blocks)
  next
    case False
    then have s': "s' = s" and len: "length ?ex = length blocks" and same: "\<forall>x \<in> set ?ex. x = i"
      using assms by (auto simp: record_sp_unallocated_interest_once_def Let_def list_all_iff split: if_splits)
    have "bm_get (ts_sp_blocks s) m = Some i" if "m \<in> set blocks"
    proof -
      have "length (filter (\<lambda>x. bm_get (ts_sp_blocks s) x \<noteq> None) blocks) = length blocks"
        using len by (simp add: List.map_filter_def comp_def)
      then have "bm_get (ts_sp_blocks s) m \<noteq> None"
        using length_filter_less [OF that, of "\<lambda>x. bm_get (ts_sp_blocks s) x \<noteq> None"] by linarith
      then obtain x where x: "bm_get (ts_sp_blocks s) m = Some x" by blast
      then have "x \<in> set ?ex" using that by (force simp: List.map_filter_def)
      with same x show ?thesis by simp
    qed
    with s' show ?thesis by simp
  qed
  then show "m \<in> set blocks \<Longrightarrow> bm_get (ts_sp_blocks s') m = Some i"
    "bm_get (ts_sp_blocks s) k = Some j \<Longrightarrow> bm_get (ts_sp_blocks s') k = Some j" by blast+
qed

lemma recorded_again:
  assumes "blocks \<noteq> []" and "\<And>m. m \<in> set blocks \<Longrightarrow> bm_get (ts_sp_blocks s) m = Some i"
  shows "record_sp_unallocated_interest_once st amount block blocks now s = Ok (s, i, False)"
proof -
  have "List.map_filter (bm_get (ts_sp_blocks s)) blocks = map (\<lambda>_. i) blocks"
    using assms(2) by (induction blocks) (simp_all add: List.map_filter_def)
  with assms(1) show ?thesis by (cases blocks) (simp_all add: record_sp_unallocated_interest_once_def list_all_iff)
qed

text \<open>A receipt is never lost or moved to another deposit.\<close>

lemma withdraw_send_receipts:
  assumes "treasury_withdraw_send hash st now caller args ledger fee c = (c', r)"
  shows "ts_sp_blocks (tk_state c') = ts_sp_blocks (tk_state c)"
  using assms by (auto simp: treasury_withdraw_send_def treasury_withdraw_def created_at_time_for_request_def persist_balances_def Let_def
      split: outcome.splits if_splits option.splits prod.splits)

lemma withdraw_reply_receipts:
  assumes "treasury_withdraw_reply st now w reply c = (c', r)"
  shows "ts_sp_blocks (tk_state c') = ts_sp_blocks (tk_state c)"
  using assms by (auto simp: treasury_withdraw_reply_def restore_balance_def persist_balances_def clear_request_created_at_def Let_def
      split: outcome.splits ledger_error.splits if_splits)

lemma step_keeps_receipts:
  assumes "treasury_step ctrl hash n n'" and "bm_get (ts_sp_blocks (tk_state (tn_canister n))) m = Some i"
  shows "bm_get (ts_sp_blocks (tk_state (tn_canister n'))) m = Some i"
  using assms
proof cases
  case (report now caller amount block blocks c' j)
  then obtain s1 b where "record_sp_unallocated_interest_once True amount block blocks now (tk_state (tn_canister n)) = Ok (s1, j, b)"
    and c': "ts_sp_blocks (tk_state c') = ts_sp_blocks s1"
    by (auto simp: record_stability_pool_unallocated_interest_def and_then_Ok_iff split: if_splits)
  from record_once_blocks(3) [OF this(1) assms(2)] show ?thesis by (simp add: report c')
next
  case (withdraw now caller wargs c' r)
  then show ?thesis using assms(2) withdraw_begin_cases [OF withdraw(2)] withdraw_send_receipts by fastforce
next
  case (fee now caller wargs ledger freply c' r)
  then show ?thesis using assms(2) by (auto simp: treasury_withdraw_fee_def Let_def dest: withdraw_send_receipts)
next
  case (reply xs w ys reply lost charged now c' r)
  then show ?thesis using assms(2) by (auto dest: withdraw_reply_receipts)
qed (auto simp: treasury_deposit_def treasury_add_deposit_def persist_balances_def set_stability_pool_reporter_def treasury_set_reporter_def
      set_paused_endpoint_def treasury_set_paused_def treasury_post_upgrade_def restore_state_def and_then_Ok_iff Let_def split: if_splits)

lemma run_keeps_receipts:
  "(treasury_step ctrl hash)\<^sup>*\<^sup>* n n' \<Longrightarrow> bm_get (ts_sp_blocks (tk_state (tn_canister n))) m = Some i \<Longrightarrow>
     bm_get (ts_sp_blocks (tk_state (tn_canister n'))) m = Some i"
  by (induction rule: rtranclp_induct) (auto intro: step_keeps_receipts)

text \<open>C35. Interest that the stability pool forwards is credited once, even when the treasury's answer is lost: the pool keeps the batch and sends
  the same report again; the treasury, whatever it did in between, upgrades included, answers with the deposit it made
  then and changes nothing; and the pool marks the batch as recorded.\<close>

theorem forward_credited_once:
  assumes "process_forward_begin b c = Ok (c1, ForwardRecord treasury net block blocks)"
    and "record_stability_pool_unallocated_interest st now pool net block blocks (tn_canister n) = Ok (k, i)"
    and "(treasury_step ctrl hash)\<^sup>*\<^sup>* (n\<lparr>tn_canister := k, tn_unreported := u, tn_short := v\<rparr>) n'"
    and "\<not> tc_is_paused (ts_config (tk_state (tn_canister n')))"
    and "tc_stability_pool_reporter (ts_config (tk_state (tn_canister n'))) = Some pool"
  shows "\<exists>c2 e c3. process_forward_record b treasury CallFailed c1 = (c2, Err e)
    \<and> process_forward_begin b c2 = Ok (c1, ForwardRecord treasury net block blocks)
    \<and> record_stability_pool_unallocated_interest st' later pool net block blocks (tn_canister n') = Ok (tn_canister n', i)
    \<and> process_forward_record b treasury (Replied (Inr i)) c1 = (c3, Ok ())
    \<and> map_option ub_treasury_recorded (bm_get (batches (spc_state c3)) b) = Some True"
proof -
  have idle: "\<not> spc_forward_active c" and c1: "c1 = c\<lparr>spc_forward_active := True\<rparr>"
    and batch: "bm_get (batches (spc_state c)) b \<noteq> None"
    using assms(1) by (auto simp: process_forward_begin_def forward_guard_new_def and_then_Ok_iff split: if_splits option.splits)
  have "forward_guard_drop c1 = c" using idle by (simp add: forward_guard_drop_def c1)
  then have fail: "process_forward_record b treasury CallFailed c1
      = (c, Err (InterCanisterCallFailed (Canister treasury) ''record_stability_pool_unallocated_interest''))"
    by (simp add: process_forward_record_def)
  obtain s1 nw where once: "record_sp_unallocated_interest_once st net block blocks now (tk_state (tn_canister n)) = Ok (s1, i, nw)"
    and k: "ts_sp_blocks (tk_state k) = ts_sp_blocks s1"
    using assms(2) by (auto simp: record_stability_pool_unallocated_interest_def and_then_Ok_iff split: if_splits)
  have "bm_get (ts_sp_blocks (tk_state (tn_canister n'))) m = Some i" if "m \<in> set blocks" for m
    by (rule run_keeps_receipts [OF assms(3)]) (simp add: k record_once_blocks(2) [OF once that])
  then have "record_sp_unallocated_interest_once st' net block blocks later (tk_state (tn_canister n')) = Ok (tk_state (tn_canister n'), i, False)"
    by (rule recorded_again [OF record_once_blocks(1) [OF once]])
  with assms(4,5) have again: "record_stability_pool_unallocated_interest st' later pool net block blocks (tn_canister n') = Ok (tn_canister n', i)"
    by (simp add: record_stability_pool_unallocated_interest_def)
  have "map_option ub_treasury_recorded (bm_get (batches (spc_state (forward_guard_drop (upd (mark_unallocated_interest_forward_recorded b) c1)))) b) = Some True"
    using batch by (cases "sps_unallocated_batches (spc_state c)")
      (auto simp: forward_guard_drop_def c1 mark_unallocated_interest_forward_recorded_def modify_batch_def batches_def)
  with fail again assms(1) show ?thesis by (auto simp: process_forward_record_def)
qed

definition sample_batch :: unallocated_interest_forward_batch where
  "sample_batch = \<lparr>ub_id = 0, ub_source_mint_blocks = [41, 42], ub_token_ledger = 3, ub_treasury = Some 12, ub_gross_amount = 700000,
     ub_fee = Some 100000, ub_transfer_created_at_ns = Some 5, ub_transfer_block_index = Some 77, ub_treasury_recorded = False,
     ub_created_at_ns = 4, ub_last_error = None\<rparr>"

theorem forward_credited_once_witness:
  "let c = sp_sample_empty\<lparr>spc_state := (spc_state sp_sample_empty)\<lparr>sps_unallocated_batches := Some (bm_insert 0 sample_batch bm_empty)\<rparr>\<rparr>;
       t = sample_treasury\<lparr>tk_state := (tk_state sample_treasury)\<lparr>ts_config := (ts_config (tk_state sample_treasury))\<lparr>tc_stability_pool_reporter := Some 6\<rparr>\<rparr>\<rparr>
   in \<exists>c1 k c2 e. process_forward_begin 0 c = Ok (c1, ForwardRecord 12 600000 77 [41, 42])
     \<and> record_stability_pool_unallocated_interest True 30 6 600000 77 [41, 42] t = Ok (k, 2)
     \<and> process_forward_record 0 12 CallFailed c1 = (c2, Err e)
     \<and> record_stability_pool_unallocated_interest True 31 6 600000 77 [41, 42] (treasury_post_upgrade k) = Ok (treasury_post_upgrade k, 2)"
proof -
  let ?c = "sp_sample_empty\<lparr>spc_state := (spc_state sp_sample_empty)\<lparr>sps_unallocated_batches := Some (bm_insert 0 sample_batch bm_empty)\<rparr>\<rparr>"
  let ?t = "sample_treasury\<lparr>tk_state := (tk_state sample_treasury)\<lparr>ts_config := (ts_config (tk_state sample_treasury))\<lparr>tc_stability_pool_reporter := Some 6\<rparr>\<rparr>\<rparr>"
  let ?n = "sample_treasury_node\<lparr>tn_canister := ?t, tn_unreported := (\<lambda>_. 600000)\<rparr>"
  have "spc_forward_active sp_sample_empty = False" by (simp add: sp_sample_defs)
  then obtain c1 where start: "process_forward_begin 0 ?c = Ok (c1, ForwardRecord 12 600000 77 [41, 42])"
    by (simp add: process_forward_begin_def forward_guard_new_def batches_def forward_step_def sample_batch_def)
  have empty: "ts_sp_blocks (tk_state sample_treasury) = bm_empty" "ts_sp_transfer_blocks (tk_state sample_treasury) = bm_empty"
    "ts_next_deposit_id (tk_state sample_treasury) = 2"
    by (simp_all add: sample_treasury_defs Let_def wrap64_def)
  have noex: "List.map_filter (bm_get bm_empty) [41, 42] = ([] :: u64 list)" by (simp add: List.map_filter_def)
  obtain k where rec: "record_stability_pool_unallocated_interest True 30 6 600000 77 [41, 42] (tn_canister ?n) = Ok (k, 2)"
    and cfg: "ts_config (tk_state k) = ts_config (tk_state ?t)"
    by (simp add: record_stability_pool_unallocated_interest_def sample_treasury_config record_sp_unallocated_interest_once_def empty noex
        treasury_add_deposit_def persist_balances_def treasury_push_event_def Let_def)
  let ?m = "?n\<lparr>tn_canister := k, tn_unreported := (\<lambda>_. 0), tn_short := (\<lambda>_. 0)\<rparr>"
  have run: "sample_step\<^sup>*\<^sup>* ?m (?m\<lparr>tn_canister := treasury_post_upgrade (tn_canister ?m)\<rparr>)"
    by (rule r_into_rtranclp) (rule treasury_step.upgrade)
  have "\<not> tc_is_paused (ts_config (tk_state (treasury_post_upgrade k)))" "tc_stability_pool_reporter (ts_config (tk_state (treasury_post_upgrade k))) = Some 6"
    by (simp_all add: treasury_post_upgrade_def restore_state_def cfg sample_treasury_config)
  with forward_credited_once [OF start rec run, of True 31] start rec show ?thesis by (auto simp: Let_def sample_treasury_node_def)
qed

section \<open>A withdrawal that is tried again\<close>

lemma withdraw_send_Ok:
  assumes "treasury_withdraw_send hash st now caller args ledger fee c = (c', Ok (SendTransfer ledger arg w))"
  shows "\<exists>s1. fee < wa_amount args \<and> treasury_withdraw st (wa_asset_type args) (wa_amount args) (tk_state c) = Ok s1
    \<and> pw_args w = args \<and> pw_fee w = fee \<and> pw_send_amount w = wa_amount args - fee \<and> lt_amount arg = wa_amount args - fee
    \<and> ts_balances (tk_state c') = ts_balances s1 \<and> tk_ledger_fees c' = tk_ledger_fees c"
  using assms by (auto simp: treasury_withdraw_send_def withdrawal_send_amount_def created_at_time_for_request_def Let_def
      split: outcome.splits if_splits option.splits prod.splits)

text \<open>C37. A withdrawal whose reply is lost and that is tried again with its request id within a day takes the amount out of the book twice. The
  retry carries the very transfer of the first attempt, so a ledger that executed it answers that it is a duplicate and moves
  nothing; the canister takes that for success and has debited the amount again before it asked.\<close>

theorem withdraw_retry_debits_twice:
  assumes "treasury_ok (tk_state c)" and "wa_request_id args = Some q" and "bm_get (ts_withdrawal_created_at (tk_state c)) q = None"
    and "treasury_withdraw_send hash True now caller args ledger fee c = (c1, Ok (SendTransfer ledger arg w))"
    and "now \<le> later" and "later \<le> now + ledger_dedup_window_nanos"
    and "2 * wa_amount args \<le> asset_total (ts_balances (tk_state c)) (wa_asset_type args)" and "block \<le> u64_max"
  shows "\<exists>c2 w' c3. treasury_withdraw_reply True t1 w None c1 = (c1, Err (TrTransportError q))
    \<and> treasury_withdraw_send hash True later caller args ledger fee c1 = (c2, Ok (SendTransfer ledger arg w'))
    \<and> treasury_withdraw_reply True t2 w' (Some (Inl (IcrcDuplicate block))) c2
        = (c3, Ok \<lparr>wr_block_index = block, wr_amount_transferred = wa_amount args - fee, wr_fee = fee\<rparr>)
    \<and> asset_total (ts_balances (tk_state c3)) (wa_asset_type args) + 2 * wa_amount args
        = asset_total (ts_balances (tk_state c)) (wa_asset_type args)"
proof -
  let ?a = "wa_asset_type args" and ?x = "wa_amount args"
  obtain s1 where s1: "fee < ?x" "treasury_withdraw True ?a ?x (tk_state c) = Ok s1"
    using withdraw_send_Ok [OF assms(4)] by blast
  note book1 = withdraw_book [OF assms(1) s1(2)]
  have "ts_withdrawal_created_at s1 = ts_withdrawal_created_at (tk_state c)"
    using s1(2) by (auto simp: treasury_withdraw_def persist_balances_def split: option.splits if_splits)
  define m where "m = bm_insert q now (bm_retain (\<lambda>_ t. \<not> t < now - ledger_dedup_window_nanos) (ts_withdrawal_created_at (tk_state c)))"
  have m: "bm_get m q = Some now" by (simp add: m_def)
  have "created_at_time_for_request q now s1 = (s1\<lparr>ts_withdrawal_created_at := m\<rparr>, now)"
    using assms(3) \<open>ts_withdrawal_created_at s1 = _\<close> by (simp add: created_at_time_for_request_def Let_def m_def)
  then have c1: "c1 = c\<lparr>tk_state := s1\<lparr>ts_withdrawal_created_at := m\<rparr>\<rparr>"
    and arg: "arg = \<lparr>lt_to = wa_to args, lt_amount = ?x - fee,
      lt_memo = (case wa_memo args of Some m \<Rightarrow> Some (ascii_bytes m) | None \<Rightarrow> Some (be_bytes 8 q)), lt_created_at_time = Some now\<rparr>"
    and w: "w = \<lparr>pw_caller = caller, pw_args = args, pw_fee = fee, pw_send_amount = ?x - fee, pw_request_id = q\<rparr>"
    using assms(4) s1 by (auto simp: treasury_withdraw_send_def withdrawal_send_amount_def assms(2) Let_def)
  have lost: "treasury_withdraw_reply True t1 w None c1 = (c1, Err (TrTransportError q))"
    by (simp add: treasury_withdraw_reply_def call_ledger_transfer_def w)
  have ok1: "treasury_ok (tk_state c1)" using book1(1) by (simp add: c1)
  have left: "?x \<le> asset_total (ts_balances (tk_state c1)) ?a" using book1(2) [of ?a] assms(7) by (simp add: c1)
  have "bm_get (ts_balances (tk_state c1)) ?a \<noteq> None" "\<And>b. bm_get (ts_balances (tk_state c1)) ?a = Some b \<Longrightarrow> ?x \<le> ab_available b"
    using balances_ok_total [of "ts_balances (tk_state c1)" ?a] ok1 left by (auto simp: treasury_ok_def)
  then obtain s2 where s2: "treasury_withdraw True ?a ?x (tk_state c1) = Ok s2"
    by (auto simp: treasury_withdraw_def split: option.splits if_splits)
  note book2 = withdraw_book [OF ok1 s2]
  have "ts_withdrawal_created_at s2 = m"
    using s2 by (auto simp: c1 treasury_withdraw_def persist_balances_def split: option.splits if_splits)
  moreover have "\<not> now < later - ledger_dedup_window_nanos" using assms(6) by linarith
  ultimately have "\<exists>m'. created_at_time_for_request q later s2 = (s2\<lparr>ts_withdrawal_created_at := m'\<rparr>, now)"
    using m by (auto simp: created_at_time_for_request_def Let_def)
  then obtain m' where again: "treasury_withdraw_send hash True later caller args ledger fee c1
      = (c1\<lparr>tk_state := s2\<lparr>ts_withdrawal_created_at := m'\<rparr>\<rparr>, Ok (SendTransfer ledger arg w))"
    using s1(1) s2 by (auto simp: treasury_withdraw_send_def withdrawal_send_amount_def assms(2) arg w)
  have "asset_total (ts_balances s2) ?a + 2 * ?x = asset_total (ts_balances (tk_state c)) ?a"
    using book1(2) [of ?a] book2(2) [of ?a] by (simp add: c1)
  with lost again assms(8) show ?thesis
    by (auto simp: treasury_withdraw_reply_def call_ledger_transfer_def w Let_def)
qed

definition sample_withdrawal :: withdraw_args where
  "sample_withdrawal = \<lparr>wa_asset_type = ICUSD, wa_amount = 1000000, wa_to = 8, wa_memo = None, wa_request_id = Some 5\<rparr>"

lemma sample_withdrawal_sent:
  assumes "fee < 1000000"
  shows "\<exists>c1 arg w. treasury_withdraw_send sample_hash True 50 1 sample_withdrawal 3 fee
    (sample_treasury\<lparr>tk_ledger_fees := f\<rparr>) = (c1, Ok (SendTransfer 3 arg w))"
proof -
  have "bm_get (ts_balances (tk_state sample_treasury)) ICUSD = Some \<lparr>ab_total = 5000000, ab_reserved = 0, ab_available = 5000000\<rparr>"
    using balances_ok_total [of "ts_balances (tk_state sample_treasury)" ICUSD] sample_treasury_ok sample_treasury_total by (simp add: treasury_ok_def)
  with assms show ?thesis
    by (simp add: treasury_withdraw_send_def withdrawal_send_amount_def sample_withdrawal_def treasury_withdraw_def Let_def case_prod_beta')
qed

theorem withdraw_retry_debits_twice_witness:
  "\<exists>c1 arg w c2 w' c3 r. treasury_withdraw_send sample_hash True 50 1 sample_withdrawal 3 100000 sample_treasury = (c1, Ok (SendTransfer 3 arg w))
    \<and> treasury_withdraw_reply True 51 w None c1 = (c1, Err (TrTransportError 5))
    \<and> treasury_withdraw_send sample_hash True 60 1 sample_withdrawal 3 100000 c1 = (c2, Ok (SendTransfer 3 arg w'))
    \<and> treasury_withdraw_reply True 61 w' (Some (Inl (IcrcDuplicate 90))) c2 = (c3, Ok r)
    \<and> asset_total (ts_balances (tk_state c3)) ICUSD = 3000000"
proof -
  have fees: "sample_treasury\<lparr>tk_ledger_fees := bm_empty\<rparr> = sample_treasury" by (simp add: sample_treasury_config(3) [symmetric])
  obtain c1 arg w where first: "treasury_withdraw_send sample_hash True 50 1 sample_withdrawal 3 100000 sample_treasury = (c1, Ok (SendTransfer 3 arg w))"
    using sample_withdrawal_sent [of 100000 bm_empty] by (auto simp: fees)
  have args: "wa_request_id sample_withdrawal = Some 5" "wa_amount sample_withdrawal = 1000000" "wa_asset_type sample_withdrawal = ICUSD"
    by (simp_all add: sample_withdrawal_def)
  from withdraw_retry_debits_twice [OF sample_treasury_ok args(1) _ first, of 60 90 51 61] first show ?thesis
    by (auto simp: sample_treasury_config args sample_treasury_total ledger_dedup_window_nanos_def u64_max_def)
qed

section \<open>A fee query that fails\<close>

text \<open>The fallback for a fee that cannot be queried is the usual fee of an ICRC-1 ledger. At a ledger that charges more, such as the
  icUSD ledger with 100,000 e8s, the account loses more than the book for as long as the fallback stays in the cache, which is until the next upgrade: the
  amount that is sent and the fee of the ledger exceed the amount of the withdrawal by the difference of the fees.\<close>

theorem fallback_fee_overdraws:
  assumes "treasury_withdraw_fee hash True now caller args ledger None c = (c1, Ok (SendTransfer ledger arg w))"
    and "treasury_ok (tk_state c)" and "default_ledger_fee_e8s < real_fee" and "block \<le> u64_max"
  shows "\<exists>c2 r. treasury_withdraw_reply True t w (Some (Inr block)) c1 = (c2, Ok r)
    \<and> asset_total (ts_balances (tk_state c2)) (wa_asset_type args) + wa_amount args = asset_total (ts_balances (tk_state c)) (wa_asset_type args)
    \<and> lt_amount arg + real_fee = wa_amount args + (real_fee - default_ledger_fee_e8s)
    \<and> bm_get (tk_ledger_fees c2) ledger = Some default_ledger_fee_e8s"
proof -
  let ?c = "c\<lparr>tk_ledger_fees := bm_insert ledger default_ledger_fee_e8s (tk_ledger_fees c)\<rparr>"
  have send: "treasury_withdraw_send hash True now caller args ledger default_ledger_fee_e8s ?c = (c1, Ok (SendTransfer ledger arg w))"
    using assms(1) by (simp add: treasury_withdraw_fee_def fee_of_reply_def)
  obtain s1 where s1: "default_ledger_fee_e8s < wa_amount args" "treasury_withdraw True (wa_asset_type args) (wa_amount args) (tk_state ?c) = Ok s1"
    "lt_amount arg = wa_amount args - default_ledger_fee_e8s" "ts_balances (tk_state c1) = ts_balances s1" "tk_ledger_fees c1 = tk_ledger_fees ?c"
    using withdraw_send_Ok [OF send] by blast
  have "asset_total (ts_balances s1) (wa_asset_type args) + wa_amount args = asset_total (ts_balances (tk_state c)) (wa_asset_type args)"
    using withdraw_book(2) [of "tk_state ?c", OF _ s1(2), of "wa_asset_type args"] assms(2) by simp
  with s1 assms(3,4) show ?thesis by (auto simp: treasury_withdraw_reply_def call_ledger_transfer_def Let_def)
qed

theorem fallback_fee_overdraws_witness:
  "\<exists>c1 arg w c2 r. treasury_withdraw_fee sample_hash True 50 1 sample_withdrawal 3 None sample_treasury = (c1, Ok (SendTransfer 3 arg w))
     \<and> treasury_withdraw_reply True 51 w (Some (Inr 90)) c1 = (c2, Ok r)
     \<and> asset_total (ts_balances (tk_state c2)) ICUSD = 4000000 \<and> lt_amount arg + 100000 = 1090000"
proof -
  obtain c1 arg w where first: "treasury_withdraw_fee sample_hash True 50 1 sample_withdrawal 3 None sample_treasury = (c1, Ok (SendTransfer 3 arg w))"
    using sample_withdrawal_sent [of default_ledger_fee_e8s "bm_insert 3 default_ledger_fee_e8s (tk_ledger_fees sample_treasury)"]
    by (auto simp: treasury_withdraw_fee_def fee_of_reply_def default_ledger_fee_e8s_def)
  from fallback_fee_overdraws [OF first sample_treasury_ok, of 100000 90 51] first show ?thesis
    by (auto simp: default_ledger_fee_e8s_def u64_max_def sample_withdrawal_def sample_treasury_total)
qed

text \<open>In the machine: a withdrawal of 1,000,000 at the fallback fee of 10,000 is executed by a ledger that charges 100,000.
  Four million stay in the book, 3,910,000 in the account, and 90,000 are missing.\<close>

lemma overdrawn_reachable:
  "\<exists>n. sample_step\<^sup>*\<^sup>* (treasury_start sample_treasury_args) n \<and> tn_account n ICUSD = 3910000 \<and> tn_short n ICUSD = 90000
     \<and> asset_total (ts_balances (tk_state (tn_canister n))) ICUSD = 4000000"
proof -
  obtain c1 arg w where first: "treasury_withdraw_fee sample_hash True 50 1 sample_withdrawal 3 None sample_treasury = (c1, Ok (SendTransfer 3 arg w))"
    using sample_withdrawal_sent [of default_ledger_fee_e8s "bm_insert 3 default_ledger_fee_e8s (tk_ledger_fees sample_treasury)"]
    by (auto simp: treasury_withdraw_fee_def fee_of_reply_def default_ledger_fee_e8s_def)
  have send: "treasury_withdraw_send sample_hash True 50 1 sample_withdrawal 3 default_ledger_fee_e8s
      (sample_treasury\<lparr>tk_ledger_fees := bm_insert 3 default_ledger_fee_e8s (tk_ledger_fees sample_treasury)\<rparr>) = (c1, Ok (SendTransfer 3 arg w))"
    using first by (simp add: treasury_withdraw_fee_def fee_of_reply_def)
  then have w: "pw_args w = sample_withdrawal" "pw_fee w = 10000" "pw_send_amount w = 990000"
    using withdraw_send_Ok [OF send] by (auto simp: default_ledger_fee_e8s_def sample_withdrawal_def)
  have left: "asset_total (ts_balances (tk_state c1)) ICUSD = 4000000"
    using withdraw_send_books(2) [OF _ send, of ICUSD] sample_treasury_ok sample_treasury_total w
    by (simp add: sent_transfers_def sample_withdrawal_def)
  have room: "ids_room c1"
    using send by (auto simp: treasury_withdraw_send_def withdrawal_send_amount_def treasury_withdraw_def created_at_time_for_request_def
        persist_balances_def Let_def sample_treasury_ids u64_max_def split: outcome.splits if_splits option.splits prod.splits)
  let ?n1 = "sample_treasury_node\<lparr>tn_canister := c1, tn_flight := [w]\<rparr>"
  have one: "sample_step sample_treasury_node ?n1"
    using treasury_step.fee [where n = sample_treasury_node, of sample_hash 50 1 sample_withdrawal 3 None c1 "Ok (SendTransfer 3 arg w)"] first
    by (simp add: sample_treasury_node_def sent_transfers_def)
  obtain c2 r where c2: "treasury_withdraw_reply True 51 w (Some (Inr 90)) c1 = (c2, Ok r)"
    and b2: "ts_balances (tk_state c2) = ts_balances (tk_state c1)"
    by (auto simp: treasury_withdraw_reply_def call_ledger_transfer_def u64_max_def Let_def)
  let ?n2 = "(paid_out 100000 w ?n1)\<lparr>tn_canister := c2, tn_flight := []\<rparr>"
  have "sample_step ?n1 ((if executed (Some (Inr 90)) False then paid_out 100000 w ?n1 else ?n1)\<lparr>tn_canister := c2, tn_flight := [] @ []\<rparr>)"
    by (rule treasury_step.reply [where w = w and reply = "Some (Inr 90)" and now = 51])
      (use room c2 w in \<open>simp_all add: sample_treasury_node_def sample_withdrawal_def executed_def u64_max_def\<close>)
  then have two: "sample_step ?n1 ?n2" by (simp add: executed_def)
  have "sample_step\<^sup>*\<^sup>* (treasury_start sample_treasury_args) ?n2"
    using sample_treasury_reachable one two by (meson rtranclp.rtrancl_into_rtrancl)
  moreover have "tn_account ?n2 ICUSD = 3910000" "tn_short ?n2 ICUSD = 90000"
    using w by (simp_all add: paid_out_def sample_treasury_node_def sample_withdrawal_def)
  ultimately show ?thesis using left b2 by (intro exI [of _ ?n2]) simp
qed

theorem treasury_solvent_witness:
  "\<exists>(n :: treasury_node) b. bm_get (ts_balances (tk_state (tn_canister n))) ICUSD = Some b \<and> ab_available b = ab_total b
     \<and> ab_total b \<le> tn_account n ICUSD + tn_short n ICUSD \<and> ab_total b = 4000000 \<and> tn_account n ICUSD = 3910000"
proof -
  obtain n where n: "sample_step\<^sup>*\<^sup>* (treasury_start sample_treasury_args) n" "tn_account n ICUSD = 3910000"
    "asset_total (ts_balances (tk_state (tn_canister n))) ICUSD = 4000000"
    using overdrawn_reachable by blast
  from treasury_solvent [OF n(1), of ICUSD] obtain b where "bm_get (ts_balances (tk_state (tn_canister n))) ICUSD = Some b"
    "ab_available b = ab_total b" "ab_total b \<le> tn_account n ICUSD + tn_short n ICUSD" by auto
  moreover from this(1) n(3) have "ab_total b = 4000000" by (simp add: asset_total_def)
  ultimately show ?thesis using n(2) by blast
qed

end
