(* ===== verification/Icp_Locks.thy ===== *)
theory Icp_Locks
  imports BTree_Map
begin

text \<open>
  The three locks of the endpoints (\<^verbatim>\<open>guard.rs\<close>): the guard of a principal, which lets one call of a principal run
  at a time and expires; the lock of a vault, held across the awaits of every call that changes it; and the reservation of
  borrowed amounts against the ceilings. \<^verbatim>\<open>complete\<close> and \<^verbatim>\<open>fail\<close> consume the guard, so that its \<^verbatim>\<open>drop\<close> follows at once.
\<close>

section \<open>The guard of a principal\<close>

datatype operation_state = OpInProgress | OpCompleted | OpFailed

datatype guard_error = GuardAlreadyProcessing | GuardTooManyConcurrentRequests | GuardStaleOperation

record principal_guards =
  pg_principals :: "(principal, unit) bmap"
  pg_timestamps :: "(principal, u64) bmap"
  pg_operation_states :: "(principal, operation_state) bmap"
  pg_operation_names :: "(principal, string) bmap"

definition max_concurrent :: nat where
  "max_concurrent = 100"

definition guard_timeout_nanos :: u64 where
  "guard_timeout_nanos = 5 * 60 * 1000000000"

definition guard_forget :: "principal \<Rightarrow> principal_guards \<Rightarrow> principal_guards" where
  "guard_forget p g = \<lparr>pg_principals = bm_remove p (pg_principals g), pg_timestamps = bm_remove p (pg_timestamps g),
     pg_operation_states = bm_remove p (pg_operation_states g), pg_operation_names = bm_remove p (pg_operation_names g)\<rparr>"

definition guard_stale :: "u64 \<Rightarrow> principal_guards \<Rightarrow> principal \<Rightarrow> bool" where
  "guard_stale now g p =
     (case bm_get (pg_timestamps g) p of
        None \<Rightarrow> True
      | Some t \<Rightarrow> sat_sub now t > guard_timeout_nanos \<or> bm_get (pg_operation_states g) p = Some OpFailed)"

definition guard_insert :: "principal \<Rightarrow> string \<Rightarrow> u64 \<Rightarrow> principal_guards \<Rightarrow> principal_guards" where
  "guard_insert p name now g = \<lparr>pg_principals = bm_insert p () (pg_principals g), pg_timestamps = bm_insert p now (pg_timestamps g),
     pg_operation_states = bm_insert p OpInProgress (pg_operation_states g), pg_operation_names = bm_insert p name (pg_operation_names g)\<rparr>"

text \<open>Stale guards are dropped first. A guard of the same principal stands in the way for half of the timeout only; after that
  the new call takes over.\<close>

definition guard_new :: "principal \<Rightarrow> string \<Rightarrow> u64 \<Rightarrow> principal_guards \<Rightarrow> principal_guards \<times> (guard_error, unit) outcome" where
  "guard_new p name now g =
     (let g1 = fold guard_forget (filter (guard_stale now g) (bm_keys (pg_principals g))) g;
          held = bm_has (pg_principals g1) p;
          age_seconds = sat_sub now (bm_get_or 0 (pg_timestamps g1) p) div 1000000000
      in if held \<and> \<not> age_seconds > guard_timeout_nanos div 1000000000 div 2 then (g1, Err GuardAlreadyProcessing)
         else
           let g2 = (if held then guard_forget p g1 else g1) in
           if length (bm_keys (pg_principals g2)) \<ge> max_concurrent then (g2, Err GuardTooManyConcurrentRequests)
           else (guard_insert p name now g2, Ok ()))"

definition guard_mark :: "operation_state \<Rightarrow> principal \<Rightarrow> principal_guards \<Rightarrow> principal_guards" where
  "guard_mark st p g = g\<lparr>pg_operation_states := bm_modify p (\<lambda>_. st) (pg_operation_states g)\<rparr>"

definition guard_complete :: "principal \<Rightarrow> principal_guards \<Rightarrow> principal_guards" where
  "guard_complete p g = guard_forget p (guard_mark OpCompleted p g)"

definition guard_fail :: "principal \<Rightarrow> principal_guards \<Rightarrow> principal_guards" where
  "guard_fail p g = guard_forget p (guard_mark OpFailed p g)"

lemma guard_marked [simp]: "guard_complete p g = guard_forget p g" "guard_fail p g = guard_forget p g"
proof -
  have "bm_remove p (bm_modify p f m) = bm_remove p m" for f and m :: "(principal, operation_state) bmap"
    by (rule bm_ext) simp
  then show "guard_complete p g = guard_forget p g" "guard_fail p g = guard_forget p g"
    by (simp_all add: guard_complete_def guard_fail_def guard_mark_def guard_forget_def)
qed

section \<open>The lock of a vault\<close>

definition vault_lock_new :: "u64 \<Rightarrow> (u64, unit) bmap \<Rightarrow> (u64, unit) bmap option" where
  "vault_lock_new vault_id locked = (if bm_has locked vault_id then None else Some (bm_insert vault_id () locked))"

definition vault_lock_drop :: "u64 \<Rightarrow> (u64, unit) bmap \<Rightarrow> (u64, unit) bmap" where
  "vault_lock_drop vault_id locked = bm_remove vault_id locked"

section \<open>Reservations of borrowed amounts\<close>

datatype reserve_error = OverDebtCeiling | OverGlobalCap

definition try_reserve ::
    "principal \<Rightarrow> u64 \<Rightarrow> u64 \<Rightarrow> u64 \<Rightarrow> u64 \<Rightarrow> u64 \<Rightarrow> (principal, u64) bmap \<Rightarrow> (reserve_error, (principal, u64) bmap) outcome" where
  "try_reserve collateral amount current_collateral_debt debt_ceiling current_global_borrowed global_cap m =
     (let coll_reserved = bm_get_or 0 m collateral; total_reserved = wrap64 (sum_list (bm_values m)) in
      if sat_add64 (sat_add64 current_collateral_debt coll_reserved) amount > debt_ceiling then Err OverDebtCeiling
      else if sat_add64 (sat_add64 current_global_borrowed total_reserved) amount > global_cap then Err OverGlobalCap
      else Ok (bm_insert collateral (wrap64 (coll_reserved + amount)) m))"

definition release_borrow_reservation :: "principal \<Rightarrow> u64 \<Rightarrow> (principal, u64) bmap \<Rightarrow> (principal, u64) bmap" where
  "release_borrow_reservation collateral amount m =
     (case bm_get m collateral of
        None \<Rightarrow> m
      | Some v \<Rightarrow> if sat_sub v amount = 0 then bm_remove collateral m else bm_insert collateral (sat_sub v amount) m)"

end
