(* ===== verification/Icp_Endpoints.thy ===== *)
theory Icp_Endpoints
  imports Icp_Vaults Icp_Locks
begin

text \<open>
  The endpoints of an owner on the ICP rail (\<^verbatim>\<open>vault.rs\<close>): open, borrow, repay, add margin, withdraw, close. Each is split at its
  awaits; the part before the first await ends with the call it makes to a ledger, the later parts take the ledger's answer. A
  vault is locked from the first part to the last. A panic before the first await rolls the message back; a panic
  after it keeps what was committed, and the locks are dropped.
\<close>

section \<open>The canister\<close>

record xrp_settlement =
  xs_tx_hash :: string
  xs_last_ledger_sequence :: u32
  xs_source_sequence :: "u32 option"
  xs_destination :: "string option"
  xs_destination_tag :: "u32 option"

record xrp_claim =
  xc_claimant :: principal
  xc_drops :: u64
  xc_custody_owner :: principal
  xc_custody_nonce :: u64
  xc_created_at_ns :: u64
  xc_settlement :: "xrp_settlement option"
  xc_quarantine_reason :: "string option"

record stored_xrp_preflight =
  xp_caller :: principal
  xp_vault_id :: u64
  xp_icusd_burn_e8s :: u64
  xp_total_to_seize_drops :: u64
  xp_collateral_received_drops :: u64
  xp_collateral_price_e8s :: u64
  xp_expires_at_ns :: u64

text \<open>The vault book, and what the endpoints use of the state beside it: limits, locks, the rate limiter of \<^verbatim>\<open>close_vault\<close>, claims
  on native XRP and the reservations of the stability pool.\<close>

record ('d, 'f) icp_canister =
  icn_state :: "('d, 'f) ics"
  icn_min_icusd_amount :: u64
  icn_global_icusd_mint_cap :: u64
  icn_op_nonce_counter :: u64
  icn_guards :: principal_guards
  icn_locked :: "(u64, unit) bmap"
  icn_reservations :: "(principal, u64) bmap"
  icn_close_vault_requests :: "(principal, u64 list) bmap"
  icn_global_close_requests :: "u64 list"
  icn_concurrent_close_operations :: u32
  icn_dust_forgiven_total :: u64
  icn_xrp_claims :: "(u64, xrp_claim) bmap"
  icn_next_xrp_claim_id :: u64
  icn_xrp_preflights :: "(u64, stored_xrp_preflight) bmap"
  icn_developer_principal :: principal

datatype vault_transfer_error = VtBadFee nat | VtOther string

datatype vault_error =
    VeTransferFrom vault_transfer_error u64
  | VeTransfer vault_transfer_error
  | VeUnavailable string
  | VeAlreadyProcessing
  | VeCallerNotOwner
  | VeAmountTooLow u64
  | VeGeneric string

text \<open>The calls in flight, and the messages to ledgers with their nonce.\<close>

datatype icp_call =
    CallOpen principal principal u64
  | CallBorrow principal u64 u64 u64 principal bool
  | CallRepay principal u64 u64 principal
  | CallRepaid principal u64 principal
  | CallMargin principal u64 u64 principal
  | CallPartial principal u64 u64
  | CallWithdraw principal u64 u64
  | CallWithdrawClose principal u64 u64

datatype ledger_call =
    PullCollateral principal principal u64 u128
  | PayCollateral principal principal u64 u128
  | MintIcusd principal u64 u128
  | PullIcusd principal u64 u128

datatype flow = Await icp_call ledger_call | Finished "u64 option"

section \<open>Shared parts\<close>

definition guard_failure :: "guard_error \<Rightarrow> vault_error" where
  "guard_failure e =
     (case e of
        GuardAlreadyProcessing \<Rightarrow> VeAlreadyProcessing
      | GuardTooManyConcurrentRequests \<Rightarrow> VeUnavailable ''too many concurrent requests''
      | GuardStaleOperation \<Rightarrow> VeUnavailable ''previous operation is being cleaned up'')"

definition call_enter ::
    "principal \<Rightarrow> string \<Rightarrow> u64 \<Rightarrow> u64 \<Rightarrow> ('d, 'f) icp_canister \<Rightarrow> ('d, 'f) icp_canister \<times> (vault_error, unit) outcome" where
  "call_enter caller name vault_id now c =
     (case guard_new caller (name @ show_nat vault_id) now (icn_guards c) of
        (g, Ok _) \<Rightarrow>
          (case vault_lock_new vault_id (icn_locked c) of
             None \<Rightarrow> (c\<lparr>icn_guards := guard_fail caller g\<rparr>, Err (VeUnavailable ''Another operation on the vault is in flight''))
           | Some l \<Rightarrow> (c\<lparr>icn_guards := g, icn_locked := l\<rparr>, Ok ()))
      | (g, Err e) \<Rightarrow> (c\<lparr>icn_guards := g\<rparr>, Err (guard_failure e))
      | (g, Trap) \<Rightarrow> (c, Trap))"

definition call_leave :: "principal \<Rightarrow> u64 \<Rightarrow> ('d, 'f) icp_canister \<Rightarrow> ('d, 'f) icp_canister" where
  "call_leave caller vault_id c =
     c\<lparr>icn_guards := guard_forget caller (icn_guards c), icn_locked := vault_lock_drop vault_id (icn_locked c)\<rparr>"

text \<open>A first message: the locks, the checks, and the locks again unless the call goes on.\<close>

definition first_message ::
    "principal \<Rightarrow> string \<Rightarrow> u64 \<Rightarrow> u64 \<Rightarrow> (('d, 'f) icp_canister \<Rightarrow> ('d, 'f) icp_canister \<times> (vault_error, flow) outcome)
       \<Rightarrow> ('d, 'f) icp_canister \<Rightarrow> ('d, 'f) icp_canister \<times> (vault_error, flow) outcome" where
  "first_message caller name vault_id now body c =
     (case call_enter caller name vault_id now c of
        (c1, Ok _) \<Rightarrow>
          (case body c1 of
             (c2, Ok (Await k m)) \<Rightarrow> (c2, Ok (Await k m))
           | (c2, Ok (Finished b)) \<Rightarrow> (call_leave caller vault_id c2, Ok (Finished b))
           | (c2, Err e) \<Rightarrow> (call_leave caller vault_id c2, Err e)
           | (c2, Trap) \<Rightarrow> (c, Trap))
      | (c1, Err e) \<Rightarrow> (c1, Err e)
      | (c1, Trap) \<Rightarrow> (c, Trap))"

definition next_op_nonce :: "u64 \<Rightarrow> ('d, 'f) icp_canister \<Rightarrow> ('d, 'f) icp_canister \<times> u128" where
  "next_op_nonce now c = (c\<lparr>icn_op_nonce_counter := wrap64 (icn_op_nonce_counter c + 1)\<rparr>, now * 2 ^ 64 + icn_op_nonce_counter c)"

definition await_call :: "u64 \<Rightarrow> icp_call \<Rightarrow> (u128 \<Rightarrow> ledger_call) \<Rightarrow> ('d, 'f) icp_canister
       \<Rightarrow> ('d, 'f) icp_canister \<times> (vault_error, flow) outcome" where
  "await_call now k msg c = (let (c', n) = next_op_nonce now c in (c', Ok (Await k (msg n))))"

definition no_active_preflight :: "u64 \<Rightarrow> u64 \<Rightarrow> ('d, 'f) icp_canister \<Rightarrow> (vault_error, unit) outcome" where
  "no_active_preflight vault_id now c =
     (case bm_get (icn_xrp_preflights c) vault_id of
        None \<Rightarrow> Ok ()
      | Some p \<Rightarrow> if xp_expires_at_ns p \<ge> now
                  then Err (VeUnavailable ''Vault has a pending native-XRP stability-pool liquidation reservation'') else Ok ())"

definition require_vault_not_processing :: "icp_vault \<Rightarrow> (vault_error, unit) outcome" where
  "require_vault_not_processing v =
     (if iv_bot_processing v then Err (VeGeneric ''Vault is locked: bot liquidation in progress'') else Ok ())"

definition status_permits ::
    "(collateral_status \<Rightarrow> bool) \<Rightarrow> string \<Rightarrow> ('d, 'f) ics \<Rightarrow> principal \<Rightarrow> (vault_error, unit) outcome" where
  "status_permits allows msg s ct =
     (case get_collateral_status s ct of
        Some st \<Rightarrow> if allows st then Ok () else Err (VeGeneric msg)
      | None \<Rightarrow> Ok ())"

definition owned_by :: "principal \<Rightarrow> icp_vault \<Rightarrow> (vault_error, unit) outcome" where
  "owned_by caller v = (if caller = iv_owner v then Ok () else Err VeCallerNotOwner)"

text \<open>Interest is accrued before anything is read; a panic of the accrual ends the message.\<close>

definition after_accrual ::
    "('d, 'f) decimal \<Rightarrow> u64 \<Rightarrow> u64 \<Rightarrow> (('d, 'f) icp_canister \<Rightarrow> ('d, 'f) icp_canister \<times> (vault_error, flow) outcome)
       \<Rightarrow> ('d, 'f) icp_canister \<Rightarrow> ('d, 'f) icp_canister \<times> (vault_error, flow) outcome" where
  "after_accrual D vault_id now body c =
     (case no_active_preflight vault_id now c of
        Ok _ \<Rightarrow>
          (case accrue_single_vault D vault_id now (icn_state c) of
             None \<Rightarrow> (c, Trap)
           | Some s \<Rightarrow> body (c\<lparr>icn_state := s\<rparr>))
      | Err e \<Rightarrow> (c, Err e)
      | Trap \<Rightarrow> (c, Trap))"

definition effective_min_ratio :: "('d, 'f) decimal \<Rightarrow> ('d, 'f) ics \<Rightarrow> principal \<Rightarrow> 'd option" where
  "effective_min_ratio D s ct =
     (let base = get_min_collateral_ratio_for D s ct in
      if ic_mode s = RecoveryMode
      then map_option (\<lambda>recovery_cr. if dec_less D base recovery_cr then recovery_cr else base) (get_recovery_cr_for D s ct)
      else Some base)"

definition record_xrp_claim ::
    "principal \<Rightarrow> principal \<Rightarrow> u64 \<Rightarrow> u64 \<Rightarrow> u64 \<Rightarrow> ('d, 'f) icp_canister \<Rightarrow> ('d, 'f) icp_canister \<times> u64" where
  "record_xrp_claim claimant custody_owner custody_nonce drops now c =
     (let claim_id = icn_next_xrp_claim_id c in
      (c\<lparr>icn_next_xrp_claim_id := wrap64 (claim_id + 1),
         icn_xrp_claims := bm_insert claim_id
           \<lparr>xc_claimant = claimant, xc_drops = drops, xc_custody_owner = custody_owner, xc_custody_nonce = custody_nonce,
            xc_created_at_ns = now, xc_settlement = None, xc_quarantine_reason = None\<rparr> (icn_xrp_claims c)\<rparr>, claim_id))"

text \<open>An answer \<^verbatim>\<open>BadFee\<close> updates the fee of the collateral.\<close>

definition note_bad_fee :: "principal \<Rightarrow> vault_transfer_error \<Rightarrow> ('d, 'f) icp_canister \<Rightarrow> ('d, 'f) icp_canister" where
  "note_bad_fee ct e c =
     (case e of
        VtBadFee fee \<Rightarrow>
          if fee \<le> u64_max
          then c\<lparr>icn_state := (icn_state c)\<lparr>ic_collateral_configs :=
                 bm_modify (resolve_ct (icn_state c) ct) (\<lambda>cfg. cfg\<lparr>cf_ledger_fee := fee\<rparr>) (ic_collateral_configs (icn_state c))\<rparr>\<rparr>
          else c
      | VtOther _ \<Rightarrow> c)"

section \<open>Borrowing\<close>

definition clamp_borrow_fee :: "u64 \<Rightarrow> u64 \<Rightarrow> u64" where
  "clamp_borrow_fee amount raw_fee = min raw_fee (sat_sub amount 1)"

definition borrow_fee :: "('d, 'f) decimal \<Rightarrow> ('d, 'f) ics \<Rightarrow> principal \<Rightarrow> u64 \<Rightarrow> u64 \<Rightarrow> u64 \<Rightarrow> u64 option" where
  "borrow_fee D s ct amount collateral_value new_total_debt =
     Option.bind (if new_total_debt = 0 then Some (dec_lit D 999 0)
                  else dec_div D (dec_from_u64 D collateral_value) (dec_from_u64 D new_total_debt)) (\<lambda>projected_cr.
     Option.bind (get_borrowing_fee_multiplier D s projected_cr) (\<lambda>multiplier.
     Option.bind (token_mul_ratio D amount (get_borrowing_fee_for s ct)) (\<lambda>base.
     map_option (clamp_borrow_fee amount) (token_mul_ratio D base multiplier))))"

definition debt_ceiling_of :: "('d, 'f) ics \<Rightarrow> principal \<Rightarrow> u64" where
  "debt_ceiling_of s ct = (case get_collateral_config s ct of None \<Rightarrow> u64_max | Some cfg \<Rightarrow> cf_debt_ceiling cfg)"

text \<open>The checks of a borrow. They give the new reservations, the fee and the type of the collateral.\<close>

definition borrow_decide ::
    "('d, 'f) decimal \<Rightarrow> bool \<Rightarrow> principal \<Rightarrow> u64 \<Rightarrow> u64 \<Rightarrow> ('d, 'f) icp_canister
       \<Rightarrow> (vault_error, (principal, u64) bmap \<times> u64 \<times> principal) outcome" where
  "borrow_decide D production_key caller vault_id amount c =
     (let s = icn_state c in
      and_then (ok_or (VeGeneric ''Vault not found'') (bm_get (ic_vault_id_to_vaults s) vault_id)) (\<lambda>v.
      let ct = iv_collateral_type v in
      and_then (ok_or (VeGeneric ''No price available for collateral'') (get_collateral_price_decimal D s ct)) (\<lambda>price.
      and_then (ok_or (VeGeneric ''Collateral type not configured'') (get_collateral_config s ct)) (\<lambda>cfg.
      and_then (require_vault_not_processing v) (\<lambda>_.
      and_then (status_permits allows_borrow ''Borrowing is not allowed for this collateral type'' s ct) (\<lambda>_.
      if is_native_xrp cfg \<and> \<not> production_key then Err (VeGeneric ''native-XRP operations require the production key'')
      else
      and_then (owned_by caller v) (\<lambda>_.
      and_then (map_err (\<lambda>_. VeGeneric ''Borrow would exceed a ceiling'')
        (try_reserve ct amount (total_debt_for_collateral s ct) (debt_ceiling_of s ct)
           (total_borrowed_icusd_amount s) (icn_global_icusd_mint_cap c) (icn_reservations c))) (\<lambda>res.
      and_then (or_trap (collateral_usd_value D (iv_collateral_amount v) price (cf_decimals cfg))) (\<lambda>collateral_value.
      and_then (or_trap (effective_min_ratio D s ct)) (\<lambda>min_ratio.
      and_then (or_trap (icusd_div_ratio D collateral_value min_ratio)) (\<lambda>max_borrowable.
      let new_total = token_add (iv_borrowed_icusd_amount v) amount in
      if new_total > max_borrowable then Err (VeGeneric ''failed to borrow from vault'')
      else and_then (or_trap (borrow_fee D s ct amount collateral_value new_total)) (\<lambda>fee. Ok (res, fee, ct)))))))))))))"

definition borrow_checked ::
    "('d, 'f) decimal \<Rightarrow> bool \<Rightarrow> principal \<Rightarrow> u64 \<Rightarrow> u64 \<Rightarrow> u64 \<Rightarrow> ('d, 'f) icp_canister
       \<Rightarrow> ('d, 'f) icp_canister \<times> (vault_error, flow) outcome" where
  "borrow_checked D production_key caller vault_id amount now c =
     (if amount < icn_min_icusd_amount c then (c, Err (VeAmountTooLow (icn_min_icusd_amount c)))
      else after_accrual D vault_id now (\<lambda>c1.
        case borrow_decide D production_key caller vault_id amount c1 of
          Ok (res, fee, ct) \<Rightarrow>
            await_call now (CallBorrow caller vault_id amount fee ct False) (MintIcusd caller (amount - fee))
              (c1\<lparr>icn_reservations := res\<rparr>)
        | Err e \<Rightarrow> (c1, Err e)
        | Trap \<Rightarrow> (c1, Trap)) c)"

definition borrow_begin ::
    "('d, 'f) decimal \<Rightarrow> bool \<Rightarrow> principal \<Rightarrow> u64 \<Rightarrow> u64 \<Rightarrow> u64 \<Rightarrow> ('d, 'f) icp_canister
       \<Rightarrow> ('d, 'f) icp_canister \<times> (vault_error, flow) outcome" where
  "borrow_begin D production_key caller vault_id amount now =
     first_message caller ''borrow_vault_'' vault_id now (borrow_checked D production_key caller vault_id amount now)"

text \<open>The answer of the mint: the debt is recorded, then the fee is minted to the treasury under the same locks.\<close>

definition borrow_end :: "principal \<Rightarrow> u64 \<Rightarrow> u64 \<Rightarrow> principal \<Rightarrow> ('d, 'f) icp_canister \<Rightarrow> ('d, 'f) icp_canister" where
  "borrow_end caller vault_id amount ct c =
     call_leave caller vault_id (c\<lparr>icn_reservations := release_borrow_reservation ct amount (icn_reservations c)\<rparr>)"

definition borrow_minted ::
    "('d, 'f) decimal \<Rightarrow> principal \<Rightarrow> u64 \<Rightarrow> u64 \<Rightarrow> u64 \<Rightarrow> principal \<Rightarrow> vault_transfer_error + u64 \<Rightarrow> ('d, 'f) icp_canister
       \<Rightarrow> ('d, 'f) icp_canister \<times> (vault_error, icp_call) outcome" where
  "borrow_minted D caller vault_id amount fee ct reply c =
     (case reply of
        Inr block \<Rightarrow>
          (case borrow_from_vault D vault_id amount (icn_state c) of
             Some s \<Rightarrow> (c\<lparr>icn_state := s\<rparr>, Ok (CallBorrow caller vault_id amount fee ct True))
           | None \<Rightarrow> (borrow_end caller vault_id amount ct c, Trap))
      | Inl e \<Rightarrow> (borrow_end caller vault_id amount ct c, Err (VeTransfer e)))"

section \<open>Repaying\<close>

text \<open>A repayment above the debt, or one that would leave at most 1% or 0.01 icUSD, is a repayment of the whole debt.\<close>

definition repay_amount :: "u64 \<Rightarrow> u64 \<Rightarrow> u64" where
  "repay_amount amount debt =
     (if amount > debt then debt
      else if sat_sub debt amount \<le> max (debt div 100) 1000000 then debt
      else amount)"

definition check_min_vault_debt_after_repay :: "('d, 'f) ics \<Rightarrow> icp_vault \<Rightarrow> u64 \<Rightarrow> (vault_error, unit) outcome" where
  "check_min_vault_debt_after_repay s v amount =
     and_then (or_trap (token_sub (iv_borrowed_icusd_amount v) amount)) (\<lambda>remaining.
       let min_vault_debt = (case get_collateral_config s (iv_collateral_type v) of None \<Rightarrow> 0 | Some cfg \<Rightarrow> cf_min_vault_debt cfg) in
       if remaining > 0 \<and> remaining < min_vault_debt then Err (VeGeneric ''Partial repayment would leave too little debt'') else Ok ())"

definition repay_decide ::
    "principal \<Rightarrow> u64 \<Rightarrow> u64 \<Rightarrow> bool \<Rightarrow> ('d, 'f) icp_canister \<Rightarrow> (vault_error, u64 \<times> principal) outcome" where
  "repay_decide caller vault_id amount is_full_close c =
     (let s = icn_state c in
      and_then (ok_or (VeGeneric ''Vault not found'') (bm_get (ic_vault_id_to_vaults s) vault_id)) (\<lambda>v.
      and_then (require_vault_not_processing v) (\<lambda>_.
      and_then (status_permits allows_repay ''Repayment is not allowed for this collateral type'' s (iv_collateral_type v)) (\<lambda>_.
      and_then (owned_by caller v) (\<lambda>_.
      if \<not> is_full_close \<and> amount < icn_min_icusd_amount c then Err (VeAmountTooLow (icn_min_icusd_amount c))
      else
        let repaid = repay_amount amount (iv_borrowed_icusd_amount v) in
        and_then (check_min_vault_debt_after_repay s v repaid) (\<lambda>_. Ok (repaid, iv_collateral_type v)))))))"

definition repay_checked ::
    "('d, 'f) decimal \<Rightarrow> principal \<Rightarrow> u64 \<Rightarrow> u64 \<Rightarrow> bool \<Rightarrow> u64 \<Rightarrow> ('d, 'f) icp_canister
       \<Rightarrow> ('d, 'f) icp_canister \<times> (vault_error, flow) outcome" where
  "repay_checked D caller vault_id amount is_full_close now =
     after_accrual D vault_id now (\<lambda>c1.
       case repay_decide caller vault_id amount is_full_close c1 of
         Ok (repaid, ct) \<Rightarrow> await_call now (CallRepay caller vault_id repaid ct) (PullIcusd caller repaid) c1
       | Err e \<Rightarrow> (c1, Err e)
       | Trap \<Rightarrow> (c1, Trap))"

definition repay_begin ::
    "('d, 'f) decimal \<Rightarrow> principal \<Rightarrow> u64 \<Rightarrow> u64 \<Rightarrow> u64 \<Rightarrow> ('d, 'f) icp_canister
       \<Rightarrow> ('d, 'f) icp_canister \<times> (vault_error, flow) outcome" where
  "repay_begin D caller vault_id amount now =
     first_message caller ''repay_vault_'' vault_id now (repay_checked D caller vault_id amount False now)"

text \<open>The answer of the pull. On success the interest share goes to the treasury; what could not be minted is queued again.\<close>

definition repay_pulled ::
    "('d, 'f) decimal \<Rightarrow> principal \<Rightarrow> u64 \<Rightarrow> u64 \<Rightarrow> vault_transfer_error + u64 \<Rightarrow> ('d, 'f) icp_canister
       \<Rightarrow> ('d, 'f) icp_canister \<times> (vault_error, u64) outcome" where
  "repay_pulled D caller vault_id amount reply c =
     (case reply of
        Inr block \<Rightarrow>
          (case repay_to_vault D vault_id amount (icn_state c) of
             Some (s, interest_share, _) \<Rightarrow> (c\<lparr>icn_state := s\<rparr>, Ok interest_share)
           | None \<Rightarrow> (call_leave caller vault_id c, Trap))
      | Inl e \<Rightarrow> (call_leave caller vault_id c, Err (VeTransferFrom e amount)))"

definition repay_end :: "principal \<Rightarrow> u64 \<Rightarrow> principal \<Rightarrow> u64 \<Rightarrow> ('d, 'f) icp_canister \<Rightarrow> ('d, 'f) icp_canister" where
  "repay_end caller vault_id ct unminted c =
     call_leave caller vault_id (c\<lparr>icn_state := restore_pending_interest_for_pool ct unminted (icn_state c)\<rparr>)"

section \<open>Opening and adding margin\<close>

definition icrc_config :: "('d, 'f) ics \<Rightarrow> principal \<Rightarrow> string \<Rightarrow> (vault_error, ('d, 'f) collateral_config) outcome" where
  "icrc_config s ct msg =
     and_then (ok_or (VeGeneric msg) (get_collateral_config s ct)) (\<lambda>cfg.
       if is_native_xrp cfg then Err (VeGeneric ''Native-XRP collateral uses the XRP deposit flow'') else Ok cfg)"

definition open_begin ::
    "principal \<Rightarrow> u64 \<Rightarrow> principal option \<Rightarrow> u64 \<Rightarrow> ('d, 'f) icp_canister
       \<Rightarrow> ('d, 'f) icp_canister \<times> (vault_error, flow) outcome" where
  "open_begin caller amount collateral_type_opt now c =
     (case guard_new caller ''open_vault'' now (icn_guards c) of
        (g, Ok _) \<Rightarrow>
          let s = icn_state c;
              ct = (case collateral_type_opt of None \<Rightarrow> ic_icp_ledger_principal s | Some t \<Rightarrow> t);
              failed = c\<lparr>icn_guards := guard_fail caller g\<rparr>
          in (case icrc_config s ct ''Collateral type not supported'' of
                Ok cfg \<Rightarrow>
                  if \<not> allows_open (cf_status cfg) then (failed, Err (VeGeneric ''Collateral type is not accepting new vaults''))
                  else if cf_min_collateral_deposit cfg > 0 \<and> amount < cf_min_collateral_deposit cfg
                  then (failed, Err (VeAmountTooLow (cf_min_collateral_deposit cfg)))
                  else await_call now (CallOpen caller ct amount) (PullCollateral ct caller amount) (c\<lparr>icn_guards := g\<rparr>)
              | Err e \<Rightarrow> (failed, Err e)
              | Trap \<Rightarrow> (c, Trap))
      | (g, Err e) \<Rightarrow> (c\<lparr>icn_guards := g\<rparr>, Err (guard_failure e))
      | (g, Trap) \<Rightarrow> (c, Trap))"

definition fresh_vault :: "principal \<Rightarrow> u64 \<Rightarrow> principal \<Rightarrow> u64 \<Rightarrow> u64 \<Rightarrow> icp_vault" where
  "fresh_vault owner amount ct vault_id now =
     \<lparr>iv_owner = owner, iv_borrowed_icusd_amount = 0, iv_collateral_amount = amount, iv_vault_id = vault_id, iv_collateral_type = ct,
      iv_last_accrual_time = now, iv_accrued_interest = 0, iv_bot_processing = False\<rparr>"

text \<open>A panic of the record after the pull ends the message; on the replica the attempt to catch it does not run.\<close>

definition open_reply ::
    "('d, 'f) decimal \<Rightarrow> principal \<Rightarrow> principal \<Rightarrow> u64 \<Rightarrow> u64 \<Rightarrow> vault_transfer_error + u64 \<Rightarrow> ('d, 'f) icp_canister
       \<Rightarrow> ('d, 'f) icp_canister \<times> (vault_error, u64) outcome" where
  "open_reply D caller ct amount now reply c =
     (let released = c\<lparr>icn_guards := guard_forget caller (icn_guards c)\<rparr> in
      case reply of
        Inr block \<Rightarrow>
          (case Option.bind (increment_vault_id (icn_state c)) (\<lambda>(s1, vid).
                  map_option (\<lambda>s2. (s2, vid)) (open_vault D (fresh_vault caller amount ct vid now) s1)) of
             Some (s2, vid) \<Rightarrow> (released\<lparr>icn_state := s2\<rparr>, Ok vid)
           | None \<Rightarrow> (released, Trap))
      | Inl e \<Rightarrow> (note_bad_fee ct e released, Err (VeTransferFrom e amount)))"

definition margin_decide :: "principal \<Rightarrow> u64 \<Rightarrow> u64 \<Rightarrow> ('d, 'f) icp_canister \<Rightarrow> (vault_error, principal) outcome" where
  "margin_decide caller vault_id amount c =
     (let s = icn_state c in
      and_then (ok_or (VeGeneric ''Vault not found'') (bm_get (ic_vault_id_to_vaults s) vault_id)) (\<lambda>v.
      and_then (icrc_config s (iv_collateral_type v) ''Collateral type not configured'') (\<lambda>cfg.
      and_then (require_vault_not_processing v) (\<lambda>_.
      if cf_min_collateral_deposit cfg > 0 \<and> amount < cf_min_collateral_deposit cfg then Err (VeAmountTooLow (cf_min_collateral_deposit cfg))
      else
      and_then (status_permits allows_add_collateral ''Adding collateral is not allowed for this collateral type'' s (iv_collateral_type v)) (\<lambda>_.
      and_then (owned_by caller v) (\<lambda>_. Ok (iv_collateral_type v)))))))"

definition margin_begin ::
    "principal \<Rightarrow> u64 \<Rightarrow> u64 \<Rightarrow> u64 \<Rightarrow> ('d, 'f) icp_canister \<Rightarrow> ('d, 'f) icp_canister \<times> (vault_error, flow) outcome" where
  "margin_begin caller vault_id amount now =
     first_message caller ''add_margin_vault_'' vault_id now (\<lambda>c1.
       case and_then (no_active_preflight vault_id now c1) (\<lambda>_. margin_decide caller vault_id amount c1) of
         Ok ct \<Rightarrow> await_call now (CallMargin caller vault_id amount ct) (PullCollateral ct caller amount) c1
       | Err e \<Rightarrow> (c1, Err e)
       | Trap \<Rightarrow> (c1, Trap))"

definition margin_reply ::
    "('d, 'f) decimal \<Rightarrow> principal \<Rightarrow> u64 \<Rightarrow> u64 \<Rightarrow> principal \<Rightarrow> vault_transfer_error + u64 \<Rightarrow> ('d, 'f) icp_canister
       \<Rightarrow> ('d, 'f) icp_canister \<times> (vault_error, u64) outcome" where
  "margin_reply D caller vault_id amount ct reply c =
     (case reply of
        Inr block \<Rightarrow>
          (case add_margin_to_vault D vault_id amount (icn_state c) of
             Some s \<Rightarrow> (call_leave caller vault_id (c\<lparr>icn_state := s\<rparr>), Ok block)
           | None \<Rightarrow> (call_leave caller vault_id c, Trap))
      | Inl e \<Rightarrow> (call_leave caller vault_id (note_bad_fee ct e c), Err (VeTransferFrom e amount)))"

section \<open>Withdrawing\<close>

definition dust_debt_threshold :: u64 where
  "dust_debt_threshold = 50000"

definition has_dust :: "icp_vault \<Rightarrow> bool" where
  "has_dust v \<longleftrightarrow> 0 < iv_borrowed_icusd_amount v \<and> iv_borrowed_icusd_amount v \<le> dust_debt_threshold"

text \<open>\<^verbatim>\<open>get_mut\<close> on the vault, nothing where it is unknown, and the new key in the ratio index\<close>

definition touch_vault :: "('d, 'f) decimal \<Rightarrow> u64 \<Rightarrow> (icp_vault \<Rightarrow> icp_vault) \<Rightarrow> ('d, 'f) ics \<Rightarrow> ('d, 'f) ics option" where
  "touch_vault D vault_id f s = reindex_vault_cr D vault_id (s\<lparr>ic_vault_id_to_vaults := bm_modify vault_id f (ic_vault_id_to_vaults s)\<rparr>)"

definition forgive_dust :: "('d, 'f) decimal \<Rightarrow> u64 \<Rightarrow> ('d, 'f) ics \<Rightarrow> ('d, 'f) ics option" where
  "forgive_dust D vault_id s = touch_vault D vault_id (\<lambda>v. v\<lparr>iv_borrowed_icusd_amount := 0, iv_accrued_interest := 0\<rparr>) s"

definition set_collateral :: "('d, 'f) decimal \<Rightarrow> u64 \<Rightarrow> u64 \<Rightarrow> ('d, 'f) ics \<Rightarrow> ('d, 'f) ics option" where
  "set_collateral D vault_id amount s = touch_vault D vault_id (\<lambda>v. v\<lparr>iv_collateral_amount := amount\<rparr>) s"

text \<open>What may leave the vault: everything without debt, otherwise what the minimum ratio does not need.\<close>

definition max_withdrawable ::
    "('d, 'f) decimal \<Rightarrow> ('d, 'f) ics \<Rightarrow> icp_vault \<Rightarrow> 'd \<Rightarrow> u8 \<Rightarrow> (vault_error, u64) outcome" where
  "max_withdrawable D s v price decimals =
     (if iv_borrowed_icusd_amount v = 0 \<or> has_dust v then Ok (iv_collateral_amount v)
      else
        and_then (or_trap (effective_min_ratio D s (iv_collateral_type v))) (\<lambda>min_ratio.
        and_then (or_trap (token_mul_ratio D (iv_borrowed_icusd_amount v) min_ratio)) (\<lambda>min_value.
        and_then (or_trap (icusd_to_collateral_amount D min_value price decimals)) (\<lambda>min_collateral.
          if iv_collateral_amount v \<le> min_collateral then Err (VeGeneric ''No excess collateral to withdraw'')
          else Ok (iv_collateral_amount v - min_collateral)))))"

definition partial_vault ::
    "('d, 'f) decimal \<Rightarrow> principal \<Rightarrow> u64 \<Rightarrow> u64 \<Rightarrow> ('d, 'f) icp_canister
       \<Rightarrow> (vault_error, icp_vault \<times> 'd \<times> ('d, 'f) collateral_config) outcome" where
  "partial_vault D caller vault_id amount c =
     (let s = icn_state c in
      and_then (ok_or (VeGeneric ''Vault not found'') (bm_get (ic_vault_id_to_vaults s) vault_id)) (\<lambda>v.
      and_then (ok_or (VeGeneric ''No price available for collateral'') (get_collateral_price_decimal D s (iv_collateral_type v))) (\<lambda>price.
      and_then (ok_or (VeGeneric ''Collateral type not configured'') (get_collateral_config s (iv_collateral_type v))) (\<lambda>cfg.
      and_then (require_vault_not_processing v) (\<lambda>_.
      if cf_min_collateral_deposit cfg > 0 \<and> amount < cf_min_collateral_deposit cfg then Err (VeAmountTooLow (cf_min_collateral_deposit cfg))
      else
      and_then (status_permits allows_withdraw ''Withdrawal is not allowed for this collateral type'' s (iv_collateral_type v)) (\<lambda>_.
      and_then (owned_by caller v) (\<lambda>_.
      if iv_collateral_amount v = 0 then Err (VeGeneric ''No collateral to withdraw'') else Ok (v, price, cfg))))))))"

text \<open>The collateral leaves by a transfer, or as a claim on native XRP.\<close>

definition partial_send ::
    "('d, 'f) decimal \<Rightarrow> principal \<Rightarrow> u64 \<Rightarrow> u64 \<Rightarrow> u64 \<Rightarrow> icp_vault \<Rightarrow> ('d, 'f) collateral_config \<Rightarrow> ('d, 'f) icp_canister
       \<Rightarrow> ('d, 'f) icp_canister \<times> (vault_error, flow) outcome" where
  "partial_send D caller vault_id amount now v cfg c =
     (if is_native_xrp cfg then
        case remove_margin_from_vault D vault_id amount (icn_state c) of
          None \<Rightarrow> (c, Trap)
        | Some s \<Rightarrow>
            let (c', claim_id) = record_xrp_claim caller caller vault_id amount now (c\<lparr>icn_state := s\<rparr>)
            in (c', Ok (Finished (Some claim_id)))
      else if amount < cf_ledger_fee cfg then (c, Trap)
      else await_call now (CallPartial caller vault_id amount)
             (PayCollateral (iv_collateral_type v) caller (amount - cf_ledger_fee cfg)) c)"

definition partial_limited ::
    "('d, 'f) decimal \<Rightarrow> principal \<Rightarrow> u64 \<Rightarrow> u64 \<Rightarrow> u64 \<Rightarrow> icp_vault \<Rightarrow> 'd \<Rightarrow> ('d, 'f) collateral_config \<Rightarrow> ('d, 'f) icp_canister
       \<Rightarrow> ('d, 'f) icp_canister \<times> (vault_error, flow) outcome" where
  "partial_limited D caller vault_id amount now v price cfg c =
     (case max_withdrawable D (icn_state c) v price (cf_decimals cfg) of
        Ok most \<Rightarrow>
          if amount > most then (c, Err (VeGeneric ''Withdrawal amount exceeds maximum''))
          else partial_send D caller vault_id amount now v cfg c
      | Err e \<Rightarrow> (c, Err e)
      | Trap \<Rightarrow> (c, Trap))"

text \<open>Dust is forgiven before the amount is checked, and stays forgiven when the check fails.\<close>

definition partial_checked ::
    "('d, 'f) decimal \<Rightarrow> principal \<Rightarrow> u64 \<Rightarrow> u64 \<Rightarrow> u64 \<Rightarrow> ('d, 'f) icp_canister
       \<Rightarrow> ('d, 'f) icp_canister \<times> (vault_error, flow) outcome" where
  "partial_checked D caller vault_id amount now =
     after_accrual D vault_id now (\<lambda>c1.
       case partial_vault D caller vault_id amount c1 of
         Ok (v, price, cfg) \<Rightarrow>
           (case (if has_dust v then forgive_dust D vault_id (icn_state c1) else Some (icn_state c1)) of
              None \<Rightarrow> (c1, Trap)
            | Some s2 \<Rightarrow> partial_limited D caller vault_id amount now v price cfg (c1\<lparr>icn_state := s2\<rparr>))
       | Err e \<Rightarrow> (c1, Err e)
       | Trap \<Rightarrow> (c1, Trap))"

definition partial_begin ::
    "('d, 'f) decimal \<Rightarrow> principal \<Rightarrow> u64 \<Rightarrow> u64 \<Rightarrow> u64 \<Rightarrow> ('d, 'f) icp_canister
       \<Rightarrow> ('d, 'f) icp_canister \<times> (vault_error, flow) outcome" where
  "partial_begin D caller vault_id amount now =
     first_message caller ''withdraw_partial_'' vault_id now (partial_checked D caller vault_id amount now)"

definition partial_reply ::
    "('d, 'f) decimal \<Rightarrow> principal \<Rightarrow> u64 \<Rightarrow> u64 \<Rightarrow> vault_transfer_error + u64 \<Rightarrow> ('d, 'f) icp_canister
       \<Rightarrow> ('d, 'f) icp_canister \<times> (vault_error, u64) outcome" where
  "partial_reply D caller vault_id amount reply c =
     (case reply of
        Inr block \<Rightarrow>
          (case remove_margin_from_vault D vault_id amount (icn_state c) of
             Some s \<Rightarrow> (call_leave caller vault_id (c\<lparr>icn_state := s\<rparr>), Ok block)
           | None \<Rightarrow> (call_leave caller vault_id c, Trap))
      | Inl e \<Rightarrow> (call_leave caller vault_id c, Err (VeTransfer e)))"

text \<open>The whole collateral of a vault: taken out of the book before the transfer and put back when it fails.\<close>

definition pay_out_all ::
    "('d, 'f) decimal \<Rightarrow> (principal \<Rightarrow> u64 \<Rightarrow> u64 \<Rightarrow> icp_call) \<Rightarrow> principal \<Rightarrow> u64 \<Rightarrow> u64 \<Rightarrow> icp_vault \<Rightarrow> ('d, 'f) collateral_config
       \<Rightarrow> ('d, 'f) icp_canister \<Rightarrow> ('d, 'f) icp_canister \<times> (vault_error, flow) outcome" where
  "pay_out_all D call caller vault_id now v cfg c =
     (case set_collateral D vault_id 0 (icn_state c) of
        None \<Rightarrow> (c, Trap)
      | Some s1 \<Rightarrow>
          let c1 = c\<lparr>icn_state := s1\<rparr>; amount = iv_collateral_amount v in
          if is_native_xrp cfg then
            let (c2, claim_id) = record_xrp_claim caller caller vault_id amount now c1 in (c2, Ok (Finished (Some claim_id)))
          else if amount < cf_ledger_fee cfg then (c1, Trap)
          else await_call now (call caller vault_id amount)
                 (PayCollateral (iv_collateral_type v) caller (amount - cf_ledger_fee cfg)) c1)"

definition put_back ::
    "('d, 'f) decimal \<Rightarrow> principal \<Rightarrow> u64 \<Rightarrow> u64 \<Rightarrow> vault_transfer_error \<Rightarrow> ('d, 'f) icp_canister
       \<Rightarrow> ('d, 'f) icp_canister \<times> (vault_error, 'a) outcome" where
  "put_back D caller vault_id amount e c =
     (case set_collateral D vault_id amount (icn_state c) of
        Some s \<Rightarrow> (call_leave caller vault_id (c\<lparr>icn_state := s\<rparr>), Err (VeTransfer e))
      | None \<Rightarrow> (call_leave caller vault_id c, Trap))"

definition withdraw_vault ::
    "principal \<Rightarrow> u64 \<Rightarrow> ('d, 'f) icp_canister \<Rightarrow> (vault_error, icp_vault \<times> ('d, 'f) collateral_config) outcome" where
  "withdraw_vault caller vault_id c =
     (let s = icn_state c in
      and_then (ok_or (VeGeneric ''Vault not found'') (bm_get (ic_vault_id_to_vaults s) vault_id)) (\<lambda>v.
      and_then (require_vault_not_processing v) (\<lambda>_.
      and_then (status_permits allows_withdraw ''Withdrawal is not allowed for this collateral type'' s (iv_collateral_type v)) (\<lambda>_.
      and_then (owned_by caller v) (\<lambda>_.
      if iv_borrowed_icusd_amount v > 0 then Err (VeGeneric ''Vault has debt'')
      else if iv_collateral_amount v = 0 then Err (VeGeneric ''No collateral to withdraw'')
      else
      and_then (ok_or (VeGeneric ''Collateral type not configured'') (get_collateral_config s (iv_collateral_type v))) (\<lambda>cfg.
        Ok (v, cfg)))))))"

definition withdraw_all_begin ::
    "('d, 'f) decimal \<Rightarrow> principal \<Rightarrow> u64 \<Rightarrow> u64 \<Rightarrow> ('d, 'f) icp_canister
       \<Rightarrow> ('d, 'f) icp_canister \<times> (vault_error, flow) outcome" where
  "withdraw_all_begin D caller vault_id now =
     first_message caller ''withdraw_collateral_'' vault_id now (\<lambda>c1.
       case and_then (no_active_preflight vault_id now c1) (\<lambda>_. withdraw_vault caller vault_id c1) of
         Ok (v, cfg) \<Rightarrow> pay_out_all D CallWithdraw caller vault_id now v cfg c1
       | Err e \<Rightarrow> (c1, Err e)
       | Trap \<Rightarrow> (c1, Trap))"

definition withdraw_all_reply ::
    "('d, 'f) decimal \<Rightarrow> principal \<Rightarrow> u64 \<Rightarrow> u64 \<Rightarrow> vault_transfer_error + u64 \<Rightarrow> ('d, 'f) icp_canister
       \<Rightarrow> ('d, 'f) icp_canister \<times> (vault_error, u64) outcome" where
  "withdraw_all_reply D caller vault_id amount reply c =
     (case reply of
        Inr block \<Rightarrow> (call_leave caller vault_id c, Ok block)
      | Inl e \<Rightarrow> put_back D caller vault_id amount e c)"

section \<open>Withdrawing and closing\<close>

definition closing_vault ::
    "principal \<Rightarrow> u64 \<Rightarrow> ('d, 'f) icp_canister \<Rightarrow> (vault_error, icp_vault) outcome" where
  "closing_vault caller vault_id c =
     (let s = icn_state c in
      and_then (ok_or (VeGeneric ''Vault not found'') (bm_get (ic_vault_id_to_vaults s) vault_id)) (\<lambda>v.
      and_then (require_vault_not_processing v) (\<lambda>_.
      and_then (status_permits (\<lambda>st. allows_withdraw st \<and> allows_close st) ''Withdraw-and-close is not allowed for this collateral type''
                  s (iv_collateral_type v)) (\<lambda>_.
      and_then (owned_by caller v) (\<lambda>_.
      if iv_borrowed_icusd_amount v > 0 \<and> \<not> has_dust v then Err (VeGeneric ''Cannot close vault while it has outstanding debt'')
      else Ok v)))))"

text \<open>The end of the call: the vault is removed where it still exists.\<close>

definition close_now :: "u64 \<Rightarrow> u64 option \<Rightarrow> ('d, 'f) icp_canister \<Rightarrow> ('d, 'f) icp_canister \<times> (vault_error, u64 option) outcome" where
  "close_now vault_id block c =
     (if bm_has (ic_vault_id_to_vaults (icn_state c)) vault_id then
        case close_vault vault_id (icn_state c) of
          Some s \<Rightarrow> (c\<lparr>icn_state := s\<rparr>, Ok block)
        | None \<Rightarrow> (c, Trap)
      else (c, Ok block))"

definition withdraw_close_pay ::
    "('d, 'f) decimal \<Rightarrow> principal \<Rightarrow> u64 \<Rightarrow> u64 \<Rightarrow> icp_vault \<Rightarrow> ('d, 'f) icp_canister
       \<Rightarrow> ('d, 'f) icp_canister \<times> (vault_error, flow) outcome" where
  "withdraw_close_pay D caller vault_id now v c =
     (case get_collateral_config (icn_state c) (iv_collateral_type v) of
        None \<Rightarrow> (c, Err (VeGeneric ''Collateral type not configured''))
      | Some cfg \<Rightarrow>
          if iv_collateral_amount v > 0 then pay_out_all D CallWithdrawClose caller vault_id now v cfg c
          else if is_native_xrp cfg then (c, Ok (Finished None))
          else (case close_now vault_id None c of
                  (c', Ok b) \<Rightarrow> (c', Ok (Finished b))
                | (c', Err e) \<Rightarrow> (c', Err e)
                | (c', Trap) \<Rightarrow> (c', Trap)))"

definition withdraw_close_checked ::
    "('d, 'f) decimal \<Rightarrow> principal \<Rightarrow> u64 \<Rightarrow> u64 \<Rightarrow> ('d, 'f) icp_canister
       \<Rightarrow> ('d, 'f) icp_canister \<times> (vault_error, flow) outcome" where
  "withdraw_close_checked D caller vault_id now c1 =
     (case and_then (no_active_preflight vault_id now c1) (\<lambda>_. closing_vault caller vault_id c1) of
        Ok v \<Rightarrow>
          (case (if has_dust v then forgive_dust D vault_id (icn_state c1) else Some (icn_state c1)) of
             None \<Rightarrow> (c1, Trap)
           | Some s2 \<Rightarrow> withdraw_close_pay D caller vault_id now v (c1\<lparr>icn_state := s2\<rparr>))
      | Err e \<Rightarrow> (c1, Err e)
      | Trap \<Rightarrow> (c1, Trap))"

definition withdraw_close_begin ::
    "('d, 'f) decimal \<Rightarrow> principal \<Rightarrow> u64 \<Rightarrow> u64 \<Rightarrow> ('d, 'f) icp_canister
       \<Rightarrow> ('d, 'f) icp_canister \<times> (vault_error, flow) outcome" where
  "withdraw_close_begin D caller vault_id now =
     first_message caller ''withdraw_and_close_'' vault_id now (withdraw_close_checked D caller vault_id now)"

definition withdraw_close_reply ::
    "('d, 'f) decimal \<Rightarrow> principal \<Rightarrow> u64 \<Rightarrow> u64 \<Rightarrow> vault_transfer_error + u64 \<Rightarrow> ('d, 'f) icp_canister
       \<Rightarrow> ('d, 'f) icp_canister \<times> (vault_error, u64 option) outcome" where
  "withdraw_close_reply D caller vault_id amount reply c =
     (case reply of
        Inr block \<Rightarrow>
          (case close_now vault_id (Some block) c of
             (c', Trap) \<Rightarrow> (call_leave caller vault_id c, Trap)
           | (c', r) \<Rightarrow> (call_leave caller vault_id c', r))
      | Inl e \<Rightarrow> put_back D caller vault_id amount e c)"

section \<open>Closing an empty vault\<close>

definition minute_nanos :: u64 where
  "minute_nanos = 60 * 1000000000"

definition day_nanos :: u64 where
  "day_nanos = 24 * 60 * minute_nanos"

text \<open>The limits of \<^verbatim>\<open>close_vault\<close>: per user and for all users, per minute and per day, and on the calls that run. The vector of all
  requests is in order of time, so the expired ones are a prefix.\<close>

definition check_close_vault_rate_limit ::
    "u64 \<Rightarrow> principal \<Rightarrow> ('d, 'f) icp_canister \<Rightarrow> ('d, 'f) icp_canister \<times> (vault_error, unit) outcome" where
  "check_close_vault_rate_limit now p c =
     (let cutoff = sat_sub now day_nanos;
          own = bm_modify p (filter (\<lambda>t. t > cutoff)) (icn_close_vault_requests c);
          all = dropWhile (\<lambda>t. t \<le> cutoff) (icn_global_close_requests c);
          mine = bm_get_or [] own p;
          c1 = c\<lparr>icn_close_vault_requests := own, icn_global_close_requests := all\<rparr>;
          limited = (\<lambda>msg. (c1, Err (VeGeneric msg)))
      in if length (filter (\<lambda>t. t > wrap64 (now + 2 ^ 64 - minute_nanos)) mine) \<ge> 5 then limited ''Maximum 5 close_vault calls per minute per user''
         else if length mine \<ge> 60 then limited ''Maximum 60 close_vault calls per day per user''
         else if length (dropWhile (\<lambda>t. t \<le> sat_sub now minute_nanos) all) \<ge> 300 then limited ''Maximum 300 close_vault calls per minute globally''
         else if length all \<ge> 30000 then limited ''Maximum 30,000 close_vault calls per day globally''
         else if icn_concurrent_close_operations c \<ge> 200 then limited ''Maximum 200 concurrent close_vault operations''
         else (c1, Ok ()))"

definition record_close_vault_request :: "u64 \<Rightarrow> principal \<Rightarrow> ('d, 'f) icp_canister \<Rightarrow> ('d, 'f) icp_canister" where
  "record_close_vault_request now p c =
     c\<lparr>icn_close_vault_requests := bm_insert p (bm_get_or [] (icn_close_vault_requests c) p @ [now]) (icn_close_vault_requests c),
       icn_global_close_requests := icn_global_close_requests c @ [now],
       icn_concurrent_close_operations := (icn_concurrent_close_operations c + 1) mod 2 ^ 32\<rparr>"

definition complete_close_vault_request :: "('d, 'f) icp_canister \<Rightarrow> ('d, 'f) icp_canister" where
  "complete_close_vault_request c = c\<lparr>icn_concurrent_close_operations := icn_concurrent_close_operations c - 1\<rparr>"

definition dust_threshold :: u64 where
  "dust_threshold = 100"

definition close_empty ::
    "('d, 'f) decimal \<Rightarrow> u64 \<Rightarrow> icp_vault \<Rightarrow> ('d, 'f) icp_canister \<Rightarrow> ('d, 'f) icp_canister \<times> (vault_error, flow) outcome" where
  "close_empty D vault_id v c =
     (let refused = (\<lambda>c msg. (complete_close_vault_request c, Err (VeGeneric msg)));
          finish = (\<lambda>c. if iv_collateral_amount v > 0 then refused c ''Cannot close vault with remaining collateral''
             else if (case get_collateral_config (icn_state c) (iv_collateral_type v) of None \<Rightarrow> False | Some cfg \<Rightarrow> is_native_xrp cfg)
             then refused c ''Native-XRP vaults stay open''
             else case close_now vault_id None c of
               (c', Ok b) \<Rightarrow> (complete_close_vault_request c', Ok (Finished b))
             | (c', Err e) \<Rightarrow> (c', Err e)
             | (c', Trap) \<Rightarrow> (c', Trap))
      in if iv_borrowed_icusd_amount v \<le> dust_threshold then
           case repay_to_vault D vault_id (iv_borrowed_icusd_amount v) (icn_state c) of
             None \<Rightarrow> (c, Trap)
           | Some (s, _, _) \<Rightarrow>
               finish (c\<lparr>icn_state := s, icn_dust_forgiven_total := token_add (icn_dust_forgiven_total c) (iv_borrowed_icusd_amount v)\<rparr>)
         else refused c ''Cannot close vault with outstanding debt'')"

text \<open>Every refusal after the request is recorded completes it, but for one: a vault that the bot is processing.\<close>

definition close_checked ::
    "('d, 'f) decimal \<Rightarrow> principal \<Rightarrow> u64 \<Rightarrow> u64 \<Rightarrow> ('d, 'f) icp_canister
       \<Rightarrow> ('d, 'f) icp_canister \<times> (vault_error, flow) outcome" where
  "close_checked D caller vault_id now c =
     (case no_active_preflight vault_id now c of
        Err e \<Rightarrow> (c, Err e)
      | Trap \<Rightarrow> (c, Trap)
      | Ok _ \<Rightarrow>
          (case check_close_vault_rate_limit now caller c of
             (c1, Err e) \<Rightarrow> (c1, Err e)
           | (c1, Trap) \<Rightarrow> (c1, Trap)
           | (c1, Ok _) \<Rightarrow>
               let c2 = record_close_vault_request now caller c1 in
               (case accrue_single_vault D vault_id now (icn_state c2) of
                  None \<Rightarrow> (c2, Trap)
                | Some s \<Rightarrow>
                    let c3 = c2\<lparr>icn_state := s\<rparr>; refused = (\<lambda>e. (complete_close_vault_request c3, Err e)) in
                    (case bm_get (ic_vault_id_to_vaults s) vault_id of
                       None \<Rightarrow> refused (VeGeneric ''Vault not found'')
                     | Some v \<Rightarrow>
                         if iv_bot_processing v then (c3, Err (VeGeneric ''Vault is locked: bot liquidation in progress''))
                         else
                           (case status_permits allows_close ''Closing vaults is not allowed for this collateral type'' s (iv_collateral_type v) of
                              Err e \<Rightarrow> refused e
                            | Trap \<Rightarrow> (c3, Trap)
                            | Ok _ \<Rightarrow>
                                if caller \<noteq> iv_owner v then refused VeCallerNotOwner
                                else close_empty D vault_id v c3)))))"

definition close_begin ::
    "('d, 'f) decimal \<Rightarrow> principal \<Rightarrow> u64 \<Rightarrow> u64 \<Rightarrow> ('d, 'f) icp_canister
       \<Rightarrow> ('d, 'f) icp_canister \<times> (vault_error, flow) outcome" where
  "close_begin D caller vault_id now =
     first_message caller ''close_vault_'' vault_id now (close_checked D caller vault_id now)"

section \<open>Corrections by the developer\<close>

text \<open>Neither correction takes the lock of the vault. The collateral can only be lowered, and the vault keeps its place in the
  ratio index; the debt can be set to any amount, and the vault is filed anew. Unknown vaults of a list are passed over.\<close>

definition admin_correct_vault_collateral ::
    "principal \<Rightarrow> u64 \<Rightarrow> u64 \<Rightarrow> ('d, 'f) icp_canister \<Rightarrow> ('d, 'f) icp_canister \<times> (vault_error, unit) outcome" where
  "admin_correct_vault_collateral caller vault_id new_collateral_amount c =
     (if icn_developer_principal c \<noteq> caller then (c, Err (VeGeneric ''Only developer can correct vault collateral''))
      else
        case bm_get (ic_vault_id_to_vaults (icn_state c)) vault_id of
          None \<Rightarrow> (c, Err (VeGeneric ''Vault not found''))
        | Some v \<Rightarrow>
            if new_collateral_amount > iv_collateral_amount v then (c, Err (VeGeneric ''Admin corrections can only reduce collateral''))
            else (c\<lparr>icn_state := (icn_state c)\<lparr>ic_vault_id_to_vaults :=
                bm_modify vault_id (\<lambda>v. v\<lparr>iv_collateral_amount := new_collateral_amount\<rparr>) (ic_vault_id_to_vaults (icn_state c))\<rparr>\<rparr>, Ok ()))"

type_synonym vault_debt_correction = "u64 \<times> u64 \<times> u64"

definition correct_vault_debt :: "('d, 'f) decimal \<Rightarrow> vault_debt_correction \<Rightarrow> ('d, 'f) ics \<Rightarrow> ('d, 'f) ics option" where
  "correct_vault_debt D x s =
     (case x of (vault_id, correct_borrowed, correct_accrued) \<Rightarrow>
        if bm_has (ic_vault_id_to_vaults s) vault_id
        then touch_vault D vault_id (\<lambda>v. v\<lparr>iv_borrowed_icusd_amount := correct_borrowed, iv_accrued_interest := correct_accrued\<rparr>) s
        else Some s)"

definition admin_correct_vault_debts ::
    "('d, 'f) decimal \<Rightarrow> principal \<Rightarrow> vault_debt_correction list \<Rightarrow> ('d, 'f) icp_canister
       \<Rightarrow> ('d, 'f) icp_canister \<times> (vault_error, unit) outcome" where
  "admin_correct_vault_debts D caller corrections c =
     (if icn_developer_principal c \<noteq> caller then (c, Err (VeGeneric ''Only developer can correct vault debts''))
      else
        case fold_opt (correct_vault_debt D) corrections (icn_state c) of
          None \<Rightarrow> (c, Trap)
        | Some s \<Rightarrow> (c\<lparr>icn_state := s\<rparr>, Ok ()))"

end
