(* ===== verification/Icp_Calls.thy ===== *)
theory Icp_Calls
  imports Icp_Endpoints Icp_Guarantees
begin

text \<open>
  The owner's endpoints as a machine: the canister with the calls that wait for a ledger, in any interleaving, together with the
  interest timer, redemptions and the developer's corrections, which take no lock. The invariant says that the locked vaults are exactly
  those of the waiting calls, that such a call finds its vault as it left it unless it was corrected, and that debt and reservations exceed
  the ceilings by no more than accrued interest and corrections added. Liquidations and the claims of the bot are not steps: each takes the
  lock of its vault first, which the machine has for the owner's calls only.
\<close>

section \<open>Debt per collateral\<close>

definition debts :: "('d, 'f) ics \<Rightarrow> principal \<Rightarrow> nat" where
  "debts s ct = bm_sum (\<lambda>v. if iv_collateral_type v = ct then iv_borrowed_icusd_amount v else 0) (ic_vault_id_to_vaults s)"

lemma bm_sum_mono: "(\<And>v. f v \<le> g v) \<Longrightarrow> bm_sum f m \<le> bm_sum g m"
  unfolding bm_sum_def by (rule sum_list_mono) simp

lemma debts_le_all: "debts s ct \<le> total_debt s"
  unfolding debts_def total_debt_def by (rule bm_sum_mono) simp

lemma sum_map_filter:
  "distinct ks \<Longrightarrow> sum_list (map g (List.map_filter (bm_get m) ks)) = (\<Sum>k \<in> set ks \<inter> dom (bm_get m). g (the (bm_get m k)) :: nat)"
proof (induction ks)
  case (Cons k ks)
  show ?case
  proof (cases "bm_get m k")
    case None
    then have "set (k # ks) \<inter> dom (bm_get m) = set ks \<inter> dom (bm_get m)" by auto
    with None Cons show ?thesis by (simp add: List.map_filter_simps)
  next
    case (Some v)
    then have "set (k # ks) \<inter> dom (bm_get m) = insert k (set ks \<inter> dom (bm_get m))" by auto
    with Some Cons show ?thesis by (simp add: List.map_filter_simps)
  qed
qed (simp add: List.map_filter_simps)

lemma bm_keys_distinct: "distinct (bm_keys m)"
  by (simp add: bm_keys_def bm.entries_distinct)

lemma bm_keys_set: "k \<in> set (bm_keys m) \<longleftrightarrow> bm_has m k"
  by (simp add: bm_has_def bm_keys_def bm_get_def map_of_eq_None_iff)

text \<open>The index of the book finds the whole debt of a collateral.\<close>

lemma total_debt_indexed:
  assumes "book_ok s"
  shows "total_debt_for_collateral s ct = wrap64 (debts s ct)"
proof -
  let ?vs = "ic_vault_id_to_vaults s" and ?f = "\<lambda>v. if iv_collateral_type v = ct then iv_borrowed_icusd_amount v else 0"
  have mem: "in_index (ic_collateral_to_vault_ids s) ct vid \<longleftrightarrow> (\<exists>w. bm_get ?vs vid = Some w \<and> iv_collateral_type w = ct)" for vid
    using assms by (simp add: book_ok_def index_ok_def mirrors_def)
  let ?K = "{k. \<exists>w. bm_get ?vs k = Some w \<and> iv_collateral_type w = ct}"
  have "debts s ct = (\<Sum>k \<in> dom (bm_get ?vs). ?f (the (bm_get ?vs k)))" 
    unfolding debts_def bm_sum_def by (rule bm.sum_entries)
  also have "\<dots> = (\<Sum>k \<in> ?K. iv_borrowed_icusd_amount (the (bm_get ?vs k)))"
    by (rule sum.mono_neutral_cong_right) (auto simp: bm.finite_keys)
  finally have debts: "debts s ct = (\<Sum>k \<in> ?K. iv_borrowed_icusd_amount (the (bm_get ?vs k)))" .
  show ?thesis
  proof (cases "bm_get (ic_collateral_to_vault_ids s) ct")
    case None
    then have "?K = {}" using mem by (auto simp: in_index_def)
    with debts None show ?thesis by (simp add: total_debt_for_collateral_def indexed_vaults_def)
  next
    case (Some ids)
    have "bm_has ids vid \<longleftrightarrow> vid \<in> ?K" for vid using mem [of vid] Some by (simp add: in_index_def)
    then have "set (bm_keys ids) \<inter> dom (bm_get ?vs) = ?K" by (auto simp: bm_keys_set)
    then have "sum_list (map iv_borrowed_icusd_amount (indexed_vaults s ct)) = debts s ct"
      using sum_map_filter [OF bm_keys_distinct, of iv_borrowed_icusd_amount ?vs ids] Some debts by (simp add: indexed_vaults_def)
    then show ?thesis by (simp add: total_debt_for_collateral_def)
  qed
qed

lemma debts_replaced:
  assumes "bm_get (ic_vault_id_to_vaults s) vid = Some v" and "ic_vault_id_to_vaults t = bm_insert vid w (ic_vault_id_to_vaults s)"
    and "iv_collateral_type w = iv_collateral_type v" and "iv_borrowed_icusd_amount w = iv_borrowed_icusd_amount v + x"
  shows "debts t ct = debts s ct + (if ct = iv_collateral_type v then x else 0)" and "total_debt t = total_debt s + x"
  using bm_sum_insert_old [OF assms(1), of "\<lambda>v. if iv_collateral_type v = ct then iv_borrowed_icusd_amount v else 0" w]
    bm_sum_insert_old [OF assms(1), of iv_borrowed_icusd_amount w] assms(2-4)
  by (auto simp: debts_def total_debt_def split: if_splits)

text \<open>No vault owes more: what has a debt had at least that debt before, in the same collateral.\<close>

definition less_debt :: "('d, 'f) ics \<Rightarrow> ('d, 'f) ics \<Rightarrow> bool" where
  "less_debt s t \<longleftrightarrow> (\<forall>k w. bm_get (ic_vault_id_to_vaults t) k = Some w \<longrightarrow> 0 < iv_borrowed_icusd_amount w \<longrightarrow>
     (\<exists>v. bm_get (ic_vault_id_to_vaults s) k = Some v \<and> iv_collateral_type w = iv_collateral_type v
        \<and> iv_borrowed_icusd_amount w \<le> iv_borrowed_icusd_amount v))"

lemma less_debt_refl [simp]: "less_debt s s"
  by (simp add: less_debt_def)

lemma less_debt_same: "ic_vault_id_to_vaults t = ic_vault_id_to_vaults s \<Longrightarrow> less_debt s t"
  by (simp add: less_debt_def)

lemma less_debtE:
  assumes "less_debt s t" and "bm_get (ic_vault_id_to_vaults t) k = Some w" and "0 < iv_borrowed_icusd_amount w"
  obtains v where "bm_get (ic_vault_id_to_vaults s) k = Some v" "iv_collateral_type w = iv_collateral_type v"
    "iv_borrowed_icusd_amount w \<le> iv_borrowed_icusd_amount v"
  using assms by (auto simp: less_debt_def)

lemma less_debt_trans:
  assumes "less_debt s t" and "less_debt t u"
  shows "less_debt s u"
  unfolding less_debt_def
proof (intro allI impI)
  fix k w assume w: "bm_get (ic_vault_id_to_vaults u) k = Some w" "0 < iv_borrowed_icusd_amount w"
  from less_debtE [OF assms(2) w] obtain v where v: "bm_get (ic_vault_id_to_vaults t) k = Some v" "iv_collateral_type w = iv_collateral_type v"
    "iv_borrowed_icusd_amount w \<le> iv_borrowed_icusd_amount v" .
  with w(2) have "0 < iv_borrowed_icusd_amount v" by simp
  from less_debtE [OF assms(1) v(1) this] v(2,3)
  show "\<exists>v. bm_get (ic_vault_id_to_vaults s) k = Some v \<and> iv_collateral_type w = iv_collateral_type v
      \<and> iv_borrowed_icusd_amount w \<le> iv_borrowed_icusd_amount v" by (metis le_trans)
qed

lemma bm_sum_less:
  fixes f :: "'v \<Rightarrow> nat"
  assumes "\<And>k w. bm_get m' k = Some w \<Longrightarrow> 0 < f w \<Longrightarrow> \<exists>v. bm_get m k = Some v \<and> f w \<le> f v"
  shows "bm_sum f m' \<le> bm_sum f m"
proof -
  let ?K = "{k \<in> dom (bm_get m'). 0 < f (the (bm_get m' k))}"
  have "bm_sum f m' = (\<Sum>k \<in> dom (bm_get m'). f (the (bm_get m' k)))" unfolding bm_sum_def by (rule bm.sum_entries)
  also have "\<dots> = (\<Sum>k \<in> ?K. f (the (bm_get m' k)))" by (rule sum.mono_neutral_right) (auto simp: bm.finite_keys)
  also have "\<dots> \<le> (\<Sum>k \<in> ?K. f (the (bm_get m k)))" using assms by (fastforce intro: sum_mono)
  also have "\<dots> \<le> (\<Sum>k \<in> dom (bm_get m). f (the (bm_get m k)))"
    using assms by (intro sum_mono2 bm.finite_keys) (force dest: assms)+
  also have "\<dots> = bm_sum f m" unfolding bm_sum_def by (rule bm.sum_entries [symmetric])
  finally show ?thesis .
qed

lemma less_debts:
  assumes "less_debt s t"
  shows "debts t ct \<le> debts s ct" and "total_debt t \<le> total_debt s"
  using assms unfolding debts_def total_debt_def less_debt_def by (intro bm_sum_less; fastforce split: if_splits)+

section \<open>What a call may change\<close>

text \<open>A call on one vault leaves the other vaults alone, keeps the book in order and does not touch the ceilings; the vault keeps
  its owner and collateral, or is removed.\<close>

definition same_ceilings :: "('d, 'f) ics \<Rightarrow> ('d, 'f) ics \<Rightarrow> bool" where
  "same_ceilings s t \<longleftrightarrow> debt_ceiling_of t = debt_ceiling_of s"

definition vault_kept :: "icp_vault option \<Rightarrow> icp_vault option \<Rightarrow> bool" where
  "vault_kept v w \<longleftrightarrow>
     (case w of None \<Rightarrow> True
      | Some b \<Rightarrow> (case v of None \<Rightarrow> False
                   | Some a \<Rightarrow> iv_owner b = iv_owner a \<and> iv_collateral_type b = iv_collateral_type a))"

definition own_change :: "u64 \<Rightarrow> ('d, 'f) ics \<Rightarrow> ('d, 'f) ics \<Rightarrow> bool" where
  "own_change vid s t \<longleftrightarrow> (book_ok s \<longrightarrow> book_ok t) \<and> same_ceilings s t
     \<and> (\<forall>k. k \<noteq> vid \<longrightarrow> bm_get (ic_vault_id_to_vaults t) k = bm_get (ic_vault_id_to_vaults s) k)
     \<and> vault_kept (bm_get (ic_vault_id_to_vaults s) vid) (bm_get (ic_vault_id_to_vaults t) vid)"

lemma own_change_refl [simp]: "own_change vid s s"
  by (simp add: own_change_def same_ceilings_def vault_kept_def split: option.splits)

lemma own_change_trans: "own_change vid s t \<Longrightarrow> own_change vid t u \<Longrightarrow> own_change vid s u"
  by (auto simp: own_change_def same_ceilings_def vault_kept_def split: option.splits)

lemma config_frame:
  assumes "ic_collateral_configs t = ic_collateral_configs s" and "ic_icp_ledger_principal t = ic_icp_ledger_principal s"
  shows "same_ceilings s t"
  using assms by (simp add: same_ceilings_def debt_ceiling_of_def get_collateral_config_def resolve_ct_def fun_eq_iff)

lemma reindex_frame:
  assumes "reindex_vault_cr D vid s = Some t"
  shows "ic_vault_id_to_vaults t = ic_vault_id_to_vaults s" "ic_collateral_configs t = ic_collateral_configs s"
    "ic_icp_ledger_principal t = ic_icp_ledger_principal s"
  using assms by (auto simp: reindex_vault_cr_def unindex_vault_cr_eq Let_def split: option.splits)

lemma touched_frame:
  assumes "touch_vault D vid f s = Some t"
  shows "ic_vault_id_to_vaults t = bm_modify vid f (ic_vault_id_to_vaults s)" "same_ceilings s t"
  using reindex_frame [OF assms [unfolded touch_vault_def]] by (simp_all add: config_frame)

lemma rekeyed_touch: "rekeyed D vid f s = Some t \<Longrightarrow> bm_has (ic_vault_id_to_vaults s) vid \<and> touch_vault D vid f s = Some t"
  by (auto simp: rekeyed_def touch_vault_def split: if_splits)

lemma touched_own:
  assumes "touch_vault D vid f s = Some t" and "keeps_keys f"
  shows "own_change vid s t"
proof -
  have "book_ok t" if "book_ok s"
    using reindex_book(1) [OF book_ok_part [OF modified_book [OF that assms(2)]] assms(1) [unfolded touch_vault_def]] .
  with touched_frame [OF assms(1)] assms(2) show ?thesis
    by (auto simp: own_change_def vault_kept_def keeps_keys_def split: option.splits)
qed

lemma rekeyed_own: "rekeyed D vid f s = Some t \<Longrightarrow> keeps_keys f \<Longrightarrow> own_change vid s t"
  using rekeyed_touch touched_own by blast

lemma keeps_updates [simp]:
  "keeps_keys (\<lambda>v. v\<lparr>iv_borrowed_icusd_amount := f v\<rparr>)" "keeps_keys (\<lambda>v. v\<lparr>iv_collateral_amount := f v\<rparr>)"
  "keeps_keys (\<lambda>v. v\<lparr>iv_borrowed_icusd_amount := f v, iv_accrued_interest := g v\<rparr>)"
  by (simp_all add: keeps_keys_def)

lemma operations_own:
  "borrow_from_vault D vid x s = Some t \<Longrightarrow> own_change vid s t"
  "add_margin_to_vault D vid x s = Some t \<Longrightarrow> own_change vid s t"
  "remove_margin_from_vault D vid x s = Some t \<Longrightarrow> own_change vid s t"
  "forgive_dust D vid s = Some t \<Longrightarrow> own_change vid s t"
  "set_collateral D vid x s = Some t \<Longrightarrow> own_change vid s t"
  by (auto simp: borrow_from_vault_def add_margin_to_vault_def remove_margin_from_vault_def forgive_dust_def set_collateral_def
      intro: rekeyed_own touched_own)

lemma repay_own: "repay_to_vault D vid x s = Some (t, i, p) \<Longrightarrow> own_change vid s t"
  by (auto simp: repay_to_vault_def bind_eq_Some_conv Let_def intro: rekeyed_own)

lemma accrue_own: "accrue_single_vault D vid now s = Some t \<Longrightarrow> own_change vid s t"
  using accrued_one_book [of s D vid now t]
  by (auto simp: accrue_single_vault_def own_change_def vault_kept_def bind_eq_Some_conv config_frame dest: accrued_vault_keeps
      split: option.splits if_splits)

lemma closed_own: "close_vault vid s = Some t \<Longrightarrow> own_change vid s t"
  using closed_book [of s vid t]
  by (auto simp: close_vault_def remove_vault_and_unindex_def own_change_def vault_kept_def config_frame unindex_vault_cr_eq
      unindex_vault_by_collateral_def split: option.splits prod.splits)

lemmas own_rules = operations_own repay_own accrue_own closed_own

text \<open>Of these only borrowing and accrual add debt.\<close>

lemma touched_debt:
  assumes "touch_vault D vid f s = Some t" and "keeps_keys f" and "\<And>v. iv_borrowed_icusd_amount (f v) \<le> iv_borrowed_icusd_amount v"
  shows "less_debt s t"
  using assms(2,3) unfolding less_debt_def touched_frame(1) [OF assms(1)]
  by (auto simp: keeps_keys_def bm_modify_def split: option.splits if_splits)

lemma rekeyed_debt:
  "rekeyed D vid f s = Some t \<Longrightarrow> keeps_keys f \<Longrightarrow> (\<And>v. iv_borrowed_icusd_amount (f v) \<le> iv_borrowed_icusd_amount v) \<Longrightarrow> less_debt s t"
  using rekeyed_touch touched_debt by blast

lemma operations_debt:
  "add_margin_to_vault D vid x s = Some t \<Longrightarrow> less_debt s t"
  "remove_margin_from_vault D vid x s = Some t \<Longrightarrow> less_debt s t"
  "forgive_dust D vid s = Some t \<Longrightarrow> less_debt s t"
  "set_collateral D vid x s = Some t \<Longrightarrow> less_debt s t"
  by (auto simp: add_margin_to_vault_def remove_margin_from_vault_def forgive_dust_def set_collateral_def
      elim!: rekeyed_debt touched_debt)

lemma repay_debt: "repay_to_vault D vid x s = Some (t, i, p) \<Longrightarrow> less_debt s t"
  by (auto simp: repay_to_vault_def bind_eq_Some_conv Let_def sat_sub_def elim!: rekeyed_debt)

lemma closed_debt: "close_vault vid s = Some t \<Longrightarrow> less_debt s t"
  by (auto simp: close_vault_def remove_vault_and_unindex_def less_debt_def unindex_vault_cr_eq unindex_vault_by_collateral_def
      split: option.splits prod.splits if_splits)

lemmas debt_rules = operations_debt repay_debt closed_debt

definition accrued :: "('d, 'f) decimal \<Rightarrow> u64 \<Rightarrow> u64 \<Rightarrow> ('d, 'f) ics \<Rightarrow> ('d, 'f) ics" where
  "accrued D vid now s = (case accrue_single_vault D vid now s of None \<Rightarrow> s | Some t \<Rightarrow> t)"

section \<open>The machine\<close>

text \<open>\<open>in_interest\<close> and \<open>in_all_interest\<close> count, per collateral and in all, how much debt was added by accrual, \<open>in_raised\<close>
  and \<open>in_all_raised\<close> how much by corrections of debts. \<open>in_corrected\<close> has the vaults whose collateral was corrected since the call that
  waits on them began.\<close>

record ('d, 'f) icp_node =
  in_canister :: "('d, 'f) icp_canister"
  in_flight :: "icp_call list"
  in_interest :: "principal \<Rightarrow> nat"
  in_all_interest :: nat
  in_raised :: "principal \<Rightarrow> nat"
  in_all_raised :: nat
  in_corrected :: "u64 set"

fun call_vaults :: "icp_call \<Rightarrow> u64 list" where
  "call_vaults (CallOpen p ct x) = []"
| "call_vaults (CallBorrow p vid x fee ct minted) = [vid]"
| "call_vaults (CallRepay p vid x ct) = [vid]"
| "call_vaults (CallRepaid p vid ct) = [vid]"
| "call_vaults (CallMargin p vid x ct) = [vid]"
| "call_vaults (CallPartial p vid x) = [vid]"
| "call_vaults (CallWithdraw p vid x) = [vid]"
| "call_vaults (CallWithdrawClose p vid x) = [vid]"

text \<open>What a waiting call may rely on, when the collateral of the vaults of a set was corrected\<close>

fun call_ok :: "u64 set \<Rightarrow> ('d, 'f) ics \<Rightarrow> icp_call \<Rightarrow> bool" where
  "call_ok L s (CallOpen p ct x) = True"
| "call_ok L s (CallBorrow p vid x fee ct minted) =
     (case bm_get (ic_vault_id_to_vaults s) vid of None \<Rightarrow> False | Some v \<Rightarrow> iv_owner v = p \<and> iv_collateral_type v = ct)"
| "call_ok L s (CallPartial p vid x) =
     (case bm_get (ic_vault_id_to_vaults s) vid of None \<Rightarrow> False | Some v \<Rightarrow> iv_owner v = p \<and> (vid \<notin> L \<longrightarrow> x \<le> iv_collateral_amount v))"
| "call_ok L s (CallRepay p vid x ct) = (case bm_get (ic_vault_id_to_vaults s) vid of None \<Rightarrow> False | Some v \<Rightarrow> iv_owner v = p)"
| "call_ok L s (CallRepaid p vid ct) = (case bm_get (ic_vault_id_to_vaults s) vid of None \<Rightarrow> False | Some v \<Rightarrow> iv_owner v = p)"
| "call_ok L s (CallMargin p vid x ct) = (case bm_get (ic_vault_id_to_vaults s) vid of None \<Rightarrow> False | Some v \<Rightarrow> iv_owner v = p)"
| "call_ok L s (CallWithdraw p vid x) =
     (case bm_get (ic_vault_id_to_vaults s) vid of None \<Rightarrow> False | Some v \<Rightarrow> iv_owner v = p \<and> iv_collateral_amount v = 0)"
| "call_ok L s (CallWithdrawClose p vid x) =
     (case bm_get (ic_vault_id_to_vaults s) vid of None \<Rightarrow> False | Some v \<Rightarrow> iv_owner v = p \<and> iv_collateral_amount v = 0)"

fun reserved_by :: "icp_call \<Rightarrow> principal \<Rightarrow> nat" where
  "reserved_by (CallBorrow p vid x fee ct minted) a = (if a = ct then x else 0)"
| "reserved_by k a = 0"

fun unminted_by :: "icp_call \<Rightarrow> principal \<Rightarrow> nat" where
  "unminted_by (CallBorrow p vid x fee ct False) a = (if a = ct then x else 0)"
| "unminted_by k a = 0"

fun borrowed_by :: "bool \<Rightarrow> icp_call \<Rightarrow> nat" where
  "borrowed_by b (CallBorrow p vid x fee ct minted) = (if b \<or> \<not> minted then x else 0)"
| "borrowed_by b k = 0"

definition reserved :: "principal \<Rightarrow> icp_call list \<Rightarrow> nat" where
  "reserved a ks = sum_list (map (\<lambda>k. reserved_by k a) ks)"

definition unminted :: "principal \<Rightarrow> icp_call list \<Rightarrow> nat" where
  "unminted a ks = sum_list (map (\<lambda>k. unminted_by k a) ks)"

definition all_reserved :: "icp_call list \<Rightarrow> nat" where
  "all_reserved ks = sum_list (map (borrowed_by True) ks)"

definition all_unminted :: "icp_call list \<Rightarrow> nat" where
  "all_unminted ks = sum_list (map (borrowed_by False) ks)"

definition awaiting :: "(vault_error, flow) outcome \<Rightarrow> icp_call list" where
  "awaiting r = (case r of Ok (Await k m) \<Rightarrow> [k] | _ \<Rightarrow> [])"

text \<open>The node after a message that does not record a borrow. The state \<open>a\<close> is the one that the accrual of the message led to: of the
  growth of the debt only what is there already is counted as interest.\<close>

definition moved :: "('d, 'f) ics \<Rightarrow> ('d, 'f) icp_canister \<Rightarrow> icp_call list \<Rightarrow> ('d, 'f) icp_node \<Rightarrow> ('d, 'f) icp_node" where
  "moved a c' ks n =
     (let s = icn_state (in_canister n); t = icn_state c' in
      n\<lparr>in_canister := c', in_flight := ks,
        in_interest := (\<lambda>ct. in_interest n ct + (min (debts a ct) (debts t ct) - debts s ct)),
        in_all_interest := in_all_interest n + (min (total_debt a) (total_debt t) - total_debt s),
        in_corrected := in_corrected n \<inter> {vid. bm_has (icn_locked (in_canister n)) vid}\<rparr>)"

abbreviation passed :: "('d, 'f) icp_canister \<Rightarrow> icp_call list \<Rightarrow> ('d, 'f) icp_node \<Rightarrow> ('d, 'f) icp_node" where
  "passed c' ks n \<equiv> moved (icn_state (in_canister n)) c' ks n"

definition raised :: "('d, 'f) icp_canister \<Rightarrow> ('d, 'f) icp_node \<Rightarrow> ('d, 'f) icp_node" where
  "raised c' n =
     (let s = icn_state (in_canister n); t = icn_state c' in
      n\<lparr>in_canister := c', in_raised := (\<lambda>ct. in_raised n ct + (debts t ct - debts s ct)),
        in_all_raised := in_all_raised n + (total_debt t - total_debt s)\<rparr>)"

abbreviation debt_room :: "('d, 'f) icp_canister \<Rightarrow> icp_call list \<Rightarrow> bool" where
  "debt_room c ks \<equiv> total_debt (icn_state c) + all_unminted ks \<le> u64_max \<and> all_reserved ks \<le> u64_max"

text \<open>The first message of an endpoint, with the state that its accrual leads to\<close>

inductive first_step ::
    "('d, 'f) decimal \<Rightarrow> ('d, 'f) icp_canister \<Rightarrow> ('d, 'f) ics \<Rightarrow> ('d, 'f) icp_canister \<times> (vault_error, flow) outcome \<Rightarrow> bool"
  for D :: "('d, 'f) decimal" where
  "first_step D c (accrued D vid now (icn_state c)) (borrow_begin D key p vid x now c)"
| "first_step D c (accrued D vid now (icn_state c)) (repay_begin D p vid x now c)"
| "first_step D c (icn_state c) (margin_begin p vid x now c)"
| "first_step D c (accrued D vid now (icn_state c)) (partial_begin D p vid x now c)"
| "first_step D c (icn_state c) (withdraw_all_begin D p vid now c)"
| "first_step D c (icn_state c) (withdraw_close_begin D p vid now c)"
| "first_step D c (accrued D vid now (icn_state c)) (close_begin D p vid now c)"

text \<open>The last message of a call, and the answer to it\<close>

inductive last_step :: "('d, 'f) decimal \<Rightarrow> icp_call \<Rightarrow> ('d, 'f) icp_canister \<Rightarrow> ('d, 'f) icp_canister \<Rightarrow> bool"
  for D :: "('d, 'f) decimal" where
  "\<not> is_Ok (snd (borrow_minted D p vid x fee ct r c)) \<Longrightarrow> last_step D (CallBorrow p vid x fee ct False) c (fst (borrow_minted D p vid x fee ct r c))"
| "last_step D (CallBorrow p vid x fee ct True) c (borrow_end p vid x ct c)"
| "\<not> is_Ok (snd (repay_pulled D p vid x r c)) \<Longrightarrow> last_step D (CallRepay p vid x ct) c (fst (repay_pulled D p vid x r c))"
| "last_step D (CallRepaid p vid ct) c (repay_end p vid ct u c)"
| "last_step D (CallMargin p vid x ct) c (fst (margin_reply D p vid x ct r c))"
| "last_step D (CallPartial p vid x) c (fst (partial_reply D p vid x r c))"
| "last_step D (CallWithdraw p vid x) c (fst (withdraw_all_reply D p vid x r c))"
| "last_step D (CallWithdrawClose p vid x) c (fst (withdraw_close_reply D p vid x r c))"

text \<open>A redemption runs in one message and passes over the locked vaults. The steps are those after which the total debt and the
  reservations still are 64-bit numbers; the code adds them with wrap-around.\<close>

inductive icp_move :: "('d, 'f) decimal \<Rightarrow> ('d, 'f) icp_node \<Rightarrow> ('d, 'f) icp_node \<Rightarrow> bool"
  for D :: "('d, 'f) decimal" where
  first: "first_step D (in_canister n) a (c', r) \<Longrightarrow> icp_move D n (moved a c' (awaiting r @ in_flight n) n)"
| open_first: "open_begin p x t now (in_canister n) = (c', r) \<Longrightarrow> icp_move D n (passed c' (awaiting r @ in_flight n) n)"
| open_last: "in_flight n = ks @ CallOpen p ct x # ls \<Longrightarrow> open_reply D p ct x now r (in_canister n) = (c', b) \<Longrightarrow>
    icp_move D n (passed c' (ks @ ls) n)"
| minted: "in_flight n = ks @ CallBorrow p vid x fee ct False # ls \<Longrightarrow>
    borrow_minted D p vid x fee ct r (in_canister n) = (c', Ok k) \<Longrightarrow>
    icp_move D n (n\<lparr>in_canister := c', in_flight := ks @ k # ls\<rparr>)"
| repaid: "in_flight n = ks @ CallRepay p vid x ct # ls \<Longrightarrow> repay_pulled D p vid x r (in_canister n) = (c', Ok i) \<Longrightarrow>
    icp_move D n (passed c' (ks @ CallRepaid p vid ct # ls) n)"
| last: "in_flight n = ks @ k # ls \<Longrightarrow> last_step D k (in_canister n) c' \<Longrightarrow> icp_move D n (passed c' (ks @ ls) n)"
| interest: "accrue_all_vault_interest D now (icn_state (in_canister n)) = Some s \<Longrightarrow>
    icp_move D n (moved s ((in_canister n)\<lparr>icn_state := s\<rparr>) (in_flight n) n)"
| harvest: "icp_move D n (passed ((in_canister n)\<lparr>icn_state := harvest_accrued_interest (icn_state (in_canister n))\<rparr>) (in_flight n) n)"
| redeem: "redeem_on_vaults D {vid. bm_has (icn_locked (in_canister n)) vid} x price ct (icn_state (in_canister n)) = Some (s, rs) \<Longrightarrow>
    icp_move D n (passed ((in_canister n)\<lparr>icn_state := s\<rparr>) (in_flight n) n)"
| correct_collateral: "admin_correct_vault_collateral q vid x (in_canister n) = (c', r) \<Longrightarrow>
    icp_move D n (n\<lparr>in_canister := c', in_corrected := insert vid (in_corrected n)\<rparr>)"
| correct_debts: "admin_correct_vault_debts D q xs (in_canister n) = (c', r) \<Longrightarrow> icp_move D n (raised c' n)"

definition icp_step :: "('d, 'f) decimal \<Rightarrow> ('d, 'f) icp_node \<Rightarrow> ('d, 'f) icp_node \<Rightarrow> bool" where
  "icp_step D n m \<longleftrightarrow> icp_move D n m \<and> debt_room (in_canister m) (in_flight m)"

definition icp_start :: "('d, 'f) icp_canister \<Rightarrow> ('d, 'f) icp_node" where
  "icp_start c = \<lparr>in_canister = c\<lparr>icn_state := empty_book (icn_state c), icn_locked := bm_empty, icn_reservations := bm_empty\<rparr>,
     in_flight = [], in_interest = (\<lambda>_. 0), in_all_interest = 0, in_raised = (\<lambda>_. 0), in_all_raised = 0, in_corrected = {}\<rparr>"

section \<open>The invariant\<close>

definition below_ceilings :: "('d, 'f) icp_node \<Rightarrow> bool" where
  "below_ceilings n \<longleftrightarrow>
     (let s = icn_state (in_canister n); cap = icn_global_icusd_mint_cap (in_canister n) in
      (\<forall>ct. debt_ceiling_of s ct < u64_max \<longrightarrow> debts s ct + unminted ct (in_flight n) \<le> debt_ceiling_of s ct + in_interest n ct + in_raised n ct)
      \<and> (cap < u64_max \<longrightarrow> total_debt s + all_unminted (in_flight n) \<le> cap + in_all_interest n + in_all_raised n))"

definition locks_ok :: "('d, 'f) icp_canister \<Rightarrow> icp_call list \<Rightarrow> bool" where
  "locks_ok c ks \<longleftrightarrow> distinct (concat (map call_vaults ks)) \<and> (\<forall>vid. bm_has (icn_locked c) vid \<longleftrightarrow> vid \<in> set (concat (map call_vaults ks)))"

definition reservations_ok :: "('d, 'f) icp_canister \<Rightarrow> icp_call list \<Rightarrow> bool" where
  "reservations_ok c ks \<longleftrightarrow> (\<forall>ct. bm_get_or 0 (icn_reservations c) ct = reserved ct ks) \<and> bm_sum (\<lambda>x. x) (icn_reservations c) = all_reserved ks"

definition icp_inv :: "('d, 'f) icp_node \<Rightarrow> bool" where
  "icp_inv n \<longleftrightarrow> book_ok (icn_state (in_canister n)) \<and> locks_ok (in_canister n) (in_flight n)
     \<and> (\<forall>k \<in> set (in_flight n). call_ok (in_corrected n) (icn_state (in_canister n)) k) \<and> reservations_ok (in_canister n) (in_flight n)
     \<and> below_ceilings n \<and> debt_room (in_canister n) (in_flight n)"

end
