(* ===== verification/Icp_Machine.thy ===== *)
theory Icp_Machine
  imports Icp_Calls
begin

text \<open>
  The invariant of the owner's endpoints: every step of the machine keeps it. A first message is treated once for all
  endpoints: the locks around it, then what its body may do to its own vault.
\<close>

section \<open>What the steps keep\<close>

text \<open>Vaults of the set stay, with their owner, collateral type and collateral.\<close>

definition kept_on :: "u64 set \<Rightarrow> ('d, 'f) ics \<Rightarrow> ('d, 'f) ics \<Rightarrow> bool" where
  "kept_on L s t \<longleftrightarrow> (book_ok s \<longrightarrow> book_ok t) \<and> same_ceilings s t
     \<and> (\<forall>k \<in> L. \<forall>v. bm_get (ic_vault_id_to_vaults s) k = Some v \<longrightarrow>
          (\<exists>w. bm_get (ic_vault_id_to_vaults t) k = Some w \<and> iv_owner w = iv_owner v \<and> iv_collateral_type w = iv_collateral_type v
               \<and> iv_collateral_amount w = iv_collateral_amount v))"

lemma own_change_kept: "own_change vid s t \<Longrightarrow> vid \<notin> L \<Longrightarrow> kept_on L s t"
  by (auto simp: own_change_def kept_on_def)

lemma kept_on_refl [simp]: "kept_on L s s"
  by (simp add: kept_on_def same_ceilings_def)

lemma call_ok_kept:
  "kept_on L s t \<Longrightarrow> set (call_vaults k) \<subseteq> L \<Longrightarrow> P \<inter> set (call_vaults k) \<subseteq> P' \<Longrightarrow> call_ok P s k \<Longrightarrow> call_ok P' t k"
  by (cases k) (fastforce simp: kept_on_def split: option.splits)+

lemma call_ok_any: "call_ok {} s k \<Longrightarrow> call_ok P s k"
  by (cases k) (auto split: option.splits)

lemma harvest_kept: "kept_on L s (harvest_accrued_interest s)"
  using harvested_book [of s] by (auto simp: kept_on_def harvest_accrued_interest_def config_frame)

lemma harvest_debt: "less_debt s (harvest_accrued_interest s)"
  by (auto simp: harvest_accrued_interest_def less_debt_def split: if_splits)

lemma deducted_own:
  "deduct_amount_from_vault D collateral actual vid s = Some (t, seized) \<Longrightarrow> own_change vid s t"
  by (auto simp: deduct_amount_from_vault_def bind_eq_Some_conv Let_def intro: rekeyed_own deducted_keeps)

interpretation passing: redemption_invariant D "- L"
  "\<lambda>acc. same_ceilings s0 (fst acc) \<and> (\<forall>k \<in> L. bm_get (ic_vault_id_to_vaults (fst acc)) k = bm_get (ic_vault_id_to_vaults s0) k)" for D L s0
  by unfold_locales (metis ComplD deducted_own fst_conv own_change_def same_ceilings_def)

lemma redeemed_kept:
  assumes "redeem_on_vaults D L x price ct s = Some (t, rs)"
  shows "kept_on L s t"
  using passing.redeemed [OF assms, of s L] redeemed_book [OF _ assms]
  by (auto simp: kept_on_def same_ceilings_def redeemable_def)

lemma deducted_debt: "deduct_amount_from_vault D collateral actual vid s = Some (t, seized) \<Longrightarrow> less_debt s t"
  by (auto simp: deduct_amount_from_vault_def bind_eq_Some_conv Let_def deducted_def sat_sub_def intro: deducted_keeps elim!: rekeyed_debt)

interpretation lowering: redemption_invariant D UNIV "\<lambda>acc. less_debt s0 (fst acc)" for D s0
  by unfold_locales (metis deducted_debt fst_conv less_debt_trans)

lemma redeemed_debt: "redeem_on_vaults D L x price ct s = Some (t, rs) \<Longrightarrow> less_debt s t"
  using lowering.redeemed [of D L x price ct s "(t, rs)" s] by simp

lemma accrued_all_kept:
  assumes "accrue_all_vault_interest D now s = Some t"
  shows "kept_on L s t"
proof -
  let ?keep = "\<lambda>vs. \<forall>k v. bm_get (ic_vault_id_to_vaults s) k = Some v \<longrightarrow>
    (\<exists>w. bm_get vs k = Some w \<and> iv_owner w = iv_owner v \<and> iv_collateral_type w = iv_collateral_type v
         \<and> iv_collateral_amount w = iv_collateral_amount v)"
  have keeps: "iv_owner w = iv_owner v \<and> iv_collateral_type w = iv_collateral_type v \<and> iv_collateral_amount w = iv_collateral_amount v"
    if "accrued_vault D rate elapsed now v = Some w" for rate elapsed v w
    using that by (auto simp: accrued_vault_def bind_eq_Some_conv split: option.splits)
  from assms obtain accruals vs where t: "t = s\<lparr>ic_vault_id_to_vaults := vs\<rparr>"
    and run: "fold_opt (\<lambda>(vid, rate, elapsed) vs.
               case bm_get vs vid of
                 None \<Rightarrow> Some vs
               | Some v \<Rightarrow> map_option (\<lambda>v'. bm_insert vid v' vs) (accrued_vault D rate elapsed now v))
             accruals (ic_vault_id_to_vaults s) = Some vs"
    by (auto simp: accrue_all_vault_interest_def bind_eq_Some_conv)
  have "?keep vs"
    by (rule fold_opt_inv [OF _ _ run, where P = ?keep]) (fastforce dest: keeps split: option.splits prod.splits if_splits)+
  then show ?thesis using accrued_all_book [OF _ assms] by (simp add: kept_on_def t config_frame)
qed

section \<open>First messages\<close>

definition granted :: "('d, 'f) icp_canister \<Rightarrow> ('d, 'f) icp_canister \<Rightarrow> icp_call list \<Rightarrow> bool" where
  "granted c c' ks \<longleftrightarrow>
     (case ks of
        [CallBorrow p vid x fee ct minted] \<Rightarrow>
          \<not> minted \<and> try_reserve ct x (total_debt_for_collateral (icn_state c') ct) (debt_ceiling_of (icn_state c') ct)
            (total_borrowed_icusd_amount (icn_state c')) (icn_global_icusd_mint_cap c') (icn_reservations c) = Ok (icn_reservations c')
      | _ \<Rightarrow> icn_reservations c' = icn_reservations c)"

text \<open>What the body of a message does between the locks\<close>

definition begun :: "u64 \<Rightarrow> ('d, 'f) icp_canister \<Rightarrow> ('d, 'f) icp_canister \<times> (vault_error, flow) outcome \<Rightarrow> bool" where
  "begun vid c res \<longleftrightarrow> icn_locked (fst res) = icn_locked c \<and> icn_global_icusd_mint_cap (fst res) = icn_global_icusd_mint_cap c
     \<and> own_change vid (icn_state c) (icn_state (fst res))
     \<and> (\<forall>k \<in> set (awaiting (snd res)). call_vaults k = [vid] \<and> call_ok {} (icn_state (fst res)) k)
     \<and> granted c (fst res) (awaiting (snd res))"

lemma awaiting_simps [simp]:
  "awaiting (Ok (Await k m)) = [k]" "awaiting (Ok (Finished b)) = []" "awaiting (Err e) = []" "awaiting Trap = []"
  by (simp_all add: awaiting_def)

lemma granted_none [simp]: "granted c c' [] \<longleftrightarrow> icn_reservations c' = icn_reservations c"
  by (simp add: granted_def)

lemma begun_none [simp]:
  "begun vid c (c', Err e) \<longleftrightarrow> icn_locked c' = icn_locked c \<and> icn_global_icusd_mint_cap c' = icn_global_icusd_mint_cap c
     \<and> own_change vid (icn_state c) (icn_state c') \<and> icn_reservations c' = icn_reservations c"
  "begun vid c (c', Trap) \<longleftrightarrow> icn_locked c' = icn_locked c \<and> icn_global_icusd_mint_cap c' = icn_global_icusd_mint_cap c
     \<and> own_change vid (icn_state c) (icn_state c') \<and> icn_reservations c' = icn_reservations c"
  "begun vid c (c', Ok (Finished b)) \<longleftrightarrow> icn_locked c' = icn_locked c \<and> icn_global_icusd_mint_cap c' = icn_global_icusd_mint_cap c
     \<and> own_change vid (icn_state c) (icn_state c') \<and> icn_reservations c' = icn_reservations c"
  by (simp_all add: begun_def)

lemma begun_await:
  "begun vid c (await_call now k msg c') \<longleftrightarrow> icn_locked c' = icn_locked c \<and> icn_global_icusd_mint_cap c' = icn_global_icusd_mint_cap c
     \<and> own_change vid (icn_state c) (icn_state c') \<and> call_vaults k = [vid] \<and> call_ok {} (icn_state c') k \<and> granted c c' [k]"
  by (auto simp: begun_def await_call_def next_op_nonce_def granted_def split: icp_call.splits)

lemma begun_later:
  "own_change vid (icn_state c) s \<Longrightarrow> begun vid (c\<lparr>icn_state := s\<rparr>) res \<Longrightarrow> begun vid c res"
  by (auto simp: begun_def granted_def intro: own_change_trans split: list.splits icp_call.splits)

lemma begun_accrual: "(\<And>c1. begun vid c1 (body c1)) \<Longrightarrow> begun vid c (after_accrual D vid now body c)"
  by (auto simp: after_accrual_def intro: begun_later accrue_own split: outcome.splits option.splits)

lemma borrow_decided:
  assumes "borrow_decide D key p vid x c = Ok (res, fee, ct)"
  obtains v where "bm_get (ic_vault_id_to_vaults (icn_state c)) vid = Some v" "iv_owner v = p" "iv_collateral_type v = ct"
    "try_reserve ct x (total_debt_for_collateral (icn_state c) ct) (debt_ceiling_of (icn_state c) ct)
       (total_borrowed_icusd_amount (icn_state c)) (icn_global_icusd_mint_cap c) (icn_reservations c) = Ok res"
  using assms
  by (auto simp: borrow_decide_def Let_def and_then_Ok_iff owned_by_def split: if_splits)

lemma borrow_begun: "begun vid c (borrow_checked D key p vid x now c)"
  unfolding borrow_checked_def
  by (auto intro!: begun_accrual simp: begun_await granted_def split: outcome.splits elim!: borrow_decided)


lemma owned_iff [simp]: "owned_by p v = Ok u \<longleftrightarrow> p = iv_owner v"
  by (simp add: owned_by_def)

lemma repay_begun: "begun vid c (repay_checked D p vid x full now c)"
  unfolding repay_checked_def
  by (auto intro!: begun_accrual simp: begun_await granted_def repay_decide_def Let_def and_then_Ok_iff
      split: outcome.splits if_splits)

lemma margin_begun:
  "begun vid c (case and_then (no_active_preflight vid now c) (\<lambda>_. margin_decide p vid x c) of
       Ok ct \<Rightarrow> await_call now (CallMargin p vid x ct) (PullCollateral ct p x) c
     | Err e \<Rightarrow> (c, Err e) | Trap \<Rightarrow> (c, Trap))"
  by (auto simp: begun_await granted_def margin_decide_def Let_def and_then_Ok_iff split: outcome.splits if_splits)

lemma claim_begun [simp]:
  "begun vid c (case record_xrp_claim p q nonce x now c' of (c1, i) \<Rightarrow> (c1, Ok (Finished (f i)))) \<longleftrightarrow> begun vid c (c', Ok (Finished None))"
  by (simp add: record_xrp_claim_def Let_def)

lemma partial_vault_ok:
  assumes "partial_vault D p vid x c = Ok (v, price, cfg)"
  shows "bm_get (ic_vault_id_to_vaults (icn_state c)) vid = Some v" and "iv_owner v = p"
  using assms by (auto simp: partial_vault_def Let_def and_then_Ok_iff split: if_splits)

lemma max_withdrawable_le: "max_withdrawable D s v price dec = Ok most \<Longrightarrow> most \<le> iv_collateral_amount v"
  by (auto simp: max_withdrawable_def and_then_Ok_iff split: if_splits)

lemma dust_forgiven:
  assumes "(if b then forgive_dust D vid s else Some s) = Some t"
  shows "own_change vid s t"
    and "bm_get (ic_vault_id_to_vaults s) vid = Some v \<Longrightarrow>
      \<exists>w. bm_get (ic_vault_id_to_vaults t) vid = Some w \<and> iv_owner w = iv_owner v \<and> iv_collateral_amount w = iv_collateral_amount v"
  using assms by (auto simp: forgive_dust_def touched_frame intro: operations_own split: if_splits)


lemma partial_send_begun:
  assumes "bm_get (ic_vault_id_to_vaults (icn_state c)) vid = Some w" and "iv_owner w = p" and "x \<le> iv_collateral_amount w"
  shows "begun vid c (partial_send D p vid x now v cfg c)"
  using assms by (auto simp: partial_send_def Let_def begun_await granted_def operations_own split: option.splits)

lemma partial_limited_begun:
  assumes "bm_get (ic_vault_id_to_vaults (icn_state c)) vid = Some w" and "iv_owner w = p" and "iv_collateral_amount w = iv_collateral_amount v"
  shows "begun vid c (partial_limited D p vid x now v price cfg c)"
  using assms partial_send_begun [OF assms(1,2), of x]
  by (auto simp: partial_limited_def dest!: max_withdrawable_le split: outcome.splits)

lemma partial_begun: "begun vid c (partial_checked D p vid x now c)"
proof -
  have "begun vid c1 (case partial_vault D p vid x c1 of
         Ok (v, price, cfg) \<Rightarrow>
           (case (if has_dust v then forgive_dust D vid (icn_state c1) else Some (icn_state c1)) of
              None \<Rightarrow> (c1, Trap)
            | Some s2 \<Rightarrow> partial_limited D p vid x now v price cfg (c1\<lparr>icn_state := s2\<rparr>))
       | Err e \<Rightarrow> (c1, Err e)
       | Trap \<Rightarrow> (c1, Trap))" for c1 :: "('a, 'b) icp_canister"
  proof (cases "partial_vault D p vid x c1")
    case (Ok a)
    obtain v price cfg where a: "a = (v, price, cfg)" by (cases a)
    note v = partial_vault_ok [OF Ok [unfolded a]]
    show ?thesis
    proof (cases "if has_dust v then forgive_dust D vid (icn_state c1) else Some (icn_state c1)")
      case (Some s2)
      from dust_forgiven [OF Some] v obtain w where "own_change vid (icn_state c1) s2"
        and w: "bm_get (ic_vault_id_to_vaults s2) vid = Some w" "iv_owner w = p" "iv_collateral_amount w = iv_collateral_amount v"
        by blast
      then show ?thesis by (simp only: Ok a Some outcome.case prod.case option.case) (rule begun_later, assumption, rule partial_limited_begun [where w = w], simp_all)
    qed (simp only: Ok a outcome.case prod.case option.case begun_none, simp)
  qed simp_all
  then show ?thesis unfolding partial_checked_def by (rule begun_accrual)
qed

lemma pay_out_begun:
  assumes "bm_get (ic_vault_id_to_vaults (icn_state c)) vid = Some w" and "iv_owner w = p"
    and "call = CallWithdraw \<or> call = CallWithdrawClose"
  shows "begun vid c (pay_out_all D call p vid now v cfg c)"
  using assms
  by (auto simp: pay_out_all_def Let_def begun_await granted_def operations_own set_collateral_def touched_frame
      intro: operations_own(5) [unfolded set_collateral_def] split: option.splits)


lemma withdraw_begun:
  "begun vid c (case and_then (no_active_preflight vid now c) (\<lambda>_. withdraw_vault p vid c) of
         Ok (v, cfg) \<Rightarrow> pay_out_all D CallWithdraw p vid now v cfg c
       | Err e \<Rightarrow> (c, Err e) | Trap \<Rightarrow> (c, Trap))"
  by (auto simp: withdraw_vault_def Let_def and_then_Ok_iff intro!: pay_out_begun split: outcome.splits if_splits)

lemma close_now_begun:
  "begun vid c (case close_now vid b c of (c', Ok b) \<Rightarrow> (c', Ok (Finished b)) | (c', Err e) \<Rightarrow> (c', Err e) | (c', Trap) \<Rightarrow> (c', Trap))"
  by (auto simp: close_now_def closed_own split: option.splits)

lemma withdraw_close_pay_begun:
  assumes "bm_get (ic_vault_id_to_vaults (icn_state c)) vid = Some w" and "iv_owner w = p"
  shows "begun vid c (withdraw_close_pay D p vid now v c)"
  using assms by (auto simp: withdraw_close_pay_def close_now_begun pay_out_begun split: option.splits)

lemma withdraw_close_begun: "begun vid c (withdraw_close_checked D p vid now c)"
proof (cases "and_then (no_active_preflight vid now c) (\<lambda>_. closing_vault p vid c)")
  case (Ok v)
  then have v: "bm_get (ic_vault_id_to_vaults (icn_state c)) vid = Some v" "iv_owner v = p"
    by (auto simp: closing_vault_def Let_def and_then_Ok_iff split: if_splits)
  show ?thesis
  proof (cases "if has_dust v then forgive_dust D vid (icn_state c) else Some (icn_state c)")
    case (Some s2)
    from dust_forgiven [OF Some] v obtain w where "own_change vid (icn_state c) s2"
      and "bm_get (ic_vault_id_to_vaults s2) vid = Some w" "iv_owner w = p" by blast
    then show ?thesis unfolding withdraw_close_checked_def
      by (simp only: Ok Some outcome.case option.case) (rule begun_later, assumption, rule withdraw_close_pay_begun [where w = w], simp_all)
  qed (simp only: withdraw_close_checked_def Ok outcome.case option.case begun_none, simp)
qed (simp_all add: withdraw_close_checked_def)

lemma rate_limit_frame:
  assumes "check_close_vault_rate_limit now p c = (c', r)"
  shows "icn_state c' = icn_state c" "icn_locked c' = icn_locked c" "icn_global_icusd_mint_cap c' = icn_global_icusd_mint_cap c"
    "icn_reservations c' = icn_reservations c"
  using assms by (auto simp: check_close_vault_rate_limit_def Let_def split: if_splits)

lemma request_frames [simp]:
  "icn_state (record_close_vault_request now p c) = icn_state c" "icn_locked (record_close_vault_request now p c) = icn_locked c"
  "icn_global_icusd_mint_cap (record_close_vault_request now p c) = icn_global_icusd_mint_cap c"
  "icn_reservations (record_close_vault_request now p c) = icn_reservations c"
  "icn_state (complete_close_vault_request c) = icn_state c" "icn_locked (complete_close_vault_request c) = icn_locked c"
  "icn_global_icusd_mint_cap (complete_close_vault_request c) = icn_global_icusd_mint_cap c"
  "icn_reservations (complete_close_vault_request c) = icn_reservations c"
  by (simp_all add: record_close_vault_request_def complete_close_vault_request_def)

lemma close_empty_begun: "begun vid c (close_empty D vid v c)"
  by (auto simp: close_empty_def Let_def close_now_def closed_own repay_own intro: own_change_trans [OF repay_own closed_own] split: option.splits)

lemma close_begun: "begun vid c (close_checked D p vid now c)"
proof (cases "check_close_vault_rate_limit now p c")
  case (Pair c1 r)
  note same = rate_limit_frame [OF Pair]
  have rest: "begun vid c res" if "accrue_single_vault D vid now (icn_state c) = Some s" and "begun vid ((record_close_vault_request now p c1)\<lparr>icn_state := s\<rparr>) res"
    for s res
    using that same by (auto simp: begun_def granted_def intro: own_change_trans accrue_own split: list.splits icp_call.splits)
  show ?thesis
    unfolding close_checked_def Let_def
    using same by (auto simp: Pair accrue_own intro: rest close_empty_begun split: outcome.splits option.splits)
qed


text \<open>The locks around a body: a vault whose lock is taken is not touched, and a message that ends leaves the locks as they were.\<close>

definition begun_locked :: "u64 \<Rightarrow> ('d, 'f) icp_canister \<Rightarrow> ('d, 'f) icp_canister \<times> (vault_error, flow) outcome \<Rightarrow> bool" where
  "begun_locked vid c res \<longleftrightarrow> icn_global_icusd_mint_cap (fst res) = icn_global_icusd_mint_cap c
     \<and> own_change vid (icn_state c) (icn_state (fst res))
     \<and> (bm_has (icn_locked c) vid \<longrightarrow> icn_state (fst res) = icn_state c \<and> awaiting (snd res) = [])
     \<and> (\<forall>k. bm_has (icn_locked (fst res)) k \<longleftrightarrow> bm_has (icn_locked c) k \<or> awaiting (snd res) \<noteq> [] \<and> k = vid)
     \<and> (\<forall>k \<in> set (awaiting (snd res)). call_vaults k = [vid] \<and> call_ok {} (icn_state (fst res)) k)
     \<and> granted c (fst res) (awaiting (snd res))"

lemma granted_locks: "granted (c\<lparr>icn_guards := g, icn_locked := l\<rparr>) c' ks = granted c c' ks"
  by (simp add: granted_def split: list.splits icp_call.splits)

lemma first_message_begun:
  assumes body: "\<And>c1. begun vid c1 (body c1)"
  shows "begun_locked vid c (first_message p name vid now body c)"
proof (cases "call_enter p name vid now c")
  case (Pair c1 r)
  have refl: "begun_locked vid c (c', r')" if "icn_state c' = icn_state c" "icn_locked c' = icn_locked c" "awaiting r' = []"
    "icn_global_icusd_mint_cap c' = icn_global_icusd_mint_cap c" "icn_reservations c' = icn_reservations c" for c' r'
    using that by (simp add: begun_locked_def)
  show ?thesis
  proof (cases r)
    case (Ok u)
    then obtain g where c1: "c1 = c\<lparr>icn_guards := g, icn_locked := bm_insert vid () (icn_locked c)\<rparr>" and free: "\<not> bm_has (icn_locked c) vid"
      using Pair by (auto simp: call_enter_def vault_lock_new_def split: prod.splits outcome.splits if_splits)
    obtain c2 r2 where b: "body c1 = (c2, r2)" by (cases "body c1")
    have ran: "begun vid c1 (c2, r2)" using body [of c1] b by simp
    then have loc: "icn_locked c2 = bm_insert vid () (icn_locked c)" and grant: "granted c c2 (awaiting r2)"
      by (simp_all add: begun_def c1 granted_locks)
    have left: "begun_locked vid c (call_leave p vid c2, r2)" if "awaiting r2 = []"
      using ran free grant that by (auto simp: begun_def begun_locked_def call_leave_def vault_lock_drop_def loc c1)
    have going: "begun_locked vid c (c2, r2)" if "awaiting r2 \<noteq> []"
      using ran free grant that by (auto simp: begun_def begun_locked_def loc c1)
    show ?thesis
      using left going refl [of c Trap] by (auto simp: first_message_def Pair Ok b split: outcome.splits flow.splits)
  qed (use Pair refl in \<open>auto simp: first_message_def call_enter_def vault_lock_new_def split: prod.splits outcome.splits option.splits if_splits\<close>)
qed

lemma first_step_begun: "first_step D c a res \<Longrightarrow> \<exists>vid. begun_locked vid c res"
  by (induction rule: first_step.induct)
    (auto simp: borrow_begin_def repay_begin_def margin_begin_def partial_begin_def withdraw_all_begin_def withdraw_close_begin_def close_begin_def
      intro!: exI first_message_begun borrow_begun repay_begun margin_begun partial_begun withdraw_begun withdraw_close_begun close_begun)

text \<open>A first message adds no debt beyond what its accrual adds.\<close>

definition owes_less :: "('d, 'f) ics \<Rightarrow> ('d, 'f) ics \<Rightarrow> ('d, 'f) ics \<Rightarrow> bool" where
  "owes_less a s t \<longleftrightarrow> less_debt s t \<or> less_debt a t"

lemma message_debt:
  assumes "\<And>c1. icn_state c1 = icn_state c \<Longrightarrow> owes_less a (icn_state c) (icn_state (fst (body c1)))"
  shows "owes_less a (icn_state c) (icn_state (fst (first_message p name vid now body c)))"
proof (cases "call_enter p name vid now c")
  case (Pair c1 r)
  have same: "icn_state c1 = icn_state c" using Pair by (auto simp: call_enter_def split: prod.splits outcome.splits option.splits)
  show ?thesis
    using assms [OF same] same
    by (auto simp: first_message_def Pair owes_less_def call_leave_def split: prod.splits outcome.splits flow.splits)
qed

lemma message_less:
  assumes "\<And>c1. less_debt (icn_state c1) (icn_state (fst (body c1)))"
  shows "owes_less a (icn_state c) (icn_state (fst (first_message p name vid now body c)))"
proof (rule message_debt)
  fix c1 :: "('a, 'b) icp_canister" assume "icn_state c1 = icn_state c"
  then show "owes_less a (icn_state c) (icn_state (fst (body c1)))" using assms [of c1] by (simp add: owes_less_def)
qed

lemma accrual_debt:
  assumes "\<And>c1. less_debt (icn_state c1) (icn_state (fst (body c1)))"
  shows "owes_less (accrued D vid now (icn_state c)) (icn_state c) (icn_state (fst (after_accrual D vid now body c)))"
proof -
  have "less_debt s (icn_state (fst (body (c\<lparr>icn_state := s\<rparr>))))" for s using assms [of "c\<lparr>icn_state := s\<rparr>"] by simp
  then show ?thesis by (auto simp: after_accrual_def owes_less_def accrued_def split: outcome.splits option.splits)
qed

lemma await_state [simp]: "icn_state (fst (await_call now k msg c)) = icn_state c"
  by (simp add: await_call_def next_op_nonce_def)

lemma claim_state [simp]: "icn_state (fst (case record_xrp_claim p q v x now c of (c1, i) \<Rightarrow> (c1, f i))) = icn_state c"
  by (simp add: record_xrp_claim_def Let_def)

lemma paid_debt:
  "less_debt (icn_state c) (icn_state (fst (partial_limited D p vid x now v price cfg c)))"
  "less_debt (icn_state c) (icn_state (fst (pay_out_all D call p vid now v cfg c)))"
  "less_debt (icn_state c) (icn_state (fst (close_now vid b c)))"
  by (auto simp: partial_limited_def partial_send_def pay_out_all_def close_now_def Let_def debt_rules split: outcome.splits option.splits)

lemma dust_debt:
  assumes "\<And>s. less_debt s (icn_state (fst (f (c\<lparr>icn_state := s\<rparr>))))"
  shows "less_debt (icn_state c) (icn_state (fst (case (if b then forgive_dust D vid (icn_state c) else Some (icn_state c)) of
      None \<Rightarrow> (c, Trap) | Some s2 \<Rightarrow> f (c\<lparr>icn_state := s2\<rparr>))))"
  using assms assms [of "icn_state c"] by (auto intro: less_debt_trans [OF operations_debt(3)] split: option.splits)

lemma partial_debt:
  "less_debt (icn_state c) (icn_state (fst (case partial_vault D p vid x c of
       Ok (v, price, cfg) \<Rightarrow>
         (case (if has_dust v then forgive_dust D vid (icn_state c) else Some (icn_state c)) of
            None \<Rightarrow> (c, Trap)
          | Some s2 \<Rightarrow> partial_limited D p vid x now v price cfg (c\<lparr>icn_state := s2\<rparr>))
     | Err e \<Rightarrow> (c, Err e)
     | Trap \<Rightarrow> (c, Trap))))"
proof (cases "partial_vault D p vid x c")
  case (Ok a)
  show ?thesis
    unfolding Ok outcome.case by (cases a, simp only: prod.case, rule dust_debt) (use paid_debt(1) [of "c\<lparr>icn_state := s\<rparr>" for s] in simp)
qed simp_all

lemma withdraw_close_debt: "less_debt (icn_state c) (icn_state (fst (withdraw_close_checked D p vid now c)))"
proof (cases "and_then (no_active_preflight vid now c) (\<lambda>_. closing_vault p vid c)")
  case (Ok v)
  have close: "less_debt s (icn_state (fst (case close_now vid b (c\<lparr>icn_state := s\<rparr>) of
      (c', Ok b) \<Rightarrow> (c', Ok (Finished b)) | (c', Err e) \<Rightarrow> (c', Err e) | (c', Trap) \<Rightarrow> (c', Trap))))" for s b
    using paid_debt(3) [of "c\<lparr>icn_state := s\<rparr>" vid b] by (auto split: prod.splits outcome.splits)
  have "less_debt s (icn_state (fst (withdraw_close_pay D p vid now v (c\<lparr>icn_state := s\<rparr>))))" for s
    using close paid_debt(2) [of "c\<lparr>icn_state := s\<rparr>"] by (auto simp: withdraw_close_pay_def split: option.splits)
  then show ?thesis unfolding withdraw_close_checked_def Ok outcome.case by (rule dust_debt)
qed (simp_all add: withdraw_close_checked_def)

lemma close_empty_debt: "less_debt (icn_state c) (icn_state (fst (close_empty D vid v c)))"
  by (auto simp: close_empty_def Let_def close_now_def intro: repay_debt less_debt_trans [OF repay_debt closed_debt] split: option.splits)

lemma close_debt: "owes_less (accrued D vid now (icn_state c)) (icn_state c) (icn_state (fst (close_checked D p vid now c)))"
proof (cases "check_close_vault_rate_limit now p c")
  case (Pair c1 r)
  note same = rate_limit_frame(1) [OF Pair]
  have "less_debt s (icn_state (fst (close_empty D vid v ((record_close_vault_request now p c1)\<lparr>icn_state := s\<rparr>))))" for s v
    using close_empty_debt [of "(record_close_vault_request now p c1)\<lparr>icn_state := s\<rparr>"] by simp
  then show ?thesis
    unfolding close_checked_def Let_def
    using same by (auto simp: Pair owes_less_def accrued_def split: outcome.splits option.splits)
qed

lemma first_step_debt: "first_step D c a res \<Longrightarrow> owes_less a (icn_state c) (icn_state (fst res))"
proof (induction rule: first_step.induct)
  case (1 c vid now key p x)
  have "owes_less (accrued D vid now (icn_state c)) (icn_state c) (icn_state (fst (borrow_checked D key p vid x now c1)))" if "icn_state c1 = icn_state c" for c1
    unfolding borrow_checked_def using that [symmetric]
    by (simp only: if_distrib [of fst] if_distrib [of icn_state]) (auto simp: owes_less_def [of _ "icn_state c1" "icn_state c1"] intro!: accrual_debt split: outcome.splits)
  then show ?case by (auto simp: borrow_begin_def intro: message_debt)
next
  case (2 c vid now p x)
  have "owes_less (accrued D vid now (icn_state c)) (icn_state c) (icn_state (fst (repay_checked D p vid x full now c1)))" if "icn_state c1 = icn_state c" for c1 full
    unfolding repay_checked_def using that [symmetric] by (simp only:) (rule accrual_debt, auto split: outcome.splits)
  then show ?case by (auto simp: repay_begin_def intro: message_debt)
next
  case (3 c p vid x now)
  show ?case unfolding margin_begin_def by (rule message_less) (auto split: outcome.splits)
next
  case (4 c vid now p x)
  have "owes_less (accrued D vid now (icn_state c)) (icn_state c) (icn_state (fst (partial_checked D p vid x now c1)))" if "icn_state c1 = icn_state c" for c1
    unfolding partial_checked_def using that [symmetric] by (simp only:) (rule accrual_debt, rule partial_debt)
  then show ?case by (auto simp: partial_begin_def intro: message_debt)
next
  case (5 c p vid now)
  have "less_debt (icn_state c1) (icn_state (fst (case and_then (no_active_preflight vid now c1) (\<lambda>_. withdraw_vault p vid c1) of
       Ok (v, cfg) \<Rightarrow> pay_out_all D CallWithdraw p vid now v cfg c1 | Err e \<Rightarrow> (c1, Err e) | Trap \<Rightarrow> (c1, Trap))))" for c1
    by (auto intro: paid_debt(2) split: outcome.splits)
  then show ?case unfolding withdraw_all_begin_def by (rule message_less)
next
  case (6 c p vid now)
  show ?case unfolding withdraw_close_begin_def by (rule message_less) (rule withdraw_close_debt)
next
  case (7 c vid now p)
  have "owes_less (accrued D vid now (icn_state c)) (icn_state c) (icn_state (fst (close_checked D p vid now c1)))" if "icn_state c1 = icn_state c" for c1
    using close_debt [of D vid now c1 p] by (simp add: that)
  then show ?case unfolding close_begin_def by (rule message_debt)
qed

section \<open>Last messages\<close>

definition ended :: "icp_call \<Rightarrow> ('d, 'f) icp_canister \<Rightarrow> ('d, 'f) icp_canister \<Rightarrow> bool" where
  "ended k c c' \<longleftrightarrow> icn_global_icusd_mint_cap c' = icn_global_icusd_mint_cap c
     \<and> (\<forall>vid. bm_has (icn_locked c') vid \<longleftrightarrow> bm_has (icn_locked c) vid \<and> vid \<notin> set (call_vaults k))
     \<and> (\<exists>vid. call_vaults k = [vid] \<and> own_change vid (icn_state c) (icn_state c')) \<and> less_debt (icn_state c) (icn_state c')
     \<and> icn_reservations c' =
         (case k of CallBorrow p vid x fee ct minted \<Rightarrow> release_borrow_reservation ct x (icn_reservations c) | _ \<Rightarrow> icn_reservations c)"

lemma leave_frames [simp]:
  "icn_state (call_leave p vid c) = icn_state c" "icn_reservations (call_leave p vid c) = icn_reservations c"
  "icn_global_icusd_mint_cap (call_leave p vid c) = icn_global_icusd_mint_cap c"
  "bm_has (icn_locked (call_leave p vid c)) k \<longleftrightarrow> k \<noteq> vid \<and> bm_has (icn_locked c) k"
  by (simp_all add: call_leave_def vault_lock_drop_def)

lemma elsewhere_own: "same_book s t \<Longrightarrow> same_ceilings s t \<Longrightarrow> own_change vid s t"
  by (simp add: own_change_def same_book_def book_ok_def vault_kept_def split: option.splits)

lemma bad_fee_own: "own_change vid (icn_state c) (icn_state (note_bad_fee ct e c))"
  by (rule elsewhere_own)
    (auto simp: note_bad_fee_def same_book_def same_ceilings_def debt_ceiling_of_def get_collateral_config_def resolve_ct_def fun_eq_iff
      split: vault_transfer_error.splits option.splits)

lemma bad_fee_frames [simp]:
  "icn_locked (note_bad_fee ct e c) = icn_locked c" "icn_reservations (note_bad_fee ct e c) = icn_reservations c"
  "icn_global_icusd_mint_cap (note_bad_fee ct e c) = icn_global_icusd_mint_cap c"
  by (simp_all add: note_bad_fee_def split: vault_transfer_error.splits)

lemma restored_own: "own_change vid s (restore_pending_interest_for_pool ct x s)"
  by (rule elsewhere_own) (simp_all add: restore_pending_interest_for_pool_def same_book_def config_frame)

lemma aside_debt [simp]:
  "less_debt s (restore_pending_interest_for_pool ct x s)" "less_debt (icn_state c) (icn_state (note_bad_fee ct e c))"
  by (simp_all add: less_debt_same restore_pending_interest_for_pool_def note_bad_fee_def split: vault_transfer_error.splits)

lemma last_step_ended: "last_step D k c c' \<Longrightarrow> ended k c c'"
  by (induction rule: last_step.induct)
    (auto simp: borrow_minted_def borrow_end_def repay_pulled_def repay_end_def margin_reply_def partial_reply_def withdraw_all_reply_def
      withdraw_close_reply_def close_now_def closed_own put_back_def
      ended_def operations_own repay_own bad_fee_own restored_own debt_rules split: sum.splits option.splits)

section \<open>Reservations\<close>

lemma call_sums [simp]:
  "reserved a [] = 0" "reserved a (k # ks) = reserved_by k a + reserved a ks" "reserved a (ks @ ls) = reserved a ks + reserved a ls"
  "unminted a [] = 0" "unminted a (k # ks) = unminted_by k a + unminted a ks" "unminted a (ks @ ls) = unminted a ks + unminted a ls"
  "all_reserved [] = 0" "all_reserved (k # ks) = borrowed_by True k + all_reserved ks" "all_reserved (ks @ ls) = all_reserved ks + all_reserved ls"
  "all_unminted [] = 0" "all_unminted (k # ks) = borrowed_by False k + all_unminted ks" "all_unminted (ks @ ls) = all_unminted ks + all_unminted ls"
  by (simp_all add: reserved_def unminted_def all_reserved_def all_unminted_def)

lemma unminted_le: "unminted a ks \<le> reserved a ks" "all_unminted ks \<le> all_reserved ks" "reserved a ks \<le> all_reserved ks"
proof -
  have one: "unminted_by k a \<le> reserved_by k a" "borrowed_by False k \<le> borrowed_by True k" "reserved_by k a \<le> borrowed_by True k" for k
    by (cases k; cases "case k of CallBorrow p v x f t m \<Rightarrow> m | _ \<Rightarrow> False"; simp)+
  show "unminted a ks \<le> reserved a ks" "all_unminted ks \<le> all_reserved ks" "reserved a ks \<le> all_reserved ks"
    by (induction ks) (simp_all add: add_mono one)
qed

lemma released_ok:
  assumes "reservations_ok c (ks @ CallBorrow p vid x fee ct m # ls)" and "icn_reservations c' = release_borrow_reservation ct x (icn_reservations c)"
  shows "reservations_ok c' (ks @ ls)"
proof -
  let ?m = "icn_reservations c"
  have each: "bm_get_or 0 ?m a = reserved a ks + (if a = ct then x else 0) + reserved a ls" for a
    using assms(1) by (simp add: reservations_ok_def)
  have all: "bm_sum (\<lambda>x. x) ?m = all_reserved ks + x + all_reserved ls" using assms(1) by (simp add: reservations_ok_def)
  show ?thesis
  proof (cases "bm_get ?m ct")
    case None
    then show ?thesis using each each [of ct] all
      by (auto simp: reservations_ok_def assms(2) release_borrow_reservation_def bm_get_or_def)
  next
    case (Some v)
    then have v: "v = reserved ct ks + x + reserved ct ls" using each [of ct] by (simp add: bm_get_or_def)
    then show ?thesis
      using each all Some bm_sum_insert_old [OF Some, of "\<lambda>x. x" "v - x"] bm_sum_remove [of "\<lambda>x. x" ct ?m]
      by (auto simp: reservations_ok_def assms(2) release_borrow_reservation_def sat_sub_def)
  qed
qed

lemma reserved_ok:
  assumes "reservations_ok c ks" and "try_reserve ct x d ceil g cap (icn_reservations c) = Ok (icn_reservations c')"
    and "all_reserved (CallBorrow p vid x fee ct m # ks) \<le> u64_max"
  shows "reservations_ok c' (CallBorrow p vid x fee ct m # ks)"
    and "ceil < u64_max \<Longrightarrow> d + reserved ct ks + x \<le> ceil" and "cap < u64_max \<Longrightarrow> g + all_reserved ks + x \<le> cap"
proof -
  let ?m = "icn_reservations c"
  have each: "bm_get_or 0 ?m a = reserved a ks" for a using assms(1) by (simp add: reservations_ok_def)
  have all: "bm_sum (\<lambda>x. x) ?m = all_reserved ks" using assms(1) by (simp add: reservations_ok_def)
  then have vals: "sum_list (bm_values ?m) = all_reserved ks" by (simp add: bm_sum_def bm_values_def comp_def)
  have room: "all_reserved ks + x \<le> u64_max" "reserved ct ks + x \<le> u64_max"
    using assms(3) unminted_le(3) [of ct ks] by (simp_all add: add.commute)
  have m': "icn_reservations c' = bm_insert ct (reserved ct ks + x) ?m"
    and le: "sat_add64 (sat_add64 d (reserved ct ks)) x \<le> ceil" "sat_add64 (sat_add64 g (all_reserved ks)) x \<le> cap"
    using assms(2) room by (auto simp: try_reserve_def Let_def each vals wrap64_id not_less split: if_splits)
  show "reservations_ok c' (CallBorrow p vid x fee ct m # ks)"
    using bm_sum_id_insert [of ct "reserved ct ks + x" ?m] each all by (auto simp: reservations_ok_def m')
  show "d + reserved ct ks + x \<le> ceil" if "ceil < u64_max" using le(1) that by (auto simp: sat_add64_def min_def split: if_splits)
  show "g + all_reserved ks + x \<le> cap" if "cap < u64_max" using le(2) that by (auto simp: sat_add64_def min_def split: if_splits)
qed

section \<open>Every step keeps the invariant\<close>

lemma moved_fields [simp]:
  "in_canister (moved a c' ks n) = c'" "in_flight (moved a c' ks n) = ks"
  "in_interest (moved a c' ks n) = (\<lambda>ct. in_interest n ct + (min (debts a ct) (debts (icn_state c') ct) - debts (icn_state (in_canister n)) ct))"
  "in_all_interest (moved a c' ks n) = in_all_interest n + (min (total_debt a) (total_debt (icn_state c')) - total_debt (icn_state (in_canister n)))"
  "in_raised (moved a c' ks n) = in_raised n" "in_all_raised (moved a c' ks n) = in_all_raised n"
  "in_corrected (moved a c' ks n) = in_corrected n \<inter> {vid. bm_has (icn_locked (in_canister n)) vid}"
  by (simp_all add: moved_def Let_def)

lemma moved_below:
  assumes "below_ceilings n" and "same_ceilings (icn_state (in_canister n)) (icn_state c')"
    and "icn_global_icusd_mint_cap c' = icn_global_icusd_mint_cap (in_canister n)"
    and "\<And>ct. unminted ct ks \<le> unminted ct (in_flight n)" and "all_unminted ks \<le> all_unminted (in_flight n)"
    and "owes_less a (icn_state (in_canister n)) (icn_state c')"
  shows "below_ceilings (moved a c' ks n)"
proof -
  let ?s = "icn_state (in_canister n)" and ?t = "icn_state c'"
  have grown: "x \<le> y + (min z x - y)" if "x \<le> y \<or> x \<le> z" for x y z :: nat
    using that by (auto simp: min_def)
  have less: "debts ?t ct \<le> debts ?s ct + (min (debts a ct) (debts ?t ct) - debts ?s ct)"
    "total_debt ?t \<le> total_debt ?s + (min (total_debt a) (total_debt ?t) - total_debt ?s)" for ct
    using assms(6) less_debts [of ?s ?t] less_debts [of a ?t] by (intro grown, auto simp: owes_less_def)+
  have "debts ?t ct + unminted ct ks
      \<le> debt_ceiling_of ?s ct + (in_interest n ct + (min (debts a ct) (debts ?t ct) - debts ?s ct)) + in_raised n ct"
    if "debt_ceiling_of ?s ct < u64_max" for ct
    using assms(1) that assms(4) [of ct] less(1) [of ct] by (fastforce simp: below_ceilings_def Let_def)
  moreover have "total_debt ?t + all_unminted ks
      \<le> icn_global_icusd_mint_cap c' + (in_all_interest n + (min (total_debt a) (total_debt ?t) - total_debt ?s)) + in_all_raised n"
    if "icn_global_icusd_mint_cap c' < u64_max"
    using assms(1,3,5) that less(2) by (fastforce simp: below_ceilings_def Let_def)
  ultimately show ?thesis using assms(2) by (simp add: below_ceilings_def Let_def same_ceilings_def)
qed

text \<open>Calls of a run are replaced by later calls on the same vaults, or on vaults that no call has.\<close>

lemma calls_step:
  assumes inv: "icp_inv n" and fl: "in_flight n = ks @ old @ ls"
    and kept: "kept_on {vid. bm_has (icn_locked (in_canister n)) vid \<and> vid \<notin> set (concat (map call_vaults old))}
      (icn_state (in_canister n)) (icn_state (in_canister m))"
    and fl': "in_flight m = ks @ new @ ls"
    and locks: "\<And>vid. bm_has (icn_locked (in_canister m)) vid \<longleftrightarrow>
        (bm_has (icn_locked (in_canister n)) vid \<and> vid \<notin> set (concat (map call_vaults old))) \<or> vid \<in> set (concat (map call_vaults new))"
    and new: "distinct (concat (map call_vaults new))" "\<And>k. k \<in> set new \<Longrightarrow> call_ok {} (icn_state (in_canister m)) k"
      "\<And>vid. vid \<in> set (concat (map call_vaults new)) \<Longrightarrow> bm_has (icn_locked (in_canister n)) vid \<Longrightarrow> vid \<in> set (concat (map call_vaults old))"
    and corr: "in_corrected n \<inter> {vid. bm_has (icn_locked (in_canister n)) vid} \<subseteq> in_corrected m"
    and rest: "reservations_ok (in_canister m) (in_flight m)" "below_ceilings m" "debt_room (in_canister m) (in_flight m)"
  shows "icp_inv m"
proof -
  let ?v = "\<lambda>ks. concat (map call_vaults ks)"
  have d: "distinct (?v ks @ ?v old @ ?v ls)" and has: "bm_has (icn_locked (in_canister n)) vid \<longleftrightarrow> vid \<in> set (?v ks @ ?v old @ ?v ls)" for vid
    using inv by (simp_all add: icp_inv_def locks_ok_def fl)
  have others: "bm_has (icn_locked (in_canister n)) vid \<and> vid \<notin> set (?v old) \<longleftrightarrow> vid \<in> set (?v ks @ ?v ls)" for vid
    unfolding has using d by auto
  have apart: "set (?v new) \<inter> set (?v ks @ ?v ls) = {}" using new(3) others by blast
  have "call_ok (in_corrected m) (icn_state (in_canister m)) k" if "k \<in> set (ks @ ls)" for k
  proof (rule call_ok_kept [OF kept])
    show own: "set (call_vaults k) \<subseteq> {vid. bm_has (icn_locked (in_canister n)) vid \<and> vid \<notin> set (?v old)}" using that others by auto
    show "in_corrected n \<inter> set (call_vaults k) \<subseteq> in_corrected m" using own corr by blast
    show "call_ok (in_corrected n) (icn_state (in_canister n)) k" using inv that by (auto simp: icp_inv_def fl)
  qed
  moreover have "locks_ok (in_canister m) (in_flight m)"
    using d new(1) apart locks others by (auto simp: locks_ok_def fl')
  moreover have "book_ok (icn_state (in_canister m))" using inv kept by (simp add: icp_inv_def kept_on_def)
  ultimately show ?thesis using rest new(2) by (auto simp: icp_inv_def fl' intro: call_ok_any)
qed


lemma try_reserve_room:
  assumes inv: "icp_inv n" and "same_ceilings (icn_state (in_canister n)) (icn_state c')" and book: "book_ok (icn_state c')"
    and cap: "icn_global_icusd_mint_cap c' = icn_global_icusd_mint_cap (in_canister n)"
    and grant: "granted (in_canister n) c' [CallBorrow p vid x fee ct m]"
    and room: "debt_room c' (CallBorrow p vid x fee ct m # in_flight n)" and less: "owes_less a (icn_state (in_canister n)) (icn_state c')"
  shows "reservations_ok c' (CallBorrow p vid x fee ct m # in_flight n)"
    and "below_ceilings (moved a c' (CallBorrow p vid x fee ct m # in_flight n) n)"
proof -
  let ?k = "CallBorrow p vid x fee ct m" and ?s = "icn_state c'"
  have m: "\<not> m" and res: "try_reserve ct x (total_debt_for_collateral ?s ct) (debt_ceiling_of ?s ct) (total_borrowed_icusd_amount ?s)
      (icn_global_icusd_mint_cap c') (icn_reservations (in_canister n)) = Ok (icn_reservations c')"
    using grant by (simp_all add: granted_def)
  note r = reserved_ok [OF _ res, of "in_flight n" p vid fee m]
  have ok: "reservations_ok (in_canister n) (in_flight n)" using inv by (simp add: icp_inv_def)
  show "reservations_ok c' (?k # in_flight n)" using r(1) [OF ok] room by blast
  have debt: "total_debt_for_collateral ?s ct = debts ?s ct" "total_borrowed_icusd_amount ?s = total_debt ?s"
    using room debts_le_all [of ?s ct] total_debt_indexed [OF book, of ct]
    by (simp_all add: wrap64_id total_borrowed_icusd_amount_def total_debt_def)
  have coll: "debts ?s ct + unminted ct (in_flight n) + x \<le> debt_ceiling_of ?s ct" if "debt_ceiling_of ?s ct < u64_max"
    using r(2) [OF ok] room that unminted_le(1) [of ct "in_flight n"] by (simp add: debt)
  have all: "total_debt ?s + all_unminted (in_flight n) + x \<le> icn_global_icusd_mint_cap c'" if "icn_global_icusd_mint_cap c' < u64_max"
    using r(3) [OF ok] room that unminted_le(2) [of "in_flight n"] by (simp add: debt)
  have old: "below_ceilings (moved a c' (in_flight n) n)"
    using inv assms(2,4) less by (intro moved_below) (simp_all add: icp_inv_def)
  show "below_ceilings (moved a c' (?k # in_flight n) n)"
    using old coll all m by (auto simp: below_ceilings_def Let_def)
qed

lemma first_inv:
  assumes inv: "icp_inv n" and step: "first_step D (in_canister n) a (c', r)" and room: "debt_room c' (awaiting r @ in_flight n)"
  shows "icp_inv (moved a c' (awaiting r @ in_flight n) n)"
proof -
  let ?c = "in_canister n" and ?m = "moved a c' (awaiting r @ in_flight n) n"
  have less: "owes_less a (icn_state ?c) (icn_state c')" using first_step_debt [OF step] by simp
  from first_step_begun [OF step] obtain vid where b: "begun_locked vid ?c (c', r)" by blast
  have kept: "kept_on {w. bm_has (icn_locked ?c) w} (icn_state ?c) (icn_state c')"
    using b own_change_kept [of vid "icn_state ?c" "icn_state c'"] by (cases "bm_has (icn_locked ?c) vid") (auto simp: begun_locked_def)
  have cap: "icn_global_icusd_mint_cap c' = icn_global_icusd_mint_cap ?c" using b by (simp add: begun_locked_def)
  have ceil: "same_ceilings (icn_state ?c) (icn_state c')" and book: "book_ok (icn_state c')"
    using kept inv by (simp_all add: kept_on_def icp_inv_def)
  have rest: "reservations_ok c' (awaiting r @ in_flight n) \<and> below_ceilings ?m"
  proof (cases "\<exists>p v x fee ct m. awaiting r = [CallBorrow p v x fee ct m]")
    case True
    then obtain p v x fee ct m where k: "awaiting r = [CallBorrow p v x fee ct m]" by blast
    have "granted ?c c' [CallBorrow p v x fee ct m]" using b k by (auto simp: begun_locked_def)
    from try_reserve_room [OF inv ceil book cap this _ less] room k show ?thesis by simp
  next
    case False
    have none: "reserved_by k a = 0 \<and> unminted_by k a = 0 \<and> borrowed_by e k = 0" if "k \<in> set (awaiting r)" for k a e
    proof -
      have "awaiting r = [k]" using that by (auto simp: awaiting_def split: outcome.splits flow.splits)
      with False show ?thesis by (cases k) auto
    qed
    have one: "length (awaiting r) \<le> 1" by (simp add: awaiting_def split: outcome.splits flow.splits)
    have zero: "reserved a (awaiting r) = 0" "unminted a (awaiting r) = 0" "all_reserved (awaiting r) = 0" "all_unminted (awaiting r) = 0" for a
      using none by (simp_all add: reserved_def unminted_def all_reserved_def all_unminted_def)
    have "icn_reservations c' = icn_reservations ?c"
      using b False one by (auto simp: begun_locked_def granted_def length_Suc_conv le_Suc_eq split: list.splits icp_call.splits)
    then have "reservations_ok c' (awaiting r @ in_flight n)" using inv by (simp add: icp_inv_def reservations_ok_def zero)
    moreover have "below_ceilings ?m" using inv ceil cap less by (intro moved_below) (simp_all add: icp_inv_def zero)
    ultimately show ?thesis by blast
  qed
  have aw: "awaiting r = [] \<or> (\<exists>k. awaiting r = [k])" by (simp add: awaiting_def split: outcome.splits flow.splits)
  show ?thesis
  proof (rule calls_step [OF inv, where ks = "[]" and old = "[]" and new = "awaiting r" and ls = "in_flight n"])
    show "kept_on {w. bm_has (icn_locked ?c) w \<and> w \<notin> set (concat (map call_vaults []))} (icn_state ?c) (icn_state (in_canister ?m))"
      using kept by simp
  qed (use b aw rest room in \<open>auto simp: begun_locked_def\<close>)
qed


text \<open>Steps that leave the waiting calls alone\<close>

lemma background_inv:
  assumes "icp_inv n" and "kept_on {w. bm_has (icn_locked (in_canister n)) w} (icn_state (in_canister n)) (icn_state c')"
    and "icn_locked c' = icn_locked (in_canister n)" "icn_reservations c' = icn_reservations (in_canister n)"
      "icn_global_icusd_mint_cap c' = icn_global_icusd_mint_cap (in_canister n)"
    and fl: "in_flight n = ks @ old @ ls" "concat (map call_vaults old) = []" and new: "new = [] \<or> (\<exists>p ct x. new = [CallOpen p ct x])"
    and old: "old = [] \<or> (\<exists>p ct x. old = [CallOpen p ct x])"
    and room: "debt_room c' (ks @ new @ ls)" and less: "owes_less a (icn_state (in_canister n)) (icn_state c')"
  shows "icp_inv (moved a c' (ks @ new @ ls) n)"
proof -
  have zero: "reserved a new = 0" "unminted a new = 0" "all_reserved new = 0" "all_unminted new = 0"
    "reserved a old = 0" "unminted a old = 0" "all_reserved old = 0" "all_unminted old = 0" "concat (map call_vaults new) = []" for a
    using new old by auto
  have "reservations_ok c' (ks @ new @ ls)" using assms(1,4) fl(1) by (simp add: icp_inv_def reservations_ok_def zero)
  moreover have "below_ceilings (moved a c' (ks @ new @ ls) n)"
    using assms by (intro moved_below) (simp_all add: icp_inv_def kept_on_def zero)
  ultimately show ?thesis
    using assms(2,3) new room fl(2) by (intro calls_step [OF assms(1) fl(1), where new = new]) (auto simp: zero)
qed

lemma opened_kept:
  assumes "increment_vault_id s = Some (s1, vid)" and "open_vault D (fresh_vault p x ct vid now) s1 = Some t"
  shows "kept_on L s t" and "less_debt s t"
proof -
  from assms(1) have s1: "s1 = s\<lparr>ic_next_available_vault_id := wrap64 (vid + 1)\<rparr>" and free: "\<not> bm_has (ic_vault_id_to_vaults s) vid"
    by (auto simp: increment_vault_id_def Let_def split: if_splits)
  then have none: "bm_get (ic_vault_id_to_vaults s1) vid = None" by (simp add: bm_has_def)
  let ?v = "fresh_vault p x ct vid now"
  have "iv_vault_id ?v = vid" by (simp add: fresh_vault_def)
  with assms(2) none have re: "reindex_vault_cr D vid (index_vault_by_collateral (iv_collateral_type ?v) vid
      ((put_vault ?v s1)\<lparr>ic_principal_to_vault_ids := idx_add (iv_owner ?v) vid (ic_principal_to_vault_ids (put_vault ?v s1))\<rparr>)) = Some t"
    by (simp add: open_vault_def Let_def)
  note frame = reindex_frame [OF re]
  have "book_ok t" if "book_ok s"
    by (rule opened_book [OF _ assms(2)]) (use that in \<open>simp add: s1 book_ok_def\<close>)
  moreover have "same_ceilings s t"
    by (rule config_frame) (simp_all add: frame index_vault_by_collateral_def put_vault_def s1)
  moreover have vs: "ic_vault_id_to_vaults t = bm_insert vid ?v (ic_vault_id_to_vaults s)"
    by (simp add: frame index_vault_by_collateral_def put_vault_def s1 fresh_vault_def)
  ultimately show "kept_on L s t" using free by (auto simp: kept_on_def bm_has_def)
  show "less_debt s t" by (auto simp: less_debt_def vs fresh_vault_def split: if_splits)
qed

lemma open_reply_kept:
  assumes "open_reply D p ct x now r c = (c', a)"
  shows "kept_on L (icn_state c) (icn_state c')" "icn_locked c' = icn_locked c" "icn_reservations c' = icn_reservations c"
    "icn_global_icusd_mint_cap c' = icn_global_icusd_mint_cap c" "less_debt (icn_state c) (icn_state c')"
proof -
  show "icn_locked c' = icn_locked c" "icn_reservations c' = icn_reservations c" "icn_global_icusd_mint_cap c' = icn_global_icusd_mint_cap c"
    using assms by (auto simp: open_reply_def Let_def split: sum.splits option.splits)
  have fee: "kept_on L (icn_state d) (icn_state (note_bad_fee ct e d))" for d :: "('a, 'b) icp_canister" and e
    using bad_fee_own [of _ d ct e] by (fastforce simp: own_change_def kept_on_def note_bad_fee_def split: vault_transfer_error.splits if_splits)
  show "kept_on L (icn_state c) (icn_state c')"
    using assms opened_kept(1) fee [of "c\<lparr>icn_guards := guard_forget p (icn_guards c)\<rparr>"]
    by (auto simp: open_reply_def Let_def bind_eq_Some_conv split: sum.splits option.splits)
  show "less_debt (icn_state c) (icn_state c')"
    using assms opened_kept(2) aside_debt(2) [of "c\<lparr>icn_guards := guard_forget p (icn_guards c)\<rparr>"]
    by (auto simp: open_reply_def Let_def bind_eq_Some_conv split: sum.splits option.splits)
qed


lemma last_inv:
  assumes inv: "icp_inv n" and fl: "in_flight n = ks @ k # ls" and step: "last_step D k (in_canister n) c'" and room: "debt_room c' (ks @ ls)"
  shows "icp_inv (passed c' (ks @ ls) n)"
proof -
  let ?c = "in_canister n"
  note e = last_step_ended [OF step, unfolded ended_def]
  obtain vid where vid: "call_vaults k = [vid]" "own_change vid (icn_state ?c) (icn_state c')" using e by blast
  have kept: "kept_on {w. bm_has (icn_locked ?c) w \<and> w \<notin> set (concat (map call_vaults [k]))} (icn_state ?c) (icn_state c')"
    using own_change_kept [OF vid(2)] vid(1) by simp
  have ok: "reservations_ok ?c (ks @ k # ls)" using inv fl by (simp add: icp_inv_def)
  have "reservations_ok c' (ks @ ls)"
  proof (cases k)
    case (CallBorrow p v x fee ct m)
    then show ?thesis using released_ok ok e by auto
  qed (use ok e in \<open>auto simp: reservations_ok_def\<close>)
  moreover have "below_ceilings (passed c' (ks @ ls) n)"
    using inv vid(2) e fl by (intro moved_below) (simp_all add: icp_inv_def own_change_def owes_less_def)
  ultimately show ?thesis
    using calls_step [OF inv, of ks "[k]" ls "passed c' (ks @ ls) n" "[]"] kept fl e room by simp
qed

lemma repaid_inv:
  assumes inv: "icp_inv n" and fl: "in_flight n = ks @ CallRepay p vid x ct # ls" and step: "repay_pulled D p vid x r (in_canister n) = (c', Ok i)"
    and room: "debt_room c' (ks @ CallRepaid p vid ct # ls)"
  shows "icp_inv (passed c' (ks @ CallRepaid p vid ct # ls) n)"
proof -
  let ?c = "in_canister n"
  obtain s i' p' where s: "repay_to_vault D vid x (icn_state ?c) = Some (s, i', p')" and c': "c' = ?c\<lparr>icn_state := s\<rparr>"
    using step by (auto simp: repay_pulled_def split: sum.splits option.splits)
  have own: "own_change vid (icn_state ?c) s" by (rule repay_own [OF s])
  have call: "call_ok {} s (CallRepaid p vid ct)"
    using inv s by (auto simp: icp_inv_def fl repay_to_vault_def bind_eq_Some_conv Let_def rekeyed_vaults split: option.splits)
  have "reservations_ok c' (ks @ CallRepaid p vid ct # ls)" using inv by (simp add: icp_inv_def reservations_ok_def fl c')
  moreover have "below_ceilings (passed c' (ks @ CallRepaid p vid ct # ls) n)"
    using inv own repay_debt [OF s] by (intro moved_below) (simp_all add: icp_inv_def own_change_def owes_less_def c' fl)
  moreover have "bm_has (icn_locked ?c) vid" using inv by (simp add: icp_inv_def locks_ok_def fl)
  ultimately show ?thesis
    using calls_step [OF inv, of ks "[CallRepay p vid x ct]" ls "passed c' (ks @ CallRepaid p vid ct # ls) n" "[CallRepaid p vid ct]"]
      own_change_kept [OF own] fl call room by (auto simp: c')
qed

text \<open>Recording a borrow moves the amount from the calls to the book.\<close>

lemma minted_debt:
  assumes "icp_inv n" and fl: "in_flight n = ks @ CallBorrow p vid x fee ct False # ls"
    and "borrow_from_vault D vid x (icn_state (in_canister n)) = Some s"
  obtains v where "bm_get (ic_vault_id_to_vaults (icn_state (in_canister n))) vid = Some v" "iv_owner v = p" "iv_collateral_type v = ct"
    "bm_get (ic_vault_id_to_vaults s) vid = Some (v\<lparr>iv_borrowed_icusd_amount := iv_borrowed_icusd_amount v + x\<rparr>)"
    "\<And>a. debts s a = debts (icn_state (in_canister n)) a + (if a = ct then x else 0)"
    "total_debt s = total_debt (icn_state (in_canister n)) + x"
proof -
  let ?s = "icn_state (in_canister n)"
  obtain v where v: "bm_get (ic_vault_id_to_vaults ?s) vid = Some v" "iv_owner v = p" "iv_collateral_type v = ct"
    using assms(1) by (auto simp: icp_inv_def fl split: option.splits)
  have "iv_borrowed_icusd_amount v \<le> total_debt ?s" using bm_sum_ge [OF v(1)] by (simp add: total_debt_def)
  then have "iv_borrowed_icusd_amount v + x \<le> u64_max" using assms(1) by (simp add: icp_inv_def fl)
  then have add: "token_add (iv_borrowed_icusd_amount v) x = iv_borrowed_icusd_amount v + x" by (simp add: token_add_def wrap64_id)
  let ?w = "v\<lparr>iv_borrowed_icusd_amount := iv_borrowed_icusd_amount v + x\<rparr>"
  have vs: "ic_vault_id_to_vaults s = bm_insert vid ?w (ic_vault_id_to_vaults ?s)"
    using rekeyed_vaults [OF assms(3) [unfolded borrow_from_vault_def]] v(1) by (simp add: bm_modify_def add)
  show thesis using that [OF v] debts_replaced [OF v(1) vs] v(3) by (simp add: vs)
qed

lemma minted_inv:
  assumes inv: "icp_inv n" and fl: "in_flight n = ks @ CallBorrow p vid x fee ct False # ls"
    and step: "borrow_minted D p vid x fee ct r (in_canister n) = (c', Ok k)"
  shows "icp_inv (n\<lparr>in_canister := c', in_flight := ks @ k # ls\<rparr>)"
proof -
  let ?c = "in_canister n" and ?m = "n\<lparr>in_canister := c', in_flight := ks @ k # ls\<rparr>"
  obtain s where s: "borrow_from_vault D vid x (icn_state ?c) = Some s" and c': "c' = ?c\<lparr>icn_state := s\<rparr>"
    and k: "k = CallBorrow p vid x fee ct True"
    using step by (auto simp: borrow_minted_def split: sum.splits option.splits)
  obtain v where v: "bm_get (ic_vault_id_to_vaults s) vid = Some (v\<lparr>iv_borrowed_icusd_amount := iv_borrowed_icusd_amount v + x\<rparr>)"
      "iv_owner v = p" "iv_collateral_type v = ct"
    and d: "\<And>a. debts s a = debts (icn_state ?c) a + (if a = ct then x else 0)" "total_debt s = total_debt (icn_state ?c) + x"
    using minted_debt [OF inv fl s] by metis
  have own: "own_change vid (icn_state ?c) s" by (rule operations_own(1) [OF s])
  have "reservations_ok c' (ks @ k # ls)" using inv by (simp add: icp_inv_def reservations_ok_def fl c' k)
  moreover have "below_ceilings ?m"
    using inv own by (auto simp: icp_inv_def below_ceilings_def Let_def own_change_def same_ceilings_def c' fl k d)
  moreover have "debt_room c' (ks @ k # ls)" using inv by (simp add: icp_inv_def c' fl k d)
  moreover have "bm_has (icn_locked ?c) vid" using inv by (simp add: icp_inv_def locks_ok_def fl)
  ultimately show ?thesis
    using calls_step [OF inv, of ks "[CallBorrow p vid x fee ct False]" ls ?m "[k]"] own_change_kept [OF own] fl v by (auto simp: c' k)
qed


lemma open_begin_frame:
  assumes "open_begin p x t now c = (c', r)"
  shows "icn_state c' = icn_state c" "icn_locked c' = icn_locked c" "icn_reservations c' = icn_reservations c"
    "icn_global_icusd_mint_cap c' = icn_global_icusd_mint_cap c" "awaiting r = [] \<or> (\<exists>p ct x. awaiting r = [CallOpen p ct x])"
  using assms
  by (auto simp: open_begin_def await_call_def next_op_nonce_def Let_def split: prod.splits outcome.splits if_splits)

text \<open>The corrections\<close>

lemma corrected_inv:
  assumes inv: "icp_inv n" and step: "admin_correct_vault_collateral q vid x (in_canister n) = (c', r)"
  shows "icp_inv (n\<lparr>in_canister := c', in_corrected := insert vid (in_corrected n)\<rparr>)"
proof (cases "c' = in_canister n")
  case True
  have "call_ok (insert vid (in_corrected n)) (icn_state (in_canister n)) k" if "k \<in> set (in_flight n)" for k
    using inv that by (cases k) (auto simp: icp_inv_def split: option.splits)
  with inv True show ?thesis by (simp add: icp_inv_def below_ceilings_def Let_def)
next
  case False
  let ?s = "icn_state (in_canister n)" and ?f = "\<lambda>v. v\<lparr>iv_collateral_amount := x\<rparr>"
  obtain v where v: "bm_get (ic_vault_id_to_vaults ?s) vid = Some v" and le: "x \<le> iv_collateral_amount v"
    and c': "c' = (in_canister n)\<lparr>icn_state := ?s\<lparr>ic_vault_id_to_vaults := bm_modify vid ?f (ic_vault_id_to_vaults ?s)\<rparr>\<rparr>"
    using step False by (auto simp: admin_correct_vault_collateral_def not_less split: if_splits option.splits)
  have ct: "iv_collateral_type (?f v) = iv_collateral_type v" for v by simp
  have debt: "debts (icn_state c') ct = debts ?s ct" "total_debt (icn_state c') = total_debt ?s" for ct
    by (simp_all add: debts_def total_debt_def c' bm_sum_modify_same)
  have ceil: "debt_ceiling_of (icn_state c') = debt_ceiling_of ?s"
    using config_frame [of "icn_state c'" ?s] by (simp add: same_ceilings_def c')
  have "call_ok (insert vid (in_corrected n)) (icn_state c') k" if "k \<in> set (in_flight n)" for k
  proof -
    have "call_ok (in_corrected n) ?s k" using inv that by (simp add: icp_inv_def)
    with v le show ?thesis by (cases k) (auto simp: c' split: option.splits if_splits)
  qed
  moreover have "book_ok (icn_state c')" using inv modified_book [of ?s ?f vid] by (simp add: icp_inv_def c')
  ultimately show ?thesis
    using inv by (simp add: icp_inv_def below_ceilings_def Let_def debt ceil locks_ok_def reservations_ok_def) (simp add: c')
qed

lemma corrected_debts_kept:
  assumes "fold_opt (correct_vault_debt D) xs s = Some t"
  shows "kept_on L s t"
proof (rule fold_opt_inv [OF _ _ assms, where P = "kept_on L s"])
  fix x t u assume "kept_on L s t" and step: "correct_vault_debt D x t = Some u"
  obtain vid b i where x: "x = (vid, b, i)" by (cases x)
  let ?f = "\<lambda>v. v\<lparr>iv_borrowed_icusd_amount := b, iv_accrued_interest := i\<rparr>"
  have "kept_on L t u"
  proof (cases "bm_has (ic_vault_id_to_vaults t) vid")
    case True
    then have touch: "touch_vault D vid ?f t = Some u" using step by (simp add: correct_vault_debt_def x)
    show ?thesis
      using touched_own [OF touch] touched_frame(1) [OF touch]
      by (auto simp: own_change_def kept_on_def bm_modify_def split: option.splits)
  qed (use step in \<open>simp add: correct_vault_debt_def x\<close>)
  with \<open>kept_on L s t\<close> show "kept_on L s u" by (fastforce simp: kept_on_def same_ceilings_def)
qed simp

lemma raised_inv:
  assumes inv: "icp_inv n" and step: "admin_correct_vault_debts D q xs (in_canister n) = (c', r)" and room: "debt_room c' (in_flight n)"
  shows "icp_inv (raised c' n)"
proof -
  let ?c = "in_canister n"
  have kept: "kept_on L (icn_state ?c) (icn_state c')" for L
    using step corrected_debts_kept by (auto simp: admin_correct_vault_debts_def split: if_splits option.splits)
  have frame: "icn_locked c' = icn_locked ?c" "icn_reservations c' = icn_reservations ?c" "icn_global_icusd_mint_cap c' = icn_global_icusd_mint_cap ?c"
    using step by (auto simp: admin_correct_vault_debts_def split: if_splits option.splits)
  have "below_ceilings (raised c' n)"
    using inv kept [of "{}"] by (fastforce simp: icp_inv_def below_ceilings_def raised_def Let_def kept_on_def same_ceilings_def frame)
  moreover have "call_ok (in_corrected n) (icn_state c') k" if "k \<in> set (in_flight n)" for k
    using call_ok_kept [OF kept [of UNIV], of k "in_corrected n"] inv that by (simp add: icp_inv_def)
  ultimately show ?thesis
    using inv kept [of "{}"] room by (simp add: icp_inv_def locks_ok_def reservations_ok_def frame kept_on_def raised_def Let_def)
qed

lemma icp_step_inv:
  assumes "icp_inv n" and "icp_step D n m"
  shows "icp_inv m"
proof -
  from assms(2) have move: "icp_move D n m" and room: "debt_room (in_canister m) (in_flight m)" by (simp_all add: icp_step_def)
  have aside: "icp_inv (moved a c' (in_flight n) n)"
    if "kept_on {w. bm_has (icn_locked (in_canister n)) w} (icn_state (in_canister n)) (icn_state c')" "debt_room c' (in_flight n)"
      "icn_locked c' = icn_locked (in_canister n)" "icn_reservations c' = icn_reservations (in_canister n)"
      "icn_global_icusd_mint_cap c' = icn_global_icusd_mint_cap (in_canister n)" "owes_less a (icn_state (in_canister n)) (icn_state c')" for a c'
    using background_inv [OF assms(1) that(1,3-5), of "[]" "[]" "in_flight n" "[]"] that(2,6) by simp
  from move show ?thesis
  proof cases
    case (first a c' r)
    then show ?thesis using first_inv [OF assms(1)] room by simp
  next
    case (open_first p x t now c' r)
    note f = open_begin_frame [OF open_first(2)]
    show ?thesis
      using background_inv [OF assms(1), of c' "[]" "[]" "in_flight n" "awaiting r"] f room unfolding open_first(1) by (simp add: owes_less_def)
  next
    case (open_last ks p ct x ls now r c' a)
    note f = open_reply_kept [OF open_last(3)]
    show ?thesis
      using background_inv [OF assms(1) f(1-4), of ks "[CallOpen p ct x]" ls "[]"] f(5) open_last(2) room unfolding open_last(1)
      by (simp add: owes_less_def)
  next
    case (minted ks p vid x fee ct ls r c' k)
    then show ?thesis using minted_inv [OF assms(1)] by simp
  next
    case (repaid ks p vid x ct ls r c' i)
    then show ?thesis using repaid_inv [OF assms(1)] room by simp
  next
    case (last ks k ls c')
    then show ?thesis using last_inv [OF assms(1)] room by simp
  next
    case (interest now s)
    show ?thesis using aside [of "(in_canister n)\<lparr>icn_state := s\<rparr>" s] accrued_all_kept [OF interest(2)] room unfolding interest(1)
      by (simp add: owes_less_def)
  next
    case harvest
    show ?thesis using aside [of "(in_canister n)\<lparr>icn_state := harvest_accrued_interest (icn_state (in_canister n))\<rparr>"] room
      unfolding harvest by (simp add: harvest_kept owes_less_def harvest_debt)
  next
    case (redeem x price ct s rs)
    show ?thesis using aside [of "(in_canister n)\<lparr>icn_state := s\<rparr>"] redeemed_kept [OF redeem(2)] redeemed_debt [OF redeem(2)] room
      unfolding redeem(1) by (simp add: owes_less_def)
  next
    case (correct_collateral q vid x c' r)
    then show ?thesis using corrected_inv [OF assms(1)] by simp
  next
    case (correct_debts q xs c' r)
    then show ?thesis using raised_inv [OF assms(1)] room by (simp add: raised_def Let_def)
  qed
qed

lemma icp_start_inv: "icp_inv (icp_start c)"
proof -
  have "ic_vault_id_to_vaults (empty_book (icn_state c)) = bm_empty" by (simp add: empty_book_def)
  then show ?thesis
    by (simp add: icp_inv_def icp_start_def empty_book_ok locks_ok_def reservations_ok_def below_ceilings_def Let_def debts_def total_debt_def)
qed

interpretation owner_calls: invariant_system "icp_start c" "icp_step D" icp_inv for c D
  by unfold_locales (rule icp_start_inv, erule (1) icp_step_inv)

end
