(* ===== verification/Icp_Call_Guarantees.thy ===== *)
theory Icp_Call_Guarantees
  imports Icp_Machine Icp_Sample
begin

text \<open>
  What the owner's endpoints of the ICP rail guarantee: the limits on borrowing under any interleaving, the checks a borrow passes,
  what becomes of the collateral of a withdrawal, and the counter of \<^verbatim>\<open>close_vault\<close>.
\<close>

section \<open>The counter of running closes\<close>

text \<open>The counter does not come down.\<close>

definition counted :: "('d, 'f) icp_canister \<Rightarrow> ('d, 'f) icp_canister \<Rightarrow> bool" where
  "counted c c' \<longleftrightarrow> icn_concurrent_close_operations c \<le> icn_concurrent_close_operations c'"

lemma counted_refl [simp]: "counted c c"
  by (simp add: counted_def)

lemma counted_updates [simp]:
  "counted c (c'\<lparr>icn_state := s\<rparr>) = counted c c'" "counted c (c'\<lparr>icn_guards := g\<rparr>) = counted c c'" "counted c (c'\<lparr>icn_locked := l\<rparr>) = counted c c'"
  "counted c (c'\<lparr>icn_reservations := r\<rparr>) = counted c c'" "counted c (c'\<lparr>icn_op_nonce_counter := i\<rparr>) = counted c c'"
  "counted (c\<lparr>icn_state := s\<rparr>) c' = counted c c'" "counted (c\<lparr>icn_guards := g, icn_locked := l\<rparr>) c' = counted c c'"
  by (simp_all add: counted_def)

lemma counted_parts [simp]:
  "counted c (call_leave p vid c') = counted c c'" "counted c (note_bad_fee ct e c') = counted c c'"
  "counted c (fst (await_call now k msg c')) = counted c c'" "counted c (fst (record_xrp_claim p q v x now c')) = counted c c'"
  by (simp_all add: counted_def call_leave_def note_bad_fee_def await_call_def next_op_nonce_def record_xrp_claim_def Let_def
      split: vault_transfer_error.splits)

lemma message_counted:
  assumes "\<And>c1. counted c1 (fst (body c1))"
  shows "counted c (fst (first_message p name vid now body c))"
proof (cases "call_enter p name vid now c")
  case (Pair c1 r)
  have one: "counted c (fst (body c1))" if "r = Ok u" for u
    using assms [of c1] Pair that
    by (auto simp: call_enter_def counted_def split: prod.splits outcome.splits option.splits)
  have "counted c c1" using Pair by (auto simp: call_enter_def split: prod.splits outcome.splits option.splits)
  then show ?thesis
    using one by (auto simp: first_message_def Pair split: prod.splits outcome.splits flow.splits)
qed

lemma accrual_counted: "(\<And>c1. counted c1 (fst (body c1))) \<Longrightarrow> counted c (fst (after_accrual D vid now body c))"
proof -
  assume b: "\<And>c1. counted c1 (fst (body c1))"
  have "counted c (fst (body (c\<lparr>icn_state := s\<rparr>)))" for s using b [of "c\<lparr>icn_state := s\<rparr>"] by simp
  then show ?thesis by (simp add: after_accrual_def split: outcome.splits option.splits)
qed

lemma claim_counted [simp]: "counted c (fst (case record_xrp_claim p q v x now c' of (c1, i) \<Rightarrow> (c1, f i))) = counted c c'"
  by (simp add: counted_def record_xrp_claim_def Let_def)

lemma bodies_counted:
  "counted c (fst (borrow_checked D key p vid x now c))" "counted c (fst (repay_checked D p vid x full now c))"
  "counted c (fst (partial_checked D p vid x now c))" "counted c (fst (pay_out_all D call p vid now v cfg c))"
  "counted c (fst (withdraw_close_checked D p vid now c))"
  subgoal by (auto simp: borrow_checked_def intro!: accrual_counted split: outcome.splits)
  subgoal by (auto simp: repay_checked_def intro!: accrual_counted split: outcome.splits)
  subgoal by (auto simp: partial_checked_def partial_limited_def partial_send_def Let_def intro!: accrual_counted split: outcome.splits option.splits)
  subgoal by (simp add: pay_out_all_def Let_def split: option.splits)
  subgoal by (simp add: withdraw_close_checked_def withdraw_close_pay_def close_now_def pay_out_all_def Let_def split: outcome.splits option.splits)
  done

lemma close_empty_counter:
  assumes "close_empty D vid v c = (c', r)"
  shows "icn_concurrent_close_operations c - 1 \<le> icn_concurrent_close_operations c'"
  using assms by (auto simp: close_empty_def close_now_def complete_close_vault_request_def Let_def split: if_splits option.splits)

lemma close_counted: "counted c (fst (close_checked D p vid now c))"
proof (cases "check_close_vault_rate_limit now p c")
  case (Pair c1 r)
  then have lim: "icn_concurrent_close_operations c1 = icn_concurrent_close_operations c"
    and few: "r = Ok u \<Longrightarrow> icn_concurrent_close_operations c < 200" for u
    by (auto simp: check_close_vault_rate_limit_def Let_def split: if_splits)
  define c2 where "c2 = record_close_vault_request now p c1"
  have one: "icn_concurrent_close_operations c2 = Suc (icn_concurrent_close_operations c)" if "r = Ok u" for u
    using few [OF that] by (simp add: c2_def record_close_vault_request_def lim)
  have completed: "counted c (complete_close_vault_request (c2\<lparr>icn_state := s\<rparr>))" if "r = Ok u" for s u
    using one [OF that] by (simp add: counted_def complete_close_vault_request_def)
  have empty: "counted c (fst (close_empty D vid v (c2\<lparr>icn_state := s\<rparr>)))" if "r = Ok u" for v s u
    using close_empty_counter [of D vid v "c2\<lparr>icn_state := s\<rparr>"] one [OF that] by (cases "close_empty D vid v (c2\<lparr>icn_state := s\<rparr>)") (auto simp: counted_def)
  show ?thesis
    using one completed empty lim
    by (auto simp: close_checked_def Pair c2_def [symmetric] Let_def counted_def split: outcome.splits option.splits if_splits)
qed

lemma first_step_counted: "first_step D c a res \<Longrightarrow> counted c (fst res)"
  by (induction rule: first_step.induct)
    (auto simp: borrow_begin_def repay_begin_def margin_begin_def partial_begin_def withdraw_all_begin_def withdraw_close_begin_def close_begin_def
      intro!: message_counted bodies_counted close_counted split: outcome.splits)


lemma last_step_counted: "last_step D k c c' \<Longrightarrow> counted c c'"
  by (induction rule: last_step.induct)
    (auto simp: borrow_minted_def borrow_end_def repay_pulled_def repay_end_def margin_reply_def partial_reply_def withdraw_all_reply_def
      withdraw_close_reply_def close_now_def put_back_def split: sum.splits option.splits)

lemma icp_step_counted: "icp_step D n m \<Longrightarrow> counted (in_canister n) (in_canister m)"
  unfolding icp_step_def
proof (elim conjE, erule icp_move.cases)
  fix n' a c' r assume "n = n'" "m = moved a c' (awaiting r @ in_flight n') n'" "first_step D (in_canister n') a (c', r)"
  then show ?thesis using first_step_counted by fastforce
next
  fix n' ks k ls c' assume "n = n'" "m = passed c' (ks @ ls) n'" "last_step D k (in_canister n') c'"
  then show ?thesis using last_step_counted by fastforce
qed (auto simp: open_begin_def await_call_def next_op_nonce_def open_reply_def borrow_minted_def repay_pulled_def Let_def raised_def
      admin_correct_vault_collateral_def admin_correct_vault_debts_def
    split: prod.splits outcome.splits if_splits sum.splits option.splits)

lemma close_refused:
  assumes "200 \<le> icn_concurrent_close_operations c"
  shows "\<not> is_Ok (snd (close_begin D p vid now c))"
proof -
  have body: "\<not> is_Ok (snd (close_checked D p vid now c1))" if "200 \<le> icn_concurrent_close_operations c1" for c1 :: "('a, 'b) icp_canister"
    using that by (auto simp: close_checked_def check_close_vault_rate_limit_def Let_def split: outcome.splits)
  have enter: "200 \<le> icn_concurrent_close_operations c1" if "call_enter p name vid now c = (c1, r)" for c1 r name
    using that assms by (auto simp: call_enter_def split: prod.splits outcome.splits option.splits)
  show ?thesis
    using enter body by (force simp: close_begin_def first_message_def split: prod.splits outcome.splits flow.splits)
qed

text \<open>One close of a vault that the bot is processing, by anybody, within the limits: refused, and the counter is one higher.\<close>

lemma close_leaks:
  assumes "call_enter p ''close_vault_'' vid now c = (c1, Ok u)" and "no_active_preflight vid now c1 = Ok u'"
    and "check_close_vault_rate_limit now p c1 = (c2, Ok u'')"
    and "bm_get (ic_vault_id_to_vaults (icn_state c)) vid = Some v" and "iv_bot_processing v"
    and "accrue_single_vault D vid now (icn_state c) = Some s"
  shows "\<exists>c' e. close_begin D p vid now c = (c', Err e) \<and> icn_concurrent_close_operations c' = Suc (icn_concurrent_close_operations c)"
proof -
  have same: "icn_state c1 = icn_state c" "icn_concurrent_close_operations c1 = icn_concurrent_close_operations c"
    using assms(1) by (auto simp: call_enter_def split: prod.splits outcome.splits option.splits)
  have lim: "icn_state c2 = icn_state c1" "icn_concurrent_close_operations c2 = icn_concurrent_close_operations c1"
    "icn_concurrent_close_operations c1 < 200"
    using assms(3) by (auto simp: check_close_vault_rate_limit_def Let_def split: if_splits)
  obtain w where w: "bm_get (ic_vault_id_to_vaults s) vid = Some w" "iv_bot_processing w"
    using assms(4-6) by (auto simp: accrue_single_vault_def accrued_vault_def bind_eq_Some_conv split: if_splits option.splits)
  let ?c3 = "(record_close_vault_request now p c2)\<lparr>icn_state := s\<rparr>"
  have "close_checked D p vid now c1 = (?c3, Err (VeGeneric ''Vault is locked: bot liquidation in progress''))"
    using assms(2,3,6) w by (simp add: close_checked_def lim same Let_def)
  then show ?thesis
    using assms(1) lim same by (simp add: close_begin_def first_message_def call_leave_def record_close_vault_request_def)
qed

section \<open>A small run\<close>

text \<open>One owner opens a vault of 200 units and borrows 300 of a collateral whose ceiling is 600.\<close>

definition run_config :: "(rat, rat) collateral_config" where
  "run_config = sample_config\<lparr>cf_debt_ceiling := 600, cf_ledger_fee := 0\<rparr>"

definition run_state :: "(rat, rat) ics" where
  "run_state = sample_empty\<lparr>ic_collateral_configs := bm_insert 7 run_config bm_empty\<rparr>"

definition no_guards :: principal_guards where
  "no_guards = \<lparr>pg_principals = bm_empty, pg_timestamps = bm_empty, pg_operation_states = bm_empty, pg_operation_names = bm_empty\<rparr>"

definition call_canister :: "(rat, rat) icp_canister" where
  "call_canister = \<lparr>icn_state = run_state, icn_min_icusd_amount = 100, icn_global_icusd_mint_cap = 1000, icn_op_nonce_counter = 0,
     icn_guards = no_guards, icn_locked = bm_empty, icn_reservations = bm_empty, icn_close_vault_requests = bm_empty,
     icn_global_close_requests = [], icn_concurrent_close_operations = 0, icn_dust_forgiven_total = 0, icn_xrp_claims = bm_empty,
     icn_next_xrp_claim_id = 1, icn_xrp_preflights = bm_empty, icn_developer_principal = 9\<rparr>"

definition run_guards :: "string \<Rightarrow> principal_guards" where
  "run_guards name = guard_insert 101 name 2 no_guards"

definition run_vault :: icp_vault where
  "run_vault = fresh_vault 101 200 7 1 2"

definition run_book :: "(rat, rat) ics" where
  "run_book = run_state\<lparr>ic_vault_id_to_vaults := bm_insert 1 run_vault bm_empty,
     ic_principal_to_vault_ids := bm_insert 101 (bs_insert 1 bs_empty) bm_empty,
     ic_collateral_to_vault_ids := bm_insert 7 (bs_insert 1 bs_empty) bm_empty,
     ic_vault_cr_index := bm_insert (cr_index_key rat_decimal (dec_largest rat_decimal)) (bs_insert 1 bs_empty) bm_empty,
     ic_next_available_vault_id := 2\<rparr>"

definition run_opening :: "(rat, rat) icp_canister" where
  "run_opening = call_canister\<lparr>icn_guards := run_guards ''open_vault'', icn_op_nonce_counter := 1\<rparr>"

definition run_opened :: "(rat, rat) icp_canister" where
  "run_opened = call_canister\<lparr>icn_op_nonce_counter := 1, icn_state := run_book\<rparr>"

definition run_borrowing :: "(rat, rat) icp_canister" where
  "run_borrowing = run_opened\<lparr>icn_op_nonce_counter := 2, icn_guards := run_guards ''borrow_vault_1'',
     icn_locked := bm_insert 1 () bm_empty, icn_reservations := bm_insert 7 300 bm_empty\<rparr>"

lemma run_guard: "guard_new 101 name 2 no_guards = (run_guards name, Ok ())"
  by (simp add: guard_new_def run_guards_def no_guards_def Let_def max_concurrent_def bm_keys_def)

lemma run_guard_forget: "guard_forget 101 (run_guards name) = no_guards"
  by (simp add: run_guards_def guard_insert_def guard_forget_def no_guards_def) (intro conjI bm_ext, simp_all)

lemma run_configured: "get_collateral_config run_state 7 = Some run_config" "\<not> is_native_xrp run_config"
  "cf_status run_config = CsActive" "cf_min_collateral_deposit run_config = 0" "cf_ledger_fee run_config = 0"
  by (simp_all add: run_state_def run_config_def sample_empty_def sample_config_def get_collateral_config_def resolve_ct_def sample_ct_def
      is_native_xrp_def custody_of_def)

lemma owner_run_open: "open_begin 101 200 (Some 7) 2 call_canister = (run_opening, Ok (Await (CallOpen 101 7 200) (PullCollateral 7 101 200 (2 ^ 65))))"
  by (simp add: open_begin_def icrc_config_def await_call_def next_op_nonce_def call_canister_def run_configured run_guard run_opening_def
      wrap64_def)

lemma run_open_reply: "open_reply rat_decimal 101 7 200 2 (Inr 0) run_opening = (run_opened, Ok 1)"
proof -
  have "increment_vault_id run_state = Some (run_state\<lparr>ic_next_available_vault_id := 2\<rparr>, 1)"
    by (simp add: increment_vault_id_def run_state_def sample_empty_def wrap64_def)
  moreover have "open_vault rat_decimal (fresh_vault 101 200 7 1 2) (run_state\<lparr>ic_next_available_vault_id := 2\<rparr>) = Some run_book"
    by (simp add: open_vault_def run_book_def run_vault_def run_state_def fresh_vault_def put_vault_def index_vault_by_collateral_def
        run_config_def sample_eval)
  ultimately show ?thesis
    by (simp add: open_reply_def run_opening_def run_opened_def call_canister_def run_guard_forget)
qed


lemma run_book_vault: "bm_get (ic_vault_id_to_vaults run_book) 1 = Some run_vault"
  by (simp add: run_book_def)

lemma run_vault_fields: "iv_owner run_vault = 101" "iv_borrowed_icusd_amount run_vault = 0" "iv_collateral_amount run_vault = 200"
  "iv_collateral_type run_vault = 7" "\<not> iv_bot_processing run_vault" "iv_vault_id run_vault = 1"
  by (simp_all add: run_vault_def fresh_vault_def)

lemma run_decide: "borrow_decide rat_decimal True 101 1 300 (run_opened\<lparr>icn_guards := g, icn_locked := l\<rparr>)
    = Ok (bm_insert 7 300 bm_empty, 0, 7)"
proof -
  have cfg: "get_collateral_config run_book 7 = Some run_config" and debt: "total_debt_for_collateral run_book 7 = 0" "total_borrowed_icusd_amount run_book = 0"
    by (simp_all add: run_book_def run_state_def sample_empty_def sample_ct_def get_collateral_config_def resolve_ct_def total_debt_for_collateral_def indexed_vaults_def run_vault_fields
        bm_keys_def List.map_filter_simps total_borrowed_icusd_amount_def wrap64_def)
  have ceil: "cf_debt_ceiling run_config = 600" by (simp add: run_config_def)
  have status: "status_permits allows_borrow m run_book 7 = Ok ()" for m
    by (simp add: status_permits_def get_collateral_status_def run_book_def run_state_def run_configured)
  have mode: "ic_mode run_book = GeneralAvailability" "ic_borrowing_fee_curve run_book = None"
    by (simp_all add: run_book_def run_state_def sample_empty_def)
  have entry: "bm_get (ic_collateral_configs run_book) 7 = Some run_config" by (simp add: run_book_def run_state_def)
  have price: "get_collateral_price_decimal rat_decimal run_book 7 = Some 5" and val: "collateral_usd_value rat_decimal 200 5 (cf_decimals run_config) = Some 1000"
    and ratio: "effective_min_ratio rat_decimal run_book 7 = Some (3 / 2)" and most: "icusd_div_ratio rat_decimal 1000 (3 / 2) = Some 666"
    and fee: "borrow_fee rat_decimal run_book 7 300 1000 300 = Some 0"
    by (simp_all add: get_collateral_price_decimal_def get_price_for_def entry effective_min_ratio_def mode
        get_min_collateral_ratio_for_def config_or_def icusd_div_ratio_def borrow_fee_def get_borrowing_fee_multiplier_def
        get_borrowing_fee_for_def token_mul_ratio_def clamp_borrow_fee_def run_config_def sample_eval)
  show ?thesis
    by (simp add: borrow_decide_def run_opened_def run_book_vault run_vault_fields price cfg require_vault_not_processing_def status run_configured owned_by_def
        try_reserve_def debt debt_ceiling_of_def ceil call_canister_def val ratio most fee token_add_def sat_add64_def wrap64_def u64_max_def Let_def bm_values_def del: One_nat_def)
qed


lemma run_accrued: "accrue_single_vault rat_decimal 1 2 run_book = Some run_book"
  by (simp add: accrue_single_vault_def run_book_vault accrues_def run_vault_fields del: One_nat_def)

lemma run_preflight: "no_active_preflight 1 2 (run_opened\<lparr>icn_guards := g, icn_locked := l\<rparr>) = Ok ()"
  by (simp add: no_active_preflight_def run_opened_def call_canister_def)

lemma run_fields: "icn_guards run_opened = no_guards" "icn_locked run_opened = bm_empty" "icn_state run_opened = run_book"
  "icn_min_icusd_amount run_opened = 100" "icn_op_nonce_counter run_opened = 1" "icn_reservations run_opened = bm_empty"
  by (simp_all add: run_opened_def call_canister_def)

lemma run_borrow: "borrow_begin rat_decimal True 101 1 300 2 run_opened
   = (run_borrowing, Ok (Await (CallBorrow 101 1 300 0 7 False) (MintIcusd 101 300 (2 ^ 65 + 1))))"
proof -
  have name: "''borrow_vault_'' @ show_nat 1 = ''borrow_vault_1''" by code_simp
  have st: "(run_opened\<lparr>icn_guards := g, icn_locked := l\<rparr>)\<lparr>icn_state := run_book\<rparr> = run_opened\<lparr>icn_guards := g, icn_locked := l\<rparr>" for g l
    by (simp add: run_opened_def)
  show ?thesis
    unfolding borrow_begin_def first_message_def call_enter_def name run_fields run_guard
    by (simp add: vault_lock_new_def borrow_checked_def run_fields after_accrual_def run_preflight run_accrued st run_decide await_call_def next_op_nonce_def
        wrap64_def run_borrowing_def Let_def del: One_nat_def)
qed

definition run_node0 :: "(rat, rat) icp_node" where
  "run_node0 = \<lparr>in_canister = call_canister, in_flight = [], in_interest = (\<lambda>_. 0), in_all_interest = 0,
     in_raised = (\<lambda>_. 0), in_all_raised = 0, in_corrected = {}\<rparr>"

definition run_node :: "(rat, rat) icp_canister \<Rightarrow> icp_call list \<Rightarrow> (rat, rat) icp_node" where
  "run_node c ks = run_node0\<lparr>in_canister := c, in_flight := ks\<rparr>"

lemma run_start: "icp_start call_canister = run_node call_canister []"
  by (simp add: icp_start_def run_node_def run_node0_def call_canister_def empty_book_def run_state_def sample_empty_def)

lemma run_debts: "debts (icn_state call_canister) = (\<lambda>_. 0)" "total_debt (icn_state call_canister) = 0"
    "debts run_book = (\<lambda>_. 0)" "total_debt run_book = 0"
  by (simp_all add: debts_def total_debt_def call_canister_def run_book_def run_state_def sample_empty_def run_vault_fields fun_eq_iff)

lemma run_states: "icn_state run_opening = icn_state call_canister" "icn_state run_opened = run_book" "icn_state run_borrowing = run_book"
  by (simp_all add: run_opening_def run_opened_def run_borrowing_def)

lemma run_steps:
  "icp_step rat_decimal (run_node call_canister []) (run_node run_opening [CallOpen 101 7 200])"
  "icp_step rat_decimal (run_node run_opening [CallOpen 101 7 200]) (run_node run_opened [])"
  "icp_step rat_decimal (run_node run_opened []) (run_node run_borrowing [CallBorrow 101 1 300 0 7 False])"
proof -
  have m: "moved a c' ks (run_node c ls) = run_node c' ks" if "debts (icn_state c') = (\<lambda>_. 0)" "total_debt (icn_state c') = 0" for a c c' ks ls
    using that by (simp add: moved_def run_node_def run_node0_def Let_def)
  have f [simp]: "in_canister (run_node c ks) = c" "in_flight (run_node c ks) = ks" for c ks by (simp_all add: run_node_def)
  have d: "debts (icn_state c) = (\<lambda>_. 0)" "total_debt (icn_state c) = 0" if "c \<in> {call_canister, run_opening, run_opened, run_borrowing}" for c
    using that run_debts by (auto simp: run_states)
  show "icp_step rat_decimal (run_node call_canister []) (run_node run_opening [CallOpen 101 7 200])"
    using icp_move.open_first [of 101 200 "Some 7" 2 "run_node call_canister []"] owner_run_open by (simp add: icp_step_def m d u64_max_def)
  show "icp_step rat_decimal (run_node run_opening [CallOpen 101 7 200]) (run_node run_opened [])"
    using icp_move.open_last [of "run_node run_opening [CallOpen 101 7 200]" "[]" 101 7 200 "[]" rat_decimal 2 "Inr 0"] run_open_reply
    by (simp add: icp_step_def m d u64_max_def)
  have "first_step rat_decimal run_opened (accrued rat_decimal 1 2 (icn_state run_opened)) (run_borrowing, Ok (Await (CallBorrow 101 1 300 0 7 False) (MintIcusd 101 300 (2 ^ 65 + 1))))"
    using first_step.intros(1) [of rat_decimal run_opened 1 2 True 101 300] by (simp only: run_borrow)
  then show "icp_step rat_decimal (run_node run_opened []) (run_node run_borrowing [CallBorrow 101 1 300 0 7 False])"
    using icp_move.first [of rat_decimal "run_node run_opened []" _ run_borrowing] by (force simp: icp_step_def m d u64_max_def)
qed

lemma owner_run_reachable: "(icp_step rat_decimal)\<^sup>*\<^sup>* (icp_start call_canister) (run_node run_borrowing [CallBorrow 101 1 300 0 7 False])"
  unfolding run_start using run_steps by (metis rtranclp.rtrancl_into_rtrancl rtranclp.rtrancl_refl)

section \<open>Limits on borrowing\<close>

text \<open>C6. Whatever calls of owners wait for a ledger, in whatever order the answers come, and whatever interest accrues, redemptions run and
  corrections the developer makes in between: the debt of a collateral together with the borrows whose mint has not been answered exceeds a finite
  ceiling by no more than the interest that accruals added and the debt that corrections added, and so does all debt the finite global cap.
  No other step adds debt: repayments, redemptions, withdrawals, closes and failed borrows lower it or leave it.\<close>

theorem borrowing_within_limits:
  fixes D :: "('d, 'f) decimal"
  assumes "(icp_step D)\<^sup>*\<^sup>* (icp_start c) n"
  defines "s \<equiv> icn_state (in_canister n)" and "cap \<equiv> icn_global_icusd_mint_cap (in_canister n)"
  shows "(debt_ceiling_of s ct < u64_max \<longrightarrow> debts s ct + unminted ct (in_flight n) \<le> debt_ceiling_of s ct + in_interest n ct + in_raised n ct)
    \<and> (cap < u64_max \<longrightarrow> total_debt s + all_unminted (in_flight n) \<le> cap + in_all_interest n + in_all_raised n)"
  using owner_calls.reachable_inv [OF assms(1)] by (simp add: icp_inv_def below_ceilings_def Let_def s_def cap_def)

theorem borrowing_within_limits_witness:
  "let s = icn_state run_borrowing in
     debt_ceiling_of s 7 = 600 \<and> debts s 7 + unminted 7 [CallBorrow 101 1 300 0 7 False] \<le> 600 \<and> unminted 7 [CallBorrow 101 1 300 0 7 False] = 300"
proof -
  have ceil: "debt_ceiling_of (icn_state run_borrowing) 7 = 600"
    by (simp add: run_states run_book_def debt_ceiling_of_def get_collateral_config_def resolve_ct_def run_state_def run_config_def sample_empty_def sample_ct_def)
  show ?thesis
    using borrowing_within_limits [OF owner_run_reachable, of 7] ceil by (simp add: run_node_def run_node0_def u64_max_def)
qed

section \<open>One call per vault\<close>

text \<open>Of all waiting calls no two have the same vault, the locked vaults are exactly theirs, and each finds its vault there, still its
  caller's, with the collateral that it is about to pay out.\<close>

theorem waiting_calls_exclusive:
  fixes D :: "('d, 'f) decimal"
  assumes "(icp_step D)\<^sup>*\<^sup>* (icp_start c) n"
  shows "distinct (concat (map call_vaults (in_flight n)))
    \<and> (\<forall>vid. bm_has (icn_locked (in_canister n)) vid \<longleftrightarrow> vid \<in> set (concat (map call_vaults (in_flight n))))
    \<and> (\<forall>k. k \<in> set (in_flight n) \<longrightarrow> call_ok (in_corrected n) (icn_state (in_canister n)) k)"
  using owner_calls.reachable_inv [OF assms(1)] by (auto simp: icp_inv_def locks_ok_def)

theorem waiting_calls_exclusive_witness:
  "bm_has (icn_locked run_borrowing) 1 \<and> call_ok {} (icn_state run_borrowing) (CallBorrow 101 1 300 0 7 False)"
  using waiting_calls_exclusive [OF owner_run_reachable] by (simp add: run_node_def run_node0_def del: One_nat_def)

section \<open>What a borrow passes\<close>

lemma borrow_fee_less: "borrow_fee D s ct x val debt = Some fee \<Longrightarrow> 0 < x \<Longrightarrow> fee < x"
  by (auto simp: borrow_fee_def bind_eq_Some_conv clamp_borrow_fee_def sat_sub_def)

lemma first_message_await:
  assumes "first_message p name vid now body c = (c', Ok (Await k m))"
  obtains g l where "body (c\<lparr>icn_guards := g, icn_locked := l\<rparr>) = (c', Ok (Await k m))"
proof (cases "call_enter p name vid now c")
  case (Pair c1 r)
  then obtain u where r: "r = Ok u" and b: "body c1 = (c', Ok (Await k m))"
    using assms by (auto simp: first_message_def split: prod.splits outcome.splits flow.splits)
  from Pair r obtain g l where "c1 = c\<lparr>icn_guards := g, icn_locked := l\<rparr>"
    by (auto simp: call_enter_def split: prod.splits outcome.splits option.splits)
  with b that show ?thesis by blast
qed

lemma borrow_decided_fully:
  assumes "borrow_decide D key p vid x c = Ok (res, fee, ct)" and "0 < x"
  shows "\<exists>v cfg price val ratio most.
     bm_get (ic_vault_id_to_vaults (icn_state c)) vid = Some v \<and> iv_owner v = p \<and> \<not> iv_bot_processing v \<and> ct = iv_collateral_type v \<and> fee < x
     \<and> get_collateral_config (icn_state c) ct = Some cfg \<and> get_collateral_price_decimal D (icn_state c) ct = Some price
     \<and> collateral_usd_value D (iv_collateral_amount v) price (cf_decimals cfg) = Some val
     \<and> effective_min_ratio D (icn_state c) ct = Some ratio \<and> icusd_div_ratio D val ratio = Some most
     \<and> token_add (iv_borrowed_icusd_amount v) x \<le> most"
  using assms(1) borrow_fee_less [OF _ assms(2)]
  by (auto simp: borrow_decide_def Let_def and_then_Ok_iff require_vault_not_processing_def not_less split: if_splits)

text \<open>C39. A borrow that reaches the ledger is by the owner of the vault, of at least the minimum, leaves the debt within what the
  collateral carries at the minimum ratio, and asks for the amount less a fee that is smaller than the amount.\<close>

theorem borrow_checks:
  assumes "borrow_begin D key p vid x now c = (c', Ok (Await k m))" and "0 < x"
  shows "\<exists>v cfg price val ratio most fee nonce.
     k = CallBorrow p vid x fee (iv_collateral_type v) False \<and> m = MintIcusd p (x - fee) nonce \<and> fee < x \<and> icn_min_icusd_amount c \<le> x
     \<and> bm_get (ic_vault_id_to_vaults (icn_state c')) vid = Some v \<and> iv_owner v = p \<and> \<not> iv_bot_processing v
     \<and> get_collateral_config (icn_state c') (iv_collateral_type v) = Some cfg
     \<and> get_collateral_price_decimal D (icn_state c') (iv_collateral_type v) = Some price
     \<and> collateral_usd_value D (iv_collateral_amount v) price (cf_decimals cfg) = Some val
     \<and> effective_min_ratio D (icn_state c') (iv_collateral_type v) = Some ratio
     \<and> icusd_div_ratio D val ratio = Some most \<and> token_add (iv_borrowed_icusd_amount v) x \<le> most"
proof -
  obtain c0 c1 where low: "icn_min_icusd_amount c \<le> x" and c0: "borrow_decide D key p vid x c0 = Ok c1"
    and out: "await_call now (CallBorrow p vid x (fst (snd c1)) (snd (snd c1)) False) (MintIcusd p (x - fst (snd c1))) (c0\<lparr>icn_reservations := fst c1\<rparr>)
      = (c', Ok (Await k m))"
    using assms(1)
    by (auto simp: borrow_begin_def borrow_checked_def after_accrual_def elim!: first_message_await
        split: if_splits outcome.splits option.splits prod.splits)
  obtain res fee ct where c1: "c1 = (res, fee, ct)" by (cases c1)
  have "icn_state c' = icn_state c0" "k = CallBorrow p vid x fee ct False" "\<exists>nonce. m = MintIcusd p (x - fee) nonce"
    using out by (auto simp: c1 await_call_def next_op_nonce_def)
  with borrow_decided_fully [OF c0 [unfolded c1] assms(2)] low show ?thesis by fastforce
qed

theorem borrow_checks_witness:
  "\<exists>v cfg price val ratio most fee nonce.
     CallBorrow 101 1 300 0 7 False = CallBorrow 101 1 300 fee (iv_collateral_type v) False \<and> MintIcusd 101 300 (2 ^ 65 + 1) = MintIcusd 101 (300 - fee) nonce
     \<and> fee < 300 \<and> 100 \<le> (300 :: u64)
     \<and> bm_get (ic_vault_id_to_vaults (icn_state run_borrowing)) 1 = Some v \<and> iv_owner v = 101 \<and> \<not> iv_bot_processing v
     \<and> get_collateral_config (icn_state run_borrowing) (iv_collateral_type v) = Some cfg
     \<and> get_collateral_price_decimal rat_decimal (icn_state run_borrowing) (iv_collateral_type v) = Some price
     \<and> collateral_usd_value rat_decimal (iv_collateral_amount v) price (cf_decimals cfg) = Some val
     \<and> effective_min_ratio rat_decimal (icn_state run_borrowing) (iv_collateral_type v) = Some ratio
     \<and> icusd_div_ratio rat_decimal val ratio = Some most \<and> token_add (iv_borrowed_icusd_amount v) 300 \<le> most"
proof -
  have low: "icn_min_icusd_amount run_opened = 100" by (simp add: run_opened_def call_canister_def)
  show ?thesis using borrow_checks [OF run_borrow] unfolding low by simp
qed

section \<open>Withdrawals\<close>

lemma waiting_vault:
  assumes "(icp_step D)\<^sup>*\<^sup>* (icp_start c) n" and "k \<in> set (in_flight n)" and "call_vaults k = [vid]"
  shows "call_ok (in_corrected n) (icn_state (in_canister n)) k \<and> (\<exists>v. bm_get (ic_vault_id_to_vaults (icn_state (in_canister n))) vid = Some v)"
proof -
  have "call_ok (in_corrected n) (icn_state (in_canister n)) k" using owner_calls.reachable_inv [OF assms(1)] assms(2) by (auto simp: icp_inv_def)
  then show ?thesis using assms(3) by (cases k) (auto split: option.splits)
qed

text \<open>C38. The ledger paid out a partial withdrawal: the vault is still there and its owner's, and has that much less, or nothing if it had less.
  It had at least that much, and so has exactly that much less, whatever calls, interest, redemptions and corrections of debts ran
  between the transfer and its answer, unless the developer corrected the collateral of the vault in that time. Nothing else of the vault
  changes, nor any other vault.\<close>

theorem partial_withdrawal_exact:
  assumes "(icp_step D)\<^sup>*\<^sup>* (icp_start c) n" and "CallPartial p vid x \<in> set (in_flight n)"
    and "partial_reply D p vid x (Inr block) (in_canister n) = (c', Ok b)"
  shows "\<exists>v. bm_get (ic_vault_id_to_vaults (icn_state (in_canister n))) vid = Some v \<and> iv_owner v = p
     \<and> ic_vault_id_to_vaults (icn_state c')
        = bm_insert vid (v\<lparr>iv_collateral_amount := iv_collateral_amount v - x\<rparr>) (ic_vault_id_to_vaults (icn_state (in_canister n)))
     \<and> (vid \<notin> in_corrected n \<longrightarrow> x \<le> iv_collateral_amount v)"
proof -
  let ?c = "in_canister n"
  obtain v where v: "bm_get (ic_vault_id_to_vaults (icn_state ?c)) vid = Some v" "call_ok (in_corrected n) (icn_state ?c) (CallPartial p vid x)"
    using waiting_vault [OF assms(1,2), of vid] unfolding call_vaults.simps by blast
  obtain s where s: "remove_margin_from_vault D vid x (icn_state ?c) = Some s" and c': "icn_state c' = s"
    using assms(3) by (auto simp: partial_reply_def split: option.splits)
  from rekeyed_vaults [OF s [unfolded remove_margin_from_vault_def]] v show ?thesis
    by (simp add: c' bm_modify_def sat_sub_def)
qed

text \<open>C13. A withdrawal of the whole collateral whose transfer fails: from the first message to the answer the vault is empty in the book,
  whatever runs in between, and the answer gives it back exactly the collateral it had.\<close>

theorem failed_withdrawal_restored:
  assumes "(icp_step D)\<^sup>*\<^sup>* (icp_start c) n" and "bm_get (ic_vault_id_to_vaults (icn_state (in_canister n))) vid = Some v"
    and begun: "withdraw_all_begin D p vid now (in_canister n) = (c1, Ok (Await (CallWithdraw p vid x) m))"
      "icp_step D n (passed c1 (CallWithdraw p vid x # in_flight n) n)"
    and later: "(icp_step D)\<^sup>*\<^sup>* (passed c1 (CallWithdraw p vid x # in_flight n) n) n'" "CallWithdraw p vid x \<in> set (in_flight n')"
    and failed: "withdraw_all_reply D p vid x (Inl e) (in_canister n') = (c2, Err (VeTransfer e))"
  shows "\<exists>w. bm_get (ic_vault_id_to_vaults (icn_state (in_canister n'))) vid = Some w \<and> iv_collateral_amount w = 0 \<and> iv_owner w = iv_owner v
     \<and> ic_vault_id_to_vaults (icn_state c2)
        = bm_insert vid (w\<lparr>iv_collateral_amount := iv_collateral_amount v\<rparr>) (ic_vault_id_to_vaults (icn_state (in_canister n')))"
proof -
  have run: "(icp_step D)\<^sup>*\<^sup>* (icp_start c) n'" using assms(1) begun(2) later(1) by (meson rtranclp.rtrancl_into_rtrancl rtranclp_trans)
  obtain g l where "(case and_then (no_active_preflight vid now (in_canister n\<lparr>icn_guards := g, icn_locked := l\<rparr>))
        (\<lambda>_. withdraw_vault p vid (in_canister n\<lparr>icn_guards := g, icn_locked := l\<rparr>)) of
       Ok (v, cfg) \<Rightarrow> pay_out_all D CallWithdraw p vid now v cfg (in_canister n\<lparr>icn_guards := g, icn_locked := l\<rparr>)
     | Err e \<Rightarrow> (in_canister n\<lparr>icn_guards := g, icn_locked := l\<rparr>, Err e)
     | Trap \<Rightarrow> (in_canister n\<lparr>icn_guards := g, icn_locked := l\<rparr>, Trap)) = (c1, Ok (Await (CallWithdraw p vid x) m))"
    using begun(1) [unfolded withdraw_all_begin_def] by (rule first_message_await)
  then obtain v' cfg where v': "withdraw_vault p vid (in_canister n\<lparr>icn_guards := g, icn_locked := l\<rparr>) = Ok (v', cfg)"
      and pay: "pay_out_all D CallWithdraw p vid now v' cfg (in_canister n\<lparr>icn_guards := g, icn_locked := l\<rparr>) = (c1, Ok (Await (CallWithdraw p vid x) m))"
    by (auto simp: and_then_Ok_iff split: outcome.splits)
  have "v' = v" and p: "iv_owner v = p" using v' assms(2) by (auto simp: withdraw_vault_def Let_def and_then_Ok_iff split: if_splits)
  moreover have "x = iv_collateral_amount v'"
    using pay by (auto simp: pay_out_all_def await_call_def next_op_nonce_def record_xrp_claim_def Let_def split: option.splits if_splits)
  ultimately have x: "x = iv_collateral_amount v" by simp
  let ?c = "in_canister n'"
  obtain w where w: "bm_get (ic_vault_id_to_vaults (icn_state ?c)) vid = Some w" "call_ok (in_corrected n') (icn_state ?c) (CallWithdraw p vid x)"
    using waiting_vault [OF run later(2), of vid] unfolding call_vaults.simps by blast
  obtain s where s: "touch_vault D vid (\<lambda>v. v\<lparr>iv_collateral_amount := x\<rparr>) (icn_state ?c) = Some s" and c2: "icn_state c2 = s"
    using failed by (auto simp: withdraw_all_reply_def put_back_def set_collateral_def split: option.splits)
  from touched_frame(1) [OF s] w p show ?thesis by (simp add: c2 bm_modify_def x)
qed


section \<open>Witnesses of withdrawals\<close>

definition run_paying :: "string \<Rightarrow> (rat, rat) ics \<Rightarrow> (rat, rat) icp_canister" where
  "run_paying name s = run_opened\<lparr>icn_op_nonce_counter := 2, icn_guards := run_guards name, icn_locked := bm_insert 1 () bm_empty, icn_state := s\<rparr>"

lemma run_book_config: "get_collateral_config run_book 7 = Some run_config" "get_collateral_status run_book 7 = Some CsActive"
  using run_configured(3) by (simp_all add: get_collateral_status_def run_book_def run_state_def get_collateral_config_def resolve_ct_def sample_empty_def sample_ct_def)

lemma run_partial: "partial_begin rat_decimal 101 1 50 2 run_opened
   = (run_paying ''withdraw_partial_1'' run_book, Ok (Await (CallPartial 101 1 50) (PayCollateral 7 101 50 (2 ^ 65 + 1))))"
proof -
  have name: "''withdraw_partial_'' @ show_nat 1 = ''withdraw_partial_1''" by code_simp
  have price: "get_collateral_price_decimal rat_decimal run_book 7 = Some 5"
    by (simp add: get_collateral_price_decimal_def get_price_for_def run_book_config rat_decimal_def run_config_def sample_config_def)
  have st: "(run_opened\<lparr>icn_guards := g, icn_locked := l\<rparr>)\<lparr>icn_state := run_book\<rparr> = run_opened\<lparr>icn_guards := g, icn_locked := l\<rparr>" for g l
    by (simp add: run_opened_def)
  have v: "partial_vault rat_decimal 101 1 50 (run_opened\<lparr>icn_guards := g, icn_locked := l\<rparr>) = Ok (run_vault, 5, run_config)" for g l
    by (simp add: partial_vault_def run_fields run_book_vault run_vault_fields price run_book_config require_vault_not_processing_def run_configured
        status_permits_def owned_by_def Let_def del: One_nat_def)
  show ?thesis
    unfolding partial_begin_def first_message_def call_enter_def name run_fields run_guard
    by (simp add: vault_lock_new_def partial_checked_def run_fields after_accrual_def run_preflight run_accrued st v has_dust_def run_vault_fields
        partial_limited_def max_withdrawable_def partial_send_def run_configured await_call_def next_op_nonce_def wrap64_def run_paying_def Let_def
        del: One_nat_def)
qed

lemma debtless_reindexed:
  assumes "bm_get (ic_vault_id_to_vaults s) vid = Some v" and "iv_borrowed_icusd_amount (f v) = 0"
  shows "\<exists>t. touch_vault D vid f s = Some t"
  using assms by (simp add: touch_vault_def reindex_vault_cr_def unindex_vault_cr_eq compute_collateral_ratio_def Let_def)

definition owner_run_emptied :: "(rat, rat) ics" where
  "owner_run_emptied = the (set_collateral rat_decimal 1 0 run_book)"

lemma owner_run_emptied_facts: "set_collateral rat_decimal 1 0 run_book = Some owner_run_emptied"
  "ic_vault_id_to_vaults owner_run_emptied = bm_insert 1 (run_vault\<lparr>iv_collateral_amount := 0\<rparr>) bm_empty"
proof -
  obtain t where t: "touch_vault rat_decimal 1 (\<lambda>v. v\<lparr>iv_collateral_amount := 0\<rparr>) run_book = Some t"
    using debtless_reindexed [OF run_book_vault, of "\<lambda>v. v\<lparr>iv_collateral_amount := 0\<rparr>" rat_decimal] by (auto simp: run_vault_fields)
  then show "set_collateral rat_decimal 1 0 run_book = Some owner_run_emptied" by (simp add: owner_run_emptied_def set_collateral_def)
  then have "touch_vault rat_decimal 1 (\<lambda>v. v\<lparr>iv_collateral_amount := 0\<rparr>) run_book = Some owner_run_emptied" by (simp add: set_collateral_def)
  from touched_frame(1) [OF this] show "ic_vault_id_to_vaults owner_run_emptied = bm_insert 1 (run_vault\<lparr>iv_collateral_amount := 0\<rparr>) bm_empty"
    by (intro bm_ext) (simp add: run_book_def)
qed

lemma owner_run_withdraw: "withdraw_all_begin rat_decimal 101 1 2 run_opened
   = (run_paying ''withdraw_collateral_1'' owner_run_emptied, Ok (Await (CallWithdraw 101 1 200) (PayCollateral 7 101 200 (2 ^ 65 + 1))))"
proof -
  have name: "''withdraw_collateral_'' @ show_nat 1 = ''withdraw_collateral_1''" by code_simp
  have v: "withdraw_vault 101 1 (run_opened\<lparr>icn_guards := g, icn_locked := l\<rparr>) = Ok (run_vault, run_config)" for g l
    by (simp add: withdraw_vault_def run_fields run_book_vault run_vault_fields run_book_config require_vault_not_processing_def
        status_permits_def owned_by_def Let_def del: One_nat_def)
  show ?thesis
    unfolding withdraw_all_begin_def first_message_def call_enter_def name run_fields run_guard
    by (simp add: vault_lock_new_def run_fields run_preflight v run_vault_fields owner_run_emptied_facts(1)
        pay_out_all_def run_configured await_call_def next_op_nonce_def wrap64_def run_paying_def Let_def
        del: One_nat_def)
qed

lemma run_emptied_debts: "debts owner_run_emptied = (\<lambda>_. 0)" "total_debt owner_run_emptied = 0"
  by (simp_all add: debts_def total_debt_def owner_run_emptied_facts(2) run_vault_fields fun_eq_iff)

lemma run_pay_steps:
  "icp_step rat_decimal (run_node run_opened []) (run_node (run_paying ''withdraw_partial_1'' run_book) [CallPartial 101 1 50])"
  "icp_step rat_decimal (run_node run_opened []) (run_node (run_paying ''withdraw_collateral_1'' owner_run_emptied) [CallWithdraw 101 1 200])"
proof -
  have f [simp]: "in_canister (run_node c ks) = c" "in_flight (run_node c ks) = ks" for c ks by (simp_all add: run_node_def)
  have m: "moved a (run_paying name s) ks (run_node run_opened []) = run_node (run_paying name s) ks" if "debts s = (\<lambda>_. 0)" "total_debt s = 0" for a name s ks
    using that by (simp add: moved_def run_node_def run_node0_def run_paying_def Let_def)
  have "first_step rat_decimal run_opened (accrued rat_decimal 1 2 (icn_state run_opened))
      (run_paying ''withdraw_partial_1'' run_book, Ok (Await (CallPartial 101 1 50) (PayCollateral 7 101 50 (2 ^ 65 + 1))))"
    using first_step.intros(4) [of rat_decimal run_opened 1 2 101 50] by (simp only: run_partial)
  from icp_move.first [of rat_decimal "run_node run_opened []", simplified f, OF this]
  show "icp_step rat_decimal (run_node run_opened []) (run_node (run_paying ''withdraw_partial_1'' run_book) [CallPartial 101 1 50])"
    by (simp add: icp_step_def m run_debts u64_max_def) (simp add: run_paying_def run_debts)
  have "first_step rat_decimal run_opened (icn_state run_opened)
      (run_paying ''withdraw_collateral_1'' owner_run_emptied, Ok (Await (CallWithdraw 101 1 200) (PayCollateral 7 101 200 (2 ^ 65 + 1))))"
    using first_step.intros(5) [of rat_decimal run_opened 101 1 2] by (simp only: owner_run_withdraw)
  from icp_move.first [of rat_decimal "run_node run_opened []", simplified f, OF this]
  show "icp_step rat_decimal (run_node run_opened []) (run_node (run_paying ''withdraw_collateral_1'' owner_run_emptied) [CallWithdraw 101 1 200])"
    by (simp add: icp_step_def m run_emptied_debts u64_max_def) (simp add: run_paying_def run_emptied_debts)
qed


lemma run_paid_reachable:
  "(icp_step rat_decimal)\<^sup>*\<^sup>* (icp_start call_canister) (run_node run_opened [])"
  "(icp_step rat_decimal)\<^sup>*\<^sup>* (icp_start call_canister) (run_node (run_paying ''withdraw_partial_1'' run_book) [CallPartial 101 1 50])"
proof -
  show r: "(icp_step rat_decimal)\<^sup>*\<^sup>* (icp_start call_canister) (run_node run_opened [])"
    unfolding run_start using rtranclp_trans [OF r_into_rtranclp [where r = "icp_step rat_decimal", OF run_steps(1)] r_into_rtranclp [where r = "icp_step rat_decimal", OF run_steps(2)]] .
  show "(icp_step rat_decimal)\<^sup>*\<^sup>* (icp_start call_canister) (run_node (run_paying ''withdraw_partial_1'' run_book) [CallPartial 101 1 50])"
    using r run_pay_steps(1) by (rule rtranclp.rtrancl_into_rtrancl)
qed

text \<open>The developer corrects the vault to 20 while 50 are on their way.\<close>

definition run_corrected :: "(rat, rat) icp_canister" where
  "run_corrected = fst (admin_correct_vault_collateral 9 1 20 (run_paying ''withdraw_partial_1'' run_book))"

definition run_corrected_node :: "(rat, rat) icp_node" where
  "run_corrected_node = (run_node (run_paying ''withdraw_partial_1'' run_book) [CallPartial 101 1 50])\<lparr>in_canister := run_corrected, in_corrected := {1}\<rparr>"

lemma run_corrected_vaults: "ic_vault_id_to_vaults (icn_state run_corrected) = bm_insert 1 (run_vault\<lparr>iv_collateral_amount := 20\<rparr>) (ic_vault_id_to_vaults run_book)"
  by (simp add: run_corrected_def admin_correct_vault_collateral_def run_paying_def run_opened_def call_canister_def run_book_vault run_vault_fields
      bm_modify_def del: One_nat_def)

lemma run_corrected_reachable: "(icp_step rat_decimal)\<^sup>*\<^sup>* (icp_start call_canister) run_corrected_node"
proof -
  let ?n = "run_node (run_paying ''withdraw_partial_1'' run_book) [CallPartial 101 1 50]"
  obtain r where "admin_correct_vault_collateral 9 1 20 (in_canister ?n) = (run_corrected, r)"
    by (cases "admin_correct_vault_collateral 9 1 20 (in_canister ?n)") (simp add: run_corrected_def run_node_def)
  from icp_move.correct_collateral [OF this, of rat_decimal] have "icp_move rat_decimal ?n run_corrected_node"
    by (simp add: run_corrected_node_def run_node_def run_node0_def del: One_nat_def)
  moreover have "total_debt (icn_state run_corrected) = 0"
    by (simp add: total_debt_def run_corrected_vaults run_book_def run_vault_fields del: One_nat_def)
  ultimately have "icp_step rat_decimal ?n run_corrected_node"
    by (simp add: icp_step_def run_corrected_node_def run_node_def)
  with run_paid_reachable(2) show ?thesis by (rule rtranclp.rtrancl_into_rtrancl)
qed

lemma run_partial_reply:
  assumes "bm_get (ic_vault_id_to_vaults (icn_state c)) 1 = Some v" and "iv_borrowed_icusd_amount v = 0"
  shows "\<exists>c'. partial_reply rat_decimal 101 1 50 (Inr 9) c = (c', Ok 9)"
proof -
  obtain s where "touch_vault rat_decimal 1 (\<lambda>v. v\<lparr>iv_collateral_amount := sat_sub (iv_collateral_amount v) 50\<rparr>) (icn_state c) = Some s"
    using debtless_reindexed [OF assms(1), of "\<lambda>v. v\<lparr>iv_collateral_amount := sat_sub (iv_collateral_amount v) 50\<rparr>" rat_decimal] assms(2) by auto
  then have "remove_margin_from_vault rat_decimal 1 50 (icn_state c) = Some s"
    using assms(1) by (simp add: remove_margin_from_vault_def rekeyed_def touch_vault_def bm_has_def del: One_nat_def)
  then show ?thesis by (simp add: partial_reply_def del: One_nat_def)
qed

theorem partial_withdrawal_exact_witness:
  "\<exists>c1 v c2 w. partial_reply rat_decimal 101 1 50 (Inr 9) (run_paying ''withdraw_partial_1'' run_book) = (c1, Ok 9)
     \<and> bm_get (ic_vault_id_to_vaults (icn_state c1)) 1 = Some v \<and> iv_collateral_amount v = 150
     \<and> partial_reply rat_decimal 101 1 50 (Inr 9) run_corrected = (c2, Ok 9)
     \<and> bm_get (ic_vault_id_to_vaults (icn_state c2)) 1 = Some w \<and> iv_collateral_amount w = 0"
proof -
  let ?c = "run_paying ''withdraw_partial_1'' run_book"
  have state: "icn_state ?c = run_book" by (simp add: run_paying_def)
  obtain c1 where c1: "partial_reply rat_decimal 101 1 50 (Inr 9) ?c = (c1, Ok 9)"
    using run_partial_reply [of ?c run_vault] by (auto simp: state run_book_vault run_vault_fields simp del: One_nat_def)
  obtain c2 where c2: "partial_reply rat_decimal 101 1 50 (Inr 9) run_corrected = (c2, Ok 9)"
    using run_partial_reply [of run_corrected "run_vault\<lparr>iv_collateral_amount := 20\<rparr>"] by (auto simp: run_corrected_vaults run_vault_fields simp del: One_nat_def)
  have "ic_vault_id_to_vaults (icn_state c1) = bm_insert 1 (run_vault\<lparr>iv_collateral_amount := 150\<rparr>) (ic_vault_id_to_vaults run_book)"
    using partial_withdrawal_exact [OF run_paid_reachable(2), of 101 1 50 9 c1 9] c1
    by (simp add: run_node_def run_node0_def state run_book_vault run_vault_fields del: One_nat_def)
  moreover have "\<exists>w. bm_get (ic_vault_id_to_vaults (icn_state c2)) 1 = Some w \<and> iv_collateral_amount w = 0"
    using partial_withdrawal_exact [OF run_corrected_reachable, of 101 1 50 9 c2 9] c2
    by (simp add: run_corrected_node_def run_node_def run_corrected_vaults del: One_nat_def)
  ultimately show ?thesis using c1 c2 by auto
qed

theorem failed_withdrawal_restored_witness:
  "\<exists>c2. withdraw_all_reply rat_decimal 101 1 200 (Inl (VtOther ''busy'')) (run_paying ''withdraw_collateral_1'' owner_run_emptied) = (c2, Err (VeTransfer (VtOther ''busy'')))
     \<and> (\<exists>w. bm_get (ic_vault_id_to_vaults (icn_state c2)) 1 = Some w \<and> iv_collateral_amount w = 200)"
proof -
  let ?c = "run_paying ''withdraw_collateral_1'' owner_run_emptied" and ?n = "run_node run_opened []"
  have n: "in_canister ?n = run_opened" "in_flight ?n = []" by (simp_all add: run_node_def)
  have m: "passed ?c [CallWithdraw 101 1 200] ?n = run_node ?c [CallWithdraw 101 1 200]"
    by (simp add: moved_def run_node_def run_node0_def run_paying_def run_emptied_debts Let_def)
  obtain s where "touch_vault rat_decimal 1 (\<lambda>v. v\<lparr>iv_collateral_amount := 200\<rparr>) owner_run_emptied = Some s"
    using debtless_reindexed [of owner_run_emptied 1 "run_vault\<lparr>iv_collateral_amount := 0\<rparr>" "\<lambda>v. v\<lparr>iv_collateral_amount := 200\<rparr>" rat_decimal]
    by (auto simp: run_vault_fields owner_run_emptied_facts(2))
  then have reply: "withdraw_all_reply rat_decimal 101 1 200 (Inl (VtOther ''busy'')) ?c
      = (call_leave 101 1 (?c\<lparr>icn_state := s\<rparr>), Err (VeTransfer (VtOther ''busy'')))"
    by (simp add: withdraw_all_reply_def put_back_def set_collateral_def run_paying_def del: One_nat_def)
  have "\<exists>w. bm_get (ic_vault_id_to_vaults (icn_state ?c)) 1 = Some w \<and> iv_collateral_amount w = 0 \<and> iv_owner w = iv_owner run_vault
     \<and> ic_vault_id_to_vaults (icn_state (call_leave 101 1 (?c\<lparr>icn_state := s\<rparr>)))
        = bm_insert 1 (w\<lparr>iv_collateral_amount := iv_collateral_amount run_vault\<rparr>) (ic_vault_id_to_vaults (icn_state ?c))"
    using failed_withdrawal_restored [OF run_paid_reachable(1), of 1 run_vault 101 2 ?c 200 "PayCollateral 7 101 200 (2 ^ 65 + 1)"
        "run_node ?c [CallWithdraw 101 1 200]" "VtOther ''busy''"]
      owner_run_withdraw reply run_pay_steps(2) m n run_book_vault
    by (simp add: run_fields run_node_def [of ?c] del: One_nat_def)
  with reply show ?thesis by (auto simp: run_vault_fields)
qed

section \<open>Closing\<close>

text \<open>C40. A close of a vault that the bot is processing, by whoever passes the locks and the rate limits, is refused and leaves the counter of
  running closes one higher. No step of any run afterwards brings the counter down, and in every state in which it has
  reached 200 every close of every vault is refused.\<close>

theorem close_vault_shut:
  fixes D :: "('d, 'f) decimal"
  assumes bot: "bm_get (ic_vault_id_to_vaults (icn_state (in_canister n))) vid = Some v" "iv_bot_processing v"
    and admitted: "call_enter p ''close_vault_'' vid now (in_canister n) = (c1, Ok ())" "no_active_preflight vid now c1 = Ok ()"
      "check_close_vault_rate_limit now p c1 = (c2, Ok ())" "accrue_single_vault D vid now (icn_state (in_canister n)) = Some s"
    and later: "(icp_step D)\<^sup>*\<^sup>* (moved s (fst (close_begin D p vid now (in_canister n))) (in_flight n) n) m"
  shows "(\<exists>c' e. close_begin D p vid now (in_canister n) = (c', Err e)
         \<and> icn_concurrent_close_operations c' = icn_concurrent_close_operations (in_canister n) + 1)
    \<and> icn_concurrent_close_operations (in_canister n) + 1 \<le> icn_concurrent_close_operations (in_canister m)
    \<and> (200 \<le> icn_concurrent_close_operations (in_canister m) \<longrightarrow> \<not> is_Ok (snd (close_begin D q vid' t (in_canister m))))"
proof -
  obtain c' e where leak: "close_begin D p vid now (in_canister n) = (c', Err e)"
    "icn_concurrent_close_operations c' = Suc (icn_concurrent_close_operations (in_canister n))"
    using close_leaks [OF admitted(1-3) bot admitted(4)] by blast
  from later have "Suc (icn_concurrent_close_operations (in_canister n)) \<le> icn_concurrent_close_operations (in_canister m)"
    by (induction rule: rtranclp_induct) (auto simp: leak counted_def dest: icp_step_counted)
  with leak show ?thesis by (auto dest: close_refused)
qed

definition shut_canister :: "(rat, rat) icp_canister" where
  "shut_canister = run_opened\<lparr>icn_state := run_book\<lparr>ic_vault_id_to_vaults := bm_insert 1 (run_vault\<lparr>iv_bot_processing := True\<rparr>) bm_empty\<rparr>\<rparr>"

text \<open>A stranger closes vault 1, which the bot is processing: the counter goes from 0 to 1. The owner's own attempt is a later step.\<close>

theorem close_vault_shut_witness:
  "\<exists>c' e. close_begin rat_decimal 555 1 2 shut_canister = (c', Err e)
     \<and> icn_concurrent_close_operations shut_canister = 0 \<and> icn_concurrent_close_operations c' = 1"
proof -
  let ?n = "run_node shut_canister []" and ?v = "run_vault\<lparr>iv_bot_processing := True\<rparr>"
  have f: "in_canister ?n = shut_canister" "in_flight ?n = []" by (simp_all add: run_node_def)
  have fields: "icn_guards shut_canister = no_guards" "icn_locked shut_canister = bm_empty" "icn_concurrent_close_operations shut_canister = 0"
    by (simp_all add: shut_canister_def run_fields) (simp add: run_opened_def call_canister_def)
  have v: "bm_get (ic_vault_id_to_vaults (icn_state shut_canister)) 1 = Some ?v" by (simp add: shut_canister_def)
  obtain g where "guard_new 555 (''close_vault_'' @ show_nat 1) 2 no_guards = (g, Ok ())"
    by (simp add: guard_new_def no_guards_def Let_def max_concurrent_def bm_keys_def)
  then have enter: "call_enter 555 ''close_vault_'' 1 2 shut_canister
      = (shut_canister\<lparr>icn_guards := g, icn_locked := bm_insert 1 () bm_empty\<rparr>, Ok ())" (is "_ = (?c1, _)")
    by (simp add: call_enter_def fields vault_lock_new_def del: One_nat_def)
  have pre: "no_active_preflight 1 2 ?c1 = Ok ()"
    by (simp add: no_active_preflight_def shut_canister_def run_opened_def call_canister_def)
  obtain c2 where rate: "check_close_vault_rate_limit 2 555 ?c1 = (c2, Ok ())"
    by (simp add: check_close_vault_rate_limit_def shut_canister_def run_opened_def call_canister_def Let_def bm_modify_def)
  have acc: "accrue_single_vault rat_decimal 1 2 (icn_state shut_canister) = Some (icn_state shut_canister)"
    by (simp add: accrue_single_vault_def v accrues_def run_vault_fields del: One_nat_def)
  show ?thesis
    using close_vault_shut [of ?n 1 ?v 555 2 ?c1 c2 rat_decimal "icn_state shut_canister", OF _ _ _ _ _ _ rtranclp.rtrancl_refl] v enter pre rate acc
    by (auto simp: f fields del: One_nat_def)
qed

end
