(* ===== verification/Spec2Isabelle.thy ===== *)
theory Spec2Isabelle
  imports Burn_Guarantees Claim_Guarantees Vault_Guarantees Endpoint_Guarantees Amm_Guarantees Icp_Accounts ThreePool_Accounts Sp_Interleaving Treasury_Guarantees
    Icp_Call_Guarantees
begin

text \<open>
  A verification development of the Rumi protocol, an overcollateralised stablecoin (icUSD) of
  canisters on the Internet Computer.

  \<^bold>\<open>The program and its parts.\<close> The backend canister (\<^verbatim>\<open>src/rumi_protocol_backend\<close>) holds two rails that
  share the supply of icUSD. The \<^emph>\<open>chain rail\<close> (\<^verbatim>\<open>chains/\<close>) keeps vaults whose collateral lies on an EVM chain or
  on Solana: endpoints queue settlement operations, a worker signs, broadcasts and confirms them,
  observers read burn and deposit logs, and a supply ledger relates the icUSD on each chain to the debt and
  the reserve behind it. The \<^emph>\<open>ICP rail\<close> (\<^verbatim>\<open>state.rs\<close>, \<^verbatim>\<open>vault.rs\<close>, \<^verbatim>\<open>guard.rs\<close>) keeps vaults with ICRC collateral: interest, fees,
  liquidation, redemption, and the mode of the protocol. The market maker (\<^verbatim>\<open>src/rumi_amm\<close>) is a canister of
  constant-product pools, and the three-pool (\<^verbatim>\<open>src/rumi_3pool\<close>) one of a stable-swap pool whose LP token, 3USD, is
  an ICRC ledger of its own. The stability pool (\<^verbatim>\<open>src/stability_pool\<close>) takes deposits of stablecoins and of 3USD,
  spends them on the debt of liquidated vaults of both rails, and divides the collateral and the
  interest among the depositors; interest that nobody may receive it forwards to the treasury (\<^verbatim>\<open>src/rumi_treasury\<close>), which
  keeps the protocol's revenue. The remaining canisters (points, analytics, liquidation bot) and the
  frontends are not modelled.

  \<^bold>\<open>Conventions.\<close> Amounts are natural numbers with the width written out: \<open>u64\<close>, \<open>u128\<close> and the operations
  \<open>sat_*\<close>, \<open>checked_*\<close>, \<open>wrap_*\<close> of \<open>Rumi_Prelude\<close> are those of Rust, wrap-around included. A function returns
  \<open>Ok\<close>, \<open>Err e\<close> or \<open>Trap\<close> (type \<open>outcome\<close>), or \<open>None\<close> for a panic, after which the replica rolls the message
  back. A \<^verbatim>\<open>BTreeMap\<close> is \<open>bmap\<close> of \<open>BTree_Map\<close>, a sorted association list that meets the contract of the locale
  \<open>ordered_map\<close>. An asynchronous endpoint is split at its awaits, and the reply of the callee is an argument of
  the part that follows. Principals are numbers.

  \<^bold>\<open>Theories.\<close>
  \<^item> \<open>Rumi_Prelude\<close>, \<open>Rumi_Systems\<close>, \<open>BTree_Map\<close>: shared lemmas, the locales \<open>invariant_system\<close> and \<open>refines_system\<close>,
    ordered maps.
  \<^item> \<open>Settlement_Queue\<close> (\<^verbatim>\<open>chains/settlement_queue.rs\<close>, the worker's selection): operations, statuses, idempotency keys, pruning.
  \<^item> \<open>Chain_Config\<close>, \<open>Multi_Chain_State\<close>, \<open>Evm_Logs\<close> (\<^verbatim>\<open>config.rs\<close>, \<^verbatim>\<open>multi_chain_state.rs\<close>, \<^verbatim>\<open>evm/evm_rpc.rs\<close>, \<^verbatim>\<open>evm/settlement_proof.rs\<close>):
    the data of the rail and the decoders of logs.
  \<^item> \<open>Supply\<close> (\<^verbatim>\<open>supply.rs\<close>): the ledger, with the locale \<open>supply_ledger\<close> for what its clients rely on.
  \<^item> \<open>Constant_Product\<close>, \<open>Chain_Math\<close> (\<^verbatim>\<open>interest.rs\<close>, \<^verbatim>\<open>liquidation.rs\<close>): the swap quote, ratios, sizing and interest.
  \<^item> \<open>Chain_Vault\<close>, \<open>Chain_Liquidation\<close>, \<open>Burn_Watch\<close>, \<open>Chain_Settlement\<close>, \<open>Chain_Recovery\<close> (\<^verbatim>\<open>vault.rs\<close>, \<^verbatim>\<open>liquidation.rs\<close>,
    \<^verbatim>\<open>evm/deposit_watch.rs\<close>, \<^verbatim>\<open>evm/burn_proof.rs\<close>, \<^verbatim>\<open>evm/settlement.rs\<close>, \<^verbatim>\<open>recovery.rs\<close>, \<^verbatim>\<open>admin.rs\<close>): one operation of the
    code each, on the whole multi-chain state.
  \<^item> \<open>Evm_Intent\<close>, \<open>Chain_Endpoints\<close> (\<^verbatim>\<open>evm/eip712.rs\<close>, the chain endpoints of \<^verbatim>\<open>main.rs\<close>): signed intents and the guarded endpoints.
  \<^item> \<open>Chain_Invariant\<close>, \<open>Chain_Machine\<close>, \<open>Sample_Run\<close>: the rail as a step relation, its invariant and a run for witnesses.
  \<^item> \<open>Amm_Math\<close>, \<open>Amm_Pool\<close>, \<open>Amm_Machine\<close>, \<open>Amm_Invariant\<close> (\<^verbatim>\<open>math.rs\<close>, \<^verbatim>\<open>rewards.rs\<close>, \<^verbatim>\<open>lib.rs\<close>, \<^verbatim>\<open>admin.rs\<close>, \<^verbatim>\<open>state.rs\<close> of the market
    maker): formulas, endpoints split at awaits, the canister with calls in flight beside a book of its ledger accounts, in which the fee that is
    withheld and the one that is charged are independent, a transfer may be answered as a duplicate, and the administrator may burn any account.
  \<^item> \<open>Icp_Types\<close>, \<open>Icp_State\<close>, \<open>Icp_Vaults\<close>, \<open>Icp_Redemption\<close> (\<^verbatim>\<open>state.rs\<close>, \<^verbatim>\<open>numeric.rs\<close>, \<^verbatim>\<open>compute_collateral_ratio\<close> of \<^verbatim>\<open>lib.rs\<close>):
    the vault book of the ICP rail; \<open>Icp_Book\<close> its index invariant, \<open>Icp_Sample\<close> a small book for witnesses.
  \<^item> \<open>Icp_Locks\<close>, \<open>Icp_Endpoints\<close> (\<^verbatim>\<open>guard.rs\<close>, \<^verbatim>\<open>vault.rs\<close>): the guard of a principal, the lock of a vault, the reservations of borrowed
    amounts, the endpoints of an owner split at their awaits and the developer's corrections; \<open>Icp_Calls\<close> the canister with its waiting calls as a machine,
    beside the interest timer, redemptions and the corrections, which take no lock, with counters for the debt that accruals and corrections
    add; \<open>Icp_Machine\<close> its invariant, \<open>Icp_Call_Guarantees\<close> the properties and a small run.
  \<^item> \<open>ThreePool_Math\<close>, \<open>ThreePool_Swap\<close>, \<open>ThreePool_Blocks\<close>, \<open>ThreePool_Token\<close>, \<open>ThreePool_Pool\<close>, \<open>ThreePool_Machine\<close> (\<^verbatim>\<open>math.rs\<close>,
    \<^verbatim>\<open>swap.rs\<close>, \<^verbatim>\<open>liquidity.rs\<close>, \<^verbatim>\<open>icrc3.rs\<close>, \<^verbatim>\<open>icrc_token.rs\<close>, \<^verbatim>\<open>lib.rs\<close>, \<^verbatim>\<open>admin.rs\<close> of the three-pool): the invariant and its Newton iterations,
    fees, the block log with its hash chain, the token with deduplication, the endpoints split at awaits, and the
    canister as a machine; \<open>ThreePool_Curve\<close>, \<open>ThreePool_Pricing\<close>, \<open>ThreePool_Chain\<close>, \<open>ThreePool_Ledger\<close>, \<open>ThreePool_Accounts\<close> its properties.
  \<^item> \<open>Sp_Types\<close>, \<open>Sp_State\<close>, \<open>Sp_Gains\<close>, \<open>Sp_Absorb\<close>, \<open>Sp_Endpoints\<close> (\<^verbatim>\<open>types.rs\<close>, \<^verbatim>\<open>state.rs\<close>, \<^verbatim>\<open>liquidation.rs\<close>, \<^verbatim>\<open>deposits.rs\<close>, \<^verbatim>\<open>lib.rs\<close>,
    \<^verbatim>\<open>pool_guard.rs\<close> of the stability pool): positions and books, the draw and the division of gains, the journal of chain
    absorbs, and the endpoints split at awaits; \<open>Sp_Books\<close>, \<open>Sp_Conserve\<close>, \<open>Sp_Draw\<close>, \<open>Sp_Funding\<close>, \<open>Sp_Machine\<close> the lemmas on them and
    the pool as a machine, whose corrections of balances by administrators are restricted by a parameter of the step relation; \<open>Sp_Guarantees\<close> and \<open>Sp_Interleaving\<close> its properties.
  \<^item> \<open>Treasury\<close>, \<open>Treasury_Endpoints\<close> (\<^verbatim>\<open>state.rs\<close>, \<^verbatim>\<open>types.rs\<close>, \<^verbatim>\<open>lib.rs\<close> of the treasury): balances with their mirror in stable memory,
    receipts, withdrawals split at awaits, upgrade; \<open>Treasury_Machine\<close> the canister beside its ledger accounts as a machine,
    \<open>Treasury_Guarantees\<close> its properties, alone and together with the stability pool.
  \<^item> \<open>Burn_Guarantees\<close>, \<open>Claim_Guarantees\<close>, \<open>Vault_Guarantees\<close>, \<open>Endpoint_Guarantees\<close>, \<open>Amm_Guarantees\<close>, \<open>Icp_Guarantees\<close>,
    \<open>Icp_Accounts\<close>: the properties, next to those of \<open>Supply\<close>, \<open>Chain_Math\<close>, \<open>Amm_Math\<close>, \<open>Evm_Intent\<close> and \<open>Chain_Machine\<close>.

  \<^bold>\<open>What is shown.\<close> Chain rail: in every reachable state the supply of each chain is covered by debt, reserve and
  pending settlements; a burn log settles once; a claim is never paid beyond its amount; the canister with
  its endpoints, workers and awaits refines the rail and answers only the developer, the price pusher and owners with a
  signature and nonce that are due; the self-check of the timer halts exactly the canister whose books diverge, and the halt refuses
  supply moves; a signed intent, that of an open included, is used once and binds its request; opening, borrowing and withdrawing respect ratio, ceiling and
  minimum; liquidation sizes and settles exactly. Market maker: under any interleaving, failing and duplicate
  transfers and any fees every account covers what the pools owe up to a counted shortfall, the shares add up, a swap never lowers the product
  nor pays when it is reversed, the square root is exact. ICP rail: the indexes mirror the vaults so the canister's self-check passes
  and a full sweep is complete; a redemption conserves debt and collateral, takes at most the offer and
  replays exactly; a repayment splits exactly; batch accrual equals sequential accrual; the breaker's
  pruned window decides like the full history. Its endpoints, however their calls interleave: debt and unminted borrows keep to the
  ceilings up to what accruals and the developer's corrections of debts added, one call at a time has a vault, a borrow passes the checks of ratio, minimum and
  fee, a paid withdrawal takes exactly its amount unless the developer corrected the vault meanwhile, and a failed one gives it back. Three-pool: swaps, deposits and single-coin withdrawals never
  leave less than the curve asks for; Newton's iteration converges within its bound; the LP balances are the
  replay of the block log; blocks are served with their place in the hash chain. Stability pool:
  in every state reachable with corrections of balances that hit a position and a tracked token (and only with those) its validation
  passes and native claims are funded; interest and gains
  are divided without loss; a draw is covered and worth at most the debt; an absorb is applied once. Treasury: its accounts
  cover its book in every reachable state up to a counted shortfall, an upgrade restores the state exactly, and forwarded interest is credited once although an
  answer is lost.
  Theorems also state what goes wrong: the operator's withdrawal and close of an EVM vault always trap, a burn proof replays once its key is pruned, a withdrawal from the three-pool that races a
  transfer of LP tokens inflates a balance, two equal deposits into the stability pool in one instant are credited twice, a
  repeated interest notification pays twice, a claim that fails after a full withdrawal loses
  the gains, a withdrawal overtakes the lock of a liquidation, a retried withdrawal from the treasury debits its book
  twice, its fallback fee overdraws an account of a ledger that charges more (the shortfalls of market maker and treasury), a correction
  of a vault's collateral during a partial withdrawal leaves the book ahead of the ledger, and closing vaults that the bot is processing
  uses up the places of \<^verbatim>\<open>close_vault\<close> for good.

  \<^bold>\<open>Parameters.\<close> Code that is not in the repository is an argument: the decimal crate (records \<open>decimal_ops\<close> and
  \<open>decimal\<close>; laws such as \<open>quotient_kept\<close> are named hypotheses), keccak, key recovery and the principal
  hash (record of \<open>Evm_Intent\<close>), base58, the 256-bit integers of the three-pool (\<open>u256_ops\<close>, whose law is agreement
  with the natural numbers where nothing overflows), SHA-256 and the text of principals (\<open>icrc3_crypto\<close>), the validity of an
  EVM address, the replies of ledgers and RPC providers, and ledger fees. Witnesses
  instantiate them with concrete functions (rational numbers for decimals).

  \<^bold>\<open>Bounds and fuel.\<close> Where the code adds without a check, the properties carry the bound that excludes the
  wrap: room below \<open>u128_max\<close> for mints, counters below \<open>u64_max\<close>, ledger balances within \<open>u128\<close>, and for a step of the
  stability pool room for the token's total and for the native collateral it adds. The machine of the treasury
  takes the book with the transfers in flight to fit in \<open>u64\<close>, that of the market maker the tokens counted on an account to fit in \<open>u128\<close>. The
  machine of the owner's calls runs as long as the total debt and the reservations, which the code adds with wrap-around, fit in \<open>u64\<close>. The
  water-filling loop gets two rounds per vault and one more; \<open>water_fill_fuel\<close> shows that more fuel never
  changes the result. The square root loop is bounded by its measure.

  \<^bold>\<open>Not modelled.\<close> Building, signing and broadcasting transactions; HTTP outcalls; the layout of stable memory; older state
  versions and migrations; queries and consent messages; configuration setters of the ICP rail; the
  liquidation endpoints of the ICP rail and the claims of the liquidation bot, which take the lock of a vault like the owner's calls but are
  not steps beside them, its compound and deposit-account endpoints, repayment in stable tokens and the
  native XRP flows; the event log apart from the redemption record;
  the rewards of the market maker are modelled as operations, but its machine has only their payments, from any account.
  Of the three-pool: statistics and explorer queries, the CBOR form of the certificate, and the
  migration of the first storage layout. Of the stability pool: the loop that liquidates vaults through the backend and the
  three-pool, \<^verbatim>\<open>deposit_as_3usd\<close>, the absorb of native XRP vaults, the automatic absorber, queries and the reconciliation timer. 
  Points, analytics and the liquidation bot are left out: statistics, or calls to books that are modelled here.
\<close>

end
